(* ===== verification/Prelude.thy ===== *)
theory Prelude
  imports Main "HOL-Library.Word"
begin

text \<open>
  What every component of the development shares: the result type of fallible Rust code
  (a value, an error, or a panic), the functions of Rust's standard library the sources use
  on strings and integers, JSON values as \<^verbatim>\<open>serde\<close> sees them, and the lemmas
  about these that the component proofs use as simplification rules.

  A Rust \<^verbatim>\<open>String\<close>, \<^verbatim>\<open>&str\<close> or byte buffer is a \<open>string\<close>:
  the list of its bytes (a string literal of the sources is ASCII, one \<open>char\<close> per byte).
\<close>

named_theorems result_simps \<open>case analysis of results: when a composition is a value, an error or a panic\<close>
named_theorems json_simps \<open>evaluation of JSON accessors on constructed values\<close>

subsection \<open>Results, errors and panics\<close>

text \<open>
  A panic carries the payload that \<^verbatim>\<open>std::panic::catch_unwind\<close> returns: a
  \<^verbatim>\<open>&'static str\<close>, a \<^verbatim>\<open>String\<close>, or some other type.
\<close>

datatype panic_payload = PStr string | PString string | POther

datatype ('e, 'a) result = Ok 'a | Err 'e | Panic panic_payload

text \<open>
  \<^verbatim>\<open>tower::BoxError\<close>: a boxed error is known through what \<^verbatim>\<open>Display\<close>
  prints for it.
\<close>

datatype box_error = BoxError (err_to_string: string)

fun and_then :: "('e, 'a) result \<Rightarrow> ('a \<Rightarrow> ('e, 'b) result) \<Rightarrow> ('e, 'b) result" where
  "and_then (Ok x) f = f x"
| "and_then (Err e) f = Err e"
| "and_then (Panic p) f = Panic p"

fun map_err :: "('e \<Rightarrow> 'f) \<Rightarrow> ('e, 'a) result \<Rightarrow> ('f, 'a) result" where
  "map_err g (Ok x) = Ok x"
| "map_err g (Err e) = Err (g e)"
| "map_err g (Panic p) = Panic p"

fun map_ok :: "('a \<Rightarrow> 'b) \<Rightarrow> ('e, 'a) result \<Rightarrow> ('e, 'b) result" where
  "map_ok g (Ok x) = Ok (g x)"
| "map_ok g (Err e) = Err e"
| "map_ok g (Panic p) = Panic p"

fun is_ok :: "('e, 'a) result \<Rightarrow> bool" where
  "is_ok (Ok x) = True"
| "is_ok (Err e) = False"
| "is_ok (Panic p) = False"

fun is_panic :: "('e, 'a) result \<Rightarrow> bool" where
  "is_panic (Ok x) = False"
| "is_panic (Err e) = False"
| "is_panic (Panic p) = True"

fun ok_option :: "('e, 'a) result \<Rightarrow> 'a option" where
  "ok_option (Ok x) = Some x"
| "ok_option (Err e) = None"
| "ok_option (Panic p) = None"

text \<open>\<^verbatim>\<open>Option::ok_or\<close>, \<^verbatim>\<open>Option::expect\<close> and \<^verbatim>\<open>Result::expect\<close>.\<close>

fun ok_or :: "'e \<Rightarrow> 'a option \<Rightarrow> ('e, 'a) result" where
  "ok_or e (Some x) = Ok x"
| "ok_or e None = Err e"

fun expect_some :: "string \<Rightarrow> 'a option \<Rightarrow> ('e, 'a) result" where
  "expect_some msg (Some x) = Ok x"
| "expect_some msg None = Panic (PString msg)"

fun expect_ok :: "string \<Rightarrow> ('f, 'a) result \<Rightarrow> ('e, 'a) result" where
  "expect_ok msg (Ok x) = Ok x"
| "expect_ok msg (Err e) = Panic (PString msg)"
| "expect_ok msg (Panic p) = Panic p"

lemma and_then_eq_Ok [result_simps]: "and_then r f = Ok y \<longleftrightarrow> (\<exists>x. r = Ok x \<and> f x = Ok y)"
  by (cases r) auto

lemma and_then_eq_Err [result_simps]:
  "and_then r f = Err e \<longleftrightarrow> r = Err e \<or> (\<exists>x. r = Ok x \<and> f x = Err e)"
  by (cases r) auto

lemma and_then_eq_Panic [result_simps]:
  "and_then r f = Panic p \<longleftrightarrow> r = Panic p \<or> (\<exists>x. r = Ok x \<and> f x = Panic p)"
  by (cases r) auto

lemma map_ok_eq_Ok [result_simps]: "map_ok g r = Ok y \<longleftrightarrow> (\<exists>x. r = Ok x \<and> y = g x)"
  by (cases r) auto

lemma map_err_eq_Ok [result_simps]: "map_err g r = Ok y \<longleftrightarrow> r = Ok y"
  by (cases r) auto

lemma map_err_eq_Err [result_simps]: "map_err g r = Err e \<longleftrightarrow> (\<exists>e'. r = Err e' \<and> e = g e')"
  by (cases r) auto

lemma ok_or_eq_Ok [result_simps]: "ok_or e v = Ok x \<longleftrightarrow> v = Some x"
  by (cases v) auto

lemma expect_some_eq_Ok [result_simps]: "expect_some m v = Ok x \<longleftrightarrow> v = Some x"
  by (cases v) auto

lemma expect_some_eq_Panic [result_simps]:
  "expect_some m v = Panic p \<longleftrightarrow> v = None \<and> p = PString m"
  by (cases v) auto

lemma expect_some_not_Err [simp]: "expect_some m v \<noteq> Err e"
  by (cases v) auto

lemma expect_ok_eq_Ok [result_simps]: "expect_ok m r = Ok x \<longleftrightarrow> r = Ok x"
  by (cases r) auto

lemma map_ok_eq_Err [result_simps]: "map_ok g r = Err e \<longleftrightarrow> r = Err e"
  by (cases r) auto

lemma map_ok_eq_Panic [result_simps]: "map_ok g r = Panic p \<longleftrightarrow> r = Panic p"
  by (cases r) auto

lemma map_err_eq_Panic [result_simps]: "map_err g r = Panic p \<longleftrightarrow> r = Panic p"
  by (cases r) auto

lemma ok_or_eq_Err [result_simps]: "ok_or e v = Err e' \<longleftrightarrow> v = None \<and> e' = e"
  by (cases v) auto

lemma ok_or_not_Panic [simp]: "ok_or e v \<noteq> Panic p"
  by (cases v) auto

lemma expect_ok_not_Err [simp]: "expect_ok m r \<noteq> Err e"
  by (cases r) auto

lemma and_then_assoc: "and_then (and_then r f) g = and_then r (\<lambda>x. and_then (f x) g)"
  by (cases r) auto

lemma and_then_Ok_right [simp]: "and_then r Ok = r"
  by (cases r) auto

lemma is_ok_iff: "is_ok r \<longleftrightarrow> (\<exists>x. r = Ok x)"
  by (cases r) auto

lemma not_is_ok_iff: "\<not> is_ok r \<longleftrightarrow> (\<exists>e. r = Err e) \<or> (\<exists>p. r = Panic p)"
  by (cases r) auto

lemma is_ok_and_then [simp]: "is_ok (and_then r f) \<longleftrightarrow> (\<exists>x. r = Ok x \<and> is_ok (f x))"
  by (cases r) auto

lemma and_then_cong [fundef_cong]:
  "r = r' \<Longrightarrow> (\<And>x. r' = Ok x \<Longrightarrow> f x = g x) \<Longrightarrow> and_then r f = and_then r' g"
  by (cases r') auto

text \<open>An operation on a state that may fail, and the sequencing of two of them.\<close>

type_synonym ('s, 'e, 'a) action = "'s \<Rightarrow> ('e, 'a) result \<times> 's"

definition act_of :: "('e, 'a) result \<Rightarrow> ('s, 'e, 'a) action" where
  "act_of r s = (r, s)"

definition act_then :: "('s, 'e, 'a) action \<Rightarrow> ('a \<Rightarrow> ('s, 'e, 'b) action) \<Rightarrow> ('s, 'e, 'b) action" where
  "act_then m f s =
     (case m s of
        (Ok x, s1) \<Rightarrow> f x s1
      | (Err e, s1) \<Rightarrow> (Err e, s1)
      | (Panic p, s1) \<Rightarrow> (Panic p, s1))"

lemma act_then_simps [simp]:
  "act_then (act_of (Ok x)) f = f x"
  "act_then (act_of (Err e)) f = act_of (Err e)"
  "act_then (act_of (Panic p)) f = act_of (Panic p)"
  by (auto simp: act_then_def act_of_def)

lemma act_then_eq_Ok:
  "act_then m f s = (Ok y, s2) \<longleftrightarrow> (\<exists>x s1. m s = (Ok x, s1) \<and> f x s1 = (Ok y, s2))"
  by (auto simp: act_then_def split: prod.splits result.splits)

lemma act_of_eq [simp]: "act_of r s = (r', s') \<longleftrightarrow> r' = r \<and> s' = s"
  by (auto simp: act_of_def)

subsection \<open>Strings\<close>

definition starts_with :: "string \<Rightarrow> string \<Rightarrow> bool" where
  "starts_with p s \<longleftrightarrow> take (length p) s = p"

definition ends_with :: "string \<Rightarrow> string \<Rightarrow> bool" where
  "ends_with p s \<longleftrightarrow> starts_with (rev p) (rev s)"

lemma starts_with_iff: "starts_with p s \<longleftrightarrow> (\<exists>t. s = p @ t)"
  by (metis append_eq_conv_conj append_take_drop_id starts_with_def)

lemma starts_with_append [simp]: "starts_with p (p @ s)"
  by (simp add: starts_with_def)

lemma ends_with_iff: "ends_with p s \<longleftrightarrow> (\<exists>t. s = t @ p)"
  by (metis ends_with_def rev_append rev_rev_ident starts_with_iff)

text \<open>ASCII case folding: \<^verbatim>\<open>eq_ignore_ascii_case\<close> and the spelling of HTTP header names.\<close>

definition ascii_lower :: "char \<Rightarrow> char" where
  "ascii_lower c =
     (if 65 \<le> (of_char c :: nat) \<and> (of_char c :: nat) \<le> 90 then char_of ((of_char c :: nat) + 32) else c)"

definition lower :: "string \<Rightarrow> string" where
  "lower s = map ascii_lower s"

lemmas lower_eval = lower_def ascii_lower_def char_of_def bit_0

lemma ascii_lower_idem [simp]: "ascii_lower (ascii_lower c) = ascii_lower c"
  by (simp add: ascii_lower_def of_char_of)

lemma lower_idem [simp]: "lower (lower s) = lower s"
  by (simp add: lower_def)

lemma lower_Nil [simp]: "lower [] = []"
  by (simp add: lower_def)

text \<open>
  \<^verbatim>\<open>str::split(c)\<close> never yields an empty iterator; \<^verbatim>\<open>join\<close> is its inverse
  on parts without the separator.
\<close>

fun split_on :: "char \<Rightarrow> string \<Rightarrow> string list" where
  "split_on c [] = [[]]"
| "split_on c (x # xs) =
     (if x = c then [] # split_on c xs
      else (case split_on c xs of [] \<Rightarrow> [[x]] | p # ps \<Rightarrow> (x # p) # ps))"

fun join_with :: "string \<Rightarrow> string list \<Rightarrow> string" where
  "join_with sep [] = []"
| "join_with sep [x] = x"
| "join_with sep (x # y # ys) = x @ sep @ join_with sep (y # ys)"

lemma split_on_nonempty [simp]: "split_on c s \<noteq> []"
  by (induction s) (auto split: list.splits)

lemma split_on_no_sep: "c \<notin> set s \<Longrightarrow> split_on c s = [s]"
  by (induction s) auto

lemma split_on_append_sep: "c \<notin> set s \<Longrightarrow> split_on c (s @ c # t) = s # split_on c t"
  by (induction s) auto

lemma split_on_parts: "p \<in> set (split_on c s) \<Longrightarrow> c \<notin> set p"
proof (induction s arbitrary: p)
  case Nil
  then show ?case by simp
next
  case (Cons x xs)
  then show ?case by (cases "split_on c xs") (auto split: if_splits)
qed

lemma join_split: "join_with [c] (split_on c s) = s"
proof (induction s)
  case Nil
  show ?case by simp
next
  case (Cons x xs)
  obtain p ps where ps: "split_on c xs = p # ps"
    by (cases "split_on c xs") auto
  with Cons.IH show ?case by (cases ps) auto
qed

lemma split_join:
  "ps \<noteq> [] \<Longrightarrow> (\<And>p. p \<in> set ps \<Longrightarrow> c \<notin> set p) \<Longrightarrow> split_on c (join_with [c] ps) = ps"
proof (induction ps rule: induct_list012)
  case 1
  then show ?case by simp
next
  case (2 x)
  then show ?case by (simp add: split_on_no_sep)
next
  case (3 x y zs)
  have "c \<notin> set x" using "3.prems"(2) by simp
  moreover have "split_on c (join_with [c] (y # zs)) = y # zs"
    using "3.prems"(2) by (intro "3.IH"(2)) auto
  ultimately show ?case by (simp add: split_on_append_sep)
qed

text \<open>
  \<^verbatim>\<open>str::trim\<close> and \<^verbatim>\<open>trim_end_matches\<close>. Of the Unicode white space that
  \<^verbatim>\<open>trim\<close> removes, the model knows the ASCII part: tab, line feed, vertical tab, form
  feed, carriage return and space.
\<close>

definition ascii_space :: "char \<Rightarrow> bool" where
  "ascii_space c \<longleftrightarrow> (of_char c :: nat) \<in> {9, 10, 11, 12, 13, 32}"

definition trim_start :: "string \<Rightarrow> string" where
  "trim_start = dropWhile ascii_space"

definition trim_end_matches :: "(char \<Rightarrow> bool) \<Rightarrow> string \<Rightarrow> string" where
  "trim_end_matches P s = rev (dropWhile P (rev s))"

definition trim :: "string \<Rightarrow> string" where
  "trim s = trim_end_matches ascii_space (trim_start s)"

lemma dropWhile_hd: "dropWhile P xs = y # ys \<Longrightarrow> \<not> P y"
  by (metis dropWhile_eq_Cons_conv)

lemma trim_end_last: "trim_end_matches P s \<noteq> [] \<Longrightarrow> \<not> P (last (trim_end_matches P s))"
  by (metis hd_dropWhile last_rev rev_is_Nil_conv trim_end_matches_def)

lemma trim_end_idem [simp]: "trim_end_matches P (trim_end_matches P s) = trim_end_matches P s"
  by (simp add: trim_end_matches_def)

lemma trim_end_prefix: "\<exists>t. s = trim_end_matches P s @ t \<and> (\<forall>c \<in> set t. P c)"
proof -
  have "s = rev (dropWhile P (rev s)) @ rev (takeWhile P (rev s))"
    by (metis rev_append rev_rev_ident takeWhile_dropWhile_id)
  then show ?thesis
    unfolding trim_end_matches_def by (metis set_rev set_takeWhileD)
qed

lemma trim_id: "s = [] \<or> (\<not> ascii_space (hd s) \<and> \<not> ascii_space (last s)) \<Longrightarrow> trim s = s"
  by (cases s rule: rev_cases)
     (auto simp: trim_def trim_start_def trim_end_matches_def hd_append dropWhile_append3
           split: if_splits dest: arg_cong [where f = rev] intro: dropWhile_eq_self_iff [THEN iffD2])

end
