(* ===== verification/Numbers.thy ===== *)
theory Numbers
  imports Prelude
begin

text \<open>
  The integer conversions of Rust's standard library that the sources call:
  \<^verbatim>\<open>Display\<close> of unsigned and signed integers and \<^verbatim>\<open>str::parse\<close> into
  \<^verbatim>\<open>u16\<close>, \<^verbatim>\<open>u32\<close>, \<^verbatim>\<open>u64\<close> and \<^verbatim>\<open>i32\<close>, with the error texts
  of \<^verbatim>\<open>ParseIntError\<close>; and the bounds of the machine integers.
\<close>

definition u16_max :: nat where "u16_max = 2 ^ 16 - 1"
definition u32_max :: nat where "u32_max = 2 ^ 32 - 1"
definition u64_max :: nat where "u64_max = 2 ^ 64 - 1"

definition digit_char :: "nat \<Rightarrow> char" where
  "digit_char d = char_of (48 + d)"

definition digit_val :: "char \<Rightarrow> nat option" where
  "digit_val c =
     (let n = (of_char c :: nat) in if 48 \<le> n \<and> n \<le> 57 then Some (n - 48) else None)"

lemma digit_val_char [simp]: "d < 10 \<Longrightarrow> digit_val (digit_char d) = Some d"
  by (simp add: digit_val_def digit_char_def Let_def of_char_of)

lemma digit_val_less: "digit_val c = Some d \<Longrightarrow> d < 10"
  by (auto simp: digit_val_def Let_def split: if_splits)

subsection \<open>Display\<close>

fun show_nat :: "nat \<Rightarrow> string" where
  "show_nat n = (if n < 10 then [digit_char n] else show_nat (n div 10) @ [digit_char (n mod 10)])"

declare show_nat.simps [simp del]

definition show_int :: "int \<Rightarrow> string" where
  "show_int i = (if i < 0 then ''-'' @ show_nat (nat (- i)) else show_nat (nat i))"

lemma show_nat_nonempty [simp]: "show_nat n \<noteq> []"
  by (subst show_nat.simps) simp

lemma show_nat_digits: "c \<in> set (show_nat n) \<Longrightarrow> digit_val c \<noteq> None"
proof (induction n rule: show_nat.induct)
  case (1 n)
  show ?case
  proof (cases "n < 10")
    case True
    with "1.prems" show ?thesis by (simp add: show_nat.simps [of n])
  next
    case False
    then have "c \<in> set (show_nat (n div 10)) \<or> c = digit_char (n mod 10)"
      using "1.prems" by (auto simp: show_nat.simps [of n])
    then show ?thesis using "1.IH" False by auto
  qed
qed

subsection \<open>Parsing\<close>

fun parse_digits :: "nat \<Rightarrow> string \<Rightarrow> nat option" where
  "parse_digits acc [] = Some acc"
| "parse_digits acc (c # cs) =
     (case digit_val c of None \<Rightarrow> None | Some d \<Rightarrow> parse_digits (10 * acc + d) cs)"

lemma parse_digits_append:
  "parse_digits acc (xs @ ys) =
     (case parse_digits acc xs of None \<Rightarrow> None | Some m \<Rightarrow> parse_digits m ys)"
  by (induction xs arbitrary: acc) (auto split: option.splits)

lemma parse_digits_show [simp]: "parse_digits 0 (show_nat n) = Some n"
proof (induction n rule: show_nat.induct)
  case (1 n)
  show ?case
  proof (cases "n < 10")
    case True
    then show ?thesis by (simp add: show_nat.simps [of n])
  next
    case False
    with "1.IH" show ?thesis by (simp add: show_nat.simps [of n] parse_digits_append)
  qed
qed

text \<open>The texts \<^verbatim>\<open>ParseIntError\<close> displays.\<close>

abbreviation int_err_empty :: string where "int_err_empty \<equiv> ''cannot parse integer from empty string''"
abbreviation int_err_digit :: string where "int_err_digit \<equiv> ''invalid digit found in string''"
abbreviation int_err_large :: string where "int_err_large \<equiv> ''number too large to fit in target type''"
abbreviation int_err_small :: string where "int_err_small \<equiv> ''number too small to fit in target type''"

text \<open>\<open>parse_unsigned b\<close> parses into the unsigned type whose largest value is \<open>b\<close>; a leading plus sign is accepted.\<close>

definition parse_unsigned :: "nat \<Rightarrow> string \<Rightarrow> (box_error, nat) result" where
  "parse_unsigned b s =
     (if s = [] then Err (BoxError int_err_empty)
      else (let t = (if hd s = CHR ''+'' then tl s else s) in
        if t = [] then Err (BoxError int_err_digit)
        else (case parse_digits 0 t of
                None \<Rightarrow> Err (BoxError int_err_digit)
              | Some n \<Rightarrow> if n \<le> b then Ok n else Err (BoxError int_err_large))))"

definition parse_u32 :: "string \<Rightarrow> (box_error, nat) result" where
  "parse_u32 = parse_unsigned u32_max"

definition parse_u64 :: "string \<Rightarrow> (box_error, nat) result" where
  "parse_u64 = parse_unsigned u64_max"

definition parse_i32 :: "string \<Rightarrow> (box_error, int) result" where
  "parse_i32 s =
     (if s = [] then Err (BoxError int_err_empty)
      else (let neg = (hd s = CHR ''-'');
                t = (if hd s = CHR ''+'' \<or> neg then tl s else s) in
        if t = [] then Err (BoxError int_err_digit)
        else (case parse_digits 0 t of
                None \<Rightarrow> Err (BoxError int_err_digit)
              | Some n \<Rightarrow>
                  if neg then (if n \<le> 2 ^ 31 then Ok (- int n) else Err (BoxError int_err_small))
                  else (if n < 2 ^ 31 then Ok (int n) else Err (BoxError int_err_large)))))"

lemma hd_show_nat_not_plus: "hd (show_nat n) \<noteq> CHR ''+''"
proof
  assume "hd (show_nat n) = CHR ''+''"
  moreover have "digit_val (hd (show_nat n)) \<noteq> None"
    by (rule show_nat_digits [OF list.set_sel(1)]) simp
  ultimately show False by (simp add: digit_val_def)
qed

lemma parse_unsigned_show [simp]: "n \<le> b \<Longrightarrow> parse_unsigned b (show_nat n) = Ok n"
  by (simp add: parse_unsigned_def hd_show_nat_not_plus)

lemma parse_unsigned_bound: "parse_unsigned b s = Ok n \<Longrightarrow> n \<le> b"
  by (auto simp: parse_unsigned_def Let_def split: if_splits option.splits)

lemma parse_unsigned_no_panic: "parse_unsigned b s \<noteq> Panic p"
  by (auto simp: parse_unsigned_def Let_def split: option.splits)

lemma parse_u64_show: "n \<le> u64_max \<Longrightarrow> parse_u64 (show_nat n) = Ok n"
  by (simp add: parse_u64_def)

lemma parse_u64_bound: "parse_u64 s = Ok n \<Longrightarrow> n \<le> u64_max"
  unfolding parse_u64_def by (rule parse_unsigned_bound)

lemma parse_u64_no_panic [simp]: "parse_u64 s \<noteq> Panic p"
  by (simp add: parse_u64_def parse_unsigned_no_panic)

lemma parse_u32_bound: "parse_u32 s = Ok n \<Longrightarrow> n \<le> u32_max"
  unfolding parse_u32_def by (rule parse_unsigned_bound)

lemma parse_u32_no_panic [simp]: "parse_u32 s \<noteq> Panic p"
  by (simp add: parse_u32_def parse_unsigned_no_panic)

lemma parse_i32_no_panic [simp]: "parse_i32 s \<noteq> Panic p"
  by (auto simp: parse_i32_def Let_def split: option.splits)

lemma parse_i32_bound: "parse_i32 s = Ok i \<Longrightarrow> - (2 ^ 31) \<le> i \<and> i < 2 ^ 31"
  by (auto simp: parse_i32_def Let_def split: if_splits option.splits)

end
