(* ===== verification/Floats.thy ===== *)
theory Floats
  imports Numbers Complex_Main "HOL-Library.Log_Nat"
begin

text \<open>
  The arithmetic of Rust's \<^verbatim>\<open>f64\<close> on finite values, as far as the timestamps use it: a
  value is the rational number it stands for, and every operation rounds its exact result to 53
  significant bits (fewer below the normal range), ties to even. The casts between floats and
  integers, the error bounds of a rounding, and the two roundings that split milliseconds into
  seconds and a rest.
\<close>

subsection \<open>Rounding\<close>

definition round_half_even :: "rat \<Rightarrow> int" where
  "round_half_even x =
     (let f = \<lfloor>x\<rfloor>; d = x - of_int f
      in if d < 1 / 2 \<or> d = 1 / 2 \<and> even f then f else f + 1)"

text \<open>The least positive value is \<open>2 ^ - subnormal_bits\<close>; every value is a multiple of it.\<close>

definition subnormal_bits :: nat where
  "subnormal_bits = 1074"

definition ulp_exponent :: "rat \<Rightarrow> nat" where
  "ulp_exponent x = floorlog 2 (nat \<lfloor>x * 2 ^ subnormal_bits\<rfloor>) - 53"

definition f64_ulp :: "rat \<Rightarrow> rat" where
  "f64_ulp x = 2 ^ ulp_exponent x / 2 ^ subnormal_bits"

definition f64_round :: "rat \<Rightarrow> rat" where
  "f64_round x = of_int (round_half_even (x / f64_ulp x)) * f64_ulp x"

text \<open>Signed values, the casts and the parts of a value.\<close>

definition f64_of_rat :: "rat \<Rightarrow> rat" where
  "f64_of_rat x = (if x < 0 then - f64_round (- x) else f64_round x)"

definition f64_trunc :: "rat \<Rightarrow> int" where
  "f64_trunc x = (if x < 0 then \<lceil>x\<rceil> else \<lfloor>x\<rfloor>)"

definition f64_fract :: "rat \<Rightarrow> rat" where
  "f64_fract x = f64_of_rat (x - of_int (f64_trunc x))"

text \<open>\<^verbatim>\<open>as i64\<close> and \<^verbatim>\<open>as u32\<close> saturate.\<close>

definition f64_as_i64 :: "rat \<Rightarrow> int" where
  "f64_as_i64 x = max (- (2 ^ 63)) (min (2 ^ 63 - 1) (f64_trunc x))"

definition f64_as_u32 :: "rat \<Rightarrow> nat" where
  "f64_as_u32 x = min u32_max (nat (f64_trunc x))"

subsection \<open>Bounds\<close>

lemma ulp_pos [simp]: "0 < f64_ulp x"
  by (simp add: f64_ulp_def)

lemma round_half_even_error: "\<bar>of_int (round_half_even x) - x\<bar> \<le> 1 / 2"
  unfolding round_half_even_def Let_def by (simp add: abs_if) (linarith)

lemma round_half_even_int [simp]: "round_half_even (of_int n) = n"
  by (simp add: round_half_even_def)

lemma ulp_bound:
  assumes "0 \<le> x"
  shows "f64_ulp x \<le> x / 2 ^ 52 + 1 / 2 ^ subnormal_bits"
proof (cases "ulp_exponent x")
  case 0
  then show ?thesis using assms by (simp add: f64_ulp_def)
next
  case (Suc e)
  let ?n = "nat \<lfloor>x * 2 ^ subnormal_bits\<rfloor>"
  have l: "floorlog 2 ?n = Suc e + 53" using Suc by (simp add: ulp_exponent_def)
  then have "?n \<noteq> 0" by (auto simp: floorlog_def)
  then have "2 ^ (floorlog 2 ?n - 1) \<le> ?n" using floorlog_geD [of "floorlog 2 ?n" 2 ?n] l by simp
  moreover have "floorlog 2 ?n - 1 = e + 53" using l by simp
  ultimately have "2 ^ (e + 53) \<le> ?n" by (simp only:)
  then have "2 ^ (e + 53) \<le> \<lfloor>x * 2 ^ subnormal_bits\<rfloor>" using \<open>?n \<noteq> 0\<close>
    by (metis le_nat_iff linorder_not_le nat_le_0 order_less_imp_le of_nat_numeral of_nat_power)
  then have "2 ^ (e + 53) \<le> x * 2 ^ subnormal_bits" by (simp add: le_floor_iff)
  then have "2 ^ Suc e * 2 ^ 52 \<le> x * (2 ^ subnormal_bits :: rat)" by (simp add: power_add field_simps)
  then have "2 ^ Suc e / 2 ^ subnormal_bits \<le> x / (2 ^ 52 :: rat)"
    by (simp only: pos_divide_le_eq pos_le_divide_eq zero_less_power zero_less_numeral times_divide_eq_left)
  then show ?thesis unfolding f64_ulp_def Suc by (rule order_trans) simp
qed

lemma f64_round_error:
  assumes "0 \<le> x"
  shows "\<bar>f64_round x - x\<bar> \<le> x / 2 ^ 53 + 1 / (2 * 2 ^ subnormal_bits)"
proof -
  have "f64_round x - x = (of_int (round_half_even (x / f64_ulp x)) - x / f64_ulp x) * f64_ulp x"
    using ulp_pos [of x] by (simp add: f64_round_def left_diff_distrib less_imp_neq [THEN not_sym])
  then have "\<bar>f64_round x - x\<bar> = \<bar>of_int (round_half_even (x / f64_ulp x)) - x / f64_ulp x\<bar> * f64_ulp x"
    using ulp_pos [of x] by (simp only: abs_mult abs_of_pos)
  also have "\<dots> \<le> 1 / 2 * f64_ulp x"
    by (intro mult_right_mono round_half_even_error) (simp add: less_imp_le)
  also have "\<dots> \<le> 1 / 2 * (x / 2 ^ 52 + 1 / 2 ^ subnormal_bits)"
    by (intro mult_left_mono ulp_bound assms) simp
  also have "\<dots> = x / 2 ^ 53 + 1 / (2 * 2 ^ subnormal_bits)" by simp
  finally show ?thesis .
qed

lemma f64_exact:
  assumes "k < 2 ^ 53"
  shows "f64_round (of_nat k * 2 ^ j / 2 ^ subnormal_bits) = of_nat k * 2 ^ j / 2 ^ subnormal_bits"
proof -
  let ?x = "of_nat k * 2 ^ j / 2 ^ subnormal_bits :: rat"
  have "\<lfloor>?x * 2 ^ subnormal_bits\<rfloor> = int (k * 2 ^ j)" 
    by (metis (mono_tags, lifting) floor_of_nat nonzero_eq_divide_eq of_nat_mult of_nat_numeral of_nat_power power_not_zero zero_neq_numeral)
  then have n: "nat \<lfloor>?x * 2 ^ subnormal_bits\<rfloor> = k * 2 ^ j" by (simp only: nat_int)
  have "floorlog 2 (k * 2 ^ j) \<le> j + 53"
    using assms by (simp add: floorlog_le_iff power_add)
  then have e: "ulp_exponent ?x \<le> j" unfolding ulp_exponent_def n by simp
  then have "?x / f64_ulp ?x = of_nat k * (2 ^ j / 2 ^ ulp_exponent ?x)" by (simp add: f64_ulp_def)
  also have "2 ^ j / 2 ^ ulp_exponent ?x = (2 ^ (j - ulp_exponent ?x) :: rat)"
    using e by (simp add: power_diff)
  finally have "?x / f64_ulp ?x = of_int (int k * 2 ^ (j - ulp_exponent ?x))" by simp
  then have "f64_round ?x = ?x / f64_ulp ?x * f64_ulp ?x" by (simp only: f64_round_def round_half_even_int)
  then show ?thesis using ulp_pos [of ?x] by simp
qed

lemma f64_exact_scaled:
  assumes "k < 2 ^ 53" and "b \<le> subnormal_bits"
  shows "f64_round (of_nat k / 2 ^ b) = of_nat k / 2 ^ b"
proof -
  have "2 ^ (subnormal_bits - b) / 2 ^ subnormal_bits = (1 / 2 ^ b :: rat)"
    using assms(2) power_diff [of "2 :: rat" b subnormal_bits] by simp
  then have "of_nat k * (2 ^ (subnormal_bits - b) / 2 ^ subnormal_bits) = (of_nat k * (1 / 2 ^ b) :: rat)" by (simp only:)
  then have "of_nat k / 2 ^ b = (of_nat k * 2 ^ (subnormal_bits - b) / 2 ^ subnormal_bits :: rat)"
    by (simp only: times_divide_eq_right mult_1_right)
  then show ?thesis using f64_exact [OF assms(1), of "subnormal_bits - b"] by simp
qed

lemma f64_exact_nat: "n < 2 ^ 53 \<Longrightarrow> f64_round (of_nat n) = of_nat n"
  using f64_exact [of n subnormal_bits] by simp

lemma f64_round_nonneg: "0 \<le> x \<Longrightarrow> 0 \<le> f64_round x"
  by (simp add: f64_round_def round_half_even_def Let_def less_imp_le)

lemma round_half_even_le: "x \<le> of_int n \<Longrightarrow> round_half_even x \<le> n"
proof -
  assume x: "x \<le> of_int n"
  then have "\<lfloor>x\<rfloor> \<le> n" by (simp add: floor_le_iff)
  moreover have "round_half_even x \<le> \<lfloor>x\<rfloor>" if "\<lfloor>x\<rfloor> = n"
  proof -
    have "x = of_int n" using x that by (metis of_int_floor_le order_antisym)
    then show ?thesis by simp
  qed
  ultimately show ?thesis by (cases "\<lfloor>x\<rfloor> = n") (auto simp: round_half_even_def Let_def)
qed

text \<open>A rounding does not pass an integer.\<close>

lemma f64_round_le_nat:
  assumes "0 \<le> x" and "x \<le> of_nat k" and "k < 2 ^ 53"
  shows "f64_round x \<le> of_nat k"
proof -
  let ?e = "ulp_exponent x"
  have "x * 2 ^ subnormal_bits \<le> of_nat k * 2 ^ subnormal_bits" using assms(2) by (simp add: mult_right_mono)
  then have "\<lfloor>x * 2 ^ subnormal_bits\<rfloor> \<le> \<lfloor>of_nat (k * 2 ^ subnormal_bits) :: rat\<rfloor>" by (intro floor_mono) simp
  then have "\<lfloor>x * 2 ^ subnormal_bits\<rfloor> \<le> int (k * 2 ^ subnormal_bits)" by (simp only: floor_of_nat)
  then have "nat \<lfloor>x * 2 ^ subnormal_bits\<rfloor> \<le> k * 2 ^ subnormal_bits" by linarith
  moreover have "floorlog 2 (k * 2 ^ subnormal_bits) \<le> subnormal_bits + 53"
    using assms(3) by (simp add: floorlog_le_iff power_add)
  ultimately have e: "?e \<le> subnormal_bits"
    unfolding ulp_exponent_def using floorlog_mono by (metis (no_types, lifting) add.commute diff_le_mono diff_add_inverse order_trans)
  then have u: "of_nat k / f64_ulp x = of_int (int k * 2 ^ (subnormal_bits - ?e))"
    using power_diff [of "2 :: rat" ?e subnormal_bits] by (simp add: f64_ulp_def)
  have "x / f64_ulp x \<le> of_nat k / f64_ulp x" using assms(2) by (simp add: divide_right_mono less_imp_le)
  then have "round_half_even (x / f64_ulp x) \<le> int k * 2 ^ (subnormal_bits - ?e)"
    unfolding u by (rule round_half_even_le)
  then have "of_int (round_half_even (x / f64_ulp x)) \<le> of_nat k / f64_ulp x"
    unfolding u by (simp only: of_int_le_iff)
  then show ?thesis using ulp_pos [of x] by (simp add: f64_round_def pos_le_divide_eq)
qed

text \<open>The unit, for numbers between consecutive powers of two.\<close>

lemma f64_ulp_eq:
  assumes "2 ^ a \<le> x * 2 ^ b" and "x * 2 ^ b < 2 ^ Suc a" and "b + 52 \<le> subnormal_bits"
  shows "f64_ulp x = 2 ^ a / 2 ^ b / 2 ^ 52"
proof -
  obtain c where c: "subnormal_bits = b + 52 + c" using assms(3) le_Suc_ex by blast
  let ?n = "nat \<lfloor>x * 2 ^ subnormal_bits\<rfloor>"
  have y: "x * 2 ^ subnormal_bits = x * 2 ^ b * 2 ^ (52 + c)" by (simp add: c power_add mult_ac)
  have "2 ^ a * 2 ^ (52 + c) \<le> x * 2 ^ subnormal_bits" and "x * 2 ^ subnormal_bits < 2 ^ Suc a * 2 ^ (52 + c)"
    unfolding y using assms(1,2) by (intro mult_right_mono mult_strict_right_mono; simp)+
  then have "2 ^ (a + 52 + c) \<le> x * 2 ^ subnormal_bits" and "x * 2 ^ subnormal_bits < 2 ^ Suc (a + 52 + c)"
    by (simp_all add: power_add mult_ac)
  then have "2 ^ (a + 52 + c) \<le> \<lfloor>x * 2 ^ subnormal_bits\<rfloor>" and "\<lfloor>x * 2 ^ subnormal_bits\<rfloor> < 2 ^ Suc (a + 52 + c)"
    by (simp_all add: le_floor_iff floor_less_iff)
  then have "2 ^ (a + 52 + c) \<le> ?n" and "?n < 2 ^ Suc (a + 52 + c)"
    by (simp_all add: le_nat_iff nat_less_iff)
  then have "floorlog 2 ?n = Suc (a + 52 + c)"
    by (intro order_antisym floorlog_leI floorlog_ge_SucI) simp_all
  then have "ulp_exponent x = a + c" by (simp add: ulp_exponent_def)
  then show ?thesis by (simp add: f64_ulp_def c power_add)
qed

definition tiny :: rat where
  "tiny = 1 / (2 * 2 ^ subnormal_bits)"

lemma tiny: "0 < tiny" "tiny < 1 / 1000000"
  by (simp_all add: tiny_def subnormal_bits_def)

text \<open>
  Milliseconds divided by 1000, and the fraction multiplied by 1000 again: the seconds are right,
  the rest is right or one too small.
\<close>

lemma millisecond_rounding:
  assumes "w < 2 ^ 52"
  shows "\<lfloor>f64_round (of_nat w / 1000)\<rfloor> = int (w div 1000)" (is "\<lfloor>?s\<rfloor> = _")
    and "\<lfloor>f64_round (f64_round (frac (f64_round (of_nat w / 1000))) * 1000)\<rfloor> \<in> {int (w mod 1000) - 1, int (w mod 1000)}"
proof -
  define n k where "n = w div 1000" and "k = w mod 1000"
  have w: "of_nat w / 1000 = (of_nat n + of_nat k / 1000 :: rat)"
  proof -
    have "of_nat w = (of_nat (n * 1000 + k) :: rat)" by (simp add: n_def k_def)
    then show ?thesis by (simp add: add_divide_distrib)
  qed
  have k: "k < 1000" and n: "n < 2 ^ 52" using assms by (simp_all add: n_def k_def)
  have "of_nat w \<le> (2 ^ 52 :: rat)" using assms by (metis less_imp_le of_nat_le_iff of_nat_numeral of_nat_power)
  then have "of_nat w / 1000 / 2 ^ 53 \<le> (1 / 2000 :: rat)" by simp
  moreover have "\<bar>?s - of_nat w / 1000\<bar> \<le> of_nat w / 1000 / 2 ^ 53 + tiny"
    unfolding tiny_def by (rule f64_round_error) simp
  ultimately have s: "\<bar>?s - of_nat w / 1000\<bar> < 6 / 10000" using tiny by simp
  have "\<lfloor>?s\<rfloor> = int n \<and> (k = 0 \<longrightarrow> frac ?s = 0) \<and> \<bar>frac ?s - of_nat k / 1000\<bar> < 6 / 10000"
  proof (cases "k = 0")
    case True
    then have "?s = of_nat n" using w f64_exact_nat [of n] n by simp
    then show ?thesis using True by (simp add: frac_def)
  next
    case False
    then have "of_nat k / 1000 \<ge> (1 / 1000 :: rat)" "of_nat k / 1000 \<le> (999 / 1000 :: rat)"
      using k by (simp_all add: divide_right_mono)
    then have "of_int (int n) \<le> ?s" "?s < of_int (int n) + 1" using s w by (simp_all only: of_int_of_nat_eq abs_less_iff; linarith)+
    then have "\<lfloor>?s\<rfloor> = int n" by (rule floor_unique)
    moreover from this have "frac ?s = ?s - of_nat n" by (simp only: frac_def of_int_of_nat_eq)
    then have "frac ?s - of_nat k / 1000 = ?s - of_nat w / 1000" using w by linarith
    ultimately show ?thesis using s False by (simp only:) simp
  qed
  then show "\<lfloor>?s\<rfloor> = int (w div 1000)" and f: "\<lfloor>f64_round (f64_round (frac ?s) * 1000)\<rfloor> \<in> {int (w mod 1000) - 1, int (w mod 1000)}"
  proof -
    assume f: "\<lfloor>?s\<rfloor> = int n \<and> (k = 0 \<longrightarrow> frac ?s = 0) \<and> \<bar>frac ?s - of_nat k / 1000\<bar> < 6 / 10000"
    show "\<lfloor>?s\<rfloor> = int (w div 1000)" using f by (simp add: n_def)
    let ?f = "f64_round (frac ?s)"
    have g: "0 \<le> frac ?s" "frac ?s < 1" by (simp_all add: frac_lt_1)
    have "\<bar>?f - frac ?s\<bar> \<le> frac ?s / 2 ^ 53 + tiny"
      unfolding tiny_def by (rule f64_round_error [OF g(1)])
    moreover have "frac ?s / 2 ^ 53 \<le> 1 / 100000" using g by simp
    ultimately have f1: "\<bar>?f - frac ?s\<bar> < 1 / 10000" using tiny by linarith
    have f2: "0 \<le> ?f" by (rule f64_round_nonneg [OF g(1)])
    let ?y = "?f * 1000"
    have "\<bar>f64_round ?y - ?y\<bar> \<le> ?y / 2 ^ 53 + tiny"
      unfolding tiny_def by (rule f64_round_error) (simp add: f2)
    moreover have "?y < 2000" using f1 g by linarith
    then have "?y / 2 ^ 53 \<le> 1 / 10000" by simp
    ultimately have y: "\<bar>f64_round ?y - ?y\<bar> < 2 / 10000" using tiny by linarith
    have "\<bar>frac ?s - of_nat k / 1000\<bar> < 6 / 10000" using f by blast
    then have "\<bar>f64_round ?y - of_nat k\<bar> < 8 / 10" using y f1 by (simp only: abs_less_iff) linarith
    then have *: "of_nat k - 8 / 10 < f64_round ?y" "f64_round ?y < of_nat k + 8 / 10" by (simp_all only: abs_less_iff; linarith)+
    have "\<lfloor>f64_round ?y\<rfloor> = int k - 1 \<or> \<lfloor>f64_round ?y\<rfloor> = int k"
    proof (cases "of_nat k \<le> f64_round ?y")
      case True
      then show ?thesis using * by (intro disjI2 floor_unique; simp only: of_int_of_nat_eq; linarith)
    next
      case False
      then show ?thesis using * by (intro disjI1 floor_unique; simp only: of_int_of_nat_eq of_int_diff of_int_1; linarith)
    qed
    then show "\<lfloor>f64_round ?y\<rfloor> \<in> {int (w mod 1000) - 1, int (w mod 1000)}" by (simp add: k_def)
  qed
qed

lemma f64_of_rat_nonneg [simp]: "0 \<le> x \<Longrightarrow> f64_of_rat x = f64_round x"
  by (simp add: f64_of_rat_def)

lemma f64_trunc_nonneg [simp]: "0 \<le> x \<Longrightarrow> f64_trunc x = \<lfloor>x\<rfloor>"
  by (simp add: f64_trunc_def)

lemma f64_fract_nonneg: "0 \<le> x \<Longrightarrow> f64_fract x = f64_round (frac x)"
  by (simp add: f64_fract_def frac_def)

lemma f64_trunc_int [simp]: "f64_trunc (of_int n) = n"
  by (simp add: f64_trunc_def)

lemma f64_exact_int: "\<bar>n\<bar> < 2 ^ 53 \<Longrightarrow> f64_of_rat (of_int n) = of_int n"
proof (cases "n < 0")
  case True
  assume "\<bar>n\<bar> < 2 ^ 53"
  then show ?thesis using True f64_exact_nat [of "nat (- n)"] by (simp add: f64_of_rat_def nat_less_iff)
next
  case False
  assume "\<bar>n\<bar> < 2 ^ 53"
  then show ?thesis using False f64_exact_nat [of "nat n"] by (simp add: f64_of_rat_def nat_less_iff)
qed

end
