(* ===== verification/Crates.thy ===== *)
theory Crates
  imports Floats
begin

text \<open>
  The interfaces of the third-party crates the sources call. Their code is not part of the
  repository, so it is a parameter: a record of the functions the sources use, passed to every
  definition that needs one, and a locale with the documented laws of those functions for the
  lemmas that rely on them. A reference implementation of the header map shows that the laws can
  be met and lets concrete inputs be evaluated.
\<close>

subsection \<open>JSON values\<close>

text \<open>
  A value of \<^verbatim>\<open>serde_json\<close>: what a \<^verbatim>\<open>Serialize\<close> implementation produces and
  a \<^verbatim>\<open>Deserialize\<close> implementation consumes. \<open>JDec m e\<close> is the finite
  \<^verbatim>\<open>f64\<close> whose value is the decimal fraction \<open>m / 10 ^ e\<close>, as the crate hands it
  over. The text of a value is the business of the crate (\<open>json_text\<close> and \<open>json_parse\<close>
  below): the digits it prints for an \<^verbatim>\<open>f64\<close>, and the rounding of the digits it reads, which
  is exact only with its feature \<^verbatim>\<open>float_roundtrip\<close>.
\<close>

datatype json =
    JNull
  | JBool bool
  | JInt int
  | JDec int nat
  | JStr string
  | JArr "json list"
  | JObj "(string \<times> json) list"

definition jfield :: "string \<Rightarrow> (string \<times> json) list \<Rightarrow> json option" where
  "jfield k kvs = map_of kvs k"

fun json_of_option :: "('a \<Rightarrow> json) \<Rightarrow> 'a option \<Rightarrow> json" where
  "json_of_option f None = JNull"
| "json_of_option f (Some x) = f x"

text \<open>A field under \<^verbatim>\<open>skip_serializing_if = "Option::is_none"\<close>.\<close>

fun opt_field :: "string \<Rightarrow> ('a \<Rightarrow> json) \<Rightarrow> 'a option \<Rightarrow> (string \<times> json) list" where
  "opt_field k f None = []"
| "opt_field k f (Some x) = [(k, f x)]"

lemma jfield_Nil [json_simps, simp]: "jfield k [] = None"
  by (simp add: jfield_def)

lemma jfield_Cons [json_simps, simp]: "jfield k ((k', v) # kvs) = (if k = k' then Some v else jfield k kvs)"
  by (simp add: jfield_def)

lemma jfield_opt [json_simps]:
  "jfield k (opt_field k' f v @ kvs) =
     (case v of None \<Rightarrow> jfield k kvs | Some x \<Rightarrow> if k = k' then Some (f x) else jfield k kvs)"
  by (cases v) auto

text \<open>
  What \<^verbatim>\<open>derive(Deserialize)\<close> generates for a struct: the fields of an object, where
  a field may have several names (aliases), unknown ones are ignored and a repeated one is an
  error; or the elements of an array in the order of the declaration, of which only trailing
  fields with a default may be missing (the first \<open>n\<close> have to be there).
\<close>

definition de_fields :: "nat \<Rightarrow> string list \<Rightarrow> json \<Rightarrow> (string \<times> json) list option" where
  "de_fields n names j =
     (case j of
        JObj kvs \<Rightarrow> Some kvs
      | JArr vs \<Rightarrow> if n \<le> length vs \<and> length vs \<le> length names then Some (zip names vs) else None
      | _ \<Rightarrow> None)"

definition de_values :: "string list \<Rightarrow> (string \<times> json) list \<Rightarrow> json list" where
  "de_values names kvs = map snd (filter (\<lambda>(k, v). k \<in> set names) kvs)"

definition de_string :: "json \<Rightarrow> string option" where
  "de_string j = (case j of JStr s \<Rightarrow> Some s | _ \<Rightarrow> None)"

definition de_required :: "(json \<Rightarrow> 'a option) \<Rightarrow> string list \<Rightarrow> (string \<times> json) list \<Rightarrow> 'a option" where
  "de_required f names kvs = (case de_values names kvs of [v] \<Rightarrow> f v | _ \<Rightarrow> None)"

definition de_default :: "(json \<Rightarrow> 'a option) \<Rightarrow> 'a \<Rightarrow> string list \<Rightarrow> (string \<times> json) list \<Rightarrow> 'a option" where
  "de_default f d names kvs = (case de_values names kvs of [] \<Rightarrow> Some d | [v] \<Rightarrow> f v | _ \<Rightarrow> None)"

definition de_optional :: "(json \<Rightarrow> 'a option) \<Rightarrow> string list \<Rightarrow> (string \<times> json) list \<Rightarrow> 'a option option" where
  "de_optional f names kvs =
     (case de_values names kvs of
        [] \<Rightarrow> Some None
      | [v] \<Rightarrow> if v = JNull then Some None else map_option Some (f v)
      | _ \<Rightarrow> None)"

text \<open>\<^verbatim>\<open>HashMap<String, String>\<close>: of a repeated key the last value stays.\<close>

definition de_string_map :: "json \<Rightarrow> (string \<Rightarrow> string option) option" where
  "de_string_map j =
     (case j of
        JObj kvs \<Rightarrow>
          if list_all (\<lambda>(k, v). de_string v \<noteq> None) kvs
          then Some (map_of (rev (map (\<lambda>(k, v). (k, the (de_string v))) kvs))) else None
      | _ \<Rightarrow> None)"

definition de_bool :: "json \<Rightarrow> bool option" where
  "de_bool j = (case j of JBool b \<Rightarrow> Some b | _ \<Rightarrow> None)"

definition de_unsigned :: "nat \<Rightarrow> json \<Rightarrow> nat option" where
  "de_unsigned b j = (case j of JInt i \<Rightarrow> if 0 \<le> i \<and> i \<le> int b then Some (nat i) else None | _ \<Rightarrow> None)"

definition de_list :: "(json \<Rightarrow> 'a option) \<Rightarrow> json \<Rightarrow> 'a list option" where
  "de_list f j = (case j of JArr vs \<Rightarrow> those (map f vs) | _ \<Rightarrow> None)"

text \<open>
  A finite \<^verbatim>\<open>f64\<close> is the decimal fraction that is its value (the sign of a zero is not
  kept). Infinities and NaN are written as null, which no \<^verbatim>\<open>f64\<close> is read from; an integer is
  accepted and rounded to 53 bits.
\<close>

datatype f64 = Finite int nat | Infinite bool | NaN

definition f64_zero :: f64 where
  "f64_zero = Finite 0 0"

definition f64_finite :: "f64 \<Rightarrow> bool" where
  "f64_finite x \<longleftrightarrow> (case x of Finite m e \<Rightarrow> True | _ \<Rightarrow> False)"

definition f64_of_int :: "int \<Rightarrow> f64" where
  "f64_of_int i = Finite (if \<bar>i\<bar> \<le> 2 ^ 53 then i else f64_trunc (f64_of_rat (of_int i))) 0"

definition json_of_f64 :: "f64 \<Rightarrow> json" where
  "json_of_f64 x = (case x of Finite m e \<Rightarrow> JDec m e | _ \<Rightarrow> JNull)"

definition de_f64 :: "json \<Rightarrow> f64 option" where
  "de_f64 j = (case j of JDec m e \<Rightarrow> Some (Finite m e) | JInt i \<Rightarrow> Some (f64_of_int i) | _ \<Rightarrow> None)"

lemma de_string_JStr [json_simps, simp]: "de_string (JStr s) = Some s"
  by (simp add: de_string_def)

lemma de_bool_JBool [json_simps, simp]: "de_bool (JBool b) = Some b"
  by (simp add: de_bool_def)

lemma de_unsigned_JInt [json_simps, simp]: "n \<le> b \<Longrightarrow> de_unsigned b (JInt (int n)) = Some n"
  by (simp add: de_unsigned_def)

lemma f64_finite_simps [simp]: "f64_finite (Finite m e)" "f64_finite f64_zero" "\<not> f64_finite (Infinite b)" "\<not> f64_finite NaN"
  by (simp_all add: f64_finite_def f64_zero_def)

lemma json_of_f64_null: "json_of_f64 x = JNull \<longleftrightarrow> \<not> f64_finite x"
  by (cases x) (simp_all add: json_of_f64_def)

lemma json_of_f64_not_null [simp]: "f64_finite x \<Longrightarrow> json_of_f64 x \<noteq> JNull"
  by (simp add: json_of_f64_null)

lemma de_f64_inverse [json_simps, simp]: "de_f64 (json_of_f64 x) = (if f64_finite x then Some x else None)"
  by (cases x) (simp_all add: de_f64_def json_of_f64_def)

lemma de_f64_finite: "de_f64 j = Some x \<Longrightarrow> f64_finite x"
  by (auto simp: de_f64_def f64_of_int_def split: json.splits)

text \<open>An integer that 53 bits hold is read exactly; the branch without rounding agrees with the other one there.\<close>

lemma f64_of_int_exact: "\<bar>i\<bar> < 2 ^ 53 \<Longrightarrow> f64_trunc (f64_of_rat (of_int i)) = i"
proof -
  assume i: "\<bar>i\<bar> < 2 ^ 53"
  then have "f64_round (of_int \<bar>i\<bar>) = of_int \<bar>i\<bar>"
    using f64_exact_nat [of "nat \<bar>i\<bar>"] by (simp add: nat_less_iff)
  then show ?thesis
    by (simp add: f64_of_rat_def f64_trunc_def abs_if split: if_splits)
qed

lemma those_map: "(\<And>x. x \<in> set xs \<Longrightarrow> f (g x) = Some x) \<Longrightarrow> those (map f (map g xs)) = Some xs"
  by (induction xs) auto

lemma de_list_inverse [json_simps]:
  "(\<And>x. x \<in> set xs \<Longrightarrow> f (g x) = Some x) \<Longrightarrow> de_list f (JArr (map g xs)) = Some xs"
  unfolding de_list_def json.simps by (rule those_map)

lemma de_strings_inverse [json_simps, simp]: "de_list de_string (JArr (map JStr xs)) = Some xs"
  by (rule de_list_inverse) simp

lemma de_values_simps [json_simps, simp]:
  "de_values names [] = []"
  "de_values names ((k, v) # kvs) = (if k \<in> set names then v # de_values names kvs else de_values names kvs)"
  by (simp_all add: de_values_def)

lemma de_values_append [json_simps, simp]:
  "de_values names (xs @ ys) = de_values names xs @ de_values names ys"
  by (simp add: de_values_def)

lemma de_values_opt_field [json_simps, simp]:
  "de_values names (opt_field k f v) = (if k \<in> set names then (case v of None \<Rightarrow> [] | Some x \<Rightarrow> [f x]) else [])"
  by (cases v) auto

lemma de_optional_cases:
  "de_optional f names kvs =
     (case de_values names kvs of
        [] \<Rightarrow> Some None
      | [v] \<Rightarrow> if v = JNull then Some None else map_option Some (f v)
      | _ \<Rightarrow> None)"
  by (simp add: de_optional_def)

lemmas de_simps [json_simps] = de_fields_def de_required_def de_default_def de_optional_def de_string_def

subsection \<open>Header maps\<close>

text \<open>
  \<^verbatim>\<open>http::HeaderMap\<close>: a multimap from case-insensitive names to values.
  \<open>hv_valid\<close> is what \<^verbatim>\<open>HeaderValue::from_str\<close> accepts,
  \<open>hv_visible\<close> what \<^verbatim>\<open>HeaderValue::to_str\<close> accepts, \<open>hn_valid\<close> what
  \<^verbatim>\<open>HeaderName::from_bytes\<close> accepts.
\<close>

record 'h hmap =
  hm_empty :: 'h
  hm_get_all :: "'h \<Rightarrow> string \<Rightarrow> string list"
  hm_insert :: "'h \<Rightarrow> string \<Rightarrow> string \<Rightarrow> 'h"
  hm_append :: "'h \<Rightarrow> string \<Rightarrow> string \<Rightarrow> 'h"
  hm_remove :: "'h \<Rightarrow> string \<Rightarrow> 'h"
  hm_extend :: "'h \<Rightarrow> 'h \<Rightarrow> 'h"
  hm_keys :: "'h \<Rightarrow> string list"
  hv_valid :: "string \<Rightarrow> bool"
  hv_visible :: "string \<Rightarrow> bool"
  hn_valid :: "string \<Rightarrow> bool"

definition hm_get :: "'h hmap \<Rightarrow> 'h \<Rightarrow> string \<Rightarrow> string option" where
  "hm_get H h k = (case hm_get_all H h k of [] \<Rightarrow> None | v # _ \<Rightarrow> Some v)"

text \<open>
  The documented laws. \<open>extend\<close> replaces: a name the second map holds keeps none of
  the first map's values.
\<close>

locale header_map =
  fixes H :: "'h hmap"
  assumes get_all_empty: "hm_get_all H (hm_empty H) k = []"
    and get_all_insert:
      "hm_get_all H (hm_insert H h k v) k' = (if lower k = lower k' then [v] else hm_get_all H h k')"
    and get_all_append:
      "hm_get_all H (hm_append H h k v) k' =
         (if lower k = lower k' then hm_get_all H h k' @ [v] else hm_get_all H h k')"
    and get_all_remove:
      "hm_get_all H (hm_remove H h k) k' = (if lower k = lower k' then [] else hm_get_all H h k')"
    and get_all_extend:
      "hm_get_all H (hm_extend H h g) k =
         (if hm_get_all H g k = [] then hm_get_all H h k else hm_get_all H g k)"
    and get_all_lower: "hm_get_all H h (lower k) = hm_get_all H h k"
    and keys_iff: "k \<in> set (hm_keys H h) \<longleftrightarrow> lower k = k \<and> hm_get_all H h k \<noteq> []"
    and keys_distinct: "distinct (hm_keys H h)"
begin

lemmas get_all_laws = get_all_empty get_all_insert get_all_append get_all_remove get_all_extend

lemma get_empty: "hm_get H (hm_empty H) k = None"
  by (simp add: hm_get_def get_all_empty)

lemma get_insert: "hm_get H (hm_insert H h k v) k' = (if lower k = lower k' then Some v else hm_get H h k')"
  by (simp add: hm_get_def get_all_insert)

lemma get_remove: "hm_get H (hm_remove H h k) k' = (if lower k = lower k' then None else hm_get H h k')"
  by (simp add: hm_get_def get_all_remove)

lemma get_append:
  "hm_get H (hm_append H h k v) k' =
     (if lower k = lower k' \<and> hm_get H h k' = None then Some v else hm_get H h k')"
  by (auto simp: hm_get_def get_all_append split: list.splits)

lemma get_extend: "hm_get H (hm_extend H h g) k = (if hm_get H g k = None then hm_get H h k else hm_get H g k)"
  by (auto simp: hm_get_def get_all_extend split: list.splits)

lemmas get_laws = get_empty get_insert get_remove get_append get_extend

lemma get_None_iff: "hm_get H h k = None \<longleftrightarrow> hm_get_all H h k = []"
  by (auto simp: hm_get_def split: list.splits)

end

subsubsection \<open>A reference header map\<close>

type_synonym headers = "(string \<times> string) list"

definition al_get_all :: "headers \<Rightarrow> string \<Rightarrow> string list" where
  "al_get_all h k = map snd (filter (\<lambda>(n, v). lower n = lower k) h)"

definition al_remove :: "headers \<Rightarrow> string \<Rightarrow> headers" where
  "al_remove h k = filter (\<lambda>(n, v). lower n \<noteq> lower k) h"

definition al_keys :: "headers \<Rightarrow> string list" where
  "al_keys h = remdups (map (\<lambda>(n, v). lower n) h)"

definition al_extend :: "headers \<Rightarrow> headers \<Rightarrow> headers" where
  "al_extend h g = filter (\<lambda>(n, v). lower n \<notin> set (al_keys g)) h @ g"

definition visible_ascii :: "string \<Rightarrow> bool" where
  "visible_ascii v \<longleftrightarrow> (\<forall>c \<in> set v. (32 \<le> (of_char c :: nat) \<and> (of_char c :: nat) < 127) \<or> (of_char c :: nat) = 9)"

definition header_value_bytes :: "string \<Rightarrow> bool" where
  "header_value_bytes v \<longleftrightarrow> (\<forall>c \<in> set v. (32 \<le> (of_char c :: nat) \<and> (of_char c :: nat) \<noteq> 127) \<or> (of_char c :: nat) = 9)"

definition al_hmap :: "headers hmap" where
  "al_hmap =
     \<lparr>hm_empty = [],
      hm_get_all = al_get_all,
      hm_insert = (\<lambda>h k v. al_remove h k @ [(lower k, v)]),
      hm_append = (\<lambda>h k v. h @ [(lower k, v)]),
      hm_remove = al_remove,
      hm_extend = al_extend,
      hm_keys = al_keys,
      hv_valid = header_value_bytes,
      hv_visible = visible_ascii,
      hn_valid = (\<lambda>n. n \<noteq> [] \<and> visible_ascii n \<and> CHR '' '' \<notin> set n \<and> CHR '':'' \<notin> set n)\<rparr>"

lemma al_get_all_append [simp]: "al_get_all (h @ g) k = al_get_all h k @ al_get_all g k"
  by (simp add: al_get_all_def)

lemma al_get_all_Cons [simp]:
  "al_get_all ((n, v) # h) k = (if lower n = lower k then v # al_get_all h k else al_get_all h k)"
  by (simp add: al_get_all_def)

lemma al_get_all_Nil [simp]: "al_get_all [] k = []"
  by (simp add: al_get_all_def)

lemma al_get_all_remove [simp]:
  "al_get_all (al_remove h k) k' = (if lower k = lower k' then [] else al_get_all h k')"
  by (induction h) (auto simp: al_get_all_def al_remove_def)

lemma al_keys_iff: "k \<in> set (al_keys h) \<longleftrightarrow> lower k = k \<and> al_get_all h k \<noteq> []"
  by (induction h) (auto simp: al_keys_def al_get_all_def)

lemma al_keys_distinct: "distinct (al_keys h)"
  by (simp add: al_keys_def)

lemma al_get_all_lower [simp]: "al_get_all h (lower k) = al_get_all h k"
  by (simp add: al_get_all_def)

lemma al_get_all_extend [simp]:
  "al_get_all (al_extend h g) k = (if al_get_all g k = [] then al_get_all h k else al_get_all g k)"
proof -
  have "lower k \<in> set (al_keys g) \<longleftrightarrow> al_get_all g k \<noteq> []"
    by (simp add: al_keys_iff)
  then show ?thesis
    unfolding al_extend_def al_get_all_append by (induction h) (auto simp: al_get_all_def)
qed

interpretation al: header_map al_hmap
  by unfold_locales (auto simp: al_hmap_def al_keys_iff al_keys_distinct)

lemma al_header_map: "header_map al_hmap"
  by (rule al.header_map_axioms)

end
