(* ===== verification/Http.thy ===== *)
theory Http
  imports Crates
begin

text \<open>
  The data the crates \<^verbatim>\<open>http\<close> and \<^verbatim>\<open>hyper\<close> exchange with the sources
  (requests, responses, URIs) and the record of third-party functions that the definitions of
  this development take as an argument: texts of JSON values, URI parsing, base64, and the
  errors these functions return (\<open>cr_bad_json\<close> is the error of deserialising a JSON value
  that does not have the shape the target type asks for). Nothing is assumed of them here.
\<close>

record uri =
  u_scheme :: "string option"
  u_authority :: "string option"
  u_path_query :: "string option"

text \<open>
  A request body is known through the data frames it yields: \<open>[]\<close> for an empty body,
  one frame for a buffer, the frames sent for a channel.
\<close>

record 'h http_request =
  rq_method :: string
  rq_uri :: uri
  rq_headers :: 'h
  rq_frames :: "string list"

text \<open>Reading a response body to its end may fail; \<open>rs_body\<close> is what the read returns.\<close>

record 'h http_response =
  rs_status :: nat
  rs_headers :: 'h
  rs_body :: "(box_error, string) result"

record 'h crates =
  cr_hm :: "'h hmap"
  cr_hm_json :: "'h \<Rightarrow> (box_error, json) result"
  cr_bad_value :: box_error
  cr_bad_to_str :: box_error
  cr_json_text :: "json \<Rightarrow> string"
  cr_json_parse :: "string \<Rightarrow> (box_error, json) result"
  cr_bad_json :: "json \<Rightarrow> box_error"
  cr_uri_parse :: "string \<Rightarrow> (box_error, uri) result"
  cr_uri_path :: "uri \<Rightarrow> string"
  cr_uri_build :: "string \<Rightarrow> string \<Rightarrow> string \<Rightarrow> (box_error, uri) result"
  cr_pq_parse :: "string \<Rightarrow> (box_error, string) result"
  cr_base64 :: "string \<Rightarrow> string"
  cr_is_success :: "nat \<Rightarrow> bool"
  cr_is_server_error :: "nat \<Rightarrow> bool"
  cr_status_text :: "nat \<Rightarrow> string"

text \<open>\<^verbatim>\<open>HeaderValue::to_str\<close> and \<^verbatim>\<open>str::parse::<HeaderValue>\<close>.\<close>

definition hv_to_str :: "'h crates \<Rightarrow> string \<Rightarrow> (box_error, string) result" where
  "hv_to_str C v = (if hv_visible (cr_hm C) v then Ok v else Err (cr_bad_to_str C))"

definition hv_parse :: "'h crates \<Rightarrow> string \<Rightarrow> (box_error, string) result" where
  "hv_parse C v = (if hv_valid (cr_hm C) v then Ok v else Err (cr_bad_value C))"

lemma hv_to_str_eq_Ok [result_simps]: "hv_to_str C v = Ok s \<longleftrightarrow> s = v \<and> hv_visible (cr_hm C) v"
  by (auto simp: hv_to_str_def)

lemma hv_parse_eq_Ok [result_simps]: "hv_parse C v = Ok s \<longleftrightarrow> s = v \<and> hv_valid (cr_hm C) v"
  by (auto simp: hv_parse_def)

lemma hv_to_str_no_panic [simp]: "hv_to_str C v \<noteq> Panic p"
  by (simp add: hv_to_str_def)

lemma hv_parse_no_panic [simp]: "hv_parse C v \<noteq> Panic p"
  by (simp add: hv_parse_def)

subsection \<open>The request builder\<close>

text \<open>
  \<^verbatim>\<open>http::request::Builder\<close> holds the request so far or the first error; a later
  call on an erroneous builder changes nothing, and \<^verbatim>\<open>body\<close> returns the request or
  that error.
\<close>

type_synonym 'h builder = "(box_error, 'h http_request) result"

definition origin_uri :: "string \<Rightarrow> uri" where
  "origin_uri p = \<lparr>u_scheme = None, u_authority = None, u_path_query = Some p\<rparr>"

definition rb_new :: "'h crates \<Rightarrow> 'h builder" where
  "rb_new C = Ok \<lparr>rq_method = ''GET'', rq_uri = origin_uri ''/'', rq_headers = hm_empty (cr_hm C), rq_frames = []\<rparr>"

definition rb_method :: "string \<Rightarrow> 'h builder \<Rightarrow> 'h builder" where
  "rb_method m b = map_ok (\<lambda>r. r\<lparr>rq_method := m\<rparr>) b"

definition rb_uri :: "uri \<Rightarrow> 'h builder \<Rightarrow> 'h builder" where
  "rb_uri u b = map_ok (\<lambda>r. r\<lparr>rq_uri := u\<rparr>) b"

definition rb_uri_str :: "'h crates \<Rightarrow> string \<Rightarrow> 'h builder \<Rightarrow> 'h builder" where
  "rb_uri_str C s b = and_then b (\<lambda>r. map_ok (\<lambda>u. r\<lparr>rq_uri := u\<rparr>) (cr_uri_parse C s))"

definition rb_header :: "'h crates \<Rightarrow> string \<Rightarrow> string \<Rightarrow> 'h builder \<Rightarrow> 'h builder" where
  "rb_header C k v b =
     and_then b (\<lambda>r. map_ok (\<lambda>v. r\<lparr>rq_headers := hm_append (cr_hm C) (rq_headers r) k v\<rparr>) (hv_parse C v))"

definition rb_body :: "string list \<Rightarrow> 'h builder \<Rightarrow> 'h builder" where
  "rb_body fs b = map_ok (\<lambda>r. r\<lparr>rq_frames := fs\<rparr>) b"

lemmas builder_defs = rb_new_def rb_method_def rb_uri_def rb_uri_str_def rb_header_def rb_body_def

lemma builder_eq_Ok [result_simps]:
  "rb_method m b = Ok r \<longleftrightarrow> (\<exists>r0. b = Ok r0 \<and> r = r0\<lparr>rq_method := m\<rparr>)"
  "rb_uri u b = Ok r \<longleftrightarrow> (\<exists>r0. b = Ok r0 \<and> r = r0\<lparr>rq_uri := u\<rparr>)"
  "rb_body fs b = Ok r \<longleftrightarrow> (\<exists>r0. b = Ok r0 \<and> r = r0\<lparr>rq_frames := fs\<rparr>)"
  "rb_uri_str C s b = Ok r \<longleftrightarrow>
     (\<exists>r0 u. b = Ok r0 \<and> cr_uri_parse C s = Ok u \<and> r = r0\<lparr>rq_uri := u\<rparr>)"
  "rb_header C k v b = Ok r \<longleftrightarrow>
     (\<exists>r0. b = Ok r0 \<and> hv_valid (cr_hm C) v \<and> r = r0\<lparr>rq_headers := hm_append (cr_hm C) (rq_headers r0) k v\<rparr>)"
  by (auto simp: builder_defs result_simps)

lemma builder_Ok [simp]:
  "rb_method m (Ok r0) = Ok (r0\<lparr>rq_method := m\<rparr>)"
  "rb_uri u (Ok r0) = Ok (r0\<lparr>rq_uri := u\<rparr>)"
  "rb_body fs (Ok r0) = Ok (r0\<lparr>rq_frames := fs\<rparr>)"
  by (simp_all add: builder_defs)

text \<open>\<^verbatim>\<open>headers_mut().insert(k, v.parse()?)\<close> on a finished request, for an optional value.\<close>

definition insert_header :: "'h crates \<Rightarrow> string \<Rightarrow> string option \<Rightarrow> 'h http_request \<Rightarrow> 'h builder" where
  "insert_header C k v r =
     (case v of
        None \<Rightarrow> Ok r
      | Some s \<Rightarrow> map_ok (\<lambda>s. r\<lparr>rq_headers := hm_insert (cr_hm C) (rq_headers r) k s\<rparr>) (hv_parse C s))"

lemma insert_header_Ok_frame:
  "insert_header C k v r = Ok r' \<Longrightarrow>
     rq_method r' = rq_method r \<and> rq_uri r' = rq_uri r \<and> rq_frames r' = rq_frames r"
  by (auto simp: insert_header_def result_simps split: option.splits)

subsection \<open>Reference functions\<close>

text \<open>
  Concrete functions for the parameters, used to evaluate the definitions on examples: a plain
  JSON printer, URIs accepted when they hold no space, and a base64 stand-in that marks its
  argument. They are not claimed to be what the crates compute.
\<close>

fun ref_json_text :: "json \<Rightarrow> string" where
  "ref_json_text JNull = ''null''"
| "ref_json_text (JBool b) = (if b then ''true'' else ''false'')"
| "ref_json_text (JInt i) = show_int i"
| "ref_json_text (JDec m e) = show_int m @ ''e-'' @ show_nat e"
| "ref_json_text (JStr s) = ''%'' @ s @ ''%''"
| "ref_json_text (JArr vs) = ''['' @ join_with '','' (map ref_json_text vs) @ '']''"
| "ref_json_text (JObj kvs) =
     ''{'' @ join_with '','' (map (\<lambda>(k, v). ''%'' @ k @ ''%:'' @ ref_json_text v) kvs) @ ''}''"

definition ref_crates :: "headers crates" where
  "ref_crates =
     \<lparr>cr_hm = al_hmap,
      cr_hm_json = (\<lambda>h. Ok (JObj (map (\<lambda>(n, v). (n, JStr v)) h))),
      cr_bad_value = BoxError ''failed to parse header value'',
      cr_bad_to_str = BoxError ''failed to convert header to a str'',
      cr_json_text = ref_json_text,
      cr_json_parse = (\<lambda>s. if s = ''null'' then Ok JNull else Err (BoxError ''expected value'')),
      cr_bad_json = (\<lambda>j. BoxError ''invalid type or missing field''),
      cr_uri_parse = (\<lambda>s. if s = [] \<or> CHR '' '' \<in> set s then Err (BoxError ''invalid uri character'')
                          else Ok (origin_uri s)),
      cr_uri_path = (\<lambda>u. case u_path_query u of None \<Rightarrow> ''/'' | Some p \<Rightarrow> takeWhile (\<lambda>c. c \<noteq> CHR ''?'') p),
      cr_uri_build = (\<lambda>s a p. Ok \<lparr>u_scheme = Some s, u_authority = Some a, u_path_query = Some p\<rparr>),
      cr_pq_parse = (\<lambda>s. if CHR '' '' \<in> set s then Err (BoxError ''invalid uri character'') else Ok s),
      cr_base64 = (\<lambda>s. ''b64:'' @ s),
      cr_is_success = (\<lambda>n. 200 \<le> n \<and> n < 300),
      cr_is_server_error = (\<lambda>n. 500 \<le> n \<and> n < 600),
      cr_status_text = show_nat\<rparr>"

lemma ref_crates_hm [simp]: "cr_hm ref_crates = al_hmap"
  by (simp add: ref_crates_def)

lemma ref_header_map: "header_map (cr_hm ref_crates)"
  by (simp add: al_header_map)

end
