(* ===== verification/ApiClient.thy ===== *)
theory ApiClient
  imports Http
begin

text \<open>
  The crate \<^verbatim>\<open>lambda-runtime-api-client\<close> (\<^verbatim>\<open>src/lib.rs\<close>): the client that
  sends requests to the Lambda Runtime API. Its builders, how it finds the endpoint, how it
  rewrites the URI of a request to that endpoint, and the connection pool that a SnapStart
  restore replaces.
\<close>

text \<open>The environment of the process: \<^verbatim>\<open>std::env::var\<close> is \<^verbatim>\<open>Ok\<close> exactly where this is \<open>Some\<close>.\<close>

type_synonym env = "string \<Rightarrow> string option"

definition user_agent :: "string \<Rightarrow> string option \<Rightarrow> string" where
  "user_agent pkg_version custom =
     (case custom of Some value \<Rightarrow> value | None \<Rightarrow> ''aws-lambda-rust/'' @ pkg_version)"

definition build_request :: "'h crates \<Rightarrow> string \<Rightarrow> 'h builder" where
  "build_request C ua = rb_header C ''User-Agent'' ua (rb_new C)"

subsection \<open>Clients\<close>

text \<open>
  A \<^verbatim>\<open>hyper\<close> client is described by the settings it was built with and by the
  identity of its connection pool; every build has a pool of its own, named by the first
  argument of \<open>build_hyper_client\<close>.
\<close>

record 'c hyper_client =
  hc_pool :: nat
  hc_connector :: 'c
  hc_max_buf :: nat
  hc_max_idle :: "nat option"

definition build_hyper_client :: "nat \<Rightarrow> 'c \<Rightarrow> nat option \<Rightarrow> 'c hyper_client" where
  "build_hyper_client pool connector pool_size =
     \<lparr>hc_pool = pool, hc_connector = connector, hc_max_buf = 1024 * 1024, hc_max_idle = pool_size\<rparr>"

record 'c client =
  cl_base :: uri
  cl_client :: "'c hyper_client"

definition client_with :: "nat \<Rightarrow> uri \<Rightarrow> 'c \<Rightarrow> nat option \<Rightarrow> 'c client" where
  "client_with pool base connector pool_size =
     \<lparr>cl_base = base, cl_client = build_hyper_client pool connector pool_size\<rparr>"

record 'c pooled_client =
  pc_base :: uri
  pc_client :: "'c hyper_client"
  pc_connector :: 'c
  pc_pool_size :: "nat option"
  pc_restored :: "'c hyper_client option"

definition pooled_with :: "nat \<Rightarrow> uri \<Rightarrow> 'c \<Rightarrow> nat option \<Rightarrow> 'c pooled_client" where
  "pooled_with pool base connector pool_size =
     \<lparr>pc_base = base, pc_client = build_hyper_client pool connector pool_size,
      pc_connector = connector, pc_pool_size = pool_size, pc_restored = None\<rparr>"

text \<open>\<^verbatim>\<open>OnceLock::set\<close> stores the value only when the cell is empty.\<close>

definition reset_pool :: "nat \<Rightarrow> 'c pooled_client \<Rightarrow> 'c pooled_client" where
  "reset_pool pool pc =
     (case pc_restored pc of
        None \<Rightarrow> pc\<lparr>pc_restored := Some (build_hyper_client pool (pc_connector pc) (pc_pool_size pc))\<rparr>
      | Some _ \<Rightarrow> pc)"

definition active_client :: "'c pooled_client \<Rightarrow> 'c hyper_client" where
  "active_client pc = (case pc_restored pc of Some c \<Rightarrow> c | None \<Rightarrow> pc_client pc)"

subsection \<open>Rewriting a request to the endpoint\<close>

definition base_path :: "'h crates \<Rightarrow> uri \<Rightarrow> string" where
  "base_path C base = trim_end_matches (\<lambda>c. c = CHR ''/'') (cr_uri_path C base)"

definition set_origin :: "'h crates \<Rightarrow> uri \<Rightarrow> 'h http_request \<Rightarrow> 'h builder" where
  "set_origin C base req =
     (let scheme = (case u_scheme base of Some s \<Rightarrow> s | None \<Rightarrow> ''http'') in
      and_then (expect_some ''Authority not found'' (u_authority base)) (\<lambda>authority.
      and_then (expect_some ''PathAndQuery not found'' (u_path_query (rq_uri req))) (\<lambda>path.
      and_then (expect_ok ''PathAndQuery invalid'' (cr_pq_parse C (base_path C base @ path))) (\<lambda>pq.
      and_then (cr_uri_build C scheme authority pq) (\<lambda>uri. Ok (req\<lparr>rq_uri := uri\<rparr>))))))"

text \<open>
  Sending: the third-party client's own request function is the parameter \<open>send\<close>, given
  the hyper client that is used.
\<close>

definition client_call ::
  "'h crates \<Rightarrow> ('c hyper_client \<Rightarrow> 'h http_request \<Rightarrow> (box_error, 'h http_response) result)
   \<Rightarrow> 'c client \<Rightarrow> 'h http_request \<Rightarrow> (box_error, 'h http_response) result" where
  "client_call C send cl req = and_then (set_origin C (cl_base cl) req) (\<lambda>req. send (cl_client cl) req)"

definition pooled_call ::
  "'h crates \<Rightarrow> ('c hyper_client \<Rightarrow> 'h http_request \<Rightarrow> (box_error, 'h http_response) result)
   \<Rightarrow> 'c pooled_client \<Rightarrow> 'h http_request \<Rightarrow> (box_error, 'h http_response) result" where
  "pooled_call C send pc req = and_then (set_origin C (pc_base pc) req) (\<lambda>req. send (active_client pc) req)"

subsection \<open>Builders\<close>

record 'c client_builder =
  cb_connector :: 'c
  cb_uri :: "uri option"
  cb_pool_size :: "nat option"

definition cb_new :: "'c \<Rightarrow> 'c client_builder" where
  "cb_new connector = \<lparr>cb_connector = connector, cb_uri = None, cb_pool_size = None\<rparr>"

definition with_connector :: "'c \<Rightarrow> 'c client_builder \<Rightarrow> 'c client_builder" where
  "with_connector connector b = b\<lparr>cb_connector := connector\<rparr>"

definition with_endpoint :: "uri \<Rightarrow> 'c client_builder \<Rightarrow> 'c client_builder" where
  "with_endpoint u b = b\<lparr>cb_uri := Some u\<rparr>"

definition with_pool_size :: "nat \<Rightarrow> 'c client_builder \<Rightarrow> 'c client_builder" where
  "with_pool_size n b = b\<lparr>cb_pool_size := Some n\<rparr>"

definition resolve_uri :: "'h crates \<Rightarrow> env \<Rightarrow> uri option \<Rightarrow> (box_error, uri) result" where
  "resolve_uri C e u =
     (case u of
        Some u \<Rightarrow> Ok u
      | None \<Rightarrow>
          and_then (expect_some ''Missing AWS_LAMBDA_RUNTIME_API env var'' (e ''AWS_LAMBDA_RUNTIME_API''))
            (\<lambda>s. expect_ok ''Unable to convert to URL'' (cr_uri_parse C s)))"

definition cb_build :: "'h crates \<Rightarrow> env \<Rightarrow> nat \<Rightarrow> 'c client_builder \<Rightarrow> (box_error, 'c client) result" where
  "cb_build C e pool b =
     map_ok (\<lambda>u. client_with pool u (cb_connector b) (cb_pool_size b)) (resolve_uri C e (cb_uri b))"

definition pooled_build ::
  "'h crates \<Rightarrow> env \<Rightarrow> nat \<Rightarrow> 'c client_builder \<Rightarrow> (box_error, 'c pooled_client) result" where
  "pooled_build C e pool b =
     map_ok (\<lambda>u. pooled_with pool u (cb_connector b) (cb_pool_size b)) (resolve_uri C e (cb_uri b))"

subsection \<open>Lemmas\<close>

lemma build_request_eq_Ok [result_simps]:
  "build_request C ua = Ok r \<longleftrightarrow>
     hv_valid (cr_hm C) ua \<and>
     r = \<lparr>rq_method = ''GET'', rq_uri = origin_uri ''/'',
          rq_headers = hm_append (cr_hm C) (hm_empty (cr_hm C)) ''User-Agent'' ua, rq_frames = []\<rparr>"
  by (auto simp: build_request_def builder_defs result_simps)

lemma build_request_no_panic [simp]: "build_request C ua \<noteq> Panic p"
  by (auto simp: build_request_def builder_defs result_simps hv_parse_def)

lemma active_after_reset:
  "pc_restored pc = None \<Longrightarrow>
     active_client (reset_pool n pc) = build_hyper_client n (pc_connector pc) (pc_pool_size pc)"
  by (simp add: reset_pool_def active_client_def)

lemma reset_pool_twice [simp]: "reset_pool m (reset_pool n pc) = reset_pool n pc"
  by (simp add: reset_pool_def split: option.splits)

lemma reset_pool_frame [simp]:
  "pc_base (reset_pool n pc) = pc_base pc"
  "pc_client (reset_pool n pc) = pc_client pc"
  "pc_connector (reset_pool n pc) = pc_connector pc"
  "pc_pool_size (reset_pool n pc) = pc_pool_size pc"
  by (simp_all add: reset_pool_def split: option.splits)

lemma set_origin_Ok_frame:
  "set_origin C base req = Ok req' \<Longrightarrow>
     rq_method req' = rq_method req \<and> rq_headers req' = rq_headers req \<and> rq_frames req' = rq_frames req"
  by (auto simp: set_origin_def Let_def result_simps)

lemma base_path_no_slash: "base_path C base \<noteq> [] \<Longrightarrow> last (base_path C base) \<noteq> CHR ''/''"
  unfolding base_path_def by (drule trim_end_last) simp

lemma set_origin_eq_Panic:
  "(\<exists>p. set_origin C base req = Panic p) \<longleftrightarrow>
     u_authority base = None \<or> u_path_query (rq_uri req) = None \<or>
     (\<exists>q. u_path_query (rq_uri req) = Some q \<and> \<not> is_ok (cr_pq_parse C (base_path C base @ q))) \<or>
     (\<exists>a q pq p. u_authority base = Some a \<and> u_path_query (rq_uri req) = Some q \<and>
        cr_pq_parse C (base_path C base @ q) = Ok pq \<and>
        cr_uri_build C (case u_scheme base of Some s \<Rightarrow> s | None \<Rightarrow> ''http'') a pq = Panic p)"
proof (cases "u_authority base")
  case None
  then show ?thesis by (simp add: set_origin_def)
next
  case (Some a)
  show ?thesis
  proof (cases "u_path_query (rq_uri req)")
    case None
    with Some show ?thesis by (simp add: set_origin_def)
  next
    case (Some q)
    with \<open>u_authority base = Some a\<close> show ?thesis
      by (cases "cr_pq_parse C (base_path C base @ q)") (auto simp: set_origin_def Let_def result_simps)
  qed
qed

subsection \<open>Properties\<close>

text \<open>
  After a SnapStart restore every call of the pooled client goes through a client built with
  a new connection pool and the same settings; before it, through the original one; a second
  reset changes nothing.
\<close>

lemma restored_pool_is_used:
  assumes "pooled_build C e old b = Ok pc"
  shows "pooled_call C send pc req =
           and_then (set_origin C (pc_base pc) req)
             (send (build_hyper_client old (cb_connector b) (cb_pool_size b))) \<and>
         pooled_call C send (reset_pool new pc) req =
           and_then (set_origin C (pc_base pc) req)
             (send (build_hyper_client new (cb_connector b) (cb_pool_size b))) \<and>
         reset_pool later (reset_pool new pc) = reset_pool new pc"
  using assms
  by (auto simp: pooled_build_def pooled_with_def pooled_call_def active_client_def reset_pool_def
        result_simps)

theorem restored_pool_is_used_witness:
  "pooled_call ref_crates (\<lambda>c r. if hc_pool c = 7 then Ok \<lparr>rs_status = 200, rs_headers = [], rs_body = Ok []\<rparr>
                                else Err (BoxError ''stale connection''))
     (reset_pool 7 (pooled_with 1 (origin_uri ''/'') () (Some 4)\<lparr>pc_base :=
        \<lparr>u_scheme = None, u_authority = Some ''127.0.0.1:9001'', u_path_query = None\<rparr>\<rparr>))
     \<lparr>rq_method = ''GET'', rq_uri = origin_uri ''/x'', rq_headers = [], rq_frames = []\<rparr> =
   Ok \<lparr>rs_status = 200, rs_headers = [], rs_body = Ok []\<rparr>"
proof -
  let ?u = "\<lparr>u_scheme = None, u_authority = Some ''127.0.0.1:9001'', u_path_query = None\<rparr>"
  let ?b = "with_pool_size 4 (with_endpoint ?u (cb_new ()))"
  let ?pc = "pooled_with 1 (origin_uri ''/'') () (Some 4)\<lparr>pc_base := ?u\<rparr>"
  have "pooled_build ref_crates Map.empty 1 ?b = Ok ?pc"
    by (simp add: pooled_build_def resolve_uri_def with_pool_size_def with_endpoint_def cb_new_def
        pooled_with_def)
  from restored_pool_is_used [OF this] show ?thesis
    by (simp add: set_origin_def base_path_def trim_end_matches_def ref_crates_def origin_uri_def
        build_hyper_client_def pooled_with_def)
qed

text \<open>
  A request is rewritten to the endpoint of the client: scheme (\<^verbatim>\<open>http\<close> when the
  endpoint names none), authority, and the endpoint's path without its trailing slashes in front
  of the request's path; trailing slashes of the endpoint make no difference, and method, headers
  and body stay as they are.
\<close>

lemma set_origin_rewrites:
  assumes "u_authority base = Some a" and "u_path_query (rq_uri req) = Some p"
    and "cr_uri_path C base = path @ replicate n (CHR ''/'')"
    and "path = [] \<or> last path \<noteq> CHR ''/''"
    and "cr_pq_parse C (path @ p) = Ok pq"
  shows "set_origin C base req =
           map_ok (\<lambda>u. req\<lparr>rq_uri := u\<rparr>)
             (cr_uri_build C (case u_scheme base of Some s \<Rightarrow> s | None \<Rightarrow> ''http'') a pq)"
proof -
  have "dropWhile (\<lambda>c. c = CHR ''/'') (replicate n (CHR ''/'') @ rev path) = rev path"
    using assms(4) by (cases path rule: rev_cases) (auto simp: dropWhile_append)
  then have "base_path C base = path"
    by (simp add: base_path_def trim_end_matches_def assms(3))
  with assms show ?thesis
    by (cases "cr_uri_build C (case u_scheme base of Some s \<Rightarrow> s | None \<Rightarrow> ''http'') a pq")
      (auto simp: set_origin_def)
qed

theorem set_origin_rewrites_witness:
  "set_origin ref_crates \<lparr>u_scheme = None, u_authority = Some ''h:1'', u_path_query = Some ''/base//''\<rparr>
     \<lparr>rq_method = ''POST'', rq_uri = origin_uri ''/p?q'', rq_headers = [(''k'', ''v'')], rq_frames = [''b'']\<rparr> =
   Ok \<lparr>rq_method = ''POST'',
       rq_uri = \<lparr>u_scheme = Some ''http'', u_authority = Some ''h:1'', u_path_query = Some ''/base/p?q''\<rparr>,
       rq_headers = [(''k'', ''v'')], rq_frames = [''b'']\<rparr>"
  by (subst set_origin_rewrites [where a = "''h:1''" and p = "''/p?q''" and path = "''/base''" and n = 2
        and pq = "''/base/p?q''"])
    (simp_all add: ref_crates_def origin_uri_def numeral_2_eq_2)

end
