(* ===== verification/RuntimeRequests.thy ===== *)
theory RuntimeRequests
  imports ApiClient
begin

text \<open>
  The requests the runtime sends to the Lambda Runtime API (\<^verbatim>\<open>lambda-runtime/src/requests.rs\<close>)
  and the error descriptions they carry (\<^verbatim>\<open>diagnostic.rs\<close>): next event, restore,
  initialisation and restore errors, the response of an invocation (buffered or streamed) and its
  error.
\<close>

subsection \<open>Diagnostics\<close>

record diagnostic =
  error_type :: string
  error_message :: string

text \<open>
  \<^verbatim>\<open>std::any::type_name\<close> prints a type in a way the standard library leaves open:
  it is the parameter \<open>tn\<close>, from the type as the source writes it to what is printed.
  One constructor per \<^verbatim>\<open>From\<close> implementation; the argument is what
  \<^verbatim>\<open>Display\<close> prints for the value.
\<close>

datatype diag_source =
    DeserializeErr string
  | BoxErr box_error
  | BoxDynErr string
  | Infallible string
  | StringErr string
  | StrErr string
  | IoErr string
  | AnyhowErr string
  | EyreErr string
  | MietteErr string

fun diag_type :: "diag_source \<Rightarrow> string" where
  "diag_type (DeserializeErr d) = ''&DeserializeError''"
| "diag_type (BoxErr e) = ''&Error''"
| "diag_type (BoxDynErr d) = ''&Box<dyn std::error::Error>''"
| "diag_type (Infallible d) = ''&std::convert::Infallible''"
| "diag_type (StringErr d) = ''&String''"
| "diag_type (StrErr d) = ''&&'static str''"
| "diag_type (IoErr d) = ''&std::io::Error''"
| "diag_type (AnyhowErr d) = ''&anyhow::Error''"
| "diag_type (EyreErr d) = ''&eyre::Report''"
| "diag_type (MietteErr d) = ''&miette::Report''"

fun diag_display :: "diag_source \<Rightarrow> string" where
  "diag_display (BoxErr e) = err_to_string e"
| "diag_display (DeserializeErr d) = d"
| "diag_display (BoxDynErr d) = d"
| "diag_display (Infallible d) = d"
| "diag_display (StringErr d) = d"
| "diag_display (StrErr d) = d"
| "diag_display (IoErr d) = d"
| "diag_display (AnyhowErr d) = d"
| "diag_display (EyreErr d) = d"
| "diag_display (MietteErr d) = d"

definition diagnostic_from :: "(string \<Rightarrow> string) \<Rightarrow> diag_source \<Rightarrow> diagnostic" where
  "diagnostic_from tn v = \<lparr>error_type = tn (diag_type v), error_message = diag_display v\<rparr>"

text \<open>The derived serialisation and deserialisation, with field names in camel case.\<close>

definition diagnostic_json :: "diagnostic \<Rightarrow> json" where
  "diagnostic_json d = JObj [(''errorType'', JStr (error_type d)), (''errorMessage'', JStr (error_message d))]"

definition diagnostic_of_json :: "json \<Rightarrow> diagnostic option" where
  "diagnostic_of_json j =
     (case de_fields 2 [''errorType'', ''errorMessage''] j of
        None \<Rightarrow> None
      | Some kvs \<Rightarrow>
          (case (de_required de_string [''errorType''] kvs, de_required de_string [''errorMessage''] kvs) of
             (Some t, Some m) \<Rightarrow> Some \<lparr>error_type = t, error_message = m\<rparr>
           | _ \<Rightarrow> None))"

lemma diagnostic_roundtrip [simp]: "diagnostic_of_json (diagnostic_json d) = Some d"
  by (simp add: diagnostic_of_json_def diagnostic_json_def json_simps)

subsection \<open>Requests without an invocation\<close>

definition next_event_req :: "'h crates \<Rightarrow> string \<Rightarrow> 'h builder" where
  "next_event_req C ua =
     rb_body [] (rb_uri (origin_uri ''/2018-06-01/runtime/invocation/next'')
       (rb_method ''GET'' (build_request C ua)))"

definition restore_next_req :: "'h crates \<Rightarrow> string \<Rightarrow> 'h builder" where
  "restore_next_req C ua =
     rb_body [] (rb_uri (origin_uri ''/2018-06-01/runtime/restore/next'')
       (rb_method ''GET'' (build_request C ua)))"

definition init_error_req :: "'h crates \<Rightarrow> string \<Rightarrow> diagnostic \<Rightarrow> 'h builder" where
  "init_error_req C ua d =
     (let uri = origin_uri ''/2018-06-01/runtime/init/error'';
          body = cr_json_text C (diagnostic_json d) in
      rb_body [body] (rb_header C ''lambda-runtime-function-error-type'' ''Runtime.InitError''
        (rb_uri uri (rb_method ''POST'' (build_request C ua)))))"

definition restore_error_req :: "'h crates \<Rightarrow> string \<Rightarrow> diagnostic \<Rightarrow> 'h builder" where
  "restore_error_req C ua d =
     (let uri = origin_uri ''/2018-06-01/runtime/restore/error'';
          body = cr_json_text C (diagnostic_json d) in
      rb_body [body] (rb_header C ''lambda-runtime-function-error-type'' ''Runtime.AfterRestoreError''
        (rb_uri uri (rb_method ''POST'' (build_request C ua)))))"

subsection \<open>Responses of a handler\<close>

text \<open>
  A handler's answer (\<^verbatim>\<open>FunctionResponse\<close>): a value, given by what serialising it
  returns, or a stream, given by its metadata prelude and the items it yields, each a chunk or an
  error.
\<close>

record 'h metadata_prelude =
  mp_status_code :: nat
  mp_headers :: 'h
  mp_cookies :: "string list"

datatype 'h function_response =
    BufferedResponse "(box_error, json) result"
  | StreamingResponse "'h metadata_prelude" "(box_error + string) list"

definition metadata_json :: "'h crates \<Rightarrow> 'h metadata_prelude \<Rightarrow> (box_error, json) result" where
  "metadata_json C m =
     map_ok (\<lambda>hs. JObj [(''statusCode'', JInt (int (mp_status_code m))), (''headers'', hs),
                        (''cookies'', JArr (map JStr (mp_cookies m)))])
       (cr_hm_json C (mp_headers m))"

definition to_tailer :: "'h crates \<Rightarrow> box_error \<Rightarrow> string" where
  "to_tailer C e =
     ''Lambda-Runtime-Function-Error-Type: Runtime.StreamError'' @ [CHR 0x0D, CHR 0x0A] @
     ''Lambda-Runtime-Function-Error-Body: '' @ cr_base64 C (err_to_string e) @ [CHR 0x0D, CHR 0x0A]"

definition chunk_frame :: "'h crates \<Rightarrow> box_error + string \<Rightarrow> string" where
  "chunk_frame C item = (case item of Inr chunk \<Rightarrow> chunk | Inl err \<Rightarrow> to_tailer C err)"

text \<open>
  The task that feeds the response channel. \<open>room\<close> is the number of sends the receiving
  end accepts before it closes the channel (\<open>None\<close>: it never does); every send is followed
  by a return when it fails. The result is the list of frames that were sent.
\<close>

fun send_data :: "nat option \<Rightarrow> string \<Rightarrow> (string \<times> nat option) option" where
  "send_data None frame = Some (frame, None)"
| "send_data (Some 0) frame = None"
| "send_data (Some (Suc n)) frame = Some (frame, Some n)"

fun stream_chunks :: "'h crates \<Rightarrow> nat option \<Rightarrow> (box_error + string) list \<Rightarrow> string list" where
  "stream_chunks C room [] = []"
| "stream_chunks C room (item # items) =
     (case send_data room (chunk_frame C item) of
        None \<Rightarrow> []
      | Some (frame, room') \<Rightarrow> frame # stream_chunks C room' items)"

definition stream_task ::
  "'h crates \<Rightarrow> nat option \<Rightarrow> string \<Rightarrow> (box_error + string) list \<Rightarrow> string list" where
  "stream_task C room prelude items =
     (case send_data room prelude of
        None \<Rightarrow> []
      | Some (f1, room1) \<Rightarrow>
          (case send_data room1 (replicate 8 (CHR 0x00)) of
             None \<Rightarrow> [f1]
           | Some (f2, room2) \<Rightarrow> f1 # f2 # stream_chunks C room2 items))"

definition invocation_uri :: "string \<Rightarrow> string \<Rightarrow> string" where
  "invocation_uri request_id what = ''/2018-06-01/runtime/invocation/'' @ request_id @ what"

abbreviation invocation_id_header :: string where
  "invocation_id_header \<equiv> ''lambda-runtime-invocation-id''"

text \<open>\<^verbatim>\<open>entry(k).or_insert(v)\<close> on a header map.\<close>

definition or_insert :: "'h hmap \<Rightarrow> 'h \<Rightarrow> string \<Rightarrow> string \<Rightarrow> 'h" where
  "or_insert H h k v = (if hm_get H h k = None then hm_insert H h k v else h)"

definition streaming_headers :: "'h crates \<Rightarrow> string option \<Rightarrow> 'h \<Rightarrow> (box_error, 'h) result" where
  "streaming_headers C invocation_id h0 =
     (let H = cr_hm C in
      and_then (hv_parse C ''chunked'') (\<lambda>v.
      let h1 = hm_insert H h0 ''Transfer-Encoding'' v in
      and_then (hv_parse C ''streaming'') (\<lambda>v.
      let h2 = hm_insert H h1 ''Lambda-Runtime-Function-Response-Mode'' v in
      and_then (hv_parse C ''Lambda-Runtime-Function-Error-Type'') (\<lambda>v.
      let h3 = hm_append H h2 ''Trailer'' v in
      and_then (hv_parse C ''Lambda-Runtime-Function-Error-Body'') (\<lambda>v.
      let h4 = hm_append H h3 ''Trailer'' v in
      and_then (case invocation_id of
                  None \<Rightarrow> Ok h4
                | Some i \<Rightarrow> map_ok (hm_insert H h4 invocation_id_header) (hv_parse C i)) (\<lambda>h5.
      map_ok (hm_insert H h5 ''Content-Type'')
        (hv_parse C ''application/vnd.awslambda.http-integration-response'')))))))"

definition completion_req ::
  "'h crates \<Rightarrow> string \<Rightarrow> nat option \<Rightarrow> string \<Rightarrow> string option \<Rightarrow> 'h function_response \<Rightarrow> 'h builder" where
  "completion_req C ua room request_id invocation_id resp =
     (case resp of
        BufferedResponse value \<Rightarrow>
          and_then (cr_uri_parse C (invocation_uri request_id ''/response'')) (\<lambda>uri.
          and_then value (\<lambda>j.
          and_then (rb_body [cr_json_text C j] (rb_uri uri (rb_method ''POST'' (build_request C ua)))) (\<lambda>req.
          insert_header C invocation_id_header invocation_id req)))
      | StreamingResponse metadata items \<Rightarrow>
          and_then (cr_uri_parse C (invocation_uri request_id ''/response'')) (\<lambda>uri.
          and_then (expect_ok ''called `Option::unwrap()` on a `None` value''
                     (rb_uri uri (rb_method ''POST'' (build_request C ua)))) (\<lambda>builder.
          and_then (streaming_headers C invocation_id (rq_headers builder)) (\<lambda>headers.
          and_then (hv_parse C ''application/octet-stream'') (\<lambda>default_type.
          let metadata = metadata\<lparr>mp_headers :=
                or_insert (cr_hm C) (mp_headers metadata) ''content-type'' default_type\<rparr> in
          and_then (metadata_json C metadata) (\<lambda>prelude.
          rb_body (stream_task C room (cr_json_text C prelude) items)
            (Ok (builder\<lparr>rq_headers := headers\<rparr>))))))))"

definition event_error_req ::
  "'h crates \<Rightarrow> string \<Rightarrow> string \<Rightarrow> string option \<Rightarrow> diagnostic \<Rightarrow> 'h builder" where
  "event_error_req C ua request_id invocation_id d =
     and_then (cr_uri_parse C (invocation_uri request_id ''/error'')) (\<lambda>uri.
     and_then (rb_body [cr_json_text C (diagnostic_json d)]
       (rb_header C ''lambda-runtime-function-error-type'' ''unhandled''
         (rb_uri uri (rb_method ''POST'' (build_request C ua))))) (\<lambda>req.
     insert_header C invocation_id_header invocation_id req))"

subsection \<open>What the task sends\<close>

definition room_take :: "nat option \<Rightarrow> 'a list \<Rightarrow> 'a list" where
  "room_take room xs = (case room of None \<Rightarrow> xs | Some n \<Rightarrow> take n xs)"

lemma stream_chunks_eq: "stream_chunks C room items = room_take room (map (chunk_frame C) items)"
proof (induction items arbitrary: room)
  case Nil
  show ?case by (simp add: room_take_def split: option.splits)
next
  case (Cons item items)
  show ?case
  proof (cases room)
    case None
    with Cons show ?thesis by (simp add: room_take_def)
  next
    case (Some n)
    with Cons show ?thesis by (cases n) (simp_all add: room_take_def)
  qed
qed

lemma stream_task_eq:
  "stream_task C room prelude items =
     room_take room (prelude # replicate 8 (CHR 0x00) # map (chunk_frame C) items)"
proof (cases room)
  case None
  then show ?thesis by (simp add: stream_task_def stream_chunks_eq room_take_def)
next
  case (Some n)
  then show ?thesis
    by (cases n; cases "n - 1") (auto simp: stream_task_def stream_chunks_eq room_take_def)
qed

subsection \<open>Headers of the requests\<close>

lemma lower_names [simp]:
  "lower ''User-Agent'' = ''user-agent''"
  "lower ''Transfer-Encoding'' = ''transfer-encoding''"
  "lower ''Lambda-Runtime-Function-Response-Mode'' = ''lambda-runtime-function-response-mode''"
  "lower ''Trailer'' = ''trailer''"
  "lower ''Content-Type'' = ''content-type''"
  "lower ''user-agent'' = ''user-agent''"
  "lower ''transfer-encoding'' = ''transfer-encoding''"
  "lower ''trailer'' = ''trailer''"
  "lower ''content-type'' = ''content-type''"
  "lower ''lambda-runtime-function-response-mode'' = ''lambda-runtime-function-response-mode''"
  "lower ''lambda-runtime-invocation-id'' = ''lambda-runtime-invocation-id''"
  "lower ''lambda-runtime-function-error-type'' = ''lambda-runtime-function-error-type''"
  by (simp_all add: lower_eval)

context header_map
begin

lemma get_all_build_request:
  "cr_hm C = H \<Longrightarrow> build_request C ua = Ok r \<Longrightarrow>
     hm_get_all H (rq_headers r) k = (if lower k = ''user-agent'' then [ua] else [])"
  by (auto simp: result_simps get_all_laws)

lemma get_all_insert_header:
  "cr_hm C = H \<Longrightarrow> insert_header C k v r = Ok r' \<Longrightarrow>
     hm_get_all H (rq_headers r') k' =
       (case v of Some s \<Rightarrow> if lower k = lower k' then [s] else hm_get_all H (rq_headers r) k'
        | None \<Rightarrow> hm_get_all H (rq_headers r) k')"
  by (auto simp: insert_header_def result_simps get_all_laws split: option.splits)

lemma get_all_streaming_headers:
  assumes "cr_hm C = H" and "streaming_headers C invocation_id h0 = Ok h"
  shows "hm_get_all H h k =
    (if lower k = ''transfer-encoding'' then [''chunked'']
     else if lower k = ''lambda-runtime-function-response-mode'' then [''streaming'']
     else if lower k = ''trailer'' then
       hm_get_all H h0 k @ [''Lambda-Runtime-Function-Error-Type'', ''Lambda-Runtime-Function-Error-Body'']
     else if lower k = ''content-type'' then [''application/vnd.awslambda.http-integration-response'']
     else if lower k = invocation_id_header \<and> invocation_id \<noteq> None then [the invocation_id]
     else hm_get_all H h0 k)"
  using assms
  by (cases invocation_id) (auto simp: streaming_headers_def Let_def result_simps get_all_laws)

lemma completion_headers:
  assumes "cr_hm C = H" and "completion_req C ua room rid iid resp = Ok req"
  obtains r0 where "build_request C ua = Ok r0"
    and "\<And>k. hm_get_all H (rq_headers req) k =
      (case resp of
         BufferedResponse v \<Rightarrow>
           (if lower k = invocation_id_header \<and> iid \<noteq> None then [the iid]
            else hm_get_all H (rq_headers r0) k)
       | StreamingResponse m items \<Rightarrow>
           (if lower k = ''transfer-encoding'' then [''chunked'']
            else if lower k = ''lambda-runtime-function-response-mode'' then [''streaming'']
            else if lower k = ''trailer'' then
              hm_get_all H (rq_headers r0) k @
                [''Lambda-Runtime-Function-Error-Type'', ''Lambda-Runtime-Function-Error-Body'']
            else if lower k = ''content-type'' then [''application/vnd.awslambda.http-integration-response'']
            else if lower k = invocation_id_header \<and> iid \<noteq> None then [the iid]
            else hm_get_all H (rq_headers r0) k))"
proof (cases resp)
  case (BufferedResponse v)
  obtain uri j r0 where "build_request C ua = Ok r0"
      and "insert_header C invocation_id_header iid
             (r0\<lparr>rq_method := ''POST'', rq_uri := uri, rq_frames := [cr_json_text C j]\<rparr>) = Ok req"
    using assms(2) BufferedResponse by (auto simp: completion_req_def result_simps)
  with BufferedResponse show thesis
    by (intro that [of r0]) (auto simp: get_all_insert_header [OF assms(1)] split: option.splits)
next
  case (StreamingResponse m items)
  obtain h r0 where r0: "build_request C ua = Ok r0"
      and h: "streaming_headers C iid (rq_headers r0) = Ok h" and req: "rq_headers req = h"
    using assms(2) StreamingResponse by (auto simp: completion_req_def Let_def result_simps)
  show thesis
    by (rule that [OF r0])
      (simp add: StreamingResponse req get_all_streaming_headers [OF assms(1) h])
qed

lemma completion_invocation_id:
  assumes "cr_hm C = H" and "completion_req C ua room rid iid resp = Ok req"
  shows "hm_get H (rq_headers req) invocation_id_header = iid"
  using assms
  by (rule completion_headers)
    (auto simp: hm_get_def get_all_build_request [OF assms(1)]
      split: function_response.splits option.splits list.splits)

lemma event_error_headers:
  assumes "cr_hm C = H" and "event_error_req C ua rid iid d = Ok req"
  shows "hm_get_all H (rq_headers req) k =
    (if lower k = invocation_id_header \<and> iid \<noteq> None then [the iid]
     else if lower k = ''lambda-runtime-function-error-type'' then [''unhandled'']
     else if lower k = ''user-agent'' then [ua] else [])"
proof -
  obtain uri r0 where r0: "build_request C ua = Ok r0"
      and r: "insert_header C invocation_id_header iid
             (r0\<lparr>rq_method := ''POST'', rq_uri := uri,
                 rq_headers := hm_append H (rq_headers r0) ''lambda-runtime-function-error-type'' ''unhandled'',
                 rq_frames := [cr_json_text C (diagnostic_json d)]\<rparr>) = Ok req"
    using assms by (auto simp: event_error_req_def result_simps)
  show ?thesis
    by (cases iid)
      (auto simp: get_all_insert_header [OF assms(1) r] get_all_append
        get_all_build_request [OF assms(1) r0])
qed

lemma event_error_invocation_id:
  assumes "cr_hm C = H" and "event_error_req C ua rid iid d = Ok req"
  shows "hm_get H (rq_headers req) invocation_id_header = iid"
  by (cases iid) (simp_all add: hm_get_def event_error_headers [OF assms])

end

subsection \<open>Properties\<close>

lemma buffered_completion_is_ok:
  "is_ok (completion_req C ua room rid iid (BufferedResponse v)) \<longleftrightarrow>
     is_ok (cr_uri_parse C (invocation_uri rid ''/response'')) \<and> is_ok v \<and> hv_valid (cr_hm C) ua \<and>
     (iid = None \<or> hv_valid (cr_hm C) (the iid))"
  by (cases iid) (auto simp: completion_req_def is_ok_iff result_simps insert_header_def)

text \<open>
  C5: the answer of a handler that returns a value is reported exactly when the URI of the
  invocation parses, the value serialises and both header values are valid; the request is then a
  POST to \<^verbatim>\<open>/2018-06-01/runtime/invocation/{id}/response\<close> whose one frame is the JSON
  text of the value, and its headers are the user agent and, when the invocation named one, its
  invocation id, and no others.
\<close>

theorem buffered_completion:
  assumes "header_map (cr_hm C)"
  shows "is_ok (completion_req C ua room rid iid (BufferedResponse v)) =
           (is_ok (cr_uri_parse C (''/2018-06-01/runtime/invocation/'' @ rid @ ''/response'')) \<and> is_ok v \<and>
            hv_valid (cr_hm C) ua \<and> (iid = None \<or> hv_valid (cr_hm C) (the iid))) \<and>
         (\<forall>req. completion_req C ua room rid iid (BufferedResponse v) = Ok req \<longrightarrow>
            (\<exists>u j. cr_uri_parse C (''/2018-06-01/runtime/invocation/'' @ rid @ ''/response'') = Ok u \<and> v = Ok j \<and>
               rq_method req = ''POST'' \<and> rq_uri req = u \<and> rq_frames req = [cr_json_text C j]) \<and>
            (\<forall>k. hm_get_all (cr_hm C) (rq_headers req) k =
               (if lower k = ''lambda-runtime-invocation-id'' \<and> iid \<noteq> None then [the iid]
                else if lower k = ''user-agent'' then [ua] else [])))"
proof (intro conjI allI impI)
  show "is_ok (completion_req C ua room rid iid (BufferedResponse v)) =
           (is_ok (cr_uri_parse C (''/2018-06-01/runtime/invocation/'' @ rid @ ''/response'')) \<and> is_ok v \<and>
            hv_valid (cr_hm C) ua \<and> (iid = None \<or> hv_valid (cr_hm C) (the iid)))"
    using buffered_completion_is_ok [of C ua room rid iid v] by (simp add: invocation_uri_def)
next
  fix req assume r: "completion_req C ua room rid iid (BufferedResponse v) = Ok req"
  show "\<exists>u j. cr_uri_parse C (''/2018-06-01/runtime/invocation/'' @ rid @ ''/response'') = Ok u \<and> v = Ok j \<and>
               rq_method req = ''POST'' \<and> rq_uri req = u \<and> rq_frames req = [cr_json_text C j]"
    using r by (auto simp: completion_req_def result_simps invocation_uri_def dest!: insert_header_Ok_frame)
  fix k
  show "hm_get_all (cr_hm C) (rq_headers req) k =
               (if lower k = ''lambda-runtime-invocation-id'' \<and> iid \<noteq> None then [the iid]
                else if lower k = ''user-agent'' then [ua] else [])"
    using header_map.completion_headers [OF assms refl r]
    by (rule header_map.completion_headers [OF assms refl r])
      (simp add: header_map.get_all_build_request [OF assms refl])
qed

theorem buffered_completion_witness:
  "is_ok (completion_req ref_crates ''ua'' None ''id'' (Some ''inv'') (BufferedResponse (Ok (JBool True)))) \<and>
   \<not> is_ok (completion_req ref_crates ''ua'' None ''bad id'' None (BufferedResponse (Ok JNull)))"
  using buffered_completion [OF ref_header_map, of "''ua''" None "''id''" "Some ''inv''" "Ok (JBool True)"]
    buffered_completion [OF ref_header_map, of "''ua''" None "''bad id''" None "Ok JNull"]
  by (simp add: ref_crates_def al_hmap_def header_value_bytes_def)

text \<open>
  C15: the answer of a streaming handler is a POST to the same URI whose body is, as far as the
  receiver takes it, the JSON text of the metadata prelude (with
  \<^verbatim>\<open>content-type: application/octet-stream\<close> only when the handler set none), eight
  NUL bytes, and one frame per item of the stream in its order, an item that is an error becoming
  the two error trailers; the request's headers announce chunked transfer, streaming mode and both
  trailers, and echo the invocation id.
\<close>

theorem streaming_completion:
  assumes "header_map (cr_hm C)"
    and "completion_req C ua room rid iid (StreamingResponse m items) = Ok req"
  shows "(\<exists>u prelude. cr_uri_parse C (''/2018-06-01/runtime/invocation/'' @ rid @ ''/response'') = Ok u \<and>
            metadata_json C (if hm_get (cr_hm C) (mp_headers m) ''content-type'' = None
              then m\<lparr>mp_headers := hm_insert (cr_hm C) (mp_headers m) ''content-type'' ''application/octet-stream''\<rparr>
              else m) = Ok prelude \<and>
            rq_method req = ''POST'' \<and> rq_uri req = u \<and>
            rq_frames req = room_take room (cr_json_text C prelude # replicate 8 (CHR 0x00) #
              map (\<lambda>item. case item of Inr chunk \<Rightarrow> chunk | Inl e \<Rightarrow> to_tailer C e) items)) \<and>
         hm_get_all (cr_hm C) (rq_headers req) ''Transfer-Encoding'' = [''chunked''] \<and>
         hm_get_all (cr_hm C) (rq_headers req) ''Lambda-Runtime-Function-Response-Mode'' = [''streaming''] \<and>
         hm_get_all (cr_hm C) (rq_headers req) ''Trailer'' =
           [''Lambda-Runtime-Function-Error-Type'', ''Lambda-Runtime-Function-Error-Body''] \<and>
         hm_get_all (cr_hm C) (rq_headers req) ''lambda-runtime-invocation-id'' =
           (case iid of None \<Rightarrow> [] | Some i \<Rightarrow> [i]) \<and>
         hm_get_all (cr_hm C) (rq_headers req) ''User-Agent'' = [ua]"
proof (intro conjI)
  show "\<exists>u prelude. cr_uri_parse C (''/2018-06-01/runtime/invocation/'' @ rid @ ''/response'') = Ok u \<and>
            metadata_json C (if hm_get (cr_hm C) (mp_headers m) ''content-type'' = None
              then m\<lparr>mp_headers := hm_insert (cr_hm C) (mp_headers m) ''content-type'' ''application/octet-stream''\<rparr>
              else m) = Ok prelude \<and>
            rq_method req = ''POST'' \<and> rq_uri req = u \<and>
            rq_frames req = room_take room (cr_json_text C prelude # replicate 8 (CHR 0x00) #
              map (\<lambda>item. case item of Inr chunk \<Rightarrow> chunk | Inl e \<Rightarrow> to_tailer C e) items)"
    using assms(2) unfolding chunk_frame_def [symmetric] stream_task_eq [symmetric]
    by (auto simp: completion_req_def Let_def result_simps or_insert_def invocation_uri_def
        chunk_frame_def [symmetric] stream_task_eq)
qed (rule header_map.completion_headers [OF assms(1) refl assms(2)];
     simp add: header_map.get_all_build_request [OF assms(1) refl] split: option.splits)+

theorem streaming_completion_witness:
  "\<exists>req. completion_req ref_crates ''ua'' (Some 3) ''id'' None
      (StreamingResponse \<lparr>mp_status_code = 200, mp_headers = [], mp_cookies = []\<rparr>
         [Inr ''a'', Inl (BoxError ''boom''), Inr ''b'']) = Ok req \<and>
    length (rq_frames req) = 3 \<and> rq_frames req ! 2 = ''a''"
proof -
  let ?resp = "StreamingResponse \<lparr>mp_status_code = 200, mp_headers = [], mp_cookies = []\<rparr>
         [Inr ''a'', Inl (BoxError ''boom''), Inr ''b''] :: headers function_response"
  have "is_ok (completion_req ref_crates ''ua'' (Some 3) ''id'' None ?resp)"
    by (simp add: is_ok_iff completion_req_def Let_def streaming_headers_def ref_crates_def al_hmap_def
        header_value_bytes_def hv_parse_def metadata_json_def build_request_def builder_defs
        invocation_uri_def)
  then obtain req where r: "completion_req ref_crates ''ua'' (Some 3) ''id'' None ?resp = Ok req"
    by (auto simp: is_ok_iff)
  from streaming_completion [OF ref_header_map r] have
    "length (rq_frames req) = 3 \<and> rq_frames req ! 2 = ''a''"
    by (auto simp: room_take_def numeral_3_eq_3)
  with r show ?thesis by blast
qed

text \<open>
  C23: a failed invocation is reported with a POST to
  \<^verbatim>\<open>/2018-06-01/runtime/invocation/{id}/error\<close> whose body is the diagnostic's JSON text,
  from which type and message can be read back, with the error type header set to
  \<^verbatim>\<open>unhandled\<close> and the invocation id echoed; no other header but the user agent is sent.
\<close>

theorem event_error_reported:
  assumes "header_map (cr_hm C)" and "event_error_req C ua rid iid d = Ok req"
  shows "rq_method req = ''POST'' \<and>
         cr_uri_parse C (''/2018-06-01/runtime/invocation/'' @ rid @ ''/error'') = Ok (rq_uri req) \<and>
         (\<exists>j. rq_frames req = [cr_json_text C j] \<and> diagnostic_of_json j = Some d) \<and>
         (\<forall>k. hm_get_all (cr_hm C) (rq_headers req) k =
            (if lower k = ''lambda-runtime-invocation-id'' \<and> iid \<noteq> None then [the iid]
             else if lower k = ''lambda-runtime-function-error-type'' then [''unhandled'']
             else if lower k = ''user-agent'' then [ua] else []))"
proof (intro conjI allI)
  show "hm_get_all (cr_hm C) (rq_headers req) k =
            (if lower k = ''lambda-runtime-invocation-id'' \<and> iid \<noteq> None then [the iid]
             else if lower k = ''lambda-runtime-function-error-type'' then [''unhandled'']
             else if lower k = ''user-agent'' then [ua] else [])" for k
    by (rule header_map.event_error_headers [OF assms(1) refl assms(2)])
  show "\<exists>j. rq_frames req = [cr_json_text C j] \<and> diagnostic_of_json j = Some d"
    using assms(2) diagnostic_roundtrip
    by (auto simp: event_error_req_def result_simps dest!: insert_header_Ok_frame intro!: exI [of _ "diagnostic_json d"])
qed (use assms(2) in \<open>auto simp: event_error_req_def result_simps invocation_uri_def dest!: insert_header_Ok_frame\<close>)

theorem event_error_reported_witness:
  "\<exists>req. event_error_req ref_crates ''ua'' ''id'' (Some ''inv'') (diagnostic_from (\<lambda>t. t) (StrErr ''bad'')) = Ok req \<and>
     hm_get_all al_hmap (rq_headers req) ''Lambda-Runtime-Invocation-Id'' = [''inv'']"
proof -
  let ?r = "event_error_req ref_crates ''ua'' ''id'' (Some ''inv'') (diagnostic_from (\<lambda>t. t) (StrErr ''bad''))"
  have "is_ok ?r"
    by (simp add: is_ok_iff event_error_req_def ref_crates_def al_hmap_def header_value_bytes_def
        hv_parse_def build_request_def builder_defs invocation_uri_def insert_header_def)
  then obtain req where r: "?r = Ok req" by (auto simp: is_ok_iff)
  from event_error_reported [OF ref_header_map r] have
    "\<And>k. lower k = ''lambda-runtime-invocation-id'' \<Longrightarrow> hm_get_all al_hmap (rq_headers req) k = [''inv'']"
    by simp
  from this [of "''Lambda-Runtime-Invocation-Id''"] have
    "hm_get_all al_hmap (rq_headers req) ''Lambda-Runtime-Invocation-Id'' = [''inv'']"
    by (simp add: lower_eval)
  with r show ?thesis by blast
qed

end
