(* ===== verification/Utf8.thy ===== *)
theory Utf8
  imports Numbers
begin

text \<open>
  UTF-8 as Rust's standard library checks it: \<^verbatim>\<open>std::str::from_utf8\<close> accepts a
  buffer exactly when \<open>valid_utf8\<close> holds, and \<^verbatim>\<open>String::from_utf8_lossy\<close>
  replaces every maximal ill-formed piece by U+FFFD.
\<close>

text \<open>A continuation byte.\<close>

definition cont :: "nat \<Rightarrow> bool" where
  "cont b \<longleftrightarrow> 0x80 \<le> b \<and> b \<le> 0xBF"

text \<open>The ranges of the second byte of three- and four-byte sequences.\<close>

definition second3 :: "nat \<Rightarrow> nat \<Rightarrow> bool" where
  "second3 a b \<longleftrightarrow>
     (a = 0xE0 \<and> 0xA0 \<le> b \<and> b \<le> 0xBF) \<or> (0xE1 \<le> a \<and> a \<le> 0xEC \<and> cont b) \<or>
     (a = 0xED \<and> 0x80 \<le> b \<and> b \<le> 0x9F) \<or> (0xEE \<le> a \<and> a \<le> 0xEF \<and> cont b)"

definition second4 :: "nat \<Rightarrow> nat \<Rightarrow> bool" where
  "second4 a b \<longleftrightarrow>
     (a = 0xF0 \<and> 0x90 \<le> b \<and> b \<le> 0xBF) \<or> (0xF1 \<le> a \<and> a \<le> 0xF3 \<and> cont b) \<or>
     (a = 0xF4 \<and> 0x80 \<le> b \<and> b \<le> 0x8F)"

text \<open>
  The first piece of a non-empty buffer: whether it is a character, and how many bytes it has.
\<close>

definition nth_byte :: "nat list \<Rightarrow> nat \<Rightarrow> nat" where
  "nth_byte bs i = (if i < length bs then bs ! i else 0)"

definition utf8_piece :: "nat list \<Rightarrow> bool \<times> nat" where
  "utf8_piece bs =
     (let a = nth_byte bs 0; b = nth_byte bs 1; c = nth_byte bs 2; d = nth_byte bs 3 in
      if a < 0x80 then (True, 1)
      else if 0xC2 \<le> a \<and> a \<le> 0xDF then (if cont b then (True, 2) else (False, 1))
      else if 0xE0 \<le> a \<and> a \<le> 0xEF then
        (if \<not> second3 a b then (False, 1) else if \<not> cont c then (False, 2) else (True, 3))
      else if 0xF0 \<le> a \<and> a \<le> 0xF4 then
        (if \<not> second4 a b then (False, 1) else if \<not> cont c then (False, 2)
         else if \<not> cont d then (False, 3) else (True, 4))
      else (False, 1))"

lemma utf8_piece_pos [simp]: "0 < snd (utf8_piece bs)"
  by (simp add: utf8_piece_def Let_def)

function valid_bytes :: "nat list \<Rightarrow> bool" where
  "valid_bytes bs =
     (if bs = [] then True
      else if fst (utf8_piece bs) then valid_bytes (drop (snd (utf8_piece bs)) bs) else False)"
  by auto
termination by (relation "measure length") (auto intro: diff_less)

function lossy_bytes :: "nat list \<Rightarrow> nat list" where
  "lossy_bytes bs =
     (if bs = [] then []
      else (if fst (utf8_piece bs) then take (snd (utf8_piece bs)) bs else [0xEF, 0xBF, 0xBD]) @
           lossy_bytes (drop (snd (utf8_piece bs)) bs))"
  by auto
termination by (relation "measure length") (auto intro: diff_less)

declare valid_bytes.simps [simp del] lossy_bytes.simps [simp del]

definition bytes_of :: "string \<Rightarrow> nat list" where
  "bytes_of s = map of_char s"

definition valid_utf8 :: "string \<Rightarrow> bool" where
  "valid_utf8 s = valid_bytes (bytes_of s)"

definition utf8_lossy :: "string \<Rightarrow> string" where
  "utf8_lossy s = map char_of (lossy_bytes (bytes_of s))"

lemma lossy_bytes_valid: "valid_bytes bs \<Longrightarrow> lossy_bytes bs = bs"
proof (induction bs rule: valid_bytes.induct)
  case (1 bs)
  show ?case
  proof (cases "bs = []")
    case True
    then show ?thesis by (simp add: lossy_bytes.simps)
  next
    case False
    have "fst (utf8_piece bs)" and "valid_bytes (drop (snd (utf8_piece bs)) bs)"
      using "1.prems" False by (subst (asm) valid_bytes.simps, simp split: if_splits)+
    with "1.IH" False show ?thesis by (subst lossy_bytes.simps) simp
  qed
qed

lemma utf8_lossy_valid: "valid_utf8 s \<Longrightarrow> utf8_lossy s = s"
  by (simp add: valid_utf8_def utf8_lossy_def lossy_bytes_valid bytes_of_def comp_def)

lemma valid_bytes_ascii: "\<forall>b \<in> set bs. b < 0x80 \<Longrightarrow> valid_bytes bs"
proof (induction bs)
  case Nil
  show ?case by (simp add: valid_bytes.simps)
next
  case (Cons b bs)
  then show ?case
    by (subst valid_bytes.simps) (simp add: utf8_piece_def nth_byte_def)
qed

lemma valid_utf8_ascii: "\<forall>c \<in> set s. (of_char c :: nat) < 0x80 \<Longrightarrow> valid_utf8 s"
  unfolding valid_utf8_def bytes_of_def by (rule valid_bytes_ascii) simp

lemma valid_utf8_Nil [simp]: "valid_utf8 []"
  by (simp add: valid_utf8_ascii)

text \<open>
  The text of \<^verbatim>\<open>Utf8Error\<close>: where the well-formed prefix ends, and whether the
  bytes that follow are ill-formed or only cut short.
\<close>

function utf8_error_bytes :: "nat \<Rightarrow> nat list \<Rightarrow> (nat \<times> nat option) option" where
  "utf8_error_bytes i bs =
     (if bs = [] then None
      else if fst (utf8_piece bs)
        then utf8_error_bytes (i + snd (utf8_piece bs)) (drop (snd (utf8_piece bs)) bs)
      else if snd (utf8_piece bs) = length bs \<and> 0xC2 \<le> hd bs \<and> hd bs \<le> 0xF4 then Some (i, None)
      else Some (i, Some (snd (utf8_piece bs))))"
  by auto
termination by (relation "measure (length \<circ> snd)") (auto intro: diff_less)

declare utf8_error_bytes.simps [simp del]

definition str_from_utf8 :: "string \<Rightarrow> (box_error, string) result" where
  "str_from_utf8 s =
     (case utf8_error_bytes 0 (bytes_of s) of
        None \<Rightarrow> Ok s
      | Some (i, Some n) \<Rightarrow>
          Err (BoxError (''invalid utf-8 sequence of '' @ show_nat n @ '' bytes from index '' @ show_nat i))
      | Some (i, None) \<Rightarrow> Err (BoxError (''incomplete utf-8 byte sequence from index '' @ show_nat i)))"

lemma utf8_error_bytes_None: "utf8_error_bytes i bs = None \<longleftrightarrow> valid_bytes bs"
proof (induction i bs rule: utf8_error_bytes.induct)
  case (1 i bs)
  show ?case
    by (subst utf8_error_bytes.simps, subst valid_bytes.simps) (use "1.IH" in simp)
qed

lemma str_from_utf8_is_ok: "is_ok (str_from_utf8 s) \<longleftrightarrow> valid_utf8 s"
  by (cases "utf8_error_bytes 0 (bytes_of s)")
    (auto simp: str_from_utf8_def valid_utf8_def utf8_error_bytes_None [of 0, symmetric] split: option.splits)

lemma str_from_utf8_valid [simp]: "valid_utf8 s \<Longrightarrow> str_from_utf8 s = Ok s"
  by (simp add: str_from_utf8_def valid_utf8_def utf8_error_bytes_None [of 0, symmetric])

lemma str_from_utf8_eq_Ok [result_simps]: "str_from_utf8 s = Ok t \<longleftrightarrow> t = s \<and> valid_utf8 s"
  by (auto simp: str_from_utf8_def valid_utf8_def utf8_error_bytes_None [of 0, symmetric] split: option.splits)

lemma str_from_utf8_no_panic [simp]: "str_from_utf8 s \<noteq> Panic p"
  by (auto simp: str_from_utf8_def split: option.splits)

end
