(* ===== verification/RtContext.thy ===== *)
theory RtContext
  imports RuntimeRequests Utf8
begin

text \<open>
  The context of an invocation (\<^verbatim>\<open>lambda-runtime/src/types.rs\<close>) and the configuration
  read from the environment (\<^verbatim>\<open>lambda-runtime/src/lib.rs\<close>): how the headers of the
  next-event response become a \<^verbatim>\<open>Context\<close>, which of them are required, and which
  malformed ones are errors or panics.
\<close>

subsection \<open>Data\<close>

record client_application =
  installation_id :: string
  app_title :: string
  app_version_name :: string
  app_version_code :: string
  app_package_name :: string

record client_context =
  cc_client :: client_application
  cc_custom :: "string \<Rightarrow> string option"
  cc_environment :: "string \<Rightarrow> string option"

record cognito_identity =
  identity_id :: string
  identity_pool_id :: string

record config =
  function_name :: string
  memory :: int
  version :: string
  log_stream :: string
  log_group :: string

record rt_context =
  cx_request_id :: string
  cx_deadline :: nat
  cx_invoked_function_arn :: string
  cx_xray_trace_id :: "string option"
  cx_client_context :: "client_context option"
  cx_identity :: "cognito_identity option"
  cx_tenant_id :: "string option"
  cx_env_config :: config

definition config_default :: config where
  "config_default = \<lparr>function_name = [], memory = 0, version = [], log_stream = [], log_group = []\<rparr>"

definition context_default :: rt_context where
  "context_default =
     \<lparr>cx_request_id = [], cx_deadline = 0, cx_invoked_function_arn = [], cx_xray_trace_id = None,
      cx_client_context = None, cx_identity = None, cx_tenant_id = None, cx_env_config = config_default\<rparr>"

subsection \<open>Configuration\<close>

definition env_expect :: "env \<Rightarrow> string \<Rightarrow> (box_error, string) result" where
  "env_expect e name = expect_some (''Missing '' @ name @ '' env var'') (e name)"

definition env_or_empty :: "env \<Rightarrow> string \<Rightarrow> string" where
  "env_or_empty e name = (case e name of Some v \<Rightarrow> v | None \<Rightarrow> [])"

definition config_from_env :: "env \<Rightarrow> (box_error, config) result" where
  "config_from_env e =
     and_then (env_expect e ''AWS_LAMBDA_FUNCTION_NAME'') (\<lambda>name.
     and_then (env_expect e ''AWS_LAMBDA_FUNCTION_MEMORY_SIZE'') (\<lambda>mem.
     and_then (expect_ok ''AWS_LAMBDA_FUNCTION_MEMORY_SIZE env var is not <i32>'' (parse_i32 mem)) (\<lambda>mem.
     and_then (env_expect e ''AWS_LAMBDA_FUNCTION_VERSION'') (\<lambda>ver.
     Ok \<lparr>function_name = name, memory = mem, version = ver,
         log_stream = env_or_empty e ''AWS_LAMBDA_LOG_STREAM_NAME'',
         log_group = env_or_empty e ''AWS_LAMBDA_LOG_GROUP_NAME''\<rparr>))))"

subsection \<open>Deserialising the client context and the Cognito identity\<close>

definition client_application_default :: client_application where
  "client_application_default =
     \<lparr>installation_id = [], app_title = [], app_version_name = [], app_version_code = [],
      app_package_name = []\<rparr>"

definition client_application_of_json :: "json \<Rightarrow> client_application option" where
  "client_application_of_json j =
     (case de_fields 5 [''installationId'', ''appTitle'', ''appVersionName'', ''appVersionCode'', ''appPackageName''] j of
        None \<Rightarrow> None
      | Some kvs \<Rightarrow>
          (case (de_required de_string [''installationId'', ''installation_id''] kvs,
                 de_required de_string [''appTitle'', ''app_title''] kvs,
                 de_required de_string [''appVersionName'', ''app_version_name''] kvs,
                 de_required de_string [''appVersionCode'', ''app_version_code''] kvs,
                 de_required de_string [''appPackageName'', ''app_package_name''] kvs) of
             (Some a, Some b, Some c, Some d, Some e) \<Rightarrow>
               Some \<lparr>installation_id = a, app_title = b, app_version_name = c, app_version_code = d,
                     app_package_name = e\<rparr>
           | _ \<Rightarrow> None))"

definition client_application_json :: "client_application \<Rightarrow> json" where
  "client_application_json a =
     JObj [(''installationId'', JStr (installation_id a)), (''appTitle'', JStr (app_title a)),
           (''appVersionName'', JStr (app_version_name a)), (''appVersionCode'', JStr (app_version_code a)),
           (''appPackageName'', JStr (app_package_name a))]"

definition client_context_of_json :: "json \<Rightarrow> client_context option" where
  "client_context_of_json j =
     (case de_fields 0 [''client'', ''custom'', ''environment''] j of
        None \<Rightarrow> None
      | Some kvs \<Rightarrow>
          (case (de_default client_application_of_json client_application_default [''client''] kvs,
                 de_default de_string_map Map.empty [''custom''] kvs,
                 de_default de_string_map Map.empty [''environment''] kvs) of
             (Some a, Some b, Some c) \<Rightarrow> Some \<lparr>cc_client = a, cc_custom = b, cc_environment = c\<rparr>
           | _ \<Rightarrow> None))"

definition cognito_identity_of_json :: "json \<Rightarrow> cognito_identity option" where
  "cognito_identity_of_json j =
     (case de_fields 2 [''identityId'', ''identityPoolId''] j of
        None \<Rightarrow> None
      | Some kvs \<Rightarrow>
          (case (de_required de_string [''identityId'', ''cognitoIdentityId'', ''identity_id''] kvs,
                 de_required de_string [''identityPoolId'', ''cognitoIdentityPoolId'', ''identity_pool_id''] kvs) of
             (Some a, Some b) \<Rightarrow> Some \<lparr>identity_id = a, identity_pool_id = b\<rparr>
           | _ \<Rightarrow> None))"

definition cognito_identity_json :: "cognito_identity \<Rightarrow> json" where
  "cognito_identity_json i =
     JObj [(''identityId'', JStr (identity_id i)), (''identityPoolId'', JStr (identity_pool_id i))]"

subsection \<open>Reading the headers\<close>

text \<open>An optional header that holds JSON: absent and empty values give nothing.\<close>

definition json_header ::
  "'h crates \<Rightarrow> (json \<Rightarrow> 'a option) \<Rightarrow> string \<Rightarrow> 'h \<Rightarrow> (box_error, 'a option) result" where
  "json_header C of_json name headers =
     (case hm_get (cr_hm C) headers name of
        None \<Rightarrow> Ok None
      | Some value \<Rightarrow>
          and_then (hv_to_str C value) (\<lambda>raw.
          if raw = [] then Ok None
          else and_then (cr_json_parse C raw) (\<lambda>j.
               map_ok Some (ok_or (cr_bad_json C j) (of_json j)))))"

definition deadline_header :: "'h crates \<Rightarrow> 'h \<Rightarrow> (box_error, nat) result" where
  "deadline_header C headers =
     and_then (expect_some ''missing lambda-runtime-deadline-ms header''
                 (hm_get (cr_hm C) headers ''lambda-runtime-deadline-ms'')) (\<lambda>v.
     and_then (hv_to_str C v) parse_u64)"

definition arn_header :: "'h crates \<Rightarrow> 'h \<Rightarrow> (box_error, string) result" where
  "arn_header C headers =
     hv_to_str C
       (case hm_get (cr_hm C) headers ''lambda-runtime-invoked-function-arn'' of
          Some v \<Rightarrow> v
        | None \<Rightarrow> ''No header lambda-runtime-invoked-function-arn found.'')"

definition lossy_header :: "'h crates \<Rightarrow> string \<Rightarrow> 'h \<Rightarrow> string option" where
  "lossy_header C name headers = map_option utf8_lossy (hm_get (cr_hm C) headers name)"

definition context_new ::
  "'h crates \<Rightarrow> string \<Rightarrow> config \<Rightarrow> 'h \<Rightarrow> (box_error, rt_context) result" where
  "context_new C request_id env_config headers =
     and_then (json_header C client_context_of_json ''lambda-runtime-client-context'' headers) (\<lambda>client_context.
     and_then (json_header C cognito_identity_of_json ''lambda-runtime-cognito-identity'' headers) (\<lambda>identity.
     and_then (deadline_header C headers) (\<lambda>deadline.
     and_then (arn_header C headers) (\<lambda>arn.
     Ok \<lparr>cx_request_id = request_id,
         cx_deadline = deadline,
         cx_invoked_function_arn = arn,
         cx_xray_trace_id = lossy_header C ''lambda-runtime-trace-id'' headers,
         cx_client_context = client_context,
         cx_identity = identity,
         cx_tenant_id = lossy_header C ''lambda-runtime-aws-tenant-id'' headers,
         cx_env_config = env_config\<rparr>))))"

text \<open>A \<^verbatim>\<open>SystemTime\<close> after the epoch: seconds and nanoseconds.\<close>

definition context_deadline :: "rt_context \<Rightarrow> nat \<times> nat" where
  "context_deadline cx = (cx_deadline cx div 1000, cx_deadline cx mod 1000 * 10 ^ 6)"

definition invoke_request_id :: "'h crates \<Rightarrow> 'h \<Rightarrow> (box_error, string) result" where
  "invoke_request_id C headers =
     and_then (expect_some ''missing lambda-runtime-aws-request-id header''
                 (hm_get (cr_hm C) headers ''lambda-runtime-aws-request-id'')) (hv_to_str C)"

record 'p lambda_event =
  le_payload :: 'p
  le_context :: rt_context

definition lambda_event_new :: "'p \<Rightarrow> rt_context \<Rightarrow> 'p lambda_event" where
  "lambda_event_new payload cx = \<lparr>le_payload = payload, le_context = cx\<rparr>"

definition lambda_event_into_parts :: "'p lambda_event \<Rightarrow> 'p \<times> rt_context" where
  "lambda_event_into_parts e = (le_payload e, le_context e)"

subsection \<open>Lemmas\<close>

lemma client_application_roundtrip [simp]:
  "client_application_of_json (client_application_json a) = Some a"
  by (simp add: client_application_of_json_def client_application_json_def json_simps)

lemma cognito_identity_roundtrip [simp]:
  "cognito_identity_of_json (cognito_identity_json i) = Some i"
  by (simp add: cognito_identity_of_json_def cognito_identity_json_def json_simps)

lemma json_header_no_panic:
  "(\<And>s p. cr_json_parse C s \<noteq> Panic p) \<Longrightarrow> json_header C f name headers \<noteq> Panic p"
  by (cases "hm_get (cr_hm C) headers name")
    (auto simp: json_header_def result_simps split: if_splits)

lemma deadline_header_eq_Panic:
  "deadline_header C headers = Panic p \<longleftrightarrow>
     hm_get (cr_hm C) headers ''lambda-runtime-deadline-ms'' = None \<and>
     p = PString ''missing lambda-runtime-deadline-ms header''"
  by (auto simp: deadline_header_def result_simps)

lemma arn_header_no_panic [simp]: "arn_header C headers \<noteq> Panic p"
  by (simp add: arn_header_def)

lemma context_new_eq_Ok:
  "context_new C rid cfg headers = Ok cx \<longleftrightarrow>
     (\<exists>cc i d a. json_header C client_context_of_json ''lambda-runtime-client-context'' headers = Ok cc \<and>
        json_header C cognito_identity_of_json ''lambda-runtime-cognito-identity'' headers = Ok i \<and>
        deadline_header C headers = Ok d \<and> arn_header C headers = Ok a \<and>
        cx = \<lparr>cx_request_id = rid, cx_deadline = d, cx_invoked_function_arn = a,
              cx_xray_trace_id = lossy_header C ''lambda-runtime-trace-id'' headers,
              cx_client_context = cc, cx_identity = i,
              cx_tenant_id = lossy_header C ''lambda-runtime-aws-tenant-id'' headers,
              cx_env_config = cfg\<rparr>)"
  by (auto simp: context_new_def result_simps)

lemma context_new_trace_id:
  "context_new C rid cfg headers = Ok cx \<Longrightarrow>
     cx_xray_trace_id cx = lossy_header C ''lambda-runtime-trace-id'' headers \<and> cx_request_id cx = rid"
  by (auto simp: context_new_eq_Ok)

lemma deadline_header_bound: "deadline_header C headers = Ok d \<Longrightarrow> d \<le> u64_max"
  by (auto simp: deadline_header_def result_simps dest: parse_u64_bound)

text \<open>With a JSON parser that does not panic, the deadline is the only header whose absence panics.\<close>

lemma context_new_eq_Panic:
  assumes "\<And>s p. cr_json_parse C s \<noteq> Panic p"
  shows "context_new C rid cfg headers = Panic p \<longleftrightarrow>
     is_ok (json_header C client_context_of_json ''lambda-runtime-client-context'' headers) \<and>
     is_ok (json_header C cognito_identity_of_json ''lambda-runtime-cognito-identity'' headers) \<and>
     hm_get (cr_hm C) headers ''lambda-runtime-deadline-ms'' = None \<and>
     p = PString ''missing lambda-runtime-deadline-ms header''"
  by (auto simp: context_new_def result_simps is_ok_iff deadline_header_eq_Panic
      json_header_no_panic [OF assms])

subsection \<open>Properties\<close>

text \<open>
  Reading the configuration from the environment never returns an error value: it returns the
  configuration exactly when name, memory size and version are set and the memory size is an
  \<^verbatim>\<open>i32\<close>, and panics otherwise; the log names default to the empty string.
\<close>

lemma config_from_env_total:
  "(\<forall>x. config_from_env e \<noteq> Err x) \<and>
   (is_ok (config_from_env e) =
      (\<exists>n m v. e ''AWS_LAMBDA_FUNCTION_NAME'' = Some n \<and> e ''AWS_LAMBDA_FUNCTION_MEMORY_SIZE'' = Some m \<and>
         is_ok (parse_i32 m) \<and> e ''AWS_LAMBDA_FUNCTION_VERSION'' = Some v)) \<and>
   (\<forall>c. config_from_env e = Ok c \<longrightarrow>
      e ''AWS_LAMBDA_FUNCTION_NAME'' = Some (function_name c) \<and>
      e ''AWS_LAMBDA_FUNCTION_VERSION'' = Some (version c) \<and>
      - (2 ^ 31) \<le> memory c \<and> memory c < 2 ^ 31 \<and>
      log_stream c = (case e ''AWS_LAMBDA_LOG_STREAM_NAME'' of None \<Rightarrow> [] | Some s \<Rightarrow> s) \<and>
      log_group c = (case e ''AWS_LAMBDA_LOG_GROUP_NAME'' of None \<Rightarrow> [] | Some s \<Rightarrow> s))"
proof (intro conjI allI impI)
  show "config_from_env e \<noteq> Err x" for x
    by (auto simp: config_from_env_def env_expect_def result_simps)
  show "is_ok (config_from_env e) =
      (\<exists>n m v. e ''AWS_LAMBDA_FUNCTION_NAME'' = Some n \<and> e ''AWS_LAMBDA_FUNCTION_MEMORY_SIZE'' = Some m \<and>
         is_ok (parse_i32 m) \<and> e ''AWS_LAMBDA_FUNCTION_VERSION'' = Some v)"
    by (auto simp: config_from_env_def env_expect_def result_simps is_ok_iff)
qed (auto simp: config_from_env_def env_expect_def env_or_empty_def result_simps
      dest: parse_i32_bound split: option.splits)

theorem config_from_env_total_witness:
  "\<not> is_ok (config_from_env [''AWS_LAMBDA_FUNCTION_NAME'' \<mapsto> ''f'', ''AWS_LAMBDA_FUNCTION_VERSION'' \<mapsto> ''1''])"
  by (subst conjunct1 [OF conjunct2 [OF config_from_env_total]]) simp

text \<open>
  A next-event response with a deadline that is an unsigned 64-bit number in ASCII and
  without client context or identity (absent, or empty) always gives a context: the deadline is
  that number, the request id the given one, trace and tenant ids are what the headers hold, and a
  missing function ARN is replaced by a fixed text.
\<close>

lemma context_new_reads_headers:
  assumes "d \<le> u64_max" and "hv_visible (cr_hm C) (show_nat d)"
    and "hm_get (cr_hm C) headers ''lambda-runtime-deadline-ms'' = Some (show_nat d)"
    and "hv_visible (cr_hm C) []"
    and "hm_get (cr_hm C) headers ''lambda-runtime-client-context'' \<in> {None, Some []}"
    and "hm_get (cr_hm C) headers ''lambda-runtime-cognito-identity'' \<in> {None, Some []}"
    and "hv_visible (cr_hm C) arn"
    and "arn = (case hm_get (cr_hm C) headers ''lambda-runtime-invoked-function-arn'' of
                  None \<Rightarrow> ''No header lambda-runtime-invoked-function-arn found.'' | Some a \<Rightarrow> a)"
    and "\<forall>t. hm_get (cr_hm C) headers ''lambda-runtime-trace-id'' = Some t \<longrightarrow> valid_utf8 t"
    and "\<forall>t. hm_get (cr_hm C) headers ''lambda-runtime-aws-tenant-id'' = Some t \<longrightarrow> valid_utf8 t"
  shows "context_new C rid cfg headers =
     Ok \<lparr>cx_request_id = rid, cx_deadline = d, cx_invoked_function_arn = arn,
         cx_xray_trace_id = hm_get (cr_hm C) headers ''lambda-runtime-trace-id'',
         cx_client_context = None, cx_identity = None,
         cx_tenant_id = hm_get (cr_hm C) headers ''lambda-runtime-aws-tenant-id'',
         cx_env_config = cfg\<rparr>"
proof -
  have json: "json_header C f name headers = Ok None"
    if "hm_get (cr_hm C) headers name \<in> {None, Some []}" for f :: "json \<Rightarrow> 'x option" and name
    using that assms(4) by (auto simp: json_header_def hv_to_str_def)
  have deadline: "deadline_header C headers = Ok d"
    using assms(1-3) by (simp add: deadline_header_def hv_to_str_def parse_u64_show)
  have arn: "arn_header C headers = Ok arn"
    using assms(7,8) by (simp add: arn_header_def hv_to_str_def)
  have lossy: "lossy_header C name headers = hm_get (cr_hm C) headers name"
    if "\<forall>t. hm_get (cr_hm C) headers name = Some t \<longrightarrow> valid_utf8 t" for name
    using that by (cases "hm_get (cr_hm C) headers name") (simp_all add: lossy_header_def utf8_lossy_valid)
  show ?thesis
    by (simp add: context_new_def json [OF assms(5)] json [OF assms(6)] deadline arn
        lossy [OF assms(9)] lossy [OF assms(10)])
qed

theorem context_new_reads_headers_witness:
  "context_new ref_crates ''r1'' config_default
     [(''lambda-runtime-deadline-ms'', ''1542409706888''), (''lambda-runtime-trace-id'', ''Root=1''),
      (''lambda-runtime-client-context'', [])] =
   Ok (context_default\<lparr>cx_request_id := ''r1'', cx_deadline := 1542409706888,
        cx_invoked_function_arn := ''No header lambda-runtime-invoked-function-arn found.'',
        cx_xray_trace_id := Some ''Root=1''\<rparr>)"
proof -
  let ?h = "[(''lambda-runtime-deadline-ms'', ''1542409706888''), (''lambda-runtime-trace-id'', ''Root=1''),
      (''lambda-runtime-client-context'', [])] :: headers"
  have s: "show_nat 1542409706888 = ''1542409706888''"
    by (simp add: show_nat.simps digit_char_def char_of_def bit_0)
  have names: "lower ''lambda-runtime-deadline-ms'' = ''lambda-runtime-deadline-ms''"
    "lower ''lambda-runtime-trace-id'' = ''lambda-runtime-trace-id''"
    "lower ''lambda-runtime-client-context'' = ''lambda-runtime-client-context''"
    "lower ''lambda-runtime-cognito-identity'' = ''lambda-runtime-cognito-identity''"
    "lower ''lambda-runtime-invoked-function-arn'' = ''lambda-runtime-invoked-function-arn''"
    "lower ''lambda-runtime-aws-tenant-id'' = ''lambda-runtime-aws-tenant-id''"
    by (simp_all add: lower_eval)
  show ?thesis
    by (subst context_new_reads_headers [where d = 1542409706888
          and arn = "''No header lambda-runtime-invoked-function-arn found.''"])
      (simp_all add: s names hm_get_def al_hmap_def visible_ascii_def u64_max_def valid_utf8_ascii
        context_default_def)
qed

text \<open>
  The deadline of a context made from headers, as a point in time, is within the range of
  \<^verbatim>\<open>SystemTime\<close> (its seconds are below \<open>2 ^ 63\<close>, so the addition to the epoch
  does not overflow), and no part of the milliseconds is lost.
\<close>

lemma context_deadline_in_range:
  assumes "context_new C rid cfg headers = Ok cx" and "context_deadline cx = (secs, nanos)"
  shows "secs < 2 ^ 63 \<and> nanos < 10 ^ 9 \<and> 1000 * secs + nanos div 10 ^ 6 = cx_deadline cx \<and>
         nanos mod 10 ^ 6 = 0"
proof -
  have "cx_deadline cx \<le> u64_max"
    using assms(1) by (auto simp: context_new_eq_Ok dest: deadline_header_bound)
  moreover have "secs = cx_deadline cx div 1000" and "nanos = cx_deadline cx mod 1000 * 10 ^ 6"
    using assms(2) by (simp_all add: context_deadline_def)
  ultimately show ?thesis
    by (simp add: u64_max_def)
qed

theorem context_deadline_in_range_witness:
  "context_deadline (context_default\<lparr>cx_deadline := 1999\<rparr>) = (1, 999000000)
   \<and> (1::nat) < 2 ^ 63"
proof -
  let ?h = "[(''lambda-runtime-deadline-ms'', ''1999'')] :: headers"
  have names: "lower ''lambda-runtime-deadline-ms'' = ''lambda-runtime-deadline-ms''"
    "lower ''lambda-runtime-trace-id'' = ''lambda-runtime-trace-id''"
    "lower ''lambda-runtime-client-context'' = ''lambda-runtime-client-context''"
    "lower ''lambda-runtime-cognito-identity'' = ''lambda-runtime-cognito-identity''"
    "lower ''lambda-runtime-invoked-function-arn'' = ''lambda-runtime-invoked-function-arn''"
    "lower ''lambda-runtime-aws-tenant-id'' = ''lambda-runtime-aws-tenant-id''"
    by (simp_all add: lower_eval)
  have "context_new ref_crates [] config_default ?h =
    Ok (context_default\<lparr>cx_deadline := 1999,
         cx_invoked_function_arn := ''No header lambda-runtime-invoked-function-arn found.''\<rparr>)"
    by (simp add: context_new_def json_header_def deadline_header_def arn_header_def lossy_header_def
        hm_get_def hv_to_str_def al_hmap_def names visible_ascii_def parse_u64_def parse_unsigned_def
        digit_val_def u64_max_def context_default_def)
  from context_deadline_in_range [OF this, of 1 999000000] show ?thesis
    by (simp add: context_deadline_def)
qed

end
