(* ===== verification/RateLimiter.thy ===== *)
theory RateLimiter
  imports Numbers
begin

text \<open>
  The call-site rate limiter (\<^verbatim>\<open>lambda-runtime/src/rate_limiter.rs\<close>): the macro
  \<^verbatim>\<open>rate_limited!\<close> as one thread runs it alone, and as any number of threads run it
  interleaved, with the load and the compare-and-exchange of the shared counter as separate
  steps. Times and intervals are durations in nanoseconds.
\<close>

definition as_secs :: "nat \<Rightarrow> nat" where
  "as_secs d = d div 10 ^ 9"

definition duration_max :: nat where
  "duration_max = u64_max * 10 ^ 9 + 999999999"

definition checked_add :: "nat \<Rightarrow> nat \<Rightarrow> nat option" where
  "checked_add a b = (if a + b \<le> duration_max then Some (a + b) else None)"

definition new_next :: "nat \<Rightarrow> nat \<Rightarrow> nat" where
  "new_next interval time =
     as_secs (case checked_add time interval of Some d \<Rightarrow> d | None \<Rightarrow> duration_max)"

text \<open>One evaluation without interference: whether the call is made, and the counter after it.\<close>

definition rate_limited :: "nat \<Rightarrow> nat \<Rightarrow> nat \<Rightarrow> bool \<times> nat" where
  "rate_limited interval time next =
     (if next \<le> as_secs time then (True, new_next interval time) else (False, next))"

subsection \<open>Interleaved evaluations\<close>

text \<open>
  A thread has read the clock, has read the counter, or is not evaluating the macro. The clock
  does not go backwards. \<open>rl_calls\<close> holds the clock readings of the calls made so far,
  the latest first.
\<close>

datatype pc = Idle | GotTime nat | GotNext nat nat

record rl_state =
  rl_now :: nat
  rl_counter :: nat
  rl_pc :: "nat \<Rightarrow> pc"
  rl_calls :: "nat list"

definition rl_init :: rl_state where
  "rl_init = \<lparr>rl_now = 0, rl_counter = 0, rl_pc = (\<lambda>_. Idle), rl_calls = []\<rparr>"

inductive rl_step :: "nat \<Rightarrow> rl_state \<Rightarrow> rl_state \<Rightarrow> bool" for interval where
  tick: "rl_now s \<le> t \<Longrightarrow> rl_step interval s (s\<lparr>rl_now := t\<rparr>)"
| read_time: "rl_pc s i = Idle \<Longrightarrow>
    rl_step interval s (s\<lparr>rl_pc := (rl_pc s)(i := GotTime (rl_now s))\<rparr>)"
| load: "rl_pc s i = GotTime t \<Longrightarrow>
    rl_step interval s (s\<lparr>rl_pc := (rl_pc s)(i := GotNext t (rl_counter s))\<rparr>)"
| too_early: "rl_pc s i = GotNext t n \<Longrightarrow> \<not> n \<le> as_secs t \<Longrightarrow>
    rl_step interval s (s\<lparr>rl_pc := (rl_pc s)(i := Idle)\<rparr>)"
| cas_ok: "rl_pc s i = GotNext t n \<Longrightarrow> n \<le> as_secs t \<Longrightarrow> rl_counter s = n \<Longrightarrow>
    rl_step interval s
      (s\<lparr>rl_pc := (rl_pc s)(i := Idle), rl_counter := new_next interval t, rl_calls := t # rl_calls s\<rparr>)"
| cas_fail: "rl_pc s i = GotNext t n \<Longrightarrow> n \<le> as_secs t \<Longrightarrow> rl_counter s \<noteq> n \<Longrightarrow>
    rl_step interval s (s\<lparr>rl_pc := (rl_pc s)(i := Idle)\<rparr>)"

inductive_cases rl_stepE: "rl_step interval s s'"

inductive rl_reach :: "nat \<Rightarrow> rl_state \<Rightarrow> bool" for interval where
  rl_start: "rl_reach interval rl_init"
| rl_next: "rl_reach interval s \<Longrightarrow> rl_step interval s s' \<Longrightarrow> rl_reach interval s'"

text \<open>The counter is the one the last call stored, and every call was late enough for the one before it.\<close>

fun spaced :: "nat \<Rightarrow> nat list \<Rightarrow> bool" where
  "spaced interval (t2 # t1 # ts) \<longleftrightarrow> new_next interval t1 \<le> as_secs t2 \<and> spaced interval (t1 # ts)"
| "spaced interval _ \<longleftrightarrow> True"

definition rl_inv :: "nat \<Rightarrow> rl_state \<Rightarrow> bool" where
  "rl_inv interval s \<longleftrightarrow>
     rl_counter s = (case rl_calls s of [] \<Rightarrow> 0 | t # _ \<Rightarrow> new_next interval t) \<and>
     spaced interval (rl_calls s)"

lemma rl_inv_step: "rl_step interval s s' \<Longrightarrow> rl_inv interval s \<Longrightarrow> rl_inv interval s'"
  by (erule rl_stepE) (auto simp: rl_inv_def split: list.splits)

lemma rl_reach_inv: "rl_reach interval s \<Longrightarrow> rl_inv interval s"
  by (induction rule: rl_reach.induct) (auto simp: rl_init_def intro: rl_inv_step, simp add: rl_inv_def)

lemma as_secs_mono: "a \<le> b \<Longrightarrow> as_secs a \<le> as_secs b"
  by (simp add: as_secs_def div_le_mono)

lemma new_next_ge: "t \<le> duration_max \<Longrightarrow> as_secs t \<le> new_next interval t"
  by (auto simp: new_next_def checked_add_def intro: as_secs_mono)

text \<open>
  The clock returns durations, which are at most \<open>duration_max\<close>: then the distance
  holds between any two calls, not only consecutive ones.
\<close>

lemma spaced_later:
  "spaced interval ts \<Longrightarrow> (\<And>t. t \<in> set ts \<Longrightarrow> t \<le> duration_max) \<Longrightarrow> i < j \<Longrightarrow> j < length ts \<Longrightarrow>
     new_next interval (ts ! j) \<le> as_secs (ts ! i)"
proof (induction interval ts arbitrary: i j rule: spaced.induct)
  case (1 interval t2 t1 ts)
  have spaced: "spaced interval (t1 # ts)" and le: "new_next interval t1 \<le> as_secs t2"
    using "1.prems"(1) by auto
  show ?case
  proof (cases i)
    case (Suc i')
    with "1.prems" "1.IH" [OF spaced, of i' "j - 1"] show ?thesis by (cases j) auto
  next
    case 0
    show ?thesis
    proof (cases "j = 1")
      case True
      with 0 le show ?thesis by simp
    next
      case False
      with 0 "1.prems" have "new_next interval ((t1 # ts) ! (j - 1)) \<le> as_secs ((t1 # ts) ! 0)"
        by (intro "1.IH" [OF spaced]) auto
      also have "\<dots> \<le> as_secs t2"
        using new_next_ge [of t1 interval] le "1.prems"(2) [of t1] by simp
      finally show ?thesis using 0 "1.prems"(3) by (cases j) auto
    qed
  qed
qed auto

lemma new_next_distance:
  assumes "new_next interval t1 \<le> as_secs t2" and "t1 + interval \<le> duration_max"
  shows "t1 + interval < t2 + 10 ^ 9"
proof -
  have "(t1 + interval) div 10 ^ 9 \<le> t2 div 10 ^ 9"
    using assms by (simp add: new_next_def checked_add_def as_secs_def)
  then have "(t1 + interval) div 10 ^ 9 * 10 ^ 9 \<le> t2 div 10 ^ 9 * 10 ^ 9"
    by simp
  then show ?thesis
    using div_mult_mod_eq [of "t1 + interval" "10 ^ 9"] div_mult_mod_eq [of t2 "10 ^ 9"]
      mod_less_divisor [of "10 ^ 9" "t1 + interval"] by simp
qed

lemma rl_inv_spaced: "rl_inv interval s \<Longrightarrow> spaced interval (rl_calls s)"
  by (simp add: rl_inv_def)

text \<open>The sequential definition is what one thread does when nothing comes between its steps.\<close>

lemma rate_limited_runs:
  assumes "rl_reach interval s" and "rl_pc s i = Idle"
  shows "rl_reach interval
     (s\<lparr>rl_counter := snd (rate_limited interval (rl_now s) (rl_counter s)),
        rl_calls := (if fst (rate_limited interval (rl_now s) (rl_counter s)) then [rl_now s] else []) @ rl_calls s\<rparr>)"
proof -
  let ?s1 = "s\<lparr>rl_pc := (rl_pc s)(i := GotTime (rl_now s))\<rparr>"
  let ?s2 = "?s1\<lparr>rl_pc := (rl_pc ?s1)(i := GotNext (rl_now s) (rl_counter ?s1))\<rparr>"
  have 1: "rl_reach interval ?s2"
    by (rule rl_reach.rl_next [OF rl_reach.rl_next [OF assms(1) rl_step.read_time [OF assms(2)]] rl_step.load]) simp
  have idle: "(rl_pc s)(i := Idle) = rl_pc s"
    using assms(2) by auto
  show ?thesis
  proof (cases "rl_counter s \<le> as_secs (rl_now s)")
    case True
    have "rl_reach interval (?s2\<lparr>rl_pc := (rl_pc ?s2)(i := Idle),
        rl_counter := new_next interval (rl_now s), rl_calls := rl_now s # rl_calls ?s2\<rparr>)"
      by (rule rl_reach.rl_next [OF 1 rl_step.cas_ok [where n = "rl_counter s"]]) (simp_all add: True)
    with True idle show ?thesis by (simp add: rate_limited_def)
  next
    case False
    have "rl_reach interval (?s2\<lparr>rl_pc := (rl_pc ?s2)(i := Idle)\<rparr>)"
      by (rule rl_reach.rl_next [OF 1 rl_step.too_early [where n = "rl_counter s"]]) (use False in simp_all)
    then show ?thesis using False idle by (simp add: rate_limited_def)
  qed
qed

subsection \<open>Properties\<close>

text \<open>
  C35: however the threads that evaluate the rate limiter at one call site interleave, any two of
  the calls it lets through are more than the interval less one second apart.
\<close>

theorem rate_limited_spacing:
  assumes "rl_reach interval s" and "i < j" and "j < length (rl_calls s)"
    and "\<forall>t \<in> set (rl_calls s). t + interval \<le> duration_max"
  shows "rl_calls s ! j + interval < rl_calls s ! i + 10 ^ 9"
proof (rule new_next_distance)
  show "rl_calls s ! j + interval \<le> duration_max"
    using assms(3,4) by simp
  show "new_next interval (rl_calls s ! j) \<le> as_secs (rl_calls s ! i)"
    using assms(4) by (intro spaced_later [OF rl_inv_spaced [OF rl_reach_inv [OF assms(1)]] _ assms(2,3)])
      (fastforce dest: add_leD1)
qed

lemma rl_reach_example:
  "rl_reach 60000000000
     \<lparr>rl_now = 60000000000, rl_counter = 120, rl_pc = (\<lambda>_. Idle), rl_calls = [60000000000, 999000000]\<rparr>"
proof -
  let ?i = "60000000000 :: nat"
  have t: "rl_step ?i s s'" if "rl_now s \<le> t" and "s' = s\<lparr>rl_now := t\<rparr>" for s s' t
    using rl_step.tick [of s t ?i] that by simp
  have c: "rl_reach ?i s'" if s: "rl_reach ?i s" and idle: "rl_pc s = (\<lambda>_. Idle)"
      and "rl_counter s \<le> as_secs (rl_now s)"
      and "s' = s\<lparr>rl_counter := new_next ?i (rl_now s), rl_calls := rl_now s # rl_calls s\<rparr>" for s s'
    using rate_limited_runs [OF s, of 0] that by (simp add: rate_limited_def)
  have "rl_reach ?i \<lparr>rl_now = 999000000, rl_counter = 0, rl_pc = (\<lambda>_. Idle), rl_calls = []\<rparr>"
    by (rule rl_reach.rl_next [OF rl_reach.rl_start]) (rule t [of _ 999000000]; simp add: rl_init_def)
  then have "rl_reach ?i \<lparr>rl_now = 999000000, rl_counter = 60, rl_pc = (\<lambda>_. Idle), rl_calls = [999000000]\<rparr>"
    by (rule c) (simp_all add: as_secs_def new_next_def checked_add_def duration_max_def u64_max_def)
  then have "rl_reach ?i \<lparr>rl_now = 60000000000, rl_counter = 60, rl_pc = (\<lambda>_. Idle), rl_calls = [999000000]\<rparr>"
    by (rule rl_reach.rl_next) (rule t [of _ 60000000000]; simp)
  then show ?thesis
    by (rule c) (simp_all add: as_secs_def new_next_def checked_add_def duration_max_def u64_max_def)
qed

theorem rate_limited_spacing_witness:
  "(999000000::nat) + 60000000000 < 60000000000 + 10 ^ 9"
  using rate_limited_spacing [OF rl_reach_example, of 0 1]
  by (simp add: duration_max_def u64_max_def)

text \<open>
  The second the bound leaves is real: a run with an interval of 60 seconds lets two calls
  through that are 59.001 seconds apart, because times are cut to whole seconds.
\<close>

lemma rate_limited_early_call:
  "\<exists>s t1 t2. rl_reach (60 * 10 ^ 9) s \<and> rl_calls s = [t2, t1] \<and> t2 - t1 = 59001000000"
  using rl_reach_example
  by (intro exI [of _ "\<lparr>rl_now = 60000000000, rl_counter = 120, rl_pc = (\<lambda>_. Idle),
        rl_calls = [60000000000, 999000000]\<rparr>"]) auto

text \<open>
  The first evaluation in a process makes the call, and an evaluation a whole interval after
  the last call makes it again.
\<close>

lemma rate_limited_first [simp]: "fst (rate_limited interval time 0)"
  by (simp add: rate_limited_def)

lemma rate_limited_again:
  "t1 + interval \<le> t2 \<Longrightarrow> t2 \<le> duration_max \<Longrightarrow>
     fst (rate_limited interval t2 (snd (rate_limited interval t1 0)))"
  by (auto simp: rate_limited_def new_next_def checked_add_def intro!: as_secs_mono)

end
