(* ===== verification/Layers.thy ===== *)
theory Layers
  imports RtContext RateLimiter
begin

text \<open>
  The services the runtime wraps around a handler (\<^verbatim>\<open>lambda-runtime/src/layers\<close> and
  \<^verbatim>\<open>deserializer.rs\<close>): catching panics, turning an invocation into an event and the
  outcome of the handler into a request, sending that request, and the tracing layers.
\<close>

subsection \<open>Services\<close>

text \<open>
  A \<^verbatim>\<open>tower::Service\<close> acts on a state \<open>'w\<close>. Awaiting \<^verbatim>\<open>ready\<close> may
  change the state and fail. \<^verbatim>\<open>call\<close> runs user code at once, so it may panic, and
  returns a future; \<open>sv_await\<close> is the outcome of polling that future until it is ready.
\<close>

record ('w, 'f, 'req, 'e, 'r) service =
  sv_ready :: "'w \<Rightarrow> ('e, unit) result \<times> 'w"
  sv_call :: "'req \<Rightarrow> 'w \<Rightarrow> (panic_payload + 'f) \<times> 'w"
  sv_await :: "'f \<Rightarrow> 'w \<Rightarrow> ('e, 'r) result \<times> 'w"

text \<open>What a caller does that awaits the future at once.\<close>

definition sv_oneshot :: "('w, 'f, 'req, 'e, 'r) service \<Rightarrow> 'req \<Rightarrow> 'w \<Rightarrow> ('e, 'r) result \<times> 'w" where
  "sv_oneshot S req w =
     (case sv_call S req w of
        (Inl p, w1) \<Rightarrow> (Panic p, w1)
      | (Inr fut, w1) \<Rightarrow> sv_await S fut w1)"

subsection \<open>Catching panics\<close>

datatype 'f catch_panic_future = CpFuture 'f | CpError panic_payload

definition build_panic_diagnostic :: "(string \<Rightarrow> string) \<Rightarrow> panic_payload \<Rightarrow> diagnostic" where
  "build_panic_diagnostic tn err =
     \<lparr>error_type = tn ''&Box<dyn Any + Send>'',
      error_message =
        (case err of
           PStr msg \<Rightarrow> ''Lambda panicked: '' @ msg
         | PString msg \<Rightarrow> ''Lambda panicked: '' @ msg
         | POther \<Rightarrow> ''Lambda panicked'')\<rparr>"

definition catch_panic ::
  "(string \<Rightarrow> string) \<Rightarrow> ('e \<Rightarrow> diagnostic) \<Rightarrow> ('w, 'f, 'req, 'e, 'r) service
   \<Rightarrow> ('w, 'f catch_panic_future, 'req, diagnostic, 'r) service" where
  "catch_panic tn into inner =
     \<lparr>sv_ready = (\<lambda>w. case sv_ready inner w of (r, w1) \<Rightarrow> (map_err into r, w1)),
      sv_call = (\<lambda>req w.
        case sv_call inner req w of
          (Inr task, w1) \<Rightarrow> (Inr (CpFuture task), w1)
        | (Inl err, w1) \<Rightarrow> (Inr (CpError err), w1)),
      sv_await = (\<lambda>fut w.
        case fut of
          CpFuture f \<Rightarrow>
            (case sv_await inner f w of
               (Ok success, w1) \<Rightarrow> (Ok success, w1)
             | (Err e, w1) \<Rightarrow> (Err (into e), w1)
             | (Panic err, w1) \<Rightarrow> (Err (build_panic_diagnostic tn err), w1))
        | CpError err \<Rightarrow> (Err (build_panic_diagnostic tn err), w))\<rparr>"

subsection \<open>Deserialising the payload\<close>

text \<open>
  An error of \<^verbatim>\<open>serde_path_to_error\<close>: the path it names and what it displays. The
  deserialiser of the payload type is a parameter.
\<close>

record de_error =
  de_path :: string
  de_display :: string

definition error_context :: string where
  "error_context = ''failed to deserialize the incoming data into the function's payload type''"

definition deserialize_error_display :: "de_error \<Rightarrow> string" where
  "deserialize_error_display e =
     (if de_path e = ''.'' then error_context @ '': '' @ de_display e @ [CHR 0x0A]
      else error_context @ '': ['' @ de_path e @ ''] '' @ de_display e @ [CHR 0x0A])"

definition deserialize ::
  "(string \<Rightarrow> (de_error, 'p) result) \<Rightarrow> string \<Rightarrow> rt_context \<Rightarrow> (de_error, 'p lambda_event) result" where
  "deserialize de body cx = map_ok (\<lambda>payload. lambda_event_new payload cx) (de body)"

subsection \<open>From an invocation to a request\<close>

record 'h lambda_invocation =
  li_status :: nat
  li_headers :: 'h
  li_body :: string
  li_context :: rt_context

text \<open>
  What the response service depends on beside its inner service: whether debug assertions are
  compiled in, whether tracing at the most detailed level is on, the printed names of types, the
  user agent, how much of a streamed body the receiver takes, and the payload's deserialiser.
\<close>

record 'p response_env =
  re_debug :: bool
  re_trace :: bool
  re_type_name :: "string \<Rightarrow> string"
  re_user_agent :: string
  re_room :: "nat option"
  re_deserialize :: "string \<Rightarrow> (de_error, 'p) result"

text \<open>
  The state of the layer: the inner service's state, the counter of the rate limiter at the
  call site of the warning about a malformed invocation id, the clock, and the number of
  warnings logged.
\<close>

record 'w response_world =
  rw_inner :: 'w
  rw_next_call :: nat
  rw_clock :: nat
  rw_warnings :: nat

datatype ('h, 'f) response_future =
    RrFuture 'f string "string option"
  | RrReady "(box_error, 'h http_request) result"

definition warn_malformed_id :: "'w response_world \<Rightarrow> 'w response_world" where
  "warn_malformed_id w =
     (case rate_limited (60 * 10 ^ 9) (rw_clock w) (rw_next_call w) of
        (call, n) \<Rightarrow> w\<lparr>rw_next_call := n, rw_warnings := rw_warnings w + (if call then 1 else 0)\<rparr>)"

definition read_invocation_id ::
  "'h crates \<Rightarrow> 'h \<Rightarrow> 'w response_world \<Rightarrow> string option \<times> 'w response_world" where
  "read_invocation_id C headers w =
     (case hm_get (cr_hm C) headers invocation_id_header of
        Some value \<Rightarrow>
          (case hv_to_str C value of
             Ok value \<Rightarrow> (Some value, w)
           | _ \<Rightarrow> (None, warn_malformed_id w))
      | None \<Rightarrow> (None, w))"

definition build_event_error_request ::
  "'h crates \<Rightarrow> 'p response_env \<Rightarrow> string \<Rightarrow> string option \<Rightarrow> de_error \<Rightarrow> 'h builder" where
  "build_event_error_request C E request_id invocation_id err =
     event_error_req C (re_user_agent E) request_id invocation_id
       (diagnostic_from (re_type_name E) (DeserializeErr (deserialize_error_display err)))"

definition trace_event :: "'p response_env \<Rightarrow> string \<Rightarrow> (box_error, unit) result" where
  "trace_event E body = (if re_trace E then map_ok (\<lambda>_. ()) (str_from_utf8 body) else Ok ())"

definition response_call ::
  "'h crates \<Rightarrow> 'p response_env \<Rightarrow> ('w, 'f, 'p lambda_event, diagnostic, 'h function_response) service
   \<Rightarrow> 'h lambda_invocation \<Rightarrow> 'w response_world
   \<Rightarrow> (panic_payload + ('h, 'f) response_future) \<times> 'w response_world" where
  "response_call C E inner req w =
     (if re_debug E \<and> cr_is_server_error C (li_status req)
      then (Inr (RrReady (Err (BoxError (cr_status_text C (li_status req))))), w)
      else
        (case trace_event E (li_body req) of
           Err err \<Rightarrow> (Inr (RrReady (Err err)), w)
         | Panic p \<Rightarrow> (Inl p, w)
         | Ok _ \<Rightarrow>
             (let request_id = cx_request_id (li_context req) in
              case read_invocation_id C (li_headers req) w of
                (invocation_id, w1) \<Rightarrow>
                  (case deserialize (re_deserialize E) (li_body req) (li_context req) of
                     Err err \<Rightarrow>
                       (case build_event_error_request C E request_id invocation_id err of
                          Panic p \<Rightarrow> (Inl p, w1)
                        | r \<Rightarrow> (Inr (RrReady r), w1))
                   | Panic p \<Rightarrow> (Inl p, w1)
                   | Ok lambda_event \<Rightarrow>
                       (case sv_call inner lambda_event (rw_inner w1) of
                          (Inl p, v) \<Rightarrow> (Inl p, w1\<lparr>rw_inner := v\<rparr>)
                        | (Inr fut, v) \<Rightarrow>
                            (Inr (RrFuture fut request_id invocation_id), w1\<lparr>rw_inner := v\<rparr>))))))"

definition response_await ::
  "'h crates \<Rightarrow> 'p response_env \<Rightarrow> ('w, 'f, 'p lambda_event, diagnostic, 'h function_response) service
   \<Rightarrow> ('h, 'f) response_future \<Rightarrow> 'w response_world
   \<Rightarrow> (box_error, 'h http_request) result \<times> 'w response_world" where
  "response_await C E inner fut w =
     (case fut of
        RrFuture f request_id invocation_id \<Rightarrow>
          (case sv_await inner f (rw_inner w) of
             (Ok ok, v) \<Rightarrow>
               (completion_req C (re_user_agent E) (re_room E) request_id invocation_id ok, w\<lparr>rw_inner := v\<rparr>)
           | (Err err, v) \<Rightarrow>
               (event_error_req C (re_user_agent E) request_id invocation_id err, w\<lparr>rw_inner := v\<rparr>)
           | (Panic p, v) \<Rightarrow> (Panic p, w\<lparr>rw_inner := v\<rparr>))
      | RrReady ready \<Rightarrow> (ready, w))"

definition response_service ::
  "'h crates \<Rightarrow> 'p response_env \<Rightarrow> ('w, 'f, 'p lambda_event, diagnostic, 'h function_response) service
   \<Rightarrow> ('w response_world, ('h, 'f) response_future, 'h lambda_invocation, box_error, 'h http_request) service" where
  "response_service C E inner =
     \<lparr>sv_ready = (\<lambda>w.
        case sv_ready inner (rw_inner w) of
          (r, v) \<Rightarrow> (map_err (\<lambda>err. BoxError (error_type err @ '': '' @ error_message err)) r, w\<lparr>rw_inner := v\<rparr>)),
      sv_call = response_call C E inner,
      sv_await = response_await C E inner\<rparr>"

subsection \<open>Sending the request\<close>

text \<open>
  \<open>api\<close> is the client's \<^verbatim>\<open>call\<close> (\<^verbatim>\<open>RuntimeApiClient\<close>), awaited. The state is the
  inner service's and the client's.
\<close>

type_synonym ('h, 'c) api = "'h http_request \<Rightarrow> 'c \<Rightarrow> (box_error, 'h http_response) result \<times> 'c"

definition client_service ::
  "'h crates \<Rightarrow> ('h, 'c) api \<Rightarrow> ('w, 'f, 'req, box_error, 'h http_request) service
   \<Rightarrow> ('w \<times> 'c, 'f, 'req, box_error, unit) service" where
  "client_service C api inner =
     \<lparr>sv_ready = (\<lambda>(w, c). case sv_ready inner w of (r, w1) \<Rightarrow> (r, (w1, c))),
      sv_call = (\<lambda>req (w, c). case sv_call inner req w of (r, w1) \<Rightarrow> (r, (w1, c))),
      sv_await = (\<lambda>fut (w, c).
        case sv_await inner fut w of
          (Err err, w1) \<Rightarrow> (Err err, (w1, c))
        | (Panic p, w1) \<Rightarrow> (Panic p, (w1, c))
        | (Ok req, w1) \<Rightarrow>
            (case api req c of
               (Err err, c1) \<Rightarrow> (Err err, (w1, c1))
             | (Panic p, c1) \<Rightarrow> (Panic p, (w1, c1))
             | (Ok resp, c1) \<Rightarrow>
                 if \<not> cr_is_success C (rs_status resp) then (Ok (), (w1, c1)) else (Ok (), (w1, c1))))\<rparr>"

text \<open>The whole stack (\<^verbatim>\<open>wrap_handler\<close>).\<close>

definition wrap_handler ::
  "'h crates \<Rightarrow> 'p response_env \<Rightarrow> ('h, 'c) api \<Rightarrow> ('e \<Rightarrow> diagnostic)
   \<Rightarrow> ('w, 'f, 'p lambda_event, 'e, 'h function_response) service
   \<Rightarrow> ('w response_world \<times> 'c, ('h, 'f catch_panic_future) response_future, 'h lambda_invocation, box_error, unit) service"
  where
  "wrap_handler C E api into handler =
     client_service C api (response_service C E (catch_panic (re_type_name E) into handler))"

subsection \<open>Tracing\<close>

text \<open>The attributes of the span an invocation runs in.\<close>

definition request_span :: "rt_context \<Rightarrow> (string \<times> string) list" where
  "request_span cx =
     (case (cx_xray_trace_id cx, cx_tenant_id cx) of
        (Some trace_id, Some tenant_id) \<Rightarrow>
          [(''requestId'', cx_request_id cx), (''xrayTraceId'', trace_id), (''tenantId'', tenant_id)]
      | (Some trace_id, None) \<Rightarrow> [(''requestId'', cx_request_id cx), (''xrayTraceId'', trace_id)]
      | (None, Some tenant_id) \<Rightarrow> [(''requestId'', cx_request_id cx), (''tenantId'', tenant_id)]
      | (None, None) \<Rightarrow> [(''requestId'', cx_request_id cx)])"

text \<open>An instrumented future carries its span.\<close>

definition tracing_service ::
  "('w, 'f, 'h lambda_invocation, box_error, unit) service
   \<Rightarrow> ('w, 'f \<times> (string \<times> string) list, 'h lambda_invocation, box_error, unit) service" where
  "tracing_service inner =
     \<lparr>sv_ready = sv_ready inner,
      sv_call = (\<lambda>req w.
        let span = request_span (li_context req) in
        case sv_call inner req w of
          (Inl p, w1) \<Rightarrow> (Inl p, w1)
        | (Inr fut, w1) \<Rightarrow> (Inr (fut, span), w1)),
      sv_await = (\<lambda>(fut, span) w. sv_await inner fut w)\<rparr>"

datatype faas_trigger = Datasource | HttpTrigger | PubSub | Timer | OtherTrigger

fun faas_trigger_display :: "faas_trigger \<Rightarrow> string" where
  "faas_trigger_display Datasource = ''datasource''"
| "faas_trigger_display HttpTrigger = ''http''"
| "faas_trigger_display PubSub = ''pubsub''"
| "faas_trigger_display Timer = ''timer''"
| "faas_trigger_display OtherTrigger = ''other''"

record otel_span =
  os_name :: string
  os_trigger :: string
  os_invocation_id :: string
  os_coldstart :: bool
  os_tenant_id :: "string option"

text \<open>
  The OpenTelemetry layer adds the cold-start flag to the state; \<open>flush\<close> is the
  user's flush function, run after the inner future is ready.
\<close>

definition otel_span_of :: "string \<Rightarrow> bool \<Rightarrow> rt_context \<Rightarrow> otel_span" where
  "otel_span_of trigger coldstart cx =
     \<lparr>os_name = function_name (cx_env_config cx), os_trigger = trigger,
      os_invocation_id = cx_request_id cx, os_coldstart = coldstart, os_tenant_id = cx_tenant_id cx\<rparr>"

definition otel_service ::
  "('w \<Rightarrow> 'w) \<Rightarrow> faas_trigger \<Rightarrow> ('w, 'f, 'h lambda_invocation, 'e, unit) service
   \<Rightarrow> ('w \<times> bool, 'f \<times> otel_span, 'h lambda_invocation, 'e, unit) service" where
  "otel_service flush trigger inner =
     \<lparr>sv_ready = (\<lambda>(w, coldstart). case sv_ready inner w of (r, w1) \<Rightarrow> (r, (w1, coldstart))),
      sv_call = (\<lambda>req (w, coldstart).
        let span = otel_span_of (faas_trigger_display trigger) coldstart (li_context req) in
        case sv_call inner req w of
          (Inl p, w1) \<Rightarrow> (Inl p, (w1, False))
        | (Inr fut, w1) \<Rightarrow> (Inr (fut, span), (w1, False))),
      sv_await = (\<lambda>(fut, span) (w, coldstart).
        case sv_await inner fut w of
          (Panic p, w1) \<Rightarrow> (Panic p, (w1, coldstart))
        | (r, w1) \<Rightarrow> (r, (flush w1, coldstart)))\<rparr>"

subsection \<open>The services composed\<close>

text \<open>What the catching layer makes of the outcome of a handler.\<close>

fun caught :: "(string \<Rightarrow> string) \<Rightarrow> ('e \<Rightarrow> diagnostic) \<Rightarrow> ('e, 'r) result \<Rightarrow> (diagnostic, 'r) result" where
  "caught tn into (Ok x) = Ok x"
| "caught tn into (Err e) = Err (into e)"
| "caught tn into (Panic p) = Err (build_panic_diagnostic tn p)"

lemma caught_no_panic [simp]: "caught tn into r \<noteq> Panic p"
  by (cases r) auto

lemma oneshot_catch_panic:
  "sv_oneshot (catch_panic tn into S) req w = (case sv_oneshot S req w of (r, w1) \<Rightarrow> (caught tn into r, w1))"
  by (auto simp: sv_oneshot_def catch_panic_def split: prod.splits sum.splits result.splits)

lemma oneshot_client:
  "sv_oneshot (client_service C api S) req (w, c) =
     (case sv_oneshot S req w of
        (Ok r, w1) \<Rightarrow> (case api r c of (res, c1) \<Rightarrow> (map_ok (\<lambda>_. ()) res, (w1, c1)))
      | (Err e, w1) \<Rightarrow> (Err e, (w1, c))
      | (Panic p, w1) \<Rightarrow> (Panic p, (w1, c)))"
  by (auto simp: sv_oneshot_def client_service_def split: prod.splits sum.splits result.splits)

lemma oneshot_tracing: "sv_oneshot (tracing_service S) req w = sv_oneshot S req w"
  by (auto simp: sv_oneshot_def tracing_service_def split: prod.splits sum.splits)

lemma oneshot_otel:
  "sv_oneshot (otel_service flush trigger S) req (w, b) =
     (case sv_oneshot S req w of (r, w1) \<Rightarrow> (r, (if is_panic r then w1 else flush w1, False)))
   \<or> (\<exists>p w1. sv_call S req w = (Inl p, w1) \<and>
        sv_oneshot (otel_service flush trigger S) req (w, b) = (Panic p, (w1, False)))"
  by (auto simp: sv_oneshot_def otel_service_def split: prod.splits sum.splits result.splits)

text \<open>The invocation reaches the handler: no server error under debug assertions, and no trace error.\<close>

definition accepted :: "'h crates \<Rightarrow> 'p response_env \<Rightarrow> 'h lambda_invocation \<Rightarrow> bool" where
  "accepted C E ivc \<longleftrightarrow>
     \<not> (re_debug E \<and> cr_is_server_error C (li_status ivc)) \<and> (re_trace E \<longrightarrow> valid_utf8 (li_body ivc))"

lemma trace_event_accepted: "accepted C E ivc \<Longrightarrow> trace_event E (li_body ivc) = Ok ()"
  by (auto simp: accepted_def trace_event_def)

lemma oneshot_response:
  assumes "accepted C E ivc" and "re_deserialize E (li_body ivc) = Ok payload"
    and "read_invocation_id C (li_headers ivc) w = (iid, w1)"
    and "sv_oneshot S (lambda_event_new payload (li_context ivc)) (rw_inner w1) = (r, v)"
  shows "sv_oneshot (response_service C E S) ivc w =
     (case r of
        Ok resp \<Rightarrow> completion_req C (re_user_agent E) (re_room E) (cx_request_id (li_context ivc)) iid resp
      | Err d \<Rightarrow> event_error_req C (re_user_agent E) (cx_request_id (li_context ivc)) iid d
      | Panic p \<Rightarrow> Panic p, w1\<lparr>rw_inner := v\<rparr>)"
proof -
  note acc = assms(1) [unfolded accepted_def, THEN conjunct1]
  show ?thesis
  proof (cases "sv_call S (lambda_event_new payload (li_context ivc)) (rw_inner w1)")
    case (Pair c v1)
    then show ?thesis
      using assms(2-4) acc trace_event_accepted [OF assms(1)]
      by (cases c) (auto simp: sv_oneshot_def response_service_def response_call_def deserialize_def
          response_await_def split: result.splits)
  qed
qed

lemma oneshot_response_malformed:
  assumes "accepted C E ivc" and "re_deserialize E (li_body ivc) = Err err"
    and "read_invocation_id C (li_headers ivc) w = (iid, w1)"
  shows "sv_oneshot (response_service C E S) ivc w =
     (build_event_error_request C E (cx_request_id (li_context ivc)) iid err, w1)"
proof -
  note acc = assms(1) [unfolded accepted_def, THEN conjunct1]
  show ?thesis
    using assms(2,3) acc trace_event_accepted [OF assms(1)]
    by (cases "build_event_error_request C E (cx_request_id (li_context ivc)) iid err"; cases "re_debug E")
      (simp_all add: sv_oneshot_def response_service_def response_call_def deserialize_def response_await_def)
qed

lemma read_invocation_id_inner [simp]: "rw_inner (snd (read_invocation_id C h w)) = rw_inner w"
  by (auto simp: read_invocation_id_def warn_malformed_id_def split: option.splits result.splits prod.splits)

lemma read_invocation_id_value:
  "fst (read_invocation_id C h w) =
     (case hm_get (cr_hm C) h invocation_id_header of
        Some v \<Rightarrow> if hv_visible (cr_hm C) v then Some v else None | None \<Rightarrow> None)"
  by (auto simp: read_invocation_id_def hv_to_str_def split: option.splits)

text \<open>
  What the stack is to ask the client for: the request made from the outcome of the handler, or from the
  error of the payload's deserialiser, and the handler's state after it.
\<close>

definition readable_invocation_id :: "'h crates \<Rightarrow> 'h \<Rightarrow> string option" where
  "readable_invocation_id C headers =
     (case hm_get (cr_hm C) headers ''lambda-runtime-invocation-id'' of
        Some i \<Rightarrow> if hv_visible (cr_hm C) i then Some i else None
      | None \<Rightarrow> None)"

definition answer_request ::
  "'h crates \<Rightarrow> 'p response_env \<Rightarrow> ('e \<Rightarrow> diagnostic)
   \<Rightarrow> ('w, 'f, 'p lambda_event, 'e, 'h function_response) service \<Rightarrow> 'h lambda_invocation \<Rightarrow> 'w
   \<Rightarrow> (box_error, 'h http_request) result \<times> 'w" where
  "answer_request C E into handler ivc v =
     (let rid = cx_request_id (li_context ivc);
          iid = readable_invocation_id C (li_headers ivc);
          post_error = event_error_req C (re_user_agent E) rid iid
      in case re_deserialize E (li_body ivc) of
           Err err \<Rightarrow>
             (post_error \<lparr>error_type = re_type_name E ''&DeserializeError'',
                error_message = ''failed to deserialize the incoming data into the function's payload type: '' @
                  (if de_path err = ''.'' then [] else ''['' @ de_path err @ ''] '') @ de_display err @ [CHR 0x0A]\<rparr>, v)
         | Panic p \<Rightarrow> (Panic p, v)
         | Ok payload \<Rightarrow>
             (case sv_oneshot handler (lambda_event_new payload (li_context ivc)) v of
                (Ok resp, v1) \<Rightarrow> (completion_req C (re_user_agent E) (re_room E) rid iid resp, v1)
              | (Err e, v1) \<Rightarrow> (post_error (into e), v1)
              | (Panic p, v1) \<Rightarrow> (post_error (build_panic_diagnostic (re_type_name E) p), v1)))"

lemma oneshot_response_service:
  assumes "accepted C E ivc"
  shows "\<exists>w'. rw_inner w' = snd (answer_request C E into handler ivc (rw_inner w)) \<and>
    sv_oneshot (response_service C E (catch_panic (re_type_name E) into handler)) ivc w =
      (fst (answer_request C E into handler ivc (rw_inner w)), w')"
proof -
  let ?S = "catch_panic (re_type_name E) into handler"
  obtain w1 where w1: "read_invocation_id C (li_headers ivc) w = (readable_invocation_id C (li_headers ivc), w1)"
      "rw_inner w1 = rw_inner w"
    using read_invocation_id_value [of C "li_headers ivc" w] read_invocation_id_inner [of C "li_headers ivc" w]
    unfolding readable_invocation_id_def by (cases "read_invocation_id C (li_headers ivc) w") auto
  show ?thesis
  proof (cases "re_deserialize E (li_body ivc)")
    case (Ok payload)
    obtain r v where r: "sv_oneshot handler (lambda_event_new payload (li_context ivc)) (rw_inner w1) = (r, v)"
      by fastforce
    then have "sv_oneshot ?S (lambda_event_new payload (li_context ivc)) (rw_inner w1) = (caught (re_type_name E) into r, v)"
      by (simp add: oneshot_catch_panic)
    from oneshot_response [OF assms Ok w1(1) this] show ?thesis
      using Ok r w1(2) by (intro exI [of _ "w1\<lparr>rw_inner := v\<rparr>"]) (cases r; simp add: answer_request_def Let_def)
  next
    case (Err err)
    from oneshot_response_malformed [OF assms Err w1(1), of ?S] show ?thesis
      using Err w1(2) by (intro exI [of _ w1]) (cases "de_path err = ''.''";
        simp add: answer_request_def build_event_error_request_def diagnostic_from_def deserialize_error_display_def
          error_context_def)
  next
    case (Panic p)
    then show ?thesis
      using assms w1 trace_event_accepted [OF assms]
      by (intro exI [of _ w1]) (auto simp: accepted_def sv_oneshot_def response_service_def response_call_def
        deserialize_def answer_request_def Let_def)
  qed
qed

lemma oneshot_response_refused:
  assumes "\<not> accepted C E ivc"
  shows "\<exists>e. sv_oneshot (response_service C E S) ivc w = (Err e, w)"
proof (cases "re_debug E \<and> cr_is_server_error C (li_status ivc)")
  case True
  then show ?thesis
    by (simp add: sv_oneshot_def response_service_def response_call_def response_await_def)
next
  case False
  then have "re_trace E" "\<not> is_ok (str_from_utf8 (li_body ivc))"
    using assms by (auto simp: accepted_def str_from_utf8_is_ok)
  moreover have "str_from_utf8 (li_body ivc) \<noteq> Panic p" for p
    by (auto simp: str_from_utf8_def split: option.splits)
  ultimately obtain e where "trace_event E (li_body ivc) = Err e"
    by (cases "str_from_utf8 (li_body ivc)") (auto simp: trace_event_def)
  then show ?thesis
    using False by (auto simp: sv_oneshot_def response_service_def response_call_def response_await_def)
qed

lemma oneshot_wrap_handler:
  assumes "accepted C E ivc"
  shows "\<exists>w'. rw_inner w' = snd (answer_request C E into handler ivc (rw_inner w)) \<and>
    sv_oneshot (wrap_handler C E api into handler) ivc (w, c) =
      (case fst (answer_request C E into handler ivc (rw_inner w)) of
         Ok req \<Rightarrow> (map_ok (\<lambda>_. ()) (fst (api req c)), (w', snd (api req c)))
       | Err e \<Rightarrow> (Err e, (w', c))
       | Panic p \<Rightarrow> (Panic p, (w', c)))"
proof -
  obtain w' where "rw_inner w' = snd (answer_request C E into handler ivc (rw_inner w))"
    and "sv_oneshot (response_service C E (catch_panic (re_type_name E) into handler)) ivc w =
      (fst (answer_request C E into handler ivc (rw_inner w)), w')"
    using oneshot_response_service [OF assms] by blast
  then show ?thesis
    by (intro exI [of _ w'])
      (auto simp: wrap_handler_def oneshot_client split: prod.splits result.splits)
qed

subsection \<open>Properties\<close>

text \<open>
  C17: a handler behind the catching layer never panics: whatever the handler does, in its
  \<^verbatim>\<open>call\<close> or while its future is polled, the outcome is its value, its error converted
  to a diagnostic, or a diagnostic that says that it panicked and with which message.
\<close>

theorem handler_panics_become_diagnostics:
  "(\<forall>p. fst (sv_oneshot (catch_panic tn into S) req w) \<noteq> Panic p) \<and>
   sv_oneshot (catch_panic tn into S) req w =
     (case sv_oneshot S req w of
        (Ok x, w1) \<Rightarrow> (Ok x, w1)
      | (Err e, w1) \<Rightarrow> (Err (into e), w1)
      | (Panic p, w1) \<Rightarrow>
          (Err \<lparr>error_type = tn ''&Box<dyn Any + Send>'',
               error_message = (case p of PStr m \<Rightarrow> ''Lambda panicked: '' @ m
                                | PString m \<Rightarrow> ''Lambda panicked: '' @ m | POther \<Rightarrow> ''Lambda panicked'')\<rparr>, w1))"
  by (auto simp: oneshot_catch_panic build_panic_diagnostic_def split: prod.splits result.splits)

text \<open>
  C3: what becomes of an invocation. One that a debug build refuses because of its status, or whose
  body cannot be traced, fails without a call of the handler or the client. Every other one leads to at
  most one request: the completion request for the handler's value, the error request for its error, for
  the diagnostic of its panic, or for a payload that does not deserialise (the handler is not called
  then), with the invocation's request id and its invocation id when that is a readable header. When
  this request can be built it is sent, and the service succeeds exactly when the client returned a
  response, whatever its status; when it cannot (a value that does not serialise, say), the service fails
  with that error and the client is not asked.
\<close>

theorem invocation_is_answered:
  "(\<not> accepted C E ivc \<longrightarrow>
      (\<exists>e. sv_oneshot (wrap_handler C E api into handler) ivc (w, c) = (Err e, (w, c)))) \<and>
   (accepted C E ivc \<longrightarrow>
      (\<exists>w'. rw_inner w' = snd (answer_request C E into handler ivc (rw_inner w)) \<and>
        sv_oneshot (wrap_handler C E api into handler) ivc (w, c) =
          (case fst (answer_request C E into handler ivc (rw_inner w)) of
             Ok req \<Rightarrow> (map_ok (\<lambda>resp. ()) (fst (api req c)), (w', snd (api req c)))
           | Err e \<Rightarrow> (Err e, (w', c))
           | Panic p \<Rightarrow> (Panic p, (w', c)))))"
proof (intro conjI impI)
  assume "\<not> accepted C E ivc"
  then show "\<exists>e. sv_oneshot (wrap_handler C E api into handler) ivc (w, c) = (Err e, (w, c))"
    using oneshot_response_refused [of C E ivc "catch_panic (re_type_name E) into handler" w]
    by (auto simp: wrap_handler_def oneshot_client)
qed (rule oneshot_wrap_handler)

definition panicking_handler :: "(nat, unit, string lambda_event, box_error, headers function_response) service" where
  "panicking_handler =
     \<lparr>sv_ready = (\<lambda>w. (Ok (), w)), sv_call = (\<lambda>ev w. (Inr (), Suc w)),
      sv_await = (\<lambda>_ w. (Panic (PStr ''boom''), w))\<rparr>"

definition example_env :: "string response_env" where
  "example_env = \<lparr>re_debug = True, re_trace = False, re_type_name = (\<lambda>t. t), re_user_agent = ''ua'',
     re_room = None, re_deserialize = (\<lambda>s. if s = ''{}'' then Ok s else Err \<lparr>de_path = ''.'', de_display = ''bad''\<rparr>)\<rparr>"

theorem invocation_is_answered_witness:
  "\<exists>w'. rw_inner w' = 1 \<and>
     sv_oneshot (wrap_handler ref_crates example_env
         (\<lambda>req c. (Ok \<lparr>rs_status = 410, rs_headers = [], rs_body = Ok []\<rparr>, rq_frames req # c))
         (\<lambda>e. \<lparr>error_type = ''E'', error_message = err_to_string e\<rparr>) panicking_handler)
       \<lparr>li_status = 200, li_headers = [], li_body = ''{}'', li_context = context_default\<lparr>cx_request_id := ''r''\<rparr>\<rparr>
       (\<lparr>rw_inner = 0, rw_next_call = 0, rw_clock = 0, rw_warnings = 0\<rparr>, []) =
     (Ok (), (w', [[ref_json_text (diagnostic_json (build_panic_diagnostic (\<lambda>t. t) (PStr ''boom'')))]]))"
proof -
  let ?ivc = "\<lparr>li_status = 200, li_headers = [], li_body = ''{}'', li_context = context_default\<lparr>cx_request_id := ''r''\<rparr>\<rparr>"
  let ?d = "build_panic_diagnostic (\<lambda>t. t) (PStr ''boom'')"
  have "is_ok (event_error_req ref_crates ''ua'' ''r'' None ?d)"
    by (simp add: is_ok_iff event_error_req_def ref_crates_def al_hmap_def header_value_bytes_def
        hv_parse_def build_request_def builder_defs invocation_uri_def insert_header_def)
  then obtain req where r: "event_error_req ref_crates ''ua'' ''r'' None ?d = Ok req"
    by (auto simp: is_ok_iff)
  then have "rq_frames req = [ref_json_text (diagnostic_json ?d)]"
    by (auto simp: event_error_req_def result_simps insert_header_def) (simp add: ref_crates_def)
  moreover have "accepted ref_crates example_env ?ivc"
    by (simp add: accepted_def example_env_def ref_crates_def)
  moreover have "sv_oneshot panicking_handler (lambda_event_new ''{}'' (li_context ?ivc)) 0 = (Panic (PStr ''boom''), 1)"
    by (simp add: sv_oneshot_def panicking_handler_def)
  then have "answer_request ref_crates example_env (\<lambda>e. \<lparr>error_type = ''E'', error_message = err_to_string e\<rparr>)
      panicking_handler ?ivc 0 = (Ok req, 1)"
    using r by (simp add: answer_request_def readable_invocation_id_def example_env_def hm_get_def al_hmap_def context_default_def)
  ultimately show ?thesis
    using invocation_is_answered [THEN conjunct2, THEN mp, of ref_crates example_env ?ivc
        "\<lambda>e. \<lparr>error_type = ''E'', error_message = err_to_string e\<rparr>" panicking_handler
        "\<lparr>rw_inner = 0, rw_next_call = 0, rw_clock = 0, rw_warnings = 0\<rparr>"
        "\<lambda>req c. (Ok \<lparr>rs_status = 410, rs_headers = [], rs_body = Ok []\<rparr>, rq_frames req # c)" "[]"]
    by simp
qed

end
