(* ===== verification/SnapStart.thy ===== *)
theory SnapStart
  imports RtContext
begin

text \<open>
  SnapStart (\<^verbatim>\<open>lambda-runtime/src/snapstart.rs\<close> and the functions of
  \<^verbatim>\<open>runtime.rs\<close> around \<^verbatim>\<open>snapstart_lifecycle\<close>): the hooks that run before a
  snapshot and after a restore, the call that blocks until the restore, the reset of the
  connection pool, and the reports of failures.
\<close>

subsection \<open>The lifecycle\<close>

text \<open>
  A resource is its two hooks, each acting on the state \<open>'w\<close>; the defaults do nothing.
  The client's call \<open>api\<close> and its \<^verbatim>\<open>reset_pool\<close> act on the same state.
\<close>

record 'w resource =
  before_snapshot :: "'w \<Rightarrow> (box_error, unit) result \<times> 'w"
  after_restore :: "'w \<Rightarrow> (box_error, unit) result \<times> 'w"

definition default_resource :: "'w resource" where
  "default_resource = \<lparr>before_snapshot = (\<lambda>w. (Ok (), w)), after_restore = (\<lambda>w. (Ok (), w))\<rparr>"

record ('h, 'w) lifecycle_env =
  lc_crates :: "'h crates"
  lc_user_agent :: string
  lc_type_name :: "string \<Rightarrow> string"
  lc_api :: "'h http_request \<Rightarrow> 'w \<Rightarrow> (box_error, 'h http_response) result \<times> 'w"
  lc_reset :: "'w \<Rightarrow> 'w"

datatype report_kind = ReportInit | ReportRestore

definition is_snapstart_env :: "env \<Rightarrow> bool" where
  "is_snapstart_env e \<longleftrightarrow> e ''AWS_LAMBDA_INITIALIZATION_TYPE'' = Some ''snap-start''"

text \<open>The outcome of the call that reports is only logged; a panic of that call goes on.\<close>

definition report_diagnostic ::
  "('h, 'w) lifecycle_env \<Rightarrow> report_kind \<Rightarrow> box_error \<Rightarrow> 'w \<Rightarrow> (box_error, unit) result \<times> 'w" where
  "report_diagnostic L kind err w =
     (let C = lc_crates L;
          diagnostic = \<lparr>error_type = lc_type_name L ''&BoxError'', error_message = err_to_string err\<rparr>;
          req = (case kind of
                   ReportInit \<Rightarrow> init_error_req C (lc_user_agent L) diagnostic
                 | ReportRestore \<Rightarrow> restore_error_req C (lc_user_agent L) diagnostic) in
      case req of
        Ok req \<Rightarrow>
          (case lc_api L req w of
             (Panic p, w1) \<Rightarrow> (Panic p, w1)
           | (_, w1) \<Rightarrow> (Err err, w1))
      | Err e \<Rightarrow> (Err err, w)
      | Panic p \<Rightarrow> (Panic p, w))"

text \<open>A loop over hooks that stops at the first error and reports it.\<close>

fun run_hooks ::
  "('h, 'w) lifecycle_env \<Rightarrow> report_kind \<Rightarrow> ('w \<Rightarrow> (box_error, unit) result \<times> 'w) list
   \<Rightarrow> 'w \<Rightarrow> (box_error, unit) result \<times> 'w" where
  "run_hooks L kind [] w = (Ok (), w)"
| "run_hooks L kind (hook # hooks) w =
     (case hook w of
        (Ok _, w1) \<Rightarrow> run_hooks L kind hooks w1
      | (Err e, w1) \<Rightarrow> report_diagnostic L kind e w1
      | (Panic p, w1) \<Rightarrow> (Panic p, w1))"

definition restore_status_error :: "'h crates \<Rightarrow> nat \<Rightarrow> box_error" where
  "restore_status_error C status =
     BoxError (''/restore/next returned a non-success status: '' @ cr_status_text C status)"

definition restore_next ::
  "('h, 'w) lifecycle_env \<Rightarrow> 'w \<Rightarrow> (box_error, unit) result \<times> 'w" where
  "restore_next L w =
     (case restore_next_req (lc_crates L) (lc_user_agent L) of
        Err e \<Rightarrow> (Err e, w)
      | Panic p \<Rightarrow> (Panic p, w)
      | Ok req \<Rightarrow>
          (case lc_api L req w of
             (Err e, w1) \<Rightarrow> report_diagnostic L ReportInit e w1
           | (Panic p, w1) \<Rightarrow> (Panic p, w1)
           | (Ok resp, w1) \<Rightarrow>
               if \<not> cr_is_success (lc_crates L) (rs_status resp)
               then report_diagnostic L ReportInit (restore_status_error (lc_crates L) (rs_status resp)) w1
               else (Ok (), w1)))"

definition run_restore_lifecycle ::
  "('h, 'w) lifecycle_env \<Rightarrow> 'w resource list \<Rightarrow> 'w \<Rightarrow> (box_error, unit) result \<times> 'w" where
  "run_restore_lifecycle L resources w =
     (case run_hooks L ReportInit (map before_snapshot (rev resources)) w of
        (Ok _, w1) \<Rightarrow>
          (case restore_next L w1 of
             (Ok _, w2) \<Rightarrow>
               run_hooks L ReportRestore (map after_restore resources) (lc_reset L w2)
           | r \<Rightarrow> r)
      | r \<Rightarrow> r)"

definition snapstart_lifecycle ::
  "env \<Rightarrow> ('h, 'w) lifecycle_env \<Rightarrow> 'w resource list \<Rightarrow> 'w \<Rightarrow> (box_error, unit) result \<times> 'w" where
  "snapstart_lifecycle e L resources w =
     (if \<not> is_snapstart_env e then (Ok (), w) else run_restore_lifecycle L resources w)"

subsection \<open>The specification: a plan run to its first error\<close>

text \<open>
  What the documentation of the module promises: one sequence of actions, each with the phase
  whose endpoint gets the report when it fails.
\<close>

fun run_plan ::
  "(report_kind \<Rightarrow> box_error \<Rightarrow> 'w \<Rightarrow> (box_error, unit) result \<times> 'w)
   \<Rightarrow> (report_kind \<times> ('w \<Rightarrow> (box_error, unit) result \<times> 'w)) list \<Rightarrow> 'w \<Rightarrow> (box_error, unit) result \<times> 'w" where
  "run_plan report [] w = (Ok (), w)"
| "run_plan report ((kind, act) # rest) w =
     (case act w of
        (Ok _, w1) \<Rightarrow> run_plan report rest w1
      | (Err e, w1) \<Rightarrow> report kind e w1
      | (Panic p, w1) \<Rightarrow> (Panic p, w1))"

text \<open>Blocking until the restore: a transport error or a status that is no success is the action's error.\<close>

definition restore_action ::
  "'h crates \<Rightarrow> ('h http_request \<Rightarrow> 'w \<Rightarrow> (box_error, 'h http_response) result \<times> 'w) \<Rightarrow> 'h http_request
   \<Rightarrow> 'w \<Rightarrow> (box_error, unit) result \<times> 'w" where
  "restore_action C api req w =
     (case api req w of
        (r, w1) \<Rightarrow>
          (and_then r (\<lambda>resp. if cr_is_success C (rs_status resp) then Ok ()
                       else Err (restore_status_error C (rs_status resp))), w1))"

definition lifecycle_plan ::
  "('h, 'w) lifecycle_env \<Rightarrow> 'h http_request \<Rightarrow> 'w resource list
   \<Rightarrow> (report_kind \<times> ('w \<Rightarrow> (box_error, unit) result \<times> 'w)) list" where
  "lifecycle_plan L req resources =
     map (\<lambda>r. (ReportInit, before_snapshot r)) (rev resources) @
     [(ReportInit, restore_action (lc_crates L) (lc_api L) req),
      (ReportInit, \<lambda>w. (Ok (), lc_reset L w))] @
     map (\<lambda>r. (ReportRestore, after_restore r)) resources"

lemma run_plan_append:
  "run_plan report (p @ q) w =
     (case run_plan report p w of (Ok _, w1) \<Rightarrow> run_plan report q w1 | r \<Rightarrow> r)"
  if "\<And>k e w x. fst (report k e w) \<noteq> Ok x"
proof (induction p arbitrary: w)
  case Nil
  show ?case by simp
next
  case (Cons a p)
  obtain k act where a: "a = (k, act)" by (cases a)
  obtain r w1 where act: "act w = (r, w1)" by (cases "act w")
  show ?case
  proof (cases r)
    case (Err e)
    then show ?thesis
      using that [of k e w1] a act by (auto split: prod.splits result.splits)
  qed (use Cons a act in simp_all)
qed

lemma run_hooks_plan:
  "run_hooks L kind hooks w = run_plan (report_diagnostic L) (map (\<lambda>h. (kind, h)) hooks) w"
  by (induction hooks arbitrary: w) (auto split: prod.splits result.splits)

lemma report_not_Ok [simp]: "fst (report_diagnostic L kind e w) \<noteq> Ok x"
  by (auto simp: report_diagnostic_def Let_def split: result.splits prod.splits report_kind.splits)

lemma restore_next_plan:
  "restore_next_req (lc_crates L) (lc_user_agent L) = Ok req \<Longrightarrow>
     restore_next L w = run_plan (report_diagnostic L) [(ReportInit, restore_action (lc_crates L) (lc_api L) req)] w"
  by (auto simp: restore_next_def restore_action_def split: prod.splits result.splits)

lemma restore_next_req_Ok:
  "hv_valid (cr_hm C) ua \<Longrightarrow> \<exists>req. restore_next_req C ua = Ok req"
  by (auto simp: restore_next_req_def result_simps)

subsection \<open>On the pooled client\<close>

text \<open>
  The state the runtime really has: the pooled client, the number of pools made so far, and the
  rest. \<open>send\<close> sends through a given \<^verbatim>\<open>hyper\<close> client.
\<close>

record ('c, 'u) client_world =
  cw_client :: "'c pooled_client"
  cw_next_pool :: nat
  cw_rest :: 'u

definition cw_api ::
  "'h crates \<Rightarrow> ('c hyper_client \<Rightarrow> 'h http_request \<Rightarrow> 'u \<Rightarrow> (box_error, 'h http_response) result \<times> 'u)
   \<Rightarrow> 'h http_request \<Rightarrow> ('c, 'u) client_world \<Rightarrow> (box_error, 'h http_response) result \<times> ('c, 'u) client_world" where
  "cw_api C send req w =
     (case set_origin C (pc_base (cw_client w)) req of
        Err e \<Rightarrow> (Err e, w)
      | Panic p \<Rightarrow> (Panic p, w)
      | Ok req \<Rightarrow> (case send (active_client (cw_client w)) req (cw_rest w) of (r, u) \<Rightarrow> (r, w\<lparr>cw_rest := u\<rparr>)))"

definition cw_reset :: "('c, 'u) client_world \<Rightarrow> ('c, 'u) client_world" where
  "cw_reset w = w\<lparr>cw_client := reset_pool (cw_next_pool w) (cw_client w), cw_next_pool := Suc (cw_next_pool w)\<rparr>"

definition cw_hook ::
  "('u \<Rightarrow> (box_error, unit) result \<times> 'u) \<Rightarrow> ('c, 'u) client_world \<Rightarrow> (box_error, unit) result \<times> ('c, 'u) client_world" where
  "cw_hook h w = (case h (cw_rest w) of (r, u) \<Rightarrow> (r, w\<lparr>cw_rest := u\<rparr>))"

definition cw_resource :: "'u resource \<Rightarrow> ('c, 'u) client_world resource" where
  "cw_resource r = \<lparr>before_snapshot = cw_hook (before_snapshot r), after_restore = cw_hook (after_restore r)\<rparr>"

text \<open>A watched client keeps the pool of every request that it sends; the hooks of the resources leave that list alone.\<close>

definition pool_watched ::
  "('c hyper_client \<Rightarrow> 'h http_request \<Rightarrow> 'v \<Rightarrow> (box_error, 'h http_response) result \<times> 'v)
   \<Rightarrow> 'c hyper_client \<Rightarrow> 'h http_request \<Rightarrow> 'v \<times> nat list \<Rightarrow> (box_error, 'h http_response) result \<times> 'v \<times> nat list" where
  "pool_watched send c req u = (case send c req (fst u) of (r, v) \<Rightarrow> (r, (v, snd u @ [hc_pool c])))"

abbreviation pools_used :: "('c, 'v \<times> nat list) client_world \<Rightarrow> nat list" where
  "pools_used w \<equiv> snd (cw_rest w)"

definition leaves_pools :: "('v \<times> nat list) resource \<Rightarrow> bool" where
  "leaves_pools r \<longleftrightarrow> (\<forall>u. snd (snd (before_snapshot r u)) = snd u \<and> snd (snd (after_restore r u)) = snd u)"

lemma cw_resource_leaves:
  assumes "leaves_pools r"
  shows "cw_client (snd (before_snapshot (cw_resource r) w)) = cw_client w \<and>
      cw_next_pool (snd (before_snapshot (cw_resource r) w)) = cw_next_pool w \<and>
      pools_used (snd (before_snapshot (cw_resource r) w)) = pools_used w"
    and "cw_client (snd (after_restore (cw_resource r) w)) = cw_client w \<and>
      cw_next_pool (snd (after_restore (cw_resource r) w)) = cw_next_pool w \<and>
      pools_used (snd (after_restore (cw_resource r) w)) = pools_used w"
  using assms [unfolded leaves_pools_def, rule_format, of "cw_rest w"]
  by (auto simp: cw_resource_def cw_hook_def split: prod.splits)

text \<open>What the client may be asked later: to send a request, or to reset its pool once more.\<close>

definition client_op where
  "client_op C send op w = (case op of Some req \<Rightarrow> snd (cw_api C send req w) | None \<Rightarrow> cw_reset w)"

lemma report_not_Ok_pair [simp]: "report_diagnostic L kind e w \<noteq> (Ok x, w')"
  using report_not_Ok [of L kind e w x] by (metis fst_conv)

lemma run_hooks_Ok:
  "run_hooks L kind hooks w = (Ok (), w') \<Longrightarrow> (\<And>h w. h \<in> set hooks \<Longrightarrow> f (snd (h w)) = f w) \<Longrightarrow> f w' = f w"
proof (induction hooks arbitrary: w)
  case (Cons h hooks)
  obtain r w1 where r: "h w = (r, w1)" by (cases "h w")
  then have "f w1 = f w" using Cons.prems(2) [of h w] by simp
  then show ?case
    using Cons.IH [of w1] Cons.prems r by (cases r) auto
qed simp

lemma restore_next_Ok:
  assumes "restore_next L w = (Ok (), w')" and "lc_api L = cw_api C (pool_watched send)"
  shows "cw_client w' = cw_client w \<and> cw_next_pool w' = cw_next_pool w \<and>
    pools_used w' = pools_used w @ [hc_pool (active_client (cw_client w))]"
  using assms
  by (auto simp: restore_next_def cw_api_def pool_watched_def split: result.splits prod.splits if_splits)

lemma client_op_restored:
  assumes "pc_restored (cw_client w) = Some c"
  shows "cw_client (client_op C (pool_watched send) op w) = cw_client w \<and>
    (\<exists>k \<le> 1. pools_used (client_op C (pool_watched send) op w) = pools_used w @ replicate k (hc_pool c))"
proof (cases op)
  case None
  then show ?thesis
    using assms by (auto simp: client_op_def cw_reset_def reset_pool_def intro!: exI [of _ 0])
next
  case (Some req)
  show ?thesis
  proof (cases "set_origin C (pc_base (cw_client w)) req")
    case (Ok req')
    then show ?thesis
      using Some assms by (auto simp: client_op_def cw_api_def pool_watched_def active_client_def
        intro!: exI [of _ 1] split: prod.splits)
  qed (use Some in \<open>auto simp: client_op_def cw_api_def intro!: exI [of _ 0]\<close>)
qed

lemma client_ops_restored:
  assumes "pc_restored (cw_client w) = Some c"
  shows "\<exists>k \<le> length ops. pools_used (fold (client_op C (pool_watched send)) ops w) = pools_used w @ replicate k (hc_pool c)"
  using assms
proof (induction ops arbitrary: w)
  case (Cons op ops)
  let ?w = "client_op C (pool_watched send) op w"
  obtain k1 where k1: "k1 \<le> 1" "pools_used ?w = pools_used w @ replicate k1 (hc_pool c)" "cw_client ?w = cw_client w"
    using client_op_restored [OF Cons.prems] by blast
  obtain k2 where "k2 \<le> length ops"
      "pools_used (fold (client_op C (pool_watched send)) ops ?w) = pools_used ?w @ replicate k2 (hc_pool c)"
    using Cons.IH [of ?w] k1(3) Cons.prems by auto
  then show ?case
    using k1 by (intro exI [of _ "k1 + k2"]) (simp add: replicate_add)
qed simp

subsection \<open>A recording of the lifecycle\<close>

text \<open>
  Resources and a client that only write down what is done to them, with given outcomes: the
  \<open>i\<close>-th resource's hooks return \<open>b i\<close> and \<open>a i\<close>, every call is answered
  with the status \<open>st\<close>.
\<close>

datatype lifecycle_event = Before nat | Call "string option" | ResetPool | After nat

definition recorded :: "(nat \<Rightarrow> (box_error, unit) result) \<Rightarrow> (nat \<Rightarrow> (box_error, unit) result) \<Rightarrow> nat
   \<Rightarrow> lifecycle_event list resource" where
  "recorded b a i =
     \<lparr>before_snapshot = (\<lambda>l. (b i, l @ [Before i])), after_restore = (\<lambda>l. (a i, l @ [After i]))\<rparr>"

definition recording :: "'h crates \<Rightarrow> string \<Rightarrow> nat \<Rightarrow> ('h, lifecycle_event list) lifecycle_env" where
  "recording C ua st =
     \<lparr>lc_crates = C, lc_user_agent = ua, lc_type_name = (\<lambda>t. t),
      lc_api = (\<lambda>req l. (Ok \<lparr>rs_status = st, rs_headers = hm_empty (cr_hm C), rs_body = Ok []\<rparr>,
                        l @ [Call (u_path_query (rq_uri req))])),
      lc_reset = (\<lambda>l. l @ [ResetPool])\<rparr>"

lemma run_hooks_recorded:
  "(\<And>i. i \<in> set is \<Longrightarrow> f i = Ok ()) \<Longrightarrow>
     run_hooks L k (map (\<lambda>i l. (f i, l @ [ev i])) is @ hs) l = run_hooks L k hs (l @ map ev is)"
  by (induction "is" arbitrary: l) simp_all

lemma report_recorded:
  "hv_valid (cr_hm C) ua \<Longrightarrow> hv_valid (cr_hm C) ''Runtime.InitError'' \<Longrightarrow>
   hv_valid (cr_hm C) ''Runtime.AfterRestoreError'' \<Longrightarrow>
     report_diagnostic (recording C ua st) kind e l =
       (Err e, l @ [Call (Some (case kind of ReportInit \<Rightarrow> ''/2018-06-01/runtime/init/error''
                             | ReportRestore \<Rightarrow> ''/2018-06-01/runtime/restore/error''))])"
  by (cases kind)
    (auto simp: report_diagnostic_def recording_def init_error_req_def restore_error_req_def Let_def
      build_request_def builder_defs hv_parse_def origin_uri_def)

lemma restore_next_recorded:
  "hv_valid (cr_hm C) ua \<Longrightarrow> cr_is_success C st \<Longrightarrow>
     restore_next (recording C ua st) l = (Ok (), l @ [Call (Some ''/2018-06-01/runtime/restore/next'')])"
  by (auto simp: restore_next_def recording_def restore_next_req_def build_request_def builder_defs
      hv_parse_def origin_uri_def)

lemma map_recorded:
  "map before_snapshot (rev (map (recorded b a) is)) = map (\<lambda>i l. (b i, l @ [Before i])) (rev is)"
  "map after_restore (map (recorded b a) is) = map (\<lambda>i l. (a i, l @ [After i])) is"
  by (simp_all add: recorded_def rev_map)

subsection \<open>Properties\<close>

text \<open>
  C16: with a valid user agent the restore lifecycle is the plan its documentation gives, run to
  the first action that fails: the before-snapshot hooks in reverse order of registration, the
  blocking call, the reset of the pool, the after-restore hooks in order of registration; a
  failure before the restore is reported as an initialisation error, one after it as a restore
  error.
\<close>

theorem restore_lifecycle_refines_plan:
  assumes "hv_valid (cr_hm (lc_crates L)) (lc_user_agent L)"
  shows "\<exists>req. restore_next_req (lc_crates L) (lc_user_agent L) = Ok req \<and>
     run_restore_lifecycle L resources w =
       run_plan (report_diagnostic L)
         (map (\<lambda>r. (ReportInit, before_snapshot r)) (rev resources) @
          [(ReportInit, restore_action (lc_crates L) (lc_api L) req), (ReportInit, \<lambda>w. (Ok (), lc_reset L w))] @
          map (\<lambda>r. (ReportRestore, after_restore r)) resources) w"
proof -
  obtain req where req: "restore_next_req (lc_crates L) (lc_user_agent L) = Ok req"
    using restore_next_req_Ok [OF assms] by blast
  let ?rep = "report_diagnostic L"
  let ?ra = "(ReportInit, restore_action (lc_crates L) (lc_api L) req)"
  let ?rs = "(ReportInit, \<lambda>w. (Ok (), lc_reset L w))"
  have step: "run_plan ?rep ([?ra] @ ?rs # q) w1 =
      (case run_plan ?rep [?ra] w1 of (Ok _, w2) \<Rightarrow> run_plan ?rep (?rs # q) w2 | r \<Rightarrow> r)" for q w1
    by (rule run_plan_append) simp
  have reset: "run_plan ?rep (?rs # q) w2 = run_plan ?rep q (lc_reset L w2)" for q w2
    by simp
  have split: "run_plan ?rep (p @ ([?ra] @ ?rs # q)) w =
      (case run_plan ?rep p w of
         (Ok _, w1) \<Rightarrow>
           (case run_plan ?rep [?ra] w1 of (Ok _, w2) \<Rightarrow> run_plan ?rep q (lc_reset L w2) | r \<Rightarrow> r)
       | r \<Rightarrow> r)" for p q
    by (subst run_plan_append, simp, simp only: step reset)
  show ?thesis
    using req split [of "map (\<lambda>r. (ReportInit, before_snapshot r)) (rev resources)"
        "map (\<lambda>r. (ReportRestore, after_restore r)) resources"]
    unfolding run_restore_lifecycle_def run_hooks_plan restore_next_plan [OF req] map_map comp_def
    by (intro exI [of _ req]) (simp add: comp_def del: run_plan.simps)
qed

theorem restore_lifecycle_refines_plan_witness:
  "\<exists>req. restore_next_req ref_crates ''ua'' = Ok req \<and>
     run_restore_lifecycle (recording ref_crates ''ua'' 500) [default_resource] [] =
       run_plan (report_diagnostic (recording ref_crates ''ua'' 500))
         [(ReportInit, \<lambda>w. (Ok (), w)),
          (ReportInit, restore_action ref_crates (lc_api (recording ref_crates ''ua'' 500)) req),
          (ReportInit, \<lambda>w. (Ok (), w @ [ResetPool])), (ReportRestore, \<lambda>w. (Ok (), w))] []"
  using restore_lifecycle_refines_plan [of "recording ref_crates ''ua'' 500" "[default_resource]" "[]"]
  by (simp add: recording_def al_hmap_def header_value_bytes_def default_resource_def)

text \<open>
  C18: when the after-restore hook of resource \<open>j\<close> is the first to fail, exactly this
  happens, in this order: every before-snapshot hook from the last resource to the first, the
  call of the restore endpoint, the reset of the pool, the after-restore hooks of the resources up
  to \<open>j\<close>, and the report to the restore error endpoint; the hook's own error is returned.
\<close>

theorem snapstart_order:
  assumes "hv_valid (cr_hm C) ua" and "hv_valid (cr_hm C) ''Runtime.InitError''"
    and "hv_valid (cr_hm C) ''Runtime.AfterRestoreError''" and "cr_is_success C st"
    and "\<forall>i < n. b i = Ok ()" and "j < n" and "\<forall>i < j. a i = Ok ()" and "a j = Err e"
  shows "run_restore_lifecycle (recording C ua st) (map (recorded b a) [0..<n]) [] =
     (Err e,
      map Before (rev [0..<n]) @ [Call (Some ''/2018-06-01/runtime/restore/next''), ResetPool] @
      map After [0..<Suc j] @ [Call (Some ''/2018-06-01/runtime/restore/error'')])"
proof -
  have before: "run_hooks (recording C ua st) ReportInit (map (\<lambda>i l. (b i, l @ [Before i])) (rev [0..<n])) [] =
      (Ok (), map Before (rev [0..<n]))"
    using run_hooks_recorded [of "rev [0..<n]" b "recording C ua st" ReportInit Before "[]" "[]"] assms(5) by simp
  have "[0..<n] = [0..<j] @ j # [Suc j..<n]"
    using assms(6) by (metis less_imp_add_positive upt_add_eq_append upt_conv_Cons le0 add_0)
  then have after: "run_hooks (recording C ua st) ReportRestore (map (\<lambda>i l. (a i, l @ [After i])) [0..<n]) l =
      (Err e, l @ map After [0..<Suc j] @ [Call (Some ''/2018-06-01/runtime/restore/error'')])" for l
    using run_hooks_recorded [of "[0..<j]" a "recording C ua st" ReportRestore After
        "map (\<lambda>i l. (a i, l @ [After i])) (j # [Suc j..<n])" l] assms(7,8)
    by (simp add: report_recorded [OF assms(1-3)])
  have reset: "lc_reset (recording C ua st) = (\<lambda>l. l @ [ResetPool])"
    by (simp add: recording_def)
  show ?thesis
    unfolding run_restore_lifecycle_def map_recorded
    by (simp add: before after restore_next_recorded [OF assms(1,4)] reset del: upt_Suc)
qed

theorem snapstart_order_witness:
  "run_restore_lifecycle (recording ref_crates ''ua'' 200)
     (map (recorded (\<lambda>_. Ok ()) (\<lambda>i. if i = 1 then Err (BoxError ''pool'') else Ok ())) [0..<3]) [] =
   (Err (BoxError ''pool''),
    [Before 2, Before 1, Before 0, Call (Some ''/2018-06-01/runtime/restore/next''), ResetPool,
     After 0, After 1, Call (Some ''/2018-06-01/runtime/restore/error'')])"
  by (subst snapstart_order [where j = 1 and e = "BoxError ''pool''"])
    (simp_all add: ref_crates_def al_hmap_def header_value_bytes_def upt_rec numeral_3_eq_3)

text \<open>
  Reporting an error never hides it: whatever becomes of the report (it cannot be built, the
  call fails, the endpoint answers with any status), the error that is returned is the original
  one.
\<close>

lemma report_keeps_error:
  assumes "\<forall>req w p. fst (lc_api L req w) \<noteq> Panic p"
  shows "fst (report_diagnostic L kind err w) = Err err"
proof -
  have no_panic: "(case kind of ReportInit \<Rightarrow> init_error_req C ua d | ReportRestore \<Rightarrow> restore_error_req C ua d) \<noteq> Panic p"
    for C :: "'a crates" and ua d p
    by (cases kind) (auto simp: init_error_req_def restore_error_req_def Let_def builder_defs result_simps)
  let ?req = "case kind of
      ReportInit \<Rightarrow> init_error_req (lc_crates L) (lc_user_agent L)
        \<lparr>error_type = lc_type_name L ''&BoxError'', error_message = err_to_string err\<rparr>
    | ReportRestore \<Rightarrow> restore_error_req (lc_crates L) (lc_user_agent L)
        \<lparr>error_type = lc_type_name L ''&BoxError'', error_message = err_to_string err\<rparr>"
  show ?thesis
  proof (cases ?req)
    case (Ok req)
    then show ?thesis
      using assms [rule_format, of req w]
      by (cases "lc_api L req w"; cases "fst (lc_api L req w)") (simp_all add: report_diagnostic_def Let_def)
  next
    case (Err e)
    then show ?thesis by (simp add: report_diagnostic_def Let_def)
  next
    case (Panic p)
    then show ?thesis using no_panic by blast
  qed
qed

theorem report_keeps_error_witness:
  "fst (report_diagnostic
     \<lparr>lc_crates = ref_crates, lc_user_agent = ''ua'', lc_type_name = (\<lambda>t. t),
      lc_api = (\<lambda>req w. (Err (BoxError ''refused''), Suc w)), lc_reset = (\<lambda>w. w)\<rparr>
     ReportInit (BoxError ''pool'') 0) = Err (BoxError ''pool'')"
  by (rule report_keeps_error) simp

text \<open>
  C36: a restore replaces the connection pool. In a restore lifecycle that succeeds, on a pooled client
  that was not reset before and whose pools are numbered in the order they are made, the client sends one
  request, the one that blocks until the restore, through the pool it had; from then on everything it
  sends, whatever and how much is asked of it, further resets included, goes through the pool made for
  the reset, which is another one, with the same connector and pool size.
\<close>

theorem restored_runtime_uses_new_pool:
  assumes "run_restore_lifecycle L (map cw_resource resources) w = (Ok (), w')"
    and "lc_api L = cw_api C (pool_watched send)" and "lc_reset L = cw_reset"
    and "\<forall>r \<in> set resources. leaves_pools r"
    and "pc_restored (cw_client w) = None" and "hc_pool (pc_client (cw_client w)) < cw_next_pool w"
  shows "cw_next_pool w \<noteq> hc_pool (pc_client (cw_client w)) \<and>
    active_client (cw_client w') =
      build_hyper_client (cw_next_pool w) (pc_connector (cw_client w)) (pc_pool_size (cw_client w)) \<and>
    pools_used w' = pools_used w @ [hc_pool (pc_client (cw_client w))] \<and>
    (\<forall>ops. \<exists>k \<le> length ops.
       pools_used (fold (client_op C (pool_watched send)) ops w') = pools_used w' @ replicate k (cw_next_pool w))"
proof -
  obtain w1 w2 where
    w1: "run_hooks L ReportInit (map before_snapshot (rev (map cw_resource resources))) w = (Ok (), w1)"
    and w2: "restore_next L w1 = (Ok (), w2)"
    and w': "run_hooks L ReportRestore (map after_restore (map cw_resource resources)) (cw_reset w2) = (Ok (), w')"
    using assms(1,3) by (auto simp: run_restore_lifecycle_def split: prod.splits result.splits)
  let ?f = "\<lambda>w. (cw_client w, cw_next_pool w, pools_used w)"
  have "?f w1 = ?f w"
    by (rule run_hooks_Ok [OF w1]) (use assms(4) in \<open>auto simp: cw_resource_leaves\<close>)
  moreover have "?f w' = ?f (cw_reset w2)"
    by (rule run_hooks_Ok [OF w']) (use assms(4) in \<open>auto simp: cw_resource_leaves\<close>)
  moreover note restore_next_Ok [OF w2 assms(2)]
  ultimately have w'': "cw_client w' = reset_pool (cw_next_pool w) (cw_client w)"
      "pools_used w' = pools_used w @ [hc_pool (pc_client (cw_client w))]"
    using assms(5) by (simp_all add: cw_reset_def active_client_def)
  have restored: "pc_restored (cw_client w') =
      Some (build_hyper_client (cw_next_pool w) (pc_connector (cw_client w)) (pc_pool_size (cw_client w)))"
    using w''(1) assms(5) by (simp add: reset_pool_def)
  have pool: "hc_pool (build_hyper_client n c s) = n" for n c s
    by (simp add: build_hyper_client_def)
  note later = client_ops_restored [OF restored, of _ C send, unfolded pool]
  show ?thesis
  proof (intro conjI allI)
    show "\<exists>k \<le> length ops. pools_used (fold (client_op C (pool_watched send)) ops w') =
        pools_used w' @ replicate k (cw_next_pool w)" for ops
      by (rule later)
  qed (use w''(2) restored assms(6) in \<open>simp_all add: active_client_def\<close>)
qed

definition two_pools :: "(unit, unit \<times> nat list) client_world" where
  "two_pools =
     \<lparr>cw_client = pooled_with 0 \<lparr>u_scheme = None, u_authority = Some ''h'', u_path_query = None\<rparr> () None,
      cw_next_pool = 1, cw_rest = ((), [])\<rparr>"

theorem restored_runtime_uses_new_pool_witness:
  "\<exists>w'. run_restore_lifecycle
      \<lparr>lc_crates = ref_crates, lc_user_agent = ''ua'', lc_type_name = (\<lambda>t. t),
       lc_api = cw_api ref_crates (pool_watched (\<lambda>c req u. (Ok \<lparr>rs_status = 200, rs_headers = [], rs_body = Ok []\<rparr>, u))),
       lc_reset = cw_reset\<rparr> (map cw_resource [default_resource]) two_pools = (Ok (), w') \<and>
      pools_used w' = [0] \<and> hc_pool (active_client (cw_client w')) = 1"
proof -
  let ?send = "\<lambda>c req u. (Ok \<lparr>rs_status = 200, rs_headers = [], rs_body = Ok []\<rparr>, u)
    :: (box_error, headers http_response) result \<times> unit"
  let ?L = "\<lparr>lc_crates = ref_crates, lc_user_agent = ''ua'', lc_type_name = (\<lambda>t. t),
       lc_api = cw_api ref_crates (pool_watched ?send), lc_reset = cw_reset\<rparr>"
  have "fst (run_restore_lifecycle ?L (map cw_resource [default_resource]) two_pools) = Ok ()"
    by (simp add: run_restore_lifecycle_def cw_resource_def cw_hook_def default_resource_def restore_next_def
        restore_next_req_def build_request_def builder_defs hv_parse_def ref_crates_def al_hmap_def
        header_value_bytes_def cw_api_def set_origin_def pooled_with_def origin_uri_def
        base_path_def trim_end_matches_def pool_watched_def two_pools_def)
  then obtain w' where w': "run_restore_lifecycle ?L (map cw_resource [default_resource]) two_pools = (Ok (), w')"
    by (cases "run_restore_lifecycle ?L (map cw_resource [default_resource]) two_pools") auto
  have "pc_restored (cw_client two_pools) = None" "hc_pool (pc_client (cw_client two_pools)) < cw_next_pool two_pools"
    "\<forall>r \<in> set [default_resource]. leaves_pools r"
    by (simp_all add: two_pools_def pooled_with_def build_hyper_client_def leaves_pools_def default_resource_def)
  from restored_runtime_uses_new_pool [OF w' _ _ this(3,1,2), of ref_crates ?send] w' show ?thesis
    by (auto simp: two_pools_def pooled_with_def build_hyper_client_def)
qed

end
