(* ===== verification/RuntimeLoop.thy ===== *)
theory RuntimeLoop
  imports Layers SnapStart
begin

text \<open>
  The runtime itself (\<^verbatim>\<open>lambda-runtime/src/runtime.rs\<close>): its state and builders,
  the processing of one invocation, the sequential loop, the worker of the concurrent mode and the
  pool that collects the workers' exits, and the choice between the two modes.
\<close>

subsection \<open>The state\<close>

text \<open>
  The process environment (for the trace id of the current invocation) and everything the service
  and the client act on.
\<close>

record 'w process_state =
  ps_env :: env
  ps_world :: 'w

record 'h loop_env =
  le_crates :: "'h crates"
  le_debug :: bool
  le_user_agent :: string

text \<open>\<open>lift_world\<close> runs an operation of the service or the client in the process.\<close>

definition lift_world :: "('w \<Rightarrow> 'r \<times> 'w) \<Rightarrow> 'w process_state \<Rightarrow> 'r \<times> 'w process_state" where
  "lift_world f s = (case f (ps_world s) of (r, w) \<Rightarrow> (r, s\<lparr>ps_world := w\<rparr>))"

subsection \<open>Creating a runtime\<close>

record ('svc, 'cl, 'w) runtime =
  rt_service :: 'svc
  rt_config :: config
  rt_client :: 'cl
  rt_concurrency_limit :: nat
  rt_snapstart_resources :: "'w resource list"

definition max_concurrency_from_env :: "env \<Rightarrow> nat option" where
  "max_concurrency_from_env e =
     (case e ''AWS_LAMBDA_MAX_CONCURRENCY'' of
        None \<Rightarrow> None
      | Some v \<Rightarrow>
          (case parse_u32 v of
             Ok c \<Rightarrow> if 0 < c then Some c else None
           | _ \<Rightarrow> None))"

definition concurrency_env_value :: "env \<Rightarrow> string option" where
  "concurrency_env_value e = e ''AWS_LAMBDA_MAX_CONCURRENCY''"

definition concurrency_limit_of :: "env \<Rightarrow> nat" where
  "concurrency_limit_of e = max (case max_concurrency_from_env e of Some c \<Rightarrow> c | None \<Rightarrow> 1) 1"

definition runtime_new ::
  "'h crates \<Rightarrow> env \<Rightarrow> nat \<Rightarrow> 'c \<Rightarrow> ('c pooled_client \<Rightarrow> 'svc) \<Rightarrow> (box_error, ('svc, 'c pooled_client, 'w) runtime) result"
  where
  "runtime_new C e pool connector wrap =
     and_then (config_from_env e) (\<lambda>config.
     let concurrency_limit = concurrency_limit_of e in
     map_ok (\<lambda>client.
       \<lparr>rt_service = wrap client, rt_config = config, rt_client = client,
        rt_concurrency_limit = concurrency_limit, rt_snapstart_resources = []\<rparr>)
       (pooled_build C e pool (with_pool_size concurrency_limit (cb_new connector))))"

definition runtime_layer :: "('svc \<Rightarrow> 'svc2) \<Rightarrow> ('svc, 'cl, 'w) runtime \<Rightarrow> ('svc2, 'cl, 'w) runtime" where
  "runtime_layer layer rt =
     \<lparr>rt_service = layer (rt_service rt), rt_config = rt_config rt, rt_client = rt_client rt,
      rt_concurrency_limit = rt_concurrency_limit rt, rt_snapstart_resources = rt_snapstart_resources rt\<rparr>"

definition register_snapstart_resource :: "'w resource \<Rightarrow> ('svc, 'cl, 'w) runtime \<Rightarrow> ('svc, 'cl, 'w) runtime" where
  "register_snapstart_resource r rt = rt\<lparr>rt_snapstart_resources := rt_snapstart_resources rt @ [r]\<rparr>"

subsection \<open>One invocation\<close>

definition amzn_trace_env :: "rt_context \<Rightarrow> env \<Rightarrow> env" where
  "amzn_trace_env cx e =
     (case cx_xray_trace_id cx of
        Some trace_id \<Rightarrow> e(''_X_AMZN_TRACE_ID'' := Some trace_id)
      | None \<Rightarrow> e(''_X_AMZN_TRACE_ID'' := None))"

definition build_invocation ::
  "'h crates \<Rightarrow> config \<Rightarrow> 'h http_response \<Rightarrow> (box_error, 'h lambda_invocation) result" where
  "build_invocation C config event =
     and_then (rs_body event) (\<lambda>body.
     and_then (invoke_request_id C (rs_headers event)) (\<lambda>request_id.
     and_then (context_new C request_id config (rs_headers event)) (\<lambda>context.
     Ok \<lparr>li_status = rs_status event, li_headers = rs_headers event, li_body = body, li_context = context\<rparr>)))"

definition process_invocation ::
  "'h loop_env \<Rightarrow> ('w, 'f, 'h lambda_invocation, box_error, unit) service \<Rightarrow> config
   \<Rightarrow> 'h http_response \<Rightarrow> bool \<Rightarrow> 'w process_state \<Rightarrow> (box_error, unit) result \<times> 'w process_state" where
  "process_invocation L service config event set_amzn_trace_env s =
     (if le_debug L \<and> rs_status event = 204 then (Ok (), s)
      else
        (case build_invocation (le_crates L) config event of
           Err e \<Rightarrow> (Err e, s)
         | Panic p \<Rightarrow> (Panic p, s)
         | Ok invocation \<Rightarrow>
             (let s1 = (if set_amzn_trace_env then s\<lparr>ps_env := amzn_trace_env (li_context invocation) (ps_env s)\<rparr>
                        else s) in
              case lift_world (sv_ready service) s1 of
                (Err e, s2) \<Rightarrow> (Err e, s2)
              | (Panic p, s2) \<Rightarrow> (Panic p, s2)
              | (Ok _, s2) \<Rightarrow> lift_world (sv_oneshot service invocation) s2)))"

subsection \<open>The sequential loop\<close>

text \<open>
  The stream of next-event responses: an element and the state after it, or its end. The one of
  \<^verbatim>\<open>incoming\<close> never ends; a request that cannot be built is a panic.
\<close>

type_synonym ('h, 'w) incoming = "'w process_state \<Rightarrow> (box_error, 'h http_response) result option \<times> 'w process_state"

definition incoming ::
  "'h loop_env \<Rightarrow> ('h, 'w) api \<Rightarrow> ('h, 'w) incoming" where
  "incoming L api s =
     (case expect_ok ''Unable to construct request'' (next_event_req (le_crates L) (le_user_agent L)) of
        Ok req \<Rightarrow> (case lift_world (api req) s of (r, s1) \<Rightarrow> (Some r, s1))
      | Err e \<Rightarrow> (Some (Err e), s)
      | Panic p \<Rightarrow> (Some (Panic p), s))"

text \<open>One iteration: \<open>None\<close> goes on, \<open>Some r\<close> leaves the loop with \<open>r\<close>.\<close>

definition loop_iter ::
  "'h loop_env \<Rightarrow> ('w, 'f, 'h lambda_invocation, box_error, unit) service \<Rightarrow> config \<Rightarrow> ('h, 'w) incoming
   \<Rightarrow> 'w process_state \<Rightarrow> (box_error, unit) result option \<times> 'w process_state" where
  "loop_iter L service config inc s =
     (case inc s of
        (None, s1) \<Rightarrow> (Some (Ok ()), s1)
      | (Some (Err e), s1) \<Rightarrow> (Some (Err e), s1)
      | (Some (Panic p), s1) \<Rightarrow> (Some (Panic p), s1)
      | (Some (Ok event), s1) \<Rightarrow>
          (case process_invocation L service config event True s1 of
             (Ok _, s2) \<Rightarrow> (None, s2)
           | (r, s2) \<Rightarrow> (Some r, s2)))"

text \<open>A loop with a bound on its iterations; \<open>None\<close>: it is still running.\<close>

fun run_iter :: "nat \<Rightarrow> ('s \<Rightarrow> 'r option \<times> 's) \<Rightarrow> 's \<Rightarrow> ('r \<times> 's) option" where
  "run_iter 0 it s = None"
| "run_iter (Suc n) it s =
     (case it s of
        (None, s1) \<Rightarrow> run_iter n it s1
      | (Some r, s1) \<Rightarrow> Some (r, s1))"

definition run_with_incoming ::
  "nat \<Rightarrow> 'h loop_env \<Rightarrow> ('w, 'f, 'h lambda_invocation, box_error, unit) service \<Rightarrow> config \<Rightarrow> ('h, 'w) incoming
   \<Rightarrow> 'w process_state \<Rightarrow> ((box_error, unit) result \<times> 'w process_state) option" where
  "run_with_incoming n L service config inc s = run_iter n (loop_iter L service config inc) s"

subsection \<open>A concurrent worker\<close>

definition next_event_future ::
  "'h loop_env \<Rightarrow> ('h, 'w) api \<Rightarrow> 'w process_state \<Rightarrow> (box_error, 'h http_response) result \<times> 'w process_state" where
  "next_event_future L api s =
     (case next_event_req (le_crates L) (le_user_agent L) of
        Ok req \<Rightarrow> lift_world (api req) s
      | Err e \<Rightarrow> (Err e, s)
      | Panic p \<Rightarrow> (Panic p, s))"

definition worker_iter ::
  "'h loop_env \<Rightarrow> ('h, 'w) api \<Rightarrow> ('w, 'f, 'h lambda_invocation, box_error, unit) service \<Rightarrow> config
   \<Rightarrow> 'w process_state \<Rightarrow> (box_error, unit) result option \<times> 'w process_state" where
  "worker_iter L api service config s =
     (case next_event_future L api s of
        (Err e, s1) \<Rightarrow> (None, s1)
      | (Panic p, s1) \<Rightarrow> (Some (Panic p), s1)
      | (Ok event, s1) \<Rightarrow>
          (case process_invocation L service config event False s1 of
             (Ok _, s2) \<Rightarrow> (None, s2)
           | (r, s2) \<Rightarrow> (Some r, s2)))"

definition concurrent_worker_loop ::
  "nat \<Rightarrow> 'h loop_env \<Rightarrow> ('h, 'w) api \<Rightarrow> ('w, 'f, 'h lambda_invocation, box_error, unit) service \<Rightarrow> config
   \<Rightarrow> 'w process_state \<Rightarrow> ((box_error, unit) result \<times> 'w process_state) option" where
  "concurrent_worker_loop n L api service config s = run_iter n (worker_iter L api service config) s"

subsection \<open>The pool of workers\<close>

datatype worker_error = CleanExit nat | Failure nat box_error

text \<open>
  The exit of a task, as the loop over the join handles sees it; \<open>join_error\<close> is what
  \<^verbatim>\<open>tokio\<close> makes of a panic.
\<close>

definition worker_exit ::
  "(nat \<Rightarrow> panic_payload \<Rightarrow> box_error) \<Rightarrow> nat \<Rightarrow> (box_error, unit) result \<Rightarrow> worker_error" where
  "worker_exit join_error task_id r =
     (case r of
        Ok _ \<Rightarrow> CleanExit task_id
      | Err err \<Rightarrow> Failure task_id err
      | Panic p \<Rightarrow> Failure task_id (join_error task_id p))"

record 'w worker_pool =
  wp_workers :: "nat list"
  wp_remaining :: nat
  wp_errors :: "worker_error list"
  wp_state :: "'w process_state"

definition pool_init :: "nat \<Rightarrow> 'w process_state \<Rightarrow> 'w worker_pool" where
  "pool_init limit s = \<lparr>wp_workers = [0..<limit], wp_remaining = limit, wp_errors = [], wp_state = s\<rparr>"

text \<open>
  Workers run interleaved, an iteration at a time; each has its own clone of the service
  (\<open>services i\<close>). A worker that leaves its loop is joined.
\<close>

inductive pool_step ::
  "'h loop_env \<Rightarrow> ('h, 'w) api \<Rightarrow> (nat \<Rightarrow> ('w, 'f, 'h lambda_invocation, box_error, unit) service) \<Rightarrow> config
   \<Rightarrow> (nat \<Rightarrow> panic_payload \<Rightarrow> box_error) \<Rightarrow> 'w worker_pool \<Rightarrow> 'w worker_pool \<Rightarrow> bool"
  for L api services config join_error where
  work: "i \<in> set (wp_workers P) \<Longrightarrow>
    worker_iter L api (services i) config (wp_state P) = (None, s) \<Longrightarrow>
    pool_step L api services config join_error P (P\<lparr>wp_state := s\<rparr>)"
| leave: "i \<in> set (wp_workers P) \<Longrightarrow>
    worker_iter L api (services i) config (wp_state P) = (Some r, s) \<Longrightarrow>
    pool_step L api services config join_error P
      (P\<lparr>wp_workers := remove1 i (wp_workers P), wp_remaining := wp_remaining P - 1,
         wp_errors := wp_errors P @ [worker_exit join_error i r], wp_state := s\<rparr>)"

inductive_cases pool_stepE: "pool_step L api services config join_error P P'"

inductive pool_reach ::
  "'h loop_env \<Rightarrow> ('h, 'w) api \<Rightarrow> (nat \<Rightarrow> ('w, 'f, 'h lambda_invocation, box_error, unit) service) \<Rightarrow> config
   \<Rightarrow> (nat \<Rightarrow> panic_payload \<Rightarrow> box_error) \<Rightarrow> nat \<Rightarrow> 'w process_state \<Rightarrow> 'w worker_pool \<Rightarrow> bool"
  for L api services config join_error limit s0 where
  pool_start: "pool_reach L api services config join_error limit s0 (pool_init limit s0)"
| pool_next: "pool_reach L api services config join_error limit s0 P \<Longrightarrow>
    pool_step L api services config join_error P P' \<Longrightarrow>
    pool_reach L api services config join_error limit s0 P'"

text \<open>What \<^verbatim>\<open>run_concurrent_inner\<close> returns: nothing yet while a worker is left.\<close>

definition clean_ids :: "worker_error list \<Rightarrow> nat list" where
  "clean_ids errors = concat (map (\<lambda>e. case e of CleanExit i \<Rightarrow> [i] | Failure i err \<Rightarrow> []) errors)"

definition failure_entries :: "worker_error list \<Rightarrow> (nat \<times> box_error) list" where
  "failure_entries errors = concat (map (\<lambda>e. case e of CleanExit i \<Rightarrow> [] | Failure i err \<Rightarrow> [(i, err)]) errors)"

definition vec_field :: "string \<Rightarrow> json list \<Rightarrow> (string \<times> json) list" where
  "vec_field k vs = (if vs = [] then [] else [(k, JArr vs)])"

definition worker_errors_json :: "worker_error list \<Rightarrow> json" where
  "worker_errors_json errors =
     (let clean = clean_ids errors;
          failures = failure_entries errors;
          message = (if failures = [] \<and> clean \<noteq> []
                     then ''all concurrent workers exited cleanly (unexpected - loop should run forever)''
                     else ''concurrent workers exited unexpectedly'') in
      JObj ([(''message'', JStr message)] @
            vec_field ''clean'' (map (\<lambda>i. JStr (show_nat i)) clean) @
            vec_field ''failures''
              (map (\<lambda>(i, err). JObj [(''id'', JStr (show_nat i)), (''err'', JStr (err_to_string err))]) failures)))"

definition pool_result :: "'h crates \<Rightarrow> 'w worker_pool \<Rightarrow> (box_error, unit) result option" where
  "pool_result C P =
     (if wp_workers P \<noteq> [] then None
      else if wp_errors P = [] then Some (Ok ())
      else Some (Err (BoxError (cr_json_text C (worker_errors_json (wp_errors P))))))"

subsection \<open>Starting\<close>

text \<open>
  \<^verbatim>\<open>run\<close> is the restore lifecycle followed by the sequential loop.
  \<^verbatim>\<open>run_concurrent\<close> is the restore lifecycle followed by the mode the concurrency limit
  chooses, the same loop or the pool of workers, from the state reached.
\<close>

datatype run_mode = Sequential | Workers nat

definition runtime_run ::
  "nat \<Rightarrow> env \<Rightarrow> ('h, 'w) lifecycle_env \<Rightarrow> 'h loop_env
   \<Rightarrow> (('w, 'f, 'h lambda_invocation, box_error, unit) service, 'cl, 'w) runtime \<Rightarrow> 'w process_state
   \<Rightarrow> ((box_error, unit) result \<times> 'w process_state) option" where
  "runtime_run n e LC L rt s =
     (case lift_world (snapstart_lifecycle e LC (rt_snapstart_resources rt)) s of
        (Ok _, s1) \<Rightarrow> run_with_incoming n L (rt_service rt) (rt_config rt) (incoming L (lc_api LC)) s1
      | (Err err, s1) \<Rightarrow> Some (Err err, s1)
      | (Panic p, s1) \<Rightarrow> Some (Panic p, s1))"

definition start_run_concurrent ::
  "bool \<Rightarrow> env \<Rightarrow> ('h, 'w) lifecycle_env \<Rightarrow> ('svc, 'cl, 'w) runtime \<Rightarrow> 'w process_state
   \<Rightarrow> (box_error, run_mode) result \<times> 'w process_state" where
  "start_run_concurrent in_tokio e LC rt s =
     (if \<not> in_tokio
      then (Panic (PStr ''`run_concurrent` must be called from within a Tokio runtime''), s)
      else
        (case lift_world (snapstart_lifecycle e LC (rt_snapstart_resources rt)) s of
           (r, s1) \<Rightarrow>
             (map_ok (\<lambda>_. if 1 < rt_concurrency_limit rt then Workers (rt_concurrency_limit rt) else Sequential) r,
              s1)))"

subsection \<open>Lemmas\<close>

lemma run_iter_Some_iff:
  "run_iter n it s = Some (r, s') \<longleftrightarrow>
     (\<exists>k < n. it (((\<lambda>t. snd (it t)) ^^ k) s) = (Some r, s') \<and>
        (\<forall>j < k. fst (it (((\<lambda>t. snd (it t)) ^^ j) s)) = None))"
proof (induction n arbitrary: s)
  case 0
  show ?case by simp
next
  case (Suc n)
  obtain o1 s1 where it: "it s = (o1, s1)" by (cases "it s")
  show ?case
  proof (cases o1)
    case (Some r1)
    have "fst (it s) \<noteq> None" using it Some by simp
    then show ?thesis
      using it Some by (auto simp: less_Suc_eq_0_disj)
  next
    case None
    then have "run_iter (Suc n) it s = Some (r, s') \<longleftrightarrow> run_iter n it s1 = Some (r, s')"
      using it by simp
    also have "\<dots> \<longleftrightarrow> (\<exists>k < n. it (((\<lambda>t. snd (it t)) ^^ Suc k) s) = (Some r, s') \<and>
        (\<forall>j < k. fst (it (((\<lambda>t. snd (it t)) ^^ Suc j) s)) = None))"
      unfolding Suc.IH funpow_Suc_right by (simp add: it)
    also have "\<dots> \<longleftrightarrow> (\<exists>k < Suc n. it (((\<lambda>t. snd (it t)) ^^ k) s) = (Some r, s') \<and>
        (\<forall>j < k. fst (it (((\<lambda>t. snd (it t)) ^^ j) s)) = None))"
      unfolding Ex_less_Suc2 All_less_Suc2 using it None by (simp del: funpow.simps add: funpow_0)
    finally show ?thesis by simp
  qed
qed

lemma run_iter_leaves: "run_iter n it s = Some (r, s') \<Longrightarrow> \<exists>t. it t = (Some r, s')"
  by (auto simp: run_iter_Some_iff)

lemma incoming_not_end [simp]: "fst (incoming L api s) \<noteq> None"
  by (auto simp: incoming_def split: result.splits prod.splits)

lemma loop_iter_not_Ok: "fst (inc s) \<noteq> None \<Longrightarrow> fst (loop_iter L service config inc s) \<noteq> Some (Ok ())"
  by (auto simp: loop_iter_def split: prod.splits option.splits result.splits)

lemma worker_iter_not_Ok: "fst (worker_iter L api service config s) \<noteq> Some (Ok x)"
  by (auto simp: worker_iter_def split: prod.splits result.splits)

lemma lift_world_env [simp]: "ps_env (snd (lift_world f s)) = ps_env s"
  by (simp add: lift_world_def split: prod.splits)

lemma lift_world_env_eq: "lift_world f s = (r, s') \<Longrightarrow> ps_env s' = ps_env s"
  by (metis lift_world_env snd_conv)

lemma concurrency_limit_bounds: "1 \<le> concurrency_limit_of e \<and> concurrency_limit_of e \<le> u32_max"
  by (auto simp: concurrency_limit_of_def max_concurrency_from_env_def u32_max_def
      dest: parse_u32_bound split: option.splits result.splits)

text \<open>The invariant of the pool.\<close>

definition pool_inv :: "nat \<Rightarrow> 'w worker_pool \<Rightarrow> bool" where
  "pool_inv limit P \<longleftrightarrow>
     wp_remaining P = length (wp_workers P) \<and> clean_ids (wp_errors P) = [] \<and>
     length (failure_entries (wp_errors P)) = length (wp_errors P) \<and>
     distinct (map fst (failure_entries (wp_errors P)) @ wp_workers P) \<and>
     set (map fst (failure_entries (wp_errors P)) @ wp_workers P) = {0..<limit}"

lemma failure_entries_snoc [simp]:
  "clean_ids (es @ [CleanExit i]) = clean_ids es @ [i]"
  "clean_ids (es @ [Failure i err]) = clean_ids es"
  "failure_entries (es @ [CleanExit i]) = failure_entries es"
  "failure_entries (es @ [Failure i err]) = failure_entries es @ [(i, err)]"
  "clean_ids [] = []" "failure_entries [] = []"
  by (simp_all add: clean_ids_def failure_entries_def)

lemma pool_inv_init: "pool_inv limit (pool_init limit s)"
  by (simp add: pool_inv_def pool_init_def)

lemma pool_inv_step:
  assumes "pool_step L api services config join_error P P'" and "pool_inv limit P"
  shows "pool_inv limit P'"
  using assms
proof (cases rule: pool_step.cases)
  case (work i s)
  then show ?thesis using assms(2) by (simp add: pool_inv_def)
next
  case (leave i r s)
  obtain err where err: "worker_exit join_error i r = Failure i err"
    using leave(3) worker_iter_not_Ok [of L api "services i" config "wp_state P"]
    by (cases r) (auto simp: worker_exit_def)
  have "set (remove1 i (wp_workers P)) = set (wp_workers P) - {i}"
    using assms(2) by (simp add: pool_inv_def)
  then show ?thesis
    using assms(2) leave(1,2) err
    by (auto simp: pool_inv_def length_remove1)
qed

lemma pool_reach_inv:
  "pool_reach L api services config join_error limit s0 P \<Longrightarrow> pool_inv limit P"
  by (induction rule: pool_reach.induct) (auto intro: pool_inv_init pool_inv_step)

subsection \<open>Properties\<close>

text \<open>
  A runtime's concurrency limit is the value of \<^verbatim>\<open>AWS_LAMBDA_MAX_CONCURRENCY\<close>
  when that is a positive unsigned 32-bit number and 1 otherwise, and the client's connection pool
  is sized to it.
\<close>

lemma concurrency_limit_sizes_pool:
  assumes "runtime_new C e pool connector wrap = Ok rt"
  shows "1 \<le> rt_concurrency_limit rt \<and> rt_concurrency_limit rt \<le> u32_max \<and>
     rt_concurrency_limit rt =
       (case e ''AWS_LAMBDA_MAX_CONCURRENCY'' of
          None \<Rightarrow> 1
        | Some v \<Rightarrow> (case parse_u32 v of Ok c \<Rightarrow> if c = 0 then 1 else c | _ \<Rightarrow> 1)) \<and>
     hc_max_idle (active_client (rt_client rt)) = Some (rt_concurrency_limit rt) \<and>
     rt_snapstart_resources rt = []"
proof -
  obtain client where client: "pooled_build C e pool (with_pool_size (concurrency_limit_of e) (cb_new connector)) = Ok client"
      and limit: "rt_concurrency_limit rt = concurrency_limit_of e" and "rt_client rt = client"
      and "rt_snapstart_resources rt = []"
    using assms by (auto simp: runtime_new_def Let_def result_simps)
  moreover have "hc_max_idle (active_client client) = Some (concurrency_limit_of e)"
    using client by (auto simp: pooled_build_def pooled_with_def active_client_def build_hyper_client_def
        with_pool_size_def result_simps)
  ultimately show ?thesis
    using concurrency_limit_bounds [of e]
    by (auto simp: concurrency_limit_of_def max_concurrency_from_env_def split: option.splits result.splits)
qed

theorem concurrency_limit_sizes_pool_witness:
  "\<exists>rt. runtime_new ref_crates
      [''AWS_LAMBDA_FUNCTION_NAME'' \<mapsto> ''f'', ''AWS_LAMBDA_FUNCTION_MEMORY_SIZE'' \<mapsto> ''128'',
       ''AWS_LAMBDA_FUNCTION_VERSION'' \<mapsto> ''1'', ''AWS_LAMBDA_RUNTIME_API'' \<mapsto> ''h:1'',
       ''AWS_LAMBDA_MAX_CONCURRENCY'' \<mapsto> ''8''] 0 () (\<lambda>_. ()) = Ok (rt :: (unit, unit pooled_client, unit) runtime) \<and>
     rt_concurrency_limit rt = 8"
proof -
  let ?e = "[''AWS_LAMBDA_FUNCTION_NAME'' \<mapsto> ''f'', ''AWS_LAMBDA_FUNCTION_MEMORY_SIZE'' \<mapsto> ''128'',
       ''AWS_LAMBDA_FUNCTION_VERSION'' \<mapsto> ''1'', ''AWS_LAMBDA_RUNTIME_API'' \<mapsto> ''h:1'',
       ''AWS_LAMBDA_MAX_CONCURRENCY'' \<mapsto> ''8'']"
  have "is_ok (runtime_new ref_crates ?e 0 () (\<lambda>_. ()) :: (box_error, (unit, unit pooled_client, unit) runtime) result)"
    by (simp add: is_ok_iff runtime_new_def config_from_env_def env_expect_def parse_i32_def digit_val_def
        pooled_build_def resolve_uri_def with_pool_size_def cb_new_def ref_crates_def Let_def)
  then obtain rt where rt: "runtime_new ref_crates ?e 0 () (\<lambda>_. ()) = Ok (rt :: (unit, unit pooled_client, unit) runtime)"
    by (auto simp: is_ok_iff)
  from concurrency_limit_sizes_pool [OF rt] have "rt_concurrency_limit rt = 8"
    by (simp add: parse_u32_def parse_unsigned_def digit_val_def u32_max_def)
  with rt show ?thesis by blast
qed

text \<open>
  While an invocation is processed the trace id of the process is the one of that
  invocation (removed when it has none), from before the handler is called; with concurrent
  workers the process environment is never changed.
\<close>

lemma trace_id_of_invocation:
  assumes "\<not> (le_debug L \<and> rs_status event = 204)"
    and "build_invocation (le_crates L) config event = Ok invocation"
  shows "process_invocation L service config event True s =
       process_invocation L service config event False
         (s\<lparr>ps_env := (ps_env s)(''_X_AMZN_TRACE_ID'' :=
              lossy_header (le_crates L) ''lambda-runtime-trace-id'' (rs_headers event))\<rparr>) \<and>
     ps_env (snd (process_invocation L service config event False s)) = ps_env s"
proof -
  have "cx_xray_trace_id (li_context invocation) =
      lossy_header (le_crates L) ''lambda-runtime-trace-id'' (rs_headers event)"
    using assms(2) by (auto simp: build_invocation_def result_simps dest!: context_new_trace_id)
  then have "amzn_trace_env (li_context invocation) (ps_env s) = (ps_env s)(''_X_AMZN_TRACE_ID'' :=
      lossy_header (le_crates L) ''lambda-runtime-trace-id'' (rs_headers event))"
    by (simp add: amzn_trace_env_def split: option.splits)
  moreover have "ps_env (snd (process_invocation L service config event False s)) = ps_env s"
    using assms(2)
    by (auto simp: process_invocation_def Let_def dest: lift_world_env_eq split: prod.splits result.splits)
  ultimately show ?thesis
    using assms by (cases "le_debug L") (simp_all add: process_invocation_def Let_def)
qed

definition example_event :: "headers http_response" where
  "example_event =
     \<lparr>rs_status = 200,
      rs_headers = [(''lambda-runtime-aws-request-id'', ''r1''), (''lambda-runtime-deadline-ms'', ''5''),
                    (''lambda-runtime-trace-id'', ''Root=1'')],
      rs_body = Ok ''{}''\<rparr>"

lemma lower_runtime_headers [simp]:
  "lower ''lambda-runtime-deadline-ms'' = ''lambda-runtime-deadline-ms''"
  "lower ''lambda-runtime-trace-id'' = ''lambda-runtime-trace-id''"
  "lower ''lambda-runtime-client-context'' = ''lambda-runtime-client-context''"
  "lower ''lambda-runtime-cognito-identity'' = ''lambda-runtime-cognito-identity''"
  "lower ''lambda-runtime-invoked-function-arn'' = ''lambda-runtime-invoked-function-arn''"
  "lower ''lambda-runtime-aws-tenant-id'' = ''lambda-runtime-aws-tenant-id''"
  "lower ''lambda-runtime-aws-request-id'' = ''lambda-runtime-aws-request-id''"
  by (simp_all add: lower_eval)

lemma example_build:
  "build_invocation ref_crates config_default example_event =
     Ok \<lparr>li_status = 200, li_headers = rs_headers example_event, li_body = ''{}'',
         li_context = context_default\<lparr>cx_request_id := ''r1'', cx_deadline := 5,
           cx_invoked_function_arn := ''No header lambda-runtime-invoked-function-arn found.'',
           cx_xray_trace_id := Some ''Root=1''\<rparr>\<rparr>"
  by (simp add: build_invocation_def example_event_def invoke_request_id_def hm_get_def al_hmap_def
      hv_to_str_def visible_ascii_def context_new_def json_header_def deadline_header_def arn_header_def
      lossy_header_def parse_u64_def parse_unsigned_def digit_val_def u64_max_def context_default_def
      utf8_lossy_valid valid_utf8_ascii)

lemma example_build_config:
  "\<exists>ivc. build_invocation ref_crates config example_event = Ok ivc \<and> li_headers ivc = rs_headers example_event \<and>
     cx_request_id (li_context ivc) = ''r1''"
  by (simp add: build_invocation_def example_event_def invoke_request_id_def hm_get_def al_hmap_def
      hv_to_str_def visible_ascii_def context_new_def json_header_def deadline_header_def arn_header_def
      lossy_header_def parse_u64_def parse_unsigned_def digit_val_def u64_max_def
      utf8_lossy_valid valid_utf8_ascii)

theorem trace_id_of_invocation_witness:
  "ps_env (snd (process_invocation \<lparr>le_crates = ref_crates, le_debug = False, le_user_agent = ''ua''\<rparr>
     \<lparr>sv_ready = (\<lambda>w. (Ok (), w)), sv_call = (\<lambda>req w. (Inr (), w)), sv_await = (\<lambda>_ w. (Ok (), Suc w))\<rparr>
     config_default example_event True \<lparr>ps_env = Map.empty, ps_world = 0\<rparr>)) ''_X_AMZN_TRACE_ID'' = Some ''Root=1''"
proof -
  let ?L = "\<lparr>le_crates = ref_crates, le_debug = False, le_user_agent = ''ua''\<rparr>"
  have b: "build_invocation (le_crates ?L) config_default example_event = Ok (the (ok_option
      (build_invocation ref_crates config_default example_event)))"
    by (simp add: example_build)
  show ?thesis
    by (subst conjunct1 [OF trace_id_of_invocation [OF _ b]], simp, subst conjunct2 [OF trace_id_of_invocation [OF _ b]])
      (simp_all add: lossy_header_def example_event_def hm_get_def al_hmap_def utf8_lossy_valid valid_utf8_ascii)
qed

text \<open>The states after \<open>k\<close> events that were polled and processed without a failure.\<close>

fun served ::
  "'h loop_env \<Rightarrow> ('w, 'f, 'h lambda_invocation, box_error, unit) service \<Rightarrow> config \<Rightarrow> ('h, 'w) incoming
   \<Rightarrow> nat \<Rightarrow> 'w process_state \<Rightarrow> 'w process_state \<Rightarrow> bool" where
  "served L service config inc 0 s t \<longleftrightarrow> t = s"
| "served L service config inc (Suc k) s t \<longleftrightarrow>
     (\<exists>event s1 s2. inc s = (Some (Ok event), s1) \<and> process_invocation L service config event True s1 = (Ok (), s2) \<and>
        served L service config inc k s2 t)"

lemma loop_iter_goes_on:
  "loop_iter L service config inc s = (None, s') \<longleftrightarrow>
     (\<exists>event s1. inc s = (Some (Ok event), s1) \<and> process_invocation L service config event True s1 = (Ok (), s'))"
  by (auto simp: loop_iter_def split: prod.splits option.splits result.splits)

lemma loop_iter_leaves:
  assumes "fst (inc s) \<noteq> None"
  shows "loop_iter L service config inc s = (Some r, s') \<longleftrightarrow> r \<noteq> Ok () \<and>
     ((\<exists>q. inc s = (Some q, s') \<and> map_ok (\<lambda>_. ()) q = r) \<or>
      (\<exists>event s1. inc s = (Some (Ok event), s1) \<and> process_invocation L service config event True s1 = (r, s')))"
proof (cases "inc s")
  case (Pair q s1)
  then obtain q' where "q = Some q'" using assms by (cases q) auto
  then show ?thesis
    using Pair by (cases q') (auto simp: loop_iter_def split: prod.splits result.splits)
qed

text \<open>
  C22: the sequential loop over the events of the Runtime API never returns successfully. It returns a
  failure exactly when, after events that were all polled and processed without one, either polling
  for the next event failed or panicked, or processing the event that was polled did, and
  it returns that failure, in the state reached then.
\<close>

theorem sequential_run_ends_by_failure:
  "(run_with_incoming n L service config (incoming L api) s = Some (r, s')) =
     (r \<noteq> Ok () \<and>
      (\<exists>k < n. \<exists>t. served L service config (incoming L api) k s t \<and>
        ((\<exists>q. incoming L api t = (Some q, s') \<and> map_ok (\<lambda>_. ()) q = r) \<or>
         (\<exists>event t1. incoming L api t = (Some (Ok event), t1) \<and>
            process_invocation L service config event True t1 = (r, s')))))"
proof (induction n arbitrary: s)
  case 0
  show ?case by (simp add: run_with_incoming_def)
next
  case (Suc n)
  let ?it = "loop_iter L service config (incoming L api)"
  let ?ends = "\<lambda>t. (\<exists>q. incoming L api t = (Some q, s') \<and> map_ok (\<lambda>_. ()) q = r) \<or>
      (\<exists>event t1. incoming L api t = (Some (Ok event), t1) \<and> process_invocation L service config event True t1 = (r, s'))"
  have leaves: "?it s = (Some r, s') \<longleftrightarrow> r \<noteq> Ok () \<and> ?ends s"
    by (rule loop_iter_leaves) simp
  have "run_with_incoming (Suc n) L service config (incoming L api) s = Some (r, s') \<longleftrightarrow>
      ?it s = (Some r, s') \<or> (\<exists>s2. ?it s = (None, s2) \<and> run_with_incoming n L service config (incoming L api) s2 = Some (r, s'))"
    by (cases "?it s"; cases "fst (?it s)") (simp_all add: run_with_incoming_def)
  also have "\<dots> \<longleftrightarrow> r \<noteq> Ok () \<and> (?ends s \<or> (\<exists>s2. ?it s = (None, s2) \<and>
      (\<exists>k < n. \<exists>t. served L service config (incoming L api) k s2 t \<and> ?ends t)))"
    unfolding leaves Suc.IH by blast
  also have "(\<exists>s2. ?it s = (None, s2) \<and> (\<exists>k < n. \<exists>t. served L service config (incoming L api) k s2 t \<and> ?ends t)) \<longleftrightarrow>
      (\<exists>k < n. \<exists>t. served L service config (incoming L api) (Suc k) s t \<and> ?ends t)"
    unfolding loop_iter_goes_on served.simps by blast
  also have "?ends s \<or> (\<exists>k < n. \<exists>t. served L service config (incoming L api) (Suc k) s t \<and> ?ends t) \<longleftrightarrow>
      (\<exists>k < Suc n. \<exists>t. served L service config (incoming L api) k s t \<and> ?ends t)"
    unfolding Ex_less_Suc2 by simp
  finally show ?case .
qed

theorem sequential_run_ends_by_failure_witness:
  "run_with_incoming 5 \<lparr>le_crates = ref_crates, le_debug = False, le_user_agent = ''ua''\<rparr>
     \<lparr>sv_ready = (\<lambda>w. (Ok (), w)), sv_call = (\<lambda>req w. (Inr (), w)), sv_await = (\<lambda>_ w. (Ok (), Suc w))\<rparr>
     config_default
     (incoming \<lparr>le_crates = ref_crates, le_debug = False, le_user_agent = ''ua''\<rparr>
        (\<lambda>req w. (Err (BoxError ''refused''), Suc w)))
     \<lparr>ps_env = Map.empty, ps_world = 0\<rparr> = Some (Err (BoxError ''refused''), \<lparr>ps_env = Map.empty, ps_world = 1\<rparr>)"
  by (subst sequential_run_ends_by_failure)
    (auto intro!: exI [of _ 0] simp: incoming_def next_event_req_def build_request_def builder_defs
      hv_parse_def ref_crates_def al_hmap_def header_value_bytes_def lift_world_def)

text \<open>
  A transport error while polling for the next event ends the sequential loop with that
  error, while a concurrent worker goes on polling from the state reached.
\<close>

lemma polling_error_retried_by_workers:
  assumes "next_event_req (le_crates L) (le_user_agent L) = Ok req" and "api req (ps_world s) = (Err e, w)"
  shows "run_with_incoming (Suc n) L service config (incoming L api) s = Some (Err e, s\<lparr>ps_world := w\<rparr>) \<and>
     concurrent_worker_loop (Suc n) L api service config s =
       concurrent_worker_loop n L api service config (s\<lparr>ps_world := w\<rparr>)"
  using assms
  by (simp add: run_with_incoming_def concurrent_worker_loop_def loop_iter_def worker_iter_def incoming_def
      next_event_future_def lift_world_def)

theorem polling_error_retried_by_workers_witness:
  "concurrent_worker_loop (Suc 0) \<lparr>le_crates = ref_crates, le_debug = False, le_user_agent = ''ua''\<rparr>
     (\<lambda>req w. (Err (BoxError ''refused''), Suc w))
     \<lparr>sv_ready = (\<lambda>w. (Ok (), w)), sv_call = (\<lambda>req w. (Inr (), w)), sv_await = (\<lambda>_ w. (Ok (), Suc w))\<rparr>
     config_default \<lparr>ps_env = Map.empty, ps_world = 0\<rparr> = None"
proof -
  let ?L = "\<lparr>le_crates = ref_crates, le_debug = False, le_user_agent = ''ua''\<rparr>"
  have "\<exists>req. next_event_req (le_crates ?L) (le_user_agent ?L) = Ok req"
    by (simp add: next_event_req_def build_request_def builder_defs hv_parse_def ref_crates_def al_hmap_def
        header_value_bytes_def)
  then obtain req where req: "next_event_req (le_crates ?L) (le_user_agent ?L) = Ok req" ..
  show ?thesis
    by (subst conjunct2 [OF polling_error_retried_by_workers [OF req]]) (simp_all add: concurrent_worker_loop_def)
qed

text \<open>
  C4: the concurrent runtime returns only when every one of its workers has left its loop, and
  then never successfully: it returns one error whose text is a JSON object with the message that
  workers exited unexpectedly and, for each worker, exactly one failure entry; a clean exit never
  occurs. While it runs, the workers left and the recorded failures are together the workers
  started.
\<close>

theorem concurrent_run_ends_by_failures:
  assumes "pool_reach L api services config join_error limit s0 P" and "0 < limit"
  shows "pool_result C P =
       (if wp_workers P \<noteq> [] then None
        else Some (Err (BoxError (cr_json_text C (JObj
          [(''message'', JStr ''concurrent workers exited unexpectedly''),
           (''failures'', JArr (map (\<lambda>(i, err). JObj [(''id'', JStr (show_nat i)), (''err'', JStr (err_to_string err))])
              (failure_entries (wp_errors P))))]))))) \<and>
     wp_remaining P = length (wp_workers P) \<and> clean_ids (wp_errors P) = [] \<and>
     distinct (map fst (failure_entries (wp_errors P)) @ wp_workers P) \<and>
     set (map fst (failure_entries (wp_errors P)) @ wp_workers P) = {0..<limit}"
proof -
  have inv: "pool_inv limit P"
    by (rule pool_reach_inv [OF assms(1)])
  have "failure_entries (wp_errors P) \<noteq> []" if "wp_workers P = []"
    using inv that assms(2) by (auto simp: pool_inv_def)
  then show ?thesis
    using inv by (auto simp: pool_result_def worker_errors_json_def vec_field_def pool_inv_def Let_def)
qed

theorem concurrent_run_ends_by_failures_witness:
  "\<exists>P. pool_reach \<lparr>le_crates = ref_crates, le_debug = False, le_user_agent = ''ua''\<rparr>
      (\<lambda>req w. (Ok \<lparr>rs_status = 200, rs_headers = [], rs_body = Err (BoxError ''reset'')\<rparr>, Suc w))
      (\<lambda>_. \<lparr>sv_ready = (\<lambda>w. (Ok (), w)), sv_call = (\<lambda>req w. (Inr (), w)), sv_await = (\<lambda>_ w. (Ok (), w))\<rparr>)
      config_default (\<lambda>i p. BoxError ''panic'') 1 \<lparr>ps_env = Map.empty, ps_world = 0\<rparr> P \<and>
    pool_result ref_crates P = Some (Err (BoxError (ref_json_text (JObj
      [(''message'', JStr ''concurrent workers exited unexpectedly''),
       (''failures'', JArr [JObj [(''id'', JStr ''0''), (''err'', JStr ''reset'')]])]))))"
proof -
  let ?L = "\<lparr>le_crates = ref_crates, le_debug = False, le_user_agent = ''ua''\<rparr>"
  let ?api = "\<lambda>req w. (Ok \<lparr>rs_status = 200, rs_headers = [], rs_body = Err (BoxError ''reset'')\<rparr>, Suc w)"
  let ?S = "\<lparr>sv_ready = (\<lambda>w. (Ok (), w)), sv_call = (\<lambda>req w. (Inr (), w)), sv_await = (\<lambda>_ w. (Ok (), w))\<rparr>
    :: (nat, unit, headers lambda_invocation, box_error, unit) service"
  let ?s = "\<lparr>ps_env = Map.empty, ps_world = 0\<rparr>"
  let ?P = "pool_init 1 ?s\<lparr>wp_workers := [], wp_remaining := 0, wp_errors := [Failure 0 (BoxError ''reset'')],
      wp_state := \<lparr>ps_env = Map.empty, ps_world = Suc 0\<rparr>\<rparr>"
  have it: "worker_iter ?L ?api ?S config_default ?s = (Some (Err (BoxError ''reset'')), ?s\<lparr>ps_world := Suc 0\<rparr>)"
    by (simp add: worker_iter_def next_event_future_def next_event_req_def build_request_def builder_defs
        hv_parse_def ref_crates_def al_hmap_def header_value_bytes_def lift_world_def process_invocation_def
        build_invocation_def)
  have "pool_step ?L ?api (\<lambda>_. ?S) config_default (\<lambda>i p. BoxError ''panic'') (pool_init 1 ?s) ?P"
    using pool_step.leave [of 0 "pool_init 1 ?s" ?L ?api "\<lambda>_. ?S" config_default _ _ "\<lambda>i p. BoxError ''panic''"] it
    by (simp add: pool_init_def worker_exit_def)
  then have reach: "pool_reach ?L ?api (\<lambda>_. ?S) config_default (\<lambda>i p. BoxError ''panic'') 1 ?s ?P"
    by (rule pool_reach.pool_next [OF pool_reach.pool_start])
  have cr_text: "cr_json_text ref_crates = ref_json_text"
    by (simp add: ref_crates_def)
  have "show_nat 0 = ''0''"
    by (simp add: show_nat.simps digit_char_def char_of_def bit_0)
  with concurrent_run_ends_by_failures [OF reach, of ref_crates]
  have "pool_result ref_crates ?P = Some (Err (BoxError (ref_json_text (JObj
      [(''message'', JStr ''concurrent workers exited unexpectedly''),
       (''failures'', JArr [JObj [(''id'', JStr ''0''), (''err'', JStr ''reset'')]])]))))"
    by (simp add: failure_entries_def pool_init_def cr_text)
  with reach show ?thesis by blast
qed

text \<open>The client's call on the state of the whole stack.\<close>

definition on_client :: "('h, 'c) api \<Rightarrow> ('h, 'v \<times> 'c) api" where
  "on_client api req w = (case api req (snd w) of (r, c) \<Rightarrow> (r, (fst w, c)))"

text \<open>An iteration whose invocation is answered goes on.\<close>

lemma answered_iteration:
  assumes "next_event_req C (le_user_agent L) = Ok nreq" and "le_crates L = C"
    and "api nreq c = (Ok event, c1)" and "\<not> (le_debug L \<and> rs_status event = 204)"
    and "build_invocation C config event = Ok ivc" and "accepted C E ivc"
    and "sv_ready handler (rw_inner w) = (Ok (), v0)"
    and "answer_request C E into handler ivc v0 = (Ok req, v)" and "api req c1 = (Ok resp, c2)"
  shows "\<exists>s' w'. loop_iter L (wrap_handler C E api into handler) config (incoming L (on_client api))
            \<lparr>ps_env = e, ps_world = (w, c)\<rparr> = (None, s') \<and> ps_world s' = (w', c2) \<and> rw_inner w' = v"
proof -
  let ?W = "wrap_handler C E api into handler"
  let ?w0 = "w\<lparr>rw_inner := v0\<rparr>"
  obtain w' where one: "sv_oneshot ?W ivc (?w0, c1) = (Ok (), (w', c2))" and w': "rw_inner w' = v"
    using oneshot_wrap_handler [OF assms(6), of into handler ?w0 api c1] assms(8,9) by auto
  have ready: "sv_ready ?W (w, c1) = (Ok (), (?w0, c1))"
    using assms(7) by (simp add: wrap_handler_def client_service_def response_service_def catch_panic_def)
  have "process_invocation L ?W config event True \<lparr>ps_env = e, ps_world = (w, c1)\<rparr> =
      (Ok (), \<lparr>ps_env = amzn_trace_env (li_context ivc) e, ps_world = (w', c2)\<rparr>)"
    using assms(2,4,5) ready one by (auto simp: process_invocation_def lift_world_def Let_def)
  then show ?thesis
    using assms(1-3) w' by (simp add: loop_iter_def incoming_def lift_world_def on_client_def)
qed

text \<open>
  C1: the sequential runtime goes on to the next event after every invocation that it could read from
  the event, that its layers accepted with the handler ready for it, and whose answer could be built and sent: also
  when the handler returned an error or panicked, when the payload did not deserialise, and whatever the
  status the Runtime API answered with. The event is not one that a debug build skips for its status 204.
\<close>

theorem failed_handler_keeps_runtime_running:
  assumes "next_event_req C (le_user_agent L) = Ok nreq" and "le_crates L = C"
    and "api nreq c = (Ok event, c1)" and "\<not> (le_debug L \<and> rs_status event = 204)"
    and "build_invocation C config event = Ok ivc" and "accepted C E ivc"
    and "sv_ready handler (rw_inner w) = (Ok (), v0)"
    and "answer_request C E into handler ivc v0 = (Ok req, v)" and "api req c1 = (Ok resp, c2)"
  shows "\<exists>s' w'. loop_iter L (wrap_handler C E api into handler) config (incoming L (on_client api))
            \<lparr>ps_env = e, ps_world = (w, c)\<rparr> = (None, s') \<and> ps_world s' = (w', c2) \<and> rw_inner w' = v"
  by (rule answered_iteration [OF assms])

theorem failed_handler_keeps_runtime_running_witness:
  "\<exists>s' w'. loop_iter \<lparr>le_crates = ref_crates, le_debug = False, le_user_agent = ''ua''\<rparr>
      (wrap_handler ref_crates example_env (\<lambda>req c. (Ok (example_event\<lparr>rs_status := if c = 0 then 200 else 500\<rparr>), Suc c))
         (\<lambda>e. \<lparr>error_type = ''E'', error_message = err_to_string e\<rparr>) panicking_handler)
      config_default
      (incoming \<lparr>le_crates = ref_crates, le_debug = False, le_user_agent = ''ua''\<rparr>
        (on_client (\<lambda>req c. (Ok (example_event\<lparr>rs_status := if c = 0 then 200 else 500\<rparr>), Suc c))))
      \<lparr>ps_env = Map.empty, ps_world = (\<lparr>rw_inner = 0, rw_next_call = 0, rw_clock = 0, rw_warnings = 0\<rparr>, 0)\<rparr> =
      (None, s') \<and> ps_world s' = (w', 2) \<and> rw_inner w' = 1"
proof -
  let ?L = "\<lparr>le_crates = ref_crates, le_debug = False, le_user_agent = ''ua''\<rparr>"
  let ?api = "\<lambda>req c. (Ok (example_event\<lparr>rs_status := if c = 0 then 200 else 500\<rparr>), Suc c)"
  let ?d = "build_panic_diagnostic (\<lambda>t. t) (PStr ''boom'')"
  have "\<exists>req. next_event_req ref_crates ''ua'' = Ok req"
    by (simp add: next_event_req_def build_request_def builder_defs hv_parse_def ref_crates_def al_hmap_def
        header_value_bytes_def)
  then obtain nreq where nreq: "next_event_req ref_crates ''ua'' = Ok nreq" ..
  have "is_ok (event_error_req ref_crates ''ua'' ''r1'' None ?d)"
    by (simp add: is_ok_iff event_error_req_def ref_crates_def al_hmap_def header_value_bytes_def
        hv_parse_def build_request_def builder_defs invocation_uri_def insert_header_def)
  then obtain req where req: "event_error_req ref_crates ''ua'' ''r1'' None ?d = Ok req"
    by (auto simp: is_ok_iff)
  have status: "\<not> cr_is_server_error ref_crates 200"
    by (simp add: ref_crates_def)
  have "example_event\<lparr>rs_status := 200\<rparr> = example_event"
    by (simp add: example_event_def)
  then have build: "build_invocation ref_crates config_default (example_event\<lparr>rs_status := 200\<rparr>) =
      build_invocation ref_crates config_default example_event"
    by simp
  obtain ivc where ivc: "build_invocation ref_crates config_default example_event = Ok ivc" "li_status ivc = 200"
      "li_headers ivc = rs_headers example_event" "li_body ivc = ''{}''" "cx_request_id (li_context ivc) = ''r1''"
    using example_build by simp
  have "readable_invocation_id ref_crates (li_headers ivc) = None"
    by (simp add: readable_invocation_id_def ivc example_event_def hm_get_def al_hmap_def)
  then have "answer_request ref_crates example_env (\<lambda>e. \<lparr>error_type = ''E'', error_message = err_to_string e\<rparr>)
      panicking_handler ivc 0 = (Ok req, 1)"
    using req by (simp add: answer_request_def ivc example_env_def panicking_handler_def sv_oneshot_def)
  then show ?thesis
    by (intro failed_handler_keeps_runtime_running [where nreq = nreq and req = req and c = 0 and ?c1.0 = 1 and ?v0.0 = 0,
          OF _ _ _ _ trans [OF build ivc(1)]])
      (use nreq status ivc(2) in \<open>simp_all add: example_env_def accepted_def panicking_handler_def example_event_def\<close>)
qed

end
