(* ===== verification/Protocol.thy ===== *)
theory Protocol
  imports RuntimeLoop
begin

text \<open>
  What the Runtime API sees of the sequential runtime and of each concurrent worker: the requests that reach
  the client and their results, over whole runs of the loops of \<^verbatim>\<open>lambda-runtime/src/runtime.rs\<close> with the
  stack that \<^verbatim>\<open>wrap_handler\<close> builds around any handler. The protocol is stated on
  its own and both loops are shown to keep it.
\<close>

subsection \<open>A client that is watched\<close>

type_synonym 'h exchange = "'h http_request \<times> (box_error, 'h http_response) result"

definition watched :: "('h, 'c) api \<Rightarrow> ('h, 'c \<times> 'h exchange list) api" where
  "watched api req s = (case api req (fst s) of (r, c) \<Rightarrow> (r, (c, snd s @ [(req, r)])))"

lemma watched_result: "fst (watched api req s) = fst (api req (fst s))"
  and watched_log: "snd (snd (watched api req s)) = snd s @ [(req, fst (api req (fst s)))]"
  by (simp_all add: watched_def split: prod.splits)

subsection \<open>The protocol\<close>

text \<open>
  A request answers an event when it posts to the response or to the error endpoint of the request
  id that the event's headers name.
\<close>

definition answers :: "'h crates \<Rightarrow> 'h http_response \<Rightarrow> 'h http_request \<Rightarrow> bool" where
  "answers C event a \<longleftrightarrow>
     rq_method a = ''POST'' \<and>
     (case invoke_request_id C (rs_headers event) of
        Ok rid \<Rightarrow> cr_uri_parse C (invocation_uri rid ''/response'') = Ok (rq_uri a) \<or>
          cr_uri_parse C (invocation_uri rid ''/error'') = Ok (rq_uri a)
      | _ \<Rightarrow> False)"

text \<open>
  Polls that were answered, each answer accepted by the client. A concurrent worker retries: a poll that
  failed is followed by the next one.
\<close>

fun completed :: "bool \<Rightarrow> 'h crates \<Rightarrow> 'h http_request \<Rightarrow> 'h exchange list \<Rightarrow> bool" where
  "completed retries C nreq [] \<longleftrightarrow> True"
| "completed retries C nreq ((q, Err e) # hist) \<longleftrightarrow> retries \<and> q = nreq \<and> completed retries C nreq hist"
| "completed retries C nreq ((q, Ok event) # (a, ra) # hist) \<longleftrightarrow>
     q = nreq \<and> answers C event a \<and> is_ok ra \<and> completed retries C nreq hist"
| "completed retries C nreq hist \<longleftrightarrow> False"

text \<open>At most the last poll is without an answer, and at most the last answer failed.\<close>

fun conforms :: "bool \<Rightarrow> 'h crates \<Rightarrow> 'h http_request \<Rightarrow> 'h exchange list \<Rightarrow> bool" where
  "conforms retries C nreq [] \<longleftrightarrow> True"
| "conforms retries C nreq ((q, Err e) # hist) \<longleftrightarrow> q = nreq \<and> (hist = [] \<or> retries) \<and> conforms retries C nreq hist"
| "conforms retries C nreq ((q, Ok event) # (a, ra) # hist) \<longleftrightarrow>
     q = nreq \<and> answers C event a \<and> (hist = [] \<or> is_ok ra) \<and> conforms retries C nreq hist"
| "conforms retries C nreq [(q, r)] \<longleftrightarrow> q = nreq"
| "conforms retries C nreq hist \<longleftrightarrow> False"

lemma conforms_append: "completed retries C nreq xs \<Longrightarrow> conforms retries C nreq (xs @ ys) = conforms retries C nreq ys"
  by (induction retries C nreq xs rule: completed.induct) auto

lemma completed_append: "completed retries C nreq xs \<Longrightarrow> completed retries C nreq (xs @ ys) = completed retries C nreq ys"
  by (induction retries C nreq xs rule: completed.induct) auto

lemma completed_conforms: "completed retries C nreq xs \<Longrightarrow> conforms retries C nreq xs"
  using conforms_append [of retries C nreq xs "[]"] by simp

text \<open>An iteration of a loop that keeps the protocol, and goes on only when every poll is answered.\<close>

definition keeps_protocol ::
  "bool \<Rightarrow> 'h crates \<Rightarrow> 'h http_request \<Rightarrow> ('s \<Rightarrow> 'h exchange list) \<Rightarrow> ('s \<Rightarrow> 'r option \<times> 's) \<Rightarrow> bool" where
  "keeps_protocol retries C nreq lg it \<longleftrightarrow>
     (\<forall>s r s'. it s = (r, s') \<longrightarrow> completed retries C nreq (lg s) \<longrightarrow>
        conforms retries C nreq (lg s') \<and> (r = None \<longrightarrow> completed retries C nreq (lg s')))"

subsection \<open>What the stack posts\<close>

lemma completion_posts:
  "completion_req C ua room rid iid resp = Ok a \<Longrightarrow>
     rq_method a = ''POST'' \<and> cr_uri_parse C (invocation_uri rid ''/response'') = Ok (rq_uri a)"
  by (cases resp) (auto simp: completion_req_def result_simps builder_defs Let_def dest!: insert_header_Ok_frame)

lemma event_error_posts:
  "event_error_req C ua rid iid d = Ok a \<Longrightarrow>
     rq_method a = ''POST'' \<and> cr_uri_parse C (invocation_uri rid ''/error'') = Ok (rq_uri a)"
  by (auto simp: event_error_req_def result_simps dest!: insert_header_Ok_frame)

text \<open>A request that the response service makes posts to the invocation's own endpoints.\<close>

lemma response_posts:
  assumes "sv_oneshot (response_service C E S) ivc w = (Ok a, w1)"
  shows "rq_method a = ''POST'' \<and>
     (cr_uri_parse C (invocation_uri (cx_request_id (li_context ivc)) ''/response'') = Ok (rq_uri a) \<or>
      cr_uri_parse C (invocation_uri (cx_request_id (li_context ivc)) ''/error'') = Ok (rq_uri a))"
  using assms completion_posts event_error_posts
  by (fastforce simp: sv_oneshot_def response_service_def response_call_def response_await_def Let_def
      build_event_error_request_def split: prod.splits sum.splits result.splits if_splits)

lemma wrap_handler_posts_once:
  assumes "sv_oneshot (wrap_handler C E (watched api) into handler) ivc (w, (c, hist)) = (r, (w', (c', hist')))"
  shows "(hist' = hist \<and> r \<noteq> Ok ()) \<or>
    (\<exists>a ra. hist' = hist @ [(a, ra)] \<and> rq_method a = ''POST'' \<and> is_ok ra = (r = Ok ()) \<and>
       (cr_uri_parse C (invocation_uri (cx_request_id (li_context ivc)) ''/response'') = Ok (rq_uri a) \<or>
        cr_uri_parse C (invocation_uri (cx_request_id (li_context ivc)) ''/error'') = Ok (rq_uri a)))"
proof -
  let ?R = "response_service C E (catch_panic (re_type_name E) into handler)"
  obtain q w1 where q: "sv_oneshot ?R ivc w = (q, w1)" by fastforce
  show ?thesis
  proof (cases q)
    case (Ok a)
    then have "sv_oneshot ?R ivc w = (Ok a, w1)" using q by simp
    note posts = response_posts [OF this]
    obtain ra c1 where ra: "api a c = (ra, c1)" by fastforce
    have "r = map_ok (\<lambda>_. ()) ra" and "hist' = hist @ [(a, ra)]"
      using assms q Ok ra by (auto simp: wrap_handler_def oneshot_client watched_def)
    then show ?thesis
      using posts by (cases ra) auto
  qed (use assms q in \<open>auto simp: wrap_handler_def oneshot_client\<close>)
qed

lemma wrap_handler_ready_log:
  "sv_ready (wrap_handler C E api into handler) (w, c) = (r, (w', c')) \<Longrightarrow> c' = c"
  by (auto simp: wrap_handler_def client_service_def split: prod.splits)

subsection \<open>One iteration\<close>

abbreviation log_of :: "('v \<times> ('c \<times> 'h exchange list)) process_state \<Rightarrow> 'h exchange list" where
  "log_of s \<equiv> snd (snd (ps_world s))"

lemma build_invocation_id:
  "build_invocation C config event = Ok ivc \<Longrightarrow> invoke_request_id C (rs_headers event) = Ok (cx_request_id (li_context ivc))"
  by (auto simp: build_invocation_def result_simps context_new_eq_Ok)

lemma process_invocation_posts_once:
  assumes "\<not> le_debug L" and "le_crates L = C"
    and "process_invocation L (wrap_handler C E (watched api) into handler) config event set_env s = (r, s')"
  shows "(log_of s' = log_of s \<and> r \<noteq> Ok ()) \<or>
    (\<exists>a ra. log_of s' = log_of s @ [(a, ra)] \<and> answers C event a \<and> is_ok ra = (r = Ok ()))"
proof (cases "build_invocation C config event")
  case (Ok ivc)
  let ?W = "wrap_handler C E (watched api) into handler"
  let ?s = "if set_env then s\<lparr>ps_env := amzn_trace_env (li_context ivc) (ps_env s)\<rparr> else s"
  obtain w c hist where s: "ps_world s = (w, (c, hist))" by (metis surj_pair)
  obtain q w1 c1 log1 where ready: "sv_ready ?W (w, (c, hist)) = (q, (w1, (c1, log1)))" by (metis surj_pair)
  then have [simp]: "c1 = c" "log1 = hist"
    using wrap_handler_ready_log [OF ready] by simp_all
  have s': "ps_world ?s = (w, (c, hist))" using s by simp
  have step: "process_invocation L ?W config event set_env s =
      (case lift_world (sv_ready ?W) ?s of
         (Err e, s2) \<Rightarrow> (Err e, s2)
       | (Panic p, s2) \<Rightarrow> (Panic p, s2)
       | (Ok _, s2) \<Rightarrow> lift_world (sv_oneshot ?W ivc) s2)"
    using assms(1,2) Ok by (simp add: process_invocation_def Let_def)
  show ?thesis
  proof (cases q)
    case (Ok u)
    obtain q2 w2 c2 log2 where one: "sv_oneshot ?W ivc (w1, (c, hist)) = (q2, (w2, (c2, log2)))"
      by (metis surj_pair)
    have "r = q2" and "log_of s' = log2"
      using assms(3) Ok ready one s' unfolding step by (auto simp: lift_world_def)
    then show ?thesis
      using wrap_handler_posts_once [OF one] build_invocation_id [OF \<open>build_invocation C config event = Ok ivc\<close>] s
      by (auto simp: answers_def)
  qed (use assms(3) ready s s' in \<open>auto simp: step lift_world_def\<close>)
qed (use assms in \<open>auto simp: process_invocation_def\<close>)

lemma loop_iter_keeps_protocol:
  assumes "le_crates L = C" and "\<not> le_debug L" and "next_event_req C (le_user_agent L) = Ok nreq"
  shows "keeps_protocol False C nreq log_of
    (loop_iter L (wrap_handler C E (watched api) into handler) config (incoming L (on_client (watched api))))"
  unfolding keeps_protocol_def
proof (intro allI impI)
  let ?W = "wrap_handler C E (watched api) into handler"
  fix s r s' assume step: "loop_iter L ?W config (incoming L (on_client (watched api))) s = (r, s')"
    and before: "completed False C nreq (log_of s)"
  obtain w c hist where s: "ps_world s = (w, (c, hist))" by (metis surj_pair)
  obtain q c1 where q: "api nreq c = (q, c1)" by fastforce
  let ?s1 = "s\<lparr>ps_world := (w, (c1, hist @ [(nreq, q)]))\<rparr>"
  have inc: "incoming L (on_client (watched api)) s = (Some q, ?s1)"
    using assms(1,3) s q by (simp add: incoming_def lift_world_def on_client_def watched_def)
  show "conforms False C nreq (log_of s') \<and> (r = None \<longrightarrow> completed False C nreq (log_of s'))"
  proof (cases q)
    case (Ok event)
    obtain r2 s2 where inv: "process_invocation L ?W config event True ?s1 = (r2, s2)" by fastforce
    have res: "s' = s2 \<and> (r = None \<longleftrightarrow> r2 = Ok ())"
      using step inc Ok inv by (auto simp: loop_iter_def split: result.splits)
    from process_invocation_posts_once [OF assms(2,1) inv] show ?thesis
      using Ok s res before by (auto simp: conforms_append completed_append)
  qed (use step before inc s in \<open>auto simp: loop_iter_def conforms_append\<close>)
qed

lemma worker_iter_keeps_protocol:
  assumes "le_crates L = C" and "\<not> le_debug L" and "next_event_req C (le_user_agent L) = Ok nreq"
  shows "keeps_protocol True C nreq log_of
    (worker_iter L (on_client (watched api)) (wrap_handler C E (watched api) into handler) config)"
  unfolding keeps_protocol_def
proof (intro allI impI)
  let ?W = "wrap_handler C E (watched api) into handler"
  fix s r s' assume step: "worker_iter L (on_client (watched api)) ?W config s = (r, s')"
    and before: "completed True C nreq (log_of s)"
  obtain w c hist where s: "ps_world s = (w, (c, hist))" by (metis surj_pair)
  obtain q c1 where q: "api nreq c = (q, c1)" by fastforce
  let ?s1 = "s\<lparr>ps_world := (w, (c1, hist @ [(nreq, q)]))\<rparr>"
  have poll: "next_event_future L (on_client (watched api)) s = (q, ?s1)"
    using assms(1,3) s q by (simp add: next_event_future_def lift_world_def on_client_def watched_def)
  show "conforms True C nreq (log_of s') \<and> (r = None \<longrightarrow> completed True C nreq (log_of s'))"
  proof (cases q)
    case (Ok event)
    obtain r2 s2 where inv: "process_invocation L ?W config event False ?s1 = (r2, s2)" by fastforce
    have res: "s' = s2 \<and> (r = None \<longleftrightarrow> r2 = Ok ())"
      using step poll Ok inv by (auto simp: worker_iter_def split: result.splits)
    from process_invocation_posts_once [OF assms(2,1) inv] show ?thesis
      using Ok s res before by (auto simp: conforms_append completed_append)
  qed (use step before poll s in \<open>auto simp: worker_iter_def conforms_append completed_append\<close>)
qed

subsection \<open>Runs\<close>

text \<open>The states between the iterations of a loop.\<close>

inductive loop_reach :: "('s \<Rightarrow> 'r option \<times> 's) \<Rightarrow> 's \<Rightarrow> 's \<Rightarrow> bool"
  for it s0 where
  loop_start: "loop_reach it s0 s0"
| loop_next: "loop_reach it s0 s \<Longrightarrow> it s = (None, s') \<Longrightarrow> loop_reach it s0 s'"

lemma loop_reach_step: "loop_reach it s1 s \<Longrightarrow> it s0 = (None, s1) \<Longrightarrow> loop_reach it s0 s"
  by (induction rule: loop_reach.induct) (auto intro: loop_reach.intros)

lemma run_iter_reach: "run_iter n it s0 = Some (r, s') \<Longrightarrow> \<exists>s. loop_reach it s0 s \<and> it s = (Some r, s')"
proof (induction n arbitrary: s0)
  case (Suc n)
  show ?case
  proof (cases "it s0")
    case (Pair o1 s1)
    show ?thesis
    proof (cases o1)
      case None
      then obtain s where "loop_reach it s1 s" "it s = (Some r, s')"
        using Suc.IH [of s1] Suc.prems Pair None by auto
      moreover have "it s0 = (None, s1)"
        using Pair None by simp
      ultimately show ?thesis
        by (blast intro: loop_reach_step)
    qed (use Suc.prems Pair in \<open>auto intro: loop_start\<close>)
  qed
qed simp

lemma reached_completed:
  assumes "keeps_protocol retries C nreq lg it" and "loop_reach it s0 s" and "lg s0 = []"
  shows "completed retries C nreq (lg s)"
  using assms(2)
proof (induction rule: loop_reach.induct)
  case (loop_next s s')
  then show ?case
    using assms(1) unfolding keeps_protocol_def by blast
qed (use assms(3) in simp)

lemma run_conforms:
  assumes "keeps_protocol retries C nreq lg it" and "run_iter n it s0 = Some (r, s')" and "lg s0 = []"
  shows "conforms retries C nreq (lg s')"
proof -
  obtain t where t: "loop_reach it s0 t" "it t = (Some r, s')"
    using run_iter_reach [OF assms(2)] by blast
  then show ?thesis
    using reached_completed [OF assms(1) t(1) assms(3)] assms(1) unfolding keeps_protocol_def by blast
qed

subsection \<open>Properties\<close>

text \<open>
  C2: The runtime, in a release build, keeps the protocol of the Runtime API whatever the
  handler does (return, fail or panic), whatever the API answers and however long it runs. Between two iterations
  everything the client was asked to send is a sequence of polls for the next event, each of them
  followed by exactly one answer, a POST to the response or the error endpoint of the request id that the event
  named. When the loop ends, at most the last poll is without an answer and at most the last
  answer was not accepted by the client. A concurrent worker keeps the same protocol, except that a poll
  the client failed to send may be followed by another one.
\<close>

theorem runtime_keeps_protocol:
  assumes "le_crates L = C" and "\<not> le_debug L" and "next_event_req C (le_user_agent L) = Ok nreq"
    and "log_of s0 = []"
    and "service = wrap_handler C E (watched api) into handler" and "client = on_client (watched api)"
  shows "(loop_reach (loop_iter L service config (incoming L client)) s0 s \<longrightarrow> completed False C nreq (log_of s)) \<and>
    (run_with_incoming n L service config (incoming L client) s0 = Some (r, s') \<longrightarrow> conforms False C nreq (log_of s')) \<and>
    (loop_reach (worker_iter L client service config) s0 s \<longrightarrow> completed True C nreq (log_of s)) \<and>
    (concurrent_worker_loop n L client service config s0 = Some (r, s') \<longrightarrow> conforms True C nreq (log_of s'))"
proof -
  have seq: "keeps_protocol False C nreq log_of (loop_iter L service config (incoming L client))"
    unfolding assms(5,6) by (rule loop_iter_keeps_protocol [OF assms(1-3)])
  have work: "keeps_protocol True C nreq log_of (worker_iter L client service config)"
    unfolding assms(5,6) by (rule worker_iter_keeps_protocol [OF assms(1-3)])
  show ?thesis
    unfolding run_with_incoming_def concurrent_worker_loop_def
    by (intro conjI impI reached_completed [OF seq _ assms(4)] reached_completed [OF work _ assms(4)]
        run_conforms [OF seq _ assms(4)] run_conforms [OF work _ assms(4)])
qed

text \<open>A handler that panics: the poll is answered by its diagnostic, and the loop goes on.\<close>

definition watched_stack where
  "watched_stack = wrap_handler ref_crates example_env
     (watched (\<lambda>req c. (Ok (example_event\<lparr>rs_status := if c = 0 then 200 else 500\<rparr>), Suc c)))
     (\<lambda>e. \<lparr>error_type = ''E'', error_message = err_to_string e\<rparr>) panicking_handler"

definition watched_client where
  "watched_client = on_client (watched (\<lambda>req c. (Ok (example_event\<lparr>rs_status := if c = (0 :: nat) then 200 else 500\<rparr>), Suc c)))"

theorem runtime_keeps_protocol_witness:
  "\<exists>nreq s. next_event_req ref_crates ''ua'' = Ok nreq \<and>
     loop_reach (loop_iter \<lparr>le_crates = ref_crates, le_debug = False, le_user_agent = ''ua''\<rparr> watched_stack
         config_default (incoming \<lparr>le_crates = ref_crates, le_debug = False, le_user_agent = ''ua''\<rparr> watched_client))
       \<lparr>ps_env = Map.empty, ps_world = (\<lparr>rw_inner = 0, rw_next_call = 0, rw_clock = 0, rw_warnings = 0\<rparr>, (0, []))\<rparr> s \<and>
     length (log_of s) = 2 \<and> completed False ref_crates nreq (log_of s)"
proof -
  let ?L = "\<lparr>le_crates = ref_crates, le_debug = False, le_user_agent = ''ua''\<rparr>"
  let ?api = "\<lambda>req c. (Ok (example_event\<lparr>rs_status := if c = (0 :: nat) then 200 else 500\<rparr>), Suc c)"
  let ?s0 = "\<lparr>ps_env = Map.empty, ps_world = (\<lparr>rw_inner = 0, rw_next_call = 0, rw_clock = 0, rw_warnings = 0\<rparr>, (0, []))\<rparr>"
  let ?it = "loop_iter ?L watched_stack config_default (incoming ?L watched_client)"
  let ?d = "build_panic_diagnostic (\<lambda>t. t) (PStr ''boom'')"
  have "\<exists>req. next_event_req ref_crates ''ua'' = Ok req"
    by (simp add: next_event_req_def build_request_def builder_defs hv_parse_def ref_crates_def al_hmap_def
        header_value_bytes_def)
  then obtain nreq where nreq: "next_event_req ref_crates ''ua'' = Ok nreq" ..
  have "is_ok (event_error_req ref_crates ''ua'' ''r1'' None ?d)"
    by (simp add: is_ok_iff event_error_req_def ref_crates_def al_hmap_def header_value_bytes_def
        hv_parse_def build_request_def builder_defs invocation_uri_def insert_header_def)
  then obtain req where req: "event_error_req ref_crates ''ua'' ''r1'' None ?d = Ok req"
    by (auto simp: is_ok_iff)
  have status: "\<not> cr_is_server_error ref_crates 200"
    by (simp add: ref_crates_def)
  have "example_event\<lparr>rs_status := 200\<rparr> = example_event"
    by (simp add: example_event_def)
  then have build: "build_invocation ref_crates config_default (example_event\<lparr>rs_status := 200\<rparr>) =
      build_invocation ref_crates config_default example_event"
    by simp
  let ?log1 = "[(nreq, Ok (example_event\<lparr>rs_status := 200\<rparr>))]"
  let ?log2 = "?log1 @ [(req, Ok (example_event\<lparr>rs_status := 500\<rparr>))]"
  obtain ivc where ivc: "build_invocation ref_crates config_default example_event = Ok ivc" "li_status ivc = 200"
      "li_headers ivc = rs_headers example_event" "li_body ivc = ''{}''" "cx_request_id (li_context ivc) = ''r1''"
    using example_build by simp
  have "readable_invocation_id ref_crates (li_headers ivc) = None"
    by (simp add: readable_invocation_id_def ivc example_event_def hm_get_def al_hmap_def)
  then have "answer_request ref_crates example_env (\<lambda>e. \<lparr>error_type = ''E'', error_message = err_to_string e\<rparr>)
      panicking_handler ivc 0 = (Ok req, 1)"
    using req by (simp add: answer_request_def ivc example_env_def panicking_handler_def sv_oneshot_def)
  then have "\<exists>s' w'. ?it ?s0 = (None, s') \<and> ps_world s' = (w', (2, ?log2)) \<and> rw_inner w' = 1"
    unfolding watched_stack_def watched_client_def
    by (intro answered_iteration [where nreq = nreq and req = req and c = "(0, [])" and ?c1.0 = "(1, ?log1)"
          and ?v0.0 = 0, OF _ _ _ _ trans [OF build ivc(1)]])
      (use nreq status ivc(2) in \<open>simp_all add: example_env_def accepted_def panicking_handler_def example_event_def watched_def\<close>)
  then obtain s w' where s: "?it ?s0 = (None, s)" "ps_world s = (w', (2, ?log2))"
    by blast
  have reach: "loop_reach ?it ?s0 s"
    by (rule loop_next [where s = "?s0"]) (use s(1) in \<open>auto intro: loop_start\<close>)
  moreover have "completed False ref_crates nreq (log_of s)"
    using runtime_keeps_protocol [of ?L ref_crates nreq ?s0 watched_stack, OF _ _ _ _ watched_stack_def watched_client_def] nreq reach
    by simp
  ultimately show ?thesis
    using nreq s(2) by (intro exI [of _ nreq] exI [of _ s]) simp
qed

end
