(* ===== verification/CustomSerde.thy ===== *)
theory CustomSerde
  imports Http Utf8 "HOL-Library.AList" "HOL-Library.Monad_Syntax"
begin

text \<open>
  The field (de)serialisers that the event structures share
  (\<^verbatim>\<open>lambda-events/src/custom_serde\<close>): nullish values, hash maps, HTTP methods, header
  maps in their single-valued, multi-valued and comma-separated forms, query strings. A hash map
  is the list of its entries, one per key; nothing depends on their order. A serialiser that
  fails is \<open>None\<close>, and so is a deserialiser.
\<close>

subsection \<open>The crates of the HTTP events\<close>

text \<open>
  What the sources use of \<^verbatim>\<open>query_map\<close> (\<open>'q\<close> is \<^verbatim>\<open>QueryMap\<close>),
  \<^verbatim>\<open>url\<close>, \<^verbatim>\<open>percent_encoding\<close>, \<^verbatim>\<open>base64\<close>,
  \<^verbatim>\<open>mime\<close>, \<^verbatim>\<open>encoding_rs\<close> and of the methods and status codes of
  \<^verbatim>\<open>http\<close>.
\<close>

record ('h, 'q) web =
  wc_crates :: "'h crates"
  wc_method_valid :: "string \<Rightarrow> bool"
  wc_reason :: "nat \<Rightarrow> string option"
  wc_base64_decode :: "string \<Rightarrow> string option"
  wc_percent_decode :: "string \<Rightarrow> string"
  wc_url :: "string \<Rightarrow> (box_error, string) result"
  wc_url_path :: "string \<Rightarrow> (box_error, string) result"
  wc_charset :: "string \<Rightarrow> string option"
  wc_encoding :: "string \<Rightarrow> string option"
  wc_decode :: "string \<Rightarrow> string \<Rightarrow> string"
  wc_qm_default :: 'q
  wc_qm_is_empty :: "'q \<Rightarrow> bool"
  wc_qm_of_map :: "(string \<times> string) list \<Rightarrow> 'q"
  wc_qm_parse :: "string \<Rightarrow> 'q"
  wc_qm_text :: "'q \<Rightarrow> string"
  wc_qm_of_json :: "json \<Rightarrow> 'q option"
  wc_qm_of_json_or_empty :: "json \<Rightarrow> 'q option"
  wc_qm_of_json_v2 :: "json \<Rightarrow> 'q option"

abbreviation wc_hm :: "('h, 'q) web \<Rightarrow> 'h hmap" where
  "wc_hm W \<equiv> cr_hm (wc_crates W)"

definition utf8_bom :: string where
  "utf8_bom = [CHR 0xEF, CHR 0xBB, CHR 0xBF]"

text \<open>The documented laws of these functions that lemmas rely on.\<close>

locale web_crates = header_map "cr_hm (wc_crates W)" for W :: "('h, 'q) web" +
  assumes base64_inverse: "wc_base64_decode W (cr_base64 (wc_crates W) s) = Some s"
    and default_is_empty: "wc_qm_is_empty W (wc_qm_default W)"
    and empty_text: "wc_qm_parse W [] = wc_qm_default W"
    and percent_decode_plain: "CHR ''%'' \<notin> set s \<Longrightarrow> wc_percent_decode W s = s"
    and utf8_label: "wc_encoding W ''utf-8'' = Some ''UTF-8''"
    and decode_utf8: "valid_utf8 s \<Longrightarrow> \<not> starts_with utf8_bom s \<Longrightarrow> wc_decode W ''UTF-8'' s = s"

subsection \<open>Nullish values and hash maps\<close>

definition de_nullish :: "(json \<Rightarrow> 'a option) \<Rightarrow> 'a \<Rightarrow> json \<Rightarrow> 'a option" where
  "de_nullish f d j = (if j = JNull then Some d else f j)"

text \<open>\<^verbatim>\<open>HashMap<String, T>\<close>: of a repeated key the last value stays.\<close>

definition de_hash_map :: "(json \<Rightarrow> 'a option) \<Rightarrow> json \<Rightarrow> (string \<times> 'a) list option" where
  "de_hash_map f j =
     (case j of
        JObj kvs \<Rightarrow>
          map_option (\<lambda>vs. fold (\<lambda>(k, v). AList.update k v) (zip (map fst kvs) vs) []) (those (map (f \<circ> snd) kvs))
      | _ \<Rightarrow> None)"

definition de_opt_string :: "string \<Rightarrow> (string \<times> json) list \<Rightarrow> string option option" where
  "de_opt_string name kvs = de_optional de_string [name] kvs"

definition de_i64 :: "json \<Rightarrow> int option" where
  "de_i64 j = (case j of JInt i \<Rightarrow> if - (2 ^ 63) \<le> i \<and> i < 2 ^ 63 then Some i else None | _ \<Rightarrow> None)"

definition deserialize_base64 :: "('h, 'q) web \<Rightarrow> json \<Rightarrow> string option" where
  "deserialize_base64 W j = Option.bind (de_string j) (wc_base64_decode W)"

definition serialize_base64 :: "('h, 'q) web \<Rightarrow> string \<Rightarrow> json" where
  "serialize_base64 W bytes = JStr (cr_base64 (wc_crates W) bytes)"

subsection \<open>Methods\<close>

text \<open>A \<^verbatim>\<open>Method\<close> is the string it prints.\<close>

definition method_of_string :: "('h, 'q) web \<Rightarrow> string \<Rightarrow> string option" where
  "method_of_string W s = (if s = [] then Some ''GET'' else if wc_method_valid W s then Some s else None)"

definition deserialize_method :: "('h, 'q) web \<Rightarrow> json \<Rightarrow> string option" where
  "deserialize_method W j = Option.bind (de_string j) (method_of_string W)"

definition deserialize_optional_method :: "('h, 'q) web \<Rightarrow> json \<Rightarrow> string option option" where
  "deserialize_optional_method W j =
     (case j of JNull \<Rightarrow> Some None | _ \<Rightarrow> map_option Some (deserialize_method W j))"

definition serialize_method :: "string \<Rightarrow> json" where
  "serialize_method m = JStr m"

definition serialize_optional_method :: "string option \<Rightarrow> json" where
  "serialize_optional_method m = (case m of Some m \<Rightarrow> serialize_method m | None \<Rightarrow> JNull)"

subsection \<open>Header maps\<close>

datatype one_or_more = OneValue string | StringValues "string list" | BytesValues "string list"

text \<open>The untagged enum: a string, else a list of strings, else a list of lists of bytes.\<close>

definition de_bytes :: "json \<Rightarrow> string option" where
  "de_bytes j = map_option (map char_of) (de_list (de_unsigned 255) j)"

definition one_or_more_of_json :: "json \<Rightarrow> one_or_more option" where
  "one_or_more_of_json j =
     (case de_string j of
        Some s \<Rightarrow> Some (OneValue s)
      | None \<Rightarrow>
          (case de_list de_string j of
             Some ss \<Rightarrow> Some (StringValues ss)
           | None \<Rightarrow> map_option BytesValues (de_list de_bytes j)))"

fun append_values :: "'h crates \<Rightarrow> string \<Rightarrow> string list \<Rightarrow> 'h \<Rightarrow> 'h option" where
  "append_values C k [] m = Some m"
| "append_values C k (v # vs) m =
     (if hv_valid (cr_hm C) v then append_values C k vs (hm_append (cr_hm C) m k v) else None)"

definition split_and_append_header :: "'h crates \<Rightarrow> string \<Rightarrow> string \<Rightarrow> 'h \<Rightarrow> 'h option" where
  "split_and_append_header C k v m =
     append_values C k (filter (\<lambda>s. s \<noteq> []) (map trim (split_on (CHR '','') v))) m"

fun append_strings :: "'h crates \<Rightarrow> bool \<Rightarrow> string \<Rightarrow> string list \<Rightarrow> 'h \<Rightarrow> 'h option" where
  "append_strings C split k [] m = Some m"
| "append_strings C split k (v # vs) m =
     Option.bind (if split \<and> CHR '','' \<in> set v then split_and_append_header C k v m else append_values C k [v] m)
       (append_strings C split k vs)"

definition add_header :: "'h crates \<Rightarrow> bool \<Rightarrow> string \<Rightarrow> one_or_more \<Rightarrow> 'h \<Rightarrow> 'h option" where
  "add_header C split k val m =
     (case val of
        OneValue v \<Rightarrow>
          if split \<and> CHR '','' \<in> set v then split_and_append_header C k v m
          else if hv_valid (cr_hm C) v then Some (hm_insert (cr_hm C) m k v) else None
      | StringValues vs \<Rightarrow> append_strings C split k vs m
      | BytesValues vs \<Rightarrow> append_values C k vs m)"

fun header_entries :: "'h crates \<Rightarrow> bool \<Rightarrow> (string \<times> json) list \<Rightarrow> 'h \<Rightarrow> 'h option" where
  "header_entries C split [] m = Some m"
| "header_entries C split ((k, j) # kvs) m =
     Option.bind (one_or_more_of_json j) (\<lambda>val.
       if hn_valid (cr_hm C) k then Option.bind (add_header C split k val m) (header_entries C split kvs)
       else None)"

definition headers_of_json :: "'h crates \<Rightarrow> bool \<Rightarrow> json \<Rightarrow> 'h option" where
  "headers_of_json C split j =
     (case j of
        JNull \<Rightarrow> Some (hm_empty (cr_hm C))
      | JObj kvs \<Rightarrow> header_entries C split kvs (hm_empty (cr_hm C))
      | _ \<Rightarrow> None)"

definition deserialize_headers :: "'h crates \<Rightarrow> json \<Rightarrow> 'h option" where
  "deserialize_headers C = headers_of_json C False"

definition deserialize_comma_separated_headers :: "'h crates \<Rightarrow> json \<Rightarrow> 'h option" where
  "deserialize_comma_separated_headers C = headers_of_json C True"

definition utf8_json :: "string \<Rightarrow> json option" where
  "utf8_json v = (if valid_utf8 v then Some (JStr v) else None)"

definition serialize_multi_value_headers :: "'h crates \<Rightarrow> 'h \<Rightarrow> json option" where
  "serialize_multi_value_headers C h =
     map_option JObj (those (map (\<lambda>k.
       map_option (\<lambda>vs. (k, JArr vs)) (those (map utf8_json (hm_get_all (cr_hm C) h k)))) (hm_keys (cr_hm C) h)))"

text \<open>\<^verbatim>\<open>headers[key]\<close> is the first value of a name of the map.\<close>

definition serialize_headers :: "'h crates \<Rightarrow> 'h \<Rightarrow> json option" where
  "serialize_headers C h =
     map_option JObj (those (map (\<lambda>k.
       map_option (Pair k) (Option.bind (hm_get (cr_hm C) h k) utf8_json)) (hm_keys (cr_hm C) h)))"

definition serialize_comma_separated_headers :: "'h crates \<Rightarrow> 'h \<Rightarrow> json" where
  "serialize_comma_separated_headers C h =
     JObj (concat (map (\<lambda>k.
       let vs = filter (hv_visible (cr_hm C)) (hm_get_all (cr_hm C) h k)
       in if vs = [] then [] else [(k, JStr (join_with '', '' vs))]) (hm_keys (cr_hm C) h)))"

subsection \<open>Query strings\<close>

text \<open>
  The loop of \<^verbatim>\<open>serialize_query_string_parameters\<close> over the pairs of a query map:
  the pending pair is put into the result when another key follows, and at the end.
\<close>

fun last_pairs :: "string \<Rightarrow> string \<Rightarrow> (string \<times> string) list \<Rightarrow> (string \<times> string) list \<Rightarrow> (string \<times> string) list" where
  "last_pairs last_key last_value [] m = AList.update last_key last_value m"
| "last_pairs last_key last_value ((k, v) # kvs) m =
     (if k \<noteq> last_key then last_pairs k v kvs (AList.update last_key last_value m)
      else last_pairs last_key v kvs m)"

definition serialize_query_string_parameters :: "(string \<times> string) list \<Rightarrow> json" where
  "serialize_query_string_parameters pairs =
     JObj (map (\<lambda>(k, v). (k, JStr v))
       (case pairs of [] \<Rightarrow> [] | (k, v) # _ \<Rightarrow> last_pairs k v pairs []))"

subsection \<open>Reference functions\<close>

text \<open>
  A query map as the list of its pairs, URLs as they are written, and the decoders that leave
  plain text alone; they meet the laws above and let examples be evaluated.
\<close>

definition ref_pairs_text :: "(string \<times> string) list \<Rightarrow> string" where
  "ref_pairs_text q = join_with ''&'' (map (\<lambda>(k, v). k @ ''='' @ v) q)"

definition ref_pairs_parse :: "string \<Rightarrow> (string \<times> string) list" where
  "ref_pairs_parse s =
     (if s = [] then []
      else map (\<lambda>p. (takeWhile (\<lambda>c. c \<noteq> CHR ''='') p, tl (dropWhile (\<lambda>c. c \<noteq> CHR ''='') p))) (split_on (CHR ''&'') s))"

definition ref_web :: "headers crates \<Rightarrow> (headers, (string \<times> string) list) web" where
  "ref_web C =
     \<lparr>wc_crates = C,
      wc_method_valid = (\<lambda>s. s \<noteq> [] \<and> CHR '' '' \<notin> set s),
      wc_reason = (\<lambda>n. if n = 200 then Some ''OK'' else if n = 404 then Some ''Not Found'' else None),
      wc_base64_decode = (\<lambda>s. if starts_with ''b64:'' s then Some (drop 4 s) else None),
      wc_percent_decode = (\<lambda>s. s),
      wc_url = (\<lambda>s. if CHR '' '' \<in> set s then Err (BoxError ''invalid url'') else Ok s),
      wc_url_path = (\<lambda>s. Ok (takeWhile (\<lambda>c. c \<noteq> CHR ''?'') (drop (length ''http://localhost'') s))),
      wc_charset = (\<lambda>s. None),
      wc_encoding = (\<lambda>s. if s = ''utf-8'' then Some ''UTF-8'' else None),
      wc_decode = (\<lambda>e. utf8_lossy),
      wc_qm_default = [],
      wc_qm_is_empty = (\<lambda>q. q = []),
      wc_qm_of_map = (\<lambda>m. m),
      wc_qm_parse = ref_pairs_parse,
      wc_qm_text = ref_pairs_text,
      wc_qm_of_json = de_hash_map de_string,
      wc_qm_of_json_or_empty = de_nullish (de_hash_map de_string) [],
      wc_qm_of_json_v2 = de_nullish (de_hash_map de_string) []\<rparr>"

lemma ref_web_crates [simp]: "wc_crates (ref_web C) = C"
  by (simp add: ref_web_def)

lemma ref_web_laws: "web_crates (ref_web ref_crates)"
  unfolding web_crates_def web_crates_axioms_def
  by (simp add: al_header_map) (simp add: ref_web_def ref_crates_def ref_pairs_parse_def starts_with_def utf8_lossy_valid)

interpretation ref: web_crates "ref_web ref_crates"
  by (rule ref_web_laws)

subsection \<open>Lemmas\<close>

lemma those_map_Some: "(\<And>x. x \<in> set xs \<Longrightarrow> f x = Some (g x)) \<Longrightarrow> those (map f xs) = Some (map g xs)"
  by (induction xs) auto

lemma last_pairs_map_of:
  "map_of (last_pairs k v kvs m) = (map_of m)(k \<mapsto> v) ++ map_of (rev kvs)"
proof (induction k v kvs m rule: last_pairs.induct)
  case (1 last_key last_value m)
  then show ?case by (simp add: update_conv')
next
  case (2 last_key last_value k v kvs m)
  then show ?case
    by (auto simp: update_conv' fun_eq_iff map_add_def split: option.splits)
qed

lemma last_pairs_distinct:
  "distinct (map fst m) \<Longrightarrow> distinct (map fst (last_pairs k v kvs m))"
  by (induction k v kvs m rule: last_pairs.induct) (auto simp: distinct_update)

lemma append_strings_plain: "append_strings C False k vs m = append_values C k vs m"
  by (induction C "False" k vs m rule: append_strings.induct) (simp_all split: if_splits)

context header_map
begin

text \<open>The values a run of \<open>append\<close>s leaves under each name.\<close>

lemma append_values_get_all:
  "cr_hm C = H \<Longrightarrow> \<forall>v \<in> set vs. hv_valid H v \<Longrightarrow>
     \<exists>m'. append_values C k vs m = Some m' \<and>
       (\<forall>k'. hm_get_all H m' k' = hm_get_all H m k' @ (if lower k = lower k' then vs else []))"
  by (induction C k vs m rule: append_values.induct) (auto simp: get_all_append)

lemma multi_value_entries:
  assumes "cr_hm C = H" and "\<forall>k \<in> set ks. hn_valid H k \<and> lower k = k \<and> (\<forall>v \<in> set (vals k). hv_valid H v)"
    and "distinct ks"
  shows "\<exists>m'. header_entries C False (map (\<lambda>k. (k, JArr (map JStr (vals k)))) ks) m = Some m' \<and>
     (\<forall>k'. hm_get_all H m' k' = hm_get_all H m k' @ (if lower k' \<in> set ks then vals (lower k') else []))"
  using assms(2,3)
proof (induction ks arbitrary: m)
  case Nil
  then show ?case by simp
next
  case (Cons k ks)
  then obtain m1 where m1: "append_values C k (vals k) m = Some m1"
      "\<forall>k'. hm_get_all H m1 k' = hm_get_all H m k' @ (if lower k = lower k' then vals k else [])"
    using append_values_get_all [OF assms(1), of "vals k" k m] by auto
  have "one_or_more_of_json (JArr (map JStr (vals k))) = Some (StringValues (vals k))"
    by (simp add: one_or_more_of_json_def de_string_def)
  moreover obtain m2 where "header_entries C False (map (\<lambda>k. (k, JArr (map JStr (vals k)))) ks) m1 = Some m2"
      "\<forall>k'. hm_get_all H m2 k' = hm_get_all H m1 k' @ (if lower k' \<in> set ks then vals (lower k') else [])"
    using Cons.IH [of m1] Cons.prems by auto
  ultimately show ?case
    using m1 Cons.prems assms(1) by (auto simp: add_header_def append_strings_plain)
qed

lemma serialize_multi_value_headers_eq:
  assumes "cr_hm C = H" and "\<forall>k \<in> set (hm_keys H h). \<forall>v \<in> set (hm_get_all H h k). valid_utf8 v"
  shows "serialize_multi_value_headers C h =
     Some (JObj (map (\<lambda>k. (k, JArr (map JStr (hm_get_all H h k)))) (hm_keys H h)))"
proof -
  have "those (map utf8_json (hm_get_all H h k)) = Some (map JStr (hm_get_all H h k))" if "k \<in> set (hm_keys H h)" for k
    using assms(2) that by (intro those_map_Some) (auto simp: utf8_json_def)
  then have "those (map (\<lambda>k. map_option (\<lambda>vs. (k, JArr vs)) (those (map utf8_json (hm_get_all H h k)))) (hm_keys H h)) =
      Some (map (\<lambda>k. (k, JArr (map JStr (hm_get_all H h k)))) (hm_keys H h))"
    by (intro those_map_Some) simp
  then show ?thesis
    by (simp add: serialize_multi_value_headers_def assms(1))
qed

lemma multi_value_headers_inverse:
  assumes "cr_hm C = H"
    and "\<forall>k \<in> set (hm_keys H h). hn_valid H k \<and> (\<forall>v \<in> set (hm_get_all H h k). hv_valid H v \<and> valid_utf8 v)"
  shows "\<exists>j h'. serialize_multi_value_headers C h = Some j \<and> deserialize_headers C j = Some h' \<and>
     (\<forall>k. hm_get_all H h' k = hm_get_all H h k)"
proof -
  let ?j = "JObj (map (\<lambda>k. (k, JArr (map JStr (hm_get_all H h k)))) (hm_keys H h))"
  have keys: "\<forall>k \<in> set (hm_keys H h). hn_valid H k \<and> lower k = k \<and> (\<forall>v \<in> set (hm_get_all H h k). hv_valid H v)"
    using assms(2) keys_iff by blast
  obtain m where m: "header_entries C False (map (\<lambda>k. (k, JArr (map JStr (hm_get_all H h k)))) (hm_keys H h)) (hm_empty H) = Some m"
      "\<forall>k. hm_get_all H m k = hm_get_all H (hm_empty H) k @ (if lower k \<in> set (hm_keys H h) then hm_get_all H h (lower k) else [])"
    using multi_value_entries [OF assms(1) keys keys_distinct] by blast
  have "hm_get_all H m k = hm_get_all H h k" for k
    using m(2) by (auto simp: get_all_empty get_all_lower keys_iff)
  moreover have "serialize_multi_value_headers C h = Some ?j"
    using assms(2) by (intro serialize_multi_value_headers_eq [OF assms(1)]) blast
  ultimately show ?thesis
    using m(1) assms(1) by (auto simp: deserialize_headers_def headers_of_json_def)
qed

end

subsection \<open>Properties\<close>

text \<open>
  The multi-valued form of a header map that the responses to API Gateway, ALB and VPC
  Lattice carry is read back by the deserialiser of the event structures as a header map with the
  same values, in the same order, under every name. The names and values of the map are valid,
  as those of every \<^verbatim>\<open>HeaderMap\<close> are, and the values are UTF-8, without which the
  serialiser fails.
\<close>

lemma multi_value_headers_roundtrip:
  assumes "header_map (cr_hm C)"
    and "\<forall>k \<in> set (hm_keys (cr_hm C) h). hn_valid (cr_hm C) k \<and>
           (\<forall>v \<in> set (hm_get_all (cr_hm C) h k). hv_valid (cr_hm C) v \<and> valid_utf8 v)"
  shows "\<exists>j h'. serialize_multi_value_headers C h = Some j \<and> deserialize_headers C j = Some h' \<and>
     (\<forall>k. hm_get_all (cr_hm C) h' k = hm_get_all (cr_hm C) h k)"
  by (rule header_map.multi_value_headers_inverse [OF assms(1) refl assms(2)])

lemma multi_value_headers_roundtrip_witness:
  "\<exists>j h'. serialize_multi_value_headers ref_crates [(''set-cookie'', ''a=1''), (''host'', ''x''), (''set-cookie'', ''b=2'')] = Some j \<and>
     deserialize_headers ref_crates j = Some h' \<and>
     (\<forall>k. hm_get_all al_hmap h' k = hm_get_all al_hmap [(''set-cookie'', ''a=1''), (''host'', ''x''), (''set-cookie'', ''b=2'')] k)"
proof -
  let ?h = "[(''set-cookie'', ''a=1''), (''host'', ''x''), (''set-cookie'', ''b=2'')]"
  have keys: "hm_keys al_hmap ?h = [''host'', ''set-cookie'']"
    by (simp add: al_hmap_def al_keys_def lower_eval)
  have vals: "hm_get_all al_hmap ?h ''set-cookie'' = [''a=1'', ''b=2'']" "hm_get_all al_hmap ?h ''host'' = [''x'']"
    by (simp_all add: al_hmap_def al_get_all_def lower_eval)
  have "hn_valid al_hmap ''host'' \<and> hn_valid al_hmap ''set-cookie''"
    by (simp add: al_hmap_def visible_ascii_def)
  moreover have "\<forall>v \<in> {''a=1'', ''b=2'', ''x''}. hv_valid al_hmap v \<and> valid_utf8 v"
    by (simp add: al_hmap_def header_value_bytes_def valid_utf8_ascii)
  ultimately show ?thesis
    using multi_value_headers_roundtrip [of ref_crates ?h] by (simp add: al_header_map keys vals)
qed

text \<open>
  The query string parameters of an ALB event are serialised as an object that maps every
  key of the query to the last of its values, also when the pairs of different keys are
  interleaved.
\<close>

lemma query_string_parameters_keep_last:
  "\<exists>kvs. serialize_query_string_parameters pairs = JObj (map (\<lambda>(k, v). (k, JStr v)) kvs) \<and>
     distinct (map fst kvs) \<and> map_of kvs = map_of (rev pairs)"
proof (cases pairs)
  case Nil
  then show ?thesis by (intro exI [where x = "[]"]) (simp add: serialize_query_string_parameters_def)
next
  case (Cons p ps)
  obtain k v where p: "p = (k, v)" by (cases p)
  have "map_of (last_pairs k v pairs []) = map_of (rev pairs)"
    by (auto simp: last_pairs_map_of Cons p fun_eq_iff map_add_def split: option.splits)
  moreover have "distinct (map fst (last_pairs k v pairs []))"
    by (rule last_pairs_distinct) simp
  ultimately show ?thesis
    by (intro exI [where x = "last_pairs k v pairs []"]) (simp add: serialize_query_string_parameters_def Cons p)
qed

end
