(* ===== verification/HttpBody.thy ===== *)
theory HttpBody
  imports CustomSerde
begin

text \<open>
  The bodies of the requests and responses a handler works with
  (\<^verbatim>\<open>lambda-events/src/encodings/http.rs\<close>), their decoding from an event, their
  JSON form and the \<^verbatim>\<open>http_body::Body\<close> they are.
\<close>

datatype body = EmptyBody | TextBody string | BinaryBody string

definition body_default :: body where
  "body_default = EmptyBody"

definition from_maybe_encoded :: "('h, 'q) web \<Rightarrow> bool \<Rightarrow> string \<Rightarrow> ('e, body) result" where
  "from_maybe_encoded W is_base64_encoded b =
     (if is_base64_encoded
      then map_ok BinaryBody (expect_some ''failed to decode aws base64 encoded body'' (wc_base64_decode W b))
      else Ok (TextBody b))"

text \<open>What the conversions of all events do with an optional body.\<close>

definition event_body :: "('h, 'q) web \<Rightarrow> bool \<Rightarrow> string option \<Rightarrow> ('e, body) result" where
  "event_body W is_base64_encoded b =
     (case b of None \<Rightarrow> Ok body_default | Some b \<Rightarrow> from_maybe_encoded W is_base64_encoded b)"

fun body_bytes :: "body \<Rightarrow> string" where
  "body_bytes EmptyBody = []"
| "body_bytes (TextBody b) = b"
| "body_bytes (BinaryBody b) = b"

fun body_json :: "('h, 'q) web \<Rightarrow> body \<Rightarrow> json" where
  "body_json W (TextBody s) = JStr s"
| "body_json W (BinaryBody b) = JStr (cr_base64 (wc_crates W) b)"
| "body_json W EmptyBody = JNull"

definition body_of_json :: "json \<Rightarrow> body option" where
  "body_of_json j = map_option TextBody (de_string j)"

definition is_end_stream :: "body \<Rightarrow> bool" where
  "is_end_stream b = (case b of EmptyBody \<Rightarrow> True | _ \<Rightarrow> False)"

text \<open>Lower and, if known, upper bound of the bytes to come.\<close>

definition size_hint :: "body \<Rightarrow> nat \<times> nat option" where
  "size_hint b =
     (case b of
        EmptyBody \<Rightarrow> (0, None)
      | TextBody s \<Rightarrow> (length s, Some (length s))
      | BinaryBody s \<Rightarrow> (length s, Some (length s)))"

text \<open>\<^verbatim>\<open>poll_frame\<close> takes the body out: the frame, if any, and what is left.\<close>

definition poll_frame :: "body \<Rightarrow> string option \<times> body" where
  "poll_frame b =
     (case b of
        EmptyBody \<Rightarrow> (None, body_default)
      | TextBody s \<Rightarrow> (Some s, body_default)
      | BinaryBody s \<Rightarrow> (Some s, body_default))"

text \<open>Reading a body to its end: polling until there is no frame.\<close>

fun body_frames :: "nat \<Rightarrow> body \<Rightarrow> string list option" where
  "body_frames 0 b = None"
| "body_frames (Suc n) b =
     (case poll_frame b of
        (None, _) \<Rightarrow> Some []
      | (Some frame, b') \<Rightarrow> map_option (Cons frame) (body_frames n b'))"

definition is_binary :: "body \<Rightarrow> bool" where
  "is_binary b = (case b of BinaryBody _ \<Rightarrow> True | _ \<Rightarrow> False)"

lemma from_maybe_encoded_not_Err [simp]: "from_maybe_encoded W e b \<noteq> Err x"
  by (cases "wc_base64_decode W b") (simp_all add: from_maybe_encoded_def)

lemma event_body_not_Err [simp]: "event_body W e b \<noteq> Err x"
  by (simp add: event_body_def split: option.splits)

context web_crates
begin

lemma body_json_inverse:
  "b \<noteq> EmptyBody \<Longrightarrow> \<exists>t. body_json W b = JStr t \<and> from_maybe_encoded W (is_binary b) t = Ok b"
  by (cases b) (simp_all add: from_maybe_encoded_def is_binary_def base64_inverse)

end

text \<open>
  A body read through the \<^verbatim>\<open>http_body\<close> interface ends after at most one frame
  and yields its bytes; the size hint announces exactly their number, and for an empty body, which
  is at its end at once, no upper bound.
\<close>

lemma body_reads_its_bytes:
  "\<exists>frames. body_frames (Suc (Suc n)) b = Some frames \<and> concat frames = body_bytes b \<and>
     (is_end_stream b \<longleftrightarrow> frames = []) \<and> fst (size_hint b) = length (concat frames) \<and>
     (\<forall>u. snd (size_hint b) = Some u \<longrightarrow> u = length (concat frames))"
  by (cases b) (simp_all add: poll_frame_def body_default_def is_end_stream_def size_hint_def)

lemma body_reads_its_bytes_witness:
  "concat (the (body_frames 2 (TextBody ''hi''))) = ''hi'' \<and> snd (size_hint (TextBody ''hi'')) = Some 2"
  using body_reads_its_bytes [of 0 "TextBody ''hi''"]
  by (simp add: size_hint_def numeral_2_eq_2 poll_frame_def body_default_def)

end
