(* ===== verification/HttpEvents.thy ===== *)
theory HttpEvents
  imports HttpBody
begin

text \<open>
  The events an HTTP function may receive, as their structures and derived deserialisers have
  them (\<^verbatim>\<open>lambda-events/src/event/apigw\<close>, \<^verbatim>\<open>alb\<close> and
  \<^verbatim>\<open>vpc_lattice\<close>): which fields have to be there, which default, which may be null
  and under which names they are read. The Cargo feature \<^verbatim>\<open>catch-all-fields\<close> is off,
  as it is by default: the field \<^verbatim>\<open>other\<close> does not exist and unknown fields are ignored.
\<close>

subsection \<open>Authorizers and identities\<close>

record cognito_identity_description =
  cg_amr :: "string list"
  cg_identity_id :: "string option"
  cg_identity_pool_id :: "string option"

definition cognito_identity_description_of_json :: "json \<Rightarrow> cognito_identity_description option" where
  "cognito_identity_description_of_json j = do {
     kvs \<leftarrow> de_fields 1
       [''amr'', ''identityId'', ''identityPoolId''] j;
     x_amr \<leftarrow> de_required (de_list de_string) [''amr''] kvs;
     x_identity_id \<leftarrow> de_opt_string ''identityId'' kvs;
     x_identity_pool_id \<leftarrow> de_opt_string ''identityPoolId'' kvs;
     Some \<lparr>cg_amr = x_amr, cg_identity_id = x_identity_id, cg_identity_pool_id = x_identity_pool_id\<rparr> }"

record iam_description =
  ia_access_key :: "string option"
  ia_account_id :: "string option"
  ia_caller_id :: "string option"
  ia_cognito_identity :: "cognito_identity_description option"
  ia_principal_org_id :: "string option"
  ia_user_arn :: "string option"
  ia_user_id :: "string option"

definition iam_description_of_json :: "json \<Rightarrow> iam_description option" where
  "iam_description_of_json j = do {
     kvs \<leftarrow> de_fields 4
       [''accessKey'', ''accountId'', ''callerId'', ''cognitoIdentity'', ''principalOrgId'',
        ''userArn'', ''userId''] j;
     x_access_key \<leftarrow> de_opt_string ''accessKey'' kvs;
     x_account_id \<leftarrow> de_opt_string ''accountId'' kvs;
     x_caller_id \<leftarrow> de_opt_string ''callerId'' kvs;
     x_cognito_identity \<leftarrow> de_optional cognito_identity_description_of_json [''cognitoIdentity''] kvs;
     x_principal_org_id \<leftarrow> de_opt_string ''principalOrgId'' kvs;
     x_user_arn \<leftarrow> de_opt_string ''userArn'' kvs;
     x_user_id \<leftarrow> de_opt_string ''userId'' kvs;
     Some \<lparr>ia_access_key = x_access_key, ia_account_id = x_account_id, ia_caller_id = x_caller_id,
       ia_cognito_identity = x_cognito_identity, ia_principal_org_id = x_principal_org_id,
       ia_user_arn = x_user_arn, ia_user_id = x_user_id\<rparr> }"

record jwt_description =
  jw_claims :: "(string \<times> string) list"
  jw_scopes :: "string list option"

definition jwt_description_of_json :: "json \<Rightarrow> jwt_description option" where
  "jwt_description_of_json j = do {
     kvs \<leftarrow> de_fields 2
       [''claims'', ''scopes''] j;
     x_claims \<leftarrow> de_default (de_nullish (de_hash_map de_string) []) [] [''claims''] kvs;
     x_scopes \<leftarrow> de_optional (de_list de_string) [''scopes''] kvs;
     Some \<lparr>jw_claims = x_claims, jw_scopes = x_scopes\<rparr> }"

record api_gateway_authorizer =
  au_jwt :: "jwt_description option"
  au_fields :: "(string \<times> json) list"
  au_iam :: "iam_description option"

definition api_gateway_authorizer_of_json :: "json \<Rightarrow> api_gateway_authorizer option" where
  "api_gateway_authorizer_of_json j = do {
     kvs \<leftarrow> de_fields 3
       [''jwt'', ''lambda'', ''iam''] j;
     x_jwt \<leftarrow> de_optional jwt_description_of_json [''jwt''] kvs;
     x_fields \<leftarrow> de_default (de_nullish (de_hash_map Some) []) [] [''lambda''] kvs;
     x_iam \<leftarrow> de_optional iam_description_of_json [''iam''] kvs;
     Some \<lparr>au_jwt = x_jwt, au_fields = x_fields, au_iam = x_iam\<rparr> }"

definition authorizer_default :: api_gateway_authorizer where
  "authorizer_default = \<lparr>au_jwt = None, au_fields = [], au_iam = None\<rparr>"

text \<open>In the REST and WebSocket events the authorizer is the object of its fields.\<close>

definition deserialize_authorizer_fields :: "json \<Rightarrow> api_gateway_authorizer option" where
  "deserialize_authorizer_fields j =
     map_option (\<lambda>fs. authorizer_default\<lparr>au_fields := fs\<rparr>) (de_nullish (de_hash_map Some) [] j)"

definition authorizer_is_empty :: "api_gateway_authorizer \<Rightarrow> bool" where
  "authorizer_is_empty a \<longleftrightarrow> au_fields a = []"

definition serialize_authorizer_fields :: "api_gateway_authorizer \<Rightarrow> json" where
  "serialize_authorizer_fields a = JObj (au_fields a)"

record request_identity =
  ri_cognito_identity_pool_id :: "string option"
  ri_account_id :: "string option"
  ri_cognito_identity_id :: "string option"
  ri_caller :: "string option"
  ri_api_key :: "string option"
  ri_api_key_id :: "string option"
  ri_access_key :: "string option"
  ri_source_ip :: "string option"
  ri_cognito_authentication_type :: "string option"
  ri_cognito_authentication_provider :: "string option"
  ri_user_arn :: "string option"
  ri_user_agent :: "string option"
  ri_user :: "string option"

definition request_identity_of_json :: "json \<Rightarrow> request_identity option" where
  "request_identity_of_json j = do {
     kvs \<leftarrow> de_fields 0
       [''cognitoIdentityPoolId'', ''accountId'', ''cognitoIdentityId'', ''caller'', ''apiKey'',
        ''apiKeyId'', ''accessKey'', ''sourceIp'', ''cognitoAuthenticationType'',
        ''cognitoAuthenticationProvider'', ''userArn'', ''userAgent'', ''user''] j;
     x_cognito_identity_pool_id \<leftarrow> de_opt_string ''cognitoIdentityPoolId'' kvs;
     x_account_id \<leftarrow> de_opt_string ''accountId'' kvs;
     x_cognito_identity_id \<leftarrow> de_opt_string ''cognitoIdentityId'' kvs;
     x_caller \<leftarrow> de_opt_string ''caller'' kvs;
     x_api_key \<leftarrow> de_opt_string ''apiKey'' kvs;
     x_api_key_id \<leftarrow> de_opt_string ''apiKeyId'' kvs;
     x_access_key \<leftarrow> de_opt_string ''accessKey'' kvs;
     x_source_ip \<leftarrow> de_opt_string ''sourceIp'' kvs;
     x_cognito_authentication_type \<leftarrow> de_opt_string ''cognitoAuthenticationType'' kvs;
     x_cognito_authentication_provider \<leftarrow> de_opt_string ''cognitoAuthenticationProvider'' kvs;
     x_user_arn \<leftarrow> de_opt_string ''userArn'' kvs;
     x_user_agent \<leftarrow> de_opt_string ''userAgent'' kvs;
     x_user \<leftarrow> de_opt_string ''user'' kvs;
     Some \<lparr>ri_cognito_identity_pool_id = x_cognito_identity_pool_id, ri_account_id = x_account_id,
       ri_cognito_identity_id = x_cognito_identity_id, ri_caller = x_caller,
       ri_api_key = x_api_key, ri_api_key_id = x_api_key_id, ri_access_key = x_access_key,
       ri_source_ip = x_source_ip,
       ri_cognito_authentication_type = x_cognito_authentication_type,
       ri_cognito_authentication_provider = x_cognito_authentication_provider,
       ri_user_arn = x_user_arn, ri_user_agent = x_user_agent, ri_user = x_user\<rparr> }"

definition request_identity_default :: request_identity where
  "request_identity_default =
     \<lparr>ri_cognito_identity_pool_id = None,
      ri_account_id = None,
      ri_cognito_identity_id = None,
      ri_caller = None,
      ri_api_key = None,
      ri_api_key_id = None,
      ri_access_key = None,
      ri_source_ip = None,
      ri_cognito_authentication_type = None,
      ri_cognito_authentication_provider = None,
      ri_user_arn = None,
      ri_user_agent = None,
      ri_user = None\<rparr>"

subsection \<open>API Gateway REST events\<close>

record proxy_request_context =
  pc_account_id :: "string option"
  pc_resource_id :: "string option"
  pc_operation_name :: "string option"
  pc_stage :: "string option"
  pc_domain_name :: "string option"
  pc_domain_prefix :: "string option"
  pc_request_id :: "string option"
  pc_protocol :: "string option"
  pc_identity :: request_identity
  pc_resource_path :: "string option"
  pc_path :: "string option"
  pc_authorizer :: api_gateway_authorizer
  pc_http_method :: string
  pc_request_time :: "string option"
  pc_request_time_epoch :: int
  pc_apiid :: "string option"

definition proxy_request_context_of_json :: "('h, 'q) web \<Rightarrow> json \<Rightarrow> proxy_request_context option" where
  "proxy_request_context_of_json W j = do {
     kvs \<leftarrow> de_fields 13
       [''accountId'', ''resourceId'', ''operationName'', ''stage'', ''domainName'',
        ''domainPrefix'', ''requestId'', ''protocol'', ''identity'', ''resourcePath'', ''path'',
        ''authorizer'', ''httpMethod'', ''requestTime'', ''requestTimeEpoch'', ''apiId''] j;
     x_account_id \<leftarrow> de_opt_string ''accountId'' kvs;
     x_resource_id \<leftarrow> de_opt_string ''resourceId'' kvs;
     x_operation_name \<leftarrow> de_opt_string ''operationName'' kvs;
     x_stage \<leftarrow> de_opt_string ''stage'' kvs;
     x_domain_name \<leftarrow> de_opt_string ''domainName'' kvs;
     x_domain_prefix \<leftarrow> de_opt_string ''domainPrefix'' kvs;
     x_request_id \<leftarrow> de_opt_string ''requestId'' kvs;
     x_protocol \<leftarrow> de_opt_string ''protocol'' kvs;
     x_identity \<leftarrow> de_default request_identity_of_json request_identity_default [''identity''] kvs;
     x_resource_path \<leftarrow> de_opt_string ''resourcePath'' kvs;
     x_path \<leftarrow> de_opt_string ''path'' kvs;
     x_authorizer \<leftarrow> de_default deserialize_authorizer_fields authorizer_default [''authorizer''] kvs;
     x_http_method \<leftarrow> de_required (deserialize_method W) [''httpMethod''] kvs;
     x_request_time \<leftarrow> de_opt_string ''requestTime'' kvs;
     x_request_time_epoch \<leftarrow> de_default de_i64 0 [''requestTimeEpoch''] kvs;
     x_apiid \<leftarrow> de_opt_string ''apiId'' kvs;
     Some \<lparr>pc_account_id = x_account_id, pc_resource_id = x_resource_id,
       pc_operation_name = x_operation_name, pc_stage = x_stage, pc_domain_name = x_domain_name,
       pc_domain_prefix = x_domain_prefix, pc_request_id = x_request_id,
       pc_protocol = x_protocol, pc_identity = x_identity, pc_resource_path = x_resource_path,
       pc_path = x_path, pc_authorizer = x_authorizer, pc_http_method = x_http_method,
       pc_request_time = x_request_time, pc_request_time_epoch = x_request_time_epoch,
       pc_apiid = x_apiid\<rparr> }"

record ('h, 'q) proxy_request =
  pr_resource :: "string option"
  pr_path :: "string option"
  pr_http_method :: string
  pr_headers :: 'h
  pr_multi_value_headers :: 'h
  pr_query_string_parameters :: 'q
  pr_multi_value_query_string_parameters :: 'q
  pr_path_parameters :: "(string \<times> string) list"
  pr_stage_variables :: "(string \<times> string) list"
  pr_request_context :: proxy_request_context
  pr_body :: "string option"
  pr_is_base64_encoded :: bool

definition proxy_request_of_json :: "('h, 'q) web \<Rightarrow> json \<Rightarrow> ('h, 'q) proxy_request option" where
  "proxy_request_of_json W j = do {
     kvs \<leftarrow> de_fields 10
       [''resource'', ''path'', ''httpMethod'', ''headers'', ''multiValueHeaders'',
        ''queryStringParameters'', ''multiValueQueryStringParameters'', ''pathParameters'',
        ''stageVariables'', ''requestContext'', ''body'', ''isBase64Encoded''] j;
     x_resource \<leftarrow> de_opt_string ''resource'' kvs;
     x_path \<leftarrow> de_opt_string ''path'' kvs;
     x_http_method \<leftarrow> de_required (deserialize_method W) [''httpMethod''] kvs;
     x_headers \<leftarrow> de_default (deserialize_headers (wc_crates W)) (hm_empty (wc_hm W)) [''headers''] kvs;
     x_multi_value_headers \<leftarrow> de_default (deserialize_headers (wc_crates W)) (hm_empty (wc_hm W)) [''multiValueHeaders''] kvs;
     x_query_string_parameters \<leftarrow> de_default (wc_qm_of_json_or_empty W) (wc_qm_default W) [''queryStringParameters''] kvs;
     x_multi_value_query_string_parameters \<leftarrow> de_default (wc_qm_of_json_or_empty W) (wc_qm_default W) [''multiValueQueryStringParameters''] kvs;
     x_path_parameters \<leftarrow> de_default (de_nullish (de_hash_map de_string) []) [] [''pathParameters''] kvs;
     x_stage_variables \<leftarrow> de_default (de_nullish (de_hash_map de_string) []) [] [''stageVariables''] kvs;
     x_request_context \<leftarrow> de_required (proxy_request_context_of_json W) [''requestContext''] kvs;
     x_body \<leftarrow> de_opt_string ''body'' kvs;
     x_is_base64_encoded \<leftarrow> de_default (de_nullish de_bool False) False [''isBase64Encoded''] kvs;
     Some \<lparr>pr_resource = x_resource, pr_path = x_path, pr_http_method = x_http_method,
       pr_headers = x_headers, pr_multi_value_headers = x_multi_value_headers,
       pr_query_string_parameters = x_query_string_parameters,
       pr_multi_value_query_string_parameters = x_multi_value_query_string_parameters,
       pr_path_parameters = x_path_parameters, pr_stage_variables = x_stage_variables,
       pr_request_context = x_request_context, pr_body = x_body,
       pr_is_base64_encoded = x_is_base64_encoded\<rparr> }"

subsection \<open>API Gateway HTTP events\<close>

record client_cert_validity =
  cv_not_after :: "string option"
  cv_not_before :: "string option"

definition client_cert_validity_of_json :: "json \<Rightarrow> client_cert_validity option" where
  "client_cert_validity_of_json j = do {
     kvs \<leftarrow> de_fields 0
       [''notAfter'', ''notBefore''] j;
     x_not_after \<leftarrow> de_opt_string ''notAfter'' kvs;
     x_not_before \<leftarrow> de_opt_string ''notBefore'' kvs;
     Some \<lparr>cv_not_after = x_not_after, cv_not_before = x_not_before\<rparr> }"

record client_cert =
  ce_client_cert_pem :: "string option"
  ce_issuer_dn :: "string option"
  ce_serial_number :: "string option"
  ce_subject_dn :: "string option"
  ce_validity :: client_cert_validity

definition client_cert_of_json :: "json \<Rightarrow> client_cert option" where
  "client_cert_of_json j = do {
     kvs \<leftarrow> de_fields 5
       [''clientCertPem'', ''issuerDN'', ''serialNumber'', ''subjectDN'', ''validity''] j;
     x_client_cert_pem \<leftarrow> de_opt_string ''clientCertPem'' kvs;
     x_issuer_dn \<leftarrow> de_opt_string ''issuerDN'' kvs;
     x_serial_number \<leftarrow> de_opt_string ''serialNumber'' kvs;
     x_subject_dn \<leftarrow> de_opt_string ''subjectDN'' kvs;
     x_validity \<leftarrow> de_required client_cert_validity_of_json [''validity''] kvs;
     Some \<lparr>ce_client_cert_pem = x_client_cert_pem, ce_issuer_dn = x_issuer_dn,
       ce_serial_number = x_serial_number, ce_subject_dn = x_subject_dn, ce_validity = x_validity\<rparr> }"

record authentication =
  an_client_cert :: "client_cert option"

definition authentication_of_json :: "json \<Rightarrow> authentication option" where
  "authentication_of_json j = do {
     kvs \<leftarrow> de_fields 0
       [''clientCert''] j;
     x_client_cert \<leftarrow> de_optional client_cert_of_json [''clientCert''] kvs;
     Some \<lparr>an_client_cert = x_client_cert\<rparr> }"

record http_description =
  hd_method :: string
  hd_path :: "string option"
  hd_protocol :: "string option"
  hd_source_ip :: "string option"
  hd_user_agent :: "string option"

definition http_description_of_json :: "('h, 'q) web \<Rightarrow> json \<Rightarrow> http_description option" where
  "http_description_of_json W j = do {
     kvs \<leftarrow> de_fields 1
       [''method'', ''path'', ''protocol'', ''sourceIp'', ''userAgent''] j;
     x_method \<leftarrow> de_required (deserialize_method W) [''method''] kvs;
     x_path \<leftarrow> de_opt_string ''path'' kvs;
     x_protocol \<leftarrow> de_opt_string ''protocol'' kvs;
     x_source_ip \<leftarrow> de_opt_string ''sourceIp'' kvs;
     x_user_agent \<leftarrow> de_opt_string ''userAgent'' kvs;
     Some \<lparr>hd_method = x_method, hd_path = x_path, hd_protocol = x_protocol,
       hd_source_ip = x_source_ip, hd_user_agent = x_user_agent\<rparr> }"

definition default_http_method :: string where
  "default_http_method = ''GET''"

record v2_request_context =
  vc_route_key :: "string option"
  vc_account_id :: "string option"
  vc_stage :: "string option"
  vc_request_id :: "string option"
  vc_authorizer :: "api_gateway_authorizer option"
  vc_apiid :: "string option"
  vc_domain_name :: "string option"
  vc_domain_prefix :: "string option"
  vc_time :: "string option"
  vc_time_epoch :: int
  vc_http :: http_description
  vc_authentication :: "authentication option"

definition v2_request_context_of_json :: "('h, 'q) web \<Rightarrow> json \<Rightarrow> v2_request_context option" where
  "v2_request_context_of_json W j = do {
     kvs \<leftarrow> de_fields 12
       [''routeKey'', ''accountId'', ''stage'', ''requestId'', ''authorizer'', ''apiId'',
        ''domainName'', ''domainPrefix'', ''time'', ''timeEpoch'', ''http'', ''authentication''] j;
     x_route_key \<leftarrow> de_opt_string ''routeKey'' kvs;
     x_account_id \<leftarrow> de_opt_string ''accountId'' kvs;
     x_stage \<leftarrow> de_opt_string ''stage'' kvs;
     x_request_id \<leftarrow> de_opt_string ''requestId'' kvs;
     x_authorizer \<leftarrow> de_optional api_gateway_authorizer_of_json [''authorizer''] kvs;
     x_apiid \<leftarrow> de_opt_string ''apiId'' kvs;
     x_domain_name \<leftarrow> de_opt_string ''domainName'' kvs;
     x_domain_prefix \<leftarrow> de_opt_string ''domainPrefix'' kvs;
     x_time \<leftarrow> de_opt_string ''time'' kvs;
     x_time_epoch \<leftarrow> de_default de_i64 0 [''timeEpoch''] kvs;
     x_http \<leftarrow> de_required (http_description_of_json W) [''http''] kvs;
     x_authentication \<leftarrow> de_optional authentication_of_json [''authentication''] kvs;
     Some \<lparr>vc_route_key = x_route_key, vc_account_id = x_account_id, vc_stage = x_stage,
       vc_request_id = x_request_id, vc_authorizer = x_authorizer, vc_apiid = x_apiid,
       vc_domain_name = x_domain_name, vc_domain_prefix = x_domain_prefix, vc_time = x_time,
       vc_time_epoch = x_time_epoch, vc_http = x_http, vc_authentication = x_authentication\<rparr> }"

record ('h, 'q) v2_request =
  vr_kind :: "string option"
  vr_method_arn :: "string option"
  vr_http_method :: string
  vr_identity_source :: "string option"
  vr_authorization_token :: "string option"
  vr_resource :: "string option"
  vr_version :: "string option"
  vr_route_key :: "string option"
  vr_raw_path :: "string option"
  vr_raw_query_string :: "string option"
  vr_cookies :: "string list option"
  vr_headers :: 'h
  vr_query_string_parameters :: 'q
  vr_path_parameters :: "(string \<times> string) list"
  vr_request_context :: v2_request_context
  vr_stage_variables :: "(string \<times> string) list"
  vr_body :: "string option"
  vr_is_base64_encoded :: bool

definition v2_request_of_json :: "('h, 'q) web \<Rightarrow> json \<Rightarrow> ('h, 'q) v2_request option" where
  "v2_request_of_json W j = do {
     kvs \<leftarrow> de_fields 17
       [''type'', ''methodArn'', ''httpMethod'', ''identitySource'', ''authorizationToken'',
        ''resource'', ''version'', ''routeKey'', ''rawPath'', ''rawQueryString'', ''cookies'',
        ''headers'', ''queryStringParameters'', ''pathParameters'', ''requestContext'',
        ''stageVariables'', ''body'', ''isBase64Encoded''] j;
     x_kind \<leftarrow> de_opt_string ''type'' kvs;
     x_method_arn \<leftarrow> de_opt_string ''methodArn'' kvs;
     x_http_method \<leftarrow> de_default (deserialize_method W) default_http_method [''httpMethod''] kvs;
     x_identity_source \<leftarrow> de_opt_string ''identitySource'' kvs;
     x_authorization_token \<leftarrow> de_opt_string ''authorizationToken'' kvs;
     x_resource \<leftarrow> de_opt_string ''resource'' kvs;
     x_version \<leftarrow> de_opt_string ''version'' kvs;
     x_route_key \<leftarrow> de_opt_string ''routeKey'' kvs;
     x_raw_path \<leftarrow> de_optional de_string [''rawPath'', ''path''] kvs;
     x_raw_query_string \<leftarrow> de_opt_string ''rawQueryString'' kvs;
     x_cookies \<leftarrow> de_optional (de_list de_string) [''cookies''] kvs;
     x_headers \<leftarrow> de_default (deserialize_headers (wc_crates W)) (hm_empty (wc_hm W)) [''headers''] kvs;
     x_query_string_parameters \<leftarrow> de_default (wc_qm_of_json_v2 W) (wc_qm_default W) [''queryStringParameters''] kvs;
     x_path_parameters \<leftarrow> de_default (de_nullish (de_hash_map de_string) []) [] [''pathParameters''] kvs;
     x_request_context \<leftarrow> de_required (v2_request_context_of_json W) [''requestContext''] kvs;
     x_stage_variables \<leftarrow> de_default (de_nullish (de_hash_map de_string) []) [] [''stageVariables''] kvs;
     x_body \<leftarrow> de_opt_string ''body'' kvs;
     x_is_base64_encoded \<leftarrow> de_default de_bool False [''isBase64Encoded''] kvs;
     Some \<lparr>vr_kind = x_kind, vr_method_arn = x_method_arn, vr_http_method = x_http_method,
       vr_identity_source = x_identity_source, vr_authorization_token = x_authorization_token,
       vr_resource = x_resource, vr_version = x_version, vr_route_key = x_route_key,
       vr_raw_path = x_raw_path, vr_raw_query_string = x_raw_query_string,
       vr_cookies = x_cookies, vr_headers = x_headers,
       vr_query_string_parameters = x_query_string_parameters,
       vr_path_parameters = x_path_parameters, vr_request_context = x_request_context,
       vr_stage_variables = x_stage_variables, vr_body = x_body,
       vr_is_base64_encoded = x_is_base64_encoded\<rparr> }"

subsection \<open>Application load balancer events\<close>

record elb_context =
  el_target_group_arn :: "string option"

definition elb_context_of_json :: "json \<Rightarrow> elb_context option" where
  "elb_context_of_json j = do {
     kvs \<leftarrow> de_fields 0
       [''targetGroupArn''] j;
     x_target_group_arn \<leftarrow> de_opt_string ''targetGroupArn'' kvs;
     Some \<lparr>el_target_group_arn = x_target_group_arn\<rparr> }"

record alb_request_context =
  ac_elb :: elb_context

definition alb_request_context_of_json :: "json \<Rightarrow> alb_request_context option" where
  "alb_request_context_of_json j = do {
     kvs \<leftarrow> de_fields 1
       [''elb''] j;
     x_elb \<leftarrow> de_required elb_context_of_json [''elb''] kvs;
     Some \<lparr>ac_elb = x_elb\<rparr> }"

record ('h, 'q) alb_request =
  ar_http_method :: string
  ar_path :: "string option"
  ar_query_string_parameters :: 'q
  ar_multi_value_query_string_parameters :: 'q
  ar_headers :: 'h
  ar_multi_value_headers :: 'h
  ar_request_context :: alb_request_context
  ar_is_base64_encoded :: bool
  ar_body :: "string option"

definition alb_request_of_json :: "('h, 'q) web \<Rightarrow> json \<Rightarrow> ('h, 'q) alb_request option" where
  "alb_request_of_json W j = do {
     kvs \<leftarrow> de_fields 9
       [''httpMethod'', ''path'', ''queryStringParameters'', ''multiValueQueryStringParameters'',
        ''headers'', ''multiValueHeaders'', ''requestContext'', ''isBase64Encoded'', ''body''] j;
     x_http_method \<leftarrow> de_required (deserialize_method W) [''httpMethod''] kvs;
     x_path \<leftarrow> de_opt_string ''path'' kvs;
     x_query_string_parameters \<leftarrow> de_default (wc_qm_of_json W) (wc_qm_default W) [''queryStringParameters''] kvs;
     x_multi_value_query_string_parameters \<leftarrow> de_default (wc_qm_of_json W) (wc_qm_default W) [''multiValueQueryStringParameters''] kvs;
     x_headers \<leftarrow> de_default (deserialize_headers (wc_crates W)) (hm_empty (wc_hm W)) [''headers''] kvs;
     x_multi_value_headers \<leftarrow> de_default (deserialize_headers (wc_crates W)) (hm_empty (wc_hm W)) [''multiValueHeaders''] kvs;
     x_request_context \<leftarrow> de_required alb_request_context_of_json [''requestContext''] kvs;
     x_is_base64_encoded \<leftarrow> de_default (de_nullish de_bool False) False [''isBase64Encoded''] kvs;
     x_body \<leftarrow> de_opt_string ''body'' kvs;
     Some \<lparr>ar_http_method = x_http_method, ar_path = x_path,
       ar_query_string_parameters = x_query_string_parameters,
       ar_multi_value_query_string_parameters = x_multi_value_query_string_parameters,
       ar_headers = x_headers, ar_multi_value_headers = x_multi_value_headers,
       ar_request_context = x_request_context, ar_is_base64_encoded = x_is_base64_encoded,
       ar_body = x_body\<rparr> }"

subsection \<open>API Gateway WebSocket events\<close>

record websocket_request_context =
  wx_account_id :: "string option"
  wx_resource_id :: "string option"
  wx_stage :: "string option"
  wx_request_id :: "string option"
  wx_identity :: request_identity
  wx_resource_path :: "string option"
  wx_authorizer :: api_gateway_authorizer
  wx_http_method :: "string option"
  wx_apiid :: "string option"
  wx_connected_at :: int
  wx_connection_id :: "string option"
  wx_domain_name :: "string option"
  wx_error :: "string option"
  wx_event_type :: "string option"
  wx_extended_request_id :: "string option"
  wx_integration_latency :: "string option"
  wx_message_direction :: "string option"
  wx_message_id :: "string option"
  wx_request_time :: "string option"
  wx_request_time_epoch :: int
  wx_route_key :: "string option"
  wx_status :: "string option"
  wx_disconnect_status_code :: "int option"
  wx_disconnect_reason :: "string option"

definition websocket_request_context_of_json :: "('h, 'q) web \<Rightarrow> json \<Rightarrow> websocket_request_context option" where
  "websocket_request_context_of_json W j = do {
     kvs \<leftarrow> de_fields 20
       [''accountId'', ''resourceId'', ''stage'', ''requestId'', ''identity'', ''resourcePath'',
        ''authorizer'', ''httpMethod'', ''apiId'', ''connectedAt'', ''connectionId'',
        ''domainName'', ''error'', ''eventType'', ''extendedRequestId'', ''integrationLatency'',
        ''messageDirection'', ''messageId'', ''requestTime'', ''requestTimeEpoch'', ''routeKey'',
        ''status'', ''disconnectStatusCode'', ''disconnectReason''] j;
     x_account_id \<leftarrow> de_opt_string ''accountId'' kvs;
     x_resource_id \<leftarrow> de_opt_string ''resourceId'' kvs;
     x_stage \<leftarrow> de_opt_string ''stage'' kvs;
     x_request_id \<leftarrow> de_opt_string ''requestId'' kvs;
     x_identity \<leftarrow> de_default request_identity_of_json request_identity_default [''identity''] kvs;
     x_resource_path \<leftarrow> de_opt_string ''resourcePath'' kvs;
     x_authorizer \<leftarrow> de_default deserialize_authorizer_fields authorizer_default [''authorizer''] kvs;
     x_http_method \<leftarrow> de_default (deserialize_optional_method W) None [''httpMethod''] kvs;
     x_apiid \<leftarrow> de_opt_string ''apiId'' kvs;
     x_connected_at \<leftarrow> de_required de_i64 [''connectedAt''] kvs;
     x_connection_id \<leftarrow> de_opt_string ''connectionId'' kvs;
     x_domain_name \<leftarrow> de_opt_string ''domainName'' kvs;
     x_error \<leftarrow> de_opt_string ''error'' kvs;
     x_event_type \<leftarrow> de_opt_string ''eventType'' kvs;
     x_extended_request_id \<leftarrow> de_opt_string ''extendedRequestId'' kvs;
     x_integration_latency \<leftarrow> de_opt_string ''integrationLatency'' kvs;
     x_message_direction \<leftarrow> de_opt_string ''messageDirection'' kvs;
     x_message_id \<leftarrow> de_opt_string ''messageId'' kvs;
     x_request_time \<leftarrow> de_opt_string ''requestTime'' kvs;
     x_request_time_epoch \<leftarrow> de_required de_i64 [''requestTimeEpoch''] kvs;
     x_route_key \<leftarrow> de_opt_string ''routeKey'' kvs;
     x_status \<leftarrow> de_opt_string ''status'' kvs;
     x_disconnect_status_code \<leftarrow> de_optional de_i64 [''disconnectStatusCode''] kvs;
     x_disconnect_reason \<leftarrow> de_opt_string ''disconnectReason'' kvs;
     Some \<lparr>wx_account_id = x_account_id, wx_resource_id = x_resource_id, wx_stage = x_stage,
       wx_request_id = x_request_id, wx_identity = x_identity,
       wx_resource_path = x_resource_path, wx_authorizer = x_authorizer,
       wx_http_method = x_http_method, wx_apiid = x_apiid, wx_connected_at = x_connected_at,
       wx_connection_id = x_connection_id, wx_domain_name = x_domain_name, wx_error = x_error,
       wx_event_type = x_event_type, wx_extended_request_id = x_extended_request_id,
       wx_integration_latency = x_integration_latency,
       wx_message_direction = x_message_direction, wx_message_id = x_message_id,
       wx_request_time = x_request_time, wx_request_time_epoch = x_request_time_epoch,
       wx_route_key = x_route_key, wx_status = x_status,
       wx_disconnect_status_code = x_disconnect_status_code,
       wx_disconnect_reason = x_disconnect_reason\<rparr> }"

record ('h, 'q) websocket_request =
  wr_resource :: "string option"
  wr_path :: "string option"
  wr_http_method :: "string option"
  wr_headers :: 'h
  wr_multi_value_headers :: 'h
  wr_query_string_parameters :: 'q
  wr_multi_value_query_string_parameters :: 'q
  wr_path_parameters :: "(string \<times> string) list"
  wr_stage_variables :: "(string \<times> string) list"
  wr_request_context :: websocket_request_context
  wr_body :: "string option"
  wr_is_base64_encoded :: bool

definition websocket_request_of_json :: "('h, 'q) web \<Rightarrow> json \<Rightarrow> ('h, 'q) websocket_request option" where
  "websocket_request_of_json W j = do {
     kvs \<leftarrow> de_fields 10
       [''resource'', ''path'', ''httpMethod'', ''headers'', ''multiValueHeaders'',
        ''queryStringParameters'', ''multiValueQueryStringParameters'', ''pathParameters'',
        ''stageVariables'', ''requestContext'', ''body'', ''isBase64Encoded''] j;
     x_resource \<leftarrow> de_opt_string ''resource'' kvs;
     x_path \<leftarrow> de_opt_string ''path'' kvs;
     x_http_method \<leftarrow> de_default (deserialize_optional_method W) None [''httpMethod''] kvs;
     x_headers \<leftarrow> de_default (deserialize_headers (wc_crates W)) (hm_empty (wc_hm W)) [''headers''] kvs;
     x_multi_value_headers \<leftarrow> de_default (deserialize_headers (wc_crates W)) (hm_empty (wc_hm W)) [''multiValueHeaders''] kvs;
     x_query_string_parameters \<leftarrow> de_default (wc_qm_of_json_or_empty W) (wc_qm_default W) [''queryStringParameters''] kvs;
     x_multi_value_query_string_parameters \<leftarrow> de_default (wc_qm_of_json_or_empty W) (wc_qm_default W) [''multiValueQueryStringParameters''] kvs;
     x_path_parameters \<leftarrow> de_default (de_nullish (de_hash_map de_string) []) [] [''pathParameters''] kvs;
     x_stage_variables \<leftarrow> de_default (de_nullish (de_hash_map de_string) []) [] [''stageVariables''] kvs;
     x_request_context \<leftarrow> de_required (websocket_request_context_of_json W) [''requestContext''] kvs;
     x_body \<leftarrow> de_opt_string ''body'' kvs;
     x_is_base64_encoded \<leftarrow> de_default (de_nullish de_bool False) False [''isBase64Encoded''] kvs;
     Some \<lparr>wr_resource = x_resource, wr_path = x_path, wr_http_method = x_http_method,
       wr_headers = x_headers, wr_multi_value_headers = x_multi_value_headers,
       wr_query_string_parameters = x_query_string_parameters,
       wr_multi_value_query_string_parameters = x_multi_value_query_string_parameters,
       wr_path_parameters = x_path_parameters, wr_stage_variables = x_stage_variables,
       wr_request_context = x_request_context, wr_body = x_body,
       wr_is_base64_encoded = x_is_base64_encoded\<rparr> }"

subsection \<open>VPC Lattice events\<close>

record vpc_lattice_identity =
  li_source_vpc_arn :: "string option"
  li_identity_type :: "string option"
  li_principal :: "string option"
  li_principal_org_id :: "string option"
  li_session_name :: "string option"
  li_x509_issuer_ou :: "string option"
  li_x509_san_dns :: "string option"
  li_x509_san_name_cn :: "string option"
  li_x509_san_uri :: "string option"
  li_x509_subject_cn :: "string option"

definition vpc_lattice_identity_of_json :: "json \<Rightarrow> vpc_lattice_identity option" where
  "vpc_lattice_identity_of_json j = do {
     kvs \<leftarrow> de_fields 0
       [''sourceVpcArn'', ''type'', ''principal'', ''principalOrgID'', ''sessionName'',
        ''x509IssuerOu'', ''x509SanDns'', ''x509SanNameCn'', ''x509SanUri'', ''x509SubjectCn''] j;
     x_source_vpc_arn \<leftarrow> de_opt_string ''sourceVpcArn'' kvs;
     x_identity_type \<leftarrow> de_opt_string ''type'' kvs;
     x_principal \<leftarrow> de_opt_string ''principal'' kvs;
     x_principal_org_id \<leftarrow> de_opt_string ''principalOrgID'' kvs;
     x_session_name \<leftarrow> de_opt_string ''sessionName'' kvs;
     x_x509_issuer_ou \<leftarrow> de_opt_string ''x509IssuerOu'' kvs;
     x_x509_san_dns \<leftarrow> de_opt_string ''x509SanDns'' kvs;
     x_x509_san_name_cn \<leftarrow> de_opt_string ''x509SanNameCn'' kvs;
     x_x509_san_uri \<leftarrow> de_opt_string ''x509SanUri'' kvs;
     x_x509_subject_cn \<leftarrow> de_opt_string ''x509SubjectCn'' kvs;
     Some \<lparr>li_source_vpc_arn = x_source_vpc_arn, li_identity_type = x_identity_type,
       li_principal = x_principal, li_principal_org_id = x_principal_org_id,
       li_session_name = x_session_name, li_x509_issuer_ou = x_x509_issuer_ou,
       li_x509_san_dns = x_x509_san_dns, li_x509_san_name_cn = x_x509_san_name_cn,
       li_x509_san_uri = x_x509_san_uri, li_x509_subject_cn = x_x509_subject_cn\<rparr> }"

record vpc_lattice_context =
  lc2_service_network_arn :: string
  lc2_service_arn :: string
  lc2_target_group_arn :: string
  lc2_identity :: "vpc_lattice_identity option"
  lc2_region :: string
  lc2_time_epoch :: string

definition vpc_lattice_context_of_json :: "json \<Rightarrow> vpc_lattice_context option" where
  "vpc_lattice_context_of_json j = do {
     kvs \<leftarrow> de_fields 6
       [''serviceNetworkArn'', ''serviceArn'', ''targetGroupArn'', ''identity'', ''region'',
        ''timeEpoch''] j;
     x_service_network_arn \<leftarrow> de_required de_string [''serviceNetworkArn''] kvs;
     x_service_arn \<leftarrow> de_required de_string [''serviceArn''] kvs;
     x_target_group_arn \<leftarrow> de_required de_string [''targetGroupArn''] kvs;
     x_identity \<leftarrow> de_optional vpc_lattice_identity_of_json [''identity''] kvs;
     x_region \<leftarrow> de_required de_string [''region''] kvs;
     x_time_epoch \<leftarrow> de_required de_string [''timeEpoch''] kvs;
     Some \<lparr>lc2_service_network_arn = x_service_network_arn, lc2_service_arn = x_service_arn,
       lc2_target_group_arn = x_target_group_arn, lc2_identity = x_identity,
       lc2_region = x_region, lc2_time_epoch = x_time_epoch\<rparr> }"

definition default_version :: string where
  "default_version = ''2.0''"

record ('h, 'q) vpc_lattice_request =
  lr_version :: string
  lr_path :: "string option"
  lr_method :: "string option"
  lr_headers :: 'h
  lr_query_string_parameters :: 'q
  lr_body :: "string option"
  lr_is_base64_encoded :: bool
  lr_request_context :: vpc_lattice_context

definition vpc_lattice_request_of_json :: "('h, 'q) web \<Rightarrow> json \<Rightarrow> ('h, 'q) vpc_lattice_request option" where
  "vpc_lattice_request_of_json W j = do {
     kvs \<leftarrow> de_fields 8
       [''version'', ''path'', ''method'', ''headers'', ''queryStringParameters'', ''body'',
        ''isBase64Encoded'', ''requestContext''] j;
     x_version \<leftarrow> de_default de_string default_version [''version''] kvs;
     x_path \<leftarrow> de_opt_string ''path'' kvs;
     x_method \<leftarrow> de_default (deserialize_optional_method W) None [''method''] kvs;
     x_headers \<leftarrow> de_default (deserialize_headers (wc_crates W)) (hm_empty (wc_hm W)) [''headers''] kvs;
     x_query_string_parameters \<leftarrow> de_default (wc_qm_of_json W) (wc_qm_default W) [''queryStringParameters''] kvs;
     x_body \<leftarrow> de_opt_string ''body'' kvs;
     x_is_base64_encoded \<leftarrow> de_default (de_nullish de_bool False) False [''isBase64Encoded''] kvs;
     x_request_context \<leftarrow> de_required vpc_lattice_context_of_json [''requestContext''] kvs;
     Some \<lparr>lr_version = x_version, lr_path = x_path, lr_method = x_method, lr_headers = x_headers,
       lr_query_string_parameters = x_query_string_parameters, lr_body = x_body,
       lr_is_base64_encoded = x_is_base64_encoded, lr_request_context = x_request_context\<rparr> }"

subsection \<open>Responses\<close>

record 'h proxy_response =
  ps_status_code :: int
  ps_headers :: 'h
  ps_multi_value_headers :: 'h
  ps_body :: "body option"
  ps_is_base64_encoded :: bool

record 'h v2_response =
  vs_status_code :: int
  vs_headers :: 'h
  vs_multi_value_headers :: 'h
  vs_body :: "body option"
  vs_is_base64_encoded :: bool
  vs_cookies :: "string list"

record 'h alb_response =
  as_status_code :: int
  as_status_description :: "string option"
  as_headers :: 'h
  as_multi_value_headers :: 'h
  as_body :: "body option"
  as_is_base64_encoded :: bool

record 'h vpc_lattice_response =
  ls_is_base64_encoded :: bool
  ls_status_code :: nat
  ls_headers :: 'h
  ls_body :: "body option"

definition proxy_response_default :: "('h, 'q) web \<Rightarrow> 'h proxy_response" where
  "proxy_response_default W =
     \<lparr>ps_status_code = 0, ps_headers = hm_empty (wc_hm W), ps_multi_value_headers = hm_empty (wc_hm W),
      ps_body = None, ps_is_base64_encoded = False\<rparr>"

definition v2_response_default :: "('h, 'q) web \<Rightarrow> 'h v2_response" where
  "v2_response_default W =
     \<lparr>vs_status_code = 0, vs_headers = hm_empty (wc_hm W), vs_multi_value_headers = hm_empty (wc_hm W),
      vs_body = None, vs_is_base64_encoded = False, vs_cookies = []\<rparr>"

definition alb_response_default :: "('h, 'q) web \<Rightarrow> 'h alb_response" where
  "alb_response_default W =
     \<lparr>as_status_code = 0, as_status_description = None, as_headers = hm_empty (wc_hm W),
      as_multi_value_headers = hm_empty (wc_hm W), as_body = None, as_is_base64_encoded = False\<rparr>"

definition vpc_lattice_response_default :: "('h, 'q) web \<Rightarrow> 'h vpc_lattice_response" where
  "vpc_lattice_response_default W =
     \<lparr>ls_is_base64_encoded = False, ls_status_code = 0, ls_headers = hm_empty (wc_hm W), ls_body = None\<rparr>"

definition proxy_response_json :: "('h, 'q) web \<Rightarrow> 'h proxy_response \<Rightarrow> json option" where
  "proxy_response_json W r = do {
     hs \<leftarrow> serialize_headers (wc_crates W) (ps_headers r);
     ms \<leftarrow> serialize_multi_value_headers (wc_crates W) (ps_multi_value_headers r);
     Some (JObj ([(''statusCode'', JInt (ps_status_code r)), (''headers'', hs), (''multiValueHeaders'', ms)] @
       opt_field ''body'' (body_json W) (ps_body r) @
       [(''isBase64Encoded'', JBool (ps_is_base64_encoded r))])) }"

definition v2_response_json :: "('h, 'q) web \<Rightarrow> 'h v2_response \<Rightarrow> json option" where
  "v2_response_json W r = do {
     hs \<leftarrow> serialize_headers (wc_crates W) (vs_headers r);
     ms \<leftarrow> serialize_multi_value_headers (wc_crates W) (vs_multi_value_headers r);
     Some (JObj ([(''statusCode'', JInt (vs_status_code r)), (''headers'', hs), (''multiValueHeaders'', ms)] @
       opt_field ''body'' (body_json W) (vs_body r) @
       [(''isBase64Encoded'', JBool (vs_is_base64_encoded r)), (''cookies'', JArr (map JStr (vs_cookies r)))])) }"

definition alb_response_json :: "('h, 'q) web \<Rightarrow> 'h alb_response \<Rightarrow> json option" where
  "alb_response_json W r = do {
     hs \<leftarrow> serialize_headers (wc_crates W) (as_headers r);
     ms \<leftarrow> serialize_multi_value_headers (wc_crates W) (as_multi_value_headers r);
     Some (JObj ([(''statusCode'', JInt (as_status_code r)),
         (''statusDescription'', json_of_option JStr (as_status_description r)),
         (''headers'', hs), (''multiValueHeaders'', ms)] @
       opt_field ''body'' (body_json W) (as_body r) @
       [(''isBase64Encoded'', JBool (as_is_base64_encoded r))])) }"

definition vpc_lattice_response_json :: "('h, 'q) web \<Rightarrow> 'h vpc_lattice_response \<Rightarrow> json option" where
  "vpc_lattice_response_json W r = do {
     hs \<leftarrow> serialize_headers (wc_crates W) (ls_headers r);
     Some (JObj ([(''isBase64Encoded'', JBool (ls_is_base64_encoded r)),
         (''statusCode'', JInt (int (ls_status_code r)))] @
       (if hm_keys (wc_hm W) (ls_headers r) = [] then [] else [(''headers'', hs)]) @
       [(''body'', json_of_option (body_json W) (ls_body r))])) }"

end
