(* ===== verification/HttpRequests.thy ===== *)
theory HttpRequests
  imports HttpEvents RtContext
begin

text \<open>
  From an event to the request a handler sees (\<^verbatim>\<open>lambda-http/src/request.rs\<close>,
  \<^verbatim>\<open>deserializer.rs\<close> and \<^verbatim>\<open>ext/extensions.rs\<close>): which of the
  event structures a payload is, the conversions of each of them, the URI they build, and the
  extensions a request carries. All features of the crate for event sources are on, as by default;
  \<^verbatim>\<open>pass_through\<close> is an argument. A conversion that panics is a \<open>Panic\<close>.
\<close>

subsection \<open>Requests and their origins\<close>

datatype ('h, 'q) lambda_request =
    ApiGatewayV1 "('h, 'q) proxy_request"
  | ApiGatewayV2 "('h, 'q) v2_request"
  | Alb "('h, 'q) alb_request"
  | WebSocket "('h, 'q) websocket_request"
  | VpcLatticeV2 "('h, 'q) vpc_lattice_request"
  | PassThrough string

datatype origin =
    FromApiGatewayV1 | FromApiGatewayV2 | FromAlb | FromWebSocket | FromVpcLatticeV2 | FromPassThrough

fun request_origin :: "('h, 'q) lambda_request \<Rightarrow> origin" where
  "request_origin (ApiGatewayV1 _) = FromApiGatewayV1"
| "request_origin (ApiGatewayV2 _) = FromApiGatewayV2"
| "request_origin (Alb _) = FromAlb"
| "request_origin (WebSocket _) = FromWebSocket"
| "request_origin (VpcLatticeV2 _) = FromVpcLatticeV2"
| "request_origin (PassThrough _) = FromPassThrough"

datatype http_context =
    CtxApiGatewayV1 proxy_request_context
  | CtxApiGatewayV2 v2_request_context
  | CtxAlb alb_request_context
  | CtxWebSocket websocket_request_context
  | CtxVpcLattice vpc_lattice_context
  | CtxPassThrough

fun context_authorizer :: "http_context \<Rightarrow> api_gateway_authorizer option" where
  "context_authorizer (CtxApiGatewayV1 c) = Some (pc_authorizer c)"
| "context_authorizer (CtxApiGatewayV2 c) = vc_authorizer c"
| "context_authorizer (CtxWebSocket c) = Some (wx_authorizer c)"
| "context_authorizer _ = None"

definition error_context :: string where
  "error_context = ''this function expects a JSON payload from Amazon API Gateway, Amazon Elastic Load Balancer, or AWS Lambda Function URLs, but the data doesn'' @ [CHR 0x27] @ ''t match any of those services'' @ [CHR 0x27] @ '' events''"

text \<open>\<open>data\<close> is the text of the payload \<open>j\<close>.\<close>

definition lambda_request_of_json ::
  "('h, 'q) web \<Rightarrow> bool \<Rightarrow> string \<Rightarrow> json \<Rightarrow> (box_error, ('h, 'q) lambda_request) result" where
  "lambda_request_of_json W pass_through data j =
     (case proxy_request_of_json W j of Some r \<Rightarrow> Ok (ApiGatewayV1 r) | None \<Rightarrow>
     (case v2_request_of_json W j of Some r \<Rightarrow> Ok (ApiGatewayV2 r) | None \<Rightarrow>
     (case alb_request_of_json W j of Some r \<Rightarrow> Ok (Alb r) | None \<Rightarrow>
     (case websocket_request_of_json W j of Some r \<Rightarrow> Ok (WebSocket r) | None \<Rightarrow>
     (case vpc_lattice_request_of_json W j of Some r \<Rightarrow> Ok (VpcLatticeV2 r) | None \<Rightarrow>
     if pass_through then Ok (PassThrough data) else Err (BoxError error_context))))))"

subsection \<open>The request of a handler\<close>

text \<open>
  An \<^verbatim>\<open>http::Request<Body>\<close> with the extensions the sources put into it; an
  extension of a type replaces the one of that type.
\<close>

record 'q extensions =
  ex_raw_http_path :: "string option"
  ex_query_string_parameters :: "'q option"
  ex_path_parameters :: "'q option"
  ex_stage_variables :: "'q option"
  ex_request_context :: "http_context option"
  ex_lambda_context :: "rt_context option"

record ('h, 'q) request =
  hr_method :: string
  hr_uri :: uri
  hr_headers :: 'h
  hr_body :: body
  hr_extensions :: "'q extensions"

definition no_extensions :: "'q extensions" where
  "no_extensions =
     \<lparr>ex_raw_http_path = None, ex_query_string_parameters = None, ex_path_parameters = None,
      ex_stage_variables = None, ex_request_context = None, ex_lambda_context = None\<rparr>"

subsubsection \<open>Reading and setting extensions\<close>

definition raw_http_path :: "'q extensions \<Rightarrow> string" where
  "raw_http_path x = (case ex_raw_http_path x of Some p \<Rightarrow> p | None \<Rightarrow> [])"

definition with_raw_http_path :: "string \<Rightarrow> 'q extensions \<Rightarrow> 'q extensions" where
  "with_raw_http_path p x = x\<lparr>ex_raw_http_path := Some p\<rparr>"

text \<open>A stored empty map counts as absent.\<close>

definition nonempty_map :: "('h, 'q) web \<Rightarrow> 'q option \<Rightarrow> 'q option" where
  "nonempty_map W q = (case q of Some q \<Rightarrow> if wc_qm_is_empty W q then None else Some q | None \<Rightarrow> None)"

definition map_or_default :: "('h, 'q) web \<Rightarrow> 'q option \<Rightarrow> 'q" where
  "map_or_default W q = (case q of Some q \<Rightarrow> q | None \<Rightarrow> wc_qm_default W)"

definition query_string_parameters_ref :: "('h, 'q) web \<Rightarrow> 'q extensions \<Rightarrow> 'q option" where
  "query_string_parameters_ref W x = nonempty_map W (ex_query_string_parameters x)"

definition query_string_parameters :: "('h, 'q) web \<Rightarrow> 'q extensions \<Rightarrow> 'q" where
  "query_string_parameters W x = map_or_default W (query_string_parameters_ref W x)"

definition with_query_string_parameters :: "'q \<Rightarrow> 'q extensions \<Rightarrow> 'q extensions" where
  "with_query_string_parameters q x = x\<lparr>ex_query_string_parameters := Some q\<rparr>"

definition path_parameters_ref :: "('h, 'q) web \<Rightarrow> 'q extensions \<Rightarrow> 'q option" where
  "path_parameters_ref W x = nonempty_map W (ex_path_parameters x)"

definition path_parameters :: "('h, 'q) web \<Rightarrow> 'q extensions \<Rightarrow> 'q" where
  "path_parameters W x = map_or_default W (path_parameters_ref W x)"

definition with_path_parameters :: "'q \<Rightarrow> 'q extensions \<Rightarrow> 'q extensions" where
  "with_path_parameters q x = x\<lparr>ex_path_parameters := Some q\<rparr>"

definition stage_variables_ref :: "('h, 'q) web \<Rightarrow> 'q extensions \<Rightarrow> 'q option" where
  "stage_variables_ref W x = nonempty_map W (ex_stage_variables x)"

definition stage_variables :: "('h, 'q) web \<Rightarrow> 'q extensions \<Rightarrow> 'q" where
  "stage_variables W x = map_or_default W (stage_variables_ref W x)"

definition with_stage_variables :: "'q \<Rightarrow> 'q extensions \<Rightarrow> 'q extensions" where
  "with_stage_variables q x = x\<lparr>ex_stage_variables := Some q\<rparr>"

definition request_context :: "'q extensions \<Rightarrow> ('e, http_context) result" where
  "request_context x = expect_some ''Request did not contain a request context'' (ex_request_context x)"

definition with_request_context :: "http_context \<Rightarrow> 'q extensions \<Rightarrow> 'q extensions" where
  "with_request_context c x = x\<lparr>ex_request_context := Some c\<rparr>"

definition lambda_context :: "'q extensions \<Rightarrow> ('e, rt_context) result" where
  "lambda_context x = expect_some ''Request did not contain a lambda context'' (ex_lambda_context x)"

definition with_lambda_context :: "rt_context \<Rightarrow> 'q extensions \<Rightarrow> 'q extensions" where
  "with_lambda_context c x = x\<lparr>ex_lambda_context := Some c\<rparr>"

text \<open>\<^verbatim>\<open>map_req_ext\<close>: the setters on a request set its extensions.\<close>

definition map_req_ext :: "('q extensions \<Rightarrow> 'q extensions) \<Rightarrow> ('h, 'q) request \<Rightarrow> ('h, 'q) request" where
  "map_req_ext f r = r\<lparr>hr_extensions := f (hr_extensions r)\<rparr>"

subsection \<open>URIs\<close>

abbreviation unwrap_err :: string where
  "unwrap_err \<equiv> ''called `Result::unwrap()` on an `Err` value''"

definition header_text :: "('h, 'q) web \<Rightarrow> 'h \<Rightarrow> string \<Rightarrow> string option" where
  "header_text W headers k =
     (case hm_get (wc_hm W) headers k of
        Some v \<Rightarrow> if hv_visible (wc_hm W) v then Some v else None
      | None \<Rightarrow> None)"

definition query_suffix :: "('h, 'q) web \<Rightarrow> ('q \<times> 'q) option \<Rightarrow> string" where
  "query_suffix W queries =
     (case queries of
        None \<Rightarrow> []
      | Some (mv, sv) \<Rightarrow>
          if \<not> wc_qm_is_empty W mv then ''?'' @ wc_qm_text W mv
          else if \<not> wc_qm_is_empty W sv then ''?'' @ wc_qm_text W sv
          else [])"

definition build_request_uri ::
  "('h, 'q) web \<Rightarrow> string \<Rightarrow> 'h \<Rightarrow> string option \<Rightarrow> ('q \<times> 'q) option \<Rightarrow> (box_error, string) result" where
  "build_request_uri W path headers host queries =
     map_ok (\<lambda>url. url @ query_suffix W queries)
       (case host of
          None \<Rightarrow> expect_ok unwrap_err (wc_url_path W (''http://localhost'' @ path))
        | Some host \<Rightarrow>
            expect_ok unwrap_err (wc_url W
              ((case header_text W headers ''x-forwarded-proto'' of Some s \<Rightarrow> s | None \<Rightarrow> ''https'') @ ''://'' @ host @ path)))"

definition apigw_path_with_stage :: "env \<Rightarrow> string option \<Rightarrow> string \<Rightarrow> string" where
  "apigw_path_with_stage e stage path =
     (if e ''AWS_LAMBDA_HTTP_IGNORE_STAGE_IN_PATH'' \<noteq> None then path
      else
        (case stage of
           None \<Rightarrow> path
         | Some stage \<Rightarrow>
             if stage = ''$default'' then path
             else if starts_with (''/'' @ stage @ ''/'') path then path
             else ''/'' @ stage @ path))"

definition decode_query_map :: "('h, 'q) web \<Rightarrow> 'q \<Rightarrow> 'q" where
  "decode_query_map W q = wc_qm_parse W (utf8_lossy (wc_percent_decode W (wc_qm_text W q)))"

subsection \<open>Conversions\<close>

definition finish_request ::
  "('h, 'q) web \<Rightarrow> string \<Rightarrow> (box_error, string) result \<Rightarrow> 'h \<Rightarrow> (box_error, body) result \<Rightarrow> 'q extensions
   \<Rightarrow> (box_error, ('h, 'q) request) result" where
  "finish_request W http_method uri headers b x =
     and_then uri (\<lambda>uri.
     and_then b (\<lambda>b.
     map_ok (\<lambda>u. \<lparr>hr_method = http_method, hr_uri = u, hr_headers = headers, hr_body = b, hr_extensions = x\<rparr>)
       (expect_ok ''failed to build request'' (cr_uri_parse (wc_crates W) uri))))"

definition or_default :: "string option \<Rightarrow> string" where
  "or_default s = (case s of Some s \<Rightarrow> s | None \<Rightarrow> [])"

definition or_else :: "'a option \<Rightarrow> 'a option \<Rightarrow> 'a option" where
  "or_else a b = (case a of None \<Rightarrow> b | _ \<Rightarrow> a)"

definition into_api_gateway_v2_request ::
  "('h, 'q) web \<Rightarrow> env \<Rightarrow> ('h, 'q) v2_request \<Rightarrow> (box_error, ('h, 'q) request) result" where
  "into_api_gateway_v2_request W e ag =
     (let host = or_else (header_text W (vr_headers ag) ''host'') (vc_domain_name (vr_request_context ag));
          raw_path = or_default (vr_raw_path ag);
          path = apigw_path_with_stage e (vc_stage (vr_request_context ag)) raw_path;
          query = (case vr_raw_query_string ag of
                     Some query \<Rightarrow> wc_qm_parse W query
                   | None \<Rightarrow> vr_query_string_parameters ag);
          uri = map_ok (\<lambda>uri. uri @ (case vr_raw_query_string ag of
                                      Some query \<Rightarrow> if query = [] then [] else ''?'' @ query
                                    | None \<Rightarrow> []))
                  (build_request_uri W path (vr_headers ag) host None);
          headers = (case vr_cookies ag of
                       Some cookies \<Rightarrow>
                         if hv_valid (wc_hm W) (join_with ''; '' cookies)
                         then hm_insert (wc_hm W) (vr_headers ag) ''cookie'' (join_with ''; '' cookies)
                         else vr_headers ag
                     | None \<Rightarrow> vr_headers ag)
      in finish_request W (hd_method (vc_http (vr_request_context ag))) uri headers
           (event_body W (vr_is_base64_encoded ag) (vr_body ag))
           (no_extensions
              \<lparr>ex_raw_http_path := Some raw_path,
               ex_query_string_parameters := Some query,
               ex_path_parameters := Some (wc_qm_of_map W (vr_path_parameters ag)),
               ex_stage_variables := Some (wc_qm_of_map W (vr_stage_variables ag)),
               ex_request_context := Some (CtxApiGatewayV2 (vr_request_context ag))\<rparr>))"

definition preferred_query :: "('h, 'q) web \<Rightarrow> 'q \<Rightarrow> 'q \<Rightarrow> 'q" where
  "preferred_query W mv sv = (if wc_qm_is_empty W mv then sv else mv)"

definition into_proxy_request ::
  "('h, 'q) web \<Rightarrow> env \<Rightarrow> ('h, 'q) proxy_request \<Rightarrow> (box_error, ('h, 'q) request) result" where
  "into_proxy_request W e ag =
     (let host = or_else (header_text W (pr_headers ag) ''host'') (pc_domain_name (pr_request_context ag));
          raw_path = or_default (pr_path ag);
          path = apigw_path_with_stage e (pc_stage (pr_request_context ag)) raw_path
      in finish_request W (pr_http_method ag)
           (build_request_uri W path (pr_headers ag) host
              (Some (pr_multi_value_query_string_parameters ag, pr_query_string_parameters ag)))
           (hm_extend (wc_hm W) (pr_multi_value_headers ag) (pr_headers ag))
           (event_body W (pr_is_base64_encoded ag) (pr_body ag))
           (no_extensions
              \<lparr>ex_raw_http_path := Some raw_path,
               ex_query_string_parameters := Some (preferred_query W (pr_multi_value_query_string_parameters ag)
                                                     (pr_query_string_parameters ag)),
               ex_path_parameters := Some (wc_qm_of_map W (pr_path_parameters ag)),
               ex_stage_variables := Some (wc_qm_of_map W (pr_stage_variables ag)),
               ex_request_context := Some (CtxApiGatewayV1 (pr_request_context ag))\<rparr>))"

definition into_alb_request ::
  "('h, 'q) web \<Rightarrow> ('h, 'q) alb_request \<Rightarrow> (box_error, ('h, 'q) request) result" where
  "into_alb_request W alb =
     (let host = header_text W (ar_headers alb) ''host'';
          raw_path = or_default (ar_path alb);
          sv = decode_query_map W (ar_query_string_parameters alb);
          mv = decode_query_map W (ar_multi_value_query_string_parameters alb)
      in finish_request W (ar_http_method alb)
           (build_request_uri W raw_path (ar_headers alb) host (Some (mv, sv)))
           (hm_extend (wc_hm W) (ar_multi_value_headers alb) (ar_headers alb))
           (event_body W (ar_is_base64_encoded alb) (ar_body alb))
           (no_extensions
              \<lparr>ex_raw_http_path := Some raw_path,
               ex_query_string_parameters := Some (preferred_query W mv sv),
               ex_request_context := Some (CtxAlb (ar_request_context alb))\<rparr>))"

definition method_or_get :: "string option \<Rightarrow> string" where
  "method_or_get m = (case m of Some m \<Rightarrow> m | None \<Rightarrow> ''GET'')"

definition into_websocket_request ::
  "('h, 'q) web \<Rightarrow> env \<Rightarrow> ('h, 'q) websocket_request \<Rightarrow> (box_error, ('h, 'q) request) result" where
  "into_websocket_request W e ag =
     (let host = or_else (header_text W (wr_headers ag) ''host'') (wx_domain_name (wr_request_context ag));
          raw_path = or_default (wr_path ag);
          path = apigw_path_with_stage e (wx_stage (wr_request_context ag)) raw_path
      in finish_request W (method_or_get (wr_http_method ag))
           (build_request_uri W path (wr_headers ag) host
              (Some (wr_multi_value_query_string_parameters ag, wr_query_string_parameters ag)))
           (hm_extend (wc_hm W) (wr_multi_value_headers ag) (wr_headers ag))
           (event_body W (wr_is_base64_encoded ag) (wr_body ag))
           (no_extensions
              \<lparr>ex_raw_http_path := Some raw_path,
               ex_query_string_parameters := Some (preferred_query W (wr_multi_value_query_string_parameters ag)
                                                     (wr_query_string_parameters ag)),
               ex_path_parameters := Some (wc_qm_of_map W (wr_path_parameters ag)),
               ex_stage_variables := Some (wc_qm_of_map W (wr_stage_variables ag)),
               ex_request_context := Some (CtxWebSocket (wr_request_context ag))\<rparr>))"

definition into_vpc_lattice_request ::
  "('h, 'q) web \<Rightarrow> ('h, 'q) vpc_lattice_request \<Rightarrow> (box_error, ('h, 'q) request) result" where
  "into_vpc_lattice_request W vlr =
     (let host = header_text W (lr_headers vlr) ''host'';
          raw_path = or_default (lr_path vlr);
          query = decode_query_map W (lr_query_string_parameters vlr)
      in finish_request W (method_or_get (lr_method vlr))
           (build_request_uri W raw_path (lr_headers vlr) host (Some (query, query)))
           (lr_headers vlr)
           (event_body W (lr_is_base64_encoded vlr) (lr_body vlr))
           (no_extensions
              \<lparr>ex_raw_http_path := Some raw_path,
               ex_query_string_parameters := Some query,
               ex_request_context := Some (CtxVpcLattice (lr_request_context vlr))\<rparr>))"

definition into_pass_through_request ::
  "('h, 'q) web \<Rightarrow> string \<Rightarrow> (box_error, ('h, 'q) request) result" where
  "into_pass_through_request W data =
     and_then (expect_ok unwrap_err (hv_parse (wc_crates W) ''application/json'')) (\<lambda>json.
     finish_request W ''POST'' (Ok ''/events'') (hm_insert (wc_hm W) (hm_empty (wc_hm W)) ''Content-Type'' json)
       (Ok (TextBody data))
       (no_extensions\<lparr>ex_raw_http_path := Some ''/events'', ex_request_context := Some CtxPassThrough\<rparr>))"

definition into_request ::
  "('h, 'q) web \<Rightarrow> env \<Rightarrow> ('h, 'q) lambda_request \<Rightarrow> (box_error, ('h, 'q) request) result" where
  "into_request W e r =
     (case r of
        ApiGatewayV1 ag \<Rightarrow> into_proxy_request W e ag
      | ApiGatewayV2 ag \<Rightarrow> into_api_gateway_v2_request W e ag
      | Alb alb \<Rightarrow> into_alb_request W alb
      | WebSocket ag \<Rightarrow> into_websocket_request W e ag
      | VpcLatticeV2 vpclat \<Rightarrow> into_vpc_lattice_request W vpclat
      | PassThrough data \<Rightarrow> into_pass_through_request W data)"

text \<open>\<^verbatim>\<open>from_str\<close>, and \<^verbatim>\<open>from_reader\<close> on the text it reads.\<close>

definition request_from_str ::
  "('h, 'q) web \<Rightarrow> env \<Rightarrow> bool \<Rightarrow> string \<Rightarrow> (box_error, ('h, 'q) request) result" where
  "request_from_str W e pass_through s =
     and_then (cr_json_parse (wc_crates W) s) (\<lambda>j.
     and_then (lambda_request_of_json W pass_through s j) (into_request W e))"

subsection \<open>Lemmas\<close>

lemma de_required_missing [simp]: "k \<notin> fst ` set kvs \<Longrightarrow> de_required f [k] kvs = None"
proof -
  assume "k \<notin> fst ` set kvs"
  then have "de_values [k] kvs = []"
    by (force simp: de_values_def filter_empty_conv)
  then show ?thesis by (simp add: de_required_def)
qed

lemma de_fields_JObj [simp]: "de_fields n names (JObj kvs) = Some kvs"
  by (simp add: de_fields_def)

text \<open>The field of each context without which it is not the context of its service.\<close>

lemma proxy_context_needs_method: "''httpMethod'' \<notin> fst ` set ctx \<Longrightarrow> proxy_request_context_of_json W (JObj ctx) = None"
  unfolding proxy_request_context_of_json_def by simp

lemma v2_context_needs_http: "''http'' \<notin> fst ` set ctx \<Longrightarrow> v2_request_context_of_json W (JObj ctx) = None"
  unfolding v2_request_context_of_json_def by simp

lemma alb_context_needs_elb: "''elb'' \<notin> fst ` set ctx \<Longrightarrow> alb_request_context_of_json (JObj ctx) = None"
  unfolding alb_request_context_of_json_def by simp

lemma websocket_context_needs_connected_at:
  "''connectedAt'' \<notin> fst ` set ctx \<Longrightarrow> websocket_request_context_of_json W (JObj ctx) = None"
  unfolding websocket_request_context_of_json_def by simp

lemma vpc_lattice_context_needs_service: "''serviceArn'' \<notin> fst ` set ctx \<Longrightarrow> vpc_lattice_context_of_json (JObj ctx) = None"
  unfolding vpc_lattice_context_of_json_def by simp

lemma de_required_context: "de_values [''requestContext''] kvs = [c] \<Longrightarrow> de_required f [''requestContext''] kvs = f c"
  by (simp add: de_required_def)

text \<open>An event is not the one of a service whose context it does not have.\<close>

lemma event_needs_context:
  assumes "de_values [''requestContext''] kvs = [c]"
  shows "proxy_request_context_of_json W c = None \<Longrightarrow> proxy_request_of_json W (JObj kvs) = None"
    and "v2_request_context_of_json W c = None \<Longrightarrow> v2_request_of_json W (JObj kvs) = None"
    and "alb_request_context_of_json c = None \<Longrightarrow> alb_request_of_json W (JObj kvs) = None"
    and "websocket_request_context_of_json W c = None \<Longrightarrow> websocket_request_of_json W (JObj kvs) = None"
    and "vpc_lattice_context_of_json c = None \<Longrightarrow> vpc_lattice_request_of_json W (JObj kvs) = None"
  unfolding proxy_request_of_json_def v2_request_of_json_def alb_request_of_json_def websocket_request_of_json_def
    vpc_lattice_request_of_json_def
  by (simp_all add: de_required_context [OF assms])

lemma finish_request_Ok:
  "finish_request W m uri h b x = Ok r \<longleftrightarrow>
     (\<exists>s b' u. uri = Ok s \<and> b = Ok b' \<and> cr_uri_parse (wc_crates W) s = Ok u \<and>
        r = \<lparr>hr_method = m, hr_uri = u, hr_headers = h, hr_body = b', hr_extensions = x\<rparr>)"
  by (auto simp: finish_request_def result_simps expect_ok_eq_Ok)

text \<open>The single-valued and the multi-valued headers of the events that have both.\<close>

definition event_headers :: "('h, 'q) lambda_request \<Rightarrow> ('h \<times> 'h) option" where
  "event_headers r =
     (case r of
        ApiGatewayV1 ag \<Rightarrow> Some (pr_headers ag, pr_multi_value_headers ag)
      | Alb alb \<Rightarrow> Some (ar_headers alb, ar_multi_value_headers alb)
      | WebSocket ag \<Rightarrow> Some (wr_headers ag, wr_multi_value_headers ag)
      | _ \<Rightarrow> None)"

lemma merged_headers:
  assumes "event_headers r = Some (single, multi)" and "into_request W e r = Ok req"
  shows "hr_headers req = hm_extend (wc_hm W) multi single"
  using assms
  by (auto simp: event_headers_def into_request_def into_proxy_request_def into_alb_request_def into_websocket_request_def
      Let_def finish_request_Ok split: lambda_request.splits)

subsection \<open>Properties\<close>

text \<open>
  C13: the service an event comes from is recognised by its request context. An event in the
  HTTP API format whose context has no method of a REST event is taken for an HTTP API event; one
  in the format of a load balancer whose context describes neither, for a load balancer event; and
  so on for WebSocket and VPC Lattice events. An event whose context has none of the fields these
  contexts need is passed through if that is enabled and is an error otherwise.
\<close>

theorem event_recognised_by_context:
  assumes "de_values [''requestContext''] kvs = [JObj ctx]"
  shows "(fst ` set ctx \<inter> {''httpMethod''} = {} \<and> v2_request_of_json W (JObj kvs) = Some r2 \<longrightarrow>
            lambda_request_of_json W pt d (JObj kvs) = Ok (ApiGatewayV2 r2)) \<and>
         (fst ` set ctx \<inter> {''httpMethod'', ''http''} = {} \<and> alb_request_of_json W (JObj kvs) = Some r3 \<longrightarrow>
            lambda_request_of_json W pt d (JObj kvs) = Ok (Alb r3)) \<and>
         (fst ` set ctx \<inter> {''httpMethod'', ''http'', ''elb''} = {} \<and>
          websocket_request_of_json W (JObj kvs) = Some r4 \<longrightarrow>
            lambda_request_of_json W pt d (JObj kvs) = Ok (WebSocket r4)) \<and>
         (fst ` set ctx \<inter> {''httpMethod'', ''http'', ''elb'', ''connectedAt''} = {} \<and>
          vpc_lattice_request_of_json W (JObj kvs) = Some r5 \<longrightarrow>
            lambda_request_of_json W pt d (JObj kvs) = Ok (VpcLatticeV2 r5)) \<and>
         (fst ` set ctx \<inter> {''httpMethod'', ''http'', ''elb'', ''connectedAt'', ''serviceArn''} = {} \<longrightarrow>
            lambda_request_of_json W pt d (JObj kvs) = (if pt then Ok (PassThrough d) else Err (BoxError error_context)))"
  using proxy_context_needs_method [of ctx W] v2_context_needs_http [of ctx W] alb_context_needs_elb [of ctx]
    websocket_context_needs_connected_at [of ctx W] vpc_lattice_context_needs_service [of ctx]
    event_needs_context [OF assms, of W]
  by (simp add: lambda_request_of_json_def)

definition example_alb_event :: "(string \<times> json) list" where
  "example_alb_event =
     [(''httpMethod'', JStr ''GET''), (''path'', JStr ''/''), (''requestContext'', JObj [(''elb'', JObj [])]), (''body'', JNull)]"

lemma event_recognised_by_context_witness:
  "lambda_request_of_json (ref_web ref_crates) False ''event'' (JObj example_alb_event) =
     Ok (Alb \<lparr>ar_http_method = ''GET'', ar_path = Some ''/'', ar_query_string_parameters = [],
           ar_multi_value_query_string_parameters = [], ar_headers = [], ar_multi_value_headers = [],
           ar_request_context = \<lparr>ac_elb = \<lparr>el_target_group_arn = None\<rparr>\<rparr>, ar_is_base64_encoded = False,
           ar_body = None\<rparr>)" (is "_ = Ok (Alb ?r)")
proof -
  have "alb_request_of_json (ref_web ref_crates) (JObj example_alb_event) = Some ?r"
    by (simp add: alb_request_of_json_def example_alb_event_def deserialize_method_def method_of_string_def
        alb_request_context_of_json_def elb_context_of_json_def de_opt_string_def de_simps ref_web_def
        al_hmap_def)
  moreover have "de_values [''requestContext''] example_alb_event = [JObj [(''elb'', JObj [])]]"
    by (simp add: example_alb_event_def)
  ultimately show ?thesis
    using event_recognised_by_context [of example_alb_event "[(''elb'', JObj [])]" "ref_web ref_crates" _ False "''event''" ?r]
    by simp
qed

text \<open>
  C24: the headers of a request made from a REST, load balancer or WebSocket event are, name by
  name, those of its single-valued headers, and those of its multi-valued headers only for the
  names that the single-valued ones do not have: where both have a name, the further values of
  the multi-valued header are lost.
\<close>

theorem single_valued_headers_win:
  assumes "header_map (wc_hm W)" and "event_headers r = Some (single, multi)" and "into_request W e r = Ok req"
  shows "hm_get_all (wc_hm W) (hr_headers req) k =
     (if hm_get_all (wc_hm W) single k = [] then hm_get_all (wc_hm W) multi k else hm_get_all (wc_hm W) single k)"
  using merged_headers [OF assms(2,3)] header_map.get_all_extend [OF assms(1)] by simp

definition example_rest_event :: "(headers, (string \<times> string) list) proxy_request" where
  "example_rest_event =
     \<lparr>pr_resource = None, pr_path = Some ''/hello'', pr_http_method = ''GET'', pr_headers = [(''cookie'', ''b=2'')],
      pr_multi_value_headers = [(''cookie'', ''a=1''), (''cookie'', ''b=2'')], pr_query_string_parameters = [],
      pr_multi_value_query_string_parameters = [], pr_path_parameters = [], pr_stage_variables = [],
      pr_request_context =
        \<lparr>pc_account_id = None, pc_resource_id = None, pc_operation_name = None, pc_stage = Some ''test'',
         pc_domain_name = None, pc_domain_prefix = None, pc_request_id = None, pc_protocol = None,
         pc_identity = request_identity_default, pc_resource_path = None, pc_path = None,
         pc_authorizer = authorizer_default, pc_http_method = ''GET'', pc_request_time = None,
         pc_request_time_epoch = 0, pc_apiid = None\<rparr>,
      pr_body = None, pr_is_base64_encoded = False\<rparr>"

lemma single_valued_headers_win_witness:
  "\<exists>req. into_request (ref_web ref_crates) Map.empty (ApiGatewayV1 example_rest_event) = Ok req \<and>
     hm_get_all al_hmap (hr_headers req) ''cookie'' = [''b=2''] \<and>
     hm_get_all al_hmap (pr_multi_value_headers example_rest_event) ''cookie'' = [''a=1'', ''b=2'']"
proof -
  obtain req where req: "into_request (ref_web ref_crates) Map.empty (ApiGatewayV1 example_rest_event) = Ok req"
    by (auto simp: into_request_def into_proxy_request_def Let_def finish_request_Ok example_rest_event_def
        build_request_uri_def header_text_def hm_get_def apigw_path_with_stage_def starts_with_def or_default_def or_else_def
        event_body_def query_suffix_def ref_web_def ref_crates_def al_hmap_def al_get_all_def lower_eval)
  have "hm_get_all al_hmap (hr_headers req) ''cookie'' = [''b=2'']"
    using single_valued_headers_win [OF _ _ req, of "pr_headers example_rest_event" "pr_multi_value_headers example_rest_event" "''cookie''"]
    by (simp add: al_header_map event_headers_def) (simp add: example_rest_event_def al_hmap_def al_get_all_def lower_eval)
  then show ?thesis
    using req by (simp add: example_rest_event_def al_hmap_def al_get_all_def)
qed

text \<open>
  C25: the path of an API Gateway event has its stage in front exactly once. Without a stage, with the
  stage \<^verbatim>\<open>$default\<close>, or with \<^verbatim>\<open>AWS_LAMBDA_HTTP_IGNORE_STAGE_IN_PATH\<close> in the
  environment, \<^verbatim>\<open>apigw_path_with_stage\<close> keeps an absolute path. With any other stage its result starts with
  the stage as its first segment: an absolute path that has it there (followed by a slash) is kept, before every other
  one the stage is put, so that this path and the path with the stage in front have the same result, and a second
  application changes nothing.
\<close>

theorem stage_added_once:
  assumes "path = CHR ''/'' # rest"
  shows "(e ''AWS_LAMBDA_HTTP_IGNORE_STAGE_IN_PATH'' \<noteq> None \<or> stage \<in> {None, Some ''$default''} \<longrightarrow>
      apigw_path_with_stage e stage path = path) \<and>
    (\<forall>s. e ''AWS_LAMBDA_HTTP_IGNORE_STAGE_IN_PATH'' = None \<and> stage = Some s \<and> s \<noteq> ''$default'' \<longrightarrow>
      (\<exists>tl. apigw_path_with_stage e stage path = ''/'' @ s @ ''/'' @ tl) \<and>
      ((\<exists>tl. path = ''/'' @ s @ ''/'' @ tl) \<longrightarrow> apigw_path_with_stage e stage path = path) \<and>
      ((\<nexists>tl. path = ''/'' @ s @ ''/'' @ tl) \<longrightarrow>
         apigw_path_with_stage e stage path = ''/'' @ s @ path \<and>
         apigw_path_with_stage e stage (''/'' @ s @ path) = ''/'' @ s @ path)) \<and>
    apigw_path_with_stage e stage (apigw_path_with_stage e stage path) = apigw_path_with_stage e stage path"
proof (intro conjI allI impI)
  have starts: "starts_with p t \<longleftrightarrow> (\<exists>tl. t = p @ tl)" for p t :: string
    by (auto simp: starts_with_def) (metis append_take_drop_id)
  show "apigw_path_with_stage e stage (apigw_path_with_stage e stage path) = apigw_path_with_stage e stage path"
    by (cases stage) (simp_all add: apigw_path_with_stage_def assms starts_with_def)
  fix s assume s: "e ''AWS_LAMBDA_HTTP_IGNORE_STAGE_IN_PATH'' = None \<and> stage = Some s \<and> s \<noteq> ''$default''"
  then have eq: "apigw_path_with_stage e stage t = (if \<exists>tl. t = ''/'' @ s @ ''/'' @ tl then t else ''/'' @ s @ t)" for t
    by (simp add: apigw_path_with_stage_def starts)
  show "\<exists>tl. apigw_path_with_stage e stage path = ''/'' @ s @ ''/'' @ tl"
    unfolding eq using assms by simp
  show "apigw_path_with_stage e stage path = path" if "\<exists>tl. path = ''/'' @ s @ ''/'' @ tl"
    unfolding eq using that by simp
  show "apigw_path_with_stage e stage path = ''/'' @ s @ path" if "\<nexists>tl. path = ''/'' @ s @ ''/'' @ tl"
    unfolding eq using that by simp
  show "apigw_path_with_stage e stage (''/'' @ s @ path) = ''/'' @ s @ path" if "\<nexists>tl. path = ''/'' @ s @ ''/'' @ tl"
    unfolding eq using assms by simp
qed (auto simp: apigw_path_with_stage_def)

lemma stage_added_once_witness:
  "apigw_path_with_stage Map.empty (Some ''test'') ''/hello'' = ''/test/hello'' \<and>
   apigw_path_with_stage Map.empty (Some ''test'') ''/test/hello'' = ''/test/hello'' \<and>
   apigw_path_with_stage Map.empty (Some ''$default'') ''/hello'' = ''/hello''"
proof -
  have "\<nexists>tl. ''/hello'' = ''/'' @ ''test'' @ ''/'' @ tl" by simp
  then show ?thesis
    using stage_added_once [of "''/hello''" "''hello''" Map.empty "Some ''test''"]
      stage_added_once [of "''/hello''" "''hello''" Map.empty "Some ''$default''"]
    by simp
qed

end
