(* ===== verification/HttpResponses.thy ===== *)
theory HttpResponses
  imports HttpRequests
begin

text \<open>
  From what a handler returns to the answer in the format of the service the event came from
  (\<^verbatim>\<open>lambda-http/src/response.rs\<close>): the types a handler may return, the decision
  whether a body is sent as text or in base64, and the five formats.
\<close>

subsection \<open>Responses\<close>

record 'h response =
  re_status :: nat
  re_headers :: 'h
  re_body :: body

datatype 'h lambda_response =
    RespApiGatewayV1 "'h proxy_response"
  | RespApiGatewayV2 "'h v2_response"
  | RespAlb "'h alb_response"
  | RespVpcLattice "'h vpc_lattice_response"
  | RespPassThrough json

definition encoded_body :: "body \<Rightarrow> bool \<times> body option" where
  "encoded_body b =
     (case b of
        EmptyBody \<Rightarrow> (False, None)
      | TextBody s \<Rightarrow> (False, Some (TextBody s))
      | BinaryBody s \<Rightarrow> (True, Some (BinaryBody s)))"

definition visible_or_empty :: "('h, 'q) web \<Rightarrow> string \<Rightarrow> string" where
  "visible_or_empty W v = (if hv_visible (wc_hm W) v then v else [])"

definition from_response :: "('h, 'q) web \<Rightarrow> origin \<Rightarrow> 'h response \<Rightarrow> 'h lambda_response" where
  "from_response W origin value =
     (let (is_base64_encoded, b) = encoded_body (re_body value);
          headers = re_headers value;
          status_code = re_status value
      in case origin of
           FromApiGatewayV1 \<Rightarrow>
             RespApiGatewayV1 ((proxy_response_default W)
               \<lparr>ps_body := b, ps_is_base64_encoded := is_base64_encoded, ps_status_code := int status_code,
                ps_headers := hm_empty (wc_hm W), ps_multi_value_headers := headers\<rparr>)
         | FromApiGatewayV2 \<Rightarrow>
             RespApiGatewayV2 ((v2_response_default W)
               \<lparr>vs_body := b, vs_is_base64_encoded := is_base64_encoded, vs_status_code := int status_code,
                vs_cookies := map (visible_or_empty W) (hm_get_all (wc_hm W) headers ''set-cookie''),
                vs_headers := hm_remove (wc_hm W) headers ''set-cookie'',
                vs_multi_value_headers := hm_empty (wc_hm W)\<rparr>)
         | FromAlb \<Rightarrow>
             RespAlb ((alb_response_default W)
               \<lparr>as_body := b, as_is_base64_encoded := is_base64_encoded, as_status_code := int status_code,
                as_headers := headers, as_multi_value_headers := headers,
                as_status_description := Some (show_nat status_code @ '' '' @ or_default (wc_reason W status_code))\<rparr>)
         | FromWebSocket \<Rightarrow>
             RespApiGatewayV1 ((proxy_response_default W)
               \<lparr>ps_body := b, ps_is_base64_encoded := is_base64_encoded, ps_status_code := int status_code,
                ps_headers := hm_empty (wc_hm W), ps_multi_value_headers := headers\<rparr>)
         | FromVpcLatticeV2 \<Rightarrow>
             RespVpcLattice ((vpc_lattice_response_default W)
               \<lparr>ls_body := b, ls_is_base64_encoded := is_base64_encoded, ls_status_code := status_code,
                ls_headers := headers\<rparr>)
         | FromPassThrough \<Rightarrow>
             RespPassThrough
               (case b of
                  Some (TextBody s) \<Rightarrow>
                    (case cr_json_parse (wc_crates W) s of Ok j \<Rightarrow> j | _ \<Rightarrow> JNull)
                | _ \<Rightarrow> JNull))"

fun lambda_response_json :: "('h, 'q) web \<Rightarrow> 'h lambda_response \<Rightarrow> json option" where
  "lambda_response_json W (RespApiGatewayV1 r) = proxy_response_json W r"
| "lambda_response_json W (RespApiGatewayV2 r) = v2_response_json W r"
| "lambda_response_json W (RespAlb r) = alb_response_json W r"
| "lambda_response_json W (RespVpcLattice r) = vpc_lattice_response_json W r"
| "lambda_response_json W (RespPassThrough j) = Some j"

subsection \<open>Bodies\<close>

text \<open>A body is known by what reading it to its end returns.\<close>

definition text_encoding_prefixes :: "string list" where
  "text_encoding_prefixes =
     [''text'', ''application/json'', ''application/javascript'', ''application/xml'', ''application/yaml'']"

definition text_encoding_suffixes :: "string list" where
  "text_encoding_suffixes = [''+xml'', ''+yaml'', ''+json'']"

definition convert_to_binary :: "(box_error, string) result \<Rightarrow> (box_error, body) result" where
  "convert_to_binary b = map_ok BinaryBody (expect_ok ''unable to read bytes from body'' b)"

definition convert_to_text :: "('h, 'q) web \<Rightarrow> string \<Rightarrow> (box_error, string) result \<Rightarrow> (box_error, body) result" where
  "convert_to_text W content_type b =
     (let label = (case wc_charset W content_type of Some charset \<Rightarrow> charset | None \<Rightarrow> ''utf-8'');
          encoding = (case wc_encoding W label of Some encoding \<Rightarrow> encoding | None \<Rightarrow> ''UTF-8'')
      in map_ok (\<lambda>bytes. TextBody (wc_decode W encoding bytes)) (expect_ok ''unable to read bytes from body'' b))"

definition convert :: "('h, 'q) web \<Rightarrow> 'h \<Rightarrow> (box_error, string) result \<Rightarrow> (box_error, body) result" where
  "convert W headers b =
     (if hm_get (wc_hm W) headers ''content-encoding'' \<noteq> None then convert_to_binary b
      else
        (case hm_get (wc_hm W) headers ''content-type'' of
           None \<Rightarrow> convert_to_text W ''utf-8'' b
         | Some value \<Rightarrow>
             (let content_type = visible_or_empty W value
              in if list_ex (\<lambda>prefix. starts_with prefix content_type) text_encoding_prefixes
                 then convert_to_text W content_type b
                 else if list_ex (\<lambda>suffix. ends_with suffix (hd (split_on (CHR '';'') (trim content_type))))
                           text_encoding_suffixes
                 then convert_to_text W content_type b
                 else if hm_get (wc_hm W) headers ''x-lambda-http-content-encoding'' = Some ''text''
                 then convert_to_text W content_type b
                 else convert_to_binary b)))"

subsection \<open>What a handler may return\<close>

definition plain_response :: "('h, 'q) web \<Rightarrow> body \<Rightarrow> 'h response" where
  "plain_response W b = \<lparr>re_status = 200, re_headers = hm_empty (wc_hm W), re_body = b\<rparr>"

definition response_into_response ::
  "('h, 'q) web \<Rightarrow> nat \<Rightarrow> 'h \<Rightarrow> (box_error, string) result \<Rightarrow> (box_error, 'h response) result" where
  "response_into_response W status headers b =
     map_ok (\<lambda>b. \<lparr>re_status = status, re_headers = headers, re_body = b\<rparr>) (convert W headers b)"

definition string_into_response :: "('h, 'q) web \<Rightarrow> string \<Rightarrow> 'h response" where
  "string_into_response W s = plain_response W (TextBody s)"

definition bytes_into_response :: "('h, 'q) web \<Rightarrow> string \<Rightarrow> 'h response" where
  "bytes_into_response W b = plain_response W (BinaryBody b)"

definition json_into_response :: "('h, 'q) web \<Rightarrow> json \<Rightarrow> (box_error, 'h response) result" where
  "json_into_response W j =
     map_ok (\<lambda>v. (plain_response W (TextBody (cr_json_text (wc_crates W) j)))
                   \<lparr>re_headers := hm_append (wc_hm W) (hm_empty (wc_hm W)) ''content-type'' v\<rparr>)
       (expect_ok ''unable to build http::Response'' (hv_parse (wc_crates W) ''application/json''))"

definition status_into_response :: "nat \<Rightarrow> 'h response \<Rightarrow> 'h response" where
  "status_into_response status r = r\<lparr>re_status := status\<rparr>"

definition status_string_into_response :: "('h, 'q) web \<Rightarrow> nat \<times> string \<Rightarrow> 'h response" where
  "status_string_into_response W r = status_into_response (fst r) (string_into_response W (snd r))"

definition status_bytes_into_response :: "('h, 'q) web \<Rightarrow> nat \<times> string \<Rightarrow> 'h response" where
  "status_bytes_into_response W r = status_into_response (fst r) (bytes_into_response W (snd r))"

definition status_json_into_response :: "('h, 'q) web \<Rightarrow> nat \<times> json \<Rightarrow> (box_error, 'h response) result" where
  "status_json_into_response W r = map_ok (status_into_response (fst r)) (json_into_response W (snd r))"

subsection \<open>What the service gets\<close>

text \<open>
  The parts of an answer that decide its body, whatever the format. Its headers are spoken of as they are
  written, since the serialisers of the header maps keep less than the maps hold.
\<close>

record answer =
  an_status :: int
  an_base64 :: bool
  an_body :: "body option"

fun answer_of :: "'h lambda_response \<Rightarrow> answer option" where
  "answer_of (RespApiGatewayV1 r) =
     Some \<lparr>an_status = ps_status_code r, an_base64 = ps_is_base64_encoded r, an_body = ps_body r\<rparr>"
| "answer_of (RespApiGatewayV2 r) =
     Some \<lparr>an_status = vs_status_code r, an_base64 = vs_is_base64_encoded r, an_body = vs_body r\<rparr>"
| "answer_of (RespAlb r) =
     Some \<lparr>an_status = as_status_code r, an_base64 = as_is_base64_encoded r, an_body = as_body r\<rparr>"
| "answer_of (RespVpcLattice r) =
     Some \<lparr>an_status = int (ls_status_code r), an_base64 = ls_is_base64_encoded r, an_body = ls_body r\<rparr>"
| "answer_of (RespPassThrough j) = None"

text \<open>The body the service hands to the client.\<close>

definition delivered_body :: "('h, 'q) web \<Rightarrow> answer \<Rightarrow> (box_error, body) result" where
  "delivered_body W a =
     (case an_body a of
        None \<Rightarrow> Ok EmptyBody
      | Some b \<Rightarrow>
          (case body_json W b of
             JStr t \<Rightarrow> from_maybe_encoded W (an_base64 a) t
           | _ \<Rightarrow> Ok EmptyBody))"

text \<open>
  The same read from the text that is sent: a field of the written object, the body by the flag
  beside it, and the values that an object of headers has for a name.
\<close>

definition written :: "string \<Rightarrow> json \<Rightarrow> json option" where
  "written k j = (case j of JObj kvs \<Rightarrow> jfield k kvs | _ \<Rightarrow> None)"

definition written_body :: "('h, 'q) web \<Rightarrow> json \<Rightarrow> (box_error, body) result" where
  "written_body W j =
     (case written ''body'' j of
        Some (JStr t) \<Rightarrow> from_maybe_encoded W (written ''isBase64Encoded'' j = Some (JBool True)) t
      | _ \<Rightarrow> Ok EmptyBody)"

definition json_strings :: "json \<Rightarrow> string list" where
  "json_strings j =
     (case j of
        JStr v \<Rightarrow> [v]
      | JArr vs \<Rightarrow> concat (map (\<lambda>v. case v of JStr s \<Rightarrow> [s] | _ \<Rightarrow> []) vs)
      | _ \<Rightarrow> [])"

definition strings_at :: "string \<Rightarrow> json \<Rightarrow> string list" where
  "strings_at k j = (case written k j of Some v \<Rightarrow> json_strings v | None \<Rightarrow> [])"

definition written_values :: "string \<Rightarrow> json \<Rightarrow> string \<Rightarrow> string list" where
  "written_values field j k = (case written field j of Some headers \<Rightarrow> strings_at k headers | None \<Rightarrow> [])"

lemma json_strings_simps [simp]: "json_strings (JStr v) = [v]" "json_strings (JArr (map JStr vs)) = vs"
  by (simp_all add: json_strings_def comp_def)

lemma written_simps [simp]: "written k (JObj kvs) = jfield k kvs"
  by (simp add: written_def)

lemma answer_of_response:
  assumes "origin \<noteq> FromPassThrough"
  shows "answer_of (from_response W origin r) =
     Some \<lparr>an_status = int (re_status r), an_base64 = is_binary (re_body r),
           an_body = (case re_body r of EmptyBody \<Rightarrow> None | b \<Rightarrow> Some b)\<rparr>"
  using assms
  by (cases origin; cases "re_body r")
    (simp_all add: from_response_def Let_def encoded_body_def is_binary_def proxy_response_default_def v2_response_default_def
      alb_response_default_def vpc_lattice_response_default_def)

context web_crates
begin

lemma delivered_body_eq:
  "an_body a = (case b of EmptyBody \<Rightarrow> None | b \<Rightarrow> Some b) \<Longrightarrow> an_base64 a = is_binary b \<Longrightarrow> delivered_body W a = Ok b"
  using body_json_inverse [of b] by (cases b) (auto simp: delivered_body_def)

end

context web_crates
begin

lemma written_body_eq:
  assumes "written ''isBase64Encoded'' j = Some (JBool (fst (encoded_body b)))"
    and "case snd (encoded_body b) of None \<Rightarrow> written ''body'' j \<in> {None, Some JNull}
      | Some c \<Rightarrow> written ''body'' j = Some (body_json W c)"
  shows "written_body W j = Ok b"
  using assms body_json_inverse [of b]
  by (cases b) (auto simp: written_body_def encoded_body_def is_binary_def)

end

text \<open>The value a single-valued header object has for a name: the first of the map.\<close>

lemma those_map_of:
  "those (map (\<lambda>k. map_option (Pair k) (f k)) ks) = Some kvs \<Longrightarrow> k \<in> set ks \<Longrightarrow> map_of kvs k = f k"
proof (induction ks arbitrary: kvs)
  case (Cons k' ks)
  then obtain v kvs' where "f k' = Some v" "those (map (\<lambda>k. map_option (Pair k) (f k)) ks) = Some kvs'" "kvs = (k', v) # kvs'"
    by (auto split: option.splits)
  with Cons show ?case by auto
qed simp

context header_map
begin

lemma serialize_empty: "cr_hm C = H \<Longrightarrow> serialize_multi_value_headers C (hm_empty H) = Some (JObj [])"
proof -
  assume "cr_hm C = H"
  moreover have "hm_keys H (hm_empty H) = []"
    using keys_iff [of _ "hm_empty H"] by (auto simp: get_all_empty intro: equals0I [THEN set_empty [THEN iffD1]])
  ultimately show ?thesis by (simp add: serialize_multi_value_headers_def)
qed

end

lemma those_map_fst:
  "those (map (\<lambda>k. map_option (Pair k) (f k)) ks) = Some kvs \<Longrightarrow> map fst kvs = ks"
  by (induction ks arbitrary: kvs) (auto split: option.splits)

lemma serialize_headers_map_of:
  assumes "serialize_headers C h = Some j" and "k \<in> set (hm_keys (cr_hm C) h)"
  shows "\<exists>kvs v. j = JObj kvs \<and> hm_get (cr_hm C) h k = Some v \<and> map_of kvs k = Some (JStr v)"
proof -
  obtain kvs where kvs: "j = JObj kvs"
    "those (map (\<lambda>k. map_option (Pair k) (Option.bind (hm_get (cr_hm C) h k) utf8_json)) (hm_keys (cr_hm C) h)) = Some kvs"
    using assms(1) by (auto simp: serialize_headers_def)
  have eq: "map_of kvs k = Option.bind (hm_get (cr_hm C) h k) utf8_json"
    by (rule those_map_of [OF kvs(2) assms(2)])
  have "map_of kvs k \<noteq> None"
    using assms(2) those_map_fst [OF kvs(2)] by (metis map_of_eq_None_iff set_map)
  with eq kvs(1) show ?thesis
    by (auto simp: utf8_json_def bind_eq_Some_conv split: if_splits)
qed

text \<open>The values of a name in the two objects that header maps are written to.\<close>

lemma those_map_utf8: "those (map utf8_json vs) = Some js \<Longrightarrow> js = map JStr vs"
  by (induction vs arbitrary: js) (auto simp: utf8_json_def split: option.splits if_splits)

context header_map
begin

lemma written_single:
  assumes "cr_hm C = H" and "serialize_headers C h = Some hs" and "lower k = k"
  shows "strings_at k hs = take 1 (hm_get_all H h k)"
proof (cases "k \<in> set (hm_keys H h)")
  case True
  then show ?thesis
    using serialize_headers_map_of [OF assms(2), of k] assms(1)
    by (auto simp: strings_at_def jfield_def hm_get_def split: list.splits)
next
  case False
  obtain kvs where "hs = JObj kvs" "map fst kvs = hm_keys H h"
    using assms(1,2) those_map_fst by (fastforce simp: serialize_headers_def)
  then have "strings_at k hs = []"
    using False by (auto simp: strings_at_def jfield_def map_of_eq_None_iff [THEN iffD2] simp flip: set_map)
  moreover have "hm_get_all H h k = []"
    using False assms(3) by (simp add: keys_iff)
  ultimately show ?thesis by simp
qed

lemma written_multi:
  assumes "cr_hm C = H" and "serialize_multi_value_headers C h = Some hs" and "lower k = k"
  shows "strings_at k hs = hm_get_all H h k"
proof -
  let ?f = "\<lambda>k. map_option JArr (those (map utf8_json (hm_get_all H h k)))"
  obtain kvs where kvs: "hs = JObj kvs" "those (map (\<lambda>k. map_option (Pair k) (?f k)) (hm_keys H h)) = Some kvs"
    using assms(1,2) by (auto simp: serialize_multi_value_headers_def option.map_comp comp_def)
  show ?thesis
  proof (cases "k \<in> set (hm_keys H h)")
    case True
    have "map_of kvs k = ?f k"
      by (rule those_map_of [OF kvs(2) True])
    moreover have "map_of kvs k \<noteq> None"
      using True those_map_fst [OF kvs(2)] by (metis map_of_eq_None_iff set_map)
    ultimately obtain js where "those (map utf8_json (hm_get_all H h k)) = Some js" "map_of kvs k = Some (JArr js)"
      by auto
    then show ?thesis
      using kvs(1) by (auto simp: strings_at_def jfield_def dest!: those_map_utf8)
  next
    case False
    then have "k \<notin> fst ` set kvs"
      using those_map_fst [OF kvs(2)] by (metis set_map)
    then have "map_of kvs k = None"
      by (simp add: map_of_eq_None_iff)
    then show ?thesis
      using False assms(3) kvs(1) by (simp add: strings_at_def jfield_def keys_iff)
  qed
qed

lemma written_nothing:
  assumes "cr_hm C = H"
  shows "serialize_headers C (hm_empty H) = Some (JObj [])"
proof -
  have "hm_keys H (hm_empty H) = []"
    using keys_iff [of _ "hm_empty H"] by (auto simp: get_all_empty intro: equals0I [THEN set_empty [THEN iffD1]])
  then show ?thesis using assms by (simp add: serialize_headers_def)
qed

end

text \<open>The media types whose bodies are text, as a relation between type and parameters.\<close>

definition text_type :: "string \<Rightarrow> bool" where
  "text_type ct \<longleftrightarrow>
     (\<exists>p \<in> set text_encoding_prefixes. starts_with p ct) \<or>
     (\<exists>media rest. trim ct = media @ rest \<and> CHR '';'' \<notin> set media \<and> (rest = [] \<or> hd rest = CHR '';'') \<and>
        (\<exists>s \<in> set text_encoding_suffixes. ends_with s media))"

lemma hd_split_on:
  "hd (split_on c (m @ r)) = m" if "c \<notin> set m" and "r = [] \<or> hd r = c"
proof (cases r)
  case Nil
  then show ?thesis using that(1) by (simp add: split_on_no_sep)
next
  case (Cons x xs)
  then show ?thesis using that by (simp add: split_on_append_sep)
qed

lemma split_on_hd_decomp: "\<exists>r. s = hd (split_on c s) @ r \<and> (r = [] \<or> hd r = c)"
proof (induction s)
  case (Cons x xs)
  then obtain r where "xs = hd (split_on c xs) @ r" "r = [] \<or> hd r = c" by blast
  then show ?case
    by (cases "split_on c xs") (auto intro!: exI [where x = "if x = c then x # xs else r"])
qed simp

lemma suffix_rule:
  "list_ex (\<lambda>suffix. ends_with suffix (hd (split_on (CHR '';'') ct))) text_encoding_suffixes \<longleftrightarrow>
     (\<exists>media rest. ct = media @ rest \<and> CHR '';'' \<notin> set media \<and> (rest = [] \<or> hd rest = CHR '';'') \<and>
        (\<exists>s \<in> set text_encoding_suffixes. ends_with s media))"
proof
  assume l: "list_ex (\<lambda>suffix. ends_with suffix (hd (split_on (CHR '';'') ct))) text_encoding_suffixes"
  obtain r where r: "ct = hd (split_on (CHR '';'') ct) @ r" "r = [] \<or> hd r = CHR '';''"
    using split_on_hd_decomp by blast
  moreover have "CHR '';'' \<notin> set (hd (split_on (CHR '';'') ct))"
    by (rule split_on_parts [of _ _ ct]) simp
  ultimately show "\<exists>media rest. ct = media @ rest \<and> CHR '';'' \<notin> set media \<and> (rest = [] \<or> hd rest = CHR '';'') \<and>
        (\<exists>s \<in> set text_encoding_suffixes. ends_with s media)"
    using l by (metis Bex_set_list_ex)
next
  assume "\<exists>media rest. ct = media @ rest \<and> CHR '';'' \<notin> set media \<and> (rest = [] \<or> hd rest = CHR '';'') \<and>
        (\<exists>s \<in> set text_encoding_suffixes. ends_with s media)"
  then show "list_ex (\<lambda>suffix. ends_with suffix (hd (split_on (CHR '';'') ct))) text_encoding_suffixes"
    using hd_split_on by (fastforce simp: list_ex_iff)
qed

lemma convert_eq:
  "convert W headers b =
     (if hm_get (wc_hm W) headers ''content-encoding'' \<noteq> None then convert_to_binary b
      else
        (case hm_get (wc_hm W) headers ''content-type'' of
           None \<Rightarrow> convert_to_text W ''utf-8'' b
         | Some v \<Rightarrow>
             if text_type (visible_or_empty W v) \<or>
                hm_get (wc_hm W) headers ''x-lambda-http-content-encoding'' = Some ''text''
             then convert_to_text W (visible_or_empty W v) b else convert_to_binary b))"
proof -
  have "text_type ct \<longleftrightarrow> list_ex (\<lambda>prefix. starts_with prefix ct) text_encoding_prefixes \<or>
      list_ex (\<lambda>suffix. ends_with suffix (hd (split_on (CHR '';'') (trim ct)))) text_encoding_suffixes" for ct
    unfolding text_type_def suffix_rule by (simp add: list_ex_iff)
  then show ?thesis
    unfolding convert_def Let_def by (simp split: option.split)
qed

context web_crates
begin

text \<open>Text that is UTF-8, without a byte order mark, and not said to be in another encoding.\<close>

lemma utf8_text_kept:
  assumes "valid_utf8 bytes" and "\<not> starts_with utf8_bom bytes" and "wc_charset W ct \<in> {None, Some ''utf-8''}"
  shows "convert_to_text W ct (Ok bytes) = Ok (TextBody bytes)"
  using assms by (auto simp: convert_to_text_def utf8_label decode_utf8)

lemma converted_bytes:
  assumes "valid_utf8 bytes" and "\<not> starts_with utf8_bom bytes"
    and "\<forall>ct. hm_get (wc_hm W) headers ''content-type'' = Some ct \<longrightarrow>
           wc_charset W (visible_or_empty W ct) \<in> {None, Some ''utf-8''}"
    and "wc_charset W ''utf-8'' = None"
  shows "\<exists>b. convert W headers (Ok bytes) = Ok b \<and> body_bytes b = bytes"
  using assms
  by (auto simp: convert_eq utf8_text_kept convert_to_binary_def split: option.splits)

end

subsection \<open>Properties\<close>

text \<open>
  C10: the answer to a service, as it is written (which fails when a header value is not UTF-8), has
  what the handler's response has: its status; a body that decodes, by the flag written beside
  it, to the body of the response; and of its headers, in \<^verbatim>\<open>multiValueHeaders\<close> all values of every
  name for REST APIs, WebSocket APIs and load balancers, and in \<^verbatim>\<open>headers\<close> the first value of every name,
  and no other, for HTTP APIs, load balancers and VPC Lattice. For HTTP APIs
  \<^verbatim>\<open>set-cookie\<close> is in neither: its values are the list of cookies, in their order, those that
  are not visible ASCII as empty strings.
\<close>

theorem answer_carries_response:
  assumes "web_crates W" and "origin \<noteq> FromPassThrough"
    and "lambda_response_json W (from_response W origin r) = Some j"
  shows "written ''statusCode'' j = Some (JInt (int (re_status r))) \<and> written_body W j = Ok (re_body r) \<and>
     (\<forall>k. lower k = k \<longrightarrow>
        written_values ''multiValueHeaders'' j k =
          (if origin \<in> {FromApiGatewayV1, FromWebSocket, FromAlb} then hm_get_all (wc_hm W) (re_headers r) k else []) \<and>
        written_values ''headers'' j k =
          (if origin \<in> {FromApiGatewayV1, FromWebSocket} \<or> origin = FromApiGatewayV2 \<and> k = ''set-cookie'' then []
           else take 1 (hm_get_all (wc_hm W) (re_headers r) k))) \<and>
     written ''cookies'' j =
       (if origin = FromApiGatewayV2
        then Some (JArr (map (\<lambda>v. JStr (visible_or_empty W v)) (hm_get_all (wc_hm W) (re_headers r) ''set-cookie'')))
        else None)"
proof -
  have H: "header_map (wc_hm W)"
    using assms(1) by (simp add: web_crates_def)
  note single = header_map.written_single [OF H refl] and multi = header_map.written_multi [OF H refl]
    and none = header_map.written_nothing [OF H refl] header_map.serialize_empty [OF H refl]
  have no_set_cookie: "hm_get_all (wc_hm W) (hm_remove (wc_hm W) h ''set-cookie'') k =
      (if k = ''set-cookie'' then [] else hm_get_all (wc_hm W) h k)" if "lower k = k" for h k
    using that by (simp add: header_map.get_all_remove [OF H] lower_eval)
  note body = web_crates.written_body_eq [OF assms(1), where b = "re_body r"]
  have no_lattice_headers: "hm_get_all (wc_hm W) (re_headers r) k = []"
    if "hm_keys (wc_hm W) (re_headers r) = []" "lower k = k" for k
    using header_map.keys_iff [OF H, of k "re_headers r"] that by simp
  obtain a b where ab: "encoded_body (re_body r) = (a, b)" by fastforce
  note defs = from_response_def proxy_response_json_def v2_response_json_def alb_response_json_def
    proxy_response_default_def v2_response_default_def alb_response_default_def vpc_lattice_response_json_def
    vpc_lattice_response_default_def ab written_values_def bind_eq_Some_conv jfield_opt Let_def
  show ?thesis
  proof (cases origin)
    case FromVpcLatticeV2
    with assms(3) have "written_body W j = Ok (re_body r)"
      by (intro body) (auto simp: defs split: if_splits option.splits)
    moreover have "written_values ''headers'' j k = take 1 (hm_get_all (wc_hm W) (re_headers r) k)" if "lower k = k" for k
      using assms(3) FromVpcLatticeV2 no_lattice_headers [OF _ that] single [OF _ that] by (auto simp: defs split: if_splits)
    ultimately show ?thesis
      using assms(3) FromVpcLatticeV2 by (auto simp: defs split: if_splits)
  next
    case FromApiGatewayV1
    with assms(3) have "written_body W j = Ok (re_body r)"
      by (intro body) (auto simp: defs none split: if_splits option.splits)
    then show ?thesis
      using assms(3) FromApiGatewayV1 multi
      by (auto simp: defs none strings_at_def [of _ "JObj []"] split: option.splits)
  next
    case FromWebSocket
    with assms(3) have "written_body W j = Ok (re_body r)"
      by (intro body) (auto simp: defs none split: if_splits option.splits)
    then show ?thesis
      using assms(3) FromWebSocket multi
      by (auto simp: defs none strings_at_def [of _ "JObj []"] split: option.splits)
  next
    case FromAlb
    with assms(3) have "written_body W j = Ok (re_body r)"
      by (intro body) (auto simp: defs none split: if_splits option.splits)
    then show ?thesis
      using assms(3) FromAlb multi single by (auto simp: defs split: option.splits)
  next
    case FromApiGatewayV2
    with assms(3) have "written_body W j = Ok (re_body r)"
      by (intro body) (auto simp: defs none split: if_splits option.splits)
    then show ?thesis
      using assms(3) FromApiGatewayV2 single no_set_cookie 
      by (auto simp: defs none strings_at_def [of _ "JObj []"] comp_def split: option.splits)
  qed (use assms(2) in simp)
qed

lemma answer_carries_response_witness:
  "\<exists>j. lambda_response_json (ref_web ref_crates) (from_response (ref_web ref_crates) FromApiGatewayV2
            \<lparr>re_status = 200, re_headers = [(''set-cookie'', ''a=1''), (''set-cookie'', ''b=2''), (''vary'', ''a''), (''vary'', ''b'')],
             re_body = BinaryBody ''x''\<rparr>) = Some j \<and>
     written ''cookies'' j = Some (JArr [JStr ''a=1'', JStr ''b=2'']) \<and> written_values ''headers'' j ''vary'' = [''a''] \<and>
     written_body (ref_web ref_crates) j = Ok (BinaryBody ''x'')"
proof -
  let ?r = "\<lparr>re_status = 200, re_headers = [(''set-cookie'', ''a=1''), (''set-cookie'', ''b=2''), (''vary'', ''a''), (''vary'', ''b'')],
      re_body = BinaryBody ''x''\<rparr>"
  have low: "lower ''vary'' = ''vary''" "lower ''set-cookie'' = ''set-cookie''"
    by (simp_all add: lower_eval)
  have "valid_utf8 ''a''"
    by (rule valid_utf8_ascii) simp
  then obtain j where j: "lambda_response_json (ref_web ref_crates) (from_response (ref_web ref_crates) FromApiGatewayV2 ?r) = Some j"
    by (simp add: from_response_def Let_def encoded_body_def v2_response_json_def v2_response_default_def serialize_headers_def
        header_map.serialize_empty [OF al_header_map] utf8_json_def hm_get_def)
      (simp add: al_hmap_def al_remove_def al_keys_def al_get_all_def low utf8_json_def)
  from answer_carries_response [OF ref_web_laws _ j] show ?thesis
    using j low by (simp add: visible_or_empty_def al_hmap_def al_get_all_def visible_ascii_def)
qed

text \<open>
  In the answer to an HTTP API event as it is serialised, a header with several values has
  only the first of them: the single-valued object of the headers holds it, and the multi-valued
  one is empty.
\<close>

lemma http_api_answer_drops_repeated_headers:
  assumes "header_map (wc_hm W)"
    and "lambda_response_json W (from_response W FromApiGatewayV2 r) = Some j"
    and "hm_get_all (wc_hm W) (re_headers r) k = v # vs" and "lower k = k" and "k \<noteq> ''set-cookie''"
  shows "\<exists>fields headers. j = JObj fields \<and> jfield ''headers'' fields = Some (JObj headers) \<and>
     map_of headers k = Some (JStr v) \<and> jfield ''multiValueHeaders'' fields = Some (JObj [])"
proof -
  let ?h = "hm_remove (wc_hm W) (re_headers r) ''set-cookie''"
  obtain x where x: "from_response W FromApiGatewayV2 r = RespApiGatewayV2 x" "vs_headers x = ?h"
      "vs_multi_value_headers x = hm_empty (wc_hm W)"
    by (cases "encoded_body (re_body r)") (simp add: from_response_def Let_def)
  obtain hs where hs: "serialize_headers (wc_crates W) ?h = Some hs"
      "serialize_multi_value_headers (wc_crates W) (hm_empty (wc_hm W)) = Some (JObj [])"
    using assms(2) header_map.serialize_empty [OF assms(1) refl] unfolding x(1) lambda_response_json.simps v2_response_json_def x(2,3)
    by (auto simp: bind_eq_Some_conv)
  have "lower ''set-cookie'' = ''set-cookie''"
    by (simp add: lower_eval)
  then have get: "hm_get_all (wc_hm W) ?h k = v # vs"
    using assms(3-5) by (simp add: header_map.get_all_remove [OF assms(1)])
  then have "k \<in> set (hm_keys (wc_hm W) ?h)"
    using assms(4) by (simp add: header_map.keys_iff [OF assms(1)])
  then obtain headers where headers: "hs = JObj headers" "map_of headers k = Some (JStr v)"
    using serialize_headers_map_of [OF hs(1), of k] get by (auto simp: hm_get_def)
  have "\<exists>rest. j = JObj ([(''statusCode'', JInt (vs_status_code x)), (''headers'', hs), (''multiValueHeaders'', JObj [])] @ rest)"
    using assms(2) hs unfolding x(1) lambda_response_json.simps v2_response_json_def x(2,3) by auto
  then show ?thesis
    using headers by auto
qed

lemma http_api_answer_drops_repeated_headers_witness:
  "\<exists>j fields headers. lambda_response_json (ref_web ref_crates) (from_response (ref_web ref_crates) FromApiGatewayV2
        \<lparr>re_status = 200, re_headers = [(''vary'', ''origin''), (''vary'', ''accept'')], re_body = EmptyBody\<rparr>) = Some j \<and>
     j = JObj fields \<and> jfield ''headers'' fields = Some (JObj headers) \<and> map_of headers ''vary'' = Some (JStr ''origin'') \<and>
     jfield ''multiValueHeaders'' fields = Some (JObj [])"
proof -
  let ?r = "\<lparr>re_status = 200, re_headers = [(''vary'', ''origin''), (''vary'', ''accept'')], re_body = EmptyBody\<rparr>"
  have get: "hm_get_all al_hmap (re_headers ?r) ''vary'' = ''origin'' # [''accept'']" and low: "lower ''vary'' = ''vary''"
    by (simp_all add: al_hmap_def al_get_all_def lower_eval)
  have "valid_utf8 ''origin''"
    by (rule valid_utf8_ascii) simp
  then obtain j where "lambda_response_json (ref_web ref_crates) (from_response (ref_web ref_crates) FromApiGatewayV2 ?r) = Some j"
    by (simp add: from_response_def Let_def encoded_body_def v2_response_json_def v2_response_default_def serialize_headers_def
        header_map.serialize_empty [OF al_header_map] utf8_json_def hm_get_def)
      (simp add: al_hmap_def al_remove_def al_keys_def al_get_all_def lower_eval utf8_json_def)
  then show ?thesis
    using http_api_answer_drops_repeated_headers [of "ref_web ref_crates" ?r j "''vary''" "''origin''" "[''accept'']"] get low
    by (simp add: al_header_map)
qed

text \<open>
  C12: the bytes of the body a handler returns reach the client unchanged, whatever content type
  the response has, if they are content-encoded, or if they are UTF-8 without a byte order mark
  and no other charset is declared: the choice between text and base64 is not visible to the
  client.
\<close>

theorem handler_bytes_delivered:
  assumes "web_crates W" and "origin \<noteq> FromPassThrough"
    and "hm_get (wc_hm W) headers ''content-encoding'' \<noteq> None \<or>
         valid_utf8 bytes \<and> \<not> starts_with utf8_bom bytes \<and> wc_charset W ''utf-8'' = None \<and>
         (\<forall>ct. hm_get (wc_hm W) headers ''content-type'' = Some ct \<longrightarrow>
            wc_charset W (visible_or_empty W ct) \<in> {None, Some ''utf-8''})"
  shows "\<exists>resp a b. response_into_response W status headers (Ok bytes) = Ok resp \<and>
     answer_of (from_response W origin resp) = Some a \<and> delivered_body W a = Ok b \<and> body_bytes b = bytes"
proof -
  have "\<exists>b. convert W headers (Ok bytes) = Ok b \<and> body_bytes b = bytes"
  proof (cases "hm_get (wc_hm W) headers ''content-encoding''")
    case None
    then show ?thesis using assms(3) web_crates.converted_bytes [OF assms(1)] by simp
  next
    case (Some v)
    then show ?thesis by (simp add: convert_def convert_to_binary_def)
  qed
  then show ?thesis
    using web_crates.delivered_body_eq [OF assms(1)]
    by (auto simp: response_into_response_def answer_of_response [OF assms(2)])
qed

lemma handler_bytes_delivered_witness:
  "\<exists>resp a b. response_into_response (ref_web ref_crates) 200 [(''content-type'', ''application/problem+json; v=1'')] (Ok ''{}'') = Ok resp \<and>
     answer_of (from_response (ref_web ref_crates) FromAlb resp) = Some a \<and>
     delivered_body (ref_web ref_crates) a = Ok b \<and> body_bytes b = ''{}''"
proof -
  have "valid_utf8 ''{}''"
    by (rule valid_utf8_ascii) simp
  then show ?thesis
    by (intro handler_bytes_delivered [OF ref_web_laws]) (simp_all add: ref_web_def starts_with_def utf8_bom_def)
qed

end
