(* ===== verification/HttpAdapter.thy ===== *)
theory HttpAdapter
  imports HttpResponses Layers
begin

text \<open>
  The services that make a handler of HTTP requests one of events
  (\<^verbatim>\<open>lambda-http/src/lib.rs\<close> and \<^verbatim>\<open>streaming.rs\<close>), the future that turns
  the handler's response into the answer, and the payload accessors of
  \<^verbatim>\<open>ext/request.rs\<close>.
\<close>

subsection \<open>Requests\<close>

definition update_xray_trace_id_header :: "('h, 'q) web \<Rightarrow> rt_context \<Rightarrow> 'h \<Rightarrow> 'h" where
  "update_xray_trace_id_header W cx headers =
     (case cx_xray_trace_id cx of
        Some trace_id \<Rightarrow>
          if hv_valid (wc_hm W) trace_id then hm_insert (wc_hm W) headers ''x-amzn-trace-id'' trace_id else headers
      | None \<Rightarrow> headers)"

definition event_to_request ::
  "('h, 'q) web \<Rightarrow> env \<Rightarrow> ('h, 'q) lambda_request lambda_event \<Rightarrow> (box_error, ('h, 'q) request) result" where
  "event_to_request W e ev =
     (let (payload, cx) = lambda_event_into_parts ev
      in map_ok (\<lambda>event. map_req_ext (with_lambda_context cx)
                  (event\<lparr>hr_headers := update_xray_trace_id_header W cx (hr_headers event)\<rparr>))
           (into_request W e payload))"

subsection \<open>The future of an answer\<close>

text \<open>
  \<^verbatim>\<open>TransformResponse\<close>: first the handler's future, then the one of its response's
  body. A poll returns what is ready (\<open>None\<close>: pending), the future afterwards and the state.
\<close>

type_synonym ('f, 'w, 'a) polling = "'f \<Rightarrow> 'w \<Rightarrow> 'a option \<times> 'f \<times> 'w"

datatype ('f, 'g) transform_response = TransformRequest origin 'f | TransformResponse origin 'g

definition poll_response ::
  "('h, 'q) web \<Rightarrow> ('g, 'w, ('e, 'h response) result) polling \<Rightarrow> origin
   \<Rightarrow> 'g \<Rightarrow> 'w \<Rightarrow> ('e, 'h lambda_response) result option \<times> ('f, 'g) transform_response \<times> 'w" where
  "poll_response W response origin g w =
     (case response g w of
        (None, g1, w1) \<Rightarrow> (None, TransformResponse origin g1, w1)
      | (Some r, g1, w1) \<Rightarrow> (Some (map_ok (from_response W origin) r), TransformResponse origin g1, w1))"

definition transform_poll ::
  "('h, 'q) web \<Rightarrow> ('f, 'w, ('e, 'r) result) polling \<Rightarrow> ('g, 'w, ('e, 'h response) result) polling \<Rightarrow> ('r \<Rightarrow> 'g)
   \<Rightarrow> (('f, 'g) transform_response, 'w, ('e, 'h lambda_response) result) polling" where
  "transform_poll W request response into_response fut w =
     (case fut of
        TransformResponse origin g \<Rightarrow> poll_response W response origin g w
      | TransformRequest origin f \<Rightarrow>
          (case request f w of
             (None, f1, w1) \<Rightarrow> (None, TransformRequest origin f1, w1)
           | (Some (Ok resp), f1, w1) \<Rightarrow> poll_response W response origin (into_response resp) w1
           | (Some (Err err), f1, w1) \<Rightarrow> (Some (Err err), TransformRequest origin f1, w1)
           | (Some (Panic p), f1, w1) \<Rightarrow> (Some (Panic p), TransformRequest origin f1, w1)))"

text \<open>Polling a future until it is ready, at most \<open>n\<close> times.\<close>

fun drive :: "nat \<Rightarrow> ('f, 'w, 'a) polling \<Rightarrow> 'f \<Rightarrow> 'w \<Rightarrow> ('a \<times> 'w) option" where
  "drive 0 P f w = None"
| "drive (Suc n) P f w =
     (case P f w of (Some a, f1, w1) \<Rightarrow> Some (a, w1) | (None, f1, w1) \<Rightarrow> drive n P f1 w1)"

subsection \<open>Adapters\<close>

text \<open>
  \<open>into_response\<close> is what the response's \<^verbatim>\<open>IntoResponse\<close> future returns. Of the
  handler's futures only their outcome matters here.
\<close>

definition adapter ::
  "('h, 'q) web \<Rightarrow> env \<Rightarrow> ('r \<Rightarrow> ('e, 'h response) result) \<Rightarrow> ('w, 'f, ('h, 'q) request, 'e, 'r) service
   \<Rightarrow> ('w, origin \<times> 'f, ('h, 'q) lambda_request lambda_event, 'e, 'h lambda_response) service" where
  "adapter W e into_response S =
     \<lparr>sv_ready = sv_ready S,
      sv_call = (\<lambda>req w.
        let origin = request_origin (le_payload req)
        in case event_to_request W e req of
             Ok event \<Rightarrow>
               (case sv_call S event w of
                  (Inl p, w1) \<Rightarrow> (Inl p, w1)
                | (Inr fut, w1) \<Rightarrow> (Inr (origin, fut), w1))
           | Err err \<Rightarrow> (Inl POther, w)
           | Panic p \<Rightarrow> (Inl p, w)),
      sv_await = (\<lambda>(origin, fut) w.
        case sv_await S fut w of
          (Ok resp, w1) \<Rightarrow> (map_ok (from_response W origin) (into_response resp), w1)
        | (Err err, w1) \<Rightarrow> (Err err, w1)
        | (Panic p, w1) \<Rightarrow> (Panic p, w1))\<rparr>"

text \<open>The answer as a response of the runtime: its serialised form.\<close>

definition lambda_response_into :: "('h, 'q) web \<Rightarrow> 'h lambda_response \<Rightarrow> 'h function_response" where
  "lambda_response_into W r = BufferedResponse (ok_or (BoxError ''invalid utf-8 sequence'') (lambda_response_json W r))"

subsection \<open>Streaming\<close>

datatype frame = DataFrame string | TrailersFrame

text \<open>\<^verbatim>\<open>BodyStream\<close>: the data of the frames, up to the trailers.\<close>

fun body_stream :: "(box_error + frame) list \<Rightarrow> (box_error + string) list" where
  "body_stream [] = []"
| "body_stream (Inl e # fs) = Inl e # body_stream fs"
| "body_stream (Inr (DataFrame d) # fs) = Inr d # body_stream fs"
| "body_stream (Inr TrailersFrame # fs) = []"

definition into_stream_response ::
  "('h, 'q) web \<Rightarrow> nat \<Rightarrow> 'h \<Rightarrow> (box_error + frame) list \<Rightarrow> 'h function_response" where
  "into_stream_response W status headers b =
     StreamingResponse
       \<lparr>mp_status_code = status, mp_headers = hm_remove (wc_hm W) headers ''set-cookie'',
        mp_cookies = map utf8_lossy (hm_get_all (wc_hm W) headers ''set-cookie'')\<rparr>
       (body_stream b)"

definition stream_adapter ::
  "('h, 'q) web \<Rightarrow> env \<Rightarrow> ('w, 'f, ('h, 'q) request, 'e, nat \<times> 'h \<times> (box_error + frame) list) service
   \<Rightarrow> ('w, 'f, ('h, 'q) lambda_request lambda_event, 'e, 'h function_response) service" where
  "stream_adapter W e S =
     \<lparr>sv_ready = sv_ready S,
      sv_call = (\<lambda>req w.
        case event_to_request W e req of
          Ok event \<Rightarrow> sv_call S event w
        | Err err \<Rightarrow> (Inl POther, w)
        | Panic p \<Rightarrow> (Inl p, w)),
      sv_await = (\<lambda>fut w.
        case sv_await S fut w of
          (r, w1) \<Rightarrow> (map_ok (\<lambda>(status, headers, b). into_stream_response W status headers b) r, w1))\<rparr>"

subsection \<open>Payloads\<close>

datatype payload_error = PayloadJson box_error | PayloadWwwFormUrlEncoded box_error

text \<open>\<open>form\<close> is \<^verbatim>\<open>serde_urlencoded::from_bytes\<close> for the wanted type.\<close>

definition request_json :: "('h, 'q) web \<Rightarrow> (json \<Rightarrow> 'a option) \<Rightarrow> ('h, 'q) request \<Rightarrow> (box_error, 'a option) result" where
  "request_json W of_json r =
     (if body_bytes (hr_body r) = [] then Ok None
      else map_ok Some (and_then (cr_json_parse (wc_crates W) (body_bytes (hr_body r)))
             (\<lambda>j. ok_or (cr_bad_json (wc_crates W) j) (of_json j))))"

definition form_url_encoded :: "(string \<Rightarrow> (box_error, 'a) result) \<Rightarrow> ('h, 'q) request \<Rightarrow> (box_error, 'a option) result" where
  "form_url_encoded form r =
     (if body_bytes (hr_body r) = [] then Ok None else map_ok Some (form (body_bytes (hr_body r))))"

definition request_payload ::
  "('h, 'q) web \<Rightarrow> (json \<Rightarrow> 'a option) \<Rightarrow> (string \<Rightarrow> (box_error, 'a) result) \<Rightarrow> ('h, 'q) request
   \<Rightarrow> (payload_error, 'a option) result" where
  "request_payload W of_json form r =
     (case hm_get (wc_hm W) (hr_headers r) ''content-type'' of
        None \<Rightarrow> Ok None
      | Some ct \<Rightarrow>
          if \<not> hv_visible (wc_hm W) ct then Ok None
          else if starts_with ''application/x-www-form-urlencoded'' ct
          then map_err PayloadWwwFormUrlEncoded (form_url_encoded form r)
          else if starts_with ''application/json'' ct then map_err PayloadJson (request_json W of_json r)
          else Ok None)"

definition payload_error_display :: "payload_error \<Rightarrow> string" where
  "payload_error_display err =
     (case err of
        PayloadJson e \<Rightarrow> ''failed to parse payload from application/json '' @ err_to_string e @ [CHR 0x0A]
      | PayloadWwwFormUrlEncoded e \<Rightarrow>
          ''failed to parse payload from application/x-www-form-urlencoded '' @ err_to_string e @ [CHR 0x0A])"

subsection \<open>Lemmas\<close>

declare map_ok_eq_Err [simp]

lemma build_request_uri_not_Err [simp]: "build_request_uri W path h host q \<noteq> Err x"
  by (simp add: build_request_uri_def split: option.splits)

lemma and_then_not_Err: "r \<noteq> Err x \<Longrightarrow> (\<And>y. f y \<noteq> Err x) \<Longrightarrow> and_then r f \<noteq> Err x"
  by (cases r) simp_all

lemma finish_request_not_Err:
  assumes "uri \<noteq> Err x" and "b \<noteq> Err x"
  shows "finish_request W m uri h b y \<noteq> Err x"
  unfolding finish_request_def using assms by (intro and_then_not_Err) simp_all

lemma into_request_not_Err: "into_request W e r \<noteq> Err x"
proof (cases r)
  case (PassThrough data)
  show ?thesis
    unfolding PassThrough into_request_def lambda_request.case into_pass_through_request_def
    by (intro and_then_not_Err finish_request_not_Err) simp_all
qed (simp_all add: into_request_def into_proxy_request_def into_api_gateway_v2_request_def into_alb_request_def
      into_websocket_request_def into_vpc_lattice_request_def Let_def finish_request_not_Err)

lemma event_to_request_not_Err: "event_to_request W e ev \<noteq> Err x"
  by (simp add: event_to_request_def lambda_event_into_parts_def into_request_not_Err)

lemma transform_poll_simps:
  "transform_poll W request response into_response (TransformResponse origin g) w = poll_response W response origin g w"
  "request f w = (None, f1, w1) \<Longrightarrow>
     transform_poll W request response into_response (TransformRequest origin f) w = (None, TransformRequest origin f1, w1)"
  "request f w = (Some (Ok resp), f1, w1) \<Longrightarrow>
     transform_poll W request response into_response (TransformRequest origin f) w =
       poll_response W response origin (into_response resp) w1"
  "request f w = (Some (Err err), f1, w1) \<Longrightarrow>
     transform_poll W request response into_response (TransformRequest origin f) w =
       (Some (Err err), TransformRequest origin f1, w1)"
  "request f w = (Some (Panic p), f1, w1) \<Longrightarrow>
     transform_poll W request response into_response (TransformRequest origin f) w =
       (Some (Panic p), TransformRequest origin f1, w1)"
  by (simp_all add: transform_poll_def)

lemma drive_step:
  "P f w = (None, f1, w1) \<Longrightarrow> drive (Suc n) P f w = drive n P f1 w1"
  "P f w = (Some a, f1, w1) \<Longrightarrow> drive (Suc n) P f w = Some (a, w1)"
  by simp_all

lemma drive_mono: "drive n P f w = Some r \<Longrightarrow> drive (n + m) P f w = Some r"
proof (induction n arbitrary: f w)
  case (Suc n)
  show ?case
  proof (cases "P f w")
    case (fields a f1 w1)
    then show ?thesis using Suc by (cases a) simp_all
  qed
qed simp

lemma drive_response:
  "drive n response g w = Some (r, w') \<Longrightarrow>
     drive n (transform_poll W request response into_response) (TransformResponse origin g) w =
       Some (map_ok (from_response W origin) r, w')"
proof (induction n arbitrary: g w)
  case (Suc n)
  show ?case
  proof (cases "response g w")
    case (fields a g1 w1)
    then show ?thesis using Suc by (cases a) (simp_all add: transform_poll_simps poll_response_def)
  qed
qed simp

text \<open>A future whose poll is the poll of another one, ready or not, is driven as that one.\<close>

lemma drive_same_poll: "P f w = P g v \<Longrightarrow> drive (Suc n) P f w = drive (Suc n) P g v"
  by simp

lemma drive_request_Ok:
  "drive n request f w = Some (Ok resp, w1) \<Longrightarrow> drive (Suc m) response (into_response resp) w1 = Some (r, w2) \<Longrightarrow>
     drive (n + m) (transform_poll W request response into_response) (TransformRequest origin f) w =
       Some (map_ok (from_response W origin) r, w2)"
proof (induction n arbitrary: f w)
  case (Suc n)
  let ?T = "transform_poll W request response into_response"
  show ?case
  proof (cases "request f w")
    case (fields a f1 w')
    show ?thesis
    proof (cases a)
      case None
      have "drive (n + m) ?T (TransformRequest origin f1) w' = Some (map_ok (from_response W origin) r, w2)"
        using Suc.prems fields None by (intro Suc.IH) (simp_all add: drive_step)
      moreover have "?T (TransformRequest origin f) w = (None, TransformRequest origin f1, w')"
        using fields None by (simp add: transform_poll_simps)
      ultimately show ?thesis by (simp add: drive_step(1))
    next
      case (Some q)
      then have q: "q = Ok resp" "w' = w1" using Suc.prems(1) fields by simp_all
      have "drive (Suc m) ?T (TransformResponse origin (into_response resp)) w1 = Some (map_ok (from_response W origin) r, w2)"
        by (rule drive_response [OF Suc.prems(2)])
      moreover have "?T (TransformRequest origin f) w = ?T (TransformResponse origin (into_response resp)) w1"
        using fields Some q by (simp add: transform_poll_simps)
      ultimately have "drive (Suc m) ?T (TransformRequest origin f) w = Some (map_ok (from_response W origin) r, w2)"
        by (metis drive_same_poll)
      from drive_mono [OF this, of n] show ?thesis by (simp only: add_Suc add_Suc_right add.commute)
    qed
  qed
qed simp

lemma drive_request_error:
  "drive n request f w = Some (r, w1) \<Longrightarrow> r = Err err \<and> q = Err err \<or> r = Panic p \<and> q = Panic p \<Longrightarrow>
     drive n (transform_poll W request response into_response) (TransformRequest origin f) w = Some (q, w1)"
proof (induction n arbitrary: f w)
  case (Suc n)
  show ?case
  proof (cases "request f w")
    case (fields a f1 w')
    then show ?thesis using Suc by (cases a) (auto simp: transform_poll_simps)
  qed
qed simp

lemma event_to_request_eq:
  "into_request W e (le_payload ev) = Ok req0 \<Longrightarrow>
     event_to_request W e ev =
       Ok (req0\<lparr>hr_headers := update_xray_trace_id_header W (le_context ev) (hr_headers req0),
                hr_extensions := with_lambda_context (le_context ev) (hr_extensions req0)\<rparr>)"
  by (simp add: event_to_request_def lambda_event_into_parts_def map_req_ext_def)

lemma oneshot_adapter:
  "event_to_request W e ev = Ok req \<Longrightarrow>
     sv_oneshot (adapter W e into S) ev w =
       (case sv_oneshot S req w of
          (r, w1) \<Rightarrow> (and_then r (\<lambda>resp. map_ok (from_response W (request_origin (le_payload ev))) (into resp)), w1))"
  by (auto simp: sv_oneshot_def adapter_def Let_def split: prod.splits sum.splits result.splits)

text \<open>The handler as the runtime runs it: its answers as responses of the runtime.\<close>

definition http_service ::
  "('h, 'q) web \<Rightarrow> env \<Rightarrow> ('r \<Rightarrow> ('e, 'h response) result) \<Rightarrow> ('w, 'f, ('h, 'q) request, 'e, 'r) service
   \<Rightarrow> ('w, origin \<times> 'f, ('h, 'q) lambda_request lambda_event, 'e, 'h function_response) service" where
  "http_service W e into S =
     (let A = adapter W e into S
      in \<lparr>sv_ready = sv_ready A, sv_call = sv_call A,
          sv_await = (\<lambda>fut w. case sv_await A fut w of (r, w1) \<Rightarrow> (map_ok (lambda_response_into W) r, w1))\<rparr>)"

lemma oneshot_http_service:
  "sv_oneshot (http_service W e into S) ev w =
     (case sv_oneshot (adapter W e into S) ev w of (r, w1) \<Rightarrow> (map_ok (lambda_response_into W) r, w1))"
  by (auto simp: sv_oneshot_def http_service_def Let_def split: prod.splits sum.splits)

lemma buffered_frames:
  "completion_req C ua room rid iid (BufferedResponse (Ok j)) = Ok req \<Longrightarrow> rq_frames req = [cr_json_text C j]"
  by (auto simp: completion_req_def result_simps dest!: insert_header_Ok_frame)

lemma buffered_answer_frames:
  "completion_req C ua room rid iid (lambda_response_into W a) = Ok req \<Longrightarrow>
     \<exists>j. lambda_response_json W a = Some j \<and> rq_frames req = [cr_json_text C j]"
proof (cases "lambda_response_json W a")
  case None
  then show "completion_req C ua room rid iid (lambda_response_into W a) = Ok req \<Longrightarrow> ?thesis"
    by (auto simp: lambda_response_into_def completion_req_def result_simps)
next
  case (Some j)
  then show "completion_req C ua room rid iid (lambda_response_into W a) = Ok req \<Longrightarrow> ?thesis"
    by (auto simp: lambda_response_into_def dest: buffered_frames)
qed

text \<open>What the layers of the runtime are to send for an HTTP event whose handler returns a response.\<close>

lemma answer_request_http:
  assumes "re_deserialize E (li_body ivc) = Ok payload" and "into_request W e payload = Ok req0"
    and "sv_oneshot S (req0\<lparr>hr_headers := update_xray_trace_id_header W (li_context ivc) (hr_headers req0),
            hr_extensions := with_lambda_context (li_context ivc) (hr_extensions req0)\<rparr>) v0 = (Ok resp, v)"
    and "into resp = Ok r"
  shows "answer_request C E diag (http_service W e into S) ivc v0 =
    (completion_req C (re_user_agent E) (re_room E) (cx_request_id (li_context ivc)) (readable_invocation_id C (li_headers ivc))
       (lambda_response_into W (from_response W (request_origin payload) r)), v)"
proof -
  let ?ev = "lambda_event_new payload (li_context ivc)"
  have "event_to_request W e ?ev = Ok (req0\<lparr>hr_headers := update_xray_trace_id_header W (li_context ivc) (hr_headers req0),
            hr_extensions := with_lambda_context (li_context ivc) (hr_extensions req0)\<rparr>)"
    using event_to_request_eq [of W e ?ev req0] assms(2) by (simp add: lambda_event_new_def)
  then have "sv_oneshot (http_service W e into S) ?ev v0 =
      (Ok (lambda_response_into W (from_response W (request_origin payload) r)), v)"
    using assms(3,4) by (simp add: oneshot_http_service oneshot_adapter) (simp add: lambda_event_new_def)
  then show ?thesis
    using assms(1) by (simp add: answer_request_def Let_def)
qed

subsection \<open>Properties\<close>

text \<open>
  C8: what becomes of an invocation that the layers accept, whose payload is an HTTP event that a request
  can be made from, and whose handler, called once with that request, returns a response. If the answer
  in the format of the event's service serialises (no header value of it is not UTF-8) and the completion
  request can be built, that request is sent with the text of the answer as its body, and the service
  succeeds exactly when the client returned a response; otherwise the service fails and the client
  is not asked. Only the handler's state, the invocation's bookkeeping and the client change.
\<close>

theorem http_event_answered:
  assumes "accepted C E ivc" and "re_deserialize E (li_body ivc) = Ok payload" and "into_request W e payload = Ok req0"
    and "sv_oneshot S (req0\<lparr>hr_headers := update_xray_trace_id_header W (li_context ivc) (hr_headers req0),
            hr_extensions := with_lambda_context (li_context ivc) (hr_extensions req0)\<rparr>) (rw_inner w) = (Ok resp, v)"
    and "into resp = Ok r"
  shows "\<exists>w'. rw_inner w' = v \<and>
     (case completion_req C (re_user_agent E) (re_room E) (cx_request_id (li_context ivc))
             (readable_invocation_id C (li_headers ivc))
             (lambda_response_into W (from_response W (request_origin payload) r)) of
        Ok req \<Rightarrow>
          (\<exists>j. lambda_response_json W (from_response W (request_origin payload) r) = Some j \<and>
             rq_frames req = [cr_json_text C j]) \<and>
          sv_oneshot (wrap_handler C E api diag (http_service W e into S)) ivc (w, c) =
            (map_ok (\<lambda>_. ()) (fst (api req c)), (w', snd (api req c)))
      | Err err \<Rightarrow> sv_oneshot (wrap_handler C E api diag (http_service W e into S)) ivc (w, c) = (Err err, (w', c))
      | Panic p \<Rightarrow> sv_oneshot (wrap_handler C E api diag (http_service W e into S)) ivc (w, c) = (Panic p, (w', c)))"
proof -
  note answer = answer_request_http [where into = into and C = C and diag = diag, OF assms(2-5)]
  let ?q = "completion_req C (re_user_agent E) (re_room E) (cx_request_id (li_context ivc))
      (readable_invocation_id C (li_headers ivc)) (lambda_response_into W (from_response W (request_origin payload) r))"
  obtain w' where "rw_inner w' = v" and
    "sv_oneshot (wrap_handler C E api diag (http_service W e into S)) ivc (w, c) =
      (case ?q of
         Ok req \<Rightarrow> (map_ok (\<lambda>_. ()) (fst (api req c)), (w', snd (api req c)))
       | Err err \<Rightarrow> (Err err, (w', c))
       | Panic p \<Rightarrow> (Panic p, (w', c)))"
    using oneshot_wrap_handler [OF assms(1), of diag "http_service W e into S" w api c] unfolding answer by auto
  then show ?thesis
    using buffered_answer_frames by (intro exI [of _ w']) (cases ?q; simp)
qed

text \<open>
  C14: the request a handler gets carries the context of its invocation, and in the header
  \<^verbatim>\<open>x-amzn-trace-id\<close> the trace id of that context if it can be a header value,
  whatever the event had there; method, URI, body and the other headers are those of the event.
\<close>

theorem handler_request_has_context:
  assumes "header_map (wc_hm W)" and "into_request W e (le_payload ev) = Ok req0"
  shows "\<exists>req. event_to_request W e ev = Ok req \<and>
     hr_method req = hr_method req0 \<and> hr_uri req = hr_uri req0 \<and> hr_body req = hr_body req0 \<and>
     lambda_context (hr_extensions req) = (Ok (le_context ev) :: (box_error, rt_context) result) \<and>
     request_context (hr_extensions req) = (request_context (hr_extensions req0) :: (box_error, http_context) result) \<and>
     (\<forall>k. hm_get_all (wc_hm W) (hr_headers req) k =
        (case cx_xray_trace_id (le_context ev) of
           Some t \<Rightarrow> if hv_valid (wc_hm W) t \<and> lower k = ''x-amzn-trace-id'' then [t]
                     else hm_get_all (wc_hm W) (hr_headers req0) k
         | None \<Rightarrow> hm_get_all (wc_hm W) (hr_headers req0) k))"
proof -
  have "lower ''x-amzn-trace-id'' = ''x-amzn-trace-id''"
    by (simp add: lower_eval)
  then show ?thesis
    using event_to_request_eq [OF assms(2)]
    by (auto simp: lambda_context_def request_context_def with_lambda_context_def update_xray_trace_id_header_def
        header_map.get_all_insert [OF assms(1)] split: option.splits)
qed

text \<open>
  C11: the future of an answer, polled until it is ready, first runs the handler's future and then
  the one of its response to their ends, however often either is pending, and returns the answer made
  from the response, or, without touching the second, the handler's error or panic. It needs no more
  polls than these futures together less one, since the poll that finds the handler's future ready polls
  the response at once: a poll is pending only when the future it polled last was pending, and so has been
  given the task to wake.
\<close>

theorem answer_future_completes:
  assumes "drive n request f w = Some (r, w1)"
    and "\<And>resp. r = Ok resp \<Longrightarrow> drive (Suc m) response (into_response resp) w1 = Some (Ok (resp' resp), w2 resp)"
  shows "drive (n + m) (transform_poll W request response into_response) (TransformRequest origin f) w =
     Some (case r of
             Ok resp \<Rightarrow> (Ok (from_response W origin (resp' resp)), w2 resp)
           | Err err \<Rightarrow> (Err err, w1)
           | Panic p \<Rightarrow> (Panic p, w1)) \<and>
    (\<forall>fut v. fst (transform_poll W request response into_response fut v) = None \<longrightarrow>
       (case fut of
          TransformResponse origin g \<Rightarrow> fst (response g v) = None
        | TransformRequest origin f \<Rightarrow>
            (case request f v of
               (Some (Ok resp), f1, v1) \<Rightarrow> fst (response (into_response resp) v1) = None
             | (q, f1, v1) \<Rightarrow> q = None)))"
proof
  show "drive (n + m) (transform_poll W request response into_response) (TransformRequest origin f) w =
     Some (case r of
             Ok resp \<Rightarrow> (Ok (from_response W origin (resp' resp)), w2 resp)
           | Err err \<Rightarrow> (Err err, w1)
           | Panic p \<Rightarrow> (Panic p, w1))"
  proof (cases r)
    case (Ok resp)
    then show ?thesis
      using drive_request_Ok [OF assms(1) [unfolded Ok], of m response into_response "Ok (resp' resp)" "w2 resp" W origin]
        assms(2) [OF Ok] by simp
  next
    case (Err err)
    then show ?thesis
      using drive_mono [OF drive_request_error [OF assms(1)], of err "Err err"] by simp
  next
    case (Panic p)
    then show ?thesis
      using drive_mono [OF drive_request_error [OF assms(1)], of _ "Panic p" p] by simp
  qed
qed (auto simp: transform_poll_def poll_response_def split: transform_response.splits prod.splits option.splits result.splits)

subsection \<open>Examples\<close>

text \<open>A request from a load balancer, and a handler that sends the body of its request back.\<close>

definition example_alb_request :: "(headers, (string \<times> string) list) lambda_request" where
  "example_alb_request =
     Alb \<lparr>ar_http_method = ''GET'', ar_path = Some ''/'', ar_query_string_parameters = [],
           ar_multi_value_query_string_parameters = [], ar_headers = [], ar_multi_value_headers = [],
           ar_request_context = \<lparr>ac_elb = \<lparr>el_target_group_arn = None\<rparr>\<rparr>, ar_is_base64_encoded = False,
           ar_body = Some ''ping''\<rparr>"

definition echo_handler :: "(nat, string, (headers, (string \<times> string) list) request, box_error, string) service" where
  "echo_handler =
     \<lparr>sv_ready = (\<lambda>w. (Ok (), w)), sv_call = (\<lambda>r w. (Inr (body_bytes (hr_body r)), Suc w)),
      sv_await = (\<lambda>s w. (Ok s, w))\<rparr>"

lemma example_alb_into_request:
  "\<exists>u. into_request (ref_web ref_crates) Map.empty example_alb_request =
     Ok \<lparr>hr_method = ''GET'', hr_uri = u, hr_headers = [], hr_body = TextBody ''ping'',
         hr_extensions = no_extensions
           \<lparr>ex_raw_http_path := Some ''/'', ex_query_string_parameters := Some [],
            ex_request_context := Some (CtxAlb \<lparr>ac_elb = \<lparr>el_target_group_arn = None\<rparr>\<rparr>)\<rparr>\<rparr>"
proof -
  have "utf8_lossy [] = []"
    by (simp add: utf8_lossy_valid)
  then show ?thesis
    by (simp add: into_request_def into_alb_request_def Let_def finish_request_Ok example_alb_request_def decode_query_map_def
        build_request_uri_def header_text_def hm_get_def or_default_def preferred_query_def ref_pairs_parse_def ref_pairs_text_def
        event_body_def from_maybe_encoded_def query_suffix_def ref_web_def ref_crates_def al_hmap_def al_get_all_def al_extend_def al_keys_def)
qed

lemma example_alb_answer:
  "lambda_response_json (ref_web ref_crates)
     (from_response (ref_web ref_crates) (request_origin example_alb_request) (string_into_response (ref_web ref_crates) ''ping'')) =
   Some (JObj [(''statusCode'', JInt 200), (''statusDescription'', JStr ''200 OK''), (''headers'', JObj []),
     (''multiValueHeaders'', JObj []), (''body'', JStr ''ping''), (''isBase64Encoded'', JBool False)])"
  by (simp add: example_alb_request_def from_response_def Let_def encoded_body_def string_into_response_def plain_response_def
        alb_response_default_def alb_response_json_def serialize_headers_def header_map.serialize_empty [OF al_header_map]
        or_default_def) (simp add: al_hmap_def al_keys_def ref_web_def show_nat.simps digit_char_def char_of_def bit_0)

lemma http_event_answered_witness:
  "\<exists>(req :: headers http_request) w'. rq_frames req = [cr_json_text ref_crates (JObj
        [(''statusCode'', JInt 200), (''statusDescription'', JStr ''200 OK''), (''headers'', JObj []), (''multiValueHeaders'', JObj []),
         (''body'', JStr ''ping''), (''isBase64Encoded'', JBool False)])] \<and> rw_inner w' = 1 \<and>
     sv_oneshot (wrap_handler ref_crates
         \<lparr>re_debug = True, re_trace = False, re_type_name = (\<lambda>t. t), re_user_agent = ''ua'', re_room = None,
          re_deserialize = (\<lambda>s. Ok example_alb_request)\<rparr>
         (\<lambda>req c. (Ok \<lparr>rs_status = 202, rs_headers = [], rs_body = Ok []\<rparr>, rq_frames req # c))
         (\<lambda>e. \<lparr>error_type = ''E'', error_message = err_to_string e\<rparr>)
         (http_service (ref_web ref_crates) Map.empty (\<lambda>s. Ok (string_into_response (ref_web ref_crates) s)) echo_handler))
       \<lparr>li_status = 200, li_headers = [], li_body = ''{}'', li_context = context_default\<lparr>cx_request_id := ''r''\<rparr>\<rparr>
       (\<lparr>rw_inner = 0, rw_next_call = 0, rw_clock = 0, rw_warnings = 0\<rparr>, []) =
     (Ok (), (w', [rq_frames req]))"
proof -
  let ?W = "ref_web ref_crates"
  let ?ivc = "\<lparr>li_status = 200, li_headers = [], li_body = ''{}'', li_context = context_default\<lparr>cx_request_id := ''r''\<rparr>\<rparr> :: headers lambda_invocation"
  let ?E = "\<lparr>re_debug = True, re_trace = False, re_type_name = (\<lambda>t. t), re_user_agent = ''ua'', re_room = None,
          re_deserialize = (\<lambda>s. Ok example_alb_request)\<rparr>"
  let ?w = "\<lparr>rw_inner = 0, rw_next_call = 0, rw_clock = 0, rw_warnings = 0\<rparr> :: nat response_world"
  let ?r = "string_into_response ?W ''ping''"
  let ?j = "JObj [(''statusCode'', JInt 200), (''statusDescription'', JStr ''200 OK''), (''headers'', JObj []), (''multiValueHeaders'', JObj []),
         (''body'', JStr ''ping''), (''isBase64Encoded'', JBool False)]"
  obtain u where u: "into_request ?W Map.empty example_alb_request =
     Ok \<lparr>hr_method = ''GET'', hr_uri = u, hr_headers = [], hr_body = TextBody ''ping'',
         hr_extensions = no_extensions
           \<lparr>ex_raw_http_path := Some ''/'', ex_query_string_parameters := Some [],
            ex_request_context := Some (CtxAlb \<lparr>ac_elb = \<lparr>el_target_group_arn = None\<rparr>\<rparr>)\<rparr>\<rparr>"
    using example_alb_into_request by blast
  have acc: "accepted ref_crates ?E ?ivc"
    by (simp add: accepted_def ref_crates_def)
  have json: "lambda_response_json ?W (from_response ?W (request_origin example_alb_request) ?r) = Some ?j"
    by (rule example_alb_answer)
  have "is_ok (completion_req ref_crates ''ua'' None ''r'' None (BufferedResponse (Ok ?j)))"
    by (simp add: buffered_completion_is_ok) (simp add: ref_crates_def al_hmap_def header_value_bytes_def invocation_uri_def)
  then obtain req where req: "completion_req ref_crates ''ua'' None ''r'' None (BufferedResponse (Ok ?j)) = Ok req"
    by (auto simp: is_ok_iff)
  have iid: "readable_invocation_id ref_crates (li_headers ?ivc) = None"
    by (simp add: readable_invocation_id_def hm_get_def al_hmap_def)
  have into: "lambda_response_into ?W (from_response ?W (request_origin example_alb_request) ?r) = BufferedResponse (Ok ?j)"
    by (simp add: lambda_response_into_def json)
  have echo: "sv_oneshot echo_handler r 0 = (Ok (body_bytes (hr_body r)), 1)" for r
    by (simp add: sv_oneshot_def echo_handler_def)
  obtain w' where "rw_inner w' = 1" "rq_frames req = [cr_json_text ref_crates ?j]"
     "sv_oneshot (wrap_handler ref_crates ?E (\<lambda>req c. (Ok \<lparr>rs_status = 202, rs_headers = [], rs_body = Ok []\<rparr>, rq_frames req # c))
        (\<lambda>e. \<lparr>error_type = ''E'', error_message = err_to_string e\<rparr>)
        (http_service ?W Map.empty (\<lambda>s. Ok (string_into_response ?W s)) echo_handler)) ?ivc (?w, []) =
      (Ok (), (w', [rq_frames req]))"
    using http_event_answered [where C = ref_crates and E = ?E and ivc = ?ivc and W = ?W and payload = example_alb_request
        and e = Map.empty and S = echo_handler and w = ?w and resp = "''ping''" and v = 1
        and into = "\<lambda>s. Ok (string_into_response ?W s)" and r = ?r
        and api = "\<lambda>req c. (Ok \<lparr>rs_status = 202, rs_headers = [], rs_body = Ok []\<rparr>, rq_frames req # c)" and c = "[]"
        and diag = "\<lambda>e. \<lparr>error_type = ''E'', error_message = err_to_string e\<rparr>", OF acc _ u] iid into req json
    by (auto simp: echo context_default_def)
  then show ?thesis by blast
qed

lemma handler_request_has_context_witness:
  "\<exists>req. event_to_request (ref_web ref_crates) Map.empty
       \<lparr>le_payload = example_alb_request, le_context = context_default\<lparr>cx_xray_trace_id := Some ''Root=1''\<rparr>\<rparr> = Ok req \<and>
     hr_body req = TextBody ''ping'' \<and> hm_get_all al_hmap (hr_headers req) ''x-amzn-trace-id'' = [''Root=1'']"
proof -
  obtain u where u: "into_request (ref_web ref_crates) Map.empty example_alb_request =
     Ok \<lparr>hr_method = ''GET'', hr_uri = u, hr_headers = [], hr_body = TextBody ''ping'',
         hr_extensions = no_extensions
           \<lparr>ex_raw_http_path := Some ''/'', ex_query_string_parameters := Some [],
            ex_request_context := Some (CtxAlb \<lparr>ac_elb = \<lparr>el_target_group_arn = None\<rparr>\<rparr>)\<rparr>\<rparr>"
    using example_alb_into_request by blast
  have "lower ''x-amzn-trace-id'' = ''x-amzn-trace-id''" and "hv_valid al_hmap ''Root=1''"
    by (simp_all add: lower_eval al_hmap_def header_value_bytes_def)
  then show ?thesis
    using handler_request_has_context [of "ref_web ref_crates" Map.empty
        "\<lparr>le_payload = example_alb_request, le_context = context_default\<lparr>cx_xray_trace_id := Some ''Root=1''\<rparr>\<rparr>"] u
    by (auto simp: al_header_map context_default_def)
qed

text \<open>A handler that is pending once, and a body that is pending twice.\<close>

lemma answer_future_completes_witness:
  "drive 4 (transform_poll (ref_web ref_crates)
       (\<lambda>f w. if f = (0::nat) then (Some (Ok ''hi''), f, Suc w) else (None, f - 1, Suc w))
       (\<lambda>(n, s) w. if n = (0::nat) then (Some (Ok (string_into_response (ref_web ref_crates) s)), (n, s), Suc w)
                   else (None, (n - 1, s), Suc w))
       (\<lambda>s. (2, s)))
     (TransformRequest FromPassThrough 1) 0 =
   Some (Ok (from_response (ref_web ref_crates) FromPassThrough (string_into_response (ref_web ref_crates) ''hi'')) ::
           (box_error, headers lambda_response) result, 5 :: nat)"
proof -
  let ?W = "ref_web ref_crates"
  let ?request = "\<lambda>f w. if f = (0::nat) then (Some (Ok ''hi'' :: (box_error, string) result), f, Suc w) else (None, f - 1, Suc w)"
  let ?response = "\<lambda>(n, s) w. if n = (0::nat)
      then (Some (Ok (string_into_response ?W s) :: (box_error, headers response) result), (n, s), Suc w)
      else (None, (n - 1, s), Suc w)"
  have "drive 2 ?request 1 0 = Some (Ok ''hi'', 2)"
    by (simp add: numeral_2_eq_2)
  moreover have "drive 3 ?response (2, ''hi'') 2 = Some (Ok (string_into_response ?W ''hi''), 5)"
    by (simp add: eval_nat_numeral)
  ultimately show ?thesis
    using answer_future_completes [THEN conjunct1, of 2 ?request 1 0 "Ok ''hi''" 2 2 ?response "\<lambda>s. (2, s)" "\<lambda>s. string_into_response ?W s" "\<lambda>_. 5" ?W FromPassThrough]
    by simp
qed

end
