(* ===== verification/Entrypoints.thy ===== *)
theory Entrypoints
  imports Protocol HttpAdapter
begin

text \<open>
  The functions a program starts its runtime with: \<^verbatim>\<open>run\<close> of
  \<^verbatim>\<open>lambda-runtime/src/lib.rs\<close>, \<^verbatim>\<open>run\<close> and \<^verbatim>\<open>runtime\<close> of
  \<^verbatim>\<open>lambda-http/src/lib.rs\<close>, and their streaming forms of
  \<^verbatim>\<open>lambda-http/src/streaming.rs\<close>.
\<close>

subsection \<open>The combinators of tower\<close>

text \<open>
  \<^verbatim>\<open>MapRequest\<close> and \<^verbatim>\<open>MapResponse\<close>: the function on requests may panic.
  What they document: readiness is the inner service's, a call passes the mapped request on, and the
  future is the inner one, its response mapped.
\<close>

locale tower_combinators =
  fixes map_request :: "('a \<Rightarrow> panic_payload + 'b) \<Rightarrow> ('w, 'f, 'b, 'e, 'r) service \<Rightarrow> ('w, 'f, 'a, 'e, 'r) service"
    and map_response :: "('r \<Rightarrow> 's) \<Rightarrow> ('w, 'f, 'a, 'e, 'r) service \<Rightarrow> ('w, 'f, 'a, 'e, 's) service"
  assumes map_request_ready: "sv_ready (map_request g S) = sv_ready S"
    and map_request_call:
      "sv_call (map_request g S) req w = (case g req of Inl p \<Rightarrow> (Inl p, w) | Inr req' \<Rightarrow> sv_call S req' w)"
    and map_request_await: "sv_await (map_request g S) = sv_await S"
    and map_response_ready: "sv_ready (map_response h T) = sv_ready T"
    and map_response_call: "sv_call (map_response h T) = sv_call T"
    and map_response_await: "sv_await (map_response h T) fut w = (case sv_await T fut w of (r, w1) \<Rightarrow> (map_ok h r, w1))"
begin

lemma mapped_service:
  "map_response h (map_request g S) =
     \<lparr>sv_ready = sv_ready S,
      sv_call = (\<lambda>req w. case g req of Inl p \<Rightarrow> (Inl p, w) | Inr req' \<Rightarrow> sv_call S req' w),
      sv_await = (\<lambda>fut w. case sv_await S fut w of (r, w1) \<Rightarrow> (map_ok h r, w1))\<rparr>"
  by (intro service.equality)
    (simp_all add: fun_eq_iff map_request_ready map_request_call map_request_await map_response_ready
      map_response_call map_response_await)

end

definition service_map_request :: "('a \<Rightarrow> panic_payload + 'b) \<Rightarrow> ('w, 'f, 'b, 'e, 'r) service \<Rightarrow> ('w, 'f, 'a, 'e, 'r) service" where
  "service_map_request g S =
     \<lparr>sv_ready = sv_ready S,
      sv_call = (\<lambda>req w. case g req of Inl p \<Rightarrow> (Inl p, w) | Inr req' \<Rightarrow> sv_call S req' w),
      sv_await = sv_await S\<rparr>"

definition service_map_response :: "('r \<Rightarrow> 's) \<Rightarrow> ('w, 'f, 'a, 'e, 'r) service \<Rightarrow> ('w, 'f, 'a, 'e, 's) service" where
  "service_map_response h T =
     \<lparr>sv_ready = sv_ready T, sv_call = sv_call T,
      sv_await = (\<lambda>fut w. case sv_await T fut w of (r, w1) \<Rightarrow> (map_ok h r, w1))\<rparr>"

interpretation tower: tower_combinators service_map_request service_map_response
  by unfold_locales (simp_all add: service_map_request_def service_map_response_def)

subsection \<open>Streaming services\<close>

definition mapped_event_to_request ::
  "('h, 'q) web \<Rightarrow> env \<Rightarrow> ('h, 'q) lambda_request lambda_event \<Rightarrow> panic_payload + ('h, 'q) request" where
  "mapped_event_to_request W e ev =
     (case event_to_request W e ev of Ok req \<Rightarrow> Inr req | Err err \<Rightarrow> Inl POther | Panic p \<Rightarrow> Inl p)"

definition into_stream_service where
  "into_stream_service map_request map_response W e handler =
     map_response (\<lambda>(status, headers, b). into_stream_response W status headers b)
       (map_request (mapped_event_to_request W e) handler)"

text \<open>\<^verbatim>\<open>StreamAdapter\<close>, which boxes the future, is the same service.\<close>

lemma into_stream_service_eq:
  assumes "tower_combinators map_request map_response"
  shows "into_stream_service map_request map_response W e handler = stream_adapter W e handler"
  unfolding into_stream_service_def tower_combinators.mapped_service [OF assms] stream_adapter_def
  by (intro service.equality) (auto simp: fun_eq_iff mapped_event_to_request_def split: result.splits)

text \<open>
  The form that can be cloned names the type of the function it maps requests with, and is otherwise
  the same stack.
\<close>

definition into_stream_service_cloneable where
  "into_stream_service_cloneable map_request map_response W e handler =
     map_response (\<lambda>(status, headers, b). into_stream_response W status headers b)
       (map_request (mapped_event_to_request W e) handler)"

lemma cloneable_stream_service:
  "into_stream_service_cloneable map_request map_response W e handler = into_stream_service map_request map_response W e handler"
  by (simp add: into_stream_service_cloneable_def into_stream_service_def)

subsection \<open>Starting\<close>

text \<open>
  The parameters of a runtime: the environment, the client's pool and connector, the calls a
  client makes, and the parameters of the layers.
\<close>

record ('h, 'p, 'x, 'c, 'w) entry_env =
  ee_env :: env
  ee_pool :: nat
  ee_connector :: 'x
  ee_api :: "'x pooled_client \<Rightarrow> ('h, 'c) api"
  ee_response :: "'p response_env"
  ee_loop :: "'h loop_env"
  ee_lifecycle :: "'x pooled_client \<Rightarrow> ('h, 'w) lifecycle_env"

definition entry_runtime ::
  "('h, 'p, 'x, 'c, 'w response_world \<times> 'c) entry_env \<Rightarrow> ('e \<Rightarrow> diagnostic)
   \<Rightarrow> ('w, 'f, 'p lambda_event, 'e, 'h function_response) service
   \<Rightarrow> (box_error, (('w response_world \<times> 'c, ('h, 'f catch_panic_future) response_future, 'h lambda_invocation, box_error, unit) service,
        'x pooled_client, 'w response_world \<times> 'c) runtime) result" where
  "entry_runtime X into handler =
     runtime_new (le_crates (ee_loop X)) (ee_env X) (ee_pool X) (ee_connector X)
       (\<lambda>client. wrap_handler (le_crates (ee_loop X)) (ee_response X) (ee_api X client) into handler)"

definition start_runtime ::
  "nat \<Rightarrow> ('h, 'p, 'x, 'c, 'w) entry_env
   \<Rightarrow> (box_error, (('w, 'f, 'h lambda_invocation, box_error, unit) service, 'x pooled_client, 'w) runtime) result
   \<Rightarrow> 'w process_state \<Rightarrow> ((box_error, unit) result \<times> 'w process_state) option" where
  "start_runtime n X r s =
     (case r of
        Ok rt \<Rightarrow> runtime_run n (ee_env X) (ee_lifecycle X (rt_client rt)) (ee_loop X) rt s
      | Err err \<Rightarrow> Some (Err err, s)
      | Panic p \<Rightarrow> Some (Panic p, s))"

definition lambda_run where
  "lambda_run n X into handler s = start_runtime n X (map_ok (runtime_layer tracing_service) (entry_runtime X into handler)) s"

definition http_run where
  "http_run n X into W into_response handler s = lambda_run n X into (http_service W (ee_env X) into_response handler) s"

definition http_runtime where
  "http_runtime X into W into_response handler = entry_runtime X into (http_service W (ee_env X) into_response handler)"

definition run_with_streaming_response where
  "run_with_streaming_response map_request map_response n X into W handler s =
     lambda_run n X into (into_stream_service map_request map_response W (ee_env X) handler) s"

definition streaming_runtime where
  "streaming_runtime map_request map_response X into W handler =
     entry_runtime X into (into_stream_service map_request map_response W (ee_env X) handler)"

text \<open>The runtimes to run concurrently, without starting their loops.\<close>

definition http_runtime_concurrent where
  "http_runtime_concurrent X into W into_response handler = entry_runtime X into (http_service W (ee_env X) into_response handler)"

definition streaming_runtime_concurrent where
  "streaming_runtime_concurrent map_request map_response X into W handler =
     entry_runtime X into (into_stream_service_cloneable map_request map_response W (ee_env X) handler)"

text \<open>
  The concurrent forms: the number of workers to spawn with the runtime and the state they start
  from, or the outcome of the sequential loop.
\<close>

definition start_concurrent where
  "start_concurrent in_tokio n X r s =
     (case r of
        Ok rt \<Rightarrow>
          (case start_run_concurrent in_tokio (ee_env X) (ee_lifecycle X (rt_client rt)) rt s of
             (Ok (Workers k), s1) \<Rightarrow> Inl (k, rt, s1)
           | (Ok Sequential, s1) \<Rightarrow>
               Inr (run_with_incoming n (ee_loop X) (rt_service rt) (rt_config rt)
                 (incoming (ee_loop X) (lc_api (ee_lifecycle X (rt_client rt)))) s1)
           | (Err err, s1) \<Rightarrow> Inr (Some (Err err, s1))
           | (Panic p, s1) \<Rightarrow> Inr (Some (Panic p, s1)))
      | Err err \<Rightarrow> Inr (Some (Err err, s))
      | Panic p \<Rightarrow> Inr (Some (Panic p, s)))"

definition lambda_run_concurrent where
  "lambda_run_concurrent in_tokio n X into handler s =
     start_concurrent in_tokio n X (map_ok (runtime_layer tracing_service) (entry_runtime X into handler)) s"

definition http_run_concurrent where
  "http_run_concurrent in_tokio n X into W into_response handler s =
     lambda_run_concurrent in_tokio n X into (http_service W (ee_env X) into_response handler) s"

definition run_with_streaming_response_concurrent where
  "run_with_streaming_response_concurrent map_request map_response in_tokio n X into W handler s =
     lambda_run_concurrent in_tokio n X into (into_stream_service_cloneable map_request map_response W (ee_env X) handler) s"

subsection \<open>The tracing layer\<close>

lemma process_invocation_tracing:
  "process_invocation L (tracing_service S) config event b s = process_invocation L S config event b s"
proof -
  have "sv_ready (tracing_service S) = sv_ready S"
    by (simp add: tracing_service_def)
  moreover have "sv_oneshot (tracing_service S) req w = sv_oneshot S req w" for req w
    by (rule oneshot_tracing)
  ultimately have same: "sv_ready (tracing_service S) = sv_ready S" "sv_oneshot (tracing_service S) = sv_oneshot S"
    by blast+
  show ?thesis
    unfolding process_invocation_def same by (rule refl)
qed

lemma run_with_incoming_tracing: "run_with_incoming n L (tracing_service S) config inc s = run_with_incoming n L S config inc s"
proof -
  have "loop_iter L (tracing_service S) config inc = loop_iter L S config inc"
    unfolding loop_iter_def process_invocation_tracing by (rule refl)
  then show ?thesis
    by (simp add: run_with_incoming_def)
qed

lemma runtime_run_tracing: "runtime_run n e LC L (runtime_layer tracing_service rt) s = runtime_run n e LC L rt s"
  unfolding runtime_run_def runtime_layer_def runtime.simps run_with_incoming_tracing by (rule refl)

lemma start_runtime_tracing: "start_runtime n X (map_ok (runtime_layer tracing_service) r) s = start_runtime n X r s"
  by (cases r) (simp_all add: start_runtime_def runtime_run_tracing, simp add: runtime_layer_def)

lemma run_is_runtime: "http_run n X into W into_response handler s = start_runtime n X (http_runtime X into W into_response handler) s"
  by (simp add: http_run_def lambda_run_def http_runtime_def start_runtime_tracing)

text \<open>
  Within a Tokio runtime and without a concurrency limit above one, the concurrent forms do what
  the sequential ones do.
\<close>

lemma start_concurrent_falls_back:
  assumes "\<And>rt. r = Ok rt \<Longrightarrow> rt_concurrency_limit rt \<le> 1"
  shows "start_concurrent True n X r s = Inr (start_runtime n X r s)"
proof (cases r)
  case (Ok rt)
  obtain q s1 where "lift_world (snapstart_lifecycle (ee_env X) (ee_lifecycle X (rt_client rt)) (rt_snapstart_resources rt)) s = (q, s1)"
    by fastforce
  with Ok assms [OF Ok] show ?thesis
    by (cases q) (simp_all add: start_concurrent_def start_runtime_def start_run_concurrent_def runtime_run_def)
qed (simp_all add: start_concurrent_def start_runtime_def)

lemma lambda_run_concurrent_falls_back:
  assumes "max_concurrency_from_env (ee_env X) \<in> {None, Some 1}"
  shows "lambda_run_concurrent True n X into handler s = Inr (lambda_run n X into handler s)"
  unfolding lambda_run_concurrent_def lambda_run_def
proof (rule start_concurrent_falls_back)
  fix rt assume "map_ok (runtime_layer tracing_service) (entry_runtime X into handler) = Ok rt"
  then show "rt_concurrency_limit rt \<le> 1"
    using assms by (auto simp: entry_runtime_def runtime_new_def runtime_layer_def concurrency_limit_of_def Let_def result_simps)
qed

subsection \<open>What the Runtime API sees of an HTTP function\<close>

lemma entry_keeps_protocol:
  assumes L: "le_crates (ee_loop X) = C" "\<not> le_debug (ee_loop X)" "next_event_req C (le_user_agent (ee_loop X)) = Ok nreq"
    and client: "\<And>client. ee_api X client = watched (api client)"
      "\<And>client. lc_api (ee_lifecycle X client) = on_client (watched (api client))"
    and env: "\<not> is_snapstart_env (ee_env X)"
    and run: "lambda_run n X into handler s = Some (r, s')" and hist: "log_of s = []"
  shows "conforms False C nreq (log_of s')"
proof (cases "entry_runtime X into handler")
  case (Ok rt)
  then have rt: "rt_service rt = wrap_handler C (ee_response X) (watched (api (rt_client rt))) into handler"
    by (auto simp: entry_runtime_def runtime_new_def result_simps Let_def L(1) client(1))
  have "run_with_incoming n (ee_loop X) (rt_service rt) (rt_config rt)
      (incoming (ee_loop X) (on_client (watched (api (rt_client rt))))) s = Some (r, s')"
    using run Ok env unfolding lambda_run_def start_runtime_tracing
    by (simp add: start_runtime_def runtime_run_def snapstart_lifecycle_def lift_world_def client(2) split: prod.splits)
  then show ?thesis
    unfolding run_with_incoming_def rt by (rule run_conforms [OF loop_iter_keeps_protocol [OF L] _ hist])
qed (use run hist in \<open>auto simp: lambda_run_def start_runtime_def\<close>)

lemma http_run_is_loop:
  assumes "http_runtime X into W into_response handler = Ok rt" and "\<not> is_snapstart_env (ee_env X)"
  shows "http_run n X into W into_response handler s =
    run_with_incoming n (ee_loop X) (rt_service rt) (rt_config rt)
      (incoming (ee_loop X) (lc_api (ee_lifecycle X (rt_client rt)))) s"
  using assms
  by (simp add: run_is_runtime start_runtime_def runtime_run_def snapstart_lifecycle_def lift_world_def split: prod.splits)

lemma http_runtime_service:
  "http_runtime X into W into_response handler = Ok rt \<Longrightarrow>
     rt_service rt = wrap_handler (le_crates (ee_loop X)) (ee_response X) (ee_api X (rt_client rt)) into
       (http_service W (ee_env X) into_response handler)"
  by (auto simp: http_runtime_def entry_runtime_def runtime_new_def result_simps Let_def)

text \<open>
  C9: How a function started by \<^verbatim>\<open>lambda_http::run\<close> (in a release build, without SnapStart, its
  runtime built) serves an HTTP event and goes on. When the event that the Runtime API hands out holds an invocation that the
  layers accept, whose payload is an HTTP event a request can be made from, the handler is ready and
  returns a response for that request, the answer to it serialises, its completion request
  can be built, and the client returns a response to it, then running on from there is running on from a state
  in which the client was asked for exactly two things more: the poll that brought the event, and
  the completion request, whose body is the text of the answer in the format of the event's service. The handler
  was called once, with the request made from the event.
\<close>

theorem http_function_serves_event:
  assumes "le_crates (ee_loop X) = C" and "\<not> le_debug (ee_loop X)" and "next_event_req C (le_user_agent (ee_loop X)) = Ok nreq"
    and "http_runtime X into W into_response handler = Ok rt" and "\<not> is_snapstart_env (ee_env X)"
    and "ee_api X (rt_client rt) = watched api" and "lc_api (ee_lifecycle X (rt_client rt)) = on_client (watched api)"
    and "api nreq c = (Ok event, c1)" and "build_invocation C (rt_config rt) event = Ok ivc"
    and "accepted C (ee_response X) ivc" and "re_deserialize (ee_response X) (li_body ivc) = Ok payload"
    and "into_request W (ee_env X) payload = Ok req0" and "sv_ready handler (rw_inner w) = (Ok (), v0)"
    and "sv_oneshot handler (req0\<lparr>hr_headers := update_xray_trace_id_header W (li_context ivc) (hr_headers req0),
            hr_extensions := with_lambda_context (li_context ivc) (hr_extensions req0)\<rparr>) v0 = (Ok resp, v)"
    and "into_response resp = Ok r" and "lambda_response_json W (from_response W (request_origin payload) r) = Some j"
    and "completion_req C (re_user_agent (ee_response X)) (re_room (ee_response X)) (cx_request_id (li_context ivc))
           (readable_invocation_id C (li_headers ivc)) (BufferedResponse (Ok j)) = Ok req"
    and "api req c1 = (Ok accept, c2)"
  shows "rq_frames req = [cr_json_text C j] \<and>
    (\<exists>s' w'. ps_world s' = (w', (c2, hist @ [(nreq, Ok event), (req, Ok accept)])) \<and> rw_inner w' = v \<and>
       (\<forall>n. http_run (Suc n) X into W into_response handler \<lparr>ps_env = e, ps_world = (w, (c, hist))\<rparr> =
          http_run n X into W into_response handler s'))"
proof
  show "rq_frames req = [cr_json_text C j]"
    by (rule buffered_frames [OF assms(17)])
  have "lambda_response_into W (from_response W (request_origin payload) r) = BufferedResponse (Ok j)"
    using assms(16) by (simp add: lambda_response_into_def)
  then have answer: "answer_request C (ee_response X) into (http_service W (ee_env X) into_response handler) ivc v0 = (Ok req, v)"
    using answer_request_http [where into = into_response and C = C and diag = into, OF assms(11,12,14,15)] assms(17) by simp
  have ready: "sv_ready (http_service W (ee_env X) into_response handler) (rw_inner w) = (Ok (), v0)"
    using assms(13) by (simp add: http_service_def adapter_def Let_def)
  let ?it = "loop_iter (ee_loop X) (rt_service rt) (rt_config rt) (incoming (ee_loop X) (on_client (watched api)))"
  obtain s' w' where s': "?it \<lparr>ps_env = e, ps_world = (w, (c, hist))\<rparr> = (None, s')"
      "ps_world s' = (w', (c2, hist @ [(nreq, Ok event), (req, Ok accept)]))" "rw_inner w' = v"
    unfolding http_runtime_service [OF assms(4)] assms(1,6)
    using answered_iteration [where api = "watched api" and c = "(c, hist)" and ?c1.0 = "(c1, hist @ [(nreq, Ok event)])"
        and ?c2.0 = "(c2, hist @ [(nreq, Ok event), (req, Ok accept)])" and resp = accept and e = e,
        OF assms(3,1) _ _ assms(9,10) ready answer] assms(2,8,18)
    by (auto simp: watched_def)
  have "http_run (Suc n) X into W into_response handler \<lparr>ps_env = e, ps_world = (w, (c, hist))\<rparr> =
      http_run n X into W into_response handler s'" for n
    unfolding http_run_is_loop [OF assms(4,5)] assms(7) run_with_incoming_def using s'(1) by simp
  then show "\<exists>s' w'. ps_world s' = (w', (c2, hist @ [(nreq, Ok event), (req, Ok accept)])) \<and> rw_inner w' = v \<and>
       (\<forall>n. http_run (Suc n) X into W into_response handler \<lparr>ps_env = e, ps_world = (w, (c, hist))\<rparr> =
          http_run n X into W into_response handler s')"
    using s'(2,3) by blast
qed

text \<open>
  C19: The three ways to serve streaming responses do the same: \<^verbatim>\<open>run_with_streaming_response\<close>,
  which maps requests and responses by the combinators of tower and adds the tracing layer, running the
  result of \<^verbatim>\<open>streaming_runtime\<close>, which adds no layer, and running a runtime of the boxed
  \<^verbatim>\<open>StreamAdapter\<close> have the same result and the same effects after every number of
  iterations, from every state.
\<close>

theorem streaming_entrypoints_agree:
  assumes "tower_combinators map_request map_response"
  shows "run_with_streaming_response map_request map_response n X into W handler s =
      start_runtime n X (streaming_runtime map_request map_response X into W handler) s \<and>
    run_with_streaming_response map_request map_response n X into W handler s =
      start_runtime n X (entry_runtime X into (stream_adapter W (ee_env X) handler)) s"
  by (simp add: run_with_streaming_response_def streaming_runtime_def lambda_run_def start_runtime_tracing
      into_stream_service_eq [OF assms])

text \<open>A Runtime API that refuses the connection: the run ends with its error after one call.\<close>

definition streaming_echo ::
  "(nat, string, (headers, (string \<times> string) list) request, box_error, nat \<times> headers \<times> (box_error + frame) list) service"
  where
  "streaming_echo =
     \<lparr>sv_ready = (\<lambda>w. (Ok (), w)), sv_call = (\<lambda>r w. (Inr (body_bytes (hr_body r)), Suc w)),
      sv_await = (\<lambda>s w. (Ok (200, [], [Inr (DataFrame s)]), w))\<rparr>"

definition refusing_entry ::
  "(headers, (headers, (string \<times> string) list) lambda_request, unit, nat, nat response_world \<times> nat) entry_env" where
  "refusing_entry =
     \<lparr>ee_env = [''AWS_LAMBDA_FUNCTION_NAME'' \<mapsto> ''f'', ''AWS_LAMBDA_FUNCTION_MEMORY_SIZE'' \<mapsto> ''128'',
        ''AWS_LAMBDA_FUNCTION_VERSION'' \<mapsto> ''1'', ''AWS_LAMBDA_RUNTIME_API'' \<mapsto> ''h:1''],
      ee_pool = 0, ee_connector = (), ee_api = (\<lambda>client req c. (Err (BoxError ''refused''), Suc c)),
      ee_response = \<lparr>re_debug = False, re_trace = False, re_type_name = (\<lambda>t. t), re_user_agent = ''ua'', re_room = None,
        re_deserialize = (\<lambda>s. Ok example_alb_request)\<rparr>,
      ee_loop = \<lparr>le_crates = ref_crates, le_debug = False, le_user_agent = ''ua''\<rparr>,
      ee_lifecycle = (\<lambda>client. \<lparr>lc_crates = ref_crates, lc_user_agent = ''ua'', lc_type_name = (\<lambda>t. t),
        lc_api = on_client (\<lambda>req c. (Err (BoxError ''refused''), Suc c)), lc_reset = (\<lambda>w. w)\<rparr>)\<rparr>"

theorem streaming_entrypoints_agree_witness:
  "run_with_streaming_response service_map_request service_map_response 1 refusing_entry
      (\<lambda>e. \<lparr>error_type = ''E'', error_message = err_to_string e\<rparr>) (ref_web ref_crates) streaming_echo
      \<lparr>ps_env = Map.empty, ps_world = (\<lparr>rw_inner = 0, rw_next_call = 0, rw_clock = 0, rw_warnings = 0\<rparr>, 0)\<rparr> =
    Some (Err (BoxError ''refused''),
      \<lparr>ps_env = Map.empty, ps_world = (\<lparr>rw_inner = 0, rw_next_call = 0, rw_clock = 0, rw_warnings = 0\<rparr>, 1)\<rparr>)"
proof -
  let ?r = "streaming_runtime service_map_request service_map_response refusing_entry
      (\<lambda>e. \<lparr>error_type = ''E'', error_message = err_to_string e\<rparr>) (ref_web ref_crates) streaming_echo"
  have "is_ok ?r \<and> (\<forall>rt. ?r = Ok rt \<longrightarrow> rt_snapstart_resources rt = [])"
    by (simp add: is_ok_iff streaming_runtime_def entry_runtime_def refusing_entry_def runtime_new_def config_from_env_def
        env_expect_def parse_i32_def digit_val_def pooled_build_def resolve_uri_def with_pool_size_def cb_new_def
        ref_crates_def Let_def)
  then obtain rt where "?r = Ok rt" "rt_snapstart_resources rt = []"
    by (auto simp: is_ok_iff)
  then show ?thesis
    using streaming_entrypoints_agree [OF tower.tower_combinators_axioms, of 1 refusing_entry
        "\<lambda>e. \<lparr>error_type = ''E'', error_message = err_to_string e\<rparr>" "ref_web ref_crates" streaming_echo
        "\<lparr>ps_env = Map.empty, ps_world = (\<lparr>rw_inner = 0, rw_next_call = 0, rw_clock = 0, rw_warnings = 0\<rparr>, 0)\<rparr>"]
    by (simp add: start_runtime_def runtime_run_def refusing_entry_def snapstart_lifecycle_def is_snapstart_env_def
        lift_world_def run_with_incoming_def loop_iter_def incoming_def next_event_req_def build_request_def builder_defs
        hv_parse_def ref_crates_def al_hmap_def header_value_bytes_def on_client_def)
qed

text \<open>A Runtime API that hands out events from a load balancer, and a handler that sends the body back.\<close>

definition serving_api :: "(headers, nat) api" where
  "serving_api req c = (Ok example_event, Suc c)"

definition serving_entry ::
  "(headers, (headers, (string \<times> string) list) lambda_request, unit, nat \<times> headers exchange list,
    nat response_world \<times> nat \<times> headers exchange list) entry_env" where
  "serving_entry =
     \<lparr>ee_env = ee_env refusing_entry, ee_pool = 0, ee_connector = (), ee_api = (\<lambda>client. watched serving_api),
      ee_response = ee_response refusing_entry, ee_loop = ee_loop refusing_entry,
      ee_lifecycle = (\<lambda>client. \<lparr>lc_crates = ref_crates, lc_user_agent = ''ua'', lc_type_name = (\<lambda>t. t),
        lc_api = on_client (watched serving_api), lc_reset = (\<lambda>w. w)\<rparr>)\<rparr>"

definition pong_json :: json where
  "pong_json = JObj [(''statusCode'', JInt 200), (''statusDescription'', JStr ''200 OK''), (''headers'', JObj []),
     (''multiValueHeaders'', JObj []), (''body'', JStr ''ping''), (''isBase64Encoded'', JBool False)]"

theorem http_function_serves_event_witness:
  "\<exists>req nreq s' w'. rq_frames req = [cr_json_text ref_crates pong_json] \<and>
     ps_world s' = (w', (2, [(nreq, Ok example_event), (req, Ok example_event)])) \<and> rw_inner w' = 1 \<and>
     (\<forall>n. http_run (Suc n) serving_entry (\<lambda>e. \<lparr>error_type = ''E'', error_message = err_to_string e\<rparr>) (ref_web ref_crates)
           (\<lambda>s. Ok (string_into_response (ref_web ref_crates) s)) echo_handler
           \<lparr>ps_env = Map.empty, ps_world = (\<lparr>rw_inner = 0, rw_next_call = 0, rw_clock = 0, rw_warnings = 0\<rparr>, (0, []))\<rparr> =
         http_run n serving_entry (\<lambda>e. \<lparr>error_type = ''E'', error_message = err_to_string e\<rparr>) (ref_web ref_crates)
           (\<lambda>s. Ok (string_into_response (ref_web ref_crates) s)) echo_handler s')"
proof -
  let ?into = "\<lambda>e. \<lparr>error_type = ''E'', error_message = err_to_string e\<rparr>"
  let ?W = "ref_web ref_crates"
  let ?resp = "\<lambda>s. Ok (string_into_response ?W s) :: (box_error, headers response) result"
  let ?w = "\<lparr>rw_inner = 0, rw_next_call = 0, rw_clock = 0, rw_warnings = 0\<rparr> :: nat response_world"
  have loop: "ee_loop serving_entry = \<lparr>le_crates = ref_crates, le_debug = False, le_user_agent = ''ua''\<rparr>"
    and env: "\<not> is_snapstart_env (ee_env serving_entry)"
    and E: "ee_response serving_entry = \<lparr>re_debug = False, re_trace = False, re_type_name = (\<lambda>t. t), re_user_agent = ''ua'',
        re_room = None, re_deserialize = (\<lambda>s. Ok example_alb_request)\<rparr>"
    by (simp_all add: serving_entry_def refusing_entry_def is_snapstart_env_def)
  have "\<exists>req. next_event_req ref_crates ''ua'' = Ok req"
    by (simp add: next_event_req_def build_request_def builder_defs hv_parse_def ref_crates_def al_hmap_def
        header_value_bytes_def)
  then obtain nreq where nreq: "next_event_req ref_crates ''ua'' = Ok nreq" ..
  have "is_ok (http_runtime serving_entry ?into ?W ?resp echo_handler)"
    by (simp add: is_ok_iff http_runtime_def entry_runtime_def serving_entry_def refusing_entry_def runtime_new_def
        config_from_env_def env_expect_def parse_i32_def digit_val_def pooled_build_def resolve_uri_def with_pool_size_def
        cb_new_def ref_crates_def Let_def)
  then obtain rt where rt: "http_runtime serving_entry ?into ?W ?resp echo_handler = Ok rt" by (auto simp: is_ok_iff)
  obtain ivc where ivc: "build_invocation ref_crates (rt_config rt) example_event = Ok ivc" "li_headers ivc = rs_headers example_event"
      "cx_request_id (li_context ivc) = ''r1''"
    using example_build_config [of "rt_config rt"] by blast
  have iid: "readable_invocation_id ref_crates (li_headers ivc) = None"
    by (simp add: readable_invocation_id_def ivc example_event_def hm_get_def al_hmap_def)
  obtain u where u: "into_request ?W (ee_env serving_entry) example_alb_request =
     Ok \<lparr>hr_method = ''GET'', hr_uri = u, hr_headers = [], hr_body = TextBody ''ping'',
         hr_extensions = no_extensions
           \<lparr>ex_raw_http_path := Some ''/'', ex_query_string_parameters := Some [],
            ex_request_context := Some (CtxAlb \<lparr>ac_elb = \<lparr>el_target_group_arn = None\<rparr>\<rparr>)\<rparr>\<rparr>"
    using example_alb_into_request by (auto simp: into_request_def example_alb_request_def)
  have json: "lambda_response_json ?W (from_response ?W (request_origin example_alb_request) (string_into_response ?W ''ping'')) = Some pong_json"
    unfolding pong_json_def by (rule example_alb_answer)
  have "is_ok (completion_req ref_crates ''ua'' None ''r1'' None (BufferedResponse (Ok pong_json)))"
    by (simp add: buffered_completion_is_ok) (simp add: ref_crates_def al_hmap_def header_value_bytes_def invocation_uri_def)
  then obtain req where req: "completion_req ref_crates ''ua'' None ''r1'' None (BufferedResponse (Ok pong_json)) = Ok req"
    by (auto simp: is_ok_iff)
  have echo: "sv_oneshot echo_handler r 0 = (Ok (body_bytes (hr_body r)), 1)" for r
    by (simp add: sv_oneshot_def echo_handler_def)
  have "rq_frames req = [cr_json_text ref_crates pong_json] \<and>
    (\<exists>s' w'. ps_world s' = (w', (2, [] @ [(nreq, Ok example_event), (req, Ok example_event)])) \<and> rw_inner w' = 1 \<and>
       (\<forall>n. http_run (Suc n) serving_entry ?into ?W ?resp echo_handler \<lparr>ps_env = Map.empty, ps_world = (?w, (0, []))\<rparr> =
          http_run n serving_entry ?into ?W ?resp echo_handler s'))"
    by (rule http_function_serves_event [where rt = rt and api = serving_api and ivc = ivc and payload = example_alb_request
          and resp = "''ping''" and ?v0.0 = 0 and ?c1.0 = 1 and W = ?W and into_response = ?resp,
          OF _ _ _ rt env _ _ _ ivc(1) _ _ u _ _ _ json])
      (simp_all add: loop E iid ivc(3) nreq req echo accepted_def, simp_all add: serving_entry_def serving_api_def echo_handler_def)
  then show ?thesis by (simp only: append_Nil) blast
qed

end
