(* ===== verification/Telemetry.thy ===== *)
theory Telemetry
  imports Crates "HOL-Library.Monad_Syntax"
begin

text \<open>
  The payloads of the Logs API and of the Telemetry API
  (\<^verbatim>\<open>lambda-extension/src/logs.rs\<close> and \<^verbatim>\<open>telemetry.rs\<close>): their data types,
  their derived JSON forms (adjacently tagged enums, flattened into the entry that carries the
  time), and that what the telemetry types serialise to is read back unchanged.

  A point in time belongs to the crate \<^verbatim>\<open>chrono\<close>: its type \<open>'t\<close> and the functions
  that print and parse it are parameters.
\<close>

record 't date_time =
  dt_show :: "'t \<Rightarrow> string"
  dt_parse :: "string \<Rightarrow> 't option"

definition de_time :: "'t date_time \<Rightarrow> json \<Rightarrow> 't option" where
  "de_time D j = Option.bind (de_string j) (dt_parse D)"

definition json_of_nat :: "nat \<Rightarrow> json" where
  "json_of_nat n = JInt (int n)"

abbreviation de_u64 :: "json \<Rightarrow> nat option" where
  "de_u64 \<equiv> de_unsigned u64_max"

subsection \<open>Enums without data\<close>

datatype init_type = OnDemand | ProvisionedConcurrency | SnapStartInit
datatype init_phase = InitPhaseInit | InitPhaseInvoke
datatype status = StatusSuccess | StatusError | StatusFailure | StatusTimeout
datatype tracing_type = AmznTraceId

fun init_type_name :: "init_type \<Rightarrow> string" where
  "init_type_name OnDemand = ''on-demand''"
| "init_type_name ProvisionedConcurrency = ''provisioned-concurrency''"
| "init_type_name SnapStartInit = ''snap-start''"

fun init_phase_name :: "init_phase \<Rightarrow> string" where
  "init_phase_name InitPhaseInit = ''init''"
| "init_phase_name InitPhaseInvoke = ''invoke''"

fun status_name :: "status \<Rightarrow> string" where
  "status_name StatusSuccess = ''success''"
| "status_name StatusError = ''error''"
| "status_name StatusFailure = ''failure''"
| "status_name StatusTimeout = ''timeout''"

fun tracing_type_name :: "tracing_type \<Rightarrow> string" where
  "tracing_type_name AmznTraceId = ''X-Amzn-Trace-Id''"

text \<open>The variant with a given name: a text, or an object with the name as only key and null.\<close>

definition variant_name :: "json \<Rightarrow> string option" where
  "variant_name j = (case j of JStr s \<Rightarrow> Some s | JObj [(s, JNull)] \<Rightarrow> Some s | _ \<Rightarrow> None)"

lemma variant_name_JStr [json_simps, simp]: "variant_name (JStr s) = Some s"
  by (simp add: variant_name_def)

definition de_variant :: "('a \<Rightarrow> string) \<Rightarrow> 'a list \<Rightarrow> json \<Rightarrow> 'a option" where
  "de_variant name variants j =
     Option.bind (variant_name j) (\<lambda>s. List.find (\<lambda>v. name v = s) variants)"

definition de_init_type :: "json \<Rightarrow> init_type option" where
  "de_init_type = de_variant init_type_name [OnDemand, ProvisionedConcurrency, SnapStartInit]"

definition de_init_phase :: "json \<Rightarrow> init_phase option" where
  "de_init_phase = de_variant init_phase_name [InitPhaseInit, InitPhaseInvoke]"

definition de_status :: "json \<Rightarrow> status option" where
  "de_status = de_variant status_name [StatusSuccess, StatusError, StatusFailure, StatusTimeout]"

definition de_tracing_type :: "json \<Rightarrow> tracing_type option" where
  "de_tracing_type = de_variant tracing_type_name [AmznTraceId]"

subsection \<open>Structs\<close>

record 't span =
  sp_duration_ms :: f64
  sp_name :: string
  sp_start :: 't

record trace_context =
  tc_span_id :: "string option"
  tc_type :: tracing_type
  tc_value :: string

record report_metrics =
  rm_duration_ms :: f64
  rm_billed_duration_ms :: nat
  rm_memory_size_mb :: nat
  rm_max_memory_used_mb :: nat
  rm_init_duration_ms :: "f64 option"
  rm_restore_duration_ms :: "f64 option"

record runtime_done_metrics =
  rdm_duration_ms :: f64
  rdm_produced_bytes :: "nat option"

definition span_json :: "'t date_time \<Rightarrow> 't span \<Rightarrow> json" where
  "span_json D s =
     JObj [(''durationMs'', json_of_f64 (sp_duration_ms s)), (''name'', JStr (sp_name s)),
           (''start'', JStr (dt_show D (sp_start s)))]"

definition span_of_json :: "'t date_time \<Rightarrow> json \<Rightarrow> 't span option" where
  "span_of_json D j = do {
     kvs \<leftarrow> de_fields 3 [''durationMs'', ''name'', ''start''] j;
     d \<leftarrow> de_required de_f64 [''durationMs''] kvs;
     n \<leftarrow> de_required de_string [''name''] kvs;
     t \<leftarrow> de_required (de_time D) [''start''] kvs;
     Some \<lparr>sp_duration_ms = d, sp_name = n, sp_start = t\<rparr> }"

definition trace_context_json :: "trace_context \<Rightarrow> json" where
  "trace_context_json c =
     JObj [(''spanId'', json_of_option JStr (tc_span_id c)), (''type'', JStr (tracing_type_name (tc_type c))),
           (''value'', JStr (tc_value c))]"

definition trace_context_of_json :: "json \<Rightarrow> trace_context option" where
  "trace_context_of_json j = do {
     kvs \<leftarrow> de_fields 3 [''spanId'', ''type'', ''value''] j;
     i \<leftarrow> de_optional de_string [''spanId''] kvs;
     t \<leftarrow> de_required de_tracing_type [''type''] kvs;
     v \<leftarrow> de_required de_string [''value''] kvs;
     Some \<lparr>tc_span_id = i, tc_type = t, tc_value = v\<rparr> }"

definition init_report_metrics_json :: "f64 \<Rightarrow> json" where
  "init_report_metrics_json d = JObj [(''durationMs'', json_of_f64 d)]"

definition init_report_metrics_of_json :: "json \<Rightarrow> f64 option" where
  "init_report_metrics_of_json j = do {
     kvs \<leftarrow> de_fields 1 [''durationMs''] j;
     de_required de_f64 [''durationMs''] kvs }"

definition report_metrics_json :: "report_metrics \<Rightarrow> json" where
  "report_metrics_json m =
     JObj ([(''durationMs'', json_of_f64 (rm_duration_ms m)),
            (''billedDurationMs'', json_of_nat (rm_billed_duration_ms m)),
            (''memorySizeMB'', json_of_nat (rm_memory_size_mb m)),
            (''maxMemoryUsedMB'', json_of_nat (rm_max_memory_used_mb m))] @
           opt_field ''initDurationMs'' json_of_f64 (rm_init_duration_ms m) @
           opt_field ''restoreDurationMs'' json_of_f64 (rm_restore_duration_ms m))"

definition report_metrics_of_json :: "json \<Rightarrow> report_metrics option" where
  "report_metrics_of_json j = do {
     kvs \<leftarrow> de_fields 4 [''durationMs'', ''billedDurationMs'', ''memorySizeMB'', ''maxMemoryUsedMB'',
                        ''initDurationMs'', ''restoreDurationMs''] j;
     d \<leftarrow> de_required de_f64 [''durationMs''] kvs;
     b \<leftarrow> de_required de_u64 [''billedDurationMs''] kvs;
     m \<leftarrow> de_required de_u64 [''memorySizeMB''] kvs;
     x \<leftarrow> de_required de_u64 [''maxMemoryUsedMB''] kvs;
     i \<leftarrow> de_optional de_f64 [''initDurationMs''] kvs;
     r \<leftarrow> de_optional de_f64 [''restoreDurationMs''] kvs;
     Some \<lparr>rm_duration_ms = d, rm_billed_duration_ms = b, rm_memory_size_mb = m,
           rm_max_memory_used_mb = x, rm_init_duration_ms = i, rm_restore_duration_ms = r\<rparr> }"

definition runtime_done_metrics_json :: "runtime_done_metrics \<Rightarrow> json" where
  "runtime_done_metrics_json m =
     JObj [(''durationMs'', json_of_f64 (rdm_duration_ms m)),
           (''producedBytes'', json_of_option json_of_nat (rdm_produced_bytes m))]"

definition runtime_done_metrics_of_json :: "json \<Rightarrow> runtime_done_metrics option" where
  "runtime_done_metrics_of_json j = do {
     kvs \<leftarrow> de_fields 2 [''durationMs'', ''producedBytes''] j;
     d \<leftarrow> de_required de_f64 [''durationMs''] kvs;
     p \<leftarrow> de_optional de_u64 [''producedBytes''] kvs;
     Some \<lparr>rdm_duration_ms = d, rdm_produced_bytes = p\<rparr> }"

subsection \<open>Telemetry records\<close>

text \<open>
  \<open>'l\<close> is the type of a function's or an extension's log entry
  (\<^verbatim>\<open>String\<close> unless the user chooses another).
\<close>

datatype ('t, 'l) telemetry_record =
    Function 'l
  | ExtensionLog 'l
  | PlatformInitStart init_type init_phase "string option" "string option"
  | PlatformInitRuntimeDone init_type "init_phase option" status "string option" "'t span list"
  | PlatformInitReport init_type init_phase f64 "'t span list"
  | PlatformStart string "string option" "trace_context option"
  | PlatformRuntimeDone string status "string option" "runtime_done_metrics option" "'t span list"
      "trace_context option"
  | PlatformReport string status "string option" report_metrics "'t span list" "trace_context option"
  | PlatformExtension string string "string list"
  | PlatformTelemetrySubscription string string "string list"
  | PlatformLogsDropped string nat nat

record ('t, 'l) lambda_telemetry =
  lt_time :: 't
  lt_record :: "('t, 'l) telemetry_record"

definition spans_field :: "'t date_time \<Rightarrow> 't span list \<Rightarrow> (string \<times> json) list" where
  "spans_field D ss = [(''spans'', JArr (map (span_json D) ss))]"

definition strings_json :: "string list \<Rightarrow> json" where
  "strings_json ss = JArr (map JStr ss)"

text \<open>The tag of a record and its content.\<close>

fun telemetry_tag :: "('t, 'l) telemetry_record \<Rightarrow> string" where
  "telemetry_tag (Function l) = ''function''"
| "telemetry_tag (ExtensionLog l) = ''extension''"
| "telemetry_tag (PlatformInitStart t p v a) = ''platform.initStart''"
| "telemetry_tag (PlatformInitRuntimeDone t p s e ss) = ''platform.initRuntimeDone''"
| "telemetry_tag (PlatformInitReport t p m ss) = ''platform.initReport''"
| "telemetry_tag (PlatformStart r v c) = ''platform.start''"
| "telemetry_tag (PlatformRuntimeDone r s e m ss c) = ''platform.runtimeDone''"
| "telemetry_tag (PlatformReport r s e m ss c) = ''platform.report''"
| "telemetry_tag (PlatformExtension n s es) = ''platform.extension''"
| "telemetry_tag (PlatformTelemetrySubscription n s ts) = ''platform.telemetrySubscription''"
| "telemetry_tag (PlatformLogsDropped r n b) = ''platform.logsDropped''"

fun telemetry_content :: "'t date_time \<Rightarrow> ('l \<Rightarrow> json) \<Rightarrow> ('t, 'l) telemetry_record \<Rightarrow> json" where
  "telemetry_content D f (Function l) = f l"
| "telemetry_content D f (ExtensionLog l) = f l"
| "telemetry_content D f (PlatformInitStart t p v a) =
     JObj ([(''initializationType'', JStr (init_type_name t)), (''phase'', JStr (init_phase_name p))] @
           opt_field ''runtimeVersion'' JStr v @ opt_field ''runtimeVersionArn'' JStr a)"
| "telemetry_content D f (PlatformInitRuntimeDone t p s e ss) =
     JObj ([(''initializationType'', JStr (init_type_name t))] @
           opt_field ''phase'' (\<lambda>p. JStr (init_phase_name p)) p @ [(''status'', JStr (status_name s))] @
           opt_field ''errorType'' JStr e @ spans_field D ss)"
| "telemetry_content D f (PlatformInitReport t p m ss) =
     JObj ([(''initializationType'', JStr (init_type_name t)), (''phase'', JStr (init_phase_name p)),
            (''metrics'', init_report_metrics_json m)] @ spans_field D ss)"
| "telemetry_content D f (PlatformStart r v c) =
     JObj ([(''requestId'', JStr r)] @ opt_field ''version'' JStr v @ opt_field ''tracing'' trace_context_json c)"
| "telemetry_content D f (PlatformRuntimeDone r s e m ss c) =
     JObj ([(''requestId'', JStr r), (''status'', JStr (status_name s))] @ opt_field ''errorType'' JStr e @
           opt_field ''metrics'' runtime_done_metrics_json m @ spans_field D ss @
           opt_field ''tracing'' trace_context_json c)"
| "telemetry_content D f (PlatformReport r s e m ss c) =
     JObj ([(''requestId'', JStr r), (''status'', JStr (status_name s))] @ opt_field ''errorType'' JStr e @
           [(''metrics'', report_metrics_json m)] @ spans_field D ss @ opt_field ''tracing'' trace_context_json c)"
| "telemetry_content D f (PlatformExtension n s es) =
     JObj [(''name'', JStr n), (''state'', JStr s), (''events'', strings_json es)]"
| "telemetry_content D f (PlatformTelemetrySubscription n s ts) =
     JObj [(''name'', JStr n), (''state'', JStr s), (''types'', strings_json ts)]"
| "telemetry_content D f (PlatformLogsDropped r n b) =
     JObj [(''reason'', JStr r), (''droppedRecords'', json_of_nat n), (''droppedBytes'', json_of_nat b)]"

definition lambda_telemetry_json :: "'t date_time \<Rightarrow> ('l \<Rightarrow> json) \<Rightarrow> ('t, 'l) lambda_telemetry \<Rightarrow> json" where
  "lambda_telemetry_json D f x =
     JObj [(''time'', JStr (dt_show D (lt_time x))), (''type'', JStr (telemetry_tag (lt_record x))),
           (''record'', telemetry_content D f (lt_record x))]"

text \<open>
  Reading: the variant is the one with the tag, its fields those of the content; a missing
  \<^verbatim>\<open>spans\<close> is the empty list.
\<close>

definition de_spans :: "'t date_time \<Rightarrow> (string \<times> json) list \<Rightarrow> 't span list option" where
  "de_spans D kvs = de_default (de_list (span_of_json D)) [] [''spans''] kvs"

definition telemetry_of_content ::
  "'t date_time \<Rightarrow> (json \<Rightarrow> 'l option) \<Rightarrow> string \<Rightarrow> json \<Rightarrow> ('t, 'l) telemetry_record option" where
  "telemetry_of_content D g tag j =
     (if tag = ''function'' then map_option Function (g j)
      else if tag = ''extension'' then map_option ExtensionLog (g j)
      else if tag = ''platform.initStart'' then do {
        kvs \<leftarrow> de_fields 4 [''initializationType'', ''phase'', ''runtimeVersion'', ''runtimeVersionArn''] j;
        t \<leftarrow> de_required de_init_type [''initializationType''] kvs;
        p \<leftarrow> de_required de_init_phase [''phase''] kvs;
        v \<leftarrow> de_optional de_string [''runtimeVersion''] kvs;
        a \<leftarrow> de_optional de_string [''runtimeVersionArn''] kvs;
        Some (PlatformInitStart t p v a) }
      else if tag = ''platform.initRuntimeDone'' then do {
        kvs \<leftarrow> de_fields 4 [''initializationType'', ''phase'', ''status'', ''errorType'', ''spans''] j;
        t \<leftarrow> de_required de_init_type [''initializationType''] kvs;
        p \<leftarrow> de_optional de_init_phase [''phase''] kvs;
        s \<leftarrow> de_required de_status [''status''] kvs;
        e \<leftarrow> de_optional de_string [''errorType''] kvs;
        ss \<leftarrow> de_spans D kvs;
        Some (PlatformInitRuntimeDone t p s e ss) }
      else if tag = ''platform.initReport'' then do {
        kvs \<leftarrow> de_fields 3 [''initializationType'', ''phase'', ''metrics'', ''spans''] j;
        t \<leftarrow> de_required de_init_type [''initializationType''] kvs;
        p \<leftarrow> de_required de_init_phase [''phase''] kvs;
        m \<leftarrow> de_required init_report_metrics_of_json [''metrics''] kvs;
        ss \<leftarrow> de_spans D kvs;
        Some (PlatformInitReport t p m ss) }
      else if tag = ''platform.start'' then do {
        kvs \<leftarrow> de_fields 3 [''requestId'', ''version'', ''tracing''] j;
        r \<leftarrow> de_required de_string [''requestId''] kvs;
        v \<leftarrow> de_optional de_string [''version''] kvs;
        c \<leftarrow> de_optional trace_context_of_json [''tracing''] kvs;
        Some (PlatformStart r v c) }
      else if tag = ''platform.runtimeDone'' then do {
        kvs \<leftarrow> de_fields 6 [''requestId'', ''status'', ''errorType'', ''metrics'', ''spans'', ''tracing''] j;
        r \<leftarrow> de_required de_string [''requestId''] kvs;
        s \<leftarrow> de_required de_status [''status''] kvs;
        e \<leftarrow> de_optional de_string [''errorType''] kvs;
        m \<leftarrow> de_optional runtime_done_metrics_of_json [''metrics''] kvs;
        ss \<leftarrow> de_spans D kvs;
        c \<leftarrow> de_optional trace_context_of_json [''tracing''] kvs;
        Some (PlatformRuntimeDone r s e m ss c) }
      else if tag = ''platform.report'' then do {
        kvs \<leftarrow> de_fields 6 [''requestId'', ''status'', ''errorType'', ''metrics'', ''spans'', ''tracing''] j;
        r \<leftarrow> de_required de_string [''requestId''] kvs;
        s \<leftarrow> de_required de_status [''status''] kvs;
        e \<leftarrow> de_optional de_string [''errorType''] kvs;
        m \<leftarrow> de_required report_metrics_of_json [''metrics''] kvs;
        ss \<leftarrow> de_spans D kvs;
        c \<leftarrow> de_optional trace_context_of_json [''tracing''] kvs;
        Some (PlatformReport r s e m ss c) }
      else if tag = ''platform.extension'' then do {
        kvs \<leftarrow> de_fields 3 [''name'', ''state'', ''events''] j;
        n \<leftarrow> de_required de_string [''name''] kvs;
        s \<leftarrow> de_required de_string [''state''] kvs;
        es \<leftarrow> de_required (de_list de_string) [''events''] kvs;
        Some (PlatformExtension n s es) }
      else if tag = ''platform.telemetrySubscription'' then do {
        kvs \<leftarrow> de_fields 3 [''name'', ''state'', ''types''] j;
        n \<leftarrow> de_required de_string [''name''] kvs;
        s \<leftarrow> de_required de_string [''state''] kvs;
        ts \<leftarrow> de_required (de_list de_string) [''types''] kvs;
        Some (PlatformTelemetrySubscription n s ts) }
      else if tag = ''platform.logsDropped'' then do {
        kvs \<leftarrow> de_fields 3 [''reason'', ''droppedRecords'', ''droppedBytes''] j;
        r \<leftarrow> de_required de_string [''reason''] kvs;
        n \<leftarrow> de_required de_u64 [''droppedRecords''] kvs;
        b \<leftarrow> de_required de_u64 [''droppedBytes''] kvs;
        Some (PlatformLogsDropped r n b) }
      else None)"

definition lambda_telemetry_of_json ::
  "'t date_time \<Rightarrow> (json \<Rightarrow> 'l option) \<Rightarrow> json \<Rightarrow> ('t, 'l) lambda_telemetry option" where
  "lambda_telemetry_of_json D g j =
     (case j of
        JObj kvs \<Rightarrow> do {
          t \<leftarrow> de_required (de_time D) [''time''] kvs;
          tag \<leftarrow> de_required de_string [''type''] kvs;
          r \<leftarrow> de_required (telemetry_of_content D g tag) [''record''] kvs;
          Some \<lparr>lt_time = t, lt_record = r\<rparr> }
      | _ \<Rightarrow> None)"

text \<open>The 64-bit fields are in range.\<close>

fun telemetry_in_range :: "('t, 'l) telemetry_record \<Rightarrow> bool" where
  "telemetry_in_range (PlatformRuntimeDone r s e m ss c) \<longleftrightarrow>
     (case m of Some m \<Rightarrow> (case rdm_produced_bytes m of Some n \<Rightarrow> n \<le> u64_max | None \<Rightarrow> True) | None \<Rightarrow> True)"
| "telemetry_in_range (PlatformReport r s e m ss c) \<longleftrightarrow>
     rm_billed_duration_ms m \<le> u64_max \<and> rm_memory_size_mb m \<le> u64_max \<and> rm_max_memory_used_mb m \<le> u64_max"
| "telemetry_in_range (PlatformLogsDropped r n b) \<longleftrightarrow> n \<le> u64_max \<and> b \<le> u64_max"
| "telemetry_in_range _ \<longleftrightarrow> True"

text \<open>
  What a written record is read back as. A float that is not finite is written as null: a record with
  such a float in a required field is not read at all, an optional duration is read as none.
\<close>

definition span_finite :: "'t span \<Rightarrow> bool" where
  "span_finite s \<longleftrightarrow> f64_finite (sp_duration_ms s)"

definition finite_or_none :: "f64 option \<Rightarrow> f64 option" where
  "finite_or_none d = (case d of Some x \<Rightarrow> if f64_finite x then Some x else None | None \<Rightarrow> None)"

definition finite_metrics :: "report_metrics \<Rightarrow> report_metrics" where
  "finite_metrics m = m\<lparr>rm_init_duration_ms := finite_or_none (rm_init_duration_ms m),
     rm_restore_duration_ms := finite_or_none (rm_restore_duration_ms m)\<rparr>"

fun telemetry_reread :: "('t, 'l) telemetry_record \<Rightarrow> ('t, 'l) telemetry_record option" where
  "telemetry_reread (PlatformInitRuntimeDone t p s e ss) =
     (if list_all span_finite ss then Some (PlatformInitRuntimeDone t p s e ss) else None)"
| "telemetry_reread (PlatformInitReport t p m ss) =
     (if f64_finite m \<and> list_all span_finite ss then Some (PlatformInitReport t p m ss) else None)"
| "telemetry_reread (PlatformRuntimeDone r s e m ss c) =
     (if (case m of Some m \<Rightarrow> f64_finite (rdm_duration_ms m) | None \<Rightarrow> True) \<and> list_all span_finite ss
      then Some (PlatformRuntimeDone r s e m ss c) else None)"
| "telemetry_reread (PlatformReport r s e m ss c) =
     (if f64_finite (rm_duration_ms m) \<and> list_all span_finite ss
      then Some (PlatformReport r s e (finite_metrics m) ss c) else None)"
| "telemetry_reread r = Some r"

text \<open>All floats of a record are finite.\<close>

fun telemetry_finite :: "('t, 'l) telemetry_record \<Rightarrow> bool" where
  "telemetry_finite (PlatformInitRuntimeDone t p s e ss) \<longleftrightarrow> list_all span_finite ss"
| "telemetry_finite (PlatformInitReport t p m ss) \<longleftrightarrow> f64_finite m \<and> list_all span_finite ss"
| "telemetry_finite (PlatformRuntimeDone r s e m ss c) \<longleftrightarrow>
     (case m of Some m \<Rightarrow> f64_finite (rdm_duration_ms m) | None \<Rightarrow> True) \<and> list_all span_finite ss"
| "telemetry_finite (PlatformReport r s e m ss c) \<longleftrightarrow>
     f64_finite (rm_duration_ms m) \<and> finite_metrics m = m \<and> list_all span_finite ss"
| "telemetry_finite _ \<longleftrightarrow> True"

lemma telemetry_finite_reread: "telemetry_finite r \<Longrightarrow> telemetry_reread r = Some r"
  by (cases r) simp_all

subsection \<open>Round trips\<close>

lemma de_init_type_inverse [simp]: "de_init_type (JStr (init_type_name t)) = Some t"
  by (cases t) (simp_all add: de_init_type_def de_variant_def)

lemma de_init_phase_inverse [simp]: "de_init_phase (JStr (init_phase_name p)) = Some p"
  by (cases p) (simp_all add: de_init_phase_def de_variant_def)

lemma de_status_inverse [simp]: "de_status (JStr (status_name s)) = Some s"
  by (cases s) (simp_all add: de_status_def de_variant_def)

lemma de_tracing_type_inverse [simp]: "de_tracing_type (JStr (tracing_type_name t)) = Some t"
  by (cases t) (simp add: de_tracing_type_def de_variant_def)

lemma de_u64_inverse [simp]: "n \<le> u64_max \<Longrightarrow> de_u64 (json_of_nat n) = Some n"
  by (simp add: json_of_nat_def)

lemma json_not_null [simp]:
  "json_of_nat n \<noteq> JNull" "trace_context_json c \<noteq> JNull"
  "runtime_done_metrics_json m \<noteq> JNull"
  by (simp_all add: json_of_nat_def trace_context_json_def runtime_done_metrics_json_def)

lemma trace_context_inverse [simp]: "trace_context_of_json (trace_context_json c) = Some c"
  by (cases "tc_span_id c") (simp_all add: trace_context_of_json_def trace_context_json_def de_fields_def
      de_required_def de_optional_def)

lemma init_report_metrics_inverse [simp]:
  "init_report_metrics_of_json (init_report_metrics_json d) = (if f64_finite d then Some d else None)"
  by (simp add: init_report_metrics_of_json_def init_report_metrics_json_def de_fields_def de_required_def)

lemma report_metrics_inverse [simp]:
  "rm_billed_duration_ms m \<le> u64_max \<Longrightarrow> rm_memory_size_mb m \<le> u64_max \<Longrightarrow> rm_max_memory_used_mb m \<le> u64_max \<Longrightarrow>
     report_metrics_of_json (report_metrics_json m) =
       (if f64_finite (rm_duration_ms m) then Some (finite_metrics m) else None)"
  by (cases "rm_init_duration_ms m"; cases "rm_restore_duration_ms m")
    (simp_all add: report_metrics_of_json_def report_metrics_json_def de_fields_def de_required_def de_optional_def
      finite_metrics_def finite_or_none_def json_of_f64_null)

lemma runtime_done_metrics_inverse [simp]:
  "(case rdm_produced_bytes m of Some n \<Rightarrow> n \<le> u64_max | None \<Rightarrow> True) \<Longrightarrow>
     runtime_done_metrics_of_json (runtime_done_metrics_json m) = (if f64_finite (rdm_duration_ms m) then Some m else None)"
  by (cases "rdm_produced_bytes m")
    (simp_all add: runtime_done_metrics_of_json_def runtime_done_metrics_json_def de_fields_def
      de_required_def de_optional_def)

lemma strings_inverse [simp]: "de_list de_string (strings_json ss) = Some ss"
  by (simp add: strings_json_def)

lemma span_inverse:
  assumes "\<And>t. dt_parse D (dt_show D t) = Some t"
  shows "span_of_json D (span_json D s) = (if span_finite s then Some s else None)"
  by (simp add: span_of_json_def span_json_def span_finite_def de_fields_def de_required_def de_time_def assms)

lemma spans_inverse:
  assumes "\<And>t. dt_parse D (dt_show D t) = Some t"
  shows "de_list (span_of_json D) (JArr (map (span_json D) ss)) = (if list_all span_finite ss then Some ss else None)"
  unfolding de_list_def json.simps by (induction ss) (simp_all add: span_inverse [OF assms])

lemma telemetry_content_inverse:
  assumes D: "\<And>t. dt_parse D (dt_show D t) = Some t" and g: "\<And>l. g (f l) = Some l"
    and "telemetry_in_range r"
  shows "telemetry_of_content D g (telemetry_tag r) (telemetry_content D f r) = telemetry_reread r"
proof (cases r)
  case (PlatformRuntimeDone rid s e m ss c)
  then have "m = None \<or> (\<exists>m'. m = Some m' \<and> runtime_done_metrics_of_json (runtime_done_metrics_json m') =
      (if f64_finite (rdm_duration_ms m') then Some m' else None))"
    using assms(3) by (cases m) auto
  then show ?thesis
    using PlatformRuntimeDone
    by (cases e; cases c; cases m) (auto simp: telemetry_of_content_def de_fields_def de_required_def
        de_optional_def de_default_def de_spans_def spans_field_def spans_inverse [OF D])
qed (use assms(3) in \<open>auto simp: telemetry_of_content_def de_fields_def de_required_def g
      de_optional_def de_default_def de_spans_def spans_field_def spans_inverse [OF D] split: option.splits\<close>)

subsection \<open>Log records\<close>

record log_report_metrics =
  lm_duration_ms :: f64
  lm_billed_duration_ms :: nat
  lm_memory_size_mb :: nat
  lm_max_memory_used_mb :: nat
  lm_init_duration_ms :: "f64 option"

datatype log_record =
    LogFunction string
  | LogExtension string
  | LogPlatformStart string
  | LogPlatformEnd string
  | LogPlatformReport string log_report_metrics
  | LogPlatformFault string
  | LogPlatformExtension string string "string list"
  | LogPlatformLogsSubscription string string "string list"
  | LogPlatformLogsDropped string nat nat
  | LogPlatformRuntimeDone string string

record 't lambda_log =
  ll_time :: 't
  ll_record :: log_record

definition log_report_metrics_of_json :: "json \<Rightarrow> log_report_metrics option" where
  "log_report_metrics_of_json j = do {
     kvs \<leftarrow> de_fields 4 [''durationMs'', ''billedDurationMs'', ''memorySizeMB'', ''maxMemoryUsedMB'',
                        ''initDurationMs''] j;
     d \<leftarrow> de_required de_f64 [''durationMs''] kvs;
     b \<leftarrow> de_required de_u64 [''billedDurationMs''] kvs;
     m \<leftarrow> de_required de_u64 [''memorySizeMB''] kvs;
     x \<leftarrow> de_required de_u64 [''maxMemoryUsedMB''] kvs;
     i \<leftarrow> de_optional de_f64 [''initDurationMs''] kvs;
     Some \<lparr>lm_duration_ms = d, lm_billed_duration_ms = b, lm_memory_size_mb = m,
           lm_max_memory_used_mb = x, lm_init_duration_ms = i\<rparr> }"

definition log_request_id :: "json \<Rightarrow> string option" where
  "log_request_id j = Option.bind (de_fields 1 [''requestId''] j) (de_required de_string [''requestId''])"

definition log_of_content :: "string \<Rightarrow> json \<Rightarrow> log_record option" where
  "log_of_content tag j =
     (if tag = ''function'' then map_option LogFunction (de_string j)
      else if tag = ''extension'' then map_option LogExtension (de_string j)
      else if tag = ''platform.start'' then map_option LogPlatformStart (log_request_id j)
      else if tag = ''platform.end'' then map_option LogPlatformEnd (log_request_id j)
      else if tag = ''platform.report'' then do {
        kvs \<leftarrow> de_fields 2 [''requestId'', ''metrics''] j;
        r \<leftarrow> de_required de_string [''requestId''] kvs;
        m \<leftarrow> de_required log_report_metrics_of_json [''metrics''] kvs;
        Some (LogPlatformReport r m) }
      else if tag = ''platform.fault'' then map_option LogPlatformFault (de_string j)
      else if tag = ''platform.extension'' then do {
        kvs \<leftarrow> de_fields 3 [''name'', ''state'', ''events''] j;
        n \<leftarrow> de_required de_string [''name''] kvs;
        s \<leftarrow> de_required de_string [''state''] kvs;
        es \<leftarrow> de_required (de_list de_string) [''events''] kvs;
        Some (LogPlatformExtension n s es) }
      else if tag = ''platform.logsSubscription'' then do {
        kvs \<leftarrow> de_fields 3 [''name'', ''state'', ''types''] j;
        n \<leftarrow> de_required de_string [''name''] kvs;
        s \<leftarrow> de_required de_string [''state''] kvs;
        ts \<leftarrow> de_required (de_list de_string) [''types''] kvs;
        Some (LogPlatformLogsSubscription n s ts) }
      else if tag = ''platform.logsDropped'' then do {
        kvs \<leftarrow> de_fields 3 [''reason'', ''droppedRecords'', ''droppedBytes''] j;
        r \<leftarrow> de_required de_string [''reason''] kvs;
        n \<leftarrow> de_required de_u64 [''droppedRecords''] kvs;
        b \<leftarrow> de_required de_u64 [''droppedBytes''] kvs;
        Some (LogPlatformLogsDropped r n b) }
      else if tag = ''platform.runtimeDone'' then do {
        kvs \<leftarrow> de_fields 2 [''requestId'', ''status''] j;
        r \<leftarrow> de_required de_string [''requestId''] kvs;
        s \<leftarrow> de_required de_string [''status''] kvs;
        Some (LogPlatformRuntimeDone r s) }
      else None)"

definition lambda_log_of_json :: "'t date_time \<Rightarrow> json \<Rightarrow> 't lambda_log option" where
  "lambda_log_of_json D j =
     (case j of
        JObj kvs \<Rightarrow> do {
          t \<leftarrow> de_required (de_time D) [''time''] kvs;
          tag \<leftarrow> de_required de_string [''type''] kvs;
          r \<leftarrow> de_required (log_of_content tag) [''record''] kvs;
          Some \<lparr>ll_time = t, ll_record = r\<rparr> }
      | _ \<Rightarrow> None)"

text \<open>
  An entry of the Telemetry API about functions, extensions or dropped records reads the same as
  one of the Logs API.
\<close>

lemma log_reads_telemetry:
  "log_of_content tag j = Some (LogFunction l) \<longleftrightarrow> telemetry_of_content D de_string tag j = Some (Function l)"
  "log_of_content tag j = Some (LogExtension l) \<longleftrightarrow> telemetry_of_content D de_string tag j = Some (ExtensionLog l)"
  by (auto simp: log_of_content_def telemetry_of_content_def bind_eq_Some_conv split: if_splits)

subsection \<open>Properties\<close>

text \<open>
  C37: what a telemetry entry is written to is read back as the same entry, for every kind of record
  whose floats are finite, when the text of the written value is read as that value (what
  \<^verbatim>\<open>serde_json\<close> promises for floats only with its feature
  \<^verbatim>\<open>float_roundtrip\<close>), printed times are parsed back and the user's log entries are read
  back. A NaN or infinite duration is written as null: in a required field it makes the entry unreadable,
  an optional one is read as none.
\<close>

theorem telemetry_roundtrip:
  assumes "\<And>t. dt_parse D (dt_show D t) = Some t" and "\<And>l. g (f l) = Some l"
    and "telemetry_in_range (lt_record x)"
    and "parse (print (lambda_telemetry_json D f x)) = Some (lambda_telemetry_json D f x)"
  shows "(telemetry_finite (lt_record x) \<longrightarrow>
      Option.bind (parse (print (lambda_telemetry_json D f x))) (lambda_telemetry_of_json D g) = Some x) \<and>
    Option.bind (parse (print (lambda_telemetry_json D f x))) (lambda_telemetry_of_json D g) =
      map_option (\<lambda>r. x\<lparr>lt_record := r\<rparr>) (telemetry_reread (lt_record x))"
proof -
  have "lambda_telemetry_of_json D g (lambda_telemetry_json D f x) = map_option (\<lambda>r. x\<lparr>lt_record := r\<rparr>) (telemetry_reread (lt_record x))"
    using telemetry_content_inverse [where D = D and g = g and f = f, OF assms(1-3)]
    by (cases "telemetry_reread (lt_record x)")
      (simp_all add: lambda_telemetry_of_json_def lambda_telemetry_json_def de_required_def de_time_def assms(1))
  then show ?thesis
    using telemetry_finite_reread [of "lt_record x"] assms(4) by auto
qed

definition example_telemetry :: "f64 \<Rightarrow> (string, string) lambda_telemetry" where
  "example_telemetry d =
     \<lparr>lt_time = ''2022-10-21T14:05:05.764Z'',
      lt_record = PlatformRuntimeDone ''459921b5'' StatusTimeout None
        (Some \<lparr>rdm_duration_ms = d, rdm_produced_bytes = Some 8\<rparr>) [] None\<rparr>"

theorem telemetry_roundtrip_witness:
  "let D = \<lparr>dt_show = (\<lambda>t. t), dt_parse = Some\<rparr>;
       json = lambda_telemetry_json D JStr;
       parse = map_of [(''finite'', json (example_telemetry (Finite 5195 1))), (''nan'', json (example_telemetry NaN))];
       print = (\<lambda>j. if j = json (example_telemetry NaN) then ''nan'' else ''finite'')
   in Option.bind (parse (print (json (example_telemetry (Finite 5195 1))))) (lambda_telemetry_of_json D de_string) =
        Some (example_telemetry (Finite 5195 1)) \<and>
      Option.bind (parse (print (json (example_telemetry NaN)))) (lambda_telemetry_of_json D de_string) = None"
proof -
  let ?D = "\<lparr>dt_show = (\<lambda>t. t), dt_parse = Some\<rparr>"
  let ?json = "lambda_telemetry_json ?D JStr"
  let ?parse = "map_of [(''finite'', ?json (example_telemetry (Finite 5195 1))), (''nan'', ?json (example_telemetry NaN))]"
  let ?print = "\<lambda>j. if j = ?json (example_telemetry NaN) then ''nan'' else ''finite''"
  have diff: "?json (example_telemetry (Finite 5195 1)) \<noteq> ?json (example_telemetry NaN)"
    by (simp add: lambda_telemetry_json_def example_telemetry_def runtime_done_metrics_json_def json_of_f64_def)
  have "Option.bind (?parse (?print (?json (example_telemetry (Finite 5195 1))))) (lambda_telemetry_of_json ?D de_string) =
        Some (example_telemetry (Finite 5195 1))"
    by (rule conjunct1 [OF telemetry_roundtrip, THEN mp])
      (use diff in \<open>simp_all add: example_telemetry_def u64_max_def\<close>)
  moreover have "Option.bind (?parse (?print (?json (example_telemetry NaN)))) (lambda_telemetry_of_json ?D de_string) = None"
    by (rule trans [OF conjunct2 [OF telemetry_roundtrip]])
      (use diff in \<open>simp_all add: example_telemetry_def u64_max_def\<close>)
  ultimately show ?thesis unfolding Let_def by (rule conjI)
qed

end
