(* ===== verification/Extension.thy ===== *)
theory Extension
  imports Layers Telemetry
begin

text \<open>
  The crate \<^verbatim>\<open>lambda-extension\<close>: the requests an extension sends
  (\<^verbatim>\<open>requests.rs\<close>), the buffering configuration and the servers that take log and
  telemetry deliveries (\<^verbatim>\<open>logs.rs\<close>, \<^verbatim>\<open>telemetry.rs\<close>), the events
  (\<^verbatim>\<open>events.rs\<close>), and registering and running an extension
  (\<^verbatim>\<open>extension.rs\<close>).
\<close>

definition extension_error :: "string \<Rightarrow> box_error" where
  "extension_error s = BoxError s"

subsection \<open>Buffering\<close>

record log_buffering =
  lb_timeout_ms :: nat
  lb_max_bytes :: nat
  lb_max_items :: nat

definition log_buffering_default :: log_buffering where
  "log_buffering_default = \<lparr>lb_timeout_ms = 1000, lb_max_bytes = 262144, lb_max_items = 10000\<rparr>"

definition buffering_error :: "string \<Rightarrow> nat \<Rightarrow> nat \<Rightarrow> nat \<Rightarrow> box_error" where
  "buffering_error what v lo hi =
     extension_error (''LogBuffering validation error: Invalid '' @ what @ '': '' @ show_nat v @
       ''. Allowed values: Minumun: '' @ show_nat lo @ ''. Maximum: '' @ show_nat hi)"

definition log_buffering_validate :: "log_buffering \<Rightarrow> (box_error, unit) result" where
  "log_buffering_validate b =
     (if lb_timeout_ms b < 25 \<or> lb_timeout_ms b > 30000
      then Err (buffering_error ''timeout_ms'' (lb_timeout_ms b) 25 30000)
      else if lb_max_bytes b < 262144 \<or> lb_max_bytes b > 1048576
      then Err (buffering_error ''max_bytes'' (lb_max_bytes b) 262144 1048576)
      else if lb_max_items b < 1000 \<or> lb_max_items b > 10000
      then Err (buffering_error ''max_items'' (lb_max_items b) 1000 10000)
      else Ok ())"

definition validate_buffering_configuration :: "log_buffering option \<Rightarrow> (box_error, unit) result" where
  "validate_buffering_configuration b =
     (case b of Some b \<Rightarrow> log_buffering_validate b | None \<Rightarrow> Ok ())"

definition log_buffering_json :: "log_buffering \<Rightarrow> json" where
  "log_buffering_json b =
     JObj [(''timeoutMs'', json_of_nat (lb_timeout_ms b)), (''maxBytes'', json_of_nat (lb_max_bytes b)),
           (''maxItems'', json_of_nat (lb_max_items b))]"

subsection \<open>Requests\<close>

definition extension_next_req :: "'h crates \<Rightarrow> string \<Rightarrow> string \<Rightarrow> 'h builder" where
  "extension_next_req C ua extension_id =
     rb_body [] (rb_uri_str C ''/2020-01-01/extension/event/next''
       (rb_header C ''Lambda-Extension-Identifier'' extension_id
         (rb_method ''GET'' (build_request C ua))))"

definition register_req :: "'h crates \<Rightarrow> string \<Rightarrow> string \<Rightarrow> string list \<Rightarrow> 'h builder" where
  "register_req C ua extension_name events =
     rb_body [cr_json_text C (JObj [(''events'', strings_json events)])]
       (rb_header C ''Content-Type'' ''application/json''
         (rb_header C ''Lambda-Extension-Accept-Feature'' ''accountId''
           (rb_header C ''Lambda-Extension-Name'' extension_name
             (rb_uri_str C ''/2020-01-01/extension/register''
               (rb_method ''POST'' (build_request C ua))))))"

datatype api_kind = LogsApi | TelemetryApi

fun schema_version :: "api_kind \<Rightarrow> string" where
  "schema_version LogsApi = ''2021-03-18''"
| "schema_version TelemetryApi = ''2022-07-01''"

fun api_uri :: "api_kind \<Rightarrow> string" where
  "api_uri LogsApi = ''/2020-08-15/logs''"
| "api_uri TelemetryApi = ''/2022-07-01/telemetry''"

definition subscribe_json :: "api_kind \<Rightarrow> string list option \<Rightarrow> log_buffering option \<Rightarrow> nat \<Rightarrow> json" where
  "subscribe_json api types buffering port_number =
     (let types = (case types of Some ts \<Rightarrow> ts | None \<Rightarrow> [''platform'', ''function'']) in
      JObj [(''schemaVersion'', JStr (schema_version api)), (''types'', strings_json types),
            (''buffering'', log_buffering_json
               (case buffering of Some b \<Rightarrow> b | None \<Rightarrow> log_buffering_default)),
            (''destination'',
               JObj [(''protocol'', JStr ''HTTP''),
                     (''URI'', JStr (''http://sandbox.localdomain:'' @ show_nat port_number))])])"

definition subscribe_req ::
  "'h crates \<Rightarrow> string \<Rightarrow> api_kind \<Rightarrow> string \<Rightarrow> string list option \<Rightarrow> log_buffering option \<Rightarrow> nat \<Rightarrow> 'h builder"
  where
  "subscribe_req C ua api extension_id types buffering port_number =
     rb_body [cr_json_text C (subscribe_json api types buffering port_number)]
       (rb_header C ''Content-Type'' ''application/json''
         (rb_header C ''Lambda-Extension-Identifier'' extension_id
           (rb_uri_str C (api_uri api) (rb_method ''PUT'' (build_request C ua)))))"

record error_request =
  er_error_message :: string
  er_error_type :: string
  er_stack_trace :: "string list"

definition error_request_json :: "error_request \<Rightarrow> json" where
  "error_request_json e =
     JObj [(''errorMessage'', JStr (er_error_message e)), (''errorType'', JStr (er_error_type e)),
           (''stackTrace'', strings_json (er_stack_trace e))]"

definition error_req ::
  "'h crates \<Rightarrow> string \<Rightarrow> string \<Rightarrow> string \<Rightarrow> string \<Rightarrow> error_request option \<Rightarrow> 'h builder" where
  "error_req C ua error_kind extension_id error_str request =
     (let body = (case request of None \<Rightarrow> [] | Some err \<Rightarrow> [cr_json_text C (error_request_json err)]) in
      rb_body body
        (rb_header C ''Lambda-Extension-Function-Error-Type'' error_str
          (rb_header C ''Lambda-Extension-Identifier'' extension_id
            (rb_uri_str C (''/2020-01-01/extension/'' @ error_kind @ ''/error'')
              (rb_method ''POST'' (build_request C ua))))))"

definition extension_init_error :: "'h crates \<Rightarrow> string \<Rightarrow> string \<Rightarrow> string \<Rightarrow> error_request option \<Rightarrow> 'h builder" where
  "extension_init_error C ua extension_id error_kind request =
     error_req C ua ''init'' extension_id error_kind request"

definition extension_exit_error :: "'h crates \<Rightarrow> string \<Rightarrow> string \<Rightarrow> string \<Rightarrow> error_request option \<Rightarrow> 'h builder" where
  "extension_exit_error C ua extension_id error_kind request =
     error_req C ua ''exit'' extension_id error_kind request"

subsection \<open>Events\<close>

record tracing =
  tr_type :: string
  tr_value :: string

record invoke_event =
  ie_deadline_ms :: nat
  ie_request_id :: string
  ie_invoked_function_arn :: string
  ie_tracing :: tracing

record shutdown_event =
  se_shutdown_reason :: string
  se_deadline_ms :: nat

datatype next_event = Invoke invoke_event | Shutdown shutdown_event

fun is_invoke :: "next_event \<Rightarrow> bool" where
  "is_invoke (Invoke e) \<longleftrightarrow> True"
| "is_invoke (Shutdown e) \<longleftrightarrow> False"

definition tracing_of_json :: "json \<Rightarrow> tracing option" where
  "tracing_of_json j = do {
     kvs \<leftarrow> de_fields 2 [''type'', ''value''] j;
     t \<leftarrow> de_required de_string [''type''] kvs;
     v \<leftarrow> de_required de_string [''value''] kvs;
     Some \<lparr>tr_type = t, tr_value = v\<rparr> }"

definition invoke_event_of_json :: "json \<Rightarrow> invoke_event option" where
  "invoke_event_of_json j = do {
     kvs \<leftarrow> de_fields 3 [''deadlineMs'', ''requestId'', ''invokedFunctionArn'', ''tracing''] j;
     d \<leftarrow> de_required de_u64 [''deadlineMs''] kvs;
     r \<leftarrow> de_required de_string [''requestId''] kvs;
     a \<leftarrow> de_required de_string [''invokedFunctionArn''] kvs;
     t \<leftarrow> de_default tracing_of_json \<lparr>tr_type = [], tr_value = []\<rparr> [''tracing''] kvs;
     Some \<lparr>ie_deadline_ms = d, ie_request_id = r, ie_invoked_function_arn = a, ie_tracing = t\<rparr> }"

definition shutdown_event_of_json :: "json \<Rightarrow> shutdown_event option" where
  "shutdown_event_of_json j = do {
     kvs \<leftarrow> de_fields 2 [''shutdownReason'', ''deadlineMs''] j;
     s \<leftarrow> de_required de_string [''shutdownReason''] kvs;
     d \<leftarrow> de_required de_u64 [''deadlineMs''] kvs;
     Some \<lparr>se_shutdown_reason = s, se_deadline_ms = d\<rparr> }"

text \<open>An internally tagged enum: the tag is a field among the others, or the first element of an array.\<close>

definition tagged_content :: "string \<Rightarrow> json \<Rightarrow> (string \<times> json) option" where
  "tagged_content tag j =
     (case j of
        JObj kvs \<Rightarrow> map_option (\<lambda>t. (t, JObj (filter (\<lambda>(k, v). k \<noteq> tag) kvs))) (de_required de_string [tag] kvs)
      | JArr (JStr t # vs) \<Rightarrow> Some (t, JArr vs)
      | _ \<Rightarrow> None)"

definition next_event_of_json :: "json \<Rightarrow> next_event option" where
  "next_event_of_json j =
     (case tagged_content ''eventType'' j of
        None \<Rightarrow> None
      | Some (t, content) \<Rightarrow>
          if t = ''INVOKE'' then map_option Invoke (invoke_event_of_json content)
          else if t = ''SHUTDOWN'' then map_option Shutdown (shutdown_event_of_json content)
          else None)"

subsection \<open>Deliveries of logs and telemetry\<close>

text \<open>
  \<^verbatim>\<open>log_wrapper\<close> and \<^verbatim>\<open>telemetry_wrapper\<close>: the response's status and the
  state of the processor's service after a delivery, given what reading the request body returns.
\<close>

definition delivery ::
  "'h crates \<Rightarrow> (json \<Rightarrow> 'a option) \<Rightarrow> ('w, 'f, 'a list, box_error, unit) service
   \<Rightarrow> (box_error, string) result \<Rightarrow> ('w, box_error, nat) action" where
  "delivery C of_json service body s =
     (case body of
        Err e \<Rightarrow> (Ok 400, s)
      | Panic p \<Rightarrow> (Panic p, s)
      | Ok bytes \<Rightarrow>
          (case and_then (cr_json_parse C bytes) (\<lambda>j. ok_or (cr_bad_json C j) (de_list of_json j)) of
             Err e \<Rightarrow> (Ok 400, s)
           | Panic p \<Rightarrow> (Panic p, s)
           | Ok entries \<Rightarrow>
               (case sv_oneshot service entries s of
                  (Ok _, s1) \<Rightarrow> (Ok 200, s1)
                | (Err err, s1) \<Rightarrow> (Ok 200, s1)
                | (Panic p, s1) \<Rightarrow> (Panic p, s1))))"

definition log_wrapper ::
  "'h crates \<Rightarrow> 't date_time \<Rightarrow> ('w, 'f, 't lambda_log list, box_error, unit) service
   \<Rightarrow> (box_error, string) result \<Rightarrow> ('w, box_error, nat) action" where
  "log_wrapper C D service body = delivery C (lambda_log_of_json D) service body"

definition telemetry_wrapper ::
  "'h crates \<Rightarrow> 't date_time \<Rightarrow> (json \<Rightarrow> 'l option) \<Rightarrow> ('w, 'f, ('t, 'l) lambda_telemetry list, box_error, unit) service
   \<Rightarrow> (box_error, string) result \<Rightarrow> ('w, box_error, nat) action" where
  "telemetry_wrapper C D g service body = delivery C (lambda_telemetry_of_json D g) service body"

subsection \<open>Building an extension\<close>

record ('e, 'l, 't) extension =
  ex_extension_name :: "string option"
  ex_events :: "string list option"
  ex_events_processor :: 'e
  ex_log_types :: "string list option"
  ex_logs_processor :: "'l option"
  ex_log_buffering :: "log_buffering option"
  ex_log_port_number :: nat
  ex_telemetry_types :: "string list option"
  ex_telemetry_processor :: "'t option"
  ex_telemetry_buffering :: "log_buffering option"
  ex_telemetry_port_number :: nat

text \<open>\<open>identity\<close> is the events processor that ignores every event.\<close>

definition identity :: "('w, unit, 'req, box_error, unit) service" where
  "identity = \<lparr>sv_ready = (\<lambda>w. (Ok (), w)), sv_call = (\<lambda>req w. (Inr (), w)), sv_await = (\<lambda>_ w. (Ok (), w))\<rparr>"

definition extension_new :: "(('w, unit, 'req, box_error, unit) service, 'l, 't) extension" where
  "extension_new =
     \<lparr>ex_extension_name = None, ex_events = None, ex_events_processor = identity,
      ex_log_types = None, ex_logs_processor = None, ex_log_buffering = None, ex_log_port_number = 9002,
      ex_telemetry_types = None, ex_telemetry_processor = None, ex_telemetry_buffering = None,
      ex_telemetry_port_number = 9003\<rparr>"

definition with_extension_name :: "string \<Rightarrow> ('e, 'l, 't) extension \<Rightarrow> ('e, 'l, 't) extension" where
  "with_extension_name n x = x\<lparr>ex_extension_name := Some n\<rparr>"

definition with_events :: "string list \<Rightarrow> ('e, 'l, 't) extension \<Rightarrow> ('e, 'l, 't) extension" where
  "with_events es x = x\<lparr>ex_events := Some es\<rparr>"

definition with_events_processor :: "'n \<Rightarrow> ('e, 'l, 't) extension \<Rightarrow> ('n, 'l, 't) extension" where
  "with_events_processor ep x =
     \<lparr>ex_extension_name = ex_extension_name x, ex_events = ex_events x, ex_events_processor = ep,
      ex_log_types = ex_log_types x, ex_logs_processor = ex_logs_processor x,
      ex_log_buffering = ex_log_buffering x, ex_log_port_number = ex_log_port_number x,
      ex_telemetry_types = ex_telemetry_types x, ex_telemetry_processor = ex_telemetry_processor x,
      ex_telemetry_buffering = ex_telemetry_buffering x, ex_telemetry_port_number = ex_telemetry_port_number x\<rparr>"

definition with_logs_processor :: "'n \<Rightarrow> ('e, 'l, 't) extension \<Rightarrow> ('e, 'n, 't) extension" where
  "with_logs_processor lp x =
     \<lparr>ex_extension_name = ex_extension_name x, ex_events = ex_events x,
      ex_events_processor = ex_events_processor x,
      ex_log_types = ex_log_types x, ex_logs_processor = Some lp,
      ex_log_buffering = ex_log_buffering x, ex_log_port_number = ex_log_port_number x,
      ex_telemetry_types = ex_telemetry_types x, ex_telemetry_processor = ex_telemetry_processor x,
      ex_telemetry_buffering = ex_telemetry_buffering x, ex_telemetry_port_number = ex_telemetry_port_number x\<rparr>"

definition with_log_types :: "string list \<Rightarrow> ('e, 'l, 't) extension \<Rightarrow> ('e, 'l, 't) extension" where
  "with_log_types ts x = x\<lparr>ex_log_types := Some ts\<rparr>"

definition with_log_buffering :: "log_buffering \<Rightarrow> ('e, 'l, 't) extension \<Rightarrow> ('e, 'l, 't) extension" where
  "with_log_buffering b x = x\<lparr>ex_log_buffering := Some b\<rparr>"

definition with_log_port_number :: "nat \<Rightarrow> ('e, 'l, 't) extension \<Rightarrow> ('e, 'l, 't) extension" where
  "with_log_port_number n x = x\<lparr>ex_log_port_number := n\<rparr>"

definition with_telemetry_processor :: "'n \<Rightarrow> ('e, 'l, 't) extension \<Rightarrow> ('e, 'l, 'n) extension" where
  "with_telemetry_processor lp x =
     \<lparr>ex_extension_name = ex_extension_name x, ex_events = ex_events x,
      ex_events_processor = ex_events_processor x,
      ex_log_types = ex_log_types x, ex_logs_processor = ex_logs_processor x,
      ex_log_buffering = ex_log_buffering x, ex_log_port_number = ex_log_port_number x,
      ex_telemetry_types = ex_telemetry_types x, ex_telemetry_processor = Some lp,
      ex_telemetry_buffering = ex_telemetry_buffering x, ex_telemetry_port_number = ex_telemetry_port_number x\<rparr>"

definition with_telemetry_types :: "string list \<Rightarrow> ('e, 'l, 't) extension \<Rightarrow> ('e, 'l, 't) extension" where
  "with_telemetry_types ts x = x\<lparr>ex_telemetry_types := Some ts\<rparr>"

definition with_telemetry_buffering :: "log_buffering \<Rightarrow> ('e, 'l, 't) extension \<Rightarrow> ('e, 'l, 't) extension" where
  "with_telemetry_buffering b x = x\<lparr>ex_telemetry_buffering := Some b\<rparr>"

definition with_telemetry_port_number :: "nat \<Rightarrow> ('e, 'l, 't) extension \<Rightarrow> ('e, 'l, 't) extension" where
  "with_telemetry_port_number n x = x\<lparr>ex_telemetry_port_number := n\<rparr>"

text \<open>Another record type drops the processor that was set.\<close>

definition with_telemetry_record_type :: "('e, 'l, 't) extension \<Rightarrow> ('e, 'l, 'n) extension" where
  "with_telemetry_record_type x =
     \<lparr>ex_extension_name = ex_extension_name x, ex_events = ex_events x,
      ex_events_processor = ex_events_processor x,
      ex_log_types = ex_log_types x, ex_logs_processor = ex_logs_processor x,
      ex_log_buffering = ex_log_buffering x, ex_log_port_number = ex_log_port_number x,
      ex_telemetry_types = ex_telemetry_types x, ex_telemetry_processor = None,
      ex_telemetry_buffering = ex_telemetry_buffering x, ex_telemetry_port_number = ex_telemetry_port_number x\<rparr>"

subsection \<open>Registering\<close>

text \<open>
  The state: what the processors and the client act on, and the servers started to take
  deliveries, each with its port.
\<close>

record 'w extension_world =
  ew_world :: 'w
  ew_servers :: "(api_kind \<times> nat) list"

definition on_world :: "('w, 'e, 'a) action \<Rightarrow> ('w extension_world, 'e, 'a) action" where
  "on_world m s = (case m (ew_world s) of (r, w) \<Rightarrow> (r, s\<lparr>ew_world := w\<rparr>))"

definition start_server :: "api_kind \<Rightarrow> nat \<Rightarrow> ('w extension_world, 'e, unit) action" where
  "start_server api port s = (Ok (), s\<lparr>ew_servers := ew_servers s @ [(api, port)]\<rparr>)"

text \<open>
  \<^verbatim>\<open>PathBuf::file_name\<close>: the last component unless it is a parent reference; empty and
  \<^verbatim>\<open>.\<close> components do not count.
\<close>

definition file_name :: "string \<Rightarrow> string option" where
  "file_name p =
     (let parts = filter (\<lambda>c. c \<noteq> [] \<and> c \<noteq> ''.'') (split_on (CHR ''/'') p) in
      if parts = [] \<or> last parts = ''..'' then None else Some (last parts))"

definition extension_name_of :: "string list \<Rightarrow> string option \<Rightarrow> (box_error, string) result" where
  "extension_name_of args name =
     (case name of
        Some name \<Rightarrow> Ok name
      | None \<Rightarrow>
          (case args of
             [] \<Rightarrow> Panic (PString ''index out of bounds: the len is 0 but the index is 0'')
           | arg0 # _ \<Rightarrow> expect_some ''unexpected executable name'' (file_name arg0)))"

record register_response_body =
  rb_function_name :: string
  rb_function_version :: string
  rb_handler :: string
  rb_account_id :: "string option"

definition register_response_body_of_json :: "json \<Rightarrow> register_response_body option" where
  "register_response_body_of_json j = do {
     kvs \<leftarrow> de_fields 4 [''functionName'', ''functionVersion'', ''handler'', ''accountId''] j;
     f \<leftarrow> de_required de_string [''functionName''] kvs;
     v \<leftarrow> de_required de_string [''functionVersion''] kvs;
     h \<leftarrow> de_required de_string [''handler''] kvs;
     a \<leftarrow> de_optional de_string [''accountId''] kvs;
     Some \<lparr>rb_function_name = f, rb_function_version = v, rb_handler = h, rb_account_id = a\<rparr> }"

record register_response =
  rr_extension_id :: string
  rr_body :: register_response_body

definition from_slice :: "'h crates \<Rightarrow> (json \<Rightarrow> 'a option) \<Rightarrow> string \<Rightarrow> (box_error, 'a) result" where
  "from_slice C of_json bytes = and_then (cr_json_parse C bytes) (\<lambda>j. ok_or (cr_bad_json C j) (of_json j))"

definition register_extension ::
  "'h crates \<Rightarrow> string \<Rightarrow> ('h http_request \<Rightarrow> ('w, box_error, 'h http_response) action) \<Rightarrow> string list
   \<Rightarrow> string option \<Rightarrow> string list option \<Rightarrow> ('w, box_error, register_response) action" where
  "register_extension C ua api args extension_name events =
     act_then (act_of (extension_name_of args extension_name)) (\<lambda>name.
     let events = (case events of Some es \<Rightarrow> es | None \<Rightarrow> [''INVOKE'', ''SHUTDOWN'']) in
     act_then (act_of (register_req C ua name events)) (\<lambda>req.
     act_then (api req) (\<lambda>res.
     if \<not> cr_is_success C (rs_status res)
     then act_of (Err (extension_error (''unable to register the extension: '' @ cr_status_text C (rs_status res))))
     else act_of
       (and_then (ok_or (extension_error ''missing extension id header'')
                   (hm_get (cr_hm C) (rs_headers res) ''Lambda-Extension-Identifier'')) (\<lambda>header.
        and_then (hv_to_str C header) (\<lambda>extension_id.
        and_then (rs_body res) (\<lambda>bytes.
        map_ok (\<lambda>body. \<lparr>rr_extension_id = extension_id, rr_body = body\<rparr>)
          (from_slice C register_response_body_of_json bytes))))))))"

text \<open>
  Subscribing a processor: \<open>mk\<close> is its \<^verbatim>\<open>make_service\<close>, awaited and
  unwrapped; then the server is spawned and the API is called.
\<close>

definition subscribe_failed :: "'h crates \<Rightarrow> api_kind \<Rightarrow> nat \<Rightarrow> box_error" where
  "subscribe_failed C api status =
     extension_error (''unable to initialize the '' @ (case api of LogsApi \<Rightarrow> ''logs'' | TelemetryApi \<Rightarrow> ''telemetry'') @
       '' api: '' @ cr_status_text C status)"

definition subscribe ::
  "'h crates \<Rightarrow> string \<Rightarrow> ('h http_request \<Rightarrow> ('w, box_error, 'h http_response) action) \<Rightarrow> api_kind
   \<Rightarrow> ('p \<Rightarrow> ('w, box_error, 's) action) \<Rightarrow> 'p option \<Rightarrow> string list option \<Rightarrow> log_buffering option \<Rightarrow> nat
   \<Rightarrow> string \<Rightarrow> ('w extension_world, box_error, unit) action" where
  "subscribe C ua api kind mk processor types buffering port extension_id =
     (case processor of
        None \<Rightarrow> act_of (Ok ())
      | Some processor \<Rightarrow>
          act_then (act_of (validate_buffering_configuration buffering)) (\<lambda>_.
          act_then (\<lambda>s. case on_world (mk processor) s of
                          (r, s1) \<Rightarrow> (expect_ok ''called `Result::unwrap()` on an `Err` value'' r, s1)) (\<lambda>service.
          act_then (start_server kind port) (\<lambda>_.
          act_then (act_of (subscribe_req C ua kind extension_id types buffering port)) (\<lambda>req.
          act_then (on_world (api req)) (\<lambda>res.
          if \<not> cr_is_success C (rs_status res) then act_of (Err (subscribe_failed C kind (rs_status res)))
          else act_of (Ok ())))))))"

record 'e registered_extension =
  rx_extension_id :: string
  rx_account_id :: "string option"
  rx_function_name :: string
  rx_function_version :: string
  rx_handler :: string
  rx_events_processor :: 'e

definition extension_register ::
  "'h crates \<Rightarrow> string \<Rightarrow> env \<Rightarrow> (uri \<Rightarrow> 'h http_request \<Rightarrow> ('w, box_error, 'h http_response) action)
   \<Rightarrow> string list \<Rightarrow> ('l \<Rightarrow> ('w, box_error, 'ls) action) \<Rightarrow> ('t \<Rightarrow> ('w, box_error, 'ts) action)
   \<Rightarrow> ('e, 'l, 't) extension \<Rightarrow> ('w extension_world, box_error, 'e registered_extension) action" where
  "extension_register C ua e api args make_logs make_telemetry x =
     act_then (act_of (resolve_uri C e None)) (\<lambda>base.
     act_then (on_world (register_extension C ua (api base) args (ex_extension_name x) (ex_events x))) (\<lambda>res.
     act_then (subscribe C ua (api base) LogsApi make_logs (ex_logs_processor x) (ex_log_types x)
                (ex_log_buffering x) (ex_log_port_number x) (rr_extension_id res)) (\<lambda>_.
     act_then (subscribe C ua (api base) TelemetryApi make_telemetry (ex_telemetry_processor x)
                (ex_telemetry_types x) (ex_telemetry_buffering x) (ex_telemetry_port_number x)
                (rr_extension_id res)) (\<lambda>_.
     act_of (Ok \<lparr>rx_extension_id = rr_extension_id res, rx_account_id = rb_account_id (rr_body res),
                rx_function_name = rb_function_name (rr_body res),
                rx_function_version = rb_function_version (rr_body res),
                rx_handler = rb_handler (rr_body res), rx_events_processor = ex_events_processor x\<rparr>)))))"

subsection \<open>Running\<close>

text \<open>A failure of the events processor: reported to the endpoint of the phase, then returned.\<close>

definition report_failure ::
  "'h crates \<Rightarrow> string \<Rightarrow> ('h http_request \<Rightarrow> ('w, box_error, 'h http_response) action) \<Rightarrow> string \<Rightarrow> bool
   \<Rightarrow> box_error \<Rightarrow> ('w, box_error, unit) action" where
  "report_failure C ua api extension_id invoke err =
     act_then (act_of (if invoke then extension_init_error C ua extension_id (err_to_string err) None
                       else extension_exit_error C ua extension_id (err_to_string err) None)) (\<lambda>req.
     act_then (api req) (\<lambda>_. act_of (Err err)))"

definition handle_event ::
  "'h crates \<Rightarrow> string \<Rightarrow> bool \<Rightarrow> ('h http_request \<Rightarrow> ('w, box_error, 'h http_response) action) \<Rightarrow> string
   \<Rightarrow> ('w, 'f, next_event, box_error, unit) service \<Rightarrow> 'h http_response \<Rightarrow> ('w, box_error, unit) action" where
  "handle_event C ua trace api extension_id ep response =
     act_then (act_of (rs_body response)) (\<lambda>body.
     act_then (act_of (if trace then str_from_utf8 body else Ok body)) (\<lambda>_.
     act_then (act_of (from_slice C next_event_of_json body)) (\<lambda>event.
     \<lambda>s. case sv_ready ep s of
           (Err err, s1) \<Rightarrow> report_failure C ua api extension_id (is_invoke event) err s1
         | (Panic p, s1) \<Rightarrow> (Panic p, s1)
         | (Ok _, s1) \<Rightarrow>
             (case sv_oneshot ep event s1 of
                (Err err, s2) \<Rightarrow> report_failure C ua api extension_id (is_invoke event) err s2
              | (Panic p, s2) \<Rightarrow> (Panic p, s2)
              | (Ok _, s2) \<Rightarrow> (Ok (), s2)))))"

definition extension_iter ::
  "'h crates \<Rightarrow> string \<Rightarrow> bool \<Rightarrow> ('h http_request \<Rightarrow> ('w, box_error, 'h http_response) action) \<Rightarrow> string
   \<Rightarrow> ('w, 'f, next_event, box_error, unit) service \<Rightarrow> ('w, box_error, unit) action" where
  "extension_iter C ua trace api extension_id ep =
     act_then (act_of (extension_next_req C ua extension_id)) (\<lambda>req.
     act_then (api req) (\<lambda>response. handle_event C ua trace api extension_id ep response))"

text \<open>The run loop, bounded by a number of events; \<open>None\<close>: still running.\<close>

fun extension_run ::
  "nat \<Rightarrow> 'h crates \<Rightarrow> string \<Rightarrow> bool \<Rightarrow> ('h http_request \<Rightarrow> ('w, box_error, 'h http_response) action) \<Rightarrow> string
   \<Rightarrow> ('w, 'f, next_event, box_error, unit) service \<Rightarrow> 'w \<Rightarrow> ((box_error, unit) result \<times> 'w) option" where
  "extension_run 0 C ua trace api extension_id ep s = None"
| "extension_run (Suc n) C ua trace api extension_id ep s =
     (case extension_iter C ua trace api extension_id ep s of
        (Ok _, s1) \<Rightarrow> extension_run n C ua trace api extension_id ep s1
      | r \<Rightarrow> Some r)"

subsection \<open>Lemmas\<close>

lemma log_buffering_validate_is_ok:
  "is_ok (log_buffering_validate b) \<longleftrightarrow>
     25 \<le> lb_timeout_ms b \<and> lb_timeout_ms b \<le> 30000 \<and>
     262144 \<le> lb_max_bytes b \<and> lb_max_bytes b \<le> 1048576 \<and>
     1000 \<le> lb_max_items b \<and> lb_max_items b \<le> 10000"
  by (auto simp: log_buffering_validate_def)

lemma start_server_eq [simp]: "start_server api port s = (Ok (), s\<lparr>ew_servers := ew_servers s @ [(api, port)]\<rparr>)"
  by (simp add: start_server_def)

lemma on_world_servers: "on_world m s = (r, s') \<Longrightarrow> ew_servers s' = ew_servers s"
  by (auto simp: on_world_def split: prod.splits)

lemma subscribe_Ok_servers:
  assumes "subscribe C ua api kind mk processor types buffering port i s = (Ok x, s')"
  shows "ew_servers s' = ew_servers s @ (if processor = None then [] else [(kind, port)]) \<and>
     (processor \<noteq> None \<longrightarrow> is_ok (validate_buffering_configuration buffering))"
proof (cases processor)
  case None
  with assms show ?thesis by (simp add: subscribe_def)
next
  case (Some p)
  then show ?thesis
    using assms
    by (auto simp: subscribe_def act_then_eq_Ok expect_ok_eq_Ok is_ok_iff split: prod.splits if_splits
        dest!: on_world_servers)
qed

lemma report_failure_not_Ok: "fst (report_failure C ua api i invoke err s) \<noteq> Ok x"
  by (auto simp: report_failure_def act_then_def act_of_def split: result.splits prod.splits)

lemma error_req_eq:
  "error_req C ua kind i s request =
     and_then (rb_header C ''Lambda-Extension-Function-Error-Type'' s
       (rb_header C ''Lambda-Extension-Identifier'' i
         (rb_uri_str C (''/2020-01-01/extension/'' @ kind @ ''/error'') (rb_method ''POST'' (build_request C ua)))))
     (\<lambda>r. Ok (r\<lparr>rq_frames := (case request of None \<Rightarrow> [] | Some err \<Rightarrow> [cr_json_text C (error_request_json err)])\<rparr>))"
  unfolding error_req_def Let_def
  by (cases "rb_header C ''Lambda-Extension-Function-Error-Type'' s
       (rb_header C ''Lambda-Extension-Identifier'' i
         (rb_uri_str C (''/2020-01-01/extension/'' @ kind @ ''/error'') (rb_method ''POST'' (build_request C ua))))")
    (simp_all add: rb_body_def)

lemma error_req_bad_text:
  assumes "hv_valid (cr_hm C) ua" and "hv_valid (cr_hm C) i" and "\<not> hv_valid (cr_hm C) s"
    and "cr_uri_parse C (''/2020-01-01/extension/'' @ kind @ ''/error'') = Ok u"
  shows "error_req C ua kind i s request = Err (cr_bad_value C)"
  using assms by (simp add: error_req_eq build_request_def builder_defs hv_parse_def)

lemma handle_event_failure:
  assumes "rs_body response = Ok body" and "trace \<longrightarrow> valid_utf8 body"
    and "from_slice C next_event_of_json body = Ok event"
    and "sv_ready ep s = (Err err, s2) \<or> (\<exists>s1. sv_ready ep s = (Ok (), s1) \<and> sv_oneshot ep event s1 = (Err err, s2))"
  shows "handle_event C ua trace api i ep response s =
     act_then (act_of (error_req C ua (if is_invoke event then ''init'' else ''exit'') i (err_to_string err) None))
       (\<lambda>req. act_then (api req) (\<lambda>_. act_of (Err err))) s2"
  using assms
  by (auto simp: handle_event_def report_failure_def extension_init_error_def extension_exit_error_def)

subsection \<open>Properties\<close>

text \<open>
  A buffering configuration is accepted exactly when its three values are within the limits
  of the Logs API, and leaving it out is accepted; the default one is.
\<close>

lemma buffering_validation:
  "is_ok (validate_buffering_configuration b) =
     (case b of
        None \<Rightarrow> True
      | Some b \<Rightarrow> lb_timeout_ms b \<in> {25..30000} \<and> lb_max_bytes b \<in> {262144..1048576} \<and>
          lb_max_items b \<in> {1000..10000}) \<and>
   is_ok (validate_buffering_configuration (Some log_buffering_default))"
  by (auto simp: validate_buffering_configuration_def log_buffering_validate_is_ok log_buffering_default_def
      split: option.splits)

text \<open>
  A delivery of telemetry whose body cannot be read or is not a list of entries is answered
  with status 400 and does not reach the processor; any other delivery reaches it once with all its
  entries in order and is answered with status 200, also when the processor fails.
\<close>

lemma telemetry_delivery_answered:
  assumes "\<And>s p. cr_json_parse C s \<noteq> Panic p" and "\<And>req w p. fst (sv_oneshot service req w) \<noteq> Panic p"
    and "\<And>p. body \<noteq> Panic p"
  shows "telemetry_wrapper C D g service body w =
     (case and_then body (from_slice C (de_list (lambda_telemetry_of_json D g))) of
        Ok entries \<Rightarrow> (Ok 200, snd (sv_oneshot service entries w))
      | _ \<Rightarrow> (Ok 400, w))"
proof (cases body)
  case (Ok bytes)
  let ?r = "and_then (cr_json_parse C bytes) (\<lambda>j. ok_or (cr_bad_json C j) (de_list (lambda_telemetry_of_json D g) j))"
  show ?thesis
  proof (cases ?r)
    case entries: (Ok entries)
    obtain r w1 where one: "sv_oneshot service entries w = (r, w1)"
      by (cases "sv_oneshot service entries w")
    show ?thesis
    proof (cases r)
      case (Panic p)
      with assms(2) [of entries w p] one show ?thesis by simp
    qed (use one Ok entries in \<open>simp_all add: telemetry_wrapper_def delivery_def from_slice_def\<close>)
  next
    case (Panic p)
    with assms(1) [of bytes p] show ?thesis by (simp add: result_simps)
  qed (use Ok in \<open>simp_all add: telemetry_wrapper_def delivery_def from_slice_def\<close>)
next
  case (Panic p)
  with assms(3) [of p] show ?thesis by simp
qed (simp add: telemetry_wrapper_def delivery_def)

theorem telemetry_delivery_answered_witness:
  "telemetry_wrapper (ref_crates\<lparr>cr_json_parse := (\<lambda>s. if s = ''[]'' then Ok (JArr []) else Err (BoxError ''eof''))\<rparr>)
     \<lparr>dt_show = (\<lambda>t. t), dt_parse = Some\<rparr> de_string
     \<lparr>sv_ready = (\<lambda>w. (Ok (), w)), sv_call = (\<lambda>req w. (Inr (), w @ [length req])),
      sv_await = (\<lambda>_ w. (Err (BoxError ''full''), w))\<rparr> (Ok ''[]'') [] = (Ok 200, [0])"
  by (subst telemetry_delivery_answered) (simp_all add: sv_oneshot_def from_slice_def de_list_def)

text \<open>
  When an extension registers successfully, a server was started for exactly the processors
  that were set, logs before telemetry, each on its port, and the buffering configuration of each
  was valid.
\<close>

lemma registered_servers:
  assumes "extension_register C ua e api args make_logs make_telemetry x s = (Ok rx, s')"
  shows "ew_servers s' = ew_servers s @
       (if ex_logs_processor x = None then [] else [(LogsApi, ex_log_port_number x)]) @
       (if ex_telemetry_processor x = None then [] else [(TelemetryApi, ex_telemetry_port_number x)]) \<and>
     (ex_logs_processor x \<noteq> None \<longrightarrow> is_ok (validate_buffering_configuration (ex_log_buffering x))) \<and>
     (ex_telemetry_processor x \<noteq> None \<longrightarrow> is_ok (validate_buffering_configuration (ex_telemetry_buffering x))) \<and>
     rx_events_processor rx = ex_events_processor x"
proof -
  obtain base res s1 s2 s3 u v where
    1: "on_world (register_extension C ua (api base) args (ex_extension_name x) (ex_events x)) s = (Ok res, s1)"
    and 2: "subscribe C ua (api base) LogsApi make_logs (ex_logs_processor x) (ex_log_types x)
        (ex_log_buffering x) (ex_log_port_number x) (rr_extension_id res) s1 = (Ok u, s2)"
    and 3: "subscribe C ua (api base) TelemetryApi make_telemetry (ex_telemetry_processor x) (ex_telemetry_types x)
        (ex_telemetry_buffering x) (ex_telemetry_port_number x) (rr_extension_id res) s2 = (Ok v, s3)"
    and "s' = s3" and "rx_events_processor rx = ex_events_processor x"
    using assms by (auto simp: extension_register_def act_then_eq_Ok)
  then show ?thesis
    using on_world_servers [OF 1] subscribe_Ok_servers [OF 2] subscribe_Ok_servers [OF 3] by auto
qed

definition example_api :: "uri \<Rightarrow> headers http_request \<Rightarrow> (string list, box_error, headers http_response) action" where
  "example_api base req w =
     (Ok \<lparr>rs_status = 200, rs_headers = [(''Lambda-Extension-Identifier'', ''ext-1'')], rs_body = Ok ''body''\<rparr>,
      w @ [rq_method req])"

definition example_crates :: "headers crates" where
  "example_crates = ref_crates\<lparr>cr_json_parse := (\<lambda>s. Ok (JObj [(''functionName'', JStr ''f''),
     (''functionVersion'', JStr ''1''), (''handler'', JStr ''h'')]))\<rparr>"

theorem registered_servers_witness:
  "\<exists>rx s'. extension_register example_crates ''ua'' [''AWS_LAMBDA_RUNTIME_API'' \<mapsto> ''h:1''] example_api []
       (\<lambda>p. act_of (Ok p)) (\<lambda>p. act_of (Ok p))
       (with_telemetry_processor () (with_extension_name ''x''
          (extension_new :: ((string list, unit, next_event, box_error, unit) service, unit, unit) extension)))
       \<lparr>ew_world = [], ew_servers = []\<rparr> = (Ok rx, s') \<and>
     ew_servers s' = [(TelemetryApi, 9003)]"
proof -
  let ?x = "with_telemetry_processor () (with_extension_name ''x''
          (extension_new :: ((string list, unit, next_event, box_error, unit) service, unit, unit) extension))"
  let ?r = "extension_register example_crates ''ua'' [''AWS_LAMBDA_RUNTIME_API'' \<mapsto> ''h:1''] example_api []
       (\<lambda>p. act_of (Ok p)) (\<lambda>p. act_of (Ok p)) ?x \<lparr>ew_world = [], ew_servers = []\<rparr>"
  have id: "lower ''Lambda-Extension-Identifier'' = ''lambda-extension-identifier''"
    by (simp add: lower_eval)
  have ua: "header_value_bytes ''ua''" "header_value_bytes ''x''" "header_value_bytes ''ext-1''"
    "header_value_bytes ''accountId''" "header_value_bytes ''application/json''"
    "visible_ascii ''ext-1''"
    by (simp_all add: header_value_bytes_def visible_ascii_def)
  have "is_ok (fst ?r)"
    by (simp add: extension_register_def resolve_uri_def register_extension_def extension_name_of_def
        with_telemetry_processor_def with_extension_name_def extension_new_def register_req_def build_request_def
        builder_defs hv_parse_def al_hmap_def ua example_crates_def ref_crates_def
        act_then_def act_of_def on_world_def example_api_def subscribe_def validate_buffering_configuration_def
        subscribe_req_def hm_get_def id hv_to_str_def from_slice_def register_response_body_of_json_def
        de_fields_def de_required_def de_optional_def origin_uri_def)
  then obtain rx s' where r: "?r = (Ok rx, s')"
    by (cases ?r) (auto simp: is_ok_iff)
  from registered_servers [OF r] have "ew_servers s' = [(TelemetryApi, 9003)]"
    by (simp add: with_telemetry_processor_def with_extension_name_def extension_new_def)
  with r show ?thesis by blast
qed

text \<open>
  C20: an event the processor cannot take (it is not ready, or fails on it) ends the extension: if
  the error's text can be a header value, it is reported once, to the init error endpoint for an
  invocation and to the exit error endpoint for a shutdown, and the processor's error is returned
  unless sending the report failed.
\<close>

theorem extension_failure_reported:
  assumes "rs_body response = Ok body" and "trace \<longrightarrow> valid_utf8 body"
    and "from_slice C next_event_of_json body = Ok event"
    and "sv_ready ep s = (Err err, s2) \<or> (\<exists>s1. sv_ready ep s = (Ok (), s1) \<and> sv_oneshot ep event s1 = (Err err, s2))"
    and "hv_valid (cr_hm C) ua" and "hv_valid (cr_hm C) i" and "hv_valid (cr_hm C) (err_to_string err)"
    and "cr_uri_parse C (case event of Invoke _ \<Rightarrow> ''/2020-01-01/extension/init/error''
           | Shutdown _ \<Rightarrow> ''/2020-01-01/extension/exit/error'') = Ok u"
    and "api = (\<lambda>req w. (sent req w, w @ [req]))"
  shows "\<exists>req. rq_method req = ''POST'' \<and> rq_uri req = u \<and>
     handle_event C ua trace api i ep response s =
       ((case sent req s2 of Ok _ \<Rightarrow> Err err | Err e \<Rightarrow> Err e | Panic p \<Rightarrow> Panic p), s2 @ [req])"
proof -
  have uri: "cr_uri_parse C (''/2020-01-01/extension/'' @ (if is_invoke event then ''init'' else ''exit'') @ ''/error'') = Ok u"
    using assms(8) by (cases event) simp_all
  obtain req where req: "error_req C ua (if is_invoke event then ''init'' else ''exit'') i (err_to_string err) None = Ok req"
      and "rq_method req = ''POST''" "rq_uri req = u"
    unfolding error_req_eq using uri assms(5-7) by (simp add: build_request_def builder_defs hv_parse_def)
  then show ?thesis
    unfolding handle_event_failure [OF assms(1-4)] assms(9)
    by (intro exI [of _ req]) (simp add: act_then_def act_of_def split: result.splits)
qed

definition failing_processor :: "string \<Rightarrow> (headers http_request list, unit, next_event, box_error, unit) service" where
  "failing_processor msg =
     \<lparr>sv_ready = (\<lambda>w. (Ok (), w)), sv_call = (\<lambda>req w. (Inr (), w)), sv_await = (\<lambda>_ w. (Err (BoxError msg), w))\<rparr>"

definition shutdown_crates :: "headers crates" where
  "shutdown_crates = ref_crates\<lparr>cr_json_parse := (\<lambda>s. Ok (JObj [(''eventType'', JStr ''SHUTDOWN''),
     (''shutdownReason'', JStr ''SPINDOWN''), (''deadlineMs'', JInt 5)]))\<rparr>"

lemma shutdown_crates_event:
  "from_slice shutdown_crates next_event_of_json s =
     Ok (Shutdown \<lparr>se_shutdown_reason = ''SPINDOWN'', se_deadline_ms = 5\<rparr>)"
  by (simp add: from_slice_def shutdown_crates_def next_event_of_json_def tagged_content_def
      shutdown_event_of_json_def de_fields_def de_required_def de_unsigned_def u64_max_def)

theorem extension_failure_reported_witness:
  "\<exists>req. rq_uri req = origin_uri ''/2020-01-01/extension/exit/error'' \<and>
     handle_event shutdown_crates ''ua'' False (\<lambda>req w. (Err (BoxError ''closed''), w @ [req])) ''ext''
       (failing_processor ''disk full'') \<lparr>rs_status = 200, rs_headers = [], rs_body = Ok ''event''\<rparr> [] =
     (Err (BoxError ''closed''), [req])"
proof -
  let ?sent = "\<lambda>(req :: headers http_request) (w :: headers http_request list).
      Err (BoxError ''closed'') :: (box_error, headers http_response) result"
  have ready: "sv_ready (failing_processor ''disk full'') [] = (Err (BoxError ''disk full''), []) \<or>
      (\<exists>s1. sv_ready (failing_processor ''disk full'') [] = (Ok (), s1) \<and>
        sv_oneshot (failing_processor ''disk full'') (Shutdown \<lparr>se_shutdown_reason = ''SPINDOWN'', se_deadline_ms = 5\<rparr>) s1
          = (Err (BoxError ''disk full''), []))"
    by (simp add: failing_processor_def sv_oneshot_def)
  from extension_failure_reported [where sent = ?sent and u = "origin_uri ''/2020-01-01/extension/exit/error''"
      and ua = "''ua''" and i = "''ext''" and trace = False, OF _ _ shutdown_crates_event ready]
  show ?thesis
    by (force simp: shutdown_crates_def ref_crates_def al_hmap_def header_value_bytes_def)
qed

text \<open>
  C38: a failure of the events processor, in getting ready or in handling an event, whose text cannot be a
  header value, for example because it has a line break, is lost: no report is sent, and the extension
  ends with the error of the header in its place.
\<close>

theorem extension_failure_masked:
  assumes "rs_body response = Ok body" and "trace \<longrightarrow> valid_utf8 body"
    and "from_slice C next_event_of_json body = Ok event"
    and "sv_ready ep s = (Err err, s2) \<or> (\<exists>s1. sv_ready ep s = (Ok (), s1) \<and> sv_oneshot ep event s1 = (Err err, s2))"
    and "hv_valid (cr_hm C) ua" and "hv_valid (cr_hm C) i" and "\<not> hv_valid (cr_hm C) (err_to_string err)"
    and "cr_uri_parse C (case event of Invoke _ \<Rightarrow> ''/2020-01-01/extension/init/error''
           | Shutdown _ \<Rightarrow> ''/2020-01-01/extension/exit/error'') = Ok u"
  shows "handle_event C ua trace api i ep response s = (Err (cr_bad_value C), s2)"
proof -
  have uri: "cr_uri_parse C (''/2020-01-01/extension/'' @ (if is_invoke event then ''init'' else ''exit'') @ ''/error'') = Ok u"
    using assms(8) by (cases event) simp_all
  have "error_req C ua (if is_invoke event then ''init'' else ''exit'') i (err_to_string err) None = Err (cr_bad_value C)"
    by (rule error_req_bad_text [OF assms(5-7) uri])
  then show ?thesis
    unfolding handle_event_failure [OF assms(1-4)] by (simp add: act_then_def act_of_def)
qed

theorem extension_failure_masked_witness:
  "handle_event shutdown_crates ''ua'' False (\<lambda>req s. (Panic POther, s)) ''ext''
       (failing_processor [CHR 0x0A]) \<lparr>rs_status = 200, rs_headers = [], rs_body = Ok ''event''\<rparr> [] =
     (Err (BoxError ''failed to parse header value''), [])"
proof -
  have bad: "cr_bad_value shutdown_crates = BoxError ''failed to parse header value''"
    by (simp add: shutdown_crates_def ref_crates_def)
  show ?thesis
    unfolding bad [symmetric]
    by (rule extension_failure_masked [OF _ _ shutdown_crates_event, where err = "BoxError [CHR 0x0A]"
          and u = "origin_uri ''/2020-01-01/extension/exit/error''"])
      (simp_all add: failing_processor_def sv_oneshot_def shutdown_crates_def ref_crates_def al_hmap_def header_value_bytes_def)
qed

text \<open>
  The run loop of an extension never returns successfully; what it returns is the failure of
  the last event it took, and all events before were handled.
\<close>

lemma extension_run_ends_by_failure:
  "extension_run n C ua trace api i ep s = Some (r, s') \<Longrightarrow>
     r \<noteq> Ok () \<and> (\<exists>t. extension_iter C ua trace api i ep t = (r, s'))"
proof (induction n arbitrary: s)
  case 0
  then show ?case by simp
next
  case (Suc n)
  then show ?case
    by (auto split: prod.splits result.splits)
qed

theorem extension_run_ends_by_failure_witness:
  "\<exists>r s'. extension_run 3 shutdown_crates ''ua'' False
      (\<lambda>req w. (Ok \<lparr>rs_status = 200, rs_headers = [], rs_body = Ok ''event''\<rparr>, w @ [req])) ''ext''
      (failing_processor ''disk full'') [] = Some (r, s') \<and> r \<noteq> Ok ()"
proof -
  let ?api = "\<lambda>req w. (Ok \<lparr>rs_status = 200, rs_headers = [], rs_body = Ok ''event''\<rparr>, w @ [req])"
  have "extension_run 3 shutdown_crates ''ua'' False ?api ''ext'' (failing_processor ''disk full'') [] \<noteq> None"
    by (simp add: numeral_3_eq_3 extension_iter_def extension_next_req_def build_request_def builder_defs
        hv_parse_def act_then_def act_of_def handle_event_def shutdown_crates_event failing_processor_def
        sv_oneshot_def split: prod.splits result.splits)
      (auto simp: report_failure_def act_then_def act_of_def split: prod.splits result.splits)
  then obtain r s' where
    r: "extension_run 3 shutdown_crates ''ua'' False ?api ''ext'' (failing_processor ''disk full'') [] = Some (r, s')"
    by auto
  with extension_run_ends_by_failure [OF r] show ?thesis by blast
qed

end
