(* ===== verification/ExtensionRuns.thy ===== *)
theory ExtensionRuns
  imports Extension
begin

text \<open>
  Whole runs of an extension: \<^verbatim>\<open>run\<close> of \<^verbatim>\<open>lambda-extension/src/lib.rs\<close>,
  \<^verbatim>\<open>Extension::run\<close> and \<^verbatim>\<open>RegisteredExtension::run\<close> of
  \<^verbatim>\<open>lambda-extension/src/extension.rs\<close>, from the registration to the failure that ends
  them, and what the Extensions API sees of them.
\<close>

subsection \<open>Running\<close>

text \<open>\<^verbatim>\<open>MakeIdentity\<close> makes services that ignore what they are given.\<close>

definition make_identity :: "('w, unit, unit, box_error, ('v, unit, 'req, box_error, unit) service) service" where
  "make_identity = \<lparr>sv_ready = (\<lambda>w. (Ok (), w)), sv_call = (\<lambda>_ w. (Inr (), w)), sv_await = (\<lambda>_ w. (Ok identity, w))\<rparr>"

text \<open>\<^verbatim>\<open>RegisteredExtension::run\<close> makes a client of its own.\<close>

definition registered_run ::
  "nat \<Rightarrow> 'h crates \<Rightarrow> string \<Rightarrow> bool \<Rightarrow> env \<Rightarrow> (uri \<Rightarrow> 'h http_request \<Rightarrow> ('w, box_error, 'h http_response) action)
   \<Rightarrow> ('w, 'f, next_event, box_error, unit) service registered_extension \<Rightarrow> 'w extension_world
   \<Rightarrow> ((box_error, unit) result \<times> 'w extension_world) option" where
  "registered_run n C ua trace e api rx s =
     (case resolve_uri C e None of
        Ok base \<Rightarrow>
          map_option (\<lambda>(r, w). (r, s\<lparr>ew_world := w\<rparr>))
            (extension_run n C ua trace (api base) (rx_extension_id rx) (rx_events_processor rx) (ew_world s))
      | Err err \<Rightarrow> Some (Err err, s)
      | Panic p \<Rightarrow> Some (Panic p, s))"

definition extension_start ::
  "nat \<Rightarrow> 'h crates \<Rightarrow> string \<Rightarrow> bool \<Rightarrow> env \<Rightarrow> (uri \<Rightarrow> 'h http_request \<Rightarrow> ('w, box_error, 'h http_response) action)
   \<Rightarrow> string list \<Rightarrow> ('l \<Rightarrow> ('w, box_error, 'ls) action) \<Rightarrow> ('t \<Rightarrow> ('w, box_error, 'ts) action)
   \<Rightarrow> (('w, 'f, next_event, box_error, unit) service, 'l, 't) extension \<Rightarrow> 'w extension_world
   \<Rightarrow> ((box_error, unit) result \<times> 'w extension_world) option" where
  "extension_start n C ua trace e api args make_logs make_telemetry x s =
     (case extension_register C ua e api args make_logs make_telemetry x s of
        (Ok rx, s1) \<Rightarrow> registered_run n C ua trace e api rx s1
      | (Err err, s1) \<Rightarrow> Some (Err err, s1)
      | (Panic p, s1) \<Rightarrow> Some (Panic p, s1))"

definition run_processor where
  "run_processor n C ua trace e api args make_logs make_telemetry ep s =
     extension_start n C ua trace e api args make_logs make_telemetry
       (with_events_processor ep (extension_new :: ((_, unit, next_event, box_error, unit) service, _, _) extension)) s"

subsection \<open>A client whose requests are recorded\<close>

definition recorded ::
  "(uri \<Rightarrow> 'h http_request \<Rightarrow> ('v, box_error, 'h http_response) action) \<Rightarrow> uri \<Rightarrow> 'h http_request
   \<Rightarrow> ('v \<times> 'h http_request list, box_error, 'h http_response) action" where
  "recorded api base req s = (case api base req (fst s) of (r, v) \<Rightarrow> (r, (v, snd s @ [req])))"

text \<open>Services and factories that act beside the record.\<close>

definition beside_action :: "('v, 'e, 'a) action \<Rightarrow> ('v \<times> 'g, 'e, 'a) action" where
  "beside_action m s = (case m (fst s) of (r, v) \<Rightarrow> (r, (v, snd s)))"

definition beside :: "('v, 'f, 'req, 'e, 'r) service \<Rightarrow> ('v \<times> 'g, 'f, 'req, 'e, 'r) service" where
  "beside S =
     \<lparr>sv_ready = beside_action (sv_ready S),
      sv_call = (\<lambda>req s. case sv_call S req (fst s) of (f, v) \<Rightarrow> (f, (v, snd s))),
      sv_await = (\<lambda>f. beside_action (sv_await S f))\<rparr>"

lemma beside_action_log: "beside_action m s = (r, s') \<Longrightarrow> snd s' = snd s"
  by (auto simp: beside_action_def split: prod.splits)

lemma recorded_log: "recorded api base req s = (r, s') \<Longrightarrow> snd s' = snd s @ [req]"
  by (auto simp: recorded_def split: prod.splits)

lemma beside_ready_log: "sv_ready (beside S) s = (r, s') \<Longrightarrow> snd s' = snd s"
  by (simp add: beside_def beside_action_log)

lemma beside_oneshot_log: "sv_oneshot (beside S) req s = (r, s') \<Longrightarrow> snd s' = snd s"
  by (auto simp: sv_oneshot_def beside_def beside_action_def split: prod.splits sum.splits)

subsection \<open>The protocol\<close>

text \<open>A report of a failure goes to the error endpoint of the initialisation or of the exit.\<close>

definition error_report :: "'h crates \<Rightarrow> 'h http_request \<Rightarrow> bool" where
  "error_report C a \<longleftrightarrow> rq_method a = ''POST'' \<and>
     (\<exists>kind \<in> {''init'', ''exit''}. cr_uri_parse C (''/2020-01-01/extension/'' @ kind @ ''/error'') = Ok (rq_uri a))"

text \<open>The run loop: polls, and at most one report, after the last poll.\<close>

definition loop_requests :: "'h crates \<Rightarrow> string \<Rightarrow> string \<Rightarrow> 'h http_request list \<Rightarrow> bool" where
  "loop_requests C ua i reqs \<longleftrightarrow>
     reqs = [] \<or>
     (\<exists>poll k rest. extension_next_req C ua i = Ok poll \<and> reqs = replicate (Suc k) poll @ rest \<and>
        (rest = [] \<or> (\<exists>a. rest = [a] \<and> error_report C a)))"

text \<open>
  A run: the registration, then the subscriptions of the processors that were set, logs first,
  then the loop with the id that the registration named.
\<close>

definition subscribes :: "'h crates \<Rightarrow> string \<Rightarrow> string \<Rightarrow> 'h http_request \<Rightarrow> api_kind \<Rightarrow> bool" where
  "subscribes C ua i a kind \<longleftrightarrow> (\<exists>types buffering port. subscribe_req C ua kind i types buffering port = Ok a)"

definition processor_kinds :: "('e, 'l, 't) extension \<Rightarrow> api_kind list" where
  "processor_kinds x =
     (if ex_logs_processor x = None then [] else [LogsApi]) @ (if ex_telemetry_processor x = None then [] else [TelemetryApi])"

definition run_requests :: "'h crates \<Rightarrow> string \<Rightarrow> api_kind list \<Rightarrow> 'h http_request list \<Rightarrow> bool" where
  "run_requests C ua kinds reqs \<longleftrightarrow>
     reqs = [] \<or>
     (\<exists>name events reg i subs rest. register_req C ua name events = Ok reg \<and> reqs = reg # subs @ rest \<and>
        list_all2 (subscribes C ua i) subs (take (length subs) kinds) \<and>
        loop_requests C ua i rest \<and> (rest \<noteq> [] \<longrightarrow> length subs = length kinds))"

subsection \<open>The run loop\<close>

lemma error_req_report:
  "error_req C ua kind i s request = Ok a \<Longrightarrow> kind \<in> {''init'', ''exit''} \<Longrightarrow> error_report C a"
  by (auto simp: error_req_eq error_report_def result_simps builder_defs)

lemma report_failure_log:
  assumes "report_failure C ua (recorded api base) i invoke err s = (r, s')"
  shows "snd s' = snd s \<or> (\<exists>a. snd s' = snd s @ [a] \<and> error_report C a)"
  using assms error_req_report [of C ua _ i "err_to_string err" None]
  by (auto simp: report_failure_def act_then_def extension_init_error_def extension_exit_error_def
      split: prod.splits result.splits if_splits dest: recorded_log)

lemma handle_event_log:
  assumes "handle_event C ua trace (recorded api base) i (beside ep) response s = (r, s')"
  shows "snd s' = snd s \<or> (r \<noteq> Ok () \<and> (\<exists>a. snd s' = snd s @ [a] \<and> error_report C a))"
proof (cases "and_then (rs_body response) (\<lambda>body. and_then (if trace then str_from_utf8 body else Ok body)
    (\<lambda>_. from_slice C next_event_of_json body))")
  case (Ok event)
  obtain q s1 where q: "sv_ready (beside ep) s = (q, s1)" by (metis surj_pair)
  obtain q2 s2 where q2: "sv_oneshot (beside ep) event s1 = (q2, s2)" by (metis surj_pair)
  have logs: "snd s1 = snd s" "snd s2 = snd s"
    using beside_ready_log [OF q] beside_oneshot_log [OF q2] by simp_all
  have "handle_event C ua trace (recorded api base) i (beside ep) response s =
      (case sv_ready (beside ep) s of
           (Err err, s1) \<Rightarrow> report_failure C ua (recorded api base) i (is_invoke event) err s1
         | (Panic p, s1) \<Rightarrow> (Panic p, s1)
         | (Ok _, s1) \<Rightarrow>
             (case sv_oneshot (beside ep) event s1 of
                (Err err, s2) \<Rightarrow> report_failure C ua (recorded api base) i (is_invoke event) err s2
              | (Panic p, s2) \<Rightarrow> (Panic p, s2)
              | (Ok _, s2) \<Rightarrow> (Ok (), s2)))"
    using Ok by (auto simp: handle_event_def result_simps)
  then have step: "(case q of
        Err err \<Rightarrow> report_failure C ua (recorded api base) i (is_invoke event) err s1
      | Panic p \<Rightarrow> (Panic p, s1)
      | Ok _ \<Rightarrow>
          (case q2 of
             Err err \<Rightarrow> report_failure C ua (recorded api base) i (is_invoke event) err s2
           | Panic p \<Rightarrow> (Panic p, s2)
           | Ok _ \<Rightarrow> (Ok (), s2))) = (r, s')"
    using assms q q2 by (cases q; cases q2) simp_all
  have failed: "snd s' = snd s \<or> (r \<noteq> Ok () \<and> (\<exists>a. snd s' = snd s @ [a] \<and> error_report C a))"
    if "report_failure C ua (recorded api base) i (is_invoke event) err t = (r, s')" "snd t = snd s" for err t
    using report_failure_log [OF that(1)] report_failure_not_Ok [of C ua "recorded api base" i "is_invoke event" err t "()"] that
    by simp
  show ?thesis
    using step logs failed by (cases q; cases q2) auto
qed (use assms in \<open>auto simp: handle_event_def result_simps\<close>)


lemma loop_requests_poll:
  assumes "extension_next_req C ua i = Ok poll" and "loop_requests C ua i reqs"
  shows "loop_requests C ua i (poll # reqs)"
proof (cases "reqs = []")
  case True
  then have "poll # reqs = replicate (Suc 0) poll @ []" by simp
  then show ?thesis using assms(1) unfolding loop_requests_def by blast
next
  case False
  then obtain k rest where "reqs = replicate (Suc k) poll @ rest" and "rest = [] \<or> (\<exists>a. rest = [a] \<and> error_report C a)"
    using assms unfolding loop_requests_def by auto
  moreover from this have "poll # reqs = replicate (Suc (Suc k)) poll @ rest" by simp
  ultimately show ?thesis using assms(1) unfolding loop_requests_def by blast
qed

lemma loop_requests_last:
  assumes "extension_next_req C ua i = Ok poll" and "error_report C a"
  shows "loop_requests C ua i [poll, a]"
proof -
  have "[poll, a] = replicate (Suc 0) poll @ [a]" by simp
  then show ?thesis using assms unfolding loop_requests_def by blast
qed

lemma extension_run_log:
  assumes "extension_run n C ua trace (recorded api base) i (beside ep) s = Some (r, s')"
  shows "r \<noteq> Ok () \<and> (\<exists>reqs. snd s' = snd s @ reqs \<and> loop_requests C ua i reqs)"
  using assms
proof (induction n arbitrary: s)
  case (Suc n)
  obtain q s1 where q: "extension_iter C ua trace (recorded api base) i (beside ep) s = (q, s1)" by (metis surj_pair)
  show ?case
  proof (cases "extension_next_req C ua i")
    case (Ok poll)
    have iter: "snd s1 = snd s @ [poll] \<or> (q \<noteq> Ok () \<and> (\<exists>a. snd s1 = snd s @ [poll, a] \<and> error_report C a))"
      using q Ok by (auto simp: extension_iter_def act_then_def split: prod.splits result.splits
          dest!: recorded_log handle_event_log)
    show ?thesis
    proof (cases "q = Ok ()")
      case True
      then obtain reqs where "r \<noteq> Ok ()" and reqs: "snd s' = snd s1 @ reqs" "loop_requests C ua i reqs"
        using Suc.IH [of s1] Suc.prems q by auto
      have "snd s1 = snd s @ [poll]" using iter True by blast
      moreover have "loop_requests C ua i (poll # reqs)"
        by (rule loop_requests_poll [OF Ok reqs(2)])
      ultimately show ?thesis using \<open>r \<noteq> Ok ()\<close> reqs(1) by auto
    next
      case False
      then have "r = q" "s' = s1" using Suc.prems q by (auto split: result.splits)
      moreover have "loop_requests C ua i [poll]"
        by (rule loop_requests_poll [OF Ok]) (simp add: loop_requests_def)
      moreover note loop_requests_last [OF Ok]
      ultimately show ?thesis using iter False by auto
    qed
  qed (use q Suc.prems in \<open>auto simp: extension_iter_def act_then_def act_of_def loop_requests_def split: result.splits\<close>)
qed simp

text \<open>A loop that went on for some events: the state it reached.\<close>

fun goes_on :: "nat \<Rightarrow> ('w, 'e, unit) action \<Rightarrow> 'w \<Rightarrow> 'w \<Rightarrow> bool" where
  "goes_on 0 it s t \<longleftrightarrow> t = s"
| "goes_on (Suc k) it s t \<longleftrightarrow> (\<exists>s1. it s = (Ok (), s1) \<and> goes_on k it s1 t)"

lemma extension_iter_Ok_log:
  assumes "extension_iter C ua trace (recorded api base) i (beside ep) s = (Ok (), s')"
  shows "\<exists>poll. extension_next_req C ua i = Ok poll \<and> snd s' = snd s @ [poll]"
  using assms
  by (auto simp: extension_iter_def act_then_def act_of_def split: prod.splits result.splits
      dest!: recorded_log handle_event_log)

lemma goes_on_log:
  assumes "goes_on k (extension_iter C ua trace (recorded api base) i (beside ep)) s t"
  shows "\<exists>poll. (k \<noteq> 0 \<longrightarrow> extension_next_req C ua i = Ok poll) \<and> snd t = snd s @ replicate k poll"
  using assms
proof (induction k arbitrary: s)
  case (Suc k)
  then obtain s1 where s1: "extension_iter C ua trace (recorded api base) i (beside ep) s = (Ok (), s1)"
      "goes_on k (extension_iter C ua trace (recorded api base) i (beside ep)) s1 t"
    by auto
  from extension_iter_Ok_log [OF s1(1)] obtain poll where poll: "extension_next_req C ua i = Ok poll" "snd s1 = snd s @ [poll]"
    by blast
  then have "snd t = snd s1 @ replicate k poll"
    using Suc.IH [OF s1(2)] by (cases "k = 0") auto
  then show ?case using poll by auto
qed simp

subsection \<open>The registration\<close>

lemma register_log:
  assumes "register_extension C ua (recorded api base) args name events s = (r, s')"
  shows "(snd s' = snd s \<and> (\<forall>x. r \<noteq> Ok x)) \<or>
    (\<exists>name events reg. register_req C ua name events = Ok reg \<and> snd s' = snd s @ [reg])"
  using assms
  by (auto simp: register_extension_def act_then_def act_of_def Let_def split: prod.splits result.splits if_splits
      dest!: recorded_log)

text \<open>Actions that send subscriptions of some kinds, in order, and all of them when they succeed.\<close>

definition sends :: "'h crates \<Rightarrow> string \<Rightarrow> string \<Rightarrow> api_kind list
   \<Rightarrow> (('v \<times> 'h http_request list) extension_world, 'e, 'a) action \<Rightarrow> bool" where
  "sends C ua i kinds m \<longleftrightarrow>
     (\<forall>s r s'. m s = (r, s') \<longrightarrow>
        (\<exists>subs. snd (ew_world s') = snd (ew_world s) @ subs \<and>
           list_all2 (subscribes C ua i) subs (take (length subs) kinds) \<and> (is_ok r \<longrightarrow> length subs = length kinds)))"

lemma sendsD:
  assumes "sends C ua i kinds m" and "m s = (r, s')"
  obtains subs where "snd (ew_world s') = snd (ew_world s) @ subs"
    and "list_all2 (subscribes C ua i) subs (take (length subs) kinds)" and "is_ok r \<longrightarrow> length subs = length kinds"
  using assms unfolding sends_def by blast

lemma sends_nothing: "sends C ua i [] (act_of r)"
  by (simp add: sends_def)

lemma sends_then:
  assumes m: "sends C ua i k1 m" and f: "\<And>x. sends C ua i k2 (f x)"
  shows "sends C ua i (k1 @ k2) (act_then m f)"
  unfolding sends_def
proof (intro allI impI)
  fix s r s' assume step: "act_then m f s = (r, s')"
  obtain q s1 where q: "m s = (q, s1)" by (metis surj_pair)
  from m q obtain subs1 where subs1: "snd (ew_world s1) = snd (ew_world s) @ subs1"
      "list_all2 (subscribes C ua i) subs1 (take (length subs1) k1)" "is_ok q \<longrightarrow> length subs1 = length k1"
    by (rule sendsD)
  show "\<exists>subs. snd (ew_world s') = snd (ew_world s) @ subs \<and>
      list_all2 (subscribes C ua i) subs (take (length subs) (k1 @ k2)) \<and> (is_ok r \<longrightarrow> length subs = length (k1 @ k2))"
  proof (cases q)
    case (Ok x)
    then have "f x s1 = (r, s')" using step q by (simp add: act_then_def)
    with f [of x] obtain subs2 where subs2: "snd (ew_world s') = snd (ew_world s1) @ subs2"
        "list_all2 (subscribes C ua i) subs2 (take (length subs2) k2)" "is_ok r \<longrightarrow> length subs2 = length k2"
      by (rule sendsD)
    have "list_all2 (subscribes C ua i) (subs1 @ subs2) (take (length (subs1 @ subs2)) (k1 @ k2))"
      using subs1(2,3) subs2(2) Ok by (simp add: list_all2_appendI)
    then show ?thesis
      using subs1(1,3) subs2(1,3) Ok by (intro exI [of _ "subs1 @ subs2"]) simp
  qed (use step q subs1 list_all2_lengthD [OF subs1(2)] in \<open>auto simp: act_then_def\<close>)
qed

lemma sends_subscription:
  "sends C ua i (if processor = None then [] else [kind])
     (subscribe C ua (recorded api base) kind (\<lambda>p. beside_action (mk p)) processor types buffering port i)"
  unfolding sends_def
proof (intro allI impI)
  let ?kinds = "if processor = None then [] else [kind]"
  fix s r s' assume step: "subscribe C ua (recorded api base) kind (\<lambda>p. beside_action (mk p)) processor types buffering port i s = (r, s')"
  show "\<exists>subs. snd (ew_world s') = snd (ew_world s) @ subs \<and>
      list_all2 (subscribes C ua i) subs (take (length subs) ?kinds) \<and> (is_ok r \<longrightarrow> length subs = length ?kinds)"
  proof (cases processor)
    case (Some p)
    then have "(snd (ew_world s') = snd (ew_world s) \<and> \<not> is_ok r) \<or>
        (\<exists>a. subscribe_req C ua kind i types buffering port = Ok a \<and> snd (ew_world s') = snd (ew_world s) @ [a])"
      using step by (auto simp: subscribe_def act_then_def act_of_def on_world_def is_ok_iff
          split: prod.splits result.splits if_splits dest!: recorded_log beside_action_log)
    then show ?thesis
    proof
      assume "\<exists>a. subscribe_req C ua kind i types buffering port = Ok a \<and> snd (ew_world s') = snd (ew_world s) @ [a]"
      then obtain a where "subscribes C ua i a kind" "snd (ew_world s') = snd (ew_world s) @ [a]"
        unfolding subscribes_def by blast
      then show ?thesis using Some by (intro exI [of _ "[a]"]) simp
    qed (auto intro: exI [of _ "[]"])
  qed (use step in \<open>simp add: subscribe_def\<close>)
qed

lemma run_requests_registered:
  "register_req C ua name events = Ok reg \<Longrightarrow> list_all2 (subscribes C ua i) subs (take (length subs) kinds) \<Longrightarrow>
     loop_requests C ua i rest \<Longrightarrow> (rest \<noteq> [] \<Longrightarrow> length subs = length kinds) \<Longrightarrow>
     run_requests C ua kinds (reg # subs @ rest)"
  unfolding run_requests_def by blast

lemma registered_alone:
  "run_requests C ua kinds []" "register_req C ua name events = Ok a \<Longrightarrow> run_requests C ua kinds [a]"
  using run_requests_registered [where subs = "[]" and rest = "[]" and reg = a and i = "[]"]
  by (auto simp: run_requests_def loop_requests_def)

text \<open>What follows the registration.\<close>

lemma sends_subscriptions:
  "sends C ua i (processor_kinds x)
     (act_then (subscribe C ua (recorded api base) LogsApi (\<lambda>p. beside_action (mk_l p)) (ex_logs_processor x)
        (ex_log_types x) (ex_log_buffering x) (ex_log_port_number x) i) (\<lambda>_.
      act_then (subscribe C ua (recorded api base) TelemetryApi (\<lambda>p. beside_action (mk_t p)) (ex_telemetry_processor x)
        (ex_telemetry_types x) (ex_telemetry_buffering x) (ex_telemetry_port_number x) i) (\<lambda>_. act_of r)))"
  unfolding processor_kinds_def
  by (intro sends_then sends_subscription sends_then [OF sends_subscription sends_nothing, unfolded append_Nil2])

lemma extension_register_log:
  assumes "extension_register C ua e (recorded api) args (\<lambda>p. beside_action (mk_l p)) (\<lambda>p. beside_action (mk_t p)) x s = (r, s')"
  shows "\<exists>reqs. snd (ew_world s') = snd (ew_world s) @ reqs \<and> run_requests C ua (processor_kinds x) reqs \<and>
    (\<forall>rx. r = Ok rx \<longrightarrow> rx_events_processor rx = ex_events_processor x \<and>
       (\<exists>name events reg subs. register_req C ua name events = Ok reg \<and> reqs = reg # subs \<and>
          list_all2 (subscribes C ua (rx_extension_id rx)) subs (processor_kinds x)))"
proof (cases "resolve_uri C e None")
  case base: (Ok base)
  obtain q s1 where q: "on_world (register_extension C ua (recorded api base) args (ex_extension_name x) (ex_events x)) s = (q, s1)"
    by (metis surj_pair)
  then have "register_extension C ua (recorded api base) args (ex_extension_name x) (ex_events x) (ew_world s) = (q, ew_world s1)"
    by (auto simp: on_world_def split: prod.splits)
  note reg = register_log [OF this]
  show ?thesis
  proof (cases q)
    case (Ok res)
    let ?i = "rr_extension_id res"
    obtain name events a where a: "register_req C ua name events = Ok a" "snd (ew_world s1) = snd (ew_world s) @ [a]"
      using reg Ok by auto
    let ?rx = "\<lparr>rx_extension_id = ?i, rx_account_id = rb_account_id (rr_body res), rx_function_name = rb_function_name (rr_body res),
        rx_function_version = rb_function_version (rr_body res), rx_handler = rb_handler (rr_body res),
        rx_events_processor = ex_events_processor x\<rparr>"
    have step: "act_then (subscribe C ua (recorded api base) LogsApi (\<lambda>p. beside_action (mk_l p)) (ex_logs_processor x)
        (ex_log_types x) (ex_log_buffering x) (ex_log_port_number x) ?i) (\<lambda>_.
      act_then (subscribe C ua (recorded api base) TelemetryApi (\<lambda>p. beside_action (mk_t p)) (ex_telemetry_processor x)
        (ex_telemetry_types x) (ex_telemetry_buffering x) (ex_telemetry_port_number x) ?i) (\<lambda>_. act_of (Ok ?rx))) s1 = (r, s')"
      using assms base q Ok by (simp add: extension_register_def act_then_def)
    from sends_subscriptions step obtain subs where subs: "snd (ew_world s') = snd (ew_world s1) @ subs"
        "list_all2 (subscribes C ua ?i) subs (take (length subs) (processor_kinds x))"
        "is_ok r \<longrightarrow> length subs = length (processor_kinds x)"
      by (rule sendsD)
    have "run_requests C ua (processor_kinds x) (a # subs)"
      using run_requests_registered [OF a(1) subs(2), where rest = "[]"] by (simp add: loop_requests_def)
    moreover have "snd (ew_world s') = snd (ew_world s) @ a # subs" using subs(1) a(2) by simp
    moreover have "rx_extension_id rx = ?i \<and> rx_events_processor rx = ex_events_processor x \<and>
        list_all2 (subscribes C ua ?i) subs (processor_kinds x)" if "r = Ok rx" for rx
      using step subs(2,3) that by (auto simp: act_then_eq_Ok)
    ultimately show ?thesis using a(1) by (intro exI [of _ "a # subs"]) auto
  next
    case (Err err)
    then have "r = Err err" "s' = s1" using assms base q by (auto simp: extension_register_def act_then_def)
    then show ?thesis using reg registered_alone [where C = C and ua = ua and kinds = "processor_kinds x"] by auto
  next
    case (Panic p)
    then have "r = Panic p" "s' = s1" using assms base q by (auto simp: extension_register_def act_then_def)
    then show ?thesis using reg registered_alone [where C = C and ua = ua and kinds = "processor_kinds x"] by auto
  qed
qed (use assms in \<open>auto simp: extension_register_def run_requests_def\<close>)


subsection \<open>Properties\<close>

lemma extension_start_requests:
  assumes "extension_start n C ua trace e (recorded api) args (\<lambda>p. beside_action (mk_l p)) (\<lambda>p. beside_action (mk_t p)) x
      \<lparr>ew_world = (v, []), ew_servers = servers\<rparr> = Some (r, s')"
    and "ex_events_processor x = beside ep"
  shows "r \<noteq> Ok () \<and> run_requests C ua (processor_kinds x) (snd (ew_world s'))"
proof -
  let ?s = "\<lparr>ew_world = (v, []), ew_servers = servers\<rparr>"
  obtain q s1 where q: "extension_register C ua e (recorded api) args (\<lambda>p. beside_action (mk_l p)) (\<lambda>p. beside_action (mk_t p)) x ?s = (q, s1)"
    by (metis surj_pair)
  note reg = extension_register_log [OF q]
  show ?thesis
  proof (cases q)
    case (Ok rx)
    obtain name events a subs where a: "register_req C ua name events = Ok a" "snd (ew_world s1) = a # subs"
        "list_all2 (subscribes C ua (rx_extension_id rx)) subs (processor_kinds x)"
        and ep: "rx_events_processor rx = beside ep"
      using reg Ok assms(2) by auto
    have sent: "length subs = length (processor_kinds x)" "take (length subs) (processor_kinds x) = processor_kinds x"
      using list_all2_lengthD [OF a(3)] by simp_all
    have run: "registered_run n C ua trace e (recorded api) rx s1 = Some (r, s')"
      using assms(1) q Ok by (simp add: extension_start_def)
    show ?thesis
    proof (cases "resolve_uri C e None")
      case base: (Ok base)
      then obtain w where w: "extension_run n C ua trace (recorded api base) (rx_extension_id rx) (beside ep) (ew_world s1) = Some (r, w)"
          and s': "ew_world s' = w"
        using run ep by (auto simp: registered_run_def)
      obtain rest where "r \<noteq> Ok ()" "snd w = snd (ew_world s1) @ rest" "loop_requests C ua (rx_extension_id rx) rest"
        using extension_run_log [OF w] by blast
      then show ?thesis
        using run_requests_registered [OF a(1), of "rx_extension_id rx" subs "processor_kinds x" rest] a(2,3) sent s' by simp
    qed (use run reg in \<open>auto simp: registered_run_def\<close>)
  qed (use assms(1) q reg in \<open>auto simp: extension_start_def\<close>)
qed

text \<open>
  C21: An extension, whatever its processor does and whatever the Extensions API answers, sends its
  requests in this order: the registration, the subscriptions of the processors that were set (logs
  before telemetry) with the id that was registered, and only when all of them were sent the polls for the next
  event, each the same request; a report of a failure can only be the last request of all, when the run ends, which
  it never does successfully. While it runs, after any number of events, it has registered,
  subscribed every processor that was set, and polled once for each of these events, and sent nothing else.
\<close>

theorem extension_keeps_protocol:
  assumes "ex_events_processor x = beside ep" and "s = \<lparr>ew_world = (v, []), ew_servers = servers\<rparr>"
  shows "(extension_start n C ua trace e (recorded api) args (\<lambda>p. beside_action (mk_l p)) (\<lambda>p. beside_action (mk_t p)) x s
        = Some (r, s') \<longrightarrow>
      r \<noteq> Ok () \<and> run_requests C ua (processor_kinds x) (snd (ew_world s'))) \<and>
    (extension_register C ua e (recorded api) args (\<lambda>p. beside_action (mk_l p)) (\<lambda>p. beside_action (mk_t p)) x s = (Ok rx, s1) \<and>
     goes_on k (extension_iter C ua trace (recorded api base) (rx_extension_id rx) (rx_events_processor rx)) (ew_world s1) w \<longrightarrow>
      (\<exists>name events reg subs poll. snd w = reg # subs @ replicate k poll \<and> register_req C ua name events = Ok reg \<and>
         list_all2 (subscribes C ua (rx_extension_id rx)) subs (processor_kinds x) \<and>
         (k \<noteq> 0 \<longrightarrow> extension_next_req C ua (rx_extension_id rx) = Ok poll)))"
proof (intro conjI impI)
  assume "extension_start n C ua trace e (recorded api) args (\<lambda>p. beside_action (mk_l p)) (\<lambda>p. beside_action (mk_t p)) x s = Some (r, s')"
  then show "r \<noteq> Ok ()" and "run_requests C ua (processor_kinds x) (snd (ew_world s'))"
    using extension_start_requests [OF _ assms(1)] unfolding assms(2) by blast+
next
  assume running: "extension_register C ua e (recorded api) args (\<lambda>p. beside_action (mk_l p)) (\<lambda>p. beside_action (mk_t p)) x s = (Ok rx, s1) \<and>
     goes_on k (extension_iter C ua trace (recorded api base) (rx_extension_id rx) (rx_events_processor rx)) (ew_world s1) w"
  obtain name events reg subs where reg: "register_req C ua name events = Ok reg" "snd (ew_world s1) = reg # subs"
      "list_all2 (subscribes C ua (rx_extension_id rx)) subs (processor_kinds x)" and ep: "rx_events_processor rx = beside ep"
    using extension_register_log [OF conjunct1 [OF running]] assms by auto
  obtain poll where "k \<noteq> 0 \<longrightarrow> extension_next_req C ua (rx_extension_id rx) = Ok poll" "snd w = snd (ew_world s1) @ replicate k poll"
    using goes_on_log [OF conjunct2 [OF running, unfolded ep]] by blast
  then show "\<exists>name events reg subs poll. snd w = reg # subs @ replicate k poll \<and> register_req C ua name events = Ok reg \<and>
         list_all2 (subscribes C ua (rx_extension_id rx)) subs (processor_kinds x) \<and>
         (k \<noteq> 0 \<longrightarrow> extension_next_req C ua (rx_extension_id rx) = Ok poll)"
    using reg by (intro exI [of _ name] exI [of _ events] exI [of _ reg] exI [of _ subs] exI [of _ poll]) simp
qed

theorem extension_keeps_protocol_witness:
  "\<exists>r s'. extension_start 1 example_crates ''ua'' False [''AWS_LAMBDA_RUNTIME_API'' \<mapsto> ''h:1'']
      (recorded example_api) [] (\<lambda>p. beside_action (act_of (Ok p))) (\<lambda>p. beside_action (act_of (Ok p)))
      (with_telemetry_processor () (with_extension_name ''x'' (with_events_processor (beside (identity :: (string list, unit, next_event, box_error, unit) service))
         (extension_new :: ((string list, unit, next_event, box_error, unit) service, unit, unit) extension))))
      \<lparr>ew_world = ([], []), ew_servers = []\<rparr> = Some (r, s') \<and>
    r \<noteq> Ok () \<and> run_requests example_crates ''ua'' [TelemetryApi] (snd (ew_world s'))"
proof -
  let ?x = "with_telemetry_processor () (with_extension_name ''x'' (with_events_processor (beside (identity :: (string list, unit, next_event, box_error, unit) service))
         (extension_new :: ((string list, unit, next_event, box_error, unit) service, unit, unit) extension)))"
  let ?r = "extension_start 1 example_crates ''ua'' False [''AWS_LAMBDA_RUNTIME_API'' \<mapsto> ''h:1'']
      (recorded example_api) [] (\<lambda>p. beside_action (act_of (Ok p))) (\<lambda>p. beside_action (act_of (Ok p))) ?x
      \<lparr>ew_world = ([], []), ew_servers = []\<rparr>"
  have id: "lower ''Lambda-Extension-Identifier'' = ''lambda-extension-identifier''"
    by (simp add: lower_eval)
  have ua: "header_value_bytes ''ua''" "header_value_bytes ''x''" "header_value_bytes ''ext-1''"
    "header_value_bytes ''accountId''" "header_value_bytes ''application/json''" "visible_ascii ''ext-1''"
    by (simp_all add: header_value_bytes_def visible_ascii_def)
  have "?r \<noteq> None"
    by (simp add: extension_start_def registered_run_def extension_register_def resolve_uri_def register_extension_def
        extension_name_of_def with_telemetry_processor_def with_extension_name_def with_events_processor_def extension_new_def
        register_req_def build_request_def builder_defs hv_parse_def al_hmap_def ua example_crates_def ref_crates_def
        act_then_def act_of_def on_world_def example_api_def subscribe_def validate_buffering_configuration_def
        subscribe_req_def hm_get_def id hv_to_str_def from_slice_def register_response_body_of_json_def
        de_fields_def de_required_def de_optional_def origin_uri_def recorded_def beside_action_def
        extension_iter_def extension_next_req_def handle_event_def next_event_of_json_def tagged_content_def)
  then obtain r s' where r: "?r = Some (r, s')" by auto
  have kinds: "processor_kinds ?x = [TelemetryApi]"
    by (simp add: processor_kinds_def with_telemetry_processor_def with_extension_name_def with_events_processor_def extension_new_def)
  have ep: "ex_events_processor ?x = beside identity"
    by (simp add: with_telemetry_processor_def with_extension_name_def with_events_processor_def)
  show ?thesis
    using r extension_keeps_protocol [THEN conjunct1, THEN mp, OF ep refl r] unfolding kinds by blast
qed

end
