(* ===== verification/GracefulShutdown.thy ===== *)
theory GracefulShutdown
  imports Extension
begin

text \<open>
  The graceful shutdown of \<^verbatim>\<open>lambda-runtime/src/lib.rs\<close>
  (\<^verbatim>\<open>spawn_graceful_shutdown_handler\<close>): an extension that subscribes to no event is
  registered, and a task is spawned that waits for a signal and drives the extension. The task is a
  state that is polled; each poll is told which signals have arrived and whether the extension's
  pending request has been answered.
\<close>

subsection \<open>What the task is polled with\<close>

text \<open>
  \<^verbatim>\<open>tokio::select!\<close> starts with a random branch (\<open>wk_terminate_first\<close>).
\<close>

record wake =
  wk_interrupt :: bool
  wk_terminate :: bool
  wk_terminate_first :: bool
  wk_response :: bool

text \<open>The hook is a closure that is called once, and the future it returns.\<close>

record ('v, 'f) shutdown_hook =
  hk_call :: "'v \<Rightarrow> (panic_payload + 'f) \<times> 'v"
  hk_poll :: "'f \<Rightarrow> 'v \<Rightarrow> (panic_payload + 'f option) \<times> 'v"

record ('w, 'v, 'f) shutdown_env =
  se_interrupt :: "(box_error, unit) result"
  se_terminate :: "(box_error, unit) result"
  se_hook :: "('v, 'f) shutdown_hook"
  se_extension :: "('w, box_error, unit) action"

subsection \<open>The state of the task\<close>

datatype 'f graceful = Starting | Selecting | Hooking 'f

datatype task_end = ProcessExit nat | TaskPanic panic_payload

record ('v, 'f) shutdown_handler =
  hd_graceful :: "'f graceful"
  hd_printed :: "string list"
  hd_end :: "task_end option"
  hd_world :: 'v

record ('w, 'v, 'f) shutdown_task =
  sh_handler :: "('v, 'f) shutdown_handler"
  sh_extension :: bool
  sh_world :: 'w

subsection \<open>Polling\<close>

definition select_signal :: "wake \<Rightarrow> string option" where
  "select_signal wk =
     (if wk_interrupt wk \<and> \<not> (wk_terminate wk \<and> wk_terminate_first wk) then Some ''SIGINT''
      else if wk_terminate wk then Some ''SIGTERM''
      else None)"

definition signal_lines :: "string \<Rightarrow> string list" where
  "signal_lines name = [''[runtime] '' @ name @ '' received'', ''[runtime] Graceful shutdown in progress ...'']"

definition poll_hook :: "('v, 'f) shutdown_hook \<Rightarrow> 'f \<Rightarrow> ('v, 'f) shutdown_handler \<Rightarrow> ('v, 'f) shutdown_handler" where
  "poll_hook hook f h =
     (case hk_poll hook f (hd_world h) of
        (Inl p, v) \<Rightarrow> h\<lparr>hd_world := v, hd_end := Some (TaskPanic p)\<rparr>
      | (Inr (Some f1), v) \<Rightarrow> h\<lparr>hd_world := v, hd_graceful := Hooking f1\<rparr>
      | (Inr None, v) \<Rightarrow>
          h\<lparr>hd_world := v, hd_printed := hd_printed h @ [''[runtime] Graceful shutdown completed''],
            hd_end := Some (ProcessExit 0)\<rparr>)"

definition poll_select ::
  "('v, 'f) shutdown_hook \<Rightarrow> wake \<Rightarrow> ('v, 'f) shutdown_handler \<Rightarrow> ('v, 'f) shutdown_handler" where
  "poll_select hook wk h =
     (case select_signal wk of
        None \<Rightarrow> h\<lparr>hd_graceful := Selecting\<rparr>
      | Some name \<Rightarrow>
          (let h = h\<lparr>hd_printed := hd_printed h @ signal_lines name\<rparr> in
           case hk_call hook (hd_world h) of
             (Inl p, v) \<Rightarrow> h\<lparr>hd_world := v, hd_end := Some (TaskPanic p)\<rparr>
           | (Inr f, v) \<Rightarrow> poll_hook hook f (h\<lparr>hd_world := v\<rparr>)))"

definition unwrap_message :: string where
  "unwrap_message = ''called `Result::unwrap()` on an `Err` value''"

definition poll_graceful ::
  "('w, 'v, 'f) shutdown_env \<Rightarrow> wake \<Rightarrow> ('v, 'f) shutdown_handler \<Rightarrow> ('v, 'f) shutdown_handler" where
  "poll_graceful E wk h =
     (case hd_graceful h of
        Starting \<Rightarrow>
          (case and_then (expect_ok unwrap_message (se_interrupt E))
                  (\<lambda>_. expect_ok unwrap_message (se_terminate E)) :: (box_error, unit) result of
             Panic p \<Rightarrow> h\<lparr>hd_end := Some (TaskPanic p)\<rparr>
           | _ \<Rightarrow> poll_select (se_hook E) wk h)
      | Selecting \<Rightarrow> poll_select (se_hook E) wk h
      | Hooking f \<Rightarrow> poll_hook (se_hook E) f h)"

text \<open>
  The second future of the \<^verbatim>\<open>join!\<close>: what the run of the extension returns is dropped.
\<close>

definition poll_extension :: "('w, 'v, 'f) shutdown_env \<Rightarrow> wake \<Rightarrow> ('w, 'v, 'f) shutdown_task \<Rightarrow> ('w, 'v, 'f) shutdown_task" where
  "poll_extension E wk t =
     (if sh_extension t \<and> wk_response wk then
        (case se_extension E (sh_world t) of
           (Ok _, w) \<Rightarrow> t\<lparr>sh_world := w\<rparr>
         | (Err err, w) \<Rightarrow> t\<lparr>sh_world := w, sh_extension := False\<rparr>
         | (Panic p, w) \<Rightarrow> t\<lparr>sh_world := w, sh_handler := (sh_handler t)\<lparr>hd_end := Some (TaskPanic p)\<rparr>\<rparr>)
      else t)"

text \<open>The signals' future is polled first (\<^verbatim>\<open>biased\<close>); a task that ended is not polled.\<close>

definition poll_task :: "('w, 'v, 'f) shutdown_env \<Rightarrow> wake \<Rightarrow> ('w, 'v, 'f) shutdown_task \<Rightarrow> ('w, 'v, 'f) shutdown_task" where
  "poll_task E wk t =
     (if hd_end (sh_handler t) \<noteq> None then t
      else
        (let t1 = t\<lparr>sh_handler := poll_graceful E wk (sh_handler t)\<rparr> in
         if hd_end (sh_handler t1) \<noteq> None then t1 else poll_extension E wk t1))"

definition run_task :: "('w, 'v, 'f) shutdown_env \<Rightarrow> wake list \<Rightarrow> ('w, 'v, 'f) shutdown_task \<Rightarrow> ('w, 'v, 'f) shutdown_task" where
  "run_task E wks t = fold (poll_task E) wks t"

subsection \<open>Spawning\<close>

definition shutdown_extension :: "(('w, unit, next_event, box_error, unit) service, unit, unit) extension" where
  "shutdown_extension =
     with_extension_name ''_lambda-rust-runtime-no-op-graceful-shutdown-helper'' (with_events [] extension_new)"

definition shutdown_task_start :: "'v \<Rightarrow> 'w extension_world \<Rightarrow> ('w, 'v, 'f) shutdown_task" where
  "shutdown_task_start v s =
     \<lparr>sh_handler = \<lparr>hd_graceful = Starting, hd_printed = [], hd_end = None, hd_world = v\<rparr>,
      sh_extension = True, sh_world = ew_world s\<rparr>"

definition run_registered ::
  "'h crates \<Rightarrow> string \<Rightarrow> bool \<Rightarrow> env \<Rightarrow> (uri \<Rightarrow> 'h http_request \<Rightarrow> ('w, box_error, 'h http_response) action)
   \<Rightarrow> ('w, 'f, next_event, box_error, unit) service registered_extension \<Rightarrow> ('w, box_error, unit) action" where
  "run_registered C ua trace e api rx =
     act_then (act_of (resolve_uri C e None)) (\<lambda>base.
     extension_iter C ua trace (api base) (rx_extension_id rx) (rx_events_processor rx))"

definition spawn_graceful_shutdown_handler ::
  "'h crates \<Rightarrow> string \<Rightarrow> bool \<Rightarrow> env \<Rightarrow> (uri \<Rightarrow> 'h http_request \<Rightarrow> ('w, box_error, 'h http_response) action) \<Rightarrow> string list
   \<Rightarrow> (box_error, unit) result \<Rightarrow> (box_error, unit) result \<Rightarrow> ('v, 'f) shutdown_hook
   \<Rightarrow> 'v \<Rightarrow> ('w extension_world, box_error, ('w, 'v, 'f) shutdown_env \<times> ('w, 'v, 'f) shutdown_task) action" where
  "spawn_graceful_shutdown_handler C ua trace e api args interrupt terminate hook v s =
     (case extension_register C ua e api args (\<lambda>_. act_of (Ok ())) (\<lambda>_. act_of (Ok ())) shutdown_extension s of
        (r, s1) \<Rightarrow>
          (map_ok (\<lambda>rx.
             (\<lparr>se_interrupt = interrupt, se_terminate = terminate, se_hook = hook,
               se_extension = run_registered C ua trace e api rx\<rparr>,
              shutdown_task_start v s1))
             (expect_ok ''could not register no-op extension for graceful shutdown'' r), s1))"

subsection \<open>The contract of the client\<close>

text \<open>
  What the run of an extension needs of the crates so as not to panic: every failure of a request,
  of a body and of the JSON and URI parsers is an error value.
\<close>

locale calm_client =
  fixes C :: "'h crates"
    and api :: "'h http_request \<Rightarrow> ('w, box_error, 'h http_response) action"
  assumes calm_api: "fst (api req w) \<noteq> Panic p"
    and calm_body: "fst (api req w) = Ok r \<Longrightarrow> rs_body r \<noteq> Panic p"
    and calm_json: "cr_json_parse C bytes \<noteq> Panic p"
    and calm_uri: "cr_uri_parse C u \<noteq> Panic p"
begin

lemma calm_next_req: "extension_next_req C ua i \<noteq> Panic p"
  by (auto simp: extension_next_req_def builder_defs result_simps hv_parse_def calm_uri)

lemma calm_from_slice: "from_slice C f bytes \<noteq> Panic p"
  by (auto simp: from_slice_def result_simps calm_json)

lemma no_op_iter_calm: "fst (extension_iter C ua trace api i identity w) \<noteq> Panic p"
proof (cases "extension_next_req C ua i")
  case (Ok req)
  show ?thesis
  proof (cases "api req w")
    case (Pair r w1)
    then show ?thesis
      using Ok calm_api [of req w p] calm_body [of req w _ p]
      by (cases r) (auto simp: extension_iter_def handle_event_def act_then_def act_of_def identity_def sv_oneshot_def
        calm_from_slice split: result.splits prod.splits if_splits)
  qed
qed (auto simp: extension_iter_def act_of_def calm_next_req)

end

subsection \<open>The abstract task\<close>

text \<open>
  The signals' future alone: what the task promises, whatever becomes of the extension.
\<close>

definition poll_alone ::
  "('w, 'v, 'f) shutdown_env \<Rightarrow> wake \<Rightarrow> ('v, 'f) shutdown_handler \<Rightarrow> ('v, 'f) shutdown_handler" where
  "poll_alone E wk h = (if hd_end h \<noteq> None then h else poll_graceful E wk h)"

definition run_alone ::
  "('w, 'v, 'f) shutdown_env \<Rightarrow> wake list \<Rightarrow> ('v, 'f) shutdown_handler \<Rightarrow> ('v, 'f) shutdown_handler" where
  "run_alone E wks h = fold (poll_alone E) wks h"

text \<open>The contract of the extension's run: it fails by error values only.\<close>

locale quiet_extension =
  fixes E :: "('w, 'v, 'f) shutdown_env"
  assumes quiet: "fst (se_extension E w) \<noteq> Panic p"
begin

lemma poll_extension_handler: "sh_handler (poll_extension E wk t) = sh_handler t"
  using quiet [of "sh_world t"]
  by (cases "se_extension E (sh_world t)") (auto simp: poll_extension_def split: result.splits)

lemma poll_task_handler: "sh_handler (poll_task E wk t) = poll_alone E wk (sh_handler t)"
  by (simp add: poll_task_def poll_alone_def Let_def poll_extension_handler)

lemma run_task_handler: "sh_handler (run_task E wks t) = run_alone E wks (sh_handler t)"
  by (induction wks arbitrary: t) (simp_all add: run_task_def run_alone_def poll_task_handler)

end

lemma run_registered_calm:
  assumes "\<And>base. calm_client C (api base)" and "resolve_uri C e None = Ok base"
    and "rx_events_processor rx = identity"
  shows "fst (run_registered C ua trace e api rx w) \<noteq> Panic p"
  using calm_client.no_op_iter_calm [OF assms(1)] by (simp add: run_registered_def assms(2, 3))

lemma spawn_eq_Ok:
  assumes "spawn_graceful_shutdown_handler C ua trace e api args interrupt terminate hook v s = (Ok (E, t), s1)"
  obtains rx base where "resolve_uri C e None = Ok base" and "rx_events_processor rx = identity"
    and "E = \<lparr>se_interrupt = interrupt, se_terminate = terminate, se_hook = hook,
               se_extension = run_registered C ua trace e api rx\<rparr>"
    and "t = shutdown_task_start v s1"
proof -
  obtain rx where E: "E = \<lparr>se_interrupt = interrupt, se_terminate = terminate, se_hook = hook,
      se_extension = run_registered C ua trace e api rx\<rparr>" and t: "t = shutdown_task_start v s1"
    and reg: "extension_register C ua e api args (\<lambda>_. act_of (Ok ())) (\<lambda>_. act_of (Ok ())) shutdown_extension s = (Ok rx, s1)"
    using assms unfolding spawn_graceful_shutdown_handler_def
    by (auto simp: result_simps split: prod.splits)
  obtain base where base: "Ok base = resolve_uri C e None" and identity: "rx_events_processor rx = identity"
    using reg unfolding extension_register_def act_then_eq_Ok act_of_eq
    by (clarsimp simp: shutdown_extension_def with_extension_name_def with_events_def extension_new_def)
  from that [OF base [symmetric] identity E t] show thesis .
qed

text \<open>The hook, polled until it is done.\<close>

fun hook_run :: "nat \<Rightarrow> ('v, 'f) shutdown_hook \<Rightarrow> 'f \<Rightarrow> 'v \<Rightarrow> 'v option" where
  "hook_run 0 hook f v = None"
| "hook_run (Suc n) hook f v =
     (case hk_poll hook f v of
        (Inr None, v1) \<Rightarrow> Some v1
      | (Inr (Some f1), v1) \<Rightarrow> hook_run n hook f1 v1
      | (Inl p, v1) \<Rightarrow> None)"

lemma run_alone_ended: "hd_end h \<noteq> None \<Longrightarrow> run_alone E wks h = h"
  by (induction wks) (simp_all add: run_alone_def poll_alone_def)

lemma run_alone_Cons: "hd_end h = None \<Longrightarrow> run_alone E (wk # wks) h = run_alone E wks (poll_graceful E wk h)"
  by (simp add: run_alone_def poll_alone_def)

lemma hook_completes:
  assumes "hook_run (Suc (length post)) (se_hook E) f (hd_world h) = Some v" and "hd_end h = None"
  shows "hd_end (run_alone E post (poll_hook (se_hook E) f h)) = Some (ProcessExit 0) \<and>
    hd_printed (run_alone E post (poll_hook (se_hook E) f h)) = hd_printed h @ [''[runtime] Graceful shutdown completed''] \<and>
    hd_world (run_alone E post (poll_hook (se_hook E) f h)) = v"
  using assms
proof (induction post arbitrary: f h)
  case Nil
  then show ?case
    by (auto simp: poll_hook_def run_alone_def split: prod.splits sum.splits option.splits)
next
  case (Cons wk post)
  show ?case
  proof (cases "hk_poll (se_hook E) f (hd_world h)")
    case (Pair r v1)
    show ?thesis
    proof (cases "r = Inr None")
      case True
      with Pair Cons.prems show ?thesis
        by (simp add: poll_hook_def run_alone_ended)
    next
      case False
      with Pair Cons.prems obtain f1 where r: "r = Inr (Some f1)"
        by (cases r) (auto split: option.splits)
      let ?h = "h\<lparr>hd_world := v1, hd_graceful := Hooking f1\<rparr>"
      have "hook_run (Suc (length post)) (se_hook E) f1 (hd_world ?h) = Some v" and "hd_end ?h = None"
        using Cons.prems Pair r by simp_all
      from Cons.IH [OF this] show ?thesis
        using Pair r Cons.prems(2) by (simp add: poll_hook_def run_alone_Cons poll_graceful_def)
    qed
  qed
qed

subsection \<open>Properties\<close>

lemma signal_handled:
  assumes "se_interrupt E = Ok ()" and "se_terminate E = Ok ()"
    and "\<forall>wk \<in> set pre. select_signal wk = None" and "select_signal wk = Some name"
    and "hk_call (se_hook E) (hd_world h) = (Inr f, v1)"
    and "hook_run (Suc (length post)) (se_hook E) f v1 = Some v2"
    and "hd_end h = None" and "hd_graceful h \<in> {Starting, Selecting}"
  shows "let h' = run_alone E (pre @ wk # post) h in
    hd_end h' = Some (ProcessExit 0) \<and> hd_world h' = v2 \<and>
    hd_printed h' = hd_printed h @ signal_lines name @ [''[runtime] Graceful shutdown completed'']"
  using assms(3, 5, 7, 8)
proof (induction pre arbitrary: h)
  case Nil
  then have "poll_graceful E wk h =
      poll_hook (se_hook E) f (h\<lparr>hd_printed := hd_printed h @ signal_lines name, hd_world := v1\<rparr>)"
    using assms(1, 2, 4) by (auto simp: poll_graceful_def poll_select_def split: graceful.splits)
  with hook_completes [of post E f "h\<lparr>hd_printed := hd_printed h @ signal_lines name, hd_world := v1\<rparr>" v2]
  show ?case
    using Nil(3) assms(6) by (simp add: run_alone_Cons)
next
  case (Cons wk' pre)
  then have "poll_graceful E wk' h = h\<lparr>hd_graceful := Selecting\<rparr>"
    using assms(1, 2) by (auto simp: poll_graceful_def poll_select_def split: graceful.splits)
  with Cons.IH [of "h\<lparr>hd_graceful := Selecting\<rparr>"] Cons.prems show ?case
    by (simp add: run_alone_Cons)
qed

text \<open>
  C7: Graceful shutdown: once the handler is spawned and its signal listeners are installed, the first
  signal, interrupt or terminate, whenever it comes and whatever the extension's requests have
  returned or return (their errors are suppressed, and none of them panics), is announced, runs the hook
  exactly once from the world it finds, and when the hook is done the process exits with code 0.
\<close>

theorem graceful_shutdown_runs_hook:
  assumes "spawn_graceful_shutdown_handler C ua trace e api args (Ok ()) (Ok ()) hook v s = (Ok (E, t), s1)"
    and "\<And>base. calm_client C (api base)"
    and "\<forall>wk \<in> set pre. select_signal wk = None" and "select_signal wk = Some name"
    and "hk_call hook v = (Inr f, v1)" and "hook_run (Suc (length post)) hook f v1 = Some v2"
  shows "let h = sh_handler (run_task E (pre @ wk # post) t) in
    hd_end h = Some (ProcessExit 0) \<and> hd_world h = v2 \<and>
    hd_printed h = signal_lines name @ [''[runtime] Graceful shutdown completed'']"
proof -
  from assms(1) obtain rx base where spawned: "resolve_uri C e None = Ok base" "rx_events_processor rx = identity"
    and E: "E = \<lparr>se_interrupt = Ok (), se_terminate = Ok (), se_hook = hook,
               se_extension = run_registered C ua trace e api rx\<rparr>"
    and t: "t = shutdown_task_start v s1"
    by (rule spawn_eq_Ok)
  have "quiet_extension E"
    by unfold_locales (simp add: E run_registered_calm [OF assms(2) spawned])
  then have "sh_handler (run_task E (pre @ wk # post) t) = run_alone E (pre @ wk # post) (sh_handler t)"
    by (rule quiet_extension.run_task_handler)
  then show ?thesis
    using signal_handled [of E pre wk name "sh_handler t" f v1 post v2] assms(3-6)
    by (simp add: E t shutdown_task_start_def)
qed

text \<open>
  The process exits with no other code, and only after the hook has completed.
\<close>

definition exit_announced :: "('v, 'f) shutdown_handler \<Rightarrow> bool" where
  "exit_announced h \<longleftrightarrow>
     (\<forall>c. hd_end h = Some (ProcessExit c) \<longrightarrow>
        c = 0 \<and> hd_printed h \<noteq> [] \<and> last (hd_printed h) = ''[runtime] Graceful shutdown completed'')"

lemma poll_hook_announced: "hd_end h = None \<Longrightarrow> exit_announced (poll_hook hook f h)"
  by (auto simp: exit_announced_def poll_hook_def split: prod.splits sum.splits option.splits)

lemma poll_select_announced: "hd_end h = None \<Longrightarrow> exit_announced (poll_select hook wk h)"
proof (cases "select_signal wk")
  case (Some name)
  assume "hd_end h = None"
  obtain r v where "hk_call hook (hd_world h) = (r, v)"
    by fastforce
  with Some \<open>hd_end h = None\<close> show ?thesis
    by (cases r) (simp_all add: poll_select_def poll_hook_announced, simp add: exit_announced_def)
qed (simp add: poll_select_def exit_announced_def)

lemma poll_graceful_announced: "hd_end h = None \<Longrightarrow> exit_announced (poll_graceful E wk h)"
  by (auto simp: poll_graceful_def poll_hook_announced poll_select_announced split: graceful.splits result.splits)
    (simp add: exit_announced_def)

lemma poll_task_announced: "exit_announced (sh_handler t) \<Longrightarrow> exit_announced (sh_handler (poll_task E wk t))"
  using poll_graceful_announced [of "sh_handler t" E wk]
  by (auto simp: poll_task_def poll_extension_def Let_def exit_announced_def split: prod.splits result.splits)

lemma exit_only_after_hook: "exit_announced (sh_handler t) \<Longrightarrow> exit_announced (sh_handler (run_task E wks t))"
  by (induction wks arbitrary: t) (simp_all add: run_task_def poll_task_announced)

text \<open>
  A panic of the extension's run is not suppressed: it ends the task, and the signals that come
  after it, whose default action the listeners have replaced, are lost.
\<close>

lemma extension_panic_loses_signals:
  assumes "hd_end (sh_handler t) = None" and "hd_graceful (sh_handler t) = Selecting"
    and "select_signal wk = None" and "sh_extension t" and "wk_response wk"
    and "se_extension E (sh_world t) = (Panic p, w)"
  shows "hd_end (sh_handler (run_task E (wk # wks) t)) = Some (TaskPanic p)"
proof -
  have "hd_end (sh_handler (poll_task E wk t)) = Some (TaskPanic p)"
    using assms by (simp add: poll_task_def poll_extension_def poll_graceful_def poll_select_def)
  then have "fold (poll_task E) wks (poll_task E wk t) = poll_task E wk t"
    by (induction wks) (simp_all add: poll_task_def)
  with \<open>hd_end (sh_handler (poll_task E wk t)) = Some (TaskPanic p)\<close> show ?thesis
    by (simp add: run_task_def)
qed

subsection \<open>An example\<close>

interpretation example_client: calm_client example_crates "example_api base"
  by unfold_locales (auto simp: example_api_def example_crates_def ref_crates_def)

interpretation no_op_extension: quiet_extension "\<lparr>se_interrupt = interrupt, se_terminate = terminate, se_hook = hook,
    se_extension = extension_iter example_crates ua trace (example_api base) i identity\<rparr>"
  by unfold_locales (simp add: example_client.no_op_iter_calm)

definition example_hook :: "(string list, nat) shutdown_hook" where
  "example_hook =
     \<lparr>hk_call = (\<lambda>v. (Inr 1, v @ [''flush''])),
      hk_poll = (\<lambda>n v. if n = 0 then (Inr None, v @ [''flushed'']) else (Inr (Some (n - 1)), v))\<rparr>"

definition quiet_wake :: wake where
  "quiet_wake = \<lparr>wk_interrupt = False, wk_terminate = False, wk_terminate_first = False, wk_response = True\<rparr>"

definition spawn_example where
  "spawn_example = spawn_graceful_shutdown_handler example_crates ''ua'' True [''AWS_LAMBDA_RUNTIME_API'' \<mapsto> ''h:1'']
     example_api [] (Ok ()) (Ok ()) example_hook [] \<lparr>ew_world = [], ew_servers = []\<rparr>"

lemma spawn_example_Ok: "\<exists>E t s1. spawn_example = (Ok (E, t), s1)"
proof -
  have id: "lower ''Lambda-Extension-Identifier'' = ''lambda-extension-identifier''"
    by (simp add: lower_eval)
  have ua: "header_value_bytes ''ua''" "header_value_bytes ''_lambda-rust-runtime-no-op-graceful-shutdown-helper''"
    "header_value_bytes ''ext-1''" "header_value_bytes ''accountId''" "header_value_bytes ''application/json''"
    "visible_ascii ''ext-1''"
    by (simp_all add: header_value_bytes_def visible_ascii_def)
  have "is_ok (fst spawn_example)"
    by (simp add: spawn_example_def spawn_graceful_shutdown_handler_def shutdown_extension_def with_events_def
        extension_register_def resolve_uri_def register_extension_def extension_name_of_def
        with_extension_name_def extension_new_def register_req_def build_request_def
        builder_defs hv_parse_def al_hmap_def ua example_crates_def ref_crates_def
        act_then_def act_of_def on_world_def example_api_def subscribe_def
        hm_get_def id hv_to_str_def from_slice_def register_response_body_of_json_def
        de_fields_def de_required_def de_optional_def origin_uri_def)
  then obtain x where "fst spawn_example = Ok x"
    by (auto simp: is_ok_iff)
  then have "spawn_example = (Ok (fst x, snd x), snd spawn_example)"
    by (simp add: prod_eq_iff)
  then show ?thesis
    by blast
qed

theorem graceful_shutdown_runs_hook_witness:
  "\<exists>E t s1. spawn_example = (Ok (E, t), s1) \<and>
     hd_world (sh_handler (run_task E [quiet_wake, quiet_wake\<lparr>wk_terminate := True\<rparr>, quiet_wake] t)) = [''flush'', ''flushed''] \<and>
     hd_end (sh_handler (run_task E [quiet_wake, quiet_wake\<lparr>wk_terminate := True\<rparr>, quiet_wake] t)) = Some (ProcessExit 0)"
proof -
  obtain E t s1 where spawned: "spawn_example = (Ok (E, t), s1)"
    using spawn_example_Ok by blast
  have no_signal: "\<forall>wk \<in> set [quiet_wake]. select_signal wk = None"
    and signal: "select_signal (quiet_wake\<lparr>wk_terminate := True\<rparr>) = Some ''SIGTERM''"
    by (simp_all add: quiet_wake_def select_signal_def)
  have call: "hk_call example_hook [] = (Inr 1, [''flush''])"
    and run: "hook_run (Suc (length [quiet_wake])) example_hook 1 [''flush''] = Some [''flush'', ''flushed'']"
    by (simp_all add: example_hook_def)
  from graceful_shutdown_runs_hook [OF spawned [unfolded spawn_example_def] example_client.calm_client_axioms
      no_signal signal call run] spawned
  show ?thesis
    by (intro exI [of _ E] exI [of _ t] exI [of _ s1]) (simp add: Let_def)
qed

end
