(* ===== verification/RequestAccess.thy ===== *)
theory RequestAccess
  imports HttpAdapter
begin

text \<open>
  \<^verbatim>\<open>RequestExt\<close> for the parts of a request and for requests
  (\<^verbatim>\<open>lambda-http/src/ext/extensions.rs\<close>): each accessor is the one of the extensions,
  each setter sets them.
\<close>

subsection \<open>Slots\<close>

text \<open>
  What a pair of a setter and an accessor promises: what was set is seen (through \<open>view\<close>, as
  an empty map counts as absent), and the last setting counts.
\<close>

locale extension_slot =
  fixes put :: "'v \<Rightarrow> 'r \<Rightarrow> 'r"
    and get :: "'r \<Rightarrow> 'a"
    and view :: "'v \<Rightarrow> 'a"
  assumes get_put: "get (put v r) = view v"
    and put_put: "put v (put u r) = put v r"
begin

lemma get_put_put: "get (put v (put u r)) = view v"
  by (simp add: get_put)

end

text \<open>Two slots that do not see each other's settings.\<close>

locale separate_slots = fst_slot: extension_slot put get view + snd_slot: extension_slot put' get' view'
  for put :: "'v \<Rightarrow> 'r \<Rightarrow> 'r" and get :: "'r \<Rightarrow> 'a" and view :: "'v \<Rightarrow> 'a"
    and put' :: "'u \<Rightarrow> 'r \<Rightarrow> 'r" and get' :: "'r \<Rightarrow> 'b" and view' :: "'u \<Rightarrow> 'b" +
  assumes put_swap: "put v (put' u r) = put' u (put v r)"
begin

lemma get_both: "get (put v (put' u r)) = view v \<and> get' (put v (put' u r)) = view' u"
  using fst_slot.get_put snd_slot.get_put put_swap by metis

end

subsection \<open>Parts\<close>

record ('h, 'q) request_parts =
  pa_method :: string
  pa_uri :: uri
  pa_headers :: 'h
  pa_extensions :: "'q extensions"

definition parts_raw_http_path :: "('h, 'q) request_parts \<Rightarrow> string" where
  "parts_raw_http_path r = raw_http_path (pa_extensions r)"

definition parts_with_raw_http_path :: "string \<Rightarrow> ('h, 'q) request_parts \<Rightarrow> ('h, 'q) request_parts" where
  "parts_with_raw_http_path v r = r\<lparr>pa_extensions := with_raw_http_path v (pa_extensions r)\<rparr>"

definition parts_query_string_parameters :: "('h, 'q) web \<Rightarrow> ('h, 'q) request_parts \<Rightarrow> 'q" where
  "parts_query_string_parameters W r = query_string_parameters W (pa_extensions r)"

definition parts_with_query_string_parameters :: "'q \<Rightarrow> ('h, 'q) request_parts \<Rightarrow> ('h, 'q) request_parts" where
  "parts_with_query_string_parameters v r = r\<lparr>pa_extensions := with_query_string_parameters v (pa_extensions r)\<rparr>"

definition parts_query_string_parameters_ref :: "('h, 'q) web \<Rightarrow> ('h, 'q) request_parts \<Rightarrow> 'q option" where
  "parts_query_string_parameters_ref W r = query_string_parameters_ref W (pa_extensions r)"

definition parts_path_parameters :: "('h, 'q) web \<Rightarrow> ('h, 'q) request_parts \<Rightarrow> 'q" where
  "parts_path_parameters W r = path_parameters W (pa_extensions r)"

definition parts_with_path_parameters :: "'q \<Rightarrow> ('h, 'q) request_parts \<Rightarrow> ('h, 'q) request_parts" where
  "parts_with_path_parameters v r = r\<lparr>pa_extensions := with_path_parameters v (pa_extensions r)\<rparr>"

definition parts_path_parameters_ref :: "('h, 'q) web \<Rightarrow> ('h, 'q) request_parts \<Rightarrow> 'q option" where
  "parts_path_parameters_ref W r = path_parameters_ref W (pa_extensions r)"

definition parts_stage_variables :: "('h, 'q) web \<Rightarrow> ('h, 'q) request_parts \<Rightarrow> 'q" where
  "parts_stage_variables W r = stage_variables W (pa_extensions r)"

definition parts_with_stage_variables :: "'q \<Rightarrow> ('h, 'q) request_parts \<Rightarrow> ('h, 'q) request_parts" where
  "parts_with_stage_variables v r = r\<lparr>pa_extensions := with_stage_variables v (pa_extensions r)\<rparr>"

definition parts_stage_variables_ref :: "('h, 'q) web \<Rightarrow> ('h, 'q) request_parts \<Rightarrow> 'q option" where
  "parts_stage_variables_ref W r = stage_variables_ref W (pa_extensions r)"

definition parts_request_context :: "('h, 'q) request_parts \<Rightarrow> ('e, http_context) result" where
  "parts_request_context r = request_context (pa_extensions r)"

definition parts_with_request_context :: "http_context \<Rightarrow> ('h, 'q) request_parts \<Rightarrow> ('h, 'q) request_parts" where
  "parts_with_request_context v r = r\<lparr>pa_extensions := with_request_context v (pa_extensions r)\<rparr>"

definition parts_lambda_context :: "('h, 'q) request_parts \<Rightarrow> ('e, rt_context) result" where
  "parts_lambda_context r = lambda_context (pa_extensions r)"

definition parts_with_lambda_context :: "rt_context \<Rightarrow> ('h, 'q) request_parts \<Rightarrow> ('h, 'q) request_parts" where
  "parts_with_lambda_context v r = r\<lparr>pa_extensions := with_lambda_context v (pa_extensions r)\<rparr>"

subsection \<open>Requests\<close>

definition request_raw_http_path :: "('h, 'q) request \<Rightarrow> string" where
  "request_raw_http_path r = raw_http_path (hr_extensions r)"

definition request_with_raw_http_path :: "string \<Rightarrow> ('h, 'q) request \<Rightarrow> ('h, 'q) request" where
  "request_with_raw_http_path v r = map_req_ext (with_raw_http_path v) r"

definition request_query_string_parameters :: "('h, 'q) web \<Rightarrow> ('h, 'q) request \<Rightarrow> 'q" where
  "request_query_string_parameters W r = query_string_parameters W (hr_extensions r)"

definition request_with_query_string_parameters :: "'q \<Rightarrow> ('h, 'q) request \<Rightarrow> ('h, 'q) request" where
  "request_with_query_string_parameters v r = map_req_ext (with_query_string_parameters v) r"

definition request_query_string_parameters_ref :: "('h, 'q) web \<Rightarrow> ('h, 'q) request \<Rightarrow> 'q option" where
  "request_query_string_parameters_ref W r = query_string_parameters_ref W (hr_extensions r)"

definition request_path_parameters :: "('h, 'q) web \<Rightarrow> ('h, 'q) request \<Rightarrow> 'q" where
  "request_path_parameters W r = path_parameters W (hr_extensions r)"

definition request_with_path_parameters :: "'q \<Rightarrow> ('h, 'q) request \<Rightarrow> ('h, 'q) request" where
  "request_with_path_parameters v r = map_req_ext (with_path_parameters v) r"

definition request_path_parameters_ref :: "('h, 'q) web \<Rightarrow> ('h, 'q) request \<Rightarrow> 'q option" where
  "request_path_parameters_ref W r = path_parameters_ref W (hr_extensions r)"

definition request_stage_variables :: "('h, 'q) web \<Rightarrow> ('h, 'q) request \<Rightarrow> 'q" where
  "request_stage_variables W r = stage_variables W (hr_extensions r)"

definition request_with_stage_variables :: "'q \<Rightarrow> ('h, 'q) request \<Rightarrow> ('h, 'q) request" where
  "request_with_stage_variables v r = map_req_ext (with_stage_variables v) r"

definition request_stage_variables_ref :: "('h, 'q) web \<Rightarrow> ('h, 'q) request \<Rightarrow> 'q option" where
  "request_stage_variables_ref W r = stage_variables_ref W (hr_extensions r)"

definition request_request_context :: "('h, 'q) request \<Rightarrow> ('e, http_context) result" where
  "request_request_context r = request_context (hr_extensions r)"

definition request_with_request_context :: "http_context \<Rightarrow> ('h, 'q) request \<Rightarrow> ('h, 'q) request" where
  "request_with_request_context v r = map_req_ext (with_request_context v) r"

definition request_lambda_context :: "('h, 'q) request \<Rightarrow> ('e, rt_context) result" where
  "request_lambda_context r = lambda_context (hr_extensions r)"

definition request_with_lambda_context :: "rt_context \<Rightarrow> ('h, 'q) request \<Rightarrow> ('h, 'q) request" where
  "request_with_lambda_context v r = map_req_ext (with_lambda_context v) r"

lemmas parts_access_defs =
  parts_raw_http_path_def parts_with_raw_http_path_def parts_query_string_parameters_def
  parts_with_query_string_parameters_def parts_query_string_parameters_ref_def
  parts_path_parameters_def parts_with_path_parameters_def parts_path_parameters_ref_def
  parts_stage_variables_def parts_with_stage_variables_def parts_stage_variables_ref_def
  parts_request_context_def parts_with_request_context_def parts_lambda_context_def
  parts_with_lambda_context_def

lemmas request_access_defs =
  request_raw_http_path_def request_with_raw_http_path_def request_query_string_parameters_def
  request_with_query_string_parameters_def request_query_string_parameters_ref_def
  request_path_parameters_def request_with_path_parameters_def request_path_parameters_ref_def
  request_stage_variables_def request_with_stage_variables_def request_stage_variables_ref_def
  request_request_context_def request_with_request_context_def request_lambda_context_def
  request_with_lambda_context_def

lemmas extension_defs =
  raw_http_path_def with_raw_http_path_def query_string_parameters_def
  query_string_parameters_ref_def with_query_string_parameters_def path_parameters_def
  path_parameters_ref_def with_path_parameters_def stage_variables_def stage_variables_ref_def
  with_stage_variables_def request_context_def with_request_context_def lambda_context_def
  with_lambda_context_def nonempty_map_def map_or_default_def map_req_ext_def

subsection \<open>The slots of a request\<close>

definition seen_map :: "('h, 'q) web \<Rightarrow> 'q \<Rightarrow> 'q" where
  "seen_map W q = (if wc_qm_is_empty W q then wc_qm_default W else q)"

interpretation path_slot: extension_slot request_with_raw_http_path "request_raw_http_path" "\<lambda>p. p"
  by unfold_locales (simp_all add: request_access_defs extension_defs seen_map_def)

interpretation query_slot: extension_slot request_with_query_string_parameters "request_query_string_parameters W" "seen_map W"
  by unfold_locales (simp_all add: request_access_defs extension_defs seen_map_def)

interpretation params_slot: extension_slot request_with_path_parameters "request_path_parameters W" "seen_map W"
  by unfold_locales (simp_all add: request_access_defs extension_defs seen_map_def)

interpretation stage_slot: extension_slot request_with_stage_variables "request_stage_variables W" "seen_map W"
  by unfold_locales (simp_all add: request_access_defs extension_defs seen_map_def)

interpretation context_slot: extension_slot request_with_request_context "request_request_context" "Ok"
  by unfold_locales (simp_all add: request_access_defs extension_defs seen_map_def)

interpretation lambda_slot: extension_slot request_with_lambda_context "request_lambda_context" "Ok"
  by unfold_locales (simp_all add: request_access_defs extension_defs seen_map_def)

interpretation path_query: separate_slots request_with_raw_http_path "request_raw_http_path" "\<lambda>p. p" request_with_query_string_parameters "request_query_string_parameters W" "seen_map W"
  by unfold_locales (simp add: request_access_defs extension_defs)

interpretation path_params: separate_slots request_with_raw_http_path "request_raw_http_path" "\<lambda>p. p" request_with_path_parameters "request_path_parameters W" "seen_map W"
  by unfold_locales (simp add: request_access_defs extension_defs)

interpretation path_stage: separate_slots request_with_raw_http_path "request_raw_http_path" "\<lambda>p. p" request_with_stage_variables "request_stage_variables W" "seen_map W"
  by unfold_locales (simp add: request_access_defs extension_defs)

interpretation path_context: separate_slots request_with_raw_http_path "request_raw_http_path" "\<lambda>p. p" request_with_request_context "request_request_context" "Ok"
  by unfold_locales (simp add: request_access_defs extension_defs)

interpretation path_lambda: separate_slots request_with_raw_http_path "request_raw_http_path" "\<lambda>p. p" request_with_lambda_context "request_lambda_context" "Ok"
  by unfold_locales (simp add: request_access_defs extension_defs)

interpretation query_params: separate_slots request_with_query_string_parameters "request_query_string_parameters W" "seen_map W" request_with_path_parameters "request_path_parameters W" "seen_map W"
  by unfold_locales (simp add: request_access_defs extension_defs)

interpretation query_stage: separate_slots request_with_query_string_parameters "request_query_string_parameters W" "seen_map W" request_with_stage_variables "request_stage_variables W" "seen_map W"
  by unfold_locales (simp add: request_access_defs extension_defs)

interpretation query_context: separate_slots request_with_query_string_parameters "request_query_string_parameters W" "seen_map W" request_with_request_context "request_request_context" "Ok"
  by unfold_locales (simp add: request_access_defs extension_defs)

interpretation query_lambda: separate_slots request_with_query_string_parameters "request_query_string_parameters W" "seen_map W" request_with_lambda_context "request_lambda_context" "Ok"
  by unfold_locales (simp add: request_access_defs extension_defs)

interpretation params_stage: separate_slots request_with_path_parameters "request_path_parameters W" "seen_map W" request_with_stage_variables "request_stage_variables W" "seen_map W"
  by unfold_locales (simp add: request_access_defs extension_defs)

interpretation params_context: separate_slots request_with_path_parameters "request_path_parameters W" "seen_map W" request_with_request_context "request_request_context" "Ok"
  by unfold_locales (simp add: request_access_defs extension_defs)

interpretation params_lambda: separate_slots request_with_path_parameters "request_path_parameters W" "seen_map W" request_with_lambda_context "request_lambda_context" "Ok"
  by unfold_locales (simp add: request_access_defs extension_defs)

interpretation stage_context: separate_slots request_with_stage_variables "request_stage_variables W" "seen_map W" request_with_request_context "request_request_context" "Ok"
  by unfold_locales (simp add: request_access_defs extension_defs)

interpretation stage_lambda: separate_slots request_with_stage_variables "request_stage_variables W" "seen_map W" request_with_lambda_context "request_lambda_context" "Ok"
  by unfold_locales (simp add: request_access_defs extension_defs)

interpretation context_lambda: separate_slots request_with_request_context "request_request_context" "Ok" request_with_lambda_context "request_lambda_context" "Ok"
  by unfold_locales (simp add: request_access_defs extension_defs)

text \<open>
  The six settings of a request, in whatever order they were made, are all seen, and a setting
  touches neither the method nor the URI, the headers or the body; the accessors of the parts agree with
  those of the request they are taken from.
\<close>

lemma request_settings_seen:
  assumes "r' = request_with_lambda_context lc (request_with_request_context rc (request_with_stage_variables sv
      (request_with_path_parameters pp (request_with_query_string_parameters qp (request_with_raw_http_path p r)))))"
  shows "request_raw_http_path r' = p \<and> request_query_string_parameters W r' = seen_map W qp \<and>
    request_path_parameters W r' = seen_map W pp \<and> request_stage_variables W r' = seen_map W sv \<and>
    request_request_context r' = (Ok rc :: (box_error, http_context) result) \<and>
    request_lambda_context r' = (Ok lc :: (box_error, rt_context) result) \<and>
    hr_method r' = hr_method r \<and> hr_uri r' = hr_uri r \<and> hr_headers r' = hr_headers r \<and> hr_body r' = hr_body r"
  by (simp add: assms request_access_defs extension_defs seen_map_def)

definition into_parts :: "('h, 'q) request \<Rightarrow> ('h, 'q) request_parts \<times> body" where
  "into_parts r = (\<lparr>pa_method = hr_method r, pa_uri = hr_uri r, pa_headers = hr_headers r,
     pa_extensions = hr_extensions r\<rparr>, hr_body r)"

lemma parts_agree:
  assumes "into_parts r = (parts, b)"
  shows "parts_raw_http_path parts = request_raw_http_path r"
    "parts_query_string_parameters W parts = request_query_string_parameters W r"
    "parts_path_parameters W parts = request_path_parameters W r"
    "parts_stage_variables W parts = request_stage_variables W r"
    "(parts_request_context parts :: (box_error, http_context) result) = request_request_context r"
    "(parts_lambda_context parts :: (box_error, rt_context) result) = request_lambda_context r"
  using assms by (auto simp: into_parts_def parts_access_defs request_access_defs)

end
