(* ===== verification/BodyChannel.thy ===== *)
theory BodyChannel
  imports Prelude
begin

text \<open>
  The body whose chunks another task sends
  (\<^verbatim>\<open>lambda-runtime-api-client/src/body/\<close>: \<^verbatim>\<open>watch.rs\<close>, \<^verbatim>\<open>sender.rs\<close>,
  \<^verbatim>\<open>channel.rs\<close> and \<^verbatim>\<open>mod.rs\<close>): the watched value that tells the sender whether the
  body is wanted, the sender's operations, the body's \<^verbatim>\<open>poll_frame\<close>, and every
  interleaving of the two halves as reachable states with the history of what was accepted and
  delivered. The two channels of \<^verbatim>\<open>futures_channel\<close> are parameters.
\<close>

subsection \<open>The channels of futures\_channel\<close>

text \<open>An item of the data channel: a chunk, or the error that ends the body.\<close>

type_synonym item = "box_error + string"

text \<open>
  \<^verbatim>\<open>mpsc::channel(0)\<close> with one sender: what each operation returns (\<open>None\<close> for
  pending) and the channel afterwards. \<open>mq_clone_send\<close> is \<^verbatim>\<open>clone().try_send(..)\<close>.
\<close>

record 'q mpsc =
  mq_new :: 'q
  mq_poll_ready :: "'q \<Rightarrow> bool option \<times> 'q"
  mq_try_send :: "item \<Rightarrow> 'q \<Rightarrow> bool \<times> 'q"
  mq_clone_send :: "item \<Rightarrow> 'q \<Rightarrow> bool \<times> 'q"
  mq_poll_next :: "'q \<Rightarrow> item option option \<times> 'q"
  mq_is_terminated :: "'q \<Rightarrow> bool"
  mq_drop_tx :: "'q \<Rightarrow> 'q"
  mq_drop_rx :: "'q \<Rightarrow> 'q"

text \<open>\<^verbatim>\<open>oneshot::channel()\<close> for the trailers.\<close>

record ('h, 'o) oneshot =
  os_new :: 'o
  os_send :: "'h \<Rightarrow> 'o \<Rightarrow> bool \<times> 'o"
  os_poll :: "'o \<Rightarrow> 'h option option \<times> 'o"
  os_drop_tx :: "'o \<Rightarrow> 'o"
  os_drop_rx :: "'o \<Rightarrow> 'o"

text \<open>
  The documented behaviour of the data channel: a queue in order, that refuses nothing when it is
  empty, takes a message of a fresh clone whatever is waiting, fails once the receiver is gone, and
  ends when the sender is gone and everything was taken.
\<close>

locale mpsc_channel =
  fixes M :: "'q mpsc" and contents :: "'q \<Rightarrow> item list" and tx_open rx_open :: "'q \<Rightarrow> bool"
  assumes new: "contents (mq_new M) = []" "tx_open (mq_new M)" "rx_open (mq_new M)"
      "\<not> mq_is_terminated M (mq_new M)"
    and poll_ready: "contents (snd (mq_poll_ready M q)) = contents q"
      "tx_open (snd (mq_poll_ready M q)) = tx_open q" "rx_open (snd (mq_poll_ready M q)) = rx_open q"
      "mq_is_terminated M (snd (mq_poll_ready M q)) = mq_is_terminated M q"
    and poll_ready_value: "rx_open q \<Longrightarrow> fst (mq_poll_ready M q) \<noteq> Some False"
      "rx_open q \<Longrightarrow> contents q = [] \<Longrightarrow> fst (mq_poll_ready M q) = Some True"
      "\<not> rx_open q \<Longrightarrow> fst (mq_poll_ready M q) = Some False"
    and try_send: "contents (snd (mq_try_send M x q)) = contents q @ (if fst (mq_try_send M x q) then [x] else [])"
      "tx_open (snd (mq_try_send M x q)) = tx_open q" "rx_open (snd (mq_try_send M x q)) = rx_open q"
      "mq_is_terminated M (snd (mq_try_send M x q)) = mq_is_terminated M q"
    and try_send_value: "\<not> rx_open q \<Longrightarrow> \<not> fst (mq_try_send M x q)"
      "rx_open q \<Longrightarrow> contents q = [] \<Longrightarrow> fst (mq_try_send M x q)"
    and clone_send: "contents (snd (mq_clone_send M x q)) = contents q @ (if rx_open q then [x] else [])"
      "fst (mq_clone_send M x q) = rx_open q"
      "tx_open (snd (mq_clone_send M x q)) = tx_open q" "rx_open (snd (mq_clone_send M x q)) = rx_open q"
      "mq_is_terminated M (snd (mq_clone_send M x q)) = mq_is_terminated M q"
    and poll_next: "contents (snd (mq_poll_next M q)) = tl (contents q)"
      "tx_open (snd (mq_poll_next M q)) = tx_open q" "rx_open (snd (mq_poll_next M q)) = rx_open q"
      "mq_is_terminated M (snd (mq_poll_next M q)) = (mq_is_terminated M q \<or> contents q = [] \<and> \<not> tx_open q)"
    and poll_next_value: "fst (mq_poll_next M q) =
        (case contents q of x # xs \<Rightarrow> Some (Some x) | [] \<Rightarrow> if tx_open q then None else Some None)"
    and drop_tx: "contents (mq_drop_tx M q) = contents q" "\<not> tx_open (mq_drop_tx M q)"
      "rx_open (mq_drop_tx M q) = rx_open q" "mq_is_terminated M (mq_drop_tx M q) = mq_is_terminated M q"
    and drop_rx: "tx_open (mq_drop_rx M q) = tx_open q" "\<not> rx_open (mq_drop_rx M q)"

locale oneshot_channel =
  fixes T :: "('h, 'o) oneshot" and sent :: "'o \<Rightarrow> 'h option" and sender_left :: "'o \<Rightarrow> bool"
  assumes trailers_new: "sent (os_new T) = None" "sender_left (os_new T)"
    and trailers_send: "\<not> sender_left (snd (os_send T t p))"
    and trailers_drop_tx: "\<not> sender_left (os_drop_tx T p)" "sent (os_drop_tx T p) = sent p"
    and trailers_poll_left: "sender_left (snd (os_poll T p)) = sender_left p"
    and trailers_poll: "fst (os_poll T p) =
        (case sent p of Some t \<Rightarrow> Some (Some t) | None \<Rightarrow> if sender_left p then None else Some None)"

subsection \<open>The watched value\<close>

text \<open>
  \<open>wt_waker\<close>: a waker is registered; \<open>wt_wakes\<close> counts the wake-ups of the
  sender's task. \<^verbatim>\<open>AtomicWaker::wake\<close> takes the waker out.
\<close>

record watch =
  wt_value :: nat
  wt_waker :: bool
  wt_wakes :: nat

definition watch_closed :: nat where "watch_closed = 0"
definition want_pending :: nat where "want_pending = 1"
definition want_ready :: nat where "want_ready = 2"

definition watch_channel :: "nat \<Rightarrow> watch" where
  "watch_channel initial = \<lparr>wt_value = initial, wt_waker = False, wt_wakes = 0\<rparr>"

definition watch_wake :: "watch \<Rightarrow> watch" where
  "watch_wake s = (if wt_waker s then s\<lparr>wt_waker := False, wt_wakes := Suc (wt_wakes s)\<rparr> else s)"

definition watch_send :: "nat \<Rightarrow> watch \<Rightarrow> watch" where
  "watch_send value s =
     (if wt_value s \<noteq> value then watch_wake (s\<lparr>wt_value := value\<rparr>) else s\<lparr>wt_value := value\<rparr>)"

definition watch_drop :: "watch \<Rightarrow> watch" where
  "watch_drop s = watch_send watch_closed s"

definition watch_load :: "watch \<Rightarrow> nat \<times> watch" where
  "watch_load s = (wt_value s, s\<lparr>wt_waker := True\<rparr>)"

definition watch_peek :: "watch \<Rightarrow> nat" where
  "watch_peek s = wt_value s"

subsection \<open>Lengths\<close>

definition length_close_delimited :: nat where "length_close_delimited = 2 ^ 64 - 1"
definition length_chunked :: nat where "length_chunked = 2 ^ 64 - 2"
definition length_zero :: nat where "length_zero = 0"

text \<open>Subtracting more than the known length is an arithmetic overflow: a panic in a debug build.\<close>

definition sub_if :: "nat \<Rightarrow> nat \<Rightarrow> (box_error, nat) result" where
  "sub_if amt known =
     (if known = length_chunked \<or> known = length_close_delimited then Ok known
      else if amt \<le> known then Ok (known - amt)
      else Panic (PStr ''attempt to subtract with overflow''))"

definition length_into_opt :: "nat \<Rightarrow> nat option" where
  "length_into_opt known = (if known = length_chunked \<or> known = length_close_delimited then None else Some known)"

subsection \<open>The two halves\<close>

text \<open>
  What the halves share, with the fields of \<^verbatim>\<open>Sender\<close> and \<^verbatim>\<open>ChannelBody\<close>.
  \<open>bc_sender\<close> and \<open>bc_body\<close>: the half has not been dropped.
\<close>

record ('q, 'o) body_channel =
  bc_want :: watch
  bc_data :: 'q
  bc_trailers_tx :: bool
  bc_trailers :: 'o
  bc_content_length :: nat
  bc_sender :: bool
  bc_body :: bool

definition new_channel :: "'q mpsc \<Rightarrow> ('h, 'o) oneshot \<Rightarrow> ('q, 'o) body_channel" where
  "new_channel M T =
     \<lparr>bc_want = watch_channel want_ready, bc_data = mq_new M, bc_trailers_tx = True, bc_trailers = os_new T,
      bc_content_length = length_chunked, bc_sender = True, bc_body = True\<rparr>"

datatype sender_error = ChannelClosed | BodyWriteAborted

definition sender_error_description :: "sender_error \<Rightarrow> string" where
  "sender_error_description e =
     (case e of BodyWriteAborted \<Rightarrow> ''user body write aborted'' | ChannelClosed \<Rightarrow> ''channel closed'')"

definition sender_err :: "sender_error \<Rightarrow> box_error" where
  "sender_err e = BoxError (sender_error_description e)"

definition poll_want :: "watch \<Rightarrow> (box_error, unit) result option \<times> watch" where
  "poll_want want =
     (case watch_load want of
        (v, want1) \<Rightarrow>
          (if v = want_ready then Some (Ok ())
           else if v = want_pending then None
           else if v = watch_closed then Some (Err (sender_err ChannelClosed))
           else Some (Panic (PString ''internal error: entered unreachable code'')), want1))"

definition poll_ready :: "'q mpsc \<Rightarrow> ('q, 'o) body_channel \<Rightarrow> (box_error, unit) result option \<times> ('q, 'o) body_channel" where
  "poll_ready M c =
     (case poll_want (bc_want c) of
        (Some (Ok _), want) \<Rightarrow>
          (case mq_poll_ready M (bc_data c) of
             (r, data) \<Rightarrow>
               (map_option (\<lambda>ok. if ok then Ok () else Err (sender_err ChannelClosed)) r,
                c\<lparr>bc_want := want, bc_data := data\<rparr>))
      | (r, want) \<Rightarrow> (r, c\<lparr>bc_want := want\<rparr>))"

text \<open>One poll of the future of \<^verbatim>\<open>send_data\<close>: it is at its \<^verbatim>\<open>await\<close> until ready.\<close>

definition poll_send_data ::
  "'q mpsc \<Rightarrow> string \<Rightarrow> ('q, 'o) body_channel \<Rightarrow> (box_error, unit) result option \<times> ('q, 'o) body_channel" where
  "poll_send_data M chunk c =
     (case poll_ready M c of
        (Some (Ok _), c1) \<Rightarrow>
          (case mq_try_send M (Inr chunk) (bc_data c1) of
             (ok, data) \<Rightarrow>
               (Some (if ok then Ok () else Err (sender_err ChannelClosed)), c1\<lparr>bc_data := data\<rparr>))
      | r \<Rightarrow> r)"

definition try_send_data :: "'q mpsc \<Rightarrow> string \<Rightarrow> ('q, 'o) body_channel \<Rightarrow> (string, unit) result \<times> ('q, 'o) body_channel" where
  "try_send_data M chunk c =
     (case mq_try_send M (Inr chunk) (bc_data c) of
        (ok, data) \<Rightarrow> (if ok then Ok () else Err chunk, c\<lparr>bc_data := data\<rparr>))"

definition send_trailers ::
  "('h, 'o) oneshot \<Rightarrow> 'h \<Rightarrow> ('q, 'o) body_channel \<Rightarrow> (box_error, unit) result \<times> ('q, 'o) body_channel" where
  "send_trailers T trailers c =
     (if bc_trailers_tx c
      then
        (case os_send T trailers (bc_trailers c) of
           (ok, p) \<Rightarrow>
             (if ok then Ok () else Err (sender_err ChannelClosed), c\<lparr>bc_trailers_tx := False, bc_trailers := p\<rparr>))
      else (Err (sender_err ChannelClosed), c))"

definition send_error :: "'q mpsc \<Rightarrow> box_error \<Rightarrow> ('q, 'o) body_channel \<Rightarrow> ('q, 'o) body_channel" where
  "send_error M err c = c\<lparr>bc_data := snd (mq_clone_send M (Inl err) (bc_data c))\<rparr>"

definition drop_sender :: "'q mpsc \<Rightarrow> ('h, 'o) oneshot \<Rightarrow> ('q, 'o) body_channel \<Rightarrow> ('q, 'o) body_channel" where
  "drop_sender M T c =
     c\<lparr>bc_data := mq_drop_tx M (bc_data c),
       bc_trailers := (if bc_trailers_tx c then os_drop_tx T (bc_trailers c) else bc_trailers c),
       bc_trailers_tx := False, bc_sender := False\<rparr>"

definition abort :: "'q mpsc \<Rightarrow> ('h, 'o) oneshot \<Rightarrow> ('q, 'o) body_channel \<Rightarrow> ('q, 'o) body_channel" where
  "abort M T c = drop_sender M T (send_error M (sender_err BodyWriteAborted) c)"

datatype 'h body_frame = FrameData string | FrameTrailers 'h

text \<open>
  \<^verbatim>\<open>poll_frame\<close>: \<open>None\<close> is pending, \<open>Some (Ok None)\<close> the end of the body.
\<close>

definition poll_frame ::
  "'q mpsc \<Rightarrow> ('h, 'o) oneshot \<Rightarrow> ('q, 'o) body_channel
   \<Rightarrow> (box_error, 'h body_frame option) result option \<times> ('q, 'o) body_channel" where
  "poll_frame M T c0 =
     (let c = c0\<lparr>bc_want := watch_send want_ready (bc_want c0)\<rparr>;
          trailers = (\<lambda>c.
            case os_poll T (bc_trailers c) of
              (None, p) \<Rightarrow> (None, c\<lparr>bc_trailers := p\<rparr>)
            | (Some (Some t), p) \<Rightarrow> (Some (Ok (Some (FrameTrailers t))), c\<lparr>bc_trailers := p\<rparr>)
            | (Some None, p) \<Rightarrow> (Some (Ok None), c\<lparr>bc_trailers := p\<rparr>))
      in if mq_is_terminated M (bc_data c) then trailers c
         else
           (case mq_poll_next M (bc_data c) of
              (None, data) \<Rightarrow> (None, c\<lparr>bc_data := data\<rparr>)
            | (Some (Some (Inl e)), data) \<Rightarrow> (Some (Err e), c\<lparr>bc_data := data\<rparr>)
            | (Some (Some (Inr chunk)), data) \<Rightarrow>
                (case sub_if (length chunk) (bc_content_length c) of
                   Ok known \<Rightarrow>
                     (Some (Ok (Some (FrameData chunk))), c\<lparr>bc_data := data, bc_content_length := known\<rparr>)
                 | Err e \<Rightarrow> (Some (Err e), c\<lparr>bc_data := data\<rparr>)
                 | Panic p \<Rightarrow> (Some (Panic p), c\<lparr>bc_data := data\<rparr>))
            | (Some None, data) \<Rightarrow> trailers (c\<lparr>bc_data := data\<rparr>)))"

definition channel_is_end_stream :: "('q, 'o) body_channel \<Rightarrow> bool" where
  "channel_is_end_stream c \<longleftrightarrow> bc_content_length c = length_zero"

text \<open>The size hint: a lower bound and, when it is exact, the same upper bound.\<close>

definition channel_size_hint :: "('q, 'o) body_channel \<Rightarrow> nat \<times> nat option" where
  "channel_size_hint c = (case length_into_opt (bc_content_length c) of Some n \<Rightarrow> (n, Some n) | None \<Rightarrow> (0, None))"

definition drop_body :: "'q mpsc \<Rightarrow> ('h, 'o) oneshot \<Rightarrow> ('q, 'o) body_channel \<Rightarrow> ('q, 'o) body_channel" where
  "drop_body M T c =
     c\<lparr>bc_want := watch_drop (bc_want c), bc_data := mq_drop_rx M (bc_data c),
       bc_trailers := os_drop_rx T (bc_trailers c), bc_body := False\<rparr>"

text \<open>\<^verbatim>\<open>Stream for Body\<close>: the data of the frames; trailers end the stream.\<close>

definition poll_next_data ::
  "'q mpsc \<Rightarrow> ('h, 'o) oneshot \<Rightarrow> ('q, 'o) body_channel
   \<Rightarrow> (box_error, string option) result option \<times> ('q, 'o) body_channel" where
  "poll_next_data M T c =
     (case poll_frame M T c of
        (r, c1) \<Rightarrow>
          (map_option (map_ok (\<lambda>f. case f of Some (FrameData d) \<Rightarrow> Some d | _ \<Rightarrow> None)) r, c1))"

subsection \<open>Interleavings\<close>

datatype 'h event =
  PollReady | PollSendData string | TrySendData string | SendTrailers 'h | SendError box_error | Abort | DropSender
| PollFrame | DropBody

definition is_sender_event :: "'h event \<Rightarrow> bool" where
  "is_sender_event ev \<longleftrightarrow> ev \<noteq> PollFrame \<and> ev \<noteq> DropBody"

text \<open>What an event has the data channel accept, what it delivers to the reader of the body.\<close>

definition frame_item :: "(box_error, 'h body_frame option) result option \<Rightarrow> item list" where
  "frame_item r =
     (case r of Some (Ok (Some (FrameData d))) \<Rightarrow> [Inr d] | Some (Err e) \<Rightarrow> [Inl e] | _ \<Rightarrow> [])"

fun run_event ::
  "'q mpsc \<Rightarrow> ('h, 'o) oneshot \<Rightarrow> 'h event \<Rightarrow> ('q, 'o) body_channel \<Rightarrow> item list \<times> item list \<times> ('q, 'o) body_channel" where
  "run_event M T PollReady c = ([], [], snd (poll_ready M c))"
| "run_event M T (PollSendData chunk) c =
     (case poll_send_data M chunk c of (r, c1) \<Rightarrow> (if r = Some (Ok ()) then [Inr chunk] else [], [], c1))"
| "run_event M T (TrySendData chunk) c =
     (case try_send_data M chunk c of (r, c1) \<Rightarrow> (if r = Ok () then [Inr chunk] else [], [], c1))"
| "run_event M T (SendTrailers t) c = ([], [], snd (send_trailers T t c))"
| "run_event M T (SendError e) c =
     (if fst (mq_clone_send M (Inl e) (bc_data c)) then [Inl e] else [], [], send_error M e c)"
| "run_event M T Abort c =
     (if fst (mq_clone_send M (Inl (sender_err BodyWriteAborted)) (bc_data c))
      then [Inl (sender_err BodyWriteAborted)] else [], [], abort M T c)"
| "run_event M T DropSender c = ([], [], drop_sender M T c)"
| "run_event M T PollFrame c = (case poll_frame M T c of (r, c1) \<Rightarrow> ([], frame_item r, c1))"
| "run_event M T DropBody c = ([], [], drop_body M T c)"

text \<open>The reachable states, with what was accepted and what was delivered so far.\<close>

inductive body_run ::
  "'q mpsc \<Rightarrow> ('h, 'o) oneshot \<Rightarrow> ('q, 'o) body_channel \<Rightarrow> item list \<Rightarrow> item list \<Rightarrow> bool" for M T where
  start: "body_run M T (new_channel M T) [] []"
| sender: "body_run M T c acc del \<Longrightarrow> bc_sender c \<Longrightarrow> is_sender_event ev \<Longrightarrow> run_event M T ev c = (a, d, c1) \<Longrightarrow>
    body_run M T c1 (acc @ a) (del @ d)"
| body: "body_run M T c acc del \<Longrightarrow> bc_body c \<Longrightarrow> \<not> is_sender_event ev \<Longrightarrow> run_event M T ev c = (a, d, c1) \<Longrightarrow>
    body_run M T c1 (acc @ a) (del @ d)"

text \<open>What a reader sees that polls \<open>n\<close> times.\<close>

fun poll_times ::
  "nat \<Rightarrow> 'q mpsc \<Rightarrow> ('h, 'o) oneshot \<Rightarrow> ('q, 'o) body_channel
   \<Rightarrow> (box_error, 'h body_frame option) result option list \<times> ('q, 'o) body_channel" where
  "poll_times 0 M T c = ([], c)"
| "poll_times (Suc n) M T c =
     (case poll_frame M T c of (r, c1) \<Rightarrow> (case poll_times n M T c1 of (rs, c2) \<Rightarrow> (r # rs, c2)))"

fun item_outcome :: "item \<Rightarrow> (box_error, 'h body_frame option) result option" where
  "item_outcome (Inr chunk) = Some (Ok (Some (FrameData chunk)))"
| "item_outcome (Inl e) = Some (Err e)"

subsection \<open>Lemmas\<close>

named_theorems channel_defs \<open>definitions of the operations of the two halves\<close>

lemmas [channel_defs] =
  watch_channel_def watch_send_def watch_wake_def watch_drop_def watch_load_def watch_closed_def want_ready_def
  want_pending_def poll_want_def poll_ready_def poll_send_data_def try_send_data_def send_trailers_def send_error_def
  drop_sender_def abort_def drop_body_def new_channel_def

lemma sub_if_chunked [simp]: "sub_if n length_chunked = Ok length_chunked"
  by (simp add: sub_if_def)

lemma watch_send_value [simp]: "wt_value (watch_send v s) = v"
  by (simp add: watch_send_def watch_wake_def)

lemma poll_want_value [simp]: "wt_value (snd (poll_want w)) = wt_value w"
  by (simp add: poll_want_def watch_load_def)

lemma frame_item_outcome [simp]: "frame_item (item_outcome x) = [x]"
  by (cases x) (simp_all add: frame_item_def)

text \<open>What the operations on the data leave alone.\<close>

definition same_trailers :: "('q, 'o) body_channel \<Rightarrow> ('q, 'o) body_channel \<Rightarrow> bool" where
  "same_trailers c c1 \<longleftrightarrow> bc_trailers c1 = bc_trailers c \<and> bc_trailers_tx c1 = bc_trailers_tx c \<and> bc_body c1 = bc_body c"

lemma data_keeps_trailers:
  "same_trailers c (snd (poll_ready M c))" "same_trailers c (snd (poll_send_data M chunk c))"
  "same_trailers c (snd (try_send_data M chunk c))" "same_trailers c (send_error M e c)"
proof -
  show "same_trailers c (snd (poll_ready M c))"
    by (simp add: poll_ready_def same_trailers_def split: prod.splits option.splits result.splits)
  then show "same_trailers c (snd (poll_send_data M chunk c))"
    by (auto simp: poll_send_data_def same_trailers_def split: prod.splits option.splits result.splits)
qed (simp_all add: try_send_data_def send_error_def same_trailers_def split: prod.splits)

context mpsc_channel
begin

lemmas mq_laws [simp] =
  new poll_ready try_send clone_send poll_next drop_tx drop_rx

text \<open>The invariant that ties the fields of both halves together.\<close>

definition body_inv :: "('q, 'o) body_channel \<Rightarrow> item list \<Rightarrow> item list \<Rightarrow> bool" where
  "body_inv c acc del \<longleftrightarrow>
     wt_value (bc_want c) = (if bc_body c then want_ready else watch_closed) \<and>
     tx_open (bc_data c) = bc_sender c \<and> rx_open (bc_data c) = bc_body c \<and>
     bc_content_length c = length_chunked \<and>
     (mq_is_terminated M (bc_data c) \<and> bc_body c \<longrightarrow> \<not> bc_sender c \<and> contents (bc_data c) = []) \<and>
     (bc_body c \<longrightarrow> acc = del @ contents (bc_data c)) \<and>
     (\<exists>rest. acc = del @ rest)"

lemma body_inv_new: "body_inv (new_channel M T) [] []"
  by (simp add: body_inv_def channel_defs)

lemma poll_frame_eq:
  assumes "body_inv c acc del" and "bc_body c"
  shows "poll_frame M T c =
    (let c1 = c\<lparr>bc_want := watch_send want_ready (bc_want c)\<rparr>;
         c2 = (if mq_is_terminated M (bc_data c) then c1 else c1\<lparr>bc_data := snd (mq_poll_next M (bc_data c))\<rparr>)
     in case contents (bc_data c) of
          x # xs \<Rightarrow> (item_outcome x, c2)
        | [] \<Rightarrow>
            if bc_sender c then (None, c2)
            else (map_option (\<lambda>t. Ok (map_option FrameTrailers t)) (fst (os_poll T (bc_trailers c))),
                  c2\<lparr>bc_trailers := snd (os_poll T (bc_trailers c))\<rparr>))"
proof -
  obtain r q where q: "mq_poll_next M (bc_data c) = (r, q)" by (cases "mq_poll_next M (bc_data c)")
  obtain s p where p: "os_poll T (bc_trailers c) = (s, p)" by (cases "os_poll T (bc_trailers c)")
  show ?thesis
    using assms poll_next_value [of "bc_data c"]
    by (auto simp: poll_frame_def body_inv_def Let_def q p split: list.splits sum.splits option.splits)
qed

lemma poll_frame_inv:
  assumes "body_inv c acc del" and "bc_body c"
  shows "body_inv (snd (poll_frame M T c)) acc (del @ frame_item (fst (poll_frame M T c)))"
  using assms
  by (simp add: poll_frame_eq [OF assms] Let_def split: list.splits)
    (auto simp: body_inv_def frame_item_def split: option.splits)

lemma poll_want_inv:
  "body_inv c acc del \<Longrightarrow>
     poll_want (bc_want c) =
       (Some (if bc_body c then Ok () else Err (sender_err ChannelClosed)), (bc_want c)\<lparr>wt_waker := True\<rparr>)"
  by (simp add: body_inv_def channel_defs)

lemma poll_ready_inv:
  assumes "body_inv c acc del"
  shows "body_inv (snd (poll_ready M c)) acc del" and "contents (bc_data (snd (poll_ready M c))) = contents (bc_data c)"
    and "bc_body (snd (poll_ready M c)) = bc_body c" and "bc_sender (snd (poll_ready M c)) = bc_sender c"
  using assms by (auto simp: poll_ready_def poll_want_inv [OF assms] split_beta split: if_splits) (auto simp: body_inv_def)

lemma try_send_inv:
  assumes "body_inv c acc del" and "bc_sender c"
  shows "body_inv (c\<lparr>bc_data := snd (mq_try_send M x (bc_data c))\<rparr>) (acc @ (if fst (mq_try_send M x (bc_data c)) then [x] else [])) del"
  using assms try_send_value(1) [of "bc_data c" x] by (auto simp: body_inv_def)

lemma clone_send_inv:
  assumes "body_inv c acc del" and "bc_sender c"
  shows "body_inv (c\<lparr>bc_data := snd (mq_clone_send M x (bc_data c))\<rparr>) (acc @ (if bc_body c then [x] else [])) del"
  using assms by (auto simp: body_inv_def)

lemma send_error_inv:
  assumes "body_inv c acc del" and "bc_sender c"
  shows "body_inv (send_error M e c) (acc @ (if fst (mq_clone_send M (Inl e) (bc_data c)) then [Inl e] else [])) del"
proof -
  have "fst (mq_clone_send M (Inl e) (bc_data c)) = bc_body c" using assms(1) by (simp add: body_inv_def)
  then show ?thesis using clone_send_inv [OF assms, of "Inl e"] by (simp add: send_error_def del: clone_send)
qed

lemma drop_sender_inv:
  assumes "body_inv c acc del"
  shows "body_inv (drop_sender M T c) acc del"
  using assms by (auto simp: body_inv_def drop_sender_def)

lemma poll_send_data_inv:
  assumes "body_inv c acc del" and "bc_sender c"
  shows "body_inv (snd (poll_send_data M chunk c))
           (acc @ (if fst (poll_send_data M chunk c) = Some (Ok ()) then [Inr chunk] else [])) del"
proof (cases "poll_ready M c")
  case (Pair r c1)
  then have "body_inv c1 acc del" "bc_sender c1" using poll_ready_inv(1,4) [OF assms(1)] assms(2) by simp_all
  from try_send_inv [OF this, of "Inr chunk"] this(1) show ?thesis
    by (auto simp: poll_send_data_def Pair split_beta split: option.splits result.splits)
qed

lemma send_trailers_inv: "body_inv c acc del \<Longrightarrow> body_inv (snd (send_trailers T t c)) acc del"
  by (cases "os_send T t (bc_trailers c)") (simp add: send_trailers_def body_inv_def)

lemma sender_event_inv:
  assumes I: "body_inv c acc del" and "bc_sender c" and "is_sender_event ev" and "run_event M T ev c = (a, d, c1)"
  shows "body_inv c1 (acc @ a) (del @ d)"
proof (cases ev)
  case (PollSendData chunk)
  then show ?thesis using assms(4) poll_send_data_inv [OF I assms(2), of chunk] by (auto simp: split_beta)
next
  case (TrySendData chunk)
  then show ?thesis using assms(4) try_send_inv [OF I assms(2), of "Inr chunk"] by (auto simp: try_send_data_def split_beta)
next
  case (SendTrailers t)
  then show ?thesis using assms(4) send_trailers_inv [OF I, of T t] by auto
next
  case (SendError e)
  then show ?thesis using assms(4) send_error_inv [OF I assms(2), of e] by simp
next
  case Abort
  then show ?thesis using assms(4) drop_sender_inv [OF send_error_inv [OF I assms(2)], of T "sender_err BodyWriteAborted"]
    by (simp add: abort_def)
qed (use assms poll_ready_inv(1) [OF I] drop_sender_inv [OF I] in \<open>auto simp: is_sender_event_def\<close>)

lemma body_event_inv:
  assumes I: "body_inv c acc del" and "bc_body c" and "\<not> is_sender_event ev" and "run_event M T ev c = (a, d, c1)"
  shows "body_inv c1 (acc @ a) (del @ d)"
proof (cases ev)
  case PollFrame
  then show ?thesis using assms(4) poll_frame_inv [OF I assms(2)] by (auto simp: split_beta)
next
  case DropBody
  then show ?thesis using assms(4) I by (auto simp: body_inv_def drop_body_def watch_drop_def)
qed (use assms(3) in \<open>simp_all add: is_sender_event_def\<close>)

lemma body_run_inv: "body_run M T c acc del \<Longrightarrow> body_inv c acc del"
  by (induction rule: body_run.induct) (auto intro: body_inv_new sender_event_inv body_event_inv)

text \<open>Everything that waits is read, in order, by as many polls.\<close>

lemma poll_waiting:
  "body_inv c acc del \<Longrightarrow> bc_body c \<Longrightarrow> contents (bc_data c) = xs @ ys \<Longrightarrow>
     \<exists>c1. poll_times (length xs + n) M T c =
            (map item_outcome xs @ fst (poll_times n M T c1), snd (poll_times n M T c1)) \<and>
          body_inv c1 acc (del @ xs) \<and> bc_body c1 \<and> contents (bc_data c1) = ys \<and> bc_sender c1 = bc_sender c \<and>
          bc_trailers c1 = bc_trailers c"
proof (induction xs arbitrary: c del)
  case (Cons x xs)
  let ?c = "snd (poll_frame M T c)"
  have f: "fst (poll_frame M T c) = item_outcome x" and c: "contents (bc_data ?c) = xs @ ys" "bc_body ?c"
      "bc_sender ?c = bc_sender c" "bc_trailers ?c = bc_trailers c"
    using Cons.prems by (auto simp: poll_frame_eq [OF Cons.prems(1,2)] Let_def body_inv_def)
  have "body_inv ?c acc (del @ [x])"
    using poll_frame_inv [OF Cons.prems(1,2), of T] by (simp add: f)
  from Cons.IH [OF this c(2,1)] show ?case
    using c f by (auto simp: split_beta)
qed (auto simp: split_beta)
lemma delivery:
  assumes "body_run M T c acc del"
  shows "\<exists>rest. acc = del @ rest"
    and "bc_body c \<Longrightarrow> fst (poll_frame M T c) = Some (Ok f) \<Longrightarrow> \<forall>d. f \<noteq> Some (FrameData d) \<Longrightarrow> acc = del \<and> \<not> bc_sender c"
proof -
  note I = body_run_inv [OF assms]
  show "\<exists>rest. acc = del @ rest" using I by (simp add: body_inv_def)
  assume b: "bc_body c" and f: "fst (poll_frame M T c) = Some (Ok f)" "\<forall>d. f \<noteq> Some (FrameData d)"
  have "contents (bc_data c) = []"
  proof (cases "contents (bc_data c)")
    case (Cons x xs)
    then have "item_outcome x = Some (Ok f)" using f(1) by (simp add: poll_frame_eq [OF I b] Let_def)
    then show ?thesis using f(2) by (cases x) auto
  qed
  moreover have "\<not> bc_sender c"
    using f(1) calculation by (auto simp: poll_frame_eq [OF I b] Let_def split: if_splits)
  ultimately show "acc = del \<and> \<not> bc_sender c" using I b by (simp add: body_inv_def)
qed

lemma readiness:
  assumes "body_run M T c acc del" and "bc_sender c"
  shows "bc_body c \<Longrightarrow> acc = del \<Longrightarrow> fst (poll_ready M c) = Some (Ok ())"
    and "bc_body c \<Longrightarrow> fst (poll_ready M c) \<in> {None, Some (Ok ())}"
    and "\<not> bc_body c \<Longrightarrow> fst (poll_ready M c) = Some (Err (sender_err ChannelClosed))"
proof -
  note I = body_run_inv [OF assms(1)]
  have r: "fst (poll_ready M c) =
      (if bc_body c then map_option (\<lambda>ok. if ok then Ok () else Err (sender_err ChannelClosed)) (fst (mq_poll_ready M (bc_data c)))
       else Some (Err (sender_err ChannelClosed)))"
    by (auto simp: poll_ready_def poll_want_inv [OF I] split_beta)
  have d: "rx_open (bc_data c) = bc_body c" "bc_body c \<Longrightarrow> acc = del @ contents (bc_data c)"
    using I by (simp_all add: body_inv_def)
  show "bc_body c \<Longrightarrow> acc = del \<Longrightarrow> fst (poll_ready M c) = Some (Ok ())"
    using poll_ready_value(2) [of "bc_data c"] d by (simp add: r)
  show "bc_body c \<Longrightarrow> fst (poll_ready M c) \<in> {None, Some (Ok ())}"
    using poll_ready_value(1) [of "bc_data c"] d by (cases "fst (mq_poll_ready M (bc_data c))") (auto simp: r)
  show "\<not> bc_body c \<Longrightarrow> fst (poll_ready M c) = Some (Err (sender_err ChannelClosed))"
    by (simp add: r)
qed

lemma drop_body_wakes:
  assumes "body_run M T c acc del" and "bc_body c"
  shows "wt_wakes (bc_want (drop_body M T (snd (poll_ready M c)))) = Suc (wt_wakes (bc_want c))"
proof -
  note I = body_run_inv [OF assms(1)]
  show ?thesis
    using I assms(2) by (auto simp: poll_ready_def poll_want_inv [OF I] split_beta drop_body_def body_inv_def
        watch_drop_def watch_send_def watch_wake_def want_ready_def watch_closed_def)
qed

lemma aborted:
  assumes "body_run M T c acc del" and "bc_sender c" and "bc_body c"
  shows "\<exists>rest. acc = del @ rest \<and>
     fst (poll_times (Suc (length rest)) M T (abort M T c)) =
       map item_outcome rest @ [Some (Err (sender_err BodyWriteAborted))]"
proof -
  let ?x = "Inl (sender_err BodyWriteAborted)" and ?c = "abort M T c"
  note I = body_run_inv [OF assms(1)]
  have f: "fst (mq_clone_send M ?x (bc_data c))" and r: "acc = del @ contents (bc_data c)"
    using I assms(3) by (simp_all add: body_inv_def)
  have J: "body_inv ?c (acc @ [?x]) del"
    using drop_sender_inv [OF send_error_inv [OF I assms(2)], of T "sender_err BodyWriteAborted"] f by (simp add: abort_def)
  have b: "bc_body ?c" using assms(3) by (simp add: abort_def drop_sender_def send_error_def)
  then have "contents (bc_data ?c) = (contents (bc_data c) @ [?x]) @ []" using J r by (simp add: body_inv_def)
  from poll_waiting [OF J b this, where n = 0 and T = T] obtain c1 where
    "poll_times (length (contents (bc_data c) @ [?x]) + 0) M T ?c =
       (map item_outcome (contents (bc_data c) @ [?x]) @ fst (poll_times 0 M T c1), snd (poll_times 0 M T c1))" by blast
  then have "fst (poll_times (Suc (length (contents (bc_data c)))) M T ?c) =
      map item_outcome (contents (bc_data c)) @ [Some (Err (sender_err BodyWriteAborted))]"
    by (simp del: poll_times.simps(2))
  then show ?thesis using r by blast
qed

end

text \<open>Both channels: the end of the body with its trailers.\<close>

locale body_channels = mpsc_channel M contents tx_open rx_open + oneshot_channel T sent sender_left
  for M :: "'q mpsc" and contents tx_open rx_open and T :: "('h, 'o) oneshot" and sent sender_left
begin

definition trailers_inv :: "('q, 'o) body_channel \<Rightarrow> bool" where
  "trailers_inv c \<longleftrightarrow> (bc_body c \<and> \<not> bc_trailers_tx c \<longrightarrow> \<not> sender_left (bc_trailers c))"

lemma trailers_inv_same: "trailers_inv c \<Longrightarrow> same_trailers c c1 \<Longrightarrow> trailers_inv c1"
  by (simp add: trailers_inv_def same_trailers_def)

lemma send_trailers_left: "trailers_inv c \<Longrightarrow> trailers_inv (snd (send_trailers T t c))"
  using trailers_send [of t "bc_trailers c"]
  by (cases "os_send T t (bc_trailers c)") (simp add: send_trailers_def trailers_inv_def)

lemma drop_sender_left: "trailers_inv c \<Longrightarrow> trailers_inv (drop_sender M T c)"
  by (simp add: drop_sender_def trailers_inv_def trailers_drop_tx)

lemma sender_event_trailers:
  assumes "trailers_inv c" and "is_sender_event ev" and "run_event M T ev c = (a, d, c1)"
  shows "trailers_inv c1"
proof -
  note same = trailers_inv_same [OF assms(1) data_keeps_trailers(1)] trailers_inv_same [OF assms(1) data_keeps_trailers(2)]
    trailers_inv_same [OF assms(1) data_keeps_trailers(3)] trailers_inv_same [OF assms(1) data_keeps_trailers(4)]
  show ?thesis
    using assms same send_trailers_left [OF assms(1)] drop_sender_left [OF assms(1)]
      drop_sender_left [OF same(4)]
    by (cases ev) (auto simp: is_sender_event_def abort_def split_beta)
qed

lemma poll_frame_trailers:
  assumes "body_inv c acc del" and "bc_body c" and "trailers_inv c"
  shows "trailers_inv (snd (poll_frame M T c))"
  using assms(2,3) trailers_poll_left
  by (simp add: poll_frame_eq [OF assms(1,2)] Let_def trailers_inv_def split: list.splits)

lemma body_run_trailers: "body_run M T c acc del \<Longrightarrow> trailers_inv c"
proof (induction rule: body_run.induct)
  case (sender c acc del ev a d c1)
  then show ?case by (metis sender_event_trailers)
next
  case (body c acc del ev a d c1)
  then show ?case
    using poll_frame_trailers [OF body_run_inv [OF body.hyps(1)] body.hyps(2) body.IH]
    by (cases ev) (auto simp: is_sender_event_def trailers_inv_def drop_body_def split_beta)
qed (simp add: trailers_inv_def new_channel_def)

lemma closed:
  assumes "body_run M T c acc del" and "bc_sender c" and "bc_body c"
  shows "\<exists>rest. acc = del @ rest \<and>
     fst (poll_times (Suc (length rest)) M T (drop_sender M T c)) =
       map item_outcome rest @ [Some (Ok (map_option FrameTrailers (sent (bc_trailers c))))]"
proof -
  let ?c = "drop_sender M T c"
  note I = body_run_inv [OF assms(1)]
  have J: "body_inv ?c acc del" by (rule drop_sender_inv [OF I])
  have b: "bc_body ?c" "\<not> bc_sender ?c" and q: "contents (bc_data ?c) = contents (bc_data c) @ []"
    using assms(3) by (simp_all add: drop_sender_def)
  have t: "sent (bc_trailers ?c) = sent (bc_trailers c)" "\<not> sender_left (bc_trailers ?c)"
    using body_run_trailers [OF assms(1)] assms(3)
    by (auto simp: drop_sender_def trailers_inv_def trailers_drop_tx)
  from poll_waiting [OF J b(1) q, where n = 1 and T = T] b obtain c1 where
    c1: "fst (poll_times (length (contents (bc_data c)) + 1) M T ?c) =
       map item_outcome (contents (bc_data c)) @ fst (poll_times 1 M T c1)"
      "body_inv c1 acc (del @ contents (bc_data c))" "bc_body c1" "contents (bc_data c1) = []" "\<not> bc_sender c1"
      "bc_trailers c1 = bc_trailers ?c" by auto
  have "fst (poll_frame M T c1) = Some (Ok (map_option FrameTrailers (sent (bc_trailers c))))"
    using c1(4,5) t
    by (simp add: poll_frame_eq [OF c1(2,3)] Let_def c1(6) trailers_poll split: option.splits)
  then have "fst (poll_times 1 M T c1) = [Some (Ok (map_option FrameTrailers (sent (bc_trailers c))))]"
    by (simp add: split_beta)
  then show ?thesis using c1(1) I assms(3) by (auto simp: body_inv_def simp del: poll_times.simps(2))
qed

end

subsection \<open>A queue and a cell that satisfy the laws\<close>

text \<open>A sender parks itself after a message that had to wait and is unparked when one is taken.\<close>

record queue =
  qu_items :: "item list"
  qu_parked :: bool
  qu_tx :: bool
  qu_rx :: bool
  qu_done :: bool

definition queue_full :: "queue \<Rightarrow> bool" where
  "queue_full q \<longleftrightarrow> qu_parked q \<and> qu_items q \<noteq> []"

definition queue_mpsc :: "queue mpsc" where
  "queue_mpsc =
     \<lparr>mq_new = \<lparr>qu_items = [], qu_parked = False, qu_tx = True, qu_rx = True, qu_done = False\<rparr>,
      mq_poll_ready = (\<lambda>q. (if \<not> qu_rx q then Some False else if queue_full q then None else Some True, q)),
      mq_try_send = (\<lambda>x q.
        if qu_rx q \<and> \<not> queue_full q then (True, q\<lparr>qu_items := qu_items q @ [x], qu_parked := True\<rparr>) else (False, q)),
      mq_clone_send = (\<lambda>x q. if qu_rx q then (True, q\<lparr>qu_items := qu_items q @ [x]\<rparr>) else (False, q)),
      mq_poll_next = (\<lambda>q.
        case qu_items q of
          x # xs \<Rightarrow> (Some (Some x), q\<lparr>qu_items := xs, qu_parked := False\<rparr>)
        | [] \<Rightarrow> if qu_tx q then (None, q) else (Some None, q\<lparr>qu_done := True\<rparr>)),
      mq_is_terminated = qu_done,
      mq_drop_tx = (\<lambda>q. q\<lparr>qu_tx := False\<rparr>),
      mq_drop_rx = (\<lambda>q. q\<lparr>qu_items := [], qu_rx := False\<rparr>)\<rparr>"

record 'h cell =
  ce_value :: "'h option"
  ce_tx :: bool
  ce_rx :: bool

definition cell_oneshot :: "('h, 'h cell) oneshot" where
  "cell_oneshot =
     \<lparr>os_new = \<lparr>ce_value = None, ce_tx = True, ce_rx = True\<rparr>,
      os_send = (\<lambda>t p. if ce_rx p then (True, p\<lparr>ce_value := Some t, ce_tx := False\<rparr>) else (False, p\<lparr>ce_tx := False\<rparr>)),
      os_poll = (\<lambda>p.
        case ce_value p of
          Some t \<Rightarrow> (Some (Some t), p\<lparr>ce_value := None\<rparr>)
        | None \<Rightarrow> (if ce_tx p then None else Some None, p)),
      os_drop_tx = (\<lambda>p. p\<lparr>ce_tx := False\<rparr>),
      os_drop_rx = (\<lambda>p. p\<lparr>ce_value := None, ce_rx := False\<rparr>)\<rparr>"

interpretation qc: body_channels queue_mpsc qu_items qu_tx qu_rx cell_oneshot ce_value ce_tx
  by unfold_locales (auto simp: queue_mpsc_def cell_oneshot_def queue_full_def split: list.splits option.splits)

subsection \<open>Properties\<close>

text \<open>
  C6: however the two halves interleave, the reader of a body gets what the sender had accepted,
  in that order and nothing else, and a poll that announces trailers or the end of the body comes
  only when everything accepted was delivered and the sender is gone.
\<close>

theorem body_delivers_in_order:
  assumes "mpsc_channel M contents tx_open rx_open" and "body_run M T c acc del"
  shows "(\<exists>rest. acc = del @ rest) \<and>
     (\<forall>f. bc_body c \<and> fst (poll_frame M T c) = Some (Ok f) \<and> (\<forall>d. f \<noteq> Some (FrameData d)) \<longrightarrow> acc = del \<and> \<not> bc_sender c)"
  using mpsc_channel.delivery [OF assms] by blast

text \<open>
  C27: a sender waits only while something it sent was not taken yet: with nothing in the channel it
  is ready at once, also before the first poll of the body. The branch of an unexpected watched
  value is never taken. When the body is dropped the waiting sender is woken, and is told that the
  channel is closed.
\<close>

theorem sender_waits_for_reader:
  assumes "mpsc_channel M contents tx_open rx_open" and "body_run M T c acc del" and "bc_sender c"
  shows "(bc_body c \<and> acc = del \<longrightarrow> fst (poll_ready M c) = Some (Ok ())) \<and>
     (bc_body c \<longrightarrow> fst (poll_ready M c) \<in> {None, Some (Ok ())} \<and>
        wt_wakes (bc_want (drop_body M T (snd (poll_ready M c)))) = Suc (wt_wakes (bc_want c))) \<and>
     (\<not> bc_body c \<longrightarrow> fst (poll_ready M c) = Some (Err (sender_err ChannelClosed)))"
  using mpsc_channel.readiness [OF assms] mpsc_channel.drop_body_wakes [OF assms(1,2)] by blast

text \<open>
  C26: an abort is never lost, however full the channel is: after it the reader gets what was still
  waiting, in order, and then the error of the abort.
\<close>

theorem aborted_body_ends_in_error:
  assumes "mpsc_channel M contents tx_open rx_open" and "body_run M T c acc del" and "bc_sender c" and "bc_body c"
  shows "\<exists>rest. acc = del @ rest \<and>
     fst (poll_times (Suc (length rest)) M T (abort M T c)) =
       map item_outcome rest @ [Some (Err (sender_err BodyWriteAborted))]"
  by (rule mpsc_channel.aborted [OF assms])

text \<open>
  Once the sender is dropped the body ends: as many polls as chunks are waiting deliver them,
  and the next one the trailers if they were sent and are still there, or the end.
\<close>

lemma dropped_sender_ends_body:
  assumes "body_channels M contents tx_open rx_open T sent sender_left"
    and "body_run M T c acc del" and "bc_sender c" and "bc_body c"
  shows "\<exists>rest. acc = del @ rest \<and>
     fst (poll_times (Suc (length rest)) M T (drop_sender M T c)) =
       map item_outcome rest @ [Some (Ok (map_option FrameTrailers (sent (bc_trailers c))))]"
  by (rule body_channels.closed [OF assms])

text \<open>A channel in which one chunk was accepted and a second one did not fit.\<close>

definition example_channel :: "(queue, string cell) body_channel" where
  "example_channel =
     snd (snd (run_event queue_mpsc cell_oneshot (PollSendData ''a'') (new_channel queue_mpsc cell_oneshot)))"

lemma example_channel_eq:
  "example_channel = (new_channel queue_mpsc cell_oneshot)\<lparr>bc_want := \<lparr>wt_value = 2, wt_waker = True, wt_wakes = 0\<rparr>,
     bc_data := \<lparr>qu_items = [Inr ''a''], qu_parked = True, qu_tx = True, qu_rx = True, qu_done = False\<rparr>\<rparr>"
  by (simp add: example_channel_def channel_defs queue_mpsc_def cell_oneshot_def queue_full_def)

lemma example_run: "body_run queue_mpsc cell_oneshot example_channel [Inr ''a''] []"
proof -
  have "run_event queue_mpsc cell_oneshot (PollSendData ''a'') (new_channel queue_mpsc cell_oneshot) =
      ([Inr ''a''], [], example_channel :: (queue, string cell) body_channel)"
    by (simp add: example_channel_def channel_defs queue_mpsc_def cell_oneshot_def queue_full_def)
  from body_run.sender [OF body_run.start _ _ this] show ?thesis
    by (simp add: is_sender_event_def new_channel_def)
qed

lemma body_delivers_in_order_witness:
  "fst (poll_frame queue_mpsc cell_oneshot example_channel) \<noteq> Some (Ok None)"
  using body_delivers_in_order [OF qc.mpsc_channel_axioms example_run]
  by (auto simp: example_channel_eq new_channel_def)

lemma sender_waits_for_reader_witness:
  "fst (poll_ready queue_mpsc example_channel) = None \<and>
   wt_wakes (bc_want (drop_body queue_mpsc cell_oneshot (snd (poll_ready queue_mpsc example_channel)))) = 1"
  using sender_waits_for_reader [OF qc.mpsc_channel_axioms example_run]
  by (simp add: example_channel_eq new_channel_def)
    (simp add: channel_defs queue_mpsc_def queue_full_def)

lemma aborted_body_ends_in_error_witness:
  "fst (poll_times 2 queue_mpsc cell_oneshot (abort queue_mpsc cell_oneshot example_channel)) =
     [Some (Ok (Some (FrameData ''a''))), Some (Err (BoxError ''user body write aborted''))]"
  using aborted_body_ends_in_error [OF qc.mpsc_channel_axioms example_run]
  by (simp add: example_channel_eq new_channel_def numeral_2_eq_2 sender_err_def sender_error_description_def)

lemma dropped_sender_ends_body_witness:
  "fst (poll_times 2 queue_mpsc cell_oneshot (drop_sender queue_mpsc cell_oneshot example_channel)) =
     [Some (Ok (Some (FrameData ''a''))), Some (Ok None)]"
  using dropped_sender_ends_body [OF qc.body_channels_axioms example_run]
  by (simp add: example_channel_eq new_channel_def numeral_2_eq_2) (simp add: cell_oneshot_def)

end
