(* ===== verification/TimeEncodings.thy ===== *)
theory TimeEncodings
  imports Floats Crates "HOL-Library.Monad_Syntax"
begin

text \<open>
  The timestamps and durations of the events
  (\<^verbatim>\<open>lambda-events/src/encodings/time.rs\<close>, \<^verbatim>\<open>custom_serde/float_unix_epoch.rs\<close>
  and \<^verbatim>\<open>custom_serde/codebuild_time.rs\<close>): their serialisers and deserialisers, what a
  round trip keeps and what it loses. A \<^verbatim>\<open>DateTime<Utc>\<close> of the crate
  \<^verbatim>\<open>chrono\<close> is its seconds since the epoch and its nanoseconds, a
  \<^verbatim>\<open>TimeDelta\<close> likewise; which of them exist, and the texts of dates and floats, are
  parameters.
\<close>

type_synonym datetime = "int \<times> nat"

record time_crates =
  tc_valid :: "int \<Rightarrow> nat \<Rightarrow> bool"
  tc_delta_valid :: "int \<Rightarrow> bool"
  tc_parse_f64 :: "string \<Rightarrow> rat option"
  tc_show_f64 :: "rat \<Rightarrow> string"
  tc_parse_codebuild :: "string \<Rightarrow> datetime option"
  tc_show_codebuild :: "datetime \<Rightarrow> string"

text \<open>
  Texts of floats as the standard library documents them: an integer below \<open>2 ^ 53\<close> is
  printed with its digits, and what is printed is the shortest decimal that reads back, so a decimal of
  at most 15 digits is printed as it was read, less the zeros at its end; a negative number is printed with its sign.
\<close>

definition strip_zeros :: "string \<Rightarrow> string" where
  "strip_zeros s = rev (dropWhile (\<lambda>c. c = CHR ''0'') (rev s))"

text \<open>\<^verbatim>\<open>{:03}\<close>\<close>

definition pad3 :: "nat \<Rightarrow> string" where
  "pad3 m =
     (if m < 1000 then [digit_char (m div 100), digit_char (m div 10 mod 10), digit_char (m mod 10)] else show_nat m)"

locale float_text =
  fixes T :: time_crates
  assumes parse_int: "n < 2 ^ 53 \<Longrightarrow> tc_parse_f64 T (show_nat n) = Some (of_nat n)"
    and show_float: "n < 2 ^ 53 \<Longrightarrow> tc_show_f64 T (of_nat n) = show_nat n"
    and decimals: "s < 10 ^ 12 \<Longrightarrow> m < 1000 \<Longrightarrow>
        \<exists>x. tc_parse_f64 T (show_nat s @ ''.'' @ pad3 m) = Some x \<and>
            tc_show_f64 T x = show_nat s @ (if m = 0 then [] else ''.'' @ strip_zeros (pad3 m))"
    and negative: "0 < n \<Longrightarrow> n < 2 ^ 63 \<Longrightarrow> t = [] \<or> (\<exists>m < 1000. t = ''.'' @ pad3 m) \<Longrightarrow>
        \<exists>x u. tc_parse_f64 T (CHR ''-'' # show_nat n @ t) = Some x \<and> tc_show_f64 T x = CHR ''-'' # u"

text \<open>The range of dates that \<^verbatim>\<open>chrono\<close> promises, from the epoch on.\<close>

locale calendar = float_text +
  assumes valid: "0 \<le> s \<Longrightarrow> s < 5 * 10 ^ 12 \<Longrightarrow> n < 10 ^ 9 \<Longrightarrow> tc_valid T s n"
    and delta_valid: "\<bar>s\<bar> < 2 ^ 52 \<Longrightarrow> tc_delta_valid T s"

definition timestamp_opt :: "time_crates \<Rightarrow> int \<Rightarrow> nat \<Rightarrow> datetime option" where
  "timestamp_opt T s n = (if tc_valid T s n then Some (s, n) else None)"

definition timestamp_millis :: "datetime \<Rightarrow> int" where
  "timestamp_millis d = fst d * 1000 + int (snd d div 1000000)"

subsection \<open>Numbers of seconds and milliseconds\<close>

text \<open>The parts of a number before and after the point, as integers of their own.\<close>

definition json_f64 :: "json \<Rightarrow> rat option" where
  "json_f64 j =
     (case j of
        JInt i \<Rightarrow> Some (f64_of_rat (of_int i))
      | JDec m e \<Rightarrow> Some (f64_of_rat (of_int m / 10 ^ e))
      | _ \<Rightarrow> None)"

definition normalize_timestamp :: "time_crates \<Rightarrow> json \<Rightarrow> (nat \<times> nat) option" where
  "normalize_timestamp T j = do {
     input \<leftarrow> (case j of JStr s \<Rightarrow> tc_parse_f64 T s | _ \<Rightarrow> json_f64 j);
     parts \<leftarrow> those (map (\<lambda>x. ok_option (parse_u64 x)) (split_on CHR ''.'' (tc_show_f64 T input)));
     (case parts of
        whole # rest # _ \<Rightarrow> Some (whole, rest)
      | [whole] \<Rightarrow> Some (whole, 0)
      | [] \<Rightarrow> None) }"

text \<open>What a deserialiser returns that may fail or panic; serde's errors carry no more here.\<close>

definition invalid_timestamp :: box_error where
  "invalid_timestamp = BoxError ''invalid timestamp''"

definition serialize_milliseconds :: "datetime \<Rightarrow> json" where
  "serialize_milliseconds d = JStr (show_int (timestamp_millis d))"

definition deserialize_milliseconds :: "time_crates \<Rightarrow> json \<Rightarrow> (box_error, datetime) result" where
  "deserialize_milliseconds T j =
     (case normalize_timestamp T j of
        None \<Rightarrow> Err (BoxError ''not a timestamp'')
      | Some (whole, rest) \<Rightarrow>
          if rest \<noteq> 0 then Panic (PString ''assertion `left == right` failed'')
          else
            (let seconds = f64_of_rat (f64_of_rat (of_nat whole) / 1000);
                 milliseconds = f64_as_u32 (f64_of_rat (f64_fract seconds * 1000));
                 nanos = milliseconds * 1000000
             in ok_or invalid_timestamp (timestamp_opt T (f64_as_i64 seconds) nanos)))"

definition serialize_seconds :: "datetime \<Rightarrow> json" where
  "serialize_seconds d =
     (let seconds = fst d;
          milliseconds = snd d div 1000000;
          whole_seconds = seconds + int (milliseconds div 1000);
          subsec_millis = milliseconds mod 1000
      in if milliseconds > 0 then JStr (show_int whole_seconds @ ''.'' @ pad3 subsec_millis)
         else JStr (show_int whole_seconds))"

text \<open>
  \<^verbatim>\<open>as i64\<close> of an unsigned integer and \<^verbatim>\<open>as u32\<close> wrap; the product overflows
  in a debug build.
\<close>

definition u64_as_i64 :: "nat \<Rightarrow> int" where
  "u64_as_i64 n = (if n < 2 ^ 63 then int n else int n - 2 ^ 64)"

definition deserialize_seconds :: "time_crates \<Rightarrow> json \<Rightarrow> (box_error, datetime) result" where
  "deserialize_seconds T j =
     (case normalize_timestamp T j of
        None \<Rightarrow> Err (BoxError ''not a timestamp'')
      | Some (whole, rest) \<Rightarrow>
          if u64_max < rest * 1000000 then Panic (PStr ''attempt to multiply with overflow'')
          else ok_or invalid_timestamp (timestamp_opt T (u64_as_i64 whole) (rest * 1000000 mod 2 ^ 32)))"

subsection \<open>Durations\<close>

text \<open>Division of \<^verbatim>\<open>i64\<close> truncates towards zero, as do the numbers of seconds and minutes.\<close>

definition tquot :: "int \<Rightarrow> int \<Rightarrow> int" where
  "tquot a b = sgn a * (\<bar>a\<bar> div b)"

definition num_seconds :: "datetime \<Rightarrow> int" where
  "num_seconds d = (if fst d < 0 \<and> 0 < snd d then fst d + 1 else fst d)"

definition num_minutes :: "datetime \<Rightarrow> int" where
  "num_minutes d = tquot (num_seconds d) 60"

definition serialize_duration_seconds :: "datetime \<Rightarrow> json" where
  "serialize_duration_seconds d = JInt (num_seconds d)"

definition deserialize_duration_seconds :: "time_crates \<Rightarrow> json \<Rightarrow> datetime option" where
  "deserialize_duration_seconds T j = do {
     seconds \<leftarrow> json_f64 j;
     (let s = f64_as_i64 seconds in if tc_delta_valid T s then Some (s, 0) else None) }"

definition serialize_duration_minutes :: "datetime \<Rightarrow> json" where
  "serialize_duration_minutes d = JInt (num_minutes d)"

definition deserialize_duration_minutes :: "time_crates \<Rightarrow> json \<Rightarrow> datetime option" where
  "deserialize_duration_minutes T j = do {
     minutes \<leftarrow> json_f64 j;
     (let s = f64_as_i64 minutes * 60 in if tc_delta_valid T s then Some (s, 0) else None) }"

subsection \<open>Seconds since the epoch as a number\<close>

definition epoch_serialize :: "datetime \<Rightarrow> json" where
  "epoch_serialize d = JInt (tquot (timestamp_millis d) 1000)"

definition visit_u64 :: "time_crates \<Rightarrow> nat \<Rightarrow> datetime option" where
  "visit_u64 T value = timestamp_opt T (u64_as_i64 value) 0"

definition visit_i64 :: "time_crates \<Rightarrow> int \<Rightarrow> datetime option" where
  "visit_i64 T value = timestamp_opt T value 0"

definition visit_f64 :: "time_crates \<Rightarrow> rat \<Rightarrow> datetime option" where
  "visit_f64 T value =
     (let time_ms = f64_as_u32 (of_int \<lfloor>f64_of_rat (f64_fract value * 1000000)\<rfloor>);
          time_s = f64_as_i64 (of_int (f64_trunc value))
      in timestamp_opt T time_s time_ms)"

text \<open>serde\_json hands an integer over as \<^verbatim>\<open>u64\<close> or \<^verbatim>\<open>i64\<close> when it fits, else as a float.\<close>

definition epoch_deserialize :: "time_crates \<Rightarrow> json \<Rightarrow> datetime option" where
  "epoch_deserialize T j =
     (case j of
        JInt i \<Rightarrow>
          if 0 \<le> i \<and> i \<le> int u64_max then visit_u64 T (nat i)
          else if - (2 ^ 63) \<le> i \<and> i < 0 then visit_i64 T i
          else visit_f64 T (f64_of_rat (of_int i))
      | JDec m e \<Rightarrow> visit_f64 T (f64_of_rat (of_int m / 10 ^ e))
      | _ \<Rightarrow> None)"

subsection \<open>CodeBuild times\<close>

definition visit_codebuild :: "time_crates \<Rightarrow> string \<Rightarrow> datetime option" where
  "visit_codebuild T s = tc_parse_codebuild T s"

definition str_time_deserialize :: "time_crates \<Rightarrow> json \<Rightarrow> datetime option" where
  "str_time_deserialize T j = Option.bind (de_string j) (visit_codebuild T)"

definition str_time_serialize :: "time_crates \<Rightarrow> datetime \<Rightarrow> json" where
  "str_time_serialize T d = JStr (tc_show_codebuild T d)"

definition optional_time_deserialize :: "time_crates \<Rightarrow> json \<Rightarrow> datetime option option" where
  "optional_time_deserialize T j =
     (case j of JNull \<Rightarrow> Some None | _ \<Rightarrow> map_option Some (str_time_deserialize T j))"

definition optional_time_serialize :: "time_crates \<Rightarrow> datetime option \<Rightarrow> json" where
  "optional_time_serialize T d = json_of_option (str_time_serialize T) d"

subsection \<open>Lemmas\<close>

lemma digit_char_inject [simp]: "a < 10 \<Longrightarrow> b < 10 \<Longrightarrow> digit_char a = digit_char b \<longleftrightarrow> a = b"
  by (metis digit_val_char option.inject)

lemma zero_char: "CHR ''0'' = digit_char 0"
  by (simp add: digit_char_def char_of_def bit_0)

lemma digit_char_not_point [simp]: "d < 10 \<Longrightarrow> digit_char d \<noteq> CHR ''.''"
proof
  assume "d < 10" "digit_char d = CHR ''.''"
  then have "digit_val (CHR ''.'') = Some d" by (metis digit_val_char)
  then show False by (simp add: digit_val_def)
qed

lemma point_not_digit_char [simp]: "d < 10 \<Longrightarrow> CHR ''.'' \<noteq> digit_char d"
  using digit_char_not_point [of d] by metis

lemma show_nat_no_point [simp]: "CHR ''.'' \<notin> set (show_nat n)"
  using show_nat_digits [of "CHR ''.''" n] by (auto simp: digit_val_def)

lemma pad3_digits: "m < 1000 \<Longrightarrow> set (pad3 m) \<subseteq> digit_char ` {..<10}"
  by (auto simp: pad3_def)

lemma strip_zeros_subset: "set (strip_zeros s) \<subseteq> set s"
  by (auto simp: strip_zeros_def dest: set_dropWhileD)

lemma strip_pad3_no_point: "m < 1000 \<Longrightarrow> CHR ''.'' \<notin> set (strip_zeros (pad3 m))"
  using pad3_digits [of m] strip_zeros_subset [of "pad3 m"] by fastforce

text \<open>The digits after the point, read as a number of their own.\<close>

definition stripped :: "nat \<Rightarrow> nat" where
  "stripped m = (if m mod 10 \<noteq> 0 then m else if m div 10 mod 10 \<noteq> 0 then m div 10 else m div 100)"

lemma parse_digit_list:
  "d < 10 \<Longrightarrow> parse_u64 [digit_char d] = Ok d"
  "d < 10 \<Longrightarrow> e < 10 \<Longrightarrow> parse_u64 [digit_char d, digit_char e] = Ok (d * 10 + e)"
  "d < 10 \<Longrightarrow> e < 10 \<Longrightarrow> f < 10 \<Longrightarrow> parse_u64 [digit_char d, digit_char e, digit_char f] = Ok (d * 100 + e * 10 + f)"
proof -
  have p: "d < 10 \<Longrightarrow> digit_char d \<noteq> CHR ''+''" for d
  proof
    assume "d < 10" "digit_char d = CHR ''+''"
    then have "digit_val (CHR ''+'') = Some d" by (metis digit_val_char)
    then show False by (simp add: digit_val_def)
  qed
  show "d < 10 \<Longrightarrow> parse_u64 [digit_char d] = Ok d"
    "d < 10 \<Longrightarrow> e < 10 \<Longrightarrow> parse_u64 [digit_char d, digit_char e] = Ok (d * 10 + e)"
    "d < 10 \<Longrightarrow> e < 10 \<Longrightarrow> f < 10 \<Longrightarrow> parse_u64 [digit_char d, digit_char e, digit_char f] = Ok (d * 100 + e * 10 + f)"
    by (simp_all add: parse_u64_def parse_unsigned_def p Let_def u64_max_def)
qed

lemma parse_stripped: "0 < m \<Longrightarrow> m < 1000 \<Longrightarrow> parse_u64 (strip_zeros (pad3 m)) = Ok (stripped m)"
proof -
  assume m: "0 < m" "m < 1000"
  have d: "m div 100 < 10" "m div 10 mod 10 < 10" "m mod 10 < 10" using m by auto
  have e2: "m div 10 = m div 100 * 10 + m div 10 mod 10"
    using div_mult_mod_eq [of "m div 10" 10] by (simp add: div_mult2_eq [symmetric])
  have e1: "m = m div 100 * 100 + m div 10 mod 10 * 10 + m mod 10"
    using div_mult_mod_eq [of m 10] e2 by linarith
  have p: "pad3 m = [digit_char (m div 100), digit_char (m div 10 mod 10), digit_char (m mod 10)]"
    using m by (simp add: pad3_def)
  show ?thesis
  proof (cases "m mod 10 = 0")
    case False
    then show ?thesis
      using d e1 by (simp add: strip_zeros_def p zero_char parse_digit_list stripped_def)
  next
    case True
    show ?thesis
    proof (cases "m div 10 mod 10 = 0")
      case False
      then show ?thesis
        using d True e2 by (simp add: strip_zeros_def p zero_char parse_digit_list stripped_def)
    next
      case t: True
      then have "m div 100 \<noteq> 0" using True t e1 m by linarith
      then show ?thesis
        using d True t by (simp add: strip_zeros_def p zero_char parse_digit_list stripped_def)
    qed
  qed
qed

lemma stripped_eq: "0 < m \<Longrightarrow> m < 1000 \<Longrightarrow> stripped m = m \<longleftrightarrow> m mod 10 \<noteq> 0" and stripped_less: "m < 1000 \<Longrightarrow> stripped m < 1000"
  by (auto simp: stripped_def)

lemma parse_u64_minus: "ok_option (parse_u64 (CHR ''-'' # s)) = None"
  by (simp add: parse_u64_def parse_unsigned_def Let_def digit_val_def)

context float_text
begin

lemma normalize_int:
  assumes "n < 2 ^ 53"
  shows "normalize_timestamp T (JStr (show_nat n)) = Some (n, 0)"
    and "normalize_timestamp T (JInt (int n)) = Some (n, 0)"
proof -
  have "n \<le> u64_max" using assms by (simp add: u64_max_def)
  then show "normalize_timestamp T (JStr (show_nat n)) = Some (n, 0)"
    using assms by (simp add: normalize_timestamp_def parse_int show_float split_on_no_sep parse_u64_show)
  show "normalize_timestamp T (JInt (int n)) = Some (n, 0)"
    using assms \<open>n \<le> u64_max\<close>
    by (simp add: normalize_timestamp_def json_f64_def f64_exact_nat show_float split_on_no_sep parse_u64_show)
qed

lemma normalize_millis:
  assumes "s < 10 ^ 12" and "0 < m" and "m < 1000"
  shows "normalize_timestamp T (JStr (show_nat s @ ''.'' @ pad3 m)) = Some (s, stripped m)"
proof -
  obtain x where x: "tc_parse_f64 T (show_nat s @ ''.'' @ pad3 m) = Some x"
      "tc_show_f64 T x = show_nat s @ ''.'' @ strip_zeros (pad3 m)"
    using decimals [OF assms(1,3)] assms(2) by auto
  have "split_on CHR ''.'' (tc_show_f64 T x) = [show_nat s, strip_zeros (pad3 m)]"
    unfolding x(2) using split_on_append_sep [of "CHR ''.''" "show_nat s" "strip_zeros (pad3 m)"]
    by (simp add: split_on_no_sep strip_pad3_no_point assms(3))
  moreover have "s \<le> u64_max" using assms(1) by (simp add: u64_max_def)
  ultimately show ?thesis
    using x(1) assms by (simp add: normalize_timestamp_def parse_u64_show parse_stripped)
qed

lemma normalize_no_millis:
  assumes "s < 10 ^ 12"
  shows "normalize_timestamp T (JStr (show_nat s @ ''.'' @ pad3 0)) = Some (s, 0)"
proof -
  obtain x where "tc_parse_f64 T (show_nat s @ ''.'' @ pad3 0) = Some x" "tc_show_f64 T x = show_nat s"
    using decimals [OF assms, of 0] by auto
  moreover have "s \<le> u64_max" using assms by (simp add: u64_max_def)
  ultimately show ?thesis
    by (simp add: normalize_timestamp_def split_on_no_sep parse_u64_show)
qed

text \<open>No part of a negative number is read as an unsigned integer.\<close>

lemma normalize_negative:
  assumes "0 < n" and "n < 2 ^ 63" and "t = [] \<or> (\<exists>m < 1000. t = ''.'' @ pad3 m)"
  shows "normalize_timestamp T (JStr (CHR ''-'' # show_nat n @ t)) = None"
proof -
  obtain x u where x: "tc_parse_f64 T (CHR ''-'' # show_nat n @ t) = Some x" "tc_show_f64 T x = CHR ''-'' # u"
    using negative [OF assms] by blast
  have "\<exists>v vs. split_on CHR ''.'' (CHR ''-'' # u) = (CHR ''-'' # v) # vs"
    by (cases "split_on CHR ''.'' u") simp_all
  then show ?thesis
    using x by (auto simp: normalize_timestamp_def parse_u64_minus)
qed

end

context calendar
begin

lemma deserialize_millis:
  assumes "w < 2 ^ 52" and "normalize_timestamp T j = Some (w, 0)"
  shows "\<exists>d. deserialize_milliseconds T j = Ok d \<and> snd d mod 1000000 = 0 \<and> fst d = int (w div 1000) \<and>
           timestamp_millis d \<in> {int w - 1, int w}"
proof -
  let ?s = "f64_round (of_nat w / 1000)"
  let ?y = "f64_round (f64_round (frac ?s) * 1000)"
  let ?m = "f64_as_u32 ?y" and ?k = "int (w mod 1000)"
  have s0: "0 \<le> ?s" "0 \<le> f64_round (frac ?s)" by (simp_all add: f64_round_nonneg)
  then have y: "0 \<le> ?y" by (intro f64_round_nonneg) simp
  have w53: "w < 2 ^ 53" using assms(1) by simp
  note r = millisecond_rounding [OF assms(1)]
  have q: "0 \<le> \<lfloor>?y\<rfloor>" "\<lfloor>?y\<rfloor> \<le> ?k" "\<lfloor>?y\<rfloor> = ?k - 1 \<or> \<lfloor>?y\<rfloor> = ?k" "?k < 1000"
    using r(2) y by (auto simp only: zero_le_floor insert_iff empty_iff)
  then have "?m = nat \<lfloor>?y\<rfloor>" unfolding f64_as_u32_def f64_trunc_nonneg [OF y] u32_max_def by simp
  then have m: "?m < 1000" "int ?m = ?k - 1 \<or> int ?m = ?k" using q by auto
  have "f64_as_i64 ?s = int (w div 1000)"
    using r(1) s0 assms(1) by (simp add: f64_as_i64_def)
  moreover have "tc_valid T (int (w div 1000)) (?m * 1000000)"
    using m(1) assms(1) by (intro valid) simp_all
  ultimately have "deserialize_milliseconds T j = Ok (int (w div 1000), ?m * 1000000)"
    using assms(2) s0
    by (simp add: deserialize_milliseconds_def f64_exact_nat [OF w53] Let_def f64_fract_nonneg timestamp_opt_def)
  moreover have "int (w div 1000) * 1000 = int w - int (w mod 1000)"
    by (metis add_diff_cancel_right' div_mult_mod_eq of_nat_add of_nat_mult of_nat_numeral)
  ultimately show ?thesis using m by (auto simp: timestamp_millis_def)
qed

lemma deserialize_secs:
  assumes "s < 10 ^ 12" and "0 < m" and "m < 1000"
  shows "deserialize_seconds T (JStr (show_nat s @ ''.'' @ pad3 m)) = Ok (int s, stripped m * 1000000)"
proof -
  have "tc_valid T (int s) (stripped m * 1000000)"
    using assms stripped_less [of m] by (intro valid) simp_all
  then show ?thesis
    using normalize_millis [OF assms] stripped_less [of m] assms
    by (simp add: deserialize_seconds_def u64_max_def u64_as_i64_def timestamp_opt_def)
qed

lemma deserialize_whole_secs:
  assumes "s < 10 ^ 12"
  shows "deserialize_seconds T (JStr (show_nat s)) = Ok (int s, 0)"
proof -
  have "tc_valid T (int s) 0" using assms by (intro valid) simp_all
  then show ?thesis
    using normalize_int(1) [of s] assms by (simp add: deserialize_seconds_def u64_max_def u64_as_i64_def timestamp_opt_def)
qed

lemma deserialize_no_millis:
  assumes "s < 10 ^ 12"
  shows "deserialize_seconds T (JStr (show_nat s @ ''.'' @ pad3 0)) = Ok (int s, 0)"
proof -
  have "tc_valid T (int s) 0" using assms by (intro valid) simp_all
  then show ?thesis
    using normalize_no_millis [of s] assms by (simp add: deserialize_seconds_def u64_max_def u64_as_i64_def timestamp_opt_def)
qed

lemma visit_f64_nanos:
  assumes "0 \<le> v" and "v < 2 ^ 42"
  shows "\<exists>n \<le> 1000000. visit_f64 T v = Some (\<lfloor>v\<rfloor>, n) \<and> \<bar>of_nat n - frac v * 1000000\<bar> < 2"
proof -
  let ?f = "f64_round (frac v)" and ?y = "f64_round (f64_round (frac v) * 1000000)"
  have f: "0 \<le> frac v" "frac v < 1" by (simp_all add: frac_lt_1)
  have f1: "0 \<le> ?f" "?f \<le> 1" using f64_round_nonneg [OF f(1)] f64_round_le_nat [OF f(1), of 1] f by simp_all
  then have y: "0 \<le> ?y" "?y \<le> 1000000"
    using f64_round_nonneg [of "?f * 1000000"] f64_round_le_nat [of "?f * 1000000" 1000000] by simp_all
  have "\<bar>?f - frac v\<bar> \<le> frac v / 2 ^ 53 + tiny" unfolding tiny_def by (rule f64_round_error [OF f(1)])
  moreover have "frac v / 2 ^ 53 \<le> 1 / 100000000" using f by simp
  moreover have "tiny < 1 / 100000000" by (simp add: tiny_def subnormal_bits_def)
  ultimately have e: "\<bar>?f * 1000000 - frac v * 1000000\<bar> < 1 / 10" by linarith
  have "\<bar>?y - ?f * 1000000\<bar> \<le> ?f * 1000000 / 2 ^ 53 + tiny"
    unfolding tiny_def by (rule f64_round_error) (simp add: f1)
  moreover have "?f * 1000000 / 2 ^ 53 \<le> 1 / 10" using f1 by simp
  ultimately have e2: "\<bar>?y - frac v * 1000000\<bar> < 3 / 10" using e tiny by linarith
  let ?n = "nat \<lfloor>?y\<rfloor>"
  have n: "of_nat ?n = of_int \<lfloor>?y\<rfloor>" using y(1) by simp
  have le: "?n \<le> 1000000" using y by (simp add: floor_le_iff nat_le_iff)
  have "of_int \<lfloor>?y\<rfloor> \<le> ?y" "?y < of_int \<lfloor>?y\<rfloor> + 1" using floor_correct [of ?y] by simp_all
  then have "\<bar>of_nat ?n - frac v * 1000000\<bar> < 2" unfolding n using e2 by linarith
  moreover have "f64_as_u32 (of_int \<lfloor>?y\<rfloor>) = ?n" using le by (simp add: f64_as_u32_def u32_max_def)
  moreover have "\<lfloor>v\<rfloor> < 2 ^ 42" using assms(2) by (simp add: floor_less_iff)
  moreover from this have "f64_as_i64 (of_int \<lfloor>v\<rfloor>) = \<lfloor>v\<rfloor>" using assms(1) by (simp add: f64_as_i64_def min_def max_def)
  moreover have "tc_valid T \<lfloor>v\<rfloor> ?n" using assms(1) calculation(3) le by (intro valid) simp_all
  ultimately have "visit_f64 T v = Some (\<lfloor>v\<rfloor>, ?n)"
    using assms(1) y(1) f1(1)
    by (simp add: visit_f64_def Let_def f64_fract_nonneg timestamp_opt_def)
  then show ?thesis using le \<open>\<bar>of_nat ?n - frac v * 1000000\<bar> < 2\<close> by blast
qed

end

subsection \<open>Texts and a calendar that satisfy the laws\<close>

text \<open>Numbers are read exactly and printed with at most three decimals.\<close>

definition plain_parse :: "string \<Rightarrow> rat option" where
  "plain_parse s =
     (case map (parse_digits 0) (split_on CHR ''.'' s) of
        [Some whole] \<Rightarrow> Some (of_nat whole)
      | [Some whole, Some decimals] \<Rightarrow> Some (of_nat whole + of_nat decimals / 10 ^ (length s - length (show_nat whole) - 1))
      | _ \<Rightarrow> None)"

definition plain_show :: "rat \<Rightarrow> string" where
  "plain_show x =
     show_nat (nat \<lfloor>x\<rfloor>) @ (if \<lfloor>frac x * 1000\<rfloor> = 0 then [] else ''.'' @ strip_zeros (pad3 (nat \<lfloor>frac x * 1000\<rfloor>)))"

definition plain_time :: time_crates where
  "plain_time =
     \<lparr>tc_valid = (\<lambda>s n. - 8334601228800 \<le> s \<and> s \<le> 8210266876799 \<and> n < 2000000000),
      tc_delta_valid = (\<lambda>s. \<bar>s\<bar> \<le> 9223372036854775),
      tc_parse_f64 = (\<lambda>s. if s \<noteq> [] \<and> hd s = CHR ''-'' then map_option uminus (plain_parse (tl s)) else plain_parse s),
      tc_show_f64 = (\<lambda>x. if x < 0 then CHR ''-'' # plain_show (- x) else plain_show x),
      tc_parse_codebuild = (\<lambda>s. None),
      tc_show_codebuild = (\<lambda>d. [])\<rparr>"

lemma parse_digits_pad3: "m < 1000 \<Longrightarrow> parse_digits 0 (pad3 m) = Some m"
proof -
  assume m: "m < 1000"
  have e2: "m div 10 = m div 100 * 10 + m div 10 mod 10"
    using div_mult_mod_eq [of "m div 10" 10] by (simp add: div_mult2_eq [symmetric])
  have "100 * (m div 100) + 10 * (m div 10 mod 10) + m mod 10 = m"
    using div_mult_mod_eq [of m 10] e2 by linarith
  moreover have "m div 100 < 10" using m by simp
  ultimately show ?thesis using m by (simp add: pad3_def mult.commute)
qed

lemma pad3_no_point: "m < 1000 \<Longrightarrow> CHR ''.'' \<notin> set (pad3 m)"
  using pad3_digits [of m] by fastforce

lemma hd_show_nat: "show_nat n \<noteq> [] \<and> hd (show_nat n @ t) \<noteq> CHR ''-''"
proof -
  have "hd (show_nat n) \<in> set (show_nat n)" by simp
  then show ?thesis
    using show_nat_digits [of "hd (show_nat n)" n] by (auto simp: digit_val_def)
qed

lemma plain_parse_int: "plain_parse (show_nat n) = Some (of_nat n)"
  by (simp add: plain_parse_def split_on_no_sep)

lemma plain_parse_millis: "m < 1000 \<Longrightarrow> plain_parse (show_nat s @ ''.'' @ pad3 m) = Some (of_nat s + of_nat m / 1000)"
proof -
  assume m: "m < 1000"
  have "split_on CHR ''.'' (show_nat s @ ''.'' @ pad3 m) = [show_nat s, pad3 m]"
    using split_on_append_sep [of "CHR ''.''" "show_nat s" "pad3 m"] by (simp add: split_on_no_sep pad3_no_point m)
  then show ?thesis
    using m by (simp add: plain_parse_def parse_digits_pad3) (simp add: pad3_def)
qed

lemma plain_show_millis:
  "m < 1000 \<Longrightarrow> plain_show (of_nat s + of_nat m / 1000) = show_nat s @ (if m = 0 then [] else ''.'' @ strip_zeros (pad3 m))"
proof -
  assume m: "m < 1000"
  let ?x = "of_nat s + of_nat m / 1000 :: rat"
  have "of_nat m / 1000 < (1 :: rat)" using m by simp
  then have f: "\<lfloor>?x\<rfloor> = int s" by (simp add: floor_eq_iff)
  then have g: "frac ?x = of_nat m / 1000" by (simp add: frac_def)
  show ?thesis by (simp add: plain_show_def f g)
qed

interpretation pt: calendar plain_time
proof
  show "tc_parse_f64 plain_time (show_nat n) = Some (of_nat n)" for n
    using hd_show_nat [of n "[]"] by (simp add: plain_time_def plain_parse_int)
  show "tc_show_f64 plain_time (of_nat n) = show_nat n" for n
    using plain_show_millis [of 0 n] by (simp add: plain_time_def)
  show "\<exists>x. tc_parse_f64 plain_time (show_nat s @ ''.'' @ pad3 m) = Some x \<and>
            tc_show_f64 plain_time x = show_nat s @ (if m = 0 then [] else ''.'' @ strip_zeros (pad3 m))" if m: "m < 1000" for s m
  proof -
    have "\<not> of_nat s + of_nat m / 1000 < (0 :: rat)" by (simp add: not_less)
    then show ?thesis
      using hd_show_nat [of s "''.'' @ pad3 m"] plain_parse_millis [OF m, of s] plain_show_millis [OF m, of s]
      by (intro exI [of _ "of_nat s + of_nat m / 1000"]) (simp add: plain_time_def)
  qed
  show "\<exists>x u. tc_parse_f64 plain_time (CHR ''-'' # show_nat n @ t) = Some x \<and> tc_show_f64 plain_time x = CHR ''-'' # u"
    if n: "0 < n" and t: "t = [] \<or> (\<exists>m < 1000. t = ''.'' @ pad3 m)" for n t
  proof -
    obtain y where "plain_parse (show_nat n @ t) = Some y" "0 < y"
      using t n plain_parse_int [of n] plain_parse_millis [of _ n] by (auto intro!: add_pos_nonneg)
    then show ?thesis by (simp add: plain_time_def)
  qed
qed (simp_all add: plain_time_def)

subsection \<open>Properties\<close>

lemma show_int_nat: "0 \<le> i \<Longrightarrow> show_int i = show_nat (nat i)"
  by (simp add: show_int_def)

lemma show_int_minus: "i < 0 \<Longrightarrow> show_int i = CHR ''-'' # show_nat (nat (- i))"
  by (simp add: show_int_def)

text \<open>
  C40: a timestamp in milliseconds from the epoch on (and before the year 144683) that is written and
  read again keeps its second, and its milliseconds or, because the fraction of the seconds is truncated after two
  roundings, one less; the nanoseconds are dropped, and an instant within a leap second becomes one of the next
  second, as it is written. An instant before the epoch is written as a negative number, which is refused.
\<close>

theorem milliseconds_may_lose_one:
  assumes "calendar T" and "- (2 ^ 52) < timestamp_millis d" and "timestamp_millis d < 2 ^ 52"
  shows "(0 \<le> timestamp_millis d \<longrightarrow>
      (\<exists>d'. deserialize_milliseconds T (serialize_milliseconds d) = Ok d' \<and> fst d' = timestamp_millis d div 1000 \<and>
         (snd d < 10 ^ 9 \<longrightarrow> fst d' = fst d) \<and>
         snd d' mod 1000000 = 0 \<and> timestamp_millis d' \<in> {timestamp_millis d - 1, timestamp_millis d})) \<and>
    (timestamp_millis d < 0 \<longrightarrow> (\<exists>e. deserialize_milliseconds T (serialize_milliseconds d) = Err e))"
proof (intro conjI impI)
  assume pos: "0 \<le> timestamp_millis d"
  let ?w = "nat (timestamp_millis d)"
  have w: "?w < 2 ^ 52" using assms(3) by (simp add: nat_less_iff)
  have sec: "int (?w div 1000) = timestamp_millis d div 1000" using pos by (simp add: zdiv_int)
  have "timestamp_millis d div 1000 = fst d" if "snd d < 10 ^ 9"
  proof -
    have "snd d div 1000000 < 1000" using that by (simp add: less_mult_imp_div_less)
    then show ?thesis by (simp add: timestamp_millis_def)
  qed
  moreover have norm: "normalize_timestamp T (JStr (show_nat ?w)) = Some (?w, 0)"
    using calendar.axioms(1) [OF assms(1)] w by (intro float_text.normalize_int(1)) simp_all
  ultimately show "\<exists>d'. deserialize_milliseconds T (serialize_milliseconds d) = Ok d' \<and> fst d' = timestamp_millis d div 1000 \<and>
         (snd d < 10 ^ 9 \<longrightarrow> fst d' = fst d) \<and>
         snd d' mod 1000000 = 0 \<and> timestamp_millis d' \<in> {timestamp_millis d - 1, timestamp_millis d}"
    using pos sec calendar.deserialize_millis [OF assms(1) w norm] by (auto simp: serialize_milliseconds_def show_int_nat)
next
  assume neg: "timestamp_millis d < 0"
  then have "normalize_timestamp T (JStr (CHR ''-'' # show_nat (nat (- timestamp_millis d)) @ [])) = None"
    using assms(2) by (intro float_text.normalize_negative [OF calendar.axioms(1) [OF assms(1)]]) (simp_all add: nat_less_iff)
  then show "\<exists>e. deserialize_milliseconds T (serialize_milliseconds d) = Err e"
    using neg by (simp add: serialize_milliseconds_def show_int_minus deserialize_milliseconds_def)
qed

text \<open>
  C39: what becomes of a timestamp in seconds that is written with its milliseconds and read again, up
  to 1,000,000,000,000 seconds from the epoch. The instant written is that of its second, or of the next one when it lies within a
  leap second, with its milliseconds. From the epoch on this second is kept, and the milliseconds become the
  number that their decimals without the zeros at the end denote, so they are kept exactly when there are none or their
  last digit is not zero. Before the epoch it is written as a negative number, which is refused.
\<close>

theorem seconds_roundtrip_iff:
  assumes "calendar T" and "- (10 ^ 12) < fst d" and "fst d < 10 ^ 12 - 1" and "snd d < 2 * 10 ^ 9"
    and "s = (if snd d < 10 ^ 9 then fst d else fst d + 1)" and "m = snd d div 1000000 mod 1000"
  shows "(0 \<le> s \<longrightarrow>
      deserialize_seconds T (serialize_seconds d) = Ok (s, stripped m * 1000000) \<and>
      (stripped m = m \<longleftrightarrow> m = 0 \<or> m mod 10 \<noteq> 0)) \<and>
    (s < 0 \<longrightarrow> (\<exists>e. deserialize_seconds T (serialize_seconds d) = Err e))"
proof -
  let ?ms = "snd d div 1000000"
  have ms: "?ms < 2000" using assms(4) by (simp add: less_mult_imp_div_less)
  have "snd d < 10 ^ 9 \<longleftrightarrow> ?ms < 1000"
    by (simp add: div_less_iff_less_mult)
  then have whole: "s = fst d + int (?ms div 1000)"
    using ms assms(5) by (auto simp: div_nat_eqI)
  have m: "m < 1000" "?ms = 0 \<Longrightarrow> m = 0" using assms(6) by simp_all
  have out: "serialize_seconds d = JStr (if 0 < ?ms then show_int s @ ''.'' @ pad3 m else show_int s)"
    using whole assms(6) by (simp add: serialize_seconds_def Let_def)
  show ?thesis
  proof (intro conjI impI)
    assume s: "0 \<le> s"
    then have s12: "nat s < 10 ^ 12" using assms(3,5) by (simp add: nat_less_iff)
    show "stripped m = m \<longleftrightarrow> m = 0 \<or> m mod 10 \<noteq> 0"
      using stripped_eq [of m] m(1) by (cases "m = 0") (simp_all add: stripped_def)
    show "deserialize_seconds T (serialize_seconds d) = Ok (s, stripped m * 1000000)"
    proof (cases "m = 0")
      case True
      then show ?thesis
        using calendar.deserialize_whole_secs [OF assms(1) s12] calendar.deserialize_no_millis [OF assms(1) s12] s
        by (simp add: out show_int_nat stripped_def)
    next
      case False
      then show ?thesis
        using calendar.deserialize_secs [OF assms(1) s12 _ m(1)] m(2) s by (auto simp: out show_int_nat)
    qed
  next
    assume s: "s < 0"
    have n: "0 < nat (- s)" "nat (- s) < 2 ^ 63" using s assms(2,5) by (auto simp: nat_less_iff)
    note refused = float_text.normalize_negative [OF calendar.axioms(1) [OF assms(1)] n]
    have "normalize_timestamp T (JStr (CHR ''-'' # show_nat (nat (- s)) @ [])) = None"
      by (rule refused) simp
    moreover have "normalize_timestamp T (JStr (CHR ''-'' # show_nat (nat (- s)) @ (''.'' @ pad3 m))) = None"
      by (rule refused) (use m(1) in blast)
    ultimately have "normalize_timestamp T (serialize_seconds d) = None"
      unfolding out show_int_minus [OF s] by simp
    then show "\<exists>e. deserialize_seconds T (serialize_seconds d) = Err e"
      by (simp add: deserialize_seconds_def)
  qed
qed

text \<open>
  A time in seconds since the epoch is written as whole seconds and read back as such; of a
  number with a fraction the microseconds are taken for nanoseconds, so the instant read is at most a
  millisecond after its second whatever the fraction.
\<close>

lemma epoch_fraction_misread:
  assumes "calendar T"
  shows "(0 \<le> fst d \<and> fst d < 2 ^ 42 \<and> snd d < 10 ^ 9 \<longrightarrow> epoch_deserialize T (epoch_serialize d) = Some (fst d, 0)) \<and>
     (0 \<le> f64_of_rat (of_int m / 10 ^ e) \<and> f64_of_rat (of_int m / 10 ^ e) < 2 ^ 42 \<longrightarrow>
        (\<exists>n \<le> 1000000. epoch_deserialize T (JDec m e) = Some (\<lfloor>f64_of_rat (of_int m / 10 ^ e)\<rfloor>, n) \<and>
           \<bar>of_nat n - frac (f64_of_rat (of_int m / 10 ^ e)) * 1000000\<bar> < 2))"
proof (intro conjI impI)
  assume d: "0 \<le> fst d \<and> fst d < 2 ^ 42 \<and> snd d < 10 ^ 9"
  then have "snd d div 1000000 < 1000" by (simp add: less_mult_imp_div_less)
  then have q: "tquot (timestamp_millis d) 1000 = fst d"
    using d by (auto simp: tquot_def timestamp_millis_def sgn_if)
  moreover have "tc_valid T (fst d) 0" using d by (intro calendar.valid [OF assms]) simp_all
  ultimately show "epoch_deserialize T (epoch_serialize d) = Some (fst d, 0)"
    using d by (simp add: epoch_serialize_def epoch_deserialize_def visit_u64_def u64_max_def u64_as_i64_def timestamp_opt_def nat_less_iff)
next
  assume "0 \<le> f64_of_rat (of_int m / 10 ^ e) \<and> f64_of_rat (of_int m / 10 ^ e) < 2 ^ 42"
  then show "\<exists>n \<le> 1000000. epoch_deserialize T (JDec m e) = Some (\<lfloor>f64_of_rat (of_int m / 10 ^ e)\<rfloor>, n) \<and>
           \<bar>of_nat n - frac (f64_of_rat (of_int m / 10 ^ e)) * 1000000\<bar> < 2"
    using calendar.visit_f64_nanos [OF assms, of "f64_of_rat (of_int m / 10 ^ e)"] by (simp add: epoch_deserialize_def)
qed

text \<open>1.001 seconds after the epoch become 1 second.\<close>

lemma round_1001: "f64_round (1001 / 1000) = 4508103226997866 / 2 ^ 52"
  by (simp add: f64_round_def f64_ulp_eq [of 0 _ 0] round_half_even_def Let_def subnormal_bits_def
      floor_divide_of_int_eq [where 'a = rat, of "numeral a" "numeral b" for a b, simplified])

lemma milliseconds_may_lose_one_witness:
  "(\<exists>d'. deserialize_milliseconds plain_time (serialize_milliseconds (1, 1000000)) = Ok d' \<and> fst d' = 1 \<and>
     timestamp_millis d' \<in> {1000, 1001}) \<and>
   deserialize_milliseconds plain_time (serialize_milliseconds (1, 1000000)) = Ok (1, 0)"
proof
  show "\<exists>d'. deserialize_milliseconds plain_time (serialize_milliseconds (1, 1000000)) = Ok d' \<and> fst d' = 1 \<and>
     timestamp_millis d' \<in> {1000, 1001}"
    using milliseconds_may_lose_one [OF pt.calendar_axioms, of "(1, 1000000)"] by (auto simp: timestamp_millis_def)
  show "deserialize_milliseconds plain_time (serialize_milliseconds (1, 1000000)) = Ok (1, 0)"
  proof -
    have n: "normalize_timestamp plain_time (JStr (show_nat 1001)) = Some (1001, 0)"
      by (rule pt.normalize_int(1)) simp
    have f: "f64_fract (f64_round (1001 / 1000)) = 4503599627370 / 2 ^ 52"
      using f64_exact_scaled [of 4503599627370 52]
      by (simp add: round_1001 f64_fract_nonneg frac_def subnormal_bits_def
          floor_divide_of_int_eq [where 'a = rat, of "numeral a" "numeral b" for a b, simplified])
    have g: "f64_round (4503599627370 / 2 ^ 52 * 1000) = 4503599627370000 / 2 ^ 52"
      using f64_exact_scaled [of 4503599627370000 52] by (simp add: subnormal_bits_def)
    have h: "f64_as_u32 (f64_round (f64_fract (f64_round (1001 / 1000)) * 1000)) = 0"
      unfolding f g by (simp add: f64_as_u32_def floor_divide_of_int_eq [where 'a = rat, of "numeral a" "numeral b" for a b, simplified])
    have i: "f64_as_i64 (f64_round (1001 / 1000)) = 1"
      by (simp add: round_1001 f64_as_i64_def floor_divide_of_int_eq [where 'a = rat, of "numeral a" "numeral b" for a b, simplified])
    have w: "f64_round 1001 = 1001" using f64_exact_nat [of 1001] by simp
    have v: "tc_valid plain_time 1 0" by (simp add: plain_time_def)
    have "0 \<le> f64_fract (f64_round (1001 / 1000))" unfolding f by simp
    then show ?thesis
      using n h i v by (simp add: serialize_milliseconds_def timestamp_millis_def show_int_nat deserialize_milliseconds_def Let_def w
          f64_round_nonneg timestamp_opt_def)
  qed
qed

lemma seconds_roundtrip_iff_witness:
  "deserialize_seconds plain_time (serialize_seconds (1, 500000000)) = Ok (1, 5000000) \<and>
   deserialize_seconds plain_time (serialize_seconds (1, 123000000)) = Ok (1, 123000000) \<and>
   deserialize_seconds plain_time (serialize_seconds (1, 1999999999)) = Ok (2, 999000000) \<and>
   (\<exists>e. deserialize_seconds plain_time (serialize_seconds (- 2, 500000000)) = Err e)"
  using seconds_roundtrip_iff [OF pt.calendar_axioms, of "(1, 500000000)" 1 500]
    seconds_roundtrip_iff [OF pt.calendar_axioms, of "(1, 123000000)" 1 123]
    seconds_roundtrip_iff [OF pt.calendar_axioms, of "(1, 1999999999)" 2 999]
    seconds_roundtrip_iff [OF pt.calendar_axioms, of "(- 2, 500000000)" "- 2" 500]
  by (simp add: stripped_def)

lemma epoch_fraction_misread_witness:
  "(\<exists>n \<le> 1000000. epoch_deserialize plain_time (JDec 15 1) = Some (1, n))"
proof -
  have "f64_round (3 / 2) = 3 / 2" using f64_exact_scaled [of 3 1] by (simp add: subnormal_bits_def)
  moreover from this have "\<lfloor>f64_round (3 / 2)\<rfloor> = 1" by (simp only:) (simp add: floor_eq_iff)
  ultimately show ?thesis
    using epoch_fraction_misread [OF pt.calendar_axioms, of "(1, 0)" 15 1] by auto
qed

end
