(* ===== verification/BatchResponses.thy ===== *)
theory BatchResponses
  imports Crates "HOL-Library.Monad_Syntax"
begin

text \<open>
  Reports of partial batch failures: \<^verbatim>\<open>SqsBatchResponse\<close>
  (\<^verbatim>\<open>lambda-events/src/event/sqs/mod.rs\<close>) and the responses of
  \<^verbatim>\<open>lambda-events/src/event/streams/mod.rs\<close>, with the helpers that fill them, and what
  a handler that uses the helpers reports.
\<close>

subsection \<open>SQS\<close>

record batch_item_failure =
  bf_item_identifier :: string

definition batch_item_failure_json :: "batch_item_failure \<Rightarrow> json" where
  "batch_item_failure_json f = JObj [(''itemIdentifier'', JStr (bf_item_identifier f))]"

definition batch_item_failure_of_json :: "json \<Rightarrow> batch_item_failure option" where
  "batch_item_failure_of_json j = do {
     kvs \<leftarrow> de_fields 1 [''itemIdentifier''] j;
     i \<leftarrow> de_required de_string [''itemIdentifier''] kvs;
     Some \<lparr>bf_item_identifier = i\<rparr> }"

record sqs_batch_response =
  sb_batch_item_failures :: "batch_item_failure list"

definition sqs_batch_response_default :: sqs_batch_response where
  "sqs_batch_response_default = \<lparr>sb_batch_item_failures = []\<rparr>"

definition sqs_batch_response_json :: "sqs_batch_response \<Rightarrow> json" where
  "sqs_batch_response_json r = JObj [(''batchItemFailures'', JArr (map batch_item_failure_json (sb_batch_item_failures r)))]"

definition sqs_batch_response_of_json :: "json \<Rightarrow> sqs_batch_response option" where
  "sqs_batch_response_of_json j = do {
     kvs \<leftarrow> de_fields 1 [''batchItemFailures''] j;
     fs \<leftarrow> de_required (de_list batch_item_failure_of_json) [''batchItemFailures''] kvs;
     Some \<lparr>sb_batch_item_failures = fs\<rparr> }"

definition sqs_add_failure :: "sqs_batch_response \<Rightarrow> string \<Rightarrow> sqs_batch_response" where
  "sqs_add_failure r message_id =
     r\<lparr>sb_batch_item_failures := sb_batch_item_failures r @ [\<lparr>bf_item_identifier = message_id\<rparr>]\<rparr>"

definition sqs_set_failures :: "sqs_batch_response \<Rightarrow> string list \<Rightarrow> sqs_batch_response" where
  "sqs_set_failures r message_ids =
     r\<lparr>sb_batch_item_failures := map (\<lambda>i. \<lparr>bf_item_identifier = i\<rparr>) message_ids\<rparr>"

subsection \<open>Streams\<close>

text \<open>
  The three event responses of \<^verbatim>\<open>streams/mod.rs\<close> have one form, an optional identifier for each
  failure; only the one for Kinesis has helpers.
\<close>

record stream_item_failure =
  sf_item_identifier :: "string option"

definition stream_item_failure_json :: "stream_item_failure \<Rightarrow> json" where
  "stream_item_failure_json f = JObj [(''itemIdentifier'', json_of_option JStr (sf_item_identifier f))]"

definition stream_item_failure_of_json :: "json \<Rightarrow> stream_item_failure option" where
  "stream_item_failure_of_json j = do {
     kvs \<leftarrow> de_fields 0 [''itemIdentifier''] j;
     i \<leftarrow> de_optional de_string [''itemIdentifier''] kvs;
     Some \<lparr>sf_item_identifier = i\<rparr> }"

record kinesis_event_response =
  ke_batch_item_failures :: "stream_item_failure list"

definition kinesis_event_response_default :: kinesis_event_response where
  "kinesis_event_response_default = \<lparr>ke_batch_item_failures = []\<rparr>"

definition kinesis_event_response_json :: "kinesis_event_response \<Rightarrow> json" where
  "kinesis_event_response_json r =
     JObj [(''batchItemFailures'', JArr (map stream_item_failure_json (ke_batch_item_failures r)))]"

definition kinesis_event_response_of_json :: "json \<Rightarrow> kinesis_event_response option" where
  "kinesis_event_response_of_json j = do {
     kvs \<leftarrow> de_fields 1 [''batchItemFailures''] j;
     fs \<leftarrow> de_required (de_list stream_item_failure_of_json) [''batchItemFailures''] kvs;
     Some \<lparr>ke_batch_item_failures = fs\<rparr> }"

definition kinesis_add_failure :: "kinesis_event_response \<Rightarrow> string \<Rightarrow> kinesis_event_response" where
  "kinesis_add_failure r item_identifier =
     r\<lparr>ke_batch_item_failures := ke_batch_item_failures r @ [\<lparr>sf_item_identifier = Some item_identifier\<rparr>]\<rparr>"

definition kinesis_set_failures :: "kinesis_event_response \<Rightarrow> string list \<Rightarrow> kinesis_event_response" where
  "kinesis_set_failures r item_identifiers =
     r\<lparr>ke_batch_item_failures := map (\<lambda>i. \<lparr>sf_item_identifier = Some i\<rparr>) item_identifiers\<rparr>"

subsection \<open>What a handler reports\<close>

text \<open>The use the documentation of \<open>add_failure\<close> shows: one call for every record that failed.\<close>

definition process_batch :: "('r \<Rightarrow> string \<Rightarrow> 'r) \<Rightarrow> ('m \<Rightarrow> bool) \<Rightarrow> ('m \<Rightarrow> string) \<Rightarrow> 'm list \<Rightarrow> 'r \<Rightarrow> 'r" where
  "process_batch add fails ident ms r = foldl (\<lambda>r m. if fails m then add r (ident m) else r) r ms"

definition failure_report :: "string list \<Rightarrow> json" where
  "failure_report is = JObj [(''batchItemFailures'', JArr (map (\<lambda>i. JObj [(''itemIdentifier'', JStr i)]) is))]"

locale batch_report =
  fixes empty :: 'r and add :: "'r \<Rightarrow> string \<Rightarrow> 'r" and set_all :: "'r \<Rightarrow> string list \<Rightarrow> 'r"
    and to_json :: "'r \<Rightarrow> json" and of_json :: "json \<Rightarrow> 'r option"
  assumes empty: "to_json empty = failure_report []"
    and add: "to_json r = failure_report is \<Longrightarrow> to_json (add r i) = failure_report (is @ [i])"
    and set_all: "to_json (set_all r is) = failure_report is"
    and inverse: "of_json (to_json r) = Some r"
begin

lemma process_reports:
  "to_json r = failure_report is \<Longrightarrow>
     to_json (process_batch add fails ident ms r) = failure_report (is @ map ident (filter fails ms))"
  by (induction ms arbitrary: r "is") (simp_all add: process_batch_def add)

lemma same_report: "to_json r = failure_report is \<Longrightarrow> r = set_all r' is"
  by (metis inverse option.inject set_all)

end

interpretation sqs: batch_report sqs_batch_response_default sqs_add_failure sqs_set_failures
  sqs_batch_response_json sqs_batch_response_of_json
proof
  have item: "batch_item_failure_of_json (batch_item_failure_json f) = Some f" for f
    by (simp add: batch_item_failure_json_def batch_item_failure_of_json_def de_simps)
  show "sqs_batch_response_of_json (sqs_batch_response_json r) = Some r" for r
    by (simp add: sqs_batch_response_json_def sqs_batch_response_of_json_def de_fields_def de_required_def
        de_list_inverse item)
qed (auto simp: sqs_batch_response_json_def failure_report_def sqs_batch_response_default_def sqs_add_failure_def
    sqs_set_failures_def batch_item_failure_json_def)

interpretation kinesis: batch_report kinesis_event_response_default kinesis_add_failure kinesis_set_failures
  kinesis_event_response_json kinesis_event_response_of_json
proof
  have item: "stream_item_failure_of_json (stream_item_failure_json f) = Some f" for f
    by (cases "sf_item_identifier f") (simp_all add: stream_item_failure_json_def stream_item_failure_of_json_def de_simps)
  show "kinesis_event_response_of_json (kinesis_event_response_json r) = Some r" for r
    by (simp add: kinesis_event_response_json_def kinesis_event_response_of_json_def de_fields_def de_required_def
        de_list_inverse item)
qed (auto simp: kinesis_event_response_json_def failure_report_def kinesis_event_response_default_def
    kinesis_add_failure_def kinesis_set_failures_def stream_item_failure_json_def)

subsection \<open>Properties\<close>

text \<open>
  C28: a handler that starts from the default response and adds the identifier of every message
  that failed reports exactly the failed messages, in the order of the batch, and nothing when none failed,
  for SQS as for Kinesis; setting the identifiers at once, whatever was there before, gives the same
  response, and reading the report back gives the response.
\<close>

theorem batch_report_lists_failures:
  "sqs_batch_response_json (process_batch sqs_add_failure fails ident ms sqs_batch_response_default) =
     failure_report (map ident (filter fails ms)) \<and>
   process_batch sqs_add_failure fails ident ms sqs_batch_response_default =
     sqs_set_failures r (map ident (filter fails ms)) \<and>
   kinesis_event_response_json (process_batch kinesis_add_failure fails ident ms kinesis_event_response_default) =
     failure_report (map ident (filter fails ms)) \<and>
   process_batch kinesis_add_failure fails ident ms kinesis_event_response_default =
     kinesis_set_failures k (map ident (filter fails ms)) \<and>
   sqs_batch_response_of_json (sqs_batch_response_json r) = Some r \<and>
   kinesis_event_response_of_json (kinesis_event_response_json k) = Some k"
  using sqs.process_reports [OF sqs.empty, of fails ident ms] kinesis.process_reports [OF kinesis.empty, of fails ident ms]
    sqs.same_report [of "process_batch sqs_add_failure fails ident ms sqs_batch_response_default" "map ident (filter fails ms)" r]
    kinesis.same_report [of "process_batch kinesis_add_failure fails ident ms kinesis_event_response_default" "map ident (filter fails ms)" k]
    sqs.inverse kinesis.inverse
  by simp

end
