(* ===== verification/EventSerde.thy ===== *)
theory EventSerde
  imports Telemetry CustomSerde
begin

text \<open>
  The vocabulary of the serialisers and deserialisers that \<^verbatim>\<open>derive(Serialize)\<close> and
  \<^verbatim>\<open>derive(Deserialize)\<close> generate for the event structures of \<^verbatim>\<open>lambda-events\<close>, with
  the two things the theories of the events show of each structure: what is read is well formed
  (integers in the range of their type, hash maps without repeated keys), and what is well formed is
  read back from what is written.
\<close>

subsection \<open>Parameters\<close>

text \<open>
  Instants of \<^verbatim>\<open>chrono\<close> (read and written as RFC 3339 texts), base64, and the texts of JSON values
  inside a string (\<^verbatim>\<open>serde_with::json::JsonString\<close>).
\<close>

record 't event_env =
  ev_time :: "'t date_time"
  ev_epoch :: 't
  ev_encode :: "string \<Rightarrow> string"
  ev_decode :: "string \<Rightarrow> string option"
  ev_print :: "json \<Rightarrow> string"
  ev_parse :: "string \<Rightarrow> json option"

locale event_crates =
  fixes E :: "'t event_env"
  assumes time_inverse: "dt_parse (ev_time E) (dt_show (ev_time E) t) = Some t"
    and base64_inverse: "ev_decode E (ev_encode E s) = Some s"

definition json_of_time :: "'t event_env \<Rightarrow> 't \<Rightarrow> json" where
  "json_of_time E t = JStr (dt_show (ev_time E) t)"

definition time_of_json :: "'t event_env \<Rightarrow> json \<Rightarrow> 't option" where
  "time_of_json E = de_time (ev_time E)"

definition json_of_base64 :: "'t event_env \<Rightarrow> string \<Rightarrow> json" where
  "json_of_base64 E s = JStr (ev_encode E s)"

definition base64_of_json :: "'t event_env \<Rightarrow> json \<Rightarrow> string option" where
  "base64_of_json E j = Option.bind (de_string j) (ev_decode E)"

definition json_of_text :: "'t event_env \<Rightarrow> ('a \<Rightarrow> json) \<Rightarrow> 'a \<Rightarrow> json" where
  "json_of_text E g x = JStr (ev_print E (g x))"

definition text_of_json :: "'t event_env \<Rightarrow> (json \<Rightarrow> 'a option) \<Rightarrow> json \<Rightarrow> 'a option" where
  "text_of_json E f j = Option.bind (de_string j) (\<lambda>s. Option.bind (ev_parse E s) f)"

subsection \<open>Values\<close>

definition json_of_list :: "('a \<Rightarrow> json) \<Rightarrow> 'a list \<Rightarrow> json" where
  "json_of_list g xs = JArr (map g xs)"

definition json_of_map :: "('a \<Rightarrow> json) \<Rightarrow> (string \<times> 'a) list \<Rightarrow> json" where
  "json_of_map g m = JObj (map (\<lambda>(k, v). (k, g v)) m)"

definition de_i32 :: "json \<Rightarrow> int option" where
  "de_i32 j = (case j of JInt i \<Rightarrow> if - (2 ^ 31) \<le> i \<and> i < 2 ^ 31 then Some i else None | _ \<Rightarrow> None)"

definition de_i8 :: "json \<Rightarrow> int option" where
  "de_i8 j = (case j of JInt i \<Rightarrow> if - (2 ^ 7) \<le> i \<and> i < 2 ^ 7 then Some i else None | _ \<Rightarrow> None)"

text \<open>An \<^verbatim>\<open>Option\<close> inside another value: null is \<open>None\<close>.\<close>

definition de_option :: "(json \<Rightarrow> 'a option) \<Rightarrow> json \<Rightarrow> 'a option option" where
  "de_option f j = (if j = JNull then Some None else map_option Some (f j))"

text \<open>A structure with a flattened field is read from an object only, never from an array.\<close>

definition de_object :: "json \<Rightarrow> (string \<times> json) list option" where
  "de_object j = (case j of JObj kvs \<Rightarrow> Some kvs | _ \<Rightarrow> None)"

text \<open>An externally tagged enum of newtype variants: an object with the variant's name as its only key.\<close>

definition de_newtype :: "(string \<times> (json \<Rightarrow> 'a option)) list \<Rightarrow> json \<Rightarrow> 'a option" where
  "de_newtype vs j = (case j of JObj [(k, v)] \<Rightarrow> Option.bind (map_of vs k) (\<lambda>f. f v) | _ \<Rightarrow> None)"

text \<open>
  An internally tagged enum of newtype variants: the tag stands among the fields of the variant, or
  is the first element of an array. The rest is what the variant is read from.
\<close>

definition de_tagged :: "string \<Rightarrow> (string \<times> (json \<Rightarrow> 'a option)) list \<Rightarrow> json \<Rightarrow> 'a option" where
  "de_tagged tag vs j =
     (case j of
        JObj kvs \<Rightarrow>
          (case de_values [tag] kvs of
             [JStr s] \<Rightarrow> Option.bind (map_of vs s) (\<lambda>f. f (JObj (filter (\<lambda>(k, v). k \<noteq> tag) kvs)))
           | _ \<Rightarrow> None)
      | JArr (JStr s # js) \<Rightarrow> Option.bind (map_of vs s) (\<lambda>f. f (JArr js))
      | _ \<Rightarrow> None)"

definition is_object :: "json \<Rightarrow> bool" where
  "is_object j = (case j of JObj kvs \<Rightarrow> True | _ \<Rightarrow> False)"

definition json_keys :: "json \<Rightarrow> string list" where
  "json_keys j = (case j of JObj kvs \<Rightarrow> map fst kvs | _ \<Rightarrow> [])"

text \<open>What is written for a variant, which is always an object, with the tag before its fields.\<close>

definition json_of_tagged :: "string \<Rightarrow> string \<Rightarrow> json \<Rightarrow> json" where
  "json_of_tagged tag name j = (case j of JObj kvs \<Rightarrow> JObj ((tag, JStr name) # kvs) | v \<Rightarrow> v)"

text \<open>An untagged enum: the first variant that accepts the value.\<close>

fun de_untagged :: "(json \<Rightarrow> 'a option) list \<Rightarrow> json \<Rightarrow> 'a option" where
  "de_untagged [] j = None"
| "de_untagged (f # fs) j = (case f j of Some x \<Rightarrow> Some x | None \<Rightarrow> de_untagged fs j)"

text \<open>Well-formed values.\<close>

definition good_i64 :: "int \<Rightarrow> bool" where
  "good_i64 i \<longleftrightarrow> - (2 ^ 63) \<le> i \<and> i < 2 ^ 63"

definition good_i32 :: "int \<Rightarrow> bool" where
  "good_i32 i \<longleftrightarrow> - (2 ^ 31) \<le> i \<and> i < 2 ^ 31"

definition good_i8 :: "int \<Rightarrow> bool" where
  "good_i8 i \<longleftrightarrow> - (2 ^ 7) \<le> i \<and> i < 2 ^ 7"

definition good_nat :: "nat \<Rightarrow> nat \<Rightarrow> bool" where
  "good_nat b n \<longleftrightarrow> n \<le> b"

definition good_map :: "('a \<Rightarrow> bool) \<Rightarrow> (string \<times> 'a) list \<Rightarrow> bool" where
  "good_map P m \<longleftrightarrow> distinct (map fst m) \<and> list_all (\<lambda>(k, v). P v) m"

definition good_option :: "('a \<Rightarrow> bool) \<Rightarrow> 'a option \<Rightarrow> bool" where
  "good_option P v \<longleftrightarrow> (case v of None \<Rightarrow> True | Some x \<Rightarrow> P x)"

subsection \<open>What is read is well formed\<close>

definition typed :: "('a \<Rightarrow> bool) \<Rightarrow> (json \<Rightarrow> 'a option) \<Rightarrow> bool" where
  "typed P f \<longleftrightarrow> (\<forall>j x. f j = Some x \<longrightarrow> P x)"

lemma typedI: "(\<And>j x. f j = Some x \<Longrightarrow> P x) \<Longrightarrow> typed P f"
  by (simp add: typed_def)

lemma typedD: "typed P f \<Longrightarrow> f j = Some x \<Longrightarrow> P x"
  by (simp add: typed_def)

lemma typed_True: "typed (\<lambda>_. True) f"
  by (simp add: typed_def)

lemma typed_i64: "typed good_i64 de_i64"
  by (auto simp: typed_def good_i64_def de_i64_def split: json.splits if_splits)

lemma typed_i32: "typed good_i32 de_i32"
  by (auto simp: typed_def good_i32_def de_i32_def split: json.splits if_splits)

lemma typed_i8: "typed good_i8 de_i8"
  by (auto simp: typed_def good_i8_def de_i8_def split: json.splits if_splits)

lemma typed_nat: "typed (good_nat b) (de_unsigned b)"
  by (auto simp: typed_def good_nat_def de_unsigned_def split: json.splits if_splits)

lemma those_Some_all: "those (map f xs) = Some ys \<Longrightarrow> typed P f \<Longrightarrow> list_all P ys"
  by (induction xs arbitrary: ys) (auto simp: typed_def split: option.splits)

lemma typed_f64: "typed f64_finite de_f64"
  by (auto simp: typed_def dest: de_f64_finite)

lemma typed_list: "typed P f \<Longrightarrow> typed (list_all P) (de_list f)"
  by (rule typedI) (auto simp: de_list_def intro: those_Some_all split: json.splits)

lemma update_good: "good_map P m \<Longrightarrow> P v \<Longrightarrow> good_map P (AList.update k v m)"
proof -
  assume "good_map P m" "P v"
  then have "list_all (\<lambda>(k, v). P v) (AList.update k v m)"
    by (induction m) (auto simp: good_map_def)
  then show ?thesis using \<open>good_map P m\<close> by (simp add: good_map_def distinct_update)
qed

lemma fold_update_good:
  "good_map P m \<Longrightarrow> list_all (\<lambda>(k, v). P v) kvs \<Longrightarrow> good_map P (fold (\<lambda>(k, v). AList.update k v) kvs m)"
  by (induction kvs arbitrary: m) (auto intro: update_good)

lemma typed_hash_map: "typed P f \<Longrightarrow> typed (good_map P) (de_hash_map f)"
proof (rule typedI)
  fix j m assume P: "typed P f" and m: "de_hash_map f j = Some m"
  then obtain kvs vs where vs: "those (map (f \<circ> snd) kvs) = Some vs"
      "m = fold (\<lambda>(k, v). AList.update k v) (zip (map fst kvs) vs) []"
    by (auto simp: de_hash_map_def split: json.splits)
  have "those (map f (map snd kvs)) = Some vs" using vs(1) by (simp add: comp_def)
  then have "list_all P vs" using P by (rule those_Some_all)
  then have "list_all (\<lambda>(k, v). P v) (zip (map fst kvs) vs)"
    by (auto simp: list_all_iff dest: set_zip_rightD)
  then show "good_map P m" unfolding vs(2) by (intro fold_update_good) (simp add: good_map_def)
qed

lemma typed_nullish: "typed P f \<Longrightarrow> P d \<Longrightarrow> typed P (de_nullish f d)"
  by (auto simp: typed_def de_nullish_def)

lemma typed_option: "typed P f \<Longrightarrow> typed (good_option P) (de_option f)"
  by (auto simp: typed_def de_option_def good_option_def split: if_splits)

lemma typed_option_value: "typed (\<lambda>v. v \<noteq> Some JNull) (de_option Some)"
  by (auto simp: typed_def de_option_def split: if_splits)

text \<open>The argument of a generic structure that only occurs inside an \<^verbatim>\<open>Option\<close> is never read from null.\<close>

definition typed_nn :: "('a \<Rightarrow> bool) \<Rightarrow> (json \<Rightarrow> 'a option) \<Rightarrow> bool" where
  "typed_nn P f \<longleftrightarrow> (\<forall>j x. j \<noteq> JNull \<longrightarrow> f j = Some x \<longrightarrow> P x)"

lemma typed_nn: "typed P f \<Longrightarrow> typed_nn P f"
  by (simp add: typed_nn_def typed_def)

lemma typed_nn_value: "typed_nn (\<lambda>v. v \<noteq> JNull) Some"
  by (simp add: typed_nn_def)

lemma typed_text: "typed P f \<Longrightarrow> typed P (text_of_json E f)"
  by (auto simp: typed_def text_of_json_def bind_eq_Some_conv)

lemma typed_newtype:
  assumes "\<And>k f. (k, f) \<in> set vs \<Longrightarrow> typed P f"
  shows "typed P (de_newtype vs)"
proof (rule typedI)
  fix j x assume "de_newtype vs j = Some x"
  then obtain k v f where "map_of vs k = Some f" and f: "f v = Some x"
    by (auto simp: de_newtype_def bind_eq_Some_conv split: json.splits list.splits)
  then have "typed P f" by (intro assms) (rule map_of_SomeD)
  then show "P x" using f by (rule typedD)
qed

lemma typed_tagged:
  assumes "\<And>k f. (k, f) \<in> set vs \<Longrightarrow> typed P f"
  shows "typed P (de_tagged tag vs)"
proof (rule typedI)
  fix j x assume "de_tagged tag vs j = Some x"
  then obtain k v f where "map_of vs k = Some f" and f: "f v = Some x"
    by (auto simp: de_tagged_def bind_eq_Some_conv split: json.splits list.splits)
  then have "typed P f" by (intro assms) (rule map_of_SomeD)
  then show "P x" using f by (rule typedD)
qed

lemma typed_untagged: "(\<And>f. f \<in> set fs \<Longrightarrow> typed P f) \<Longrightarrow> typed P (de_untagged fs)"
proof (rule typedI)
  fix j x assume "\<And>f. f \<in> set fs \<Longrightarrow> typed P f" and "de_untagged fs j = Some x"
  then show "P x" by (induction fs) (auto split: option.splits dest: typedD)
qed

text \<open>The fields of a structure that another one flattens.\<close>

definition typed_fields :: "('a \<Rightarrow> bool) \<Rightarrow> ((string \<times> json) list \<Rightarrow> 'a option) \<Rightarrow> bool" where
  "typed_fields P f \<longleftrightarrow> (\<forall>kvs x. f kvs = Some x \<longrightarrow> P x)"

lemma typed_fieldsD: "typed_fields P f \<Longrightarrow> f kvs = Some x \<Longrightarrow> P x"
  by (simp add: typed_fields_def)

text \<open>Fields.\<close>

lemma typed_nn_optional: "typed_nn P f \<Longrightarrow> de_optional f ns kvs = Some x \<Longrightarrow> good_option P x"
  by (auto simp: de_optional_def typed_nn_def good_option_def split: list.splits if_splits)

lemma typed_required: "typed P f \<Longrightarrow> de_required f ns kvs = Some x \<Longrightarrow> P x"
  by (auto simp: de_required_def typed_def split: list.splits)

lemma typed_default: "typed P f \<Longrightarrow> P d \<Longrightarrow> de_default f d ns kvs = Some x \<Longrightarrow> P x"
  by (auto simp: de_default_def typed_def split: list.splits)

lemma typed_optional: "typed P f \<Longrightarrow> de_optional f ns kvs = Some x \<Longrightarrow> good_option P x"
  by (auto simp: de_optional_def typed_def good_option_def split: list.splits if_splits)

lemma typed_optional_value: "de_optional Some ns kvs = Some x \<Longrightarrow> x \<noteq> Some JNull"
  by (auto simp: de_optional_def split: list.splits if_splits)

lemma good_nil [simp]: "good_map P []" "good_option P None" "list_all P []"
  by (simp_all add: good_map_def good_option_def)

lemma good_zero [simp]: "good_i64 0" "good_i32 0" "good_nat b 0" "good_i8 0"
  by (simp_all add: good_i64_def good_i32_def good_nat_def good_i8_def)

subsection \<open>What is well formed is read back\<close>

named_theorems read_back \<open>deserialisers applied to what their serialisers write\<close>

lemma not_null [simp]:
  "json_of_list g xs \<noteq> JNull" "json_of_map g m \<noteq> JNull" "json_of_time E t \<noteq> JNull" "json_of_base64 E s \<noteq> JNull"
  "json_of_nat n \<noteq> JNull" "json_of_text E h y \<noteq> JNull"
  by (simp_all add: json_of_list_def json_of_map_def json_of_time_def json_of_base64_def json_of_nat_def json_of_text_def)

lemma read_i64 [read_back]: "good_i64 i \<Longrightarrow> de_i64 (JInt i) = Some i"
  by (simp add: good_i64_def de_i64_def)

lemma read_i32 [read_back]: "good_i32 i \<Longrightarrow> de_i32 (JInt i) = Some i"
  by (simp add: good_i32_def de_i32_def)

lemma read_i8 [read_back]: "good_i8 i \<Longrightarrow> de_i8 (JInt i) = Some i"
  by (simp add: good_i8_def de_i8_def)

lemma read_nat [read_back]: "good_nat b n \<Longrightarrow> de_unsigned b (json_of_nat n) = Some n"
  by (simp add: good_nat_def json_of_nat_def)

lemma read_f64 [read_back]: "f64_finite x \<Longrightarrow> de_f64 (json_of_f64 x) = Some x"
  by simp

lemma read_time [read_back]: "event_crates E \<Longrightarrow> time_of_json E (json_of_time E t) = Some t"
  by (simp add: time_of_json_def json_of_time_def de_time_def event_crates.time_inverse)

lemma read_base64 [read_back]: "event_crates E \<Longrightarrow> base64_of_json E (json_of_base64 E s) = Some s"
  by (simp add: base64_of_json_def json_of_base64_def event_crates.base64_inverse)

lemma read_list [read_back]:
  "list_all P xs \<Longrightarrow> (\<And>x. P x \<Longrightarrow> f (g x) = Some x) \<Longrightarrow> de_list f (json_of_list g xs) = Some xs"
  unfolding json_of_list_def by (rule de_list_inverse) (simp add: list_all_iff)

lemma read_plain_list [read_back]: "(\<And>x. f (g x) = Some x) \<Longrightarrow> de_list f (json_of_list g xs) = Some xs"
  using read_list [where P = "\<lambda>_. True" and f = f and g = g and xs = xs] by (simp add: list_all_iff)

lemma fold_update_distinct:
  "distinct (map fst (xs @ ys)) \<Longrightarrow> fold (\<lambda>(k, v). AList.update k v) ys xs = xs @ ys"
proof (induction ys arbitrary: xs)
  case (Cons y ys)
  have "AList.update (fst y) (snd y) zs = zs @ [y]" if "fst y \<notin> fst ` set zs" for zs :: "('a \<times> 'b) list"
    using that by (induction zs) auto
  then have "AList.update (fst y) (snd y) xs = xs @ [y]" using Cons.prems by auto
  then show ?case using Cons.IH [of "xs @ [y]"] Cons.prems by (cases y) simp
qed simp

lemma read_map [read_back]:
  assumes "good_map P m" and "\<And>x. P x \<Longrightarrow> f (g x) = Some x"
  shows "de_hash_map f (json_of_map g m) = Some m"
proof -
  have "those (map (f \<circ> snd) (map (\<lambda>(k, v). (k, g v)) m)) = Some (map snd m)"
    using assms by (induction m) (auto simp: good_map_def)
  moreover have "map fst (map (\<lambda>(k, v). (k, g v)) m) = map fst m" by (induction m) auto
  ultimately have "de_hash_map f (json_of_map g m) = Some (fold (\<lambda>(k, v). AList.update k v) (zip (map fst m) (map snd m)) [])"
    unfolding de_hash_map_def json_of_map_def json.simps by (simp only: option.map)
  then show ?thesis
    using assms(1) fold_update_distinct [of "[]" m] by (simp add: zip_map_fst_snd good_map_def)
qed

lemma read_plain_map [read_back]:
  "good_map (\<lambda>_. True) m \<Longrightarrow> (\<And>x. f (g x) = Some x) \<Longrightarrow> de_hash_map f (json_of_map g m) = Some m"
  by (rule read_map)

lemma read_nullish [read_back]: "j \<noteq> JNull \<Longrightarrow> de_nullish f d j = f j"
  by (simp add: de_nullish_def)

lemma read_option [read_back]:
  "good_option P v \<Longrightarrow> (\<And>x. P x \<Longrightarrow> g x \<noteq> JNull \<and> f (g x) = Some x) \<Longrightarrow> de_option f (json_of_option g v) = Some v"
  by (cases v) (auto simp: de_option_def good_option_def)

lemma read_plain_option [read_back]:
  "(\<And>x. g x \<noteq> JNull \<and> f (g x) = Some x) \<Longrightarrow> de_option f (json_of_option g v) = Some v"
  by (cases v) (auto simp: de_option_def)

lemma read_newtype: "map_of vs k = Some f \<Longrightarrow> de_newtype vs (JObj [(k, v)]) = f v"
  by (simp add: de_newtype_def)

lemma opt_field_keys: "map fst (opt_field k f v) = (case v of None \<Rightarrow> [] | Some x \<Rightarrow> [k])"
  by (cases v) auto

lemma read_tagged:
  assumes "is_object j" and "tag \<notin> set (json_keys j)" and "map_of vs name = Some f"
  shows "de_tagged tag vs (json_of_tagged tag name j) = f j"
proof -
  from assms(1) obtain kvs where j: "j = JObj kvs" by (auto simp: is_object_def split: json.splits)
  then have "tag \<notin> fst ` set kvs" using assms(2) by (simp add: json_keys_def)
  then have "de_values [tag] kvs = []" "filter (\<lambda>(k, v). k \<noteq> tag) kvs = kvs"
    by (auto simp: de_values_def filter_empty_conv filter_id_conv image_iff)
  then show ?thesis using assms(3) by (simp add: j de_tagged_def json_of_tagged_def)
qed

lemma read_default_option [read_back]:
  "de_values ns kvs = (case v of None \<Rightarrow> [] | Some x \<Rightarrow> [g x]) \<Longrightarrow> good_option P v \<Longrightarrow>
     (\<And>x. P x \<Longrightarrow> f (g x) = Some (Some x)) \<Longrightarrow> de_default f None ns kvs = Some v"
  by (cases v) (auto simp: de_default_def good_option_def)

text \<open>Fields: one value of that name was written, or for \<open>skip_serializing_if\<close> at most one.\<close>

lemma read_required [read_back]: "de_values ns kvs = [v] \<Longrightarrow> de_required f ns kvs = f v"
  by (simp add: de_required_def)

lemma read_default [read_back]: "de_values ns kvs = [v] \<Longrightarrow> de_default f d ns kvs = f v"
  by (simp add: de_default_def)

lemma read_optional [read_back]:
  "de_values ns kvs = [json_of_option g v] \<Longrightarrow> good_option P v \<Longrightarrow> (\<And>x. P x \<Longrightarrow> g x \<noteq> JNull \<and> f (g x) = Some x) \<Longrightarrow>
     de_optional f ns kvs = Some v"
  by (cases v) (auto simp: de_optional_def good_option_def)

lemma read_skipped [read_back]:
  "de_values ns kvs = (case v of None \<Rightarrow> [] | Some x \<Rightarrow> [g x]) \<Longrightarrow> good_option P v \<Longrightarrow>
     (\<And>x. P x \<Longrightarrow> g x \<noteq> JNull \<and> f (g x) = Some x) \<Longrightarrow> de_optional f ns kvs = Some v"
  by (cases v) (auto simp: de_optional_def good_option_def)

lemma read_plain_optional [read_back]:
  "de_values ns kvs = [json_of_option g v] \<Longrightarrow> (\<And>x. g x \<noteq> JNull \<and> f (g x) = Some x) \<Longrightarrow> de_optional f ns kvs = Some v"
  by (cases v) (auto simp: de_optional_def)

lemma read_plain_skipped [read_back]:
  "de_values ns kvs = (case v of None \<Rightarrow> [] | Some x \<Rightarrow> [g x]) \<Longrightarrow> (\<And>x. g x \<noteq> JNull \<and> f (g x) = Some x) \<Longrightarrow>
     de_optional f ns kvs = Some v"
  by (cases v) (auto simp: de_optional_def)

lemma read_optional_value [read_back]:
  "de_values ns kvs = [json_of_option (\<lambda>v. v) v] \<Longrightarrow> v \<noteq> Some JNull \<Longrightarrow> de_optional Some ns kvs = Some v"
  by (cases v) (auto simp: de_optional_def)

lemma read_opt_string [read_back]: "de_values [n] kvs = [json_of_option JStr v] \<Longrightarrow> de_opt_string n kvs = Some v"
  unfolding de_opt_string_def by (cases v) (auto simp: de_optional_def)

lemma read_object [read_back]: "de_fields n names (JObj kvs) = Some kvs" "de_object (JObj kvs) = Some kvs"
  by (simp_all add: de_fields_def de_object_def)

subsection \<open>Reading what was written\<close>

text \<open>
  What the fixture tests of \<^verbatim>\<open>lambda-events\<close> check on one example each: a value that was
  read is well formed, and is read again from what it is written to.
\<close>

definition reparses :: "('a \<Rightarrow> bool) \<Rightarrow> (json \<Rightarrow> 'a option) \<Rightarrow> ('a \<Rightarrow> json) \<Rightarrow> bool" where
  "reparses P f g \<longleftrightarrow> (\<forall>j x. f j = Some x \<longrightarrow> P x \<and> f (g x) = Some x)"

lemma reparsesI: "typed P f \<Longrightarrow> (\<And>x. P x \<Longrightarrow> f (g x) = Some x) \<Longrightarrow> reparses P f g"
  by (simp add: reparses_def typed_def)

lemma reparsesD: "reparses P f g \<Longrightarrow> f j = Some x \<Longrightarrow> f (g x) = Some x"
  by (simp add: reparses_def)

text \<open>An environment that satisfies the laws: instants are their texts, and base64 is a marked text.\<close>

definition ref_event_env :: "string event_env" where
  "ref_event_env =
     \<lparr>ev_time = \<lparr>dt_show = (\<lambda>t. t), dt_parse = Some\<rparr>, ev_epoch = ''1970-01-01T00:00:00Z'',
      ev_encode = (\<lambda>s. s @ ''==''), ev_decode = (\<lambda>s. Some (take (length s - 2) s)),
      ev_print = (\<lambda>j. case j of JStr s \<Rightarrow> s | _ \<Rightarrow> []), ev_parse = (\<lambda>s. Some (JStr s))\<rparr>"

interpretation ref_events: event_crates ref_event_env
  by unfold_locales (simp_all add: ref_event_env_def)

end
