(* ===== verification/MessagingEvents.thy ===== *)
theory MessagingEvents
  imports EventSerde
begin

text \<open>
  The messages of SQS and SNS (\<^verbatim>\<open>lambda-events/src/event/sqs\<close>, \<^verbatim>\<open>sns\<close>).
\<close>

subsection \<open>\<^verbatim>\<open>sqs\<close>\<close>

record sqs_message_attribute =
  sma_string_value :: "string option"
  sma_binary_value :: "string option"
  sma_string_list_values :: "string list"
  sma_binary_list_values :: "string list"
  sma_data_type :: "string option"

definition sqs_message_attribute_json :: "'t event_env \<Rightarrow> sqs_message_attribute \<Rightarrow> json" where
  "sqs_message_attribute_json E x = JObj
     ([(''stringValue'', json_of_option JStr (sma_string_value x)),
      (''binaryValue'', json_of_option (json_of_base64 E) (sma_binary_value x)),
      (''stringListValues'', json_of_list JStr (sma_string_list_values x)),
      (''binaryListValues'', json_of_list (json_of_base64 E) (sma_binary_list_values x)),
      (''dataType'', json_of_option JStr (sma_data_type x))])"

definition sqs_message_attribute_of_json :: "'t event_env \<Rightarrow> json \<Rightarrow> sqs_message_attribute option" where
  "sqs_message_attribute_of_json E j = do {
     kvs \<leftarrow> de_fields 2
       [''stringValue'', ''binaryValue'', ''stringListValues'', ''binaryListValues'', ''dataType''] j;
     x_string_value \<leftarrow> de_opt_string ''stringValue'' kvs;
     x_binary_value \<leftarrow> de_optional (base64_of_json E) [''binaryValue''] kvs;
     x_string_list_values \<leftarrow> de_default (de_list de_string) [] [''stringListValues''] kvs;
     x_binary_list_values \<leftarrow> de_default (de_list (base64_of_json E)) [] [''binaryListValues''] kvs;
     x_data_type \<leftarrow> de_opt_string ''dataType'' kvs;
     Some \<lparr>sma_string_value = x_string_value, sma_binary_value = x_binary_value,
       sma_string_list_values = x_string_list_values,
       sma_binary_list_values = x_binary_list_values, sma_data_type = x_data_type\<rparr> }"

lemma sqs_message_attribute_not_null [simp]: "sqs_message_attribute_json E x \<noteq> JNull"
  by (simp add: sqs_message_attribute_json_def)

lemma sqs_message_attribute_read [read_back]: "event_crates E \<Longrightarrow>sqs_message_attribute_of_json E (sqs_message_attribute_json E x) = Some x"
  by (cases x) (simp add: sqs_message_attribute_of_json_def sqs_message_attribute_json_def read_back)

record 'p sqs_api_message_obj =
  samo_message_id :: "string option"
  samo_receipt_handle :: "string option"
  samo_body :: 'p
  samo_md5_of_body :: "string option"
  samo_md5_of_message_attributes :: "string option"
  samo_attributes :: "(string \<times> string) list"
  samo_message_attributes :: "(string \<times> sqs_message_attribute) list"

definition sqs_api_message_obj_json :: "'t event_env \<Rightarrow> ('p \<Rightarrow> json) \<Rightarrow> 'p sqs_api_message_obj \<Rightarrow> json" where
  "sqs_api_message_obj_json E gp x = JObj
     ([(''MessageId'', json_of_option JStr (samo_message_id x)),
      (''ReceiptHandle'', json_of_option JStr (samo_receipt_handle x)),
      (''Body'', json_of_text E gp (samo_body x)),
      (''Md5OfBody'', json_of_option JStr (samo_md5_of_body x)),
      (''Md5OfMessageAttributes'', json_of_option JStr (samo_md5_of_message_attributes x)),
      (''Attributes'', json_of_map JStr (samo_attributes x)),
      (''MessageAttributes'', json_of_map (sqs_message_attribute_json E) (samo_message_attributes x))])"

definition sqs_api_message_obj_of_json :: "'t event_env \<Rightarrow> (json \<Rightarrow> 'p option) \<Rightarrow> json \<Rightarrow> 'p sqs_api_message_obj option" where
  "sqs_api_message_obj_of_json E fp j = do {
     kvs \<leftarrow> de_fields 3
       [''MessageId'', ''ReceiptHandle'', ''Body'', ''Md5OfBody'', ''Md5OfMessageAttributes'',
        ''Attributes'', ''MessageAttributes''] j;
     x_message_id \<leftarrow> de_opt_string ''MessageId'' kvs;
     x_receipt_handle \<leftarrow> de_opt_string ''ReceiptHandle'' kvs;
     x_body \<leftarrow> de_required (text_of_json E fp) [''Body''] kvs;
     x_md5_of_body \<leftarrow> de_opt_string ''Md5OfBody'' kvs;
     x_md5_of_message_attributes \<leftarrow> de_opt_string ''Md5OfMessageAttributes'' kvs;
     x_attributes \<leftarrow> de_default (de_nullish (de_hash_map de_string) []) [] [''Attributes''] kvs;
     x_message_attributes \<leftarrow> de_default (de_nullish (de_hash_map (sqs_message_attribute_of_json E)) []) [] [''MessageAttributes''] kvs;
     Some \<lparr>samo_message_id = x_message_id, samo_receipt_handle = x_receipt_handle,
       samo_body = x_body, samo_md5_of_body = x_md5_of_body,
       samo_md5_of_message_attributes = x_md5_of_message_attributes,
       samo_attributes = x_attributes, samo_message_attributes = x_message_attributes\<rparr> }"

definition sqs_api_message_obj_good :: "('p \<Rightarrow> bool) \<Rightarrow> 'p sqs_api_message_obj \<Rightarrow> bool" where
  "sqs_api_message_obj_good Pp x \<longleftrightarrow>
     Pp (samo_body x) \<and>
     good_map (\<lambda>_. True) (samo_attributes x) \<and>
     good_map (\<lambda>_. True) (samo_message_attributes x)"

lemma sqs_api_message_obj_not_null [simp]: "sqs_api_message_obj_json E gp x \<noteq> JNull"
  by (simp add: sqs_api_message_obj_json_def)

lemma sqs_api_message_obj_read [read_back]: "sqs_api_message_obj_good Pp x \<Longrightarrow> event_crates E \<Longrightarrow> (\<And>x. Pp x \<Longrightarrow> text_of_json E fp (json_of_text E gp x) = Some x) \<Longrightarrow>sqs_api_message_obj_of_json E fp (sqs_api_message_obj_json E gp x) = Some x"
  by (cases x) (clarsimp simp: sqs_api_message_obj_of_json_def sqs_api_message_obj_json_def sqs_api_message_obj_good_def read_back)

lemma sqs_api_message_obj_typed:
  assumes typed_p: "typed Pp fp" shows "typed (sqs_api_message_obj_good Pp) (sqs_api_message_obj_of_json E fp)"
  unfolding typed_def sqs_api_message_obj_of_json_def sqs_api_message_obj_good_def
  by (auto simp: bind_eq_Some_conv dest!: typed_required [OF typed_text [OF typed_p]]
      typed_default [OF typed_nullish [OF typed_hash_map [OF typed_True [of "de_string"]] good_nil(1)] good_nil(1)]
      typed_default [OF typed_nullish [OF typed_hash_map [OF typed_True [of "sqs_message_attribute_of_json E"]] good_nil(1)] good_nil(1)])

record sqs_api_message =
  sam_message_id :: "string option"
  sam_receipt_handle :: "string option"
  sam_body :: "string option"
  sam_md5_of_body :: "string option"
  sam_md5_of_message_attributes :: "string option"
  sam_attributes :: "(string \<times> string) list"
  sam_message_attributes :: "(string \<times> sqs_message_attribute) list"

definition sqs_api_message_json :: "'t event_env \<Rightarrow> sqs_api_message \<Rightarrow> json" where
  "sqs_api_message_json E x = JObj
     ([(''MessageId'', json_of_option JStr (sam_message_id x)),
      (''ReceiptHandle'', json_of_option JStr (sam_receipt_handle x)),
      (''Body'', json_of_option JStr (sam_body x)),
      (''Md5OfBody'', json_of_option JStr (sam_md5_of_body x)),
      (''Md5OfMessageAttributes'', json_of_option JStr (sam_md5_of_message_attributes x)),
      (''Attributes'', json_of_map JStr (sam_attributes x)),
      (''MessageAttributes'', json_of_map (sqs_message_attribute_json E) (sam_message_attributes x))])"

definition sqs_api_message_of_json :: "'t event_env \<Rightarrow> json \<Rightarrow> sqs_api_message option" where
  "sqs_api_message_of_json E j = do {
     kvs \<leftarrow> de_fields 0
       [''MessageId'', ''ReceiptHandle'', ''Body'', ''Md5OfBody'', ''Md5OfMessageAttributes'',
        ''Attributes'', ''MessageAttributes''] j;
     x_message_id \<leftarrow> de_opt_string ''MessageId'' kvs;
     x_receipt_handle \<leftarrow> de_opt_string ''ReceiptHandle'' kvs;
     x_body \<leftarrow> de_opt_string ''Body'' kvs;
     x_md5_of_body \<leftarrow> de_opt_string ''Md5OfBody'' kvs;
     x_md5_of_message_attributes \<leftarrow> de_opt_string ''Md5OfMessageAttributes'' kvs;
     x_attributes \<leftarrow> de_default (de_nullish (de_hash_map de_string) []) [] [''Attributes''] kvs;
     x_message_attributes \<leftarrow> de_default (de_nullish (de_hash_map (sqs_message_attribute_of_json E)) []) [] [''MessageAttributes''] kvs;
     Some \<lparr>sam_message_id = x_message_id, sam_receipt_handle = x_receipt_handle, sam_body = x_body,
       sam_md5_of_body = x_md5_of_body,
       sam_md5_of_message_attributes = x_md5_of_message_attributes,
       sam_attributes = x_attributes, sam_message_attributes = x_message_attributes\<rparr> }"

definition sqs_api_message_good :: "sqs_api_message \<Rightarrow> bool" where
  "sqs_api_message_good x \<longleftrightarrow>
     good_map (\<lambda>_. True) (sam_attributes x) \<and>
     good_map (\<lambda>_. True) (sam_message_attributes x)"

lemma sqs_api_message_not_null [simp]: "sqs_api_message_json E x \<noteq> JNull"
  by (simp add: sqs_api_message_json_def)

lemma sqs_api_message_read [read_back]: "sqs_api_message_good x \<Longrightarrow> event_crates E \<Longrightarrow>sqs_api_message_of_json E (sqs_api_message_json E x) = Some x"
  by (cases x) (clarsimp simp: sqs_api_message_of_json_def sqs_api_message_json_def sqs_api_message_good_def read_back)

lemma sqs_api_message_typed: "typed sqs_api_message_good (sqs_api_message_of_json E)"
  unfolding typed_def sqs_api_message_of_json_def sqs_api_message_good_def
  by (auto simp: bind_eq_Some_conv dest!: typed_default [OF typed_nullish [OF typed_hash_map [OF typed_True [of "de_string"]] good_nil(1)] good_nil(1)]
      typed_default [OF typed_nullish [OF typed_hash_map [OF typed_True [of "sqs_message_attribute_of_json E"]] good_nil(1)] good_nil(1)])

record sqs_message =
  sm_message_id :: "string option"
  sm_receipt_handle :: "string option"
  sm_body :: "string option"
  sm_md5_of_body :: "string option"
  sm_md5_of_message_attributes :: "string option"
  sm_attributes :: "(string \<times> string) list"
  sm_message_attributes :: "(string \<times> sqs_message_attribute) list"
  sm_event_source_arn :: "string option"
  sm_event_source :: "string option"
  sm_aws_region :: "string option"

definition sqs_message_json :: "'t event_env \<Rightarrow> sqs_message \<Rightarrow> json" where
  "sqs_message_json E x = JObj
     ([(''messageId'', json_of_option JStr (sm_message_id x)),
      (''receiptHandle'', json_of_option JStr (sm_receipt_handle x)),
      (''body'', json_of_option JStr (sm_body x)),
      (''md5OfBody'', json_of_option JStr (sm_md5_of_body x)),
      (''md5OfMessageAttributes'', json_of_option JStr (sm_md5_of_message_attributes x)),
      (''attributes'', json_of_map JStr (sm_attributes x)),
      (''messageAttributes'', json_of_map (sqs_message_attribute_json E) (sm_message_attributes x)),
      (''eventSourceARN'', json_of_option JStr (sm_event_source_arn x)),
      (''eventSource'', json_of_option JStr (sm_event_source x)),
      (''awsRegion'', json_of_option JStr (sm_aws_region x))])"

definition sqs_message_of_json :: "'t event_env \<Rightarrow> json \<Rightarrow> sqs_message option" where
  "sqs_message_of_json E j = do {
     kvs \<leftarrow> de_fields 0
       [''messageId'', ''receiptHandle'', ''body'', ''md5OfBody'', ''md5OfMessageAttributes'',
        ''attributes'', ''messageAttributes'', ''eventSourceARN'', ''eventSource'', ''awsRegion''] j;
     x_message_id \<leftarrow> de_opt_string ''messageId'' kvs;
     x_receipt_handle \<leftarrow> de_opt_string ''receiptHandle'' kvs;
     x_body \<leftarrow> de_opt_string ''body'' kvs;
     x_md5_of_body \<leftarrow> de_opt_string ''md5OfBody'' kvs;
     x_md5_of_message_attributes \<leftarrow> de_opt_string ''md5OfMessageAttributes'' kvs;
     x_attributes \<leftarrow> de_default (de_nullish (de_hash_map de_string) []) [] [''attributes''] kvs;
     x_message_attributes \<leftarrow> de_default (de_nullish (de_hash_map (sqs_message_attribute_of_json E)) []) [] [''messageAttributes''] kvs;
     x_event_source_arn \<leftarrow> de_opt_string ''eventSourceARN'' kvs;
     x_event_source \<leftarrow> de_opt_string ''eventSource'' kvs;
     x_aws_region \<leftarrow> de_opt_string ''awsRegion'' kvs;
     Some \<lparr>sm_message_id = x_message_id, sm_receipt_handle = x_receipt_handle, sm_body = x_body,
       sm_md5_of_body = x_md5_of_body,
       sm_md5_of_message_attributes = x_md5_of_message_attributes, sm_attributes = x_attributes,
       sm_message_attributes = x_message_attributes, sm_event_source_arn = x_event_source_arn,
       sm_event_source = x_event_source, sm_aws_region = x_aws_region\<rparr> }"

definition sqs_message_good :: "sqs_message \<Rightarrow> bool" where
  "sqs_message_good x \<longleftrightarrow>
     good_map (\<lambda>_. True) (sm_attributes x) \<and>
     good_map (\<lambda>_. True) (sm_message_attributes x)"

lemma sqs_message_not_null [simp]: "sqs_message_json E x \<noteq> JNull"
  by (simp add: sqs_message_json_def)

lemma sqs_message_read [read_back]: "sqs_message_good x \<Longrightarrow> event_crates E \<Longrightarrow>sqs_message_of_json E (sqs_message_json E x) = Some x"
  by (cases x) (clarsimp simp: sqs_message_of_json_def sqs_message_json_def sqs_message_good_def read_back)

lemma sqs_message_typed: "typed sqs_message_good (sqs_message_of_json E)"
  unfolding typed_def sqs_message_of_json_def sqs_message_good_def
  by (auto simp: bind_eq_Some_conv dest!: typed_default [OF typed_nullish [OF typed_hash_map [OF typed_True [of "de_string"]] good_nil(1)] good_nil(1)]
      typed_default [OF typed_nullish [OF typed_hash_map [OF typed_True [of "sqs_message_attribute_of_json E"]] good_nil(1)] good_nil(1)])

record 'p sqs_message_obj =
  smo_message_id :: "string option"
  smo_receipt_handle :: "string option"
  smo_body :: 'p
  smo_md5_of_body :: "string option"
  smo_md5_of_message_attributes :: "string option"
  smo_attributes :: "(string \<times> string) list"
  smo_message_attributes :: "(string \<times> sqs_message_attribute) list"
  smo_event_source_arn :: "string option"
  smo_event_source :: "string option"
  smo_aws_region :: "string option"

definition sqs_message_obj_json :: "'t event_env \<Rightarrow> ('p \<Rightarrow> json) \<Rightarrow> 'p sqs_message_obj \<Rightarrow> json" where
  "sqs_message_obj_json E gp x = JObj
     ([(''messageId'', json_of_option JStr (smo_message_id x)),
      (''receiptHandle'', json_of_option JStr (smo_receipt_handle x)),
      (''body'', json_of_text E gp (smo_body x)),
      (''md5OfBody'', json_of_option JStr (smo_md5_of_body x)),
      (''md5OfMessageAttributes'', json_of_option JStr (smo_md5_of_message_attributes x)),
      (''attributes'', json_of_map JStr (smo_attributes x)),
      (''messageAttributes'', json_of_map (sqs_message_attribute_json E) (smo_message_attributes x)),
      (''eventSourceARN'', json_of_option JStr (smo_event_source_arn x)),
      (''eventSource'', json_of_option JStr (smo_event_source x)),
      (''awsRegion'', json_of_option JStr (smo_aws_region x))])"

definition sqs_message_obj_of_json :: "'t event_env \<Rightarrow> (json \<Rightarrow> 'p option) \<Rightarrow> json \<Rightarrow> 'p sqs_message_obj option" where
  "sqs_message_obj_of_json E fp j = do {
     kvs \<leftarrow> de_fields 3
       [''messageId'', ''receiptHandle'', ''body'', ''md5OfBody'', ''md5OfMessageAttributes'',
        ''attributes'', ''messageAttributes'', ''eventSourceARN'', ''eventSource'', ''awsRegion''] j;
     x_message_id \<leftarrow> de_opt_string ''messageId'' kvs;
     x_receipt_handle \<leftarrow> de_opt_string ''receiptHandle'' kvs;
     x_body \<leftarrow> de_required (text_of_json E fp) [''body''] kvs;
     x_md5_of_body \<leftarrow> de_opt_string ''md5OfBody'' kvs;
     x_md5_of_message_attributes \<leftarrow> de_opt_string ''md5OfMessageAttributes'' kvs;
     x_attributes \<leftarrow> de_default (de_nullish (de_hash_map de_string) []) [] [''attributes''] kvs;
     x_message_attributes \<leftarrow> de_default (de_nullish (de_hash_map (sqs_message_attribute_of_json E)) []) [] [''messageAttributes''] kvs;
     x_event_source_arn \<leftarrow> de_opt_string ''eventSourceARN'' kvs;
     x_event_source \<leftarrow> de_opt_string ''eventSource'' kvs;
     x_aws_region \<leftarrow> de_opt_string ''awsRegion'' kvs;
     Some \<lparr>smo_message_id = x_message_id, smo_receipt_handle = x_receipt_handle, smo_body = x_body,
       smo_md5_of_body = x_md5_of_body,
       smo_md5_of_message_attributes = x_md5_of_message_attributes,
       smo_attributes = x_attributes, smo_message_attributes = x_message_attributes,
       smo_event_source_arn = x_event_source_arn, smo_event_source = x_event_source,
       smo_aws_region = x_aws_region\<rparr> }"

definition sqs_message_obj_good :: "('p \<Rightarrow> bool) \<Rightarrow> 'p sqs_message_obj \<Rightarrow> bool" where
  "sqs_message_obj_good Pp x \<longleftrightarrow>
     Pp (smo_body x) \<and>
     good_map (\<lambda>_. True) (smo_attributes x) \<and>
     good_map (\<lambda>_. True) (smo_message_attributes x)"

lemma sqs_message_obj_not_null [simp]: "sqs_message_obj_json E gp x \<noteq> JNull"
  by (simp add: sqs_message_obj_json_def)

lemma sqs_message_obj_read [read_back]: "sqs_message_obj_good Pp x \<Longrightarrow> event_crates E \<Longrightarrow> (\<And>x. Pp x \<Longrightarrow> text_of_json E fp (json_of_text E gp x) = Some x) \<Longrightarrow>sqs_message_obj_of_json E fp (sqs_message_obj_json E gp x) = Some x"
  by (cases x) (clarsimp simp: sqs_message_obj_of_json_def sqs_message_obj_json_def sqs_message_obj_good_def read_back)

lemma sqs_message_obj_typed:
  assumes typed_p: "typed Pp fp" shows "typed (sqs_message_obj_good Pp) (sqs_message_obj_of_json E fp)"
  unfolding typed_def sqs_message_obj_of_json_def sqs_message_obj_good_def
  by (auto simp: bind_eq_Some_conv dest!: typed_required [OF typed_text [OF typed_p]]
      typed_default [OF typed_nullish [OF typed_hash_map [OF typed_True [of "de_string"]] good_nil(1)] good_nil(1)]
      typed_default [OF typed_nullish [OF typed_hash_map [OF typed_True [of "sqs_message_attribute_of_json E"]] good_nil(1)] good_nil(1)])

record 'p sqs_api_event_obj =
  saeo_messages :: "('p sqs_api_message_obj) list"

definition sqs_api_event_obj_json :: "'t event_env \<Rightarrow> ('p \<Rightarrow> json) \<Rightarrow> 'p sqs_api_event_obj \<Rightarrow> json" where
  "sqs_api_event_obj_json E gp x = JObj
     ([(''Messages'', json_of_list (sqs_api_message_obj_json E gp) (saeo_messages x))])"

definition sqs_api_event_obj_of_json :: "'t event_env \<Rightarrow> (json \<Rightarrow> 'p option) \<Rightarrow> json \<Rightarrow> 'p sqs_api_event_obj option" where
  "sqs_api_event_obj_of_json E fp j = do {
     kvs \<leftarrow> de_fields 1
       [''Messages''] j;
     x_messages \<leftarrow> de_required (de_list (sqs_api_message_obj_of_json E fp)) [''Messages''] kvs;
     Some \<lparr>saeo_messages = x_messages\<rparr> }"

definition sqs_api_event_obj_good :: "('p \<Rightarrow> bool) \<Rightarrow> 'p sqs_api_event_obj \<Rightarrow> bool" where
  "sqs_api_event_obj_good Pp x \<longleftrightarrow>
     list_all (sqs_api_message_obj_good Pp) (saeo_messages x)"

lemma sqs_api_event_obj_not_null [simp]: "sqs_api_event_obj_json E gp x \<noteq> JNull"
  by (simp add: sqs_api_event_obj_json_def)

lemma sqs_api_event_obj_read [read_back]: "sqs_api_event_obj_good Pp x \<Longrightarrow> event_crates E \<Longrightarrow> (\<And>x. Pp x \<Longrightarrow> text_of_json E fp (json_of_text E gp x) = Some x) \<Longrightarrow>sqs_api_event_obj_of_json E fp (sqs_api_event_obj_json E gp x) = Some x"
  by (cases x) (simp add: sqs_api_event_obj_of_json_def sqs_api_event_obj_json_def sqs_api_event_obj_good_def read_back)

lemma sqs_api_event_obj_typed:
  assumes typed_p: "typed Pp fp" shows "typed (sqs_api_event_obj_good Pp) (sqs_api_event_obj_of_json E fp)"
  unfolding typed_def sqs_api_event_obj_of_json_def sqs_api_event_obj_good_def
  by (auto simp: bind_eq_Some_conv dest!: typed_required [OF typed_list [OF sqs_api_message_obj_typed [OF typed_p]]])

record sqs_api_event =
  sae_messages :: "sqs_api_message list"

definition sqs_api_event_json :: "'t event_env \<Rightarrow> sqs_api_event \<Rightarrow> json" where
  "sqs_api_event_json E x = JObj
     ([(''messages'', json_of_list (sqs_api_message_json E) (sae_messages x))])"

definition sqs_api_event_of_json :: "'t event_env \<Rightarrow> json \<Rightarrow> sqs_api_event option" where
  "sqs_api_event_of_json E j = do {
     kvs \<leftarrow> de_fields 1
       [''messages''] j;
     x_messages \<leftarrow> de_required (de_list (sqs_api_message_of_json E)) [''messages''] kvs;
     Some \<lparr>sae_messages = x_messages\<rparr> }"

definition sqs_api_event_good :: "sqs_api_event \<Rightarrow> bool" where
  "sqs_api_event_good x \<longleftrightarrow>
     list_all sqs_api_message_good (sae_messages x)"

lemma sqs_api_event_not_null [simp]: "sqs_api_event_json E x \<noteq> JNull"
  by (simp add: sqs_api_event_json_def)

lemma sqs_api_event_read [read_back]: "sqs_api_event_good x \<Longrightarrow> event_crates E \<Longrightarrow>sqs_api_event_of_json E (sqs_api_event_json E x) = Some x"
  by (cases x) (simp add: sqs_api_event_of_json_def sqs_api_event_json_def sqs_api_event_good_def read_back)

lemma sqs_api_event_typed: "typed sqs_api_event_good (sqs_api_event_of_json E)"
  unfolding typed_def sqs_api_event_of_json_def sqs_api_event_good_def
  by (auto simp: bind_eq_Some_conv dest!: typed_required [OF typed_list [OF sqs_api_message_typed]])

record sqs_event =
  sev_records :: "sqs_message list"

definition sqs_event_json :: "'t event_env \<Rightarrow> sqs_event \<Rightarrow> json" where
  "sqs_event_json E x = JObj
     ([(''Records'', json_of_list (sqs_message_json E) (sev_records x))])"

definition sqs_event_of_json :: "'t event_env \<Rightarrow> json \<Rightarrow> sqs_event option" where
  "sqs_event_of_json E j = do {
     kvs \<leftarrow> de_fields 1
       [''Records''] j;
     x_records \<leftarrow> de_required (de_list (sqs_message_of_json E)) [''Records''] kvs;
     Some \<lparr>sev_records = x_records\<rparr> }"

definition sqs_event_good :: "sqs_event \<Rightarrow> bool" where
  "sqs_event_good x \<longleftrightarrow>
     list_all sqs_message_good (sev_records x)"

lemma sqs_event_not_null [simp]: "sqs_event_json E x \<noteq> JNull"
  by (simp add: sqs_event_json_def)

lemma sqs_event_read [read_back]: "sqs_event_good x \<Longrightarrow> event_crates E \<Longrightarrow>sqs_event_of_json E (sqs_event_json E x) = Some x"
  by (cases x) (simp add: sqs_event_of_json_def sqs_event_json_def sqs_event_good_def read_back)

lemma sqs_event_typed: "typed sqs_event_good (sqs_event_of_json E)"
  unfolding typed_def sqs_event_of_json_def sqs_event_good_def
  by (auto simp: bind_eq_Some_conv dest!: typed_required [OF typed_list [OF sqs_message_typed]])

record 'p sqs_event_obj =
  seo_records :: "('p sqs_message_obj) list"

definition sqs_event_obj_json :: "'t event_env \<Rightarrow> ('p \<Rightarrow> json) \<Rightarrow> 'p sqs_event_obj \<Rightarrow> json" where
  "sqs_event_obj_json E gp x = JObj
     ([(''Records'', json_of_list (sqs_message_obj_json E gp) (seo_records x))])"

definition sqs_event_obj_of_json :: "'t event_env \<Rightarrow> (json \<Rightarrow> 'p option) \<Rightarrow> json \<Rightarrow> 'p sqs_event_obj option" where
  "sqs_event_obj_of_json E fp j = do {
     kvs \<leftarrow> de_fields 1
       [''Records''] j;
     x_records \<leftarrow> de_required (de_list (sqs_message_obj_of_json E fp)) [''Records''] kvs;
     Some \<lparr>seo_records = x_records\<rparr> }"

definition sqs_event_obj_good :: "('p \<Rightarrow> bool) \<Rightarrow> 'p sqs_event_obj \<Rightarrow> bool" where
  "sqs_event_obj_good Pp x \<longleftrightarrow>
     list_all (sqs_message_obj_good Pp) (seo_records x)"

lemma sqs_event_obj_not_null [simp]: "sqs_event_obj_json E gp x \<noteq> JNull"
  by (simp add: sqs_event_obj_json_def)

lemma sqs_event_obj_read [read_back]: "sqs_event_obj_good Pp x \<Longrightarrow> event_crates E \<Longrightarrow> (\<And>x. Pp x \<Longrightarrow> text_of_json E fp (json_of_text E gp x) = Some x) \<Longrightarrow>sqs_event_obj_of_json E fp (sqs_event_obj_json E gp x) = Some x"
  by (cases x) (simp add: sqs_event_obj_of_json_def sqs_event_obj_json_def sqs_event_obj_good_def read_back)

lemma sqs_event_obj_typed:
  assumes typed_p: "typed Pp fp" shows "typed (sqs_event_obj_good Pp) (sqs_event_obj_of_json E fp)"
  unfolding typed_def sqs_event_obj_of_json_def sqs_event_obj_good_def
  by (auto simp: bind_eq_Some_conv dest!: typed_required [OF typed_list [OF sqs_message_obj_typed [OF typed_p]]])

subsection \<open>\<^verbatim>\<open>sns\<close>\<close>

record message_attribute =
  ma_data_type :: string
  ma_value :: string

definition message_attribute_json :: "message_attribute \<Rightarrow> json" where
  "message_attribute_json x = JObj
     ([(''Type'', JStr (ma_data_type x)),
      (''Value'', JStr (ma_value x))])"

definition message_attribute_of_json :: "json \<Rightarrow> message_attribute option" where
  "message_attribute_of_json j = do {
     kvs \<leftarrow> de_fields 2
       [''Type'', ''Value''] j;
     x_data_type \<leftarrow> de_required de_string [''Type''] kvs;
     x_value \<leftarrow> de_required de_string [''Value''] kvs;
     Some \<lparr>ma_data_type = x_data_type, ma_value = x_value\<rparr> }"

lemma message_attribute_not_null [simp]: "message_attribute_json x \<noteq> JNull"
  by (simp add: message_attribute_json_def)

lemma message_attribute_read [read_back]: "message_attribute_of_json (message_attribute_json x) = Some x"
  by (cases x) (simp add: message_attribute_of_json_def message_attribute_json_def read_back)

record cloud_watch_dimension =
  cwd_name :: string
  cwd_value :: string

definition cloud_watch_dimension_json :: "cloud_watch_dimension \<Rightarrow> json" where
  "cloud_watch_dimension_json x = JObj
     ([(''name'', JStr (cwd_name x)),
      (''value'', JStr (cwd_value x))])"

definition cloud_watch_dimension_of_json :: "json \<Rightarrow> cloud_watch_dimension option" where
  "cloud_watch_dimension_of_json j = do {
     kvs \<leftarrow> de_fields 2
       [''name'', ''value''] j;
     x_name \<leftarrow> de_required de_string [''name''] kvs;
     x_value \<leftarrow> de_required de_string [''value''] kvs;
     Some \<lparr>cwd_name = x_name, cwd_value = x_value\<rparr> }"

lemma cloud_watch_dimension_not_null [simp]: "cloud_watch_dimension_json x \<noteq> JNull"
  by (simp add: cloud_watch_dimension_json_def)

lemma cloud_watch_dimension_read [read_back]: "cloud_watch_dimension_of_json (cloud_watch_dimension_json x) = Some x"
  by (cases x) (simp add: cloud_watch_dimension_of_json_def cloud_watch_dimension_json_def read_back)

record 't sns_message =
  sme_sns_message_type :: string
  sme_message_id :: string
  sme_topic_arn :: string
  sme_subject :: "string option"
  sme_timestamp :: 't
  sme_signature_version :: string
  sme_signature :: string
  sme_signing_cert_url :: string
  sme_unsubscribe_url :: string
  sme_message :: string
  sme_message_attributes :: "(string \<times> message_attribute) list"

definition sns_message_json :: "'t event_env \<Rightarrow> 't sns_message \<Rightarrow> json" where
  "sns_message_json E x = JObj
     ([(''Type'', JStr (sme_sns_message_type x)),
      (''MessageId'', JStr (sme_message_id x)),
      (''TopicArn'', JStr (sme_topic_arn x)),
      (''Subject'', json_of_option JStr (sme_subject x)),
      (''Timestamp'', json_of_time E (sme_timestamp x)),
      (''SignatureVersion'', JStr (sme_signature_version x)),
      (''Signature'', JStr (sme_signature x)),
      (''SigningCertUrl'', JStr (sme_signing_cert_url x)),
      (''UnsubscribeUrl'', JStr (sme_unsubscribe_url x)),
      (''Message'', JStr (sme_message x)),
      (''MessageAttributes'', json_of_map message_attribute_json (sme_message_attributes x))])"

definition sns_message_of_json :: "'t event_env \<Rightarrow> json \<Rightarrow> 't sns_message option" where
  "sns_message_of_json E j = do {
     kvs \<leftarrow> de_fields 10
       [''Type'', ''MessageId'', ''TopicArn'', ''Subject'', ''Timestamp'', ''SignatureVersion'',
        ''Signature'', ''SigningCertUrl'', ''UnsubscribeUrl'', ''Message'', ''MessageAttributes''] j;
     x_sns_message_type \<leftarrow> de_required de_string [''Type''] kvs;
     x_message_id \<leftarrow> de_required de_string [''MessageId''] kvs;
     x_topic_arn \<leftarrow> de_required de_string [''TopicArn''] kvs;
     x_subject \<leftarrow> de_opt_string ''Subject'' kvs;
     x_timestamp \<leftarrow> de_required (time_of_json E) [''Timestamp''] kvs;
     x_signature_version \<leftarrow> de_required de_string [''SignatureVersion''] kvs;
     x_signature \<leftarrow> de_required de_string [''Signature''] kvs;
     x_signing_cert_url \<leftarrow> de_required de_string [''SigningCertUrl'', ''SigningCertURL''] kvs;
     x_unsubscribe_url \<leftarrow> de_required de_string [''UnsubscribeUrl'', ''UnsubscribeURL''] kvs;
     x_message \<leftarrow> de_required de_string [''Message''] kvs;
     x_message_attributes \<leftarrow> de_default (de_nullish (de_hash_map message_attribute_of_json) []) [] [''MessageAttributes''] kvs;
     Some \<lparr>sme_sns_message_type = x_sns_message_type, sme_message_id = x_message_id,
       sme_topic_arn = x_topic_arn, sme_subject = x_subject, sme_timestamp = x_timestamp,
       sme_signature_version = x_signature_version, sme_signature = x_signature,
       sme_signing_cert_url = x_signing_cert_url, sme_unsubscribe_url = x_unsubscribe_url,
       sme_message = x_message, sme_message_attributes = x_message_attributes\<rparr> }"

definition sns_message_good :: "'t sns_message \<Rightarrow> bool" where
  "sns_message_good x \<longleftrightarrow>
     good_map (\<lambda>_. True) (sme_message_attributes x)"

lemma sns_message_not_null [simp]: "sns_message_json E x \<noteq> JNull"
  by (simp add: sns_message_json_def)

lemma sns_message_read [read_back]: "sns_message_good x \<Longrightarrow> event_crates E \<Longrightarrow>sns_message_of_json E (sns_message_json E x) = Some x"
  by (cases x) (simp add: sns_message_of_json_def sns_message_json_def sns_message_good_def read_back)

lemma sns_message_typed: "typed sns_message_good (sns_message_of_json E)"
  unfolding typed_def sns_message_of_json_def sns_message_good_def
  by (auto simp: bind_eq_Some_conv dest!: typed_default [OF typed_nullish [OF typed_hash_map [OF typed_True [of "message_attribute_of_json"]] good_nil(1)] good_nil(1)])

record 't sns_subscription_message =
  ssm_sns_message_type :: string
  ssm_message_id :: string
  ssm_topic_arn :: string
  ssm_subject :: "string option"
  ssm_timestamp :: 't
  ssm_signature_version :: string
  ssm_signature :: string
  ssm_signing_cert_url :: string
  ssm_subscribe_url :: "string option"
  ssm_token :: string
  ssm_message :: string
  ssm_message_attributes :: "(string \<times> message_attribute) list"

definition sns_subscription_message_json :: "'t event_env \<Rightarrow> 't sns_subscription_message \<Rightarrow> json" where
  "sns_subscription_message_json E x = JObj
     ([(''Type'', JStr (ssm_sns_message_type x)),
      (''MessageId'', JStr (ssm_message_id x)),
      (''TopicArn'', JStr (ssm_topic_arn x)),
      (''Subject'', json_of_option JStr (ssm_subject x)),
      (''Timestamp'', json_of_time E (ssm_timestamp x)),
      (''SignatureVersion'', JStr (ssm_signature_version x)),
      (''Signature'', JStr (ssm_signature x)),
      (''SigningCertUrl'', JStr (ssm_signing_cert_url x)),
      (''SubscribeUrl'', json_of_option JStr (ssm_subscribe_url x)),
      (''Token'', JStr (ssm_token x)),
      (''Message'', JStr (ssm_message x)),
      (''MessageAttributes'', json_of_map message_attribute_json (ssm_message_attributes x))])"

definition sns_subscription_message_of_json :: "'t event_env \<Rightarrow> json \<Rightarrow> 't sns_subscription_message option" where
  "sns_subscription_message_of_json E j = do {
     kvs \<leftarrow> de_fields 11
       [''Type'', ''MessageId'', ''TopicArn'', ''Subject'', ''Timestamp'', ''SignatureVersion'',
        ''Signature'', ''SigningCertUrl'', ''SubscribeUrl'', ''Token'', ''Message'',
        ''MessageAttributes''] j;
     x_sns_message_type \<leftarrow> de_required de_string [''Type''] kvs;
     x_message_id \<leftarrow> de_required de_string [''MessageId''] kvs;
     x_topic_arn \<leftarrow> de_required de_string [''TopicArn''] kvs;
     x_subject \<leftarrow> de_opt_string ''Subject'' kvs;
     x_timestamp \<leftarrow> de_required (time_of_json E) [''Timestamp''] kvs;
     x_signature_version \<leftarrow> de_required de_string [''SignatureVersion''] kvs;
     x_signature \<leftarrow> de_required de_string [''Signature''] kvs;
     x_signing_cert_url \<leftarrow> de_required de_string [''SigningCertUrl'', ''SigningCertURL''] kvs;
     x_subscribe_url \<leftarrow> de_optional de_string [''SubscribeUrl'', ''SubscribeURL''] kvs;
     x_token \<leftarrow> de_required de_string [''Token''] kvs;
     x_message \<leftarrow> de_required de_string [''Message''] kvs;
     x_message_attributes \<leftarrow> de_default (de_nullish (de_hash_map message_attribute_of_json) []) [] [''MessageAttributes''] kvs;
     Some \<lparr>ssm_sns_message_type = x_sns_message_type, ssm_message_id = x_message_id,
       ssm_topic_arn = x_topic_arn, ssm_subject = x_subject, ssm_timestamp = x_timestamp,
       ssm_signature_version = x_signature_version, ssm_signature = x_signature,
       ssm_signing_cert_url = x_signing_cert_url, ssm_subscribe_url = x_subscribe_url,
       ssm_token = x_token, ssm_message = x_message,
       ssm_message_attributes = x_message_attributes\<rparr> }"

definition sns_subscription_message_good :: "'t sns_subscription_message \<Rightarrow> bool" where
  "sns_subscription_message_good x \<longleftrightarrow>
     good_map (\<lambda>_. True) (ssm_message_attributes x)"

lemma sns_subscription_message_not_null [simp]: "sns_subscription_message_json E x \<noteq> JNull"
  by (simp add: sns_subscription_message_json_def)

lemma sns_subscription_message_read [read_back]: "sns_subscription_message_good x \<Longrightarrow> event_crates E \<Longrightarrow>sns_subscription_message_of_json E (sns_subscription_message_json E x) = Some x"
  by (cases x) (simp add: sns_subscription_message_of_json_def sns_subscription_message_json_def sns_subscription_message_good_def read_back)

lemma sns_subscription_message_typed: "typed sns_subscription_message_good (sns_subscription_message_of_json E)"
  unfolding typed_def sns_subscription_message_of_json_def sns_subscription_message_good_def
  by (auto simp: bind_eq_Some_conv dest!: typed_default [OF typed_nullish [OF typed_hash_map [OF typed_True [of "message_attribute_of_json"]] good_nil(1)] good_nil(1)])

record ('t, 'p) sns_message_obj =
  smob_sns_message_type :: string
  smob_message_id :: string
  smob_topic_arn :: string
  smob_subject :: "string option"
  smob_timestamp :: 't
  smob_signature_version :: string
  smob_signature :: string
  smob_signing_cert_url :: string
  smob_unsubscribe_url :: string
  smob_message :: 'p
  smob_message_attributes :: "(string \<times> message_attribute) list"

definition sns_message_obj_json :: "'t event_env \<Rightarrow> ('p \<Rightarrow> json) \<Rightarrow> ('t, 'p) sns_message_obj \<Rightarrow> json" where
  "sns_message_obj_json E gp x = JObj
     ([(''Type'', JStr (smob_sns_message_type x)),
      (''MessageId'', JStr (smob_message_id x)),
      (''TopicArn'', JStr (smob_topic_arn x)),
      (''Subject'', json_of_option JStr (smob_subject x)),
      (''Timestamp'', json_of_time E (smob_timestamp x)),
      (''SignatureVersion'', JStr (smob_signature_version x)),
      (''Signature'', JStr (smob_signature x)),
      (''SigningCertUrl'', JStr (smob_signing_cert_url x)),
      (''UnsubscribeUrl'', JStr (smob_unsubscribe_url x)),
      (''Message'', json_of_text E gp (smob_message x)),
      (''MessageAttributes'', json_of_map message_attribute_json (smob_message_attributes x))])"

definition sns_message_obj_of_json :: "'t event_env \<Rightarrow> (json \<Rightarrow> 'p option) \<Rightarrow> json \<Rightarrow> ('t, 'p) sns_message_obj option" where
  "sns_message_obj_of_json E fp j = do {
     kvs \<leftarrow> de_fields 10
       [''Type'', ''MessageId'', ''TopicArn'', ''Subject'', ''Timestamp'', ''SignatureVersion'',
        ''Signature'', ''SigningCertUrl'', ''UnsubscribeUrl'', ''Message'', ''MessageAttributes''] j;
     x_sns_message_type \<leftarrow> de_required de_string [''Type''] kvs;
     x_message_id \<leftarrow> de_required de_string [''MessageId''] kvs;
     x_topic_arn \<leftarrow> de_required de_string [''TopicArn''] kvs;
     x_subject \<leftarrow> de_opt_string ''Subject'' kvs;
     x_timestamp \<leftarrow> de_required (time_of_json E) [''Timestamp''] kvs;
     x_signature_version \<leftarrow> de_required de_string [''SignatureVersion''] kvs;
     x_signature \<leftarrow> de_required de_string [''Signature''] kvs;
     x_signing_cert_url \<leftarrow> de_required de_string [''SigningCertUrl'', ''SigningCertURL''] kvs;
     x_unsubscribe_url \<leftarrow> de_required de_string [''UnsubscribeUrl'', ''UnsubscribeURL''] kvs;
     x_message \<leftarrow> de_required (text_of_json E fp) [''Message''] kvs;
     x_message_attributes \<leftarrow> de_default (de_nullish (de_hash_map message_attribute_of_json) []) [] [''MessageAttributes''] kvs;
     Some \<lparr>smob_sns_message_type = x_sns_message_type, smob_message_id = x_message_id,
       smob_topic_arn = x_topic_arn, smob_subject = x_subject, smob_timestamp = x_timestamp,
       smob_signature_version = x_signature_version, smob_signature = x_signature,
       smob_signing_cert_url = x_signing_cert_url, smob_unsubscribe_url = x_unsubscribe_url,
       smob_message = x_message, smob_message_attributes = x_message_attributes\<rparr> }"

definition sns_message_obj_good :: "('p \<Rightarrow> bool) \<Rightarrow> ('t, 'p) sns_message_obj \<Rightarrow> bool" where
  "sns_message_obj_good Pp x \<longleftrightarrow>
     Pp (smob_message x) \<and>
     good_map (\<lambda>_. True) (smob_message_attributes x)"

lemma sns_message_obj_not_null [simp]: "sns_message_obj_json E gp x \<noteq> JNull"
  by (simp add: sns_message_obj_json_def)

lemma sns_message_obj_read [read_back]: "sns_message_obj_good Pp x \<Longrightarrow> event_crates E \<Longrightarrow> (\<And>x. Pp x \<Longrightarrow> text_of_json E fp (json_of_text E gp x) = Some x) \<Longrightarrow>sns_message_obj_of_json E fp (sns_message_obj_json E gp x) = Some x"
  by (cases x) (clarsimp simp: sns_message_obj_of_json_def sns_message_obj_json_def sns_message_obj_good_def read_back)

lemma sns_message_obj_typed:
  assumes typed_p: "typed Pp fp" shows "typed (sns_message_obj_good Pp) (sns_message_obj_of_json E fp)"
  unfolding typed_def sns_message_obj_of_json_def sns_message_obj_good_def
  by (auto simp: bind_eq_Some_conv dest!: typed_required [OF typed_text [OF typed_p]]
      typed_default [OF typed_nullish [OF typed_hash_map [OF typed_True [of "message_attribute_of_json"]] good_nil(1)] good_nil(1)])

record cloud_watch_metric =
  cwm_dimensions :: "cloud_watch_dimension list"
  cwm_metric_name :: "string option"
  cwm_namespace :: "string option"

definition cloud_watch_metric_json :: "cloud_watch_metric \<Rightarrow> json" where
  "cloud_watch_metric_json x = JObj
     ([(''Dimensions'', json_of_list cloud_watch_dimension_json (cwm_dimensions x)),
      (''MetricName'', json_of_option JStr (cwm_metric_name x)),
      (''Namespace'', json_of_option JStr (cwm_namespace x))])"

definition cloud_watch_metric_of_json :: "json \<Rightarrow> cloud_watch_metric option" where
  "cloud_watch_metric_of_json j = do {
     kvs \<leftarrow> de_fields 3
       [''Dimensions'', ''MetricName'', ''Namespace''] j;
     x_dimensions \<leftarrow> de_default (de_list cloud_watch_dimension_of_json) [] [''Dimensions''] kvs;
     x_metric_name \<leftarrow> de_opt_string ''MetricName'' kvs;
     x_namespace \<leftarrow> de_opt_string ''Namespace'' kvs;
     Some \<lparr>cwm_dimensions = x_dimensions, cwm_metric_name = x_metric_name,
       cwm_namespace = x_namespace\<rparr> }"

lemma cloud_watch_metric_not_null [simp]: "cloud_watch_metric_json x \<noteq> JNull"
  by (simp add: cloud_watch_metric_json_def)

lemma cloud_watch_metric_read [read_back]: "cloud_watch_metric_of_json (cloud_watch_metric_json x) = Some x"
  by (cases x) (simp add: cloud_watch_metric_of_json_def cloud_watch_metric_json_def read_back)

record 't sns_record =
  sr_event_source :: string
  sr_event_version :: string
  sr_event_subscription_arn :: string
  sr_sns :: "'t sns_message"

definition sns_record_json :: "'t event_env \<Rightarrow> 't sns_record \<Rightarrow> json" where
  "sns_record_json E x = JObj
     ([(''EventSource'', JStr (sr_event_source x)),
      (''EventVersion'', JStr (sr_event_version x)),
      (''EventSubscriptionArn'', JStr (sr_event_subscription_arn x)),
      (''Sns'', sns_message_json E (sr_sns x))])"

definition sns_record_of_json :: "'t event_env \<Rightarrow> json \<Rightarrow> 't sns_record option" where
  "sns_record_of_json E j = do {
     kvs \<leftarrow> de_fields 4
       [''EventSource'', ''EventVersion'', ''EventSubscriptionArn'', ''Sns''] j;
     x_event_source \<leftarrow> de_required de_string [''EventSource''] kvs;
     x_event_version \<leftarrow> de_required de_string [''EventVersion''] kvs;
     x_event_subscription_arn \<leftarrow> de_required de_string [''EventSubscriptionArn''] kvs;
     x_sns \<leftarrow> de_required (sns_message_of_json E) [''Sns''] kvs;
     Some \<lparr>sr_event_source = x_event_source, sr_event_version = x_event_version,
       sr_event_subscription_arn = x_event_subscription_arn, sr_sns = x_sns\<rparr> }"

definition sns_record_good :: "'t sns_record \<Rightarrow> bool" where
  "sns_record_good x \<longleftrightarrow>
     sns_message_good (sr_sns x)"

lemma sns_record_not_null [simp]: "sns_record_json E x \<noteq> JNull"
  by (simp add: sns_record_json_def)

lemma sns_record_read [read_back]: "sns_record_good x \<Longrightarrow> event_crates E \<Longrightarrow>sns_record_of_json E (sns_record_json E x) = Some x"
  by (cases x) (simp add: sns_record_of_json_def sns_record_json_def sns_record_good_def read_back)

lemma sns_record_typed: "typed sns_record_good (sns_record_of_json E)"
  unfolding typed_def sns_record_of_json_def sns_record_good_def
  by (auto simp: bind_eq_Some_conv dest!: typed_required [OF sns_message_typed])

record ('t, 'p) sns_record_obj =
  sro_event_source :: string
  sro_event_version :: string
  sro_event_subscription_arn :: string
  sro_sns :: "('t, 'p) sns_message_obj"

definition sns_record_obj_json :: "'t event_env \<Rightarrow> ('p \<Rightarrow> json) \<Rightarrow> ('t, 'p) sns_record_obj \<Rightarrow> json" where
  "sns_record_obj_json E gp x = JObj
     ([(''EventSource'', JStr (sro_event_source x)),
      (''EventVersion'', JStr (sro_event_version x)),
      (''EventSubscriptionArn'', JStr (sro_event_subscription_arn x)),
      (''Sns'', sns_message_obj_json E gp (sro_sns x))])"

definition sns_record_obj_of_json :: "'t event_env \<Rightarrow> (json \<Rightarrow> 'p option) \<Rightarrow> json \<Rightarrow> ('t, 'p) sns_record_obj option" where
  "sns_record_obj_of_json E fp j = do {
     kvs \<leftarrow> de_fields 4
       [''EventSource'', ''EventVersion'', ''EventSubscriptionArn'', ''Sns''] j;
     x_event_source \<leftarrow> de_required de_string [''EventSource''] kvs;
     x_event_version \<leftarrow> de_required de_string [''EventVersion''] kvs;
     x_event_subscription_arn \<leftarrow> de_required de_string [''EventSubscriptionArn''] kvs;
     x_sns \<leftarrow> de_required (sns_message_obj_of_json E fp) [''Sns''] kvs;
     Some \<lparr>sro_event_source = x_event_source, sro_event_version = x_event_version,
       sro_event_subscription_arn = x_event_subscription_arn, sro_sns = x_sns\<rparr> }"

definition sns_record_obj_good :: "('p \<Rightarrow> bool) \<Rightarrow> ('t, 'p) sns_record_obj \<Rightarrow> bool" where
  "sns_record_obj_good Pp x \<longleftrightarrow>
     sns_message_obj_good Pp (sro_sns x)"

lemma sns_record_obj_not_null [simp]: "sns_record_obj_json E gp x \<noteq> JNull"
  by (simp add: sns_record_obj_json_def)

lemma sns_record_obj_read [read_back]: "sns_record_obj_good Pp x \<Longrightarrow> event_crates E \<Longrightarrow> (\<And>x. Pp x \<Longrightarrow> text_of_json E fp (json_of_text E gp x) = Some x) \<Longrightarrow>sns_record_obj_of_json E fp (sns_record_obj_json E gp x) = Some x"
  by (cases x) (simp add: sns_record_obj_of_json_def sns_record_obj_json_def sns_record_obj_good_def read_back)

lemma sns_record_obj_typed:
  assumes typed_p: "typed Pp fp" shows "typed (sns_record_obj_good Pp) (sns_record_obj_of_json E fp)"
  unfolding typed_def sns_record_obj_of_json_def sns_record_obj_good_def
  by (auto simp: bind_eq_Some_conv dest!: typed_required [OF sns_message_obj_typed [OF typed_p]])

record cloud_watch_metric_stat =
  cwms_metric :: cloud_watch_metric
  cwms_period :: int
  cwms_stat :: string
  cwms_unit :: "string option"

definition cloud_watch_metric_stat_json :: "cloud_watch_metric_stat \<Rightarrow> json" where
  "cloud_watch_metric_stat_json x = JObj
     ([(''Metric'', cloud_watch_metric_json (cwms_metric x)),
      (''Period'', JInt (cwms_period x)),
      (''Stat'', JStr (cwms_stat x)),
      (''Unit'', json_of_option JStr (cwms_unit x))])"

definition cloud_watch_metric_stat_of_json :: "json \<Rightarrow> cloud_watch_metric_stat option" where
  "cloud_watch_metric_stat_of_json j = do {
     kvs \<leftarrow> de_fields 4
       [''Metric'', ''Period'', ''Stat'', ''Unit''] j;
     x_metric \<leftarrow> de_required cloud_watch_metric_of_json [''Metric''] kvs;
     x_period \<leftarrow> de_required de_i64 [''Period''] kvs;
     x_stat \<leftarrow> de_required de_string [''Stat''] kvs;
     x_unit \<leftarrow> de_opt_string ''Unit'' kvs;
     Some \<lparr>cwms_metric = x_metric, cwms_period = x_period, cwms_stat = x_stat, cwms_unit = x_unit\<rparr> }"

definition cloud_watch_metric_stat_good :: "cloud_watch_metric_stat \<Rightarrow> bool" where
  "cloud_watch_metric_stat_good x \<longleftrightarrow>
     good_i64 (cwms_period x)"

lemma cloud_watch_metric_stat_not_null [simp]: "cloud_watch_metric_stat_json x \<noteq> JNull"
  by (simp add: cloud_watch_metric_stat_json_def)

lemma cloud_watch_metric_stat_read [read_back]: "cloud_watch_metric_stat_good x \<Longrightarrow>cloud_watch_metric_stat_of_json (cloud_watch_metric_stat_json x) = Some x"
  by (cases x) (simp add: cloud_watch_metric_stat_of_json_def cloud_watch_metric_stat_json_def cloud_watch_metric_stat_good_def read_back)

lemma cloud_watch_metric_stat_typed: "typed cloud_watch_metric_stat_good cloud_watch_metric_stat_of_json"
  unfolding typed_def cloud_watch_metric_stat_of_json_def cloud_watch_metric_stat_good_def
  by (auto simp: bind_eq_Some_conv dest!: typed_required [OF typed_i64])

record 't sns_event =
  seve_records :: "('t sns_record) list"

definition sns_event_json :: "'t event_env \<Rightarrow> 't sns_event \<Rightarrow> json" where
  "sns_event_json E x = JObj
     ([(''Records'', json_of_list (sns_record_json E) (seve_records x))])"

definition sns_event_of_json :: "'t event_env \<Rightarrow> json \<Rightarrow> 't sns_event option" where
  "sns_event_of_json E j = do {
     kvs \<leftarrow> de_fields 1
       [''Records''] j;
     x_records \<leftarrow> de_required (de_list (sns_record_of_json E)) [''Records''] kvs;
     Some \<lparr>seve_records = x_records\<rparr> }"

definition sns_event_good :: "'t sns_event \<Rightarrow> bool" where
  "sns_event_good x \<longleftrightarrow>
     list_all sns_record_good (seve_records x)"

lemma sns_event_not_null [simp]: "sns_event_json E x \<noteq> JNull"
  by (simp add: sns_event_json_def)

lemma sns_event_read [read_back]: "sns_event_good x \<Longrightarrow> event_crates E \<Longrightarrow>sns_event_of_json E (sns_event_json E x) = Some x"
  by (cases x) (simp add: sns_event_of_json_def sns_event_json_def sns_event_good_def read_back)

lemma sns_event_typed: "typed sns_event_good (sns_event_of_json E)"
  unfolding typed_def sns_event_of_json_def sns_event_good_def
  by (auto simp: bind_eq_Some_conv dest!: typed_required [OF typed_list [OF sns_record_typed]])

record ('t, 'p) sns_event_obj =
  seob_records :: "(('t, 'p) sns_record_obj) list"

definition sns_event_obj_json :: "'t event_env \<Rightarrow> ('p \<Rightarrow> json) \<Rightarrow> ('t, 'p) sns_event_obj \<Rightarrow> json" where
  "sns_event_obj_json E gp x = JObj
     ([(''Records'', json_of_list (sns_record_obj_json E gp) (seob_records x))])"

definition sns_event_obj_of_json :: "'t event_env \<Rightarrow> (json \<Rightarrow> 'p option) \<Rightarrow> json \<Rightarrow> ('t, 'p) sns_event_obj option" where
  "sns_event_obj_of_json E fp j = do {
     kvs \<leftarrow> de_fields 1
       [''Records''] j;
     x_records \<leftarrow> de_required (de_list (sns_record_obj_of_json E fp)) [''Records''] kvs;
     Some \<lparr>seob_records = x_records\<rparr> }"

definition sns_event_obj_good :: "('p \<Rightarrow> bool) \<Rightarrow> ('t, 'p) sns_event_obj \<Rightarrow> bool" where
  "sns_event_obj_good Pp x \<longleftrightarrow>
     list_all (sns_record_obj_good Pp) (seob_records x)"

lemma sns_event_obj_not_null [simp]: "sns_event_obj_json E gp x \<noteq> JNull"
  by (simp add: sns_event_obj_json_def)

lemma sns_event_obj_read [read_back]: "sns_event_obj_good Pp x \<Longrightarrow> event_crates E \<Longrightarrow> (\<And>x. Pp x \<Longrightarrow> text_of_json E fp (json_of_text E gp x) = Some x) \<Longrightarrow>sns_event_obj_of_json E fp (sns_event_obj_json E gp x) = Some x"
  by (cases x) (simp add: sns_event_obj_of_json_def sns_event_obj_json_def sns_event_obj_good_def read_back)

lemma sns_event_obj_typed:
  assumes typed_p: "typed Pp fp" shows "typed (sns_event_obj_good Pp) (sns_event_obj_of_json E fp)"
  unfolding typed_def sns_event_obj_of_json_def sns_event_obj_good_def
  by (auto simp: bind_eq_Some_conv dest!: typed_required [OF typed_list [OF sns_record_obj_typed [OF typed_p]]])

record cloud_watch_metric_data_query =
  cwmdq_id :: string
  cwmdq_expression :: "string option"
  cwmdq_label :: "string option"
  cwmdq_metric_stat :: "cloud_watch_metric_stat option"
  cwmdq_period :: "int option"
  cwmdq_return_data :: bool

definition cloud_watch_metric_data_query_json :: "cloud_watch_metric_data_query \<Rightarrow> json" where
  "cloud_watch_metric_data_query_json x = JObj
     ([(''Id'', JStr (cwmdq_id x)),
      (''Expression'', json_of_option JStr (cwmdq_expression x)),
      (''Label'', json_of_option JStr (cwmdq_label x)),
      (''MetricStat'', json_of_option cloud_watch_metric_stat_json (cwmdq_metric_stat x)),
      (''Period'', json_of_option JInt (cwmdq_period x)),
      (''ReturnData'', JBool (cwmdq_return_data x))])"

definition cloud_watch_metric_data_query_of_json :: "json \<Rightarrow> cloud_watch_metric_data_query option" where
  "cloud_watch_metric_data_query_of_json j = do {
     kvs \<leftarrow> de_fields 5
       [''Id'', ''Expression'', ''Label'', ''MetricStat'', ''Period'', ''ReturnData''] j;
     x_id \<leftarrow> de_required de_string [''Id''] kvs;
     x_expression \<leftarrow> de_opt_string ''Expression'' kvs;
     x_label \<leftarrow> de_opt_string ''Label'' kvs;
     x_metric_stat \<leftarrow> de_optional cloud_watch_metric_stat_of_json [''MetricStat''] kvs;
     x_period \<leftarrow> de_optional de_i64 [''Period''] kvs;
     x_return_data \<leftarrow> de_default (de_nullish de_bool False) False [''ReturnData''] kvs;
     Some \<lparr>cwmdq_id = x_id, cwmdq_expression = x_expression, cwmdq_label = x_label,
       cwmdq_metric_stat = x_metric_stat, cwmdq_period = x_period,
       cwmdq_return_data = x_return_data\<rparr> }"

definition cloud_watch_metric_data_query_good :: "cloud_watch_metric_data_query \<Rightarrow> bool" where
  "cloud_watch_metric_data_query_good x \<longleftrightarrow>
     good_option cloud_watch_metric_stat_good (cwmdq_metric_stat x) \<and>
     good_option good_i64 (cwmdq_period x)"

lemma cloud_watch_metric_data_query_not_null [simp]: "cloud_watch_metric_data_query_json x \<noteq> JNull"
  by (simp add: cloud_watch_metric_data_query_json_def)

lemma cloud_watch_metric_data_query_read [read_back]: "cloud_watch_metric_data_query_good x \<Longrightarrow>cloud_watch_metric_data_query_of_json (cloud_watch_metric_data_query_json x) = Some x"
  by (cases x) (clarsimp simp: cloud_watch_metric_data_query_of_json_def cloud_watch_metric_data_query_json_def cloud_watch_metric_data_query_good_def read_back)

lemma cloud_watch_metric_data_query_typed: "typed cloud_watch_metric_data_query_good cloud_watch_metric_data_query_of_json"
  unfolding typed_def cloud_watch_metric_data_query_of_json_def cloud_watch_metric_data_query_good_def
  by (auto simp: bind_eq_Some_conv dest!: typed_optional [OF cloud_watch_metric_stat_typed]
      typed_optional [OF typed_i64])

record cloud_watch_alarm_trigger =
  cwat_period :: int
  cwat_evaluation_periods :: int
  cwat_comparison_operator :: string
  cwat_threshold :: f64
  cwat_treat_missing_data :: string
  cwat_evaluate_low_sample_count_percentile :: string
  cwat_metrics :: "cloud_watch_metric_data_query list"
  cwat_metric_name :: "string option"
  cwat_namespace :: "string option"
  cwat_statistic_type :: "string option"
  cwat_statistic :: "string option"
  cwat_unit :: "string option"
  cwat_dimensions :: "cloud_watch_dimension list"

definition cloud_watch_alarm_trigger_json :: "cloud_watch_alarm_trigger \<Rightarrow> json" where
  "cloud_watch_alarm_trigger_json x = JObj
     ([(''Period'', JInt (cwat_period x)),
      (''EvaluationPeriods'', JInt (cwat_evaluation_periods x)),
      (''ComparisonOperator'', JStr (cwat_comparison_operator x)),
      (''Threshold'', json_of_f64 (cwat_threshold x)),
      (''TreatMissingData'', JStr (cwat_treat_missing_data x)),
      (''EvaluateLowSampleCountPercentile'', JStr (cwat_evaluate_low_sample_count_percentile x)),
      (''Metrics'', json_of_list cloud_watch_metric_data_query_json (cwat_metrics x)),
      (''MetricName'', json_of_option JStr (cwat_metric_name x)),
      (''Namespace'', json_of_option JStr (cwat_namespace x)),
      (''StatisticType'', json_of_option JStr (cwat_statistic_type x)),
      (''Statistic'', json_of_option JStr (cwat_statistic x)),
      (''Unit'', json_of_option JStr (cwat_unit x)),
      (''Dimensions'', json_of_list cloud_watch_dimension_json (cwat_dimensions x))])"

definition cloud_watch_alarm_trigger_of_json :: "json \<Rightarrow> cloud_watch_alarm_trigger option" where
  "cloud_watch_alarm_trigger_of_json j = do {
     kvs \<leftarrow> de_fields 12
       [''Period'', ''EvaluationPeriods'', ''ComparisonOperator'', ''Threshold'',
        ''TreatMissingData'', ''EvaluateLowSampleCountPercentile'', ''Metrics'', ''MetricName'',
        ''Namespace'', ''StatisticType'', ''Statistic'', ''Unit'', ''Dimensions''] j;
     x_period \<leftarrow> de_required de_i64 [''Period''] kvs;
     x_evaluation_periods \<leftarrow> de_required de_i64 [''EvaluationPeriods''] kvs;
     x_comparison_operator \<leftarrow> de_required de_string [''ComparisonOperator''] kvs;
     x_threshold \<leftarrow> de_required de_f64 [''Threshold''] kvs;
     x_treat_missing_data \<leftarrow> de_required de_string [''TreatMissingData''] kvs;
     x_evaluate_low_sample_count_percentile \<leftarrow> de_required de_string [''EvaluateLowSampleCountPercentile''] kvs;
     x_metrics \<leftarrow> de_default (de_list cloud_watch_metric_data_query_of_json) [] [''Metrics''] kvs;
     x_metric_name \<leftarrow> de_opt_string ''MetricName'' kvs;
     x_namespace \<leftarrow> de_opt_string ''Namespace'' kvs;
     x_statistic_type \<leftarrow> de_opt_string ''StatisticType'' kvs;
     x_statistic \<leftarrow> de_opt_string ''Statistic'' kvs;
     x_unit \<leftarrow> de_opt_string ''Unit'' kvs;
     x_dimensions \<leftarrow> de_default (de_list cloud_watch_dimension_of_json) [] [''Dimensions''] kvs;
     Some \<lparr>cwat_period = x_period, cwat_evaluation_periods = x_evaluation_periods,
       cwat_comparison_operator = x_comparison_operator, cwat_threshold = x_threshold,
       cwat_treat_missing_data = x_treat_missing_data,
       cwat_evaluate_low_sample_count_percentile = x_evaluate_low_sample_count_percentile,
       cwat_metrics = x_metrics, cwat_metric_name = x_metric_name, cwat_namespace = x_namespace,
       cwat_statistic_type = x_statistic_type, cwat_statistic = x_statistic, cwat_unit = x_unit,
       cwat_dimensions = x_dimensions\<rparr> }"

definition cloud_watch_alarm_trigger_good :: "cloud_watch_alarm_trigger \<Rightarrow> bool" where
  "cloud_watch_alarm_trigger_good x \<longleftrightarrow>
     good_i64 (cwat_period x) \<and>
     good_i64 (cwat_evaluation_periods x) \<and>
     f64_finite (cwat_threshold x) \<and>
     list_all cloud_watch_metric_data_query_good (cwat_metrics x)"

lemma cloud_watch_alarm_trigger_not_null [simp]: "cloud_watch_alarm_trigger_json x \<noteq> JNull"
  by (simp add: cloud_watch_alarm_trigger_json_def)

lemma cloud_watch_alarm_trigger_read [read_back]: "cloud_watch_alarm_trigger_good x \<Longrightarrow>cloud_watch_alarm_trigger_of_json (cloud_watch_alarm_trigger_json x) = Some x"
  by (cases x) (clarsimp simp: cloud_watch_alarm_trigger_of_json_def cloud_watch_alarm_trigger_json_def cloud_watch_alarm_trigger_good_def read_back)

lemma cloud_watch_alarm_trigger_typed: "typed cloud_watch_alarm_trigger_good cloud_watch_alarm_trigger_of_json"
  unfolding typed_def cloud_watch_alarm_trigger_of_json_def cloud_watch_alarm_trigger_good_def
  by (auto simp: bind_eq_Some_conv dest!: typed_required [OF typed_i64]
      typed_required [OF typed_f64]
      typed_default [OF typed_list [OF cloud_watch_metric_data_query_typed] good_nil(3)])

record cloud_watch_alarm_payload =
  cwap_alarm_name :: string
  cwap_alarm_description :: string
  cwap_aws_account_id :: string
  cwap_new_state_value :: string
  cwap_new_state_reason :: string
  cwap_state_change_time :: string
  cwap_region :: string
  cwap_alarm_arn :: string
  cwap_old_state_value :: string
  cwap_trigger :: cloud_watch_alarm_trigger

definition cloud_watch_alarm_payload_json :: "cloud_watch_alarm_payload \<Rightarrow> json" where
  "cloud_watch_alarm_payload_json x = JObj
     ([(''AlarmName'', JStr (cwap_alarm_name x)),
      (''AlarmDescription'', JStr (cwap_alarm_description x)),
      (''AWSAccountId'', JStr (cwap_aws_account_id x)),
      (''NewStateValue'', JStr (cwap_new_state_value x)),
      (''NewStateReason'', JStr (cwap_new_state_reason x)),
      (''StateChangeTime'', JStr (cwap_state_change_time x)),
      (''Region'', JStr (cwap_region x)),
      (''AlarmArn'', JStr (cwap_alarm_arn x)),
      (''OldStateValue'', JStr (cwap_old_state_value x)),
      (''Trigger'', cloud_watch_alarm_trigger_json (cwap_trigger x))])"

definition cloud_watch_alarm_payload_of_json :: "json \<Rightarrow> cloud_watch_alarm_payload option" where
  "cloud_watch_alarm_payload_of_json j = do {
     kvs \<leftarrow> de_fields 10
       [''AlarmName'', ''AlarmDescription'', ''AWSAccountId'', ''NewStateValue'',
        ''NewStateReason'', ''StateChangeTime'', ''Region'', ''AlarmArn'', ''OldStateValue'',
        ''Trigger''] j;
     x_alarm_name \<leftarrow> de_required de_string [''AlarmName''] kvs;
     x_alarm_description \<leftarrow> de_required de_string [''AlarmDescription''] kvs;
     x_aws_account_id \<leftarrow> de_required de_string [''AWSAccountId''] kvs;
     x_new_state_value \<leftarrow> de_required de_string [''NewStateValue''] kvs;
     x_new_state_reason \<leftarrow> de_required de_string [''NewStateReason''] kvs;
     x_state_change_time \<leftarrow> de_required de_string [''StateChangeTime''] kvs;
     x_region \<leftarrow> de_required de_string [''Region''] kvs;
     x_alarm_arn \<leftarrow> de_required de_string [''AlarmArn''] kvs;
     x_old_state_value \<leftarrow> de_required de_string [''OldStateValue''] kvs;
     x_trigger \<leftarrow> de_required cloud_watch_alarm_trigger_of_json [''Trigger''] kvs;
     Some \<lparr>cwap_alarm_name = x_alarm_name, cwap_alarm_description = x_alarm_description,
       cwap_aws_account_id = x_aws_account_id, cwap_new_state_value = x_new_state_value,
       cwap_new_state_reason = x_new_state_reason, cwap_state_change_time = x_state_change_time,
       cwap_region = x_region, cwap_alarm_arn = x_alarm_arn,
       cwap_old_state_value = x_old_state_value, cwap_trigger = x_trigger\<rparr> }"

definition cloud_watch_alarm_payload_good :: "cloud_watch_alarm_payload \<Rightarrow> bool" where
  "cloud_watch_alarm_payload_good x \<longleftrightarrow>
     cloud_watch_alarm_trigger_good (cwap_trigger x)"

lemma cloud_watch_alarm_payload_not_null [simp]: "cloud_watch_alarm_payload_json x \<noteq> JNull"
  by (simp add: cloud_watch_alarm_payload_json_def)

lemma cloud_watch_alarm_payload_read [read_back]: "cloud_watch_alarm_payload_good x \<Longrightarrow>cloud_watch_alarm_payload_of_json (cloud_watch_alarm_payload_json x) = Some x"
  by (cases x) (simp add: cloud_watch_alarm_payload_of_json_def cloud_watch_alarm_payload_json_def cloud_watch_alarm_payload_good_def read_back)

lemma cloud_watch_alarm_payload_typed: "typed cloud_watch_alarm_payload_good cloud_watch_alarm_payload_of_json"
  unfolding typed_def cloud_watch_alarm_payload_of_json_def cloud_watch_alarm_payload_good_def
  by (auto simp: bind_eq_Some_conv dest!: typed_required [OF cloud_watch_alarm_trigger_typed])

subsection \<open>Reading what was written\<close>

text \<open>
  The events of SQS and SNS, with the messages whose body is a JSON text of a type of the user:
  what is read is well formed (no repeated key in a map), and what it is written to is read as
  the same event.
\<close>

lemma messaging_events_reparse:
  assumes "event_crates E"
    and typed: "typed P f"
    and text_inverse: "\<And>x. P x \<Longrightarrow> text_of_json E f (json_of_text E g x) = Some x"
  shows "reparses (sqs_api_event_obj_good P) (sqs_api_event_obj_of_json E f) (sqs_api_event_obj_json E g) \<and>
    reparses sqs_api_event_good (sqs_api_event_of_json E) (sqs_api_event_json E) \<and>
    reparses sqs_event_good (sqs_event_of_json E) (sqs_event_json E) \<and>
    reparses (sqs_event_obj_good P) (sqs_event_obj_of_json E f) (sqs_event_obj_json E g) \<and>
    reparses sns_subscription_message_good (sns_subscription_message_of_json E) (sns_subscription_message_json E) \<and>
    reparses sns_event_good (sns_event_of_json E) (sns_event_json E) \<and>
    reparses (sns_event_obj_good P) (sns_event_obj_of_json E f) (sns_event_obj_json E g) \<and>
    reparses cloud_watch_alarm_payload_good cloud_watch_alarm_payload_of_json cloud_watch_alarm_payload_json"
  by (intro conjI reparsesI typed_True typed_nn sqs_api_event_obj_typed
      sqs_api_event_typed
      sqs_event_typed
      sqs_event_obj_typed
      sns_subscription_message_typed
      sns_event_typed
      sns_event_obj_typed
      cloud_watch_alarm_payload_typed)
    (auto simp: assms read_back)


text \<open>An event whose message is a JSON text of a string.\<close>

definition sqs_example :: json where
  "sqs_example = JObj [(''Records'', JArr [JObj
     [(''messageId'', JStr ''m''), (''receiptHandle'', JStr ''r''), (''body'', JStr ''hi''),
      (''attributes'', JNull), (''messageAttributes'', JObj [(''k'', JObj
        [(''stringValue'', JNull), (''binaryValue'', JStr ''v=='')])])]])]"

lemma sqs_example_reparses:
  "\<exists>x. sqs_event_obj_of_json ref_event_env de_string sqs_example = Some x \<and>
     map smo_body (seo_records x) = [''hi''] \<and>
     sqs_event_obj_of_json ref_event_env de_string (sqs_event_obj_json ref_event_env JStr x) = Some x"
proof -
  have "reparses (sqs_event_obj_good (\<lambda>_. True)) (sqs_event_obj_of_json ref_event_env de_string)
      (sqs_event_obj_json ref_event_env JStr)"
    using messaging_events_reparse [where E = ref_event_env and P = "\<lambda>_. True" and f = de_string and g = JStr,
      OF ref_events.event_crates_axioms typed_True] by (simp add: text_of_json_def json_of_text_def ref_event_env_def)
  moreover have "map_option (\<lambda>x. map smo_body (seo_records x)) (sqs_event_obj_of_json ref_event_env de_string sqs_example)
      = Some [''hi'']"
    by code_simp
  ultimately show ?thesis by (auto dest: reparsesD)
qed

end
