(* ===== verification/StreamEvents.thy ===== *)
theory StreamEvents
  imports EventSerde
begin

text \<open>
  The events of Active MQ, Rabbit MQ, Kinesis Analytics, the batch responses of the
  streams and the IoT buttons (\<^verbatim>\<open>lambda-events/src/event\<close>).
  Each structure has its record, the serialiser and the deserialiser that \<^verbatim>\<open>derive\<close>
  generates from its attributes, well-formedness where its fields restrict it, and the lemmas that
  what is read is well formed and what is written is read back. Structures are in the order
  their fields need.
\<close>

subsection \<open>\<^verbatim>\<open>activemq\<close>\<close>

record active_mq_destination =
  amd_physical_name :: "string option"

definition active_mq_destination_json :: "active_mq_destination \<Rightarrow> json" where
  "active_mq_destination_json x = JObj
     ([(''physicalName'', json_of_option JStr (amd_physical_name x))])"

definition active_mq_destination_of_json :: "json \<Rightarrow> active_mq_destination option" where
  "active_mq_destination_of_json j = do {
     kvs \<leftarrow> de_fields 0
       [''physicalName''] j;
     x_physical_name \<leftarrow> de_opt_string ''physicalName'' kvs;
     Some \<lparr>amd_physical_name = x_physical_name\<rparr> }"

lemma active_mq_destination_not_null [simp]: "active_mq_destination_json x \<noteq> JNull"
  by (simp add: active_mq_destination_json_def)

lemma active_mq_destination_read [read_back]: "active_mq_destination_of_json (active_mq_destination_json x) = Some x"
  by (cases x) (simp add: active_mq_destination_of_json_def active_mq_destination_json_def read_back)

record active_mq_message =
  amm_message_id :: "string option"
  amm_message_type :: "string option"
  amm_timestamp :: int
  amm_delivery_mode :: int
  amm_correlation_id :: "string option"
  amm_reply_to :: "string option"
  amm_destination :: active_mq_destination
  amm_redelivered :: bool
  amm_type :: "string option"
  amm_expiration :: int
  amm_priority :: int
  amm_data :: "string option"
  amm_broker_in_time :: int
  amm_broker_out_time :: int
  amm_properties :: "(string \<times> string) list"

definition active_mq_message_json :: "active_mq_message \<Rightarrow> json" where
  "active_mq_message_json x = JObj
     ([(''messageID'', json_of_option JStr (amm_message_id x)),
      (''messageType'', json_of_option JStr (amm_message_type x)),
      (''timestamp'', JInt (amm_timestamp x)),
      (''deliveryMode'', JInt (amm_delivery_mode x)),
      (''correlationID'', json_of_option JStr (amm_correlation_id x)),
      (''replyTo'', json_of_option JStr (amm_reply_to x)),
      (''destination'', active_mq_destination_json (amm_destination x)),
      (''redelivered'', JBool (amm_redelivered x)),
      (''type'', json_of_option JStr (amm_type x)),
      (''expiration'', JInt (amm_expiration x)),
      (''priority'', JInt (amm_priority x)),
      (''data'', json_of_option JStr (amm_data x)),
      (''brokerInTime'', JInt (amm_broker_in_time x)),
      (''brokerOutTime'', JInt (amm_broker_out_time x)),
      (''properties'', json_of_map JStr (amm_properties x))])"

definition active_mq_message_of_json :: "json \<Rightarrow> active_mq_message option" where
  "active_mq_message_of_json j = do {
     kvs \<leftarrow> de_fields 14
       [''messageID'', ''messageType'', ''timestamp'', ''deliveryMode'', ''correlationID'',
        ''replyTo'', ''destination'', ''redelivered'', ''type'', ''expiration'', ''priority'',
        ''data'', ''brokerInTime'', ''brokerOutTime'', ''properties''] j;
     x_message_id \<leftarrow> de_opt_string ''messageID'' kvs;
     x_message_type \<leftarrow> de_opt_string ''messageType'' kvs;
     x_timestamp \<leftarrow> de_required de_i64 [''timestamp''] kvs;
     x_delivery_mode \<leftarrow> de_required de_i64 [''deliveryMode''] kvs;
     x_correlation_id \<leftarrow> de_opt_string ''correlationID'' kvs;
     x_reply_to \<leftarrow> de_opt_string ''replyTo'' kvs;
     x_destination \<leftarrow> de_required active_mq_destination_of_json [''destination''] kvs;
     x_redelivered \<leftarrow> de_required de_bool [''redelivered''] kvs;
     x_type \<leftarrow> de_opt_string ''type'' kvs;
     x_expiration \<leftarrow> de_required de_i64 [''expiration''] kvs;
     x_priority \<leftarrow> de_required de_i64 [''priority''] kvs;
     x_data \<leftarrow> de_opt_string ''data'' kvs;
     x_broker_in_time \<leftarrow> de_required de_i64 [''brokerInTime''] kvs;
     x_broker_out_time \<leftarrow> de_required de_i64 [''brokerOutTime''] kvs;
     x_properties \<leftarrow> de_default (de_nullish (de_hash_map de_string) []) [] [''properties''] kvs;
     Some \<lparr>amm_message_id = x_message_id, amm_message_type = x_message_type,
       amm_timestamp = x_timestamp, amm_delivery_mode = x_delivery_mode,
       amm_correlation_id = x_correlation_id, amm_reply_to = x_reply_to,
       amm_destination = x_destination, amm_redelivered = x_redelivered, amm_type = x_type,
       amm_expiration = x_expiration, amm_priority = x_priority, amm_data = x_data,
       amm_broker_in_time = x_broker_in_time, amm_broker_out_time = x_broker_out_time,
       amm_properties = x_properties\<rparr> }"

definition active_mq_message_good :: "active_mq_message \<Rightarrow> bool" where
  "active_mq_message_good x \<longleftrightarrow>
     good_i64 (amm_timestamp x) \<and>
     good_i64 (amm_delivery_mode x) \<and>
     good_i64 (amm_expiration x) \<and>
     good_i64 (amm_priority x) \<and>
     good_i64 (amm_broker_in_time x) \<and>
     good_i64 (amm_broker_out_time x) \<and>
     good_map (\<lambda>_. True) (amm_properties x)"

lemma active_mq_message_not_null [simp]: "active_mq_message_json x \<noteq> JNull"
  by (simp add: active_mq_message_json_def)

lemma active_mq_message_read [read_back]: "active_mq_message_good x \<Longrightarrow>active_mq_message_of_json (active_mq_message_json x) = Some x"
  by (cases x) (clarsimp simp: active_mq_message_of_json_def active_mq_message_json_def active_mq_message_good_def read_back)

lemma active_mq_message_typed: "typed active_mq_message_good active_mq_message_of_json"
  unfolding typed_def active_mq_message_of_json_def active_mq_message_good_def
  by (auto simp: bind_eq_Some_conv dest!: typed_required [OF typed_i64]
      typed_default [OF typed_nullish [OF typed_hash_map [OF typed_True [of "de_string"]] good_nil(1)] good_nil(1)])

record active_mq_event =
  ame_event_source :: "string option"
  ame_event_source_arn :: "string option"
  ame_messages :: "active_mq_message list"

definition active_mq_event_json :: "active_mq_event \<Rightarrow> json" where
  "active_mq_event_json x = JObj
     ([(''eventSource'', json_of_option JStr (ame_event_source x)),
      (''eventSourceArn'', json_of_option JStr (ame_event_source_arn x)),
      (''messages'', json_of_list active_mq_message_json (ame_messages x))])"

definition active_mq_event_of_json :: "json \<Rightarrow> active_mq_event option" where
  "active_mq_event_of_json j = do {
     kvs \<leftarrow> de_fields 3
       [''eventSource'', ''eventSourceArn'', ''messages''] j;
     x_event_source \<leftarrow> de_opt_string ''eventSource'' kvs;
     x_event_source_arn \<leftarrow> de_opt_string ''eventSourceArn'' kvs;
     x_messages \<leftarrow> de_required (de_list active_mq_message_of_json) [''messages''] kvs;
     Some \<lparr>ame_event_source = x_event_source, ame_event_source_arn = x_event_source_arn,
       ame_messages = x_messages\<rparr> }"

definition active_mq_event_good :: "active_mq_event \<Rightarrow> bool" where
  "active_mq_event_good x \<longleftrightarrow>
     list_all active_mq_message_good (ame_messages x)"

lemma active_mq_event_not_null [simp]: "active_mq_event_json x \<noteq> JNull"
  by (simp add: active_mq_event_json_def)

lemma active_mq_event_read [read_back]: "active_mq_event_good x \<Longrightarrow>active_mq_event_of_json (active_mq_event_json x) = Some x"
  by (cases x) (simp add: active_mq_event_of_json_def active_mq_event_json_def active_mq_event_good_def read_back)

lemma active_mq_event_typed: "typed active_mq_event_good active_mq_event_of_json"
  unfolding typed_def active_mq_event_of_json_def active_mq_event_good_def
  by (auto simp: bind_eq_Some_conv dest!: typed_required [OF typed_list [OF active_mq_message_typed]])

subsection \<open>\<^verbatim>\<open>rabbitmq\<close>\<close>

record 'p rabbit_mq_basic_properties =
  rmbp_content_type :: "string option"
  rmbp_content_encoding :: "string option"
  rmbp_headers :: "(string \<times> 'p) list"
  rmbp_delivery_mode :: nat
  rmbp_priority :: nat
  rmbp_correlation_id :: "string option"
  rmbp_reply_to :: "string option"
  rmbp_expiration :: "string option"
  rmbp_message_id :: "string option"
  rmbp_timestamp :: "string option"
  rmbp_type :: "string option"
  rmbp_user_id :: "string option"
  rmbp_app_id :: "string option"
  rmbp_cluster_id :: "string option"
  rmbp_body_size :: nat

definition rabbit_mq_basic_properties_json :: "('p \<Rightarrow> json) \<Rightarrow> 'p rabbit_mq_basic_properties \<Rightarrow> json" where
  "rabbit_mq_basic_properties_json gp x = JObj
     ([(''contentType'', json_of_option JStr (rmbp_content_type x)),
      (''contentEncoding'', json_of_option JStr (rmbp_content_encoding x)),
      (''headers'', json_of_map gp (rmbp_headers x)),
      (''deliveryMode'', json_of_nat (rmbp_delivery_mode x)),
      (''priority'', json_of_nat (rmbp_priority x)),
      (''correlationId'', json_of_option JStr (rmbp_correlation_id x)),
      (''replyTo'', json_of_option JStr (rmbp_reply_to x)),
      (''expiration'', json_of_option JStr (rmbp_expiration x)),
      (''messageId'', json_of_option JStr (rmbp_message_id x)),
      (''timestamp'', json_of_option JStr (rmbp_timestamp x)),
      (''type'', json_of_option JStr (rmbp_type x)),
      (''userId'', json_of_option JStr (rmbp_user_id x)),
      (''appId'', json_of_option JStr (rmbp_app_id x)),
      (''clusterId'', json_of_option JStr (rmbp_cluster_id x)),
      (''bodySize'', json_of_nat (rmbp_body_size x))])"

definition rabbit_mq_basic_properties_of_json :: "(json \<Rightarrow> 'p option) \<Rightarrow> json \<Rightarrow> 'p rabbit_mq_basic_properties option" where
  "rabbit_mq_basic_properties_of_json fp j = do {
     kvs \<leftarrow> de_fields 15
       [''contentType'', ''contentEncoding'', ''headers'', ''deliveryMode'', ''priority'',
        ''correlationId'', ''replyTo'', ''expiration'', ''messageId'', ''timestamp'', ''type'',
        ''userId'', ''appId'', ''clusterId'', ''bodySize''] j;
     x_content_type \<leftarrow> de_opt_string ''contentType'' kvs;
     x_content_encoding \<leftarrow> de_opt_string ''contentEncoding'' kvs;
     x_headers \<leftarrow> de_default (de_nullish (de_hash_map fp) []) [] [''headers''] kvs;
     x_delivery_mode \<leftarrow> de_required (de_unsigned 255) [''deliveryMode''] kvs;
     x_priority \<leftarrow> de_required (de_unsigned 255) [''priority''] kvs;
     x_correlation_id \<leftarrow> de_opt_string ''correlationId'' kvs;
     x_reply_to \<leftarrow> de_opt_string ''replyTo'' kvs;
     x_expiration \<leftarrow> de_opt_string ''expiration'' kvs;
     x_message_id \<leftarrow> de_opt_string ''messageId'' kvs;
     x_timestamp \<leftarrow> de_opt_string ''timestamp'' kvs;
     x_type \<leftarrow> de_opt_string ''type'' kvs;
     x_user_id \<leftarrow> de_opt_string ''userId'' kvs;
     x_app_id \<leftarrow> de_opt_string ''appId'' kvs;
     x_cluster_id \<leftarrow> de_opt_string ''clusterId'' kvs;
     x_body_size \<leftarrow> de_required (de_unsigned u64_max) [''bodySize''] kvs;
     Some \<lparr>rmbp_content_type = x_content_type, rmbp_content_encoding = x_content_encoding,
       rmbp_headers = x_headers, rmbp_delivery_mode = x_delivery_mode,
       rmbp_priority = x_priority, rmbp_correlation_id = x_correlation_id,
       rmbp_reply_to = x_reply_to, rmbp_expiration = x_expiration,
       rmbp_message_id = x_message_id, rmbp_timestamp = x_timestamp, rmbp_type = x_type,
       rmbp_user_id = x_user_id, rmbp_app_id = x_app_id, rmbp_cluster_id = x_cluster_id,
       rmbp_body_size = x_body_size\<rparr> }"

definition rabbit_mq_basic_properties_good :: "('p \<Rightarrow> bool) \<Rightarrow> 'p rabbit_mq_basic_properties \<Rightarrow> bool" where
  "rabbit_mq_basic_properties_good Pp x \<longleftrightarrow>
     good_map Pp (rmbp_headers x) \<and>
     good_nat 255 (rmbp_delivery_mode x) \<and>
     good_nat 255 (rmbp_priority x) \<and>
     good_nat u64_max (rmbp_body_size x)"

lemma rabbit_mq_basic_properties_not_null [simp]: "rabbit_mq_basic_properties_json gp x \<noteq> JNull"
  by (simp add: rabbit_mq_basic_properties_json_def)

lemma rabbit_mq_basic_properties_read [read_back]: "rabbit_mq_basic_properties_good Pp x \<Longrightarrow> (\<And>x. Pp x \<Longrightarrow> fp (gp x) = Some x) \<Longrightarrow>rabbit_mq_basic_properties_of_json fp (rabbit_mq_basic_properties_json gp x) = Some x"
  by (cases x) (clarsimp simp: rabbit_mq_basic_properties_of_json_def rabbit_mq_basic_properties_json_def rabbit_mq_basic_properties_good_def read_back)

lemma rabbit_mq_basic_properties_typed:
  assumes typed_p: "typed Pp fp" shows "typed (rabbit_mq_basic_properties_good Pp) (rabbit_mq_basic_properties_of_json fp)"
  unfolding typed_def rabbit_mq_basic_properties_of_json_def rabbit_mq_basic_properties_good_def
  by (auto simp: bind_eq_Some_conv dest!: typed_default [OF typed_nullish [OF typed_hash_map [OF typed_p] good_nil(1)] good_nil(1)]
      typed_required [OF typed_nat])

record rabbit_mq_message =
  rmm_basic_properties :: "json rabbit_mq_basic_properties"
  rmm_data :: "string option"
  rmm_redelivered :: bool

definition rabbit_mq_message_json :: "rabbit_mq_message \<Rightarrow> json" where
  "rabbit_mq_message_json x = JObj
     ([(''basicProperties'', rabbit_mq_basic_properties_json (\<lambda>v. v) (rmm_basic_properties x)),
      (''data'', json_of_option JStr (rmm_data x)),
      (''redelivered'', JBool (rmm_redelivered x))])"

definition rabbit_mq_message_of_json :: "json \<Rightarrow> rabbit_mq_message option" where
  "rabbit_mq_message_of_json j = do {
     kvs \<leftarrow> de_fields 3
       [''basicProperties'', ''data'', ''redelivered''] j;
     x_basic_properties \<leftarrow> de_required (rabbit_mq_basic_properties_of_json Some) [''basicProperties''] kvs;
     x_data \<leftarrow> de_opt_string ''data'' kvs;
     x_redelivered \<leftarrow> de_required de_bool [''redelivered''] kvs;
     Some \<lparr>rmm_basic_properties = x_basic_properties, rmm_data = x_data,
       rmm_redelivered = x_redelivered\<rparr> }"

definition rabbit_mq_message_good :: "rabbit_mq_message \<Rightarrow> bool" where
  "rabbit_mq_message_good x \<longleftrightarrow>
     rabbit_mq_basic_properties_good (\<lambda>_. True) (rmm_basic_properties x)"

lemma rabbit_mq_message_not_null [simp]: "rabbit_mq_message_json x \<noteq> JNull"
  by (simp add: rabbit_mq_message_json_def)

lemma rabbit_mq_message_read [read_back]: "rabbit_mq_message_good x \<Longrightarrow>rabbit_mq_message_of_json (rabbit_mq_message_json x) = Some x"
  by (cases x) (simp add: rabbit_mq_message_of_json_def rabbit_mq_message_json_def rabbit_mq_message_good_def read_back)

lemma rabbit_mq_message_typed: "typed rabbit_mq_message_good rabbit_mq_message_of_json"
  unfolding typed_def rabbit_mq_message_of_json_def rabbit_mq_message_good_def
  by (auto simp: bind_eq_Some_conv dest!: typed_required [OF rabbit_mq_basic_properties_typed [OF typed_True]])

record rabbit_mq_event =
  rme_event_source :: "string option"
  rme_event_source_arn :: "string option"
  rme_messages_by_queue :: "(string \<times> (rabbit_mq_message list)) list"

definition rabbit_mq_event_json :: "rabbit_mq_event \<Rightarrow> json" where
  "rabbit_mq_event_json x = JObj
     ([(''eventSource'', json_of_option JStr (rme_event_source x)),
      (''eventSourceArn'', json_of_option JStr (rme_event_source_arn x)),
      (''rmqMessagesByQueue'', json_of_map (json_of_list rabbit_mq_message_json) (rme_messages_by_queue x))])"

definition rabbit_mq_event_of_json :: "json \<Rightarrow> rabbit_mq_event option" where
  "rabbit_mq_event_of_json j = do {
     kvs \<leftarrow> de_fields 0
       [''eventSource'', ''eventSourceArn'', ''rmqMessagesByQueue''] j;
     x_event_source \<leftarrow> de_opt_string ''eventSource'' kvs;
     x_event_source_arn \<leftarrow> de_opt_string ''eventSourceArn'' kvs;
     x_messages_by_queue \<leftarrow> de_default (de_nullish (de_hash_map (de_list rabbit_mq_message_of_json)) []) [] [''rmqMessagesByQueue''] kvs;
     Some \<lparr>rme_event_source = x_event_source, rme_event_source_arn = x_event_source_arn,
       rme_messages_by_queue = x_messages_by_queue\<rparr> }"

definition rabbit_mq_event_good :: "rabbit_mq_event \<Rightarrow> bool" where
  "rabbit_mq_event_good x \<longleftrightarrow>
     good_map (list_all rabbit_mq_message_good) (rme_messages_by_queue x)"

lemma rabbit_mq_event_not_null [simp]: "rabbit_mq_event_json x \<noteq> JNull"
  by (simp add: rabbit_mq_event_json_def)

lemma rabbit_mq_event_read [read_back]: "rabbit_mq_event_good x \<Longrightarrow>rabbit_mq_event_of_json (rabbit_mq_event_json x) = Some x"
  by (cases x) (simp add: rabbit_mq_event_of_json_def rabbit_mq_event_json_def rabbit_mq_event_good_def read_back)

lemma rabbit_mq_event_typed: "typed rabbit_mq_event_good rabbit_mq_event_of_json"
  unfolding typed_def rabbit_mq_event_of_json_def rabbit_mq_event_good_def
  by (auto simp: bind_eq_Some_conv dest!: typed_default [OF typed_nullish [OF typed_hash_map [OF typed_list [OF rabbit_mq_message_typed]] good_nil(1)] good_nil(1)])

subsection \<open>\<^verbatim>\<open>kinesis/analytics\<close>\<close>

record kinesis_analytics_output_delivery_event_record =
  kaoder_record_id :: "string option"
  kaoder_data :: string

definition kinesis_analytics_output_delivery_event_record_json :: "'t event_env \<Rightarrow> kinesis_analytics_output_delivery_event_record \<Rightarrow> json" where
  "kinesis_analytics_output_delivery_event_record_json E x = JObj
     ([(''recordId'', json_of_option JStr (kaoder_record_id x)),
      (''data'', json_of_base64 E (kaoder_data x))])"

definition kinesis_analytics_output_delivery_event_record_of_json :: "'t event_env \<Rightarrow> json \<Rightarrow> kinesis_analytics_output_delivery_event_record option" where
  "kinesis_analytics_output_delivery_event_record_of_json E j = do {
     kvs \<leftarrow> de_fields 2
       [''recordId'', ''data''] j;
     x_record_id \<leftarrow> de_opt_string ''recordId'' kvs;
     x_data \<leftarrow> de_required (base64_of_json E) [''data''] kvs;
     Some \<lparr>kaoder_record_id = x_record_id, kaoder_data = x_data\<rparr> }"

lemma kinesis_analytics_output_delivery_event_record_not_null [simp]: "kinesis_analytics_output_delivery_event_record_json E x \<noteq> JNull"
  by (simp add: kinesis_analytics_output_delivery_event_record_json_def)

lemma kinesis_analytics_output_delivery_event_record_read [read_back]: "event_crates E \<Longrightarrow>kinesis_analytics_output_delivery_event_record_of_json E (kinesis_analytics_output_delivery_event_record_json E x) = Some x"
  by (cases x) (simp add: kinesis_analytics_output_delivery_event_record_of_json_def kinesis_analytics_output_delivery_event_record_json_def read_back)

record kinesis_analytics_output_delivery_response_record =
  kaodrr_record_id :: "string option"
  kaodrr_result :: "string option"

definition kinesis_analytics_output_delivery_response_record_json :: "kinesis_analytics_output_delivery_response_record \<Rightarrow> json" where
  "kinesis_analytics_output_delivery_response_record_json x = JObj
     ([(''recordId'', json_of_option JStr (kaodrr_record_id x)),
      (''result'', json_of_option JStr (kaodrr_result x))])"

definition kinesis_analytics_output_delivery_response_record_of_json :: "json \<Rightarrow> kinesis_analytics_output_delivery_response_record option" where
  "kinesis_analytics_output_delivery_response_record_of_json j = do {
     kvs \<leftarrow> de_fields 0
       [''recordId'', ''result''] j;
     x_record_id \<leftarrow> de_opt_string ''recordId'' kvs;
     x_result \<leftarrow> de_opt_string ''result'' kvs;
     Some \<lparr>kaodrr_record_id = x_record_id, kaodrr_result = x_result\<rparr> }"

lemma kinesis_analytics_output_delivery_response_record_not_null [simp]: "kinesis_analytics_output_delivery_response_record_json x \<noteq> JNull"
  by (simp add: kinesis_analytics_output_delivery_response_record_json_def)

lemma kinesis_analytics_output_delivery_response_record_read [read_back]: "kinesis_analytics_output_delivery_response_record_of_json (kinesis_analytics_output_delivery_response_record_json x) = Some x"
  by (cases x) (simp add: kinesis_analytics_output_delivery_response_record_of_json_def kinesis_analytics_output_delivery_response_record_json_def read_back)

record kinesis_analytics_output_delivery_event =
  kaode_invocation_id :: "string option"
  kaode_application_arn :: "string option"
  kaode_records :: "kinesis_analytics_output_delivery_event_record list"

definition kinesis_analytics_output_delivery_event_json :: "'t event_env \<Rightarrow> kinesis_analytics_output_delivery_event \<Rightarrow> json" where
  "kinesis_analytics_output_delivery_event_json E x = JObj
     ([(''invocationId'', json_of_option JStr (kaode_invocation_id x)),
      (''applicationArn'', json_of_option JStr (kaode_application_arn x)),
      (''records'', json_of_list (kinesis_analytics_output_delivery_event_record_json E) (kaode_records x))])"

definition kinesis_analytics_output_delivery_event_of_json :: "'t event_env \<Rightarrow> json \<Rightarrow> kinesis_analytics_output_delivery_event option" where
  "kinesis_analytics_output_delivery_event_of_json E j = do {
     kvs \<leftarrow> de_fields 3
       [''invocationId'', ''applicationArn'', ''records''] j;
     x_invocation_id \<leftarrow> de_opt_string ''invocationId'' kvs;
     x_application_arn \<leftarrow> de_opt_string ''applicationArn'' kvs;
     x_records \<leftarrow> de_required (de_list (kinesis_analytics_output_delivery_event_record_of_json E)) [''records''] kvs;
     Some \<lparr>kaode_invocation_id = x_invocation_id, kaode_application_arn = x_application_arn,
       kaode_records = x_records\<rparr> }"

lemma kinesis_analytics_output_delivery_event_not_null [simp]: "kinesis_analytics_output_delivery_event_json E x \<noteq> JNull"
  by (simp add: kinesis_analytics_output_delivery_event_json_def)

lemma kinesis_analytics_output_delivery_event_read [read_back]: "event_crates E \<Longrightarrow>kinesis_analytics_output_delivery_event_of_json E (kinesis_analytics_output_delivery_event_json E x) = Some x"
  by (cases x) (simp add: kinesis_analytics_output_delivery_event_of_json_def kinesis_analytics_output_delivery_event_json_def read_back)

record kinesis_analytics_output_delivery_response =
  kaodr_records :: "kinesis_analytics_output_delivery_response_record list"

definition kinesis_analytics_output_delivery_response_json :: "kinesis_analytics_output_delivery_response \<Rightarrow> json" where
  "kinesis_analytics_output_delivery_response_json x = JObj
     ([(''records'', json_of_list kinesis_analytics_output_delivery_response_record_json (kaodr_records x))])"

definition kinesis_analytics_output_delivery_response_of_json :: "json \<Rightarrow> kinesis_analytics_output_delivery_response option" where
  "kinesis_analytics_output_delivery_response_of_json j = do {
     kvs \<leftarrow> de_fields 1
       [''records''] j;
     x_records \<leftarrow> de_required (de_list kinesis_analytics_output_delivery_response_record_of_json) [''records''] kvs;
     Some \<lparr>kaodr_records = x_records\<rparr> }"

lemma kinesis_analytics_output_delivery_response_not_null [simp]: "kinesis_analytics_output_delivery_response_json x \<noteq> JNull"
  by (simp add: kinesis_analytics_output_delivery_response_json_def)

lemma kinesis_analytics_output_delivery_response_read [read_back]: "kinesis_analytics_output_delivery_response_of_json (kinesis_analytics_output_delivery_response_json x) = Some x"
  by (cases x) (simp add: kinesis_analytics_output_delivery_response_of_json_def kinesis_analytics_output_delivery_response_json_def read_back)

subsection \<open>\<^verbatim>\<open>streams\<close>\<close>

record kinesis_batch_item_failure =
  kbif_item_identifier :: "string option"

definition kinesis_batch_item_failure_json :: "kinesis_batch_item_failure \<Rightarrow> json" where
  "kinesis_batch_item_failure_json x = JObj
     ([(''itemIdentifier'', json_of_option JStr (kbif_item_identifier x))])"

definition kinesis_batch_item_failure_of_json :: "json \<Rightarrow> kinesis_batch_item_failure option" where
  "kinesis_batch_item_failure_of_json j = do {
     kvs \<leftarrow> de_fields 0
       [''itemIdentifier''] j;
     x_item_identifier \<leftarrow> de_opt_string ''itemIdentifier'' kvs;
     Some \<lparr>kbif_item_identifier = x_item_identifier\<rparr> }"

lemma kinesis_batch_item_failure_not_null [simp]: "kinesis_batch_item_failure_json x \<noteq> JNull"
  by (simp add: kinesis_batch_item_failure_json_def)

lemma kinesis_batch_item_failure_read [read_back]: "kinesis_batch_item_failure_of_json (kinesis_batch_item_failure_json x) = Some x"
  by (cases x) (simp add: kinesis_batch_item_failure_of_json_def kinesis_batch_item_failure_json_def read_back)

record dynamo_db_batch_item_failure =
  ddbif_item_identifier :: "string option"

definition dynamo_db_batch_item_failure_json :: "dynamo_db_batch_item_failure \<Rightarrow> json" where
  "dynamo_db_batch_item_failure_json x = JObj
     ([(''itemIdentifier'', json_of_option JStr (ddbif_item_identifier x))])"

definition dynamo_db_batch_item_failure_of_json :: "json \<Rightarrow> dynamo_db_batch_item_failure option" where
  "dynamo_db_batch_item_failure_of_json j = do {
     kvs \<leftarrow> de_fields 0
       [''itemIdentifier''] j;
     x_item_identifier \<leftarrow> de_opt_string ''itemIdentifier'' kvs;
     Some \<lparr>ddbif_item_identifier = x_item_identifier\<rparr> }"

lemma dynamo_db_batch_item_failure_not_null [simp]: "dynamo_db_batch_item_failure_json x \<noteq> JNull"
  by (simp add: dynamo_db_batch_item_failure_json_def)

lemma dynamo_db_batch_item_failure_read [read_back]: "dynamo_db_batch_item_failure_of_json (dynamo_db_batch_item_failure_json x) = Some x"
  by (cases x) (simp add: dynamo_db_batch_item_failure_of_json_def dynamo_db_batch_item_failure_json_def read_back)

record sqs_batch_item_failure =
  sbif_item_identifier :: "string option"

definition sqs_batch_item_failure_json :: "sqs_batch_item_failure \<Rightarrow> json" where
  "sqs_batch_item_failure_json x = JObj
     ([(''itemIdentifier'', json_of_option JStr (sbif_item_identifier x))])"

definition sqs_batch_item_failure_of_json :: "json \<Rightarrow> sqs_batch_item_failure option" where
  "sqs_batch_item_failure_of_json j = do {
     kvs \<leftarrow> de_fields 0
       [''itemIdentifier''] j;
     x_item_identifier \<leftarrow> de_opt_string ''itemIdentifier'' kvs;
     Some \<lparr>sbif_item_identifier = x_item_identifier\<rparr> }"

lemma sqs_batch_item_failure_not_null [simp]: "sqs_batch_item_failure_json x \<noteq> JNull"
  by (simp add: sqs_batch_item_failure_json_def)

lemma sqs_batch_item_failure_read [read_back]: "sqs_batch_item_failure_of_json (sqs_batch_item_failure_json x) = Some x"
  by (cases x) (simp add: sqs_batch_item_failure_of_json_def sqs_batch_item_failure_json_def read_back)

record streams_kinesis_event_response =
  sker_batch_item_failures :: "kinesis_batch_item_failure list"

definition streams_kinesis_event_response_json :: "streams_kinesis_event_response \<Rightarrow> json" where
  "streams_kinesis_event_response_json x = JObj
     ([(''batchItemFailures'', json_of_list kinesis_batch_item_failure_json (sker_batch_item_failures x))])"

definition streams_kinesis_event_response_of_json :: "json \<Rightarrow> streams_kinesis_event_response option" where
  "streams_kinesis_event_response_of_json j = do {
     kvs \<leftarrow> de_fields 1
       [''batchItemFailures''] j;
     x_batch_item_failures \<leftarrow> de_required (de_list kinesis_batch_item_failure_of_json) [''batchItemFailures''] kvs;
     Some \<lparr>sker_batch_item_failures = x_batch_item_failures\<rparr> }"

lemma streams_kinesis_event_response_not_null [simp]: "streams_kinesis_event_response_json x \<noteq> JNull"
  by (simp add: streams_kinesis_event_response_json_def)

lemma streams_kinesis_event_response_read [read_back]: "streams_kinesis_event_response_of_json (streams_kinesis_event_response_json x) = Some x"
  by (cases x) (simp add: streams_kinesis_event_response_of_json_def streams_kinesis_event_response_json_def read_back)

record dynamo_db_event_response =
  dder_batch_item_failures :: "dynamo_db_batch_item_failure list"

definition dynamo_db_event_response_json :: "dynamo_db_event_response \<Rightarrow> json" where
  "dynamo_db_event_response_json x = JObj
     ([(''batchItemFailures'', json_of_list dynamo_db_batch_item_failure_json (dder_batch_item_failures x))])"

definition dynamo_db_event_response_of_json :: "json \<Rightarrow> dynamo_db_event_response option" where
  "dynamo_db_event_response_of_json j = do {
     kvs \<leftarrow> de_fields 1
       [''batchItemFailures''] j;
     x_batch_item_failures \<leftarrow> de_required (de_list dynamo_db_batch_item_failure_of_json) [''batchItemFailures''] kvs;
     Some \<lparr>dder_batch_item_failures = x_batch_item_failures\<rparr> }"

lemma dynamo_db_event_response_not_null [simp]: "dynamo_db_event_response_json x \<noteq> JNull"
  by (simp add: dynamo_db_event_response_json_def)

lemma dynamo_db_event_response_read [read_back]: "dynamo_db_event_response_of_json (dynamo_db_event_response_json x) = Some x"
  by (cases x) (simp add: dynamo_db_event_response_of_json_def dynamo_db_event_response_json_def read_back)

record sqs_event_response =
  ser_batch_item_failures :: "sqs_batch_item_failure list"

definition sqs_event_response_json :: "sqs_event_response \<Rightarrow> json" where
  "sqs_event_response_json x = JObj
     ([(''batchItemFailures'', json_of_list sqs_batch_item_failure_json (ser_batch_item_failures x))])"

definition sqs_event_response_of_json :: "json \<Rightarrow> sqs_event_response option" where
  "sqs_event_response_of_json j = do {
     kvs \<leftarrow> de_fields 1
       [''batchItemFailures''] j;
     x_batch_item_failures \<leftarrow> de_required (de_list sqs_batch_item_failure_of_json) [''batchItemFailures''] kvs;
     Some \<lparr>ser_batch_item_failures = x_batch_item_failures\<rparr> }"

lemma sqs_event_response_not_null [simp]: "sqs_event_response_json x \<noteq> JNull"
  by (simp add: sqs_event_response_json_def)

lemma sqs_event_response_read [read_back]: "sqs_event_response_of_json (sqs_event_response_json x) = Some x"
  by (cases x) (simp add: sqs_event_response_of_json_def sqs_event_response_json_def read_back)

subsection \<open>\<^verbatim>\<open>iot_1_click\<close>\<close>

record io_t_one_click_button_clicked =
  itocbc_click_type :: "string option"
  itocbc_reported_time :: "string option"

definition io_t_one_click_button_clicked_json :: "io_t_one_click_button_clicked \<Rightarrow> json" where
  "io_t_one_click_button_clicked_json x = JObj
     ([(''clickType'', json_of_option JStr (itocbc_click_type x)),
      (''reportedTime'', json_of_option JStr (itocbc_reported_time x))])"

definition io_t_one_click_button_clicked_of_json :: "json \<Rightarrow> io_t_one_click_button_clicked option" where
  "io_t_one_click_button_clicked_of_json j = do {
     kvs \<leftarrow> de_fields 0
       [''clickType'', ''reportedTime''] j;
     x_click_type \<leftarrow> de_opt_string ''clickType'' kvs;
     x_reported_time \<leftarrow> de_opt_string ''reportedTime'' kvs;
     Some \<lparr>itocbc_click_type = x_click_type, itocbc_reported_time = x_reported_time\<rparr> }"

lemma io_t_one_click_button_clicked_not_null [simp]: "io_t_one_click_button_clicked_json x \<noteq> JNull"
  by (simp add: io_t_one_click_button_clicked_json_def)

lemma io_t_one_click_button_clicked_read [read_back]: "io_t_one_click_button_clicked_of_json (io_t_one_click_button_clicked_json x) = Some x"
  by (cases x) (simp add: io_t_one_click_button_clicked_of_json_def io_t_one_click_button_clicked_json_def read_back)

record io_t_one_click_device_info =
  itocdi_attributes :: "(string \<times> string) list"
  itocdi_type :: "string option"
  itocdi_device_id :: "string option"
  itocdi_remaining_life :: f64

definition io_t_one_click_device_info_json :: "io_t_one_click_device_info \<Rightarrow> json" where
  "io_t_one_click_device_info_json x = JObj
     ([(''attributes'', json_of_map JStr (itocdi_attributes x)),
      (''type'', json_of_option JStr (itocdi_type x)),
      (''deviceId'', json_of_option JStr (itocdi_device_id x)),
      (''remainingLife'', json_of_f64 (itocdi_remaining_life x))])"

definition io_t_one_click_device_info_of_json :: "json \<Rightarrow> io_t_one_click_device_info option" where
  "io_t_one_click_device_info_of_json j = do {
     kvs \<leftarrow> de_fields 4
       [''attributes'', ''type'', ''deviceId'', ''remainingLife''] j;
     x_attributes \<leftarrow> de_default (de_nullish (de_hash_map de_string) []) [] [''attributes''] kvs;
     x_type \<leftarrow> de_opt_string ''type'' kvs;
     x_device_id \<leftarrow> de_opt_string ''deviceId'' kvs;
     x_remaining_life \<leftarrow> de_required de_f64 [''remainingLife''] kvs;
     Some \<lparr>itocdi_attributes = x_attributes, itocdi_type = x_type, itocdi_device_id = x_device_id,
       itocdi_remaining_life = x_remaining_life\<rparr> }"

definition io_t_one_click_device_info_good :: "io_t_one_click_device_info \<Rightarrow> bool" where
  "io_t_one_click_device_info_good x \<longleftrightarrow>
     good_map (\<lambda>_. True) (itocdi_attributes x) \<and>
     f64_finite (itocdi_remaining_life x)"

lemma io_t_one_click_device_info_not_null [simp]: "io_t_one_click_device_info_json x \<noteq> JNull"
  by (simp add: io_t_one_click_device_info_json_def)

lemma io_t_one_click_device_info_read [read_back]: "io_t_one_click_device_info_good x \<Longrightarrow>io_t_one_click_device_info_of_json (io_t_one_click_device_info_json x) = Some x"
  by (cases x) (clarsimp simp: io_t_one_click_device_info_of_json_def io_t_one_click_device_info_json_def io_t_one_click_device_info_good_def read_back)

lemma io_t_one_click_device_info_typed: "typed io_t_one_click_device_info_good io_t_one_click_device_info_of_json"
  unfolding typed_def io_t_one_click_device_info_of_json_def io_t_one_click_device_info_good_def
  by (auto simp: bind_eq_Some_conv dest!: typed_default [OF typed_nullish [OF typed_hash_map [OF typed_True [of "de_string"]] good_nil(1)] good_nil(1)]
      typed_required [OF typed_f64])

record io_t_one_click_placement_info =
  itocpi_project_name :: "string option"
  itocpi_placement_name :: "string option"
  itocpi_attributes :: "(string \<times> string) list"
  itocpi_devices :: "(string \<times> string) list"

definition io_t_one_click_placement_info_json :: "io_t_one_click_placement_info \<Rightarrow> json" where
  "io_t_one_click_placement_info_json x = JObj
     ([(''projectName'', json_of_option JStr (itocpi_project_name x)),
      (''placementName'', json_of_option JStr (itocpi_placement_name x)),
      (''attributes'', json_of_map JStr (itocpi_attributes x)),
      (''devices'', json_of_map JStr (itocpi_devices x))])"

definition io_t_one_click_placement_info_of_json :: "json \<Rightarrow> io_t_one_click_placement_info option" where
  "io_t_one_click_placement_info_of_json j = do {
     kvs \<leftarrow> de_fields 0
       [''projectName'', ''placementName'', ''attributes'', ''devices''] j;
     x_project_name \<leftarrow> de_opt_string ''projectName'' kvs;
     x_placement_name \<leftarrow> de_opt_string ''placementName'' kvs;
     x_attributes \<leftarrow> de_default (de_nullish (de_hash_map de_string) []) [] [''attributes''] kvs;
     x_devices \<leftarrow> de_default (de_nullish (de_hash_map de_string) []) [] [''devices''] kvs;
     Some \<lparr>itocpi_project_name = x_project_name, itocpi_placement_name = x_placement_name,
       itocpi_attributes = x_attributes, itocpi_devices = x_devices\<rparr> }"

definition io_t_one_click_placement_info_good :: "io_t_one_click_placement_info \<Rightarrow> bool" where
  "io_t_one_click_placement_info_good x \<longleftrightarrow>
     good_map (\<lambda>_. True) (itocpi_attributes x) \<and>
     good_map (\<lambda>_. True) (itocpi_devices x)"

lemma io_t_one_click_placement_info_not_null [simp]: "io_t_one_click_placement_info_json x \<noteq> JNull"
  by (simp add: io_t_one_click_placement_info_json_def)

lemma io_t_one_click_placement_info_read [read_back]: "io_t_one_click_placement_info_good x \<Longrightarrow>io_t_one_click_placement_info_of_json (io_t_one_click_placement_info_json x) = Some x"
  by (cases x) (clarsimp simp: io_t_one_click_placement_info_of_json_def io_t_one_click_placement_info_json_def io_t_one_click_placement_info_good_def read_back)

lemma io_t_one_click_placement_info_typed: "typed io_t_one_click_placement_info_good io_t_one_click_placement_info_of_json"
  unfolding typed_def io_t_one_click_placement_info_of_json_def io_t_one_click_placement_info_good_def
  by (auto simp: bind_eq_Some_conv dest!: typed_default [OF typed_nullish [OF typed_hash_map [OF typed_True [of "de_string"]] good_nil(1)] good_nil(1)])

record io_t_one_click_device_event =
  itocde_button_clicked :: io_t_one_click_button_clicked

definition io_t_one_click_device_event_json :: "io_t_one_click_device_event \<Rightarrow> json" where
  "io_t_one_click_device_event_json x = JObj
     ([(''buttonClicked'', io_t_one_click_button_clicked_json (itocde_button_clicked x))])"

definition io_t_one_click_device_event_of_json :: "json \<Rightarrow> io_t_one_click_device_event option" where
  "io_t_one_click_device_event_of_json j = do {
     kvs \<leftarrow> de_fields 1
       [''buttonClicked''] j;
     x_button_clicked \<leftarrow> de_required io_t_one_click_button_clicked_of_json [''buttonClicked''] kvs;
     Some \<lparr>itocde_button_clicked = x_button_clicked\<rparr> }"

lemma io_t_one_click_device_event_not_null [simp]: "io_t_one_click_device_event_json x \<noteq> JNull"
  by (simp add: io_t_one_click_device_event_json_def)

lemma io_t_one_click_device_event_read [read_back]: "io_t_one_click_device_event_of_json (io_t_one_click_device_event_json x) = Some x"
  by (cases x) (simp add: io_t_one_click_device_event_of_json_def io_t_one_click_device_event_json_def read_back)

record io_t_one_click_event =
  itoce_device_event :: io_t_one_click_device_event
  itoce_device_info :: io_t_one_click_device_info
  itoce_placement_info :: io_t_one_click_placement_info

definition io_t_one_click_event_json :: "io_t_one_click_event \<Rightarrow> json" where
  "io_t_one_click_event_json x = JObj
     ([(''deviceEvent'', io_t_one_click_device_event_json (itoce_device_event x)),
      (''deviceInfo'', io_t_one_click_device_info_json (itoce_device_info x)),
      (''placementInfo'', io_t_one_click_placement_info_json (itoce_placement_info x))])"

definition io_t_one_click_event_of_json :: "json \<Rightarrow> io_t_one_click_event option" where
  "io_t_one_click_event_of_json j = do {
     kvs \<leftarrow> de_fields 3
       [''deviceEvent'', ''deviceInfo'', ''placementInfo''] j;
     x_device_event \<leftarrow> de_required io_t_one_click_device_event_of_json [''deviceEvent''] kvs;
     x_device_info \<leftarrow> de_required io_t_one_click_device_info_of_json [''deviceInfo''] kvs;
     x_placement_info \<leftarrow> de_required io_t_one_click_placement_info_of_json [''placementInfo''] kvs;
     Some \<lparr>itoce_device_event = x_device_event, itoce_device_info = x_device_info,
       itoce_placement_info = x_placement_info\<rparr> }"

definition io_t_one_click_event_good :: "io_t_one_click_event \<Rightarrow> bool" where
  "io_t_one_click_event_good x \<longleftrightarrow>
     io_t_one_click_device_info_good (itoce_device_info x) \<and>
     io_t_one_click_placement_info_good (itoce_placement_info x)"

lemma io_t_one_click_event_not_null [simp]: "io_t_one_click_event_json x \<noteq> JNull"
  by (simp add: io_t_one_click_event_json_def)

lemma io_t_one_click_event_read [read_back]: "io_t_one_click_event_good x \<Longrightarrow>io_t_one_click_event_of_json (io_t_one_click_event_json x) = Some x"
  by (cases x) (clarsimp simp: io_t_one_click_event_of_json_def io_t_one_click_event_json_def io_t_one_click_event_good_def read_back)

lemma io_t_one_click_event_typed: "typed io_t_one_click_event_good io_t_one_click_event_of_json"
  unfolding typed_def io_t_one_click_event_of_json_def io_t_one_click_event_good_def
  by (auto simp: bind_eq_Some_conv dest!: typed_required [OF io_t_one_click_device_info_typed]
      typed_required [OF io_t_one_click_placement_info_typed])

subsection \<open>\<^verbatim>\<open>iot_button\<close>\<close>

record io_t_button_event =
  itbe_serial_number :: "string option"
  itbe_click_type :: "string option"
  itbe_battery_voltage :: "string option"

definition io_t_button_event_json :: "io_t_button_event \<Rightarrow> json" where
  "io_t_button_event_json x = JObj
     ([(''serialNumber'', json_of_option JStr (itbe_serial_number x)),
      (''clickType'', json_of_option JStr (itbe_click_type x)),
      (''batteryVoltage'', json_of_option JStr (itbe_battery_voltage x))])"

definition io_t_button_event_of_json :: "json \<Rightarrow> io_t_button_event option" where
  "io_t_button_event_of_json j = do {
     kvs \<leftarrow> de_fields 0
       [''serialNumber'', ''clickType'', ''batteryVoltage''] j;
     x_serial_number \<leftarrow> de_opt_string ''serialNumber'' kvs;
     x_click_type \<leftarrow> de_opt_string ''clickType'' kvs;
     x_battery_voltage \<leftarrow> de_opt_string ''batteryVoltage'' kvs;
     Some \<lparr>itbe_serial_number = x_serial_number, itbe_click_type = x_click_type,
       itbe_battery_voltage = x_battery_voltage\<rparr> }"

lemma io_t_button_event_not_null [simp]: "io_t_button_event_json x \<noteq> JNull"
  by (simp add: io_t_button_event_json_def)

lemma io_t_button_event_read [read_back]: "io_t_button_event_of_json (io_t_button_event_json x) = Some x"
  by (cases x) (simp add: io_t_button_event_of_json_def io_t_button_event_json_def read_back)

subsection \<open>Reading what was written\<close>

text \<open>
  The events of the message brokers, Kinesis Analytics, the batch responses of the streams and
  IoT buttons: what is read is well formed, and what it is written to is read as the same event.
\<close>

lemma stream_events_reparse:
  assumes "event_crates E"
  shows "reparses active_mq_event_good active_mq_event_of_json active_mq_event_json \<and>
    reparses rabbit_mq_event_good rabbit_mq_event_of_json rabbit_mq_event_json \<and>
    reparses (\<lambda>_. True) (kinesis_analytics_output_delivery_event_of_json E) (kinesis_analytics_output_delivery_event_json E) \<and>
    reparses (\<lambda>_. True) kinesis_analytics_output_delivery_response_of_json kinesis_analytics_output_delivery_response_json \<and>
    reparses (\<lambda>_. True) streams_kinesis_event_response_of_json streams_kinesis_event_response_json \<and>
    reparses (\<lambda>_. True) dynamo_db_event_response_of_json dynamo_db_event_response_json \<and>
    reparses (\<lambda>_. True) sqs_event_response_of_json sqs_event_response_json \<and>
    reparses io_t_one_click_event_good io_t_one_click_event_of_json io_t_one_click_event_json \<and>
    reparses (\<lambda>_. True) io_t_button_event_of_json io_t_button_event_json"
  by (intro conjI reparsesI typed_True typed_nn active_mq_event_typed
      rabbit_mq_event_typed
      io_t_one_click_event_typed)
    (auto simp: assms read_back)


definition button_example :: json where
  "button_example = JObj [(''serialNumber'', JStr ''g''), (''clickType'', JStr ''SINGLE''), (''more'', JNull)]"

theorem stream_events_reparse_witness:
  "\<exists>x. io_t_button_event_of_json button_example = Some x \<and> itbe_click_type x = Some ''SINGLE'' \<and>
     io_t_button_event_of_json (io_t_button_event_json x) = Some x"
proof -
  have "reparses (\<lambda>_. True) io_t_button_event_of_json io_t_button_event_json"
    using stream_events_reparse [where E = ref_event_env, OF ref_events.event_crates_axioms] by blast
  moreover have "map_option itbe_click_type (io_t_button_event_of_json button_example) = Some (Some ''SINGLE'')"
    by code_simp
  ultimately show ?thesis by (auto dest: reparsesD)
qed

end
