(* ===== verification/CloudWatchEvents.thy ===== *)
theory CloudWatchEvents
  imports EventSerde
begin

text \<open>
  The events of CloudWatch and EventBridge with the details of each service, and its logs and alarms (\<^verbatim>\<open>lambda-events/src/event\<close>).
  Each structure has its record, the serialiser and the deserialiser that \<^verbatim>\<open>derive\<close>
  generates from its attributes, well-formedness where its fields restrict it, and the lemmas that
  what is read is well formed and what is written is read back. Structures are in the order
  their fields need.
\<close>

subsection \<open>\<^verbatim>\<open>cloudwatch_events\<close>\<close>

record ('t, 'p) cloud_watch_event =
  cwe_version :: "string option"
  cwe_id :: "string option"
  cwe_detail_type :: "string option"
  cwe_source :: "string option"
  cwe_account_id :: "string option"
  cwe_time :: 't
  cwe_region :: "string option"
  cwe_resources :: "string list"
  cwe_detail :: "'p option"

definition cloud_watch_event_json :: "'t event_env \<Rightarrow> ('p \<Rightarrow> json) \<Rightarrow> ('t, 'p) cloud_watch_event \<Rightarrow> json" where
  "cloud_watch_event_json E gp x = JObj
     ([(''version'', json_of_option JStr (cwe_version x)),
      (''id'', json_of_option JStr (cwe_id x)),
      (''detail-type'', json_of_option JStr (cwe_detail_type x)),
      (''source'', json_of_option JStr (cwe_source x)),
      (''account'', json_of_option JStr (cwe_account_id x)),
      (''time'', json_of_time E (cwe_time x)),
      (''region'', json_of_option JStr (cwe_region x)),
      (''resources'', json_of_list JStr (cwe_resources x)),
      (''detail'', json_of_option gp (cwe_detail x))])"

definition cloud_watch_event_of_json :: "'t event_env \<Rightarrow> (json \<Rightarrow> 'p option) \<Rightarrow> json \<Rightarrow> ('t, 'p) cloud_watch_event option" where
  "cloud_watch_event_of_json E fp j = do {
     kvs \<leftarrow> de_fields 9
       [''version'', ''id'', ''detail-type'', ''source'', ''account'', ''time'', ''region'',
        ''resources'', ''detail''] j;
     x_version \<leftarrow> de_opt_string ''version'' kvs;
     x_id \<leftarrow> de_opt_string ''id'' kvs;
     x_detail_type \<leftarrow> de_opt_string ''detail-type'' kvs;
     x_source \<leftarrow> de_opt_string ''source'' kvs;
     x_account_id \<leftarrow> de_opt_string ''account'' kvs;
     x_time \<leftarrow> de_required (time_of_json E) [''time''] kvs;
     x_region \<leftarrow> de_opt_string ''region'' kvs;
     x_resources \<leftarrow> de_required (de_list de_string) [''resources''] kvs;
     x_detail \<leftarrow> de_optional fp [''detail''] kvs;
     Some \<lparr>cwe_version = x_version, cwe_id = x_id, cwe_detail_type = x_detail_type,
       cwe_source = x_source, cwe_account_id = x_account_id, cwe_time = x_time,
       cwe_region = x_region, cwe_resources = x_resources, cwe_detail = x_detail\<rparr> }"

definition cloud_watch_event_good :: "('p \<Rightarrow> bool) \<Rightarrow> ('t, 'p) cloud_watch_event \<Rightarrow> bool" where
  "cloud_watch_event_good Pp x \<longleftrightarrow>
     good_option Pp (cwe_detail x)"

lemma cloud_watch_event_not_null [simp]: "cloud_watch_event_json E gp x \<noteq> JNull"
  by (simp add: cloud_watch_event_json_def)

lemma cloud_watch_event_read [read_back]: "cloud_watch_event_good Pp x \<Longrightarrow> event_crates E \<Longrightarrow> (\<And>x. Pp x \<Longrightarrow> gp x \<noteq> JNull \<and> fp (gp x) = Some x) \<Longrightarrow>cloud_watch_event_of_json E fp (cloud_watch_event_json E gp x) = Some x"
  by (cases x) (simp add: cloud_watch_event_of_json_def cloud_watch_event_json_def cloud_watch_event_good_def read_back)

lemma cloud_watch_event_typed:
  assumes typed_p: "typed_nn Pp fp" shows "typed (cloud_watch_event_good Pp) (cloud_watch_event_of_json E fp)"
  unfolding typed_def cloud_watch_event_of_json_def cloud_watch_event_good_def
  by (auto simp: bind_eq_Some_conv dest!: typed_nn_optional [OF typed_p])

subsection \<open>\<^verbatim>\<open>cloudwatch_events/cloudtrail\<close>\<close>

record session_issuer =
  si_type :: string
  si_user_name :: "string option"
  si_principal_id :: string
  si_arn :: string
  si_account_id :: string

definition session_issuer_json :: "session_issuer \<Rightarrow> json" where
  "session_issuer_json x = JObj
     ([(''type'', JStr (si_type x)),
      (''userName'', json_of_option JStr (si_user_name x)),
      (''principalId'', JStr (si_principal_id x)),
      (''arn'', JStr (si_arn x)),
      (''accountId'', JStr (si_account_id x))])"

definition session_issuer_of_json :: "json \<Rightarrow> session_issuer option" where
  "session_issuer_of_json j = do {
     kvs \<leftarrow> de_fields 5
       [''type'', ''userName'', ''principalId'', ''arn'', ''accountId''] j;
     x_type \<leftarrow> de_required de_string [''type''] kvs;
     x_user_name \<leftarrow> de_opt_string ''userName'' kvs;
     x_principal_id \<leftarrow> de_required de_string [''principalId''] kvs;
     x_arn \<leftarrow> de_required de_string [''arn''] kvs;
     x_account_id \<leftarrow> de_required de_string [''accountId''] kvs;
     Some \<lparr>si_type = x_type, si_user_name = x_user_name, si_principal_id = x_principal_id,
       si_arn = x_arn, si_account_id = x_account_id\<rparr> }"

lemma session_issuer_not_null [simp]: "session_issuer_json x \<noteq> JNull"
  by (simp add: session_issuer_json_def)

lemma session_issuer_read [read_back]: "session_issuer_of_json (session_issuer_json x) = Some x"
  by (cases x) (simp add: session_issuer_of_json_def session_issuer_json_def read_back)

record web_id_federation_data =
  wifd_federated_provider :: "string option"
  wifd_attributes :: "string option"

definition web_id_federation_data_json :: "web_id_federation_data \<Rightarrow> json" where
  "web_id_federation_data_json x = JObj
     ([(''federatedProvider'', json_of_option JStr (wifd_federated_provider x)),
      (''attributes'', json_of_option JStr (wifd_attributes x))])"

definition web_id_federation_data_of_json :: "json \<Rightarrow> web_id_federation_data option" where
  "web_id_federation_data_of_json j = do {
     kvs \<leftarrow> de_fields 2
       [''federatedProvider'', ''attributes''] j;
     x_federated_provider \<leftarrow> de_opt_string ''federatedProvider'' kvs;
     x_attributes \<leftarrow> de_opt_string ''attributes'' kvs;
     Some \<lparr>wifd_federated_provider = x_federated_provider, wifd_attributes = x_attributes\<rparr> }"

lemma web_id_federation_data_not_null [simp]: "web_id_federation_data_json x \<noteq> JNull"
  by (simp add: web_id_federation_data_json_def)

lemma web_id_federation_data_read [read_back]: "web_id_federation_data_of_json (web_id_federation_data_json x) = Some x"
  by (cases x) (simp add: web_id_federation_data_of_json_def web_id_federation_data_json_def read_back)

record 't attributes =
  at_mfa_authenticated :: string
  at_creation_date :: 't

definition attributes_json :: "'t event_env \<Rightarrow> 't attributes \<Rightarrow> json" where
  "attributes_json E x = JObj
     ([(''mfaAuthenticated'', JStr (at_mfa_authenticated x)),
      (''creationDate'', json_of_time E (at_creation_date x))])"

definition attributes_of_json :: "'t event_env \<Rightarrow> json \<Rightarrow> 't attributes option" where
  "attributes_of_json E j = do {
     kvs \<leftarrow> de_fields 2
       [''mfaAuthenticated'', ''creationDate''] j;
     x_mfa_authenticated \<leftarrow> de_required de_string [''mfaAuthenticated''] kvs;
     x_creation_date \<leftarrow> de_required (time_of_json E) [''creationDate''] kvs;
     Some \<lparr>at_mfa_authenticated = x_mfa_authenticated, at_creation_date = x_creation_date\<rparr> }"

lemma attributes_not_null [simp]: "attributes_json E x \<noteq> JNull"
  by (simp add: attributes_json_def)

lemma attributes_read [read_back]: "event_crates E \<Longrightarrow>attributes_of_json E (attributes_json E x) = Some x"
  by (cases x) (simp add: attributes_of_json_def attributes_json_def read_back)

record 't session_context =
  sc_session_issuer :: "session_issuer option"
  sc_web_id_federation_data :: "web_id_federation_data option"
  sc_attributes :: "'t attributes"
  sc_source_identity :: "string option"
  sc_ec2_role_delivery :: "string option"

definition session_context_json :: "'t event_env \<Rightarrow> 't session_context \<Rightarrow> json" where
  "session_context_json E x = JObj
     ([(''sessionIssuer'', json_of_option session_issuer_json (sc_session_issuer x)),
      (''webIdFederationData'', json_of_option web_id_federation_data_json (sc_web_id_federation_data x)),
      (''attributes'', attributes_json E (sc_attributes x)),
      (''sourceIdentity'', json_of_option JStr (sc_source_identity x)),
      (''ec2RoleDelivery'', json_of_option JStr (sc_ec2_role_delivery x))])"

definition session_context_of_json :: "'t event_env \<Rightarrow> json \<Rightarrow> 't session_context option" where
  "session_context_of_json E j = do {
     kvs \<leftarrow> de_fields 5
       [''sessionIssuer'', ''webIdFederationData'', ''attributes'', ''sourceIdentity'',
        ''ec2RoleDelivery''] j;
     x_session_issuer \<leftarrow> de_optional session_issuer_of_json [''sessionIssuer''] kvs;
     x_web_id_federation_data \<leftarrow> de_optional web_id_federation_data_of_json [''webIdFederationData''] kvs;
     x_attributes \<leftarrow> de_required (attributes_of_json E) [''attributes''] kvs;
     x_source_identity \<leftarrow> de_opt_string ''sourceIdentity'' kvs;
     x_ec2_role_delivery \<leftarrow> de_opt_string ''ec2RoleDelivery'' kvs;
     Some \<lparr>sc_session_issuer = x_session_issuer,
       sc_web_id_federation_data = x_web_id_federation_data, sc_attributes = x_attributes,
       sc_source_identity = x_source_identity, sc_ec2_role_delivery = x_ec2_role_delivery\<rparr> }"

lemma session_context_not_null [simp]: "session_context_json E x \<noteq> JNull"
  by (simp add: session_context_json_def)

lemma session_context_read [read_back]: "event_crates E \<Longrightarrow>session_context_of_json E (session_context_json E x) = Some x"
  by (cases x) (simp add: session_context_of_json_def session_context_json_def read_back)

record on_behalf_of =
  obo_user_id :: string
  obo_identity_store_arn :: string

definition on_behalf_of_json :: "on_behalf_of \<Rightarrow> json" where
  "on_behalf_of_json x = JObj
     ([(''userId'', JStr (obo_user_id x)),
      (''identityStoreArn'', JStr (obo_identity_store_arn x))])"

definition on_behalf_of_of_json :: "json \<Rightarrow> on_behalf_of option" where
  "on_behalf_of_of_json j = do {
     kvs \<leftarrow> de_fields 2
       [''userId'', ''identityStoreArn''] j;
     x_user_id \<leftarrow> de_required de_string [''userId''] kvs;
     x_identity_store_arn \<leftarrow> de_required de_string [''identityStoreArn''] kvs;
     Some \<lparr>obo_user_id = x_user_id, obo_identity_store_arn = x_identity_store_arn\<rparr> }"

lemma on_behalf_of_not_null [simp]: "on_behalf_of_json x \<noteq> JNull"
  by (simp add: on_behalf_of_json_def)

lemma on_behalf_of_read [read_back]: "on_behalf_of_of_json (on_behalf_of_json x) = Some x"
  by (cases x) (simp add: on_behalf_of_of_json_def on_behalf_of_json_def read_back)

record 't user_identity =
  ui_type :: string
  ui_account_id :: "string option"
  ui_arn :: "string option"
  ui_credential_id :: "string option"
  ui_invoked_by :: "string option"
  ui_principal_id :: "string option"
  ui_session_context :: "('t session_context) option"
  ui_user_name :: "string option"
  ui_on_behalf_of :: "on_behalf_of option"

definition user_identity_json :: "'t event_env \<Rightarrow> 't user_identity \<Rightarrow> json" where
  "user_identity_json E x = JObj
     ([(''type'', JStr (ui_type x)),
      (''accountId'', json_of_option JStr (ui_account_id x)),
      (''arn'', json_of_option JStr (ui_arn x)),
      (''credentialId'', json_of_option JStr (ui_credential_id x)),
      (''invokedBy'', json_of_option JStr (ui_invoked_by x)),
      (''principalId'', json_of_option JStr (ui_principal_id x)),
      (''sessionContext'', json_of_option (session_context_json E) (ui_session_context x)),
      (''userName'', json_of_option JStr (ui_user_name x)),
      (''onBehalfOf'', json_of_option on_behalf_of_json (ui_on_behalf_of x))])"

definition user_identity_of_json :: "'t event_env \<Rightarrow> json \<Rightarrow> 't user_identity option" where
  "user_identity_of_json E j = do {
     kvs \<leftarrow> de_fields 9
       [''type'', ''accountId'', ''arn'', ''credentialId'', ''invokedBy'', ''principalId'',
        ''sessionContext'', ''userName'', ''onBehalfOf''] j;
     x_type \<leftarrow> de_required de_string [''type''] kvs;
     x_account_id \<leftarrow> de_opt_string ''accountId'' kvs;
     x_arn \<leftarrow> de_opt_string ''arn'' kvs;
     x_credential_id \<leftarrow> de_opt_string ''credentialId'' kvs;
     x_invoked_by \<leftarrow> de_opt_string ''invokedBy'' kvs;
     x_principal_id \<leftarrow> de_opt_string ''principalId'' kvs;
     x_session_context \<leftarrow> de_optional (session_context_of_json E) [''sessionContext''] kvs;
     x_user_name \<leftarrow> de_opt_string ''userName'' kvs;
     x_on_behalf_of \<leftarrow> de_optional on_behalf_of_of_json [''onBehalfOf''] kvs;
     Some \<lparr>ui_type = x_type, ui_account_id = x_account_id, ui_arn = x_arn,
       ui_credential_id = x_credential_id, ui_invoked_by = x_invoked_by,
       ui_principal_id = x_principal_id, ui_session_context = x_session_context,
       ui_user_name = x_user_name, ui_on_behalf_of = x_on_behalf_of\<rparr> }"

lemma user_identity_not_null [simp]: "user_identity_json E x \<noteq> JNull"
  by (simp add: user_identity_json_def)

lemma user_identity_read [read_back]: "event_crates E \<Longrightarrow>user_identity_of_json E (user_identity_json E x) = Some x"
  by (cases x) (simp add: user_identity_of_json_def user_identity_json_def read_back)

record ('t, 'p, 'q) awsapi_call =
  aca_event_version :: string
  aca_user_identity :: "'t user_identity"
  aca_event_time :: string
  aca_event_source :: string
  aca_event_name :: string
  aca_aws_region :: string
  aca_source_ipaddress :: string
  aca_user_agent :: string
  aca_request_parameters :: 'p
  aca_response_elements :: "'q option"
  aca_additional_event_data :: "json option"
  aca_request_id :: string
  aca_event_id :: string
  aca_event_type :: string

definition awsapi_call_json :: "'t event_env \<Rightarrow> ('p \<Rightarrow> json) \<Rightarrow> ('q \<Rightarrow> json) \<Rightarrow> ('t, 'p, 'q) awsapi_call \<Rightarrow> json" where
  "awsapi_call_json E gp gq x = JObj
     ([(''eventVersion'', JStr (aca_event_version x)),
      (''userIdentity'', user_identity_json E (aca_user_identity x)),
      (''eventTime'', JStr (aca_event_time x)),
      (''eventSource'', JStr (aca_event_source x)),
      (''eventName'', JStr (aca_event_name x)),
      (''awsRegion'', JStr (aca_aws_region x)),
      (''sourceIPAddress'', JStr (aca_source_ipaddress x)),
      (''userAgent'', JStr (aca_user_agent x)),
      (''requestParameters'', gp (aca_request_parameters x)),
      (''responseElements'', json_of_option gq (aca_response_elements x)),
      (''additionalEventData'', json_of_option (\<lambda>v. v) (aca_additional_event_data x)),
      (''requestID'', JStr (aca_request_id x)),
      (''eventID'', JStr (aca_event_id x)),
      (''eventType'', JStr (aca_event_type x))])"

definition awsapi_call_of_json :: "'t event_env \<Rightarrow> (json \<Rightarrow> 'p option) \<Rightarrow> (json \<Rightarrow> 'q option) \<Rightarrow> json \<Rightarrow> ('t, 'p, 'q) awsapi_call option" where
  "awsapi_call_of_json E fp fq j = do {
     kvs \<leftarrow> de_fields 14
       [''eventVersion'', ''userIdentity'', ''eventTime'', ''eventSource'', ''eventName'',
        ''awsRegion'', ''sourceIPAddress'', ''userAgent'', ''requestParameters'',
        ''responseElements'', ''additionalEventData'', ''requestID'', ''eventID'', ''eventType''] j;
     x_event_version \<leftarrow> de_required de_string [''eventVersion''] kvs;
     x_user_identity \<leftarrow> de_required (user_identity_of_json E) [''userIdentity''] kvs;
     x_event_time \<leftarrow> de_required de_string [''eventTime''] kvs;
     x_event_source \<leftarrow> de_required de_string [''eventSource''] kvs;
     x_event_name \<leftarrow> de_required de_string [''eventName''] kvs;
     x_aws_region \<leftarrow> de_required de_string [''awsRegion''] kvs;
     x_source_ipaddress \<leftarrow> de_required de_string [''sourceIPAddress''] kvs;
     x_user_agent \<leftarrow> de_required de_string [''userAgent''] kvs;
     x_request_parameters \<leftarrow> de_required fp [''requestParameters''] kvs;
     x_response_elements \<leftarrow> de_optional fq [''responseElements''] kvs;
     x_additional_event_data \<leftarrow> de_optional Some [''additionalEventData''] kvs;
     x_request_id \<leftarrow> de_required de_string [''requestID''] kvs;
     x_event_id \<leftarrow> de_required de_string [''eventID''] kvs;
     x_event_type \<leftarrow> de_required de_string [''eventType''] kvs;
     Some \<lparr>aca_event_version = x_event_version, aca_user_identity = x_user_identity,
       aca_event_time = x_event_time, aca_event_source = x_event_source,
       aca_event_name = x_event_name, aca_aws_region = x_aws_region,
       aca_source_ipaddress = x_source_ipaddress, aca_user_agent = x_user_agent,
       aca_request_parameters = x_request_parameters,
       aca_response_elements = x_response_elements,
       aca_additional_event_data = x_additional_event_data, aca_request_id = x_request_id,
       aca_event_id = x_event_id, aca_event_type = x_event_type\<rparr> }"

definition awsapi_call_good :: "('p \<Rightarrow> bool) \<Rightarrow> ('q \<Rightarrow> bool) \<Rightarrow> ('t, 'p, 'q) awsapi_call \<Rightarrow> bool" where
  "awsapi_call_good Pp Pq x \<longleftrightarrow>
     Pp (aca_request_parameters x) \<and>
     good_option Pq (aca_response_elements x) \<and>
     aca_additional_event_data x \<noteq> Some JNull"

lemma awsapi_call_not_null [simp]: "awsapi_call_json E gp gq x \<noteq> JNull"
  by (simp add: awsapi_call_json_def)

lemma awsapi_call_read [read_back]: "awsapi_call_good Pp Pq x \<Longrightarrow> event_crates E \<Longrightarrow> (\<And>x. Pp x \<Longrightarrow> fp (gp x) = Some x) \<Longrightarrow> (\<And>x. Pq x \<Longrightarrow> gq x \<noteq> JNull \<and> fq (gq x) = Some x) \<Longrightarrow>awsapi_call_of_json E fp fq (awsapi_call_json E gp gq x) = Some x"
  by (cases x) (clarsimp simp: awsapi_call_of_json_def awsapi_call_json_def awsapi_call_good_def read_back)

lemma awsapi_call_typed:
  assumes typed_p: "typed Pp fp" and typed_q: "typed_nn Pq fq" shows "typed (awsapi_call_good Pp Pq) (awsapi_call_of_json E fp fq)"
  unfolding typed_def awsapi_call_of_json_def awsapi_call_good_def
  by (auto simp: bind_eq_Some_conv dest!: typed_required [OF typed_p]
      typed_nn_optional [OF typed_q]
      typed_optional_value)

subsection \<open>\<^verbatim>\<open>cloudwatch_events/codedeploy\<close>\<close>

record state_change_notification =
  scn_instance_group_id :: string
  scn_region :: string
  scn_application :: string
  scn_deployment_id :: string
  scn_state :: string
  scn_deployment_group :: string

definition state_change_notification_json :: "state_change_notification \<Rightarrow> json" where
  "state_change_notification_json x = JObj
     ([(''instanceGroupId'', JStr (scn_instance_group_id x)),
      (''region'', JStr (scn_region x)),
      (''application'', JStr (scn_application x)),
      (''deploymentId'', JStr (scn_deployment_id x)),
      (''state'', JStr (scn_state x)),
      (''deploymentGroup'', JStr (scn_deployment_group x))])"

definition state_change_notification_of_json :: "json \<Rightarrow> state_change_notification option" where
  "state_change_notification_of_json j = do {
     kvs \<leftarrow> de_fields 6
       [''instanceGroupId'', ''region'', ''application'', ''deploymentId'', ''state'',
        ''deploymentGroup''] j;
     x_instance_group_id \<leftarrow> de_required de_string [''instanceGroupId''] kvs;
     x_region \<leftarrow> de_required de_string [''region''] kvs;
     x_application \<leftarrow> de_required de_string [''application''] kvs;
     x_deployment_id \<leftarrow> de_required de_string [''deploymentId''] kvs;
     x_state \<leftarrow> de_required de_string [''state''] kvs;
     x_deployment_group \<leftarrow> de_required de_string [''deploymentGroup''] kvs;
     Some \<lparr>scn_instance_group_id = x_instance_group_id, scn_region = x_region,
       scn_application = x_application, scn_deployment_id = x_deployment_id,
       scn_state = x_state, scn_deployment_group = x_deployment_group\<rparr> }"

lemma state_change_notification_not_null [simp]: "state_change_notification_json x \<noteq> JNull"
  by (simp add: state_change_notification_json_def)

lemma state_change_notification_read [read_back]: "state_change_notification_of_json (state_change_notification_json x) = Some x"
  by (cases x) (simp add: state_change_notification_of_json_def state_change_notification_json_def read_back)

record deployment_state_change_notification =
  dscn_instance_id :: string
  dscn_region :: string
  dscn_state :: string
  dscn_application :: string
  dscn_deployment_id :: string
  dscn_instance_group_id :: string
  dscn_deployment_group :: string

definition deployment_state_change_notification_json :: "deployment_state_change_notification \<Rightarrow> json" where
  "deployment_state_change_notification_json x = JObj
     ([(''instanceId'', JStr (dscn_instance_id x)),
      (''region'', JStr (dscn_region x)),
      (''state'', JStr (dscn_state x)),
      (''application'', JStr (dscn_application x)),
      (''deploymentId'', JStr (dscn_deployment_id x)),
      (''instanceGroupId'', JStr (dscn_instance_group_id x)),
      (''deploymentGroup'', JStr (dscn_deployment_group x))])"

definition deployment_state_change_notification_of_json :: "json \<Rightarrow> deployment_state_change_notification option" where
  "deployment_state_change_notification_of_json j = do {
     kvs \<leftarrow> de_fields 7
       [''instanceId'', ''region'', ''state'', ''application'', ''deploymentId'',
        ''instanceGroupId'', ''deploymentGroup''] j;
     x_instance_id \<leftarrow> de_required de_string [''instanceId''] kvs;
     x_region \<leftarrow> de_required de_string [''region''] kvs;
     x_state \<leftarrow> de_required de_string [''state''] kvs;
     x_application \<leftarrow> de_required de_string [''application''] kvs;
     x_deployment_id \<leftarrow> de_required de_string [''deploymentId''] kvs;
     x_instance_group_id \<leftarrow> de_required de_string [''instanceGroupId''] kvs;
     x_deployment_group \<leftarrow> de_required de_string [''deploymentGroup''] kvs;
     Some \<lparr>dscn_instance_id = x_instance_id, dscn_region = x_region, dscn_state = x_state,
       dscn_application = x_application, dscn_deployment_id = x_deployment_id,
       dscn_instance_group_id = x_instance_group_id, dscn_deployment_group = x_deployment_group\<rparr> }"

lemma deployment_state_change_notification_not_null [simp]: "deployment_state_change_notification_json x \<noteq> JNull"
  by (simp add: deployment_state_change_notification_json_def)

lemma deployment_state_change_notification_read [read_back]: "deployment_state_change_notification_of_json (deployment_state_change_notification_json x) = Some x"
  by (cases x) (simp add: deployment_state_change_notification_of_json_def deployment_state_change_notification_json_def read_back)

record instance_state_change_notification =
  iscn_pipeline :: string
  iscn_version :: string
  iscn_state :: string
  iscn_execution_id :: string

definition instance_state_change_notification_json :: "instance_state_change_notification \<Rightarrow> json" where
  "instance_state_change_notification_json x = JObj
     ([(''pipeline'', JStr (iscn_pipeline x)),
      (''version'', JStr (iscn_version x)),
      (''state'', JStr (iscn_state x)),
      (''execution-id'', JStr (iscn_execution_id x))])"

definition instance_state_change_notification_of_json :: "json \<Rightarrow> instance_state_change_notification option" where
  "instance_state_change_notification_of_json j = do {
     kvs \<leftarrow> de_fields 4
       [''pipeline'', ''version'', ''state'', ''execution-id''] j;
     x_pipeline \<leftarrow> de_required de_string [''pipeline''] kvs;
     x_version \<leftarrow> de_required de_string [''version''] kvs;
     x_state \<leftarrow> de_required de_string [''state''] kvs;
     x_execution_id \<leftarrow> de_required de_string [''execution-id''] kvs;
     Some \<lparr>iscn_pipeline = x_pipeline, iscn_version = x_version, iscn_state = x_state,
       iscn_execution_id = x_execution_id\<rparr> }"

lemma instance_state_change_notification_not_null [simp]: "instance_state_change_notification_json x \<noteq> JNull"
  by (simp add: instance_state_change_notification_json_def)

lemma instance_state_change_notification_read [read_back]: "instance_state_change_notification_of_json (instance_state_change_notification_json x) = Some x"
  by (cases x) (simp add: instance_state_change_notification_of_json_def instance_state_change_notification_json_def read_back)

subsection \<open>\<^verbatim>\<open>cloudwatch_events/codepipeline\<close>\<close>

record pipeline_execution_state_change =
  pesc_pipeline :: string
  pesc_version :: string
  pesc_state :: string
  pesc_execution_id :: string

definition pipeline_execution_state_change_json :: "pipeline_execution_state_change \<Rightarrow> json" where
  "pipeline_execution_state_change_json x = JObj
     ([(''pipeline'', JStr (pesc_pipeline x)),
      (''version'', JStr (pesc_version x)),
      (''state'', JStr (pesc_state x)),
      (''execution-id'', JStr (pesc_execution_id x))])"

definition pipeline_execution_state_change_of_json :: "json \<Rightarrow> pipeline_execution_state_change option" where
  "pipeline_execution_state_change_of_json j = do {
     kvs \<leftarrow> de_fields 4
       [''pipeline'', ''version'', ''state'', ''execution-id''] j;
     x_pipeline \<leftarrow> de_required de_string [''pipeline''] kvs;
     x_version \<leftarrow> de_required de_string [''version''] kvs;
     x_state \<leftarrow> de_required de_string [''state''] kvs;
     x_execution_id \<leftarrow> de_required de_string [''execution-id''] kvs;
     Some \<lparr>pesc_pipeline = x_pipeline, pesc_version = x_version, pesc_state = x_state,
       pesc_execution_id = x_execution_id\<rparr> }"

lemma pipeline_execution_state_change_not_null [simp]: "pipeline_execution_state_change_json x \<noteq> JNull"
  by (simp add: pipeline_execution_state_change_json_def)

lemma pipeline_execution_state_change_read [read_back]: "pipeline_execution_state_change_of_json (pipeline_execution_state_change_json x) = Some x"
  by (cases x) (simp add: pipeline_execution_state_change_of_json_def pipeline_execution_state_change_json_def read_back)

record stage_execution_state_change =
  sesc_pipeline :: string
  sesc_version :: string
  sesc_execution_id :: string
  sesc_stage :: string
  sesc_state :: string

definition stage_execution_state_change_json :: "stage_execution_state_change \<Rightarrow> json" where
  "stage_execution_state_change_json x = JObj
     ([(''pipeline'', JStr (sesc_pipeline x)),
      (''version'', JStr (sesc_version x)),
      (''execution-id'', JStr (sesc_execution_id x)),
      (''stage'', JStr (sesc_stage x)),
      (''state'', JStr (sesc_state x))])"

definition stage_execution_state_change_of_json :: "json \<Rightarrow> stage_execution_state_change option" where
  "stage_execution_state_change_of_json j = do {
     kvs \<leftarrow> de_fields 5
       [''pipeline'', ''version'', ''execution-id'', ''stage'', ''state''] j;
     x_pipeline \<leftarrow> de_required de_string [''pipeline''] kvs;
     x_version \<leftarrow> de_required de_string [''version''] kvs;
     x_execution_id \<leftarrow> de_required de_string [''execution-id''] kvs;
     x_stage \<leftarrow> de_required de_string [''stage''] kvs;
     x_state \<leftarrow> de_required de_string [''state''] kvs;
     Some \<lparr>sesc_pipeline = x_pipeline, sesc_version = x_version, sesc_execution_id = x_execution_id,
       sesc_stage = x_stage, sesc_state = x_state\<rparr> }"

lemma stage_execution_state_change_not_null [simp]: "stage_execution_state_change_json x \<noteq> JNull"
  by (simp add: stage_execution_state_change_json_def)

lemma stage_execution_state_change_read [read_back]: "stage_execution_state_change_of_json (stage_execution_state_change_json x) = Some x"
  by (cases x) (simp add: stage_execution_state_change_of_json_def stage_execution_state_change_json_def read_back)

record action_execution_state_change_type =
  aesct_owner :: string
  aesct_category :: string
  aesct_provider :: string
  aesct_version :: int

definition action_execution_state_change_type_json :: "action_execution_state_change_type \<Rightarrow> json" where
  "action_execution_state_change_type_json x = JObj
     ([(''owner'', JStr (aesct_owner x)),
      (''category'', JStr (aesct_category x)),
      (''provider'', JStr (aesct_provider x)),
      (''version'', JInt (aesct_version x))])"

definition action_execution_state_change_type_of_json :: "json \<Rightarrow> action_execution_state_change_type option" where
  "action_execution_state_change_type_of_json j = do {
     kvs \<leftarrow> de_fields 4
       [''owner'', ''category'', ''provider'', ''version''] j;
     x_owner \<leftarrow> de_required de_string [''owner''] kvs;
     x_category \<leftarrow> de_required de_string [''category''] kvs;
     x_provider \<leftarrow> de_required de_string [''provider''] kvs;
     x_version \<leftarrow> de_required de_i64 [''version''] kvs;
     Some \<lparr>aesct_owner = x_owner, aesct_category = x_category, aesct_provider = x_provider,
       aesct_version = x_version\<rparr> }"

definition action_execution_state_change_type_good :: "action_execution_state_change_type \<Rightarrow> bool" where
  "action_execution_state_change_type_good x \<longleftrightarrow>
     good_i64 (aesct_version x)"

lemma action_execution_state_change_type_not_null [simp]: "action_execution_state_change_type_json x \<noteq> JNull"
  by (simp add: action_execution_state_change_type_json_def)

lemma action_execution_state_change_type_read [read_back]: "action_execution_state_change_type_good x \<Longrightarrow>action_execution_state_change_type_of_json (action_execution_state_change_type_json x) = Some x"
  by (cases x) (simp add: action_execution_state_change_type_of_json_def action_execution_state_change_type_json_def action_execution_state_change_type_good_def read_back)

lemma action_execution_state_change_type_typed: "typed action_execution_state_change_type_good action_execution_state_change_type_of_json"
  unfolding typed_def action_execution_state_change_type_of_json_def action_execution_state_change_type_good_def
  by (auto simp: bind_eq_Some_conv dest!: typed_required [OF typed_i64])

record action_execution_state_change =
  aesc_pipeline :: string
  aesc_version :: int
  aesc_execution_id :: string
  aesc_stage :: string
  aesc_action :: string
  aesc_state :: string
  aesc_region :: string
  aesc_type_field :: action_execution_state_change_type

definition action_execution_state_change_json :: "action_execution_state_change \<Rightarrow> json" where
  "action_execution_state_change_json x = JObj
     ([(''pipeline'', JStr (aesc_pipeline x)),
      (''version'', JInt (aesc_version x)),
      (''execution-id'', JStr (aesc_execution_id x)),
      (''stage'', JStr (aesc_stage x)),
      (''action'', JStr (aesc_action x)),
      (''state'', JStr (aesc_state x)),
      (''region'', JStr (aesc_region x)),
      (''type'', action_execution_state_change_type_json (aesc_type_field x))])"

definition action_execution_state_change_of_json :: "json \<Rightarrow> action_execution_state_change option" where
  "action_execution_state_change_of_json j = do {
     kvs \<leftarrow> de_fields 8
       [''pipeline'', ''version'', ''execution-id'', ''stage'', ''action'', ''state'', ''region'',
        ''type''] j;
     x_pipeline \<leftarrow> de_required de_string [''pipeline''] kvs;
     x_version \<leftarrow> de_required de_i64 [''version''] kvs;
     x_execution_id \<leftarrow> de_required de_string [''execution-id''] kvs;
     x_stage \<leftarrow> de_required de_string [''stage''] kvs;
     x_action \<leftarrow> de_required de_string [''action''] kvs;
     x_state \<leftarrow> de_required de_string [''state''] kvs;
     x_region \<leftarrow> de_required de_string [''region''] kvs;
     x_type_field \<leftarrow> de_required action_execution_state_change_type_of_json [''type''] kvs;
     Some \<lparr>aesc_pipeline = x_pipeline, aesc_version = x_version, aesc_execution_id = x_execution_id,
       aesc_stage = x_stage, aesc_action = x_action, aesc_state = x_state,
       aesc_region = x_region, aesc_type_field = x_type_field\<rparr> }"

definition action_execution_state_change_good :: "action_execution_state_change \<Rightarrow> bool" where
  "action_execution_state_change_good x \<longleftrightarrow>
     good_i64 (aesc_version x) \<and>
     action_execution_state_change_type_good (aesc_type_field x)"

lemma action_execution_state_change_not_null [simp]: "action_execution_state_change_json x \<noteq> JNull"
  by (simp add: action_execution_state_change_json_def)

lemma action_execution_state_change_read [read_back]: "action_execution_state_change_good x \<Longrightarrow>action_execution_state_change_of_json (action_execution_state_change_json x) = Some x"
  by (cases x) (clarsimp simp: action_execution_state_change_of_json_def action_execution_state_change_json_def action_execution_state_change_good_def read_back)

lemma action_execution_state_change_typed: "typed action_execution_state_change_good action_execution_state_change_of_json"
  unfolding typed_def action_execution_state_change_of_json_def action_execution_state_change_good_def
  by (auto simp: bind_eq_Some_conv dest!: typed_required [OF typed_i64]
      typed_required [OF action_execution_state_change_type_typed])

subsection \<open>\<^verbatim>\<open>cloudwatch_events/ec2\<close>\<close>

record instance_state_change =
  isc_instance_id :: string
  isc_state :: string

definition instance_state_change_json :: "instance_state_change \<Rightarrow> json" where
  "instance_state_change_json x = JObj
     ([(''instance-id'', JStr (isc_instance_id x)),
      (''state'', JStr (isc_state x))])"

definition instance_state_change_of_json :: "json \<Rightarrow> instance_state_change option" where
  "instance_state_change_of_json j = do {
     kvs \<leftarrow> de_fields 2
       [''instance-id'', ''state''] j;
     x_instance_id \<leftarrow> de_required de_string [''instance-id''] kvs;
     x_state \<leftarrow> de_required de_string [''state''] kvs;
     Some \<lparr>isc_instance_id = x_instance_id, isc_state = x_state\<rparr> }"

lemma instance_state_change_not_null [simp]: "instance_state_change_json x \<noteq> JNull"
  by (simp add: instance_state_change_json_def)

lemma instance_state_change_read [read_back]: "instance_state_change_of_json (instance_state_change_json x) = Some x"
  by (cases x) (simp add: instance_state_change_of_json_def instance_state_change_json_def read_back)

subsection \<open>\<^verbatim>\<open>cloudwatch_events/emr\<close>\<close>

record auto_scaling_policy_state_change =
  aspsc_resource_id :: string
  aspsc_cluster_id :: string
  aspsc_state :: string
  aspsc_message :: string
  aspsc_scaling_resource_type :: string

definition auto_scaling_policy_state_change_json :: "auto_scaling_policy_state_change \<Rightarrow> json" where
  "auto_scaling_policy_state_change_json x = JObj
     ([(''resourceId'', JStr (aspsc_resource_id x)),
      (''clusterId'', JStr (aspsc_cluster_id x)),
      (''state'', JStr (aspsc_state x)),
      (''message'', JStr (aspsc_message x)),
      (''scalingResourceType'', JStr (aspsc_scaling_resource_type x))])"

definition auto_scaling_policy_state_change_of_json :: "json \<Rightarrow> auto_scaling_policy_state_change option" where
  "auto_scaling_policy_state_change_of_json j = do {
     kvs \<leftarrow> de_fields 5
       [''resourceId'', ''clusterId'', ''state'', ''message'', ''scalingResourceType''] j;
     x_resource_id \<leftarrow> de_required de_string [''resourceId''] kvs;
     x_cluster_id \<leftarrow> de_required de_string [''clusterId''] kvs;
     x_state \<leftarrow> de_required de_string [''state''] kvs;
     x_message \<leftarrow> de_required de_string [''message''] kvs;
     x_scaling_resource_type \<leftarrow> de_required de_string [''scalingResourceType''] kvs;
     Some \<lparr>aspsc_resource_id = x_resource_id, aspsc_cluster_id = x_cluster_id,
       aspsc_state = x_state, aspsc_message = x_message,
       aspsc_scaling_resource_type = x_scaling_resource_type\<rparr> }"

lemma auto_scaling_policy_state_change_not_null [simp]: "auto_scaling_policy_state_change_json x \<noteq> JNull"
  by (simp add: auto_scaling_policy_state_change_json_def)

lemma auto_scaling_policy_state_change_read [read_back]: "auto_scaling_policy_state_change_of_json (auto_scaling_policy_state_change_json x) = Some x"
  by (cases x) (simp add: auto_scaling_policy_state_change_of_json_def auto_scaling_policy_state_change_json_def read_back)

record cluster_state_change =
  csc_severity :: string
  csc_state_change_reason :: string
  csc_name :: string
  csc_cluster_id :: string
  csc_state :: string
  csc_message :: string

definition cluster_state_change_json :: "cluster_state_change \<Rightarrow> json" where
  "cluster_state_change_json x = JObj
     ([(''severity'', JStr (csc_severity x)),
      (''stateChangeReason'', JStr (csc_state_change_reason x)),
      (''name'', JStr (csc_name x)),
      (''clusterId'', JStr (csc_cluster_id x)),
      (''state'', JStr (csc_state x)),
      (''message'', JStr (csc_message x))])"

definition cluster_state_change_of_json :: "json \<Rightarrow> cluster_state_change option" where
  "cluster_state_change_of_json j = do {
     kvs \<leftarrow> de_fields 6
       [''severity'', ''stateChangeReason'', ''name'', ''clusterId'', ''state'', ''message''] j;
     x_severity \<leftarrow> de_required de_string [''severity''] kvs;
     x_state_change_reason \<leftarrow> de_required de_string [''stateChangeReason''] kvs;
     x_name \<leftarrow> de_required de_string [''name''] kvs;
     x_cluster_id \<leftarrow> de_required de_string [''clusterId''] kvs;
     x_state \<leftarrow> de_required de_string [''state''] kvs;
     x_message \<leftarrow> de_required de_string [''message''] kvs;
     Some \<lparr>csc_severity = x_severity, csc_state_change_reason = x_state_change_reason,
       csc_name = x_name, csc_cluster_id = x_cluster_id, csc_state = x_state,
       csc_message = x_message\<rparr> }"

lemma cluster_state_change_not_null [simp]: "cluster_state_change_json x \<noteq> JNull"
  by (simp add: cluster_state_change_json_def)

lemma cluster_state_change_read [read_back]: "cluster_state_change_of_json (cluster_state_change_json x) = Some x"
  by (cases x) (simp add: cluster_state_change_of_json_def cluster_state_change_json_def read_back)

record instance_group_state_change =
  igsc_market :: string
  igsc_severity :: string
  igsc_requested_instance_count :: string
  igsc_instance_type :: string
  igsc_instance_group_type :: string
  igsc_instance_group_id :: string
  igsc_cluster_id :: string
  igsc_running_instance_count :: string
  igsc_state :: string
  igsc_message :: string

definition instance_group_state_change_json :: "instance_group_state_change \<Rightarrow> json" where
  "instance_group_state_change_json x = JObj
     ([(''market'', JStr (igsc_market x)),
      (''severity'', JStr (igsc_severity x)),
      (''requestedInstanceCount'', JStr (igsc_requested_instance_count x)),
      (''instanceType'', JStr (igsc_instance_type x)),
      (''instanceGroupType'', JStr (igsc_instance_group_type x)),
      (''instanceGroupId'', JStr (igsc_instance_group_id x)),
      (''clusterId'', JStr (igsc_cluster_id x)),
      (''runningInstanceCount'', JStr (igsc_running_instance_count x)),
      (''state'', JStr (igsc_state x)),
      (''message'', JStr (igsc_message x))])"

definition instance_group_state_change_of_json :: "json \<Rightarrow> instance_group_state_change option" where
  "instance_group_state_change_of_json j = do {
     kvs \<leftarrow> de_fields 10
       [''market'', ''severity'', ''requestedInstanceCount'', ''instanceType'',
        ''instanceGroupType'', ''instanceGroupId'', ''clusterId'', ''runningInstanceCount'',
        ''state'', ''message''] j;
     x_market \<leftarrow> de_required de_string [''market''] kvs;
     x_severity \<leftarrow> de_required de_string [''severity''] kvs;
     x_requested_instance_count \<leftarrow> de_required de_string [''requestedInstanceCount''] kvs;
     x_instance_type \<leftarrow> de_required de_string [''instanceType''] kvs;
     x_instance_group_type \<leftarrow> de_required de_string [''instanceGroupType''] kvs;
     x_instance_group_id \<leftarrow> de_required de_string [''instanceGroupId''] kvs;
     x_cluster_id \<leftarrow> de_required de_string [''clusterId''] kvs;
     x_running_instance_count \<leftarrow> de_required de_string [''runningInstanceCount''] kvs;
     x_state \<leftarrow> de_required de_string [''state''] kvs;
     x_message \<leftarrow> de_required de_string [''message''] kvs;
     Some \<lparr>igsc_market = x_market, igsc_severity = x_severity,
       igsc_requested_instance_count = x_requested_instance_count,
       igsc_instance_type = x_instance_type, igsc_instance_group_type = x_instance_group_type,
       igsc_instance_group_id = x_instance_group_id, igsc_cluster_id = x_cluster_id,
       igsc_running_instance_count = x_running_instance_count, igsc_state = x_state,
       igsc_message = x_message\<rparr> }"

lemma instance_group_state_change_not_null [simp]: "instance_group_state_change_json x \<noteq> JNull"
  by (simp add: instance_group_state_change_json_def)

lemma instance_group_state_change_read [read_back]: "instance_group_state_change_of_json (instance_group_state_change_json x) = Some x"
  by (cases x) (simp add: instance_group_state_change_of_json_def instance_group_state_change_json_def read_back)

record step_status_change =
  ssc_severity :: string
  ssc_action_on_failure :: string
  ssc_step_id :: string
  ssc_name :: string
  ssc_cluster_id :: string
  ssc_state :: string
  ssc_message :: string

definition step_status_change_json :: "step_status_change \<Rightarrow> json" where
  "step_status_change_json x = JObj
     ([(''severity'', JStr (ssc_severity x)),
      (''actionOnFailure'', JStr (ssc_action_on_failure x)),
      (''stepId'', JStr (ssc_step_id x)),
      (''name'', JStr (ssc_name x)),
      (''clusterId'', JStr (ssc_cluster_id x)),
      (''state'', JStr (ssc_state x)),
      (''message'', JStr (ssc_message x))])"

definition step_status_change_of_json :: "json \<Rightarrow> step_status_change option" where
  "step_status_change_of_json j = do {
     kvs \<leftarrow> de_fields 7
       [''severity'', ''actionOnFailure'', ''stepId'', ''name'', ''clusterId'', ''state'',
        ''message''] j;
     x_severity \<leftarrow> de_required de_string [''severity''] kvs;
     x_action_on_failure \<leftarrow> de_required de_string [''actionOnFailure''] kvs;
     x_step_id \<leftarrow> de_required de_string [''stepId''] kvs;
     x_name \<leftarrow> de_required de_string [''name''] kvs;
     x_cluster_id \<leftarrow> de_required de_string [''clusterId''] kvs;
     x_state \<leftarrow> de_required de_string [''state''] kvs;
     x_message \<leftarrow> de_required de_string [''message''] kvs;
     Some \<lparr>ssc_severity = x_severity, ssc_action_on_failure = x_action_on_failure,
       ssc_step_id = x_step_id, ssc_name = x_name, ssc_cluster_id = x_cluster_id,
       ssc_state = x_state, ssc_message = x_message\<rparr> }"

lemma step_status_change_not_null [simp]: "step_status_change_json x \<noteq> JNull"
  by (simp add: step_status_change_json_def)

lemma step_status_change_read [read_back]: "step_status_change_of_json (step_status_change_json x) = Some x"
  by (cases x) (simp add: step_status_change_of_json_def step_status_change_json_def read_back)

subsection \<open>\<^verbatim>\<open>cloudwatch_events/gamelift\<close>\<close>

record player =
  pl_player_id :: string
  pl_team :: "string option"
  pl_accepted :: bool
  pl_player_session_id :: "string option"

definition player_json :: "player \<Rightarrow> json" where
  "player_json x = JObj
     ([(''playerId'', JStr (pl_player_id x)),
      (''team'', json_of_option JStr (pl_team x)),
      (''accepted'', JBool (pl_accepted x)),
      (''playerSessionId'', json_of_option JStr (pl_player_session_id x))])"

definition player_of_json :: "json \<Rightarrow> player option" where
  "player_of_json j = do {
     kvs \<leftarrow> de_fields 4
       [''playerId'', ''team'', ''accepted'', ''playerSessionId''] j;
     x_player_id \<leftarrow> de_required de_string [''playerId''] kvs;
     x_team \<leftarrow> de_opt_string ''team'' kvs;
     x_accepted \<leftarrow> de_default (de_nullish de_bool False) False [''accepted''] kvs;
     x_player_session_id \<leftarrow> de_opt_string ''playerSessionId'' kvs;
     Some \<lparr>pl_player_id = x_player_id, pl_team = x_team, pl_accepted = x_accepted,
       pl_player_session_id = x_player_session_id\<rparr> }"

lemma player_not_null [simp]: "player_json x \<noteq> JNull"
  by (simp add: player_json_def)

lemma player_read [read_back]: "player_of_json (player_json x) = Some x"
  by (cases x) (simp add: player_of_json_def player_json_def read_back)

record game_session_info =
  gsi_players :: "player list"

definition game_session_info_json :: "game_session_info \<Rightarrow> json" where
  "game_session_info_json x = JObj
     ([(''players'', json_of_list player_json (gsi_players x))])"

definition game_session_info_of_json :: "json \<Rightarrow> game_session_info option" where
  "game_session_info_of_json j = do {
     kvs \<leftarrow> de_fields 1
       [''players''] j;
     x_players \<leftarrow> de_required (de_list player_of_json) [''players''] kvs;
     Some \<lparr>gsi_players = x_players\<rparr> }"

lemma game_session_info_not_null [simp]: "game_session_info_json x \<noteq> JNull"
  by (simp add: game_session_info_json_def)

lemma game_session_info_read [read_back]: "game_session_info_of_json (game_session_info_json x) = Some x"
  by (cases x) (simp add: game_session_info_of_json_def game_session_info_json_def read_back)

record rule_evaluation_metric =
  rem_rule_name :: string
  rem_passed_count :: int
  rem_failed_count :: int

definition rule_evaluation_metric_json :: "rule_evaluation_metric \<Rightarrow> json" where
  "rule_evaluation_metric_json x = JObj
     ([(''ruleName'', JStr (rem_rule_name x)),
      (''passedCount'', JInt (rem_passed_count x)),
      (''failedCount'', JInt (rem_failed_count x))])"

definition rule_evaluation_metric_of_json :: "json \<Rightarrow> rule_evaluation_metric option" where
  "rule_evaluation_metric_of_json j = do {
     kvs \<leftarrow> de_fields 3
       [''ruleName'', ''passedCount'', ''failedCount''] j;
     x_rule_name \<leftarrow> de_required de_string [''ruleName''] kvs;
     x_passed_count \<leftarrow> de_required de_i64 [''passedCount''] kvs;
     x_failed_count \<leftarrow> de_required de_i64 [''failedCount''] kvs;
     Some \<lparr>rem_rule_name = x_rule_name, rem_passed_count = x_passed_count,
       rem_failed_count = x_failed_count\<rparr> }"

definition rule_evaluation_metric_good :: "rule_evaluation_metric \<Rightarrow> bool" where
  "rule_evaluation_metric_good x \<longleftrightarrow>
     good_i64 (rem_passed_count x) \<and>
     good_i64 (rem_failed_count x)"

lemma rule_evaluation_metric_not_null [simp]: "rule_evaluation_metric_json x \<noteq> JNull"
  by (simp add: rule_evaluation_metric_json_def)

lemma rule_evaluation_metric_read [read_back]: "rule_evaluation_metric_good x \<Longrightarrow>rule_evaluation_metric_of_json (rule_evaluation_metric_json x) = Some x"
  by (cases x) (clarsimp simp: rule_evaluation_metric_of_json_def rule_evaluation_metric_json_def rule_evaluation_metric_good_def read_back)

lemma rule_evaluation_metric_typed: "typed rule_evaluation_metric_good rule_evaluation_metric_of_json"
  unfolding typed_def rule_evaluation_metric_of_json_def rule_evaluation_metric_good_def
  by (auto simp: bind_eq_Some_conv dest!: typed_required [OF typed_i64])

record ticket =
  ti_ticket_id :: string
  ti_start_time :: string
  ti_players :: "player list"

definition ticket_json :: "ticket \<Rightarrow> json" where
  "ticket_json x = JObj
     ([(''ticketId'', JStr (ti_ticket_id x)),
      (''startTime'', JStr (ti_start_time x)),
      (''players'', json_of_list player_json (ti_players x))])"

definition ticket_of_json :: "json \<Rightarrow> ticket option" where
  "ticket_of_json j = do {
     kvs \<leftarrow> de_fields 3
       [''ticketId'', ''startTime'', ''players''] j;
     x_ticket_id \<leftarrow> de_required de_string [''ticketId''] kvs;
     x_start_time \<leftarrow> de_required de_string [''startTime''] kvs;
     x_players \<leftarrow> de_required (de_list player_of_json) [''players''] kvs;
     Some \<lparr>ti_ticket_id = x_ticket_id, ti_start_time = x_start_time, ti_players = x_players\<rparr> }"

lemma ticket_not_null [simp]: "ticket_json x \<noteq> JNull"
  by (simp add: ticket_json_def)

lemma ticket_read [read_back]: "ticket_of_json (ticket_json x) = Some x"
  by (cases x) (simp add: ticket_of_json_def ticket_json_def read_back)

record potential_match_created =
  pmc_tickets :: "ticket list"
  pmc_acceptance_timeout :: int
  pmc_rule_evaluation_metrics :: "rule_evaluation_metric list"
  pmc_acceptance_required :: bool
  pmc_type :: string
  pmc_game_session_info :: game_session_info
  pmc_match_id :: string

definition potential_match_created_json :: "potential_match_created \<Rightarrow> json" where
  "potential_match_created_json x = JObj
     ([(''tickets'', json_of_list ticket_json (pmc_tickets x)),
      (''acceptanceTimeout'', JInt (pmc_acceptance_timeout x)),
      (''ruleEvaluationMetrics'', json_of_list rule_evaluation_metric_json (pmc_rule_evaluation_metrics x)),
      (''acceptanceRequired'', JBool (pmc_acceptance_required x)),
      (''type'', JStr (pmc_type x)),
      (''gameSessionInfo'', game_session_info_json (pmc_game_session_info x)),
      (''matchId'', JStr (pmc_match_id x))])"

definition potential_match_created_of_json :: "json \<Rightarrow> potential_match_created option" where
  "potential_match_created_of_json j = do {
     kvs \<leftarrow> de_fields 7
       [''tickets'', ''acceptanceTimeout'', ''ruleEvaluationMetrics'', ''acceptanceRequired'',
        ''type'', ''gameSessionInfo'', ''matchId''] j;
     x_tickets \<leftarrow> de_required (de_list ticket_of_json) [''tickets''] kvs;
     x_acceptance_timeout \<leftarrow> de_required de_i64 [''acceptanceTimeout''] kvs;
     x_rule_evaluation_metrics \<leftarrow> de_required (de_list rule_evaluation_metric_of_json) [''ruleEvaluationMetrics''] kvs;
     x_acceptance_required \<leftarrow> de_required de_bool [''acceptanceRequired''] kvs;
     x_type \<leftarrow> de_required de_string [''type''] kvs;
     x_game_session_info \<leftarrow> de_required game_session_info_of_json [''gameSessionInfo''] kvs;
     x_match_id \<leftarrow> de_required de_string [''matchId''] kvs;
     Some \<lparr>pmc_tickets = x_tickets, pmc_acceptance_timeout = x_acceptance_timeout,
       pmc_rule_evaluation_metrics = x_rule_evaluation_metrics,
       pmc_acceptance_required = x_acceptance_required, pmc_type = x_type,
       pmc_game_session_info = x_game_session_info, pmc_match_id = x_match_id\<rparr> }"

definition potential_match_created_good :: "potential_match_created \<Rightarrow> bool" where
  "potential_match_created_good x \<longleftrightarrow>
     good_i64 (pmc_acceptance_timeout x) \<and>
     list_all rule_evaluation_metric_good (pmc_rule_evaluation_metrics x)"

lemma potential_match_created_not_null [simp]: "potential_match_created_json x \<noteq> JNull"
  by (simp add: potential_match_created_json_def)

lemma potential_match_created_read [read_back]: "potential_match_created_good x \<Longrightarrow>potential_match_created_of_json (potential_match_created_json x) = Some x"
  by (cases x) (clarsimp simp: potential_match_created_of_json_def potential_match_created_json_def potential_match_created_good_def read_back)

lemma potential_match_created_typed: "typed potential_match_created_good potential_match_created_of_json"
  unfolding typed_def potential_match_created_of_json_def potential_match_created_good_def
  by (auto simp: bind_eq_Some_conv dest!: typed_required [OF typed_i64]
      typed_required [OF typed_list [OF rule_evaluation_metric_typed]])

record accept_match =
  am_tickets :: "ticket list"
  am_type :: string
  am_game_session_info :: game_session_info
  am_match_id :: string

definition accept_match_json :: "accept_match \<Rightarrow> json" where
  "accept_match_json x = JObj
     ([(''tickets'', json_of_list ticket_json (am_tickets x)),
      (''type'', JStr (am_type x)),
      (''gameSessionInfo'', game_session_info_json (am_game_session_info x)),
      (''matchId'', JStr (am_match_id x))])"

definition accept_match_of_json :: "json \<Rightarrow> accept_match option" where
  "accept_match_of_json j = do {
     kvs \<leftarrow> de_fields 4
       [''tickets'', ''type'', ''gameSessionInfo'', ''matchId''] j;
     x_tickets \<leftarrow> de_required (de_list ticket_of_json) [''tickets''] kvs;
     x_type \<leftarrow> de_required de_string [''type''] kvs;
     x_game_session_info \<leftarrow> de_required game_session_info_of_json [''gameSessionInfo''] kvs;
     x_match_id \<leftarrow> de_required de_string [''matchId''] kvs;
     Some \<lparr>am_tickets = x_tickets, am_type = x_type, am_game_session_info = x_game_session_info,
       am_match_id = x_match_id\<rparr> }"

lemma accept_match_not_null [simp]: "accept_match_json x \<noteq> JNull"
  by (simp add: accept_match_json_def)

lemma accept_match_read [read_back]: "accept_match_of_json (accept_match_json x) = Some x"
  by (cases x) (simp add: accept_match_of_json_def accept_match_json_def read_back)

record accept_match_completed =
  amc_tickets :: "ticket list"
  amc_acceptance :: string
  amc_type :: string
  amc_game_session_info :: game_session_info
  amc_match_id :: string

definition accept_match_completed_json :: "accept_match_completed \<Rightarrow> json" where
  "accept_match_completed_json x = JObj
     ([(''tickets'', json_of_list ticket_json (amc_tickets x)),
      (''acceptance'', JStr (amc_acceptance x)),
      (''type'', JStr (amc_type x)),
      (''gameSessionInfo'', game_session_info_json (amc_game_session_info x)),
      (''matchId'', JStr (amc_match_id x))])"

definition accept_match_completed_of_json :: "json \<Rightarrow> accept_match_completed option" where
  "accept_match_completed_of_json j = do {
     kvs \<leftarrow> de_fields 5
       [''tickets'', ''acceptance'', ''type'', ''gameSessionInfo'', ''matchId''] j;
     x_tickets \<leftarrow> de_required (de_list ticket_of_json) [''tickets''] kvs;
     x_acceptance \<leftarrow> de_required de_string [''acceptance''] kvs;
     x_type \<leftarrow> de_required de_string [''type''] kvs;
     x_game_session_info \<leftarrow> de_required game_session_info_of_json [''gameSessionInfo''] kvs;
     x_match_id \<leftarrow> de_required de_string [''matchId''] kvs;
     Some \<lparr>amc_tickets = x_tickets, amc_acceptance = x_acceptance, amc_type = x_type,
       amc_game_session_info = x_game_session_info, amc_match_id = x_match_id\<rparr> }"

lemma accept_match_completed_not_null [simp]: "accept_match_completed_json x \<noteq> JNull"
  by (simp add: accept_match_completed_json_def)

lemma accept_match_completed_read [read_back]: "accept_match_completed_of_json (accept_match_completed_json x) = Some x"
  by (cases x) (simp add: accept_match_completed_of_json_def accept_match_completed_json_def read_back)

record matchmaking_succeeded =
  ms_tickets :: "ticket list"
  ms_type :: string
  ms_game_session_info :: game_session_info
  ms_match_id :: string

definition matchmaking_succeeded_json :: "matchmaking_succeeded \<Rightarrow> json" where
  "matchmaking_succeeded_json x = JObj
     ([(''tickets'', json_of_list ticket_json (ms_tickets x)),
      (''type'', JStr (ms_type x)),
      (''gameSessionInfo'', game_session_info_json (ms_game_session_info x)),
      (''matchId'', JStr (ms_match_id x))])"

definition matchmaking_succeeded_of_json :: "json \<Rightarrow> matchmaking_succeeded option" where
  "matchmaking_succeeded_of_json j = do {
     kvs \<leftarrow> de_fields 4
       [''tickets'', ''type'', ''gameSessionInfo'', ''matchId''] j;
     x_tickets \<leftarrow> de_required (de_list ticket_of_json) [''tickets''] kvs;
     x_type \<leftarrow> de_required de_string [''type''] kvs;
     x_game_session_info \<leftarrow> de_required game_session_info_of_json [''gameSessionInfo''] kvs;
     x_match_id \<leftarrow> de_required de_string [''matchId''] kvs;
     Some \<lparr>ms_tickets = x_tickets, ms_type = x_type, ms_game_session_info = x_game_session_info,
       ms_match_id = x_match_id\<rparr> }"

lemma matchmaking_succeeded_not_null [simp]: "matchmaking_succeeded_json x \<noteq> JNull"
  by (simp add: matchmaking_succeeded_json_def)

lemma matchmaking_succeeded_read [read_back]: "matchmaking_succeeded_of_json (matchmaking_succeeded_json x) = Some x"
  by (cases x) (simp add: matchmaking_succeeded_of_json_def matchmaking_succeeded_json_def read_back)

record matchmaking_timed_out =
  mto_reason :: string
  mto_tickets :: "ticket list"
  mto_rule_evaluation_metrics :: "rule_evaluation_metric list"
  mto_type :: string
  mto_message :: string
  mto_game_session_info :: game_session_info

definition matchmaking_timed_out_json :: "matchmaking_timed_out \<Rightarrow> json" where
  "matchmaking_timed_out_json x = JObj
     ([(''reason'', JStr (mto_reason x)),
      (''tickets'', json_of_list ticket_json (mto_tickets x)),
      (''ruleEvaluationMetrics'', json_of_list rule_evaluation_metric_json (mto_rule_evaluation_metrics x)),
      (''type'', JStr (mto_type x)),
      (''message'', JStr (mto_message x)),
      (''gameSessionInfo'', game_session_info_json (mto_game_session_info x))])"

definition matchmaking_timed_out_of_json :: "json \<Rightarrow> matchmaking_timed_out option" where
  "matchmaking_timed_out_of_json j = do {
     kvs \<leftarrow> de_fields 6
       [''reason'', ''tickets'', ''ruleEvaluationMetrics'', ''type'', ''message'',
        ''gameSessionInfo''] j;
     x_reason \<leftarrow> de_required de_string [''reason''] kvs;
     x_tickets \<leftarrow> de_required (de_list ticket_of_json) [''tickets''] kvs;
     x_rule_evaluation_metrics \<leftarrow> de_required (de_list rule_evaluation_metric_of_json) [''ruleEvaluationMetrics''] kvs;
     x_type \<leftarrow> de_required de_string [''type''] kvs;
     x_message \<leftarrow> de_required de_string [''message''] kvs;
     x_game_session_info \<leftarrow> de_required game_session_info_of_json [''gameSessionInfo''] kvs;
     Some \<lparr>mto_reason = x_reason, mto_tickets = x_tickets,
       mto_rule_evaluation_metrics = x_rule_evaluation_metrics, mto_type = x_type,
       mto_message = x_message, mto_game_session_info = x_game_session_info\<rparr> }"

definition matchmaking_timed_out_good :: "matchmaking_timed_out \<Rightarrow> bool" where
  "matchmaking_timed_out_good x \<longleftrightarrow>
     list_all rule_evaluation_metric_good (mto_rule_evaluation_metrics x)"

lemma matchmaking_timed_out_not_null [simp]: "matchmaking_timed_out_json x \<noteq> JNull"
  by (simp add: matchmaking_timed_out_json_def)

lemma matchmaking_timed_out_read [read_back]: "matchmaking_timed_out_good x \<Longrightarrow>matchmaking_timed_out_of_json (matchmaking_timed_out_json x) = Some x"
  by (cases x) (simp add: matchmaking_timed_out_of_json_def matchmaking_timed_out_json_def matchmaking_timed_out_good_def read_back)

lemma matchmaking_timed_out_typed: "typed matchmaking_timed_out_good matchmaking_timed_out_of_json"
  unfolding typed_def matchmaking_timed_out_of_json_def matchmaking_timed_out_good_def
  by (auto simp: bind_eq_Some_conv dest!: typed_required [OF typed_list [OF rule_evaluation_metric_typed]])

record matchmaking_cancelled =
  mc_reason :: string
  mc_tickets :: "ticket list"
  mc_rule_evaluation_metrics :: "rule_evaluation_metric list"
  mc_type :: string
  mc_message :: string
  mc_game_session_info :: game_session_info

definition matchmaking_cancelled_json :: "matchmaking_cancelled \<Rightarrow> json" where
  "matchmaking_cancelled_json x = JObj
     ([(''reason'', JStr (mc_reason x)),
      (''tickets'', json_of_list ticket_json (mc_tickets x)),
      (''ruleEvaluationMetrics'', json_of_list rule_evaluation_metric_json (mc_rule_evaluation_metrics x)),
      (''type'', JStr (mc_type x)),
      (''message'', JStr (mc_message x)),
      (''gameSessionInfo'', game_session_info_json (mc_game_session_info x))])"

definition matchmaking_cancelled_of_json :: "json \<Rightarrow> matchmaking_cancelled option" where
  "matchmaking_cancelled_of_json j = do {
     kvs \<leftarrow> de_fields 6
       [''reason'', ''tickets'', ''ruleEvaluationMetrics'', ''type'', ''message'',
        ''gameSessionInfo''] j;
     x_reason \<leftarrow> de_required de_string [''reason''] kvs;
     x_tickets \<leftarrow> de_required (de_list ticket_of_json) [''tickets''] kvs;
     x_rule_evaluation_metrics \<leftarrow> de_required (de_list rule_evaluation_metric_of_json) [''ruleEvaluationMetrics''] kvs;
     x_type \<leftarrow> de_required de_string [''type''] kvs;
     x_message \<leftarrow> de_required de_string [''message''] kvs;
     x_game_session_info \<leftarrow> de_required game_session_info_of_json [''gameSessionInfo''] kvs;
     Some \<lparr>mc_reason = x_reason, mc_tickets = x_tickets,
       mc_rule_evaluation_metrics = x_rule_evaluation_metrics, mc_type = x_type,
       mc_message = x_message, mc_game_session_info = x_game_session_info\<rparr> }"

definition matchmaking_cancelled_good :: "matchmaking_cancelled \<Rightarrow> bool" where
  "matchmaking_cancelled_good x \<longleftrightarrow>
     list_all rule_evaluation_metric_good (mc_rule_evaluation_metrics x)"

lemma matchmaking_cancelled_not_null [simp]: "matchmaking_cancelled_json x \<noteq> JNull"
  by (simp add: matchmaking_cancelled_json_def)

lemma matchmaking_cancelled_read [read_back]: "matchmaking_cancelled_good x \<Longrightarrow>matchmaking_cancelled_of_json (matchmaking_cancelled_json x) = Some x"
  by (cases x) (simp add: matchmaking_cancelled_of_json_def matchmaking_cancelled_json_def matchmaking_cancelled_good_def read_back)

lemma matchmaking_cancelled_typed: "typed matchmaking_cancelled_good matchmaking_cancelled_of_json"
  unfolding typed_def matchmaking_cancelled_of_json_def matchmaking_cancelled_good_def
  by (auto simp: bind_eq_Some_conv dest!: typed_required [OF typed_list [OF rule_evaluation_metric_typed]])

record matchmaking_failed =
  mf_tickets :: "ticket list"
  mf_custom_event_data :: string
  mf_type :: string
  mf_reason :: string
  mf_message :: string
  mf_game_session_info :: game_session_info
  mf_match_id :: string

definition matchmaking_failed_json :: "matchmaking_failed \<Rightarrow> json" where
  "matchmaking_failed_json x = JObj
     ([(''tickets'', json_of_list ticket_json (mf_tickets x)),
      (''customEventData'', JStr (mf_custom_event_data x)),
      (''type'', JStr (mf_type x)),
      (''reason'', JStr (mf_reason x)),
      (''message'', JStr (mf_message x)),
      (''gameSessionInfo'', game_session_info_json (mf_game_session_info x)),
      (''matchId'', JStr (mf_match_id x))])"

definition matchmaking_failed_of_json :: "json \<Rightarrow> matchmaking_failed option" where
  "matchmaking_failed_of_json j = do {
     kvs \<leftarrow> de_fields 7
       [''tickets'', ''customEventData'', ''type'', ''reason'', ''message'', ''gameSessionInfo'',
        ''matchId''] j;
     x_tickets \<leftarrow> de_required (de_list ticket_of_json) [''tickets''] kvs;
     x_custom_event_data \<leftarrow> de_required de_string [''customEventData''] kvs;
     x_type \<leftarrow> de_required de_string [''type''] kvs;
     x_reason \<leftarrow> de_required de_string [''reason''] kvs;
     x_message \<leftarrow> de_required de_string [''message''] kvs;
     x_game_session_info \<leftarrow> de_required game_session_info_of_json [''gameSessionInfo''] kvs;
     x_match_id \<leftarrow> de_required de_string [''matchId''] kvs;
     Some \<lparr>mf_tickets = x_tickets, mf_custom_event_data = x_custom_event_data, mf_type = x_type,
       mf_reason = x_reason, mf_message = x_message, mf_game_session_info = x_game_session_info,
       mf_match_id = x_match_id\<rparr> }"

lemma matchmaking_failed_not_null [simp]: "matchmaking_failed_json x \<noteq> JNull"
  by (simp add: matchmaking_failed_json_def)

lemma matchmaking_failed_read [read_back]: "matchmaking_failed_of_json (matchmaking_failed_json x) = Some x"
  by (cases x) (simp add: matchmaking_failed_of_json_def matchmaking_failed_json_def read_back)

record matchmaking_searching =
  mse_tickets :: "ticket list"
  mse_estimated_wait_millis :: string
  mse_type :: string
  mse_game_session_info :: game_session_info

definition matchmaking_searching_json :: "matchmaking_searching \<Rightarrow> json" where
  "matchmaking_searching_json x = JObj
     ([(''tickets'', json_of_list ticket_json (mse_tickets x)),
      (''estimatedWaitMillis'', JStr (mse_estimated_wait_millis x)),
      (''type'', JStr (mse_type x)),
      (''gameSessionInfo'', game_session_info_json (mse_game_session_info x))])"

definition matchmaking_searching_of_json :: "json \<Rightarrow> matchmaking_searching option" where
  "matchmaking_searching_of_json j = do {
     kvs \<leftarrow> de_fields 4
       [''tickets'', ''estimatedWaitMillis'', ''type'', ''gameSessionInfo''] j;
     x_tickets \<leftarrow> de_required (de_list ticket_of_json) [''tickets''] kvs;
     x_estimated_wait_millis \<leftarrow> de_required de_string [''estimatedWaitMillis''] kvs;
     x_type \<leftarrow> de_required de_string [''type''] kvs;
     x_game_session_info \<leftarrow> de_required game_session_info_of_json [''gameSessionInfo''] kvs;
     Some \<lparr>mse_tickets = x_tickets, mse_estimated_wait_millis = x_estimated_wait_millis,
       mse_type = x_type, mse_game_session_info = x_game_session_info\<rparr> }"

lemma matchmaking_searching_not_null [simp]: "matchmaking_searching_json x \<noteq> JNull"
  by (simp add: matchmaking_searching_json_def)

lemma matchmaking_searching_read [read_back]: "matchmaking_searching_of_json (matchmaking_searching_json x) = Some x"
  by (cases x) (simp add: matchmaking_searching_of_json_def matchmaking_searching_json_def read_back)

subsection \<open>\<^verbatim>\<open>cloudwatch_events/glue\<close>\<close>

record job_run_state_change =
  jrsc_job_name :: string
  jrsc_severity :: string
  jrsc_state :: string
  jrsc_job_run_id :: string
  jrsc_message :: string

definition job_run_state_change_json :: "job_run_state_change \<Rightarrow> json" where
  "job_run_state_change_json x = JObj
     ([(''jobName'', JStr (jrsc_job_name x)),
      (''severity'', JStr (jrsc_severity x)),
      (''state'', JStr (jrsc_state x)),
      (''jobRunId'', JStr (jrsc_job_run_id x)),
      (''message'', JStr (jrsc_message x))])"

definition job_run_state_change_of_json :: "json \<Rightarrow> job_run_state_change option" where
  "job_run_state_change_of_json j = do {
     kvs \<leftarrow> de_fields 5
       [''jobName'', ''severity'', ''state'', ''jobRunId'', ''message''] j;
     x_job_name \<leftarrow> de_required de_string [''jobName''] kvs;
     x_severity \<leftarrow> de_required de_string [''severity''] kvs;
     x_state \<leftarrow> de_required de_string [''state''] kvs;
     x_job_run_id \<leftarrow> de_required de_string [''jobRunId''] kvs;
     x_message \<leftarrow> de_required de_string [''message''] kvs;
     Some \<lparr>jrsc_job_name = x_job_name, jrsc_severity = x_severity, jrsc_state = x_state,
       jrsc_job_run_id = x_job_run_id, jrsc_message = x_message\<rparr> }"

lemma job_run_state_change_not_null [simp]: "job_run_state_change_json x \<noteq> JNull"
  by (simp add: job_run_state_change_json_def)

lemma job_run_state_change_read [read_back]: "job_run_state_change_of_json (job_run_state_change_json x) = Some x"
  by (cases x) (simp add: job_run_state_change_of_json_def job_run_state_change_json_def read_back)

record crawler_started =
  cs_account_id :: string
  cs_crawler_name :: string
  cs_start_time :: string
  cs_state :: string
  cs_message :: string

definition crawler_started_json :: "crawler_started \<Rightarrow> json" where
  "crawler_started_json x = JObj
     ([(''accountId'', JStr (cs_account_id x)),
      (''crawlerName'', JStr (cs_crawler_name x)),
      (''startTime'', JStr (cs_start_time x)),
      (''state'', JStr (cs_state x)),
      (''message'', JStr (cs_message x))])"

definition crawler_started_of_json :: "json \<Rightarrow> crawler_started option" where
  "crawler_started_of_json j = do {
     kvs \<leftarrow> de_fields 5
       [''accountId'', ''crawlerName'', ''startTime'', ''state'', ''message''] j;
     x_account_id \<leftarrow> de_required de_string [''accountId''] kvs;
     x_crawler_name \<leftarrow> de_required de_string [''crawlerName''] kvs;
     x_start_time \<leftarrow> de_required de_string [''startTime''] kvs;
     x_state \<leftarrow> de_required de_string [''state''] kvs;
     x_message \<leftarrow> de_required de_string [''message''] kvs;
     Some \<lparr>cs_account_id = x_account_id, cs_crawler_name = x_crawler_name,
       cs_start_time = x_start_time, cs_state = x_state, cs_message = x_message\<rparr> }"

lemma crawler_started_not_null [simp]: "crawler_started_json x \<noteq> JNull"
  by (simp add: crawler_started_json_def)

lemma crawler_started_read [read_back]: "crawler_started_of_json (crawler_started_json x) = Some x"
  by (cases x) (simp add: crawler_started_of_json_def crawler_started_json_def read_back)

record crawler_succeeded =
  csu_tables_created :: string
  csu_warning_message :: string
  csu_partitions_updated :: string
  csu_tables_updated :: string
  csu_message :: string
  csu_partitions_deleted :: string
  csu_account_id :: string
  csu_running_time_sec :: string
  csu_tables_deleted :: string
  csu_crawler_name :: string
  csu_completion_date :: string
  csu_state :: string
  csu_partitions_created :: string
  csu_cloud_watch_log_link :: string

definition crawler_succeeded_json :: "crawler_succeeded \<Rightarrow> json" where
  "crawler_succeeded_json x = JObj
     ([(''tablesCreated'', JStr (csu_tables_created x)),
      (''warningMessage'', JStr (csu_warning_message x)),
      (''partitionsUpdated'', JStr (csu_partitions_updated x)),
      (''tablesUpdated'', JStr (csu_tables_updated x)),
      (''message'', JStr (csu_message x)),
      (''partitionsDeleted'', JStr (csu_partitions_deleted x)),
      (''accountId'', JStr (csu_account_id x)),
      (''runningTime (sec)'', JStr (csu_running_time_sec x)),
      (''tablesDeleted'', JStr (csu_tables_deleted x)),
      (''crawlerName'', JStr (csu_crawler_name x)),
      (''completionDate'', JStr (csu_completion_date x)),
      (''state'', JStr (csu_state x)),
      (''partitionsCreated'', JStr (csu_partitions_created x)),
      (''cloudWatchLogLink'', JStr (csu_cloud_watch_log_link x))])"

definition crawler_succeeded_of_json :: "json \<Rightarrow> crawler_succeeded option" where
  "crawler_succeeded_of_json j = do {
     kvs \<leftarrow> de_fields 14
       [''tablesCreated'', ''warningMessage'', ''partitionsUpdated'', ''tablesUpdated'',
        ''message'', ''partitionsDeleted'', ''accountId'', ''runningTime (sec)'',
        ''tablesDeleted'', ''crawlerName'', ''completionDate'', ''state'', ''partitionsCreated'',
        ''cloudWatchLogLink''] j;
     x_tables_created \<leftarrow> de_required de_string [''tablesCreated''] kvs;
     x_warning_message \<leftarrow> de_required de_string [''warningMessage''] kvs;
     x_partitions_updated \<leftarrow> de_required de_string [''partitionsUpdated''] kvs;
     x_tables_updated \<leftarrow> de_required de_string [''tablesUpdated''] kvs;
     x_message \<leftarrow> de_required de_string [''message''] kvs;
     x_partitions_deleted \<leftarrow> de_required de_string [''partitionsDeleted''] kvs;
     x_account_id \<leftarrow> de_required de_string [''accountId''] kvs;
     x_running_time_sec \<leftarrow> de_required de_string [''runningTime (sec)''] kvs;
     x_tables_deleted \<leftarrow> de_required de_string [''tablesDeleted''] kvs;
     x_crawler_name \<leftarrow> de_required de_string [''crawlerName''] kvs;
     x_completion_date \<leftarrow> de_required de_string [''completionDate''] kvs;
     x_state \<leftarrow> de_required de_string [''state''] kvs;
     x_partitions_created \<leftarrow> de_required de_string [''partitionsCreated''] kvs;
     x_cloud_watch_log_link \<leftarrow> de_required de_string [''cloudWatchLogLink''] kvs;
     Some \<lparr>csu_tables_created = x_tables_created, csu_warning_message = x_warning_message,
       csu_partitions_updated = x_partitions_updated, csu_tables_updated = x_tables_updated,
       csu_message = x_message, csu_partitions_deleted = x_partitions_deleted,
       csu_account_id = x_account_id, csu_running_time_sec = x_running_time_sec,
       csu_tables_deleted = x_tables_deleted, csu_crawler_name = x_crawler_name,
       csu_completion_date = x_completion_date, csu_state = x_state,
       csu_partitions_created = x_partitions_created,
       csu_cloud_watch_log_link = x_cloud_watch_log_link\<rparr> }"

lemma crawler_succeeded_not_null [simp]: "crawler_succeeded_json x \<noteq> JNull"
  by (simp add: crawler_succeeded_json_def)

lemma crawler_succeeded_read [read_back]: "crawler_succeeded_of_json (crawler_succeeded_json x) = Some x"
  by (cases x) (simp add: crawler_succeeded_of_json_def crawler_succeeded_json_def read_back)

record crawler_failed =
  cf_crawler_name :: string
  cf_error_message :: string
  cf_account_id :: string
  cf_cloud_watch_log_link :: string
  cf_state :: string
  cf_message :: string

definition crawler_failed_json :: "crawler_failed \<Rightarrow> json" where
  "crawler_failed_json x = JObj
     ([(''crawlerName'', JStr (cf_crawler_name x)),
      (''errorMessage'', JStr (cf_error_message x)),
      (''accountId'', JStr (cf_account_id x)),
      (''cloudWatchLogLink'', JStr (cf_cloud_watch_log_link x)),
      (''state'', JStr (cf_state x)),
      (''message'', JStr (cf_message x))])"

definition crawler_failed_of_json :: "json \<Rightarrow> crawler_failed option" where
  "crawler_failed_of_json j = do {
     kvs \<leftarrow> de_fields 6
       [''crawlerName'', ''errorMessage'', ''accountId'', ''cloudWatchLogLink'', ''state'',
        ''message''] j;
     x_crawler_name \<leftarrow> de_required de_string [''crawlerName''] kvs;
     x_error_message \<leftarrow> de_required de_string [''errorMessage''] kvs;
     x_account_id \<leftarrow> de_required de_string [''accountId''] kvs;
     x_cloud_watch_log_link \<leftarrow> de_required de_string [''cloudWatchLogLink''] kvs;
     x_state \<leftarrow> de_required de_string [''state''] kvs;
     x_message \<leftarrow> de_required de_string [''message''] kvs;
     Some \<lparr>cf_crawler_name = x_crawler_name, cf_error_message = x_error_message,
       cf_account_id = x_account_id, cf_cloud_watch_log_link = x_cloud_watch_log_link,
       cf_state = x_state, cf_message = x_message\<rparr> }"

lemma crawler_failed_not_null [simp]: "crawler_failed_json x \<noteq> JNull"
  by (simp add: crawler_failed_json_def)

lemma crawler_failed_read [read_back]: "crawler_failed_of_json (crawler_failed_json x) = Some x"
  by (cases x) (simp add: crawler_failed_of_json_def crawler_failed_json_def read_back)

record notification_condition =
  nc_notify_delay_after :: f64

definition notification_condition_json :: "notification_condition \<Rightarrow> json" where
  "notification_condition_json x = JObj
     ([(''NotifyDelayAfter'', json_of_f64 (nc_notify_delay_after x))])"

definition notification_condition_of_json :: "json \<Rightarrow> notification_condition option" where
  "notification_condition_of_json j = do {
     kvs \<leftarrow> de_fields 1
       [''NotifyDelayAfter''] j;
     x_notify_delay_after \<leftarrow> de_required de_f64 [''NotifyDelayAfter''] kvs;
     Some \<lparr>nc_notify_delay_after = x_notify_delay_after\<rparr> }"

definition notification_condition_good :: "notification_condition \<Rightarrow> bool" where
  "notification_condition_good x \<longleftrightarrow>
     f64_finite (nc_notify_delay_after x)"

lemma notification_condition_not_null [simp]: "notification_condition_json x \<noteq> JNull"
  by (simp add: notification_condition_json_def)

lemma notification_condition_read [read_back]: "notification_condition_good x \<Longrightarrow>notification_condition_of_json (notification_condition_json x) = Some x"
  by (cases x) (simp add: notification_condition_of_json_def notification_condition_json_def notification_condition_good_def read_back)

lemma notification_condition_typed: "typed notification_condition_good notification_condition_of_json"
  unfolding typed_def notification_condition_of_json_def notification_condition_good_def
  by (auto simp: bind_eq_Some_conv dest!: typed_required [OF typed_f64])

record data_catalog_table_state_change =
  dctsc_database_name :: string
  dctsc_changed_partitions :: "string list"
  dctsc_type_of_change :: string
  dctsc_table_name :: string

definition data_catalog_table_state_change_json :: "data_catalog_table_state_change \<Rightarrow> json" where
  "data_catalog_table_state_change_json x = JObj
     ([(''databaseName'', JStr (dctsc_database_name x)),
      (''changedPartitions'', json_of_list JStr (dctsc_changed_partitions x)),
      (''typeOfChange'', JStr (dctsc_type_of_change x)),
      (''tableName'', JStr (dctsc_table_name x))])"

definition data_catalog_table_state_change_of_json :: "json \<Rightarrow> data_catalog_table_state_change option" where
  "data_catalog_table_state_change_of_json j = do {
     kvs \<leftarrow> de_fields 4
       [''databaseName'', ''changedPartitions'', ''typeOfChange'', ''tableName''] j;
     x_database_name \<leftarrow> de_required de_string [''databaseName''] kvs;
     x_changed_partitions \<leftarrow> de_required (de_list de_string) [''changedPartitions''] kvs;
     x_type_of_change \<leftarrow> de_required de_string [''typeOfChange''] kvs;
     x_table_name \<leftarrow> de_required de_string [''tableName''] kvs;
     Some \<lparr>dctsc_database_name = x_database_name, dctsc_changed_partitions = x_changed_partitions,
       dctsc_type_of_change = x_type_of_change, dctsc_table_name = x_table_name\<rparr> }"

lemma data_catalog_table_state_change_not_null [simp]: "data_catalog_table_state_change_json x \<noteq> JNull"
  by (simp add: data_catalog_table_state_change_json_def)

lemma data_catalog_table_state_change_read [read_back]: "data_catalog_table_state_change_of_json (data_catalog_table_state_change_json x) = Some x"
  by (cases x) (simp add: data_catalog_table_state_change_of_json_def data_catalog_table_state_change_json_def read_back)

record data_catalog_database_state_change =
  dcdsc_database_name :: string
  dcdsc_type_of_change :: string
  dcdsc_changed_tables :: "string list"

definition data_catalog_database_state_change_json :: "data_catalog_database_state_change \<Rightarrow> json" where
  "data_catalog_database_state_change_json x = JObj
     ([(''databaseName'', JStr (dcdsc_database_name x)),
      (''typeOfChange'', JStr (dcdsc_type_of_change x)),
      (''changedTables'', json_of_list JStr (dcdsc_changed_tables x))])"

definition data_catalog_database_state_change_of_json :: "json \<Rightarrow> data_catalog_database_state_change option" where
  "data_catalog_database_state_change_of_json j = do {
     kvs \<leftarrow> de_fields 3
       [''databaseName'', ''typeOfChange'', ''changedTables''] j;
     x_database_name \<leftarrow> de_required de_string [''databaseName''] kvs;
     x_type_of_change \<leftarrow> de_required de_string [''typeOfChange''] kvs;
     x_changed_tables \<leftarrow> de_required (de_list de_string) [''changedTables''] kvs;
     Some \<lparr>dcdsc_database_name = x_database_name, dcdsc_type_of_change = x_type_of_change,
       dcdsc_changed_tables = x_changed_tables\<rparr> }"

lemma data_catalog_database_state_change_not_null [simp]: "data_catalog_database_state_change_json x \<noteq> JNull"
  by (simp add: data_catalog_database_state_change_json_def)

lemma data_catalog_database_state_change_read [read_back]: "data_catalog_database_state_change_of_json (data_catalog_database_state_change_json x) = Some x"
  by (cases x) (simp add: data_catalog_database_state_change_of_json_def data_catalog_database_state_change_json_def read_back)

record job_run_status =
  jrs_job_name :: string
  jrs_severity :: string
  jrs_notification_condition :: notification_condition
  jrs_state :: string
  jrs_job_run_id :: string
  jrs_message :: string
  jrs_started_on :: string

definition job_run_status_json :: "job_run_status \<Rightarrow> json" where
  "job_run_status_json x = JObj
     ([(''jobName'', JStr (jrs_job_name x)),
      (''severity'', JStr (jrs_severity x)),
      (''notificationCondition'', notification_condition_json (jrs_notification_condition x)),
      (''state'', JStr (jrs_state x)),
      (''jobRunId'', JStr (jrs_job_run_id x)),
      (''message'', JStr (jrs_message x)),
      (''startedOn'', JStr (jrs_started_on x))])"

definition job_run_status_of_json :: "json \<Rightarrow> job_run_status option" where
  "job_run_status_of_json j = do {
     kvs \<leftarrow> de_fields 7
       [''jobName'', ''severity'', ''notificationCondition'', ''state'', ''jobRunId'', ''message'',
        ''startedOn''] j;
     x_job_name \<leftarrow> de_required de_string [''jobName''] kvs;
     x_severity \<leftarrow> de_required de_string [''severity''] kvs;
     x_notification_condition \<leftarrow> de_required notification_condition_of_json [''notificationCondition''] kvs;
     x_state \<leftarrow> de_required de_string [''state''] kvs;
     x_job_run_id \<leftarrow> de_required de_string [''jobRunId''] kvs;
     x_message \<leftarrow> de_required de_string [''message''] kvs;
     x_started_on \<leftarrow> de_required de_string [''startedOn''] kvs;
     Some \<lparr>jrs_job_name = x_job_name, jrs_severity = x_severity,
       jrs_notification_condition = x_notification_condition, jrs_state = x_state,
       jrs_job_run_id = x_job_run_id, jrs_message = x_message, jrs_started_on = x_started_on\<rparr> }"

definition job_run_status_good :: "job_run_status \<Rightarrow> bool" where
  "job_run_status_good x \<longleftrightarrow>
     notification_condition_good (jrs_notification_condition x)"

lemma job_run_status_not_null [simp]: "job_run_status_json x \<noteq> JNull"
  by (simp add: job_run_status_json_def)

lemma job_run_status_read [read_back]: "job_run_status_good x \<Longrightarrow>job_run_status_of_json (job_run_status_json x) = Some x"
  by (cases x) (simp add: job_run_status_of_json_def job_run_status_json_def job_run_status_good_def read_back)

lemma job_run_status_typed: "typed job_run_status_good job_run_status_of_json"
  unfolding typed_def job_run_status_of_json_def job_run_status_good_def
  by (auto simp: bind_eq_Some_conv dest!: typed_required [OF notification_condition_typed])

subsection \<open>\<^verbatim>\<open>cloudwatch_events/health\<close>\<close>

record event_description =
  ed_language :: string
  ed_latest_description :: string

definition event_description_json :: "event_description \<Rightarrow> json" where
  "event_description_json x = JObj
     ([(''language'', JStr (ed_language x)),
      (''latestDescription'', JStr (ed_latest_description x))])"

definition event_description_of_json :: "json \<Rightarrow> event_description option" where
  "event_description_of_json j = do {
     kvs \<leftarrow> de_fields 2
       [''language'', ''latestDescription''] j;
     x_language \<leftarrow> de_required de_string [''language''] kvs;
     x_latest_description \<leftarrow> de_required de_string [''latestDescription''] kvs;
     Some \<lparr>ed_language = x_language, ed_latest_description = x_latest_description\<rparr> }"

lemma event_description_not_null [simp]: "event_description_json x \<noteq> JNull"
  by (simp add: event_description_json_def)

lemma event_description_read [read_back]: "event_description_of_json (event_description_json x) = Some x"
  by (cases x) (simp add: event_description_of_json_def event_description_json_def read_back)

record entity =
  en_entity_value :: string
  en_tags :: "(string \<times> string) list"

definition entity_json :: "entity \<Rightarrow> json" where
  "entity_json x = JObj
     ([(''entityValue'', JStr (en_entity_value x)),
      (''tags'', json_of_map JStr (en_tags x))])"

definition entity_of_json :: "json \<Rightarrow> entity option" where
  "entity_of_json j = do {
     kvs \<leftarrow> de_fields 2
       [''entityValue'', ''tags''] j;
     x_entity_value \<leftarrow> de_required de_string [''entityValue''] kvs;
     x_tags \<leftarrow> de_required (de_hash_map de_string) [''tags''] kvs;
     Some \<lparr>en_entity_value = x_entity_value, en_tags = x_tags\<rparr> }"

definition entity_good :: "entity \<Rightarrow> bool" where
  "entity_good x \<longleftrightarrow>
     good_map (\<lambda>_. True) (en_tags x)"

lemma entity_not_null [simp]: "entity_json x \<noteq> JNull"
  by (simp add: entity_json_def)

lemma entity_read [read_back]: "entity_good x \<Longrightarrow>entity_of_json (entity_json x) = Some x"
  by (cases x) (simp add: entity_of_json_def entity_json_def entity_good_def read_back)

lemma entity_typed: "typed entity_good entity_of_json"
  unfolding typed_def entity_of_json_def entity_good_def
  by (auto simp: bind_eq_Some_conv dest!: typed_required [OF typed_hash_map [OF typed_True [of "de_string"]]])

record health_event =
  he_event_arn :: string
  he_service :: string
  he_event_type_code :: string
  he_event_type_category :: string
  he_start_time :: string
  he_end_time :: string
  he_event_description :: "event_description list"
  he_affected_entities :: "(entity list) option"

definition health_event_json :: "health_event \<Rightarrow> json" where
  "health_event_json x = JObj
     ([(''eventArn'', JStr (he_event_arn x)),
      (''service'', JStr (he_service x)),
      (''eventTypeCode'', JStr (he_event_type_code x)),
      (''eventTypeCategory'', JStr (he_event_type_category x)),
      (''startTime'', JStr (he_start_time x)),
      (''endTime'', JStr (he_end_time x)),
      (''eventDescription'', json_of_list event_description_json (he_event_description x)),
      (''affectedEntities'', json_of_option (json_of_list entity_json) (he_affected_entities x))])"

definition health_event_of_json :: "json \<Rightarrow> health_event option" where
  "health_event_of_json j = do {
     kvs \<leftarrow> de_fields 8
       [''eventArn'', ''service'', ''eventTypeCode'', ''eventTypeCategory'', ''startTime'',
        ''endTime'', ''eventDescription'', ''affectedEntities''] j;
     x_event_arn \<leftarrow> de_required de_string [''eventArn''] kvs;
     x_service \<leftarrow> de_required de_string [''service''] kvs;
     x_event_type_code \<leftarrow> de_required de_string [''eventTypeCode''] kvs;
     x_event_type_category \<leftarrow> de_required de_string [''eventTypeCategory''] kvs;
     x_start_time \<leftarrow> de_required de_string [''startTime''] kvs;
     x_end_time \<leftarrow> de_required de_string [''endTime''] kvs;
     x_event_description \<leftarrow> de_required (de_list event_description_of_json) [''eventDescription''] kvs;
     x_affected_entities \<leftarrow> de_optional (de_list entity_of_json) [''affectedEntities''] kvs;
     Some \<lparr>he_event_arn = x_event_arn, he_service = x_service,
       he_event_type_code = x_event_type_code, he_event_type_category = x_event_type_category,
       he_start_time = x_start_time, he_end_time = x_end_time,
       he_event_description = x_event_description, he_affected_entities = x_affected_entities\<rparr> }"

definition health_event_good :: "health_event \<Rightarrow> bool" where
  "health_event_good x \<longleftrightarrow>
     good_option (list_all entity_good) (he_affected_entities x)"

lemma health_event_not_null [simp]: "health_event_json x \<noteq> JNull"
  by (simp add: health_event_json_def)

lemma health_event_read [read_back]: "health_event_good x \<Longrightarrow>health_event_of_json (health_event_json x) = Some x"
  by (cases x) (simp add: health_event_of_json_def health_event_json_def health_event_good_def read_back)

lemma health_event_typed: "typed health_event_good health_event_of_json"
  unfolding typed_def health_event_of_json_def health_event_good_def
  by (auto simp: bind_eq_Some_conv dest!: typed_optional [OF typed_list [OF entity_typed]])

subsection \<open>\<^verbatim>\<open>cloudwatch_events/kms\<close>\<close>

record cmk_event =
  cev_key_id :: string

definition cmk_event_json :: "cmk_event \<Rightarrow> json" where
  "cmk_event_json x = JObj
     ([(''key-id'', JStr (cev_key_id x))])"

definition cmk_event_of_json :: "json \<Rightarrow> cmk_event option" where
  "cmk_event_of_json j = do {
     kvs \<leftarrow> de_fields 1
       [''key-id''] j;
     x_key_id \<leftarrow> de_required de_string [''key-id''] kvs;
     Some \<lparr>cev_key_id = x_key_id\<rparr> }"

lemma cmk_event_not_null [simp]: "cmk_event_json x \<noteq> JNull"
  by (simp add: cmk_event_json_def)

lemma cmk_event_read [read_back]: "cmk_event_of_json (cmk_event_json x) = Some x"
  by (cases x) (simp add: cmk_event_of_json_def cmk_event_json_def read_back)

subsection \<open>\<^verbatim>\<open>cloudwatch_events/macie\<close>\<close>

record trigger =
  tri_rule_arn :: string
  tri_alert_type :: string
  tri_created_at :: string
  tri_description :: string
  tri_risk :: int

definition trigger_json :: "trigger \<Rightarrow> json" where
  "trigger_json x = JObj
     ([(''rule-arn'', JStr (tri_rule_arn x)),
      (''alert-type'', JStr (tri_alert_type x)),
      (''created-at'', JStr (tri_created_at x)),
      (''description'', JStr (tri_description x)),
      (''risk'', JInt (tri_risk x))])"

definition trigger_of_json :: "json \<Rightarrow> trigger option" where
  "trigger_of_json j = do {
     kvs \<leftarrow> de_fields 5
       [''rule-arn'', ''alert-type'', ''created-at'', ''description'', ''risk''] j;
     x_rule_arn \<leftarrow> de_required de_string [''rule-arn''] kvs;
     x_alert_type \<leftarrow> de_required de_string [''alert-type''] kvs;
     x_created_at \<leftarrow> de_required de_string [''created-at''] kvs;
     x_description \<leftarrow> de_required de_string [''description''] kvs;
     x_risk \<leftarrow> de_required de_i64 [''risk''] kvs;
     Some \<lparr>tri_rule_arn = x_rule_arn, tri_alert_type = x_alert_type, tri_created_at = x_created_at,
       tri_description = x_description, tri_risk = x_risk\<rparr> }"

definition trigger_good :: "trigger \<Rightarrow> bool" where
  "trigger_good x \<longleftrightarrow>
     good_i64 (tri_risk x)"

lemma trigger_not_null [simp]: "trigger_json x \<noteq> JNull"
  by (simp add: trigger_json_def)

lemma trigger_read [read_back]: "trigger_good x \<Longrightarrow>trigger_of_json (trigger_json x) = Some x"
  by (cases x) (simp add: trigger_of_json_def trigger_json_def trigger_good_def read_back)

lemma trigger_typed: "typed trigger_good trigger_of_json"
  unfolding typed_def trigger_of_json_def trigger_good_def
  by (auto simp: bind_eq_Some_conv dest!: typed_required [OF typed_i64])

record ip =
  ip_n34_199_185_34 :: int
  ip_n34_205_153_2 :: int
  ip_n72_21_196_70 :: int

definition ip_json :: "ip \<Rightarrow> json" where
  "ip_json x = JObj
     ([(''34.199.185.34'', JInt (ip_n34_199_185_34 x)),
      (''34.205.153.2'', JInt (ip_n34_205_153_2 x)),
      (''72.21.196.70'', JInt (ip_n72_21_196_70 x))])"

definition ip_of_json :: "json \<Rightarrow> ip option" where
  "ip_of_json j = do {
     kvs \<leftarrow> de_fields 3
       [''34.199.185.34'', ''34.205.153.2'', ''72.21.196.70''] j;
     x_n34_199_185_34 \<leftarrow> de_required de_i64 [''34.199.185.34''] kvs;
     x_n34_205_153_2 \<leftarrow> de_required de_i64 [''34.205.153.2''] kvs;
     x_n72_21_196_70 \<leftarrow> de_required de_i64 [''72.21.196.70''] kvs;
     Some \<lparr>ip_n34_199_185_34 = x_n34_199_185_34, ip_n34_205_153_2 = x_n34_205_153_2,
       ip_n72_21_196_70 = x_n72_21_196_70\<rparr> }"

definition ip_good :: "ip \<Rightarrow> bool" where
  "ip_good x \<longleftrightarrow>
     good_i64 (ip_n34_199_185_34 x) \<and>
     good_i64 (ip_n34_205_153_2 x) \<and>
     good_i64 (ip_n72_21_196_70 x)"

lemma ip_not_null [simp]: "ip_json x \<noteq> JNull"
  by (simp add: ip_json_def)

lemma ip_read [read_back]: "ip_good x \<Longrightarrow>ip_of_json (ip_json x) = Some x"
  by (cases x) (clarsimp simp: ip_of_json_def ip_json_def ip_good_def read_back)

lemma ip_typed: "typed ip_good ip_of_json"
  unfolding typed_def ip_of_json_def ip_good_def
  by (auto simp: bind_eq_Some_conv dest!: typed_required [OF typed_i64])

record time_range =
  tra_count :: int
  tra_start :: string
  tra_end :: string

definition time_range_json :: "time_range \<Rightarrow> json" where
  "time_range_json x = JObj
     ([(''count'', JInt (tra_count x)),
      (''start'', JStr (tra_start x)),
      (''end'', JStr (tra_end x))])"

definition time_range_of_json :: "json \<Rightarrow> time_range option" where
  "time_range_of_json j = do {
     kvs \<leftarrow> de_fields 3
       [''count'', ''start'', ''end''] j;
     x_count \<leftarrow> de_required de_i64 [''count''] kvs;
     x_start \<leftarrow> de_required de_string [''start''] kvs;
     x_end \<leftarrow> de_required de_string [''end''] kvs;
     Some \<lparr>tra_count = x_count, tra_start = x_start, tra_end = x_end\<rparr> }"

definition time_range_good :: "time_range \<Rightarrow> bool" where
  "time_range_good x \<longleftrightarrow>
     good_i64 (tra_count x)"

lemma time_range_not_null [simp]: "time_range_json x \<noteq> JNull"
  by (simp add: time_range_json_def)

lemma time_range_read [read_back]: "time_range_good x \<Longrightarrow>time_range_of_json (time_range_json x) = Some x"
  by (cases x) (simp add: time_range_of_json_def time_range_json_def time_range_good_def read_back)

lemma time_range_typed: "typed time_range_good time_range_of_json"
  unfolding typed_def time_range_of_json_def time_range_good_def
  by (auto simp: bind_eq_Some_conv dest!: typed_required [OF typed_i64])

record location =
  lo_us_east_1 :: int

definition location_json :: "location \<Rightarrow> json" where
  "location_json x = JObj
     ([(''us-east-1'', JInt (lo_us_east_1 x))])"

definition location_of_json :: "json \<Rightarrow> location option" where
  "location_of_json j = do {
     kvs \<leftarrow> de_fields 1
       [''us-east-1''] j;
     x_us_east_1 \<leftarrow> de_required de_i64 [''us-east-1''] kvs;
     Some \<lparr>lo_us_east_1 = x_us_east_1\<rparr> }"

definition location_good :: "location \<Rightarrow> bool" where
  "location_good x \<longleftrightarrow>
     good_i64 (lo_us_east_1 x)"

lemma location_not_null [simp]: "location_json x \<noteq> JNull"
  by (simp add: location_json_def)

lemma location_read [read_back]: "location_good x \<Longrightarrow>location_of_json (location_json x) = Some x"
  by (cases x) (simp add: location_of_json_def location_json_def location_good_def read_back)

lemma location_typed: "typed location_good location_of_json"
  unfolding typed_def location_of_json_def location_good_def
  by (auto simp: bind_eq_Some_conv dest!: typed_required [OF typed_i64])

record action_info =
  ai_count :: int
  ai_isp :: "(string \<times> int) list"
  ai_error_code :: "((string \<times> int) list) option"

definition action_info_json :: "action_info \<Rightarrow> json" where
  "action_info_json x = JObj
     ([(''count'', JInt (ai_count x)),
      (''ISP'', json_of_map JInt (ai_isp x)),
      (''errorCode'', json_of_option (json_of_map JInt) (ai_error_code x))])"

definition action_info_of_json :: "json \<Rightarrow> action_info option" where
  "action_info_of_json j = do {
     kvs \<leftarrow> de_fields 3
       [''count'', ''ISP'', ''errorCode''] j;
     x_count \<leftarrow> de_required de_i64 [''count''] kvs;
     x_isp \<leftarrow> de_required (de_hash_map de_i64) [''ISP''] kvs;
     x_error_code \<leftarrow> de_optional (de_hash_map de_i64) [''errorCode''] kvs;
     Some \<lparr>ai_count = x_count, ai_isp = x_isp, ai_error_code = x_error_code\<rparr> }"

definition action_info_good :: "action_info \<Rightarrow> bool" where
  "action_info_good x \<longleftrightarrow>
     good_i64 (ai_count x) \<and>
     good_map good_i64 (ai_isp x) \<and>
     good_option (good_map good_i64) (ai_error_code x)"

lemma action_info_not_null [simp]: "action_info_json x \<noteq> JNull"
  by (simp add: action_info_json_def)

lemma action_info_read [read_back]: "action_info_good x \<Longrightarrow>action_info_of_json (action_info_json x) = Some x"
  by (cases x) (clarsimp simp: action_info_of_json_def action_info_json_def action_info_good_def read_back)

lemma action_info_typed: "typed action_info_good action_info_of_json"
  unfolding typed_def action_info_of_json_def action_info_good_def
  by (auto simp: bind_eq_Some_conv dest!: typed_required [OF typed_i64]
      typed_required [OF typed_hash_map [OF typed_i64]]
      typed_optional [OF typed_hash_map [OF typed_i64]])

record bucket =
  bu_secret_bucket_name :: int

definition bucket_json :: "bucket \<Rightarrow> json" where
  "bucket_json x = JObj
     ([(''secret-bucket-name'', JInt (bu_secret_bucket_name x))])"

definition bucket_of_json :: "json \<Rightarrow> bucket option" where
  "bucket_of_json j = do {
     kvs \<leftarrow> de_fields 1
       [''secret-bucket-name''] j;
     x_secret_bucket_name \<leftarrow> de_required de_i64 [''secret-bucket-name''] kvs;
     Some \<lparr>bu_secret_bucket_name = x_secret_bucket_name\<rparr> }"

definition bucket_good :: "bucket \<Rightarrow> bool" where
  "bucket_good x \<longleftrightarrow>
     good_i64 (bu_secret_bucket_name x)"

lemma bucket_not_null [simp]: "bucket_json x \<noteq> JNull"
  by (simp add: bucket_json_def)

lemma bucket_read [read_back]: "bucket_good x \<Longrightarrow>bucket_of_json (bucket_json x) = Some x"
  by (cases x) (simp add: bucket_of_json_def bucket_json_def bucket_good_def read_back)

lemma bucket_typed: "typed bucket_good bucket_of_json"
  unfolding typed_def bucket_of_json_def bucket_good_def
  by (auto simp: bind_eq_Some_conv dest!: typed_required [OF typed_i64])

record owner =
  ow_display_name :: string
  ow_id :: string

definition owner_json :: "owner \<Rightarrow> json" where
  "owner_json x = JObj
     ([(''DisplayName'', JStr (ow_display_name x)),
      (''ID'', JStr (ow_id x))])"

definition owner_of_json :: "json \<Rightarrow> owner option" where
  "owner_of_json j = do {
     kvs \<leftarrow> de_fields 2
       [''DisplayName'', ''ID''] j;
     x_display_name \<leftarrow> de_required de_string [''DisplayName''] kvs;
     x_id \<leftarrow> de_required de_string [''ID''] kvs;
     Some \<lparr>ow_display_name = x_display_name, ow_id = x_id\<rparr> }"

lemma owner_not_null [simp]: "owner_json x \<noteq> JNull"
  by (simp add: owner_json_def)

lemma owner_read [read_back]: "owner_of_json (owner_json x) = Some x"
  by (cases x) (simp add: owner_of_json_def owner_json_def read_back)

record grantee =
  gr_type :: string
  gr_uri :: string

definition grantee_json :: "grantee \<Rightarrow> json" where
  "grantee_json x = JObj
     ([(''type'', JStr (gr_type x)),
      (''URI'', JStr (gr_uri x))])"

definition grantee_of_json :: "json \<Rightarrow> grantee option" where
  "grantee_of_json j = do {
     kvs \<leftarrow> de_fields 2
       [''type'', ''URI''] j;
     x_type \<leftarrow> de_required de_string [''type''] kvs;
     x_uri \<leftarrow> de_required de_string [''URI''] kvs;
     Some \<lparr>gr_type = x_type, gr_uri = x_uri\<rparr> }"

lemma grantee_not_null [simp]: "grantee_json x \<noteq> JNull"
  by (simp add: grantee_json_def)

lemma grantee_read [read_back]: "grantee_of_json (grantee_json x) = Some x"
  by (cases x) (simp add: grantee_of_json_def grantee_json_def read_back)

record bucket_contains_high_risk_object_summary =
  bchros_description :: string
  bchros_object :: "(string \<times> int) list"
  bchros_record_count :: int
  bchros_themes :: "(string \<times> int) list"
  bchros_event_count :: int
  bchros_dlp_risk :: "(string \<times> int) list"
  bchros_owner :: "(string \<times> int) list"
  bchros_timestamps :: "(string \<times> int) list"

definition bucket_contains_high_risk_object_summary_json :: "bucket_contains_high_risk_object_summary \<Rightarrow> json" where
  "bucket_contains_high_risk_object_summary_json x = JObj
     ([(''Description'', JStr (bchros_description x)),
      (''Object'', json_of_map JInt (bchros_object x)),
      (''Record Count'', JInt (bchros_record_count x)),
      (''Themes'', json_of_map JInt (bchros_themes x)),
      (''Event Count'', JInt (bchros_event_count x)),
      (''DLP risk'', json_of_map JInt (bchros_dlp_risk x)),
      (''Owner'', json_of_map JInt (bchros_owner x)),
      (''Timestamps'', json_of_map JInt (bchros_timestamps x))])"

definition bucket_contains_high_risk_object_summary_of_json :: "json \<Rightarrow> bucket_contains_high_risk_object_summary option" where
  "bucket_contains_high_risk_object_summary_of_json j = do {
     kvs \<leftarrow> de_fields 8
       [''Description'', ''Object'', ''Record Count'', ''Themes'', ''Event Count'', ''DLP risk'',
        ''Owner'', ''Timestamps''] j;
     x_description \<leftarrow> de_required de_string [''Description''] kvs;
     x_object \<leftarrow> de_required (de_hash_map de_i64) [''Object''] kvs;
     x_record_count \<leftarrow> de_required de_i64 [''Record Count''] kvs;
     x_themes \<leftarrow> de_required (de_hash_map de_i64) [''Themes''] kvs;
     x_event_count \<leftarrow> de_required de_i64 [''Event Count''] kvs;
     x_dlp_risk \<leftarrow> de_required (de_hash_map de_i64) [''DLP risk''] kvs;
     x_owner \<leftarrow> de_required (de_hash_map de_i64) [''Owner''] kvs;
     x_timestamps \<leftarrow> de_required (de_hash_map de_i64) [''Timestamps''] kvs;
     Some \<lparr>bchros_description = x_description, bchros_object = x_object,
       bchros_record_count = x_record_count, bchros_themes = x_themes,
       bchros_event_count = x_event_count, bchros_dlp_risk = x_dlp_risk, bchros_owner = x_owner,
       bchros_timestamps = x_timestamps\<rparr> }"

definition bucket_contains_high_risk_object_summary_good :: "bucket_contains_high_risk_object_summary \<Rightarrow> bool" where
  "bucket_contains_high_risk_object_summary_good x \<longleftrightarrow>
     good_map good_i64 (bchros_object x) \<and>
     good_i64 (bchros_record_count x) \<and>
     good_map good_i64 (bchros_themes x) \<and>
     good_i64 (bchros_event_count x) \<and>
     good_map good_i64 (bchros_dlp_risk x) \<and>
     good_map good_i64 (bchros_owner x) \<and>
     good_map good_i64 (bchros_timestamps x)"

lemma bucket_contains_high_risk_object_summary_not_null [simp]: "bucket_contains_high_risk_object_summary_json x \<noteq> JNull"
  by (simp add: bucket_contains_high_risk_object_summary_json_def)

lemma bucket_contains_high_risk_object_summary_read [read_back]: "bucket_contains_high_risk_object_summary_good x \<Longrightarrow>bucket_contains_high_risk_object_summary_of_json (bucket_contains_high_risk_object_summary_json x) = Some x"
  by (cases x) (clarsimp simp: bucket_contains_high_risk_object_summary_of_json_def bucket_contains_high_risk_object_summary_json_def bucket_contains_high_risk_object_summary_good_def read_back)

lemma bucket_contains_high_risk_object_summary_typed: "typed bucket_contains_high_risk_object_summary_good bucket_contains_high_risk_object_summary_of_json"
  unfolding typed_def bucket_contains_high_risk_object_summary_of_json_def bucket_contains_high_risk_object_summary_good_def
  by (auto simp: bind_eq_Some_conv dest!: typed_required [OF typed_hash_map [OF typed_i64]]
      typed_required [OF typed_i64])

record feature_info =
  fi_name :: string
  fi_description :: string
  fi_narrative :: string
  fi_anomalous :: bool
  fi_multiplier :: f64
  fi_excession_times :: "string list"
  fi_risk :: int

definition feature_info_json :: "feature_info \<Rightarrow> json" where
  "feature_info_json x = JObj
     ([(''name'', JStr (fi_name x)),
      (''description'', JStr (fi_description x)),
      (''narrative'', JStr (fi_narrative x)),
      (''anomalous'', JBool (fi_anomalous x)),
      (''multiplier'', json_of_f64 (fi_multiplier x)),
      (''excession_times'', json_of_list JStr (fi_excession_times x)),
      (''risk'', JInt (fi_risk x))])"

definition feature_info_of_json :: "json \<Rightarrow> feature_info option" where
  "feature_info_of_json j = do {
     kvs \<leftarrow> de_fields 7
       [''name'', ''description'', ''narrative'', ''anomalous'', ''multiplier'',
        ''excession_times'', ''risk''] j;
     x_name \<leftarrow> de_required de_string [''name''] kvs;
     x_description \<leftarrow> de_required de_string [''description''] kvs;
     x_narrative \<leftarrow> de_required de_string [''narrative''] kvs;
     x_anomalous \<leftarrow> de_required de_bool [''anomalous''] kvs;
     x_multiplier \<leftarrow> de_required de_f64 [''multiplier''] kvs;
     x_excession_times \<leftarrow> de_required (de_list de_string) [''excession_times''] kvs;
     x_risk \<leftarrow> de_required de_i64 [''risk''] kvs;
     Some \<lparr>fi_name = x_name, fi_description = x_description, fi_narrative = x_narrative,
       fi_anomalous = x_anomalous, fi_multiplier = x_multiplier,
       fi_excession_times = x_excession_times, fi_risk = x_risk\<rparr> }"

definition feature_info_good :: "feature_info \<Rightarrow> bool" where
  "feature_info_good x \<longleftrightarrow>
     f64_finite (fi_multiplier x) \<and>
     good_i64 (fi_risk x)"

lemma feature_info_not_null [simp]: "feature_info_json x \<noteq> JNull"
  by (simp add: feature_info_json_def)

lemma feature_info_read [read_back]: "feature_info_good x \<Longrightarrow>feature_info_of_json (feature_info_json x) = Some x"
  by (cases x) (clarsimp simp: feature_info_of_json_def feature_info_json_def feature_info_good_def read_back)

lemma feature_info_typed: "typed feature_info_good feature_info_of_json"
  unfolding typed_def feature_info_of_json_def feature_info_good_def
  by (auto simp: bind_eq_Some_conv dest!: typed_required [OF typed_f64]
      typed_required [OF typed_i64])

record 'p alert =
  ale_notification_type :: string
  ale_name :: string
  ale_tags :: "string list"
  ale_url :: string
  ale_alert_arn :: string
  ale_risk_score :: int
  ale_trigger :: trigger
  ale_created_at :: string
  ale_actor :: string
  ale_summary :: 'p

definition alert_json :: "('p \<Rightarrow> json) \<Rightarrow> 'p alert \<Rightarrow> json" where
  "alert_json gp x = JObj
     ([(''notification-type'', JStr (ale_notification_type x)),
      (''name'', JStr (ale_name x)),
      (''tags'', json_of_list JStr (ale_tags x)),
      (''url'', JStr (ale_url x)),
      (''alert-arn'', JStr (ale_alert_arn x)),
      (''risk-score'', JInt (ale_risk_score x)),
      (''trigger'', trigger_json (ale_trigger x)),
      (''created-at'', JStr (ale_created_at x)),
      (''actor'', JStr (ale_actor x)),
      (''summary'', gp (ale_summary x))])"

definition alert_of_json :: "(json \<Rightarrow> 'p option) \<Rightarrow> json \<Rightarrow> 'p alert option" where
  "alert_of_json fp j = do {
     kvs \<leftarrow> de_fields 10
       [''notification-type'', ''name'', ''tags'', ''url'', ''alert-arn'', ''risk-score'',
        ''trigger'', ''created-at'', ''actor'', ''summary''] j;
     x_notification_type \<leftarrow> de_required de_string [''notification-type''] kvs;
     x_name \<leftarrow> de_required de_string [''name''] kvs;
     x_tags \<leftarrow> de_required (de_list de_string) [''tags''] kvs;
     x_url \<leftarrow> de_required de_string [''url''] kvs;
     x_alert_arn \<leftarrow> de_required de_string [''alert-arn''] kvs;
     x_risk_score \<leftarrow> de_required de_i64 [''risk-score''] kvs;
     x_trigger \<leftarrow> de_required trigger_of_json [''trigger''] kvs;
     x_created_at \<leftarrow> de_required de_string [''created-at''] kvs;
     x_actor \<leftarrow> de_required de_string [''actor''] kvs;
     x_summary \<leftarrow> de_required fp [''summary''] kvs;
     Some \<lparr>ale_notification_type = x_notification_type, ale_name = x_name, ale_tags = x_tags,
       ale_url = x_url, ale_alert_arn = x_alert_arn, ale_risk_score = x_risk_score,
       ale_trigger = x_trigger, ale_created_at = x_created_at, ale_actor = x_actor,
       ale_summary = x_summary\<rparr> }"

definition alert_good :: "('p \<Rightarrow> bool) \<Rightarrow> 'p alert \<Rightarrow> bool" where
  "alert_good Pp x \<longleftrightarrow>
     good_i64 (ale_risk_score x) \<and>
     trigger_good (ale_trigger x) \<and>
     Pp (ale_summary x)"

lemma alert_not_null [simp]: "alert_json gp x \<noteq> JNull"
  by (simp add: alert_json_def)

lemma alert_read [read_back]: "alert_good Pp x \<Longrightarrow> (\<And>x. Pp x \<Longrightarrow> fp (gp x) = Some x) \<Longrightarrow>alert_of_json fp (alert_json gp x) = Some x"
  by (cases x) (clarsimp simp: alert_of_json_def alert_json_def alert_good_def read_back)

lemma alert_typed:
  assumes typed_p: "typed Pp fp" shows "typed (alert_good Pp) (alert_of_json fp)"
  unfolding typed_def alert_of_json_def alert_good_def
  by (auto simp: bind_eq_Some_conv dest!: typed_required [OF typed_i64]
      typed_required [OF trigger_typed]
      typed_required [OF typed_p])

record bucket_scan_summary =
  bss_description :: string
  bss_ip :: ip
  bss_time_range :: "time_range list"
  bss_source_arn :: string
  bss_record_count :: int
  bss_location :: location
  bss_event_count :: int
  bss_events :: "(string \<times> action_info) list"
  bss_recipient_account_id :: "(string \<times> int) list"

definition bucket_scan_summary_json :: "bucket_scan_summary \<Rightarrow> json" where
  "bucket_scan_summary_json x = JObj
     ([(''Description'', JStr (bss_description x)),
      (''IP'', ip_json (bss_ip x)),
      (''Time Range'', json_of_list time_range_json (bss_time_range x)),
      (''Source ARN'', JStr (bss_source_arn x)),
      (''Record Count'', JInt (bss_record_count x)),
      (''Location'', location_json (bss_location x)),
      (''Event Count'', JInt (bss_event_count x)),
      (''Events'', json_of_map action_info_json (bss_events x)),
      (''recipientAccountId'', json_of_map JInt (bss_recipient_account_id x))])"

definition bucket_scan_summary_of_json :: "json \<Rightarrow> bucket_scan_summary option" where
  "bucket_scan_summary_of_json j = do {
     kvs \<leftarrow> de_fields 9
       [''Description'', ''IP'', ''Time Range'', ''Source ARN'', ''Record Count'', ''Location'',
        ''Event Count'', ''Events'', ''recipientAccountId''] j;
     x_description \<leftarrow> de_required de_string [''Description''] kvs;
     x_ip \<leftarrow> de_required ip_of_json [''IP''] kvs;
     x_time_range \<leftarrow> de_required (de_list time_range_of_json) [''Time Range''] kvs;
     x_source_arn \<leftarrow> de_required de_string [''Source ARN''] kvs;
     x_record_count \<leftarrow> de_required de_i64 [''Record Count''] kvs;
     x_location \<leftarrow> de_required location_of_json [''Location''] kvs;
     x_event_count \<leftarrow> de_required de_i64 [''Event Count''] kvs;
     x_events \<leftarrow> de_required (de_hash_map action_info_of_json) [''Events''] kvs;
     x_recipient_account_id \<leftarrow> de_required (de_hash_map de_i64) [''recipientAccountId''] kvs;
     Some \<lparr>bss_description = x_description, bss_ip = x_ip, bss_time_range = x_time_range,
       bss_source_arn = x_source_arn, bss_record_count = x_record_count,
       bss_location = x_location, bss_event_count = x_event_count, bss_events = x_events,
       bss_recipient_account_id = x_recipient_account_id\<rparr> }"

definition bucket_scan_summary_good :: "bucket_scan_summary \<Rightarrow> bool" where
  "bucket_scan_summary_good x \<longleftrightarrow>
     ip_good (bss_ip x) \<and>
     list_all time_range_good (bss_time_range x) \<and>
     good_i64 (bss_record_count x) \<and>
     location_good (bss_location x) \<and>
     good_i64 (bss_event_count x) \<and>
     good_map action_info_good (bss_events x) \<and>
     good_map good_i64 (bss_recipient_account_id x)"

lemma bucket_scan_summary_not_null [simp]: "bucket_scan_summary_json x \<noteq> JNull"
  by (simp add: bucket_scan_summary_json_def)

lemma bucket_scan_summary_read [read_back]: "bucket_scan_summary_good x \<Longrightarrow>bucket_scan_summary_of_json (bucket_scan_summary_json x) = Some x"
  by (cases x) (clarsimp simp: bucket_scan_summary_of_json_def bucket_scan_summary_json_def bucket_scan_summary_good_def read_back)

lemma bucket_scan_summary_typed: "typed bucket_scan_summary_good bucket_scan_summary_of_json"
  unfolding typed_def bucket_scan_summary_of_json_def bucket_scan_summary_good_def
  by (auto simp: bind_eq_Some_conv dest!: typed_required [OF ip_typed]
      typed_required [OF typed_list [OF time_range_typed]]
      typed_required [OF typed_i64]
      typed_required [OF location_typed]
      typed_required [OF typed_hash_map [OF action_info_typed]]
      typed_required [OF typed_hash_map [OF typed_i64]])

record grant =
  gra_grantee :: grantee
  gra_permission :: string

definition grant_json :: "grant \<Rightarrow> json" where
  "grant_json x = JObj
     ([(''Grantee'', grantee_json (gra_grantee x)),
      (''Permission'', JStr (gra_permission x))])"

definition grant_of_json :: "json \<Rightarrow> grant option" where
  "grant_of_json j = do {
     kvs \<leftarrow> de_fields 2
       [''Grantee'', ''Permission''] j;
     x_grantee \<leftarrow> de_required grantee_of_json [''Grantee''] kvs;
     x_permission \<leftarrow> de_required de_string [''Permission''] kvs;
     Some \<lparr>gra_grantee = x_grantee, gra_permission = x_permission\<rparr> }"

lemma grant_not_null [simp]: "grant_json x \<noteq> JNull"
  by (simp add: grant_json_def)

lemma grant_read [read_back]: "grant_of_json (grant_json x) = Some x"
  by (cases x) (simp add: grant_of_json_def grant_json_def read_back)

record updated_trigger =
  ut_alert_type :: string
  ut_features :: "(string \<times> feature_info) list"

definition updated_trigger_json :: "updated_trigger \<Rightarrow> json" where
  "updated_trigger_json x = JObj
     ([(''alert-type'', JStr (ut_alert_type x)),
      (''features'', json_of_map feature_info_json (ut_features x))])"

definition updated_trigger_of_json :: "json \<Rightarrow> updated_trigger option" where
  "updated_trigger_of_json j = do {
     kvs \<leftarrow> de_fields 2
       [''alert-type'', ''features''] j;
     x_alert_type \<leftarrow> de_required de_string [''alert-type''] kvs;
     x_features \<leftarrow> de_required (de_hash_map feature_info_of_json) [''features''] kvs;
     Some \<lparr>ut_alert_type = x_alert_type, ut_features = x_features\<rparr> }"

definition updated_trigger_good :: "updated_trigger \<Rightarrow> bool" where
  "updated_trigger_good x \<longleftrightarrow>
     good_map feature_info_good (ut_features x)"

lemma updated_trigger_not_null [simp]: "updated_trigger_json x \<noteq> JNull"
  by (simp add: updated_trigger_json_def)

lemma updated_trigger_read [read_back]: "updated_trigger_good x \<Longrightarrow>updated_trigger_of_json (updated_trigger_json x) = Some x"
  by (cases x) (simp add: updated_trigger_of_json_def updated_trigger_json_def updated_trigger_good_def read_back)

lemma updated_trigger_typed: "typed updated_trigger_good updated_trigger_of_json"
  unfolding typed_def updated_trigger_of_json_def updated_trigger_good_def
  by (auto simp: bind_eq_Some_conv dest!: typed_required [OF typed_hash_map [OF feature_info_typed]])

record secret_bucket_name =
  sbn_owner :: owner
  sbn_grants :: "grant list"

definition secret_bucket_name_json :: "secret_bucket_name \<Rightarrow> json" where
  "secret_bucket_name_json x = JObj
     ([(''Owner'', owner_json (sbn_owner x)),
      (''Grants'', json_of_list grant_json (sbn_grants x))])"

definition secret_bucket_name_of_json :: "json \<Rightarrow> secret_bucket_name option" where
  "secret_bucket_name_of_json j = do {
     kvs \<leftarrow> de_fields 2
       [''Owner'', ''Grants''] j;
     x_owner \<leftarrow> de_required owner_of_json [''Owner''] kvs;
     x_grants \<leftarrow> de_required (de_list grant_of_json) [''Grants''] kvs;
     Some \<lparr>sbn_owner = x_owner, sbn_grants = x_grants\<rparr> }"

lemma secret_bucket_name_not_null [simp]: "secret_bucket_name_json x \<noteq> JNull"
  by (simp add: secret_bucket_name_json_def)

lemma secret_bucket_name_read [read_back]: "secret_bucket_name_of_json (secret_bucket_name_json x) = Some x"
  by (cases x) (simp add: secret_bucket_name_of_json_def secret_bucket_name_json_def read_back)

record alert_updated =
  aup_notification_type :: string
  aup_name :: string
  aup_tags :: "string list"
  aup_url :: string
  aup_alert_arn :: string
  aup_risk_score :: int
  aup_created_at :: string
  aup_actor :: string
  aup_trigger :: updated_trigger

definition alert_updated_json :: "alert_updated \<Rightarrow> json" where
  "alert_updated_json x = JObj
     ([(''notification-type'', JStr (aup_notification_type x)),
      (''name'', JStr (aup_name x)),
      (''tags'', json_of_list JStr (aup_tags x)),
      (''url'', JStr (aup_url x)),
      (''alert-arn'', JStr (aup_alert_arn x)),
      (''risk-score'', JInt (aup_risk_score x)),
      (''created-at'', JStr (aup_created_at x)),
      (''actor'', JStr (aup_actor x)),
      (''trigger'', updated_trigger_json (aup_trigger x))])"

definition alert_updated_of_json :: "json \<Rightarrow> alert_updated option" where
  "alert_updated_of_json j = do {
     kvs \<leftarrow> de_fields 9
       [''notification-type'', ''name'', ''tags'', ''url'', ''alert-arn'', ''risk-score'',
        ''created-at'', ''actor'', ''trigger''] j;
     x_notification_type \<leftarrow> de_required de_string [''notification-type''] kvs;
     x_name \<leftarrow> de_required de_string [''name''] kvs;
     x_tags \<leftarrow> de_required (de_list de_string) [''tags''] kvs;
     x_url \<leftarrow> de_required de_string [''url''] kvs;
     x_alert_arn \<leftarrow> de_required de_string [''alert-arn''] kvs;
     x_risk_score \<leftarrow> de_required de_i64 [''risk-score''] kvs;
     x_created_at \<leftarrow> de_required de_string [''created-at''] kvs;
     x_actor \<leftarrow> de_required de_string [''actor''] kvs;
     x_trigger \<leftarrow> de_required updated_trigger_of_json [''trigger''] kvs;
     Some \<lparr>aup_notification_type = x_notification_type, aup_name = x_name, aup_tags = x_tags,
       aup_url = x_url, aup_alert_arn = x_alert_arn, aup_risk_score = x_risk_score,
       aup_created_at = x_created_at, aup_actor = x_actor, aup_trigger = x_trigger\<rparr> }"

definition alert_updated_good :: "alert_updated \<Rightarrow> bool" where
  "alert_updated_good x \<longleftrightarrow>
     good_i64 (aup_risk_score x) \<and>
     updated_trigger_good (aup_trigger x)"

lemma alert_updated_not_null [simp]: "alert_updated_json x \<noteq> JNull"
  by (simp add: alert_updated_json_def)

lemma alert_updated_read [read_back]: "alert_updated_good x \<Longrightarrow>alert_updated_of_json (alert_updated_json x) = Some x"
  by (cases x) (clarsimp simp: alert_updated_of_json_def alert_updated_json_def alert_updated_good_def read_back)

lemma alert_updated_typed: "typed alert_updated_good alert_updated_of_json"
  unfolding typed_def alert_updated_of_json_def alert_updated_good_def
  by (auto simp: bind_eq_Some_conv dest!: typed_required [OF typed_i64]
      typed_required [OF updated_trigger_typed])

record acl =
  acl_secret_bucket_name :: "secret_bucket_name list"

definition acl_json :: "acl \<Rightarrow> json" where
  "acl_json x = JObj
     ([(''secret-bucket-name'', json_of_list secret_bucket_name_json (acl_secret_bucket_name x))])"

definition acl_of_json :: "json \<Rightarrow> acl option" where
  "acl_of_json j = do {
     kvs \<leftarrow> de_fields 1
       [''secret-bucket-name''] j;
     x_secret_bucket_name \<leftarrow> de_required (de_list secret_bucket_name_of_json) [''secret-bucket-name''] kvs;
     Some \<lparr>acl_secret_bucket_name = x_secret_bucket_name\<rparr> }"

lemma acl_not_null [simp]: "acl_json x \<noteq> JNull"
  by (simp add: acl_json_def)

lemma acl_read [read_back]: "acl_of_json (acl_json x) = Some x"
  by (cases x) (simp add: acl_of_json_def acl_json_def read_back)

record bucket_writable_summary =
  bws_description :: string
  bws_bucket :: bucket
  bws_record_count :: int
  bws_acl :: acl
  bws_event_count :: int
  bws_timestamps :: "(string \<times> int) list"

definition bucket_writable_summary_json :: "bucket_writable_summary \<Rightarrow> json" where
  "bucket_writable_summary_json x = JObj
     ([(''Description'', JStr (bws_description x)),
      (''Bucket'', bucket_json (bws_bucket x)),
      (''Record Count'', JInt (bws_record_count x)),
      (''ACL'', acl_json (bws_acl x)),
      (''Event Count'', JInt (bws_event_count x)),
      (''Timestamps'', json_of_map JInt (bws_timestamps x))])"

definition bucket_writable_summary_of_json :: "json \<Rightarrow> bucket_writable_summary option" where
  "bucket_writable_summary_of_json j = do {
     kvs \<leftarrow> de_fields 6
       [''Description'', ''Bucket'', ''Record Count'', ''ACL'', ''Event Count'', ''Timestamps''] j;
     x_description \<leftarrow> de_required de_string [''Description''] kvs;
     x_bucket \<leftarrow> de_required bucket_of_json [''Bucket''] kvs;
     x_record_count \<leftarrow> de_required de_i64 [''Record Count''] kvs;
     x_acl \<leftarrow> de_required acl_of_json [''ACL''] kvs;
     x_event_count \<leftarrow> de_required de_i64 [''Event Count''] kvs;
     x_timestamps \<leftarrow> de_required (de_hash_map de_i64) [''Timestamps''] kvs;
     Some \<lparr>bws_description = x_description, bws_bucket = x_bucket,
       bws_record_count = x_record_count, bws_acl = x_acl, bws_event_count = x_event_count,
       bws_timestamps = x_timestamps\<rparr> }"

definition bucket_writable_summary_good :: "bucket_writable_summary \<Rightarrow> bool" where
  "bucket_writable_summary_good x \<longleftrightarrow>
     bucket_good (bws_bucket x) \<and>
     good_i64 (bws_record_count x) \<and>
     good_i64 (bws_event_count x) \<and>
     good_map good_i64 (bws_timestamps x)"

lemma bucket_writable_summary_not_null [simp]: "bucket_writable_summary_json x \<noteq> JNull"
  by (simp add: bucket_writable_summary_json_def)

lemma bucket_writable_summary_read [read_back]: "bucket_writable_summary_good x \<Longrightarrow>bucket_writable_summary_of_json (bucket_writable_summary_json x) = Some x"
  by (cases x) (clarsimp simp: bucket_writable_summary_of_json_def bucket_writable_summary_json_def bucket_writable_summary_good_def read_back)

lemma bucket_writable_summary_typed: "typed bucket_writable_summary_good bucket_writable_summary_of_json"
  unfolding typed_def bucket_writable_summary_of_json_def bucket_writable_summary_good_def
  by (auto simp: bind_eq_Some_conv dest!: typed_required [OF bucket_typed]
      typed_required [OF typed_i64]
      typed_required [OF typed_hash_map [OF typed_i64]])

subsection \<open>\<^verbatim>\<open>cloudwatch_events/opsworks\<close>\<close>

record opsworks_instance_state_change =
  oisc_initiated_by :: string
  oisc_hostname :: string
  oisc_stack_id :: string
  oisc_layer_ids :: "string list"
  oisc_instance_id :: string
  oisc_ec2_instance_id :: string
  oisc_status :: string

definition opsworks_instance_state_change_json :: "opsworks_instance_state_change \<Rightarrow> json" where
  "opsworks_instance_state_change_json x = JObj
     ([(''initiated_by'', JStr (oisc_initiated_by x)),
      (''hostname'', JStr (oisc_hostname x)),
      (''stack-id'', JStr (oisc_stack_id x)),
      (''layer-ids'', json_of_list JStr (oisc_layer_ids x)),
      (''instance-id'', JStr (oisc_instance_id x)),
      (''ec2-instance-id'', JStr (oisc_ec2_instance_id x)),
      (''status'', JStr (oisc_status x))])"

definition opsworks_instance_state_change_of_json :: "json \<Rightarrow> opsworks_instance_state_change option" where
  "opsworks_instance_state_change_of_json j = do {
     kvs \<leftarrow> de_fields 7
       [''initiated_by'', ''hostname'', ''stack-id'', ''layer-ids'', ''instance-id'',
        ''ec2-instance-id'', ''status''] j;
     x_initiated_by \<leftarrow> de_required de_string [''initiated_by''] kvs;
     x_hostname \<leftarrow> de_required de_string [''hostname''] kvs;
     x_stack_id \<leftarrow> de_required de_string [''stack-id''] kvs;
     x_layer_ids \<leftarrow> de_required (de_list de_string) [''layer-ids''] kvs;
     x_instance_id \<leftarrow> de_required de_string [''instance-id''] kvs;
     x_ec2_instance_id \<leftarrow> de_required de_string [''ec2-instance-id''] kvs;
     x_status \<leftarrow> de_required de_string [''status''] kvs;
     Some \<lparr>oisc_initiated_by = x_initiated_by, oisc_hostname = x_hostname,
       oisc_stack_id = x_stack_id, oisc_layer_ids = x_layer_ids,
       oisc_instance_id = x_instance_id, oisc_ec2_instance_id = x_ec2_instance_id,
       oisc_status = x_status\<rparr> }"

lemma opsworks_instance_state_change_not_null [simp]: "opsworks_instance_state_change_json x \<noteq> JNull"
  by (simp add: opsworks_instance_state_change_json_def)

lemma opsworks_instance_state_change_read [read_back]: "opsworks_instance_state_change_of_json (opsworks_instance_state_change_json x) = Some x"
  by (cases x) (simp add: opsworks_instance_state_change_of_json_def opsworks_instance_state_change_json_def read_back)

record command_state_change =
  csch_command_id :: string
  csch_instance_id :: string
  csch_type :: string
  csch_status :: string

definition command_state_change_json :: "command_state_change \<Rightarrow> json" where
  "command_state_change_json x = JObj
     ([(''command-id'', JStr (csch_command_id x)),
      (''instance-id'', JStr (csch_instance_id x)),
      (''type'', JStr (csch_type x)),
      (''status'', JStr (csch_status x))])"

definition command_state_change_of_json :: "json \<Rightarrow> command_state_change option" where
  "command_state_change_of_json j = do {
     kvs \<leftarrow> de_fields 4
       [''command-id'', ''instance-id'', ''type'', ''status''] j;
     x_command_id \<leftarrow> de_required de_string [''command-id''] kvs;
     x_instance_id \<leftarrow> de_required de_string [''instance-id''] kvs;
     x_type \<leftarrow> de_required de_string [''type''] kvs;
     x_status \<leftarrow> de_required de_string [''status''] kvs;
     Some \<lparr>csch_command_id = x_command_id, csch_instance_id = x_instance_id, csch_type = x_type,
       csch_status = x_status\<rparr> }"

lemma command_state_change_not_null [simp]: "command_state_change_json x \<noteq> JNull"
  by (simp add: command_state_change_json_def)

lemma command_state_change_read [read_back]: "command_state_change_of_json (command_state_change_json x) = Some x"
  by (cases x) (simp add: command_state_change_of_json_def command_state_change_json_def read_back)

record deployment_state_change =
  dsc_duration :: int
  dsc_stack_id :: string
  dsc_instance_ids :: "string list"
  dsc_deployment_id :: string
  dsc_command :: string
  dsc_status :: string

definition deployment_state_change_json :: "deployment_state_change \<Rightarrow> json" where
  "deployment_state_change_json x = JObj
     ([(''duration'', JInt (dsc_duration x)),
      (''stack-id'', JStr (dsc_stack_id x)),
      (''instance-ids'', json_of_list JStr (dsc_instance_ids x)),
      (''deployment-id'', JStr (dsc_deployment_id x)),
      (''command'', JStr (dsc_command x)),
      (''status'', JStr (dsc_status x))])"

definition deployment_state_change_of_json :: "json \<Rightarrow> deployment_state_change option" where
  "deployment_state_change_of_json j = do {
     kvs \<leftarrow> de_fields 6
       [''duration'', ''stack-id'', ''instance-ids'', ''deployment-id'', ''command'', ''status''] j;
     x_duration \<leftarrow> de_required de_i64 [''duration''] kvs;
     x_stack_id \<leftarrow> de_required de_string [''stack-id''] kvs;
     x_instance_ids \<leftarrow> de_required (de_list de_string) [''instance-ids''] kvs;
     x_deployment_id \<leftarrow> de_required de_string [''deployment-id''] kvs;
     x_command \<leftarrow> de_required de_string [''command''] kvs;
     x_status \<leftarrow> de_required de_string [''status''] kvs;
     Some \<lparr>dsc_duration = x_duration, dsc_stack_id = x_stack_id, dsc_instance_ids = x_instance_ids,
       dsc_deployment_id = x_deployment_id, dsc_command = x_command, dsc_status = x_status\<rparr> }"

definition deployment_state_change_good :: "deployment_state_change \<Rightarrow> bool" where
  "deployment_state_change_good x \<longleftrightarrow>
     good_i64 (dsc_duration x)"

lemma deployment_state_change_not_null [simp]: "deployment_state_change_json x \<noteq> JNull"
  by (simp add: deployment_state_change_json_def)

lemma deployment_state_change_read [read_back]: "deployment_state_change_good x \<Longrightarrow>deployment_state_change_of_json (deployment_state_change_json x) = Some x"
  by (cases x) (simp add: deployment_state_change_of_json_def deployment_state_change_json_def deployment_state_change_good_def read_back)

lemma deployment_state_change_typed: "typed deployment_state_change_good deployment_state_change_of_json"
  unfolding typed_def deployment_state_change_of_json_def deployment_state_change_good_def
  by (auto simp: bind_eq_Some_conv dest!: typed_required [OF typed_i64])

record opsworks_alert =
  oa_stack_id :: string
  oa_instance_id :: string
  oa_type :: string
  oa_message :: string

definition opsworks_alert_json :: "opsworks_alert \<Rightarrow> json" where
  "opsworks_alert_json x = JObj
     ([(''stack-id'', JStr (oa_stack_id x)),
      (''instance-id'', JStr (oa_instance_id x)),
      (''type'', JStr (oa_type x)),
      (''message'', JStr (oa_message x))])"

definition opsworks_alert_of_json :: "json \<Rightarrow> opsworks_alert option" where
  "opsworks_alert_of_json j = do {
     kvs \<leftarrow> de_fields 4
       [''stack-id'', ''instance-id'', ''type'', ''message''] j;
     x_stack_id \<leftarrow> de_required de_string [''stack-id''] kvs;
     x_instance_id \<leftarrow> de_required de_string [''instance-id''] kvs;
     x_type \<leftarrow> de_required de_string [''type''] kvs;
     x_message \<leftarrow> de_required de_string [''message''] kvs;
     Some \<lparr>oa_stack_id = x_stack_id, oa_instance_id = x_instance_id, oa_type = x_type,
       oa_message = x_message\<rparr> }"

lemma opsworks_alert_not_null [simp]: "opsworks_alert_json x \<noteq> JNull"
  by (simp add: opsworks_alert_json_def)

lemma opsworks_alert_read [read_back]: "opsworks_alert_of_json (opsworks_alert_json x) = Some x"
  by (cases x) (simp add: opsworks_alert_of_json_def opsworks_alert_json_def read_back)

subsection \<open>\<^verbatim>\<open>cloudwatch_events/signin\<close>\<close>

record signin_user_identity =
  sui_type :: string
  sui_principal_id :: string
  sui_arn :: string
  sui_account_id :: string

definition signin_user_identity_json :: "signin_user_identity \<Rightarrow> json" where
  "signin_user_identity_json x = JObj
     ([(''type'', JStr (sui_type x)),
      (''principalId'', JStr (sui_principal_id x)),
      (''arn'', JStr (sui_arn x)),
      (''accountId'', JStr (sui_account_id x))])"

definition signin_user_identity_of_json :: "json \<Rightarrow> signin_user_identity option" where
  "signin_user_identity_of_json j = do {
     kvs \<leftarrow> de_fields 4
       [''type'', ''principalId'', ''arn'', ''accountId''] j;
     x_type \<leftarrow> de_required de_string [''type''] kvs;
     x_principal_id \<leftarrow> de_required de_string [''principalId''] kvs;
     x_arn \<leftarrow> de_required de_string [''arn''] kvs;
     x_account_id \<leftarrow> de_required de_string [''accountId''] kvs;
     Some \<lparr>sui_type = x_type, sui_principal_id = x_principal_id, sui_arn = x_arn,
       sui_account_id = x_account_id\<rparr> }"

lemma signin_user_identity_not_null [simp]: "signin_user_identity_json x \<noteq> JNull"
  by (simp add: signin_user_identity_json_def)

lemma signin_user_identity_read [read_back]: "signin_user_identity_of_json (signin_user_identity_json x) = Some x"
  by (cases x) (simp add: signin_user_identity_of_json_def signin_user_identity_json_def read_back)

record response_elements =
  rel_console_login :: string

definition response_elements_json :: "response_elements \<Rightarrow> json" where
  "response_elements_json x = JObj
     ([(''ConsoleLogin'', JStr (rel_console_login x))])"

definition response_elements_of_json :: "json \<Rightarrow> response_elements option" where
  "response_elements_of_json j = do {
     kvs \<leftarrow> de_fields 1
       [''ConsoleLogin''] j;
     x_console_login \<leftarrow> de_required de_string [''ConsoleLogin''] kvs;
     Some \<lparr>rel_console_login = x_console_login\<rparr> }"

lemma response_elements_not_null [simp]: "response_elements_json x \<noteq> JNull"
  by (simp add: response_elements_json_def)

lemma response_elements_read [read_back]: "response_elements_of_json (response_elements_json x) = Some x"
  by (cases x) (simp add: response_elements_of_json_def response_elements_json_def read_back)

record additional_event_data =
  aed_login_to :: string
  aed_mobile_version :: string
  aed_mfaused :: string

definition additional_event_data_json :: "additional_event_data \<Rightarrow> json" where
  "additional_event_data_json x = JObj
     ([(''LoginTo'', JStr (aed_login_to x)),
      (''MobileVersion'', JStr (aed_mobile_version x)),
      (''MFAUsed'', JStr (aed_mfaused x))])"

definition additional_event_data_of_json :: "json \<Rightarrow> additional_event_data option" where
  "additional_event_data_of_json j = do {
     kvs \<leftarrow> de_fields 3
       [''LoginTo'', ''MobileVersion'', ''MFAUsed''] j;
     x_login_to \<leftarrow> de_required de_string [''LoginTo''] kvs;
     x_mobile_version \<leftarrow> de_required de_string [''MobileVersion''] kvs;
     x_mfaused \<leftarrow> de_required de_string [''MFAUsed''] kvs;
     Some \<lparr>aed_login_to = x_login_to, aed_mobile_version = x_mobile_version, aed_mfaused = x_mfaused\<rparr> }"

lemma additional_event_data_not_null [simp]: "additional_event_data_json x \<noteq> JNull"
  by (simp add: additional_event_data_json_def)

lemma additional_event_data_read [read_back]: "additional_event_data_of_json (additional_event_data_json x) = Some x"
  by (cases x) (simp add: additional_event_data_of_json_def additional_event_data_json_def read_back)

record sign_in =
  sin_event_version :: string
  sin_user_identity :: signin_user_identity
  sin_event_time :: string
  sin_event_source :: string
  sin_event_name :: string
  sin_aws_region :: string
  sin_source_ipaddress :: string
  sin_user_agent :: string
  sin_request_parameters :: json
  sin_response_elements :: response_elements
  sin_additional_event_data :: additional_event_data
  sin_event_id :: string
  sin_event_type :: string

definition sign_in_json :: "sign_in \<Rightarrow> json" where
  "sign_in_json x = JObj
     ([(''eventVersion'', JStr (sin_event_version x)),
      (''userIdentity'', signin_user_identity_json (sin_user_identity x)),
      (''eventTime'', JStr (sin_event_time x)),
      (''eventSource'', JStr (sin_event_source x)),
      (''eventName'', JStr (sin_event_name x)),
      (''awsRegion'', JStr (sin_aws_region x)),
      (''sourceIPAddress'', JStr (sin_source_ipaddress x)),
      (''userAgent'', JStr (sin_user_agent x)),
      (''requestParameters'', sin_request_parameters x),
      (''responseElements'', response_elements_json (sin_response_elements x)),
      (''additionalEventData'', additional_event_data_json (sin_additional_event_data x)),
      (''eventID'', JStr (sin_event_id x)),
      (''eventType'', JStr (sin_event_type x))])"

definition sign_in_of_json :: "json \<Rightarrow> sign_in option" where
  "sign_in_of_json j = do {
     kvs \<leftarrow> de_fields 13
       [''eventVersion'', ''userIdentity'', ''eventTime'', ''eventSource'', ''eventName'',
        ''awsRegion'', ''sourceIPAddress'', ''userAgent'', ''requestParameters'',
        ''responseElements'', ''additionalEventData'', ''eventID'', ''eventType''] j;
     x_event_version \<leftarrow> de_required de_string [''eventVersion''] kvs;
     x_user_identity \<leftarrow> de_required signin_user_identity_of_json [''userIdentity''] kvs;
     x_event_time \<leftarrow> de_required de_string [''eventTime''] kvs;
     x_event_source \<leftarrow> de_required de_string [''eventSource''] kvs;
     x_event_name \<leftarrow> de_required de_string [''eventName''] kvs;
     x_aws_region \<leftarrow> de_required de_string [''awsRegion''] kvs;
     x_source_ipaddress \<leftarrow> de_required de_string [''sourceIPAddress''] kvs;
     x_user_agent \<leftarrow> de_required de_string [''userAgent''] kvs;
     x_request_parameters \<leftarrow> de_required Some [''requestParameters''] kvs;
     x_response_elements \<leftarrow> de_required response_elements_of_json [''responseElements''] kvs;
     x_additional_event_data \<leftarrow> de_required additional_event_data_of_json [''additionalEventData''] kvs;
     x_event_id \<leftarrow> de_required de_string [''eventID''] kvs;
     x_event_type \<leftarrow> de_required de_string [''eventType''] kvs;
     Some \<lparr>sin_event_version = x_event_version, sin_user_identity = x_user_identity,
       sin_event_time = x_event_time, sin_event_source = x_event_source,
       sin_event_name = x_event_name, sin_aws_region = x_aws_region,
       sin_source_ipaddress = x_source_ipaddress, sin_user_agent = x_user_agent,
       sin_request_parameters = x_request_parameters,
       sin_response_elements = x_response_elements,
       sin_additional_event_data = x_additional_event_data, sin_event_id = x_event_id,
       sin_event_type = x_event_type\<rparr> }"

lemma sign_in_not_null [simp]: "sign_in_json x \<noteq> JNull"
  by (simp add: sign_in_json_def)

lemma sign_in_read [read_back]: "sign_in_of_json (sign_in_json x) = Some x"
  by (cases x) (simp add: sign_in_of_json_def sign_in_json_def read_back)

subsection \<open>\<^verbatim>\<open>cloudwatch_events/sms\<close>\<close>

record job_state_change =
  jsc_state :: string
  jsc_replication_run_id :: string
  jsc_replication_job_id :: string
  jsc_ami_id :: "string option"
  jsc_version :: string

definition job_state_change_json :: "job_state_change \<Rightarrow> json" where
  "job_state_change_json x = JObj
     ([(''state'', JStr (jsc_state x)),
      (''replication-run-id'', JStr (jsc_replication_run_id x)),
      (''replication-job-id'', JStr (jsc_replication_job_id x)),
      (''ami-id'', json_of_option JStr (jsc_ami_id x)),
      (''version'', JStr (jsc_version x))])"

definition job_state_change_of_json :: "json \<Rightarrow> job_state_change option" where
  "job_state_change_of_json j = do {
     kvs \<leftarrow> de_fields 5
       [''state'', ''replication-run-id'', ''replication-job-id'', ''ami-id'', ''version''] j;
     x_state \<leftarrow> de_required de_string [''state''] kvs;
     x_replication_run_id \<leftarrow> de_required de_string [''replication-run-id''] kvs;
     x_replication_job_id \<leftarrow> de_required de_string [''replication-job-id''] kvs;
     x_ami_id \<leftarrow> de_opt_string ''ami-id'' kvs;
     x_version \<leftarrow> de_required de_string [''version''] kvs;
     Some \<lparr>jsc_state = x_state, jsc_replication_run_id = x_replication_run_id,
       jsc_replication_job_id = x_replication_job_id, jsc_ami_id = x_ami_id,
       jsc_version = x_version\<rparr> }"

lemma job_state_change_not_null [simp]: "job_state_change_json x \<noteq> JNull"
  by (simp add: job_state_change_json_def)

lemma job_state_change_read [read_back]: "job_state_change_of_json (job_state_change_json x) = Some x"
  by (cases x) (simp add: job_state_change_of_json_def job_state_change_json_def read_back)

subsection \<open>\<^verbatim>\<open>cloudwatch_events/ssm\<close>\<close>

record ec2_automation_step_status_change =
  eassc_execution_id :: string
  eassc_definition :: string
  eassc_definition_version :: f64
  eassc_status :: string
  eassc_end_time :: string
  eassc_start_time :: string
  eassc_time :: f64
  eassc_step_name :: string
  eassc_action :: string

definition ec2_automation_step_status_change_json :: "ec2_automation_step_status_change \<Rightarrow> json" where
  "ec2_automation_step_status_change_json x = JObj
     ([(''ExecutionId'', JStr (eassc_execution_id x)),
      (''Definition'', JStr (eassc_definition x)),
      (''DefinitionVersion'', json_of_f64 (eassc_definition_version x)),
      (''Status'', JStr (eassc_status x)),
      (''EndTime'', JStr (eassc_end_time x)),
      (''StartTime'', JStr (eassc_start_time x)),
      (''Time'', json_of_f64 (eassc_time x)),
      (''StepName'', JStr (eassc_step_name x)),
      (''Action'', JStr (eassc_action x))])"

definition ec2_automation_step_status_change_of_json :: "json \<Rightarrow> ec2_automation_step_status_change option" where
  "ec2_automation_step_status_change_of_json j = do {
     kvs \<leftarrow> de_fields 9
       [''ExecutionId'', ''Definition'', ''DefinitionVersion'', ''Status'', ''EndTime'',
        ''StartTime'', ''Time'', ''StepName'', ''Action''] j;
     x_execution_id \<leftarrow> de_required de_string [''ExecutionId''] kvs;
     x_definition \<leftarrow> de_required de_string [''Definition''] kvs;
     x_definition_version \<leftarrow> de_required de_f64 [''DefinitionVersion''] kvs;
     x_status \<leftarrow> de_required de_string [''Status''] kvs;
     x_end_time \<leftarrow> de_required de_string [''EndTime''] kvs;
     x_start_time \<leftarrow> de_required de_string [''StartTime''] kvs;
     x_time \<leftarrow> de_required de_f64 [''Time''] kvs;
     x_step_name \<leftarrow> de_required de_string [''StepName''] kvs;
     x_action \<leftarrow> de_required de_string [''Action''] kvs;
     Some \<lparr>eassc_execution_id = x_execution_id, eassc_definition = x_definition,
       eassc_definition_version = x_definition_version, eassc_status = x_status,
       eassc_end_time = x_end_time, eassc_start_time = x_start_time, eassc_time = x_time,
       eassc_step_name = x_step_name, eassc_action = x_action\<rparr> }"

definition ec2_automation_step_status_change_good :: "ec2_automation_step_status_change \<Rightarrow> bool" where
  "ec2_automation_step_status_change_good x \<longleftrightarrow>
     f64_finite (eassc_definition_version x) \<and>
     f64_finite (eassc_time x)"

lemma ec2_automation_step_status_change_not_null [simp]: "ec2_automation_step_status_change_json x \<noteq> JNull"
  by (simp add: ec2_automation_step_status_change_json_def)

lemma ec2_automation_step_status_change_read [read_back]: "ec2_automation_step_status_change_good x \<Longrightarrow>ec2_automation_step_status_change_of_json (ec2_automation_step_status_change_json x) = Some x"
  by (cases x) (clarsimp simp: ec2_automation_step_status_change_of_json_def ec2_automation_step_status_change_json_def ec2_automation_step_status_change_good_def read_back)

lemma ec2_automation_step_status_change_typed: "typed ec2_automation_step_status_change_good ec2_automation_step_status_change_of_json"
  unfolding typed_def ec2_automation_step_status_change_of_json_def ec2_automation_step_status_change_good_def
  by (auto simp: bind_eq_Some_conv dest!: typed_required [OF typed_f64])

record ec2_automation_execution_status_change =
  eaesc_execution_id :: string
  eaesc_definition :: string
  eaesc_definition_version :: f64
  eaesc_status :: string
  eaesc_start_time :: string
  eaesc_end_time :: string
  eaesc_time :: f64
  eaesc_executed_by :: string

definition ec2_automation_execution_status_change_json :: "ec2_automation_execution_status_change \<Rightarrow> json" where
  "ec2_automation_execution_status_change_json x = JObj
     ([(''ExecutionId'', JStr (eaesc_execution_id x)),
      (''Definition'', JStr (eaesc_definition x)),
      (''DefinitionVersion'', json_of_f64 (eaesc_definition_version x)),
      (''Status'', JStr (eaesc_status x)),
      (''StartTime'', JStr (eaesc_start_time x)),
      (''EndTime'', JStr (eaesc_end_time x)),
      (''Time'', json_of_f64 (eaesc_time x)),
      (''ExecutedBy'', JStr (eaesc_executed_by x))])"

definition ec2_automation_execution_status_change_of_json :: "json \<Rightarrow> ec2_automation_execution_status_change option" where
  "ec2_automation_execution_status_change_of_json j = do {
     kvs \<leftarrow> de_fields 8
       [''ExecutionId'', ''Definition'', ''DefinitionVersion'', ''Status'', ''StartTime'',
        ''EndTime'', ''Time'', ''ExecutedBy''] j;
     x_execution_id \<leftarrow> de_required de_string [''ExecutionId''] kvs;
     x_definition \<leftarrow> de_required de_string [''Definition''] kvs;
     x_definition_version \<leftarrow> de_required de_f64 [''DefinitionVersion''] kvs;
     x_status \<leftarrow> de_required de_string [''Status''] kvs;
     x_start_time \<leftarrow> de_required de_string [''StartTime''] kvs;
     x_end_time \<leftarrow> de_required de_string [''EndTime''] kvs;
     x_time \<leftarrow> de_required de_f64 [''Time''] kvs;
     x_executed_by \<leftarrow> de_required de_string [''ExecutedBy''] kvs;
     Some \<lparr>eaesc_execution_id = x_execution_id, eaesc_definition = x_definition,
       eaesc_definition_version = x_definition_version, eaesc_status = x_status,
       eaesc_start_time = x_start_time, eaesc_end_time = x_end_time, eaesc_time = x_time,
       eaesc_executed_by = x_executed_by\<rparr> }"

definition ec2_automation_execution_status_change_good :: "ec2_automation_execution_status_change \<Rightarrow> bool" where
  "ec2_automation_execution_status_change_good x \<longleftrightarrow>
     f64_finite (eaesc_definition_version x) \<and>
     f64_finite (eaesc_time x)"

lemma ec2_automation_execution_status_change_not_null [simp]: "ec2_automation_execution_status_change_json x \<noteq> JNull"
  by (simp add: ec2_automation_execution_status_change_json_def)

lemma ec2_automation_execution_status_change_read [read_back]: "ec2_automation_execution_status_change_good x \<Longrightarrow>ec2_automation_execution_status_change_of_json (ec2_automation_execution_status_change_json x) = Some x"
  by (cases x) (clarsimp simp: ec2_automation_execution_status_change_of_json_def ec2_automation_execution_status_change_json_def ec2_automation_execution_status_change_good_def read_back)

lemma ec2_automation_execution_status_change_typed: "typed ec2_automation_execution_status_change_good ec2_automation_execution_status_change_of_json"
  unfolding typed_def ec2_automation_execution_status_change_of_json_def ec2_automation_execution_status_change_good_def
  by (auto simp: bind_eq_Some_conv dest!: typed_required [OF typed_f64])

record state_change =
  sch_state :: string
  sch_at_time :: string
  sch_next_transition_time :: string

definition state_change_json :: "state_change \<Rightarrow> json" where
  "state_change_json x = JObj
     ([(''state'', JStr (sch_state x)),
      (''atTime'', JStr (sch_at_time x)),
      (''nextTransitionTime'', JStr (sch_next_transition_time x))])"

definition state_change_of_json :: "json \<Rightarrow> state_change option" where
  "state_change_of_json j = do {
     kvs \<leftarrow> de_fields 3
       [''state'', ''atTime'', ''nextTransitionTime''] j;
     x_state \<leftarrow> de_required de_string [''state''] kvs;
     x_at_time \<leftarrow> de_required de_string [''atTime''] kvs;
     x_next_transition_time \<leftarrow> de_required de_string [''nextTransitionTime''] kvs;
     Some \<lparr>sch_state = x_state, sch_at_time = x_at_time,
       sch_next_transition_time = x_next_transition_time\<rparr> }"

lemma state_change_not_null [simp]: "state_change_json x \<noteq> JNull"
  by (simp add: state_change_json_def)

lemma state_change_read [read_back]: "state_change_of_json (state_change_json x) = Some x"
  by (cases x) (simp add: state_change_of_json_def state_change_json_def read_back)

record configuration_compliance_state_change =
  ccsc_last_runtime :: "string option"
  ccsc_compliance_status :: string
  ccsc_resource_type :: string
  ccsc_resource_id :: string
  ccsc_compliance_type :: string
  ccsc_patch_baseline_id :: "string option"
  ccsc_serverity :: "string option"

definition configuration_compliance_state_change_json :: "configuration_compliance_state_change \<Rightarrow> json" where
  "configuration_compliance_state_change_json x = JObj
     ([(''last-runtime'', json_of_option JStr (ccsc_last_runtime x)),
      (''compliance-status'', JStr (ccsc_compliance_status x)),
      (''resource-type'', JStr (ccsc_resource_type x)),
      (''resource-id'', JStr (ccsc_resource_id x)),
      (''compliance-type'', JStr (ccsc_compliance_type x)),
      (''patch-baseline-id'', json_of_option JStr (ccsc_patch_baseline_id x)),
      (''serverity'', json_of_option JStr (ccsc_serverity x))])"

definition configuration_compliance_state_change_of_json :: "json \<Rightarrow> configuration_compliance_state_change option" where
  "configuration_compliance_state_change_of_json j = do {
     kvs \<leftarrow> de_fields 7
       [''last-runtime'', ''compliance-status'', ''resource-type'', ''resource-id'',
        ''compliance-type'', ''patch-baseline-id'', ''serverity''] j;
     x_last_runtime \<leftarrow> de_opt_string ''last-runtime'' kvs;
     x_compliance_status \<leftarrow> de_required de_string [''compliance-status''] kvs;
     x_resource_type \<leftarrow> de_required de_string [''resource-type''] kvs;
     x_resource_id \<leftarrow> de_required de_string [''resource-id''] kvs;
     x_compliance_type \<leftarrow> de_required de_string [''compliance-type''] kvs;
     x_patch_baseline_id \<leftarrow> de_opt_string ''patch-baseline-id'' kvs;
     x_serverity \<leftarrow> de_opt_string ''serverity'' kvs;
     Some \<lparr>ccsc_last_runtime = x_last_runtime, ccsc_compliance_status = x_compliance_status,
       ccsc_resource_type = x_resource_type, ccsc_resource_id = x_resource_id,
       ccsc_compliance_type = x_compliance_type, ccsc_patch_baseline_id = x_patch_baseline_id,
       ccsc_serverity = x_serverity\<rparr> }"

lemma configuration_compliance_state_change_not_null [simp]: "configuration_compliance_state_change_json x \<noteq> JNull"
  by (simp add: configuration_compliance_state_change_json_def)

lemma configuration_compliance_state_change_read [read_back]: "configuration_compliance_state_change_of_json (configuration_compliance_state_change_json x) = Some x"
  by (cases x) (simp add: configuration_compliance_state_change_of_json_def configuration_compliance_state_change_json_def read_back)

record maintenance_window_target_registration =
  mwtr_window_target_id :: string
  mwtr_window_id :: string
  mwtr_status :: string

definition maintenance_window_target_registration_json :: "maintenance_window_target_registration \<Rightarrow> json" where
  "maintenance_window_target_registration_json x = JObj
     ([(''window-target-id'', JStr (mwtr_window_target_id x)),
      (''window-id'', JStr (mwtr_window_id x)),
      (''status'', JStr (mwtr_status x))])"

definition maintenance_window_target_registration_of_json :: "json \<Rightarrow> maintenance_window_target_registration option" where
  "maintenance_window_target_registration_of_json j = do {
     kvs \<leftarrow> de_fields 3
       [''window-target-id'', ''window-id'', ''status''] j;
     x_window_target_id \<leftarrow> de_required de_string [''window-target-id''] kvs;
     x_window_id \<leftarrow> de_required de_string [''window-id''] kvs;
     x_status \<leftarrow> de_required de_string [''status''] kvs;
     Some \<lparr>mwtr_window_target_id = x_window_target_id, mwtr_window_id = x_window_id,
       mwtr_status = x_status\<rparr> }"

lemma maintenance_window_target_registration_not_null [simp]: "maintenance_window_target_registration_json x \<noteq> JNull"
  by (simp add: maintenance_window_target_registration_json_def)

lemma maintenance_window_target_registration_read [read_back]: "maintenance_window_target_registration_of_json (maintenance_window_target_registration_json x) = Some x"
  by (cases x) (simp add: maintenance_window_target_registration_of_json_def maintenance_window_target_registration_json_def read_back)

record maintenance_window_execution_state_change =
  mwesc_start_time :: string
  mwesc_end_time :: string
  mwesc_window_id :: string
  mwesc_window_execution_id :: string
  mwesc_status :: string

definition maintenance_window_execution_state_change_json :: "maintenance_window_execution_state_change \<Rightarrow> json" where
  "maintenance_window_execution_state_change_json x = JObj
     ([(''start-time'', JStr (mwesc_start_time x)),
      (''end-time'', JStr (mwesc_end_time x)),
      (''window-id'', JStr (mwesc_window_id x)),
      (''window-execution-id'', JStr (mwesc_window_execution_id x)),
      (''status'', JStr (mwesc_status x))])"

definition maintenance_window_execution_state_change_of_json :: "json \<Rightarrow> maintenance_window_execution_state_change option" where
  "maintenance_window_execution_state_change_of_json j = do {
     kvs \<leftarrow> de_fields 5
       [''start-time'', ''end-time'', ''window-id'', ''window-execution-id'', ''status''] j;
     x_start_time \<leftarrow> de_required de_string [''start-time''] kvs;
     x_end_time \<leftarrow> de_required de_string [''end-time''] kvs;
     x_window_id \<leftarrow> de_required de_string [''window-id''] kvs;
     x_window_execution_id \<leftarrow> de_required de_string [''window-execution-id''] kvs;
     x_status \<leftarrow> de_required de_string [''status''] kvs;
     Some \<lparr>mwesc_start_time = x_start_time, mwesc_end_time = x_end_time,
       mwesc_window_id = x_window_id, mwesc_window_execution_id = x_window_execution_id,
       mwesc_status = x_status\<rparr> }"

lemma maintenance_window_execution_state_change_not_null [simp]: "maintenance_window_execution_state_change_json x \<noteq> JNull"
  by (simp add: maintenance_window_execution_state_change_json_def)

lemma maintenance_window_execution_state_change_read [read_back]: "maintenance_window_execution_state_change_of_json (maintenance_window_execution_state_change_json x) = Some x"
  by (cases x) (simp add: maintenance_window_execution_state_change_of_json_def maintenance_window_execution_state_change_json_def read_back)

record maintenance_window_task_execution_state_change =
  mwtesc_start_time :: string
  mwtesc_task_execution_id :: string
  mwtesc_end_time :: string
  mwtesc_window_id :: string
  mwtesc_window_execution_id :: string
  mwtesc_status :: string

definition maintenance_window_task_execution_state_change_json :: "maintenance_window_task_execution_state_change \<Rightarrow> json" where
  "maintenance_window_task_execution_state_change_json x = JObj
     ([(''start-time'', JStr (mwtesc_start_time x)),
      (''task-execution-id'', JStr (mwtesc_task_execution_id x)),
      (''end-time'', JStr (mwtesc_end_time x)),
      (''window-id'', JStr (mwtesc_window_id x)),
      (''window-execution-id'', JStr (mwtesc_window_execution_id x)),
      (''status'', JStr (mwtesc_status x))])"

definition maintenance_window_task_execution_state_change_of_json :: "json \<Rightarrow> maintenance_window_task_execution_state_change option" where
  "maintenance_window_task_execution_state_change_of_json j = do {
     kvs \<leftarrow> de_fields 6
       [''start-time'', ''task-execution-id'', ''end-time'', ''window-id'',
        ''window-execution-id'', ''status''] j;
     x_start_time \<leftarrow> de_required de_string [''start-time''] kvs;
     x_task_execution_id \<leftarrow> de_required de_string [''task-execution-id''] kvs;
     x_end_time \<leftarrow> de_required de_string [''end-time''] kvs;
     x_window_id \<leftarrow> de_required de_string [''window-id''] kvs;
     x_window_execution_id \<leftarrow> de_required de_string [''window-execution-id''] kvs;
     x_status \<leftarrow> de_required de_string [''status''] kvs;
     Some \<lparr>mwtesc_start_time = x_start_time, mwtesc_task_execution_id = x_task_execution_id,
       mwtesc_end_time = x_end_time, mwtesc_window_id = x_window_id,
       mwtesc_window_execution_id = x_window_execution_id, mwtesc_status = x_status\<rparr> }"

lemma maintenance_window_task_execution_state_change_not_null [simp]: "maintenance_window_task_execution_state_change_json x \<noteq> JNull"
  by (simp add: maintenance_window_task_execution_state_change_json_def)

lemma maintenance_window_task_execution_state_change_read [read_back]: "maintenance_window_task_execution_state_change_of_json (maintenance_window_task_execution_state_change_json x) = Some x"
  by (cases x) (simp add: maintenance_window_task_execution_state_change_of_json_def maintenance_window_task_execution_state_change_json_def read_back)

record maintenance_window_task_target_invocation_state_change =
  mwttisc_start_time :: string
  mwttisc_end_time :: string
  mwttisc_window_id :: string
  mwttisc_window_execution_id :: string
  mwttisc_task_execution_id :: string
  mwttisc_window_target_id :: string
  mwttisc_status :: string
  mwttisc_owner_information :: string

definition maintenance_window_task_target_invocation_state_change_json :: "maintenance_window_task_target_invocation_state_change \<Rightarrow> json" where
  "maintenance_window_task_target_invocation_state_change_json x = JObj
     ([(''start-time'', JStr (mwttisc_start_time x)),
      (''end-time'', JStr (mwttisc_end_time x)),
      (''window-id'', JStr (mwttisc_window_id x)),
      (''window-execution-id'', JStr (mwttisc_window_execution_id x)),
      (''task-execution-id'', JStr (mwttisc_task_execution_id x)),
      (''window-target-id'', JStr (mwttisc_window_target_id x)),
      (''status'', JStr (mwttisc_status x)),
      (''owner-information'', JStr (mwttisc_owner_information x))])"

definition maintenance_window_task_target_invocation_state_change_of_json :: "json \<Rightarrow> maintenance_window_task_target_invocation_state_change option" where
  "maintenance_window_task_target_invocation_state_change_of_json j = do {
     kvs \<leftarrow> de_fields 8
       [''start-time'', ''end-time'', ''window-id'', ''window-execution-id'',
        ''task-execution-id'', ''window-target-id'', ''status'', ''owner-information''] j;
     x_start_time \<leftarrow> de_required de_string [''start-time''] kvs;
     x_end_time \<leftarrow> de_required de_string [''end-time''] kvs;
     x_window_id \<leftarrow> de_required de_string [''window-id''] kvs;
     x_window_execution_id \<leftarrow> de_required de_string [''window-execution-id''] kvs;
     x_task_execution_id \<leftarrow> de_required de_string [''task-execution-id''] kvs;
     x_window_target_id \<leftarrow> de_required de_string [''window-target-id''] kvs;
     x_status \<leftarrow> de_required de_string [''status''] kvs;
     x_owner_information \<leftarrow> de_required de_string [''owner-information''] kvs;
     Some \<lparr>mwttisc_start_time = x_start_time, mwttisc_end_time = x_end_time,
       mwttisc_window_id = x_window_id, mwttisc_window_execution_id = x_window_execution_id,
       mwttisc_task_execution_id = x_task_execution_id,
       mwttisc_window_target_id = x_window_target_id, mwttisc_status = x_status,
       mwttisc_owner_information = x_owner_information\<rparr> }"

lemma maintenance_window_task_target_invocation_state_change_not_null [simp]: "maintenance_window_task_target_invocation_state_change_json x \<noteq> JNull"
  by (simp add: maintenance_window_task_target_invocation_state_change_json_def)

lemma maintenance_window_task_target_invocation_state_change_read [read_back]: "maintenance_window_task_target_invocation_state_change_of_json (maintenance_window_task_target_invocation_state_change_json x) = Some x"
  by (cases x) (simp add: maintenance_window_task_target_invocation_state_change_of_json_def maintenance_window_task_target_invocation_state_change_json_def read_back)

record maintenance_window_state_change =
  mwsc_window_id :: string
  mwsc_status :: string

definition maintenance_window_state_change_json :: "maintenance_window_state_change \<Rightarrow> json" where
  "maintenance_window_state_change_json x = JObj
     ([(''window-id'', JStr (mwsc_window_id x)),
      (''status'', JStr (mwsc_status x))])"

definition maintenance_window_state_change_of_json :: "json \<Rightarrow> maintenance_window_state_change option" where
  "maintenance_window_state_change_of_json j = do {
     kvs \<leftarrow> de_fields 2
       [''window-id'', ''status''] j;
     x_window_id \<leftarrow> de_required de_string [''window-id''] kvs;
     x_status \<leftarrow> de_required de_string [''status''] kvs;
     Some \<lparr>mwsc_window_id = x_window_id, mwsc_status = x_status\<rparr> }"

lemma maintenance_window_state_change_not_null [simp]: "maintenance_window_state_change_json x \<noteq> JNull"
  by (simp add: maintenance_window_state_change_json_def)

lemma maintenance_window_state_change_read [read_back]: "maintenance_window_state_change_of_json (maintenance_window_state_change_json x) = Some x"
  by (cases x) (simp add: maintenance_window_state_change_of_json_def maintenance_window_state_change_json_def read_back)

record parameter_store_state_change =
  pssc_operation :: string
  pssc_name :: string
  pssc_type :: string
  pssc_description :: string

definition parameter_store_state_change_json :: "parameter_store_state_change \<Rightarrow> json" where
  "parameter_store_state_change_json x = JObj
     ([(''operation'', JStr (pssc_operation x)),
      (''name'', JStr (pssc_name x)),
      (''type'', JStr (pssc_type x)),
      (''description'', JStr (pssc_description x))])"

definition parameter_store_state_change_of_json :: "json \<Rightarrow> parameter_store_state_change option" where
  "parameter_store_state_change_of_json j = do {
     kvs \<leftarrow> de_fields 4
       [''operation'', ''name'', ''type'', ''description''] j;
     x_operation \<leftarrow> de_required de_string [''operation''] kvs;
     x_name \<leftarrow> de_required de_string [''name''] kvs;
     x_type \<leftarrow> de_required de_string [''type''] kvs;
     x_description \<leftarrow> de_required de_string [''description''] kvs;
     Some \<lparr>pssc_operation = x_operation, pssc_name = x_name, pssc_type = x_type,
       pssc_description = x_description\<rparr> }"

lemma parameter_store_state_change_not_null [simp]: "parameter_store_state_change_json x \<noteq> JNull"
  by (simp add: parameter_store_state_change_json_def)

lemma parameter_store_state_change_read [read_back]: "parameter_store_state_change_of_json (parameter_store_state_change_json x) = Some x"
  by (cases x) (simp add: parameter_store_state_change_of_json_def parameter_store_state_change_json_def read_back)

record ec2_command_status_change =
  ecsc_command_id :: string
  ecsc_document_name :: string
  ecsc_expire_after :: string
  ecsc_parameters :: "(string \<times> string) list"
  ecsc_requested_date_time :: string
  ecsc_status :: string

definition ec2_command_status_change_json :: "ec2_command_status_change \<Rightarrow> json" where
  "ec2_command_status_change_json x = JObj
     ([(''command-id'', JStr (ecsc_command_id x)),
      (''document-name'', JStr (ecsc_document_name x)),
      (''expire-after'', JStr (ecsc_expire_after x)),
      (''parameters'', json_of_map JStr (ecsc_parameters x)),
      (''requested-date-time'', JStr (ecsc_requested_date_time x)),
      (''status'', JStr (ecsc_status x))])"

definition ec2_command_status_change_of_json :: "json \<Rightarrow> ec2_command_status_change option" where
  "ec2_command_status_change_of_json j = do {
     kvs \<leftarrow> de_fields 6
       [''command-id'', ''document-name'', ''expire-after'', ''parameters'',
        ''requested-date-time'', ''status''] j;
     x_command_id \<leftarrow> de_required de_string [''command-id''] kvs;
     x_document_name \<leftarrow> de_required de_string [''document-name''] kvs;
     x_expire_after \<leftarrow> de_required de_string [''expire-after''] kvs;
     x_parameters \<leftarrow> de_required (de_hash_map de_string) [''parameters''] kvs;
     x_requested_date_time \<leftarrow> de_required de_string [''requested-date-time''] kvs;
     x_status \<leftarrow> de_required de_string [''status''] kvs;
     Some \<lparr>ecsc_command_id = x_command_id, ecsc_document_name = x_document_name,
       ecsc_expire_after = x_expire_after, ecsc_parameters = x_parameters,
       ecsc_requested_date_time = x_requested_date_time, ecsc_status = x_status\<rparr> }"

definition ec2_command_status_change_good :: "ec2_command_status_change \<Rightarrow> bool" where
  "ec2_command_status_change_good x \<longleftrightarrow>
     good_map (\<lambda>_. True) (ecsc_parameters x)"

lemma ec2_command_status_change_not_null [simp]: "ec2_command_status_change_json x \<noteq> JNull"
  by (simp add: ec2_command_status_change_json_def)

lemma ec2_command_status_change_read [read_back]: "ec2_command_status_change_good x \<Longrightarrow>ec2_command_status_change_of_json (ec2_command_status_change_json x) = Some x"
  by (cases x) (simp add: ec2_command_status_change_of_json_def ec2_command_status_change_json_def ec2_command_status_change_good_def read_back)

lemma ec2_command_status_change_typed: "typed ec2_command_status_change_good ec2_command_status_change_of_json"
  unfolding typed_def ec2_command_status_change_of_json_def ec2_command_status_change_good_def
  by (auto simp: bind_eq_Some_conv dest!: typed_required [OF typed_hash_map [OF typed_True [of "de_string"]]])

record ec2_command_invocation_status_change =
  ecisc_command_id :: string
  ecisc_document_name :: string
  ecisc_instance_id :: string
  ecisc_requested_date_time :: string
  ecisc_status :: string

definition ec2_command_invocation_status_change_json :: "ec2_command_invocation_status_change \<Rightarrow> json" where
  "ec2_command_invocation_status_change_json x = JObj
     ([(''command-id'', JStr (ecisc_command_id x)),
      (''document-name'', JStr (ecisc_document_name x)),
      (''instance-id'', JStr (ecisc_instance_id x)),
      (''requested-date-time'', JStr (ecisc_requested_date_time x)),
      (''status'', JStr (ecisc_status x))])"

definition ec2_command_invocation_status_change_of_json :: "json \<Rightarrow> ec2_command_invocation_status_change option" where
  "ec2_command_invocation_status_change_of_json j = do {
     kvs \<leftarrow> de_fields 5
       [''command-id'', ''document-name'', ''instance-id'', ''requested-date-time'', ''status''] j;
     x_command_id \<leftarrow> de_required de_string [''command-id''] kvs;
     x_document_name \<leftarrow> de_required de_string [''document-name''] kvs;
     x_instance_id \<leftarrow> de_required de_string [''instance-id''] kvs;
     x_requested_date_time \<leftarrow> de_required de_string [''requested-date-time''] kvs;
     x_status \<leftarrow> de_required de_string [''status''] kvs;
     Some \<lparr>ecisc_command_id = x_command_id, ecisc_document_name = x_document_name,
       ecisc_instance_id = x_instance_id, ecisc_requested_date_time = x_requested_date_time,
       ecisc_status = x_status\<rparr> }"

lemma ec2_command_invocation_status_change_not_null [simp]: "ec2_command_invocation_status_change_json x \<noteq> JNull"
  by (simp add: ec2_command_invocation_status_change_json_def)

lemma ec2_command_invocation_status_change_read [read_back]: "ec2_command_invocation_status_change_of_json (ec2_command_invocation_status_change_json x) = Some x"
  by (cases x) (simp add: ec2_command_invocation_status_change_of_json_def ec2_command_invocation_status_change_json_def read_back)

record ec2_state_manager_association_state_change =
  esmasc_association_id :: string
  esmasc_document_name :: string
  esmasc_association_version :: string
  esmasc_document_version :: string
  esmasc_targets :: string
  esmasc_creation_date :: string
  esmasc_last_successful_execution_date :: string
  esmasc_last_execution_date :: string
  esmasc_last_updated_date :: string
  esmasc_status :: string
  esmasc_association_status_aggregated_count :: string
  esmasc_schedule_expression :: string
  esmasc_association_cwe_version :: string

definition ec2_state_manager_association_state_change_json :: "ec2_state_manager_association_state_change \<Rightarrow> json" where
  "ec2_state_manager_association_state_change_json x = JObj
     ([(''association-id'', JStr (esmasc_association_id x)),
      (''document-name'', JStr (esmasc_document_name x)),
      (''association-version'', JStr (esmasc_association_version x)),
      (''document-version'', JStr (esmasc_document_version x)),
      (''targets'', JStr (esmasc_targets x)),
      (''creation-date'', JStr (esmasc_creation_date x)),
      (''last-successful-execution-date'', JStr (esmasc_last_successful_execution_date x)),
      (''last-execution-date'', JStr (esmasc_last_execution_date x)),
      (''last-updated-date'', JStr (esmasc_last_updated_date x)),
      (''status'', JStr (esmasc_status x)),
      (''association-status-aggregated-count'', JStr (esmasc_association_status_aggregated_count x)),
      (''schedule-expression'', JStr (esmasc_schedule_expression x)),
      (''association-cwe-version'', JStr (esmasc_association_cwe_version x))])"

definition ec2_state_manager_association_state_change_of_json :: "json \<Rightarrow> ec2_state_manager_association_state_change option" where
  "ec2_state_manager_association_state_change_of_json j = do {
     kvs \<leftarrow> de_fields 13
       [''association-id'', ''document-name'', ''association-version'', ''document-version'',
        ''targets'', ''creation-date'', ''last-successful-execution-date'',
        ''last-execution-date'', ''last-updated-date'', ''status'',
        ''association-status-aggregated-count'', ''schedule-expression'',
        ''association-cwe-version''] j;
     x_association_id \<leftarrow> de_required de_string [''association-id''] kvs;
     x_document_name \<leftarrow> de_required de_string [''document-name''] kvs;
     x_association_version \<leftarrow> de_required de_string [''association-version''] kvs;
     x_document_version \<leftarrow> de_required de_string [''document-version''] kvs;
     x_targets \<leftarrow> de_required de_string [''targets''] kvs;
     x_creation_date \<leftarrow> de_required de_string [''creation-date''] kvs;
     x_last_successful_execution_date \<leftarrow> de_required de_string [''last-successful-execution-date''] kvs;
     x_last_execution_date \<leftarrow> de_required de_string [''last-execution-date''] kvs;
     x_last_updated_date \<leftarrow> de_required de_string [''last-updated-date''] kvs;
     x_status \<leftarrow> de_required de_string [''status''] kvs;
     x_association_status_aggregated_count \<leftarrow> de_required de_string [''association-status-aggregated-count''] kvs;
     x_schedule_expression \<leftarrow> de_required de_string [''schedule-expression''] kvs;
     x_association_cwe_version \<leftarrow> de_required de_string [''association-cwe-version''] kvs;
     Some \<lparr>esmasc_association_id = x_association_id, esmasc_document_name = x_document_name,
       esmasc_association_version = x_association_version,
       esmasc_document_version = x_document_version, esmasc_targets = x_targets,
       esmasc_creation_date = x_creation_date,
       esmasc_last_successful_execution_date = x_last_successful_execution_date,
       esmasc_last_execution_date = x_last_execution_date,
       esmasc_last_updated_date = x_last_updated_date, esmasc_status = x_status,
       esmasc_association_status_aggregated_count = x_association_status_aggregated_count,
       esmasc_schedule_expression = x_schedule_expression,
       esmasc_association_cwe_version = x_association_cwe_version\<rparr> }"

lemma ec2_state_manager_association_state_change_not_null [simp]: "ec2_state_manager_association_state_change_json x \<noteq> JNull"
  by (simp add: ec2_state_manager_association_state_change_json_def)

lemma ec2_state_manager_association_state_change_read [read_back]: "ec2_state_manager_association_state_change_of_json (ec2_state_manager_association_state_change_json x) = Some x"
  by (cases x) (simp add: ec2_state_manager_association_state_change_of_json_def ec2_state_manager_association_state_change_json_def read_back)

record ec2_state_manager_instance_association_state_change =
  esmiasc_association_id :: string
  esmiasc_instance_id :: string
  esmiasc_document_name :: string
  esmiasc_document_version :: string
  esmiasc_targets :: string
  esmiasc_creation_date :: string
  esmiasc_last_successful_execution_date :: string
  esmiasc_last_execution_date :: string
  esmiasc_status :: string
  esmiasc_detailed_status :: string
  esmiasc_error_code :: string
  esmiasc_execution_summary :: string
  esmiasc_output_url :: string
  esmiasc_instance_association_cwe_version :: string

definition ec2_state_manager_instance_association_state_change_json :: "ec2_state_manager_instance_association_state_change \<Rightarrow> json" where
  "ec2_state_manager_instance_association_state_change_json x = JObj
     ([(''association-id'', JStr (esmiasc_association_id x)),
      (''instance-id'', JStr (esmiasc_instance_id x)),
      (''document-name'', JStr (esmiasc_document_name x)),
      (''document-version'', JStr (esmiasc_document_version x)),
      (''targets'', JStr (esmiasc_targets x)),
      (''creation-date'', JStr (esmiasc_creation_date x)),
      (''last-successful-execution-date'', JStr (esmiasc_last_successful_execution_date x)),
      (''last-execution-date'', JStr (esmiasc_last_execution_date x)),
      (''status'', JStr (esmiasc_status x)),
      (''detailed-status'', JStr (esmiasc_detailed_status x)),
      (''error-code'', JStr (esmiasc_error_code x)),
      (''execution-summary'', JStr (esmiasc_execution_summary x)),
      (''output-url'', JStr (esmiasc_output_url x)),
      (''instance-association-cwe-version'', JStr (esmiasc_instance_association_cwe_version x))])"

definition ec2_state_manager_instance_association_state_change_of_json :: "json \<Rightarrow> ec2_state_manager_instance_association_state_change option" where
  "ec2_state_manager_instance_association_state_change_of_json j = do {
     kvs \<leftarrow> de_fields 14
       [''association-id'', ''instance-id'', ''document-name'', ''document-version'', ''targets'',
        ''creation-date'', ''last-successful-execution-date'', ''last-execution-date'', ''status'',
        ''detailed-status'', ''error-code'', ''execution-summary'', ''output-url'',
        ''instance-association-cwe-version''] j;
     x_association_id \<leftarrow> de_required de_string [''association-id''] kvs;
     x_instance_id \<leftarrow> de_required de_string [''instance-id''] kvs;
     x_document_name \<leftarrow> de_required de_string [''document-name''] kvs;
     x_document_version \<leftarrow> de_required de_string [''document-version''] kvs;
     x_targets \<leftarrow> de_required de_string [''targets''] kvs;
     x_creation_date \<leftarrow> de_required de_string [''creation-date''] kvs;
     x_last_successful_execution_date \<leftarrow> de_required de_string [''last-successful-execution-date''] kvs;
     x_last_execution_date \<leftarrow> de_required de_string [''last-execution-date''] kvs;
     x_status \<leftarrow> de_required de_string [''status''] kvs;
     x_detailed_status \<leftarrow> de_required de_string [''detailed-status''] kvs;
     x_error_code \<leftarrow> de_required de_string [''error-code''] kvs;
     x_execution_summary \<leftarrow> de_required de_string [''execution-summary''] kvs;
     x_output_url \<leftarrow> de_required de_string [''output-url''] kvs;
     x_instance_association_cwe_version \<leftarrow> de_required de_string [''instance-association-cwe-version''] kvs;
     Some \<lparr>esmiasc_association_id = x_association_id, esmiasc_instance_id = x_instance_id,
       esmiasc_document_name = x_document_name, esmiasc_document_version = x_document_version,
       esmiasc_targets = x_targets, esmiasc_creation_date = x_creation_date,
       esmiasc_last_successful_execution_date = x_last_successful_execution_date,
       esmiasc_last_execution_date = x_last_execution_date, esmiasc_status = x_status,
       esmiasc_detailed_status = x_detailed_status, esmiasc_error_code = x_error_code,
       esmiasc_execution_summary = x_execution_summary, esmiasc_output_url = x_output_url,
       esmiasc_instance_association_cwe_version = x_instance_association_cwe_version\<rparr> }"

lemma ec2_state_manager_instance_association_state_change_not_null [simp]: "ec2_state_manager_instance_association_state_change_json x \<noteq> JNull"
  by (simp add: ec2_state_manager_instance_association_state_change_json_def)

lemma ec2_state_manager_instance_association_state_change_read [read_back]: "ec2_state_manager_instance_association_state_change_of_json (ec2_state_manager_instance_association_state_change_json x) = Some x"
  by (cases x) (simp add: ec2_state_manager_instance_association_state_change_of_json_def ec2_state_manager_instance_association_state_change_json_def read_back)

subsection \<open>\<^verbatim>\<open>cloudwatch_events/tag\<close>\<close>

record tag_change_on_resource =
  tcor_changed_tag_keys :: "string list"
  tcor_service :: string
  tcor_resource_type :: string
  tcor_version :: int
  tcor_tags :: "(string \<times> string) list"

definition tag_change_on_resource_json :: "tag_change_on_resource \<Rightarrow> json" where
  "tag_change_on_resource_json x = JObj
     ([(''changed-tag-keys'', json_of_list JStr (tcor_changed_tag_keys x)),
      (''service'', JStr (tcor_service x)),
      (''resource-type'', JStr (tcor_resource_type x)),
      (''version'', JInt (tcor_version x)),
      (''tags'', json_of_map JStr (tcor_tags x))])"

definition tag_change_on_resource_of_json :: "json \<Rightarrow> tag_change_on_resource option" where
  "tag_change_on_resource_of_json j = do {
     kvs \<leftarrow> de_fields 5
       [''changed-tag-keys'', ''service'', ''resource-type'', ''version'', ''tags''] j;
     x_changed_tag_keys \<leftarrow> de_required (de_list de_string) [''changed-tag-keys''] kvs;
     x_service \<leftarrow> de_required de_string [''service''] kvs;
     x_resource_type \<leftarrow> de_required de_string [''resource-type''] kvs;
     x_version \<leftarrow> de_required de_i64 [''version''] kvs;
     x_tags \<leftarrow> de_required (de_hash_map de_string) [''tags''] kvs;
     Some \<lparr>tcor_changed_tag_keys = x_changed_tag_keys, tcor_service = x_service,
       tcor_resource_type = x_resource_type, tcor_version = x_version, tcor_tags = x_tags\<rparr> }"

definition tag_change_on_resource_good :: "tag_change_on_resource \<Rightarrow> bool" where
  "tag_change_on_resource_good x \<longleftrightarrow>
     good_i64 (tcor_version x) \<and>
     good_map (\<lambda>_. True) (tcor_tags x)"

lemma tag_change_on_resource_not_null [simp]: "tag_change_on_resource_json x \<noteq> JNull"
  by (simp add: tag_change_on_resource_json_def)

lemma tag_change_on_resource_read [read_back]: "tag_change_on_resource_good x \<Longrightarrow>tag_change_on_resource_of_json (tag_change_on_resource_json x) = Some x"
  by (cases x) (clarsimp simp: tag_change_on_resource_of_json_def tag_change_on_resource_json_def tag_change_on_resource_good_def read_back)

lemma tag_change_on_resource_typed: "typed tag_change_on_resource_good tag_change_on_resource_of_json"
  unfolding typed_def tag_change_on_resource_of_json_def tag_change_on_resource_good_def
  by (auto simp: bind_eq_Some_conv dest!: typed_required [OF typed_i64]
      typed_required [OF typed_hash_map [OF typed_True [of "de_string"]]])

subsection \<open>\<^verbatim>\<open>cloudwatch_events/trustedadvisor\<close>\<close>

record check_item_refresh_notification =
  cirn_check_name :: string
  cirn_check_item_detail :: "(string \<times> string) list"
  cirn_status :: string
  cirn_resource_id :: string
  cirn_uuid :: string

definition check_item_refresh_notification_json :: "check_item_refresh_notification \<Rightarrow> json" where
  "check_item_refresh_notification_json x = JObj
     ([(''check-name'', JStr (cirn_check_name x)),
      (''check-item-detail'', json_of_map JStr (cirn_check_item_detail x)),
      (''status'', JStr (cirn_status x)),
      (''resource_id'', JStr (cirn_resource_id x)),
      (''uuid'', JStr (cirn_uuid x))])"

definition check_item_refresh_notification_of_json :: "json \<Rightarrow> check_item_refresh_notification option" where
  "check_item_refresh_notification_of_json j = do {
     kvs \<leftarrow> de_fields 5
       [''check-name'', ''check-item-detail'', ''status'', ''resource_id'', ''uuid''] j;
     x_check_name \<leftarrow> de_required de_string [''check-name''] kvs;
     x_check_item_detail \<leftarrow> de_required (de_hash_map de_string) [''check-item-detail''] kvs;
     x_status \<leftarrow> de_required de_string [''status''] kvs;
     x_resource_id \<leftarrow> de_required de_string [''resource_id''] kvs;
     x_uuid \<leftarrow> de_required de_string [''uuid''] kvs;
     Some \<lparr>cirn_check_name = x_check_name, cirn_check_item_detail = x_check_item_detail,
       cirn_status = x_status, cirn_resource_id = x_resource_id, cirn_uuid = x_uuid\<rparr> }"

definition check_item_refresh_notification_good :: "check_item_refresh_notification \<Rightarrow> bool" where
  "check_item_refresh_notification_good x \<longleftrightarrow>
     good_map (\<lambda>_. True) (cirn_check_item_detail x)"

lemma check_item_refresh_notification_not_null [simp]: "check_item_refresh_notification_json x \<noteq> JNull"
  by (simp add: check_item_refresh_notification_json_def)

lemma check_item_refresh_notification_read [read_back]: "check_item_refresh_notification_good x \<Longrightarrow>check_item_refresh_notification_of_json (check_item_refresh_notification_json x) = Some x"
  by (cases x) (simp add: check_item_refresh_notification_of_json_def check_item_refresh_notification_json_def check_item_refresh_notification_good_def read_back)

lemma check_item_refresh_notification_typed: "typed check_item_refresh_notification_good check_item_refresh_notification_of_json"
  unfolding typed_def check_item_refresh_notification_of_json_def check_item_refresh_notification_good_def
  by (auto simp: bind_eq_Some_conv dest!: typed_required [OF typed_hash_map [OF typed_True [of "de_string"]]])

subsection \<open>\<^verbatim>\<open>cloudwatch_logs\<close>\<close>

record log_entry =
  len_id :: string
  len_timestamp :: int
  len_message :: string

definition log_entry_json :: "log_entry \<Rightarrow> json" where
  "log_entry_json x = JObj
     ([(''id'', JStr (len_id x)),
      (''timestamp'', JInt (len_timestamp x)),
      (''message'', JStr (len_message x))])"

definition log_entry_of_json :: "json \<Rightarrow> log_entry option" where
  "log_entry_of_json j = do {
     kvs \<leftarrow> de_fields 3
       [''id'', ''timestamp'', ''message''] j;
     x_id \<leftarrow> de_required de_string [''id''] kvs;
     x_timestamp \<leftarrow> de_required de_i64 [''timestamp''] kvs;
     x_message \<leftarrow> de_required de_string [''message''] kvs;
     Some \<lparr>len_id = x_id, len_timestamp = x_timestamp, len_message = x_message\<rparr> }"

definition log_entry_good :: "log_entry \<Rightarrow> bool" where
  "log_entry_good x \<longleftrightarrow>
     good_i64 (len_timestamp x)"

lemma log_entry_not_null [simp]: "log_entry_json x \<noteq> JNull"
  by (simp add: log_entry_json_def)

lemma log_entry_read [read_back]: "log_entry_good x \<Longrightarrow>log_entry_of_json (log_entry_json x) = Some x"
  by (cases x) (simp add: log_entry_of_json_def log_entry_json_def log_entry_good_def read_back)

lemma log_entry_typed: "typed log_entry_good log_entry_of_json"
  unfolding typed_def log_entry_of_json_def log_entry_good_def
  by (auto simp: bind_eq_Some_conv dest!: typed_required [OF typed_i64])

record log_data =
  ld_owner :: string
  ld_log_group :: string
  ld_log_stream :: string
  ld_subscription_filters :: "string list"
  ld_message_type :: string
  ld_log_events :: "log_entry list"

definition log_data_json :: "log_data \<Rightarrow> json" where
  "log_data_json x = JObj
     ([(''owner'', JStr (ld_owner x)),
      (''logGroup'', JStr (ld_log_group x)),
      (''logStream'', JStr (ld_log_stream x)),
      (''subscriptionFilters'', json_of_list JStr (ld_subscription_filters x)),
      (''messageType'', JStr (ld_message_type x)),
      (''logEvents'', json_of_list log_entry_json (ld_log_events x))])"

definition log_data_of_json :: "json \<Rightarrow> log_data option" where
  "log_data_of_json j = do {
     kvs \<leftarrow> de_fields 6
       [''owner'', ''logGroup'', ''logStream'', ''subscriptionFilters'', ''messageType'',
        ''logEvents''] j;
     x_owner \<leftarrow> de_required de_string [''owner''] kvs;
     x_log_group \<leftarrow> de_required de_string [''logGroup''] kvs;
     x_log_stream \<leftarrow> de_required de_string [''logStream''] kvs;
     x_subscription_filters \<leftarrow> de_required (de_list de_string) [''subscriptionFilters''] kvs;
     x_message_type \<leftarrow> de_required de_string [''messageType''] kvs;
     x_log_events \<leftarrow> de_required (de_list log_entry_of_json) [''logEvents''] kvs;
     Some \<lparr>ld_owner = x_owner, ld_log_group = x_log_group, ld_log_stream = x_log_stream,
       ld_subscription_filters = x_subscription_filters, ld_message_type = x_message_type,
       ld_log_events = x_log_events\<rparr> }"

definition log_data_good :: "log_data \<Rightarrow> bool" where
  "log_data_good x \<longleftrightarrow>
     list_all log_entry_good (ld_log_events x)"

lemma log_data_not_null [simp]: "log_data_json x \<noteq> JNull"
  by (simp add: log_data_json_def)

lemma log_data_read [read_back]: "log_data_good x \<Longrightarrow>log_data_of_json (log_data_json x) = Some x"
  by (cases x) (simp add: log_data_of_json_def log_data_json_def log_data_good_def read_back)

lemma log_data_typed: "typed log_data_good log_data_of_json"
  unfolding typed_def log_data_of_json_def log_data_good_def
  by (auto simp: bind_eq_Some_conv dest!: typed_required [OF typed_list [OF log_entry_typed]])

subsection \<open>\<^verbatim>\<open>cloudwatch_alarms\<close>\<close>

record cloud_watch_metric_stat_metric_definition =
  cwmsmd_namespace :: "string option"
  cwmsmd_name :: string
  cwmsmd_dimensions :: "(string \<times> string) list"

definition cloud_watch_metric_stat_metric_definition_json :: "cloud_watch_metric_stat_metric_definition \<Rightarrow> json" where
  "cloud_watch_metric_stat_metric_definition_json x = JObj
     ([(''namespace'', json_of_option JStr (cwmsmd_namespace x)),
      (''name'', JStr (cwmsmd_name x)),
      (''dimensions'', json_of_map JStr (cwmsmd_dimensions x))])"

definition cloud_watch_metric_stat_metric_definition_of_json :: "json \<Rightarrow> cloud_watch_metric_stat_metric_definition option" where
  "cloud_watch_metric_stat_metric_definition_of_json j = do {
     kvs \<leftarrow> de_fields 3
       [''namespace'', ''name'', ''dimensions''] j;
     x_namespace \<leftarrow> de_opt_string ''namespace'' kvs;
     x_name \<leftarrow> de_required de_string [''name''] kvs;
     x_dimensions \<leftarrow> de_required (de_hash_map de_string) [''dimensions''] kvs;
     Some \<lparr>cwmsmd_namespace = x_namespace, cwmsmd_name = x_name, cwmsmd_dimensions = x_dimensions\<rparr> }"

definition cloud_watch_metric_stat_metric_definition_good :: "cloud_watch_metric_stat_metric_definition \<Rightarrow> bool" where
  "cloud_watch_metric_stat_metric_definition_good x \<longleftrightarrow>
     good_map (\<lambda>_. True) (cwmsmd_dimensions x)"

lemma cloud_watch_metric_stat_metric_definition_not_null [simp]: "cloud_watch_metric_stat_metric_definition_json x \<noteq> JNull"
  by (simp add: cloud_watch_metric_stat_metric_definition_json_def)

lemma cloud_watch_metric_stat_metric_definition_read [read_back]: "cloud_watch_metric_stat_metric_definition_good x \<Longrightarrow>cloud_watch_metric_stat_metric_definition_of_json (cloud_watch_metric_stat_metric_definition_json x) = Some x"
  by (cases x) (simp add: cloud_watch_metric_stat_metric_definition_of_json_def cloud_watch_metric_stat_metric_definition_json_def cloud_watch_metric_stat_metric_definition_good_def read_back)

lemma cloud_watch_metric_stat_metric_definition_typed: "typed cloud_watch_metric_stat_metric_definition_good cloud_watch_metric_stat_metric_definition_of_json"
  unfolding typed_def cloud_watch_metric_stat_metric_definition_of_json_def cloud_watch_metric_stat_metric_definition_good_def
  by (auto simp: bind_eq_Some_conv dest!: typed_required [OF typed_hash_map [OF typed_True [of "de_string"]]])

record cloud_watch_composite_alarm_configuration =
  cwcac_alarm_rule :: string
  cwcac_actions_suppressor :: string
  cwcac_actions_suppressor_wait_period :: nat
  cwcac_actions_suppressor_extension_period :: nat

definition cloud_watch_composite_alarm_configuration_json :: "cloud_watch_composite_alarm_configuration \<Rightarrow> json" where
  "cloud_watch_composite_alarm_configuration_json x = JObj
     ([(''alarmRule'', JStr (cwcac_alarm_rule x)),
      (''actionsSuppressor'', JStr (cwcac_actions_suppressor x)),
      (''actionsSuppressorWaitPeriod'', json_of_nat (cwcac_actions_suppressor_wait_period x)),
      (''actionsSuppressorExtensionPeriod'', json_of_nat (cwcac_actions_suppressor_extension_period x))])"

definition cloud_watch_composite_alarm_configuration_of_json :: "json \<Rightarrow> cloud_watch_composite_alarm_configuration option" where
  "cloud_watch_composite_alarm_configuration_of_json j = do {
     kvs \<leftarrow> de_fields 4
       [''alarmRule'', ''actionsSuppressor'', ''actionsSuppressorWaitPeriod'',
        ''actionsSuppressorExtensionPeriod''] j;
     x_alarm_rule \<leftarrow> de_required de_string [''alarmRule''] kvs;
     x_actions_suppressor \<leftarrow> de_required de_string [''actionsSuppressor''] kvs;
     x_actions_suppressor_wait_period \<leftarrow> de_required (de_unsigned u16_max) [''actionsSuppressorWaitPeriod''] kvs;
     x_actions_suppressor_extension_period \<leftarrow> de_required (de_unsigned u16_max) [''actionsSuppressorExtensionPeriod''] kvs;
     Some \<lparr>cwcac_alarm_rule = x_alarm_rule, cwcac_actions_suppressor = x_actions_suppressor,
       cwcac_actions_suppressor_wait_period = x_actions_suppressor_wait_period,
       cwcac_actions_suppressor_extension_period = x_actions_suppressor_extension_period\<rparr> }"

definition cloud_watch_composite_alarm_configuration_good :: "cloud_watch_composite_alarm_configuration \<Rightarrow> bool" where
  "cloud_watch_composite_alarm_configuration_good x \<longleftrightarrow>
     good_nat u16_max (cwcac_actions_suppressor_wait_period x) \<and>
     good_nat u16_max (cwcac_actions_suppressor_extension_period x)"

lemma cloud_watch_composite_alarm_configuration_not_null [simp]: "cloud_watch_composite_alarm_configuration_json x \<noteq> JNull"
  by (simp add: cloud_watch_composite_alarm_configuration_json_def)

lemma cloud_watch_composite_alarm_configuration_read [read_back]: "cloud_watch_composite_alarm_configuration_good x \<Longrightarrow>cloud_watch_composite_alarm_configuration_of_json (cloud_watch_composite_alarm_configuration_json x) = Some x"
  by (cases x) (clarsimp simp: cloud_watch_composite_alarm_configuration_of_json_def cloud_watch_composite_alarm_configuration_json_def cloud_watch_composite_alarm_configuration_good_def read_back)

lemma cloud_watch_composite_alarm_configuration_typed: "typed cloud_watch_composite_alarm_configuration_good cloud_watch_composite_alarm_configuration_of_json"
  unfolding typed_def cloud_watch_composite_alarm_configuration_of_json_def cloud_watch_composite_alarm_configuration_good_def
  by (auto simp: bind_eq_Some_conv dest!: typed_required [OF typed_nat])

datatype cloud_watch_alarm_state_value =
    CloudWatchAlarmStateValue_Ok | CloudWatchAlarmStateValue_Alarm |
    CloudWatchAlarmStateValue_InsufficientData

fun cloud_watch_alarm_state_value_name :: "cloud_watch_alarm_state_value \<Rightarrow> string" where
  "cloud_watch_alarm_state_value_name CloudWatchAlarmStateValue_Ok = ''OK''"
| "cloud_watch_alarm_state_value_name CloudWatchAlarmStateValue_Alarm = ''ALARM''"
| "cloud_watch_alarm_state_value_name CloudWatchAlarmStateValue_InsufficientData = ''INSUFFICIENT_DATA''"

definition cloud_watch_alarm_state_value_json :: "cloud_watch_alarm_state_value \<Rightarrow> json" where
  "cloud_watch_alarm_state_value_json x = JStr (cloud_watch_alarm_state_value_name x)"

definition cloud_watch_alarm_state_value_of_json :: "json \<Rightarrow> cloud_watch_alarm_state_value option" where
  "cloud_watch_alarm_state_value_of_json = de_variant cloud_watch_alarm_state_value_name
     [CloudWatchAlarmStateValue_Ok,
      CloudWatchAlarmStateValue_Alarm,
      CloudWatchAlarmStateValue_InsufficientData]"

lemma cloud_watch_alarm_state_value_not_null [simp]: "cloud_watch_alarm_state_value_json x \<noteq> JNull"
  by (simp add: cloud_watch_alarm_state_value_json_def)

lemma cloud_watch_alarm_state_value_read [read_back]: "cloud_watch_alarm_state_value_of_json (cloud_watch_alarm_state_value_json x) = Some x"
  by (cases x) (simp_all add: cloud_watch_alarm_state_value_of_json_def cloud_watch_alarm_state_value_json_def de_variant_def)

record 't cloud_watch_alarm_state_evaluated_datapoint =
  cwased_timestamp :: 't
  cwased_sample_count :: "f64 option"
  cwased_value :: "f64 option"
  cwased_threshold :: "f64 option"

definition cloud_watch_alarm_state_evaluated_datapoint_json :: "'t event_env \<Rightarrow> 't cloud_watch_alarm_state_evaluated_datapoint \<Rightarrow> json" where
  "cloud_watch_alarm_state_evaluated_datapoint_json E x = JObj
     ([(''timestamp'', json_of_time E (cwased_timestamp x)),
      (''sampleCount'', json_of_option json_of_f64 (cwased_sample_count x)),
      (''value'', json_of_option json_of_f64 (cwased_value x)),
      (''threshold'', json_of_option json_of_f64 (cwased_threshold x))])"

definition cloud_watch_alarm_state_evaluated_datapoint_of_json :: "'t event_env \<Rightarrow> json \<Rightarrow> 't cloud_watch_alarm_state_evaluated_datapoint option" where
  "cloud_watch_alarm_state_evaluated_datapoint_of_json E j = do {
     kvs \<leftarrow> de_fields 1
       [''timestamp'', ''sampleCount'', ''value'', ''threshold''] j;
     x_timestamp \<leftarrow> de_required (time_of_json E) [''timestamp''] kvs;
     x_sample_count \<leftarrow> de_optional de_f64 [''sampleCount''] kvs;
     x_value \<leftarrow> de_optional de_f64 [''value''] kvs;
     x_threshold \<leftarrow> de_optional de_f64 [''threshold''] kvs;
     Some \<lparr>cwased_timestamp = x_timestamp, cwased_sample_count = x_sample_count,
       cwased_value = x_value, cwased_threshold = x_threshold\<rparr> }"

definition cloud_watch_alarm_state_evaluated_datapoint_good :: "'t cloud_watch_alarm_state_evaluated_datapoint \<Rightarrow> bool" where
  "cloud_watch_alarm_state_evaluated_datapoint_good x \<longleftrightarrow>
     good_option f64_finite (cwased_sample_count x) \<and>
     good_option f64_finite (cwased_value x) \<and>
     good_option f64_finite (cwased_threshold x)"

lemma cloud_watch_alarm_state_evaluated_datapoint_not_null [simp]: "cloud_watch_alarm_state_evaluated_datapoint_json E x \<noteq> JNull"
  by (simp add: cloud_watch_alarm_state_evaluated_datapoint_json_def)

lemma cloud_watch_alarm_state_evaluated_datapoint_read [read_back]: "cloud_watch_alarm_state_evaluated_datapoint_good x \<Longrightarrow> event_crates E \<Longrightarrow>cloud_watch_alarm_state_evaluated_datapoint_of_json E (cloud_watch_alarm_state_evaluated_datapoint_json E x) = Some x"
  by (cases x) (clarsimp simp: cloud_watch_alarm_state_evaluated_datapoint_of_json_def cloud_watch_alarm_state_evaluated_datapoint_json_def cloud_watch_alarm_state_evaluated_datapoint_good_def read_back)

lemma cloud_watch_alarm_state_evaluated_datapoint_typed: "typed cloud_watch_alarm_state_evaluated_datapoint_good (cloud_watch_alarm_state_evaluated_datapoint_of_json E)"
  unfolding typed_def cloud_watch_alarm_state_evaluated_datapoint_of_json_def cloud_watch_alarm_state_evaluated_datapoint_good_def
  by (auto simp: bind_eq_Some_conv dest!: typed_optional [OF typed_f64])

record 't cloud_watch_alarm_state_triggering_alarm_state =
  cwastas_timestamp :: 't
  cwastas_value :: cloud_watch_alarm_state_value

definition cloud_watch_alarm_state_triggering_alarm_state_json :: "'t event_env \<Rightarrow> 't cloud_watch_alarm_state_triggering_alarm_state \<Rightarrow> json" where
  "cloud_watch_alarm_state_triggering_alarm_state_json E x = JObj
     ([(''timestamp'', json_of_time E (cwastas_timestamp x)),
      (''value'', cloud_watch_alarm_state_value_json (cwastas_value x))])"

definition cloud_watch_alarm_state_triggering_alarm_state_of_json :: "'t event_env \<Rightarrow> json \<Rightarrow> 't cloud_watch_alarm_state_triggering_alarm_state option" where
  "cloud_watch_alarm_state_triggering_alarm_state_of_json E j = do {
     kvs \<leftarrow> de_fields 1
       [''timestamp'', ''value''] j;
     x_timestamp \<leftarrow> de_required (time_of_json E) [''timestamp''] kvs;
     x_value \<leftarrow> de_default cloud_watch_alarm_state_value_of_json CloudWatchAlarmStateValue_Ok [''value''] kvs;
     Some \<lparr>cwastas_timestamp = x_timestamp, cwastas_value = x_value\<rparr> }"

lemma cloud_watch_alarm_state_triggering_alarm_state_not_null [simp]: "cloud_watch_alarm_state_triggering_alarm_state_json E x \<noteq> JNull"
  by (simp add: cloud_watch_alarm_state_triggering_alarm_state_json_def)

lemma cloud_watch_alarm_state_triggering_alarm_state_read [read_back]: "event_crates E \<Longrightarrow>cloud_watch_alarm_state_triggering_alarm_state_of_json E (cloud_watch_alarm_state_triggering_alarm_state_json E x) = Some x"
  by (cases x) (simp add: cloud_watch_alarm_state_triggering_alarm_state_of_json_def cloud_watch_alarm_state_triggering_alarm_state_json_def read_back)

record ('t, 'p) cloud_watch_alarm_state =
  cwas_value :: cloud_watch_alarm_state_value
  cwas_reason :: string
  cwas_reason_data :: "'p option"
  cwas_timestamp :: 't
  cwas_actions_suppressed_by :: "string option"
  cwas_actions_suppressed_reason :: "string option"

definition cloud_watch_alarm_state_json :: "'t event_env \<Rightarrow> ('p \<Rightarrow> json) \<Rightarrow> ('t, 'p) cloud_watch_alarm_state \<Rightarrow> json" where
  "cloud_watch_alarm_state_json E gp x = JObj
     ([(''value'', cloud_watch_alarm_state_value_json (cwas_value x)),
      (''reason'', JStr (cwas_reason x)),
      (''reasonData'', json_of_option gp (cwas_reason_data x)),
      (''timestamp'', json_of_time E (cwas_timestamp x)),
      (''actionsSuppressedBy'', json_of_option JStr (cwas_actions_suppressed_by x)),
      (''actionsSuppressedReason'', json_of_option JStr (cwas_actions_suppressed_reason x))])"

definition cloud_watch_alarm_state_of_json :: "'t event_env \<Rightarrow> (json \<Rightarrow> 'p option) \<Rightarrow> json \<Rightarrow> ('t, 'p) cloud_watch_alarm_state option" where
  "cloud_watch_alarm_state_of_json E fp j = do {
     kvs \<leftarrow> de_fields 6
       [''value'', ''reason'', ''reasonData'', ''timestamp'', ''actionsSuppressedBy'',
        ''actionsSuppressedReason''] j;
     x_value \<leftarrow> de_default cloud_watch_alarm_state_value_of_json CloudWatchAlarmStateValue_Ok [''value''] kvs;
     x_reason \<leftarrow> de_required de_string [''reason''] kvs;
     x_reason_data \<leftarrow> de_optional fp [''reasonData''] kvs;
     x_timestamp \<leftarrow> de_required (time_of_json E) [''timestamp''] kvs;
     x_actions_suppressed_by \<leftarrow> de_opt_string ''actionsSuppressedBy'' kvs;
     x_actions_suppressed_reason \<leftarrow> de_opt_string ''actionsSuppressedReason'' kvs;
     Some \<lparr>cwas_value = x_value, cwas_reason = x_reason, cwas_reason_data = x_reason_data,
       cwas_timestamp = x_timestamp, cwas_actions_suppressed_by = x_actions_suppressed_by,
       cwas_actions_suppressed_reason = x_actions_suppressed_reason\<rparr> }"

definition cloud_watch_alarm_state_good :: "('p \<Rightarrow> bool) \<Rightarrow> ('t, 'p) cloud_watch_alarm_state \<Rightarrow> bool" where
  "cloud_watch_alarm_state_good Pp x \<longleftrightarrow>
     good_option Pp (cwas_reason_data x)"

lemma cloud_watch_alarm_state_not_null [simp]: "cloud_watch_alarm_state_json E gp x \<noteq> JNull"
  by (simp add: cloud_watch_alarm_state_json_def)

lemma cloud_watch_alarm_state_read [read_back]: "cloud_watch_alarm_state_good Pp x \<Longrightarrow> event_crates E \<Longrightarrow> (\<And>x. Pp x \<Longrightarrow> gp x \<noteq> JNull \<and> fp (gp x) = Some x) \<Longrightarrow>cloud_watch_alarm_state_of_json E fp (cloud_watch_alarm_state_json E gp x) = Some x"
  by (cases x) (simp add: cloud_watch_alarm_state_of_json_def cloud_watch_alarm_state_json_def cloud_watch_alarm_state_good_def read_back)

lemma cloud_watch_alarm_state_typed:
  assumes typed_p: "typed_nn Pp fp" shows "typed (cloud_watch_alarm_state_good Pp) (cloud_watch_alarm_state_of_json E fp)"
  unfolding typed_def cloud_watch_alarm_state_of_json_def cloud_watch_alarm_state_good_def
  by (auto simp: bind_eq_Some_conv dest!: typed_nn_optional [OF typed_p])

record cloud_watch_metric_stat_definition =
  cwmsd_unit :: "string option"
  cwmsd_stat :: "string option"
  cwmsd_period :: nat
  cwmsd_metric :: cloud_watch_metric_stat_metric_definition

definition cloud_watch_metric_stat_definition_json :: "cloud_watch_metric_stat_definition \<Rightarrow> json" where
  "cloud_watch_metric_stat_definition_json x = JObj
     ([(''unit'', json_of_option JStr (cwmsd_unit x)),
      (''stat'', json_of_option JStr (cwmsd_stat x)),
      (''period'', json_of_nat (cwmsd_period x)),
      (''metric'', cloud_watch_metric_stat_metric_definition_json (cwmsd_metric x))])"

definition cloud_watch_metric_stat_definition_of_json :: "json \<Rightarrow> cloud_watch_metric_stat_definition option" where
  "cloud_watch_metric_stat_definition_of_json j = do {
     kvs \<leftarrow> de_fields 4
       [''unit'', ''stat'', ''period'', ''metric''] j;
     x_unit \<leftarrow> de_opt_string ''unit'' kvs;
     x_stat \<leftarrow> de_opt_string ''stat'' kvs;
     x_period \<leftarrow> de_required (de_unsigned u16_max) [''period''] kvs;
     x_metric \<leftarrow> de_required cloud_watch_metric_stat_metric_definition_of_json [''metric''] kvs;
     Some \<lparr>cwmsd_unit = x_unit, cwmsd_stat = x_stat, cwmsd_period = x_period, cwmsd_metric = x_metric\<rparr> }"

definition cloud_watch_metric_stat_definition_good :: "cloud_watch_metric_stat_definition \<Rightarrow> bool" where
  "cloud_watch_metric_stat_definition_good x \<longleftrightarrow>
     good_nat u16_max (cwmsd_period x) \<and>
     cloud_watch_metric_stat_metric_definition_good (cwmsd_metric x)"

lemma cloud_watch_metric_stat_definition_not_null [simp]: "cloud_watch_metric_stat_definition_json x \<noteq> JNull"
  by (simp add: cloud_watch_metric_stat_definition_json_def)

lemma cloud_watch_metric_stat_definition_read [read_back]: "cloud_watch_metric_stat_definition_good x \<Longrightarrow>cloud_watch_metric_stat_definition_of_json (cloud_watch_metric_stat_definition_json x) = Some x"
  by (cases x) (clarsimp simp: cloud_watch_metric_stat_definition_of_json_def cloud_watch_metric_stat_definition_json_def cloud_watch_metric_stat_definition_good_def read_back)

lemma cloud_watch_metric_stat_definition_typed: "typed cloud_watch_metric_stat_definition_good cloud_watch_metric_stat_definition_of_json"
  unfolding typed_def cloud_watch_metric_stat_definition_of_json_def cloud_watch_metric_stat_definition_good_def
  by (auto simp: bind_eq_Some_conv dest!: typed_required [OF typed_nat]
      typed_required [OF cloud_watch_metric_stat_metric_definition_typed])

record 't cloud_watch_alarm_state_reason_data_metric =
  cwasrdm_version :: string
  cwasrdm_query_date :: "'t option"
  cwasrdm_start_date :: "'t option"
  cwasrdm_unit :: "string option"
  cwasrdm_statistic :: "string option"
  cwasrdm_period :: nat
  cwasrdm_recent_datapoints :: "f64 list"
  cwasrdm_recent_lower_thresholds :: "f64 list"
  cwasrdm_recent_upper_thresholds :: "f64 list"
  cwasrdm_threshold :: f64
  cwasrdm_evaluated_datapoints :: "('t cloud_watch_alarm_state_evaluated_datapoint) list"

definition cloud_watch_alarm_state_reason_data_metric_json :: "'t event_env \<Rightarrow> 't cloud_watch_alarm_state_reason_data_metric \<Rightarrow> json" where
  "cloud_watch_alarm_state_reason_data_metric_json E x = JObj
     ([(''version'', JStr (cwasrdm_version x)),
      (''queryDate'', json_of_option (json_of_time E) (cwasrdm_query_date x)),
      (''startDate'', json_of_option (json_of_time E) (cwasrdm_start_date x)),
      (''unit'', json_of_option JStr (cwasrdm_unit x)),
      (''statistic'', json_of_option JStr (cwasrdm_statistic x)),
      (''period'', json_of_nat (cwasrdm_period x)),
      (''recentDatapoints'', json_of_list json_of_f64 (cwasrdm_recent_datapoints x)),
      (''recentLowerThresholds'', json_of_list json_of_f64 (cwasrdm_recent_lower_thresholds x)),
      (''recentUpperThresholds'', json_of_list json_of_f64 (cwasrdm_recent_upper_thresholds x)),
      (''threshold'', json_of_f64 (cwasrdm_threshold x)),
      (''evaluatedDatapoints'', json_of_list (cloud_watch_alarm_state_evaluated_datapoint_json E) (cwasrdm_evaluated_datapoints x))])"

definition cloud_watch_alarm_state_reason_data_metric_of_json :: "'t event_env \<Rightarrow> json \<Rightarrow> 't cloud_watch_alarm_state_reason_data_metric option" where
  "cloud_watch_alarm_state_reason_data_metric_of_json E j = do {
     kvs \<leftarrow> de_fields 10
       [''version'', ''queryDate'', ''startDate'', ''unit'', ''statistic'', ''period'',
        ''recentDatapoints'', ''recentLowerThresholds'', ''recentUpperThresholds'', ''threshold'',
        ''evaluatedDatapoints''] j;
     x_version \<leftarrow> de_required de_string [''version''] kvs;
     x_query_date \<leftarrow> de_optional (time_of_json E) [''queryDate''] kvs;
     x_start_date \<leftarrow> de_optional (time_of_json E) [''startDate''] kvs;
     x_unit \<leftarrow> de_opt_string ''unit'' kvs;
     x_statistic \<leftarrow> de_opt_string ''statistic'' kvs;
     x_period \<leftarrow> de_required (de_unsigned u16_max) [''period''] kvs;
     x_recent_datapoints \<leftarrow> de_default (de_list de_f64) [] [''recentDatapoints''] kvs;
     x_recent_lower_thresholds \<leftarrow> de_default (de_list de_f64) [] [''recentLowerThresholds''] kvs;
     x_recent_upper_thresholds \<leftarrow> de_default (de_list de_f64) [] [''recentUpperThresholds''] kvs;
     x_threshold \<leftarrow> de_required de_f64 [''threshold''] kvs;
     x_evaluated_datapoints \<leftarrow> de_default (de_list (cloud_watch_alarm_state_evaluated_datapoint_of_json E)) [] [''evaluatedDatapoints''] kvs;
     Some \<lparr>cwasrdm_version = x_version, cwasrdm_query_date = x_query_date,
       cwasrdm_start_date = x_start_date, cwasrdm_unit = x_unit,
       cwasrdm_statistic = x_statistic, cwasrdm_period = x_period,
       cwasrdm_recent_datapoints = x_recent_datapoints,
       cwasrdm_recent_lower_thresholds = x_recent_lower_thresholds,
       cwasrdm_recent_upper_thresholds = x_recent_upper_thresholds,
       cwasrdm_threshold = x_threshold, cwasrdm_evaluated_datapoints = x_evaluated_datapoints\<rparr> }"

definition cloud_watch_alarm_state_reason_data_metric_good :: "'t cloud_watch_alarm_state_reason_data_metric \<Rightarrow> bool" where
  "cloud_watch_alarm_state_reason_data_metric_good x \<longleftrightarrow>
     good_nat u16_max (cwasrdm_period x) \<and>
     list_all f64_finite (cwasrdm_recent_datapoints x) \<and>
     list_all f64_finite (cwasrdm_recent_lower_thresholds x) \<and>
     list_all f64_finite (cwasrdm_recent_upper_thresholds x) \<and>
     f64_finite (cwasrdm_threshold x) \<and>
     list_all cloud_watch_alarm_state_evaluated_datapoint_good (cwasrdm_evaluated_datapoints x)"

lemma cloud_watch_alarm_state_reason_data_metric_not_null [simp]: "cloud_watch_alarm_state_reason_data_metric_json E x \<noteq> JNull"
  by (simp add: cloud_watch_alarm_state_reason_data_metric_json_def)

lemma cloud_watch_alarm_state_reason_data_metric_read [read_back]: "cloud_watch_alarm_state_reason_data_metric_good x \<Longrightarrow> event_crates E \<Longrightarrow>cloud_watch_alarm_state_reason_data_metric_of_json E (cloud_watch_alarm_state_reason_data_metric_json E x) = Some x"
  by (cases x) (clarsimp simp: cloud_watch_alarm_state_reason_data_metric_of_json_def cloud_watch_alarm_state_reason_data_metric_json_def cloud_watch_alarm_state_reason_data_metric_good_def read_back)

lemma cloud_watch_alarm_state_reason_data_metric_typed: "typed cloud_watch_alarm_state_reason_data_metric_good (cloud_watch_alarm_state_reason_data_metric_of_json E)"
  unfolding typed_def cloud_watch_alarm_state_reason_data_metric_of_json_def cloud_watch_alarm_state_reason_data_metric_good_def
  by (auto simp: bind_eq_Some_conv dest!: typed_required [OF typed_nat]
      typed_default [OF typed_list [OF typed_f64] good_nil(3)]
      typed_required [OF typed_f64]
      typed_default [OF typed_list [OF cloud_watch_alarm_state_evaluated_datapoint_typed] good_nil(3)])

record 't cloud_watch_alarm_state_triggering_alarm =
  cwasta_arn :: string
  cwasta_state :: "'t cloud_watch_alarm_state_triggering_alarm_state"

definition cloud_watch_alarm_state_triggering_alarm_json :: "'t event_env \<Rightarrow> 't cloud_watch_alarm_state_triggering_alarm \<Rightarrow> json" where
  "cloud_watch_alarm_state_triggering_alarm_json E x = JObj
     ([(''arn'', JStr (cwasta_arn x)),
      (''state'', cloud_watch_alarm_state_triggering_alarm_state_json E (cwasta_state x))])"

definition cloud_watch_alarm_state_triggering_alarm_of_json :: "'t event_env \<Rightarrow> json \<Rightarrow> 't cloud_watch_alarm_state_triggering_alarm option" where
  "cloud_watch_alarm_state_triggering_alarm_of_json E j = do {
     kvs \<leftarrow> de_fields 2
       [''arn'', ''state''] j;
     x_arn \<leftarrow> de_required de_string [''arn''] kvs;
     x_state \<leftarrow> de_required (cloud_watch_alarm_state_triggering_alarm_state_of_json E) [''state''] kvs;
     Some \<lparr>cwasta_arn = x_arn, cwasta_state = x_state\<rparr> }"

lemma cloud_watch_alarm_state_triggering_alarm_not_null [simp]: "cloud_watch_alarm_state_triggering_alarm_json E x \<noteq> JNull"
  by (simp add: cloud_watch_alarm_state_triggering_alarm_json_def)

lemma cloud_watch_alarm_state_triggering_alarm_read [read_back]: "event_crates E \<Longrightarrow>cloud_watch_alarm_state_triggering_alarm_of_json E (cloud_watch_alarm_state_triggering_alarm_json E x) = Some x"
  by (cases x) (simp add: cloud_watch_alarm_state_triggering_alarm_of_json_def cloud_watch_alarm_state_triggering_alarm_json_def read_back)

record ('t, 'p, 'q) cloud_watch_alarm_data =
  cwad_alarm_name :: string
  cwad_state :: "(('t, 'q) cloud_watch_alarm_state) option"
  cwad_previous_state :: "(('t, 'q) cloud_watch_alarm_state) option"
  cwad_configuration :: 'p

definition cloud_watch_alarm_data_json :: "'t event_env \<Rightarrow> ('p \<Rightarrow> json) \<Rightarrow> ('q \<Rightarrow> json) \<Rightarrow> ('t, 'p, 'q) cloud_watch_alarm_data \<Rightarrow> json" where
  "cloud_watch_alarm_data_json E gp gq x = JObj
     ([(''alarmName'', JStr (cwad_alarm_name x)),
      (''state'', json_of_option (cloud_watch_alarm_state_json E gq) (cwad_state x)),
      (''previousState'', json_of_option (cloud_watch_alarm_state_json E gq) (cwad_previous_state x)),
      (''configuration'', gp (cwad_configuration x))])"

definition cloud_watch_alarm_data_of_json :: "'t event_env \<Rightarrow> (json \<Rightarrow> 'p option) \<Rightarrow> (json \<Rightarrow> 'q option) \<Rightarrow> json \<Rightarrow> ('t, 'p, 'q) cloud_watch_alarm_data option" where
  "cloud_watch_alarm_data_of_json E fp fq j = do {
     kvs \<leftarrow> de_fields 4
       [''alarmName'', ''state'', ''previousState'', ''configuration''] j;
     x_alarm_name \<leftarrow> de_required de_string [''alarmName''] kvs;
     x_state \<leftarrow> de_optional (cloud_watch_alarm_state_of_json E fq) [''state''] kvs;
     x_previous_state \<leftarrow> de_optional (cloud_watch_alarm_state_of_json E fq) [''previousState''] kvs;
     x_configuration \<leftarrow> de_required fp [''configuration''] kvs;
     Some \<lparr>cwad_alarm_name = x_alarm_name, cwad_state = x_state,
       cwad_previous_state = x_previous_state, cwad_configuration = x_configuration\<rparr> }"

definition cloud_watch_alarm_data_good :: "('p \<Rightarrow> bool) \<Rightarrow> ('q \<Rightarrow> bool) \<Rightarrow> ('t, 'p, 'q) cloud_watch_alarm_data \<Rightarrow> bool" where
  "cloud_watch_alarm_data_good Pp Pq x \<longleftrightarrow>
     good_option (cloud_watch_alarm_state_good Pq) (cwad_state x) \<and>
     good_option (cloud_watch_alarm_state_good Pq) (cwad_previous_state x) \<and>
     Pp (cwad_configuration x)"

lemma cloud_watch_alarm_data_not_null [simp]: "cloud_watch_alarm_data_json E gp gq x \<noteq> JNull"
  by (simp add: cloud_watch_alarm_data_json_def)

lemma cloud_watch_alarm_data_read [read_back]: "cloud_watch_alarm_data_good Pp Pq x \<Longrightarrow> event_crates E \<Longrightarrow> (\<And>x. Pp x \<Longrightarrow> fp (gp x) = Some x) \<Longrightarrow> (\<And>x. Pq x \<Longrightarrow> gq x \<noteq> JNull \<and> fq (gq x) = Some x) \<Longrightarrow>cloud_watch_alarm_data_of_json E fp fq (cloud_watch_alarm_data_json E gp gq x) = Some x"
  by (cases x) (clarsimp simp: cloud_watch_alarm_data_of_json_def cloud_watch_alarm_data_json_def cloud_watch_alarm_data_good_def read_back)

lemma cloud_watch_alarm_data_typed:
  assumes typed_p: "typed Pp fp" and typed_q: "typed_nn Pq fq" shows "typed (cloud_watch_alarm_data_good Pp Pq) (cloud_watch_alarm_data_of_json E fp fq)"
  unfolding typed_def cloud_watch_alarm_data_of_json_def cloud_watch_alarm_data_good_def
  by (auto simp: bind_eq_Some_conv dest!: typed_optional [OF cloud_watch_alarm_state_typed [OF typed_q]]
      typed_required [OF typed_p])

record cloud_watch_metric_definition =
  cwmd_id :: string
  cwmd_return_data :: bool
  cwmd_metric_stat :: cloud_watch_metric_stat_definition

definition cloud_watch_metric_definition_json :: "cloud_watch_metric_definition \<Rightarrow> json" where
  "cloud_watch_metric_definition_json x = JObj
     ([(''id'', JStr (cwmd_id x)),
      (''returnData'', JBool (cwmd_return_data x)),
      (''metricStat'', cloud_watch_metric_stat_definition_json (cwmd_metric_stat x))])"

definition cloud_watch_metric_definition_of_json :: "json \<Rightarrow> cloud_watch_metric_definition option" where
  "cloud_watch_metric_definition_of_json j = do {
     kvs \<leftarrow> de_fields 3
       [''id'', ''returnData'', ''metricStat''] j;
     x_id \<leftarrow> de_required de_string [''id''] kvs;
     x_return_data \<leftarrow> de_default de_bool False [''returnData''] kvs;
     x_metric_stat \<leftarrow> de_required cloud_watch_metric_stat_definition_of_json [''metricStat''] kvs;
     Some \<lparr>cwmd_id = x_id, cwmd_return_data = x_return_data, cwmd_metric_stat = x_metric_stat\<rparr> }"

definition cloud_watch_metric_definition_good :: "cloud_watch_metric_definition \<Rightarrow> bool" where
  "cloud_watch_metric_definition_good x \<longleftrightarrow>
     cloud_watch_metric_stat_definition_good (cwmd_metric_stat x)"

lemma cloud_watch_metric_definition_not_null [simp]: "cloud_watch_metric_definition_json x \<noteq> JNull"
  by (simp add: cloud_watch_metric_definition_json_def)

lemma cloud_watch_metric_definition_read [read_back]: "cloud_watch_metric_definition_good x \<Longrightarrow>cloud_watch_metric_definition_of_json (cloud_watch_metric_definition_json x) = Some x"
  by (cases x) (simp add: cloud_watch_metric_definition_of_json_def cloud_watch_metric_definition_json_def cloud_watch_metric_definition_good_def read_back)

lemma cloud_watch_metric_definition_typed: "typed cloud_watch_metric_definition_good cloud_watch_metric_definition_of_json"
  unfolding typed_def cloud_watch_metric_definition_of_json_def cloud_watch_metric_definition_good_def
  by (auto simp: bind_eq_Some_conv dest!: typed_required [OF cloud_watch_metric_stat_definition_typed])

record 't clod_watch_alarm_state_reason_data_composite =
  cwasrdc_triggering_alarms :: "('t cloud_watch_alarm_state_triggering_alarm) list"

definition clod_watch_alarm_state_reason_data_composite_json :: "'t event_env \<Rightarrow> 't clod_watch_alarm_state_reason_data_composite \<Rightarrow> json" where
  "clod_watch_alarm_state_reason_data_composite_json E x = JObj
     ([(''triggeringAlarms'', json_of_list (cloud_watch_alarm_state_triggering_alarm_json E) (cwasrdc_triggering_alarms x))])"

definition clod_watch_alarm_state_reason_data_composite_of_json :: "'t event_env \<Rightarrow> json \<Rightarrow> 't clod_watch_alarm_state_reason_data_composite option" where
  "clod_watch_alarm_state_reason_data_composite_of_json E j = do {
     kvs \<leftarrow> de_fields 0
       [''triggeringAlarms''] j;
     x_triggering_alarms \<leftarrow> de_default (de_list (cloud_watch_alarm_state_triggering_alarm_of_json E)) [] [''triggeringAlarms''] kvs;
     Some \<lparr>cwasrdc_triggering_alarms = x_triggering_alarms\<rparr> }"

lemma clod_watch_alarm_state_reason_data_composite_not_null [simp]: "clod_watch_alarm_state_reason_data_composite_json E x \<noteq> JNull"
  by (simp add: clod_watch_alarm_state_reason_data_composite_json_def)

lemma clod_watch_alarm_state_reason_data_composite_read [read_back]: "event_crates E \<Longrightarrow>clod_watch_alarm_state_reason_data_composite_of_json E (clod_watch_alarm_state_reason_data_composite_json E x) = Some x"
  by (cases x) (simp add: clod_watch_alarm_state_reason_data_composite_of_json_def clod_watch_alarm_state_reason_data_composite_json_def read_back)

definition cloud_watch_alarm_data_default :: "'p \<Rightarrow> ('t, 'p, 'q) cloud_watch_alarm_data" where
  "cloud_watch_alarm_data_default dp = \<lparr>cwad_alarm_name = [], cwad_state = None, cwad_previous_state = None,
     cwad_configuration = dp\<rparr>"

lemma cloud_watch_alarm_data_default_good [simp]: "Pp dp \<Longrightarrow> cloud_watch_alarm_data_good Pp Pq (cloud_watch_alarm_data_default dp)"
  by (simp add: cloud_watch_alarm_data_default_def cloud_watch_alarm_data_good_def)

record ('t, 'p, 'q) cloud_watch_alarm =
  cwa_account_id :: "string option"
  cwa_alarm_arn :: "string option"
  cwa_source :: "string option"
  cwa_region :: "string option"
  cwa_time :: 't
  cwa_alarm_data :: "('t, 'p, 'q) cloud_watch_alarm_data"

definition cloud_watch_alarm_json :: "'t event_env \<Rightarrow> ('p \<Rightarrow> json) \<Rightarrow> ('q \<Rightarrow> json) \<Rightarrow> ('t, 'p, 'q) cloud_watch_alarm \<Rightarrow> json" where
  "cloud_watch_alarm_json E gp gq x = JObj
     ([(''accountId'', json_of_option JStr (cwa_account_id x)),
      (''alarmArn'', json_of_option JStr (cwa_alarm_arn x)),
      (''source'', json_of_option JStr (cwa_source x)),
      (''region'', json_of_option JStr (cwa_region x)),
      (''time'', json_of_time E (cwa_time x)),
      (''alarmData'', cloud_watch_alarm_data_json E gp gq (cwa_alarm_data x))])"

definition cloud_watch_alarm_of_json :: "'t event_env \<Rightarrow> (json \<Rightarrow> 'p option) \<Rightarrow> 'p \<Rightarrow> (json \<Rightarrow> 'q option) \<Rightarrow> json \<Rightarrow> ('t, 'p, 'q) cloud_watch_alarm option" where
  "cloud_watch_alarm_of_json E fp dp fq j = do {
     kvs \<leftarrow> de_fields 5
       [''accountId'', ''alarmArn'', ''source'', ''region'', ''time'', ''alarmData''] j;
     x_account_id \<leftarrow> de_opt_string ''accountId'' kvs;
     x_alarm_arn \<leftarrow> de_opt_string ''alarmArn'' kvs;
     x_source \<leftarrow> de_opt_string ''source'' kvs;
     x_region \<leftarrow> de_opt_string ''region'' kvs;
     x_time \<leftarrow> de_required (time_of_json E) [''time''] kvs;
     x_alarm_data \<leftarrow> de_default (cloud_watch_alarm_data_of_json E fp fq) (cloud_watch_alarm_data_default dp) [''alarmData''] kvs;
     Some \<lparr>cwa_account_id = x_account_id, cwa_alarm_arn = x_alarm_arn, cwa_source = x_source,
       cwa_region = x_region, cwa_time = x_time, cwa_alarm_data = x_alarm_data\<rparr> }"

definition cloud_watch_alarm_good :: "('p \<Rightarrow> bool) \<Rightarrow> ('q \<Rightarrow> bool) \<Rightarrow> ('t, 'p, 'q) cloud_watch_alarm \<Rightarrow> bool" where
  "cloud_watch_alarm_good Pp Pq x \<longleftrightarrow>
     cloud_watch_alarm_data_good Pp Pq (cwa_alarm_data x)"

lemma cloud_watch_alarm_not_null [simp]: "cloud_watch_alarm_json E gp gq x \<noteq> JNull"
  by (simp add: cloud_watch_alarm_json_def)

lemma cloud_watch_alarm_read [read_back]: "cloud_watch_alarm_good Pp Pq x \<Longrightarrow> event_crates E \<Longrightarrow> (\<And>x. Pp x \<Longrightarrow> fp (gp x) = Some x) \<Longrightarrow> (\<And>x. Pq x \<Longrightarrow> gq x \<noteq> JNull \<and> fq (gq x) = Some x) \<Longrightarrow>cloud_watch_alarm_of_json E fp dp fq (cloud_watch_alarm_json E gp gq x) = Some x"
  by (cases x) (simp add: cloud_watch_alarm_of_json_def cloud_watch_alarm_json_def cloud_watch_alarm_good_def read_back)

lemma cloud_watch_alarm_typed:
  assumes typed_p: "typed Pp fp" and default_p: "Pp dp" and typed_q: "typed_nn Pq fq" shows "typed (cloud_watch_alarm_good Pp Pq) (cloud_watch_alarm_of_json E fp dp fq)"
  unfolding typed_def cloud_watch_alarm_of_json_def cloud_watch_alarm_good_def
  by (auto simp: bind_eq_Some_conv dest!: typed_default [OF cloud_watch_alarm_data_typed [OF typed_p typed_q] cloud_watch_alarm_data_default_good [where Pp = "Pp" and dp = "dp", OF default_p]])

record cloud_watch_metric_alarm_configuration =
  cwmac_description :: "string option"
  cwmac_metrics :: "cloud_watch_metric_definition list"

definition cloud_watch_metric_alarm_configuration_json :: "cloud_watch_metric_alarm_configuration \<Rightarrow> json" where
  "cloud_watch_metric_alarm_configuration_json x = JObj
     ([(''description'', json_of_option JStr (cwmac_description x)),
      (''metrics'', json_of_list cloud_watch_metric_definition_json (cwmac_metrics x))])"

definition cloud_watch_metric_alarm_configuration_of_json :: "json \<Rightarrow> cloud_watch_metric_alarm_configuration option" where
  "cloud_watch_metric_alarm_configuration_of_json j = do {
     kvs \<leftarrow> de_fields 0
       [''description'', ''metrics''] j;
     x_description \<leftarrow> de_opt_string ''description'' kvs;
     x_metrics \<leftarrow> de_default (de_list cloud_watch_metric_definition_of_json) [] [''metrics''] kvs;
     Some \<lparr>cwmac_description = x_description, cwmac_metrics = x_metrics\<rparr> }"

definition cloud_watch_metric_alarm_configuration_good :: "cloud_watch_metric_alarm_configuration \<Rightarrow> bool" where
  "cloud_watch_metric_alarm_configuration_good x \<longleftrightarrow>
     list_all cloud_watch_metric_definition_good (cwmac_metrics x)"

lemma cloud_watch_metric_alarm_configuration_not_null [simp]: "cloud_watch_metric_alarm_configuration_json x \<noteq> JNull"
  by (simp add: cloud_watch_metric_alarm_configuration_json_def)

lemma cloud_watch_metric_alarm_configuration_read [read_back]: "cloud_watch_metric_alarm_configuration_good x \<Longrightarrow>cloud_watch_metric_alarm_configuration_of_json (cloud_watch_metric_alarm_configuration_json x) = Some x"
  by (cases x) (simp add: cloud_watch_metric_alarm_configuration_of_json_def cloud_watch_metric_alarm_configuration_json_def cloud_watch_metric_alarm_configuration_good_def read_back)

lemma cloud_watch_metric_alarm_configuration_typed: "typed cloud_watch_metric_alarm_configuration_good cloud_watch_metric_alarm_configuration_of_json"
  unfolding typed_def cloud_watch_metric_alarm_configuration_of_json_def cloud_watch_metric_alarm_configuration_good_def
  by (auto simp: bind_eq_Some_conv dest!: typed_default [OF typed_list [OF cloud_watch_metric_definition_typed] good_nil(3)])

subsection \<open>\<^verbatim>\<open>eventbridge\<close>\<close>

record ('t, 'p) event_bridge_event =
  ebe_version :: "string option"
  ebe_id :: "string option"
  ebe_detail_type :: string
  ebe_source :: string
  ebe_account :: "string option"
  ebe_time :: "'t option"
  ebe_region :: "string option"
  ebe_resources :: "(string list) option"
  ebe_detail :: 'p

definition event_bridge_event_json :: "'t event_env \<Rightarrow> ('p \<Rightarrow> json) \<Rightarrow> ('t, 'p) event_bridge_event \<Rightarrow> json" where
  "event_bridge_event_json E gp x = JObj
     ([(''version'', json_of_option JStr (ebe_version x)),
      (''id'', json_of_option JStr (ebe_id x)),
      (''detail-type'', JStr (ebe_detail_type x)),
      (''source'', JStr (ebe_source x)),
      (''account'', json_of_option JStr (ebe_account x)),
      (''time'', json_of_option (json_of_time E) (ebe_time x)),
      (''region'', json_of_option JStr (ebe_region x)),
      (''resources'', json_of_option (json_of_list JStr) (ebe_resources x)),
      (''detail'', gp (ebe_detail x))])"

definition event_bridge_event_of_json :: "'t event_env \<Rightarrow> (json \<Rightarrow> 'p option) \<Rightarrow> json \<Rightarrow> ('t, 'p) event_bridge_event option" where
  "event_bridge_event_of_json E fp j = do {
     kvs \<leftarrow> de_fields 9
       [''version'', ''id'', ''detail-type'', ''source'', ''account'', ''time'', ''region'',
        ''resources'', ''detail''] j;
     x_version \<leftarrow> de_opt_string ''version'' kvs;
     x_id \<leftarrow> de_opt_string ''id'' kvs;
     x_detail_type \<leftarrow> de_required de_string [''detail-type''] kvs;
     x_source \<leftarrow> de_required de_string [''source''] kvs;
     x_account \<leftarrow> de_opt_string ''account'' kvs;
     x_time \<leftarrow> de_optional (time_of_json E) [''time''] kvs;
     x_region \<leftarrow> de_opt_string ''region'' kvs;
     x_resources \<leftarrow> de_optional (de_list de_string) [''resources''] kvs;
     x_detail \<leftarrow> de_required fp [''detail''] kvs;
     Some \<lparr>ebe_version = x_version, ebe_id = x_id, ebe_detail_type = x_detail_type,
       ebe_source = x_source, ebe_account = x_account, ebe_time = x_time, ebe_region = x_region,
       ebe_resources = x_resources, ebe_detail = x_detail\<rparr> }"

definition event_bridge_event_good :: "('p \<Rightarrow> bool) \<Rightarrow> ('t, 'p) event_bridge_event \<Rightarrow> bool" where
  "event_bridge_event_good Pp x \<longleftrightarrow>
     Pp (ebe_detail x)"

lemma event_bridge_event_not_null [simp]: "event_bridge_event_json E gp x \<noteq> JNull"
  by (simp add: event_bridge_event_json_def)

lemma event_bridge_event_read [read_back]: "event_bridge_event_good Pp x \<Longrightarrow> event_crates E \<Longrightarrow> (\<And>x. Pp x \<Longrightarrow> fp (gp x) = Some x) \<Longrightarrow>event_bridge_event_of_json E fp (event_bridge_event_json E gp x) = Some x"
  by (cases x) (simp add: event_bridge_event_of_json_def event_bridge_event_json_def event_bridge_event_good_def read_back)

lemma event_bridge_event_typed:
  assumes typed_p: "typed Pp fp" shows "typed (event_bridge_event_good Pp) (event_bridge_event_of_json E fp)"
  unfolding typed_def event_bridge_event_of_json_def event_bridge_event_good_def
  by (auto simp: bind_eq_Some_conv dest!: typed_required [OF typed_p])

subsection \<open>Reading what was written\<close>

text \<open>
  The events and details of CloudWatch and EventBridge: what is read is well formed (integers in
  range, no repeated key in a map), and what it is written to is read as the same event.
\<close>

lemma cloudwatch_events_reparse:
  assumes "event_crates E"
    and typed: "typed P f"
    and inverse: "\<And>x. P x \<Longrightarrow> f (g x) = Some x"
    and default: "P d"
    and "\<And>x. P x \<Longrightarrow> g x \<noteq> JNull"
  shows "reparses (cloud_watch_event_good P) (cloud_watch_event_of_json E f) (cloud_watch_event_json E g) \<and>
    reparses (awsapi_call_good P P) (awsapi_call_of_json E f f) (awsapi_call_json E g g) \<and>
    reparses (\<lambda>_. True) state_change_notification_of_json state_change_notification_json \<and>
    reparses (\<lambda>_. True) deployment_state_change_notification_of_json deployment_state_change_notification_json \<and>
    reparses (\<lambda>_. True) instance_state_change_notification_of_json instance_state_change_notification_json \<and>
    reparses (\<lambda>_. True) pipeline_execution_state_change_of_json pipeline_execution_state_change_json \<and>
    reparses (\<lambda>_. True) stage_execution_state_change_of_json stage_execution_state_change_json \<and>
    reparses action_execution_state_change_good action_execution_state_change_of_json action_execution_state_change_json \<and>
    reparses (\<lambda>_. True) instance_state_change_of_json instance_state_change_json \<and>
    reparses (\<lambda>_. True) auto_scaling_policy_state_change_of_json auto_scaling_policy_state_change_json \<and>
    reparses (\<lambda>_. True) cluster_state_change_of_json cluster_state_change_json \<and>
    reparses (\<lambda>_. True) instance_group_state_change_of_json instance_group_state_change_json \<and>
    reparses (\<lambda>_. True) step_status_change_of_json step_status_change_json \<and>
    reparses potential_match_created_good potential_match_created_of_json potential_match_created_json \<and>
    reparses (\<lambda>_. True) accept_match_of_json accept_match_json \<and>
    reparses (\<lambda>_. True) accept_match_completed_of_json accept_match_completed_json \<and>
    reparses (\<lambda>_. True) matchmaking_succeeded_of_json matchmaking_succeeded_json \<and>
    reparses matchmaking_timed_out_good matchmaking_timed_out_of_json matchmaking_timed_out_json \<and>
    reparses matchmaking_cancelled_good matchmaking_cancelled_of_json matchmaking_cancelled_json \<and>
    reparses (\<lambda>_. True) matchmaking_failed_of_json matchmaking_failed_json \<and>
    reparses (\<lambda>_. True) matchmaking_searching_of_json matchmaking_searching_json \<and>
    reparses (\<lambda>_. True) job_run_state_change_of_json job_run_state_change_json \<and>
    reparses (\<lambda>_. True) crawler_started_of_json crawler_started_json \<and>
    reparses (\<lambda>_. True) crawler_succeeded_of_json crawler_succeeded_json \<and>
    reparses (\<lambda>_. True) crawler_failed_of_json crawler_failed_json \<and>
    reparses (\<lambda>_. True) data_catalog_table_state_change_of_json data_catalog_table_state_change_json \<and>
    reparses (\<lambda>_. True) data_catalog_database_state_change_of_json data_catalog_database_state_change_json \<and>
    reparses job_run_status_good job_run_status_of_json job_run_status_json \<and>
    reparses health_event_good health_event_of_json health_event_json \<and>
    reparses (\<lambda>_. True) cmk_event_of_json cmk_event_json \<and>
    reparses bucket_contains_high_risk_object_summary_good bucket_contains_high_risk_object_summary_of_json bucket_contains_high_risk_object_summary_json \<and>
    reparses (alert_good P) (alert_of_json f) (alert_json g) \<and>
    reparses bucket_scan_summary_good bucket_scan_summary_of_json bucket_scan_summary_json \<and>
    reparses alert_updated_good alert_updated_of_json alert_updated_json \<and>
    reparses bucket_writable_summary_good bucket_writable_summary_of_json bucket_writable_summary_json \<and>
    reparses (\<lambda>_. True) opsworks_instance_state_change_of_json opsworks_instance_state_change_json \<and>
    reparses (\<lambda>_. True) command_state_change_of_json command_state_change_json \<and>
    reparses deployment_state_change_good deployment_state_change_of_json deployment_state_change_json \<and>
    reparses (\<lambda>_. True) opsworks_alert_of_json opsworks_alert_json \<and>
    reparses (\<lambda>_. True) sign_in_of_json sign_in_json \<and>
    reparses (\<lambda>_. True) job_state_change_of_json job_state_change_json \<and>
    reparses ec2_automation_step_status_change_good ec2_automation_step_status_change_of_json ec2_automation_step_status_change_json \<and>
    reparses ec2_automation_execution_status_change_good ec2_automation_execution_status_change_of_json ec2_automation_execution_status_change_json \<and>
    reparses (\<lambda>_. True) state_change_of_json state_change_json \<and>
    reparses (\<lambda>_. True) configuration_compliance_state_change_of_json configuration_compliance_state_change_json \<and>
    reparses (\<lambda>_. True) maintenance_window_target_registration_of_json maintenance_window_target_registration_json \<and>
    reparses (\<lambda>_. True) maintenance_window_execution_state_change_of_json maintenance_window_execution_state_change_json \<and>
    reparses (\<lambda>_. True) maintenance_window_task_execution_state_change_of_json maintenance_window_task_execution_state_change_json \<and>
    reparses (\<lambda>_. True) maintenance_window_task_target_invocation_state_change_of_json maintenance_window_task_target_invocation_state_change_json \<and>
    reparses (\<lambda>_. True) maintenance_window_state_change_of_json maintenance_window_state_change_json \<and>
    reparses (\<lambda>_. True) parameter_store_state_change_of_json parameter_store_state_change_json \<and>
    reparses ec2_command_status_change_good ec2_command_status_change_of_json ec2_command_status_change_json \<and>
    reparses (\<lambda>_. True) ec2_command_invocation_status_change_of_json ec2_command_invocation_status_change_json \<and>
    reparses (\<lambda>_. True) ec2_state_manager_association_state_change_of_json ec2_state_manager_association_state_change_json \<and>
    reparses (\<lambda>_. True) ec2_state_manager_instance_association_state_change_of_json ec2_state_manager_instance_association_state_change_json \<and>
    reparses tag_change_on_resource_good tag_change_on_resource_of_json tag_change_on_resource_json \<and>
    reparses check_item_refresh_notification_good check_item_refresh_notification_of_json check_item_refresh_notification_json \<and>
    reparses log_data_good log_data_of_json log_data_json \<and>
    reparses cloud_watch_composite_alarm_configuration_good cloud_watch_composite_alarm_configuration_of_json cloud_watch_composite_alarm_configuration_json \<and>
    reparses cloud_watch_alarm_state_reason_data_metric_good (cloud_watch_alarm_state_reason_data_metric_of_json E) (cloud_watch_alarm_state_reason_data_metric_json E) \<and>
    reparses (\<lambda>_. True) (clod_watch_alarm_state_reason_data_composite_of_json E) (clod_watch_alarm_state_reason_data_composite_json E) \<and>
    reparses (cloud_watch_alarm_good P P) (cloud_watch_alarm_of_json E f d f) (cloud_watch_alarm_json E g g) \<and>
    reparses cloud_watch_metric_alarm_configuration_good cloud_watch_metric_alarm_configuration_of_json cloud_watch_metric_alarm_configuration_json \<and>
    reparses (event_bridge_event_good P) (event_bridge_event_of_json E f) (event_bridge_event_json E g)"
  by (intro conjI reparsesI typed_True typed_nn cloud_watch_event_typed
      awsapi_call_typed
      action_execution_state_change_typed
      potential_match_created_typed
      matchmaking_timed_out_typed
      matchmaking_cancelled_typed
      job_run_status_typed
      health_event_typed
      bucket_contains_high_risk_object_summary_typed
      alert_typed
      bucket_scan_summary_typed
      alert_updated_typed
      bucket_writable_summary_typed
      deployment_state_change_typed
      ec2_automation_step_status_change_typed
      ec2_automation_execution_status_change_typed
      ec2_command_status_change_typed
      tag_change_on_resource_typed
      check_item_refresh_notification_typed
      log_data_typed
      cloud_watch_composite_alarm_configuration_typed
      cloud_watch_alarm_state_reason_data_metric_typed
      cloud_watch_alarm_typed
      cloud_watch_metric_alarm_configuration_typed
      event_bridge_event_typed)
    (auto simp: assms read_back)

end
