(* ===== verification/CloudWatchPayloads.thy ===== *)
theory CloudWatchPayloads
  imports CloudWatchEvents
begin

text \<open>
  The two payloads of CloudWatch that are texts inside a JSON value, with their hand-written
  readers and writers: the compressed log data of a logs event
  (\<^verbatim>\<open>lambda-events/src/event/cloudwatch_logs\<close>) and the reason of an alarm's state
  (\<^verbatim>\<open>cloudwatch_alarms\<close>).
\<close>

subsection \<open>Log data\<close>

text \<open>
  The crates under \<^verbatim>\<open>AwsLogs\<close>: the engines of \<^verbatim>\<open>base64\<close> that it uses,
  \<^verbatim>\<open>STANDARD\<close> to read and \<^verbatim>\<open>STANDARD_NO_PAD\<close> to write; the bytes of a JSON
  text under \<^verbatim>\<open>GzEncoder\<close>; and the value at the start of the text that
  \<^verbatim>\<open>GzDecoder\<close> yields (what follows it is not read).
\<close>

record log_crates =
  lc_decode :: "string \<Rightarrow> string option"
  lc_encode_no_pad :: "string \<Rightarrow> string"
  lc_gzip :: "json \<Rightarrow> string"
  lc_gunzip :: "string \<Rightarrow> json option"

text \<open>
  The documented law of the two engines: the padded one demands canonical padding, which only a
  text of whole groups of three bytes does without.
\<close>

locale base64_engines =
  fixes C :: log_crates
  assumes decode_no_pad:
    "lc_decode C (lc_encode_no_pad C s) = (if length s mod 3 = 0 then Some s else None)"

record aws_logs =
  al_data :: log_data

definition log_data_of_text :: "log_crates \<Rightarrow> json \<Rightarrow> log_data option" where
  "log_data_of_text C j = do {
     s \<leftarrow> de_string j;
     bytes \<leftarrow> lc_decode C s;
     v \<leftarrow> lc_gunzip C bytes;
     log_data_of_json v }"

text \<open>The visitor's loop over the keys: one key is known, and of a repeated one the last value stays.\<close>

fun aws_logs_visit :: "log_crates \<Rightarrow> log_data option \<Rightarrow> (string \<times> json) list \<Rightarrow> log_data option option" where
  "aws_logs_visit C data [] = Some data"
| "aws_logs_visit C data ((key, v) # kvs) =
     (if key = ''data'' then
        (case log_data_of_text C v of None \<Rightarrow> None | Some d \<Rightarrow> aws_logs_visit C (Some d) kvs)
      else None)"

definition aws_logs_of_json :: "log_crates \<Rightarrow> json \<Rightarrow> aws_logs option" where
  "aws_logs_of_json C j =
     (case j of
        JObj kvs \<Rightarrow>
          (case aws_logs_visit C None kvs of Some (Some d) \<Rightarrow> Some \<lparr>al_data = d\<rparr> | _ \<Rightarrow> None)
      | _ \<Rightarrow> None)"

definition aws_logs_json :: "log_crates \<Rightarrow> aws_logs \<Rightarrow> json" where
  "aws_logs_json C x = JObj [(''data'', JStr (lc_encode_no_pad C (lc_gzip C (log_data_json (al_data x)))))]"

record logs_event =
  lev_aws_logs :: aws_logs

definition logs_event_json :: "log_crates \<Rightarrow> logs_event \<Rightarrow> json" where
  "logs_event_json C x = JObj [(''awslogs'', aws_logs_json C (lev_aws_logs x))]"

definition logs_event_of_json :: "log_crates \<Rightarrow> json \<Rightarrow> logs_event option" where
  "logs_event_of_json C j = do {
     kvs \<leftarrow> de_fields 1 [''awslogs''] j;
     x_aws_logs \<leftarrow> de_required (aws_logs_of_json C) [''awslogs''] kvs;
     Some \<lparr>lev_aws_logs = x_aws_logs\<rparr> }"

lemma log_data_of_text_typed: "log_data_of_text C v = Some d \<Longrightarrow> log_data_good d"
  by (auto simp: log_data_of_text_def bind_eq_Some_conv intro: typedD [OF log_data_typed])

lemma aws_logs_visit_typed:
  "aws_logs_visit C data kvs = Some (Some d) \<Longrightarrow> (\<And>e. data = Some e \<Longrightarrow> log_data_good e) \<Longrightarrow> log_data_good d"
  by (induction C data kvs rule: aws_logs_visit.induct)
    (auto split: if_splits option.splits intro: log_data_of_text_typed)

lemma aws_logs_typed: "typed (\<lambda>x. log_data_good (al_data x)) (aws_logs_of_json C)"
proof (rule typedI)
  fix j x assume "aws_logs_of_json C j = Some x"
  then show "log_data_good (al_data x)"
    by (cases j) (auto simp: aws_logs_of_json_def split: option.splits dest: aws_logs_visit_typed)
qed

lemma logs_event_typed: "logs_event_of_json C j = Some x \<Longrightarrow> log_data_good (al_data (lev_aws_logs x))"
  by (auto simp: logs_event_of_json_def bind_eq_Some_conv dest: typed_required [OF aws_logs_typed])

lemma aws_logs_visit_unknown:
  "k \<in> fst ` set kvs \<Longrightarrow> k \<noteq> ''data'' \<Longrightarrow> aws_logs_visit C data kvs = None"
  by (induction kvs arbitrary: data) (force split: option.splits)+

lemma aws_logs_unknown_key: "k \<in> fst ` set kvs \<Longrightarrow> k \<noteq> ''data'' \<Longrightarrow> aws_logs_of_json C (JObj kvs) = None"
  by (simp add: aws_logs_of_json_def aws_logs_visit_unknown)

text \<open>
  C29: A logs event that was read and is written again is read a second time only when its compressed
  data has a length divisible by three: the data is written without base64 padding and read by
  an engine that demands it. Then the event is the same, and otherwise reading fails.
\<close>

theorem logs_event_rereads_by_length:
  assumes "base64_engines C"
    and "logs_event_of_json C j = Some x"
    and "lc_gunzip C (lc_gzip C (log_data_json (al_data (lev_aws_logs x)))) = Some (log_data_json (al_data (lev_aws_logs x)))"
  shows "logs_event_of_json C (logs_event_json C x) =
    (if length (lc_gzip C (log_data_json (al_data (lev_aws_logs x)))) mod 3 = 0 then Some x else None)"
  using assms(3) logs_event_typed [OF assms(2)]
  by (cases x, cases "lev_aws_logs x")
    (auto simp: logs_event_of_json_def logs_event_json_def aws_logs_json_def aws_logs_of_json_def log_data_of_text_def
      base64_engines.decode_no_pad [OF assms(1)] read_back)

subsubsection \<open>A reference for the crates\<close>

text \<open>
  The two engines as RFC 4648 has them. Compression stands for itself: the bytes are a header and the
  text of the one value that the example holds.
\<close>

definition base64_alphabet :: string where
  "base64_alphabet = ''ABCDEFGHIJKLMNOPQRSTUVWXYZabcdefghijklmnopqrstuvwxyz0123456789+/''"

definition base64_char :: "nat \<Rightarrow> char" where
  "base64_char n = base64_alphabet ! (n mod 64)"

definition base64_value :: "char \<Rightarrow> nat option" where
  "base64_value c = map_of (zip base64_alphabet [0..<64]) c"

fun base64_nopad :: "string \<Rightarrow> string" where
  "base64_nopad (a # b # c # s) =
     (let n = (of_char a * 256 + of_char b) * 256 + of_char c
      in [base64_char (n div 262144), base64_char (n div 4096), base64_char (n div 64), base64_char n] @ base64_nopad s)"
| "base64_nopad [a, b] =
     (let n = (of_char a * 256 + of_char b) * 4
      in [base64_char (n div 4096), base64_char (n div 64), base64_char n])"
| "base64_nopad [a] = (let n = of_char a * 16 in [base64_char (n div 64), base64_char n])"
| "base64_nopad [] = []"

definition base64_bytes :: "nat \<Rightarrow> string" where
  "base64_bytes n = [char_of (n div 65536), char_of (n div 256), char_of n]"

fun base64_group :: "char \<Rightarrow> char \<Rightarrow> char \<Rightarrow> char \<Rightarrow> string option" where
  "base64_group p q r t =
     (if r = CHR ''='' \<and> t = CHR ''='' then
        (case (base64_value p, base64_value q) of
           (Some i, Some j) \<Rightarrow> if j mod 16 = 0 then Some (take 1 (base64_bytes (i * 262144 + j * 4096))) else None
         | _ \<Rightarrow> None)
      else if t = CHR ''='' then
        (case (base64_value p, base64_value q, base64_value r) of
           (Some i, Some j, Some k) \<Rightarrow>
             if k mod 4 = 0 then Some (take 2 (base64_bytes (i * 262144 + j * 4096 + k * 64))) else None
         | _ \<Rightarrow> None)
      else None)"

fun base64_decode :: "string \<Rightarrow> string option" where
  "base64_decode [] = Some []"
| "base64_decode (p # q # r # t # s) =
     (case (base64_value p, base64_value q, base64_value r, base64_value t) of
        (Some i, Some j, Some k, Some l) \<Rightarrow>
          map_option (\<lambda>u. base64_bytes (i * 262144 + j * 4096 + k * 64 + l) @ u) (base64_decode s)
      | _ \<Rightarrow> if s = [] then base64_group p q r t else None)"
| "base64_decode s = None"

lemma base64_table: "list_all (\<lambda>n. map_of (zip base64_alphabet [0..<64]) (base64_alphabet ! n) = Some n) [0..<64]"
  by code_simp

lemma base64_value_char [simp]: "base64_value (base64_char n) = Some (n mod 64)"
proof -
  have "n mod 64 \<in> set [0..<64]" by simp
  then show ?thesis
    using base64_table unfolding list_all_iff base64_value_def base64_char_def by blast
qed

lemma base64_digits:
  fixes n :: nat
  assumes "n < 16777216"
  shows "n div 262144 mod 64 * 262144 + n div 4096 mod 64 * 4096 + n div 64 mod 64 * 64 + n mod 64 = n"
proof -
  have "n div 262144 mod 64 = n div 262144"
    using assms by (intro mod_less) (simp add: less_mult_imp_div_less)
  moreover have "n div 262144 * 262144 + n mod 262144 = n"
    by (rule div_mult_mod_eq)
  moreover have "n mod (64 * (64 * 64)) = 64 * (64 * (n div 64 div 64 mod 64) + n div 64 mod 64) + n mod 64"
    by (simp only: mod_mult2_eq)
  then have "n mod 262144 = n div 4096 mod 64 * 4096 + n div 64 mod 64 * 64 + n mod 64"
    by (simp add: div_mult2_eq [symmetric])
  ultimately show ?thesis
    by linarith
qed

lemma of_char_bound [simp]: "(of_char c :: nat) < 256"
  by (cases c) (simp add: of_char_def)

lemma three_bytes: "x < 256 \<Longrightarrow> y < 256 \<Longrightarrow> z < 256 \<Longrightarrow> (x * 256 + y) * 256 + z < (16777216 :: nat)"
  by simp

lemma base64_bytes_of:
  "base64_bytes ((of_char a * 256 + of_char b) * 256 + of_char c) = [a, b, c]"
proof -
  define x y z where "x = (of_char a :: nat)" and "y = (of_char b :: nat)" and "z = (of_char c :: nat)"
  have "x < 256" "y < 256" "z < 256"
    by (simp_all add: x_def y_def z_def)
  then have "((x * 256 + y) * 256 + z) div 65536 = x" "((x * 256 + y) * 256 + z) div 256 = x * 256 + y"
      "x mod 256 = x"
    by simp_all
  moreover have "((x * 256 + y) * 256 + z) mod 256 = z" "(x * 256 + y) mod 256 = y"
    using \<open>y < 256\<close> \<open>z < 256\<close> by (simp_all only: mod_mult_self3 mod_less)
  ultimately show ?thesis
    unfolding base64_bytes_def x_def [symmetric] y_def [symmetric] z_def [symmetric]
    by (simp only: list.simps char_of_eq_iff take_bit_eq_mod) (simp add: x_def y_def z_def)
qed

lemma base64_decode_nopad: "base64_decode (base64_nopad s) = (if length s mod 3 = 0 then Some s else None)"
proof (induction s rule: base64_nopad.induct)
  case (1 a b c s)
  define n :: nat where "n = (of_char a * 256 + of_char b) * 256 + of_char c"
  have "n < 16777216"
    unfolding n_def by (rule three_bytes) simp_all
  then have step: "base64_decode (base64_nopad (a # b # c # s)) =
      map_option (\<lambda>u. base64_bytes n @ u) (base64_decode (base64_nopad s))"
    by (simp only: base64_nopad.simps Let_def n_def [symmetric] append.simps base64_decode.simps
        base64_value_char option.simps prod.case base64_digits)
  show ?case
    using 1 unfolding step n_def base64_bytes_of by simp
next
  case (2 a b)
  then show ?case by (simp add: Let_def)
next
  case (3 a)
  then show ?case by (simp add: Let_def)
qed simp

definition ref_log_crates :: "string \<Rightarrow> json \<Rightarrow> log_crates" where
  "ref_log_crates bytes v =
     \<lparr>lc_decode = base64_decode, lc_encode_no_pad = base64_nopad, lc_gzip = (\<lambda>j. bytes),
      lc_gunzip = (\<lambda>s. if s = bytes then Some v else None)\<rparr>"

interpretation ref_logs: base64_engines "ref_log_crates bytes v"
  by unfold_locales (simp add: ref_log_crates_def base64_decode_nopad)

definition log_data_example :: json where
  "log_data_example = JObj
     [(''owner'', JStr ''o''), (''logGroup'', JStr ''g''), (''logStream'', JStr ''s''),
      (''subscriptionFilters'', JArr [JStr ''f'']), (''messageType'', JStr ''DATA_MESSAGE''),
      (''logEvents'', JArr [JObj [(''id'', JStr ''1''), (''timestamp'', JInt 7), (''message'', JStr ''m'')]])]"

lemma base64_example: "base64_nopad ''gzip'' = ''Z3ppcA''" "base64_decode ''Z3ppcA=='' = Some ''gzip''"
  by (simp_all add: base64_char_def base64_alphabet_def base64_value_def base64_bytes_def upt_rec char_of_def bit_iff_odd)

lemma log_data_example_read: "map_option log_data_json (log_data_of_json log_data_example) = Some log_data_example"
  by code_simp

text \<open>Four bytes: read with their padding, and then written without it.\<close>

theorem logs_event_rereads_by_length_witness:
  "\<exists>x. logs_event_of_json (ref_log_crates ''gzip'' log_data_example)
         (JObj [(''awslogs'', JObj [(''data'', JStr ''Z3ppcA=='')])]) = Some x \<and>
     logs_event_json (ref_log_crates ''gzip'' log_data_example) x = JObj [(''awslogs'', JObj [(''data'', JStr ''Z3ppcA'')])] \<and>
     logs_event_of_json (ref_log_crates ''gzip'' log_data_example)
       (logs_event_json (ref_log_crates ''gzip'' log_data_example) x) = None"
proof -
  let ?C = "ref_log_crates ''gzip'' log_data_example"
  obtain d where "log_data_of_json log_data_example = Some d" and d: "log_data_json d = log_data_example"
    using log_data_example_read by auto
  then have x: "logs_event_of_json ?C (JObj [(''awslogs'', JObj [(''data'', JStr ''Z3ppcA=='')])]) =
      Some \<lparr>lev_aws_logs = \<lparr>al_data = d\<rparr>\<rparr>"
    by (simp add: logs_event_of_json_def aws_logs_of_json_def log_data_of_text_def ref_log_crates_def base64_example de_simps
        del: base64_decode.simps)
  with d base64_example(1) show ?thesis
    using logs_event_rereads_by_length [OF ref_logs.base64_engines_axioms x]
    by (simp add: ref_log_crates_def logs_event_json_def aws_logs_json_def del: base64_nopad.simps)
qed

subsection \<open>The reason of an alarm's state\<close>

text \<open>
  A text that is read as the details of a metric, else as those of a composite alarm, else kept.
\<close>

datatype 't cloud_watch_alarm_state_reason_data =
    ReasonData_Metric "'t cloud_watch_alarm_state_reason_data_metric"
  | ReasonData_Composite "'t clod_watch_alarm_state_reason_data_composite"
  | ReasonData_Generic json

definition reason_data_default :: "'t cloud_watch_alarm_state_reason_data" where
  "reason_data_default = ReasonData_Generic (JStr [])"

fun reason_data_value :: "'t event_env \<Rightarrow> 't cloud_watch_alarm_state_reason_data \<Rightarrow> json" where
  "reason_data_value E (ReasonData_Metric m) = cloud_watch_alarm_state_reason_data_metric_json E m"
| "reason_data_value E (ReasonData_Composite m) = clod_watch_alarm_state_reason_data_composite_json E m"
| "reason_data_value E (ReasonData_Generic m) = m"

definition reason_data_json :: "'t event_env \<Rightarrow> 't cloud_watch_alarm_state_reason_data \<Rightarrow> json" where
  "reason_data_json E r = JStr (ev_print E (reason_data_value E r))"

definition reason_data_visit_str :: "'t event_env \<Rightarrow> string \<Rightarrow> 't cloud_watch_alarm_state_reason_data" where
  "reason_data_visit_str E v =
     (case Option.bind (ev_parse E v) (cloud_watch_alarm_state_reason_data_metric_of_json E) of
        Some m \<Rightarrow> ReasonData_Metric m
      | None \<Rightarrow>
          (case Option.bind (ev_parse E v) (clod_watch_alarm_state_reason_data_composite_of_json E) of
             Some m \<Rightarrow> ReasonData_Composite m
           | None \<Rightarrow> ReasonData_Generic (JStr v)))"

definition reason_data_of_json :: "'t event_env \<Rightarrow> json \<Rightarrow> 't cloud_watch_alarm_state_reason_data option" where
  "reason_data_of_json E j = map_option (reason_data_visit_str E) (de_string j)"

fun reason_data_good :: "'t cloud_watch_alarm_state_reason_data \<Rightarrow> bool" where
  "reason_data_good (ReasonData_Metric m) = cloud_watch_alarm_state_reason_data_metric_good m"
| "reason_data_good (ReasonData_Composite m) = True"
| "reason_data_good (ReasonData_Generic m) = (\<exists>s. m = JStr s)"

lemma reason_data_visit_str_good: "reason_data_good (reason_data_visit_str E v)"
proof (cases "Option.bind (ev_parse E v) (cloud_watch_alarm_state_reason_data_metric_of_json E)")
  case (Some m)
  then obtain j where "cloud_watch_alarm_state_reason_data_metric_of_json E j = Some m"
    by (auto simp: bind_eq_Some_conv)
  then have "cloud_watch_alarm_state_reason_data_metric_good m"
    by (rule typedD [OF cloud_watch_alarm_state_reason_data_metric_typed])
  with Some show ?thesis
    by (simp add: reason_data_visit_str_def)
qed (auto simp: reason_data_visit_str_def split: option.splits)

lemma reason_data_typed: "typed reason_data_good (reason_data_of_json E)"
  by (auto simp: typed_def reason_data_of_json_def reason_data_visit_str_good)

lemma composite_is_no_metric [simp]:
  "cloud_watch_alarm_state_reason_data_metric_of_json E (clod_watch_alarm_state_reason_data_composite_json E m) = None"
  by (simp add: cloud_watch_alarm_state_reason_data_metric_of_json_def
      clod_watch_alarm_state_reason_data_composite_json_def de_simps)

lemma text_is_no_reason [simp]:
  "cloud_watch_alarm_state_reason_data_metric_of_json E (JStr s) = None"
  "clod_watch_alarm_state_reason_data_composite_of_json E (JStr s) = None"
  by (simp_all add: cloud_watch_alarm_state_reason_data_metric_of_json_def
      clod_watch_alarm_state_reason_data_composite_of_json_def de_fields_def)

text \<open>What a reason becomes when it is written and read: a text that was kept is quoted once more.\<close>

fun requoted :: "'t event_env \<Rightarrow> 't cloud_watch_alarm_state_reason_data \<Rightarrow> 't cloud_watch_alarm_state_reason_data" where
  "requoted E (ReasonData_Generic v) = ReasonData_Generic (JStr (ev_print E v))"
| "requoted E r = r"

text \<open>
  C30: The reason of an alarm that was read and is written again, when its text is a JSON value that is
  read back: the details of a metric and of a composite alarm are read as they were; any other text comes
  back as the JSON text of itself, in quotes and escaped, so that each round of reading and writing quotes
  it once more. Nothing that is read is refused.
\<close>

theorem reason_data_requoted:
  assumes "event_crates E"
    and "reason_data_of_json E j = Some r"
    and "ev_parse E (ev_print E (reason_data_value E r)) = Some (reason_data_value E r)"
  shows "reason_data_of_json E (reason_data_json E r) = Some (requoted E r)"
  using assms(3) typedD [OF reason_data_typed assms(2)]
  by (cases r) (auto simp: reason_data_of_json_def reason_data_json_def reason_data_visit_str_def assms(1) read_back)

definition quoting_env :: "string event_env" where
  "quoting_env = ref_event_env
     \<lparr>ev_print := (\<lambda>j. case j of JStr s \<Rightarrow> CHR 0x22 # s @ [CHR 0x22] | _ \<Rightarrow> []),
      ev_parse := (\<lambda>s. if length s \<ge> 2 \<and> hd s = CHR 0x22 then Some (JStr (butlast (tl s))) else None)\<rparr>"

interpretation quoting: event_crates quoting_env
  by unfold_locales (simp_all add: quoting_env_def ref_event_env_def)

theorem reason_data_requoted_witness:
  "reason_data_of_json quoting_env (JStr ''no data'') = Some (ReasonData_Generic (JStr ''no data'')) \<and>
   reason_data_of_json quoting_env (reason_data_json quoting_env (ReasonData_Generic (JStr ''no data''))) =
     Some (ReasonData_Generic (JStr (CHR 0x22 # ''no data'' @ [CHR 0x22])))"
proof
  show read: "reason_data_of_json quoting_env (JStr ''no data'') = Some (ReasonData_Generic (JStr ''no data''))"
    by (simp add: reason_data_of_json_def reason_data_visit_str_def quoting_env_def)
  show "reason_data_of_json quoting_env (reason_data_json quoting_env (ReasonData_Generic (JStr ''no data''))) =
     Some (ReasonData_Generic (JStr (CHR 0x22 # ''no data'' @ [CHR 0x22])))"
    using reason_data_requoted [OF quoting.event_crates_axioms read] by (simp add: quoting_env_def)
qed

text \<open>
  The second attempt requires nothing: every object that is not the details of a metric, and whose
  alarms are absent, is read as a composite alarm without any, and its content is lost.
\<close>

lemma reason_object_lost:
  assumes "ev_parse E v = Some (JObj kvs)"
    and "cloud_watch_alarm_state_reason_data_metric_of_json E (JObj kvs) = None"
    and "de_values [''triggeringAlarms''] kvs = []"
  shows "reason_data_of_json E (JStr v) = Some (ReasonData_Composite \<lparr>cwasrdc_triggering_alarms = []\<rparr>)"
  using assms
  by (simp add: reason_data_of_json_def reason_data_visit_str_def
      clod_watch_alarm_state_reason_data_composite_of_json_def de_fields_def de_default_def)

end
