(* ===== verification/DeploymentEvents.thy ===== *)
theory DeploymentEvents
  imports EventSerde
begin

text \<open>
  The events of CodeCommit, CodeDeploy, CodePipeline, Config, Control Tower, ECR, Secrets Manager,
  Client VPN and Auto Scaling (\<^verbatim>\<open>lambda-events/src/event\<close>).
  Each structure has its record, the serialiser and the deserialiser that \<^verbatim>\<open>derive\<close>
  generates from its attributes, well-formedness where its fields restrict it, and the lemmas that
  what is read is well formed and what is written is read back. Structures are in the order
  their fields need.
\<close>

subsection \<open>\<^verbatim>\<open>code_commit\<close>\<close>

record code_commit_reference =
  ccr_commit :: "string option"
  ccr_ref :: "string option"
  ccr_created :: bool

definition code_commit_reference_json :: "code_commit_reference \<Rightarrow> json" where
  "code_commit_reference_json x = JObj
     ([(''commit'', json_of_option JStr (ccr_commit x)),
      (''ref'', json_of_option JStr (ccr_ref x)),
      (''created'', JBool (ccr_created x))])"

definition code_commit_reference_of_json :: "json \<Rightarrow> code_commit_reference option" where
  "code_commit_reference_of_json j = do {
     kvs \<leftarrow> de_fields 0
       [''commit'', ''ref'', ''created''] j;
     x_commit \<leftarrow> de_opt_string ''commit'' kvs;
     x_ref \<leftarrow> de_opt_string ''ref'' kvs;
     x_created \<leftarrow> de_default (de_nullish de_bool False) False [''created''] kvs;
     Some \<lparr>ccr_commit = x_commit, ccr_ref = x_ref, ccr_created = x_created\<rparr> }"

lemma code_commit_reference_not_null [simp]: "code_commit_reference_json x \<noteq> JNull"
  by (simp add: code_commit_reference_json_def)

lemma code_commit_reference_read [read_back]: "code_commit_reference_of_json (code_commit_reference_json x) = Some x"
  by (cases x) (simp add: code_commit_reference_of_json_def code_commit_reference_json_def read_back)

record code_commit_code_commit =
  cccc_references :: "code_commit_reference list"

definition code_commit_code_commit_json :: "code_commit_code_commit \<Rightarrow> json" where
  "code_commit_code_commit_json x = JObj
     ([(''references'', json_of_list code_commit_reference_json (cccc_references x))])"

definition code_commit_code_commit_of_json :: "json \<Rightarrow> code_commit_code_commit option" where
  "code_commit_code_commit_of_json j = do {
     kvs \<leftarrow> de_fields 1
       [''references''] j;
     x_references \<leftarrow> de_required (de_list code_commit_reference_of_json) [''references''] kvs;
     Some \<lparr>cccc_references = x_references\<rparr> }"

lemma code_commit_code_commit_not_null [simp]: "code_commit_code_commit_json x \<noteq> JNull"
  by (simp add: code_commit_code_commit_json_def)

lemma code_commit_code_commit_read [read_back]: "code_commit_code_commit_of_json (code_commit_code_commit_json x) = Some x"
  by (cases x) (simp add: code_commit_code_commit_of_json_def code_commit_code_commit_json_def read_back)

record 't code_commit_record =
  ccre_event_id :: "string option"
  ccre_event_version :: "string option"
  ccre_event_time :: 't
  ccre_event_trigger_name :: "string option"
  ccre_event_part_number :: nat
  ccre_code_commit :: code_commit_code_commit
  ccre_event_name :: "string option"
  ccre_event_trigger_config_id :: "string option"
  ccre_event_source_arn :: "string option"
  ccre_user_identity_arn :: "string option"
  ccre_event_source :: "string option"
  ccre_aws_region :: "string option"
  ccre_event_total_parts :: nat
  ccre_custom_data :: "string option"

definition code_commit_record_json :: "'t event_env \<Rightarrow> 't code_commit_record \<Rightarrow> json" where
  "code_commit_record_json E x = JObj
     ([(''eventId'', json_of_option JStr (ccre_event_id x)),
      (''eventVersion'', json_of_option JStr (ccre_event_version x)),
      (''eventTime'', json_of_time E (ccre_event_time x)),
      (''eventTriggerName'', json_of_option JStr (ccre_event_trigger_name x)),
      (''eventPartNumber'', json_of_nat (ccre_event_part_number x)),
      (''codecommit'', code_commit_code_commit_json (ccre_code_commit x)),
      (''eventName'', json_of_option JStr (ccre_event_name x)),
      (''eventTriggerConfigId'', json_of_option JStr (ccre_event_trigger_config_id x)),
      (''eventSourceARN'', json_of_option JStr (ccre_event_source_arn x)),
      (''userIdentityARN'', json_of_option JStr (ccre_user_identity_arn x)),
      (''eventSource'', json_of_option JStr (ccre_event_source x)),
      (''awsRegion'', json_of_option JStr (ccre_aws_region x)),
      (''eventTotalParts'', json_of_nat (ccre_event_total_parts x)),
      (''customData'', json_of_option JStr (ccre_custom_data x))])"

definition code_commit_record_of_json :: "'t event_env \<Rightarrow> json \<Rightarrow> 't code_commit_record option" where
  "code_commit_record_of_json E j = do {
     kvs \<leftarrow> de_fields 14
       [''eventId'', ''eventVersion'', ''eventTime'', ''eventTriggerName'', ''eventPartNumber'',
        ''codecommit'', ''eventName'', ''eventTriggerConfigId'', ''eventSourceARN'',
        ''userIdentityARN'', ''eventSource'', ''awsRegion'', ''eventTotalParts'', ''customData''] j;
     x_event_id \<leftarrow> de_opt_string ''eventId'' kvs;
     x_event_version \<leftarrow> de_opt_string ''eventVersion'' kvs;
     x_event_time \<leftarrow> de_required (time_of_json E) [''eventTime''] kvs;
     x_event_trigger_name \<leftarrow> de_opt_string ''eventTriggerName'' kvs;
     x_event_part_number \<leftarrow> de_required (de_unsigned u64_max) [''eventPartNumber''] kvs;
     x_code_commit \<leftarrow> de_required code_commit_code_commit_of_json [''codecommit''] kvs;
     x_event_name \<leftarrow> de_opt_string ''eventName'' kvs;
     x_event_trigger_config_id \<leftarrow> de_opt_string ''eventTriggerConfigId'' kvs;
     x_event_source_arn \<leftarrow> de_opt_string ''eventSourceARN'' kvs;
     x_user_identity_arn \<leftarrow> de_opt_string ''userIdentityARN'' kvs;
     x_event_source \<leftarrow> de_opt_string ''eventSource'' kvs;
     x_aws_region \<leftarrow> de_opt_string ''awsRegion'' kvs;
     x_event_total_parts \<leftarrow> de_required (de_unsigned u64_max) [''eventTotalParts''] kvs;
     x_custom_data \<leftarrow> de_opt_string ''customData'' kvs;
     Some \<lparr>ccre_event_id = x_event_id, ccre_event_version = x_event_version,
       ccre_event_time = x_event_time, ccre_event_trigger_name = x_event_trigger_name,
       ccre_event_part_number = x_event_part_number, ccre_code_commit = x_code_commit,
       ccre_event_name = x_event_name, ccre_event_trigger_config_id = x_event_trigger_config_id,
       ccre_event_source_arn = x_event_source_arn, ccre_user_identity_arn = x_user_identity_arn,
       ccre_event_source = x_event_source, ccre_aws_region = x_aws_region,
       ccre_event_total_parts = x_event_total_parts, ccre_custom_data = x_custom_data\<rparr> }"

definition code_commit_record_good :: "'t code_commit_record \<Rightarrow> bool" where
  "code_commit_record_good x \<longleftrightarrow>
     good_nat u64_max (ccre_event_part_number x) \<and>
     good_nat u64_max (ccre_event_total_parts x)"

lemma code_commit_record_not_null [simp]: "code_commit_record_json E x \<noteq> JNull"
  by (simp add: code_commit_record_json_def)

lemma code_commit_record_read [read_back]: "code_commit_record_good x \<Longrightarrow> event_crates E \<Longrightarrow>code_commit_record_of_json E (code_commit_record_json E x) = Some x"
  by (cases x) (clarsimp simp: code_commit_record_of_json_def code_commit_record_json_def code_commit_record_good_def read_back)

lemma code_commit_record_typed: "typed code_commit_record_good (code_commit_record_of_json E)"
  unfolding typed_def code_commit_record_of_json_def code_commit_record_good_def
  by (auto simp: bind_eq_Some_conv dest!: typed_required [OF typed_nat])

record 't code_commit_event =
  cce_records :: "('t code_commit_record) list"

definition code_commit_event_json :: "'t event_env \<Rightarrow> 't code_commit_event \<Rightarrow> json" where
  "code_commit_event_json E x = JObj
     ([(''Records'', json_of_list (code_commit_record_json E) (cce_records x))])"

definition code_commit_event_of_json :: "'t event_env \<Rightarrow> json \<Rightarrow> 't code_commit_event option" where
  "code_commit_event_of_json E j = do {
     kvs \<leftarrow> de_fields 1
       [''Records''] j;
     x_records \<leftarrow> de_required (de_list (code_commit_record_of_json E)) [''Records''] kvs;
     Some \<lparr>cce_records = x_records\<rparr> }"

definition code_commit_event_good :: "'t code_commit_event \<Rightarrow> bool" where
  "code_commit_event_good x \<longleftrightarrow>
     list_all code_commit_record_good (cce_records x)"

lemma code_commit_event_not_null [simp]: "code_commit_event_json E x \<noteq> JNull"
  by (simp add: code_commit_event_json_def)

lemma code_commit_event_read [read_back]: "code_commit_event_good x \<Longrightarrow> event_crates E \<Longrightarrow>code_commit_event_of_json E (code_commit_event_json E x) = Some x"
  by (cases x) (simp add: code_commit_event_of_json_def code_commit_event_json_def code_commit_event_good_def read_back)

lemma code_commit_event_typed: "typed code_commit_event_good (code_commit_event_of_json E)"
  unfolding typed_def code_commit_event_of_json_def code_commit_event_good_def
  by (auto simp: bind_eq_Some_conv dest!: typed_required [OF typed_list [OF code_commit_record_typed]])

subsection \<open>\<^verbatim>\<open>codedeploy\<close>\<close>

record code_deploy_event_detail =
  cded_instance_group_id :: "string option"
  cded_instance_id :: "string option"
  cded_region :: "string option"
  cded_application :: "string option"
  cded_deployment_id :: "string option"
  cded_state :: string
  cded_deployment_group :: "string option"

definition code_deploy_event_detail_json :: "code_deploy_event_detail \<Rightarrow> json" where
  "code_deploy_event_detail_json x = JObj
     ([(''instanceGroupId'', json_of_option JStr (cded_instance_group_id x)),
      (''instanceId'', json_of_option JStr (cded_instance_id x)),
      (''region'', json_of_option JStr (cded_region x)),
      (''application'', json_of_option JStr (cded_application x)),
      (''deploymentId'', json_of_option JStr (cded_deployment_id x)),
      (''state'', JStr (cded_state x)),
      (''deploymentGroup'', json_of_option JStr (cded_deployment_group x))])"

definition code_deploy_event_detail_of_json :: "json \<Rightarrow> code_deploy_event_detail option" where
  "code_deploy_event_detail_of_json j = do {
     kvs \<leftarrow> de_fields 6
       [''instanceGroupId'', ''instanceId'', ''region'', ''application'', ''deploymentId'',
        ''state'', ''deploymentGroup''] j;
     x_instance_group_id \<leftarrow> de_opt_string ''instanceGroupId'' kvs;
     x_instance_id \<leftarrow> de_opt_string ''instanceId'' kvs;
     x_region \<leftarrow> de_opt_string ''region'' kvs;
     x_application \<leftarrow> de_opt_string ''application'' kvs;
     x_deployment_id \<leftarrow> de_opt_string ''deploymentId'' kvs;
     x_state \<leftarrow> de_required de_string [''state''] kvs;
     x_deployment_group \<leftarrow> de_opt_string ''deploymentGroup'' kvs;
     Some \<lparr>cded_instance_group_id = x_instance_group_id, cded_instance_id = x_instance_id,
       cded_region = x_region, cded_application = x_application,
       cded_deployment_id = x_deployment_id, cded_state = x_state,
       cded_deployment_group = x_deployment_group\<rparr> }"

lemma code_deploy_event_detail_not_null [simp]: "code_deploy_event_detail_json x \<noteq> JNull"
  by (simp add: code_deploy_event_detail_json_def)

lemma code_deploy_event_detail_read [read_back]: "code_deploy_event_detail_of_json (code_deploy_event_detail_json x) = Some x"
  by (cases x) (simp add: code_deploy_event_detail_of_json_def code_deploy_event_detail_json_def read_back)

record code_deploy_lifecycle_event =
  cdle_deployment_id :: string
  cdle_lifecycle_event_hook_execution_id :: string

definition code_deploy_lifecycle_event_json :: "code_deploy_lifecycle_event \<Rightarrow> json" where
  "code_deploy_lifecycle_event_json x = JObj
     ([(''DeploymentId'', JStr (cdle_deployment_id x)),
      (''LifecycleEventHookExecutionId'', JStr (cdle_lifecycle_event_hook_execution_id x))])"

definition code_deploy_lifecycle_event_of_json :: "json \<Rightarrow> code_deploy_lifecycle_event option" where
  "code_deploy_lifecycle_event_of_json j = do {
     kvs \<leftarrow> de_fields 2
       [''DeploymentId'', ''LifecycleEventHookExecutionId''] j;
     x_deployment_id \<leftarrow> de_required de_string [''DeploymentId''] kvs;
     x_lifecycle_event_hook_execution_id \<leftarrow> de_required de_string [''LifecycleEventHookExecutionId''] kvs;
     Some \<lparr>cdle_deployment_id = x_deployment_id,
       cdle_lifecycle_event_hook_execution_id = x_lifecycle_event_hook_execution_id\<rparr> }"

lemma code_deploy_lifecycle_event_not_null [simp]: "code_deploy_lifecycle_event_json x \<noteq> JNull"
  by (simp add: code_deploy_lifecycle_event_json_def)

lemma code_deploy_lifecycle_event_read [read_back]: "code_deploy_lifecycle_event_of_json (code_deploy_lifecycle_event_json x) = Some x"
  by (cases x) (simp add: code_deploy_lifecycle_event_of_json_def code_deploy_lifecycle_event_json_def read_back)

record 't code_deploy_event =
  cde_account_id :: "string option"
  cde_region :: "string option"
  cde_detail_type :: "string option"
  cde_source :: "string option"
  cde_version :: "string option"
  cde_time :: 't
  cde_id :: "string option"
  cde_resources :: "string list"
  cde_detail :: code_deploy_event_detail

definition code_deploy_event_json :: "'t event_env \<Rightarrow> 't code_deploy_event \<Rightarrow> json" where
  "code_deploy_event_json E x = JObj
     ([(''account'', json_of_option JStr (cde_account_id x)),
      (''region'', json_of_option JStr (cde_region x)),
      (''detail-type'', json_of_option JStr (cde_detail_type x)),
      (''source'', json_of_option JStr (cde_source x)),
      (''version'', json_of_option JStr (cde_version x)),
      (''time'', json_of_time E (cde_time x)),
      (''id'', json_of_option JStr (cde_id x)),
      (''resources'', json_of_list JStr (cde_resources x)),
      (''detail'', code_deploy_event_detail_json (cde_detail x))])"

definition code_deploy_event_of_json :: "'t event_env \<Rightarrow> json \<Rightarrow> 't code_deploy_event option" where
  "code_deploy_event_of_json E j = do {
     kvs \<leftarrow> de_fields 9
       [''account'', ''region'', ''detail-type'', ''source'', ''version'', ''time'', ''id'',
        ''resources'', ''detail''] j;
     x_account_id \<leftarrow> de_opt_string ''account'' kvs;
     x_region \<leftarrow> de_opt_string ''region'' kvs;
     x_detail_type \<leftarrow> de_opt_string ''detail-type'' kvs;
     x_source \<leftarrow> de_opt_string ''source'' kvs;
     x_version \<leftarrow> de_opt_string ''version'' kvs;
     x_time \<leftarrow> de_required (time_of_json E) [''time''] kvs;
     x_id \<leftarrow> de_opt_string ''id'' kvs;
     x_resources \<leftarrow> de_required (de_list de_string) [''resources''] kvs;
     x_detail \<leftarrow> de_required code_deploy_event_detail_of_json [''detail''] kvs;
     Some \<lparr>cde_account_id = x_account_id, cde_region = x_region, cde_detail_type = x_detail_type,
       cde_source = x_source, cde_version = x_version, cde_time = x_time, cde_id = x_id,
       cde_resources = x_resources, cde_detail = x_detail\<rparr> }"

lemma code_deploy_event_not_null [simp]: "code_deploy_event_json E x \<noteq> JNull"
  by (simp add: code_deploy_event_json_def)

lemma code_deploy_event_read [read_back]: "event_crates E \<Longrightarrow>code_deploy_event_of_json E (code_deploy_event_json E x) = Some x"
  by (cases x) (simp add: code_deploy_event_of_json_def code_deploy_event_json_def read_back)

subsection \<open>\<^verbatim>\<open>codepipeline_cloudwatch\<close>\<close>

record code_pipeline_event_detail_type =
  cpedt_owner :: "string option"
  cpedt_category :: "string option"
  cpedt_provider :: "string option"
  cpedt_version :: int

definition code_pipeline_event_detail_type_json :: "code_pipeline_event_detail_type \<Rightarrow> json" where
  "code_pipeline_event_detail_type_json x = JObj
     ([(''owner'', json_of_option JStr (cpedt_owner x)),
      (''category'', json_of_option JStr (cpedt_category x)),
      (''provider'', json_of_option JStr (cpedt_provider x)),
      (''version'', JInt (cpedt_version x))])"

definition code_pipeline_event_detail_type_of_json :: "json \<Rightarrow> code_pipeline_event_detail_type option" where
  "code_pipeline_event_detail_type_of_json j = do {
     kvs \<leftarrow> de_fields 4
       [''owner'', ''category'', ''provider'', ''version''] j;
     x_owner \<leftarrow> de_opt_string ''owner'' kvs;
     x_category \<leftarrow> de_opt_string ''category'' kvs;
     x_provider \<leftarrow> de_opt_string ''provider'' kvs;
     x_version \<leftarrow> de_required de_i64 [''version''] kvs;
     Some \<lparr>cpedt_owner = x_owner, cpedt_category = x_category, cpedt_provider = x_provider,
       cpedt_version = x_version\<rparr> }"

definition code_pipeline_event_detail_type_good :: "code_pipeline_event_detail_type \<Rightarrow> bool" where
  "code_pipeline_event_detail_type_good x \<longleftrightarrow>
     good_i64 (cpedt_version x)"

lemma code_pipeline_event_detail_type_not_null [simp]: "code_pipeline_event_detail_type_json x \<noteq> JNull"
  by (simp add: code_pipeline_event_detail_type_json_def)

lemma code_pipeline_event_detail_type_read [read_back]: "code_pipeline_event_detail_type_good x \<Longrightarrow>code_pipeline_event_detail_type_of_json (code_pipeline_event_detail_type_json x) = Some x"
  by (cases x) (simp add: code_pipeline_event_detail_type_of_json_def code_pipeline_event_detail_type_json_def code_pipeline_event_detail_type_good_def read_back)

lemma code_pipeline_event_detail_type_typed: "typed code_pipeline_event_detail_type_good code_pipeline_event_detail_type_of_json"
  unfolding typed_def code_pipeline_event_detail_type_of_json_def code_pipeline_event_detail_type_good_def
  by (auto simp: bind_eq_Some_conv dest!: typed_required [OF typed_i64])

record code_pipeline_event_detail =
  cped_pipeline :: "string option"
  cped_version :: int
  cped_execution_id :: "string option"
  cped_stage :: "string option"
  cped_action :: "string option"
  cped_state :: string
  cped_region :: "string option"
  cped_type :: "code_pipeline_event_detail_type option"

definition code_pipeline_event_detail_json :: "code_pipeline_event_detail \<Rightarrow> json" where
  "code_pipeline_event_detail_json x = JObj
     ([(''pipeline'', json_of_option JStr (cped_pipeline x)),
      (''version'', JInt (cped_version x)),
      (''execution-id'', json_of_option JStr (cped_execution_id x)),
      (''stage'', json_of_option JStr (cped_stage x)),
      (''action'', json_of_option JStr (cped_action x)),
      (''state'', JStr (cped_state x)),
      (''region'', json_of_option JStr (cped_region x)),
      (''type'', json_of_option code_pipeline_event_detail_type_json (cped_type x))])"

definition code_pipeline_event_detail_of_json :: "json \<Rightarrow> code_pipeline_event_detail option" where
  "code_pipeline_event_detail_of_json j = do {
     kvs \<leftarrow> de_fields 8
       [''pipeline'', ''version'', ''execution-id'', ''stage'', ''action'', ''state'', ''region'',
        ''type''] j;
     x_pipeline \<leftarrow> de_opt_string ''pipeline'' kvs;
     x_version \<leftarrow> de_required de_i64 [''version''] kvs;
     x_execution_id \<leftarrow> de_opt_string ''execution-id'' kvs;
     x_stage \<leftarrow> de_opt_string ''stage'' kvs;
     x_action \<leftarrow> de_opt_string ''action'' kvs;
     x_state \<leftarrow> de_required de_string [''state''] kvs;
     x_region \<leftarrow> de_opt_string ''region'' kvs;
     x_type \<leftarrow> de_optional code_pipeline_event_detail_type_of_json [''type''] kvs;
     Some \<lparr>cped_pipeline = x_pipeline, cped_version = x_version, cped_execution_id = x_execution_id,
       cped_stage = x_stage, cped_action = x_action, cped_state = x_state,
       cped_region = x_region, cped_type = x_type\<rparr> }"

definition code_pipeline_event_detail_good :: "code_pipeline_event_detail \<Rightarrow> bool" where
  "code_pipeline_event_detail_good x \<longleftrightarrow>
     good_i64 (cped_version x) \<and>
     good_option code_pipeline_event_detail_type_good (cped_type x)"

lemma code_pipeline_event_detail_not_null [simp]: "code_pipeline_event_detail_json x \<noteq> JNull"
  by (simp add: code_pipeline_event_detail_json_def)

lemma code_pipeline_event_detail_read [read_back]: "code_pipeline_event_detail_good x \<Longrightarrow>code_pipeline_event_detail_of_json (code_pipeline_event_detail_json x) = Some x"
  by (cases x) (clarsimp simp: code_pipeline_event_detail_of_json_def code_pipeline_event_detail_json_def code_pipeline_event_detail_good_def read_back)

lemma code_pipeline_event_detail_typed: "typed code_pipeline_event_detail_good code_pipeline_event_detail_of_json"
  unfolding typed_def code_pipeline_event_detail_of_json_def code_pipeline_event_detail_good_def
  by (auto simp: bind_eq_Some_conv dest!: typed_required [OF typed_i64]
      typed_optional [OF code_pipeline_event_detail_type_typed])

record 't code_pipeline_cloud_watch_event =
  cpcwe_version :: "string option"
  cpcwe_id :: "string option"
  cpcwe_detail_type :: "string option"
  cpcwe_source :: "string option"
  cpcwe_account_id :: "string option"
  cpcwe_time :: 't
  cpcwe_region :: "string option"
  cpcwe_resources :: "string list"
  cpcwe_detail :: code_pipeline_event_detail

definition code_pipeline_cloud_watch_event_json :: "'t event_env \<Rightarrow> 't code_pipeline_cloud_watch_event \<Rightarrow> json" where
  "code_pipeline_cloud_watch_event_json E x = JObj
     ([(''version'', json_of_option JStr (cpcwe_version x)),
      (''id'', json_of_option JStr (cpcwe_id x)),
      (''detail-type'', json_of_option JStr (cpcwe_detail_type x)),
      (''source'', json_of_option JStr (cpcwe_source x)),
      (''account'', json_of_option JStr (cpcwe_account_id x)),
      (''time'', json_of_time E (cpcwe_time x)),
      (''region'', json_of_option JStr (cpcwe_region x)),
      (''resources'', json_of_list JStr (cpcwe_resources x)),
      (''detail'', code_pipeline_event_detail_json (cpcwe_detail x))])"

definition code_pipeline_cloud_watch_event_of_json :: "'t event_env \<Rightarrow> json \<Rightarrow> 't code_pipeline_cloud_watch_event option" where
  "code_pipeline_cloud_watch_event_of_json E j = do {
     kvs \<leftarrow> de_fields 9
       [''version'', ''id'', ''detail-type'', ''source'', ''account'', ''time'', ''region'',
        ''resources'', ''detail''] j;
     x_version \<leftarrow> de_opt_string ''version'' kvs;
     x_id \<leftarrow> de_opt_string ''id'' kvs;
     x_detail_type \<leftarrow> de_opt_string ''detail-type'' kvs;
     x_source \<leftarrow> de_opt_string ''source'' kvs;
     x_account_id \<leftarrow> de_opt_string ''account'' kvs;
     x_time \<leftarrow> de_required (time_of_json E) [''time''] kvs;
     x_region \<leftarrow> de_opt_string ''region'' kvs;
     x_resources \<leftarrow> de_required (de_list de_string) [''resources''] kvs;
     x_detail \<leftarrow> de_required code_pipeline_event_detail_of_json [''detail''] kvs;
     Some \<lparr>cpcwe_version = x_version, cpcwe_id = x_id, cpcwe_detail_type = x_detail_type,
       cpcwe_source = x_source, cpcwe_account_id = x_account_id, cpcwe_time = x_time,
       cpcwe_region = x_region, cpcwe_resources = x_resources, cpcwe_detail = x_detail\<rparr> }"

definition code_pipeline_cloud_watch_event_good :: "'t code_pipeline_cloud_watch_event \<Rightarrow> bool" where
  "code_pipeline_cloud_watch_event_good x \<longleftrightarrow>
     code_pipeline_event_detail_good (cpcwe_detail x)"

lemma code_pipeline_cloud_watch_event_not_null [simp]: "code_pipeline_cloud_watch_event_json E x \<noteq> JNull"
  by (simp add: code_pipeline_cloud_watch_event_json_def)

lemma code_pipeline_cloud_watch_event_read [read_back]: "code_pipeline_cloud_watch_event_good x \<Longrightarrow> event_crates E \<Longrightarrow>code_pipeline_cloud_watch_event_of_json E (code_pipeline_cloud_watch_event_json E x) = Some x"
  by (cases x) (simp add: code_pipeline_cloud_watch_event_of_json_def code_pipeline_cloud_watch_event_json_def code_pipeline_cloud_watch_event_good_def read_back)

lemma code_pipeline_cloud_watch_event_typed: "typed code_pipeline_cloud_watch_event_good (code_pipeline_cloud_watch_event_of_json E)"
  unfolding typed_def code_pipeline_cloud_watch_event_of_json_def code_pipeline_cloud_watch_event_good_def
  by (auto simp: bind_eq_Some_conv dest!: typed_required [OF code_pipeline_event_detail_typed])

subsection \<open>\<^verbatim>\<open>codepipeline_job\<close>\<close>

record code_pipeline_configuration =
  cpc_function_name :: "string option"
  cpc_user_parameters :: "string option"

definition code_pipeline_configuration_json :: "code_pipeline_configuration \<Rightarrow> json" where
  "code_pipeline_configuration_json x = JObj
     ([(''FunctionName'', json_of_option JStr (cpc_function_name x)),
      (''UserParameters'', json_of_option JStr (cpc_user_parameters x))])"

definition code_pipeline_configuration_of_json :: "json \<Rightarrow> code_pipeline_configuration option" where
  "code_pipeline_configuration_of_json j = do {
     kvs \<leftarrow> de_fields 0
       [''FunctionName'', ''UserParameters''] j;
     x_function_name \<leftarrow> de_opt_string ''FunctionName'' kvs;
     x_user_parameters \<leftarrow> de_opt_string ''UserParameters'' kvs;
     Some \<lparr>cpc_function_name = x_function_name, cpc_user_parameters = x_user_parameters\<rparr> }"

lemma code_pipeline_configuration_not_null [simp]: "code_pipeline_configuration_json x \<noteq> JNull"
  by (simp add: code_pipeline_configuration_json_def)

lemma code_pipeline_configuration_read [read_back]: "code_pipeline_configuration_of_json (code_pipeline_configuration_json x) = Some x"
  by (cases x) (simp add: code_pipeline_configuration_of_json_def code_pipeline_configuration_json_def read_back)

record code_pipeline_s3_location =
  cpsl_bucket_name :: "string option"
  cpsl_object_key :: "string option"

definition code_pipeline_s3_location_json :: "code_pipeline_s3_location \<Rightarrow> json" where
  "code_pipeline_s3_location_json x = JObj
     ([(''bucketName'', json_of_option JStr (cpsl_bucket_name x)),
      (''objectKey'', json_of_option JStr (cpsl_object_key x))])"

definition code_pipeline_s3_location_of_json :: "json \<Rightarrow> code_pipeline_s3_location option" where
  "code_pipeline_s3_location_of_json j = do {
     kvs \<leftarrow> de_fields 0
       [''bucketName'', ''objectKey''] j;
     x_bucket_name \<leftarrow> de_opt_string ''bucketName'' kvs;
     x_object_key \<leftarrow> de_opt_string ''objectKey'' kvs;
     Some \<lparr>cpsl_bucket_name = x_bucket_name, cpsl_object_key = x_object_key\<rparr> }"

lemma code_pipeline_s3_location_not_null [simp]: "code_pipeline_s3_location_json x \<noteq> JNull"
  by (simp add: code_pipeline_s3_location_json_def)

lemma code_pipeline_s3_location_read [read_back]: "code_pipeline_s3_location_of_json (code_pipeline_s3_location_json x) = Some x"
  by (cases x) (simp add: code_pipeline_s3_location_of_json_def code_pipeline_s3_location_json_def read_back)

record code_pipeline_output_location =
  cpol_s3_location :: code_pipeline_s3_location
  cpol_location_type :: "string option"

definition code_pipeline_output_location_json :: "code_pipeline_output_location \<Rightarrow> json" where
  "code_pipeline_output_location_json x = JObj
     ([(''s3Location'', code_pipeline_s3_location_json (cpol_s3_location x)),
      (''type'', json_of_option JStr (cpol_location_type x))])"

definition code_pipeline_output_location_of_json :: "json \<Rightarrow> code_pipeline_output_location option" where
  "code_pipeline_output_location_of_json j = do {
     kvs \<leftarrow> de_fields 1
       [''s3Location'', ''type''] j;
     x_s3_location \<leftarrow> de_required code_pipeline_s3_location_of_json [''s3Location''] kvs;
     x_location_type \<leftarrow> de_opt_string ''type'' kvs;
     Some \<lparr>cpol_s3_location = x_s3_location, cpol_location_type = x_location_type\<rparr> }"

lemma code_pipeline_output_location_not_null [simp]: "code_pipeline_output_location_json x \<noteq> JNull"
  by (simp add: code_pipeline_output_location_json_def)

lemma code_pipeline_output_location_read [read_back]: "code_pipeline_output_location_of_json (code_pipeline_output_location_json x) = Some x"
  by (cases x) (simp add: code_pipeline_output_location_of_json_def code_pipeline_output_location_json_def read_back)

record code_pipeline_artifact_credentials =
  cpac_secret_access_key :: "string option"
  cpac_session_token :: "string option"
  cpac_access_key_id :: "string option"

definition code_pipeline_artifact_credentials_json :: "code_pipeline_artifact_credentials \<Rightarrow> json" where
  "code_pipeline_artifact_credentials_json x = JObj
     ([(''secretAccessKey'', json_of_option JStr (cpac_secret_access_key x)),
      (''sessionToken'', json_of_option JStr (cpac_session_token x)),
      (''accessKeyId'', json_of_option JStr (cpac_access_key_id x))])"

definition code_pipeline_artifact_credentials_of_json :: "json \<Rightarrow> code_pipeline_artifact_credentials option" where
  "code_pipeline_artifact_credentials_of_json j = do {
     kvs \<leftarrow> de_fields 0
       [''secretAccessKey'', ''sessionToken'', ''accessKeyId''] j;
     x_secret_access_key \<leftarrow> de_opt_string ''secretAccessKey'' kvs;
     x_session_token \<leftarrow> de_opt_string ''sessionToken'' kvs;
     x_access_key_id \<leftarrow> de_opt_string ''accessKeyId'' kvs;
     Some \<lparr>cpac_secret_access_key = x_secret_access_key, cpac_session_token = x_session_token,
       cpac_access_key_id = x_access_key_id\<rparr> }"

lemma code_pipeline_artifact_credentials_not_null [simp]: "code_pipeline_artifact_credentials_json x \<noteq> JNull"
  by (simp add: code_pipeline_artifact_credentials_json_def)

lemma code_pipeline_artifact_credentials_read [read_back]: "code_pipeline_artifact_credentials_of_json (code_pipeline_artifact_credentials_json x) = Some x"
  by (cases x) (simp add: code_pipeline_artifact_credentials_of_json_def code_pipeline_artifact_credentials_json_def read_back)

record code_pipeline_action_configuration =
  cpaco_configuration :: code_pipeline_configuration

definition code_pipeline_action_configuration_json :: "code_pipeline_action_configuration \<Rightarrow> json" where
  "code_pipeline_action_configuration_json x = JObj
     ([(''configuration'', code_pipeline_configuration_json (cpaco_configuration x))])"

definition code_pipeline_action_configuration_of_json :: "json \<Rightarrow> code_pipeline_action_configuration option" where
  "code_pipeline_action_configuration_of_json j = do {
     kvs \<leftarrow> de_fields 1
       [''configuration''] j;
     x_configuration \<leftarrow> de_required code_pipeline_configuration_of_json [''configuration''] kvs;
     Some \<lparr>cpaco_configuration = x_configuration\<rparr> }"

lemma code_pipeline_action_configuration_not_null [simp]: "code_pipeline_action_configuration_json x \<noteq> JNull"
  by (simp add: code_pipeline_action_configuration_json_def)

lemma code_pipeline_action_configuration_read [read_back]: "code_pipeline_action_configuration_of_json (code_pipeline_action_configuration_json x) = Some x"
  by (cases x) (simp add: code_pipeline_action_configuration_of_json_def code_pipeline_action_configuration_json_def read_back)

record code_pipeline_input_location =
  cpil_s3_location :: code_pipeline_s3_location
  cpil_location_type :: "string option"

definition code_pipeline_input_location_json :: "code_pipeline_input_location \<Rightarrow> json" where
  "code_pipeline_input_location_json x = JObj
     ([(''s3Location'', code_pipeline_s3_location_json (cpil_s3_location x)),
      (''type'', json_of_option JStr (cpil_location_type x))])"

definition code_pipeline_input_location_of_json :: "json \<Rightarrow> code_pipeline_input_location option" where
  "code_pipeline_input_location_of_json j = do {
     kvs \<leftarrow> de_fields 1
       [''s3Location'', ''type''] j;
     x_s3_location \<leftarrow> de_required code_pipeline_s3_location_of_json [''s3Location''] kvs;
     x_location_type \<leftarrow> de_opt_string ''type'' kvs;
     Some \<lparr>cpil_s3_location = x_s3_location, cpil_location_type = x_location_type\<rparr> }"

lemma code_pipeline_input_location_not_null [simp]: "code_pipeline_input_location_json x \<noteq> JNull"
  by (simp add: code_pipeline_input_location_json_def)

lemma code_pipeline_input_location_read [read_back]: "code_pipeline_input_location_of_json (code_pipeline_input_location_json x) = Some x"
  by (cases x) (simp add: code_pipeline_input_location_of_json_def code_pipeline_input_location_json_def read_back)

record code_pipeline_output_artifact =
  cpoa_location :: code_pipeline_input_location
  cpoa_revision :: "string option"
  cpoa_name :: "string option"

definition code_pipeline_output_artifact_json :: "code_pipeline_output_artifact \<Rightarrow> json" where
  "code_pipeline_output_artifact_json x = JObj
     ([(''location'', code_pipeline_input_location_json (cpoa_location x)),
      (''revision'', json_of_option JStr (cpoa_revision x)),
      (''name'', json_of_option JStr (cpoa_name x))])"

definition code_pipeline_output_artifact_of_json :: "json \<Rightarrow> code_pipeline_output_artifact option" where
  "code_pipeline_output_artifact_of_json j = do {
     kvs \<leftarrow> de_fields 2
       [''location'', ''revision'', ''name''] j;
     x_location \<leftarrow> de_required code_pipeline_input_location_of_json [''location''] kvs;
     x_revision \<leftarrow> de_opt_string ''revision'' kvs;
     x_name \<leftarrow> de_opt_string ''name'' kvs;
     Some \<lparr>cpoa_location = x_location, cpoa_revision = x_revision, cpoa_name = x_name\<rparr> }"

lemma code_pipeline_output_artifact_not_null [simp]: "code_pipeline_output_artifact_json x \<noteq> JNull"
  by (simp add: code_pipeline_output_artifact_json_def)

lemma code_pipeline_output_artifact_read [read_back]: "code_pipeline_output_artifact_of_json (code_pipeline_output_artifact_json x) = Some x"
  by (cases x) (simp add: code_pipeline_output_artifact_of_json_def code_pipeline_output_artifact_json_def read_back)

record code_pipeline_input_artifact =
  cpia_location :: code_pipeline_input_location
  cpia_revision :: "string option"
  cpia_name :: "string option"

definition code_pipeline_input_artifact_json :: "code_pipeline_input_artifact \<Rightarrow> json" where
  "code_pipeline_input_artifact_json x = JObj
     ([(''location'', code_pipeline_input_location_json (cpia_location x)),
      (''revision'', json_of_option JStr (cpia_revision x)),
      (''name'', json_of_option JStr (cpia_name x))])"

definition code_pipeline_input_artifact_of_json :: "json \<Rightarrow> code_pipeline_input_artifact option" where
  "code_pipeline_input_artifact_of_json j = do {
     kvs \<leftarrow> de_fields 2
       [''location'', ''revision'', ''name''] j;
     x_location \<leftarrow> de_required code_pipeline_input_location_of_json [''location''] kvs;
     x_revision \<leftarrow> de_opt_string ''revision'' kvs;
     x_name \<leftarrow> de_opt_string ''name'' kvs;
     Some \<lparr>cpia_location = x_location, cpia_revision = x_revision, cpia_name = x_name\<rparr> }"

lemma code_pipeline_input_artifact_not_null [simp]: "code_pipeline_input_artifact_json x \<noteq> JNull"
  by (simp add: code_pipeline_input_artifact_json_def)

lemma code_pipeline_input_artifact_read [read_back]: "code_pipeline_input_artifact_of_json (code_pipeline_input_artifact_json x) = Some x"
  by (cases x) (simp add: code_pipeline_input_artifact_of_json_def code_pipeline_input_artifact_json_def read_back)

record code_pipeline_data =
  cpd_action_configuration :: code_pipeline_action_configuration
  cpd_input_artifacts :: "code_pipeline_input_artifact list"
  cpd_out_put_artifacts :: "code_pipeline_output_artifact list"
  cpd_artifact_credentials :: code_pipeline_artifact_credentials
  cpd_continuation_token :: "string option"

definition code_pipeline_data_json :: "code_pipeline_data \<Rightarrow> json" where
  "code_pipeline_data_json x = JObj
     ([(''actionConfiguration'', code_pipeline_action_configuration_json (cpd_action_configuration x)),
      (''inputArtifacts'', json_of_list code_pipeline_input_artifact_json (cpd_input_artifacts x)),
      (''outputArtifacts'', json_of_list code_pipeline_output_artifact_json (cpd_out_put_artifacts x)),
      (''artifactCredentials'', code_pipeline_artifact_credentials_json (cpd_artifact_credentials x)),
      (''continuationToken'', json_of_option JStr (cpd_continuation_token x))])"

definition code_pipeline_data_of_json :: "json \<Rightarrow> code_pipeline_data option" where
  "code_pipeline_data_of_json j = do {
     kvs \<leftarrow> de_fields 4
       [''actionConfiguration'', ''inputArtifacts'', ''outputArtifacts'', ''artifactCredentials'',
        ''continuationToken''] j;
     x_action_configuration \<leftarrow> de_required code_pipeline_action_configuration_of_json [''actionConfiguration''] kvs;
     x_input_artifacts \<leftarrow> de_required (de_list code_pipeline_input_artifact_of_json) [''inputArtifacts''] kvs;
     x_out_put_artifacts \<leftarrow> de_required (de_list code_pipeline_output_artifact_of_json) [''outputArtifacts''] kvs;
     x_artifact_credentials \<leftarrow> de_required code_pipeline_artifact_credentials_of_json [''artifactCredentials''] kvs;
     x_continuation_token \<leftarrow> de_opt_string ''continuationToken'' kvs;
     Some \<lparr>cpd_action_configuration = x_action_configuration,
       cpd_input_artifacts = x_input_artifacts, cpd_out_put_artifacts = x_out_put_artifacts,
       cpd_artifact_credentials = x_artifact_credentials,
       cpd_continuation_token = x_continuation_token\<rparr> }"

lemma code_pipeline_data_not_null [simp]: "code_pipeline_data_json x \<noteq> JNull"
  by (simp add: code_pipeline_data_json_def)

lemma code_pipeline_data_read [read_back]: "code_pipeline_data_of_json (code_pipeline_data_json x) = Some x"
  by (cases x) (simp add: code_pipeline_data_of_json_def code_pipeline_data_json_def read_back)

record code_pipeline_job =
  cpj_id :: "string option"
  cpj_account_id :: "string option"
  cpj_data :: code_pipeline_data

definition code_pipeline_job_json :: "code_pipeline_job \<Rightarrow> json" where
  "code_pipeline_job_json x = JObj
     ([(''id'', json_of_option JStr (cpj_id x)),
      (''accountId'', json_of_option JStr (cpj_account_id x)),
      (''data'', code_pipeline_data_json (cpj_data x))])"

definition code_pipeline_job_of_json :: "json \<Rightarrow> code_pipeline_job option" where
  "code_pipeline_job_of_json j = do {
     kvs \<leftarrow> de_fields 3
       [''id'', ''accountId'', ''data''] j;
     x_id \<leftarrow> de_opt_string ''id'' kvs;
     x_account_id \<leftarrow> de_opt_string ''accountId'' kvs;
     x_data \<leftarrow> de_required code_pipeline_data_of_json [''data''] kvs;
     Some \<lparr>cpj_id = x_id, cpj_account_id = x_account_id, cpj_data = x_data\<rparr> }"

lemma code_pipeline_job_not_null [simp]: "code_pipeline_job_json x \<noteq> JNull"
  by (simp add: code_pipeline_job_json_def)

lemma code_pipeline_job_read [read_back]: "code_pipeline_job_of_json (code_pipeline_job_json x) = Some x"
  by (cases x) (simp add: code_pipeline_job_of_json_def code_pipeline_job_json_def read_back)

record code_pipeline_job_event =
  cpje_code_pipeline_job :: code_pipeline_job

definition code_pipeline_job_event_json :: "code_pipeline_job_event \<Rightarrow> json" where
  "code_pipeline_job_event_json x = JObj
     ([(''CodePipeline.job'', code_pipeline_job_json (cpje_code_pipeline_job x))])"

definition code_pipeline_job_event_of_json :: "json \<Rightarrow> code_pipeline_job_event option" where
  "code_pipeline_job_event_of_json j = do {
     kvs \<leftarrow> de_fields 1
       [''CodePipeline.job''] j;
     x_code_pipeline_job \<leftarrow> de_required code_pipeline_job_of_json [''CodePipeline.job''] kvs;
     Some \<lparr>cpje_code_pipeline_job = x_code_pipeline_job\<rparr> }"

lemma code_pipeline_job_event_not_null [simp]: "code_pipeline_job_event_json x \<noteq> JNull"
  by (simp add: code_pipeline_job_event_json_def)

lemma code_pipeline_job_event_read [read_back]: "code_pipeline_job_event_of_json (code_pipeline_job_event_json x) = Some x"
  by (cases x) (simp add: code_pipeline_job_event_of_json_def code_pipeline_job_event_json_def read_back)

subsection \<open>\<^verbatim>\<open>config\<close>\<close>

record config_event =
  ceve_account_id :: "string option"
  ceve_config_rule_arn :: "string option"
  ceve_config_rule_id :: "string option"
  ceve_config_rule_name :: "string option"
  ceve_event_left_scope :: bool
  ceve_execution_role_arn :: "string option"
  ceve_invoking_event :: "string option"
  ceve_result_token :: "string option"
  ceve_rule_parameters :: "string option"
  ceve_version :: "string option"

definition config_event_json :: "config_event \<Rightarrow> json" where
  "config_event_json x = JObj
     ([(''accountId'', json_of_option JStr (ceve_account_id x)),
      (''configRuleArn'', json_of_option JStr (ceve_config_rule_arn x)),
      (''configRuleId'', json_of_option JStr (ceve_config_rule_id x)),
      (''configRuleName'', json_of_option JStr (ceve_config_rule_name x)),
      (''eventLeftScope'', JBool (ceve_event_left_scope x)),
      (''executionRoleArn'', json_of_option JStr (ceve_execution_role_arn x)),
      (''invokingEvent'', json_of_option JStr (ceve_invoking_event x)),
      (''resultToken'', json_of_option JStr (ceve_result_token x)),
      (''ruleParameters'', json_of_option JStr (ceve_rule_parameters x)),
      (''version'', json_of_option JStr (ceve_version x))])"

definition config_event_of_json :: "json \<Rightarrow> config_event option" where
  "config_event_of_json j = do {
     kvs \<leftarrow> de_fields 5
       [''accountId'', ''configRuleArn'', ''configRuleId'', ''configRuleName'', ''eventLeftScope'',
        ''executionRoleArn'', ''invokingEvent'', ''resultToken'', ''ruleParameters'', ''version''] j;
     x_account_id \<leftarrow> de_opt_string ''accountId'' kvs;
     x_config_rule_arn \<leftarrow> de_opt_string ''configRuleArn'' kvs;
     x_config_rule_id \<leftarrow> de_opt_string ''configRuleId'' kvs;
     x_config_rule_name \<leftarrow> de_opt_string ''configRuleName'' kvs;
     x_event_left_scope \<leftarrow> de_required de_bool [''eventLeftScope''] kvs;
     x_execution_role_arn \<leftarrow> de_opt_string ''executionRoleArn'' kvs;
     x_invoking_event \<leftarrow> de_opt_string ''invokingEvent'' kvs;
     x_result_token \<leftarrow> de_opt_string ''resultToken'' kvs;
     x_rule_parameters \<leftarrow> de_opt_string ''ruleParameters'' kvs;
     x_version \<leftarrow> de_opt_string ''version'' kvs;
     Some \<lparr>ceve_account_id = x_account_id, ceve_config_rule_arn = x_config_rule_arn,
       ceve_config_rule_id = x_config_rule_id, ceve_config_rule_name = x_config_rule_name,
       ceve_event_left_scope = x_event_left_scope,
       ceve_execution_role_arn = x_execution_role_arn, ceve_invoking_event = x_invoking_event,
       ceve_result_token = x_result_token, ceve_rule_parameters = x_rule_parameters,
       ceve_version = x_version\<rparr> }"

lemma config_event_not_null [simp]: "config_event_json x \<noteq> JNull"
  by (simp add: config_event_json_def)

lemma config_event_read [read_back]: "config_event_of_json (config_event_json x) = Some x"
  by (cases x) (simp add: config_event_of_json_def config_event_json_def read_back)

subsection \<open>\<^verbatim>\<open>controltower\<close>\<close>

record controltower_user_identity =
  cui_account_id :: string
  cui_invoked_by :: "string option"

definition controltower_user_identity_json :: "controltower_user_identity \<Rightarrow> json" where
  "controltower_user_identity_json x = JObj
     ([(''accountId'', JStr (cui_account_id x)),
      (''invokedBy'', json_of_option JStr (cui_invoked_by x))])"

definition controltower_user_identity_of_json :: "json \<Rightarrow> controltower_user_identity option" where
  "controltower_user_identity_of_json j = do {
     kvs \<leftarrow> de_fields 1
       [''accountId'', ''invokedBy''] j;
     x_account_id \<leftarrow> de_required de_string [''accountId''] kvs;
     x_invoked_by \<leftarrow> de_opt_string ''invokedBy'' kvs;
     Some \<lparr>cui_account_id = x_account_id, cui_invoked_by = x_invoked_by\<rparr> }"

lemma controltower_user_identity_not_null [simp]: "controltower_user_identity_json x \<noteq> JNull"
  by (simp add: controltower_user_identity_json_def)

lemma controltower_user_identity_read [read_back]: "controltower_user_identity_of_json (controltower_user_identity_json x) = Some x"
  by (cases x) (simp add: controltower_user_identity_of_json_def controltower_user_identity_json_def read_back)

record organizational_unit =
  ou_organizational_unit_name :: string
  ou_organizational_unit_id :: string

definition organizational_unit_json :: "organizational_unit \<Rightarrow> json" where
  "organizational_unit_json x = JObj
     ([(''organizationalUnitName'', JStr (ou_organizational_unit_name x)),
      (''organizationalUnitId'', JStr (ou_organizational_unit_id x))])"

definition organizational_unit_of_json :: "json \<Rightarrow> organizational_unit option" where
  "organizational_unit_of_json j = do {
     kvs \<leftarrow> de_fields 2
       [''organizationalUnitName'', ''organizationalUnitId''] j;
     x_organizational_unit_name \<leftarrow> de_required de_string [''organizationalUnitName''] kvs;
     x_organizational_unit_id \<leftarrow> de_required de_string [''organizationalUnitId''] kvs;
     Some \<lparr>ou_organizational_unit_name = x_organizational_unit_name,
       ou_organizational_unit_id = x_organizational_unit_id\<rparr> }"

lemma organizational_unit_not_null [simp]: "organizational_unit_json x \<noteq> JNull"
  by (simp add: organizational_unit_json_def)

lemma organizational_unit_read [read_back]: "organizational_unit_of_json (organizational_unit_json x) = Some x"
  by (cases x) (simp add: organizational_unit_of_json_def organizational_unit_json_def read_back)

record account =
  acc_account_name :: string
  acc_account_id :: string

definition account_json :: "account \<Rightarrow> json" where
  "account_json x = JObj
     ([(''accountName'', JStr (acc_account_name x)),
      (''accountId'', JStr (acc_account_id x))])"

definition account_of_json :: "json \<Rightarrow> account option" where
  "account_of_json j = do {
     kvs \<leftarrow> de_fields 2
       [''accountName'', ''accountId''] j;
     x_account_name \<leftarrow> de_required de_string [''accountName''] kvs;
     x_account_id \<leftarrow> de_required de_string [''accountId''] kvs;
     Some \<lparr>acc_account_name = x_account_name, acc_account_id = x_account_id\<rparr> }"

lemma account_not_null [simp]: "account_json x \<noteq> JNull"
  by (simp add: account_json_def)

lemma account_read [read_back]: "account_of_json (account_json x) = Some x"
  by (cases x) (simp add: account_of_json_def account_json_def read_back)

record guardrail =
  gu_guardrail_id :: string
  gu_guardrail_behavior :: string

definition guardrail_json :: "guardrail \<Rightarrow> json" where
  "guardrail_json x = JObj
     ([(''guardrailId'', JStr (gu_guardrail_id x)),
      (''guardrailBehavior'', JStr (gu_guardrail_behavior x))])"

definition guardrail_of_json :: "json \<Rightarrow> guardrail option" where
  "guardrail_of_json j = do {
     kvs \<leftarrow> de_fields 2
       [''guardrailId'', ''guardrailBehavior''] j;
     x_guardrail_id \<leftarrow> de_required de_string [''guardrailId''] kvs;
     x_guardrail_behavior \<leftarrow> de_required de_string [''guardrailBehavior''] kvs;
     Some \<lparr>gu_guardrail_id = x_guardrail_id, gu_guardrail_behavior = x_guardrail_behavior\<rparr> }"

lemma guardrail_not_null [simp]: "guardrail_json x \<noteq> JNull"
  by (simp add: guardrail_json_def)

lemma guardrail_read [read_back]: "guardrail_of_json (guardrail_json x) = Some x"
  by (cases x) (simp add: guardrail_of_json_def guardrail_json_def read_back)

record managed_account_status =
  mas_organizational_unit :: organizational_unit
  mas_account :: account
  mas_state :: string
  mas_message :: string
  mas_requested_timestamp :: string
  mas_completed_timestamp :: string

definition managed_account_status_json :: "managed_account_status \<Rightarrow> json" where
  "managed_account_status_json x = JObj
     ([(''organizationalUnit'', organizational_unit_json (mas_organizational_unit x)),
      (''account'', account_json (mas_account x)),
      (''state'', JStr (mas_state x)),
      (''message'', JStr (mas_message x)),
      (''requestedTimestamp'', JStr (mas_requested_timestamp x)),
      (''completedTimestamp'', JStr (mas_completed_timestamp x))])"

definition managed_account_status_of_json :: "json \<Rightarrow> managed_account_status option" where
  "managed_account_status_of_json j = do {
     kvs \<leftarrow> de_fields 6
       [''organizationalUnit'', ''account'', ''state'', ''message'', ''requestedTimestamp'',
        ''completedTimestamp''] j;
     x_organizational_unit \<leftarrow> de_required organizational_unit_of_json [''organizationalUnit''] kvs;
     x_account \<leftarrow> de_required account_of_json [''account''] kvs;
     x_state \<leftarrow> de_required de_string [''state''] kvs;
     x_message \<leftarrow> de_required de_string [''message''] kvs;
     x_requested_timestamp \<leftarrow> de_required de_string [''requestedTimestamp''] kvs;
     x_completed_timestamp \<leftarrow> de_required de_string [''completedTimestamp''] kvs;
     Some \<lparr>mas_organizational_unit = x_organizational_unit, mas_account = x_account,
       mas_state = x_state, mas_message = x_message,
       mas_requested_timestamp = x_requested_timestamp,
       mas_completed_timestamp = x_completed_timestamp\<rparr> }"

lemma managed_account_status_not_null [simp]: "managed_account_status_json x \<noteq> JNull"
  by (simp add: managed_account_status_json_def)

lemma managed_account_status_read [read_back]: "managed_account_status_of_json (managed_account_status_json x) = Some x"
  by (cases x) (simp add: managed_account_status_of_json_def managed_account_status_json_def read_back)

record guardrail_status =
  gs_organizational_units :: "organizational_unit list"
  gs_guardrails :: "guardrail list"
  gs_state :: string
  gs_message :: string
  gs_request_timestamp :: string
  gs_completed_timestamp :: string

definition guardrail_status_json :: "guardrail_status \<Rightarrow> json" where
  "guardrail_status_json x = JObj
     ([(''organizationalUnits'', json_of_list organizational_unit_json (gs_organizational_units x)),
      (''guardrails'', json_of_list guardrail_json (gs_guardrails x)),
      (''state'', JStr (gs_state x)),
      (''message'', JStr (gs_message x)),
      (''requestTimestamp'', JStr (gs_request_timestamp x)),
      (''completedTimestamp'', JStr (gs_completed_timestamp x))])"

definition guardrail_status_of_json :: "json \<Rightarrow> guardrail_status option" where
  "guardrail_status_of_json j = do {
     kvs \<leftarrow> de_fields 6
       [''organizationalUnits'', ''guardrails'', ''state'', ''message'', ''requestTimestamp'',
        ''completedTimestamp''] j;
     x_organizational_units \<leftarrow> de_required (de_list organizational_unit_of_json) [''organizationalUnits''] kvs;
     x_guardrails \<leftarrow> de_required (de_list guardrail_of_json) [''guardrails''] kvs;
     x_state \<leftarrow> de_required de_string [''state''] kvs;
     x_message \<leftarrow> de_required de_string [''message''] kvs;
     x_request_timestamp \<leftarrow> de_required de_string [''requestTimestamp''] kvs;
     x_completed_timestamp \<leftarrow> de_required de_string [''completedTimestamp''] kvs;
     Some \<lparr>gs_organizational_units = x_organizational_units, gs_guardrails = x_guardrails,
       gs_state = x_state, gs_message = x_message, gs_request_timestamp = x_request_timestamp,
       gs_completed_timestamp = x_completed_timestamp\<rparr> }"

lemma guardrail_status_not_null [simp]: "guardrail_status_json x \<noteq> JNull"
  by (simp add: guardrail_status_json_def)

lemma guardrail_status_read [read_back]: "guardrail_status_of_json (guardrail_status_json x) = Some x"
  by (cases x) (simp add: guardrail_status_of_json_def guardrail_status_json_def read_back)

record landing_zone_status =
  lzs_state :: string
  lzs_message :: string
  lzs_root_organizational_id :: string
  lzs_organizational_units :: "organizational_unit list"
  lzs_accounts :: "account list"
  lzs_requested_timestamp :: string
  lzs_completed_timestamp :: string

definition landing_zone_status_json :: "landing_zone_status \<Rightarrow> json" where
  "landing_zone_status_json x = JObj
     ([(''state'', JStr (lzs_state x)),
      (''message'', JStr (lzs_message x)),
      (''rootOrganizationalId'', JStr (lzs_root_organizational_id x)),
      (''organizationalUnits'', json_of_list organizational_unit_json (lzs_organizational_units x)),
      (''accounts'', json_of_list account_json (lzs_accounts x)),
      (''requestedTimestamp'', JStr (lzs_requested_timestamp x)),
      (''completedTimestamp'', JStr (lzs_completed_timestamp x))])"

definition landing_zone_status_of_json :: "json \<Rightarrow> landing_zone_status option" where
  "landing_zone_status_of_json j = do {
     kvs \<leftarrow> de_fields 7
       [''state'', ''message'', ''rootOrganizationalId'', ''organizationalUnits'', ''accounts'',
        ''requestedTimestamp'', ''completedTimestamp''] j;
     x_state \<leftarrow> de_required de_string [''state''] kvs;
     x_message \<leftarrow> de_required de_string [''message''] kvs;
     x_root_organizational_id \<leftarrow> de_required de_string [''rootOrganizationalId''] kvs;
     x_organizational_units \<leftarrow> de_required (de_list organizational_unit_of_json) [''organizationalUnits''] kvs;
     x_accounts \<leftarrow> de_required (de_list account_of_json) [''accounts''] kvs;
     x_requested_timestamp \<leftarrow> de_required de_string [''requestedTimestamp''] kvs;
     x_completed_timestamp \<leftarrow> de_required de_string [''completedTimestamp''] kvs;
     Some \<lparr>lzs_state = x_state, lzs_message = x_message,
       lzs_root_organizational_id = x_root_organizational_id,
       lzs_organizational_units = x_organizational_units, lzs_accounts = x_accounts,
       lzs_requested_timestamp = x_requested_timestamp,
       lzs_completed_timestamp = x_completed_timestamp\<rparr> }"

lemma landing_zone_status_not_null [simp]: "landing_zone_status_json x \<noteq> JNull"
  by (simp add: landing_zone_status_json_def)

lemma landing_zone_status_read [read_back]: "landing_zone_status_of_json (landing_zone_status_json x) = Some x"
  by (cases x) (simp add: landing_zone_status_of_json_def landing_zone_status_json_def read_back)

record organizational_unit_registration_status =
  ours_state :: string
  ours_message :: string
  ours_organizational_unit :: organizational_unit
  ours_requested_timestamp :: string
  ours_completed_timestamp :: string

definition organizational_unit_registration_status_json :: "organizational_unit_registration_status \<Rightarrow> json" where
  "organizational_unit_registration_status_json x = JObj
     ([(''state'', JStr (ours_state x)),
      (''message'', JStr (ours_message x)),
      (''organizationalUnit'', organizational_unit_json (ours_organizational_unit x)),
      (''requestedTimestamp'', JStr (ours_requested_timestamp x)),
      (''completedTimestamp'', JStr (ours_completed_timestamp x))])"

definition organizational_unit_registration_status_of_json :: "json \<Rightarrow> organizational_unit_registration_status option" where
  "organizational_unit_registration_status_of_json j = do {
     kvs \<leftarrow> de_fields 5
       [''state'', ''message'', ''organizationalUnit'', ''requestedTimestamp'',
        ''completedTimestamp''] j;
     x_state \<leftarrow> de_required de_string [''state''] kvs;
     x_message \<leftarrow> de_required de_string [''message''] kvs;
     x_organizational_unit \<leftarrow> de_required organizational_unit_of_json [''organizationalUnit''] kvs;
     x_requested_timestamp \<leftarrow> de_required de_string [''requestedTimestamp''] kvs;
     x_completed_timestamp \<leftarrow> de_required de_string [''completedTimestamp''] kvs;
     Some \<lparr>ours_state = x_state, ours_message = x_message,
       ours_organizational_unit = x_organizational_unit,
       ours_requested_timestamp = x_requested_timestamp,
       ours_completed_timestamp = x_completed_timestamp\<rparr> }"

lemma organizational_unit_registration_status_not_null [simp]: "organizational_unit_registration_status_json x \<noteq> JNull"
  by (simp add: organizational_unit_registration_status_json_def)

lemma organizational_unit_registration_status_read [read_back]: "organizational_unit_registration_status_of_json (organizational_unit_registration_status_json x) = Some x"
  by (cases x) (simp add: organizational_unit_registration_status_of_json_def organizational_unit_registration_status_json_def read_back)

record precheck_organizational_unit =
  pou_organizational_unit_name :: string
  pou_organizational_unit_id :: string
  pou_failed_prechecks :: "string list"

definition precheck_organizational_unit_json :: "precheck_organizational_unit \<Rightarrow> json" where
  "precheck_organizational_unit_json x = JObj
     ([(''organizationalUnitName'', JStr (pou_organizational_unit_name x)),
      (''organizationalUnitId'', JStr (pou_organizational_unit_id x)),
      (''failedPrechecks'', json_of_list JStr (pou_failed_prechecks x))])"

definition precheck_organizational_unit_of_json :: "json \<Rightarrow> precheck_organizational_unit option" where
  "precheck_organizational_unit_of_json j = do {
     kvs \<leftarrow> de_fields 2
       [''organizationalUnitName'', ''organizationalUnitId'', ''failedPrechecks''] j;
     x_organizational_unit_name \<leftarrow> de_required de_string [''organizationalUnitName''] kvs;
     x_organizational_unit_id \<leftarrow> de_required de_string [''organizationalUnitId''] kvs;
     x_failed_prechecks \<leftarrow> de_default (de_list de_string) [] [''failedPrechecks''] kvs;
     Some \<lparr>pou_organizational_unit_name = x_organizational_unit_name,
       pou_organizational_unit_id = x_organizational_unit_id,
       pou_failed_prechecks = x_failed_prechecks\<rparr> }"

lemma precheck_organizational_unit_not_null [simp]: "precheck_organizational_unit_json x \<noteq> JNull"
  by (simp add: precheck_organizational_unit_json_def)

lemma precheck_organizational_unit_read [read_back]: "precheck_organizational_unit_of_json (precheck_organizational_unit_json x) = Some x"
  by (cases x) (simp add: precheck_organizational_unit_of_json_def precheck_organizational_unit_json_def read_back)

record precheck_account =
  pac_account_name :: string
  pac_account_id :: string
  pac_failed_prechecks :: "string list"

definition precheck_account_json :: "precheck_account \<Rightarrow> json" where
  "precheck_account_json x = JObj
     ([(''accountName'', JStr (pac_account_name x)),
      (''accountId'', JStr (pac_account_id x)),
      (''failedPrechecks'', json_of_list JStr (pac_failed_prechecks x))])"

definition precheck_account_of_json :: "json \<Rightarrow> precheck_account option" where
  "precheck_account_of_json j = do {
     kvs \<leftarrow> de_fields 2
       [''accountName'', ''accountId'', ''failedPrechecks''] j;
     x_account_name \<leftarrow> de_required de_string [''accountName''] kvs;
     x_account_id \<leftarrow> de_required de_string [''accountId''] kvs;
     x_failed_prechecks \<leftarrow> de_default (de_list de_string) [] [''failedPrechecks''] kvs;
     Some \<lparr>pac_account_name = x_account_name, pac_account_id = x_account_id,
       pac_failed_prechecks = x_failed_prechecks\<rparr> }"

lemma precheck_account_not_null [simp]: "precheck_account_json x \<noteq> JNull"
  by (simp add: precheck_account_json_def)

lemma precheck_account_read [read_back]: "precheck_account_of_json (precheck_account_json x) = Some x"
  by (cases x) (simp add: precheck_account_of_json_def precheck_account_json_def read_back)

record precheck_organizational_unit_status =
  pous_organizational_unit :: precheck_organizational_unit
  pous_accounts :: "precheck_account list"
  pous_state :: string
  pous_message :: string
  pous_requested_timestamp :: string
  pous_completed_timestamp :: string

definition precheck_organizational_unit_status_json :: "precheck_organizational_unit_status \<Rightarrow> json" where
  "precheck_organizational_unit_status_json x = JObj
     ([(''organizationalUnit'', precheck_organizational_unit_json (pous_organizational_unit x)),
      (''accounts'', json_of_list precheck_account_json (pous_accounts x)),
      (''state'', JStr (pous_state x)),
      (''message'', JStr (pous_message x)),
      (''requestedTimestamp'', JStr (pous_requested_timestamp x)),
      (''completedTimestamp'', JStr (pous_completed_timestamp x))])"

definition precheck_organizational_unit_status_of_json :: "json \<Rightarrow> precheck_organizational_unit_status option" where
  "precheck_organizational_unit_status_of_json j = do {
     kvs \<leftarrow> de_fields 6
       [''organizationalUnit'', ''accounts'', ''state'', ''message'', ''requestedTimestamp'',
        ''completedTimestamp''] j;
     x_organizational_unit \<leftarrow> de_required precheck_organizational_unit_of_json [''organizationalUnit''] kvs;
     x_accounts \<leftarrow> de_required (de_list precheck_account_of_json) [''accounts''] kvs;
     x_state \<leftarrow> de_required de_string [''state''] kvs;
     x_message \<leftarrow> de_required de_string [''message''] kvs;
     x_requested_timestamp \<leftarrow> de_required de_string [''requestedTimestamp''] kvs;
     x_completed_timestamp \<leftarrow> de_required de_string [''completedTimestamp''] kvs;
     Some \<lparr>pous_organizational_unit = x_organizational_unit, pous_accounts = x_accounts,
       pous_state = x_state, pous_message = x_message,
       pous_requested_timestamp = x_requested_timestamp,
       pous_completed_timestamp = x_completed_timestamp\<rparr> }"

lemma precheck_organizational_unit_status_not_null [simp]: "precheck_organizational_unit_status_json x \<noteq> JNull"
  by (simp add: precheck_organizational_unit_status_json_def)

lemma precheck_organizational_unit_status_read [read_back]: "precheck_organizational_unit_status_of_json (precheck_organizational_unit_status_json x) = Some x"
  by (cases x) (simp add: precheck_organizational_unit_status_of_json_def precheck_organizational_unit_status_json_def read_back)

record baseline_status_summary =
  bssu_last_operation_identifier :: string
  bssu_status :: string

definition baseline_status_summary_json :: "baseline_status_summary \<Rightarrow> json" where
  "baseline_status_summary_json x = JObj
     ([(''lastOperationIdentifier'', JStr (bssu_last_operation_identifier x)),
      (''status'', JStr (bssu_status x))])"

definition baseline_status_summary_of_json :: "json \<Rightarrow> baseline_status_summary option" where
  "baseline_status_summary_of_json j = do {
     kvs \<leftarrow> de_fields 2
       [''lastOperationIdentifier'', ''status''] j;
     x_last_operation_identifier \<leftarrow> de_required de_string [''lastOperationIdentifier''] kvs;
     x_status \<leftarrow> de_required de_string [''status''] kvs;
     Some \<lparr>bssu_last_operation_identifier = x_last_operation_identifier, bssu_status = x_status\<rparr> }"

lemma baseline_status_summary_not_null [simp]: "baseline_status_summary_json x \<noteq> JNull"
  by (simp add: baseline_status_summary_json_def)

lemma baseline_status_summary_read [read_back]: "baseline_status_summary_of_json (baseline_status_summary_json x) = Some x"
  by (cases x) (simp add: baseline_status_summary_of_json_def baseline_status_summary_json_def read_back)

record baseline_untyped_value =
  buv_object :: string

definition baseline_untyped_value_json :: "baseline_untyped_value \<Rightarrow> json" where
  "baseline_untyped_value_json x = JObj
     ([(''object'', JStr (buv_object x))])"

definition baseline_untyped_value_of_json :: "json \<Rightarrow> baseline_untyped_value option" where
  "baseline_untyped_value_of_json j = do {
     kvs \<leftarrow> de_fields 1
       [''object''] j;
     x_object \<leftarrow> de_required de_string [''object''] kvs;
     Some \<lparr>buv_object = x_object\<rparr> }"

lemma baseline_untyped_value_not_null [simp]: "baseline_untyped_value_json x \<noteq> JNull"
  by (simp add: baseline_untyped_value_json_def)

lemma baseline_untyped_value_read [read_back]: "baseline_untyped_value_of_json (baseline_untyped_value_json x) = Some x"
  by (cases x) (simp add: baseline_untyped_value_of_json_def baseline_untyped_value_json_def read_back)

record baseline_parameter_value =
  bpv_untyped :: baseline_untyped_value

definition baseline_parameter_value_json :: "baseline_parameter_value \<Rightarrow> json" where
  "baseline_parameter_value_json x = JObj
     ([(''untyped'', baseline_untyped_value_json (bpv_untyped x))])"

definition baseline_parameter_value_of_json :: "json \<Rightarrow> baseline_parameter_value option" where
  "baseline_parameter_value_of_json j = do {
     kvs \<leftarrow> de_fields 1
       [''untyped''] j;
     x_untyped \<leftarrow> de_required baseline_untyped_value_of_json [''untyped''] kvs;
     Some \<lparr>bpv_untyped = x_untyped\<rparr> }"

lemma baseline_parameter_value_not_null [simp]: "baseline_parameter_value_json x \<noteq> JNull"
  by (simp add: baseline_parameter_value_json_def)

lemma baseline_parameter_value_read [read_back]: "baseline_parameter_value_of_json (baseline_parameter_value_json x) = Some x"
  by (cases x) (simp add: baseline_parameter_value_of_json_def baseline_parameter_value_json_def read_back)

record baseline_parameter =
  bp_key :: string
  bp_value :: baseline_parameter_value

definition baseline_parameter_json :: "baseline_parameter \<Rightarrow> json" where
  "baseline_parameter_json x = JObj
     ([(''key'', JStr (bp_key x)),
      (''value'', baseline_parameter_value_json (bp_value x))])"

definition baseline_parameter_of_json :: "json \<Rightarrow> baseline_parameter option" where
  "baseline_parameter_of_json j = do {
     kvs \<leftarrow> de_fields 2
       [''key'', ''value''] j;
     x_key \<leftarrow> de_required de_string [''key''] kvs;
     x_value \<leftarrow> de_required baseline_parameter_value_of_json [''value''] kvs;
     Some \<lparr>bp_key = x_key, bp_value = x_value\<rparr> }"

lemma baseline_parameter_not_null [simp]: "baseline_parameter_json x \<noteq> JNull"
  by (simp add: baseline_parameter_json_def)

lemma baseline_parameter_read [read_back]: "baseline_parameter_of_json (baseline_parameter_json x) = Some x"
  by (cases x) (simp add: baseline_parameter_of_json_def baseline_parameter_json_def read_back)

record enabled_baseline_details =
  ebd_arn :: string
  ebd_parent_identifier :: string
  ebd_target_identifier :: string
  ebd_baseline_identifier :: string
  ebd_baseline_version :: string
  ebd_status_summary :: baseline_status_summary
  ebd_parameters :: "baseline_parameter list"

definition enabled_baseline_details_json :: "enabled_baseline_details \<Rightarrow> json" where
  "enabled_baseline_details_json x = JObj
     ([(''arn'', JStr (ebd_arn x)),
      (''parentIdentifier'', JStr (ebd_parent_identifier x)),
      (''targetIdentifier'', JStr (ebd_target_identifier x)),
      (''baselineIdentifier'', JStr (ebd_baseline_identifier x)),
      (''baselineVersion'', JStr (ebd_baseline_version x)),
      (''statusSummary'', baseline_status_summary_json (ebd_status_summary x)),
      (''parameters'', json_of_list baseline_parameter_json (ebd_parameters x))])"

definition enabled_baseline_details_of_json :: "json \<Rightarrow> enabled_baseline_details option" where
  "enabled_baseline_details_of_json j = do {
     kvs \<leftarrow> de_fields 6
       [''arn'', ''parentIdentifier'', ''targetIdentifier'', ''baselineIdentifier'',
        ''baselineVersion'', ''statusSummary'', ''parameters''] j;
     x_arn \<leftarrow> de_required de_string [''arn''] kvs;
     x_parent_identifier \<leftarrow> de_required de_string [''parentIdentifier''] kvs;
     x_target_identifier \<leftarrow> de_required de_string [''targetIdentifier''] kvs;
     x_baseline_identifier \<leftarrow> de_required de_string [''baselineIdentifier''] kvs;
     x_baseline_version \<leftarrow> de_required de_string [''baselineVersion''] kvs;
     x_status_summary \<leftarrow> de_required baseline_status_summary_of_json [''statusSummary''] kvs;
     x_parameters \<leftarrow> de_default (de_list baseline_parameter_of_json) [] [''parameters''] kvs;
     Some \<lparr>ebd_arn = x_arn, ebd_parent_identifier = x_parent_identifier,
       ebd_target_identifier = x_target_identifier,
       ebd_baseline_identifier = x_baseline_identifier,
       ebd_baseline_version = x_baseline_version, ebd_status_summary = x_status_summary,
       ebd_parameters = x_parameters\<rparr> }"

lemma enabled_baseline_details_not_null [simp]: "enabled_baseline_details_json x \<noteq> JNull"
  by (simp add: enabled_baseline_details_json_def)

lemma enabled_baseline_details_read [read_back]: "enabled_baseline_details_of_json (enabled_baseline_details_json x) = Some x"
  by (cases x) (simp add: enabled_baseline_details_of_json_def enabled_baseline_details_json_def read_back)

record baseline_status =
  bs_enabled_baseline_details :: enabled_baseline_details
  bs_baseline_details :: "enabled_baseline_details option"
  bs_requested_timestamp :: string
  bs_completed_timestamp :: string

definition baseline_status_json :: "baseline_status \<Rightarrow> json" where
  "baseline_status_json x = JObj
     ([(''enabledBaselineDetails'', enabled_baseline_details_json (bs_enabled_baseline_details x)),
      (''baselineDetails'', json_of_option enabled_baseline_details_json (bs_baseline_details x)),
      (''requestedTimestamp'', JStr (bs_requested_timestamp x)),
      (''completedTimestamp'', JStr (bs_completed_timestamp x))])"

definition baseline_status_of_json :: "json \<Rightarrow> baseline_status option" where
  "baseline_status_of_json j = do {
     kvs \<leftarrow> de_fields 4
       [''enabledBaselineDetails'', ''baselineDetails'', ''requestedTimestamp'',
        ''completedTimestamp''] j;
     x_enabled_baseline_details \<leftarrow> de_required enabled_baseline_details_of_json [''enabledBaselineDetails''] kvs;
     x_baseline_details \<leftarrow> de_optional enabled_baseline_details_of_json [''baselineDetails''] kvs;
     x_requested_timestamp \<leftarrow> de_required de_string [''requestedTimestamp''] kvs;
     x_completed_timestamp \<leftarrow> de_required de_string [''completedTimestamp''] kvs;
     Some \<lparr>bs_enabled_baseline_details = x_enabled_baseline_details,
       bs_baseline_details = x_baseline_details, bs_requested_timestamp = x_requested_timestamp,
       bs_completed_timestamp = x_completed_timestamp\<rparr> }"

lemma baseline_status_not_null [simp]: "baseline_status_json x \<noteq> JNull"
  by (simp add: baseline_status_json_def)

lemma baseline_status_read [read_back]: "baseline_status_of_json (baseline_status_json x) = Some x"
  by (cases x) (simp add: baseline_status_of_json_def baseline_status_json_def read_back)

datatype service_event_details =
    ServiceEventDetails_CreateManagedAccountStatus managed_account_status
  | ServiceEventDetails_UpdateManagedAccountStatus managed_account_status
  | ServiceEventDetails_EnableGuardrailStatus guardrail_status
  | ServiceEventDetails_DisableGuardrailStatus guardrail_status
  | ServiceEventDetails_SetupLandingZoneStatus landing_zone_status
  | ServiceEventDetails_UpdateLandingZoneStatus landing_zone_status
  | ServiceEventDetails_RegisterOrganizationalUnitStatus organizational_unit_registration_status
  | ServiceEventDetails_DeregisterOrganizationalUnitStatus organizational_unit_registration_status
  | ServiceEventDetails_PrecheckOrganizationalUnitStatus precheck_organizational_unit_status
  | ServiceEventDetails_EnableBaselineStatus baseline_status
  | ServiceEventDetails_ResetEnabledBaselineStatus baseline_status
  | ServiceEventDetails_UpdateEnabledBaselineStatus baseline_status
  | ServiceEventDetails_DisableBaselineStatus baseline_status

fun service_event_details_json :: "service_event_details \<Rightarrow> json" where
  "service_event_details_json (ServiceEventDetails_CreateManagedAccountStatus x) = JObj [(''createManagedAccountStatus'', managed_account_status_json x)]"
| "service_event_details_json (ServiceEventDetails_UpdateManagedAccountStatus x) = JObj [(''updateManagedAccountStatus'', managed_account_status_json x)]"
| "service_event_details_json (ServiceEventDetails_EnableGuardrailStatus x) = JObj [(''enableGuardrailStatus'', guardrail_status_json x)]"
| "service_event_details_json (ServiceEventDetails_DisableGuardrailStatus x) = JObj [(''disableGuardrailStatus'', guardrail_status_json x)]"
| "service_event_details_json (ServiceEventDetails_SetupLandingZoneStatus x) = JObj [(''setupLandingZoneStatus'', landing_zone_status_json x)]"
| "service_event_details_json (ServiceEventDetails_UpdateLandingZoneStatus x) = JObj [(''updateLandingZoneStatus'', landing_zone_status_json x)]"
| "service_event_details_json (ServiceEventDetails_RegisterOrganizationalUnitStatus x) = JObj [(''registerOrganizationalUnitStatus'', organizational_unit_registration_status_json x)]"
| "service_event_details_json (ServiceEventDetails_DeregisterOrganizationalUnitStatus x) = JObj [(''deregisterOrganizationalUnitStatus'', organizational_unit_registration_status_json x)]"
| "service_event_details_json (ServiceEventDetails_PrecheckOrganizationalUnitStatus x) = JObj [(''precheckOrganizationalUnitStatus'', precheck_organizational_unit_status_json x)]"
| "service_event_details_json (ServiceEventDetails_EnableBaselineStatus x) = JObj [(''enableBaselineStatus'', baseline_status_json x)]"
| "service_event_details_json (ServiceEventDetails_ResetEnabledBaselineStatus x) = JObj [(''resetEnabledBaselineStatus'', baseline_status_json x)]"
| "service_event_details_json (ServiceEventDetails_UpdateEnabledBaselineStatus x) = JObj [(''updateEnabledBaselineStatus'', baseline_status_json x)]"
| "service_event_details_json (ServiceEventDetails_DisableBaselineStatus x) = JObj [(''disableBaselineStatus'', baseline_status_json x)]"

definition service_event_details_of_json :: "json \<Rightarrow> service_event_details option" where
  "service_event_details_of_json = de_newtype
     [(''createManagedAccountStatus'', \<lambda>j. map_option ServiceEventDetails_CreateManagedAccountStatus (managed_account_status_of_json j)),
      (''updateManagedAccountStatus'', \<lambda>j. map_option ServiceEventDetails_UpdateManagedAccountStatus (managed_account_status_of_json j)),
      (''enableGuardrailStatus'', \<lambda>j. map_option ServiceEventDetails_EnableGuardrailStatus (guardrail_status_of_json j)),
      (''disableGuardrailStatus'', \<lambda>j. map_option ServiceEventDetails_DisableGuardrailStatus (guardrail_status_of_json j)),
      (''setupLandingZoneStatus'', \<lambda>j. map_option ServiceEventDetails_SetupLandingZoneStatus (landing_zone_status_of_json j)),
      (''updateLandingZoneStatus'', \<lambda>j. map_option ServiceEventDetails_UpdateLandingZoneStatus (landing_zone_status_of_json j)),
      (''registerOrganizationalUnitStatus'', \<lambda>j. map_option ServiceEventDetails_RegisterOrganizationalUnitStatus (organizational_unit_registration_status_of_json j)),
      (''deregisterOrganizationalUnitStatus'', \<lambda>j. map_option ServiceEventDetails_DeregisterOrganizationalUnitStatus (organizational_unit_registration_status_of_json j)),
      (''precheckOrganizationalUnitStatus'', \<lambda>j. map_option ServiceEventDetails_PrecheckOrganizationalUnitStatus (precheck_organizational_unit_status_of_json j)),
      (''enableBaselineStatus'', \<lambda>j. map_option ServiceEventDetails_EnableBaselineStatus (baseline_status_of_json j)),
      (''resetEnabledBaselineStatus'', \<lambda>j. map_option ServiceEventDetails_ResetEnabledBaselineStatus (baseline_status_of_json j)),
      (''updateEnabledBaselineStatus'', \<lambda>j. map_option ServiceEventDetails_UpdateEnabledBaselineStatus (baseline_status_of_json j)),
      (''disableBaselineStatus'', \<lambda>j. map_option ServiceEventDetails_DisableBaselineStatus (baseline_status_of_json j))]"

lemma service_event_details_not_null [simp]: "service_event_details_json x \<noteq> JNull"
  by (cases x) simp_all

lemma service_event_details_read [read_back]: "service_event_details_of_json (service_event_details_json x) = Some x"
  by (cases x) (auto simp: service_event_details_of_json_def read_newtype read_back)

record control_tower_lifecycle_event =
  ctle_event_version :: string
  ctle_user_identity :: controltower_user_identity
  ctle_event_time :: string
  ctle_event_source :: string
  ctle_event_name :: string
  ctle_aws_region :: string
  ctle_source_ip_address :: string
  ctle_user_agent :: string
  ctle_event_id :: string
  ctle_read_only :: bool
  ctle_event_type :: string
  ctle_service_event_details :: service_event_details
  ctle_management_event :: "bool option"
  ctle_recipient_account_id :: "string option"
  ctle_request_parameters :: "json option"
  ctle_response_elements :: "json option"
  ctle_event_category :: "string option"

definition control_tower_lifecycle_event_json :: "control_tower_lifecycle_event \<Rightarrow> json" where
  "control_tower_lifecycle_event_json x = JObj
     ([(''eventVersion'', JStr (ctle_event_version x)),
      (''userIdentity'', controltower_user_identity_json (ctle_user_identity x)),
      (''eventTime'', JStr (ctle_event_time x)),
      (''eventSource'', JStr (ctle_event_source x)),
      (''eventName'', JStr (ctle_event_name x)),
      (''awsRegion'', JStr (ctle_aws_region x)),
      (''sourceIPAddress'', JStr (ctle_source_ip_address x)),
      (''userAgent'', JStr (ctle_user_agent x)),
      (''eventID'', JStr (ctle_event_id x)),
      (''readOnly'', JBool (ctle_read_only x)),
      (''eventType'', JStr (ctle_event_type x)),
      (''serviceEventDetails'', service_event_details_json (ctle_service_event_details x)),
      (''managementEvent'', json_of_option JBool (ctle_management_event x)),
      (''recipientAccountId'', json_of_option JStr (ctle_recipient_account_id x)),
      (''requestParameters'', json_of_option (\<lambda>v. v) (ctle_request_parameters x)),
      (''responseElements'', json_of_option (\<lambda>v. v) (ctle_response_elements x)),
      (''eventCategory'', json_of_option JStr (ctle_event_category x))])"

definition control_tower_lifecycle_event_of_json :: "json \<Rightarrow> control_tower_lifecycle_event option" where
  "control_tower_lifecycle_event_of_json j = do {
     kvs \<leftarrow> de_fields 12
       [''eventVersion'', ''userIdentity'', ''eventTime'', ''eventSource'', ''eventName'',
        ''awsRegion'', ''sourceIPAddress'', ''userAgent'', ''eventID'', ''readOnly'',
        ''eventType'', ''serviceEventDetails'', ''managementEvent'', ''recipientAccountId'',
        ''requestParameters'', ''responseElements'', ''eventCategory''] j;
     x_event_version \<leftarrow> de_required de_string [''eventVersion''] kvs;
     x_user_identity \<leftarrow> de_required controltower_user_identity_of_json [''userIdentity''] kvs;
     x_event_time \<leftarrow> de_required de_string [''eventTime''] kvs;
     x_event_source \<leftarrow> de_required de_string [''eventSource''] kvs;
     x_event_name \<leftarrow> de_required de_string [''eventName''] kvs;
     x_aws_region \<leftarrow> de_required de_string [''awsRegion''] kvs;
     x_source_ip_address \<leftarrow> de_required de_string [''sourceIPAddress''] kvs;
     x_user_agent \<leftarrow> de_required de_string [''userAgent''] kvs;
     x_event_id \<leftarrow> de_required de_string [''eventID''] kvs;
     x_read_only \<leftarrow> de_required de_bool [''readOnly''] kvs;
     x_event_type \<leftarrow> de_required de_string [''eventType''] kvs;
     x_service_event_details \<leftarrow> de_required service_event_details_of_json [''serviceEventDetails''] kvs;
     x_management_event \<leftarrow> de_optional de_bool [''managementEvent''] kvs;
     x_recipient_account_id \<leftarrow> de_opt_string ''recipientAccountId'' kvs;
     x_request_parameters \<leftarrow> de_optional Some [''requestParameters''] kvs;
     x_response_elements \<leftarrow> de_optional Some [''responseElements''] kvs;
     x_event_category \<leftarrow> de_opt_string ''eventCategory'' kvs;
     Some \<lparr>ctle_event_version = x_event_version, ctle_user_identity = x_user_identity,
       ctle_event_time = x_event_time, ctle_event_source = x_event_source,
       ctle_event_name = x_event_name, ctle_aws_region = x_aws_region,
       ctle_source_ip_address = x_source_ip_address, ctle_user_agent = x_user_agent,
       ctle_event_id = x_event_id, ctle_read_only = x_read_only, ctle_event_type = x_event_type,
       ctle_service_event_details = x_service_event_details,
       ctle_management_event = x_management_event,
       ctle_recipient_account_id = x_recipient_account_id,
       ctle_request_parameters = x_request_parameters,
       ctle_response_elements = x_response_elements, ctle_event_category = x_event_category\<rparr> }"

definition control_tower_lifecycle_event_good :: "control_tower_lifecycle_event \<Rightarrow> bool" where
  "control_tower_lifecycle_event_good x \<longleftrightarrow>
     ctle_request_parameters x \<noteq> Some JNull \<and>
     ctle_response_elements x \<noteq> Some JNull"

lemma control_tower_lifecycle_event_not_null [simp]: "control_tower_lifecycle_event_json x \<noteq> JNull"
  by (simp add: control_tower_lifecycle_event_json_def)

lemma control_tower_lifecycle_event_read [read_back]: "control_tower_lifecycle_event_good x \<Longrightarrow>control_tower_lifecycle_event_of_json (control_tower_lifecycle_event_json x) = Some x"
  by (cases x) (clarsimp simp: control_tower_lifecycle_event_of_json_def control_tower_lifecycle_event_json_def control_tower_lifecycle_event_good_def read_back)

lemma control_tower_lifecycle_event_typed: "typed control_tower_lifecycle_event_good control_tower_lifecycle_event_of_json"
  unfolding typed_def control_tower_lifecycle_event_of_json_def control_tower_lifecycle_event_good_def
  by (auto simp: bind_eq_Some_conv dest!: typed_optional_value)

subsection \<open>\<^verbatim>\<open>ecr_scan\<close>\<close>

record ecr_scan_event_finding_severity_counts =
  esefsc_critical :: "int option"
  esefsc_high :: "int option"
  esefsc_medium :: "int option"
  esefsc_low :: "int option"
  esefsc_informational :: "int option"
  esefsc_undefined :: "int option"

definition ecr_scan_event_finding_severity_counts_json :: "ecr_scan_event_finding_severity_counts \<Rightarrow> json" where
  "ecr_scan_event_finding_severity_counts_json x = JObj
     ([(''CRITICAL'', json_of_option JInt (esefsc_critical x)),
      (''HIGH'', json_of_option JInt (esefsc_high x)),
      (''MEDIUM'', json_of_option JInt (esefsc_medium x)),
      (''LOW'', json_of_option JInt (esefsc_low x)),
      (''INFORMATIONAL'', json_of_option JInt (esefsc_informational x)),
      (''UNDEFINED'', json_of_option JInt (esefsc_undefined x))])"

definition ecr_scan_event_finding_severity_counts_of_json :: "json \<Rightarrow> ecr_scan_event_finding_severity_counts option" where
  "ecr_scan_event_finding_severity_counts_of_json j = do {
     kvs \<leftarrow> de_fields 0
       [''CRITICAL'', ''HIGH'', ''MEDIUM'', ''LOW'', ''INFORMATIONAL'', ''UNDEFINED''] j;
     x_critical \<leftarrow> de_optional de_i64 [''CRITICAL''] kvs;
     x_high \<leftarrow> de_optional de_i64 [''HIGH''] kvs;
     x_medium \<leftarrow> de_optional de_i64 [''MEDIUM''] kvs;
     x_low \<leftarrow> de_optional de_i64 [''LOW''] kvs;
     x_informational \<leftarrow> de_optional de_i64 [''INFORMATIONAL''] kvs;
     x_undefined \<leftarrow> de_optional de_i64 [''UNDEFINED''] kvs;
     Some \<lparr>esefsc_critical = x_critical, esefsc_high = x_high, esefsc_medium = x_medium,
       esefsc_low = x_low, esefsc_informational = x_informational, esefsc_undefined = x_undefined\<rparr> }"

definition ecr_scan_event_finding_severity_counts_good :: "ecr_scan_event_finding_severity_counts \<Rightarrow> bool" where
  "ecr_scan_event_finding_severity_counts_good x \<longleftrightarrow>
     good_option good_i64 (esefsc_critical x) \<and>
     good_option good_i64 (esefsc_high x) \<and>
     good_option good_i64 (esefsc_medium x) \<and>
     good_option good_i64 (esefsc_low x) \<and>
     good_option good_i64 (esefsc_informational x) \<and>
     good_option good_i64 (esefsc_undefined x)"

lemma ecr_scan_event_finding_severity_counts_not_null [simp]: "ecr_scan_event_finding_severity_counts_json x \<noteq> JNull"
  by (simp add: ecr_scan_event_finding_severity_counts_json_def)

lemma ecr_scan_event_finding_severity_counts_read [read_back]: "ecr_scan_event_finding_severity_counts_good x \<Longrightarrow>ecr_scan_event_finding_severity_counts_of_json (ecr_scan_event_finding_severity_counts_json x) = Some x"
  by (cases x) (clarsimp simp: ecr_scan_event_finding_severity_counts_of_json_def ecr_scan_event_finding_severity_counts_json_def ecr_scan_event_finding_severity_counts_good_def read_back)

lemma ecr_scan_event_finding_severity_counts_typed: "typed ecr_scan_event_finding_severity_counts_good ecr_scan_event_finding_severity_counts_of_json"
  unfolding typed_def ecr_scan_event_finding_severity_counts_of_json_def ecr_scan_event_finding_severity_counts_good_def
  by (auto simp: bind_eq_Some_conv dest!: typed_optional [OF typed_i64])

record ecr_scan_event_detail_type =
  esedt_scan_status :: "string option"
  esedt_repository_name :: "string option"
  esedt_finding_severity_counts :: ecr_scan_event_finding_severity_counts
  esedt_image_digest :: "string option"
  esedt_image_tags :: "string list"

definition ecr_scan_event_detail_type_json :: "ecr_scan_event_detail_type \<Rightarrow> json" where
  "ecr_scan_event_detail_type_json x = JObj
     ([(''scan-status'', json_of_option JStr (esedt_scan_status x)),
      (''repository-name'', json_of_option JStr (esedt_repository_name x)),
      (''finding-severity-counts'', ecr_scan_event_finding_severity_counts_json (esedt_finding_severity_counts x)),
      (''image-digest'', json_of_option JStr (esedt_image_digest x)),
      (''image-tags'', json_of_list JStr (esedt_image_tags x))])"

definition ecr_scan_event_detail_type_of_json :: "json \<Rightarrow> ecr_scan_event_detail_type option" where
  "ecr_scan_event_detail_type_of_json j = do {
     kvs \<leftarrow> de_fields 5
       [''scan-status'', ''repository-name'', ''finding-severity-counts'', ''image-digest'',
        ''image-tags''] j;
     x_scan_status \<leftarrow> de_opt_string ''scan-status'' kvs;
     x_repository_name \<leftarrow> de_opt_string ''repository-name'' kvs;
     x_finding_severity_counts \<leftarrow> de_required ecr_scan_event_finding_severity_counts_of_json [''finding-severity-counts''] kvs;
     x_image_digest \<leftarrow> de_opt_string ''image-digest'' kvs;
     x_image_tags \<leftarrow> de_required (de_list de_string) [''image-tags''] kvs;
     Some \<lparr>esedt_scan_status = x_scan_status, esedt_repository_name = x_repository_name,
       esedt_finding_severity_counts = x_finding_severity_counts,
       esedt_image_digest = x_image_digest, esedt_image_tags = x_image_tags\<rparr> }"

definition ecr_scan_event_detail_type_good :: "ecr_scan_event_detail_type \<Rightarrow> bool" where
  "ecr_scan_event_detail_type_good x \<longleftrightarrow>
     ecr_scan_event_finding_severity_counts_good (esedt_finding_severity_counts x)"

lemma ecr_scan_event_detail_type_not_null [simp]: "ecr_scan_event_detail_type_json x \<noteq> JNull"
  by (simp add: ecr_scan_event_detail_type_json_def)

lemma ecr_scan_event_detail_type_read [read_back]: "ecr_scan_event_detail_type_good x \<Longrightarrow>ecr_scan_event_detail_type_of_json (ecr_scan_event_detail_type_json x) = Some x"
  by (cases x) (simp add: ecr_scan_event_detail_type_of_json_def ecr_scan_event_detail_type_json_def ecr_scan_event_detail_type_good_def read_back)

lemma ecr_scan_event_detail_type_typed: "typed ecr_scan_event_detail_type_good ecr_scan_event_detail_type_of_json"
  unfolding typed_def ecr_scan_event_detail_type_of_json_def ecr_scan_event_detail_type_good_def
  by (auto simp: bind_eq_Some_conv dest!: typed_required [OF ecr_scan_event_finding_severity_counts_typed])

record ecr_scan_event =
  ese_version :: "string option"
  ese_id :: "string option"
  ese_detail_type :: "string option"
  ese_source :: "string option"
  ese_time :: "string option"
  ese_region :: "string option"
  ese_resources :: "string list"
  ese_account :: "string option"
  ese_detail :: ecr_scan_event_detail_type

definition ecr_scan_event_json :: "ecr_scan_event \<Rightarrow> json" where
  "ecr_scan_event_json x = JObj
     ([(''version'', json_of_option JStr (ese_version x)),
      (''id'', json_of_option JStr (ese_id x)),
      (''detail-type'', json_of_option JStr (ese_detail_type x)),
      (''source'', json_of_option JStr (ese_source x)),
      (''time'', json_of_option JStr (ese_time x)),
      (''region'', json_of_option JStr (ese_region x)),
      (''resources'', json_of_list JStr (ese_resources x)),
      (''account'', json_of_option JStr (ese_account x)),
      (''detail'', ecr_scan_event_detail_type_json (ese_detail x))])"

definition ecr_scan_event_of_json :: "json \<Rightarrow> ecr_scan_event option" where
  "ecr_scan_event_of_json j = do {
     kvs \<leftarrow> de_fields 9
       [''version'', ''id'', ''detail-type'', ''source'', ''time'', ''region'', ''resources'',
        ''account'', ''detail''] j;
     x_version \<leftarrow> de_opt_string ''version'' kvs;
     x_id \<leftarrow> de_opt_string ''id'' kvs;
     x_detail_type \<leftarrow> de_opt_string ''detail-type'' kvs;
     x_source \<leftarrow> de_opt_string ''source'' kvs;
     x_time \<leftarrow> de_opt_string ''time'' kvs;
     x_region \<leftarrow> de_opt_string ''region'' kvs;
     x_resources \<leftarrow> de_required (de_list de_string) [''resources''] kvs;
     x_account \<leftarrow> de_opt_string ''account'' kvs;
     x_detail \<leftarrow> de_required ecr_scan_event_detail_type_of_json [''detail''] kvs;
     Some \<lparr>ese_version = x_version, ese_id = x_id, ese_detail_type = x_detail_type,
       ese_source = x_source, ese_time = x_time, ese_region = x_region,
       ese_resources = x_resources, ese_account = x_account, ese_detail = x_detail\<rparr> }"

definition ecr_scan_event_good :: "ecr_scan_event \<Rightarrow> bool" where
  "ecr_scan_event_good x \<longleftrightarrow>
     ecr_scan_event_detail_type_good (ese_detail x)"

lemma ecr_scan_event_not_null [simp]: "ecr_scan_event_json x \<noteq> JNull"
  by (simp add: ecr_scan_event_json_def)

lemma ecr_scan_event_read [read_back]: "ecr_scan_event_good x \<Longrightarrow>ecr_scan_event_of_json (ecr_scan_event_json x) = Some x"
  by (cases x) (simp add: ecr_scan_event_of_json_def ecr_scan_event_json_def ecr_scan_event_good_def read_back)

lemma ecr_scan_event_typed: "typed ecr_scan_event_good ecr_scan_event_of_json"
  unfolding typed_def ecr_scan_event_of_json_def ecr_scan_event_good_def
  by (auto simp: bind_eq_Some_conv dest!: typed_required [OF ecr_scan_event_detail_type_typed])

subsection \<open>\<^verbatim>\<open>secretsmanager\<close>\<close>

record secrets_manager_secret_rotation_event =
  smsre_step :: string
  smsre_secret_id :: string
  smsre_client_request_token :: string

definition secrets_manager_secret_rotation_event_json :: "secrets_manager_secret_rotation_event \<Rightarrow> json" where
  "secrets_manager_secret_rotation_event_json x = JObj
     ([(''Step'', JStr (smsre_step x)),
      (''SecretId'', JStr (smsre_secret_id x)),
      (''ClientRequestToken'', JStr (smsre_client_request_token x))])"

definition secrets_manager_secret_rotation_event_of_json :: "json \<Rightarrow> secrets_manager_secret_rotation_event option" where
  "secrets_manager_secret_rotation_event_of_json j = do {
     kvs \<leftarrow> de_fields 3
       [''Step'', ''SecretId'', ''ClientRequestToken''] j;
     x_step \<leftarrow> de_required de_string [''Step''] kvs;
     x_secret_id \<leftarrow> de_required de_string [''SecretId''] kvs;
     x_client_request_token \<leftarrow> de_required de_string [''ClientRequestToken''] kvs;
     Some \<lparr>smsre_step = x_step, smsre_secret_id = x_secret_id,
       smsre_client_request_token = x_client_request_token\<rparr> }"

lemma secrets_manager_secret_rotation_event_not_null [simp]: "secrets_manager_secret_rotation_event_json x \<noteq> JNull"
  by (simp add: secrets_manager_secret_rotation_event_json_def)

lemma secrets_manager_secret_rotation_event_read [read_back]: "secrets_manager_secret_rotation_event_of_json (secrets_manager_secret_rotation_event_json x) = Some x"
  by (cases x) (simp add: secrets_manager_secret_rotation_event_of_json_def secrets_manager_secret_rotation_event_json_def read_back)

subsection \<open>\<^verbatim>\<open>clientvpn\<close>\<close>

record client_vpn_connection_handler_request =
  cvchr_connection_id :: "string option"
  cvchr_endpoint_id :: "string option"
  cvchr_common_name :: "string option"
  cvchr_username :: "string option"
  cvchr_os_platform :: "string option"
  cvchr_os_platform_version :: "string option"
  cvchr_public_ip :: "string option"
  cvchr_client_open_vpn_version :: "string option"
  cvchr_schema_version :: "string option"

definition client_vpn_connection_handler_request_json :: "client_vpn_connection_handler_request \<Rightarrow> json" where
  "client_vpn_connection_handler_request_json x = JObj
     ([(''connection-id'', json_of_option JStr (cvchr_connection_id x)),
      (''endpoint-id'', json_of_option JStr (cvchr_endpoint_id x)),
      (''common-name'', json_of_option JStr (cvchr_common_name x)),
      (''username'', json_of_option JStr (cvchr_username x)),
      (''platform'', json_of_option JStr (cvchr_os_platform x)),
      (''platform-version'', json_of_option JStr (cvchr_os_platform_version x)),
      (''public-ip'', json_of_option JStr (cvchr_public_ip x)),
      (''client-openvpn-version'', json_of_option JStr (cvchr_client_open_vpn_version x)),
      (''schema-version'', json_of_option JStr (cvchr_schema_version x))])"

definition client_vpn_connection_handler_request_of_json :: "json \<Rightarrow> client_vpn_connection_handler_request option" where
  "client_vpn_connection_handler_request_of_json j = do {
     kvs \<leftarrow> de_fields 0
       [''connection-id'', ''endpoint-id'', ''common-name'', ''username'', ''platform'',
        ''platform-version'', ''public-ip'', ''client-openvpn-version'', ''schema-version''] j;
     x_connection_id \<leftarrow> de_opt_string ''connection-id'' kvs;
     x_endpoint_id \<leftarrow> de_opt_string ''endpoint-id'' kvs;
     x_common_name \<leftarrow> de_opt_string ''common-name'' kvs;
     x_username \<leftarrow> de_opt_string ''username'' kvs;
     x_os_platform \<leftarrow> de_opt_string ''platform'' kvs;
     x_os_platform_version \<leftarrow> de_opt_string ''platform-version'' kvs;
     x_public_ip \<leftarrow> de_opt_string ''public-ip'' kvs;
     x_client_open_vpn_version \<leftarrow> de_opt_string ''client-openvpn-version'' kvs;
     x_schema_version \<leftarrow> de_opt_string ''schema-version'' kvs;
     Some \<lparr>cvchr_connection_id = x_connection_id, cvchr_endpoint_id = x_endpoint_id,
       cvchr_common_name = x_common_name, cvchr_username = x_username,
       cvchr_os_platform = x_os_platform, cvchr_os_platform_version = x_os_platform_version,
       cvchr_public_ip = x_public_ip, cvchr_client_open_vpn_version = x_client_open_vpn_version,
       cvchr_schema_version = x_schema_version\<rparr> }"

lemma client_vpn_connection_handler_request_not_null [simp]: "client_vpn_connection_handler_request_json x \<noteq> JNull"
  by (simp add: client_vpn_connection_handler_request_json_def)

lemma client_vpn_connection_handler_request_read [read_back]: "client_vpn_connection_handler_request_of_json (client_vpn_connection_handler_request_json x) = Some x"
  by (cases x) (simp add: client_vpn_connection_handler_request_of_json_def client_vpn_connection_handler_request_json_def read_back)

record client_vpn_connection_handler_response =
  cvchre_allow :: bool
  cvchre_error_msg_on_failed_posture_compliance :: "string option"
  cvchre_posture_compliance_statuses :: "string list"
  cvchre_schema_version :: "string option"

definition client_vpn_connection_handler_response_json :: "client_vpn_connection_handler_response \<Rightarrow> json" where
  "client_vpn_connection_handler_response_json x = JObj
     ([(''allow'', JBool (cvchre_allow x)),
      (''error-msg-on-failed-posture-compliance'', json_of_option JStr (cvchre_error_msg_on_failed_posture_compliance x)),
      (''posture-compliance-statuses'', json_of_list JStr (cvchre_posture_compliance_statuses x)),
      (''schema-version'', json_of_option JStr (cvchre_schema_version x))])"

definition client_vpn_connection_handler_response_of_json :: "json \<Rightarrow> client_vpn_connection_handler_response option" where
  "client_vpn_connection_handler_response_of_json j = do {
     kvs \<leftarrow> de_fields 3
       [''allow'', ''error-msg-on-failed-posture-compliance'', ''posture-compliance-statuses'',
        ''schema-version''] j;
     x_allow \<leftarrow> de_required de_bool [''allow''] kvs;
     x_error_msg_on_failed_posture_compliance \<leftarrow> de_opt_string ''error-msg-on-failed-posture-compliance'' kvs;
     x_posture_compliance_statuses \<leftarrow> de_required (de_list de_string) [''posture-compliance-statuses''] kvs;
     x_schema_version \<leftarrow> de_opt_string ''schema-version'' kvs;
     Some \<lparr>cvchre_allow = x_allow,
       cvchre_error_msg_on_failed_posture_compliance = x_error_msg_on_failed_posture_compliance,
       cvchre_posture_compliance_statuses = x_posture_compliance_statuses,
       cvchre_schema_version = x_schema_version\<rparr> }"

lemma client_vpn_connection_handler_response_not_null [simp]: "client_vpn_connection_handler_response_json x \<noteq> JNull"
  by (simp add: client_vpn_connection_handler_response_json_def)

lemma client_vpn_connection_handler_response_read [read_back]: "client_vpn_connection_handler_response_of_json (client_vpn_connection_handler_response_json x) = Some x"
  by (cases x) (simp add: client_vpn_connection_handler_response_of_json_def client_vpn_connection_handler_response_json_def read_back)

subsection \<open>\<^verbatim>\<open>autoscaling\<close>\<close>

record ('t, 'p) auto_scaling_event =
  ase_version :: "string option"
  ase_id :: "string option"
  ase_detail_type :: "string option"
  ase_source :: "string option"
  ase_account_id :: "string option"
  ase_time :: 't
  ase_region :: "string option"
  ase_resources :: "string list"
  ase_detail :: "(string \<times> 'p) list"

definition auto_scaling_event_json :: "'t event_env \<Rightarrow> ('p \<Rightarrow> json) \<Rightarrow> ('t, 'p) auto_scaling_event \<Rightarrow> json" where
  "auto_scaling_event_json E gp x = JObj
     ([(''version'', json_of_option JStr (ase_version x)),
      (''id'', json_of_option JStr (ase_id x)),
      (''detail-type'', json_of_option JStr (ase_detail_type x)),
      (''source'', json_of_option JStr (ase_source x)),
      (''account'', json_of_option JStr (ase_account_id x)),
      (''time'', json_of_time E (ase_time x)),
      (''region'', json_of_option JStr (ase_region x)),
      (''resources'', json_of_list JStr (ase_resources x)),
      (''detail'', json_of_map gp (ase_detail x))])"

definition auto_scaling_event_of_json :: "'t event_env \<Rightarrow> (json \<Rightarrow> 'p option) \<Rightarrow> json \<Rightarrow> ('t, 'p) auto_scaling_event option" where
  "auto_scaling_event_of_json E fp j = do {
     kvs \<leftarrow> de_fields 8
       [''version'', ''id'', ''detail-type'', ''source'', ''account'', ''time'', ''region'',
        ''resources'', ''detail''] j;
     x_version \<leftarrow> de_opt_string ''version'' kvs;
     x_id \<leftarrow> de_opt_string ''id'' kvs;
     x_detail_type \<leftarrow> de_opt_string ''detail-type'' kvs;
     x_source \<leftarrow> de_opt_string ''source'' kvs;
     x_account_id \<leftarrow> de_opt_string ''account'' kvs;
     x_time \<leftarrow> de_required (time_of_json E) [''time''] kvs;
     x_region \<leftarrow> de_opt_string ''region'' kvs;
     x_resources \<leftarrow> de_required (de_list de_string) [''resources''] kvs;
     x_detail \<leftarrow> de_default (de_nullish (de_hash_map fp) []) [] [''detail''] kvs;
     Some \<lparr>ase_version = x_version, ase_id = x_id, ase_detail_type = x_detail_type,
       ase_source = x_source, ase_account_id = x_account_id, ase_time = x_time,
       ase_region = x_region, ase_resources = x_resources, ase_detail = x_detail\<rparr> }"

definition auto_scaling_event_good :: "('p \<Rightarrow> bool) \<Rightarrow> ('t, 'p) auto_scaling_event \<Rightarrow> bool" where
  "auto_scaling_event_good Pp x \<longleftrightarrow>
     good_map Pp (ase_detail x)"

lemma auto_scaling_event_not_null [simp]: "auto_scaling_event_json E gp x \<noteq> JNull"
  by (simp add: auto_scaling_event_json_def)

lemma auto_scaling_event_read [read_back]: "auto_scaling_event_good Pp x \<Longrightarrow> event_crates E \<Longrightarrow> (\<And>x. Pp x \<Longrightarrow> fp (gp x) = Some x) \<Longrightarrow>auto_scaling_event_of_json E fp (auto_scaling_event_json E gp x) = Some x"
  by (cases x) (simp add: auto_scaling_event_of_json_def auto_scaling_event_json_def auto_scaling_event_good_def read_back)

lemma auto_scaling_event_typed:
  assumes typed_p: "typed Pp fp" shows "typed (auto_scaling_event_good Pp) (auto_scaling_event_of_json E fp)"
  unfolding typed_def auto_scaling_event_of_json_def auto_scaling_event_good_def
  by (auto simp: bind_eq_Some_conv dest!: typed_default [OF typed_nullish [OF typed_hash_map [OF typed_p] good_nil(1)] good_nil(1)])

subsection \<open>Reading what was written\<close>

text \<open>
  The events of the deployment and configuration services: what is read is well formed, and what
  it is written to is read as the same event.
\<close>

lemma deployment_events_reparse:
  assumes "event_crates E"
    and typed: "typed P f"
    and inverse: "\<And>x. P x \<Longrightarrow> f (g x) = Some x"
  shows "reparses code_commit_event_good (code_commit_event_of_json E) (code_commit_event_json E) \<and>
    reparses (\<lambda>_. True) code_deploy_lifecycle_event_of_json code_deploy_lifecycle_event_json \<and>
    reparses (\<lambda>_. True) (code_deploy_event_of_json E) (code_deploy_event_json E) \<and>
    reparses code_pipeline_cloud_watch_event_good (code_pipeline_cloud_watch_event_of_json E) (code_pipeline_cloud_watch_event_json E) \<and>
    reparses (\<lambda>_. True) code_pipeline_output_location_of_json code_pipeline_output_location_json \<and>
    reparses (\<lambda>_. True) code_pipeline_job_event_of_json code_pipeline_job_event_json \<and>
    reparses (\<lambda>_. True) config_event_of_json config_event_json \<and>
    reparses control_tower_lifecycle_event_good control_tower_lifecycle_event_of_json control_tower_lifecycle_event_json \<and>
    reparses ecr_scan_event_good ecr_scan_event_of_json ecr_scan_event_json \<and>
    reparses (\<lambda>_. True) secrets_manager_secret_rotation_event_of_json secrets_manager_secret_rotation_event_json \<and>
    reparses (\<lambda>_. True) client_vpn_connection_handler_request_of_json client_vpn_connection_handler_request_json \<and>
    reparses (\<lambda>_. True) client_vpn_connection_handler_response_of_json client_vpn_connection_handler_response_json \<and>
    reparses (auto_scaling_event_good P) (auto_scaling_event_of_json E f) (auto_scaling_event_json E g)"
  by (intro conjI reparsesI typed_True typed_nn code_commit_event_typed
      code_pipeline_cloud_watch_event_typed
      control_tower_lifecycle_event_typed
      ecr_scan_event_typed
      auto_scaling_event_typed)
    (auto simp: assms read_back)


definition config_example :: json where
  "config_example = JObj [(''accountId'', JStr ''a''), (''eventLeftScope'', JBool True), (''version'', JNull)]"

theorem deployment_events_reparse_witness:
  "\<exists>x. config_event_of_json config_example = Some x \<and> ceve_account_id x = Some ''a'' \<and>
     config_event_of_json (config_event_json x) = Some x"
proof -
  have "reparses (\<lambda>_. True) config_event_of_json config_event_json"
    using deployment_events_reparse [where E = ref_event_env and P = "\<lambda>_. True" and f = de_string and g = JStr,
      OF ref_events.event_crates_axioms typed_True de_string_JStr] by blast
  moreover have "map_option ceve_account_id (config_event_of_json config_example) = Some (Some ''a'')"
    by code_simp
  ultimately show ?thesis by (auto dest: reparsesD)
qed

end
