(* ===== verification/StorageEvents.thy ===== *)
theory StorageEvents
  imports EventSerde
begin

text \<open>
  The events of S3 (notifications, batch jobs, object lambdas, whose header maps are a parameter) and SES (\<^verbatim>\<open>lambda-events/src/event\<close>).
  Each structure has its record, the serialiser and the deserialiser that \<^verbatim>\<open>derive\<close>
  generates from its attributes, well-formedness where its fields restrict it, and the lemmas that
  what is read is well formed and what is written is read back. Structures are in the order
  their fields need.
\<close>

subsection \<open>\<^verbatim>\<open>s3/event\<close>\<close>

record s3_user_identity =
  suid_principal_id :: "string option"

definition s3_user_identity_json :: "s3_user_identity \<Rightarrow> json" where
  "s3_user_identity_json x = JObj
     ([(''principalId'', json_of_option JStr (suid_principal_id x))])"

definition s3_user_identity_of_json :: "json \<Rightarrow> s3_user_identity option" where
  "s3_user_identity_of_json j = do {
     kvs \<leftarrow> de_fields 0
       [''principalId''] j;
     x_principal_id \<leftarrow> de_opt_string ''principalId'' kvs;
     Some \<lparr>suid_principal_id = x_principal_id\<rparr> }"

lemma s3_user_identity_not_null [simp]: "s3_user_identity_json x \<noteq> JNull"
  by (simp add: s3_user_identity_json_def)

lemma s3_user_identity_read [read_back]: "s3_user_identity_of_json (s3_user_identity_json x) = Some x"
  by (cases x) (simp add: s3_user_identity_of_json_def s3_user_identity_json_def read_back)

record s3_request_parameters =
  srp_source_ip_address :: "string option"

definition s3_request_parameters_json :: "s3_request_parameters \<Rightarrow> json" where
  "s3_request_parameters_json x = JObj
     ([(''sourceIPAddress'', json_of_option JStr (srp_source_ip_address x))])"

definition s3_request_parameters_of_json :: "json \<Rightarrow> s3_request_parameters option" where
  "s3_request_parameters_of_json j = do {
     kvs \<leftarrow> de_fields 0
       [''sourceIPAddress''] j;
     x_source_ip_address \<leftarrow> de_opt_string ''sourceIPAddress'' kvs;
     Some \<lparr>srp_source_ip_address = x_source_ip_address\<rparr> }"

lemma s3_request_parameters_not_null [simp]: "s3_request_parameters_json x \<noteq> JNull"
  by (simp add: s3_request_parameters_json_def)

lemma s3_request_parameters_read [read_back]: "s3_request_parameters_of_json (s3_request_parameters_json x) = Some x"
  by (cases x) (simp add: s3_request_parameters_of_json_def s3_request_parameters_json_def read_back)

record s3_bucket =
  sbu_name :: "string option"
  sbu_owner_identity :: "s3_user_identity option"
  sbu_arn :: "string option"

definition s3_bucket_json :: "s3_bucket \<Rightarrow> json" where
  "s3_bucket_json x = JObj
     ([(''name'', json_of_option JStr (sbu_name x)),
      (''ownerIdentity'', json_of_option s3_user_identity_json (sbu_owner_identity x)),
      (''arn'', json_of_option JStr (sbu_arn x))])"

definition s3_bucket_of_json :: "json \<Rightarrow> s3_bucket option" where
  "s3_bucket_of_json j = do {
     kvs \<leftarrow> de_fields 0
       [''name'', ''ownerIdentity'', ''arn''] j;
     x_name \<leftarrow> de_opt_string ''name'' kvs;
     x_owner_identity \<leftarrow> de_optional s3_user_identity_of_json [''ownerIdentity''] kvs;
     x_arn \<leftarrow> de_opt_string ''arn'' kvs;
     Some \<lparr>sbu_name = x_name, sbu_owner_identity = x_owner_identity, sbu_arn = x_arn\<rparr> }"

lemma s3_bucket_not_null [simp]: "s3_bucket_json x \<noteq> JNull"
  by (simp add: s3_bucket_json_def)

lemma s3_bucket_read [read_back]: "s3_bucket_of_json (s3_bucket_json x) = Some x"
  by (cases x) (simp add: s3_bucket_of_json_def s3_bucket_json_def read_back)

record s3_object =
  so_key :: "string option"
  so_size :: "int option"
  so_url_decoded_key :: "string option"
  so_version_id :: "string option"
  so_e_tag :: "string option"
  so_sequencer :: "string option"

definition s3_object_json :: "s3_object \<Rightarrow> json" where
  "s3_object_json x = JObj
     ([(''key'', json_of_option JStr (so_key x)),
      (''size'', json_of_option JInt (so_size x)),
      (''urlDecodedKey'', json_of_option JStr (so_url_decoded_key x)),
      (''versionId'', json_of_option JStr (so_version_id x)),
      (''eTag'', json_of_option JStr (so_e_tag x)),
      (''sequencer'', json_of_option JStr (so_sequencer x))])"

definition s3_object_of_json :: "json \<Rightarrow> s3_object option" where
  "s3_object_of_json j = do {
     kvs \<leftarrow> de_fields 2
       [''key'', ''size'', ''urlDecodedKey'', ''versionId'', ''eTag'', ''sequencer''] j;
     x_key \<leftarrow> de_opt_string ''key'' kvs;
     x_size \<leftarrow> de_optional de_i64 [''size''] kvs;
     x_url_decoded_key \<leftarrow> de_opt_string ''urlDecodedKey'' kvs;
     x_version_id \<leftarrow> de_opt_string ''versionId'' kvs;
     x_e_tag \<leftarrow> de_opt_string ''eTag'' kvs;
     x_sequencer \<leftarrow> de_opt_string ''sequencer'' kvs;
     Some \<lparr>so_key = x_key, so_size = x_size, so_url_decoded_key = x_url_decoded_key,
       so_version_id = x_version_id, so_e_tag = x_e_tag, so_sequencer = x_sequencer\<rparr> }"

definition s3_object_good :: "s3_object \<Rightarrow> bool" where
  "s3_object_good x \<longleftrightarrow>
     good_option good_i64 (so_size x)"

lemma s3_object_not_null [simp]: "s3_object_json x \<noteq> JNull"
  by (simp add: s3_object_json_def)

lemma s3_object_read [read_back]: "s3_object_good x \<Longrightarrow>s3_object_of_json (s3_object_json x) = Some x"
  by (cases x) (simp add: s3_object_of_json_def s3_object_json_def s3_object_good_def read_back)

lemma s3_object_typed: "typed s3_object_good s3_object_of_json"
  unfolding typed_def s3_object_of_json_def s3_object_good_def
  by (auto simp: bind_eq_Some_conv dest!: typed_optional [OF typed_i64])

record s3_entity =
  sen_schema_version :: "string option"
  sen_configuration_id :: "string option"
  sen_bucket :: s3_bucket
  sen_object :: s3_object

definition s3_entity_json :: "s3_entity \<Rightarrow> json" where
  "s3_entity_json x = JObj
     ([(''s3SchemaVersion'', json_of_option JStr (sen_schema_version x)),
      (''configurationId'', json_of_option JStr (sen_configuration_id x)),
      (''bucket'', s3_bucket_json (sen_bucket x)),
      (''object'', s3_object_json (sen_object x))])"

definition s3_entity_of_json :: "json \<Rightarrow> s3_entity option" where
  "s3_entity_of_json j = do {
     kvs \<leftarrow> de_fields 4
       [''s3SchemaVersion'', ''configurationId'', ''bucket'', ''object''] j;
     x_schema_version \<leftarrow> de_opt_string ''s3SchemaVersion'' kvs;
     x_configuration_id \<leftarrow> de_opt_string ''configurationId'' kvs;
     x_bucket \<leftarrow> de_required s3_bucket_of_json [''bucket''] kvs;
     x_object \<leftarrow> de_required s3_object_of_json [''object''] kvs;
     Some \<lparr>sen_schema_version = x_schema_version, sen_configuration_id = x_configuration_id,
       sen_bucket = x_bucket, sen_object = x_object\<rparr> }"

definition s3_entity_good :: "s3_entity \<Rightarrow> bool" where
  "s3_entity_good x \<longleftrightarrow>
     s3_object_good (sen_object x)"

lemma s3_entity_not_null [simp]: "s3_entity_json x \<noteq> JNull"
  by (simp add: s3_entity_json_def)

lemma s3_entity_read [read_back]: "s3_entity_good x \<Longrightarrow>s3_entity_of_json (s3_entity_json x) = Some x"
  by (cases x) (simp add: s3_entity_of_json_def s3_entity_json_def s3_entity_good_def read_back)

lemma s3_entity_typed: "typed s3_entity_good s3_entity_of_json"
  unfolding typed_def s3_entity_of_json_def s3_entity_good_def
  by (auto simp: bind_eq_Some_conv dest!: typed_required [OF s3_object_typed])

record 't s3_event_record =
  sere_event_version :: "string option"
  sere_event_source :: "string option"
  sere_aws_region :: "string option"
  sere_event_time :: 't
  sere_event_name :: "string option"
  sere_principal_id :: s3_user_identity
  sere_request_parameters :: s3_request_parameters
  sere_response_elements :: "(string \<times> string) list"
  sere_s3 :: s3_entity

definition s3_event_record_json :: "'t event_env \<Rightarrow> 't s3_event_record \<Rightarrow> json" where
  "s3_event_record_json E x = JObj
     ([(''eventVersion'', json_of_option JStr (sere_event_version x)),
      (''eventSource'', json_of_option JStr (sere_event_source x)),
      (''awsRegion'', json_of_option JStr (sere_aws_region x)),
      (''eventTime'', json_of_time E (sere_event_time x)),
      (''eventName'', json_of_option JStr (sere_event_name x)),
      (''userIdentity'', s3_user_identity_json (sere_principal_id x)),
      (''requestParameters'', s3_request_parameters_json (sere_request_parameters x)),
      (''responseElements'', json_of_map JStr (sere_response_elements x)),
      (''s3'', s3_entity_json (sere_s3 x))])"

definition s3_event_record_of_json :: "'t event_env \<Rightarrow> json \<Rightarrow> 't s3_event_record option" where
  "s3_event_record_of_json E j = do {
     kvs \<leftarrow> de_fields 9
       [''eventVersion'', ''eventSource'', ''awsRegion'', ''eventTime'', ''eventName'',
        ''userIdentity'', ''requestParameters'', ''responseElements'', ''s3''] j;
     x_event_version \<leftarrow> de_opt_string ''eventVersion'' kvs;
     x_event_source \<leftarrow> de_opt_string ''eventSource'' kvs;
     x_aws_region \<leftarrow> de_opt_string ''awsRegion'' kvs;
     x_event_time \<leftarrow> de_required (time_of_json E) [''eventTime''] kvs;
     x_event_name \<leftarrow> de_opt_string ''eventName'' kvs;
     x_principal_id \<leftarrow> de_required s3_user_identity_of_json [''userIdentity''] kvs;
     x_request_parameters \<leftarrow> de_required s3_request_parameters_of_json [''requestParameters''] kvs;
     x_response_elements \<leftarrow> de_default (de_nullish (de_hash_map de_string) []) [] [''responseElements''] kvs;
     x_s3 \<leftarrow> de_required s3_entity_of_json [''s3''] kvs;
     Some \<lparr>sere_event_version = x_event_version, sere_event_source = x_event_source,
       sere_aws_region = x_aws_region, sere_event_time = x_event_time,
       sere_event_name = x_event_name, sere_principal_id = x_principal_id,
       sere_request_parameters = x_request_parameters,
       sere_response_elements = x_response_elements, sere_s3 = x_s3\<rparr> }"

definition s3_event_record_good :: "'t s3_event_record \<Rightarrow> bool" where
  "s3_event_record_good x \<longleftrightarrow>
     good_map (\<lambda>_. True) (sere_response_elements x) \<and>
     s3_entity_good (sere_s3 x)"

lemma s3_event_record_not_null [simp]: "s3_event_record_json E x \<noteq> JNull"
  by (simp add: s3_event_record_json_def)

lemma s3_event_record_read [read_back]: "s3_event_record_good x \<Longrightarrow> event_crates E \<Longrightarrow>s3_event_record_of_json E (s3_event_record_json E x) = Some x"
  by (cases x) (clarsimp simp: s3_event_record_of_json_def s3_event_record_json_def s3_event_record_good_def read_back)

lemma s3_event_record_typed: "typed s3_event_record_good (s3_event_record_of_json E)"
  unfolding typed_def s3_event_record_of_json_def s3_event_record_good_def
  by (auto simp: bind_eq_Some_conv dest!: typed_default [OF typed_nullish [OF typed_hash_map [OF typed_True [of "de_string"]] good_nil(1)] good_nil(1)]
      typed_required [OF s3_entity_typed])

record 't s3_event =
  seven_records :: "('t s3_event_record) list"

definition s3_event_json :: "'t event_env \<Rightarrow> 't s3_event \<Rightarrow> json" where
  "s3_event_json E x = JObj
     ([(''Records'', json_of_list (s3_event_record_json E) (seven_records x))])"

definition s3_event_of_json :: "'t event_env \<Rightarrow> json \<Rightarrow> 't s3_event option" where
  "s3_event_of_json E j = do {
     kvs \<leftarrow> de_fields 1
       [''Records''] j;
     x_records \<leftarrow> de_required (de_list (s3_event_record_of_json E)) [''Records''] kvs;
     Some \<lparr>seven_records = x_records\<rparr> }"

definition s3_event_good :: "'t s3_event \<Rightarrow> bool" where
  "s3_event_good x \<longleftrightarrow>
     list_all s3_event_record_good (seven_records x)"

lemma s3_event_not_null [simp]: "s3_event_json E x \<noteq> JNull"
  by (simp add: s3_event_json_def)

lemma s3_event_read [read_back]: "s3_event_good x \<Longrightarrow> event_crates E \<Longrightarrow>s3_event_of_json E (s3_event_json E x) = Some x"
  by (cases x) (simp add: s3_event_of_json_def s3_event_json_def s3_event_good_def read_back)

lemma s3_event_typed: "typed s3_event_good (s3_event_of_json E)"
  unfolding typed_def s3_event_of_json_def s3_event_good_def
  by (auto simp: bind_eq_Some_conv dest!: typed_required [OF typed_list [OF s3_event_record_typed]])

subsection \<open>\<^verbatim>\<open>s3/batch_job\<close>\<close>

record s3_batch_job =
  sbj_id :: "string option"

definition s3_batch_job_json :: "s3_batch_job \<Rightarrow> json" where
  "s3_batch_job_json x = JObj
     ([(''id'', json_of_option JStr (sbj_id x))])"

definition s3_batch_job_of_json :: "json \<Rightarrow> s3_batch_job option" where
  "s3_batch_job_of_json j = do {
     kvs \<leftarrow> de_fields 0
       [''id''] j;
     x_id \<leftarrow> de_opt_string ''id'' kvs;
     Some \<lparr>sbj_id = x_id\<rparr> }"

lemma s3_batch_job_not_null [simp]: "s3_batch_job_json x \<noteq> JNull"
  by (simp add: s3_batch_job_json_def)

lemma s3_batch_job_read [read_back]: "s3_batch_job_of_json (s3_batch_job_json x) = Some x"
  by (cases x) (simp add: s3_batch_job_of_json_def s3_batch_job_json_def read_back)

record s3_batch_job_task =
  sbjt_task_id :: "string option"
  sbjt_s3_key :: "string option"
  sbjt_s3_version_id :: "string option"
  sbjt_s3_bucket_arn :: "string option"

definition s3_batch_job_task_json :: "s3_batch_job_task \<Rightarrow> json" where
  "s3_batch_job_task_json x = JObj
     ([(''taskId'', json_of_option JStr (sbjt_task_id x)),
      (''s3Key'', json_of_option JStr (sbjt_s3_key x)),
      (''s3VersionId'', json_of_option JStr (sbjt_s3_version_id x)),
      (''s3BucketArn'', json_of_option JStr (sbjt_s3_bucket_arn x))])"

definition s3_batch_job_task_of_json :: "json \<Rightarrow> s3_batch_job_task option" where
  "s3_batch_job_task_of_json j = do {
     kvs \<leftarrow> de_fields 0
       [''taskId'', ''s3Key'', ''s3VersionId'', ''s3BucketArn''] j;
     x_task_id \<leftarrow> de_opt_string ''taskId'' kvs;
     x_s3_key \<leftarrow> de_opt_string ''s3Key'' kvs;
     x_s3_version_id \<leftarrow> de_opt_string ''s3VersionId'' kvs;
     x_s3_bucket_arn \<leftarrow> de_opt_string ''s3BucketArn'' kvs;
     Some \<lparr>sbjt_task_id = x_task_id, sbjt_s3_key = x_s3_key, sbjt_s3_version_id = x_s3_version_id,
       sbjt_s3_bucket_arn = x_s3_bucket_arn\<rparr> }"

lemma s3_batch_job_task_not_null [simp]: "s3_batch_job_task_json x \<noteq> JNull"
  by (simp add: s3_batch_job_task_json_def)

lemma s3_batch_job_task_read [read_back]: "s3_batch_job_task_of_json (s3_batch_job_task_json x) = Some x"
  by (cases x) (simp add: s3_batch_job_task_of_json_def s3_batch_job_task_json_def read_back)

record s3_batch_job_result =
  sbjr_task_id :: "string option"
  sbjr_result_code :: "string option"
  sbjr_result_string :: "string option"

definition s3_batch_job_result_json :: "s3_batch_job_result \<Rightarrow> json" where
  "s3_batch_job_result_json x = JObj
     ([(''taskId'', json_of_option JStr (sbjr_task_id x)),
      (''resultCode'', json_of_option JStr (sbjr_result_code x)),
      (''resultString'', json_of_option JStr (sbjr_result_string x))])"

definition s3_batch_job_result_of_json :: "json \<Rightarrow> s3_batch_job_result option" where
  "s3_batch_job_result_of_json j = do {
     kvs \<leftarrow> de_fields 0
       [''taskId'', ''resultCode'', ''resultString''] j;
     x_task_id \<leftarrow> de_opt_string ''taskId'' kvs;
     x_result_code \<leftarrow> de_opt_string ''resultCode'' kvs;
     x_result_string \<leftarrow> de_opt_string ''resultString'' kvs;
     Some \<lparr>sbjr_task_id = x_task_id, sbjr_result_code = x_result_code,
       sbjr_result_string = x_result_string\<rparr> }"

lemma s3_batch_job_result_not_null [simp]: "s3_batch_job_result_json x \<noteq> JNull"
  by (simp add: s3_batch_job_result_json_def)

lemma s3_batch_job_result_read [read_back]: "s3_batch_job_result_of_json (s3_batch_job_result_json x) = Some x"
  by (cases x) (simp add: s3_batch_job_result_of_json_def s3_batch_job_result_json_def read_back)

record s3_batch_job_event =
  sbje_invocation_schema_version :: "string option"
  sbje_invocation_id :: "string option"
  sbje_job :: s3_batch_job
  sbje_tasks :: "s3_batch_job_task list"

definition s3_batch_job_event_json :: "s3_batch_job_event \<Rightarrow> json" where
  "s3_batch_job_event_json x = JObj
     ([(''invocationSchemaVersion'', json_of_option JStr (sbje_invocation_schema_version x)),
      (''invocationId'', json_of_option JStr (sbje_invocation_id x)),
      (''job'', s3_batch_job_json (sbje_job x)),
      (''tasks'', json_of_list s3_batch_job_task_json (sbje_tasks x))])"

definition s3_batch_job_event_of_json :: "json \<Rightarrow> s3_batch_job_event option" where
  "s3_batch_job_event_of_json j = do {
     kvs \<leftarrow> de_fields 4
       [''invocationSchemaVersion'', ''invocationId'', ''job'', ''tasks''] j;
     x_invocation_schema_version \<leftarrow> de_opt_string ''invocationSchemaVersion'' kvs;
     x_invocation_id \<leftarrow> de_opt_string ''invocationId'' kvs;
     x_job \<leftarrow> de_required s3_batch_job_of_json [''job''] kvs;
     x_tasks \<leftarrow> de_required (de_list s3_batch_job_task_of_json) [''tasks''] kvs;
     Some \<lparr>sbje_invocation_schema_version = x_invocation_schema_version,
       sbje_invocation_id = x_invocation_id, sbje_job = x_job, sbje_tasks = x_tasks\<rparr> }"

lemma s3_batch_job_event_not_null [simp]: "s3_batch_job_event_json x \<noteq> JNull"
  by (simp add: s3_batch_job_event_json_def)

lemma s3_batch_job_event_read [read_back]: "s3_batch_job_event_of_json (s3_batch_job_event_json x) = Some x"
  by (cases x) (simp add: s3_batch_job_event_of_json_def s3_batch_job_event_json_def read_back)

record s3_batch_job_response =
  sbjre_invocation_schema_version :: "string option"
  sbjre_treat_missing_keys_as :: "string option"
  sbjre_invocation_id :: "string option"
  sbjre_results :: "s3_batch_job_result list"

definition s3_batch_job_response_json :: "s3_batch_job_response \<Rightarrow> json" where
  "s3_batch_job_response_json x = JObj
     ([(''invocationSchemaVersion'', json_of_option JStr (sbjre_invocation_schema_version x)),
      (''treatMissingKeysAs'', json_of_option JStr (sbjre_treat_missing_keys_as x)),
      (''invocationId'', json_of_option JStr (sbjre_invocation_id x)),
      (''results'', json_of_list s3_batch_job_result_json (sbjre_results x))])"

definition s3_batch_job_response_of_json :: "json \<Rightarrow> s3_batch_job_response option" where
  "s3_batch_job_response_of_json j = do {
     kvs \<leftarrow> de_fields 4
       [''invocationSchemaVersion'', ''treatMissingKeysAs'', ''invocationId'', ''results''] j;
     x_invocation_schema_version \<leftarrow> de_opt_string ''invocationSchemaVersion'' kvs;
     x_treat_missing_keys_as \<leftarrow> de_opt_string ''treatMissingKeysAs'' kvs;
     x_invocation_id \<leftarrow> de_opt_string ''invocationId'' kvs;
     x_results \<leftarrow> de_required (de_list s3_batch_job_result_of_json) [''results''] kvs;
     Some \<lparr>sbjre_invocation_schema_version = x_invocation_schema_version,
       sbjre_treat_missing_keys_as = x_treat_missing_keys_as,
       sbjre_invocation_id = x_invocation_id, sbjre_results = x_results\<rparr> }"

lemma s3_batch_job_response_not_null [simp]: "s3_batch_job_response_json x \<noteq> JNull"
  by (simp add: s3_batch_job_response_json_def)

lemma s3_batch_job_response_read [read_back]: "s3_batch_job_response_of_json (s3_batch_job_response_json x) = Some x"
  by (cases x) (simp add: s3_batch_job_response_of_json_def s3_batch_job_response_json_def read_back)

subsection \<open>\<^verbatim>\<open>s3/object_lambda\<close>\<close>

record get_object_context =
  goc_input_s3_url :: string
  goc_output_route :: string
  goc_output_token :: string

definition get_object_context_json :: "get_object_context \<Rightarrow> json" where
  "get_object_context_json x = JObj
     ([(''inputS3Url'', JStr (goc_input_s3_url x)),
      (''outputRoute'', JStr (goc_output_route x)),
      (''outputToken'', JStr (goc_output_token x))])"

definition get_object_context_of_json :: "json \<Rightarrow> get_object_context option" where
  "get_object_context_of_json j = do {
     kvs \<leftarrow> de_fields 3
       [''inputS3Url'', ''outputRoute'', ''outputToken''] j;
     x_input_s3_url \<leftarrow> de_required de_string [''inputS3Url''] kvs;
     x_output_route \<leftarrow> de_required de_string [''outputRoute''] kvs;
     x_output_token \<leftarrow> de_required de_string [''outputToken''] kvs;
     Some \<lparr>goc_input_s3_url = x_input_s3_url, goc_output_route = x_output_route,
       goc_output_token = x_output_token\<rparr> }"

lemma get_object_context_not_null [simp]: "get_object_context_json x \<noteq> JNull"
  by (simp add: get_object_context_json_def)

lemma get_object_context_read [read_back]: "get_object_context_of_json (get_object_context_json x) = Some x"
  by (cases x) (simp add: get_object_context_of_json_def get_object_context_json_def read_back)

record head_object_context =
  hoc_input_s3_url :: string

definition head_object_context_json :: "head_object_context \<Rightarrow> json" where
  "head_object_context_json x = JObj
     ([(''inputS3Url'', JStr (hoc_input_s3_url x))])"

definition head_object_context_of_json :: "json \<Rightarrow> head_object_context option" where
  "head_object_context_of_json j = do {
     kvs \<leftarrow> de_fields 1
       [''inputS3Url''] j;
     x_input_s3_url \<leftarrow> de_required de_string [''inputS3Url''] kvs;
     Some \<lparr>hoc_input_s3_url = x_input_s3_url\<rparr> }"

lemma head_object_context_not_null [simp]: "head_object_context_json x \<noteq> JNull"
  by (simp add: head_object_context_json_def)

lemma head_object_context_read [read_back]: "head_object_context_of_json (head_object_context_json x) = Some x"
  by (cases x) (simp add: head_object_context_of_json_def head_object_context_json_def read_back)

record list_objects_context =
  loc_input_s3_url :: string

definition list_objects_context_json :: "list_objects_context \<Rightarrow> json" where
  "list_objects_context_json x = JObj
     ([(''inputS3Url'', JStr (loc_input_s3_url x))])"

definition list_objects_context_of_json :: "json \<Rightarrow> list_objects_context option" where
  "list_objects_context_of_json j = do {
     kvs \<leftarrow> de_fields 1
       [''inputS3Url''] j;
     x_input_s3_url \<leftarrow> de_required de_string [''inputS3Url''] kvs;
     Some \<lparr>loc_input_s3_url = x_input_s3_url\<rparr> }"

lemma list_objects_context_not_null [simp]: "list_objects_context_json x \<noteq> JNull"
  by (simp add: list_objects_context_json_def)

lemma list_objects_context_read [read_back]: "list_objects_context_of_json (list_objects_context_json x) = Some x"
  by (cases x) (simp add: list_objects_context_of_json_def list_objects_context_json_def read_back)

record list_objects_v2_context =
  lovc_input_s3_url :: string

definition list_objects_v2_context_json :: "list_objects_v2_context \<Rightarrow> json" where
  "list_objects_v2_context_json x = JObj
     ([(''inputS3Url'', JStr (lovc_input_s3_url x))])"

definition list_objects_v2_context_of_json :: "json \<Rightarrow> list_objects_v2_context option" where
  "list_objects_v2_context_of_json j = do {
     kvs \<leftarrow> de_fields 1
       [''inputS3Url''] j;
     x_input_s3_url \<leftarrow> de_required de_string [''inputS3Url''] kvs;
     Some \<lparr>lovc_input_s3_url = x_input_s3_url\<rparr> }"

lemma list_objects_v2_context_not_null [simp]: "list_objects_v2_context_json x \<noteq> JNull"
  by (simp add: list_objects_v2_context_json_def)

lemma list_objects_v2_context_read [read_back]: "list_objects_v2_context_of_json (list_objects_v2_context_json x) = Some x"
  by (cases x) (simp add: list_objects_v2_context_of_json_def list_objects_v2_context_json_def read_back)

record 'p configuration =
  co_access_point_arn :: string
  co_supporting_access_point_arn :: string
  co_payload :: 'p

definition configuration_json :: "('p \<Rightarrow> json) \<Rightarrow> 'p configuration \<Rightarrow> json" where
  "configuration_json gp x = JObj
     ([(''accessPointArn'', JStr (co_access_point_arn x)),
      (''supportingAccessPointArn'', JStr (co_supporting_access_point_arn x)),
      (''payload'', gp (co_payload x))])"

definition configuration_of_json :: "(json \<Rightarrow> 'p option) \<Rightarrow> 'p \<Rightarrow> json \<Rightarrow> 'p configuration option" where
  "configuration_of_json fp dp j = do {
     kvs \<leftarrow> de_fields 2
       [''accessPointArn'', ''supportingAccessPointArn'', ''payload''] j;
     x_access_point_arn \<leftarrow> de_required de_string [''accessPointArn''] kvs;
     x_supporting_access_point_arn \<leftarrow> de_required de_string [''supportingAccessPointArn''] kvs;
     x_payload \<leftarrow> de_default fp dp [''payload''] kvs;
     Some \<lparr>co_access_point_arn = x_access_point_arn,
       co_supporting_access_point_arn = x_supporting_access_point_arn, co_payload = x_payload\<rparr> }"

definition configuration_good :: "('p \<Rightarrow> bool) \<Rightarrow> 'p configuration \<Rightarrow> bool" where
  "configuration_good Pp x \<longleftrightarrow>
     Pp (co_payload x)"

lemma configuration_not_null [simp]: "configuration_json gp x \<noteq> JNull"
  by (simp add: configuration_json_def)

lemma configuration_read [read_back]: "configuration_good Pp x \<Longrightarrow> (\<And>x. Pp x \<Longrightarrow> fp (gp x) = Some x) \<Longrightarrow>configuration_of_json fp dp (configuration_json gp x) = Some x"
  by (cases x) (simp add: configuration_of_json_def configuration_json_def configuration_good_def read_back)

lemma configuration_typed:
  assumes typed_p: "typed Pp fp" and default_p: "Pp dp" shows "typed (configuration_good Pp) (configuration_of_json fp dp)"
  unfolding typed_def configuration_of_json_def configuration_good_def
  by (auto simp: bind_eq_Some_conv dest!: typed_default [OF typed_p default_p])

record 'p user_request =
  ur_url :: string
  ur_headers :: 'p

definition user_request_json :: "('p \<Rightarrow> json) \<Rightarrow> 'p user_request \<Rightarrow> json" where
  "user_request_json gp x = JObj
     ([(''url'', JStr (ur_url x)),
      (''headers'', gp (ur_headers x))])"

definition user_request_of_json :: "(json \<Rightarrow> 'p option) \<Rightarrow> 'p \<Rightarrow> json \<Rightarrow> 'p user_request option" where
  "user_request_of_json fp dp j = do {
     kvs \<leftarrow> de_fields 1
       [''url'', ''headers''] j;
     x_url \<leftarrow> de_required de_string [''url''] kvs;
     x_headers \<leftarrow> de_default fp dp [''headers''] kvs;
     Some \<lparr>ur_url = x_url, ur_headers = x_headers\<rparr> }"

definition user_request_good :: "('p \<Rightarrow> bool) \<Rightarrow> 'p user_request \<Rightarrow> bool" where
  "user_request_good Pp x \<longleftrightarrow>
     Pp (ur_headers x)"

lemma user_request_not_null [simp]: "user_request_json gp x \<noteq> JNull"
  by (simp add: user_request_json_def)

lemma user_request_read [read_back]: "user_request_good Pp x \<Longrightarrow> (\<And>x. Pp x \<Longrightarrow> fp (gp x) = Some x) \<Longrightarrow>user_request_of_json fp dp (user_request_json gp x) = Some x"
  by (cases x) (simp add: user_request_of_json_def user_request_json_def user_request_good_def read_back)

lemma user_request_typed:
  assumes typed_p: "typed Pp fp" and default_p: "Pp dp" shows "typed (user_request_good Pp) (user_request_of_json fp dp)"
  unfolding typed_def user_request_of_json_def user_request_good_def
  by (auto simp: bind_eq_Some_conv dest!: typed_default [OF typed_p default_p])

record object_lambda_session_issuer =
  olsi_type :: string
  olsi_principal_id :: string
  olsi_arn :: string
  olsi_account_id :: string
  olsi_user_name :: string

definition object_lambda_session_issuer_json :: "object_lambda_session_issuer \<Rightarrow> json" where
  "object_lambda_session_issuer_json x = JObj
     ([(''type'', JStr (olsi_type x)),
      (''principalId'', JStr (olsi_principal_id x)),
      (''arn'', JStr (olsi_arn x)),
      (''accountId'', JStr (olsi_account_id x)),
      (''userName'', JStr (olsi_user_name x))])"

definition object_lambda_session_issuer_of_json :: "json \<Rightarrow> object_lambda_session_issuer option" where
  "object_lambda_session_issuer_of_json j = do {
     kvs \<leftarrow> de_fields 5
       [''type'', ''principalId'', ''arn'', ''accountId'', ''userName''] j;
     x_type \<leftarrow> de_required de_string [''type''] kvs;
     x_principal_id \<leftarrow> de_required de_string [''principalId''] kvs;
     x_arn \<leftarrow> de_required de_string [''arn''] kvs;
     x_account_id \<leftarrow> de_required de_string [''accountId''] kvs;
     x_user_name \<leftarrow> de_required de_string [''userName''] kvs;
     Some \<lparr>olsi_type = x_type, olsi_principal_id = x_principal_id, olsi_arn = x_arn,
       olsi_account_id = x_account_id, olsi_user_name = x_user_name\<rparr> }"

lemma object_lambda_session_issuer_not_null [simp]: "object_lambda_session_issuer_json x \<noteq> JNull"
  by (simp add: object_lambda_session_issuer_json_def)

lemma object_lambda_session_issuer_read [read_back]: "object_lambda_session_issuer_of_json (object_lambda_session_issuer_json x) = Some x"
  by (cases x) (simp add: object_lambda_session_issuer_of_json_def object_lambda_session_issuer_json_def read_back)

record object_lambda_session_context =
  olsc_attributes :: "(string \<times> string) list"
  olsc_session_issuer :: "object_lambda_session_issuer option"

definition object_lambda_session_context_json :: "object_lambda_session_context \<Rightarrow> json" where
  "object_lambda_session_context_json x = JObj
     ([(''attributes'', json_of_map JStr (olsc_attributes x)),
      (''sessionIssuer'', json_of_option object_lambda_session_issuer_json (olsc_session_issuer x))])"

definition object_lambda_session_context_of_json :: "json \<Rightarrow> object_lambda_session_context option" where
  "object_lambda_session_context_of_json j = do {
     kvs \<leftarrow> de_fields 1
       [''attributes'', ''sessionIssuer''] j;
     x_attributes \<leftarrow> de_required (de_hash_map de_string) [''attributes''] kvs;
     x_session_issuer \<leftarrow> de_optional object_lambda_session_issuer_of_json [''sessionIssuer''] kvs;
     Some \<lparr>olsc_attributes = x_attributes, olsc_session_issuer = x_session_issuer\<rparr> }"

definition object_lambda_session_context_good :: "object_lambda_session_context \<Rightarrow> bool" where
  "object_lambda_session_context_good x \<longleftrightarrow>
     good_map (\<lambda>_. True) (olsc_attributes x)"

lemma object_lambda_session_context_not_null [simp]: "object_lambda_session_context_json x \<noteq> JNull"
  by (simp add: object_lambda_session_context_json_def)

lemma object_lambda_session_context_read [read_back]: "object_lambda_session_context_good x \<Longrightarrow>object_lambda_session_context_of_json (object_lambda_session_context_json x) = Some x"
  by (cases x) (simp add: object_lambda_session_context_of_json_def object_lambda_session_context_json_def object_lambda_session_context_good_def read_back)

lemma object_lambda_session_context_typed: "typed object_lambda_session_context_good object_lambda_session_context_of_json"
  unfolding typed_def object_lambda_session_context_of_json_def object_lambda_session_context_good_def
  by (auto simp: bind_eq_Some_conv dest!: typed_required [OF typed_hash_map [OF typed_True [of "de_string"]]])

record object_lambda_user_identity =
  olui_type :: string
  olui_principal_id :: string
  olui_arn :: string
  olui_account_id :: string
  olui_access_key_id :: string
  olui_session_context :: "object_lambda_session_context option"

definition object_lambda_user_identity_json :: "object_lambda_user_identity \<Rightarrow> json" where
  "object_lambda_user_identity_json x = JObj
     ([(''type'', JStr (olui_type x)),
      (''principalId'', JStr (olui_principal_id x)),
      (''arn'', JStr (olui_arn x)),
      (''accountId'', JStr (olui_account_id x)),
      (''accessKeyId'', JStr (olui_access_key_id x)),
      (''sessionContext'', json_of_option object_lambda_session_context_json (olui_session_context x))])"

definition object_lambda_user_identity_of_json :: "json \<Rightarrow> object_lambda_user_identity option" where
  "object_lambda_user_identity_of_json j = do {
     kvs \<leftarrow> de_fields 6
       [''type'', ''principalId'', ''arn'', ''accountId'', ''accessKeyId'', ''sessionContext''] j;
     x_type \<leftarrow> de_required de_string [''type''] kvs;
     x_principal_id \<leftarrow> de_required de_string [''principalId''] kvs;
     x_arn \<leftarrow> de_required de_string [''arn''] kvs;
     x_account_id \<leftarrow> de_required de_string [''accountId''] kvs;
     x_access_key_id \<leftarrow> de_required de_string [''accessKeyId''] kvs;
     x_session_context \<leftarrow> de_optional object_lambda_session_context_of_json [''sessionContext''] kvs;
     Some \<lparr>olui_type = x_type, olui_principal_id = x_principal_id, olui_arn = x_arn,
       olui_account_id = x_account_id, olui_access_key_id = x_access_key_id,
       olui_session_context = x_session_context\<rparr> }"

definition object_lambda_user_identity_good :: "object_lambda_user_identity \<Rightarrow> bool" where
  "object_lambda_user_identity_good x \<longleftrightarrow>
     good_option object_lambda_session_context_good (olui_session_context x)"

lemma object_lambda_user_identity_not_null [simp]: "object_lambda_user_identity_json x \<noteq> JNull"
  by (simp add: object_lambda_user_identity_json_def)

lemma object_lambda_user_identity_read [read_back]: "object_lambda_user_identity_good x \<Longrightarrow>object_lambda_user_identity_of_json (object_lambda_user_identity_json x) = Some x"
  by (cases x) (simp add: object_lambda_user_identity_of_json_def object_lambda_user_identity_json_def object_lambda_user_identity_good_def read_back)

lemma object_lambda_user_identity_typed: "typed object_lambda_user_identity_good object_lambda_user_identity_of_json"
  unfolding typed_def object_lambda_user_identity_of_json_def object_lambda_user_identity_good_def
  by (auto simp: bind_eq_Some_conv dest!: typed_optional [OF object_lambda_session_context_typed])

definition configuration_default :: "'p \<Rightarrow> 'p configuration" where
  "configuration_default dp = \<lparr>co_access_point_arn = [], co_supporting_access_point_arn = [], co_payload = dp\<rparr>"

lemma configuration_default_good [simp]: "Pp dp \<Longrightarrow> configuration_good Pp (configuration_default dp)"
  by (simp add: configuration_default_def configuration_good_def)

record ('p, 'q) s3_object_lambda_event =
  sole_x_amz_request_id :: string
  sole_get_object_context :: "get_object_context option"
  sole_head_object_context :: "head_object_context option"
  sole_list_objects_context :: "list_objects_context option"
  sole_list_objects_v2_context :: "list_objects_v2_context option"
  sole_configuration :: "'p configuration"
  sole_user_request :: "'q user_request"
  sole_user_identity :: object_lambda_user_identity
  sole_protocol_version :: string

definition s3_object_lambda_event_json :: "('p \<Rightarrow> json) \<Rightarrow> ('q \<Rightarrow> json) \<Rightarrow> ('p, 'q) s3_object_lambda_event \<Rightarrow> json" where
  "s3_object_lambda_event_json gp gq x = JObj
     ([(''xAmzRequestId'', JStr (sole_x_amz_request_id x)),
      (''getObjectContext'', json_of_option get_object_context_json (sole_get_object_context x)),
      (''headObjectContext'', json_of_option head_object_context_json (sole_head_object_context x)),
      (''listObjectsContext'', json_of_option list_objects_context_json (sole_list_objects_context x)),
      (''listObjectsV2Context'', json_of_option list_objects_v2_context_json (sole_list_objects_v2_context x)),
      (''configuration'', configuration_json gp (sole_configuration x)),
      (''userRequest'', user_request_json gq (sole_user_request x)),
      (''userIdentity'', object_lambda_user_identity_json (sole_user_identity x)),
      (''protocolVersion'', JStr (sole_protocol_version x))])"

definition s3_object_lambda_event_of_json :: "(json \<Rightarrow> 'p option) \<Rightarrow> 'p \<Rightarrow> (json \<Rightarrow> 'q option) \<Rightarrow> 'q \<Rightarrow> json \<Rightarrow> ('p, 'q) s3_object_lambda_event option" where
  "s3_object_lambda_event_of_json fp dp fq dq j = do {
     kvs \<leftarrow> de_fields 9
       [''xAmzRequestId'', ''getObjectContext'', ''headObjectContext'', ''listObjectsContext'',
        ''listObjectsV2Context'', ''configuration'', ''userRequest'', ''userIdentity'',
        ''protocolVersion''] j;
     x_x_amz_request_id \<leftarrow> de_required de_string [''xAmzRequestId''] kvs;
     x_get_object_context \<leftarrow> de_optional get_object_context_of_json [''getObjectContext''] kvs;
     x_head_object_context \<leftarrow> de_optional head_object_context_of_json [''headObjectContext''] kvs;
     x_list_objects_context \<leftarrow> de_optional list_objects_context_of_json [''listObjectsContext''] kvs;
     x_list_objects_v2_context \<leftarrow> de_optional list_objects_v2_context_of_json [''listObjectsV2Context''] kvs;
     x_configuration \<leftarrow> de_default (configuration_of_json fp dp) (configuration_default dp) [''configuration''] kvs;
     x_user_request \<leftarrow> de_required (user_request_of_json fq dq) [''userRequest''] kvs;
     x_user_identity \<leftarrow> de_required object_lambda_user_identity_of_json [''userIdentity''] kvs;
     x_protocol_version \<leftarrow> de_required de_string [''protocolVersion''] kvs;
     Some \<lparr>sole_x_amz_request_id = x_x_amz_request_id,
       sole_get_object_context = x_get_object_context,
       sole_head_object_context = x_head_object_context,
       sole_list_objects_context = x_list_objects_context,
       sole_list_objects_v2_context = x_list_objects_v2_context,
       sole_configuration = x_configuration, sole_user_request = x_user_request,
       sole_user_identity = x_user_identity, sole_protocol_version = x_protocol_version\<rparr> }"

definition s3_object_lambda_event_good :: "('p \<Rightarrow> bool) \<Rightarrow> ('q \<Rightarrow> bool) \<Rightarrow> ('p, 'q) s3_object_lambda_event \<Rightarrow> bool" where
  "s3_object_lambda_event_good Pp Pq x \<longleftrightarrow>
     configuration_good Pp (sole_configuration x) \<and>
     user_request_good Pq (sole_user_request x) \<and>
     object_lambda_user_identity_good (sole_user_identity x)"

lemma s3_object_lambda_event_not_null [simp]: "s3_object_lambda_event_json gp gq x \<noteq> JNull"
  by (simp add: s3_object_lambda_event_json_def)

lemma s3_object_lambda_event_read [read_back]: "s3_object_lambda_event_good Pp Pq x \<Longrightarrow> (\<And>x. Pp x \<Longrightarrow> fp (gp x) = Some x) \<Longrightarrow> (\<And>x. Pq x \<Longrightarrow> fq (gq x) = Some x) \<Longrightarrow>s3_object_lambda_event_of_json fp dp fq dq (s3_object_lambda_event_json gp gq x) = Some x"
  by (cases x) (clarsimp simp: s3_object_lambda_event_of_json_def s3_object_lambda_event_json_def s3_object_lambda_event_good_def read_back)

lemma s3_object_lambda_event_typed:
  assumes typed_p: "typed Pp fp" and default_p: "Pp dp" and typed_q: "typed Pq fq" and default_q: "Pq dq" shows "typed (s3_object_lambda_event_good Pp Pq) (s3_object_lambda_event_of_json fp dp fq dq)"
  unfolding typed_def s3_object_lambda_event_of_json_def s3_object_lambda_event_good_def
  by (auto simp: bind_eq_Some_conv dest!: typed_default [OF configuration_typed [OF typed_p default_p] configuration_default_good [where Pp = "Pp" and dp = "dp", OF default_p]]
      typed_required [OF user_request_typed [OF typed_q default_q]]
      typed_required [OF object_lambda_user_identity_typed])

subsection \<open>\<^verbatim>\<open>ses\<close>\<close>

record simple_email_header =
  seh_name :: "string option"
  seh_value :: "string option"

definition simple_email_header_json :: "simple_email_header \<Rightarrow> json" where
  "simple_email_header_json x = JObj
     ([(''name'', json_of_option JStr (seh_name x)),
      (''value'', json_of_option JStr (seh_value x))])"

definition simple_email_header_of_json :: "json \<Rightarrow> simple_email_header option" where
  "simple_email_header_of_json j = do {
     kvs \<leftarrow> de_fields 0
       [''name'', ''value''] j;
     x_name \<leftarrow> de_opt_string ''name'' kvs;
     x_value \<leftarrow> de_opt_string ''value'' kvs;
     Some \<lparr>seh_name = x_name, seh_value = x_value\<rparr> }"

lemma simple_email_header_not_null [simp]: "simple_email_header_json x \<noteq> JNull"
  by (simp add: simple_email_header_json_def)

lemma simple_email_header_read [read_back]: "simple_email_header_of_json (simple_email_header_json x) = Some x"
  by (cases x) (simp add: simple_email_header_of_json_def simple_email_header_json_def read_back)

record simple_email_common_headers =
  sech_from :: "string list"
  sech_to :: "string list"
  sech_return_path :: "string option"
  sech_message_id :: "string option"
  sech_date :: "string option"
  sech_subject :: "string option"

definition simple_email_common_headers_json :: "simple_email_common_headers \<Rightarrow> json" where
  "simple_email_common_headers_json x = JObj
     ([(''from'', json_of_list JStr (sech_from x)),
      (''to'', json_of_list JStr (sech_to x)),
      (''returnPath'', json_of_option JStr (sech_return_path x)),
      (''messageId'', json_of_option JStr (sech_message_id x)),
      (''date'', json_of_option JStr (sech_date x)),
      (''subject'', json_of_option JStr (sech_subject x))])"

definition simple_email_common_headers_of_json :: "json \<Rightarrow> simple_email_common_headers option" where
  "simple_email_common_headers_of_json j = do {
     kvs \<leftarrow> de_fields 1
       [''from'', ''to'', ''returnPath'', ''messageId'', ''date'', ''subject''] j;
     x_from \<leftarrow> de_required (de_list de_string) [''from''] kvs;
     x_to \<leftarrow> de_default (de_list de_string) [] [''to''] kvs;
     x_return_path \<leftarrow> de_opt_string ''returnPath'' kvs;
     x_message_id \<leftarrow> de_opt_string ''messageId'' kvs;
     x_date \<leftarrow> de_opt_string ''date'' kvs;
     x_subject \<leftarrow> de_opt_string ''subject'' kvs;
     Some \<lparr>sech_from = x_from, sech_to = x_to, sech_return_path = x_return_path,
       sech_message_id = x_message_id, sech_date = x_date, sech_subject = x_subject\<rparr> }"

lemma simple_email_common_headers_not_null [simp]: "simple_email_common_headers_json x \<noteq> JNull"
  by (simp add: simple_email_common_headers_json_def)

lemma simple_email_common_headers_read [read_back]: "simple_email_common_headers_of_json (simple_email_common_headers_json x) = Some x"
  by (cases x) (simp add: simple_email_common_headers_of_json_def simple_email_common_headers_json_def read_back)

record simple_email_receipt_action =
  sera_type :: "string option"
  sera_topic_arn :: "string option"
  sera_bucket_name :: "string option"
  sera_object_key :: "string option"
  sera_smtp_reply_code :: "string option"
  sera_status_code :: "string option"
  sera_message :: "string option"
  sera_sender :: "string option"
  sera_invocation_type :: "string option"
  sera_function_arn :: "string option"
  sera_organization_arn :: "string option"

definition simple_email_receipt_action_json :: "simple_email_receipt_action \<Rightarrow> json" where
  "simple_email_receipt_action_json x = JObj
     ([(''type'', json_of_option JStr (sera_type x)),
      (''topicArn'', json_of_option JStr (sera_topic_arn x)),
      (''bucketName'', json_of_option JStr (sera_bucket_name x)),
      (''objectKey'', json_of_option JStr (sera_object_key x)),
      (''smtpReplyCode'', json_of_option JStr (sera_smtp_reply_code x)),
      (''statusCode'', json_of_option JStr (sera_status_code x)),
      (''message'', json_of_option JStr (sera_message x)),
      (''sender'', json_of_option JStr (sera_sender x)),
      (''invocationType'', json_of_option JStr (sera_invocation_type x)),
      (''functionArn'', json_of_option JStr (sera_function_arn x)),
      (''organizationArn'', json_of_option JStr (sera_organization_arn x))])"

definition simple_email_receipt_action_of_json :: "json \<Rightarrow> simple_email_receipt_action option" where
  "simple_email_receipt_action_of_json j = do {
     kvs \<leftarrow> de_fields 11
       [''type'', ''topicArn'', ''bucketName'', ''objectKey'', ''smtpReplyCode'', ''statusCode'',
        ''message'', ''sender'', ''invocationType'', ''functionArn'', ''organizationArn''] j;
     x_type \<leftarrow> de_opt_string ''type'' kvs;
     x_topic_arn \<leftarrow> de_opt_string ''topicArn'' kvs;
     x_bucket_name \<leftarrow> de_opt_string ''bucketName'' kvs;
     x_object_key \<leftarrow> de_opt_string ''objectKey'' kvs;
     x_smtp_reply_code \<leftarrow> de_opt_string ''smtpReplyCode'' kvs;
     x_status_code \<leftarrow> de_opt_string ''statusCode'' kvs;
     x_message \<leftarrow> de_opt_string ''message'' kvs;
     x_sender \<leftarrow> de_opt_string ''sender'' kvs;
     x_invocation_type \<leftarrow> de_opt_string ''invocationType'' kvs;
     x_function_arn \<leftarrow> de_opt_string ''functionArn'' kvs;
     x_organization_arn \<leftarrow> de_opt_string ''organizationArn'' kvs;
     Some \<lparr>sera_type = x_type, sera_topic_arn = x_topic_arn, sera_bucket_name = x_bucket_name,
       sera_object_key = x_object_key, sera_smtp_reply_code = x_smtp_reply_code,
       sera_status_code = x_status_code, sera_message = x_message, sera_sender = x_sender,
       sera_invocation_type = x_invocation_type, sera_function_arn = x_function_arn,
       sera_organization_arn = x_organization_arn\<rparr> }"

lemma simple_email_receipt_action_not_null [simp]: "simple_email_receipt_action_json x \<noteq> JNull"
  by (simp add: simple_email_receipt_action_json_def)

lemma simple_email_receipt_action_read [read_back]: "simple_email_receipt_action_of_json (simple_email_receipt_action_json x) = Some x"
  by (cases x) (simp add: simple_email_receipt_action_of_json_def simple_email_receipt_action_json_def read_back)

record simple_email_verdict =
  sever_status :: "string option"

definition simple_email_verdict_json :: "simple_email_verdict \<Rightarrow> json" where
  "simple_email_verdict_json x = JObj
     ([(''status'', json_of_option JStr (sever_status x))])"

definition simple_email_verdict_of_json :: "json \<Rightarrow> simple_email_verdict option" where
  "simple_email_verdict_of_json j = do {
     kvs \<leftarrow> de_fields 0
       [''status''] j;
     x_status \<leftarrow> de_opt_string ''status'' kvs;
     Some \<lparr>sever_status = x_status\<rparr> }"

lemma simple_email_verdict_not_null [simp]: "simple_email_verdict_json x \<noteq> JNull"
  by (simp add: simple_email_verdict_json_def)

lemma simple_email_verdict_read [read_back]: "simple_email_verdict_of_json (simple_email_verdict_json x) = Some x"
  by (cases x) (simp add: simple_email_verdict_of_json_def simple_email_verdict_json_def read_back)

record simple_email_disposition =
  sed_disposition :: string

definition simple_email_disposition_json :: "simple_email_disposition \<Rightarrow> json" where
  "simple_email_disposition_json x = JObj
     ([(''disposition'', JStr (sed_disposition x))])"

definition simple_email_disposition_of_json :: "json \<Rightarrow> simple_email_disposition option" where
  "simple_email_disposition_of_json j = do {
     kvs \<leftarrow> de_fields 1
       [''disposition''] j;
     x_disposition \<leftarrow> de_required de_string [''disposition''] kvs;
     Some \<lparr>sed_disposition = x_disposition\<rparr> }"

lemma simple_email_disposition_not_null [simp]: "simple_email_disposition_json x \<noteq> JNull"
  by (simp add: simple_email_disposition_json_def)

lemma simple_email_disposition_read [read_back]: "simple_email_disposition_of_json (simple_email_disposition_json x) = Some x"
  by (cases x) (simp add: simple_email_disposition_of_json_def simple_email_disposition_json_def read_back)

record 't simple_email_message =
  sem_common_headers :: simple_email_common_headers
  sem_source :: "string option"
  sem_timestamp :: 't
  sem_destination :: "string list"
  sem_headers :: "simple_email_header list"
  sem_headers_truncated :: bool
  sem_message_id :: "string option"

definition simple_email_message_json :: "'t event_env \<Rightarrow> 't simple_email_message \<Rightarrow> json" where
  "simple_email_message_json E x = JObj
     ([(''commonHeaders'', simple_email_common_headers_json (sem_common_headers x)),
      (''source'', json_of_option JStr (sem_source x)),
      (''timestamp'', json_of_time E (sem_timestamp x)),
      (''destination'', json_of_list JStr (sem_destination x)),
      (''headers'', json_of_list simple_email_header_json (sem_headers x)),
      (''headersTruncated'', JBool (sem_headers_truncated x)),
      (''messageId'', json_of_option JStr (sem_message_id x))])"

definition simple_email_message_of_json :: "'t event_env \<Rightarrow> json \<Rightarrow> 't simple_email_message option" where
  "simple_email_message_of_json E j = do {
     kvs \<leftarrow> de_fields 6
       [''commonHeaders'', ''source'', ''timestamp'', ''destination'', ''headers'',
        ''headersTruncated'', ''messageId''] j;
     x_common_headers \<leftarrow> de_required simple_email_common_headers_of_json [''commonHeaders''] kvs;
     x_source \<leftarrow> de_opt_string ''source'' kvs;
     x_timestamp \<leftarrow> de_required (time_of_json E) [''timestamp''] kvs;
     x_destination \<leftarrow> de_required (de_list de_string) [''destination''] kvs;
     x_headers \<leftarrow> de_required (de_list simple_email_header_of_json) [''headers''] kvs;
     x_headers_truncated \<leftarrow> de_required de_bool [''headersTruncated''] kvs;
     x_message_id \<leftarrow> de_opt_string ''messageId'' kvs;
     Some \<lparr>sem_common_headers = x_common_headers, sem_source = x_source,
       sem_timestamp = x_timestamp, sem_destination = x_destination, sem_headers = x_headers,
       sem_headers_truncated = x_headers_truncated, sem_message_id = x_message_id\<rparr> }"

lemma simple_email_message_not_null [simp]: "simple_email_message_json E x \<noteq> JNull"
  by (simp add: simple_email_message_json_def)

lemma simple_email_message_read [read_back]: "event_crates E \<Longrightarrow>simple_email_message_of_json E (simple_email_message_json E x) = Some x"
  by (cases x) (simp add: simple_email_message_of_json_def simple_email_message_json_def read_back)

record 't simple_email_receipt =
  serec_recipients :: "string list"
  serec_timestamp :: 't
  serec_spam_verdict :: simple_email_verdict
  serec_dkim_verdict :: simple_email_verdict
  serec_dmarc_verdict :: simple_email_verdict
  serec_dmarc_policy :: "string option"
  serec_spf_verdict :: simple_email_verdict
  serec_virus_verdict :: simple_email_verdict
  serec_action :: simple_email_receipt_action
  serec_processing_time_millis :: int

definition simple_email_receipt_json :: "'t event_env \<Rightarrow> 't simple_email_receipt \<Rightarrow> json" where
  "simple_email_receipt_json E x = JObj
     ([(''recipients'', json_of_list JStr (serec_recipients x)),
      (''timestamp'', json_of_time E (serec_timestamp x)),
      (''spamVerdict'', simple_email_verdict_json (serec_spam_verdict x)),
      (''dkimVerdict'', simple_email_verdict_json (serec_dkim_verdict x)),
      (''dmarcVerdict'', simple_email_verdict_json (serec_dmarc_verdict x)),
      (''dmarcPolicy'', json_of_option JStr (serec_dmarc_policy x)),
      (''spfVerdict'', simple_email_verdict_json (serec_spf_verdict x)),
      (''virusVerdict'', simple_email_verdict_json (serec_virus_verdict x)),
      (''action'', simple_email_receipt_action_json (serec_action x)),
      (''processingTimeMillis'', JInt (serec_processing_time_millis x))])"

definition simple_email_receipt_of_json :: "'t event_env \<Rightarrow> json \<Rightarrow> 't simple_email_receipt option" where
  "simple_email_receipt_of_json E j = do {
     kvs \<leftarrow> de_fields 10
       [''recipients'', ''timestamp'', ''spamVerdict'', ''dkimVerdict'', ''dmarcVerdict'',
        ''dmarcPolicy'', ''spfVerdict'', ''virusVerdict'', ''action'', ''processingTimeMillis''] j;
     x_recipients \<leftarrow> de_required (de_list de_string) [''recipients''] kvs;
     x_timestamp \<leftarrow> de_required (time_of_json E) [''timestamp''] kvs;
     x_spam_verdict \<leftarrow> de_required simple_email_verdict_of_json [''spamVerdict''] kvs;
     x_dkim_verdict \<leftarrow> de_required simple_email_verdict_of_json [''dkimVerdict''] kvs;
     x_dmarc_verdict \<leftarrow> de_required simple_email_verdict_of_json [''dmarcVerdict''] kvs;
     x_dmarc_policy \<leftarrow> de_opt_string ''dmarcPolicy'' kvs;
     x_spf_verdict \<leftarrow> de_required simple_email_verdict_of_json [''spfVerdict''] kvs;
     x_virus_verdict \<leftarrow> de_required simple_email_verdict_of_json [''virusVerdict''] kvs;
     x_action \<leftarrow> de_required simple_email_receipt_action_of_json [''action''] kvs;
     x_processing_time_millis \<leftarrow> de_required de_i64 [''processingTimeMillis''] kvs;
     Some \<lparr>serec_recipients = x_recipients, serec_timestamp = x_timestamp,
       serec_spam_verdict = x_spam_verdict, serec_dkim_verdict = x_dkim_verdict,
       serec_dmarc_verdict = x_dmarc_verdict, serec_dmarc_policy = x_dmarc_policy,
       serec_spf_verdict = x_spf_verdict, serec_virus_verdict = x_virus_verdict,
       serec_action = x_action, serec_processing_time_millis = x_processing_time_millis\<rparr> }"

definition simple_email_receipt_good :: "'t simple_email_receipt \<Rightarrow> bool" where
  "simple_email_receipt_good x \<longleftrightarrow>
     good_i64 (serec_processing_time_millis x)"

lemma simple_email_receipt_not_null [simp]: "simple_email_receipt_json E x \<noteq> JNull"
  by (simp add: simple_email_receipt_json_def)

lemma simple_email_receipt_read [read_back]: "simple_email_receipt_good x \<Longrightarrow> event_crates E \<Longrightarrow>simple_email_receipt_of_json E (simple_email_receipt_json E x) = Some x"
  by (cases x) (simp add: simple_email_receipt_of_json_def simple_email_receipt_json_def simple_email_receipt_good_def read_back)

lemma simple_email_receipt_typed: "typed simple_email_receipt_good (simple_email_receipt_of_json E)"
  unfolding typed_def simple_email_receipt_of_json_def simple_email_receipt_good_def
  by (auto simp: bind_eq_Some_conv dest!: typed_required [OF typed_i64])

record 't simple_email_service =
  ses_mail :: "'t simple_email_message"
  ses_receipt :: "'t simple_email_receipt"
  ses_content :: "string option"

definition simple_email_service_json :: "'t event_env \<Rightarrow> 't simple_email_service \<Rightarrow> json" where
  "simple_email_service_json E x = JObj
     ([(''mail'', simple_email_message_json E (ses_mail x)),
      (''receipt'', simple_email_receipt_json E (ses_receipt x)),
      (''content'', json_of_option JStr (ses_content x))])"

definition simple_email_service_of_json :: "'t event_env \<Rightarrow> json \<Rightarrow> 't simple_email_service option" where
  "simple_email_service_of_json E j = do {
     kvs \<leftarrow> de_fields 3
       [''mail'', ''receipt'', ''content''] j;
     x_mail \<leftarrow> de_required (simple_email_message_of_json E) [''mail''] kvs;
     x_receipt \<leftarrow> de_required (simple_email_receipt_of_json E) [''receipt''] kvs;
     x_content \<leftarrow> de_opt_string ''content'' kvs;
     Some \<lparr>ses_mail = x_mail, ses_receipt = x_receipt, ses_content = x_content\<rparr> }"

definition simple_email_service_good :: "'t simple_email_service \<Rightarrow> bool" where
  "simple_email_service_good x \<longleftrightarrow>
     simple_email_receipt_good (ses_receipt x)"

lemma simple_email_service_not_null [simp]: "simple_email_service_json E x \<noteq> JNull"
  by (simp add: simple_email_service_json_def)

lemma simple_email_service_read [read_back]: "simple_email_service_good x \<Longrightarrow> event_crates E \<Longrightarrow>simple_email_service_of_json E (simple_email_service_json E x) = Some x"
  by (cases x) (simp add: simple_email_service_of_json_def simple_email_service_json_def simple_email_service_good_def read_back)

lemma simple_email_service_typed: "typed simple_email_service_good (simple_email_service_of_json E)"
  unfolding typed_def simple_email_service_of_json_def simple_email_service_good_def
  by (auto simp: bind_eq_Some_conv dest!: typed_required [OF simple_email_receipt_typed])

record 't simple_email_record =
  sereco_event_version :: "string option"
  sereco_event_source :: "string option"
  sereco_ses :: "'t simple_email_service"

definition simple_email_record_json :: "'t event_env \<Rightarrow> 't simple_email_record \<Rightarrow> json" where
  "simple_email_record_json E x = JObj
     ([(''eventVersion'', json_of_option JStr (sereco_event_version x)),
      (''eventSource'', json_of_option JStr (sereco_event_source x)),
      (''ses'', simple_email_service_json E (sereco_ses x))])"

definition simple_email_record_of_json :: "'t event_env \<Rightarrow> json \<Rightarrow> 't simple_email_record option" where
  "simple_email_record_of_json E j = do {
     kvs \<leftarrow> de_fields 3
       [''eventVersion'', ''eventSource'', ''ses''] j;
     x_event_version \<leftarrow> de_opt_string ''eventVersion'' kvs;
     x_event_source \<leftarrow> de_opt_string ''eventSource'' kvs;
     x_ses \<leftarrow> de_required (simple_email_service_of_json E) [''ses''] kvs;
     Some \<lparr>sereco_event_version = x_event_version, sereco_event_source = x_event_source,
       sereco_ses = x_ses\<rparr> }"

definition simple_email_record_good :: "'t simple_email_record \<Rightarrow> bool" where
  "simple_email_record_good x \<longleftrightarrow>
     simple_email_service_good (sereco_ses x)"

lemma simple_email_record_not_null [simp]: "simple_email_record_json E x \<noteq> JNull"
  by (simp add: simple_email_record_json_def)

lemma simple_email_record_read [read_back]: "simple_email_record_good x \<Longrightarrow> event_crates E \<Longrightarrow>simple_email_record_of_json E (simple_email_record_json E x) = Some x"
  by (cases x) (simp add: simple_email_record_of_json_def simple_email_record_json_def simple_email_record_good_def read_back)

lemma simple_email_record_typed: "typed simple_email_record_good (simple_email_record_of_json E)"
  unfolding typed_def simple_email_record_of_json_def simple_email_record_good_def
  by (auto simp: bind_eq_Some_conv dest!: typed_required [OF simple_email_service_typed])

record 't simple_email_event =
  see_records :: "('t simple_email_record) list"

definition simple_email_event_json :: "'t event_env \<Rightarrow> 't simple_email_event \<Rightarrow> json" where
  "simple_email_event_json E x = JObj
     ([(''Records'', json_of_list (simple_email_record_json E) (see_records x))])"

definition simple_email_event_of_json :: "'t event_env \<Rightarrow> json \<Rightarrow> 't simple_email_event option" where
  "simple_email_event_of_json E j = do {
     kvs \<leftarrow> de_fields 1
       [''Records''] j;
     x_records \<leftarrow> de_required (de_list (simple_email_record_of_json E)) [''Records''] kvs;
     Some \<lparr>see_records = x_records\<rparr> }"

definition simple_email_event_good :: "'t simple_email_event \<Rightarrow> bool" where
  "simple_email_event_good x \<longleftrightarrow>
     list_all simple_email_record_good (see_records x)"

lemma simple_email_event_not_null [simp]: "simple_email_event_json E x \<noteq> JNull"
  by (simp add: simple_email_event_json_def)

lemma simple_email_event_read [read_back]: "simple_email_event_good x \<Longrightarrow> event_crates E \<Longrightarrow>simple_email_event_of_json E (simple_email_event_json E x) = Some x"
  by (cases x) (simp add: simple_email_event_of_json_def simple_email_event_json_def simple_email_event_good_def read_back)

lemma simple_email_event_typed: "typed simple_email_event_good (simple_email_event_of_json E)"
  unfolding typed_def simple_email_event_of_json_def simple_email_event_good_def
  by (auto simp: bind_eq_Some_conv dest!: typed_required [OF typed_list [OF simple_email_record_typed]])

subsection \<open>Reading what was written\<close>

text \<open>
  The events of S3 and SES: what is read is well formed, and what it is written to is read as
  the same event.
\<close>

lemma storage_events_reparse:
  assumes "event_crates E"
    and typed: "typed P f"
    and inverse: "\<And>x. P x \<Longrightarrow> f (g x) = Some x"
    and default: "P d"
  shows "reparses s3_event_good (s3_event_of_json E) (s3_event_json E) \<and>
    reparses (\<lambda>_. True) s3_batch_job_event_of_json s3_batch_job_event_json \<and>
    reparses (\<lambda>_. True) s3_batch_job_response_of_json s3_batch_job_response_json \<and>
    reparses (s3_object_lambda_event_good P P) (s3_object_lambda_event_of_json f d f d) (s3_object_lambda_event_json g g) \<and>
    reparses (\<lambda>_. True) simple_email_disposition_of_json simple_email_disposition_json \<and>
    reparses simple_email_event_good (simple_email_event_of_json E) (simple_email_event_json E)"
  by (intro conjI reparsesI typed_True typed_nn s3_event_typed
      s3_object_lambda_event_typed
      simple_email_event_typed)
    (auto simp: assms read_back)


definition batch_job_example :: json where
  "batch_job_example = JObj [(''invocationId'', JStr ''i''), (''results'', JArr [JObj [(''taskId'', JStr ''t'')]])]"

theorem storage_events_reparse_witness:
  "\<exists>x. s3_batch_job_response_of_json batch_job_example = Some x \<and> length (sbjre_results x) = 1 \<and>
     s3_batch_job_response_of_json (s3_batch_job_response_json x) = Some x"
proof -
  have "reparses (\<lambda>_. True) s3_batch_job_response_of_json s3_batch_job_response_json"
    using storage_events_reparse [where E = ref_event_env and P = "\<lambda>_. True" and f = de_string and g = JStr and d = "''d''",
      OF ref_events.event_crates_axioms typed_True de_string_JStr TrueI] by blast
  moreover have "map_option (\<lambda>x. length (sbjre_results x)) (s3_batch_job_response_of_json batch_job_example) = Some 1"
    by code_simp
  ultimately show ?thesis by (auto dest: reparsesD)
qed

end
