(* ===== verification/IdentityEvents.thy ===== *)
theory IdentityEvents
  imports EventSerde
begin

text \<open>
  The events of Cognito, AppSync, Chime, Lex, Connect and Bedrock agents (\<^verbatim>\<open>lambda-events/src/event\<close>).
  Each structure has its record, the serialiser and the deserialiser that \<^verbatim>\<open>derive\<close>
  generates from its attributes, well-formedness where its fields restrict it, and the lemmas that
  what is read is well formed and what is written is read back. Structures are in the order
  their fields need.
\<close>

subsection \<open>\<^verbatim>\<open>cognito\<close>\<close>

record cognito_dataset_record =
  cdr_new_value :: "string option"
  cdr_old_value :: "string option"
  cdr_op :: "string option"

definition cognito_dataset_record_json :: "cognito_dataset_record \<Rightarrow> json" where
  "cognito_dataset_record_json x = JObj
     ([(''newValue'', json_of_option JStr (cdr_new_value x)),
      (''oldValue'', json_of_option JStr (cdr_old_value x)),
      (''op'', json_of_option JStr (cdr_op x))])"

definition cognito_dataset_record_of_json :: "json \<Rightarrow> cognito_dataset_record option" where
  "cognito_dataset_record_of_json j = do {
     kvs \<leftarrow> de_fields 0
       [''newValue'', ''oldValue'', ''op''] j;
     x_new_value \<leftarrow> de_opt_string ''newValue'' kvs;
     x_old_value \<leftarrow> de_opt_string ''oldValue'' kvs;
     x_op \<leftarrow> de_opt_string ''op'' kvs;
     Some \<lparr>cdr_new_value = x_new_value, cdr_old_value = x_old_value, cdr_op = x_op\<rparr> }"

lemma cognito_dataset_record_not_null [simp]: "cognito_dataset_record_json x \<noteq> JNull"
  by (simp add: cognito_dataset_record_json_def)

lemma cognito_dataset_record_read [read_back]: "cognito_dataset_record_of_json (cognito_dataset_record_json x) = Some x"
  by (cases x) (simp add: cognito_dataset_record_of_json_def cognito_dataset_record_json_def read_back)

datatype cognito_event_user_pools_pre_signup_trigger_source =
    CognitoEventUserPoolsPreSignupTriggerSource_SignUp |
    CognitoEventUserPoolsPreSignupTriggerSource_AdminCreateUser |
    CognitoEventUserPoolsPreSignupTriggerSource_ExternalProvider

fun cognito_event_user_pools_pre_signup_trigger_source_name :: "cognito_event_user_pools_pre_signup_trigger_source \<Rightarrow> string" where
  "cognito_event_user_pools_pre_signup_trigger_source_name CognitoEventUserPoolsPreSignupTriggerSource_SignUp = ''PreSignUp_SignUp''"
| "cognito_event_user_pools_pre_signup_trigger_source_name CognitoEventUserPoolsPreSignupTriggerSource_AdminCreateUser = ''PreSignUp_AdminCreateUser''"
| "cognito_event_user_pools_pre_signup_trigger_source_name CognitoEventUserPoolsPreSignupTriggerSource_ExternalProvider = ''PreSignUp_ExternalProvider''"

definition cognito_event_user_pools_pre_signup_trigger_source_json :: "cognito_event_user_pools_pre_signup_trigger_source \<Rightarrow> json" where
  "cognito_event_user_pools_pre_signup_trigger_source_json x = JStr (cognito_event_user_pools_pre_signup_trigger_source_name x)"

definition cognito_event_user_pools_pre_signup_trigger_source_of_json :: "json \<Rightarrow> cognito_event_user_pools_pre_signup_trigger_source option" where
  "cognito_event_user_pools_pre_signup_trigger_source_of_json = de_variant cognito_event_user_pools_pre_signup_trigger_source_name
     [CognitoEventUserPoolsPreSignupTriggerSource_SignUp,
      CognitoEventUserPoolsPreSignupTriggerSource_AdminCreateUser,
      CognitoEventUserPoolsPreSignupTriggerSource_ExternalProvider]"

lemma cognito_event_user_pools_pre_signup_trigger_source_not_null [simp]: "cognito_event_user_pools_pre_signup_trigger_source_json x \<noteq> JNull"
  by (simp add: cognito_event_user_pools_pre_signup_trigger_source_json_def)

lemma cognito_event_user_pools_pre_signup_trigger_source_read [read_back]: "cognito_event_user_pools_pre_signup_trigger_source_of_json (cognito_event_user_pools_pre_signup_trigger_source_json x) = Some x"
  by (cases x) (simp_all add: cognito_event_user_pools_pre_signup_trigger_source_of_json_def cognito_event_user_pools_pre_signup_trigger_source_json_def de_variant_def)

datatype cognito_event_user_pools_pre_authentication_trigger_source =
    CognitoEventUserPoolsPreAuthenticationTriggerSource_Authentication

fun cognito_event_user_pools_pre_authentication_trigger_source_name :: "cognito_event_user_pools_pre_authentication_trigger_source \<Rightarrow> string" where
  "cognito_event_user_pools_pre_authentication_trigger_source_name CognitoEventUserPoolsPreAuthenticationTriggerSource_Authentication = ''PreAuthentication_Authentication''"

definition cognito_event_user_pools_pre_authentication_trigger_source_json :: "cognito_event_user_pools_pre_authentication_trigger_source \<Rightarrow> json" where
  "cognito_event_user_pools_pre_authentication_trigger_source_json x = JStr (cognito_event_user_pools_pre_authentication_trigger_source_name x)"

definition cognito_event_user_pools_pre_authentication_trigger_source_of_json :: "json \<Rightarrow> cognito_event_user_pools_pre_authentication_trigger_source option" where
  "cognito_event_user_pools_pre_authentication_trigger_source_of_json = de_variant cognito_event_user_pools_pre_authentication_trigger_source_name
     [CognitoEventUserPoolsPreAuthenticationTriggerSource_Authentication]"

lemma cognito_event_user_pools_pre_authentication_trigger_source_not_null [simp]: "cognito_event_user_pools_pre_authentication_trigger_source_json x \<noteq> JNull"
  by (simp add: cognito_event_user_pools_pre_authentication_trigger_source_json_def)

lemma cognito_event_user_pools_pre_authentication_trigger_source_read [read_back]: "cognito_event_user_pools_pre_authentication_trigger_source_of_json (cognito_event_user_pools_pre_authentication_trigger_source_json x) = Some x"
  by (cases x) (simp_all add: cognito_event_user_pools_pre_authentication_trigger_source_of_json_def cognito_event_user_pools_pre_authentication_trigger_source_json_def de_variant_def)

datatype cognito_event_user_pools_post_confirmation_trigger_source =
    CognitoEventUserPoolsPostConfirmationTriggerSource_ConfirmForgotPassword |
    CognitoEventUserPoolsPostConfirmationTriggerSource_ConfirmSignUp

fun cognito_event_user_pools_post_confirmation_trigger_source_name :: "cognito_event_user_pools_post_confirmation_trigger_source \<Rightarrow> string" where
  "cognito_event_user_pools_post_confirmation_trigger_source_name CognitoEventUserPoolsPostConfirmationTriggerSource_ConfirmForgotPassword = ''PostConfirmation_ConfirmForgotPassword''"
| "cognito_event_user_pools_post_confirmation_trigger_source_name CognitoEventUserPoolsPostConfirmationTriggerSource_ConfirmSignUp = ''PostConfirmation_ConfirmSignUp''"

definition cognito_event_user_pools_post_confirmation_trigger_source_json :: "cognito_event_user_pools_post_confirmation_trigger_source \<Rightarrow> json" where
  "cognito_event_user_pools_post_confirmation_trigger_source_json x = JStr (cognito_event_user_pools_post_confirmation_trigger_source_name x)"

definition cognito_event_user_pools_post_confirmation_trigger_source_of_json :: "json \<Rightarrow> cognito_event_user_pools_post_confirmation_trigger_source option" where
  "cognito_event_user_pools_post_confirmation_trigger_source_of_json = de_variant cognito_event_user_pools_post_confirmation_trigger_source_name
     [CognitoEventUserPoolsPostConfirmationTriggerSource_ConfirmForgotPassword,
      CognitoEventUserPoolsPostConfirmationTriggerSource_ConfirmSignUp]"

lemma cognito_event_user_pools_post_confirmation_trigger_source_not_null [simp]: "cognito_event_user_pools_post_confirmation_trigger_source_json x \<noteq> JNull"
  by (simp add: cognito_event_user_pools_post_confirmation_trigger_source_json_def)

lemma cognito_event_user_pools_post_confirmation_trigger_source_read [read_back]: "cognito_event_user_pools_post_confirmation_trigger_source_of_json (cognito_event_user_pools_post_confirmation_trigger_source_json x) = Some x"
  by (cases x) (simp_all add: cognito_event_user_pools_post_confirmation_trigger_source_of_json_def cognito_event_user_pools_post_confirmation_trigger_source_json_def de_variant_def)

datatype cognito_event_user_pools_pre_token_gen_trigger_source =
    CognitoEventUserPoolsPreTokenGenTriggerSource_HostedAuth |
    CognitoEventUserPoolsPreTokenGenTriggerSource_Authentication |
    CognitoEventUserPoolsPreTokenGenTriggerSource_NewPasswordChallenge |
    CognitoEventUserPoolsPreTokenGenTriggerSource_AuthenticateDevice |
    CognitoEventUserPoolsPreTokenGenTriggerSource_RefreshTokens

fun cognito_event_user_pools_pre_token_gen_trigger_source_name :: "cognito_event_user_pools_pre_token_gen_trigger_source \<Rightarrow> string" where
  "cognito_event_user_pools_pre_token_gen_trigger_source_name CognitoEventUserPoolsPreTokenGenTriggerSource_HostedAuth = ''TokenGeneration_HostedAuth''"
| "cognito_event_user_pools_pre_token_gen_trigger_source_name CognitoEventUserPoolsPreTokenGenTriggerSource_Authentication = ''TokenGeneration_Authentication''"
| "cognito_event_user_pools_pre_token_gen_trigger_source_name CognitoEventUserPoolsPreTokenGenTriggerSource_NewPasswordChallenge = ''TokenGeneration_NewPasswordChallenge''"
| "cognito_event_user_pools_pre_token_gen_trigger_source_name CognitoEventUserPoolsPreTokenGenTriggerSource_AuthenticateDevice = ''TokenGeneration_AuthenticateDevice''"
| "cognito_event_user_pools_pre_token_gen_trigger_source_name CognitoEventUserPoolsPreTokenGenTriggerSource_RefreshTokens = ''TokenGeneration_RefreshTokens''"

definition cognito_event_user_pools_pre_token_gen_trigger_source_json :: "cognito_event_user_pools_pre_token_gen_trigger_source \<Rightarrow> json" where
  "cognito_event_user_pools_pre_token_gen_trigger_source_json x = JStr (cognito_event_user_pools_pre_token_gen_trigger_source_name x)"

definition cognito_event_user_pools_pre_token_gen_trigger_source_of_json :: "json \<Rightarrow> cognito_event_user_pools_pre_token_gen_trigger_source option" where
  "cognito_event_user_pools_pre_token_gen_trigger_source_of_json = de_variant cognito_event_user_pools_pre_token_gen_trigger_source_name
     [CognitoEventUserPoolsPreTokenGenTriggerSource_HostedAuth,
      CognitoEventUserPoolsPreTokenGenTriggerSource_Authentication,
      CognitoEventUserPoolsPreTokenGenTriggerSource_NewPasswordChallenge,
      CognitoEventUserPoolsPreTokenGenTriggerSource_AuthenticateDevice,
      CognitoEventUserPoolsPreTokenGenTriggerSource_RefreshTokens]"

lemma cognito_event_user_pools_pre_token_gen_trigger_source_not_null [simp]: "cognito_event_user_pools_pre_token_gen_trigger_source_json x \<noteq> JNull"
  by (simp add: cognito_event_user_pools_pre_token_gen_trigger_source_json_def)

lemma cognito_event_user_pools_pre_token_gen_trigger_source_read [read_back]: "cognito_event_user_pools_pre_token_gen_trigger_source_of_json (cognito_event_user_pools_pre_token_gen_trigger_source_json x) = Some x"
  by (cases x) (simp_all add: cognito_event_user_pools_pre_token_gen_trigger_source_of_json_def cognito_event_user_pools_pre_token_gen_trigger_source_json_def de_variant_def)

datatype cognito_event_user_pools_post_authentication_trigger_source =
    CognitoEventUserPoolsPostAuthenticationTriggerSource_Authentication

fun cognito_event_user_pools_post_authentication_trigger_source_name :: "cognito_event_user_pools_post_authentication_trigger_source \<Rightarrow> string" where
  "cognito_event_user_pools_post_authentication_trigger_source_name CognitoEventUserPoolsPostAuthenticationTriggerSource_Authentication = ''PostAuthentication_Authentication''"

definition cognito_event_user_pools_post_authentication_trigger_source_json :: "cognito_event_user_pools_post_authentication_trigger_source \<Rightarrow> json" where
  "cognito_event_user_pools_post_authentication_trigger_source_json x = JStr (cognito_event_user_pools_post_authentication_trigger_source_name x)"

definition cognito_event_user_pools_post_authentication_trigger_source_of_json :: "json \<Rightarrow> cognito_event_user_pools_post_authentication_trigger_source option" where
  "cognito_event_user_pools_post_authentication_trigger_source_of_json = de_variant cognito_event_user_pools_post_authentication_trigger_source_name
     [CognitoEventUserPoolsPostAuthenticationTriggerSource_Authentication]"

lemma cognito_event_user_pools_post_authentication_trigger_source_not_null [simp]: "cognito_event_user_pools_post_authentication_trigger_source_json x \<noteq> JNull"
  by (simp add: cognito_event_user_pools_post_authentication_trigger_source_json_def)

lemma cognito_event_user_pools_post_authentication_trigger_source_read [read_back]: "cognito_event_user_pools_post_authentication_trigger_source_of_json (cognito_event_user_pools_post_authentication_trigger_source_json x) = Some x"
  by (cases x) (simp_all add: cognito_event_user_pools_post_authentication_trigger_source_of_json_def cognito_event_user_pools_post_authentication_trigger_source_json_def de_variant_def)

datatype cognito_event_user_pools_migrate_user_trigger_source =
    CognitoEventUserPoolsMigrateUserTriggerSource_Authentication |
    CognitoEventUserPoolsMigrateUserTriggerSource_ForgotPassword

fun cognito_event_user_pools_migrate_user_trigger_source_name :: "cognito_event_user_pools_migrate_user_trigger_source \<Rightarrow> string" where
  "cognito_event_user_pools_migrate_user_trigger_source_name CognitoEventUserPoolsMigrateUserTriggerSource_Authentication = ''UserMigration_Authentication''"
| "cognito_event_user_pools_migrate_user_trigger_source_name CognitoEventUserPoolsMigrateUserTriggerSource_ForgotPassword = ''UserMigration_ForgotPassword''"

definition cognito_event_user_pools_migrate_user_trigger_source_json :: "cognito_event_user_pools_migrate_user_trigger_source \<Rightarrow> json" where
  "cognito_event_user_pools_migrate_user_trigger_source_json x = JStr (cognito_event_user_pools_migrate_user_trigger_source_name x)"

definition cognito_event_user_pools_migrate_user_trigger_source_of_json :: "json \<Rightarrow> cognito_event_user_pools_migrate_user_trigger_source option" where
  "cognito_event_user_pools_migrate_user_trigger_source_of_json = de_variant cognito_event_user_pools_migrate_user_trigger_source_name
     [CognitoEventUserPoolsMigrateUserTriggerSource_Authentication,
      CognitoEventUserPoolsMigrateUserTriggerSource_ForgotPassword]"

lemma cognito_event_user_pools_migrate_user_trigger_source_not_null [simp]: "cognito_event_user_pools_migrate_user_trigger_source_json x \<noteq> JNull"
  by (simp add: cognito_event_user_pools_migrate_user_trigger_source_json_def)

lemma cognito_event_user_pools_migrate_user_trigger_source_read [read_back]: "cognito_event_user_pools_migrate_user_trigger_source_of_json (cognito_event_user_pools_migrate_user_trigger_source_json x) = Some x"
  by (cases x) (simp_all add: cognito_event_user_pools_migrate_user_trigger_source_of_json_def cognito_event_user_pools_migrate_user_trigger_source_json_def de_variant_def)

record cognito_event_user_pools_caller_context =
  ceupcc_awssdk_version :: "string option"
  ceupcc_client_id :: "string option"

definition cognito_event_user_pools_caller_context_json :: "cognito_event_user_pools_caller_context \<Rightarrow> json" where
  "cognito_event_user_pools_caller_context_json x = JObj
     ([(''awsSdkVersion'', json_of_option JStr (ceupcc_awssdk_version x)),
      (''clientId'', json_of_option JStr (ceupcc_client_id x))])"

definition cognito_event_user_pools_caller_context_of_json :: "json \<Rightarrow> cognito_event_user_pools_caller_context option" where
  "cognito_event_user_pools_caller_context_of_json j = do {
     kvs \<leftarrow> de_fields 0
       [''awsSdkVersion'', ''clientId''] j;
     x_awssdk_version \<leftarrow> de_opt_string ''awsSdkVersion'' kvs;
     x_client_id \<leftarrow> de_opt_string ''clientId'' kvs;
     Some \<lparr>ceupcc_awssdk_version = x_awssdk_version, ceupcc_client_id = x_client_id\<rparr> }"

lemma cognito_event_user_pools_caller_context_not_null [simp]: "cognito_event_user_pools_caller_context_json x \<noteq> JNull"
  by (simp add: cognito_event_user_pools_caller_context_json_def)

lemma cognito_event_user_pools_caller_context_read [read_back]: "cognito_event_user_pools_caller_context_of_json (cognito_event_user_pools_caller_context_json x) = Some x"
  by (cases x) (simp add: cognito_event_user_pools_caller_context_of_json_def cognito_event_user_pools_caller_context_json_def read_back)

record 'p cognito_event_user_pools_header =
  ceuph_version :: "string option"
  ceuph_trigger_source :: "'p option"
  ceuph_region :: "string option"
  ceuph_user_pool_id :: "string option"
  ceuph_caller_context :: cognito_event_user_pools_caller_context
  ceuph_user_name :: "string option"

definition cognito_event_user_pools_header_fields :: "('p \<Rightarrow> json) \<Rightarrow> 'p cognito_event_user_pools_header \<Rightarrow> (string \<times> json) list" where
  "cognito_event_user_pools_header_fields gp x =
     [(''version'', json_of_option JStr (ceuph_version x)),
      (''triggerSource'', json_of_option gp (ceuph_trigger_source x)),
      (''region'', json_of_option JStr (ceuph_region x)),
      (''userPoolId'', json_of_option JStr (ceuph_user_pool_id x)),
      (''callerContext'', cognito_event_user_pools_caller_context_json (ceuph_caller_context x)),
      (''userName'', json_of_option JStr (ceuph_user_name x))]"

definition cognito_event_user_pools_header_json :: "('p \<Rightarrow> json) \<Rightarrow> 'p cognito_event_user_pools_header \<Rightarrow> json" where
  "cognito_event_user_pools_header_json gp x = JObj (cognito_event_user_pools_header_fields gp x)"

definition cognito_event_user_pools_header_of_fields :: "(json \<Rightarrow> 'p option) \<Rightarrow> (string \<times> json) list \<Rightarrow> 'p cognito_event_user_pools_header option" where
  "cognito_event_user_pools_header_of_fields fp kvs = do {
     x_version \<leftarrow> de_opt_string ''version'' kvs;
     x_trigger_source \<leftarrow> de_optional fp [''triggerSource''] kvs;
     x_region \<leftarrow> de_opt_string ''region'' kvs;
     x_user_pool_id \<leftarrow> de_opt_string ''userPoolId'' kvs;
     x_caller_context \<leftarrow> de_required cognito_event_user_pools_caller_context_of_json [''callerContext''] kvs;
     x_user_name \<leftarrow> de_opt_string ''userName'' kvs;
     Some \<lparr>ceuph_version = x_version, ceuph_trigger_source = x_trigger_source,
       ceuph_region = x_region, ceuph_user_pool_id = x_user_pool_id,
       ceuph_caller_context = x_caller_context, ceuph_user_name = x_user_name\<rparr> }"

definition cognito_event_user_pools_header_of_json :: "(json \<Rightarrow> 'p option) \<Rightarrow> json \<Rightarrow> 'p cognito_event_user_pools_header option" where
  "cognito_event_user_pools_header_of_json fp j = do {
     kvs \<leftarrow> de_fields 5
       [''version'', ''triggerSource'', ''region'', ''userPoolId'', ''callerContext'', ''userName''] j;
     cognito_event_user_pools_header_of_fields fp kvs }"

definition cognito_event_user_pools_header_good :: "('p \<Rightarrow> bool) \<Rightarrow> 'p cognito_event_user_pools_header \<Rightarrow> bool" where
  "cognito_event_user_pools_header_good Pp x \<longleftrightarrow>
     good_option Pp (ceuph_trigger_source x)"

lemma cognito_event_user_pools_header_not_null [simp]: "cognito_event_user_pools_header_json gp x \<noteq> JNull"
  by (simp add: cognito_event_user_pools_header_json_def)

lemma cognito_event_user_pools_header_fields_read:
  "cognito_event_user_pools_header_good Pp x \<Longrightarrow> (\<And>x. Pp x \<Longrightarrow> gp x \<noteq> JNull \<and> fp (gp x) = Some x) \<Longrightarrow> cognito_event_user_pools_header_of_fields fp (cognito_event_user_pools_header_fields gp x) = Some x"
  by (cases x) (simp add: cognito_event_user_pools_header_of_fields_def cognito_event_user_pools_header_fields_def cognito_event_user_pools_header_good_def read_back)

lemma cognito_event_user_pools_header_read [read_back]: "cognito_event_user_pools_header_good Pp x \<Longrightarrow> (\<And>x. Pp x \<Longrightarrow> gp x \<noteq> JNull \<and> fp (gp x) = Some x) \<Longrightarrow>cognito_event_user_pools_header_of_json fp (cognito_event_user_pools_header_json gp x) = Some x"
  by (simp add: cognito_event_user_pools_header_of_json_def cognito_event_user_pools_header_json_def cognito_event_user_pools_header_fields_read read_back)

lemma cognito_event_user_pools_header_fields_typed:
  assumes typed_p: "typed_nn Pp fp" shows "typed_fields (cognito_event_user_pools_header_good Pp) (cognito_event_user_pools_header_of_fields fp)"
  unfolding typed_fields_def cognito_event_user_pools_header_of_fields_def cognito_event_user_pools_header_good_def
  by (auto simp: bind_eq_Some_conv dest!: typed_nn_optional [OF typed_p])

lemma cognito_event_user_pools_header_typed:
  assumes typed_p: "typed_nn Pp fp" shows "typed (cognito_event_user_pools_header_good Pp) (cognito_event_user_pools_header_of_json fp)"
  unfolding typed_def cognito_event_user_pools_header_of_json_def
  by (auto simp: bind_eq_Some_conv dest!: typed_fieldsD [OF cognito_event_user_pools_header_fields_typed [OF typed_p]])

record cognito_event_user_pools_pre_signup_request =
  ceuppsr_user_attributes :: "(string \<times> string) list"
  ceuppsr_validation_data :: "(string \<times> string) list"
  ceuppsr_client_metadata :: "(string \<times> string) list"

definition cognito_event_user_pools_pre_signup_request_json :: "cognito_event_user_pools_pre_signup_request \<Rightarrow> json" where
  "cognito_event_user_pools_pre_signup_request_json x = JObj
     ([(''userAttributes'', json_of_map JStr (ceuppsr_user_attributes x)),
      (''validationData'', json_of_map JStr (ceuppsr_validation_data x)),
      (''clientMetadata'', json_of_map JStr (ceuppsr_client_metadata x))])"

definition cognito_event_user_pools_pre_signup_request_of_json :: "json \<Rightarrow> cognito_event_user_pools_pre_signup_request option" where
  "cognito_event_user_pools_pre_signup_request_of_json j = do {
     kvs \<leftarrow> de_fields 0
       [''userAttributes'', ''validationData'', ''clientMetadata''] j;
     x_user_attributes \<leftarrow> de_default (de_nullish (de_hash_map de_string) []) [] [''userAttributes''] kvs;
     x_validation_data \<leftarrow> de_default (de_nullish (de_hash_map de_string) []) [] [''validationData''] kvs;
     x_client_metadata \<leftarrow> de_default (de_nullish (de_hash_map de_string) []) [] [''clientMetadata''] kvs;
     Some \<lparr>ceuppsr_user_attributes = x_user_attributes, ceuppsr_validation_data = x_validation_data,
       ceuppsr_client_metadata = x_client_metadata\<rparr> }"

definition cognito_event_user_pools_pre_signup_request_good :: "cognito_event_user_pools_pre_signup_request \<Rightarrow> bool" where
  "cognito_event_user_pools_pre_signup_request_good x \<longleftrightarrow>
     good_map (\<lambda>_. True) (ceuppsr_user_attributes x) \<and>
     good_map (\<lambda>_. True) (ceuppsr_validation_data x) \<and>
     good_map (\<lambda>_. True) (ceuppsr_client_metadata x)"

lemma cognito_event_user_pools_pre_signup_request_not_null [simp]: "cognito_event_user_pools_pre_signup_request_json x \<noteq> JNull"
  by (simp add: cognito_event_user_pools_pre_signup_request_json_def)

lemma cognito_event_user_pools_pre_signup_request_read [read_back]: "cognito_event_user_pools_pre_signup_request_good x \<Longrightarrow>cognito_event_user_pools_pre_signup_request_of_json (cognito_event_user_pools_pre_signup_request_json x) = Some x"
  by (cases x) (clarsimp simp: cognito_event_user_pools_pre_signup_request_of_json_def cognito_event_user_pools_pre_signup_request_json_def cognito_event_user_pools_pre_signup_request_good_def read_back)

lemma cognito_event_user_pools_pre_signup_request_typed: "typed cognito_event_user_pools_pre_signup_request_good cognito_event_user_pools_pre_signup_request_of_json"
  unfolding typed_def cognito_event_user_pools_pre_signup_request_of_json_def cognito_event_user_pools_pre_signup_request_good_def
  by (auto simp: bind_eq_Some_conv dest!: typed_default [OF typed_nullish [OF typed_hash_map [OF typed_True [of "de_string"]] good_nil(1)] good_nil(1)])

record cognito_event_user_pools_pre_signup_response =
  ceuppsre_auto_confirm_user :: bool
  ceuppsre_auto_verify_email :: bool
  ceuppsre_auto_verify_phone :: bool

definition cognito_event_user_pools_pre_signup_response_json :: "cognito_event_user_pools_pre_signup_response \<Rightarrow> json" where
  "cognito_event_user_pools_pre_signup_response_json x = JObj
     ([(''autoConfirmUser'', JBool (ceuppsre_auto_confirm_user x)),
      (''autoVerifyEmail'', JBool (ceuppsre_auto_verify_email x)),
      (''autoVerifyPhone'', JBool (ceuppsre_auto_verify_phone x))])"

definition cognito_event_user_pools_pre_signup_response_of_json :: "json \<Rightarrow> cognito_event_user_pools_pre_signup_response option" where
  "cognito_event_user_pools_pre_signup_response_of_json j = do {
     kvs \<leftarrow> de_fields 3
       [''autoConfirmUser'', ''autoVerifyEmail'', ''autoVerifyPhone''] j;
     x_auto_confirm_user \<leftarrow> de_required de_bool [''autoConfirmUser''] kvs;
     x_auto_verify_email \<leftarrow> de_required de_bool [''autoVerifyEmail''] kvs;
     x_auto_verify_phone \<leftarrow> de_required de_bool [''autoVerifyPhone''] kvs;
     Some \<lparr>ceuppsre_auto_confirm_user = x_auto_confirm_user,
       ceuppsre_auto_verify_email = x_auto_verify_email,
       ceuppsre_auto_verify_phone = x_auto_verify_phone\<rparr> }"

lemma cognito_event_user_pools_pre_signup_response_not_null [simp]: "cognito_event_user_pools_pre_signup_response_json x \<noteq> JNull"
  by (simp add: cognito_event_user_pools_pre_signup_response_json_def)

lemma cognito_event_user_pools_pre_signup_response_read [read_back]: "cognito_event_user_pools_pre_signup_response_of_json (cognito_event_user_pools_pre_signup_response_json x) = Some x"
  by (cases x) (simp add: cognito_event_user_pools_pre_signup_response_of_json_def cognito_event_user_pools_pre_signup_response_json_def read_back)

record cognito_event_user_pools_pre_authentication_request =
  ceuppar_user_attributes :: "(string \<times> string) list"
  ceuppar_validation_data :: "(string \<times> string) list"

definition cognito_event_user_pools_pre_authentication_request_json :: "cognito_event_user_pools_pre_authentication_request \<Rightarrow> json" where
  "cognito_event_user_pools_pre_authentication_request_json x = JObj
     ([(''userAttributes'', json_of_map JStr (ceuppar_user_attributes x)),
      (''validationData'', json_of_map JStr (ceuppar_validation_data x))])"

definition cognito_event_user_pools_pre_authentication_request_of_json :: "json \<Rightarrow> cognito_event_user_pools_pre_authentication_request option" where
  "cognito_event_user_pools_pre_authentication_request_of_json j = do {
     kvs \<leftarrow> de_fields 0
       [''userAttributes'', ''validationData''] j;
     x_user_attributes \<leftarrow> de_default (de_nullish (de_hash_map de_string) []) [] [''userAttributes''] kvs;
     x_validation_data \<leftarrow> de_default (de_nullish (de_hash_map de_string) []) [] [''validationData''] kvs;
     Some \<lparr>ceuppar_user_attributes = x_user_attributes, ceuppar_validation_data = x_validation_data\<rparr> }"

definition cognito_event_user_pools_pre_authentication_request_good :: "cognito_event_user_pools_pre_authentication_request \<Rightarrow> bool" where
  "cognito_event_user_pools_pre_authentication_request_good x \<longleftrightarrow>
     good_map (\<lambda>_. True) (ceuppar_user_attributes x) \<and>
     good_map (\<lambda>_. True) (ceuppar_validation_data x)"

lemma cognito_event_user_pools_pre_authentication_request_not_null [simp]: "cognito_event_user_pools_pre_authentication_request_json x \<noteq> JNull"
  by (simp add: cognito_event_user_pools_pre_authentication_request_json_def)

lemma cognito_event_user_pools_pre_authentication_request_read [read_back]: "cognito_event_user_pools_pre_authentication_request_good x \<Longrightarrow>cognito_event_user_pools_pre_authentication_request_of_json (cognito_event_user_pools_pre_authentication_request_json x) = Some x"
  by (cases x) (clarsimp simp: cognito_event_user_pools_pre_authentication_request_of_json_def cognito_event_user_pools_pre_authentication_request_json_def cognito_event_user_pools_pre_authentication_request_good_def read_back)

lemma cognito_event_user_pools_pre_authentication_request_typed: "typed cognito_event_user_pools_pre_authentication_request_good cognito_event_user_pools_pre_authentication_request_of_json"
  unfolding typed_def cognito_event_user_pools_pre_authentication_request_of_json_def cognito_event_user_pools_pre_authentication_request_good_def
  by (auto simp: bind_eq_Some_conv dest!: typed_default [OF typed_nullish [OF typed_hash_map [OF typed_True [of "de_string"]] good_nil(1)] good_nil(1)])

type_synonym cognito_event_user_pools_pre_authentication_response = unit

definition cognito_event_user_pools_pre_authentication_response_json :: "cognito_event_user_pools_pre_authentication_response \<Rightarrow> json" where
  "cognito_event_user_pools_pre_authentication_response_json x = JObj []"

definition cognito_event_user_pools_pre_authentication_response_of_json :: "json \<Rightarrow> cognito_event_user_pools_pre_authentication_response option" where
  "cognito_event_user_pools_pre_authentication_response_of_json j = map_option (\<lambda>kvs. ()) (de_fields 0 [] j)"

lemma cognito_event_user_pools_pre_authentication_response_not_null [simp]: "cognito_event_user_pools_pre_authentication_response_json x \<noteq> JNull"
  by (simp add: cognito_event_user_pools_pre_authentication_response_json_def)

lemma cognito_event_user_pools_pre_authentication_response_read [read_back]: "cognito_event_user_pools_pre_authentication_response_of_json (cognito_event_user_pools_pre_authentication_response_json x) = Some x"
  by (simp add: cognito_event_user_pools_pre_authentication_response_of_json_def cognito_event_user_pools_pre_authentication_response_json_def read_back)

record cognito_event_user_pools_post_confirmation_request =
  ceuppcr_user_attributes :: "(string \<times> string) list"
  ceuppcr_client_metadata :: "(string \<times> string) list"

definition cognito_event_user_pools_post_confirmation_request_json :: "cognito_event_user_pools_post_confirmation_request \<Rightarrow> json" where
  "cognito_event_user_pools_post_confirmation_request_json x = JObj
     ([(''userAttributes'', json_of_map JStr (ceuppcr_user_attributes x)),
      (''clientMetadata'', json_of_map JStr (ceuppcr_client_metadata x))])"

definition cognito_event_user_pools_post_confirmation_request_of_json :: "json \<Rightarrow> cognito_event_user_pools_post_confirmation_request option" where
  "cognito_event_user_pools_post_confirmation_request_of_json j = do {
     kvs \<leftarrow> de_fields 0
       [''userAttributes'', ''clientMetadata''] j;
     x_user_attributes \<leftarrow> de_default (de_nullish (de_hash_map de_string) []) [] [''userAttributes''] kvs;
     x_client_metadata \<leftarrow> de_default (de_nullish (de_hash_map de_string) []) [] [''clientMetadata''] kvs;
     Some \<lparr>ceuppcr_user_attributes = x_user_attributes, ceuppcr_client_metadata = x_client_metadata\<rparr> }"

definition cognito_event_user_pools_post_confirmation_request_good :: "cognito_event_user_pools_post_confirmation_request \<Rightarrow> bool" where
  "cognito_event_user_pools_post_confirmation_request_good x \<longleftrightarrow>
     good_map (\<lambda>_. True) (ceuppcr_user_attributes x) \<and>
     good_map (\<lambda>_. True) (ceuppcr_client_metadata x)"

lemma cognito_event_user_pools_post_confirmation_request_not_null [simp]: "cognito_event_user_pools_post_confirmation_request_json x \<noteq> JNull"
  by (simp add: cognito_event_user_pools_post_confirmation_request_json_def)

lemma cognito_event_user_pools_post_confirmation_request_read [read_back]: "cognito_event_user_pools_post_confirmation_request_good x \<Longrightarrow>cognito_event_user_pools_post_confirmation_request_of_json (cognito_event_user_pools_post_confirmation_request_json x) = Some x"
  by (cases x) (clarsimp simp: cognito_event_user_pools_post_confirmation_request_of_json_def cognito_event_user_pools_post_confirmation_request_json_def cognito_event_user_pools_post_confirmation_request_good_def read_back)

lemma cognito_event_user_pools_post_confirmation_request_typed: "typed cognito_event_user_pools_post_confirmation_request_good cognito_event_user_pools_post_confirmation_request_of_json"
  unfolding typed_def cognito_event_user_pools_post_confirmation_request_of_json_def cognito_event_user_pools_post_confirmation_request_good_def
  by (auto simp: bind_eq_Some_conv dest!: typed_default [OF typed_nullish [OF typed_hash_map [OF typed_True [of "de_string"]] good_nil(1)] good_nil(1)])

type_synonym cognito_event_user_pools_post_confirmation_response = unit

definition cognito_event_user_pools_post_confirmation_response_json :: "cognito_event_user_pools_post_confirmation_response \<Rightarrow> json" where
  "cognito_event_user_pools_post_confirmation_response_json x = JObj []"

definition cognito_event_user_pools_post_confirmation_response_of_json :: "json \<Rightarrow> cognito_event_user_pools_post_confirmation_response option" where
  "cognito_event_user_pools_post_confirmation_response_of_json j = map_option (\<lambda>kvs. ()) (de_fields 0 [] j)"

lemma cognito_event_user_pools_post_confirmation_response_not_null [simp]: "cognito_event_user_pools_post_confirmation_response_json x \<noteq> JNull"
  by (simp add: cognito_event_user_pools_post_confirmation_response_json_def)

lemma cognito_event_user_pools_post_confirmation_response_read [read_back]: "cognito_event_user_pools_post_confirmation_response_of_json (cognito_event_user_pools_post_confirmation_response_json x) = Some x"
  by (simp add: cognito_event_user_pools_post_confirmation_response_of_json_def cognito_event_user_pools_post_confirmation_response_json_def read_back)

record cognito_id_token_generation_v2 =
  citgv_claims_to_add_or_override :: "(string \<times> json) list"
  citgv_claims_to_suppress :: "string list"

definition cognito_id_token_generation_v2_json :: "cognito_id_token_generation_v2 \<Rightarrow> json" where
  "cognito_id_token_generation_v2_json x = JObj
     ([(''claimsToAddOrOverride'', json_of_map (\<lambda>v. v) (citgv_claims_to_add_or_override x)),
      (''claimsToSuppress'', json_of_list JStr (citgv_claims_to_suppress x))])"

definition cognito_id_token_generation_v2_of_json :: "json \<Rightarrow> cognito_id_token_generation_v2 option" where
  "cognito_id_token_generation_v2_of_json j = do {
     kvs \<leftarrow> de_fields 2
       [''claimsToAddOrOverride'', ''claimsToSuppress''] j;
     x_claims_to_add_or_override \<leftarrow> de_required (de_hash_map Some) [''claimsToAddOrOverride''] kvs;
     x_claims_to_suppress \<leftarrow> de_required (de_list de_string) [''claimsToSuppress''] kvs;
     Some \<lparr>citgv_claims_to_add_or_override = x_claims_to_add_or_override,
       citgv_claims_to_suppress = x_claims_to_suppress\<rparr> }"

definition cognito_id_token_generation_v2_good :: "cognito_id_token_generation_v2 \<Rightarrow> bool" where
  "cognito_id_token_generation_v2_good x \<longleftrightarrow>
     good_map (\<lambda>_. True) (citgv_claims_to_add_or_override x)"

lemma cognito_id_token_generation_v2_not_null [simp]: "cognito_id_token_generation_v2_json x \<noteq> JNull"
  by (simp add: cognito_id_token_generation_v2_json_def)

lemma cognito_id_token_generation_v2_read [read_back]: "cognito_id_token_generation_v2_good x \<Longrightarrow>cognito_id_token_generation_v2_of_json (cognito_id_token_generation_v2_json x) = Some x"
  by (cases x) (simp add: cognito_id_token_generation_v2_of_json_def cognito_id_token_generation_v2_json_def cognito_id_token_generation_v2_good_def read_back)

lemma cognito_id_token_generation_v2_typed: "typed cognito_id_token_generation_v2_good cognito_id_token_generation_v2_of_json"
  unfolding typed_def cognito_id_token_generation_v2_of_json_def cognito_id_token_generation_v2_good_def
  by (auto simp: bind_eq_Some_conv dest!: typed_required [OF typed_hash_map [OF typed_True [of "Some"]]])

record cognito_access_token_generation_v2 =
  catgv_claims_to_add_or_override :: "(string \<times> json) list"
  catgv_claims_to_suppress :: "string list"
  catgv_scopes_to_add :: "string list"
  catgv_scopes_to_suppress :: "string list"

definition cognito_access_token_generation_v2_json :: "cognito_access_token_generation_v2 \<Rightarrow> json" where
  "cognito_access_token_generation_v2_json x = JObj
     ([(''claimsToAddOrOverride'', json_of_map (\<lambda>v. v) (catgv_claims_to_add_or_override x)),
      (''claimsToSuppress'', json_of_list JStr (catgv_claims_to_suppress x)),
      (''scopesToAdd'', json_of_list JStr (catgv_scopes_to_add x)),
      (''scopesToSuppress'', json_of_list JStr (catgv_scopes_to_suppress x))])"

definition cognito_access_token_generation_v2_of_json :: "json \<Rightarrow> cognito_access_token_generation_v2 option" where
  "cognito_access_token_generation_v2_of_json j = do {
     kvs \<leftarrow> de_fields 4
       [''claimsToAddOrOverride'', ''claimsToSuppress'', ''scopesToAdd'', ''scopesToSuppress''] j;
     x_claims_to_add_or_override \<leftarrow> de_required (de_hash_map Some) [''claimsToAddOrOverride''] kvs;
     x_claims_to_suppress \<leftarrow> de_required (de_list de_string) [''claimsToSuppress''] kvs;
     x_scopes_to_add \<leftarrow> de_required (de_list de_string) [''scopesToAdd''] kvs;
     x_scopes_to_suppress \<leftarrow> de_required (de_list de_string) [''scopesToSuppress''] kvs;
     Some \<lparr>catgv_claims_to_add_or_override = x_claims_to_add_or_override,
       catgv_claims_to_suppress = x_claims_to_suppress, catgv_scopes_to_add = x_scopes_to_add,
       catgv_scopes_to_suppress = x_scopes_to_suppress\<rparr> }"

definition cognito_access_token_generation_v2_good :: "cognito_access_token_generation_v2 \<Rightarrow> bool" where
  "cognito_access_token_generation_v2_good x \<longleftrightarrow>
     good_map (\<lambda>_. True) (catgv_claims_to_add_or_override x)"

lemma cognito_access_token_generation_v2_not_null [simp]: "cognito_access_token_generation_v2_json x \<noteq> JNull"
  by (simp add: cognito_access_token_generation_v2_json_def)

lemma cognito_access_token_generation_v2_read [read_back]: "cognito_access_token_generation_v2_good x \<Longrightarrow>cognito_access_token_generation_v2_of_json (cognito_access_token_generation_v2_json x) = Some x"
  by (cases x) (simp add: cognito_access_token_generation_v2_of_json_def cognito_access_token_generation_v2_json_def cognito_access_token_generation_v2_good_def read_back)

lemma cognito_access_token_generation_v2_typed: "typed cognito_access_token_generation_v2_good cognito_access_token_generation_v2_of_json"
  unfolding typed_def cognito_access_token_generation_v2_of_json_def cognito_access_token_generation_v2_good_def
  by (auto simp: bind_eq_Some_conv dest!: typed_required [OF typed_hash_map [OF typed_True [of "Some"]]])

record cognito_event_user_pools_post_authentication_request =
  ceuppare_new_device_used :: bool
  ceuppare_user_attributes :: "(string \<times> string) list"
  ceuppare_client_metadata :: "(string \<times> string) list"

definition cognito_event_user_pools_post_authentication_request_json :: "cognito_event_user_pools_post_authentication_request \<Rightarrow> json" where
  "cognito_event_user_pools_post_authentication_request_json x = JObj
     ([(''newDeviceUsed'', JBool (ceuppare_new_device_used x)),
      (''userAttributes'', json_of_map JStr (ceuppare_user_attributes x)),
      (''clientMetadata'', json_of_map JStr (ceuppare_client_metadata x))])"

definition cognito_event_user_pools_post_authentication_request_of_json :: "json \<Rightarrow> cognito_event_user_pools_post_authentication_request option" where
  "cognito_event_user_pools_post_authentication_request_of_json j = do {
     kvs \<leftarrow> de_fields 1
       [''newDeviceUsed'', ''userAttributes'', ''clientMetadata''] j;
     x_new_device_used \<leftarrow> de_required de_bool [''newDeviceUsed''] kvs;
     x_user_attributes \<leftarrow> de_default (de_nullish (de_hash_map de_string) []) [] [''userAttributes''] kvs;
     x_client_metadata \<leftarrow> de_default (de_nullish (de_hash_map de_string) []) [] [''clientMetadata''] kvs;
     Some \<lparr>ceuppare_new_device_used = x_new_device_used,
       ceuppare_user_attributes = x_user_attributes, ceuppare_client_metadata = x_client_metadata\<rparr> }"

definition cognito_event_user_pools_post_authentication_request_good :: "cognito_event_user_pools_post_authentication_request \<Rightarrow> bool" where
  "cognito_event_user_pools_post_authentication_request_good x \<longleftrightarrow>
     good_map (\<lambda>_. True) (ceuppare_user_attributes x) \<and>
     good_map (\<lambda>_. True) (ceuppare_client_metadata x)"

lemma cognito_event_user_pools_post_authentication_request_not_null [simp]: "cognito_event_user_pools_post_authentication_request_json x \<noteq> JNull"
  by (simp add: cognito_event_user_pools_post_authentication_request_json_def)

lemma cognito_event_user_pools_post_authentication_request_read [read_back]: "cognito_event_user_pools_post_authentication_request_good x \<Longrightarrow>cognito_event_user_pools_post_authentication_request_of_json (cognito_event_user_pools_post_authentication_request_json x) = Some x"
  by (cases x) (clarsimp simp: cognito_event_user_pools_post_authentication_request_of_json_def cognito_event_user_pools_post_authentication_request_json_def cognito_event_user_pools_post_authentication_request_good_def read_back)

lemma cognito_event_user_pools_post_authentication_request_typed: "typed cognito_event_user_pools_post_authentication_request_good cognito_event_user_pools_post_authentication_request_of_json"
  unfolding typed_def cognito_event_user_pools_post_authentication_request_of_json_def cognito_event_user_pools_post_authentication_request_good_def
  by (auto simp: bind_eq_Some_conv dest!: typed_default [OF typed_nullish [OF typed_hash_map [OF typed_True [of "de_string"]] good_nil(1)] good_nil(1)])

type_synonym cognito_event_user_pools_post_authentication_response = unit

definition cognito_event_user_pools_post_authentication_response_json :: "cognito_event_user_pools_post_authentication_response \<Rightarrow> json" where
  "cognito_event_user_pools_post_authentication_response_json x = JObj []"

definition cognito_event_user_pools_post_authentication_response_of_json :: "json \<Rightarrow> cognito_event_user_pools_post_authentication_response option" where
  "cognito_event_user_pools_post_authentication_response_of_json j = map_option (\<lambda>kvs. ()) (de_fields 0 [] j)"

lemma cognito_event_user_pools_post_authentication_response_not_null [simp]: "cognito_event_user_pools_post_authentication_response_json x \<noteq> JNull"
  by (simp add: cognito_event_user_pools_post_authentication_response_json_def)

lemma cognito_event_user_pools_post_authentication_response_read [read_back]: "cognito_event_user_pools_post_authentication_response_of_json (cognito_event_user_pools_post_authentication_response_json x) = Some x"
  by (simp add: cognito_event_user_pools_post_authentication_response_of_json_def cognito_event_user_pools_post_authentication_response_json_def read_back)

record cognito_event_user_pools_migrate_user_request =
  ceupmur_password :: "string option"
  ceupmur_validation_data :: "(string \<times> string) list"
  ceupmur_client_metadata :: "(string \<times> string) list"

definition cognito_event_user_pools_migrate_user_request_json :: "cognito_event_user_pools_migrate_user_request \<Rightarrow> json" where
  "cognito_event_user_pools_migrate_user_request_json x = JObj
     ([(''password'', json_of_option JStr (ceupmur_password x)),
      (''validationData'', json_of_map JStr (ceupmur_validation_data x)),
      (''clientMetadata'', json_of_map JStr (ceupmur_client_metadata x))])"

definition cognito_event_user_pools_migrate_user_request_of_json :: "json \<Rightarrow> cognito_event_user_pools_migrate_user_request option" where
  "cognito_event_user_pools_migrate_user_request_of_json j = do {
     kvs \<leftarrow> de_fields 0
       [''password'', ''validationData'', ''clientMetadata''] j;
     x_password \<leftarrow> de_opt_string ''password'' kvs;
     x_validation_data \<leftarrow> de_default (de_nullish (de_hash_map de_string) []) [] [''validationData''] kvs;
     x_client_metadata \<leftarrow> de_default (de_nullish (de_hash_map de_string) []) [] [''clientMetadata''] kvs;
     Some \<lparr>ceupmur_password = x_password, ceupmur_validation_data = x_validation_data,
       ceupmur_client_metadata = x_client_metadata\<rparr> }"

definition cognito_event_user_pools_migrate_user_request_good :: "cognito_event_user_pools_migrate_user_request \<Rightarrow> bool" where
  "cognito_event_user_pools_migrate_user_request_good x \<longleftrightarrow>
     good_map (\<lambda>_. True) (ceupmur_validation_data x) \<and>
     good_map (\<lambda>_. True) (ceupmur_client_metadata x)"

lemma cognito_event_user_pools_migrate_user_request_not_null [simp]: "cognito_event_user_pools_migrate_user_request_json x \<noteq> JNull"
  by (simp add: cognito_event_user_pools_migrate_user_request_json_def)

lemma cognito_event_user_pools_migrate_user_request_read [read_back]: "cognito_event_user_pools_migrate_user_request_good x \<Longrightarrow>cognito_event_user_pools_migrate_user_request_of_json (cognito_event_user_pools_migrate_user_request_json x) = Some x"
  by (cases x) (clarsimp simp: cognito_event_user_pools_migrate_user_request_of_json_def cognito_event_user_pools_migrate_user_request_json_def cognito_event_user_pools_migrate_user_request_good_def read_back)

lemma cognito_event_user_pools_migrate_user_request_typed: "typed cognito_event_user_pools_migrate_user_request_good cognito_event_user_pools_migrate_user_request_of_json"
  unfolding typed_def cognito_event_user_pools_migrate_user_request_of_json_def cognito_event_user_pools_migrate_user_request_good_def
  by (auto simp: bind_eq_Some_conv dest!: typed_default [OF typed_nullish [OF typed_hash_map [OF typed_True [of "de_string"]] good_nil(1)] good_nil(1)])

record cognito_event_user_pools_migrate_user_response =
  ceupmure_user_attributes :: "(string \<times> string) list"
  ceupmure_final_user_status :: "string option"
  ceupmure_message_action :: "string option"
  ceupmure_desired_delivery_mediums :: "(string list) option"
  ceupmure_force_alias_creation :: bool

definition cognito_event_user_pools_migrate_user_response_json :: "cognito_event_user_pools_migrate_user_response \<Rightarrow> json" where
  "cognito_event_user_pools_migrate_user_response_json x = JObj
     ([(''userAttributes'', json_of_map JStr (ceupmure_user_attributes x)),
      (''finalUserStatus'', json_of_option JStr (ceupmure_final_user_status x)),
      (''messageAction'', json_of_option JStr (ceupmure_message_action x)),
      (''desiredDeliveryMediums'', json_of_option (json_of_list JStr) (ceupmure_desired_delivery_mediums x)),
      (''forceAliasCreation'', JBool (ceupmure_force_alias_creation x))])"

definition cognito_event_user_pools_migrate_user_response_of_json :: "json \<Rightarrow> cognito_event_user_pools_migrate_user_response option" where
  "cognito_event_user_pools_migrate_user_response_of_json j = do {
     kvs \<leftarrow> de_fields 0
       [''userAttributes'', ''finalUserStatus'', ''messageAction'', ''desiredDeliveryMediums'',
        ''forceAliasCreation''] j;
     x_user_attributes \<leftarrow> de_default (de_nullish (de_hash_map de_string) []) [] [''userAttributes''] kvs;
     x_final_user_status \<leftarrow> de_opt_string ''finalUserStatus'' kvs;
     x_message_action \<leftarrow> de_opt_string ''messageAction'' kvs;
     x_desired_delivery_mediums \<leftarrow> de_optional (de_list de_string) [''desiredDeliveryMediums''] kvs;
     x_force_alias_creation \<leftarrow> de_default (de_nullish de_bool False) False [''forceAliasCreation''] kvs;
     Some \<lparr>ceupmure_user_attributes = x_user_attributes,
       ceupmure_final_user_status = x_final_user_status,
       ceupmure_message_action = x_message_action,
       ceupmure_desired_delivery_mediums = x_desired_delivery_mediums,
       ceupmure_force_alias_creation = x_force_alias_creation\<rparr> }"

definition cognito_event_user_pools_migrate_user_response_good :: "cognito_event_user_pools_migrate_user_response \<Rightarrow> bool" where
  "cognito_event_user_pools_migrate_user_response_good x \<longleftrightarrow>
     good_map (\<lambda>_. True) (ceupmure_user_attributes x)"

lemma cognito_event_user_pools_migrate_user_response_not_null [simp]: "cognito_event_user_pools_migrate_user_response_json x \<noteq> JNull"
  by (simp add: cognito_event_user_pools_migrate_user_response_json_def)

lemma cognito_event_user_pools_migrate_user_response_read [read_back]: "cognito_event_user_pools_migrate_user_response_good x \<Longrightarrow>cognito_event_user_pools_migrate_user_response_of_json (cognito_event_user_pools_migrate_user_response_json x) = Some x"
  by (cases x) (simp add: cognito_event_user_pools_migrate_user_response_of_json_def cognito_event_user_pools_migrate_user_response_json_def cognito_event_user_pools_migrate_user_response_good_def read_back)

lemma cognito_event_user_pools_migrate_user_response_typed: "typed cognito_event_user_pools_migrate_user_response_good cognito_event_user_pools_migrate_user_response_of_json"
  unfolding typed_def cognito_event_user_pools_migrate_user_response_of_json_def cognito_event_user_pools_migrate_user_response_good_def
  by (auto simp: bind_eq_Some_conv dest!: typed_default [OF typed_nullish [OF typed_hash_map [OF typed_True [of "de_string"]] good_nil(1)] good_nil(1)])

record group_configuration =
  gc_groups_to_override :: "string list"
  gc_iam_roles_to_override :: "string list"
  gc_preferred_role :: "string option"

definition group_configuration_json :: "group_configuration \<Rightarrow> json" where
  "group_configuration_json x = JObj
     ([(''groupsToOverride'', json_of_list JStr (gc_groups_to_override x)),
      (''iamRolesToOverride'', json_of_list JStr (gc_iam_roles_to_override x)),
      (''preferredRole'', json_of_option JStr (gc_preferred_role x))])"

definition group_configuration_of_json :: "json \<Rightarrow> group_configuration option" where
  "group_configuration_of_json j = do {
     kvs \<leftarrow> de_fields 3
       [''groupsToOverride'', ''iamRolesToOverride'', ''preferredRole''] j;
     x_groups_to_override \<leftarrow> de_required (de_list de_string) [''groupsToOverride''] kvs;
     x_iam_roles_to_override \<leftarrow> de_required (de_list de_string) [''iamRolesToOverride''] kvs;
     x_preferred_role \<leftarrow> de_opt_string ''preferredRole'' kvs;
     Some \<lparr>gc_groups_to_override = x_groups_to_override,
       gc_iam_roles_to_override = x_iam_roles_to_override, gc_preferred_role = x_preferred_role\<rparr> }"

lemma group_configuration_not_null [simp]: "group_configuration_json x \<noteq> JNull"
  by (simp add: group_configuration_json_def)

lemma group_configuration_read [read_back]: "group_configuration_of_json (group_configuration_json x) = Some x"
  by (cases x) (simp add: group_configuration_of_json_def group_configuration_json_def read_back)

record cognito_event_user_pools_challenge_result =
  ceupcr_challenge_name :: "string option"
  ceupcr_challenge_result :: bool
  ceupcr_challenge_metadata :: "string option"

definition cognito_event_user_pools_challenge_result_json :: "cognito_event_user_pools_challenge_result \<Rightarrow> json" where
  "cognito_event_user_pools_challenge_result_json x = JObj
     ([(''challengeName'', json_of_option JStr (ceupcr_challenge_name x)),
      (''challengeResult'', JBool (ceupcr_challenge_result x)),
      (''challengeMetadata'', json_of_option JStr (ceupcr_challenge_metadata x))])"

definition cognito_event_user_pools_challenge_result_of_json :: "json \<Rightarrow> cognito_event_user_pools_challenge_result option" where
  "cognito_event_user_pools_challenge_result_of_json j = do {
     kvs \<leftarrow> de_fields 2
       [''challengeName'', ''challengeResult'', ''challengeMetadata''] j;
     x_challenge_name \<leftarrow> de_opt_string ''challengeName'' kvs;
     x_challenge_result \<leftarrow> de_required de_bool [''challengeResult''] kvs;
     x_challenge_metadata \<leftarrow> de_opt_string ''challengeMetadata'' kvs;
     Some \<lparr>ceupcr_challenge_name = x_challenge_name, ceupcr_challenge_result = x_challenge_result,
       ceupcr_challenge_metadata = x_challenge_metadata\<rparr> }"

lemma cognito_event_user_pools_challenge_result_not_null [simp]: "cognito_event_user_pools_challenge_result_json x \<noteq> JNull"
  by (simp add: cognito_event_user_pools_challenge_result_json_def)

lemma cognito_event_user_pools_challenge_result_read [read_back]: "cognito_event_user_pools_challenge_result_of_json (cognito_event_user_pools_challenge_result_json x) = Some x"
  by (cases x) (simp add: cognito_event_user_pools_challenge_result_of_json_def cognito_event_user_pools_challenge_result_json_def read_back)

record cognito_event_user_pools_define_auth_challenge_request =
  ceupdacr_user_attributes :: "(string \<times> string) list"
  ceupdacr_session :: "(cognito_event_user_pools_challenge_result option) list"
  ceupdacr_client_metadata :: "(string \<times> string) list"
  ceupdacr_user_not_found :: bool

definition cognito_event_user_pools_define_auth_challenge_request_json :: "cognito_event_user_pools_define_auth_challenge_request \<Rightarrow> json" where
  "cognito_event_user_pools_define_auth_challenge_request_json x = JObj
     ([(''userAttributes'', json_of_map JStr (ceupdacr_user_attributes x)),
      (''session'', json_of_list (json_of_option cognito_event_user_pools_challenge_result_json) (ceupdacr_session x)),
      (''clientMetadata'', json_of_map JStr (ceupdacr_client_metadata x)),
      (''userNotFound'', JBool (ceupdacr_user_not_found x))])"

definition cognito_event_user_pools_define_auth_challenge_request_of_json :: "json \<Rightarrow> cognito_event_user_pools_define_auth_challenge_request option" where
  "cognito_event_user_pools_define_auth_challenge_request_of_json j = do {
     kvs \<leftarrow> de_fields 2
       [''userAttributes'', ''session'', ''clientMetadata'', ''userNotFound''] j;
     x_user_attributes \<leftarrow> de_default (de_nullish (de_hash_map de_string) []) [] [''userAttributes''] kvs;
     x_session \<leftarrow> de_required (de_list (de_option cognito_event_user_pools_challenge_result_of_json)) [''session''] kvs;
     x_client_metadata \<leftarrow> de_default (de_nullish (de_hash_map de_string) []) [] [''clientMetadata''] kvs;
     x_user_not_found \<leftarrow> de_default de_bool False [''userNotFound''] kvs;
     Some \<lparr>ceupdacr_user_attributes = x_user_attributes, ceupdacr_session = x_session,
       ceupdacr_client_metadata = x_client_metadata, ceupdacr_user_not_found = x_user_not_found\<rparr> }"

definition cognito_event_user_pools_define_auth_challenge_request_good :: "cognito_event_user_pools_define_auth_challenge_request \<Rightarrow> bool" where
  "cognito_event_user_pools_define_auth_challenge_request_good x \<longleftrightarrow>
     good_map (\<lambda>_. True) (ceupdacr_user_attributes x) \<and>
     good_map (\<lambda>_. True) (ceupdacr_client_metadata x)"

lemma cognito_event_user_pools_define_auth_challenge_request_not_null [simp]: "cognito_event_user_pools_define_auth_challenge_request_json x \<noteq> JNull"
  by (simp add: cognito_event_user_pools_define_auth_challenge_request_json_def)

lemma cognito_event_user_pools_define_auth_challenge_request_read [read_back]: "cognito_event_user_pools_define_auth_challenge_request_good x \<Longrightarrow>cognito_event_user_pools_define_auth_challenge_request_of_json (cognito_event_user_pools_define_auth_challenge_request_json x) = Some x"
  by (cases x) (clarsimp simp: cognito_event_user_pools_define_auth_challenge_request_of_json_def cognito_event_user_pools_define_auth_challenge_request_json_def cognito_event_user_pools_define_auth_challenge_request_good_def read_back)

lemma cognito_event_user_pools_define_auth_challenge_request_typed: "typed cognito_event_user_pools_define_auth_challenge_request_good cognito_event_user_pools_define_auth_challenge_request_of_json"
  unfolding typed_def cognito_event_user_pools_define_auth_challenge_request_of_json_def cognito_event_user_pools_define_auth_challenge_request_good_def
  by (auto simp: bind_eq_Some_conv dest!: typed_default [OF typed_nullish [OF typed_hash_map [OF typed_True [of "de_string"]] good_nil(1)] good_nil(1)])

record cognito_event_user_pools_define_auth_challenge_response =
  ceupdacre_challenge_name :: "string option"
  ceupdacre_issue_tokens :: bool
  ceupdacre_fail_authentication :: bool

definition cognito_event_user_pools_define_auth_challenge_response_json :: "cognito_event_user_pools_define_auth_challenge_response \<Rightarrow> json" where
  "cognito_event_user_pools_define_auth_challenge_response_json x = JObj
     ([(''challengeName'', json_of_option JStr (ceupdacre_challenge_name x)),
      (''issueTokens'', JBool (ceupdacre_issue_tokens x)),
      (''failAuthentication'', JBool (ceupdacre_fail_authentication x))])"

definition cognito_event_user_pools_define_auth_challenge_response_of_json :: "json \<Rightarrow> cognito_event_user_pools_define_auth_challenge_response option" where
  "cognito_event_user_pools_define_auth_challenge_response_of_json j = do {
     kvs \<leftarrow> de_fields 0
       [''challengeName'', ''issueTokens'', ''failAuthentication''] j;
     x_challenge_name \<leftarrow> de_opt_string ''challengeName'' kvs;
     x_issue_tokens \<leftarrow> de_default (de_nullish de_bool False) False [''issueTokens''] kvs;
     x_fail_authentication \<leftarrow> de_default (de_nullish de_bool False) False [''failAuthentication''] kvs;
     Some \<lparr>ceupdacre_challenge_name = x_challenge_name, ceupdacre_issue_tokens = x_issue_tokens,
       ceupdacre_fail_authentication = x_fail_authentication\<rparr> }"

lemma cognito_event_user_pools_define_auth_challenge_response_not_null [simp]: "cognito_event_user_pools_define_auth_challenge_response_json x \<noteq> JNull"
  by (simp add: cognito_event_user_pools_define_auth_challenge_response_json_def)

lemma cognito_event_user_pools_define_auth_challenge_response_read [read_back]: "cognito_event_user_pools_define_auth_challenge_response_of_json (cognito_event_user_pools_define_auth_challenge_response_json x) = Some x"
  by (cases x) (simp add: cognito_event_user_pools_define_auth_challenge_response_of_json_def cognito_event_user_pools_define_auth_challenge_response_json_def read_back)

datatype cognito_event_user_pools_define_auth_challenge_trigger_source =
    CognitoEventUserPoolsDefineAuthChallengeTriggerSource_Authentication

fun cognito_event_user_pools_define_auth_challenge_trigger_source_name :: "cognito_event_user_pools_define_auth_challenge_trigger_source \<Rightarrow> string" where
  "cognito_event_user_pools_define_auth_challenge_trigger_source_name CognitoEventUserPoolsDefineAuthChallengeTriggerSource_Authentication = ''DefineAuthChallenge_Authentication''"

definition cognito_event_user_pools_define_auth_challenge_trigger_source_json :: "cognito_event_user_pools_define_auth_challenge_trigger_source \<Rightarrow> json" where
  "cognito_event_user_pools_define_auth_challenge_trigger_source_json x = JStr (cognito_event_user_pools_define_auth_challenge_trigger_source_name x)"

definition cognito_event_user_pools_define_auth_challenge_trigger_source_of_json :: "json \<Rightarrow> cognito_event_user_pools_define_auth_challenge_trigger_source option" where
  "cognito_event_user_pools_define_auth_challenge_trigger_source_of_json = de_variant cognito_event_user_pools_define_auth_challenge_trigger_source_name
     [CognitoEventUserPoolsDefineAuthChallengeTriggerSource_Authentication]"

lemma cognito_event_user_pools_define_auth_challenge_trigger_source_not_null [simp]: "cognito_event_user_pools_define_auth_challenge_trigger_source_json x \<noteq> JNull"
  by (simp add: cognito_event_user_pools_define_auth_challenge_trigger_source_json_def)

lemma cognito_event_user_pools_define_auth_challenge_trigger_source_read [read_back]: "cognito_event_user_pools_define_auth_challenge_trigger_source_of_json (cognito_event_user_pools_define_auth_challenge_trigger_source_json x) = Some x"
  by (cases x) (simp_all add: cognito_event_user_pools_define_auth_challenge_trigger_source_of_json_def cognito_event_user_pools_define_auth_challenge_trigger_source_json_def de_variant_def)

record cognito_event_user_pools_create_auth_challenge_request =
  ceupcacr_user_attributes :: "(string \<times> string) list"
  ceupcacr_challenge_name :: "string option"
  ceupcacr_session :: "(cognito_event_user_pools_challenge_result option) list"
  ceupcacr_client_metadata :: "(string \<times> string) list"
  ceupcacr_user_not_found :: bool

definition cognito_event_user_pools_create_auth_challenge_request_json :: "cognito_event_user_pools_create_auth_challenge_request \<Rightarrow> json" where
  "cognito_event_user_pools_create_auth_challenge_request_json x = JObj
     ([(''userAttributes'', json_of_map JStr (ceupcacr_user_attributes x)),
      (''challengeName'', json_of_option JStr (ceupcacr_challenge_name x)),
      (''session'', json_of_list (json_of_option cognito_event_user_pools_challenge_result_json) (ceupcacr_session x)),
      (''clientMetadata'', json_of_map JStr (ceupcacr_client_metadata x)),
      (''userNotFound'', JBool (ceupcacr_user_not_found x))])"

definition cognito_event_user_pools_create_auth_challenge_request_of_json :: "json \<Rightarrow> cognito_event_user_pools_create_auth_challenge_request option" where
  "cognito_event_user_pools_create_auth_challenge_request_of_json j = do {
     kvs \<leftarrow> de_fields 3
       [''userAttributes'', ''challengeName'', ''session'', ''clientMetadata'', ''userNotFound''] j;
     x_user_attributes \<leftarrow> de_default (de_nullish (de_hash_map de_string) []) [] [''userAttributes''] kvs;
     x_challenge_name \<leftarrow> de_opt_string ''challengeName'' kvs;
     x_session \<leftarrow> de_required (de_list (de_option cognito_event_user_pools_challenge_result_of_json)) [''session''] kvs;
     x_client_metadata \<leftarrow> de_default (de_nullish (de_hash_map de_string) []) [] [''clientMetadata''] kvs;
     x_user_not_found \<leftarrow> de_default de_bool False [''userNotFound''] kvs;
     Some \<lparr>ceupcacr_user_attributes = x_user_attributes, ceupcacr_challenge_name = x_challenge_name,
       ceupcacr_session = x_session, ceupcacr_client_metadata = x_client_metadata,
       ceupcacr_user_not_found = x_user_not_found\<rparr> }"

definition cognito_event_user_pools_create_auth_challenge_request_good :: "cognito_event_user_pools_create_auth_challenge_request \<Rightarrow> bool" where
  "cognito_event_user_pools_create_auth_challenge_request_good x \<longleftrightarrow>
     good_map (\<lambda>_. True) (ceupcacr_user_attributes x) \<and>
     good_map (\<lambda>_. True) (ceupcacr_client_metadata x)"

lemma cognito_event_user_pools_create_auth_challenge_request_not_null [simp]: "cognito_event_user_pools_create_auth_challenge_request_json x \<noteq> JNull"
  by (simp add: cognito_event_user_pools_create_auth_challenge_request_json_def)

lemma cognito_event_user_pools_create_auth_challenge_request_read [read_back]: "cognito_event_user_pools_create_auth_challenge_request_good x \<Longrightarrow>cognito_event_user_pools_create_auth_challenge_request_of_json (cognito_event_user_pools_create_auth_challenge_request_json x) = Some x"
  by (cases x) (clarsimp simp: cognito_event_user_pools_create_auth_challenge_request_of_json_def cognito_event_user_pools_create_auth_challenge_request_json_def cognito_event_user_pools_create_auth_challenge_request_good_def read_back)

lemma cognito_event_user_pools_create_auth_challenge_request_typed: "typed cognito_event_user_pools_create_auth_challenge_request_good cognito_event_user_pools_create_auth_challenge_request_of_json"
  unfolding typed_def cognito_event_user_pools_create_auth_challenge_request_of_json_def cognito_event_user_pools_create_auth_challenge_request_good_def
  by (auto simp: bind_eq_Some_conv dest!: typed_default [OF typed_nullish [OF typed_hash_map [OF typed_True [of "de_string"]] good_nil(1)] good_nil(1)])

record cognito_event_user_pools_create_auth_challenge_response =
  ceupcacre_public_challenge_parameters :: "(string \<times> string) list"
  ceupcacre_private_challenge_parameters :: "(string \<times> string) list"
  ceupcacre_challenge_metadata :: "string option"

definition cognito_event_user_pools_create_auth_challenge_response_json :: "cognito_event_user_pools_create_auth_challenge_response \<Rightarrow> json" where
  "cognito_event_user_pools_create_auth_challenge_response_json x = JObj
     ([(''publicChallengeParameters'', json_of_map JStr (ceupcacre_public_challenge_parameters x)),
      (''privateChallengeParameters'', json_of_map JStr (ceupcacre_private_challenge_parameters x)),
      (''challengeMetadata'', json_of_option JStr (ceupcacre_challenge_metadata x))])"

definition cognito_event_user_pools_create_auth_challenge_response_of_json :: "json \<Rightarrow> cognito_event_user_pools_create_auth_challenge_response option" where
  "cognito_event_user_pools_create_auth_challenge_response_of_json j = do {
     kvs \<leftarrow> de_fields 0
       [''publicChallengeParameters'', ''privateChallengeParameters'', ''challengeMetadata''] j;
     x_public_challenge_parameters \<leftarrow> de_default (de_nullish (de_hash_map de_string) []) [] [''publicChallengeParameters''] kvs;
     x_private_challenge_parameters \<leftarrow> de_default (de_nullish (de_hash_map de_string) []) [] [''privateChallengeParameters''] kvs;
     x_challenge_metadata \<leftarrow> de_opt_string ''challengeMetadata'' kvs;
     Some \<lparr>ceupcacre_public_challenge_parameters = x_public_challenge_parameters,
       ceupcacre_private_challenge_parameters = x_private_challenge_parameters,
       ceupcacre_challenge_metadata = x_challenge_metadata\<rparr> }"

definition cognito_event_user_pools_create_auth_challenge_response_good :: "cognito_event_user_pools_create_auth_challenge_response \<Rightarrow> bool" where
  "cognito_event_user_pools_create_auth_challenge_response_good x \<longleftrightarrow>
     good_map (\<lambda>_. True) (ceupcacre_public_challenge_parameters x) \<and>
     good_map (\<lambda>_. True) (ceupcacre_private_challenge_parameters x)"

lemma cognito_event_user_pools_create_auth_challenge_response_not_null [simp]: "cognito_event_user_pools_create_auth_challenge_response_json x \<noteq> JNull"
  by (simp add: cognito_event_user_pools_create_auth_challenge_response_json_def)

lemma cognito_event_user_pools_create_auth_challenge_response_read [read_back]: "cognito_event_user_pools_create_auth_challenge_response_good x \<Longrightarrow>cognito_event_user_pools_create_auth_challenge_response_of_json (cognito_event_user_pools_create_auth_challenge_response_json x) = Some x"
  by (cases x) (clarsimp simp: cognito_event_user_pools_create_auth_challenge_response_of_json_def cognito_event_user_pools_create_auth_challenge_response_json_def cognito_event_user_pools_create_auth_challenge_response_good_def read_back)

lemma cognito_event_user_pools_create_auth_challenge_response_typed: "typed cognito_event_user_pools_create_auth_challenge_response_good cognito_event_user_pools_create_auth_challenge_response_of_json"
  unfolding typed_def cognito_event_user_pools_create_auth_challenge_response_of_json_def cognito_event_user_pools_create_auth_challenge_response_good_def
  by (auto simp: bind_eq_Some_conv dest!: typed_default [OF typed_nullish [OF typed_hash_map [OF typed_True [of "de_string"]] good_nil(1)] good_nil(1)])

datatype cognito_event_user_pools_create_auth_challenge_trigger_source =
    CognitoEventUserPoolsCreateAuthChallengeTriggerSource_Authentication

fun cognito_event_user_pools_create_auth_challenge_trigger_source_name :: "cognito_event_user_pools_create_auth_challenge_trigger_source \<Rightarrow> string" where
  "cognito_event_user_pools_create_auth_challenge_trigger_source_name CognitoEventUserPoolsCreateAuthChallengeTriggerSource_Authentication = ''CreateAuthChallenge_Authentication''"

definition cognito_event_user_pools_create_auth_challenge_trigger_source_json :: "cognito_event_user_pools_create_auth_challenge_trigger_source \<Rightarrow> json" where
  "cognito_event_user_pools_create_auth_challenge_trigger_source_json x = JStr (cognito_event_user_pools_create_auth_challenge_trigger_source_name x)"

definition cognito_event_user_pools_create_auth_challenge_trigger_source_of_json :: "json \<Rightarrow> cognito_event_user_pools_create_auth_challenge_trigger_source option" where
  "cognito_event_user_pools_create_auth_challenge_trigger_source_of_json = de_variant cognito_event_user_pools_create_auth_challenge_trigger_source_name
     [CognitoEventUserPoolsCreateAuthChallengeTriggerSource_Authentication]"

lemma cognito_event_user_pools_create_auth_challenge_trigger_source_not_null [simp]: "cognito_event_user_pools_create_auth_challenge_trigger_source_json x \<noteq> JNull"
  by (simp add: cognito_event_user_pools_create_auth_challenge_trigger_source_json_def)

lemma cognito_event_user_pools_create_auth_challenge_trigger_source_read [read_back]: "cognito_event_user_pools_create_auth_challenge_trigger_source_of_json (cognito_event_user_pools_create_auth_challenge_trigger_source_json x) = Some x"
  by (cases x) (simp_all add: cognito_event_user_pools_create_auth_challenge_trigger_source_of_json_def cognito_event_user_pools_create_auth_challenge_trigger_source_json_def de_variant_def)

record 'p cognito_event_user_pools_verify_auth_challenge_request =
  ceupvacr_user_attributes :: "(string \<times> string) list"
  ceupvacr_private_challenge_parameters :: "(string \<times> string) list"
  ceupvacr_challenge_answer :: "'p option"
  ceupvacr_client_metadata :: "(string \<times> string) list"
  ceupvacr_user_not_found :: bool

definition cognito_event_user_pools_verify_auth_challenge_request_json :: "('p \<Rightarrow> json) \<Rightarrow> 'p cognito_event_user_pools_verify_auth_challenge_request \<Rightarrow> json" where
  "cognito_event_user_pools_verify_auth_challenge_request_json gp x = JObj
     ([(''userAttributes'', json_of_map JStr (ceupvacr_user_attributes x)),
      (''privateChallengeParameters'', json_of_map JStr (ceupvacr_private_challenge_parameters x)),
      (''challengeAnswer'', json_of_option gp (ceupvacr_challenge_answer x)),
      (''clientMetadata'', json_of_map JStr (ceupvacr_client_metadata x)),
      (''userNotFound'', JBool (ceupvacr_user_not_found x))])"

definition cognito_event_user_pools_verify_auth_challenge_request_of_json :: "(json \<Rightarrow> 'p option) \<Rightarrow> json \<Rightarrow> 'p cognito_event_user_pools_verify_auth_challenge_request option" where
  "cognito_event_user_pools_verify_auth_challenge_request_of_json fp j = do {
     kvs \<leftarrow> de_fields 3
       [''userAttributes'', ''privateChallengeParameters'', ''challengeAnswer'',
        ''clientMetadata'', ''userNotFound''] j;
     x_user_attributes \<leftarrow> de_default (de_nullish (de_hash_map de_string) []) [] [''userAttributes''] kvs;
     x_private_challenge_parameters \<leftarrow> de_default (de_nullish (de_hash_map de_string) []) [] [''privateChallengeParameters''] kvs;
     x_challenge_answer \<leftarrow> de_optional fp [''challengeAnswer''] kvs;
     x_client_metadata \<leftarrow> de_default (de_nullish (de_hash_map de_string) []) [] [''clientMetadata''] kvs;
     x_user_not_found \<leftarrow> de_default de_bool False [''userNotFound''] kvs;
     Some \<lparr>ceupvacr_user_attributes = x_user_attributes,
       ceupvacr_private_challenge_parameters = x_private_challenge_parameters,
       ceupvacr_challenge_answer = x_challenge_answer,
       ceupvacr_client_metadata = x_client_metadata, ceupvacr_user_not_found = x_user_not_found\<rparr> }"

definition cognito_event_user_pools_verify_auth_challenge_request_good :: "('p \<Rightarrow> bool) \<Rightarrow> 'p cognito_event_user_pools_verify_auth_challenge_request \<Rightarrow> bool" where
  "cognito_event_user_pools_verify_auth_challenge_request_good Pp x \<longleftrightarrow>
     good_map (\<lambda>_. True) (ceupvacr_user_attributes x) \<and>
     good_map (\<lambda>_. True) (ceupvacr_private_challenge_parameters x) \<and>
     good_option Pp (ceupvacr_challenge_answer x) \<and>
     good_map (\<lambda>_. True) (ceupvacr_client_metadata x)"

lemma cognito_event_user_pools_verify_auth_challenge_request_not_null [simp]: "cognito_event_user_pools_verify_auth_challenge_request_json gp x \<noteq> JNull"
  by (simp add: cognito_event_user_pools_verify_auth_challenge_request_json_def)

lemma cognito_event_user_pools_verify_auth_challenge_request_read [read_back]: "cognito_event_user_pools_verify_auth_challenge_request_good Pp x \<Longrightarrow> (\<And>x. Pp x \<Longrightarrow> gp x \<noteq> JNull \<and> fp (gp x) = Some x) \<Longrightarrow>cognito_event_user_pools_verify_auth_challenge_request_of_json fp (cognito_event_user_pools_verify_auth_challenge_request_json gp x) = Some x"
  by (cases x) (clarsimp simp: cognito_event_user_pools_verify_auth_challenge_request_of_json_def cognito_event_user_pools_verify_auth_challenge_request_json_def cognito_event_user_pools_verify_auth_challenge_request_good_def read_back)

lemma cognito_event_user_pools_verify_auth_challenge_request_typed:
  assumes typed_p: "typed_nn Pp fp" shows "typed (cognito_event_user_pools_verify_auth_challenge_request_good Pp) (cognito_event_user_pools_verify_auth_challenge_request_of_json fp)"
  unfolding typed_def cognito_event_user_pools_verify_auth_challenge_request_of_json_def cognito_event_user_pools_verify_auth_challenge_request_good_def
  by (auto simp: bind_eq_Some_conv dest!: typed_default [OF typed_nullish [OF typed_hash_map [OF typed_True [of "de_string"]] good_nil(1)] good_nil(1)]
      typed_nn_optional [OF typed_p])

record cognito_event_user_pools_verify_auth_challenge_response =
  ceupvacre_answer_correct :: bool

definition cognito_event_user_pools_verify_auth_challenge_response_json :: "cognito_event_user_pools_verify_auth_challenge_response \<Rightarrow> json" where
  "cognito_event_user_pools_verify_auth_challenge_response_json x = JObj
     ([(''answerCorrect'', JBool (ceupvacre_answer_correct x))])"

definition cognito_event_user_pools_verify_auth_challenge_response_of_json :: "json \<Rightarrow> cognito_event_user_pools_verify_auth_challenge_response option" where
  "cognito_event_user_pools_verify_auth_challenge_response_of_json j = do {
     kvs \<leftarrow> de_fields 0
       [''answerCorrect''] j;
     x_answer_correct \<leftarrow> de_default (de_nullish de_bool False) False [''answerCorrect''] kvs;
     Some \<lparr>ceupvacre_answer_correct = x_answer_correct\<rparr> }"

lemma cognito_event_user_pools_verify_auth_challenge_response_not_null [simp]: "cognito_event_user_pools_verify_auth_challenge_response_json x \<noteq> JNull"
  by (simp add: cognito_event_user_pools_verify_auth_challenge_response_json_def)

lemma cognito_event_user_pools_verify_auth_challenge_response_read [read_back]: "cognito_event_user_pools_verify_auth_challenge_response_of_json (cognito_event_user_pools_verify_auth_challenge_response_json x) = Some x"
  by (cases x) (simp add: cognito_event_user_pools_verify_auth_challenge_response_of_json_def cognito_event_user_pools_verify_auth_challenge_response_json_def read_back)

datatype cognito_event_user_pools_verify_auth_challenge_trigger_source =
    CognitoEventUserPoolsVerifyAuthChallengeTriggerSource_Authentication

fun cognito_event_user_pools_verify_auth_challenge_trigger_source_name :: "cognito_event_user_pools_verify_auth_challenge_trigger_source \<Rightarrow> string" where
  "cognito_event_user_pools_verify_auth_challenge_trigger_source_name CognitoEventUserPoolsVerifyAuthChallengeTriggerSource_Authentication = ''VerifyAuthChallengeResponse_Authentication''"

definition cognito_event_user_pools_verify_auth_challenge_trigger_source_json :: "cognito_event_user_pools_verify_auth_challenge_trigger_source \<Rightarrow> json" where
  "cognito_event_user_pools_verify_auth_challenge_trigger_source_json x = JStr (cognito_event_user_pools_verify_auth_challenge_trigger_source_name x)"

definition cognito_event_user_pools_verify_auth_challenge_trigger_source_of_json :: "json \<Rightarrow> cognito_event_user_pools_verify_auth_challenge_trigger_source option" where
  "cognito_event_user_pools_verify_auth_challenge_trigger_source_of_json = de_variant cognito_event_user_pools_verify_auth_challenge_trigger_source_name
     [CognitoEventUserPoolsVerifyAuthChallengeTriggerSource_Authentication]"

lemma cognito_event_user_pools_verify_auth_challenge_trigger_source_not_null [simp]: "cognito_event_user_pools_verify_auth_challenge_trigger_source_json x \<noteq> JNull"
  by (simp add: cognito_event_user_pools_verify_auth_challenge_trigger_source_json_def)

lemma cognito_event_user_pools_verify_auth_challenge_trigger_source_read [read_back]: "cognito_event_user_pools_verify_auth_challenge_trigger_source_of_json (cognito_event_user_pools_verify_auth_challenge_trigger_source_json x) = Some x"
  by (cases x) (simp_all add: cognito_event_user_pools_verify_auth_challenge_trigger_source_of_json_def cognito_event_user_pools_verify_auth_challenge_trigger_source_json_def de_variant_def)

datatype cognito_event_user_pools_custom_message_trigger_source =
    CognitoEventUserPoolsCustomMessageTriggerSource_SignUp |
    CognitoEventUserPoolsCustomMessageTriggerSource_AdminCreateUser |
    CognitoEventUserPoolsCustomMessageTriggerSource_ResendCode |
    CognitoEventUserPoolsCustomMessageTriggerSource_ForgotPassword |
    CognitoEventUserPoolsCustomMessageTriggerSource_UpdateUserAttribute |
    CognitoEventUserPoolsCustomMessageTriggerSource_VerifyUserAttribute |
    CognitoEventUserPoolsCustomMessageTriggerSource_Authentication

fun cognito_event_user_pools_custom_message_trigger_source_name :: "cognito_event_user_pools_custom_message_trigger_source \<Rightarrow> string" where
  "cognito_event_user_pools_custom_message_trigger_source_name CognitoEventUserPoolsCustomMessageTriggerSource_SignUp = ''CustomMessage_SignUp''"
| "cognito_event_user_pools_custom_message_trigger_source_name CognitoEventUserPoolsCustomMessageTriggerSource_AdminCreateUser = ''CustomMessage_AdminCreateUser''"
| "cognito_event_user_pools_custom_message_trigger_source_name CognitoEventUserPoolsCustomMessageTriggerSource_ResendCode = ''CustomMessage_ResendCode''"
| "cognito_event_user_pools_custom_message_trigger_source_name CognitoEventUserPoolsCustomMessageTriggerSource_ForgotPassword = ''CustomMessage_ForgotPassword''"
| "cognito_event_user_pools_custom_message_trigger_source_name CognitoEventUserPoolsCustomMessageTriggerSource_UpdateUserAttribute = ''CustomMessage_UpdateUserAttribute''"
| "cognito_event_user_pools_custom_message_trigger_source_name CognitoEventUserPoolsCustomMessageTriggerSource_VerifyUserAttribute = ''CustomMessage_VerifyUserAttribute''"
| "cognito_event_user_pools_custom_message_trigger_source_name CognitoEventUserPoolsCustomMessageTriggerSource_Authentication = ''CustomMessage_Authentication''"

definition cognito_event_user_pools_custom_message_trigger_source_json :: "cognito_event_user_pools_custom_message_trigger_source \<Rightarrow> json" where
  "cognito_event_user_pools_custom_message_trigger_source_json x = JStr (cognito_event_user_pools_custom_message_trigger_source_name x)"

definition cognito_event_user_pools_custom_message_trigger_source_of_json :: "json \<Rightarrow> cognito_event_user_pools_custom_message_trigger_source option" where
  "cognito_event_user_pools_custom_message_trigger_source_of_json = de_variant cognito_event_user_pools_custom_message_trigger_source_name
     [CognitoEventUserPoolsCustomMessageTriggerSource_SignUp,
      CognitoEventUserPoolsCustomMessageTriggerSource_AdminCreateUser,
      CognitoEventUserPoolsCustomMessageTriggerSource_ResendCode,
      CognitoEventUserPoolsCustomMessageTriggerSource_ForgotPassword,
      CognitoEventUserPoolsCustomMessageTriggerSource_UpdateUserAttribute,
      CognitoEventUserPoolsCustomMessageTriggerSource_VerifyUserAttribute,
      CognitoEventUserPoolsCustomMessageTriggerSource_Authentication]"

lemma cognito_event_user_pools_custom_message_trigger_source_not_null [simp]: "cognito_event_user_pools_custom_message_trigger_source_json x \<noteq> JNull"
  by (simp add: cognito_event_user_pools_custom_message_trigger_source_json_def)

lemma cognito_event_user_pools_custom_message_trigger_source_read [read_back]: "cognito_event_user_pools_custom_message_trigger_source_of_json (cognito_event_user_pools_custom_message_trigger_source_json x) = Some x"
  by (cases x) (simp_all add: cognito_event_user_pools_custom_message_trigger_source_of_json_def cognito_event_user_pools_custom_message_trigger_source_json_def de_variant_def)

record 'p cognito_event_user_pools_custom_message_request =
  ceupcmr_user_attributes :: "(string \<times> 'p) list"
  ceupcmr_code_parameter :: "string option"
  ceupcmr_username_parameter :: "string option"
  ceupcmr_client_metadata :: "(string \<times> string) list"

definition cognito_event_user_pools_custom_message_request_json :: "('p \<Rightarrow> json) \<Rightarrow> 'p cognito_event_user_pools_custom_message_request \<Rightarrow> json" where
  "cognito_event_user_pools_custom_message_request_json gp x = JObj
     ([(''userAttributes'', json_of_map gp (ceupcmr_user_attributes x)),
      (''codeParameter'', json_of_option JStr (ceupcmr_code_parameter x)),
      (''usernameParameter'', json_of_option JStr (ceupcmr_username_parameter x)),
      (''clientMetadata'', json_of_map JStr (ceupcmr_client_metadata x))])"

definition cognito_event_user_pools_custom_message_request_of_json :: "(json \<Rightarrow> 'p option) \<Rightarrow> json \<Rightarrow> 'p cognito_event_user_pools_custom_message_request option" where
  "cognito_event_user_pools_custom_message_request_of_json fp j = do {
     kvs \<leftarrow> de_fields 0
       [''userAttributes'', ''codeParameter'', ''usernameParameter'', ''clientMetadata''] j;
     x_user_attributes \<leftarrow> de_default (de_nullish (de_hash_map fp) []) [] [''userAttributes''] kvs;
     x_code_parameter \<leftarrow> de_opt_string ''codeParameter'' kvs;
     x_username_parameter \<leftarrow> de_opt_string ''usernameParameter'' kvs;
     x_client_metadata \<leftarrow> de_default (de_nullish (de_hash_map de_string) []) [] [''clientMetadata''] kvs;
     Some \<lparr>ceupcmr_user_attributes = x_user_attributes, ceupcmr_code_parameter = x_code_parameter,
       ceupcmr_username_parameter = x_username_parameter,
       ceupcmr_client_metadata = x_client_metadata\<rparr> }"

definition cognito_event_user_pools_custom_message_request_good :: "('p \<Rightarrow> bool) \<Rightarrow> 'p cognito_event_user_pools_custom_message_request \<Rightarrow> bool" where
  "cognito_event_user_pools_custom_message_request_good Pp x \<longleftrightarrow>
     good_map Pp (ceupcmr_user_attributes x) \<and>
     good_map (\<lambda>_. True) (ceupcmr_client_metadata x)"

lemma cognito_event_user_pools_custom_message_request_not_null [simp]: "cognito_event_user_pools_custom_message_request_json gp x \<noteq> JNull"
  by (simp add: cognito_event_user_pools_custom_message_request_json_def)

lemma cognito_event_user_pools_custom_message_request_read [read_back]: "cognito_event_user_pools_custom_message_request_good Pp x \<Longrightarrow> (\<And>x. Pp x \<Longrightarrow> fp (gp x) = Some x) \<Longrightarrow>cognito_event_user_pools_custom_message_request_of_json fp (cognito_event_user_pools_custom_message_request_json gp x) = Some x"
  by (cases x) (clarsimp simp: cognito_event_user_pools_custom_message_request_of_json_def cognito_event_user_pools_custom_message_request_json_def cognito_event_user_pools_custom_message_request_good_def read_back)

lemma cognito_event_user_pools_custom_message_request_typed:
  assumes typed_p: "typed Pp fp" shows "typed (cognito_event_user_pools_custom_message_request_good Pp) (cognito_event_user_pools_custom_message_request_of_json fp)"
  unfolding typed_def cognito_event_user_pools_custom_message_request_of_json_def cognito_event_user_pools_custom_message_request_good_def
  by (auto simp: bind_eq_Some_conv dest!: typed_default [OF typed_nullish [OF typed_hash_map [OF typed_p] good_nil(1)] good_nil(1)]
      typed_default [OF typed_nullish [OF typed_hash_map [OF typed_True [of "de_string"]] good_nil(1)] good_nil(1)])

record cognito_event_user_pools_custom_message_response =
  ceupcmre_sms_message :: "string option"
  ceupcmre_email_message :: "string option"
  ceupcmre_email_subject :: "string option"

definition cognito_event_user_pools_custom_message_response_json :: "cognito_event_user_pools_custom_message_response \<Rightarrow> json" where
  "cognito_event_user_pools_custom_message_response_json x = JObj
     ([(''smsMessage'', json_of_option JStr (ceupcmre_sms_message x)),
      (''emailMessage'', json_of_option JStr (ceupcmre_email_message x)),
      (''emailSubject'', json_of_option JStr (ceupcmre_email_subject x))])"

definition cognito_event_user_pools_custom_message_response_of_json :: "json \<Rightarrow> cognito_event_user_pools_custom_message_response option" where
  "cognito_event_user_pools_custom_message_response_of_json j = do {
     kvs \<leftarrow> de_fields 0
       [''smsMessage'', ''emailMessage'', ''emailSubject''] j;
     x_sms_message \<leftarrow> de_opt_string ''smsMessage'' kvs;
     x_email_message \<leftarrow> de_opt_string ''emailMessage'' kvs;
     x_email_subject \<leftarrow> de_opt_string ''emailSubject'' kvs;
     Some \<lparr>ceupcmre_sms_message = x_sms_message, ceupcmre_email_message = x_email_message,
       ceupcmre_email_subject = x_email_subject\<rparr> }"

lemma cognito_event_user_pools_custom_message_response_not_null [simp]: "cognito_event_user_pools_custom_message_response_json x \<noteq> JNull"
  by (simp add: cognito_event_user_pools_custom_message_response_json_def)

lemma cognito_event_user_pools_custom_message_response_read [read_back]: "cognito_event_user_pools_custom_message_response_of_json (cognito_event_user_pools_custom_message_response_json x) = Some x"
  by (cases x) (simp add: cognito_event_user_pools_custom_message_response_of_json_def cognito_event_user_pools_custom_message_response_json_def read_back)

record cognito_event =
  ceven_dataset_name :: "string option"
  ceven_dataset_records :: "(string \<times> cognito_dataset_record) list"
  ceven_event_type :: "string option"
  ceven_identity_id :: "string option"
  ceven_identity_pool_id :: "string option"
  ceven_region :: "string option"
  ceven_version :: int

definition cognito_event_json :: "cognito_event \<Rightarrow> json" where
  "cognito_event_json x = JObj
     ([(''datasetName'', json_of_option JStr (ceven_dataset_name x)),
      (''datasetRecords'', json_of_map cognito_dataset_record_json (ceven_dataset_records x)),
      (''eventType'', json_of_option JStr (ceven_event_type x)),
      (''identityId'', json_of_option JStr (ceven_identity_id x)),
      (''identityPoolId'', json_of_option JStr (ceven_identity_pool_id x)),
      (''region'', json_of_option JStr (ceven_region x)),
      (''version'', JInt (ceven_version x))])"

definition cognito_event_of_json :: "json \<Rightarrow> cognito_event option" where
  "cognito_event_of_json j = do {
     kvs \<leftarrow> de_fields 7
       [''datasetName'', ''datasetRecords'', ''eventType'', ''identityId'', ''identityPoolId'',
        ''region'', ''version''] j;
     x_dataset_name \<leftarrow> de_opt_string ''datasetName'' kvs;
     x_dataset_records \<leftarrow> de_default (de_nullish (de_hash_map cognito_dataset_record_of_json) []) [] [''datasetRecords''] kvs;
     x_event_type \<leftarrow> de_opt_string ''eventType'' kvs;
     x_identity_id \<leftarrow> de_opt_string ''identityId'' kvs;
     x_identity_pool_id \<leftarrow> de_opt_string ''identityPoolId'' kvs;
     x_region \<leftarrow> de_opt_string ''region'' kvs;
     x_version \<leftarrow> de_required de_i64 [''version''] kvs;
     Some \<lparr>ceven_dataset_name = x_dataset_name, ceven_dataset_records = x_dataset_records,
       ceven_event_type = x_event_type, ceven_identity_id = x_identity_id,
       ceven_identity_pool_id = x_identity_pool_id, ceven_region = x_region,
       ceven_version = x_version\<rparr> }"

definition cognito_event_good :: "cognito_event \<Rightarrow> bool" where
  "cognito_event_good x \<longleftrightarrow>
     good_map (\<lambda>_. True) (ceven_dataset_records x) \<and>
     good_i64 (ceven_version x)"

lemma cognito_event_not_null [simp]: "cognito_event_json x \<noteq> JNull"
  by (simp add: cognito_event_json_def)

lemma cognito_event_read [read_back]: "cognito_event_good x \<Longrightarrow>cognito_event_of_json (cognito_event_json x) = Some x"
  by (cases x) (clarsimp simp: cognito_event_of_json_def cognito_event_json_def cognito_event_good_def read_back)

lemma cognito_event_typed: "typed cognito_event_good cognito_event_of_json"
  unfolding typed_def cognito_event_of_json_def cognito_event_good_def
  by (auto simp: bind_eq_Some_conv dest!: typed_default [OF typed_nullish [OF typed_hash_map [OF typed_True [of "cognito_dataset_record_of_json"]] good_nil(1)] good_nil(1)]
      typed_required [OF typed_i64])

record cognito_event_user_pools_pre_signup =
  ceupps_cognito_event_user_pools_header :: "cognito_event_user_pools_pre_signup_trigger_source cognito_event_user_pools_header"
  ceupps_request :: cognito_event_user_pools_pre_signup_request
  ceupps_response :: cognito_event_user_pools_pre_signup_response

definition cognito_event_user_pools_pre_signup_json :: "cognito_event_user_pools_pre_signup \<Rightarrow> json" where
  "cognito_event_user_pools_pre_signup_json x = JObj
     (cognito_event_user_pools_header_fields cognito_event_user_pools_pre_signup_trigger_source_json (ceupps_cognito_event_user_pools_header x) @
      [(''request'', cognito_event_user_pools_pre_signup_request_json (ceupps_request x)),
      (''response'', cognito_event_user_pools_pre_signup_response_json (ceupps_response x))])"

definition cognito_event_user_pools_pre_signup_of_json :: "json \<Rightarrow> cognito_event_user_pools_pre_signup option" where
  "cognito_event_user_pools_pre_signup_of_json j = do {
     kvs \<leftarrow> de_object j;
     x_cognito_event_user_pools_header \<leftarrow> cognito_event_user_pools_header_of_fields cognito_event_user_pools_pre_signup_trigger_source_of_json kvs;
     x_request \<leftarrow> de_required cognito_event_user_pools_pre_signup_request_of_json [''request''] kvs;
     x_response \<leftarrow> de_required cognito_event_user_pools_pre_signup_response_of_json [''response''] kvs;
     Some \<lparr>ceupps_cognito_event_user_pools_header = x_cognito_event_user_pools_header,
       ceupps_request = x_request, ceupps_response = x_response\<rparr> }"

definition cognito_event_user_pools_pre_signup_good :: "cognito_event_user_pools_pre_signup \<Rightarrow> bool" where
  "cognito_event_user_pools_pre_signup_good x \<longleftrightarrow>
     cognito_event_user_pools_header_good (\<lambda>_. True) (ceupps_cognito_event_user_pools_header x) \<and>
     cognito_event_user_pools_pre_signup_request_good (ceupps_request x)"

lemma cognito_event_user_pools_pre_signup_not_null [simp]: "cognito_event_user_pools_pre_signup_json x \<noteq> JNull"
  by (simp add: cognito_event_user_pools_pre_signup_json_def)

lemma cognito_event_user_pools_pre_signup_read [read_back]: "cognito_event_user_pools_pre_signup_good x \<Longrightarrow>cognito_event_user_pools_pre_signup_of_json (cognito_event_user_pools_pre_signup_json x) = Some x"
  by (cases x, cases "ceupps_cognito_event_user_pools_header x") (clarsimp simp: cognito_event_user_pools_pre_signup_of_json_def cognito_event_user_pools_pre_signup_json_def cognito_event_user_pools_pre_signup_good_def cognito_event_user_pools_header_of_fields_def cognito_event_user_pools_header_fields_def cognito_event_user_pools_header_good_def read_back)

lemma cognito_event_user_pools_pre_signup_typed: "typed cognito_event_user_pools_pre_signup_good cognito_event_user_pools_pre_signup_of_json"
  unfolding typed_def cognito_event_user_pools_pre_signup_of_json_def cognito_event_user_pools_pre_signup_good_def
  by (auto simp: bind_eq_Some_conv dest!: typed_fieldsD [OF cognito_event_user_pools_header_fields_typed [OF typed_nn [OF typed_True]]]
      typed_required [OF cognito_event_user_pools_pre_signup_request_typed])

record cognito_event_user_pools_pre_authentication =
  ceuppa_cognito_event_user_pools_header :: "cognito_event_user_pools_pre_authentication_trigger_source cognito_event_user_pools_header"
  ceuppa_request :: cognito_event_user_pools_pre_authentication_request
  ceuppa_response :: cognito_event_user_pools_pre_authentication_response

definition cognito_event_user_pools_pre_authentication_json :: "cognito_event_user_pools_pre_authentication \<Rightarrow> json" where
  "cognito_event_user_pools_pre_authentication_json x = JObj
     (cognito_event_user_pools_header_fields cognito_event_user_pools_pre_authentication_trigger_source_json (ceuppa_cognito_event_user_pools_header x) @
      [(''request'', cognito_event_user_pools_pre_authentication_request_json (ceuppa_request x)),
      (''response'', cognito_event_user_pools_pre_authentication_response_json (ceuppa_response x))])"

definition cognito_event_user_pools_pre_authentication_of_json :: "json \<Rightarrow> cognito_event_user_pools_pre_authentication option" where
  "cognito_event_user_pools_pre_authentication_of_json j = do {
     kvs \<leftarrow> de_object j;
     x_cognito_event_user_pools_header \<leftarrow> cognito_event_user_pools_header_of_fields cognito_event_user_pools_pre_authentication_trigger_source_of_json kvs;
     x_request \<leftarrow> de_required cognito_event_user_pools_pre_authentication_request_of_json [''request''] kvs;
     x_response \<leftarrow> de_required cognito_event_user_pools_pre_authentication_response_of_json [''response''] kvs;
     Some \<lparr>ceuppa_cognito_event_user_pools_header = x_cognito_event_user_pools_header,
       ceuppa_request = x_request, ceuppa_response = x_response\<rparr> }"

definition cognito_event_user_pools_pre_authentication_good :: "cognito_event_user_pools_pre_authentication \<Rightarrow> bool" where
  "cognito_event_user_pools_pre_authentication_good x \<longleftrightarrow>
     cognito_event_user_pools_header_good (\<lambda>_. True) (ceuppa_cognito_event_user_pools_header x) \<and>
     cognito_event_user_pools_pre_authentication_request_good (ceuppa_request x)"

lemma cognito_event_user_pools_pre_authentication_not_null [simp]: "cognito_event_user_pools_pre_authentication_json x \<noteq> JNull"
  by (simp add: cognito_event_user_pools_pre_authentication_json_def)

lemma cognito_event_user_pools_pre_authentication_read [read_back]: "cognito_event_user_pools_pre_authentication_good x \<Longrightarrow>cognito_event_user_pools_pre_authentication_of_json (cognito_event_user_pools_pre_authentication_json x) = Some x"
  by (cases x, cases "ceuppa_cognito_event_user_pools_header x") (clarsimp simp: cognito_event_user_pools_pre_authentication_of_json_def cognito_event_user_pools_pre_authentication_json_def cognito_event_user_pools_pre_authentication_good_def cognito_event_user_pools_header_of_fields_def cognito_event_user_pools_header_fields_def cognito_event_user_pools_header_good_def read_back)

lemma cognito_event_user_pools_pre_authentication_typed: "typed cognito_event_user_pools_pre_authentication_good cognito_event_user_pools_pre_authentication_of_json"
  unfolding typed_def cognito_event_user_pools_pre_authentication_of_json_def cognito_event_user_pools_pre_authentication_good_def
  by (auto simp: bind_eq_Some_conv dest!: typed_fieldsD [OF cognito_event_user_pools_header_fields_typed [OF typed_nn [OF typed_True]]]
      typed_required [OF cognito_event_user_pools_pre_authentication_request_typed])

record 'p cognito_event_user_pools_post_confirmation =
  ceuppc_cognito_event_user_pools_header :: "cognito_event_user_pools_post_confirmation_trigger_source cognito_event_user_pools_header"
  ceuppc_request :: cognito_event_user_pools_post_confirmation_request
  ceuppc_response :: 'p

definition cognito_event_user_pools_post_confirmation_json :: "('p \<Rightarrow> json) \<Rightarrow> 'p cognito_event_user_pools_post_confirmation \<Rightarrow> json" where
  "cognito_event_user_pools_post_confirmation_json gp x = JObj
     (cognito_event_user_pools_header_fields cognito_event_user_pools_post_confirmation_trigger_source_json (ceuppc_cognito_event_user_pools_header x) @
      [(''request'', cognito_event_user_pools_post_confirmation_request_json (ceuppc_request x)),
      (''response'', gp (ceuppc_response x))])"

definition cognito_event_user_pools_post_confirmation_of_json :: "(json \<Rightarrow> 'p option) \<Rightarrow> json \<Rightarrow> 'p cognito_event_user_pools_post_confirmation option" where
  "cognito_event_user_pools_post_confirmation_of_json fp j = do {
     kvs \<leftarrow> de_object j;
     x_cognito_event_user_pools_header \<leftarrow> cognito_event_user_pools_header_of_fields cognito_event_user_pools_post_confirmation_trigger_source_of_json kvs;
     x_request \<leftarrow> de_required cognito_event_user_pools_post_confirmation_request_of_json [''request''] kvs;
     x_response \<leftarrow> de_required fp [''response''] kvs;
     Some \<lparr>ceuppc_cognito_event_user_pools_header = x_cognito_event_user_pools_header,
       ceuppc_request = x_request, ceuppc_response = x_response\<rparr> }"

definition cognito_event_user_pools_post_confirmation_good :: "('p \<Rightarrow> bool) \<Rightarrow> 'p cognito_event_user_pools_post_confirmation \<Rightarrow> bool" where
  "cognito_event_user_pools_post_confirmation_good Pp x \<longleftrightarrow>
     cognito_event_user_pools_header_good (\<lambda>_. True) (ceuppc_cognito_event_user_pools_header x) \<and>
     cognito_event_user_pools_post_confirmation_request_good (ceuppc_request x) \<and>
     Pp (ceuppc_response x)"

lemma cognito_event_user_pools_post_confirmation_not_null [simp]: "cognito_event_user_pools_post_confirmation_json gp x \<noteq> JNull"
  by (simp add: cognito_event_user_pools_post_confirmation_json_def)

lemma cognito_event_user_pools_post_confirmation_read [read_back]: "cognito_event_user_pools_post_confirmation_good Pp x \<Longrightarrow> (\<And>x. Pp x \<Longrightarrow> fp (gp x) = Some x) \<Longrightarrow>cognito_event_user_pools_post_confirmation_of_json fp (cognito_event_user_pools_post_confirmation_json gp x) = Some x"
  by (cases x, cases "ceuppc_cognito_event_user_pools_header x") (clarsimp simp: cognito_event_user_pools_post_confirmation_of_json_def cognito_event_user_pools_post_confirmation_json_def cognito_event_user_pools_post_confirmation_good_def cognito_event_user_pools_header_of_fields_def cognito_event_user_pools_header_fields_def cognito_event_user_pools_header_good_def read_back)

lemma cognito_event_user_pools_post_confirmation_typed:
  assumes typed_p: "typed Pp fp" shows "typed (cognito_event_user_pools_post_confirmation_good Pp) (cognito_event_user_pools_post_confirmation_of_json fp)"
  unfolding typed_def cognito_event_user_pools_post_confirmation_of_json_def cognito_event_user_pools_post_confirmation_good_def
  by (auto simp: bind_eq_Some_conv dest!: typed_fieldsD [OF cognito_event_user_pools_header_fields_typed [OF typed_nn [OF typed_True]]]
      typed_required [OF cognito_event_user_pools_post_confirmation_request_typed]
      typed_required [OF typed_p])

record cognito_event_user_pools_post_authentication =
  ceuppau_cognito_event_user_pools_header :: "cognito_event_user_pools_post_authentication_trigger_source cognito_event_user_pools_header"
  ceuppau_request :: cognito_event_user_pools_post_authentication_request
  ceuppau_response :: cognito_event_user_pools_post_authentication_response

definition cognito_event_user_pools_post_authentication_json :: "cognito_event_user_pools_post_authentication \<Rightarrow> json" where
  "cognito_event_user_pools_post_authentication_json x = JObj
     (cognito_event_user_pools_header_fields cognito_event_user_pools_post_authentication_trigger_source_json (ceuppau_cognito_event_user_pools_header x) @
      [(''request'', cognito_event_user_pools_post_authentication_request_json (ceuppau_request x)),
      (''response'', cognito_event_user_pools_post_authentication_response_json (ceuppau_response x))])"

definition cognito_event_user_pools_post_authentication_of_json :: "json \<Rightarrow> cognito_event_user_pools_post_authentication option" where
  "cognito_event_user_pools_post_authentication_of_json j = do {
     kvs \<leftarrow> de_object j;
     x_cognito_event_user_pools_header \<leftarrow> cognito_event_user_pools_header_of_fields cognito_event_user_pools_post_authentication_trigger_source_of_json kvs;
     x_request \<leftarrow> de_required cognito_event_user_pools_post_authentication_request_of_json [''request''] kvs;
     x_response \<leftarrow> de_required cognito_event_user_pools_post_authentication_response_of_json [''response''] kvs;
     Some \<lparr>ceuppau_cognito_event_user_pools_header = x_cognito_event_user_pools_header,
       ceuppau_request = x_request, ceuppau_response = x_response\<rparr> }"

definition cognito_event_user_pools_post_authentication_good :: "cognito_event_user_pools_post_authentication \<Rightarrow> bool" where
  "cognito_event_user_pools_post_authentication_good x \<longleftrightarrow>
     cognito_event_user_pools_header_good (\<lambda>_. True) (ceuppau_cognito_event_user_pools_header x) \<and>
     cognito_event_user_pools_post_authentication_request_good (ceuppau_request x)"

lemma cognito_event_user_pools_post_authentication_not_null [simp]: "cognito_event_user_pools_post_authentication_json x \<noteq> JNull"
  by (simp add: cognito_event_user_pools_post_authentication_json_def)

lemma cognito_event_user_pools_post_authentication_read [read_back]: "cognito_event_user_pools_post_authentication_good x \<Longrightarrow>cognito_event_user_pools_post_authentication_of_json (cognito_event_user_pools_post_authentication_json x) = Some x"
  by (cases x, cases "ceuppau_cognito_event_user_pools_header x") (clarsimp simp: cognito_event_user_pools_post_authentication_of_json_def cognito_event_user_pools_post_authentication_json_def cognito_event_user_pools_post_authentication_good_def cognito_event_user_pools_header_of_fields_def cognito_event_user_pools_header_fields_def cognito_event_user_pools_header_good_def read_back)

lemma cognito_event_user_pools_post_authentication_typed: "typed cognito_event_user_pools_post_authentication_good cognito_event_user_pools_post_authentication_of_json"
  unfolding typed_def cognito_event_user_pools_post_authentication_of_json_def cognito_event_user_pools_post_authentication_good_def
  by (auto simp: bind_eq_Some_conv dest!: typed_fieldsD [OF cognito_event_user_pools_header_fields_typed [OF typed_nn [OF typed_True]]]
      typed_required [OF cognito_event_user_pools_post_authentication_request_typed])

record cognito_event_user_pools_migrate_user =
  ceupmu_cognito_event_user_pools_header :: "cognito_event_user_pools_migrate_user_trigger_source cognito_event_user_pools_header"
  ceupmu_cognito_event_user_pools_migrate_user_request :: cognito_event_user_pools_migrate_user_request
  ceupmu_cognito_event_user_pools_migrate_user_response :: cognito_event_user_pools_migrate_user_response

definition cognito_event_user_pools_migrate_user_json :: "cognito_event_user_pools_migrate_user \<Rightarrow> json" where
  "cognito_event_user_pools_migrate_user_json x = JObj
     (cognito_event_user_pools_header_fields cognito_event_user_pools_migrate_user_trigger_source_json (ceupmu_cognito_event_user_pools_header x) @
      [(''request'', cognito_event_user_pools_migrate_user_request_json (ceupmu_cognito_event_user_pools_migrate_user_request x)),
      (''response'', cognito_event_user_pools_migrate_user_response_json (ceupmu_cognito_event_user_pools_migrate_user_response x))])"

definition cognito_event_user_pools_migrate_user_of_json :: "json \<Rightarrow> cognito_event_user_pools_migrate_user option" where
  "cognito_event_user_pools_migrate_user_of_json j = do {
     kvs \<leftarrow> de_object j;
     x_cognito_event_user_pools_header \<leftarrow> cognito_event_user_pools_header_of_fields cognito_event_user_pools_migrate_user_trigger_source_of_json kvs;
     x_cognito_event_user_pools_migrate_user_request \<leftarrow> de_required cognito_event_user_pools_migrate_user_request_of_json [''request''] kvs;
     x_cognito_event_user_pools_migrate_user_response \<leftarrow> de_required cognito_event_user_pools_migrate_user_response_of_json [''response''] kvs;
     Some \<lparr>ceupmu_cognito_event_user_pools_header = x_cognito_event_user_pools_header,
       ceupmu_cognito_event_user_pools_migrate_user_request = x_cognito_event_user_pools_migrate_user_request,
       ceupmu_cognito_event_user_pools_migrate_user_response = x_cognito_event_user_pools_migrate_user_response\<rparr> }"

definition cognito_event_user_pools_migrate_user_good :: "cognito_event_user_pools_migrate_user \<Rightarrow> bool" where
  "cognito_event_user_pools_migrate_user_good x \<longleftrightarrow>
     cognito_event_user_pools_header_good (\<lambda>_. True) (ceupmu_cognito_event_user_pools_header x) \<and>
     cognito_event_user_pools_migrate_user_request_good (ceupmu_cognito_event_user_pools_migrate_user_request x) \<and>
     cognito_event_user_pools_migrate_user_response_good (ceupmu_cognito_event_user_pools_migrate_user_response x)"

lemma cognito_event_user_pools_migrate_user_not_null [simp]: "cognito_event_user_pools_migrate_user_json x \<noteq> JNull"
  by (simp add: cognito_event_user_pools_migrate_user_json_def)

lemma cognito_event_user_pools_migrate_user_read [read_back]: "cognito_event_user_pools_migrate_user_good x \<Longrightarrow>cognito_event_user_pools_migrate_user_of_json (cognito_event_user_pools_migrate_user_json x) = Some x"
  by (cases x, cases "ceupmu_cognito_event_user_pools_header x") (clarsimp simp: cognito_event_user_pools_migrate_user_of_json_def cognito_event_user_pools_migrate_user_json_def cognito_event_user_pools_migrate_user_good_def cognito_event_user_pools_header_of_fields_def cognito_event_user_pools_header_fields_def cognito_event_user_pools_header_good_def read_back)

lemma cognito_event_user_pools_migrate_user_typed: "typed cognito_event_user_pools_migrate_user_good cognito_event_user_pools_migrate_user_of_json"
  unfolding typed_def cognito_event_user_pools_migrate_user_of_json_def cognito_event_user_pools_migrate_user_good_def
  by (auto simp: bind_eq_Some_conv dest!: typed_fieldsD [OF cognito_event_user_pools_header_fields_typed [OF typed_nn [OF typed_True]]]
      typed_required [OF cognito_event_user_pools_migrate_user_request_typed]
      typed_required [OF cognito_event_user_pools_migrate_user_response_typed])

definition group_configuration_default :: "group_configuration" where
  "group_configuration_default = \<lparr>gc_groups_to_override = [], gc_iam_roles_to_override = [], gc_preferred_role = None\<rparr>"

record cognito_event_user_pools_pre_token_gen_request =
  ceupptgr_user_attributes :: "(string \<times> string) list"
  ceupptgr_group_configuration :: group_configuration
  ceupptgr_client_metadata :: "(string \<times> string) list"

definition cognito_event_user_pools_pre_token_gen_request_json :: "cognito_event_user_pools_pre_token_gen_request \<Rightarrow> json" where
  "cognito_event_user_pools_pre_token_gen_request_json x = JObj
     ([(''userAttributes'', json_of_map JStr (ceupptgr_user_attributes x)),
      (''groupConfiguration'', group_configuration_json (ceupptgr_group_configuration x)),
      (''clientMetadata'', json_of_map JStr (ceupptgr_client_metadata x))])"

definition cognito_event_user_pools_pre_token_gen_request_of_json :: "json \<Rightarrow> cognito_event_user_pools_pre_token_gen_request option" where
  "cognito_event_user_pools_pre_token_gen_request_of_json j = do {
     kvs \<leftarrow> de_fields 0
       [''userAttributes'', ''groupConfiguration'', ''clientMetadata''] j;
     x_user_attributes \<leftarrow> de_default (de_nullish (de_hash_map de_string) []) [] [''userAttributes''] kvs;
     x_group_configuration \<leftarrow> de_default (de_nullish group_configuration_of_json group_configuration_default) group_configuration_default [''groupConfiguration''] kvs;
     x_client_metadata \<leftarrow> de_default (de_nullish (de_hash_map de_string) []) [] [''clientMetadata''] kvs;
     Some \<lparr>ceupptgr_user_attributes = x_user_attributes,
       ceupptgr_group_configuration = x_group_configuration,
       ceupptgr_client_metadata = x_client_metadata\<rparr> }"

definition cognito_event_user_pools_pre_token_gen_request_good :: "cognito_event_user_pools_pre_token_gen_request \<Rightarrow> bool" where
  "cognito_event_user_pools_pre_token_gen_request_good x \<longleftrightarrow>
     good_map (\<lambda>_. True) (ceupptgr_user_attributes x) \<and>
     good_map (\<lambda>_. True) (ceupptgr_client_metadata x)"

lemma cognito_event_user_pools_pre_token_gen_request_not_null [simp]: "cognito_event_user_pools_pre_token_gen_request_json x \<noteq> JNull"
  by (simp add: cognito_event_user_pools_pre_token_gen_request_json_def)

lemma cognito_event_user_pools_pre_token_gen_request_read [read_back]: "cognito_event_user_pools_pre_token_gen_request_good x \<Longrightarrow>cognito_event_user_pools_pre_token_gen_request_of_json (cognito_event_user_pools_pre_token_gen_request_json x) = Some x"
  by (cases x) (clarsimp simp: cognito_event_user_pools_pre_token_gen_request_of_json_def cognito_event_user_pools_pre_token_gen_request_json_def cognito_event_user_pools_pre_token_gen_request_good_def read_back)

lemma cognito_event_user_pools_pre_token_gen_request_typed: "typed cognito_event_user_pools_pre_token_gen_request_good cognito_event_user_pools_pre_token_gen_request_of_json"
  unfolding typed_def cognito_event_user_pools_pre_token_gen_request_of_json_def cognito_event_user_pools_pre_token_gen_request_good_def
  by (auto simp: bind_eq_Some_conv dest!: typed_default [OF typed_nullish [OF typed_hash_map [OF typed_True [of "de_string"]] good_nil(1)] good_nil(1)])

record cognito_event_user_pools_pre_token_gen_request_v2 =
  ceupptgrv_user_attributes :: "(string \<times> string) list"
  ceupptgrv_group_configuration :: group_configuration
  ceupptgrv_client_metadata :: "(string \<times> string) list"
  ceupptgrv_scopes :: "string list"

definition cognito_event_user_pools_pre_token_gen_request_v2_json :: "cognito_event_user_pools_pre_token_gen_request_v2 \<Rightarrow> json" where
  "cognito_event_user_pools_pre_token_gen_request_v2_json x = JObj
     ([(''userAttributes'', json_of_map JStr (ceupptgrv_user_attributes x)),
      (''groupConfiguration'', group_configuration_json (ceupptgrv_group_configuration x)),
      (''clientMetadata'', json_of_map JStr (ceupptgrv_client_metadata x)),
      (''scopes'', json_of_list JStr (ceupptgrv_scopes x))])"

definition cognito_event_user_pools_pre_token_gen_request_v2_of_json :: "json \<Rightarrow> cognito_event_user_pools_pre_token_gen_request_v2 option" where
  "cognito_event_user_pools_pre_token_gen_request_v2_of_json j = do {
     kvs \<leftarrow> de_fields 4
       [''userAttributes'', ''groupConfiguration'', ''clientMetadata'', ''scopes''] j;
     x_user_attributes \<leftarrow> de_default (de_nullish (de_hash_map de_string) []) [] [''userAttributes''] kvs;
     x_group_configuration \<leftarrow> de_default (de_nullish group_configuration_of_json group_configuration_default) group_configuration_default [''groupConfiguration''] kvs;
     x_client_metadata \<leftarrow> de_default (de_nullish (de_hash_map de_string) []) [] [''clientMetadata''] kvs;
     x_scopes \<leftarrow> de_required (de_list de_string) [''scopes''] kvs;
     Some \<lparr>ceupptgrv_user_attributes = x_user_attributes,
       ceupptgrv_group_configuration = x_group_configuration,
       ceupptgrv_client_metadata = x_client_metadata, ceupptgrv_scopes = x_scopes\<rparr> }"

definition cognito_event_user_pools_pre_token_gen_request_v2_good :: "cognito_event_user_pools_pre_token_gen_request_v2 \<Rightarrow> bool" where
  "cognito_event_user_pools_pre_token_gen_request_v2_good x \<longleftrightarrow>
     good_map (\<lambda>_. True) (ceupptgrv_user_attributes x) \<and>
     good_map (\<lambda>_. True) (ceupptgrv_client_metadata x)"

lemma cognito_event_user_pools_pre_token_gen_request_v2_not_null [simp]: "cognito_event_user_pools_pre_token_gen_request_v2_json x \<noteq> JNull"
  by (simp add: cognito_event_user_pools_pre_token_gen_request_v2_json_def)

lemma cognito_event_user_pools_pre_token_gen_request_v2_read [read_back]: "cognito_event_user_pools_pre_token_gen_request_v2_good x \<Longrightarrow>cognito_event_user_pools_pre_token_gen_request_v2_of_json (cognito_event_user_pools_pre_token_gen_request_v2_json x) = Some x"
  by (cases x) (clarsimp simp: cognito_event_user_pools_pre_token_gen_request_v2_of_json_def cognito_event_user_pools_pre_token_gen_request_v2_json_def cognito_event_user_pools_pre_token_gen_request_v2_good_def read_back)

lemma cognito_event_user_pools_pre_token_gen_request_v2_typed: "typed cognito_event_user_pools_pre_token_gen_request_v2_good cognito_event_user_pools_pre_token_gen_request_v2_of_json"
  unfolding typed_def cognito_event_user_pools_pre_token_gen_request_v2_of_json_def cognito_event_user_pools_pre_token_gen_request_v2_good_def
  by (auto simp: bind_eq_Some_conv dest!: typed_default [OF typed_nullish [OF typed_hash_map [OF typed_True [of "de_string"]] good_nil(1)] good_nil(1)])

record claims_and_scope_override_details_v2 =
  casodv_group_override_details :: group_configuration
  casodv_id_token_generation :: "cognito_id_token_generation_v2 option"
  casodv_access_token_generation :: "cognito_access_token_generation_v2 option"

definition claims_and_scope_override_details_v2_json :: "claims_and_scope_override_details_v2 \<Rightarrow> json" where
  "claims_and_scope_override_details_v2_json x = JObj
     ([(''groupOverrideDetails'', group_configuration_json (casodv_group_override_details x)),
      (''idTokenGeneration'', json_of_option cognito_id_token_generation_v2_json (casodv_id_token_generation x)),
      (''accessTokenGeneration'', json_of_option cognito_access_token_generation_v2_json (casodv_access_token_generation x))])"

definition claims_and_scope_override_details_v2_of_json :: "json \<Rightarrow> claims_and_scope_override_details_v2 option" where
  "claims_and_scope_override_details_v2_of_json j = do {
     kvs \<leftarrow> de_fields 3
       [''groupOverrideDetails'', ''idTokenGeneration'', ''accessTokenGeneration''] j;
     x_group_override_details \<leftarrow> de_required group_configuration_of_json [''groupOverrideDetails''] kvs;
     x_id_token_generation \<leftarrow> de_optional cognito_id_token_generation_v2_of_json [''idTokenGeneration''] kvs;
     x_access_token_generation \<leftarrow> de_optional cognito_access_token_generation_v2_of_json [''accessTokenGeneration''] kvs;
     Some \<lparr>casodv_group_override_details = x_group_override_details,
       casodv_id_token_generation = x_id_token_generation,
       casodv_access_token_generation = x_access_token_generation\<rparr> }"

definition claims_and_scope_override_details_v2_good :: "claims_and_scope_override_details_v2 \<Rightarrow> bool" where
  "claims_and_scope_override_details_v2_good x \<longleftrightarrow>
     good_option cognito_id_token_generation_v2_good (casodv_id_token_generation x) \<and>
     good_option cognito_access_token_generation_v2_good (casodv_access_token_generation x)"

lemma claims_and_scope_override_details_v2_not_null [simp]: "claims_and_scope_override_details_v2_json x \<noteq> JNull"
  by (simp add: claims_and_scope_override_details_v2_json_def)

lemma claims_and_scope_override_details_v2_read [read_back]: "claims_and_scope_override_details_v2_good x \<Longrightarrow>claims_and_scope_override_details_v2_of_json (claims_and_scope_override_details_v2_json x) = Some x"
  by (cases x) (clarsimp simp: claims_and_scope_override_details_v2_of_json_def claims_and_scope_override_details_v2_json_def claims_and_scope_override_details_v2_good_def read_back)

lemma claims_and_scope_override_details_v2_typed: "typed claims_and_scope_override_details_v2_good claims_and_scope_override_details_v2_of_json"
  unfolding typed_def claims_and_scope_override_details_v2_of_json_def claims_and_scope_override_details_v2_good_def
  by (auto simp: bind_eq_Some_conv dest!: typed_optional [OF cognito_id_token_generation_v2_typed]
      typed_optional [OF cognito_access_token_generation_v2_typed])

record claims_override_details =
  cod_group_override_details :: group_configuration
  cod_claims_to_add_or_override :: "(string \<times> string) list"
  cod_claims_to_suppress :: "string list"

definition claims_override_details_json :: "claims_override_details \<Rightarrow> json" where
  "claims_override_details_json x = JObj
     ([(''groupOverrideDetails'', group_configuration_json (cod_group_override_details x)),
      (''claimsToAddOrOverride'', json_of_map JStr (cod_claims_to_add_or_override x)),
      (''claimsToSuppress'', json_of_list JStr (cod_claims_to_suppress x))])"

definition claims_override_details_of_json :: "json \<Rightarrow> claims_override_details option" where
  "claims_override_details_of_json j = do {
     kvs \<leftarrow> de_fields 3
       [''groupOverrideDetails'', ''claimsToAddOrOverride'', ''claimsToSuppress''] j;
     x_group_override_details \<leftarrow> de_required group_configuration_of_json [''groupOverrideDetails''] kvs;
     x_claims_to_add_or_override \<leftarrow> de_default (de_nullish (de_hash_map de_string) []) [] [''claimsToAddOrOverride''] kvs;
     x_claims_to_suppress \<leftarrow> de_required (de_list de_string) [''claimsToSuppress''] kvs;
     Some \<lparr>cod_group_override_details = x_group_override_details,
       cod_claims_to_add_or_override = x_claims_to_add_or_override,
       cod_claims_to_suppress = x_claims_to_suppress\<rparr> }"

definition claims_override_details_good :: "claims_override_details \<Rightarrow> bool" where
  "claims_override_details_good x \<longleftrightarrow>
     good_map (\<lambda>_. True) (cod_claims_to_add_or_override x)"

lemma claims_override_details_not_null [simp]: "claims_override_details_json x \<noteq> JNull"
  by (simp add: claims_override_details_json_def)

lemma claims_override_details_read [read_back]: "claims_override_details_good x \<Longrightarrow>claims_override_details_of_json (claims_override_details_json x) = Some x"
  by (cases x) (simp add: claims_override_details_of_json_def claims_override_details_json_def claims_override_details_good_def read_back)

lemma claims_override_details_typed: "typed claims_override_details_good claims_override_details_of_json"
  unfolding typed_def claims_override_details_of_json_def claims_override_details_good_def
  by (auto simp: bind_eq_Some_conv dest!: typed_default [OF typed_nullish [OF typed_hash_map [OF typed_True [of "de_string"]] good_nil(1)] good_nil(1)])

record cognito_event_user_pools_define_auth_challenge =
  ceupdac_cognito_event_user_pools_header :: "cognito_event_user_pools_define_auth_challenge_trigger_source cognito_event_user_pools_header"
  ceupdac_request :: cognito_event_user_pools_define_auth_challenge_request
  ceupdac_response :: cognito_event_user_pools_define_auth_challenge_response

definition cognito_event_user_pools_define_auth_challenge_json :: "cognito_event_user_pools_define_auth_challenge \<Rightarrow> json" where
  "cognito_event_user_pools_define_auth_challenge_json x = JObj
     (cognito_event_user_pools_header_fields cognito_event_user_pools_define_auth_challenge_trigger_source_json (ceupdac_cognito_event_user_pools_header x) @
      [(''request'', cognito_event_user_pools_define_auth_challenge_request_json (ceupdac_request x)),
      (''response'', cognito_event_user_pools_define_auth_challenge_response_json (ceupdac_response x))])"

definition cognito_event_user_pools_define_auth_challenge_of_json :: "json \<Rightarrow> cognito_event_user_pools_define_auth_challenge option" where
  "cognito_event_user_pools_define_auth_challenge_of_json j = do {
     kvs \<leftarrow> de_object j;
     x_cognito_event_user_pools_header \<leftarrow> cognito_event_user_pools_header_of_fields cognito_event_user_pools_define_auth_challenge_trigger_source_of_json kvs;
     x_request \<leftarrow> de_required cognito_event_user_pools_define_auth_challenge_request_of_json [''request''] kvs;
     x_response \<leftarrow> de_required cognito_event_user_pools_define_auth_challenge_response_of_json [''response''] kvs;
     Some \<lparr>ceupdac_cognito_event_user_pools_header = x_cognito_event_user_pools_header,
       ceupdac_request = x_request, ceupdac_response = x_response\<rparr> }"

definition cognito_event_user_pools_define_auth_challenge_good :: "cognito_event_user_pools_define_auth_challenge \<Rightarrow> bool" where
  "cognito_event_user_pools_define_auth_challenge_good x \<longleftrightarrow>
     cognito_event_user_pools_header_good (\<lambda>_. True) (ceupdac_cognito_event_user_pools_header x) \<and>
     cognito_event_user_pools_define_auth_challenge_request_good (ceupdac_request x)"

lemma cognito_event_user_pools_define_auth_challenge_not_null [simp]: "cognito_event_user_pools_define_auth_challenge_json x \<noteq> JNull"
  by (simp add: cognito_event_user_pools_define_auth_challenge_json_def)

lemma cognito_event_user_pools_define_auth_challenge_read [read_back]: "cognito_event_user_pools_define_auth_challenge_good x \<Longrightarrow>cognito_event_user_pools_define_auth_challenge_of_json (cognito_event_user_pools_define_auth_challenge_json x) = Some x"
  by (cases x, cases "ceupdac_cognito_event_user_pools_header x") (clarsimp simp: cognito_event_user_pools_define_auth_challenge_of_json_def cognito_event_user_pools_define_auth_challenge_json_def cognito_event_user_pools_define_auth_challenge_good_def cognito_event_user_pools_header_of_fields_def cognito_event_user_pools_header_fields_def cognito_event_user_pools_header_good_def read_back)

lemma cognito_event_user_pools_define_auth_challenge_typed: "typed cognito_event_user_pools_define_auth_challenge_good cognito_event_user_pools_define_auth_challenge_of_json"
  unfolding typed_def cognito_event_user_pools_define_auth_challenge_of_json_def cognito_event_user_pools_define_auth_challenge_good_def
  by (auto simp: bind_eq_Some_conv dest!: typed_fieldsD [OF cognito_event_user_pools_header_fields_typed [OF typed_nn [OF typed_True]]]
      typed_required [OF cognito_event_user_pools_define_auth_challenge_request_typed])

record cognito_event_user_pools_create_auth_challenge =
  ceupcac_cognito_event_user_pools_header :: "cognito_event_user_pools_create_auth_challenge_trigger_source cognito_event_user_pools_header"
  ceupcac_request :: cognito_event_user_pools_create_auth_challenge_request
  ceupcac_response :: cognito_event_user_pools_create_auth_challenge_response

definition cognito_event_user_pools_create_auth_challenge_json :: "cognito_event_user_pools_create_auth_challenge \<Rightarrow> json" where
  "cognito_event_user_pools_create_auth_challenge_json x = JObj
     (cognito_event_user_pools_header_fields cognito_event_user_pools_create_auth_challenge_trigger_source_json (ceupcac_cognito_event_user_pools_header x) @
      [(''request'', cognito_event_user_pools_create_auth_challenge_request_json (ceupcac_request x)),
      (''response'', cognito_event_user_pools_create_auth_challenge_response_json (ceupcac_response x))])"

definition cognito_event_user_pools_create_auth_challenge_of_json :: "json \<Rightarrow> cognito_event_user_pools_create_auth_challenge option" where
  "cognito_event_user_pools_create_auth_challenge_of_json j = do {
     kvs \<leftarrow> de_object j;
     x_cognito_event_user_pools_header \<leftarrow> cognito_event_user_pools_header_of_fields cognito_event_user_pools_create_auth_challenge_trigger_source_of_json kvs;
     x_request \<leftarrow> de_required cognito_event_user_pools_create_auth_challenge_request_of_json [''request''] kvs;
     x_response \<leftarrow> de_required cognito_event_user_pools_create_auth_challenge_response_of_json [''response''] kvs;
     Some \<lparr>ceupcac_cognito_event_user_pools_header = x_cognito_event_user_pools_header,
       ceupcac_request = x_request, ceupcac_response = x_response\<rparr> }"

definition cognito_event_user_pools_create_auth_challenge_good :: "cognito_event_user_pools_create_auth_challenge \<Rightarrow> bool" where
  "cognito_event_user_pools_create_auth_challenge_good x \<longleftrightarrow>
     cognito_event_user_pools_header_good (\<lambda>_. True) (ceupcac_cognito_event_user_pools_header x) \<and>
     cognito_event_user_pools_create_auth_challenge_request_good (ceupcac_request x) \<and>
     cognito_event_user_pools_create_auth_challenge_response_good (ceupcac_response x)"

lemma cognito_event_user_pools_create_auth_challenge_not_null [simp]: "cognito_event_user_pools_create_auth_challenge_json x \<noteq> JNull"
  by (simp add: cognito_event_user_pools_create_auth_challenge_json_def)

lemma cognito_event_user_pools_create_auth_challenge_read [read_back]: "cognito_event_user_pools_create_auth_challenge_good x \<Longrightarrow>cognito_event_user_pools_create_auth_challenge_of_json (cognito_event_user_pools_create_auth_challenge_json x) = Some x"
  by (cases x, cases "ceupcac_cognito_event_user_pools_header x") (clarsimp simp: cognito_event_user_pools_create_auth_challenge_of_json_def cognito_event_user_pools_create_auth_challenge_json_def cognito_event_user_pools_create_auth_challenge_good_def cognito_event_user_pools_header_of_fields_def cognito_event_user_pools_header_fields_def cognito_event_user_pools_header_good_def read_back)

lemma cognito_event_user_pools_create_auth_challenge_typed: "typed cognito_event_user_pools_create_auth_challenge_good cognito_event_user_pools_create_auth_challenge_of_json"
  unfolding typed_def cognito_event_user_pools_create_auth_challenge_of_json_def cognito_event_user_pools_create_auth_challenge_good_def
  by (auto simp: bind_eq_Some_conv dest!: typed_fieldsD [OF cognito_event_user_pools_header_fields_typed [OF typed_nn [OF typed_True]]]
      typed_required [OF cognito_event_user_pools_create_auth_challenge_request_typed]
      typed_required [OF cognito_event_user_pools_create_auth_challenge_response_typed])

record cognito_event_user_pools_verify_auth_challenge =
  ceupvac_cognito_event_user_pools_header :: "cognito_event_user_pools_verify_auth_challenge_trigger_source cognito_event_user_pools_header"
  ceupvac_request :: "json cognito_event_user_pools_verify_auth_challenge_request"
  ceupvac_response :: cognito_event_user_pools_verify_auth_challenge_response

definition cognito_event_user_pools_verify_auth_challenge_json :: "cognito_event_user_pools_verify_auth_challenge \<Rightarrow> json" where
  "cognito_event_user_pools_verify_auth_challenge_json x = JObj
     (cognito_event_user_pools_header_fields cognito_event_user_pools_verify_auth_challenge_trigger_source_json (ceupvac_cognito_event_user_pools_header x) @
      [(''request'', cognito_event_user_pools_verify_auth_challenge_request_json (\<lambda>v. v) (ceupvac_request x)),
      (''response'', cognito_event_user_pools_verify_auth_challenge_response_json (ceupvac_response x))])"

definition cognito_event_user_pools_verify_auth_challenge_of_json :: "json \<Rightarrow> cognito_event_user_pools_verify_auth_challenge option" where
  "cognito_event_user_pools_verify_auth_challenge_of_json j = do {
     kvs \<leftarrow> de_object j;
     x_cognito_event_user_pools_header \<leftarrow> cognito_event_user_pools_header_of_fields cognito_event_user_pools_verify_auth_challenge_trigger_source_of_json kvs;
     x_request \<leftarrow> de_required (cognito_event_user_pools_verify_auth_challenge_request_of_json Some) [''request''] kvs;
     x_response \<leftarrow> de_required cognito_event_user_pools_verify_auth_challenge_response_of_json [''response''] kvs;
     Some \<lparr>ceupvac_cognito_event_user_pools_header = x_cognito_event_user_pools_header,
       ceupvac_request = x_request, ceupvac_response = x_response\<rparr> }"

definition cognito_event_user_pools_verify_auth_challenge_good :: "cognito_event_user_pools_verify_auth_challenge \<Rightarrow> bool" where
  "cognito_event_user_pools_verify_auth_challenge_good x \<longleftrightarrow>
     cognito_event_user_pools_header_good (\<lambda>_. True) (ceupvac_cognito_event_user_pools_header x) \<and>
     cognito_event_user_pools_verify_auth_challenge_request_good (\<lambda>v. v \<noteq> JNull) (ceupvac_request x)"

lemma cognito_event_user_pools_verify_auth_challenge_not_null [simp]: "cognito_event_user_pools_verify_auth_challenge_json x \<noteq> JNull"
  by (simp add: cognito_event_user_pools_verify_auth_challenge_json_def)

lemma cognito_event_user_pools_verify_auth_challenge_read [read_back]: "cognito_event_user_pools_verify_auth_challenge_good x \<Longrightarrow>cognito_event_user_pools_verify_auth_challenge_of_json (cognito_event_user_pools_verify_auth_challenge_json x) = Some x"
  by (cases x, cases "ceupvac_cognito_event_user_pools_header x") (clarsimp simp: cognito_event_user_pools_verify_auth_challenge_of_json_def cognito_event_user_pools_verify_auth_challenge_json_def cognito_event_user_pools_verify_auth_challenge_good_def cognito_event_user_pools_header_of_fields_def cognito_event_user_pools_header_fields_def cognito_event_user_pools_header_good_def read_back)

lemma cognito_event_user_pools_verify_auth_challenge_typed: "typed cognito_event_user_pools_verify_auth_challenge_good cognito_event_user_pools_verify_auth_challenge_of_json"
  unfolding typed_def cognito_event_user_pools_verify_auth_challenge_of_json_def cognito_event_user_pools_verify_auth_challenge_good_def
  by (auto simp: bind_eq_Some_conv dest!: typed_fieldsD [OF cognito_event_user_pools_header_fields_typed [OF typed_nn [OF typed_True]]]
      typed_required [OF cognito_event_user_pools_verify_auth_challenge_request_typed [OF typed_nn_value]])

record cognito_event_user_pools_custom_message =
  ceupcm_cognito_event_user_pools_header :: "cognito_event_user_pools_custom_message_trigger_source cognito_event_user_pools_header"
  ceupcm_request :: "json cognito_event_user_pools_custom_message_request"
  ceupcm_response :: cognito_event_user_pools_custom_message_response

definition cognito_event_user_pools_custom_message_json :: "cognito_event_user_pools_custom_message \<Rightarrow> json" where
  "cognito_event_user_pools_custom_message_json x = JObj
     (cognito_event_user_pools_header_fields cognito_event_user_pools_custom_message_trigger_source_json (ceupcm_cognito_event_user_pools_header x) @
      [(''request'', cognito_event_user_pools_custom_message_request_json (\<lambda>v. v) (ceupcm_request x)),
      (''response'', cognito_event_user_pools_custom_message_response_json (ceupcm_response x))])"

definition cognito_event_user_pools_custom_message_of_json :: "json \<Rightarrow> cognito_event_user_pools_custom_message option" where
  "cognito_event_user_pools_custom_message_of_json j = do {
     kvs \<leftarrow> de_object j;
     x_cognito_event_user_pools_header \<leftarrow> cognito_event_user_pools_header_of_fields cognito_event_user_pools_custom_message_trigger_source_of_json kvs;
     x_request \<leftarrow> de_required (cognito_event_user_pools_custom_message_request_of_json Some) [''request''] kvs;
     x_response \<leftarrow> de_required cognito_event_user_pools_custom_message_response_of_json [''response''] kvs;
     Some \<lparr>ceupcm_cognito_event_user_pools_header = x_cognito_event_user_pools_header,
       ceupcm_request = x_request, ceupcm_response = x_response\<rparr> }"

definition cognito_event_user_pools_custom_message_good :: "cognito_event_user_pools_custom_message \<Rightarrow> bool" where
  "cognito_event_user_pools_custom_message_good x \<longleftrightarrow>
     cognito_event_user_pools_header_good (\<lambda>_. True) (ceupcm_cognito_event_user_pools_header x) \<and>
     cognito_event_user_pools_custom_message_request_good (\<lambda>_. True) (ceupcm_request x)"

lemma cognito_event_user_pools_custom_message_not_null [simp]: "cognito_event_user_pools_custom_message_json x \<noteq> JNull"
  by (simp add: cognito_event_user_pools_custom_message_json_def)

lemma cognito_event_user_pools_custom_message_read [read_back]: "cognito_event_user_pools_custom_message_good x \<Longrightarrow>cognito_event_user_pools_custom_message_of_json (cognito_event_user_pools_custom_message_json x) = Some x"
  by (cases x, cases "ceupcm_cognito_event_user_pools_header x") (clarsimp simp: cognito_event_user_pools_custom_message_of_json_def cognito_event_user_pools_custom_message_json_def cognito_event_user_pools_custom_message_good_def cognito_event_user_pools_header_of_fields_def cognito_event_user_pools_header_fields_def cognito_event_user_pools_header_good_def read_back)

lemma cognito_event_user_pools_custom_message_typed: "typed cognito_event_user_pools_custom_message_good cognito_event_user_pools_custom_message_of_json"
  unfolding typed_def cognito_event_user_pools_custom_message_of_json_def cognito_event_user_pools_custom_message_good_def
  by (auto simp: bind_eq_Some_conv dest!: typed_fieldsD [OF cognito_event_user_pools_header_fields_typed [OF typed_nn [OF typed_True]]]
      typed_required [OF cognito_event_user_pools_custom_message_request_typed [OF typed_True]])

record cognito_event_user_pools_pre_token_gen_response =
  ceupptgre_claims_override_details :: "claims_override_details option"

definition cognito_event_user_pools_pre_token_gen_response_json :: "cognito_event_user_pools_pre_token_gen_response \<Rightarrow> json" where
  "cognito_event_user_pools_pre_token_gen_response_json x = JObj
     ([(''claimsOverrideDetails'', json_of_option claims_override_details_json (ceupptgre_claims_override_details x))])"

definition cognito_event_user_pools_pre_token_gen_response_of_json :: "json \<Rightarrow> cognito_event_user_pools_pre_token_gen_response option" where
  "cognito_event_user_pools_pre_token_gen_response_of_json j = do {
     kvs \<leftarrow> de_fields 1
       [''claimsOverrideDetails''] j;
     x_claims_override_details \<leftarrow> de_optional claims_override_details_of_json [''claimsOverrideDetails''] kvs;
     Some \<lparr>ceupptgre_claims_override_details = x_claims_override_details\<rparr> }"

definition cognito_event_user_pools_pre_token_gen_response_good :: "cognito_event_user_pools_pre_token_gen_response \<Rightarrow> bool" where
  "cognito_event_user_pools_pre_token_gen_response_good x \<longleftrightarrow>
     good_option claims_override_details_good (ceupptgre_claims_override_details x)"

lemma cognito_event_user_pools_pre_token_gen_response_not_null [simp]: "cognito_event_user_pools_pre_token_gen_response_json x \<noteq> JNull"
  by (simp add: cognito_event_user_pools_pre_token_gen_response_json_def)

lemma cognito_event_user_pools_pre_token_gen_response_read [read_back]: "cognito_event_user_pools_pre_token_gen_response_good x \<Longrightarrow>cognito_event_user_pools_pre_token_gen_response_of_json (cognito_event_user_pools_pre_token_gen_response_json x) = Some x"
  by (cases x) (simp add: cognito_event_user_pools_pre_token_gen_response_of_json_def cognito_event_user_pools_pre_token_gen_response_json_def cognito_event_user_pools_pre_token_gen_response_good_def read_back)

lemma cognito_event_user_pools_pre_token_gen_response_typed: "typed cognito_event_user_pools_pre_token_gen_response_good cognito_event_user_pools_pre_token_gen_response_of_json"
  unfolding typed_def cognito_event_user_pools_pre_token_gen_response_of_json_def cognito_event_user_pools_pre_token_gen_response_good_def
  by (auto simp: bind_eq_Some_conv dest!: typed_optional [OF claims_override_details_typed])

record cognito_event_user_pools_pre_token_gen_response_v2 =
  ceupptgrv2_claims_and_scope_override_details :: "claims_and_scope_override_details_v2 option"

definition cognito_event_user_pools_pre_token_gen_response_v2_json :: "cognito_event_user_pools_pre_token_gen_response_v2 \<Rightarrow> json" where
  "cognito_event_user_pools_pre_token_gen_response_v2_json x = JObj
     ([(''claimsAndScopeOverrideDetails'', json_of_option claims_and_scope_override_details_v2_json (ceupptgrv2_claims_and_scope_override_details x))])"

definition cognito_event_user_pools_pre_token_gen_response_v2_of_json :: "json \<Rightarrow> cognito_event_user_pools_pre_token_gen_response_v2 option" where
  "cognito_event_user_pools_pre_token_gen_response_v2_of_json j = do {
     kvs \<leftarrow> de_fields 1
       [''claimsAndScopeOverrideDetails''] j;
     x_claims_and_scope_override_details \<leftarrow> de_optional claims_and_scope_override_details_v2_of_json [''claimsAndScopeOverrideDetails''] kvs;
     Some \<lparr>ceupptgrv2_claims_and_scope_override_details = x_claims_and_scope_override_details\<rparr> }"

definition cognito_event_user_pools_pre_token_gen_response_v2_good :: "cognito_event_user_pools_pre_token_gen_response_v2 \<Rightarrow> bool" where
  "cognito_event_user_pools_pre_token_gen_response_v2_good x \<longleftrightarrow>
     good_option claims_and_scope_override_details_v2_good (ceupptgrv2_claims_and_scope_override_details x)"

lemma cognito_event_user_pools_pre_token_gen_response_v2_not_null [simp]: "cognito_event_user_pools_pre_token_gen_response_v2_json x \<noteq> JNull"
  by (simp add: cognito_event_user_pools_pre_token_gen_response_v2_json_def)

lemma cognito_event_user_pools_pre_token_gen_response_v2_read [read_back]: "cognito_event_user_pools_pre_token_gen_response_v2_good x \<Longrightarrow>cognito_event_user_pools_pre_token_gen_response_v2_of_json (cognito_event_user_pools_pre_token_gen_response_v2_json x) = Some x"
  by (cases x) (simp add: cognito_event_user_pools_pre_token_gen_response_v2_of_json_def cognito_event_user_pools_pre_token_gen_response_v2_json_def cognito_event_user_pools_pre_token_gen_response_v2_good_def read_back)

lemma cognito_event_user_pools_pre_token_gen_response_v2_typed: "typed cognito_event_user_pools_pre_token_gen_response_v2_good cognito_event_user_pools_pre_token_gen_response_v2_of_json"
  unfolding typed_def cognito_event_user_pools_pre_token_gen_response_v2_of_json_def cognito_event_user_pools_pre_token_gen_response_v2_good_def
  by (auto simp: bind_eq_Some_conv dest!: typed_optional [OF claims_and_scope_override_details_v2_typed])

record cognito_event_user_pools_pre_token_gen =
  ceupptg_cognito_event_user_pools_header :: "cognito_event_user_pools_pre_token_gen_trigger_source cognito_event_user_pools_header"
  ceupptg_request :: cognito_event_user_pools_pre_token_gen_request
  ceupptg_response :: cognito_event_user_pools_pre_token_gen_response

definition cognito_event_user_pools_pre_token_gen_json :: "cognito_event_user_pools_pre_token_gen \<Rightarrow> json" where
  "cognito_event_user_pools_pre_token_gen_json x = JObj
     (cognito_event_user_pools_header_fields cognito_event_user_pools_pre_token_gen_trigger_source_json (ceupptg_cognito_event_user_pools_header x) @
      [(''request'', cognito_event_user_pools_pre_token_gen_request_json (ceupptg_request x)),
      (''response'', cognito_event_user_pools_pre_token_gen_response_json (ceupptg_response x))])"

definition cognito_event_user_pools_pre_token_gen_of_json :: "json \<Rightarrow> cognito_event_user_pools_pre_token_gen option" where
  "cognito_event_user_pools_pre_token_gen_of_json j = do {
     kvs \<leftarrow> de_object j;
     x_cognito_event_user_pools_header \<leftarrow> cognito_event_user_pools_header_of_fields cognito_event_user_pools_pre_token_gen_trigger_source_of_json kvs;
     x_request \<leftarrow> de_required cognito_event_user_pools_pre_token_gen_request_of_json [''request''] kvs;
     x_response \<leftarrow> de_required cognito_event_user_pools_pre_token_gen_response_of_json [''response''] kvs;
     Some \<lparr>ceupptg_cognito_event_user_pools_header = x_cognito_event_user_pools_header,
       ceupptg_request = x_request, ceupptg_response = x_response\<rparr> }"

definition cognito_event_user_pools_pre_token_gen_good :: "cognito_event_user_pools_pre_token_gen \<Rightarrow> bool" where
  "cognito_event_user_pools_pre_token_gen_good x \<longleftrightarrow>
     cognito_event_user_pools_header_good (\<lambda>_. True) (ceupptg_cognito_event_user_pools_header x) \<and>
     cognito_event_user_pools_pre_token_gen_request_good (ceupptg_request x) \<and>
     cognito_event_user_pools_pre_token_gen_response_good (ceupptg_response x)"

lemma cognito_event_user_pools_pre_token_gen_not_null [simp]: "cognito_event_user_pools_pre_token_gen_json x \<noteq> JNull"
  by (simp add: cognito_event_user_pools_pre_token_gen_json_def)

lemma cognito_event_user_pools_pre_token_gen_read [read_back]: "cognito_event_user_pools_pre_token_gen_good x \<Longrightarrow>cognito_event_user_pools_pre_token_gen_of_json (cognito_event_user_pools_pre_token_gen_json x) = Some x"
  by (cases x, cases "ceupptg_cognito_event_user_pools_header x") (clarsimp simp: cognito_event_user_pools_pre_token_gen_of_json_def cognito_event_user_pools_pre_token_gen_json_def cognito_event_user_pools_pre_token_gen_good_def cognito_event_user_pools_header_of_fields_def cognito_event_user_pools_header_fields_def cognito_event_user_pools_header_good_def read_back)

lemma cognito_event_user_pools_pre_token_gen_typed: "typed cognito_event_user_pools_pre_token_gen_good cognito_event_user_pools_pre_token_gen_of_json"
  unfolding typed_def cognito_event_user_pools_pre_token_gen_of_json_def cognito_event_user_pools_pre_token_gen_good_def
  by (auto simp: bind_eq_Some_conv dest!: typed_fieldsD [OF cognito_event_user_pools_header_fields_typed [OF typed_nn [OF typed_True]]]
      typed_required [OF cognito_event_user_pools_pre_token_gen_request_typed]
      typed_required [OF cognito_event_user_pools_pre_token_gen_response_typed])

record cognito_event_user_pools_pre_token_gen_v2 =
  ceupptgv_cognito_event_user_pools_header :: "cognito_event_user_pools_pre_token_gen_trigger_source cognito_event_user_pools_header"
  ceupptgv_request :: cognito_event_user_pools_pre_token_gen_request_v2
  ceupptgv_response :: cognito_event_user_pools_pre_token_gen_response_v2

definition cognito_event_user_pools_pre_token_gen_v2_json :: "cognito_event_user_pools_pre_token_gen_v2 \<Rightarrow> json" where
  "cognito_event_user_pools_pre_token_gen_v2_json x = JObj
     (cognito_event_user_pools_header_fields cognito_event_user_pools_pre_token_gen_trigger_source_json (ceupptgv_cognito_event_user_pools_header x) @
      [(''request'', cognito_event_user_pools_pre_token_gen_request_v2_json (ceupptgv_request x)),
      (''response'', cognito_event_user_pools_pre_token_gen_response_v2_json (ceupptgv_response x))])"

definition cognito_event_user_pools_pre_token_gen_v2_of_json :: "json \<Rightarrow> cognito_event_user_pools_pre_token_gen_v2 option" where
  "cognito_event_user_pools_pre_token_gen_v2_of_json j = do {
     kvs \<leftarrow> de_object j;
     x_cognito_event_user_pools_header \<leftarrow> cognito_event_user_pools_header_of_fields cognito_event_user_pools_pre_token_gen_trigger_source_of_json kvs;
     x_request \<leftarrow> de_required cognito_event_user_pools_pre_token_gen_request_v2_of_json [''request''] kvs;
     x_response \<leftarrow> de_required cognito_event_user_pools_pre_token_gen_response_v2_of_json [''response''] kvs;
     Some \<lparr>ceupptgv_cognito_event_user_pools_header = x_cognito_event_user_pools_header,
       ceupptgv_request = x_request, ceupptgv_response = x_response\<rparr> }"

definition cognito_event_user_pools_pre_token_gen_v2_good :: "cognito_event_user_pools_pre_token_gen_v2 \<Rightarrow> bool" where
  "cognito_event_user_pools_pre_token_gen_v2_good x \<longleftrightarrow>
     cognito_event_user_pools_header_good (\<lambda>_. True) (ceupptgv_cognito_event_user_pools_header x) \<and>
     cognito_event_user_pools_pre_token_gen_request_v2_good (ceupptgv_request x) \<and>
     cognito_event_user_pools_pre_token_gen_response_v2_good (ceupptgv_response x)"

lemma cognito_event_user_pools_pre_token_gen_v2_not_null [simp]: "cognito_event_user_pools_pre_token_gen_v2_json x \<noteq> JNull"
  by (simp add: cognito_event_user_pools_pre_token_gen_v2_json_def)

lemma cognito_event_user_pools_pre_token_gen_v2_read [read_back]: "cognito_event_user_pools_pre_token_gen_v2_good x \<Longrightarrow>cognito_event_user_pools_pre_token_gen_v2_of_json (cognito_event_user_pools_pre_token_gen_v2_json x) = Some x"
  by (cases x, cases "ceupptgv_cognito_event_user_pools_header x") (clarsimp simp: cognito_event_user_pools_pre_token_gen_v2_of_json_def cognito_event_user_pools_pre_token_gen_v2_json_def cognito_event_user_pools_pre_token_gen_v2_good_def cognito_event_user_pools_header_of_fields_def cognito_event_user_pools_header_fields_def cognito_event_user_pools_header_good_def read_back)

lemma cognito_event_user_pools_pre_token_gen_v2_typed: "typed cognito_event_user_pools_pre_token_gen_v2_good cognito_event_user_pools_pre_token_gen_v2_of_json"
  unfolding typed_def cognito_event_user_pools_pre_token_gen_v2_of_json_def cognito_event_user_pools_pre_token_gen_v2_good_def
  by (auto simp: bind_eq_Some_conv dest!: typed_fieldsD [OF cognito_event_user_pools_header_fields_typed [OF typed_nn [OF typed_True]]]
      typed_required [OF cognito_event_user_pools_pre_token_gen_request_v2_typed]
      typed_required [OF cognito_event_user_pools_pre_token_gen_response_v2_typed])

subsection \<open>\<^verbatim>\<open>appsync\<close>\<close>

record 'p app_sync_resolver_template =
  asrt_version :: "string option"
  asrt_operation :: string
  asrt_payload :: "'p option"

definition app_sync_resolver_template_json :: "('p \<Rightarrow> json) \<Rightarrow> 'p app_sync_resolver_template \<Rightarrow> json" where
  "app_sync_resolver_template_json gp x = JObj
     ([(''version'', json_of_option JStr (asrt_version x)),
      (''operation'', JStr (asrt_operation x)),
      (''payload'', json_of_option gp (asrt_payload x))])"

definition app_sync_resolver_template_of_json :: "(json \<Rightarrow> 'p option) \<Rightarrow> json \<Rightarrow> 'p app_sync_resolver_template option" where
  "app_sync_resolver_template_of_json fp j = do {
     kvs \<leftarrow> de_fields 3
       [''version'', ''operation'', ''payload''] j;
     x_version \<leftarrow> de_opt_string ''version'' kvs;
     x_operation \<leftarrow> de_required de_string [''operation''] kvs;
     x_payload \<leftarrow> de_optional fp [''payload''] kvs;
     Some \<lparr>asrt_version = x_version, asrt_operation = x_operation, asrt_payload = x_payload\<rparr> }"

definition app_sync_resolver_template_good :: "('p \<Rightarrow> bool) \<Rightarrow> 'p app_sync_resolver_template \<Rightarrow> bool" where
  "app_sync_resolver_template_good Pp x \<longleftrightarrow>
     good_option Pp (asrt_payload x)"

lemma app_sync_resolver_template_not_null [simp]: "app_sync_resolver_template_json gp x \<noteq> JNull"
  by (simp add: app_sync_resolver_template_json_def)

lemma app_sync_resolver_template_read [read_back]: "app_sync_resolver_template_good Pp x \<Longrightarrow> (\<And>x. Pp x \<Longrightarrow> gp x \<noteq> JNull \<and> fp (gp x) = Some x) \<Longrightarrow>app_sync_resolver_template_of_json fp (app_sync_resolver_template_json gp x) = Some x"
  by (cases x) (simp add: app_sync_resolver_template_of_json_def app_sync_resolver_template_json_def app_sync_resolver_template_good_def read_back)

lemma app_sync_resolver_template_typed:
  assumes typed_p: "typed_nn Pp fp" shows "typed (app_sync_resolver_template_good Pp) (app_sync_resolver_template_of_json fp)"
  unfolding typed_def app_sync_resolver_template_of_json_def app_sync_resolver_template_good_def
  by (auto simp: bind_eq_Some_conv dest!: typed_nn_optional [OF typed_p])

record app_sync_iam_identity =
  asii_account_id :: "string option"
  asii_cognito_identity_auth_provider :: "string option"
  asii_cognito_identity_auth_type :: "string option"
  asii_cognito_identity_pool_id :: "string option"
  asii_cognito_identity_id :: "string option"
  asii_source_ip :: "string list"
  asii_username :: "string option"
  asii_user_arn :: "string option"

definition app_sync_iam_identity_json :: "app_sync_iam_identity \<Rightarrow> json" where
  "app_sync_iam_identity_json x = JObj
     ([(''accountId'', json_of_option JStr (asii_account_id x)),
      (''cognitoIdentityAuthProvider'', json_of_option JStr (asii_cognito_identity_auth_provider x)),
      (''cognitoIdentityAuthType'', json_of_option JStr (asii_cognito_identity_auth_type x)),
      (''cognitoIdentityPoolId'', json_of_option JStr (asii_cognito_identity_pool_id x)),
      (''cognitoIdentityId'', json_of_option JStr (asii_cognito_identity_id x)),
      (''sourceIp'', json_of_list JStr (asii_source_ip x)),
      (''username'', json_of_option JStr (asii_username x)),
      (''userArn'', json_of_option JStr (asii_user_arn x))])"

definition app_sync_iam_identity_of_json :: "json \<Rightarrow> app_sync_iam_identity option" where
  "app_sync_iam_identity_of_json j = do {
     kvs \<leftarrow> de_fields 6
       [''accountId'', ''cognitoIdentityAuthProvider'', ''cognitoIdentityAuthType'',
        ''cognitoIdentityPoolId'', ''cognitoIdentityId'', ''sourceIp'', ''username'', ''userArn''] j;
     x_account_id \<leftarrow> de_opt_string ''accountId'' kvs;
     x_cognito_identity_auth_provider \<leftarrow> de_opt_string ''cognitoIdentityAuthProvider'' kvs;
     x_cognito_identity_auth_type \<leftarrow> de_opt_string ''cognitoIdentityAuthType'' kvs;
     x_cognito_identity_pool_id \<leftarrow> de_opt_string ''cognitoIdentityPoolId'' kvs;
     x_cognito_identity_id \<leftarrow> de_opt_string ''cognitoIdentityId'' kvs;
     x_source_ip \<leftarrow> de_required (de_list de_string) [''sourceIp''] kvs;
     x_username \<leftarrow> de_opt_string ''username'' kvs;
     x_user_arn \<leftarrow> de_opt_string ''userArn'' kvs;
     Some \<lparr>asii_account_id = x_account_id,
       asii_cognito_identity_auth_provider = x_cognito_identity_auth_provider,
       asii_cognito_identity_auth_type = x_cognito_identity_auth_type,
       asii_cognito_identity_pool_id = x_cognito_identity_pool_id,
       asii_cognito_identity_id = x_cognito_identity_id, asii_source_ip = x_source_ip,
       asii_username = x_username, asii_user_arn = x_user_arn\<rparr> }"

lemma app_sync_iam_identity_not_null [simp]: "app_sync_iam_identity_json x \<noteq> JNull"
  by (simp add: app_sync_iam_identity_json_def)

lemma app_sync_iam_identity_read [read_back]: "app_sync_iam_identity_of_json (app_sync_iam_identity_json x) = Some x"
  by (cases x) (simp add: app_sync_iam_identity_of_json_def app_sync_iam_identity_json_def read_back)

record 'p app_sync_cognito_identity =
  asci_sub :: "string option"
  asci_issuer :: "string option"
  asci_username :: "string option"
  asci_claims :: "(string \<times> 'p) list"
  asci_source_ip :: "string list"
  asci_default_auth_strategy :: "string option"

definition app_sync_cognito_identity_json :: "('p \<Rightarrow> json) \<Rightarrow> 'p app_sync_cognito_identity \<Rightarrow> json" where
  "app_sync_cognito_identity_json gp x = JObj
     ([(''sub'', json_of_option JStr (asci_sub x)),
      (''issuer'', json_of_option JStr (asci_issuer x)),
      (''username'', json_of_option JStr (asci_username x)),
      (''claims'', json_of_map gp (asci_claims x)),
      (''sourceIp'', json_of_list JStr (asci_source_ip x)),
      (''defaultAuthStrategy'', json_of_option JStr (asci_default_auth_strategy x))])"

definition app_sync_cognito_identity_of_json :: "(json \<Rightarrow> 'p option) \<Rightarrow> json \<Rightarrow> 'p app_sync_cognito_identity option" where
  "app_sync_cognito_identity_of_json fp j = do {
     kvs \<leftarrow> de_fields 5
       [''sub'', ''issuer'', ''username'', ''claims'', ''sourceIp'', ''defaultAuthStrategy''] j;
     x_sub \<leftarrow> de_opt_string ''sub'' kvs;
     x_issuer \<leftarrow> de_opt_string ''issuer'' kvs;
     x_username \<leftarrow> de_opt_string ''username'' kvs;
     x_claims \<leftarrow> de_default (de_nullish (de_hash_map fp) []) [] [''claims''] kvs;
     x_source_ip \<leftarrow> de_required (de_list de_string) [''sourceIp''] kvs;
     x_default_auth_strategy \<leftarrow> de_opt_string ''defaultAuthStrategy'' kvs;
     Some \<lparr>asci_sub = x_sub, asci_issuer = x_issuer, asci_username = x_username,
       asci_claims = x_claims, asci_source_ip = x_source_ip,
       asci_default_auth_strategy = x_default_auth_strategy\<rparr> }"

definition app_sync_cognito_identity_good :: "('p \<Rightarrow> bool) \<Rightarrow> 'p app_sync_cognito_identity \<Rightarrow> bool" where
  "app_sync_cognito_identity_good Pp x \<longleftrightarrow>
     good_map Pp (asci_claims x)"

lemma app_sync_cognito_identity_not_null [simp]: "app_sync_cognito_identity_json gp x \<noteq> JNull"
  by (simp add: app_sync_cognito_identity_json_def)

lemma app_sync_cognito_identity_read [read_back]: "app_sync_cognito_identity_good Pp x \<Longrightarrow> (\<And>x. Pp x \<Longrightarrow> fp (gp x) = Some x) \<Longrightarrow>app_sync_cognito_identity_of_json fp (app_sync_cognito_identity_json gp x) = Some x"
  by (cases x) (simp add: app_sync_cognito_identity_of_json_def app_sync_cognito_identity_json_def app_sync_cognito_identity_good_def read_back)

lemma app_sync_cognito_identity_typed:
  assumes typed_p: "typed Pp fp" shows "typed (app_sync_cognito_identity_good Pp) (app_sync_cognito_identity_of_json fp)"
  unfolding typed_def app_sync_cognito_identity_of_json_def app_sync_cognito_identity_good_def
  by (auto simp: bind_eq_Some_conv dest!: typed_default [OF typed_nullish [OF typed_hash_map [OF typed_p] good_nil(1)] good_nil(1)])

record 'p app_sync_lambda_authorizer_request_context =
  aslarc_apiid :: "string option"
  aslarc_account_id :: "string option"
  aslarc_request_id :: "string option"
  aslarc_query_string :: "string option"
  aslarc_operation_name :: "string option"
  aslarc_variables :: "(string \<times> 'p) list"

definition app_sync_lambda_authorizer_request_context_json :: "('p \<Rightarrow> json) \<Rightarrow> 'p app_sync_lambda_authorizer_request_context \<Rightarrow> json" where
  "app_sync_lambda_authorizer_request_context_json gp x = JObj
     ([(''apiId'', json_of_option JStr (aslarc_apiid x)),
      (''accountId'', json_of_option JStr (aslarc_account_id x)),
      (''requestId'', json_of_option JStr (aslarc_request_id x)),
      (''queryString'', json_of_option JStr (aslarc_query_string x)),
      (''operationName'', json_of_option JStr (aslarc_operation_name x)),
      (''variables'', json_of_map gp (aslarc_variables x))])"

definition app_sync_lambda_authorizer_request_context_of_json :: "(json \<Rightarrow> 'p option) \<Rightarrow> json \<Rightarrow> 'p app_sync_lambda_authorizer_request_context option" where
  "app_sync_lambda_authorizer_request_context_of_json fp j = do {
     kvs \<leftarrow> de_fields 0
       [''apiId'', ''accountId'', ''requestId'', ''queryString'', ''operationName'', ''variables''] j;
     x_apiid \<leftarrow> de_opt_string ''apiId'' kvs;
     x_account_id \<leftarrow> de_opt_string ''accountId'' kvs;
     x_request_id \<leftarrow> de_opt_string ''requestId'' kvs;
     x_query_string \<leftarrow> de_opt_string ''queryString'' kvs;
     x_operation_name \<leftarrow> de_opt_string ''operationName'' kvs;
     x_variables \<leftarrow> de_default (de_nullish (de_hash_map fp) []) [] [''variables''] kvs;
     Some \<lparr>aslarc_apiid = x_apiid, aslarc_account_id = x_account_id,
       aslarc_request_id = x_request_id, aslarc_query_string = x_query_string,
       aslarc_operation_name = x_operation_name, aslarc_variables = x_variables\<rparr> }"

definition app_sync_lambda_authorizer_request_context_good :: "('p \<Rightarrow> bool) \<Rightarrow> 'p app_sync_lambda_authorizer_request_context \<Rightarrow> bool" where
  "app_sync_lambda_authorizer_request_context_good Pp x \<longleftrightarrow>
     good_map Pp (aslarc_variables x)"

lemma app_sync_lambda_authorizer_request_context_not_null [simp]: "app_sync_lambda_authorizer_request_context_json gp x \<noteq> JNull"
  by (simp add: app_sync_lambda_authorizer_request_context_json_def)

lemma app_sync_lambda_authorizer_request_context_read [read_back]: "app_sync_lambda_authorizer_request_context_good Pp x \<Longrightarrow> (\<And>x. Pp x \<Longrightarrow> fp (gp x) = Some x) \<Longrightarrow>app_sync_lambda_authorizer_request_context_of_json fp (app_sync_lambda_authorizer_request_context_json gp x) = Some x"
  by (cases x) (simp add: app_sync_lambda_authorizer_request_context_of_json_def app_sync_lambda_authorizer_request_context_json_def app_sync_lambda_authorizer_request_context_good_def read_back)

lemma app_sync_lambda_authorizer_request_context_typed:
  assumes typed_p: "typed Pp fp" shows "typed (app_sync_lambda_authorizer_request_context_good Pp) (app_sync_lambda_authorizer_request_context_of_json fp)"
  unfolding typed_def app_sync_lambda_authorizer_request_context_of_json_def app_sync_lambda_authorizer_request_context_good_def
  by (auto simp: bind_eq_Some_conv dest!: typed_default [OF typed_nullish [OF typed_hash_map [OF typed_p] good_nil(1)] good_nil(1)])

record 'p app_sync_lambda_authorizer_response =
  aslar_is_authorized :: bool
  aslar_resolver_context :: "(string \<times> 'p) list"
  aslar_denied_fields :: "(string list) option"
  aslar_ttl_override :: "int option"

definition app_sync_lambda_authorizer_response_json :: "('p \<Rightarrow> json) \<Rightarrow> 'p app_sync_lambda_authorizer_response \<Rightarrow> json" where
  "app_sync_lambda_authorizer_response_json gp x = JObj
     ([(''isAuthorized'', JBool (aslar_is_authorized x)),
      (''resolverContext'', json_of_map gp (aslar_resolver_context x)),
      (''deniedFields'', json_of_option (json_of_list JStr) (aslar_denied_fields x)),
      (''ttlOverride'', json_of_option JInt (aslar_ttl_override x))])"

definition app_sync_lambda_authorizer_response_of_json :: "(json \<Rightarrow> 'p option) \<Rightarrow> json \<Rightarrow> 'p app_sync_lambda_authorizer_response option" where
  "app_sync_lambda_authorizer_response_of_json fp j = do {
     kvs \<leftarrow> de_fields 4
       [''isAuthorized'', ''resolverContext'', ''deniedFields'', ''ttlOverride''] j;
     x_is_authorized \<leftarrow> de_required de_bool [''isAuthorized''] kvs;
     x_resolver_context \<leftarrow> de_default (de_nullish (de_hash_map fp) []) [] [''resolverContext''] kvs;
     x_denied_fields \<leftarrow> de_optional (de_list de_string) [''deniedFields''] kvs;
     x_ttl_override \<leftarrow> de_optional de_i64 [''ttlOverride''] kvs;
     Some \<lparr>aslar_is_authorized = x_is_authorized, aslar_resolver_context = x_resolver_context,
       aslar_denied_fields = x_denied_fields, aslar_ttl_override = x_ttl_override\<rparr> }"

definition app_sync_lambda_authorizer_response_good :: "('p \<Rightarrow> bool) \<Rightarrow> 'p app_sync_lambda_authorizer_response \<Rightarrow> bool" where
  "app_sync_lambda_authorizer_response_good Pp x \<longleftrightarrow>
     good_map Pp (aslar_resolver_context x) \<and>
     good_option good_i64 (aslar_ttl_override x)"

lemma app_sync_lambda_authorizer_response_not_null [simp]: "app_sync_lambda_authorizer_response_json gp x \<noteq> JNull"
  by (simp add: app_sync_lambda_authorizer_response_json_def)

lemma app_sync_lambda_authorizer_response_read [read_back]: "app_sync_lambda_authorizer_response_good Pp x \<Longrightarrow> (\<And>x. Pp x \<Longrightarrow> fp (gp x) = Some x) \<Longrightarrow>app_sync_lambda_authorizer_response_of_json fp (app_sync_lambda_authorizer_response_json gp x) = Some x"
  by (cases x) (clarsimp simp: app_sync_lambda_authorizer_response_of_json_def app_sync_lambda_authorizer_response_json_def app_sync_lambda_authorizer_response_good_def read_back)

lemma app_sync_lambda_authorizer_response_typed:
  assumes typed_p: "typed Pp fp" shows "typed (app_sync_lambda_authorizer_response_good Pp) (app_sync_lambda_authorizer_response_of_json fp)"
  unfolding typed_def app_sync_lambda_authorizer_response_of_json_def app_sync_lambda_authorizer_response_good_def
  by (auto simp: bind_eq_Some_conv dest!: typed_default [OF typed_nullish [OF typed_hash_map [OF typed_p] good_nil(1)] good_nil(1)]
      typed_optional [OF typed_i64])

record app_sync_request =
  asr_headers :: "(string \<times> (string option)) list"
  asr_domain_name :: "string option"

definition app_sync_request_json :: "app_sync_request \<Rightarrow> json" where
  "app_sync_request_json x = JObj
     ([(''headers'', json_of_map (json_of_option JStr) (asr_headers x)),
      (''domainName'', json_of_option JStr (asr_domain_name x))])"

definition app_sync_request_of_json :: "json \<Rightarrow> app_sync_request option" where
  "app_sync_request_of_json j = do {
     kvs \<leftarrow> de_fields 0
       [''headers'', ''domainName''] j;
     x_headers \<leftarrow> de_default (de_nullish (de_hash_map (de_option de_string)) []) [] [''headers''] kvs;
     x_domain_name \<leftarrow> de_opt_string ''domainName'' kvs;
     Some \<lparr>asr_headers = x_headers, asr_domain_name = x_domain_name\<rparr> }"

definition app_sync_request_good :: "app_sync_request \<Rightarrow> bool" where
  "app_sync_request_good x \<longleftrightarrow>
     good_map (\<lambda>_. True) (asr_headers x)"

lemma app_sync_request_not_null [simp]: "app_sync_request_json x \<noteq> JNull"
  by (simp add: app_sync_request_json_def)

lemma app_sync_request_read [read_back]: "app_sync_request_good x \<Longrightarrow>app_sync_request_of_json (app_sync_request_json x) = Some x"
  by (cases x) (simp add: app_sync_request_of_json_def app_sync_request_json_def app_sync_request_good_def read_back)

lemma app_sync_request_typed: "typed app_sync_request_good app_sync_request_of_json"
  unfolding typed_def app_sync_request_of_json_def app_sync_request_good_def
  by (auto simp: bind_eq_Some_conv dest!: typed_default [OF typed_nullish [OF typed_hash_map [OF typed_True [of "de_option de_string"]] good_nil(1)] good_nil(1)])

record 'p app_sync_info =
  asi_selection_set_list :: "string list"
  asi_selection_set_graphql :: string
  asi_parent_type_name :: string
  asi_field_name :: string
  asi_variables :: 'p

definition app_sync_info_json :: "('p \<Rightarrow> json) \<Rightarrow> 'p app_sync_info \<Rightarrow> json" where
  "app_sync_info_json gp x = JObj
     ([(''selectionSetList'', json_of_list JStr (asi_selection_set_list x)),
      (''selectionSetGraphQL'', JStr (asi_selection_set_graphql x)),
      (''parentTypeName'', JStr (asi_parent_type_name x)),
      (''fieldName'', JStr (asi_field_name x)),
      (''variables'', gp (asi_variables x))])"

definition app_sync_info_of_json :: "(json \<Rightarrow> 'p option) \<Rightarrow> json \<Rightarrow> 'p app_sync_info option" where
  "app_sync_info_of_json fp j = do {
     kvs \<leftarrow> de_fields 5
       [''selectionSetList'', ''selectionSetGraphQL'', ''parentTypeName'', ''fieldName'',
        ''variables''] j;
     x_selection_set_list \<leftarrow> de_default (de_list de_string) [] [''selectionSetList''] kvs;
     x_selection_set_graphql \<leftarrow> de_required de_string [''selectionSetGraphQL''] kvs;
     x_parent_type_name \<leftarrow> de_required de_string [''parentTypeName''] kvs;
     x_field_name \<leftarrow> de_required de_string [''fieldName''] kvs;
     x_variables \<leftarrow> de_required fp [''variables''] kvs;
     Some \<lparr>asi_selection_set_list = x_selection_set_list,
       asi_selection_set_graphql = x_selection_set_graphql,
       asi_parent_type_name = x_parent_type_name, asi_field_name = x_field_name,
       asi_variables = x_variables\<rparr> }"

definition app_sync_info_good :: "('p \<Rightarrow> bool) \<Rightarrow> 'p app_sync_info \<Rightarrow> bool" where
  "app_sync_info_good Pp x \<longleftrightarrow>
     Pp (asi_variables x)"

lemma app_sync_info_not_null [simp]: "app_sync_info_json gp x \<noteq> JNull"
  by (simp add: app_sync_info_json_def)

lemma app_sync_info_read [read_back]: "app_sync_info_good Pp x \<Longrightarrow> (\<And>x. Pp x \<Longrightarrow> fp (gp x) = Some x) \<Longrightarrow>app_sync_info_of_json fp (app_sync_info_json gp x) = Some x"
  by (cases x) (simp add: app_sync_info_of_json_def app_sync_info_json_def app_sync_info_good_def read_back)

lemma app_sync_info_typed:
  assumes typed_p: "typed Pp fp" shows "typed (app_sync_info_good Pp) (app_sync_info_of_json fp)"
  unfolding typed_def app_sync_info_of_json_def app_sync_info_good_def
  by (auto simp: bind_eq_Some_conv dest!: typed_required [OF typed_p])

record 'p app_sync_prev_result =
  aspr_result :: 'p

definition app_sync_prev_result_json :: "('p \<Rightarrow> json) \<Rightarrow> 'p app_sync_prev_result \<Rightarrow> json" where
  "app_sync_prev_result_json gp x = JObj
     ([(''result'', gp (aspr_result x))])"

definition app_sync_prev_result_of_json :: "(json \<Rightarrow> 'p option) \<Rightarrow> json \<Rightarrow> 'p app_sync_prev_result option" where
  "app_sync_prev_result_of_json fp j = do {
     kvs \<leftarrow> de_fields 1
       [''result''] j;
     x_result \<leftarrow> de_required fp [''result''] kvs;
     Some \<lparr>aspr_result = x_result\<rparr> }"

definition app_sync_prev_result_good :: "('p \<Rightarrow> bool) \<Rightarrow> 'p app_sync_prev_result \<Rightarrow> bool" where
  "app_sync_prev_result_good Pp x \<longleftrightarrow>
     Pp (aspr_result x)"

lemma app_sync_prev_result_not_null [simp]: "app_sync_prev_result_json gp x \<noteq> JNull"
  by (simp add: app_sync_prev_result_json_def)

lemma app_sync_prev_result_read [read_back]: "app_sync_prev_result_good Pp x \<Longrightarrow> (\<And>x. Pp x \<Longrightarrow> fp (gp x) = Some x) \<Longrightarrow>app_sync_prev_result_of_json fp (app_sync_prev_result_json gp x) = Some x"
  by (cases x) (simp add: app_sync_prev_result_of_json_def app_sync_prev_result_json_def app_sync_prev_result_good_def read_back)

lemma app_sync_prev_result_typed:
  assumes typed_p: "typed Pp fp" shows "typed (app_sync_prev_result_good Pp) (app_sync_prev_result_of_json fp)"
  unfolding typed_def app_sync_prev_result_of_json_def app_sync_prev_result_good_def
  by (auto simp: bind_eq_Some_conv dest!: typed_required [OF typed_p])

record 'p app_sync_identity_oidc =
  asio_claims :: 'p
  asio_issuer :: string
  asio_sub :: string

definition app_sync_identity_oidc_json :: "('p \<Rightarrow> json) \<Rightarrow> 'p app_sync_identity_oidc \<Rightarrow> json" where
  "app_sync_identity_oidc_json gp x = JObj
     ([(''claims'', gp (asio_claims x)),
      (''issuer'', JStr (asio_issuer x)),
      (''sub'', JStr (asio_sub x))])"

definition app_sync_identity_oidc_of_json :: "(json \<Rightarrow> 'p option) \<Rightarrow> json \<Rightarrow> 'p app_sync_identity_oidc option" where
  "app_sync_identity_oidc_of_json fp j = do {
     kvs \<leftarrow> de_fields 3
       [''claims'', ''issuer'', ''sub''] j;
     x_claims \<leftarrow> de_required fp [''claims''] kvs;
     x_issuer \<leftarrow> de_required de_string [''issuer''] kvs;
     x_sub \<leftarrow> de_required de_string [''sub''] kvs;
     Some \<lparr>asio_claims = x_claims, asio_issuer = x_issuer, asio_sub = x_sub\<rparr> }"

definition app_sync_identity_oidc_good :: "('p \<Rightarrow> bool) \<Rightarrow> 'p app_sync_identity_oidc \<Rightarrow> bool" where
  "app_sync_identity_oidc_good Pp x \<longleftrightarrow>
     Pp (asio_claims x)"

lemma app_sync_identity_oidc_not_null [simp]: "app_sync_identity_oidc_json gp x \<noteq> JNull"
  by (simp add: app_sync_identity_oidc_json_def)

lemma app_sync_identity_oidc_read [read_back]: "app_sync_identity_oidc_good Pp x \<Longrightarrow> (\<And>x. Pp x \<Longrightarrow> fp (gp x) = Some x) \<Longrightarrow>app_sync_identity_oidc_of_json fp (app_sync_identity_oidc_json gp x) = Some x"
  by (cases x) (simp add: app_sync_identity_oidc_of_json_def app_sync_identity_oidc_json_def app_sync_identity_oidc_good_def read_back)

lemma app_sync_identity_oidc_typed:
  assumes typed_p: "typed Pp fp" shows "typed (app_sync_identity_oidc_good Pp) (app_sync_identity_oidc_of_json fp)"
  unfolding typed_def app_sync_identity_oidc_of_json_def app_sync_identity_oidc_good_def
  by (auto simp: bind_eq_Some_conv dest!: typed_required [OF typed_p])

record 'p app_sync_identity_lambda =
  asil_resolver_context :: 'p

definition app_sync_identity_lambda_json :: "('p \<Rightarrow> json) \<Rightarrow> 'p app_sync_identity_lambda \<Rightarrow> json" where
  "app_sync_identity_lambda_json gp x = JObj
     ([(''resolverContext'', gp (asil_resolver_context x))])"

definition app_sync_identity_lambda_of_json :: "(json \<Rightarrow> 'p option) \<Rightarrow> json \<Rightarrow> 'p app_sync_identity_lambda option" where
  "app_sync_identity_lambda_of_json fp j = do {
     kvs \<leftarrow> de_fields 1
       [''resolverContext''] j;
     x_resolver_context \<leftarrow> de_required fp [''resolverContext''] kvs;
     Some \<lparr>asil_resolver_context = x_resolver_context\<rparr> }"

definition app_sync_identity_lambda_good :: "('p \<Rightarrow> bool) \<Rightarrow> 'p app_sync_identity_lambda \<Rightarrow> bool" where
  "app_sync_identity_lambda_good Pp x \<longleftrightarrow>
     Pp (asil_resolver_context x)"

lemma app_sync_identity_lambda_not_null [simp]: "app_sync_identity_lambda_json gp x \<noteq> JNull"
  by (simp add: app_sync_identity_lambda_json_def)

lemma app_sync_identity_lambda_read [read_back]: "app_sync_identity_lambda_good Pp x \<Longrightarrow> (\<And>x. Pp x \<Longrightarrow> fp (gp x) = Some x) \<Longrightarrow>app_sync_identity_lambda_of_json fp (app_sync_identity_lambda_json gp x) = Some x"
  by (cases x) (simp add: app_sync_identity_lambda_of_json_def app_sync_identity_lambda_json_def app_sync_identity_lambda_good_def read_back)

lemma app_sync_identity_lambda_typed:
  assumes typed_p: "typed Pp fp" shows "typed (app_sync_identity_lambda_good Pp) (app_sync_identity_lambda_of_json fp)"
  unfolding typed_def app_sync_identity_lambda_of_json_def app_sync_identity_lambda_good_def
  by (auto simp: bind_eq_Some_conv dest!: typed_required [OF typed_p])

record app_sync_lambda_authorizer_request =
  aslare_authorization_token :: "string option"
  aslare_request_context :: "json app_sync_lambda_authorizer_request_context"

definition app_sync_lambda_authorizer_request_json :: "app_sync_lambda_authorizer_request \<Rightarrow> json" where
  "app_sync_lambda_authorizer_request_json x = JObj
     ([(''authorizationToken'', json_of_option JStr (aslare_authorization_token x)),
      (''requestContext'', app_sync_lambda_authorizer_request_context_json (\<lambda>v. v) (aslare_request_context x))])"

definition app_sync_lambda_authorizer_request_of_json :: "json \<Rightarrow> app_sync_lambda_authorizer_request option" where
  "app_sync_lambda_authorizer_request_of_json j = do {
     kvs \<leftarrow> de_fields 2
       [''authorizationToken'', ''requestContext''] j;
     x_authorization_token \<leftarrow> de_opt_string ''authorizationToken'' kvs;
     x_request_context \<leftarrow> de_required (app_sync_lambda_authorizer_request_context_of_json Some) [''requestContext''] kvs;
     Some \<lparr>aslare_authorization_token = x_authorization_token,
       aslare_request_context = x_request_context\<rparr> }"

definition app_sync_lambda_authorizer_request_good :: "app_sync_lambda_authorizer_request \<Rightarrow> bool" where
  "app_sync_lambda_authorizer_request_good x \<longleftrightarrow>
     app_sync_lambda_authorizer_request_context_good (\<lambda>_. True) (aslare_request_context x)"

lemma app_sync_lambda_authorizer_request_not_null [simp]: "app_sync_lambda_authorizer_request_json x \<noteq> JNull"
  by (simp add: app_sync_lambda_authorizer_request_json_def)

lemma app_sync_lambda_authorizer_request_read [read_back]: "app_sync_lambda_authorizer_request_good x \<Longrightarrow>app_sync_lambda_authorizer_request_of_json (app_sync_lambda_authorizer_request_json x) = Some x"
  by (cases x) (simp add: app_sync_lambda_authorizer_request_of_json_def app_sync_lambda_authorizer_request_json_def app_sync_lambda_authorizer_request_good_def read_back)

lemma app_sync_lambda_authorizer_request_typed: "typed app_sync_lambda_authorizer_request_good app_sync_lambda_authorizer_request_of_json"
  unfolding typed_def app_sync_lambda_authorizer_request_of_json_def app_sync_lambda_authorizer_request_good_def
  by (auto simp: bind_eq_Some_conv dest!: typed_required [OF app_sync_lambda_authorizer_request_context_typed [OF typed_True]])

datatype app_sync_identity =
    AppSyncIdentity_IAM app_sync_iam_identity
  | AppSyncIdentity_Cognito "json app_sync_cognito_identity"
  | AppSyncIdentity_OIDC "json app_sync_identity_oidc"
  | AppSyncIdentity_Lambda "json app_sync_identity_lambda"

fun app_sync_identity_json :: "app_sync_identity \<Rightarrow> json" where
  "app_sync_identity_json (AppSyncIdentity_IAM x) = app_sync_iam_identity_json x"
| "app_sync_identity_json (AppSyncIdentity_Cognito x) = app_sync_cognito_identity_json (\<lambda>v. v) x"
| "app_sync_identity_json (AppSyncIdentity_OIDC x) = app_sync_identity_oidc_json (\<lambda>v. v) x"
| "app_sync_identity_json (AppSyncIdentity_Lambda x) = app_sync_identity_lambda_json (\<lambda>v. v) x"

definition app_sync_identity_of_json :: "json \<Rightarrow> app_sync_identity option" where
  "app_sync_identity_of_json = de_untagged
     [\<lambda>j. map_option AppSyncIdentity_IAM (app_sync_iam_identity_of_json j),
      \<lambda>j. map_option AppSyncIdentity_Cognito (app_sync_cognito_identity_of_json Some j),
      \<lambda>j. map_option AppSyncIdentity_OIDC (app_sync_identity_oidc_of_json Some j),
      \<lambda>j. map_option AppSyncIdentity_Lambda (app_sync_identity_lambda_of_json Some j)]"

fun app_sync_identity_good :: "app_sync_identity \<Rightarrow> bool" where
  "app_sync_identity_good (AppSyncIdentity_IAM x) = True"
| "app_sync_identity_good (AppSyncIdentity_Cognito x) = app_sync_cognito_identity_good (\<lambda>_. True) x"
| "app_sync_identity_good (AppSyncIdentity_OIDC x) = app_sync_identity_oidc_good (\<lambda>_. True) x"
| "app_sync_identity_good (AppSyncIdentity_Lambda x) = app_sync_identity_lambda_good (\<lambda>_. True) x"

lemma app_sync_identity_not_null [simp]: "app_sync_identity_json x \<noteq> JNull"
  by (cases x) simp_all

lemma app_sync_identity_typed: "typed app_sync_identity_good app_sync_identity_of_json"
  unfolding app_sync_identity_of_json_def
  by (rule typed_untagged) (auto simp: typed_def dest: typedD [OF app_sync_cognito_identity_typed [OF typed_True]]
      typedD [OF app_sync_identity_oidc_typed [OF typed_True]]
      typedD [OF app_sync_identity_lambda_typed [OF typed_True]])

record ('p, 'q, 'r) app_sync_direct_resolver_event =
  asdre_arguments :: "'p option"
  asdre_identity :: "app_sync_identity option"
  asdre_source :: "'q option"
  asdre_request :: app_sync_request
  asdre_info :: "json app_sync_info"
  asdre_prev :: "(json app_sync_prev_result) option"
  asdre_stash :: 'r

definition app_sync_direct_resolver_event_json :: "('p \<Rightarrow> json) \<Rightarrow> ('q \<Rightarrow> json) \<Rightarrow> ('r \<Rightarrow> json) \<Rightarrow> ('p, 'q, 'r) app_sync_direct_resolver_event \<Rightarrow> json" where
  "app_sync_direct_resolver_event_json gp gq gr x = JObj
     ([(''arguments'', json_of_option gp (asdre_arguments x)),
      (''identity'', json_of_option app_sync_identity_json (asdre_identity x)),
      (''source'', json_of_option gq (asdre_source x)),
      (''request'', app_sync_request_json (asdre_request x)),
      (''info'', app_sync_info_json (\<lambda>v. v) (asdre_info x)),
      (''prev'', json_of_option (app_sync_prev_result_json (\<lambda>v. v)) (asdre_prev x)),
      (''stash'', gr (asdre_stash x))])"

definition app_sync_direct_resolver_event_of_json :: "(json \<Rightarrow> 'p option) \<Rightarrow> (json \<Rightarrow> 'q option) \<Rightarrow> (json \<Rightarrow> 'r option) \<Rightarrow> json \<Rightarrow> ('p, 'q, 'r) app_sync_direct_resolver_event option" where
  "app_sync_direct_resolver_event_of_json fp fq fr j = do {
     kvs \<leftarrow> de_fields 7
       [''arguments'', ''identity'', ''source'', ''request'', ''info'', ''prev'', ''stash''] j;
     x_arguments \<leftarrow> de_optional fp [''arguments''] kvs;
     x_identity \<leftarrow> de_optional app_sync_identity_of_json [''identity''] kvs;
     x_source \<leftarrow> de_optional fq [''source''] kvs;
     x_request \<leftarrow> de_required app_sync_request_of_json [''request''] kvs;
     x_info \<leftarrow> de_required (app_sync_info_of_json Some) [''info''] kvs;
     x_prev \<leftarrow> de_optional (app_sync_prev_result_of_json Some) [''prev''] kvs;
     x_stash \<leftarrow> de_required fr [''stash''] kvs;
     Some \<lparr>asdre_arguments = x_arguments, asdre_identity = x_identity, asdre_source = x_source,
       asdre_request = x_request, asdre_info = x_info, asdre_prev = x_prev, asdre_stash = x_stash\<rparr> }"

definition app_sync_direct_resolver_event_good :: "('p \<Rightarrow> bool) \<Rightarrow> ('q \<Rightarrow> bool) \<Rightarrow> ('r \<Rightarrow> bool) \<Rightarrow> ('p, 'q, 'r) app_sync_direct_resolver_event \<Rightarrow> bool" where
  "app_sync_direct_resolver_event_good Pp Pq Pr x \<longleftrightarrow>
     good_option Pp (asdre_arguments x) \<and>
     good_option app_sync_identity_good (asdre_identity x) \<and>
     good_option Pq (asdre_source x) \<and>
     app_sync_request_good (asdre_request x) \<and>
     app_sync_info_good (\<lambda>_. True) (asdre_info x) \<and>
     good_option (app_sync_prev_result_good (\<lambda>_. True)) (asdre_prev x) \<and>
     Pr (asdre_stash x)"

lemma app_sync_direct_resolver_event_not_null [simp]: "app_sync_direct_resolver_event_json gp gq gr x \<noteq> JNull"
  by (simp add: app_sync_direct_resolver_event_json_def)

lemma app_sync_direct_resolver_event_typed:
  assumes typed_p: "typed_nn Pp fp" and typed_q: "typed_nn Pq fq" and typed_r: "typed Pr fr" shows "typed (app_sync_direct_resolver_event_good Pp Pq Pr) (app_sync_direct_resolver_event_of_json fp fq fr)"
  unfolding typed_def app_sync_direct_resolver_event_of_json_def app_sync_direct_resolver_event_good_def
  by (auto simp: bind_eq_Some_conv dest!: typed_nn_optional [OF typed_p]
      typed_optional [OF app_sync_identity_typed]
      typed_nn_optional [OF typed_q]
      typed_required [OF app_sync_request_typed]
      typed_required [OF app_sync_info_typed [OF typed_True]]
      typed_optional [OF app_sync_prev_result_typed [OF typed_True]]
      typed_required [OF typed_r])

subsection \<open>\<^verbatim>\<open>chime_bot\<close>\<close>

record chime_bot_event_sender =
  cbes_sender_id :: "string option"
  cbes_sender_id_type :: "string option"

definition chime_bot_event_sender_json :: "chime_bot_event_sender \<Rightarrow> json" where
  "chime_bot_event_sender_json x = JObj
     ([(''SenderId'', json_of_option JStr (cbes_sender_id x)),
      (''SenderIdType'', json_of_option JStr (cbes_sender_id_type x))])"

definition chime_bot_event_sender_of_json :: "json \<Rightarrow> chime_bot_event_sender option" where
  "chime_bot_event_sender_of_json j = do {
     kvs \<leftarrow> de_fields 0
       [''SenderId'', ''SenderIdType''] j;
     x_sender_id \<leftarrow> de_opt_string ''SenderId'' kvs;
     x_sender_id_type \<leftarrow> de_opt_string ''SenderIdType'' kvs;
     Some \<lparr>cbes_sender_id = x_sender_id, cbes_sender_id_type = x_sender_id_type\<rparr> }"

lemma chime_bot_event_sender_not_null [simp]: "chime_bot_event_sender_json x \<noteq> JNull"
  by (simp add: chime_bot_event_sender_json_def)

lemma chime_bot_event_sender_read [read_back]: "chime_bot_event_sender_of_json (chime_bot_event_sender_json x) = Some x"
  by (cases x) (simp add: chime_bot_event_sender_of_json_def chime_bot_event_sender_json_def read_back)

record chime_bot_event_discussion =
  cbed_discussion_id :: "string option"
  cbed_discussion_type :: "string option"

definition chime_bot_event_discussion_json :: "chime_bot_event_discussion \<Rightarrow> json" where
  "chime_bot_event_discussion_json x = JObj
     ([(''DiscussionId'', json_of_option JStr (cbed_discussion_id x)),
      (''DiscussionType'', json_of_option JStr (cbed_discussion_type x))])"

definition chime_bot_event_discussion_of_json :: "json \<Rightarrow> chime_bot_event_discussion option" where
  "chime_bot_event_discussion_of_json j = do {
     kvs \<leftarrow> de_fields 0
       [''DiscussionId'', ''DiscussionType''] j;
     x_discussion_id \<leftarrow> de_opt_string ''DiscussionId'' kvs;
     x_discussion_type \<leftarrow> de_opt_string ''DiscussionType'' kvs;
     Some \<lparr>cbed_discussion_id = x_discussion_id, cbed_discussion_type = x_discussion_type\<rparr> }"

lemma chime_bot_event_discussion_not_null [simp]: "chime_bot_event_discussion_json x \<noteq> JNull"
  by (simp add: chime_bot_event_discussion_json_def)

lemma chime_bot_event_discussion_read [read_back]: "chime_bot_event_discussion_of_json (chime_bot_event_discussion_json x) = Some x"
  by (cases x) (simp add: chime_bot_event_discussion_of_json_def chime_bot_event_discussion_json_def read_back)

record chime_bot_event_inbound_https_endpoint =
  cbeihe_endpoint_type :: "string option"
  cbeihe_url :: "string option"

definition chime_bot_event_inbound_https_endpoint_json :: "chime_bot_event_inbound_https_endpoint \<Rightarrow> json" where
  "chime_bot_event_inbound_https_endpoint_json x = JObj
     ([(''EndpointType'', json_of_option JStr (cbeihe_endpoint_type x)),
      (''Url'', json_of_option JStr (cbeihe_url x))])"

definition chime_bot_event_inbound_https_endpoint_of_json :: "json \<Rightarrow> chime_bot_event_inbound_https_endpoint option" where
  "chime_bot_event_inbound_https_endpoint_of_json j = do {
     kvs \<leftarrow> de_fields 0
       [''EndpointType'', ''Url''] j;
     x_endpoint_type \<leftarrow> de_opt_string ''EndpointType'' kvs;
     x_url \<leftarrow> de_opt_string ''Url'' kvs;
     Some \<lparr>cbeihe_endpoint_type = x_endpoint_type, cbeihe_url = x_url\<rparr> }"

lemma chime_bot_event_inbound_https_endpoint_not_null [simp]: "chime_bot_event_inbound_https_endpoint_json x \<noteq> JNull"
  by (simp add: chime_bot_event_inbound_https_endpoint_json_def)

lemma chime_bot_event_inbound_https_endpoint_read [read_back]: "chime_bot_event_inbound_https_endpoint_of_json (chime_bot_event_inbound_https_endpoint_json x) = Some x"
  by (cases x) (simp add: chime_bot_event_inbound_https_endpoint_of_json_def chime_bot_event_inbound_https_endpoint_json_def read_back)

record 't chime_bot_event =
  cbe_sender :: chime_bot_event_sender
  cbe_discussion :: chime_bot_event_discussion
  cbe_event_type :: "string option"
  cbe_inbound_https_endpoint :: "chime_bot_event_inbound_https_endpoint option"
  cbe_event_timestamp :: 't
  cbe_message :: "string option"

definition chime_bot_event_json :: "'t event_env \<Rightarrow> 't chime_bot_event \<Rightarrow> json" where
  "chime_bot_event_json E x = JObj
     ([(''Sender'', chime_bot_event_sender_json (cbe_sender x)),
      (''Discussion'', chime_bot_event_discussion_json (cbe_discussion x)),
      (''EventType'', json_of_option JStr (cbe_event_type x)),
      (''InboundHttpsEndpoint'', json_of_option chime_bot_event_inbound_https_endpoint_json (cbe_inbound_https_endpoint x)),
      (''EventTimestamp'', json_of_time E (cbe_event_timestamp x)),
      (''Message'', json_of_option JStr (cbe_message x))])"

definition chime_bot_event_of_json :: "'t event_env \<Rightarrow> json \<Rightarrow> 't chime_bot_event option" where
  "chime_bot_event_of_json E j = do {
     kvs \<leftarrow> de_fields 6
       [''Sender'', ''Discussion'', ''EventType'', ''InboundHttpsEndpoint'', ''EventTimestamp'',
        ''Message''] j;
     x_sender \<leftarrow> de_required chime_bot_event_sender_of_json [''Sender''] kvs;
     x_discussion \<leftarrow> de_required chime_bot_event_discussion_of_json [''Discussion''] kvs;
     x_event_type \<leftarrow> de_opt_string ''EventType'' kvs;
     x_inbound_https_endpoint \<leftarrow> de_optional chime_bot_event_inbound_https_endpoint_of_json [''InboundHttpsEndpoint''] kvs;
     x_event_timestamp \<leftarrow> de_required (time_of_json E) [''EventTimestamp''] kvs;
     x_message \<leftarrow> de_opt_string ''Message'' kvs;
     Some \<lparr>cbe_sender = x_sender, cbe_discussion = x_discussion, cbe_event_type = x_event_type,
       cbe_inbound_https_endpoint = x_inbound_https_endpoint,
       cbe_event_timestamp = x_event_timestamp, cbe_message = x_message\<rparr> }"

lemma chime_bot_event_not_null [simp]: "chime_bot_event_json E x \<noteq> JNull"
  by (simp add: chime_bot_event_json_def)

lemma chime_bot_event_read [read_back]: "event_crates E \<Longrightarrow>chime_bot_event_of_json E (chime_bot_event_json E x) = Some x"
  by (cases x) (simp add: chime_bot_event_of_json_def chime_bot_event_json_def read_back)

subsection \<open>\<^verbatim>\<open>lex\<close>\<close>

record lex_bot =
  lbo_name :: "string option"
  lbo_alias :: "string option"
  lbo_version :: "string option"

definition lex_bot_json :: "lex_bot \<Rightarrow> json" where
  "lex_bot_json x = JObj
     ([(''name'', json_of_option JStr (lbo_name x)),
      (''alias'', json_of_option JStr (lbo_alias x)),
      (''version'', json_of_option JStr (lbo_version x))])"

definition lex_bot_of_json :: "json \<Rightarrow> lex_bot option" where
  "lex_bot_of_json j = do {
     kvs \<leftarrow> de_fields 3
       [''name'', ''alias'', ''version''] j;
     x_name \<leftarrow> de_opt_string ''name'' kvs;
     x_alias \<leftarrow> de_opt_string ''alias'' kvs;
     x_version \<leftarrow> de_opt_string ''version'' kvs;
     Some \<lparr>lbo_name = x_name, lbo_alias = x_alias, lbo_version = x_version\<rparr> }"

lemma lex_bot_not_null [simp]: "lex_bot_json x \<noteq> JNull"
  by (simp add: lex_bot_json_def)

lemma lex_bot_read [read_back]: "lex_bot_of_json (lex_bot_json x) = Some x"
  by (cases x) (simp add: lex_bot_of_json_def lex_bot_json_def read_back)

record slot_detail =
  sd_resolutions :: "(((string \<times> string) list) list) option"
  sd_original_value :: "string option"

definition slot_detail_json :: "slot_detail \<Rightarrow> json" where
  "slot_detail_json x = JObj
     ([(''resolutions'', json_of_option (json_of_list (json_of_map JStr)) (sd_resolutions x)),
      (''originalValue'', json_of_option JStr (sd_original_value x))])"

definition slot_detail_of_json :: "json \<Rightarrow> slot_detail option" where
  "slot_detail_of_json j = do {
     kvs \<leftarrow> de_fields 2
       [''resolutions'', ''originalValue''] j;
     x_resolutions \<leftarrow> de_optional (de_list (de_hash_map de_string)) [''resolutions''] kvs;
     x_original_value \<leftarrow> de_opt_string ''originalValue'' kvs;
     Some \<lparr>sd_resolutions = x_resolutions, sd_original_value = x_original_value\<rparr> }"

definition slot_detail_good :: "slot_detail \<Rightarrow> bool" where
  "slot_detail_good x \<longleftrightarrow>
     good_option (list_all (good_map (\<lambda>_. True))) (sd_resolutions x)"

lemma slot_detail_not_null [simp]: "slot_detail_json x \<noteq> JNull"
  by (simp add: slot_detail_json_def)

lemma slot_detail_read [read_back]: "slot_detail_good x \<Longrightarrow>slot_detail_of_json (slot_detail_json x) = Some x"
  by (cases x) (simp add: slot_detail_of_json_def slot_detail_json_def slot_detail_good_def read_back)

lemma slot_detail_typed: "typed slot_detail_good slot_detail_of_json"
  unfolding typed_def slot_detail_of_json_def slot_detail_good_def
  by (auto simp: bind_eq_Some_conv dest!: typed_optional [OF typed_list [OF typed_hash_map [OF typed_True [of "de_string"]]]])

record attachment =
  att_title :: "string option"
  att_sub_title :: "string option"
  att_image_url :: "string option"
  att_attachment_link_url :: "string option"
  att_buttons :: "(((string \<times> string) list) list) option"

definition attachment_json :: "attachment \<Rightarrow> json" where
  "attachment_json x = JObj
     ([(''title'', json_of_option JStr (att_title x)),
      (''subTitle'', json_of_option JStr (att_sub_title x)),
      (''imageUrl'', json_of_option JStr (att_image_url x)),
      (''attachmentLinkUrl'', json_of_option JStr (att_attachment_link_url x)),
      (''buttons'', json_of_option (json_of_list (json_of_map JStr)) (att_buttons x))])"

definition attachment_of_json :: "json \<Rightarrow> attachment option" where
  "attachment_of_json j = do {
     kvs \<leftarrow> de_fields 5
       [''title'', ''subTitle'', ''imageUrl'', ''attachmentLinkUrl'', ''buttons''] j;
     x_title \<leftarrow> de_opt_string ''title'' kvs;
     x_sub_title \<leftarrow> de_opt_string ''subTitle'' kvs;
     x_image_url \<leftarrow> de_opt_string ''imageUrl'' kvs;
     x_attachment_link_url \<leftarrow> de_opt_string ''attachmentLinkUrl'' kvs;
     x_buttons \<leftarrow> de_optional (de_list (de_hash_map de_string)) [''buttons''] kvs;
     Some \<lparr>att_title = x_title, att_sub_title = x_sub_title, att_image_url = x_image_url,
       att_attachment_link_url = x_attachment_link_url, att_buttons = x_buttons\<rparr> }"

definition attachment_good :: "attachment \<Rightarrow> bool" where
  "attachment_good x \<longleftrightarrow>
     good_option (list_all (good_map (\<lambda>_. True))) (att_buttons x)"

lemma attachment_not_null [simp]: "attachment_json x \<noteq> JNull"
  by (simp add: attachment_json_def)

lemma attachment_read [read_back]: "attachment_good x \<Longrightarrow>attachment_of_json (attachment_json x) = Some x"
  by (cases x) (simp add: attachment_of_json_def attachment_json_def attachment_good_def read_back)

lemma attachment_typed: "typed attachment_good attachment_of_json"
  unfolding typed_def attachment_of_json_def attachment_good_def
  by (auto simp: bind_eq_Some_conv dest!: typed_optional [OF typed_list [OF typed_hash_map [OF typed_True [of "de_string"]]]])

record lex_current_intent =
  lci_name :: "string option"
  lci_nlu_intent_confidence_score :: "f64 option"
  lci_slots :: "((string \<times> (string option)) list) option"
  lci_slot_details :: "(string \<times> slot_detail) list"
  lci_confirmation_status :: "string option"

definition lex_current_intent_json :: "lex_current_intent \<Rightarrow> json" where
  "lex_current_intent_json x = JObj
     ([(''name'', json_of_option JStr (lci_name x)),
      (''nluIntentConfidenceScore'', json_of_option json_of_f64 (lci_nlu_intent_confidence_score x)),
      (''slots'', json_of_option (json_of_map (json_of_option JStr)) (lci_slots x)),
      (''slotDetails'', json_of_map slot_detail_json (lci_slot_details x)),
      (''confirmationStatus'', json_of_option JStr (lci_confirmation_status x))])"

definition lex_current_intent_of_json :: "json \<Rightarrow> lex_current_intent option" where
  "lex_current_intent_of_json j = do {
     kvs \<leftarrow> de_fields 5
       [''name'', ''nluIntentConfidenceScore'', ''slots'', ''slotDetails'', ''confirmationStatus''] j;
     x_name \<leftarrow> de_opt_string ''name'' kvs;
     x_nlu_intent_confidence_score \<leftarrow> de_optional de_f64 [''nluIntentConfidenceScore''] kvs;
     x_slots \<leftarrow> de_optional (de_hash_map (de_option de_string)) [''slots''] kvs;
     x_slot_details \<leftarrow> de_default (de_nullish (de_hash_map slot_detail_of_json) []) [] [''slotDetails''] kvs;
     x_confirmation_status \<leftarrow> de_opt_string ''confirmationStatus'' kvs;
     Some \<lparr>lci_name = x_name, lci_nlu_intent_confidence_score = x_nlu_intent_confidence_score,
       lci_slots = x_slots, lci_slot_details = x_slot_details,
       lci_confirmation_status = x_confirmation_status\<rparr> }"

definition lex_current_intent_good :: "lex_current_intent \<Rightarrow> bool" where
  "lex_current_intent_good x \<longleftrightarrow>
     good_option f64_finite (lci_nlu_intent_confidence_score x) \<and>
     good_option (good_map (\<lambda>_. True)) (lci_slots x) \<and>
     good_map slot_detail_good (lci_slot_details x)"

lemma lex_current_intent_not_null [simp]: "lex_current_intent_json x \<noteq> JNull"
  by (simp add: lex_current_intent_json_def)

lemma lex_current_intent_read [read_back]: "lex_current_intent_good x \<Longrightarrow>lex_current_intent_of_json (lex_current_intent_json x) = Some x"
  by (cases x) (clarsimp simp: lex_current_intent_of_json_def lex_current_intent_json_def lex_current_intent_good_def read_back)

lemma lex_current_intent_typed: "typed lex_current_intent_good lex_current_intent_of_json"
  unfolding typed_def lex_current_intent_of_json_def lex_current_intent_good_def
  by (auto simp: bind_eq_Some_conv dest!: typed_optional [OF typed_f64]
      typed_optional [OF typed_hash_map [OF typed_True [of "de_option de_string"]]]
      typed_default [OF typed_nullish [OF typed_hash_map [OF slot_detail_typed] good_nil(1)] good_nil(1)])

record lex_alternative_intents =
  lai_name :: "string option"
  lai_nlu_intent_confidence_score :: "f64 option"
  lai_slots :: "((string \<times> (string option)) list) option"
  lai_slot_details :: "(string \<times> slot_detail) list"
  lai_confirmation_status :: "string option"

definition lex_alternative_intents_json :: "lex_alternative_intents \<Rightarrow> json" where
  "lex_alternative_intents_json x = JObj
     ([(''name'', json_of_option JStr (lai_name x)),
      (''nluIntentConfidenceScore'', json_of_option json_of_f64 (lai_nlu_intent_confidence_score x)),
      (''slots'', json_of_option (json_of_map (json_of_option JStr)) (lai_slots x)),
      (''slotDetails'', json_of_map slot_detail_json (lai_slot_details x)),
      (''confirmationStatus'', json_of_option JStr (lai_confirmation_status x))])"

definition lex_alternative_intents_of_json :: "json \<Rightarrow> lex_alternative_intents option" where
  "lex_alternative_intents_of_json j = do {
     kvs \<leftarrow> de_fields 5
       [''name'', ''nluIntentConfidenceScore'', ''slots'', ''slotDetails'', ''confirmationStatus''] j;
     x_name \<leftarrow> de_opt_string ''name'' kvs;
     x_nlu_intent_confidence_score \<leftarrow> de_optional de_f64 [''nluIntentConfidenceScore''] kvs;
     x_slots \<leftarrow> de_optional (de_hash_map (de_option de_string)) [''slots''] kvs;
     x_slot_details \<leftarrow> de_default (de_nullish (de_hash_map slot_detail_of_json) []) [] [''slotDetails''] kvs;
     x_confirmation_status \<leftarrow> de_opt_string ''confirmationStatus'' kvs;
     Some \<lparr>lai_name = x_name, lai_nlu_intent_confidence_score = x_nlu_intent_confidence_score,
       lai_slots = x_slots, lai_slot_details = x_slot_details,
       lai_confirmation_status = x_confirmation_status\<rparr> }"

definition lex_alternative_intents_good :: "lex_alternative_intents \<Rightarrow> bool" where
  "lex_alternative_intents_good x \<longleftrightarrow>
     good_option f64_finite (lai_nlu_intent_confidence_score x) \<and>
     good_option (good_map (\<lambda>_. True)) (lai_slots x) \<and>
     good_map slot_detail_good (lai_slot_details x)"

lemma lex_alternative_intents_not_null [simp]: "lex_alternative_intents_json x \<noteq> JNull"
  by (simp add: lex_alternative_intents_json_def)

lemma lex_alternative_intents_read [read_back]: "lex_alternative_intents_good x \<Longrightarrow>lex_alternative_intents_of_json (lex_alternative_intents_json x) = Some x"
  by (cases x) (clarsimp simp: lex_alternative_intents_of_json_def lex_alternative_intents_json_def lex_alternative_intents_good_def read_back)

lemma lex_alternative_intents_typed: "typed lex_alternative_intents_good lex_alternative_intents_of_json"
  unfolding typed_def lex_alternative_intents_of_json_def lex_alternative_intents_good_def
  by (auto simp: bind_eq_Some_conv dest!: typed_optional [OF typed_f64]
      typed_optional [OF typed_hash_map [OF typed_True [of "de_option de_string"]]]
      typed_default [OF typed_nullish [OF typed_hash_map [OF slot_detail_typed] good_nil(1)] good_nil(1)])

record lex_response_card =
  lrc_version :: "int option"
  lrc_content_type :: "string option"
  lrc_generic_attachments :: "(attachment list) option"

definition lex_response_card_json :: "lex_response_card \<Rightarrow> json" where
  "lex_response_card_json x = JObj
     ([(''version'', json_of_option JInt (lrc_version x)),
      (''contentType'', json_of_option JStr (lrc_content_type x)),
      (''genericAttachments'', json_of_option (json_of_list attachment_json) (lrc_generic_attachments x))])"

definition lex_response_card_of_json :: "json \<Rightarrow> lex_response_card option" where
  "lex_response_card_of_json j = do {
     kvs \<leftarrow> de_fields 3
       [''version'', ''contentType'', ''genericAttachments''] j;
     x_version \<leftarrow> de_optional de_i64 [''version''] kvs;
     x_content_type \<leftarrow> de_opt_string ''contentType'' kvs;
     x_generic_attachments \<leftarrow> de_optional (de_list attachment_of_json) [''genericAttachments''] kvs;
     Some \<lparr>lrc_version = x_version, lrc_content_type = x_content_type,
       lrc_generic_attachments = x_generic_attachments\<rparr> }"

definition lex_response_card_good :: "lex_response_card \<Rightarrow> bool" where
  "lex_response_card_good x \<longleftrightarrow>
     good_option good_i64 (lrc_version x) \<and>
     good_option (list_all attachment_good) (lrc_generic_attachments x)"

lemma lex_response_card_not_null [simp]: "lex_response_card_json x \<noteq> JNull"
  by (simp add: lex_response_card_json_def)

lemma lex_response_card_read [read_back]: "lex_response_card_good x \<Longrightarrow>lex_response_card_of_json (lex_response_card_json x) = Some x"
  by (cases x) (clarsimp simp: lex_response_card_of_json_def lex_response_card_json_def lex_response_card_good_def read_back)

lemma lex_response_card_typed: "typed lex_response_card_good lex_response_card_of_json"
  unfolding typed_def lex_response_card_of_json_def lex_response_card_good_def
  by (auto simp: bind_eq_Some_conv dest!: typed_optional [OF typed_i64]
      typed_optional [OF typed_list [OF attachment_typed]])

record lex_dialog_action =
  lda_type :: "string option"
  lda_fulfillment_state :: "string option"
  lda_message :: "(string \<times> string) list"
  lda_intent_name :: "string option"
  lda_slots :: "((string \<times> (string option)) list) option"
  lda_slot_to_elicit :: "string option"
  lda_response_card :: "lex_response_card option"

definition lex_dialog_action_json :: "lex_dialog_action \<Rightarrow> json" where
  "lex_dialog_action_json x = JObj
     ([(''type'', json_of_option JStr (lda_type x)),
      (''fulfillmentState'', json_of_option JStr (lda_fulfillment_state x)),
      (''message'', json_of_map JStr (lda_message x)),
      (''intentName'', json_of_option JStr (lda_intent_name x)),
      (''slots'', json_of_option (json_of_map (json_of_option JStr)) (lda_slots x)),
      (''slotToElicit'', json_of_option JStr (lda_slot_to_elicit x)),
      (''responseCard'', json_of_option lex_response_card_json (lda_response_card x))])"

definition lex_dialog_action_of_json :: "json \<Rightarrow> lex_dialog_action option" where
  "lex_dialog_action_of_json j = do {
     kvs \<leftarrow> de_fields 7
       [''type'', ''fulfillmentState'', ''message'', ''intentName'', ''slots'', ''slotToElicit'',
        ''responseCard''] j;
     x_type \<leftarrow> de_opt_string ''type'' kvs;
     x_fulfillment_state \<leftarrow> de_opt_string ''fulfillmentState'' kvs;
     x_message \<leftarrow> de_default (de_nullish (de_hash_map de_string) []) [] [''message''] kvs;
     x_intent_name \<leftarrow> de_opt_string ''intentName'' kvs;
     x_slots \<leftarrow> de_optional (de_hash_map (de_option de_string)) [''slots''] kvs;
     x_slot_to_elicit \<leftarrow> de_opt_string ''slotToElicit'' kvs;
     x_response_card \<leftarrow> de_optional lex_response_card_of_json [''responseCard''] kvs;
     Some \<lparr>lda_type = x_type, lda_fulfillment_state = x_fulfillment_state, lda_message = x_message,
       lda_intent_name = x_intent_name, lda_slots = x_slots,
       lda_slot_to_elicit = x_slot_to_elicit, lda_response_card = x_response_card\<rparr> }"

definition lex_dialog_action_good :: "lex_dialog_action \<Rightarrow> bool" where
  "lex_dialog_action_good x \<longleftrightarrow>
     good_map (\<lambda>_. True) (lda_message x) \<and>
     good_option (good_map (\<lambda>_. True)) (lda_slots x) \<and>
     good_option lex_response_card_good (lda_response_card x)"

lemma lex_dialog_action_not_null [simp]: "lex_dialog_action_json x \<noteq> JNull"
  by (simp add: lex_dialog_action_json_def)

lemma lex_dialog_action_read [read_back]: "lex_dialog_action_good x \<Longrightarrow>lex_dialog_action_of_json (lex_dialog_action_json x) = Some x"
  by (cases x) (clarsimp simp: lex_dialog_action_of_json_def lex_dialog_action_json_def lex_dialog_action_good_def read_back)

lemma lex_dialog_action_typed: "typed lex_dialog_action_good lex_dialog_action_of_json"
  unfolding typed_def lex_dialog_action_of_json_def lex_dialog_action_good_def
  by (auto simp: bind_eq_Some_conv dest!: typed_default [OF typed_nullish [OF typed_hash_map [OF typed_True [of "de_string"]] good_nil(1)] good_nil(1)]
      typed_optional [OF typed_hash_map [OF typed_True [of "de_option de_string"]]]
      typed_optional [OF lex_response_card_typed])

record lex_response =
  lre_session_attributes :: "(string \<times> string) list"
  lre_dialog_action :: "lex_dialog_action option"

definition lex_response_json :: "lex_response \<Rightarrow> json" where
  "lex_response_json x = JObj
     ([(''sessionAttributes'', json_of_map JStr (lre_session_attributes x)),
      (''dialogAction'', json_of_option lex_dialog_action_json (lre_dialog_action x))])"

definition lex_response_of_json :: "json \<Rightarrow> lex_response option" where
  "lex_response_of_json j = do {
     kvs \<leftarrow> de_fields 2
       [''sessionAttributes'', ''dialogAction''] j;
     x_session_attributes \<leftarrow> de_required (de_hash_map de_string) [''sessionAttributes''] kvs;
     x_dialog_action \<leftarrow> de_optional lex_dialog_action_of_json [''dialogAction''] kvs;
     Some \<lparr>lre_session_attributes = x_session_attributes, lre_dialog_action = x_dialog_action\<rparr> }"

definition lex_response_good :: "lex_response \<Rightarrow> bool" where
  "lex_response_good x \<longleftrightarrow>
     good_map (\<lambda>_. True) (lre_session_attributes x) \<and>
     good_option lex_dialog_action_good (lre_dialog_action x)"

lemma lex_response_not_null [simp]: "lex_response_json x \<noteq> JNull"
  by (simp add: lex_response_json_def)

lemma lex_response_read [read_back]: "lex_response_good x \<Longrightarrow>lex_response_of_json (lex_response_json x) = Some x"
  by (cases x) (clarsimp simp: lex_response_of_json_def lex_response_json_def lex_response_good_def read_back)

lemma lex_response_typed: "typed lex_response_good lex_response_of_json"
  unfolding typed_def lex_response_of_json_def lex_response_good_def
  by (auto simp: bind_eq_Some_conv dest!: typed_required [OF typed_hash_map [OF typed_True [of "de_string"]]]
      typed_optional [OF lex_dialog_action_typed])

record lex_event =
  leve_message_version :: "string option"
  leve_invocation_source :: "string option"
  leve_user_id :: "string option"
  leve_input_transcript :: "string option"
  leve_session_attributes :: "((string \<times> string) list) option"
  leve_request_attributes :: "(string \<times> string) list"
  leve_bot :: "lex_bot option"
  leve_output_dialog_mode :: "string option"
  leve_current_intent :: "lex_current_intent option"
  leve_alternative_intents :: "(lex_alternative_intents list) option"
  leve_dialog_action :: "lex_dialog_action option"

definition lex_event_json :: "lex_event \<Rightarrow> json" where
  "lex_event_json x = JObj
     ([(''messageVersion'', json_of_option JStr (leve_message_version x)),
      (''invocationSource'', json_of_option JStr (leve_invocation_source x)),
      (''userId'', json_of_option JStr (leve_user_id x)),
      (''inputTranscript'', json_of_option JStr (leve_input_transcript x)),
      (''sessionAttributes'', json_of_option (json_of_map JStr) (leve_session_attributes x)),
      (''requestAttributes'', json_of_map JStr (leve_request_attributes x)),
      (''bot'', json_of_option lex_bot_json (leve_bot x)),
      (''outputDialogMode'', json_of_option JStr (leve_output_dialog_mode x)),
      (''currentIntent'', json_of_option lex_current_intent_json (leve_current_intent x)),
      (''alternativeIntents'', json_of_option (json_of_list lex_alternative_intents_json) (leve_alternative_intents x)),
      (''dialogAction'', json_of_option lex_dialog_action_json (leve_dialog_action x))])"

definition lex_event_of_json :: "json \<Rightarrow> lex_event option" where
  "lex_event_of_json j = do {
     kvs \<leftarrow> de_fields 11
       [''messageVersion'', ''invocationSource'', ''userId'', ''inputTranscript'',
        ''sessionAttributes'', ''requestAttributes'', ''bot'', ''outputDialogMode'',
        ''currentIntent'', ''alternativeIntents'', ''dialogAction''] j;
     x_message_version \<leftarrow> de_opt_string ''messageVersion'' kvs;
     x_invocation_source \<leftarrow> de_opt_string ''invocationSource'' kvs;
     x_user_id \<leftarrow> de_opt_string ''userId'' kvs;
     x_input_transcript \<leftarrow> de_opt_string ''inputTranscript'' kvs;
     x_session_attributes \<leftarrow> de_optional (de_hash_map de_string) [''sessionAttributes''] kvs;
     x_request_attributes \<leftarrow> de_default (de_nullish (de_hash_map de_string) []) [] [''requestAttributes''] kvs;
     x_bot \<leftarrow> de_optional lex_bot_of_json [''bot''] kvs;
     x_output_dialog_mode \<leftarrow> de_opt_string ''outputDialogMode'' kvs;
     x_current_intent \<leftarrow> de_optional lex_current_intent_of_json [''currentIntent''] kvs;
     x_alternative_intents \<leftarrow> de_optional (de_list lex_alternative_intents_of_json) [''alternativeIntents''] kvs;
     x_dialog_action \<leftarrow> de_optional lex_dialog_action_of_json [''dialogAction''] kvs;
     Some \<lparr>leve_message_version = x_message_version, leve_invocation_source = x_invocation_source,
       leve_user_id = x_user_id, leve_input_transcript = x_input_transcript,
       leve_session_attributes = x_session_attributes,
       leve_request_attributes = x_request_attributes, leve_bot = x_bot,
       leve_output_dialog_mode = x_output_dialog_mode, leve_current_intent = x_current_intent,
       leve_alternative_intents = x_alternative_intents, leve_dialog_action = x_dialog_action\<rparr> }"

definition lex_event_good :: "lex_event \<Rightarrow> bool" where
  "lex_event_good x \<longleftrightarrow>
     good_option (good_map (\<lambda>_. True)) (leve_session_attributes x) \<and>
     good_map (\<lambda>_. True) (leve_request_attributes x) \<and>
     good_option lex_current_intent_good (leve_current_intent x) \<and>
     good_option (list_all lex_alternative_intents_good) (leve_alternative_intents x) \<and>
     good_option lex_dialog_action_good (leve_dialog_action x)"

lemma lex_event_not_null [simp]: "lex_event_json x \<noteq> JNull"
  by (simp add: lex_event_json_def)

lemma lex_event_read [read_back]: "lex_event_good x \<Longrightarrow>lex_event_of_json (lex_event_json x) = Some x"
  by (cases x) (clarsimp simp: lex_event_of_json_def lex_event_json_def lex_event_good_def read_back)

lemma lex_event_typed: "typed lex_event_good lex_event_of_json"
  unfolding typed_def lex_event_of_json_def lex_event_good_def
  by (auto simp: bind_eq_Some_conv dest!: typed_optional [OF typed_hash_map [OF typed_True [of "de_string"]]]
      typed_default [OF typed_nullish [OF typed_hash_map [OF typed_True [of "de_string"]] good_nil(1)] good_nil(1)]
      typed_optional [OF lex_current_intent_typed]
      typed_optional [OF typed_list [OF lex_alternative_intents_typed]]
      typed_optional [OF lex_dialog_action_typed])

subsection \<open>\<^verbatim>\<open>connect\<close>\<close>

record connect_endpoint =
  cen_address :: "string option"
  cen_type :: "string option"

definition connect_endpoint_json :: "connect_endpoint \<Rightarrow> json" where
  "connect_endpoint_json x = JObj
     ([(''Address'', json_of_option JStr (cen_address x)),
      (''Type'', json_of_option JStr (cen_type x))])"

definition connect_endpoint_of_json :: "json \<Rightarrow> connect_endpoint option" where
  "connect_endpoint_of_json j = do {
     kvs \<leftarrow> de_fields 0
       [''Address'', ''Type''] j;
     x_address \<leftarrow> de_opt_string ''Address'' kvs;
     x_type \<leftarrow> de_opt_string ''Type'' kvs;
     Some \<lparr>cen_address = x_address, cen_type = x_type\<rparr> }"

lemma connect_endpoint_not_null [simp]: "connect_endpoint_json x \<noteq> JNull"
  by (simp add: connect_endpoint_json_def)

lemma connect_endpoint_read [read_back]: "connect_endpoint_of_json (connect_endpoint_json x) = Some x"
  by (cases x) (simp add: connect_endpoint_of_json_def connect_endpoint_json_def read_back)

record connect_queue =
  cq_name :: "string option"
  cq_arn :: "string option"

definition connect_queue_json :: "connect_queue \<Rightarrow> json" where
  "connect_queue_json x = JObj
     ([(''Name'', json_of_option JStr (cq_name x)),
      (''ARN'', json_of_option JStr (cq_arn x))])"

definition connect_queue_of_json :: "json \<Rightarrow> connect_queue option" where
  "connect_queue_of_json j = do {
     kvs \<leftarrow> de_fields 0
       [''Name'', ''ARN''] j;
     x_name \<leftarrow> de_opt_string ''Name'' kvs;
     x_arn \<leftarrow> de_opt_string ''ARN'' kvs;
     Some \<lparr>cq_name = x_name, cq_arn = x_arn\<rparr> }"

lemma connect_queue_not_null [simp]: "connect_queue_json x \<noteq> JNull"
  by (simp add: connect_queue_json_def)

lemma connect_queue_read [read_back]: "connect_queue_of_json (connect_queue_json x) = Some x"
  by (cases x) (simp add: connect_queue_of_json_def connect_queue_json_def read_back)

record connect_contact_data =
  ccd_attributes :: "(string \<times> string) list"
  ccd_channel :: "string option"
  ccd_contact_id :: "string option"
  ccd_customer_endpoint :: connect_endpoint
  ccd_initial_contact_id :: "string option"
  ccd_initiation_method :: "string option"
  ccd_previous_contact_id :: "string option"
  ccd_queue :: "connect_queue option"
  ccd_system_endpoint :: connect_endpoint
  ccd_instance_arn :: "string option"

definition connect_contact_data_json :: "connect_contact_data \<Rightarrow> json" where
  "connect_contact_data_json x = JObj
     ([(''Attributes'', json_of_map JStr (ccd_attributes x)),
      (''Channel'', json_of_option JStr (ccd_channel x)),
      (''ContactId'', json_of_option JStr (ccd_contact_id x)),
      (''CustomerEndpoint'', connect_endpoint_json (ccd_customer_endpoint x)),
      (''InitialContactId'', json_of_option JStr (ccd_initial_contact_id x)),
      (''InitiationMethod'', json_of_option JStr (ccd_initiation_method x)),
      (''PreviousContactId'', json_of_option JStr (ccd_previous_contact_id x)),
      (''Queue'', json_of_option connect_queue_json (ccd_queue x)),
      (''SystemEndpoint'', connect_endpoint_json (ccd_system_endpoint x)),
      (''InstanceARN'', json_of_option JStr (ccd_instance_arn x))])"

definition connect_contact_data_of_json :: "json \<Rightarrow> connect_contact_data option" where
  "connect_contact_data_of_json j = do {
     kvs \<leftarrow> de_fields 9
       [''Attributes'', ''Channel'', ''ContactId'', ''CustomerEndpoint'', ''InitialContactId'',
        ''InitiationMethod'', ''PreviousContactId'', ''Queue'', ''SystemEndpoint'', ''InstanceARN''] j;
     x_attributes \<leftarrow> de_default (de_nullish (de_hash_map de_string) []) [] [''Attributes''] kvs;
     x_channel \<leftarrow> de_opt_string ''Channel'' kvs;
     x_contact_id \<leftarrow> de_opt_string ''ContactId'' kvs;
     x_customer_endpoint \<leftarrow> de_required connect_endpoint_of_json [''CustomerEndpoint''] kvs;
     x_initial_contact_id \<leftarrow> de_opt_string ''InitialContactId'' kvs;
     x_initiation_method \<leftarrow> de_opt_string ''InitiationMethod'' kvs;
     x_previous_contact_id \<leftarrow> de_opt_string ''PreviousContactId'' kvs;
     x_queue \<leftarrow> de_optional connect_queue_of_json [''Queue''] kvs;
     x_system_endpoint \<leftarrow> de_required connect_endpoint_of_json [''SystemEndpoint''] kvs;
     x_instance_arn \<leftarrow> de_opt_string ''InstanceARN'' kvs;
     Some \<lparr>ccd_attributes = x_attributes, ccd_channel = x_channel, ccd_contact_id = x_contact_id,
       ccd_customer_endpoint = x_customer_endpoint,
       ccd_initial_contact_id = x_initial_contact_id,
       ccd_initiation_method = x_initiation_method,
       ccd_previous_contact_id = x_previous_contact_id, ccd_queue = x_queue,
       ccd_system_endpoint = x_system_endpoint, ccd_instance_arn = x_instance_arn\<rparr> }"

definition connect_contact_data_good :: "connect_contact_data \<Rightarrow> bool" where
  "connect_contact_data_good x \<longleftrightarrow>
     good_map (\<lambda>_. True) (ccd_attributes x)"

lemma connect_contact_data_not_null [simp]: "connect_contact_data_json x \<noteq> JNull"
  by (simp add: connect_contact_data_json_def)

lemma connect_contact_data_read [read_back]: "connect_contact_data_good x \<Longrightarrow>connect_contact_data_of_json (connect_contact_data_json x) = Some x"
  by (cases x) (simp add: connect_contact_data_of_json_def connect_contact_data_json_def connect_contact_data_good_def read_back)

lemma connect_contact_data_typed: "typed connect_contact_data_good connect_contact_data_of_json"
  unfolding typed_def connect_contact_data_of_json_def connect_contact_data_good_def
  by (auto simp: bind_eq_Some_conv dest!: typed_default [OF typed_nullish [OF typed_hash_map [OF typed_True [of "de_string"]] good_nil(1)] good_nil(1)])

record connect_details =
  cd_contact_data :: connect_contact_data
  cd_parameters :: "(string \<times> string) list"

definition connect_details_json :: "connect_details \<Rightarrow> json" where
  "connect_details_json x = JObj
     ([(''ContactData'', connect_contact_data_json (cd_contact_data x)),
      (''Parameters'', json_of_map JStr (cd_parameters x))])"

definition connect_details_of_json :: "json \<Rightarrow> connect_details option" where
  "connect_details_of_json j = do {
     kvs \<leftarrow> de_fields 1
       [''ContactData'', ''Parameters''] j;
     x_contact_data \<leftarrow> de_required connect_contact_data_of_json [''ContactData''] kvs;
     x_parameters \<leftarrow> de_default (de_nullish (de_hash_map de_string) []) [] [''Parameters''] kvs;
     Some \<lparr>cd_contact_data = x_contact_data, cd_parameters = x_parameters\<rparr> }"

definition connect_details_good :: "connect_details \<Rightarrow> bool" where
  "connect_details_good x \<longleftrightarrow>
     connect_contact_data_good (cd_contact_data x) \<and>
     good_map (\<lambda>_. True) (cd_parameters x)"

lemma connect_details_not_null [simp]: "connect_details_json x \<noteq> JNull"
  by (simp add: connect_details_json_def)

lemma connect_details_read [read_back]: "connect_details_good x \<Longrightarrow>connect_details_of_json (connect_details_json x) = Some x"
  by (cases x) (clarsimp simp: connect_details_of_json_def connect_details_json_def connect_details_good_def read_back)

lemma connect_details_typed: "typed connect_details_good connect_details_of_json"
  unfolding typed_def connect_details_of_json_def connect_details_good_def
  by (auto simp: bind_eq_Some_conv dest!: typed_required [OF connect_contact_data_typed]
      typed_default [OF typed_nullish [OF typed_hash_map [OF typed_True [of "de_string"]] good_nil(1)] good_nil(1)])

record connect_event =
  cevent_details :: connect_details
  cevent_name :: "string option"

definition connect_event_json :: "connect_event \<Rightarrow> json" where
  "connect_event_json x = JObj
     ([(''Details'', connect_details_json (cevent_details x)),
      (''Name'', json_of_option JStr (cevent_name x))])"

definition connect_event_of_json :: "json \<Rightarrow> connect_event option" where
  "connect_event_of_json j = do {
     kvs \<leftarrow> de_fields 1
       [''Details'', ''Name''] j;
     x_details \<leftarrow> de_required connect_details_of_json [''Details''] kvs;
     x_name \<leftarrow> de_opt_string ''Name'' kvs;
     Some \<lparr>cevent_details = x_details, cevent_name = x_name\<rparr> }"

definition connect_event_good :: "connect_event \<Rightarrow> bool" where
  "connect_event_good x \<longleftrightarrow>
     connect_details_good (cevent_details x)"

lemma connect_event_not_null [simp]: "connect_event_json x \<noteq> JNull"
  by (simp add: connect_event_json_def)

lemma connect_event_read [read_back]: "connect_event_good x \<Longrightarrow>connect_event_of_json (connect_event_json x) = Some x"
  by (cases x) (simp add: connect_event_of_json_def connect_event_json_def connect_event_good_def read_back)

lemma connect_event_typed: "typed connect_event_good connect_event_of_json"
  unfolding typed_def connect_event_of_json_def connect_event_good_def
  by (auto simp: bind_eq_Some_conv dest!: typed_required [OF connect_details_typed])

subsection \<open>\<^verbatim>\<open>bedrock_agent_runtime\<close>\<close>

record property =
  pro_name :: string
  pro_type :: string
  pro_value :: string

definition property_json :: "property \<Rightarrow> json" where
  "property_json x = JObj
     ([(''name'', JStr (pro_name x)),
      (''type'', JStr (pro_type x)),
      (''value'', JStr (pro_value x))])"

definition property_of_json :: "json \<Rightarrow> property option" where
  "property_of_json j = do {
     kvs \<leftarrow> de_fields 3
       [''name'', ''type'', ''value''] j;
     x_name \<leftarrow> de_required de_string [''name''] kvs;
     x_type \<leftarrow> de_required de_string [''type''] kvs;
     x_value \<leftarrow> de_required de_string [''value''] kvs;
     Some \<lparr>pro_name = x_name, pro_type = x_type, pro_value = x_value\<rparr> }"

lemma property_not_null [simp]: "property_json x \<noteq> JNull"
  by (simp add: property_json_def)

lemma property_read [read_back]: "property_of_json (property_json x) = Some x"
  by (cases x) (simp add: property_of_json_def property_json_def read_back)

record parameter =
  par_name :: string
  par_type :: string
  par_value :: string

definition parameter_json :: "parameter \<Rightarrow> json" where
  "parameter_json x = JObj
     ([(''name'', JStr (par_name x)),
      (''type'', JStr (par_type x)),
      (''value'', JStr (par_value x))])"

definition parameter_of_json :: "json \<Rightarrow> parameter option" where
  "parameter_of_json j = do {
     kvs \<leftarrow> de_fields 3
       [''name'', ''type'', ''value''] j;
     x_name \<leftarrow> de_required de_string [''name''] kvs;
     x_type \<leftarrow> de_required de_string [''type''] kvs;
     x_value \<leftarrow> de_required de_string [''value''] kvs;
     Some \<lparr>par_name = x_name, par_type = x_type, par_value = x_value\<rparr> }"

lemma parameter_not_null [simp]: "parameter_json x \<noteq> JNull"
  by (simp add: parameter_json_def)

lemma parameter_read [read_back]: "parameter_of_json (parameter_json x) = Some x"
  by (cases x) (simp add: parameter_of_json_def parameter_json_def read_back)

record agent =
  ag_name :: string
  ag_id :: string
  ag_alias :: string
  ag_version :: string

definition agent_json :: "agent \<Rightarrow> json" where
  "agent_json x = JObj
     ([(''name'', JStr (ag_name x)),
      (''id'', JStr (ag_id x)),
      (''alias'', JStr (ag_alias x)),
      (''version'', JStr (ag_version x))])"

definition agent_of_json :: "json \<Rightarrow> agent option" where
  "agent_of_json j = do {
     kvs \<leftarrow> de_fields 4
       [''name'', ''id'', ''alias'', ''version''] j;
     x_name \<leftarrow> de_required de_string [''name''] kvs;
     x_id \<leftarrow> de_required de_string [''id''] kvs;
     x_alias \<leftarrow> de_required de_string [''alias''] kvs;
     x_version \<leftarrow> de_required de_string [''version''] kvs;
     Some \<lparr>ag_name = x_name, ag_id = x_id, ag_alias = x_alias, ag_version = x_version\<rparr> }"

lemma agent_not_null [simp]: "agent_json x \<noteq> JNull"
  by (simp add: agent_json_def)

lemma agent_read [read_back]: "agent_of_json (agent_json x) = Some x"
  by (cases x) (simp add: agent_of_json_def agent_json_def read_back)

record content =
  con_properties :: "property list"

definition content_json :: "content \<Rightarrow> json" where
  "content_json x = JObj
     ([(''properties'', json_of_list property_json (con_properties x))])"

definition content_of_json :: "json \<Rightarrow> content option" where
  "content_of_json j = do {
     kvs \<leftarrow> de_fields 1
       [''properties''] j;
     x_properties \<leftarrow> de_required (de_list property_of_json) [''properties''] kvs;
     Some \<lparr>con_properties = x_properties\<rparr> }"

lemma content_not_null [simp]: "content_json x \<noteq> JNull"
  by (simp add: content_json_def)

lemma content_read [read_back]: "content_of_json (content_json x) = Some x"
  by (cases x) (simp add: content_of_json_def content_json_def read_back)

record request_body =
  rbo_content :: "(string \<times> content) list"

definition request_body_json :: "request_body \<Rightarrow> json" where
  "request_body_json x = JObj
     ([(''content'', json_of_map content_json (rbo_content x))])"

definition request_body_of_json :: "json \<Rightarrow> request_body option" where
  "request_body_of_json j = do {
     kvs \<leftarrow> de_fields 1
       [''content''] j;
     x_content \<leftarrow> de_required (de_hash_map content_of_json) [''content''] kvs;
     Some \<lparr>rbo_content = x_content\<rparr> }"

definition request_body_good :: "request_body \<Rightarrow> bool" where
  "request_body_good x \<longleftrightarrow>
     good_map (\<lambda>_. True) (rbo_content x)"

lemma request_body_not_null [simp]: "request_body_json x \<noteq> JNull"
  by (simp add: request_body_json_def)

lemma request_body_read [read_back]: "request_body_good x \<Longrightarrow>request_body_of_json (request_body_json x) = Some x"
  by (cases x) (simp add: request_body_of_json_def request_body_json_def request_body_good_def read_back)

lemma request_body_typed: "typed request_body_good request_body_of_json"
  unfolding typed_def request_body_of_json_def request_body_good_def
  by (auto simp: bind_eq_Some_conv dest!: typed_required [OF typed_hash_map [OF typed_True [of "content_of_json"]]])

record agent_event =
  ae_message_version :: string
  ae_agent :: agent
  ae_input_text :: string
  ae_session_id :: string
  ae_action_group :: string
  ae_api_path :: string
  ae_http_method :: string
  ae_parameters :: "(parameter list) option"
  ae_request_body :: "request_body option"
  ae_session_attributes :: "(string \<times> string) list"
  ae_prompt_session_attributes :: "(string \<times> string) list"

definition agent_event_json :: "agent_event \<Rightarrow> json" where
  "agent_event_json x = JObj
     ([(''messageVersion'', JStr (ae_message_version x)),
      (''agent'', agent_json (ae_agent x)),
      (''inputText'', JStr (ae_input_text x)),
      (''sessionId'', JStr (ae_session_id x)),
      (''actionGroup'', JStr (ae_action_group x)),
      (''apiPath'', JStr (ae_api_path x)),
      (''httpMethod'', JStr (ae_http_method x))] @
      opt_field ''parameters'' (json_of_list parameter_json) (ae_parameters x) @
      opt_field ''requestBody'' request_body_json (ae_request_body x) @
      [(''sessionAttributes'', json_of_map JStr (ae_session_attributes x)),
      (''promptSessionAttributes'', json_of_map JStr (ae_prompt_session_attributes x))])"

definition agent_event_of_json :: "json \<Rightarrow> agent_event option" where
  "agent_event_of_json j = do {
     kvs \<leftarrow> de_fields 11
       [''messageVersion'', ''agent'', ''inputText'', ''sessionId'', ''actionGroup'', ''apiPath'',
        ''httpMethod'', ''parameters'', ''requestBody'', ''sessionAttributes'',
        ''promptSessionAttributes''] j;
     x_message_version \<leftarrow> de_required de_string [''messageVersion''] kvs;
     x_agent \<leftarrow> de_required agent_of_json [''agent''] kvs;
     x_input_text \<leftarrow> de_required de_string [''inputText''] kvs;
     x_session_id \<leftarrow> de_required de_string [''sessionId''] kvs;
     x_action_group \<leftarrow> de_required de_string [''actionGroup''] kvs;
     x_api_path \<leftarrow> de_required de_string [''apiPath''] kvs;
     x_http_method \<leftarrow> de_required de_string [''httpMethod''] kvs;
     x_parameters \<leftarrow> de_optional (de_list parameter_of_json) [''parameters''] kvs;
     x_request_body \<leftarrow> de_optional request_body_of_json [''requestBody''] kvs;
     x_session_attributes \<leftarrow> de_required (de_hash_map de_string) [''sessionAttributes''] kvs;
     x_prompt_session_attributes \<leftarrow> de_required (de_hash_map de_string) [''promptSessionAttributes''] kvs;
     Some \<lparr>ae_message_version = x_message_version, ae_agent = x_agent, ae_input_text = x_input_text,
       ae_session_id = x_session_id, ae_action_group = x_action_group, ae_api_path = x_api_path,
       ae_http_method = x_http_method, ae_parameters = x_parameters,
       ae_request_body = x_request_body, ae_session_attributes = x_session_attributes,
       ae_prompt_session_attributes = x_prompt_session_attributes\<rparr> }"

definition agent_event_good :: "agent_event \<Rightarrow> bool" where
  "agent_event_good x \<longleftrightarrow>
     good_option request_body_good (ae_request_body x) \<and>
     good_map (\<lambda>_. True) (ae_session_attributes x) \<and>
     good_map (\<lambda>_. True) (ae_prompt_session_attributes x)"

lemma agent_event_not_null [simp]: "agent_event_json x \<noteq> JNull"
  by (simp add: agent_event_json_def)

lemma agent_event_read [read_back]: "agent_event_good x \<Longrightarrow>agent_event_of_json (agent_event_json x) = Some x"
  by (cases x) (clarsimp simp: agent_event_of_json_def agent_event_json_def agent_event_good_def read_back)

lemma agent_event_typed: "typed agent_event_good agent_event_of_json"
  unfolding typed_def agent_event_of_json_def agent_event_good_def
  by (auto simp: bind_eq_Some_conv dest!: typed_optional [OF request_body_typed]
      typed_required [OF typed_hash_map [OF typed_True [of "de_string"]]])

subsection \<open>Reading what was written\<close>

text \<open>
  The variants of \<^verbatim>\<open>AppSyncIdentity\<close> are tried in their order, so that what one variant is written
  to is read as the first variant that accepts it: what an identity becomes when it is written and
  read again.
\<close>

fun app_sync_identity_reread :: "app_sync_identity \<Rightarrow> app_sync_identity" where
  "app_sync_identity_reread (AppSyncIdentity_IAM x) = AppSyncIdentity_IAM x"
| "app_sync_identity_reread (AppSyncIdentity_Cognito x) = AppSyncIdentity_IAM
    \<lparr>asii_account_id = None, asii_cognito_identity_auth_provider = None,
     asii_cognito_identity_auth_type = None, asii_cognito_identity_pool_id = None,
     asii_cognito_identity_id = None, asii_source_ip = asci_source_ip x,
     asii_username = asci_username x, asii_user_arn = None\<rparr>"
| "app_sync_identity_reread (AppSyncIdentity_OIDC x) = AppSyncIdentity_OIDC x"
| "app_sync_identity_reread (AppSyncIdentity_Lambda x) = AppSyncIdentity_Lambda x"

lemma app_sync_identity_rereads:
  "app_sync_identity_of_json (app_sync_identity_json i) = Some (app_sync_identity_reread i)"
proof (cases i)
  case (AppSyncIdentity_Cognito c)
  then show ?thesis
    by (cases "asci_username c") (simp_all add: app_sync_identity_of_json_def app_sync_iam_identity_of_json_def
        app_sync_cognito_identity_json_def read_back de_opt_string_def de_simps)
next
  case (AppSyncIdentity_OIDC c)
  then show ?thesis
    by (cases c) (simp add: app_sync_identity_of_json_def app_sync_iam_identity_of_json_def
        app_sync_cognito_identity_of_json_def app_sync_identity_oidc_of_json_def app_sync_identity_oidc_json_def
        read_back de_simps de_opt_string_def Option.bind_eq_None_conv)
next
  case (AppSyncIdentity_Lambda c)
  then show ?thesis
    by (cases c) (simp add: app_sync_identity_of_json_def app_sync_iam_identity_of_json_def
        app_sync_cognito_identity_of_json_def app_sync_identity_oidc_of_json_def
        app_sync_identity_lambda_of_json_def app_sync_identity_lambda_json_def
        read_back de_simps de_opt_string_def)
qed (simp add: app_sync_identity_of_json_def read_back)

lemma app_sync_direct_resolver_event_rereads:
  assumes "typed_nn A fa" and "\<And>x. A x \<Longrightarrow> ga x \<noteq> JNull \<and> fa (ga x) = Some x"
    and "typed_nn S fs" and "\<And>x. S x \<Longrightarrow> gs x \<noteq> JNull \<and> fs (gs x) = Some x"
    and "typed T ft" and "\<And>x. T x \<Longrightarrow> ft (gt x) = Some x"
  shows "\<forall>j x. app_sync_direct_resolver_event_of_json fa fs ft j = Some x \<longrightarrow>
    app_sync_direct_resolver_event_good A S T x \<and>
    app_sync_direct_resolver_event_of_json fa fs ft (app_sync_direct_resolver_event_json ga gs gt x) =
      Some (x\<lparr>asdre_identity := map_option app_sync_identity_reread (asdre_identity x)\<rparr>)"
proof (intro allI impI)
  fix j x
  assume "app_sync_direct_resolver_event_of_json fa fs ft j = Some x"
  with typedD [OF app_sync_direct_resolver_event_typed [OF assms(1,3,5)]]
  have good: "app_sync_direct_resolver_event_good A S T x" by blast
  have "de_optional app_sync_identity_of_json [''identity''] kvs =
      Some (map_option app_sync_identity_reread (asdre_identity x))"
    if "de_values [''identity''] kvs = [json_of_option app_sync_identity_json (asdre_identity x)]" for kvs
    using that by (cases "asdre_identity x") (simp_all add: de_optional_def app_sync_identity_rereads)
  then show "app_sync_direct_resolver_event_good A S T x \<and>
      app_sync_direct_resolver_event_of_json fa fs ft (app_sync_direct_resolver_event_json ga gs gt x) =
        Some (x\<lparr>asdre_identity := map_option app_sync_identity_reread (asdre_identity x)\<rparr>)"
    using good
    by (cases x) (clarsimp simp: app_sync_direct_resolver_event_of_json_def app_sync_direct_resolver_event_json_def
        app_sync_direct_resolver_event_good_def assms read_back)
qed

text \<open>
  C31: the events of Cognito, whose user pool triggers flatten one generic header into every
  event, and of AppSync, Lex, Connect, Chime and Bedrock agents: what is read is well formed,
  and what it is written to is read as the same event. The one exception is the event of an
  AppSync direct resolver whose caller has the Cognito variant of the untagged identity: it is
  read again with every field the same except the identity, which becomes the IAM variant with
  the caller's addresses and user name.
\<close>

theorem identity_events_reparse:
  assumes "event_crates E"
    and typed: "typed P f"
    and inverse: "\<And>x. P x \<Longrightarrow> f (g x) = Some x"
    and "\<And>x. P x \<Longrightarrow> g x \<noteq> JNull"
    and arguments: "typed_nn A fa" "\<And>x. A x \<Longrightarrow> ga x \<noteq> JNull \<and> fa (ga x) = Some x"
    and source: "typed_nn S fs" "\<And>x. S x \<Longrightarrow> gs x \<noteq> JNull \<and> fs (gs x) = Some x"
    and stash: "typed T ft" "\<And>x. T x \<Longrightarrow> ft (gt x) = Some x"
  shows "reparses cognito_event_good cognito_event_of_json cognito_event_json \<and>
    reparses cognito_event_user_pools_pre_signup_good cognito_event_user_pools_pre_signup_of_json cognito_event_user_pools_pre_signup_json \<and>
    reparses cognito_event_user_pools_pre_authentication_good cognito_event_user_pools_pre_authentication_of_json cognito_event_user_pools_pre_authentication_json \<and>
    reparses (cognito_event_user_pools_post_confirmation_good P) (cognito_event_user_pools_post_confirmation_of_json f) (cognito_event_user_pools_post_confirmation_json g) \<and>
    reparses cognito_event_user_pools_post_authentication_good cognito_event_user_pools_post_authentication_of_json cognito_event_user_pools_post_authentication_json \<and>
    reparses cognito_event_user_pools_migrate_user_good cognito_event_user_pools_migrate_user_of_json cognito_event_user_pools_migrate_user_json \<and>
    reparses cognito_event_user_pools_define_auth_challenge_good cognito_event_user_pools_define_auth_challenge_of_json cognito_event_user_pools_define_auth_challenge_json \<and>
    reparses cognito_event_user_pools_create_auth_challenge_good cognito_event_user_pools_create_auth_challenge_of_json cognito_event_user_pools_create_auth_challenge_json \<and>
    reparses cognito_event_user_pools_verify_auth_challenge_good cognito_event_user_pools_verify_auth_challenge_of_json cognito_event_user_pools_verify_auth_challenge_json \<and>
    reparses cognito_event_user_pools_custom_message_good cognito_event_user_pools_custom_message_of_json cognito_event_user_pools_custom_message_json \<and>
    reparses cognito_event_user_pools_pre_token_gen_good cognito_event_user_pools_pre_token_gen_of_json cognito_event_user_pools_pre_token_gen_json \<and>
    reparses cognito_event_user_pools_pre_token_gen_v2_good cognito_event_user_pools_pre_token_gen_v2_of_json cognito_event_user_pools_pre_token_gen_v2_json \<and>
    reparses (app_sync_resolver_template_good P) (app_sync_resolver_template_of_json f) (app_sync_resolver_template_json g) \<and>
    reparses (app_sync_lambda_authorizer_response_good P) (app_sync_lambda_authorizer_response_of_json f) (app_sync_lambda_authorizer_response_json g) \<and>
    reparses app_sync_lambda_authorizer_request_good app_sync_lambda_authorizer_request_of_json app_sync_lambda_authorizer_request_json \<and>
    reparses (\<lambda>_. True) (chime_bot_event_of_json E) (chime_bot_event_json E) \<and>
    reparses lex_response_good lex_response_of_json lex_response_json \<and>
    reparses lex_event_good lex_event_of_json lex_event_json \<and>
    reparses connect_event_good connect_event_of_json connect_event_json \<and>
    reparses agent_event_good agent_event_of_json agent_event_json \<and>
    (\<forall>j x. app_sync_direct_resolver_event_of_json fa fs ft j = Some x \<longrightarrow>
      app_sync_direct_resolver_event_good A S T x \<and>
      app_sync_direct_resolver_event_of_json fa fs ft (app_sync_direct_resolver_event_json ga gs gt x) =
        Some (x\<lparr>asdre_identity := map_option app_sync_identity_reread (asdre_identity x)\<rparr>))"
  by (intro conjI reparsesI typed_True typed_nn cognito_event_typed
      cognito_event_user_pools_pre_signup_typed
      cognito_event_user_pools_pre_authentication_typed
      cognito_event_user_pools_post_confirmation_typed
      cognito_event_user_pools_post_authentication_typed
      cognito_event_user_pools_migrate_user_typed
      cognito_event_user_pools_define_auth_challenge_typed
      cognito_event_user_pools_create_auth_challenge_typed
      cognito_event_user_pools_verify_auth_challenge_typed
      cognito_event_user_pools_custom_message_typed
      cognito_event_user_pools_pre_token_gen_typed
      cognito_event_user_pools_pre_token_gen_v2_typed
      app_sync_resolver_template_typed
      app_sync_lambda_authorizer_response_typed
      app_sync_lambda_authorizer_request_typed
      lex_response_typed
      lex_event_typed
      connect_event_typed
      agent_event_typed
      app_sync_direct_resolver_event_rereads [OF arguments source stash])
    (auto simp: assms read_back)


text \<open>The fields of the header stand beside the event's own.\<close>

definition pre_authentication_example :: json where
  "pre_authentication_example = JObj
     [(''version'', JStr ''1''), (''triggerSource'', JStr ''PreAuthentication_Authentication''),
      (''region'', JStr ''eu''), (''callerContext'', JObj []), (''request'', JObj []), (''response'', JObj [])]"

definition direct_resolver_example :: json where
  "direct_resolver_example = JObj
     [(''arguments'', JNull), (''identity'', JObj [(''resolverContext'', JStr ''c'')]), (''source'', JNull),
      (''request'', JObj []),
      (''info'', JObj [(''selectionSetGraphQL'', JStr ''q''), (''parentTypeName'', JStr ''t''),
         (''fieldName'', JStr ''f''), (''variables'', JObj [])]),
      (''stash'', JObj [])]"

theorem identity_events_reparse_witness:
  "(\<exists>x. cognito_event_user_pools_pre_authentication_of_json pre_authentication_example = Some x \<and>
     ceuph_region (ceuppa_cognito_event_user_pools_header x) = Some ''eu'' \<and>
     cognito_event_user_pools_pre_authentication_of_json (cognito_event_user_pools_pre_authentication_json x) = Some x) \<and>
   (\<exists>x. app_sync_direct_resolver_event_of_json Some Some Some direct_resolver_example = Some x \<and>
     asdre_identity x = Some (AppSyncIdentity_Lambda \<lparr>asil_resolver_context = JStr ''c''\<rparr>) \<and>
     app_sync_direct_resolver_event_of_json Some Some Some
       (app_sync_direct_resolver_event_json (\<lambda>v. v) (\<lambda>v. v) (\<lambda>v. v) x) = Some x)"
proof -
  note all = identity_events_reparse [where E = ref_event_env and P = "\<lambda>_. True" and f = de_string and g = JStr
      and A = "\<lambda>v. v \<noteq> JNull" and fa = Some and ga = "\<lambda>v. v"
      and S = "\<lambda>v. v \<noteq> JNull" and fs = Some and gs = "\<lambda>v. v"
      and T = "\<lambda>_. True" and ft = Some and gt = "\<lambda>v. v",
      OF ref_events.event_crates_axioms typed_True de_string_JStr json.distinct(8) typed_nn_value _ typed_nn_value _ typed_True]
  have "reparses cognito_event_user_pools_pre_authentication_good
      cognito_event_user_pools_pre_authentication_of_json cognito_event_user_pools_pre_authentication_json"
    using all by blast
  moreover have "map_option (\<lambda>x. ceuph_region (ceuppa_cognito_event_user_pools_header x))
      (cognito_event_user_pools_pre_authentication_of_json pre_authentication_example) = Some (Some ''eu'')"
    by code_simp
  moreover have "app_sync_direct_resolver_event_of_json Some Some Some
      (app_sync_direct_resolver_event_json (\<lambda>v. v) (\<lambda>v. v) (\<lambda>v. v) x) =
        Some (x\<lparr>asdre_identity := map_option app_sync_identity_reread (asdre_identity x)\<rparr>)"
    if "app_sync_direct_resolver_event_of_json Some Some Some direct_resolver_example = Some x" for x
    using all that by blast
  moreover have "map_option asdre_identity (app_sync_direct_resolver_event_of_json Some Some Some direct_resolver_example) =
      Some (Some (AppSyncIdentity_Lambda \<lparr>asil_resolver_context = JStr ''c''\<rparr>))"
    by code_simp
  ultimately show ?thesis by (fastforce dest: reparsesD)
qed

subsection \<open>The identity of an AppSync caller\<close>

text \<open>
  The variants of \<^verbatim>\<open>AppSyncIdentity\<close> are tried in their order, and the first one requires
  nothing but the addresses of the caller, which the second one requires too.
\<close>

lemma opt_string_absent: "k \<notin> fst ` set kvs \<Longrightarrow> de_opt_string k kvs = Some None"
proof -
  assume "k \<notin> fst ` set kvs"
  then have "de_values [k] kvs = []"
    by (induction kvs) auto
  then show ?thesis
    by (simp add: de_opt_string_def de_optional_def)
qed

definition iam_identity_fields :: "string set" where
  "iam_identity_fields = {''accountId'', ''cognitoIdentityAuthProvider'', ''cognitoIdentityAuthType'',
     ''cognitoIdentityPoolId'', ''cognitoIdentityId'', ''userArn''}"

text \<open>
  C32: The identity of an AppSync caller that signed in through a Cognito user pool is never read as
  the Cognito variant. An object that \<^verbatim>\<open>AppSyncCognitoIdentity\<close> accepts is read as the IAM
  variant whenever it has none of the fields special to that one: the addresses and the user name
  are kept, and the subject, the issuer and the claims are lost.
\<close>

theorem app_sync_cognito_identity_misread:
  assumes "app_sync_cognito_identity_of_json Some (JObj kvs) = Some c"
    and "fst ` set kvs \<inter> iam_identity_fields = {}"
  shows "app_sync_identity_of_json (JObj kvs) = Some (AppSyncIdentity_IAM
    \<lparr>asii_account_id = None, asii_cognito_identity_auth_provider = None,
     asii_cognito_identity_auth_type = None, asii_cognito_identity_pool_id = None,
     asii_cognito_identity_id = None, asii_source_ip = asci_source_ip c,
     asii_username = asci_username c, asii_user_arn = None\<rparr>)"
proof -
  have absent: "k \<in> iam_identity_fields \<Longrightarrow> de_opt_string k kvs = Some None" for k
    using assms(2) by (intro opt_string_absent) blast
  have "de_opt_string ''username'' kvs = Some (asci_username c)"
    and "de_required (de_list de_string) [''sourceIp''] kvs = Some (asci_source_ip c)"
    using assms(1) by (auto simp: app_sync_cognito_identity_of_json_def read_object bind_eq_Some_conv)
  then show ?thesis
    by (simp add: app_sync_identity_of_json_def app_sync_iam_identity_of_json_def read_object absent iam_identity_fields_def)
qed

definition cognito_identity_example :: "(string \<times> json) list" where
  "cognito_identity_example =
     [(''sub'', JStr ''s''), (''issuer'', JStr ''https''), (''username'', JStr ''u''),
      (''claims'', JObj [(''sub'', JStr ''s'')]), (''sourceIp'', JArr [JStr ''10.0.0.1'']),
      (''defaultAuthStrategy'', JStr ''ALLOW'')]"

theorem app_sync_cognito_identity_misread_witness:
  "app_sync_cognito_identity_of_json Some (JObj cognito_identity_example) \<noteq> None \<and>
   map_option app_sync_identity_json (app_sync_identity_of_json (JObj cognito_identity_example)) =
     Some (JObj [(''accountId'', JNull), (''cognitoIdentityAuthProvider'', JNull), (''cognitoIdentityAuthType'', JNull),
       (''cognitoIdentityPoolId'', JNull), (''cognitoIdentityId'', JNull), (''sourceIp'', JArr [JStr ''10.0.0.1'']),
       (''username'', JStr ''u''), (''userArn'', JNull)])"
proof -
  obtain c where c: "app_sync_cognito_identity_of_json Some (JObj cognito_identity_example) = Some c"
      "asci_source_ip c = [''10.0.0.1'']" "asci_username c = Some ''u''"
    by (simp add: app_sync_cognito_identity_of_json_def cognito_identity_example_def read_object de_opt_string_def
        de_simps de_nullish_def de_hash_map_def de_list_def)
  moreover have "fst ` set cognito_identity_example \<inter> iam_identity_fields = {}"
    by (simp add: cognito_identity_example_def iam_identity_fields_def)
  ultimately show ?thesis
    using app_sync_cognito_identity_misread [OF c(1)]
    by (simp add: app_sync_iam_identity_json_def json_of_list_def)
qed

end
