(* ===== verification/PolicyEvents.thy ===== *)
theory PolicyEvents
  imports EventSerde
begin

text \<open>
  IAM policies, which accept one string for a list, and the structures that carry them: the IoT and
  API Gateway custom authorizers (\<^verbatim>\<open>lambda-events/src/event\<close>). Header maps are a parameter.
  Each structure has its record, the serialiser and the deserialiser that \<^verbatim>\<open>derive\<close>
  generates from its attributes, well-formedness where its fields restrict it, and the lemmas that
  what is read is well formed and what is written is read back. Structures are in the order
  their fields need.
\<close>

subsection \<open>Policy elements\<close>

text \<open>\<^verbatim>\<open>StringOrSlice\<close>: an untagged enum.\<close>

datatype string_or_slice = StringOrSliceString string | StringOrSliceSlice "string list"

definition string_or_slice_variant :: "json \<Rightarrow> string_or_slice option" where
  "string_or_slice_variant = de_untagged
     [\<lambda>j. map_option StringOrSliceString (de_string j), \<lambda>j. map_option StringOrSliceSlice (de_list de_string j)]"

fun slice_of :: "string_or_slice \<Rightarrow> string list" where
  "slice_of (StringOrSliceSlice xs) = xs"
| "slice_of (StringOrSliceString s) = [s]"

text \<open>\<^verbatim>\<open>deserialize_string_or_slice\<close>\<close>

definition string_or_slice_of_json :: "json \<Rightarrow> string list option" where
  "string_or_slice_of_json j = map_option slice_of (string_or_slice_variant j)"

type_synonym policy_condition = "(string \<times> (string \<times> string list) list) list"

definition policy_condition_json :: "policy_condition \<Rightarrow> json" where
  "policy_condition_json = json_of_map (json_of_map (json_of_list JStr))"

text \<open>
  \<^verbatim>\<open>IamPolicyConditionVisitor\<close>: null is no condition, an object is read entry by entry; of a
  repeated key, at either level, the last value stays.
\<close>

definition policy_condition_of_json :: "json \<Rightarrow> policy_condition option option" where
  "policy_condition_of_json j =
     (if j = JNull then Some None
      else map_option
        (\<lambda>entries. Some (fold (\<lambda>(key, val) m. AList.update key (map (\<lambda>(k, v). (k, slice_of v)) val) m) entries []))
        (case j of
           JObj kvs \<Rightarrow> those (map (\<lambda>(k, v). map_option (Pair k) (de_hash_map string_or_slice_variant v)) kvs)
         | _ \<Rightarrow> None))"

definition policy_condition_good :: "policy_condition \<Rightarrow> bool" where
  "policy_condition_good = good_map (good_map (\<lambda>_. True))"

lemma slice_variants:
  "string_or_slice_variant (JStr s) = Some (StringOrSliceString s)"
  "string_or_slice_variant (json_of_list JStr xs) = Some (StringOrSliceSlice xs)"
  by (simp_all add: string_or_slice_variant_def json_of_list_def de_strings_inverse de_string_def)

lemma string_or_slice_read [read_back]: "string_or_slice_of_json (json_of_list JStr xs) = Some xs"
  by (simp add: string_or_slice_of_json_def slice_variants)

lemma map_values_good: "good_map (\<lambda>_. True) m \<Longrightarrow> good_map (\<lambda>_. True) (map (\<lambda>(k, v). (k, h v)) m)"
proof -
  have "map fst (map (\<lambda>(k, v). (k, h v)) m) = map fst m" by (induction m) auto
  then show "good_map (\<lambda>_. True) m \<Longrightarrow> ?thesis" by (simp only: good_map_def) (simp add: list_all_iff split_beta)
qed

lemma fold_condition:
  "fold (\<lambda>(key, val) m. AList.update key (map (\<lambda>(k, v). (k, slice_of v)) val) m) entries m0 =
     fold (\<lambda>(k, v). AList.update k v) (map (\<lambda>(key, val). (key, map (\<lambda>(k, v). (k, slice_of v)) val)) entries) m0"
  by (induction entries arbitrary: m0) auto

lemma those_pairs_typed:
  "those (map (\<lambda>(k, v). map_option (Pair k) (f v)) kvs) = Some es \<Longrightarrow> typed P f \<Longrightarrow> list_all (\<lambda>(k, v). P v) es"
  by (induction kvs arbitrary: es) (auto simp: typed_def split: option.splits)

lemma policy_condition_typed: "typed (good_option policy_condition_good) policy_condition_of_json"
proof (rule typedI)
  fix j c assume c: "policy_condition_of_json j = Some c"
  show "good_option policy_condition_good c"
  proof (cases "j = JNull")
    case False
    then obtain kvs es where es: "those (map (\<lambda>(k, v). map_option (Pair k) (de_hash_map string_or_slice_variant v)) kvs) = Some es"
        and c: "c = Some (fold (\<lambda>(k, v). AList.update k v) (map (\<lambda>(key, val). (key, map (\<lambda>(k, v). (k, slice_of v)) val)) es) [])"
      using c by (auto simp: policy_condition_of_json_def fold_condition split: json.splits)
    have "list_all (\<lambda>(k, v). good_map (\<lambda>_. True) v) es"
      using es by (rule those_pairs_typed) (rule typed_hash_map [OF typed_True])
    then have "list_all (\<lambda>(k, v). good_map (\<lambda>_. True) v) (map (\<lambda>(key, val). (key, map (\<lambda>(k, v). (k, slice_of v)) val)) es)"
      by (auto simp: list_all_iff intro: map_values_good)
    then show ?thesis
      unfolding c policy_condition_good_def good_option_def option.simps
      by (intro fold_update_good) simp_all
  qed (use c in \<open>simp add: policy_condition_of_json_def good_option_def\<close>)
qed

lemma those_condition_read:
  "list_all (\<lambda>(k, v). good_map (\<lambda>_. True) v) m \<Longrightarrow>
     those (map (\<lambda>(k, v). map_option (Pair k) (de_hash_map string_or_slice_variant v))
       (map (\<lambda>(k, v). (k, json_of_map (json_of_list JStr) v)) m)) =
     Some (map (\<lambda>(k, v). (k, map (\<lambda>(k, xs). (k, StringOrSliceSlice xs)) v)) m)"
proof (induction m)
  case (Cons a m)
  obtain k v where a: "a = (k, v)" by (cases a)
  let ?v = "map (\<lambda>(k, xs). (k, StringOrSliceSlice xs)) v"
  have "json_of_map (json_of_list JStr) v = json_of_map (\<lambda>s. json_of_list JStr (slice_of s)) ?v"
    by (auto simp: json_of_map_def)
  moreover have "good_map (\<lambda>s. \<exists>xs. s = StringOrSliceSlice xs) ?v"
    using Cons.prems map_values_good [of v StringOrSliceSlice] by (auto simp: a good_map_def list_all_iff)
  then have "de_hash_map string_or_slice_variant (json_of_map (\<lambda>s. json_of_list JStr (slice_of s)) ?v) = Some ?v"
    by (rule read_map) (auto simp: slice_variants)
  ultimately show ?case using Cons by (simp add: a)
qed simp

lemma policy_condition_read [read_back]:
  assumes "policy_condition_good m"
  shows "policy_condition_of_json (policy_condition_json m) = Some (Some m)"
proof -
  have good: "list_all (\<lambda>(k, v). good_map (\<lambda>_. True) v) m" "distinct (map fst m)"
    using assms by (simp_all add: policy_condition_good_def good_map_def)
  have same: "map (\<lambda>(key, val). (key, map (\<lambda>(k, v). (k, slice_of v)) val))
      (map (\<lambda>(k, v). (k, map (\<lambda>(k, xs). (k, StringOrSliceSlice xs)) v)) m) = m"
    by (auto simp: comp_def split_beta intro!: map_idI nth_equalityI)
  have "policy_condition_json m = JObj (map (\<lambda>(k, v). (k, json_of_map (json_of_list JStr) v)) m)"
    by (simp add: policy_condition_json_def json_of_map_def [of "json_of_map (json_of_list JStr)"])
  then show ?thesis
    using good fold_update_distinct [of "[]" m]
    by (simp del: map_map add: policy_condition_of_json_def fold_condition those_condition_read same)
qed

subsection \<open>\<^verbatim>\<open>iam\<close>\<close>

datatype iam_policy_effect =
    IamPolicyEffect_Allow | IamPolicyEffect_Deny

fun iam_policy_effect_name :: "iam_policy_effect \<Rightarrow> string" where
  "iam_policy_effect_name IamPolicyEffect_Allow = ''Allow''"
| "iam_policy_effect_name IamPolicyEffect_Deny = ''Deny''"

definition iam_policy_effect_json :: "iam_policy_effect \<Rightarrow> json" where
  "iam_policy_effect_json x = JStr (iam_policy_effect_name x)"

definition iam_policy_effect_of_json :: "json \<Rightarrow> iam_policy_effect option" where
  "iam_policy_effect_of_json = de_variant iam_policy_effect_name
     [IamPolicyEffect_Allow, IamPolicyEffect_Deny]"

lemma iam_policy_effect_not_null [simp]: "iam_policy_effect_json x \<noteq> JNull"
  by (simp add: iam_policy_effect_json_def)

lemma iam_policy_effect_read [read_back]: "iam_policy_effect_of_json (iam_policy_effect_json x) = Some x"
  by (cases x) (simp_all add: iam_policy_effect_of_json_def iam_policy_effect_json_def de_variant_def)

record iam_policy_statement =
  ips_action :: "string list"
  ips_effect :: iam_policy_effect
  ips_resource :: "string list"
  ips_condition :: "policy_condition option"

definition iam_policy_statement_json :: "iam_policy_statement \<Rightarrow> json" where
  "iam_policy_statement_json x = JObj
     ([(''Action'', json_of_list JStr (ips_action x)),
      (''Effect'', iam_policy_effect_json (ips_effect x)),
      (''Resource'', json_of_list JStr (ips_resource x))] @
      opt_field ''Condition'' policy_condition_json (ips_condition x))"

definition iam_policy_statement_of_json :: "json \<Rightarrow> iam_policy_statement option" where
  "iam_policy_statement_of_json j = do {
     kvs \<leftarrow> de_fields 3
       [''Action'', ''Effect'', ''Resource'', ''Condition''] j;
     x_action \<leftarrow> de_required string_or_slice_of_json [''Action''] kvs;
     x_effect \<leftarrow> de_default iam_policy_effect_of_json IamPolicyEffect_Allow [''Effect''] kvs;
     x_resource \<leftarrow> de_required string_or_slice_of_json [''Resource''] kvs;
     x_condition \<leftarrow> de_default policy_condition_of_json None [''Condition''] kvs;
     Some \<lparr>ips_action = x_action, ips_effect = x_effect, ips_resource = x_resource,
       ips_condition = x_condition\<rparr> }"

definition iam_policy_statement_good :: "iam_policy_statement \<Rightarrow> bool" where
  "iam_policy_statement_good x \<longleftrightarrow>
     good_option policy_condition_good (ips_condition x)"

lemma iam_policy_statement_not_null [simp]: "iam_policy_statement_json x \<noteq> JNull"
  by (simp add: iam_policy_statement_json_def)

lemma iam_policy_statement_read [read_back]: "iam_policy_statement_good x \<Longrightarrow>iam_policy_statement_of_json (iam_policy_statement_json x) = Some x"
  by (cases x) (simp add: iam_policy_statement_of_json_def iam_policy_statement_json_def iam_policy_statement_good_def read_back)

lemma iam_policy_statement_typed: "typed iam_policy_statement_good iam_policy_statement_of_json"
  unfolding typed_def iam_policy_statement_of_json_def iam_policy_statement_good_def
  by (auto simp: bind_eq_Some_conv dest!: typed_default [OF policy_condition_typed good_nil(2)])

record iam_policy_document =
  ipd_version :: "string option"
  ipd_statement :: "iam_policy_statement list"

definition iam_policy_document_json :: "iam_policy_document \<Rightarrow> json" where
  "iam_policy_document_json x = JObj
     ([(''Version'', json_of_option JStr (ipd_version x)),
      (''Statement'', json_of_list iam_policy_statement_json (ipd_statement x))])"

definition iam_policy_document_of_json :: "json \<Rightarrow> iam_policy_document option" where
  "iam_policy_document_of_json j = do {
     kvs \<leftarrow> de_fields 2
       [''Version'', ''Statement''] j;
     x_version \<leftarrow> de_opt_string ''Version'' kvs;
     x_statement \<leftarrow> de_required (de_list iam_policy_statement_of_json) [''Statement''] kvs;
     Some \<lparr>ipd_version = x_version, ipd_statement = x_statement\<rparr> }"

definition iam_policy_document_good :: "iam_policy_document \<Rightarrow> bool" where
  "iam_policy_document_good x \<longleftrightarrow>
     list_all iam_policy_statement_good (ipd_statement x)"

lemma iam_policy_document_not_null [simp]: "iam_policy_document_json x \<noteq> JNull"
  by (simp add: iam_policy_document_json_def)

lemma iam_policy_document_read [read_back]: "iam_policy_document_good x \<Longrightarrow>iam_policy_document_of_json (iam_policy_document_json x) = Some x"
  by (cases x) (simp add: iam_policy_document_of_json_def iam_policy_document_json_def iam_policy_document_good_def read_back)

lemma iam_policy_document_typed: "typed iam_policy_document_good iam_policy_document_of_json"
  unfolding typed_def iam_policy_document_of_json_def iam_policy_document_good_def
  by (auto simp: bind_eq_Some_conv dest!: typed_required [OF typed_list [OF iam_policy_statement_typed]])

subsection \<open>\<^verbatim>\<open>iot\<close>\<close>

record io_t_core_tls_context =
  itctc_server_name :: "string option"
  itctc_x509_certificate_pem :: "string option"
  itctc_principal_id :: "string option"

definition io_t_core_tls_context_json :: "io_t_core_tls_context \<Rightarrow> json" where
  "io_t_core_tls_context_json x = JObj
     ([(''serverName'', json_of_option JStr (itctc_server_name x)),
      (''x509CertificatePem'', json_of_option JStr (itctc_x509_certificate_pem x)),
      (''principalId'', json_of_option JStr (itctc_principal_id x))])"

definition io_t_core_tls_context_of_json :: "json \<Rightarrow> io_t_core_tls_context option" where
  "io_t_core_tls_context_of_json j = do {
     kvs \<leftarrow> de_fields 0
       [''serverName'', ''x509CertificatePem'', ''principalId''] j;
     x_server_name \<leftarrow> de_opt_string ''serverName'' kvs;
     x_x509_certificate_pem \<leftarrow> de_opt_string ''x509CertificatePem'' kvs;
     x_principal_id \<leftarrow> de_opt_string ''principalId'' kvs;
     Some \<lparr>itctc_server_name = x_server_name, itctc_x509_certificate_pem = x_x509_certificate_pem,
       itctc_principal_id = x_principal_id\<rparr> }"

lemma io_t_core_tls_context_not_null [simp]: "io_t_core_tls_context_json x \<noteq> JNull"
  by (simp add: io_t_core_tls_context_json_def)

lemma io_t_core_tls_context_read [read_back]: "io_t_core_tls_context_of_json (io_t_core_tls_context_json x) = Some x"
  by (cases x) (simp add: io_t_core_tls_context_of_json_def io_t_core_tls_context_json_def read_back)

record 'p io_t_core_http_context =
  itchc_headers :: 'p
  itchc_query_string :: "string option"

definition io_t_core_http_context_json :: "('p \<Rightarrow> json) \<Rightarrow> 'p io_t_core_http_context \<Rightarrow> json" where
  "io_t_core_http_context_json gp x = JObj
     ([(''headers'', gp (itchc_headers x)),
      (''queryString'', json_of_option JStr (itchc_query_string x))])"

definition io_t_core_http_context_of_json :: "(json \<Rightarrow> 'p option) \<Rightarrow> 'p \<Rightarrow> json \<Rightarrow> 'p io_t_core_http_context option" where
  "io_t_core_http_context_of_json fp dp j = do {
     kvs \<leftarrow> de_fields 0
       [''headers'', ''queryString''] j;
     x_headers \<leftarrow> de_default fp dp [''headers''] kvs;
     x_query_string \<leftarrow> de_opt_string ''queryString'' kvs;
     Some \<lparr>itchc_headers = x_headers, itchc_query_string = x_query_string\<rparr> }"

definition io_t_core_http_context_good :: "('p \<Rightarrow> bool) \<Rightarrow> 'p io_t_core_http_context \<Rightarrow> bool" where
  "io_t_core_http_context_good Pp x \<longleftrightarrow>
     Pp (itchc_headers x)"

lemma io_t_core_http_context_not_null [simp]: "io_t_core_http_context_json gp x \<noteq> JNull"
  by (simp add: io_t_core_http_context_json_def)

lemma io_t_core_http_context_read [read_back]: "io_t_core_http_context_good Pp x \<Longrightarrow> (\<And>x. Pp x \<Longrightarrow> fp (gp x) = Some x) \<Longrightarrow>io_t_core_http_context_of_json fp dp (io_t_core_http_context_json gp x) = Some x"
  by (cases x) (simp add: io_t_core_http_context_of_json_def io_t_core_http_context_json_def io_t_core_http_context_good_def read_back)

lemma io_t_core_http_context_typed:
  assumes typed_p: "typed Pp fp" and default_p: "Pp dp" shows "typed (io_t_core_http_context_good Pp) (io_t_core_http_context_of_json fp dp)"
  unfolding typed_def io_t_core_http_context_of_json_def io_t_core_http_context_good_def
  by (auto simp: bind_eq_Some_conv dest!: typed_default [OF typed_p default_p])

record io_t_core_mqtt_context =
  itcmc_client_id :: "string option"
  itcmc_password :: string
  itcmc_username :: "string option"

definition io_t_core_mqtt_context_json :: "'t event_env \<Rightarrow> io_t_core_mqtt_context \<Rightarrow> json" where
  "io_t_core_mqtt_context_json E x = JObj
     ([(''clientId'', json_of_option JStr (itcmc_client_id x)),
      (''password'', json_of_base64 E (itcmc_password x)),
      (''username'', json_of_option JStr (itcmc_username x))])"

definition io_t_core_mqtt_context_of_json :: "'t event_env \<Rightarrow> json \<Rightarrow> io_t_core_mqtt_context option" where
  "io_t_core_mqtt_context_of_json E j = do {
     kvs \<leftarrow> de_fields 0
       [''clientId'', ''password'', ''username''] j;
     x_client_id \<leftarrow> de_opt_string ''clientId'' kvs;
     x_password \<leftarrow> de_default (base64_of_json E) [] [''password''] kvs;
     x_username \<leftarrow> de_opt_string ''username'' kvs;
     Some \<lparr>itcmc_client_id = x_client_id, itcmc_password = x_password, itcmc_username = x_username\<rparr> }"

lemma io_t_core_mqtt_context_not_null [simp]: "io_t_core_mqtt_context_json E x \<noteq> JNull"
  by (simp add: io_t_core_mqtt_context_json_def)

lemma io_t_core_mqtt_context_read [read_back]: "event_crates E \<Longrightarrow>io_t_core_mqtt_context_of_json E (io_t_core_mqtt_context_json E x) = Some x"
  by (cases x) (simp add: io_t_core_mqtt_context_of_json_def io_t_core_mqtt_context_json_def read_back)

record io_t_core_connection_metadata =
  itccm_id :: "string option"

definition io_t_core_connection_metadata_json :: "io_t_core_connection_metadata \<Rightarrow> json" where
  "io_t_core_connection_metadata_json x = JObj
     ([(''id'', json_of_option JStr (itccm_id x))])"

definition io_t_core_connection_metadata_of_json :: "json \<Rightarrow> io_t_core_connection_metadata option" where
  "io_t_core_connection_metadata_of_json j = do {
     kvs \<leftarrow> de_fields 0
       [''id''] j;
     x_id \<leftarrow> de_opt_string ''id'' kvs;
     Some \<lparr>itccm_id = x_id\<rparr> }"

lemma io_t_core_connection_metadata_not_null [simp]: "io_t_core_connection_metadata_json x \<noteq> JNull"
  by (simp add: io_t_core_connection_metadata_json_def)

lemma io_t_core_connection_metadata_read [read_back]: "io_t_core_connection_metadata_of_json (io_t_core_connection_metadata_json x) = Some x"
  by (cases x) (simp add: io_t_core_connection_metadata_of_json_def io_t_core_connection_metadata_json_def read_back)

record io_t_core_custom_authorizer_response =
  itccar_is_authenticated :: bool
  itccar_principal_id :: "string option"
  itccar_disconnect_after_in_seconds :: nat
  itccar_refresh_after_in_seconds :: nat
  itccar_policy_documents :: "(iam_policy_document option) list"

definition io_t_core_custom_authorizer_response_json :: "io_t_core_custom_authorizer_response \<Rightarrow> json" where
  "io_t_core_custom_authorizer_response_json x = JObj
     ([(''isAuthenticated'', JBool (itccar_is_authenticated x)),
      (''principalId'', json_of_option JStr (itccar_principal_id x)),
      (''disconnectAfterInSeconds'', json_of_nat (itccar_disconnect_after_in_seconds x)),
      (''refreshAfterInSeconds'', json_of_nat (itccar_refresh_after_in_seconds x)),
      (''policyDocuments'', json_of_list (json_of_option iam_policy_document_json) (itccar_policy_documents x))])"

definition io_t_core_custom_authorizer_response_of_json :: "json \<Rightarrow> io_t_core_custom_authorizer_response option" where
  "io_t_core_custom_authorizer_response_of_json j = do {
     kvs \<leftarrow> de_fields 5
       [''isAuthenticated'', ''principalId'', ''disconnectAfterInSeconds'',
        ''refreshAfterInSeconds'', ''policyDocuments''] j;
     x_is_authenticated \<leftarrow> de_required de_bool [''isAuthenticated''] kvs;
     x_principal_id \<leftarrow> de_opt_string ''principalId'' kvs;
     x_disconnect_after_in_seconds \<leftarrow> de_required (de_unsigned u32_max) [''disconnectAfterInSeconds''] kvs;
     x_refresh_after_in_seconds \<leftarrow> de_required (de_unsigned u32_max) [''refreshAfterInSeconds''] kvs;
     x_policy_documents \<leftarrow> de_required (de_list (de_option iam_policy_document_of_json)) [''policyDocuments''] kvs;
     Some \<lparr>itccar_is_authenticated = x_is_authenticated, itccar_principal_id = x_principal_id,
       itccar_disconnect_after_in_seconds = x_disconnect_after_in_seconds,
       itccar_refresh_after_in_seconds = x_refresh_after_in_seconds,
       itccar_policy_documents = x_policy_documents\<rparr> }"

definition io_t_core_custom_authorizer_response_good :: "io_t_core_custom_authorizer_response \<Rightarrow> bool" where
  "io_t_core_custom_authorizer_response_good x \<longleftrightarrow>
     good_nat u32_max (itccar_disconnect_after_in_seconds x) \<and>
     good_nat u32_max (itccar_refresh_after_in_seconds x) \<and>
     list_all (good_option iam_policy_document_good) (itccar_policy_documents x)"

lemma io_t_core_custom_authorizer_response_not_null [simp]: "io_t_core_custom_authorizer_response_json x \<noteq> JNull"
  by (simp add: io_t_core_custom_authorizer_response_json_def)

lemma io_t_core_custom_authorizer_response_read [read_back]: "io_t_core_custom_authorizer_response_good x \<Longrightarrow>io_t_core_custom_authorizer_response_of_json (io_t_core_custom_authorizer_response_json x) = Some x"
  by (cases x) (clarsimp simp: io_t_core_custom_authorizer_response_of_json_def io_t_core_custom_authorizer_response_json_def io_t_core_custom_authorizer_response_good_def read_back)

lemma io_t_core_custom_authorizer_response_typed: "typed io_t_core_custom_authorizer_response_good io_t_core_custom_authorizer_response_of_json"
  unfolding typed_def io_t_core_custom_authorizer_response_of_json_def io_t_core_custom_authorizer_response_good_def
  by (auto simp: bind_eq_Some_conv dest!: typed_required [OF typed_nat]
      typed_required [OF typed_list [OF typed_option [OF iam_policy_document_typed]]])

record 'p io_t_core_protocol_data =
  itcpd_tls :: "io_t_core_tls_context option"
  itcpd_http :: "('p io_t_core_http_context) option"
  itcpd_mqtt :: "io_t_core_mqtt_context option"

definition io_t_core_protocol_data_json :: "'t event_env \<Rightarrow> ('p \<Rightarrow> json) \<Rightarrow> 'p io_t_core_protocol_data \<Rightarrow> json" where
  "io_t_core_protocol_data_json E gp x = JObj
     ([(''tls'', json_of_option io_t_core_tls_context_json (itcpd_tls x)),
      (''http'', json_of_option (io_t_core_http_context_json gp) (itcpd_http x)),
      (''mqtt'', json_of_option (io_t_core_mqtt_context_json E) (itcpd_mqtt x))])"

definition io_t_core_protocol_data_of_json :: "'t event_env \<Rightarrow> (json \<Rightarrow> 'p option) \<Rightarrow> 'p \<Rightarrow> json \<Rightarrow> 'p io_t_core_protocol_data option" where
  "io_t_core_protocol_data_of_json E fp dp j = do {
     kvs \<leftarrow> de_fields 3
       [''tls'', ''http'', ''mqtt''] j;
     x_tls \<leftarrow> de_optional io_t_core_tls_context_of_json [''tls''] kvs;
     x_http \<leftarrow> de_optional (io_t_core_http_context_of_json fp dp) [''http''] kvs;
     x_mqtt \<leftarrow> de_optional (io_t_core_mqtt_context_of_json E) [''mqtt''] kvs;
     Some \<lparr>itcpd_tls = x_tls, itcpd_http = x_http, itcpd_mqtt = x_mqtt\<rparr> }"

definition io_t_core_protocol_data_good :: "('p \<Rightarrow> bool) \<Rightarrow> 'p io_t_core_protocol_data \<Rightarrow> bool" where
  "io_t_core_protocol_data_good Pp x \<longleftrightarrow>
     good_option (io_t_core_http_context_good Pp) (itcpd_http x)"

lemma io_t_core_protocol_data_not_null [simp]: "io_t_core_protocol_data_json E gp x \<noteq> JNull"
  by (simp add: io_t_core_protocol_data_json_def)

lemma io_t_core_protocol_data_read [read_back]: "io_t_core_protocol_data_good Pp x \<Longrightarrow> event_crates E \<Longrightarrow> (\<And>x. Pp x \<Longrightarrow> fp (gp x) = Some x) \<Longrightarrow>io_t_core_protocol_data_of_json E fp dp (io_t_core_protocol_data_json E gp x) = Some x"
  by (cases x) (simp add: io_t_core_protocol_data_of_json_def io_t_core_protocol_data_json_def io_t_core_protocol_data_good_def read_back)

lemma io_t_core_protocol_data_typed:
  assumes typed_p: "typed Pp fp" and default_p: "Pp dp" shows "typed (io_t_core_protocol_data_good Pp) (io_t_core_protocol_data_of_json E fp dp)"
  unfolding typed_def io_t_core_protocol_data_of_json_def io_t_core_protocol_data_good_def
  by (auto simp: bind_eq_Some_conv dest!: typed_optional [OF io_t_core_http_context_typed [OF typed_p default_p]])

record 'p io_t_core_custom_authorizer_request =
  itccare_token :: "string option"
  itccare_signature_verified :: bool
  itccare_protocols :: "string list"
  itccare_protocol_data :: "('p io_t_core_protocol_data) option"
  itccare_connection_metadata :: "io_t_core_connection_metadata option"

definition io_t_core_custom_authorizer_request_json :: "'t event_env \<Rightarrow> ('p \<Rightarrow> json) \<Rightarrow> 'p io_t_core_custom_authorizer_request \<Rightarrow> json" where
  "io_t_core_custom_authorizer_request_json E gp x = JObj
     ([(''token'', json_of_option JStr (itccare_token x)),
      (''signatureVerified'', JBool (itccare_signature_verified x)),
      (''protocols'', json_of_list JStr (itccare_protocols x)),
      (''protocolData'', json_of_option (io_t_core_protocol_data_json E gp) (itccare_protocol_data x)),
      (''connectionMetadata'', json_of_option io_t_core_connection_metadata_json (itccare_connection_metadata x))])"

definition io_t_core_custom_authorizer_request_of_json :: "'t event_env \<Rightarrow> (json \<Rightarrow> 'p option) \<Rightarrow> 'p \<Rightarrow> json \<Rightarrow> 'p io_t_core_custom_authorizer_request option" where
  "io_t_core_custom_authorizer_request_of_json E fp dp j = do {
     kvs \<leftarrow> de_fields 5
       [''token'', ''signatureVerified'', ''protocols'', ''protocolData'', ''connectionMetadata''] j;
     x_token \<leftarrow> de_opt_string ''token'' kvs;
     x_signature_verified \<leftarrow> de_required de_bool [''signatureVerified''] kvs;
     x_protocols \<leftarrow> de_required (de_list de_string) [''protocols''] kvs;
     x_protocol_data \<leftarrow> de_optional (io_t_core_protocol_data_of_json E fp dp) [''protocolData''] kvs;
     x_connection_metadata \<leftarrow> de_optional io_t_core_connection_metadata_of_json [''connectionMetadata''] kvs;
     Some \<lparr>itccare_token = x_token, itccare_signature_verified = x_signature_verified,
       itccare_protocols = x_protocols, itccare_protocol_data = x_protocol_data,
       itccare_connection_metadata = x_connection_metadata\<rparr> }"

definition io_t_core_custom_authorizer_request_good :: "('p \<Rightarrow> bool) \<Rightarrow> 'p io_t_core_custom_authorizer_request \<Rightarrow> bool" where
  "io_t_core_custom_authorizer_request_good Pp x \<longleftrightarrow>
     good_option (io_t_core_protocol_data_good Pp) (itccare_protocol_data x)"

lemma io_t_core_custom_authorizer_request_not_null [simp]: "io_t_core_custom_authorizer_request_json E gp x \<noteq> JNull"
  by (simp add: io_t_core_custom_authorizer_request_json_def)

lemma io_t_core_custom_authorizer_request_read [read_back]: "io_t_core_custom_authorizer_request_good Pp x \<Longrightarrow> event_crates E \<Longrightarrow> (\<And>x. Pp x \<Longrightarrow> fp (gp x) = Some x) \<Longrightarrow>io_t_core_custom_authorizer_request_of_json E fp dp (io_t_core_custom_authorizer_request_json E gp x) = Some x"
  by (cases x) (simp add: io_t_core_custom_authorizer_request_of_json_def io_t_core_custom_authorizer_request_json_def io_t_core_custom_authorizer_request_good_def read_back)

lemma io_t_core_custom_authorizer_request_typed:
  assumes typed_p: "typed Pp fp" and default_p: "Pp dp" shows "typed (io_t_core_custom_authorizer_request_good Pp) (io_t_core_custom_authorizer_request_of_json E fp dp)"
  unfolding typed_def io_t_core_custom_authorizer_request_of_json_def io_t_core_custom_authorizer_request_good_def
  by (auto simp: bind_eq_Some_conv dest!: typed_optional [OF io_t_core_protocol_data_typed [OF typed_p default_p]])

subsection \<open>\<^verbatim>\<open>iot_deprecated\<close>\<close>

record 'p io_t_custom_authorizer_request =
  itcar_http_context :: "('p io_t_core_http_context) option"
  itcar_mqtt_context :: "io_t_core_mqtt_context option"
  itcar_tls_context :: "io_t_core_tls_context option"
  itcar_authorization_token :: "string option"
  itcar_token_signature :: "string option"

definition io_t_custom_authorizer_request_json :: "'t event_env \<Rightarrow> ('p \<Rightarrow> json) \<Rightarrow> 'p io_t_custom_authorizer_request \<Rightarrow> json" where
  "io_t_custom_authorizer_request_json E gp x = JObj
     ([(''httpContext'', json_of_option (io_t_core_http_context_json gp) (itcar_http_context x)),
      (''mqttContext'', json_of_option (io_t_core_mqtt_context_json E) (itcar_mqtt_context x)),
      (''tlsContext'', json_of_option io_t_core_tls_context_json (itcar_tls_context x)),
      (''token'', json_of_option JStr (itcar_authorization_token x)),
      (''tokenSignature'', json_of_option JStr (itcar_token_signature x))])"

definition io_t_custom_authorizer_request_of_json :: "'t event_env \<Rightarrow> (json \<Rightarrow> 'p option) \<Rightarrow> 'p \<Rightarrow> json \<Rightarrow> 'p io_t_custom_authorizer_request option" where
  "io_t_custom_authorizer_request_of_json E fp dp j = do {
     kvs \<leftarrow> de_fields 3
       [''httpContext'', ''mqttContext'', ''tlsContext'', ''token'', ''tokenSignature''] j;
     x_http_context \<leftarrow> de_optional (io_t_core_http_context_of_json fp dp) [''httpContext''] kvs;
     x_mqtt_context \<leftarrow> de_optional (io_t_core_mqtt_context_of_json E) [''mqttContext''] kvs;
     x_tls_context \<leftarrow> de_optional io_t_core_tls_context_of_json [''tlsContext''] kvs;
     x_authorization_token \<leftarrow> de_opt_string ''token'' kvs;
     x_token_signature \<leftarrow> de_opt_string ''tokenSignature'' kvs;
     Some \<lparr>itcar_http_context = x_http_context, itcar_mqtt_context = x_mqtt_context,
       itcar_tls_context = x_tls_context, itcar_authorization_token = x_authorization_token,
       itcar_token_signature = x_token_signature\<rparr> }"

definition io_t_custom_authorizer_request_good :: "('p \<Rightarrow> bool) \<Rightarrow> 'p io_t_custom_authorizer_request \<Rightarrow> bool" where
  "io_t_custom_authorizer_request_good Pp x \<longleftrightarrow>
     good_option (io_t_core_http_context_good Pp) (itcar_http_context x)"

lemma io_t_custom_authorizer_request_not_null [simp]: "io_t_custom_authorizer_request_json E gp x \<noteq> JNull"
  by (simp add: io_t_custom_authorizer_request_json_def)

lemma io_t_custom_authorizer_request_read [read_back]: "io_t_custom_authorizer_request_good Pp x \<Longrightarrow> event_crates E \<Longrightarrow> (\<And>x. Pp x \<Longrightarrow> fp (gp x) = Some x) \<Longrightarrow>io_t_custom_authorizer_request_of_json E fp dp (io_t_custom_authorizer_request_json E gp x) = Some x"
  by (cases x) (simp add: io_t_custom_authorizer_request_of_json_def io_t_custom_authorizer_request_json_def io_t_custom_authorizer_request_good_def read_back)

lemma io_t_custom_authorizer_request_typed:
  assumes typed_p: "typed Pp fp" and default_p: "Pp dp" shows "typed (io_t_custom_authorizer_request_good Pp) (io_t_custom_authorizer_request_of_json E fp dp)"
  unfolding typed_def io_t_custom_authorizer_request_of_json_def io_t_custom_authorizer_request_good_def
  by (auto simp: bind_eq_Some_conv dest!: typed_optional [OF io_t_core_http_context_typed [OF typed_p default_p]])

record io_t_custom_authorizer_response =
  itcare_is_authenticated :: bool
  itcare_principal_id :: "string option"
  itcare_disconnect_after_in_seconds :: int
  itcare_refresh_after_in_seconds :: int
  itcare_policy_documents :: "string list"

definition io_t_custom_authorizer_response_json :: "io_t_custom_authorizer_response \<Rightarrow> json" where
  "io_t_custom_authorizer_response_json x = JObj
     ([(''isAuthenticated'', JBool (itcare_is_authenticated x)),
      (''principalId'', json_of_option JStr (itcare_principal_id x)),
      (''disconnectAfterInSeconds'', JInt (itcare_disconnect_after_in_seconds x)),
      (''refreshAfterInSeconds'', JInt (itcare_refresh_after_in_seconds x)),
      (''policyDocuments'', json_of_list JStr (itcare_policy_documents x))])"

definition io_t_custom_authorizer_response_of_json :: "json \<Rightarrow> io_t_custom_authorizer_response option" where
  "io_t_custom_authorizer_response_of_json j = do {
     kvs \<leftarrow> de_fields 5
       [''isAuthenticated'', ''principalId'', ''disconnectAfterInSeconds'',
        ''refreshAfterInSeconds'', ''policyDocuments''] j;
     x_is_authenticated \<leftarrow> de_required de_bool [''isAuthenticated''] kvs;
     x_principal_id \<leftarrow> de_opt_string ''principalId'' kvs;
     x_disconnect_after_in_seconds \<leftarrow> de_required de_i32 [''disconnectAfterInSeconds''] kvs;
     x_refresh_after_in_seconds \<leftarrow> de_required de_i32 [''refreshAfterInSeconds''] kvs;
     x_policy_documents \<leftarrow> de_required (de_list de_string) [''policyDocuments''] kvs;
     Some \<lparr>itcare_is_authenticated = x_is_authenticated, itcare_principal_id = x_principal_id,
       itcare_disconnect_after_in_seconds = x_disconnect_after_in_seconds,
       itcare_refresh_after_in_seconds = x_refresh_after_in_seconds,
       itcare_policy_documents = x_policy_documents\<rparr> }"

definition io_t_custom_authorizer_response_good :: "io_t_custom_authorizer_response \<Rightarrow> bool" where
  "io_t_custom_authorizer_response_good x \<longleftrightarrow>
     good_i32 (itcare_disconnect_after_in_seconds x) \<and>
     good_i32 (itcare_refresh_after_in_seconds x)"

lemma io_t_custom_authorizer_response_not_null [simp]: "io_t_custom_authorizer_response_json x \<noteq> JNull"
  by (simp add: io_t_custom_authorizer_response_json_def)

lemma io_t_custom_authorizer_response_read [read_back]: "io_t_custom_authorizer_response_good x \<Longrightarrow>io_t_custom_authorizer_response_of_json (io_t_custom_authorizer_response_json x) = Some x"
  by (cases x) (clarsimp simp: io_t_custom_authorizer_response_of_json_def io_t_custom_authorizer_response_json_def io_t_custom_authorizer_response_good_def read_back)

lemma io_t_custom_authorizer_response_typed: "typed io_t_custom_authorizer_response_good io_t_custom_authorizer_response_of_json"
  unfolding typed_def io_t_custom_authorizer_response_of_json_def io_t_custom_authorizer_response_good_def
  by (auto simp: bind_eq_Some_conv dest!: typed_required [OF typed_i32])

subsection \<open>\<^verbatim>\<open>apigw\<close>\<close>

record 'p api_gateway_v2_custom_authorizer_simple_response =
  agvcasr_is_authorized :: bool
  agvcasr_context :: 'p

definition api_gateway_v2_custom_authorizer_simple_response_json :: "('p \<Rightarrow> json) \<Rightarrow> 'p api_gateway_v2_custom_authorizer_simple_response \<Rightarrow> json" where
  "api_gateway_v2_custom_authorizer_simple_response_json gp x = JObj
     ([(''isAuthorized'', JBool (agvcasr_is_authorized x)),
      (''context'', gp (agvcasr_context x))])"

definition api_gateway_v2_custom_authorizer_simple_response_of_json :: "(json \<Rightarrow> 'p option) \<Rightarrow> 'p \<Rightarrow> json \<Rightarrow> 'p api_gateway_v2_custom_authorizer_simple_response option" where
  "api_gateway_v2_custom_authorizer_simple_response_of_json fp dp j = do {
     kvs \<leftarrow> de_fields 1
       [''isAuthorized'', ''context''] j;
     x_is_authorized \<leftarrow> de_required de_bool [''isAuthorized''] kvs;
     x_context \<leftarrow> de_default fp dp [''context''] kvs;
     Some \<lparr>agvcasr_is_authorized = x_is_authorized, agvcasr_context = x_context\<rparr> }"

definition api_gateway_v2_custom_authorizer_simple_response_good :: "('p \<Rightarrow> bool) \<Rightarrow> 'p api_gateway_v2_custom_authorizer_simple_response \<Rightarrow> bool" where
  "api_gateway_v2_custom_authorizer_simple_response_good Pp x \<longleftrightarrow>
     Pp (agvcasr_context x)"

lemma api_gateway_v2_custom_authorizer_simple_response_not_null [simp]: "api_gateway_v2_custom_authorizer_simple_response_json gp x \<noteq> JNull"
  by (simp add: api_gateway_v2_custom_authorizer_simple_response_json_def)

lemma api_gateway_v2_custom_authorizer_simple_response_read [read_back]: "api_gateway_v2_custom_authorizer_simple_response_good Pp x \<Longrightarrow> (\<And>x. Pp x \<Longrightarrow> fp (gp x) = Some x) \<Longrightarrow>api_gateway_v2_custom_authorizer_simple_response_of_json fp dp (api_gateway_v2_custom_authorizer_simple_response_json gp x) = Some x"
  by (cases x) (simp add: api_gateway_v2_custom_authorizer_simple_response_of_json_def api_gateway_v2_custom_authorizer_simple_response_json_def api_gateway_v2_custom_authorizer_simple_response_good_def read_back)

lemma api_gateway_v2_custom_authorizer_simple_response_typed:
  assumes typed_p: "typed Pp fp" and default_p: "Pp dp" shows "typed (api_gateway_v2_custom_authorizer_simple_response_good Pp) (api_gateway_v2_custom_authorizer_simple_response_of_json fp dp)"
  unfolding typed_def api_gateway_v2_custom_authorizer_simple_response_of_json_def api_gateway_v2_custom_authorizer_simple_response_good_def
  by (auto simp: bind_eq_Some_conv dest!: typed_default [OF typed_p default_p])

record api_gateway_custom_authorizer_policy =
  agcap_version :: "string option"
  agcap_statement :: "iam_policy_statement list"

definition api_gateway_custom_authorizer_policy_json :: "api_gateway_custom_authorizer_policy \<Rightarrow> json" where
  "api_gateway_custom_authorizer_policy_json x = JObj
     ([(''Version'', json_of_option JStr (agcap_version x)),
      (''Statement'', json_of_list iam_policy_statement_json (agcap_statement x))])"

definition api_gateway_custom_authorizer_policy_of_json :: "json \<Rightarrow> api_gateway_custom_authorizer_policy option" where
  "api_gateway_custom_authorizer_policy_of_json j = do {
     kvs \<leftarrow> de_fields 2
       [''Version'', ''Statement''] j;
     x_version \<leftarrow> de_opt_string ''Version'' kvs;
     x_statement \<leftarrow> de_required (de_list iam_policy_statement_of_json) [''Statement''] kvs;
     Some \<lparr>agcap_version = x_version, agcap_statement = x_statement\<rparr> }"

definition api_gateway_custom_authorizer_policy_good :: "api_gateway_custom_authorizer_policy \<Rightarrow> bool" where
  "api_gateway_custom_authorizer_policy_good x \<longleftrightarrow>
     list_all iam_policy_statement_good (agcap_statement x)"

lemma api_gateway_custom_authorizer_policy_not_null [simp]: "api_gateway_custom_authorizer_policy_json x \<noteq> JNull"
  by (simp add: api_gateway_custom_authorizer_policy_json_def)

lemma api_gateway_custom_authorizer_policy_read [read_back]: "api_gateway_custom_authorizer_policy_good x \<Longrightarrow>api_gateway_custom_authorizer_policy_of_json (api_gateway_custom_authorizer_policy_json x) = Some x"
  by (cases x) (simp add: api_gateway_custom_authorizer_policy_of_json_def api_gateway_custom_authorizer_policy_json_def api_gateway_custom_authorizer_policy_good_def read_back)

lemma api_gateway_custom_authorizer_policy_typed: "typed api_gateway_custom_authorizer_policy_good api_gateway_custom_authorizer_policy_of_json"
  unfolding typed_def api_gateway_custom_authorizer_policy_of_json_def api_gateway_custom_authorizer_policy_good_def
  by (auto simp: bind_eq_Some_conv dest!: typed_required [OF typed_list [OF iam_policy_statement_typed]])

record 'p api_gateway_custom_authorizer_response =
  agcar_principal_id :: "string option"
  agcar_policy_document :: api_gateway_custom_authorizer_policy
  agcar_context :: 'p
  agcar_usage_identifier_key :: "string option"

definition api_gateway_custom_authorizer_response_json :: "('p \<Rightarrow> json) \<Rightarrow> 'p api_gateway_custom_authorizer_response \<Rightarrow> json" where
  "api_gateway_custom_authorizer_response_json gp x = JObj
     ([(''principalId'', json_of_option JStr (agcar_principal_id x)),
      (''policyDocument'', api_gateway_custom_authorizer_policy_json (agcar_policy_document x)),
      (''context'', gp (agcar_context x)),
      (''usageIdentifierKey'', json_of_option JStr (agcar_usage_identifier_key x))])"

definition api_gateway_custom_authorizer_response_of_json :: "(json \<Rightarrow> 'p option) \<Rightarrow> 'p \<Rightarrow> json \<Rightarrow> 'p api_gateway_custom_authorizer_response option" where
  "api_gateway_custom_authorizer_response_of_json fp dp j = do {
     kvs \<leftarrow> de_fields 4
       [''principalId'', ''policyDocument'', ''context'', ''usageIdentifierKey''] j;
     x_principal_id \<leftarrow> de_opt_string ''principalId'' kvs;
     x_policy_document \<leftarrow> de_required api_gateway_custom_authorizer_policy_of_json [''policyDocument''] kvs;
     x_context \<leftarrow> de_default fp dp [''context''] kvs;
     x_usage_identifier_key \<leftarrow> de_opt_string ''usageIdentifierKey'' kvs;
     Some \<lparr>agcar_principal_id = x_principal_id, agcar_policy_document = x_policy_document,
       agcar_context = x_context, agcar_usage_identifier_key = x_usage_identifier_key\<rparr> }"

definition api_gateway_custom_authorizer_response_good :: "('p \<Rightarrow> bool) \<Rightarrow> 'p api_gateway_custom_authorizer_response \<Rightarrow> bool" where
  "api_gateway_custom_authorizer_response_good Pp x \<longleftrightarrow>
     api_gateway_custom_authorizer_policy_good (agcar_policy_document x) \<and>
     Pp (agcar_context x)"

lemma api_gateway_custom_authorizer_response_not_null [simp]: "api_gateway_custom_authorizer_response_json gp x \<noteq> JNull"
  by (simp add: api_gateway_custom_authorizer_response_json_def)

lemma api_gateway_custom_authorizer_response_read [read_back]: "api_gateway_custom_authorizer_response_good Pp x \<Longrightarrow> (\<And>x. Pp x \<Longrightarrow> fp (gp x) = Some x) \<Longrightarrow>api_gateway_custom_authorizer_response_of_json fp dp (api_gateway_custom_authorizer_response_json gp x) = Some x"
  by (cases x) (clarsimp simp: api_gateway_custom_authorizer_response_of_json_def api_gateway_custom_authorizer_response_json_def api_gateway_custom_authorizer_response_good_def read_back)

lemma api_gateway_custom_authorizer_response_typed:
  assumes typed_p: "typed Pp fp" and default_p: "Pp dp" shows "typed (api_gateway_custom_authorizer_response_good Pp) (api_gateway_custom_authorizer_response_of_json fp dp)"
  unfolding typed_def api_gateway_custom_authorizer_response_of_json_def api_gateway_custom_authorizer_response_good_def
  by (auto simp: bind_eq_Some_conv dest!: typed_required [OF api_gateway_custom_authorizer_policy_typed]
      typed_default [OF typed_p default_p])

record 'p api_gateway_v2_custom_authorizer_iam_policy_response =
  agvcaipr_principal_id :: "string option"
  agvcaipr_policy_document :: api_gateway_custom_authorizer_policy
  agvcaipr_context :: 'p

definition api_gateway_v2_custom_authorizer_iam_policy_response_json :: "('p \<Rightarrow> json) \<Rightarrow> 'p api_gateway_v2_custom_authorizer_iam_policy_response \<Rightarrow> json" where
  "api_gateway_v2_custom_authorizer_iam_policy_response_json gp x = JObj
     ([(''principalId'', json_of_option JStr (agvcaipr_principal_id x)),
      (''policyDocument'', api_gateway_custom_authorizer_policy_json (agvcaipr_policy_document x)),
      (''context'', gp (agvcaipr_context x))])"

definition api_gateway_v2_custom_authorizer_iam_policy_response_of_json :: "(json \<Rightarrow> 'p option) \<Rightarrow> 'p \<Rightarrow> json \<Rightarrow> 'p api_gateway_v2_custom_authorizer_iam_policy_response option" where
  "api_gateway_v2_custom_authorizer_iam_policy_response_of_json fp dp j = do {
     kvs \<leftarrow> de_fields 2
       [''principalId'', ''policyDocument'', ''context''] j;
     x_principal_id \<leftarrow> de_opt_string ''principalId'' kvs;
     x_policy_document \<leftarrow> de_required api_gateway_custom_authorizer_policy_of_json [''policyDocument''] kvs;
     x_context \<leftarrow> de_default fp dp [''context''] kvs;
     Some \<lparr>agvcaipr_principal_id = x_principal_id, agvcaipr_policy_document = x_policy_document,
       agvcaipr_context = x_context\<rparr> }"

definition api_gateway_v2_custom_authorizer_iam_policy_response_good :: "('p \<Rightarrow> bool) \<Rightarrow> 'p api_gateway_v2_custom_authorizer_iam_policy_response \<Rightarrow> bool" where
  "api_gateway_v2_custom_authorizer_iam_policy_response_good Pp x \<longleftrightarrow>
     api_gateway_custom_authorizer_policy_good (agvcaipr_policy_document x) \<and>
     Pp (agvcaipr_context x)"

lemma api_gateway_v2_custom_authorizer_iam_policy_response_not_null [simp]: "api_gateway_v2_custom_authorizer_iam_policy_response_json gp x \<noteq> JNull"
  by (simp add: api_gateway_v2_custom_authorizer_iam_policy_response_json_def)

lemma api_gateway_v2_custom_authorizer_iam_policy_response_read [read_back]: "api_gateway_v2_custom_authorizer_iam_policy_response_good Pp x \<Longrightarrow> (\<And>x. Pp x \<Longrightarrow> fp (gp x) = Some x) \<Longrightarrow>api_gateway_v2_custom_authorizer_iam_policy_response_of_json fp dp (api_gateway_v2_custom_authorizer_iam_policy_response_json gp x) = Some x"
  by (cases x) (clarsimp simp: api_gateway_v2_custom_authorizer_iam_policy_response_of_json_def api_gateway_v2_custom_authorizer_iam_policy_response_json_def api_gateway_v2_custom_authorizer_iam_policy_response_good_def read_back)

lemma api_gateway_v2_custom_authorizer_iam_policy_response_typed:
  assumes typed_p: "typed Pp fp" and default_p: "Pp dp" shows "typed (api_gateway_v2_custom_authorizer_iam_policy_response_good Pp) (api_gateway_v2_custom_authorizer_iam_policy_response_of_json fp dp)"
  unfolding typed_def api_gateway_v2_custom_authorizer_iam_policy_response_of_json_def api_gateway_v2_custom_authorizer_iam_policy_response_good_def
  by (auto simp: bind_eq_Some_conv dest!: typed_required [OF api_gateway_custom_authorizer_policy_typed]
      typed_default [OF typed_p default_p])

subsection \<open>Reading what was written\<close>

text \<open>
  Policies and the responses of custom authorizers: what is read is well formed, and what it is
  written to is read as the same value.
\<close>

lemma policy_events_reparse:
  assumes "event_crates E"
    and typed: "typed P f"
    and inverse: "\<And>x. P x \<Longrightarrow> f (g x) = Some x"
    and default: "P d"
  shows "reparses io_t_core_custom_authorizer_response_good io_t_core_custom_authorizer_response_of_json io_t_core_custom_authorizer_response_json \<and>
    reparses (io_t_core_custom_authorizer_request_good P) (io_t_core_custom_authorizer_request_of_json E f d) (io_t_core_custom_authorizer_request_json E g) \<and>
    reparses (io_t_custom_authorizer_request_good P) (io_t_custom_authorizer_request_of_json E f d) (io_t_custom_authorizer_request_json E g) \<and>
    reparses io_t_custom_authorizer_response_good io_t_custom_authorizer_response_of_json io_t_custom_authorizer_response_json \<and>
    reparses (api_gateway_v2_custom_authorizer_simple_response_good P) (api_gateway_v2_custom_authorizer_simple_response_of_json f d) (api_gateway_v2_custom_authorizer_simple_response_json g) \<and>
    reparses (api_gateway_custom_authorizer_response_good P) (api_gateway_custom_authorizer_response_of_json f d) (api_gateway_custom_authorizer_response_json g) \<and>
    reparses (api_gateway_v2_custom_authorizer_iam_policy_response_good P) (api_gateway_v2_custom_authorizer_iam_policy_response_of_json f d) (api_gateway_v2_custom_authorizer_iam_policy_response_json g)"
  by (intro conjI reparsesI typed_True typed_nn io_t_core_custom_authorizer_response_typed
      io_t_core_custom_authorizer_request_typed
      io_t_custom_authorizer_request_typed
      io_t_custom_authorizer_response_typed
      api_gateway_v2_custom_authorizer_simple_response_typed
      api_gateway_custom_authorizer_response_typed
      api_gateway_v2_custom_authorizer_iam_policy_response_typed)
    (auto simp: assms read_back)

end
