(* ===== verification/UnionEvents.thy ===== *)
theory UnionEvents
  imports EventSerde
begin

text \<open>
  The events that are tagged unions: requests to CloudFormation custom resources and to the CDK provider
  framework, and the change events of DocumentDB (\<^verbatim>\<open>lambda-events/src/event\<close>).
  Each structure has its record, the serialiser and the deserialiser that \<^verbatim>\<open>derive\<close>
  generates from its attributes, well-formedness where its fields restrict it, and the lemmas that
  what is read is well formed and what is written is read back. Structures are in the order
  their fields need.
\<close>

subsection \<open>\<^verbatim>\<open>cloudformation\<close>\<close>

record 'p create_request =
  cre_service_token :: "string option"
  cre_request_id :: string
  cre_response_url :: string
  cre_stack_id :: string
  cre_resource_type :: string
  cre_logical_resource_id :: string
  cre_resource_properties :: 'p

definition create_request_json :: "('p \<Rightarrow> json) \<Rightarrow> 'p create_request \<Rightarrow> json" where
  "create_request_json gp x = JObj
     ([(''ServiceToken'', json_of_option JStr (cre_service_token x)),
      (''RequestId'', JStr (cre_request_id x)),
      (''ResponseURL'', JStr (cre_response_url x)),
      (''StackId'', JStr (cre_stack_id x)),
      (''ResourceType'', JStr (cre_resource_type x)),
      (''LogicalResourceId'', JStr (cre_logical_resource_id x)),
      (''ResourceProperties'', gp (cre_resource_properties x))])"

definition create_request_of_json :: "(json \<Rightarrow> 'p option) \<Rightarrow> json \<Rightarrow> 'p create_request option" where
  "create_request_of_json fp j = do {
     kvs \<leftarrow> de_fields 7
       [''ServiceToken'', ''RequestId'', ''ResponseURL'', ''StackId'', ''ResourceType'',
        ''LogicalResourceId'', ''ResourceProperties''] j;
     x_service_token \<leftarrow> de_opt_string ''ServiceToken'' kvs;
     x_request_id \<leftarrow> de_required de_string [''RequestId''] kvs;
     x_response_url \<leftarrow> de_required de_string [''ResponseURL''] kvs;
     x_stack_id \<leftarrow> de_required de_string [''StackId''] kvs;
     x_resource_type \<leftarrow> de_required de_string [''ResourceType''] kvs;
     x_logical_resource_id \<leftarrow> de_required de_string [''LogicalResourceId''] kvs;
     x_resource_properties \<leftarrow> de_required fp [''ResourceProperties''] kvs;
     Some \<lparr>cre_service_token = x_service_token, cre_request_id = x_request_id,
       cre_response_url = x_response_url, cre_stack_id = x_stack_id,
       cre_resource_type = x_resource_type, cre_logical_resource_id = x_logical_resource_id,
       cre_resource_properties = x_resource_properties\<rparr> }"

definition create_request_good :: "('p \<Rightarrow> bool) \<Rightarrow> 'p create_request \<Rightarrow> bool" where
  "create_request_good Pp x \<longleftrightarrow>
     Pp (cre_resource_properties x)"

lemma create_request_not_null [simp]: "create_request_json gp x \<noteq> JNull"
  by (simp add: create_request_json_def)

lemma create_request_read [read_back]: "create_request_good Pp x \<Longrightarrow> (\<And>x. Pp x \<Longrightarrow> fp (gp x) = Some x) \<Longrightarrow>create_request_of_json fp (create_request_json gp x) = Some x"
  by (cases x) (simp add: create_request_of_json_def create_request_json_def create_request_good_def read_back)

lemma create_request_typed:
  assumes typed_p: "typed Pp fp" shows "typed (create_request_good Pp) (create_request_of_json fp)"
  unfolding typed_def create_request_of_json_def create_request_good_def
  by (auto simp: bind_eq_Some_conv dest!: typed_required [OF typed_p])

record ('p, 'q) update_request =
  ure_service_token :: "string option"
  ure_request_id :: string
  ure_response_url :: string
  ure_stack_id :: string
  ure_resource_type :: string
  ure_logical_resource_id :: string
  ure_physical_resource_id :: string
  ure_resource_properties :: 'q
  ure_old_resource_properties :: 'p

definition update_request_json :: "('p \<Rightarrow> json) \<Rightarrow> ('q \<Rightarrow> json) \<Rightarrow> ('p, 'q) update_request \<Rightarrow> json" where
  "update_request_json gp gq x = JObj
     ([(''ServiceToken'', json_of_option JStr (ure_service_token x)),
      (''RequestId'', JStr (ure_request_id x)),
      (''ResponseURL'', JStr (ure_response_url x)),
      (''StackId'', JStr (ure_stack_id x)),
      (''ResourceType'', JStr (ure_resource_type x)),
      (''LogicalResourceId'', JStr (ure_logical_resource_id x)),
      (''PhysicalResourceId'', JStr (ure_physical_resource_id x)),
      (''ResourceProperties'', gq (ure_resource_properties x)),
      (''OldResourceProperties'', gp (ure_old_resource_properties x))])"

definition update_request_of_json :: "(json \<Rightarrow> 'p option) \<Rightarrow> (json \<Rightarrow> 'q option) \<Rightarrow> json \<Rightarrow> ('p, 'q) update_request option" where
  "update_request_of_json fp fq j = do {
     kvs \<leftarrow> de_fields 9
       [''ServiceToken'', ''RequestId'', ''ResponseURL'', ''StackId'', ''ResourceType'',
        ''LogicalResourceId'', ''PhysicalResourceId'', ''ResourceProperties'',
        ''OldResourceProperties''] j;
     x_service_token \<leftarrow> de_opt_string ''ServiceToken'' kvs;
     x_request_id \<leftarrow> de_required de_string [''RequestId''] kvs;
     x_response_url \<leftarrow> de_required de_string [''ResponseURL''] kvs;
     x_stack_id \<leftarrow> de_required de_string [''StackId''] kvs;
     x_resource_type \<leftarrow> de_required de_string [''ResourceType''] kvs;
     x_logical_resource_id \<leftarrow> de_required de_string [''LogicalResourceId''] kvs;
     x_physical_resource_id \<leftarrow> de_required de_string [''PhysicalResourceId''] kvs;
     x_resource_properties \<leftarrow> de_required fq [''ResourceProperties''] kvs;
     x_old_resource_properties \<leftarrow> de_required fp [''OldResourceProperties''] kvs;
     Some \<lparr>ure_service_token = x_service_token, ure_request_id = x_request_id,
       ure_response_url = x_response_url, ure_stack_id = x_stack_id,
       ure_resource_type = x_resource_type, ure_logical_resource_id = x_logical_resource_id,
       ure_physical_resource_id = x_physical_resource_id,
       ure_resource_properties = x_resource_properties,
       ure_old_resource_properties = x_old_resource_properties\<rparr> }"

definition update_request_good :: "('p \<Rightarrow> bool) \<Rightarrow> ('q \<Rightarrow> bool) \<Rightarrow> ('p, 'q) update_request \<Rightarrow> bool" where
  "update_request_good Pp Pq x \<longleftrightarrow>
     Pq (ure_resource_properties x) \<and>
     Pp (ure_old_resource_properties x)"

lemma update_request_not_null [simp]: "update_request_json gp gq x \<noteq> JNull"
  by (simp add: update_request_json_def)

lemma update_request_read [read_back]: "update_request_good Pp Pq x \<Longrightarrow> (\<And>x. Pp x \<Longrightarrow> fp (gp x) = Some x) \<Longrightarrow> (\<And>x. Pq x \<Longrightarrow> fq (gq x) = Some x) \<Longrightarrow>update_request_of_json fp fq (update_request_json gp gq x) = Some x"
  by (cases x) (clarsimp simp: update_request_of_json_def update_request_json_def update_request_good_def read_back)

lemma update_request_typed:
  assumes typed_p: "typed Pp fp" and typed_q: "typed Pq fq" shows "typed (update_request_good Pp Pq) (update_request_of_json fp fq)"
  unfolding typed_def update_request_of_json_def update_request_good_def
  by (auto simp: bind_eq_Some_conv dest!: typed_required [OF typed_q]
      typed_required [OF typed_p])

record 'p delete_request =
  dr_service_token :: "string option"
  dr_request_id :: string
  dr_response_url :: string
  dr_stack_id :: string
  dr_resource_type :: string
  dr_logical_resource_id :: string
  dr_physical_resource_id :: string
  dr_resource_properties :: 'p

definition delete_request_json :: "('p \<Rightarrow> json) \<Rightarrow> 'p delete_request \<Rightarrow> json" where
  "delete_request_json gp x = JObj
     ([(''ServiceToken'', json_of_option JStr (dr_service_token x)),
      (''RequestId'', JStr (dr_request_id x)),
      (''ResponseURL'', JStr (dr_response_url x)),
      (''StackId'', JStr (dr_stack_id x)),
      (''ResourceType'', JStr (dr_resource_type x)),
      (''LogicalResourceId'', JStr (dr_logical_resource_id x)),
      (''PhysicalResourceId'', JStr (dr_physical_resource_id x)),
      (''ResourceProperties'', gp (dr_resource_properties x))])"

definition delete_request_of_json :: "(json \<Rightarrow> 'p option) \<Rightarrow> json \<Rightarrow> 'p delete_request option" where
  "delete_request_of_json fp j = do {
     kvs \<leftarrow> de_fields 8
       [''ServiceToken'', ''RequestId'', ''ResponseURL'', ''StackId'', ''ResourceType'',
        ''LogicalResourceId'', ''PhysicalResourceId'', ''ResourceProperties''] j;
     x_service_token \<leftarrow> de_opt_string ''ServiceToken'' kvs;
     x_request_id \<leftarrow> de_required de_string [''RequestId''] kvs;
     x_response_url \<leftarrow> de_required de_string [''ResponseURL''] kvs;
     x_stack_id \<leftarrow> de_required de_string [''StackId''] kvs;
     x_resource_type \<leftarrow> de_required de_string [''ResourceType''] kvs;
     x_logical_resource_id \<leftarrow> de_required de_string [''LogicalResourceId''] kvs;
     x_physical_resource_id \<leftarrow> de_required de_string [''PhysicalResourceId''] kvs;
     x_resource_properties \<leftarrow> de_required fp [''ResourceProperties''] kvs;
     Some \<lparr>dr_service_token = x_service_token, dr_request_id = x_request_id,
       dr_response_url = x_response_url, dr_stack_id = x_stack_id,
       dr_resource_type = x_resource_type, dr_logical_resource_id = x_logical_resource_id,
       dr_physical_resource_id = x_physical_resource_id,
       dr_resource_properties = x_resource_properties\<rparr> }"

definition delete_request_good :: "('p \<Rightarrow> bool) \<Rightarrow> 'p delete_request \<Rightarrow> bool" where
  "delete_request_good Pp x \<longleftrightarrow>
     Pp (dr_resource_properties x)"

lemma delete_request_not_null [simp]: "delete_request_json gp x \<noteq> JNull"
  by (simp add: delete_request_json_def)

lemma delete_request_read [read_back]: "delete_request_good Pp x \<Longrightarrow> (\<And>x. Pp x \<Longrightarrow> fp (gp x) = Some x) \<Longrightarrow>delete_request_of_json fp (delete_request_json gp x) = Some x"
  by (cases x) (simp add: delete_request_of_json_def delete_request_json_def delete_request_good_def read_back)

lemma delete_request_typed:
  assumes typed_p: "typed Pp fp" shows "typed (delete_request_good Pp) (delete_request_of_json fp)"
  unfolding typed_def delete_request_of_json_def delete_request_good_def
  by (auto simp: bind_eq_Some_conv dest!: typed_required [OF typed_p])

datatype cloud_formation_custom_resource_response_status =
    CloudFormationCustomResourceResponseStatus_Success |
    CloudFormationCustomResourceResponseStatus_Failed

fun cloud_formation_custom_resource_response_status_name :: "cloud_formation_custom_resource_response_status \<Rightarrow> string" where
  "cloud_formation_custom_resource_response_status_name CloudFormationCustomResourceResponseStatus_Success = ''SUCCESS''"
| "cloud_formation_custom_resource_response_status_name CloudFormationCustomResourceResponseStatus_Failed = ''FAILED''"

definition cloud_formation_custom_resource_response_status_json :: "cloud_formation_custom_resource_response_status \<Rightarrow> json" where
  "cloud_formation_custom_resource_response_status_json x = JStr (cloud_formation_custom_resource_response_status_name x)"

definition cloud_formation_custom_resource_response_status_of_json :: "json \<Rightarrow> cloud_formation_custom_resource_response_status option" where
  "cloud_formation_custom_resource_response_status_of_json = de_variant cloud_formation_custom_resource_response_status_name
     [CloudFormationCustomResourceResponseStatus_Success,
      CloudFormationCustomResourceResponseStatus_Failed]"

lemma cloud_formation_custom_resource_response_status_not_null [simp]: "cloud_formation_custom_resource_response_status_json x \<noteq> JNull"
  by (simp add: cloud_formation_custom_resource_response_status_json_def)

lemma cloud_formation_custom_resource_response_status_read [read_back]: "cloud_formation_custom_resource_response_status_of_json (cloud_formation_custom_resource_response_status_json x) = Some x"
  by (cases x) (simp_all add: cloud_formation_custom_resource_response_status_of_json_def cloud_formation_custom_resource_response_status_json_def de_variant_def)

datatype ('p, 'q) cloud_formation_custom_resource_request =
    CloudFormationCustomResourceRequest_Create "'q create_request"
  | CloudFormationCustomResourceRequest_Update "('p, 'q) update_request"
  | CloudFormationCustomResourceRequest_Delete "'q delete_request"

fun cloud_formation_custom_resource_request_json :: "('p \<Rightarrow> json) \<Rightarrow> ('q \<Rightarrow> json) \<Rightarrow> ('p, 'q) cloud_formation_custom_resource_request \<Rightarrow> json" where
  "cloud_formation_custom_resource_request_json gp gq (CloudFormationCustomResourceRequest_Create x) = json_of_tagged ''RequestType'' ''Create'' (create_request_json gq x)"
| "cloud_formation_custom_resource_request_json gp gq (CloudFormationCustomResourceRequest_Update x) = json_of_tagged ''RequestType'' ''Update'' (update_request_json gp gq x)"
| "cloud_formation_custom_resource_request_json gp gq (CloudFormationCustomResourceRequest_Delete x) = json_of_tagged ''RequestType'' ''Delete'' (delete_request_json gq x)"

definition cloud_formation_custom_resource_request_of_json :: "(json \<Rightarrow> 'p option) \<Rightarrow> (json \<Rightarrow> 'q option) \<Rightarrow> json \<Rightarrow> ('p, 'q) cloud_formation_custom_resource_request option" where
  "cloud_formation_custom_resource_request_of_json fp fq = de_tagged ''RequestType''
     [(''Create'', \<lambda>j. map_option CloudFormationCustomResourceRequest_Create (create_request_of_json fq j)),
      (''Update'', \<lambda>j. map_option CloudFormationCustomResourceRequest_Update (update_request_of_json fp fq j)),
      (''Delete'', \<lambda>j. map_option CloudFormationCustomResourceRequest_Delete (delete_request_of_json fq j))]"

fun cloud_formation_custom_resource_request_good :: "('p \<Rightarrow> bool) \<Rightarrow> ('q \<Rightarrow> bool) \<Rightarrow> ('p, 'q) cloud_formation_custom_resource_request \<Rightarrow> bool" where
  "cloud_formation_custom_resource_request_good Pp Pq (CloudFormationCustomResourceRequest_Create x) = create_request_good Pq x"
| "cloud_formation_custom_resource_request_good Pp Pq (CloudFormationCustomResourceRequest_Update x) = update_request_good Pp Pq x"
| "cloud_formation_custom_resource_request_good Pp Pq (CloudFormationCustomResourceRequest_Delete x) = delete_request_good Pq x"

lemma cloud_formation_custom_resource_request_not_null [simp]: "cloud_formation_custom_resource_request_json gp gq x \<noteq> JNull"
  by (cases x) (simp_all add: json_of_tagged_def create_request_json_def update_request_json_def delete_request_json_def)

lemma cloud_formation_custom_resource_request_keys:
  "is_object (create_request_json gq x0)" "''RequestType'' \<notin> set (json_keys (create_request_json gq x0))"
  "is_object (update_request_json gp gq x1)" "''RequestType'' \<notin> set (json_keys (update_request_json gp gq x1))"
  "is_object (delete_request_json gq x2)" "''RequestType'' \<notin> set (json_keys (delete_request_json gq x2))"
  by (simp_all add: create_request_json_def update_request_json_def delete_request_json_def is_object_def json_keys_def opt_field_keys)

lemma cloud_formation_custom_resource_request_read [read_back]: "cloud_formation_custom_resource_request_good Pp Pq x \<Longrightarrow> (\<And>x. Pp x \<Longrightarrow> fp (gp x) = Some x) \<Longrightarrow> (\<And>x. Pq x \<Longrightarrow> fq (gq x) = Some x) \<Longrightarrow>cloud_formation_custom_resource_request_of_json fp fq (cloud_formation_custom_resource_request_json gp gq x) = Some x"
  by (cases x) (simp_all add: cloud_formation_custom_resource_request_of_json_def read_tagged cloud_formation_custom_resource_request_keys read_back)

lemma cloud_formation_custom_resource_request_typed:
  assumes typed_p: "typed Pp fp" and typed_q: "typed Pq fq" shows "typed (cloud_formation_custom_resource_request_good Pp Pq) (cloud_formation_custom_resource_request_of_json fp fq)"
  unfolding cloud_formation_custom_resource_request_of_json_def
  by (rule typed_tagged) (auto simp: typed_def dest: typedD [OF create_request_typed [OF typed_q]]
      typedD [OF update_request_typed [OF typed_p typed_q]]
      typedD [OF delete_request_typed [OF typed_q]])

record cloud_formation_custom_resource_response =
  cfcrr_status :: cloud_formation_custom_resource_response_status
  cfcrr_reason :: "string option"
  cfcrr_physical_resource_id :: string
  cfcrr_stack_id :: string
  cfcrr_request_id :: string
  cfcrr_logical_resource_id :: string
  cfcrr_no_echo :: bool
  cfcrr_data :: "(string \<times> string) list"

definition cloud_formation_custom_resource_response_json :: "cloud_formation_custom_resource_response \<Rightarrow> json" where
  "cloud_formation_custom_resource_response_json x = JObj
     ([(''Status'', cloud_formation_custom_resource_response_status_json (cfcrr_status x)),
      (''Reason'', json_of_option JStr (cfcrr_reason x)),
      (''PhysicalResourceId'', JStr (cfcrr_physical_resource_id x)),
      (''StackId'', JStr (cfcrr_stack_id x)),
      (''RequestId'', JStr (cfcrr_request_id x)),
      (''LogicalResourceId'', JStr (cfcrr_logical_resource_id x)),
      (''NoEcho'', JBool (cfcrr_no_echo x)),
      (''Data'', json_of_map JStr (cfcrr_data x))])"

definition cloud_formation_custom_resource_response_of_json :: "json \<Rightarrow> cloud_formation_custom_resource_response option" where
  "cloud_formation_custom_resource_response_of_json j = do {
     kvs \<leftarrow> de_fields 8
       [''Status'', ''Reason'', ''PhysicalResourceId'', ''StackId'', ''RequestId'',
        ''LogicalResourceId'', ''NoEcho'', ''Data''] j;
     x_status \<leftarrow> de_required cloud_formation_custom_resource_response_status_of_json [''Status''] kvs;
     x_reason \<leftarrow> de_opt_string ''Reason'' kvs;
     x_physical_resource_id \<leftarrow> de_required de_string [''PhysicalResourceId''] kvs;
     x_stack_id \<leftarrow> de_required de_string [''StackId''] kvs;
     x_request_id \<leftarrow> de_required de_string [''RequestId''] kvs;
     x_logical_resource_id \<leftarrow> de_required de_string [''LogicalResourceId''] kvs;
     x_no_echo \<leftarrow> de_required de_bool [''NoEcho''] kvs;
     x_data \<leftarrow> de_required (de_hash_map de_string) [''Data''] kvs;
     Some \<lparr>cfcrr_status = x_status, cfcrr_reason = x_reason,
       cfcrr_physical_resource_id = x_physical_resource_id, cfcrr_stack_id = x_stack_id,
       cfcrr_request_id = x_request_id, cfcrr_logical_resource_id = x_logical_resource_id,
       cfcrr_no_echo = x_no_echo, cfcrr_data = x_data\<rparr> }"

definition cloud_formation_custom_resource_response_good :: "cloud_formation_custom_resource_response \<Rightarrow> bool" where
  "cloud_formation_custom_resource_response_good x \<longleftrightarrow>
     good_map (\<lambda>_. True) (cfcrr_data x)"

lemma cloud_formation_custom_resource_response_not_null [simp]: "cloud_formation_custom_resource_response_json x \<noteq> JNull"
  by (simp add: cloud_formation_custom_resource_response_json_def)

lemma cloud_formation_custom_resource_response_read [read_back]: "cloud_formation_custom_resource_response_good x \<Longrightarrow>cloud_formation_custom_resource_response_of_json (cloud_formation_custom_resource_response_json x) = Some x"
  by (cases x) (simp add: cloud_formation_custom_resource_response_of_json_def cloud_formation_custom_resource_response_json_def cloud_formation_custom_resource_response_good_def read_back)

lemma cloud_formation_custom_resource_response_typed: "typed cloud_formation_custom_resource_response_good cloud_formation_custom_resource_response_of_json"
  unfolding typed_def cloud_formation_custom_resource_response_of_json_def cloud_formation_custom_resource_response_good_def
  by (auto simp: bind_eq_Some_conv dest!: typed_required [OF typed_hash_map [OF typed_True [of "de_string"]]])

subsection \<open>\<^verbatim>\<open>cloudformation/provider\<close>\<close>

record 'p common_request_params =
  crp_logical_resource_id :: string
  crp_resource_properties :: 'p
  crp_resource_type :: string
  crp_request_id :: string
  crp_stack_id :: string

definition common_request_params_fields :: "('p \<Rightarrow> json) \<Rightarrow> 'p common_request_params \<Rightarrow> (string \<times> json) list" where
  "common_request_params_fields gp x =
     [(''LogicalResourceId'', JStr (crp_logical_resource_id x)),
      (''ResourceProperties'', gp (crp_resource_properties x)),
      (''ResourceType'', JStr (crp_resource_type x)),
      (''RequestId'', JStr (crp_request_id x)),
      (''StackId'', JStr (crp_stack_id x))]"

definition common_request_params_json :: "('p \<Rightarrow> json) \<Rightarrow> 'p common_request_params \<Rightarrow> json" where
  "common_request_params_json gp x = JObj (common_request_params_fields gp x)"

definition common_request_params_of_fields :: "(json \<Rightarrow> 'p option) \<Rightarrow> (string \<times> json) list \<Rightarrow> 'p common_request_params option" where
  "common_request_params_of_fields fp kvs = do {
     x_logical_resource_id \<leftarrow> de_required de_string [''LogicalResourceId''] kvs;
     x_resource_properties \<leftarrow> de_required fp [''ResourceProperties''] kvs;
     x_resource_type \<leftarrow> de_required de_string [''ResourceType''] kvs;
     x_request_id \<leftarrow> de_required de_string [''RequestId''] kvs;
     x_stack_id \<leftarrow> de_required de_string [''StackId''] kvs;
     Some \<lparr>crp_logical_resource_id = x_logical_resource_id,
       crp_resource_properties = x_resource_properties, crp_resource_type = x_resource_type,
       crp_request_id = x_request_id, crp_stack_id = x_stack_id\<rparr> }"

definition common_request_params_of_json :: "(json \<Rightarrow> 'p option) \<Rightarrow> json \<Rightarrow> 'p common_request_params option" where
  "common_request_params_of_json fp j = do {
     kvs \<leftarrow> de_fields 5
       [''LogicalResourceId'', ''ResourceProperties'', ''ResourceType'', ''RequestId'', ''StackId''] j;
     common_request_params_of_fields fp kvs }"

definition common_request_params_good :: "('p \<Rightarrow> bool) \<Rightarrow> 'p common_request_params \<Rightarrow> bool" where
  "common_request_params_good Pp x \<longleftrightarrow>
     Pp (crp_resource_properties x)"

lemma common_request_params_not_null [simp]: "common_request_params_json gp x \<noteq> JNull"
  by (simp add: common_request_params_json_def)

lemma common_request_params_fields_read:
  "common_request_params_good Pp x \<Longrightarrow> (\<And>x. Pp x \<Longrightarrow> fp (gp x) = Some x) \<Longrightarrow> common_request_params_of_fields fp (common_request_params_fields gp x) = Some x"
  by (cases x) (simp add: common_request_params_of_fields_def common_request_params_fields_def common_request_params_good_def read_back)

lemma common_request_params_read [read_back]: "common_request_params_good Pp x \<Longrightarrow> (\<And>x. Pp x \<Longrightarrow> fp (gp x) = Some x) \<Longrightarrow>common_request_params_of_json fp (common_request_params_json gp x) = Some x"
  by (simp add: common_request_params_of_json_def common_request_params_json_def common_request_params_fields_read read_back)

lemma common_request_params_fields_typed:
  assumes typed_p: "typed Pp fp" shows "typed_fields (common_request_params_good Pp) (common_request_params_of_fields fp)"
  unfolding typed_fields_def common_request_params_of_fields_def common_request_params_good_def
  by (auto simp: bind_eq_Some_conv dest!: typed_required [OF typed_p])

lemma common_request_params_typed:
  assumes typed_p: "typed Pp fp" shows "typed (common_request_params_good Pp) (common_request_params_of_json fp)"
  unfolding typed_def common_request_params_of_json_def
  by (auto simp: bind_eq_Some_conv dest!: typed_fieldsD [OF common_request_params_fields_typed [OF typed_p]])

record 'p provider_cloud_formation_custom_resource_response =
  pcfcrr_physical_resource_id :: "string option"
  pcfcrr_data :: 'p
  pcfcrr_no_echo :: bool

definition provider_cloud_formation_custom_resource_response_json :: "('p \<Rightarrow> json) \<Rightarrow> 'p provider_cloud_formation_custom_resource_response \<Rightarrow> json" where
  "provider_cloud_formation_custom_resource_response_json gp x = JObj
     ([(''PhysicalResourceId'', json_of_option JStr (pcfcrr_physical_resource_id x)),
      (''Data'', gp (pcfcrr_data x)),
      (''NoEcho'', JBool (pcfcrr_no_echo x))])"

definition provider_cloud_formation_custom_resource_response_of_json :: "(json \<Rightarrow> 'p option) \<Rightarrow> json \<Rightarrow> 'p provider_cloud_formation_custom_resource_response option" where
  "provider_cloud_formation_custom_resource_response_of_json fp j = do {
     kvs \<leftarrow> de_fields 3
       [''PhysicalResourceId'', ''Data'', ''NoEcho''] j;
     x_physical_resource_id \<leftarrow> de_opt_string ''PhysicalResourceId'' kvs;
     x_data \<leftarrow> de_required fp [''Data''] kvs;
     x_no_echo \<leftarrow> de_required de_bool [''NoEcho''] kvs;
     Some \<lparr>pcfcrr_physical_resource_id = x_physical_resource_id, pcfcrr_data = x_data,
       pcfcrr_no_echo = x_no_echo\<rparr> }"

definition provider_cloud_formation_custom_resource_response_good :: "('p \<Rightarrow> bool) \<Rightarrow> 'p provider_cloud_formation_custom_resource_response \<Rightarrow> bool" where
  "provider_cloud_formation_custom_resource_response_good Pp x \<longleftrightarrow>
     Pp (pcfcrr_data x)"

lemma provider_cloud_formation_custom_resource_response_not_null [simp]: "provider_cloud_formation_custom_resource_response_json gp x \<noteq> JNull"
  by (simp add: provider_cloud_formation_custom_resource_response_json_def)

lemma provider_cloud_formation_custom_resource_response_read [read_back]: "provider_cloud_formation_custom_resource_response_good Pp x \<Longrightarrow> (\<And>x. Pp x \<Longrightarrow> fp (gp x) = Some x) \<Longrightarrow>provider_cloud_formation_custom_resource_response_of_json fp (provider_cloud_formation_custom_resource_response_json gp x) = Some x"
  by (cases x) (simp add: provider_cloud_formation_custom_resource_response_of_json_def provider_cloud_formation_custom_resource_response_json_def provider_cloud_formation_custom_resource_response_good_def read_back)

lemma provider_cloud_formation_custom_resource_response_typed:
  assumes typed_p: "typed Pp fp" shows "typed (provider_cloud_formation_custom_resource_response_good Pp) (provider_cloud_formation_custom_resource_response_of_json fp)"
  unfolding typed_def provider_cloud_formation_custom_resource_response_of_json_def provider_cloud_formation_custom_resource_response_good_def
  by (auto simp: bind_eq_Some_conv dest!: typed_required [OF typed_p])

record 'p provider_create_request =
  pcr_common :: "'p common_request_params"

definition provider_create_request_json :: "('p \<Rightarrow> json) \<Rightarrow> 'p provider_create_request \<Rightarrow> json" where
  "provider_create_request_json gp x = JObj
     (common_request_params_fields gp (pcr_common x))"

definition provider_create_request_of_json :: "(json \<Rightarrow> 'p option) \<Rightarrow> json \<Rightarrow> 'p provider_create_request option" where
  "provider_create_request_of_json fp j = do {
     kvs \<leftarrow> de_object j;
     x_common \<leftarrow> common_request_params_of_fields fp kvs;
     Some \<lparr>pcr_common = x_common\<rparr> }"

definition provider_create_request_good :: "('p \<Rightarrow> bool) \<Rightarrow> 'p provider_create_request \<Rightarrow> bool" where
  "provider_create_request_good Pp x \<longleftrightarrow>
     common_request_params_good Pp (pcr_common x)"

lemma provider_create_request_not_null [simp]: "provider_create_request_json gp x \<noteq> JNull"
  by (simp add: provider_create_request_json_def)

lemma provider_create_request_read [read_back]: "provider_create_request_good Pp x \<Longrightarrow> (\<And>x. Pp x \<Longrightarrow> fp (gp x) = Some x) \<Longrightarrow>provider_create_request_of_json fp (provider_create_request_json gp x) = Some x"
  by (cases x, cases "pcr_common x") (clarsimp simp: provider_create_request_of_json_def provider_create_request_json_def provider_create_request_good_def common_request_params_of_fields_def common_request_params_fields_def common_request_params_good_def read_back)

lemma provider_create_request_typed:
  assumes typed_p: "typed Pp fp" shows "typed (provider_create_request_good Pp) (provider_create_request_of_json fp)"
  unfolding typed_def provider_create_request_of_json_def provider_create_request_good_def
  by (auto simp: bind_eq_Some_conv dest!: typed_fieldsD [OF common_request_params_fields_typed [OF typed_p]])

record ('p, 'q) provider_update_request =
  pur_physical_resource_id :: string
  pur_old_resource_properties :: 'p
  pur_common :: "'q common_request_params"

definition provider_update_request_json :: "('p \<Rightarrow> json) \<Rightarrow> ('q \<Rightarrow> json) \<Rightarrow> ('p, 'q) provider_update_request \<Rightarrow> json" where
  "provider_update_request_json gp gq x = JObj
     ([(''PhysicalResourceId'', JStr (pur_physical_resource_id x)),
      (''OldResourceProperties'', gp (pur_old_resource_properties x))] @
      common_request_params_fields gq (pur_common x))"

definition provider_update_request_of_json :: "(json \<Rightarrow> 'p option) \<Rightarrow> (json \<Rightarrow> 'q option) \<Rightarrow> json \<Rightarrow> ('p, 'q) provider_update_request option" where
  "provider_update_request_of_json fp fq j = do {
     kvs \<leftarrow> de_object j;
     x_physical_resource_id \<leftarrow> de_required de_string [''PhysicalResourceId''] kvs;
     x_old_resource_properties \<leftarrow> de_required fp [''OldResourceProperties''] kvs;
     x_common \<leftarrow> common_request_params_of_fields fq kvs;
     Some \<lparr>pur_physical_resource_id = x_physical_resource_id,
       pur_old_resource_properties = x_old_resource_properties, pur_common = x_common\<rparr> }"

definition provider_update_request_good :: "('p \<Rightarrow> bool) \<Rightarrow> ('q \<Rightarrow> bool) \<Rightarrow> ('p, 'q) provider_update_request \<Rightarrow> bool" where
  "provider_update_request_good Pp Pq x \<longleftrightarrow>
     Pp (pur_old_resource_properties x) \<and>
     common_request_params_good Pq (pur_common x)"

lemma provider_update_request_not_null [simp]: "provider_update_request_json gp gq x \<noteq> JNull"
  by (simp add: provider_update_request_json_def)

lemma provider_update_request_read [read_back]: "provider_update_request_good Pp Pq x \<Longrightarrow> (\<And>x. Pp x \<Longrightarrow> fp (gp x) = Some x) \<Longrightarrow> (\<And>x. Pq x \<Longrightarrow> fq (gq x) = Some x) \<Longrightarrow>provider_update_request_of_json fp fq (provider_update_request_json gp gq x) = Some x"
  by (cases x, cases "pur_common x") (clarsimp simp: provider_update_request_of_json_def provider_update_request_json_def provider_update_request_good_def common_request_params_of_fields_def common_request_params_fields_def common_request_params_good_def read_back)

lemma provider_update_request_typed:
  assumes typed_p: "typed Pp fp" and typed_q: "typed Pq fq" shows "typed (provider_update_request_good Pp Pq) (provider_update_request_of_json fp fq)"
  unfolding typed_def provider_update_request_of_json_def provider_update_request_good_def
  by (auto simp: bind_eq_Some_conv dest!: typed_required [OF typed_p]
      typed_fieldsD [OF common_request_params_fields_typed [OF typed_q]])

record 'p provider_delete_request =
  pdr_physical_resource_id :: string
  pdr_common :: "'p common_request_params"

definition provider_delete_request_json :: "('p \<Rightarrow> json) \<Rightarrow> 'p provider_delete_request \<Rightarrow> json" where
  "provider_delete_request_json gp x = JObj
     ([(''PhysicalResourceId'', JStr (pdr_physical_resource_id x))] @
      common_request_params_fields gp (pdr_common x))"

definition provider_delete_request_of_json :: "(json \<Rightarrow> 'p option) \<Rightarrow> json \<Rightarrow> 'p provider_delete_request option" where
  "provider_delete_request_of_json fp j = do {
     kvs \<leftarrow> de_object j;
     x_physical_resource_id \<leftarrow> de_required de_string [''PhysicalResourceId''] kvs;
     x_common \<leftarrow> common_request_params_of_fields fp kvs;
     Some \<lparr>pdr_physical_resource_id = x_physical_resource_id, pdr_common = x_common\<rparr> }"

definition provider_delete_request_good :: "('p \<Rightarrow> bool) \<Rightarrow> 'p provider_delete_request \<Rightarrow> bool" where
  "provider_delete_request_good Pp x \<longleftrightarrow>
     common_request_params_good Pp (pdr_common x)"

lemma provider_delete_request_not_null [simp]: "provider_delete_request_json gp x \<noteq> JNull"
  by (simp add: provider_delete_request_json_def)

lemma provider_delete_request_read [read_back]: "provider_delete_request_good Pp x \<Longrightarrow> (\<And>x. Pp x \<Longrightarrow> fp (gp x) = Some x) \<Longrightarrow>provider_delete_request_of_json fp (provider_delete_request_json gp x) = Some x"
  by (cases x, cases "pdr_common x") (clarsimp simp: provider_delete_request_of_json_def provider_delete_request_json_def provider_delete_request_good_def common_request_params_of_fields_def common_request_params_fields_def common_request_params_good_def read_back)

lemma provider_delete_request_typed:
  assumes typed_p: "typed Pp fp" shows "typed (provider_delete_request_good Pp) (provider_delete_request_of_json fp)"
  unfolding typed_def provider_delete_request_of_json_def provider_delete_request_good_def
  by (auto simp: bind_eq_Some_conv dest!: typed_fieldsD [OF common_request_params_fields_typed [OF typed_p]])

datatype ('p, 'q) provider_cloud_formation_custom_resource_request =
    ProviderCloudFormationCustomResourceRequest_Create "'q provider_create_request"
  | ProviderCloudFormationCustomResourceRequest_Update "('p, 'q) provider_update_request"
  | ProviderCloudFormationCustomResourceRequest_Delete "'q provider_delete_request"

fun provider_cloud_formation_custom_resource_request_json :: "('p \<Rightarrow> json) \<Rightarrow> ('q \<Rightarrow> json) \<Rightarrow> ('p, 'q) provider_cloud_formation_custom_resource_request \<Rightarrow> json" where
  "provider_cloud_formation_custom_resource_request_json gp gq (ProviderCloudFormationCustomResourceRequest_Create x) = json_of_tagged ''RequestType'' ''Create'' (provider_create_request_json gq x)"
| "provider_cloud_formation_custom_resource_request_json gp gq (ProviderCloudFormationCustomResourceRequest_Update x) = json_of_tagged ''RequestType'' ''Update'' (provider_update_request_json gp gq x)"
| "provider_cloud_formation_custom_resource_request_json gp gq (ProviderCloudFormationCustomResourceRequest_Delete x) = json_of_tagged ''RequestType'' ''Delete'' (provider_delete_request_json gq x)"

definition provider_cloud_formation_custom_resource_request_of_json :: "(json \<Rightarrow> 'p option) \<Rightarrow> (json \<Rightarrow> 'q option) \<Rightarrow> json \<Rightarrow> ('p, 'q) provider_cloud_formation_custom_resource_request option" where
  "provider_cloud_formation_custom_resource_request_of_json fp fq = de_tagged ''RequestType''
     [(''Create'', \<lambda>j. map_option ProviderCloudFormationCustomResourceRequest_Create (provider_create_request_of_json fq j)),
      (''Update'', \<lambda>j. map_option ProviderCloudFormationCustomResourceRequest_Update (provider_update_request_of_json fp fq j)),
      (''Delete'', \<lambda>j. map_option ProviderCloudFormationCustomResourceRequest_Delete (provider_delete_request_of_json fq j))]"

fun provider_cloud_formation_custom_resource_request_good :: "('p \<Rightarrow> bool) \<Rightarrow> ('q \<Rightarrow> bool) \<Rightarrow> ('p, 'q) provider_cloud_formation_custom_resource_request \<Rightarrow> bool" where
  "provider_cloud_formation_custom_resource_request_good Pp Pq (ProviderCloudFormationCustomResourceRequest_Create x) = provider_create_request_good Pq x"
| "provider_cloud_formation_custom_resource_request_good Pp Pq (ProviderCloudFormationCustomResourceRequest_Update x) = provider_update_request_good Pp Pq x"
| "provider_cloud_formation_custom_resource_request_good Pp Pq (ProviderCloudFormationCustomResourceRequest_Delete x) = provider_delete_request_good Pq x"

lemma provider_cloud_formation_custom_resource_request_not_null [simp]: "provider_cloud_formation_custom_resource_request_json gp gq x \<noteq> JNull"
  by (cases x) (simp_all add: json_of_tagged_def provider_create_request_json_def provider_update_request_json_def provider_delete_request_json_def)

lemma provider_cloud_formation_custom_resource_request_keys:
  "is_object (provider_create_request_json gq x0)" "''RequestType'' \<notin> set (json_keys (provider_create_request_json gq x0))"
  "is_object (provider_update_request_json gp gq x1)" "''RequestType'' \<notin> set (json_keys (provider_update_request_json gp gq x1))"
  "is_object (provider_delete_request_json gq x2)" "''RequestType'' \<notin> set (json_keys (provider_delete_request_json gq x2))"
  by (simp_all add: provider_create_request_json_def provider_update_request_json_def provider_delete_request_json_def common_request_params_fields_def common_request_params_fields_def common_request_params_fields_def is_object_def json_keys_def opt_field_keys)

lemma provider_cloud_formation_custom_resource_request_read [read_back]: "provider_cloud_formation_custom_resource_request_good Pp Pq x \<Longrightarrow> (\<And>x. Pp x \<Longrightarrow> fp (gp x) = Some x) \<Longrightarrow> (\<And>x. Pq x \<Longrightarrow> fq (gq x) = Some x) \<Longrightarrow>provider_cloud_formation_custom_resource_request_of_json fp fq (provider_cloud_formation_custom_resource_request_json gp gq x) = Some x"
  by (cases x) (simp_all add: provider_cloud_formation_custom_resource_request_of_json_def read_tagged provider_cloud_formation_custom_resource_request_keys read_back)

lemma provider_cloud_formation_custom_resource_request_typed:
  assumes typed_p: "typed Pp fp" and typed_q: "typed Pq fq" shows "typed (provider_cloud_formation_custom_resource_request_good Pp Pq) (provider_cloud_formation_custom_resource_request_of_json fp fq)"
  unfolding provider_cloud_formation_custom_resource_request_of_json_def
  by (rule typed_tagged) (auto simp: typed_def dest: typedD [OF provider_create_request_typed [OF typed_q]]
      typedD [OF provider_update_request_typed [OF typed_p typed_q]]
      typedD [OF provider_delete_request_typed [OF typed_q]])

subsection \<open>\<^verbatim>\<open>documentdb/events/commom_types\<close>\<close>

record database_collection =
  dc_db :: string
  dc_coll :: "string option"

definition database_collection_json :: "database_collection \<Rightarrow> json" where
  "database_collection_json x = JObj
     ([(''db'', JStr (dc_db x)),
      (''coll'', json_of_option JStr (dc_coll x))])"

definition database_collection_of_json :: "json \<Rightarrow> database_collection option" where
  "database_collection_of_json j = do {
     kvs \<leftarrow> de_fields 1
       [''db'', ''coll''] j;
     x_db \<leftarrow> de_required de_string [''db''] kvs;
     x_coll \<leftarrow> de_opt_string ''coll'' kvs;
     Some \<lparr>dc_db = x_db, dc_coll = x_coll\<rparr> }"

lemma database_collection_not_null [simp]: "database_collection_json x \<noteq> JNull"
  by (simp add: database_collection_json_def)

lemma database_collection_read [read_back]: "database_collection_of_json (database_collection_json x) = Some x"
  by (cases x) (simp add: database_collection_of_json_def database_collection_json_def read_back)

record document_id =
  di_data :: string

definition document_id_json :: "document_id \<Rightarrow> json" where
  "document_id_json x = JObj
     ([(''_data'', JStr (di_data x))])"

definition document_id_of_json :: "json \<Rightarrow> document_id option" where
  "document_id_of_json j = do {
     kvs \<leftarrow> de_fields 1
       [''_data''] j;
     x_data \<leftarrow> de_required de_string [''_data''] kvs;
     Some \<lparr>di_data = x_data\<rparr> }"

lemma document_id_not_null [simp]: "document_id_json x \<noteq> JNull"
  by (simp add: document_id_json_def)

lemma document_id_read [read_back]: "document_id_of_json (document_id_json x) = Some x"
  by (cases x) (simp add: document_id_of_json_def document_id_json_def read_back)

record document_key_id_oid =
  dkio_oid :: string

definition document_key_id_oid_json :: "document_key_id_oid \<Rightarrow> json" where
  "document_key_id_oid_json x = JObj
     ([(''$oid'', JStr (dkio_oid x))])"

definition document_key_id_oid_of_json :: "json \<Rightarrow> document_key_id_oid option" where
  "document_key_id_oid_of_json j = do {
     kvs \<leftarrow> de_fields 1
       [''$oid''] j;
     x_oid \<leftarrow> de_required de_string [''$oid''] kvs;
     Some \<lparr>dkio_oid = x_oid\<rparr> }"

lemma document_key_id_oid_not_null [simp]: "document_key_id_oid_json x \<noteq> JNull"
  by (simp add: document_key_id_oid_json_def)

lemma document_key_id_oid_read [read_back]: "document_key_id_oid_of_json (document_key_id_oid_json x) = Some x"
  by (cases x) (simp add: document_key_id_oid_of_json_def document_key_id_oid_json_def read_back)

record document_key_id =
  dki_id :: document_key_id_oid

definition document_key_id_json :: "document_key_id \<Rightarrow> json" where
  "document_key_id_json x = JObj
     ([(''_id'', document_key_id_oid_json (dki_id x))])"

definition document_key_id_of_json :: "json \<Rightarrow> document_key_id option" where
  "document_key_id_of_json j = do {
     kvs \<leftarrow> de_fields 1
       [''_id''] j;
     x_id \<leftarrow> de_required document_key_id_oid_of_json [''_id''] kvs;
     Some \<lparr>dki_id = x_id\<rparr> }"

lemma document_key_id_not_null [simp]: "document_key_id_json x \<noteq> JNull"
  by (simp add: document_key_id_json_def)

lemma document_key_id_read [read_back]: "document_key_id_of_json (document_key_id_json x) = Some x"
  by (cases x) (simp add: document_key_id_of_json_def document_key_id_json_def read_back)

record inner_timestamp =
  it_t :: nat
  it_i :: nat

definition inner_timestamp_json :: "inner_timestamp \<Rightarrow> json" where
  "inner_timestamp_json x = JObj
     ([(''t'', json_of_nat (it_t x)),
      (''i'', json_of_nat (it_i x))])"

definition inner_timestamp_of_json :: "json \<Rightarrow> inner_timestamp option" where
  "inner_timestamp_of_json j = do {
     kvs \<leftarrow> de_fields 2
       [''t'', ''i''] j;
     x_t \<leftarrow> de_required (de_unsigned u64_max) [''t''] kvs;
     x_i \<leftarrow> de_required (de_unsigned u64_max) [''i''] kvs;
     Some \<lparr>it_t = x_t, it_i = x_i\<rparr> }"

definition inner_timestamp_good :: "inner_timestamp \<Rightarrow> bool" where
  "inner_timestamp_good x \<longleftrightarrow>
     good_nat u64_max (it_t x) \<and>
     good_nat u64_max (it_i x)"

lemma inner_timestamp_not_null [simp]: "inner_timestamp_json x \<noteq> JNull"
  by (simp add: inner_timestamp_json_def)

lemma inner_timestamp_read [read_back]: "inner_timestamp_good x \<Longrightarrow>inner_timestamp_of_json (inner_timestamp_json x) = Some x"
  by (cases x) (clarsimp simp: inner_timestamp_of_json_def inner_timestamp_json_def inner_timestamp_good_def read_back)

lemma inner_timestamp_typed: "typed inner_timestamp_good inner_timestamp_of_json"
  unfolding typed_def inner_timestamp_of_json_def inner_timestamp_good_def
  by (auto simp: bind_eq_Some_conv dest!: typed_required [OF typed_nat])

record timestamp =
  tim_timestamp :: inner_timestamp

definition timestamp_json :: "timestamp \<Rightarrow> json" where
  "timestamp_json x = JObj
     ([(''$timestamp'', inner_timestamp_json (tim_timestamp x))])"

definition timestamp_of_json :: "json \<Rightarrow> timestamp option" where
  "timestamp_of_json j = do {
     kvs \<leftarrow> de_fields 1
       [''$timestamp''] j;
     x_timestamp \<leftarrow> de_required inner_timestamp_of_json [''$timestamp''] kvs;
     Some \<lparr>tim_timestamp = x_timestamp\<rparr> }"

definition timestamp_good :: "timestamp \<Rightarrow> bool" where
  "timestamp_good x \<longleftrightarrow>
     inner_timestamp_good (tim_timestamp x)"

lemma timestamp_not_null [simp]: "timestamp_json x \<noteq> JNull"
  by (simp add: timestamp_json_def)

lemma timestamp_read [read_back]: "timestamp_good x \<Longrightarrow>timestamp_of_json (timestamp_json x) = Some x"
  by (cases x) (simp add: timestamp_of_json_def timestamp_json_def timestamp_good_def read_back)

lemma timestamp_typed: "typed timestamp_good timestamp_of_json"
  unfolding typed_def timestamp_of_json_def timestamp_good_def
  by (auto simp: bind_eq_Some_conv dest!: typed_required [OF inner_timestamp_typed])

subsection \<open>\<^verbatim>\<open>documentdb/events/delete_event\<close>\<close>

record change_delete_event =
  cdev_id :: document_id
  cdev_cluster_time :: "timestamp option"
  cdev_document_key :: document_key_id
  cdev_ls_id :: "((string \<times> json) list) option"
  cdev_ns :: database_collection
  cdev_txn_number :: "string option"

definition change_delete_event_json :: "change_delete_event \<Rightarrow> json" where
  "change_delete_event_json x = JObj
     ([(''_id'', document_id_json (cdev_id x)),
      (''clusterTime'', json_of_option timestamp_json (cdev_cluster_time x)),
      (''documentKey'', document_key_id_json (cdev_document_key x)),
      (''lsid'', json_of_option (json_of_map (\<lambda>v. v)) (cdev_ls_id x)),
      (''ns'', database_collection_json (cdev_ns x)),
      (''txnNumber'', json_of_option JStr (cdev_txn_number x))])"

definition change_delete_event_of_json :: "json \<Rightarrow> change_delete_event option" where
  "change_delete_event_of_json j = do {
     kvs \<leftarrow> de_fields 5
       [''_id'', ''clusterTime'', ''documentKey'', ''lsid'', ''ns'', ''txnNumber''] j;
     x_id \<leftarrow> de_required document_id_of_json [''_id''] kvs;
     x_cluster_time \<leftarrow> de_optional timestamp_of_json [''clusterTime''] kvs;
     x_document_key \<leftarrow> de_required document_key_id_of_json [''documentKey''] kvs;
     x_ls_id \<leftarrow> de_optional (de_hash_map Some) [''lsid''] kvs;
     x_ns \<leftarrow> de_required database_collection_of_json [''ns''] kvs;
     x_txn_number \<leftarrow> de_opt_string ''txnNumber'' kvs;
     Some \<lparr>cdev_id = x_id, cdev_cluster_time = x_cluster_time, cdev_document_key = x_document_key,
       cdev_ls_id = x_ls_id, cdev_ns = x_ns, cdev_txn_number = x_txn_number\<rparr> }"

definition change_delete_event_good :: "change_delete_event \<Rightarrow> bool" where
  "change_delete_event_good x \<longleftrightarrow>
     good_option timestamp_good (cdev_cluster_time x) \<and>
     good_option (good_map (\<lambda>_. True)) (cdev_ls_id x)"

lemma change_delete_event_not_null [simp]: "change_delete_event_json x \<noteq> JNull"
  by (simp add: change_delete_event_json_def)

lemma change_delete_event_read [read_back]: "change_delete_event_good x \<Longrightarrow>change_delete_event_of_json (change_delete_event_json x) = Some x"
  by (cases x) (clarsimp simp: change_delete_event_of_json_def change_delete_event_json_def change_delete_event_good_def read_back)

lemma change_delete_event_typed: "typed change_delete_event_good change_delete_event_of_json"
  unfolding typed_def change_delete_event_of_json_def change_delete_event_good_def
  by (auto simp: bind_eq_Some_conv dest!: typed_optional [OF timestamp_typed]
      typed_optional [OF typed_hash_map [OF typed_True [of "Some"]]])

subsection \<open>\<^verbatim>\<open>documentdb/events/drop_database_event\<close>\<close>

record change_drop_database_event =
  cdde_id :: document_id
  cdde_cluster_time :: "timestamp option"
  cdde_ls_id :: "((string \<times> json) list) option"
  cdde_ns :: database_collection
  cdde_txn_number :: "string option"

definition change_drop_database_event_json :: "change_drop_database_event \<Rightarrow> json" where
  "change_drop_database_event_json x = JObj
     ([(''_id'', document_id_json (cdde_id x)),
      (''clusterTime'', json_of_option timestamp_json (cdde_cluster_time x)),
      (''lsid'', json_of_option (json_of_map (\<lambda>v. v)) (cdde_ls_id x)),
      (''ns'', database_collection_json (cdde_ns x)),
      (''txnNumber'', json_of_option JStr (cdde_txn_number x))])"

definition change_drop_database_event_of_json :: "json \<Rightarrow> change_drop_database_event option" where
  "change_drop_database_event_of_json j = do {
     kvs \<leftarrow> de_fields 4
       [''_id'', ''clusterTime'', ''lsid'', ''ns'', ''txnNumber''] j;
     x_id \<leftarrow> de_required document_id_of_json [''_id''] kvs;
     x_cluster_time \<leftarrow> de_optional timestamp_of_json [''clusterTime''] kvs;
     x_ls_id \<leftarrow> de_optional (de_hash_map Some) [''lsid''] kvs;
     x_ns \<leftarrow> de_required database_collection_of_json [''ns''] kvs;
     x_txn_number \<leftarrow> de_opt_string ''txnNumber'' kvs;
     Some \<lparr>cdde_id = x_id, cdde_cluster_time = x_cluster_time, cdde_ls_id = x_ls_id, cdde_ns = x_ns,
       cdde_txn_number = x_txn_number\<rparr> }"

definition change_drop_database_event_good :: "change_drop_database_event \<Rightarrow> bool" where
  "change_drop_database_event_good x \<longleftrightarrow>
     good_option timestamp_good (cdde_cluster_time x) \<and>
     good_option (good_map (\<lambda>_. True)) (cdde_ls_id x)"

lemma change_drop_database_event_not_null [simp]: "change_drop_database_event_json x \<noteq> JNull"
  by (simp add: change_drop_database_event_json_def)

lemma change_drop_database_event_read [read_back]: "change_drop_database_event_good x \<Longrightarrow>change_drop_database_event_of_json (change_drop_database_event_json x) = Some x"
  by (cases x) (clarsimp simp: change_drop_database_event_of_json_def change_drop_database_event_json_def change_drop_database_event_good_def read_back)

lemma change_drop_database_event_typed: "typed change_drop_database_event_good change_drop_database_event_of_json"
  unfolding typed_def change_drop_database_event_of_json_def change_drop_database_event_good_def
  by (auto simp: bind_eq_Some_conv dest!: typed_optional [OF timestamp_typed]
      typed_optional [OF typed_hash_map [OF typed_True [of "Some"]]])

subsection \<open>\<^verbatim>\<open>documentdb/events/drop_event\<close>\<close>

record change_drop_event =
  cdeve_id :: document_id
  cdeve_cluster_time :: "timestamp option"
  cdeve_ls_id :: "((string \<times> json) list) option"
  cdeve_ns :: database_collection
  cdeve_txn_number :: "string option"

definition change_drop_event_json :: "change_drop_event \<Rightarrow> json" where
  "change_drop_event_json x = JObj
     ([(''_id'', document_id_json (cdeve_id x)),
      (''clusterTime'', json_of_option timestamp_json (cdeve_cluster_time x)),
      (''lsid'', json_of_option (json_of_map (\<lambda>v. v)) (cdeve_ls_id x)),
      (''ns'', database_collection_json (cdeve_ns x)),
      (''txnNumber'', json_of_option JStr (cdeve_txn_number x))])"

definition change_drop_event_of_json :: "json \<Rightarrow> change_drop_event option" where
  "change_drop_event_of_json j = do {
     kvs \<leftarrow> de_fields 4
       [''_id'', ''clusterTime'', ''lsid'', ''ns'', ''txnNumber''] j;
     x_id \<leftarrow> de_required document_id_of_json [''_id''] kvs;
     x_cluster_time \<leftarrow> de_optional timestamp_of_json [''clusterTime''] kvs;
     x_ls_id \<leftarrow> de_optional (de_hash_map Some) [''lsid''] kvs;
     x_ns \<leftarrow> de_required database_collection_of_json [''ns''] kvs;
     x_txn_number \<leftarrow> de_opt_string ''txnNumber'' kvs;
     Some \<lparr>cdeve_id = x_id, cdeve_cluster_time = x_cluster_time, cdeve_ls_id = x_ls_id,
       cdeve_ns = x_ns, cdeve_txn_number = x_txn_number\<rparr> }"

definition change_drop_event_good :: "change_drop_event \<Rightarrow> bool" where
  "change_drop_event_good x \<longleftrightarrow>
     good_option timestamp_good (cdeve_cluster_time x) \<and>
     good_option (good_map (\<lambda>_. True)) (cdeve_ls_id x)"

lemma change_drop_event_not_null [simp]: "change_drop_event_json x \<noteq> JNull"
  by (simp add: change_drop_event_json_def)

lemma change_drop_event_read [read_back]: "change_drop_event_good x \<Longrightarrow>change_drop_event_of_json (change_drop_event_json x) = Some x"
  by (cases x) (clarsimp simp: change_drop_event_of_json_def change_drop_event_json_def change_drop_event_good_def read_back)

lemma change_drop_event_typed: "typed change_drop_event_good change_drop_event_of_json"
  unfolding typed_def change_drop_event_of_json_def change_drop_event_good_def
  by (auto simp: bind_eq_Some_conv dest!: typed_optional [OF timestamp_typed]
      typed_optional [OF typed_hash_map [OF typed_True [of "Some"]]])

subsection \<open>\<^verbatim>\<open>documentdb/events/insert_event\<close>\<close>

record change_insert_event =
  cie_id :: document_id
  cie_cluster_time :: "timestamp option"
  cie_document_key :: document_key_id
  cie_ls_id :: "((string \<times> json) list) option"
  cie_ns :: database_collection
  cie_txn_number :: "((string \<times> json) list) option"

definition change_insert_event_json :: "change_insert_event \<Rightarrow> json" where
  "change_insert_event_json x = JObj
     ([(''_id'', document_id_json (cie_id x)),
      (''clusterTime'', json_of_option timestamp_json (cie_cluster_time x)),
      (''documentKey'', document_key_id_json (cie_document_key x)),
      (''lsid'', json_of_option (json_of_map (\<lambda>v. v)) (cie_ls_id x)),
      (''ns'', database_collection_json (cie_ns x)),
      (''txnNumber'', json_of_option (json_of_map (\<lambda>v. v)) (cie_txn_number x))])"

definition change_insert_event_of_json :: "json \<Rightarrow> change_insert_event option" where
  "change_insert_event_of_json j = do {
     kvs \<leftarrow> de_fields 5
       [''_id'', ''clusterTime'', ''documentKey'', ''lsid'', ''ns'', ''txnNumber''] j;
     x_id \<leftarrow> de_required document_id_of_json [''_id''] kvs;
     x_cluster_time \<leftarrow> de_optional timestamp_of_json [''clusterTime''] kvs;
     x_document_key \<leftarrow> de_required document_key_id_of_json [''documentKey''] kvs;
     x_ls_id \<leftarrow> de_optional (de_hash_map Some) [''lsid''] kvs;
     x_ns \<leftarrow> de_required database_collection_of_json [''ns''] kvs;
     x_txn_number \<leftarrow> de_optional (de_hash_map Some) [''txnNumber''] kvs;
     Some \<lparr>cie_id = x_id, cie_cluster_time = x_cluster_time, cie_document_key = x_document_key,
       cie_ls_id = x_ls_id, cie_ns = x_ns, cie_txn_number = x_txn_number\<rparr> }"

definition change_insert_event_good :: "change_insert_event \<Rightarrow> bool" where
  "change_insert_event_good x \<longleftrightarrow>
     good_option timestamp_good (cie_cluster_time x) \<and>
     good_option (good_map (\<lambda>_. True)) (cie_ls_id x) \<and>
     good_option (good_map (\<lambda>_. True)) (cie_txn_number x)"

lemma change_insert_event_not_null [simp]: "change_insert_event_json x \<noteq> JNull"
  by (simp add: change_insert_event_json_def)

lemma change_insert_event_read [read_back]: "change_insert_event_good x \<Longrightarrow>change_insert_event_of_json (change_insert_event_json x) = Some x"
  by (cases x) (clarsimp simp: change_insert_event_of_json_def change_insert_event_json_def change_insert_event_good_def read_back)

lemma change_insert_event_typed: "typed change_insert_event_good change_insert_event_of_json"
  unfolding typed_def change_insert_event_of_json_def change_insert_event_good_def
  by (auto simp: bind_eq_Some_conv dest!: typed_optional [OF timestamp_typed]
      typed_optional [OF typed_hash_map [OF typed_True [of "Some"]]])

subsection \<open>\<^verbatim>\<open>documentdb/events/invalidate_event\<close>\<close>

record change_invalidate_event =
  ciev_id :: document_id
  ciev_cluster_time :: "timestamp option"

definition change_invalidate_event_json :: "change_invalidate_event \<Rightarrow> json" where
  "change_invalidate_event_json x = JObj
     ([(''_id'', document_id_json (ciev_id x)),
      (''clusterTime'', json_of_option timestamp_json (ciev_cluster_time x))])"

definition change_invalidate_event_of_json :: "json \<Rightarrow> change_invalidate_event option" where
  "change_invalidate_event_of_json j = do {
     kvs \<leftarrow> de_fields 1
       [''_id'', ''clusterTime''] j;
     x_id \<leftarrow> de_required document_id_of_json [''_id''] kvs;
     x_cluster_time \<leftarrow> de_optional timestamp_of_json [''clusterTime''] kvs;
     Some \<lparr>ciev_id = x_id, ciev_cluster_time = x_cluster_time\<rparr> }"

definition change_invalidate_event_good :: "change_invalidate_event \<Rightarrow> bool" where
  "change_invalidate_event_good x \<longleftrightarrow>
     good_option timestamp_good (ciev_cluster_time x)"

lemma change_invalidate_event_not_null [simp]: "change_invalidate_event_json x \<noteq> JNull"
  by (simp add: change_invalidate_event_json_def)

lemma change_invalidate_event_read [read_back]: "change_invalidate_event_good x \<Longrightarrow>change_invalidate_event_of_json (change_invalidate_event_json x) = Some x"
  by (cases x) (simp add: change_invalidate_event_of_json_def change_invalidate_event_json_def change_invalidate_event_good_def read_back)

lemma change_invalidate_event_typed: "typed change_invalidate_event_good change_invalidate_event_of_json"
  unfolding typed_def change_invalidate_event_of_json_def change_invalidate_event_good_def
  by (auto simp: bind_eq_Some_conv dest!: typed_optional [OF timestamp_typed])

subsection \<open>\<^verbatim>\<open>documentdb/events/rename_event\<close>\<close>

record change_rename_event =
  crev_id :: document_id
  crev_cluster_time :: "timestamp option"
  crev_ls_id :: "((string \<times> json) list) option"
  crev_ns :: database_collection
  crev_txn_number :: "string option"
  crev_to :: database_collection

definition change_rename_event_json :: "change_rename_event \<Rightarrow> json" where
  "change_rename_event_json x = JObj
     ([(''_id'', document_id_json (crev_id x)),
      (''clusterTime'', json_of_option timestamp_json (crev_cluster_time x)),
      (''lsid'', json_of_option (json_of_map (\<lambda>v. v)) (crev_ls_id x)),
      (''ns'', database_collection_json (crev_ns x)),
      (''txnNumber'', json_of_option JStr (crev_txn_number x)),
      (''to'', database_collection_json (crev_to x))])"

definition change_rename_event_of_json :: "json \<Rightarrow> change_rename_event option" where
  "change_rename_event_of_json j = do {
     kvs \<leftarrow> de_fields 6
       [''_id'', ''clusterTime'', ''lsid'', ''ns'', ''txnNumber'', ''to''] j;
     x_id \<leftarrow> de_required document_id_of_json [''_id''] kvs;
     x_cluster_time \<leftarrow> de_optional timestamp_of_json [''clusterTime''] kvs;
     x_ls_id \<leftarrow> de_optional (de_hash_map Some) [''lsid''] kvs;
     x_ns \<leftarrow> de_required database_collection_of_json [''ns''] kvs;
     x_txn_number \<leftarrow> de_opt_string ''txnNumber'' kvs;
     x_to \<leftarrow> de_required database_collection_of_json [''to''] kvs;
     Some \<lparr>crev_id = x_id, crev_cluster_time = x_cluster_time, crev_ls_id = x_ls_id, crev_ns = x_ns,
       crev_txn_number = x_txn_number, crev_to = x_to\<rparr> }"

definition change_rename_event_good :: "change_rename_event \<Rightarrow> bool" where
  "change_rename_event_good x \<longleftrightarrow>
     good_option timestamp_good (crev_cluster_time x) \<and>
     good_option (good_map (\<lambda>_. True)) (crev_ls_id x)"

lemma change_rename_event_not_null [simp]: "change_rename_event_json x \<noteq> JNull"
  by (simp add: change_rename_event_json_def)

lemma change_rename_event_read [read_back]: "change_rename_event_good x \<Longrightarrow>change_rename_event_of_json (change_rename_event_json x) = Some x"
  by (cases x) (clarsimp simp: change_rename_event_of_json_def change_rename_event_json_def change_rename_event_good_def read_back)

lemma change_rename_event_typed: "typed change_rename_event_good change_rename_event_of_json"
  unfolding typed_def change_rename_event_of_json_def change_rename_event_good_def
  by (auto simp: bind_eq_Some_conv dest!: typed_optional [OF timestamp_typed]
      typed_optional [OF typed_hash_map [OF typed_True [of "Some"]]])

subsection \<open>\<^verbatim>\<open>documentdb/events/replace_event\<close>\<close>

record change_replace_event =
  creve_id :: document_id
  creve_cluster_time :: "timestamp option"
  creve_document_key :: document_key_id
  creve_ls_id :: "((string \<times> json) list) option"
  creve_ns :: database_collection
  creve_txn_number :: "((string \<times> json) list) option"

definition change_replace_event_json :: "change_replace_event \<Rightarrow> json" where
  "change_replace_event_json x = JObj
     ([(''_id'', document_id_json (creve_id x)),
      (''clusterTime'', json_of_option timestamp_json (creve_cluster_time x)),
      (''documentKey'', document_key_id_json (creve_document_key x)),
      (''lsid'', json_of_option (json_of_map (\<lambda>v. v)) (creve_ls_id x)),
      (''ns'', database_collection_json (creve_ns x)),
      (''txnNumber'', json_of_option (json_of_map (\<lambda>v. v)) (creve_txn_number x))])"

definition change_replace_event_of_json :: "json \<Rightarrow> change_replace_event option" where
  "change_replace_event_of_json j = do {
     kvs \<leftarrow> de_fields 5
       [''_id'', ''clusterTime'', ''documentKey'', ''lsid'', ''ns'', ''txnNumber''] j;
     x_id \<leftarrow> de_required document_id_of_json [''_id''] kvs;
     x_cluster_time \<leftarrow> de_optional timestamp_of_json [''clusterTime''] kvs;
     x_document_key \<leftarrow> de_required document_key_id_of_json [''documentKey''] kvs;
     x_ls_id \<leftarrow> de_optional (de_hash_map Some) [''lsid''] kvs;
     x_ns \<leftarrow> de_required database_collection_of_json [''ns''] kvs;
     x_txn_number \<leftarrow> de_optional (de_hash_map Some) [''txnNumber''] kvs;
     Some \<lparr>creve_id = x_id, creve_cluster_time = x_cluster_time,
       creve_document_key = x_document_key, creve_ls_id = x_ls_id, creve_ns = x_ns,
       creve_txn_number = x_txn_number\<rparr> }"

definition change_replace_event_good :: "change_replace_event \<Rightarrow> bool" where
  "change_replace_event_good x \<longleftrightarrow>
     good_option timestamp_good (creve_cluster_time x) \<and>
     good_option (good_map (\<lambda>_. True)) (creve_ls_id x) \<and>
     good_option (good_map (\<lambda>_. True)) (creve_txn_number x)"

lemma change_replace_event_not_null [simp]: "change_replace_event_json x \<noteq> JNull"
  by (simp add: change_replace_event_json_def)

lemma change_replace_event_read [read_back]: "change_replace_event_good x \<Longrightarrow>change_replace_event_of_json (change_replace_event_json x) = Some x"
  by (cases x) (clarsimp simp: change_replace_event_of_json_def change_replace_event_json_def change_replace_event_good_def read_back)

lemma change_replace_event_typed: "typed change_replace_event_good change_replace_event_of_json"
  unfolding typed_def change_replace_event_of_json_def change_replace_event_good_def
  by (auto simp: bind_eq_Some_conv dest!: typed_optional [OF timestamp_typed]
      typed_optional [OF typed_hash_map [OF typed_True [of "Some"]]])

subsection \<open>\<^verbatim>\<open>documentdb/events/update_event\<close>\<close>

record update_truncate =
  utr_field :: string
  utr_new_size :: nat

definition update_truncate_json :: "update_truncate \<Rightarrow> json" where
  "update_truncate_json x = JObj
     ([(''field'', JStr (utr_field x)),
      (''newSize'', json_of_nat (utr_new_size x))])"

definition update_truncate_of_json :: "json \<Rightarrow> update_truncate option" where
  "update_truncate_of_json j = do {
     kvs \<leftarrow> de_fields 2
       [''field'', ''newSize''] j;
     x_field \<leftarrow> de_required de_string [''field''] kvs;
     x_new_size \<leftarrow> de_required (de_unsigned u64_max) [''newSize''] kvs;
     Some \<lparr>utr_field = x_field, utr_new_size = x_new_size\<rparr> }"

definition update_truncate_good :: "update_truncate \<Rightarrow> bool" where
  "update_truncate_good x \<longleftrightarrow>
     good_nat u64_max (utr_new_size x)"

lemma update_truncate_not_null [simp]: "update_truncate_json x \<noteq> JNull"
  by (simp add: update_truncate_json_def)

lemma update_truncate_read [read_back]: "update_truncate_good x \<Longrightarrow>update_truncate_of_json (update_truncate_json x) = Some x"
  by (cases x) (simp add: update_truncate_of_json_def update_truncate_json_def update_truncate_good_def read_back)

lemma update_truncate_typed: "typed update_truncate_good update_truncate_of_json"
  unfolding typed_def update_truncate_of_json_def update_truncate_good_def
  by (auto simp: bind_eq_Some_conv dest!: typed_required [OF typed_nat])

record update_description =
  ud_removed_fields :: "string list"
  ud_truncated_arrays :: "update_truncate list"
  ud_updated_fields :: "(string \<times> json) list"

definition update_description_json :: "update_description \<Rightarrow> json" where
  "update_description_json x = JObj
     ([(''removedFields'', json_of_list JStr (ud_removed_fields x)),
      (''truncatedArrays'', json_of_list update_truncate_json (ud_truncated_arrays x)),
      (''updatedFields'', json_of_map (\<lambda>v. v) (ud_updated_fields x))])"

definition update_description_of_json :: "json \<Rightarrow> update_description option" where
  "update_description_of_json j = do {
     kvs \<leftarrow> de_fields 3
       [''removedFields'', ''truncatedArrays'', ''updatedFields''] j;
     x_removed_fields \<leftarrow> de_required (de_list de_string) [''removedFields''] kvs;
     x_truncated_arrays \<leftarrow> de_required (de_list update_truncate_of_json) [''truncatedArrays''] kvs;
     x_updated_fields \<leftarrow> de_required (de_hash_map Some) [''updatedFields''] kvs;
     Some \<lparr>ud_removed_fields = x_removed_fields, ud_truncated_arrays = x_truncated_arrays,
       ud_updated_fields = x_updated_fields\<rparr> }"

definition update_description_good :: "update_description \<Rightarrow> bool" where
  "update_description_good x \<longleftrightarrow>
     list_all update_truncate_good (ud_truncated_arrays x) \<and>
     good_map (\<lambda>_. True) (ud_updated_fields x)"

lemma update_description_not_null [simp]: "update_description_json x \<noteq> JNull"
  by (simp add: update_description_json_def)

lemma update_description_read [read_back]: "update_description_good x \<Longrightarrow>update_description_of_json (update_description_json x) = Some x"
  by (cases x) (clarsimp simp: update_description_of_json_def update_description_json_def update_description_good_def read_back)

lemma update_description_typed: "typed update_description_good update_description_of_json"
  unfolding typed_def update_description_of_json_def update_description_good_def
  by (auto simp: bind_eq_Some_conv dest!: typed_required [OF typed_list [OF update_truncate_typed]]
      typed_required [OF typed_hash_map [OF typed_True [of "Some"]]])

record change_update_event =
  cue_id :: document_id
  cue_cluster_time :: "timestamp option"
  cue_document_key :: document_key_id
  cue_ls_id :: "((string \<times> json) list) option"
  cue_ns :: database_collection
  cue_update_description :: update_description
  cue_txn_number :: "((string \<times> json) list) option"

definition change_update_event_json :: "change_update_event \<Rightarrow> json" where
  "change_update_event_json x = JObj
     ([(''_id'', document_id_json (cue_id x)),
      (''clusterTime'', json_of_option timestamp_json (cue_cluster_time x)),
      (''documentKey'', document_key_id_json (cue_document_key x)),
      (''lsid'', json_of_option (json_of_map (\<lambda>v. v)) (cue_ls_id x)),
      (''ns'', database_collection_json (cue_ns x)),
      (''updateDescription'', update_description_json (cue_update_description x)),
      (''txnNumber'', json_of_option (json_of_map (\<lambda>v. v)) (cue_txn_number x))])"

definition change_update_event_of_json :: "json \<Rightarrow> change_update_event option" where
  "change_update_event_of_json j = do {
     kvs \<leftarrow> de_fields 6
       [''_id'', ''clusterTime'', ''documentKey'', ''lsid'', ''ns'', ''updateDescription'',
        ''txnNumber''] j;
     x_id \<leftarrow> de_required document_id_of_json [''_id''] kvs;
     x_cluster_time \<leftarrow> de_optional timestamp_of_json [''clusterTime''] kvs;
     x_document_key \<leftarrow> de_required document_key_id_of_json [''documentKey''] kvs;
     x_ls_id \<leftarrow> de_optional (de_hash_map Some) [''lsid''] kvs;
     x_ns \<leftarrow> de_required database_collection_of_json [''ns''] kvs;
     x_update_description \<leftarrow> de_required update_description_of_json [''updateDescription''] kvs;
     x_txn_number \<leftarrow> de_optional (de_hash_map Some) [''txnNumber''] kvs;
     Some \<lparr>cue_id = x_id, cue_cluster_time = x_cluster_time, cue_document_key = x_document_key,
       cue_ls_id = x_ls_id, cue_ns = x_ns, cue_update_description = x_update_description,
       cue_txn_number = x_txn_number\<rparr> }"

definition change_update_event_good :: "change_update_event \<Rightarrow> bool" where
  "change_update_event_good x \<longleftrightarrow>
     good_option timestamp_good (cue_cluster_time x) \<and>
     good_option (good_map (\<lambda>_. True)) (cue_ls_id x) \<and>
     update_description_good (cue_update_description x) \<and>
     good_option (good_map (\<lambda>_. True)) (cue_txn_number x)"

lemma change_update_event_not_null [simp]: "change_update_event_json x \<noteq> JNull"
  by (simp add: change_update_event_json_def)

lemma change_update_event_read [read_back]: "change_update_event_good x \<Longrightarrow>change_update_event_of_json (change_update_event_json x) = Some x"
  by (cases x) (clarsimp simp: change_update_event_of_json_def change_update_event_json_def change_update_event_good_def read_back)

lemma change_update_event_typed: "typed change_update_event_good change_update_event_of_json"
  unfolding typed_def change_update_event_of_json_def change_update_event_good_def
  by (auto simp: bind_eq_Some_conv dest!: typed_optional [OF timestamp_typed]
      typed_optional [OF typed_hash_map [OF typed_True [of "Some"]]]
      typed_required [OF update_description_typed])

subsection \<open>\<^verbatim>\<open>documentdb\<close>\<close>

datatype change_event =
    ChangeEvent_Insert change_insert_event
  | ChangeEvent_Delete change_delete_event
  | ChangeEvent_Drop change_drop_event
  | ChangeEvent_DropDatabase change_drop_database_event
  | ChangeEvent_Invalidate change_invalidate_event
  | ChangeEvent_Replace change_replace_event
  | ChangeEvent_Update change_update_event
  | ChangeEvent_Rename change_rename_event

fun change_event_json :: "change_event \<Rightarrow> json" where
  "change_event_json (ChangeEvent_Insert x) = json_of_tagged ''operationType'' ''insert'' (change_insert_event_json x)"
| "change_event_json (ChangeEvent_Delete x) = json_of_tagged ''operationType'' ''delete'' (change_delete_event_json x)"
| "change_event_json (ChangeEvent_Drop x) = json_of_tagged ''operationType'' ''drop'' (change_drop_event_json x)"
| "change_event_json (ChangeEvent_DropDatabase x) = json_of_tagged ''operationType'' ''dropDatabase'' (change_drop_database_event_json x)"
| "change_event_json (ChangeEvent_Invalidate x) = json_of_tagged ''operationType'' ''invalidate'' (change_invalidate_event_json x)"
| "change_event_json (ChangeEvent_Replace x) = json_of_tagged ''operationType'' ''replace'' (change_replace_event_json x)"
| "change_event_json (ChangeEvent_Update x) = json_of_tagged ''operationType'' ''update'' (change_update_event_json x)"
| "change_event_json (ChangeEvent_Rename x) = json_of_tagged ''operationType'' ''rename'' (change_rename_event_json x)"

definition change_event_of_json :: "json \<Rightarrow> change_event option" where
  "change_event_of_json = de_tagged ''operationType''
     [(''insert'', \<lambda>j. map_option ChangeEvent_Insert (change_insert_event_of_json j)),
      (''delete'', \<lambda>j. map_option ChangeEvent_Delete (change_delete_event_of_json j)),
      (''drop'', \<lambda>j. map_option ChangeEvent_Drop (change_drop_event_of_json j)),
      (''dropDatabase'', \<lambda>j. map_option ChangeEvent_DropDatabase (change_drop_database_event_of_json j)),
      (''invalidate'', \<lambda>j. map_option ChangeEvent_Invalidate (change_invalidate_event_of_json j)),
      (''replace'', \<lambda>j. map_option ChangeEvent_Replace (change_replace_event_of_json j)),
      (''update'', \<lambda>j. map_option ChangeEvent_Update (change_update_event_of_json j)),
      (''rename'', \<lambda>j. map_option ChangeEvent_Rename (change_rename_event_of_json j))]"

fun change_event_good :: "change_event \<Rightarrow> bool" where
  "change_event_good (ChangeEvent_Insert x) = change_insert_event_good x"
| "change_event_good (ChangeEvent_Delete x) = change_delete_event_good x"
| "change_event_good (ChangeEvent_Drop x) = change_drop_event_good x"
| "change_event_good (ChangeEvent_DropDatabase x) = change_drop_database_event_good x"
| "change_event_good (ChangeEvent_Invalidate x) = change_invalidate_event_good x"
| "change_event_good (ChangeEvent_Replace x) = change_replace_event_good x"
| "change_event_good (ChangeEvent_Update x) = change_update_event_good x"
| "change_event_good (ChangeEvent_Rename x) = change_rename_event_good x"

lemma change_event_not_null [simp]: "change_event_json x \<noteq> JNull"
  by (cases x) (simp_all add: json_of_tagged_def change_insert_event_json_def change_delete_event_json_def change_drop_event_json_def change_drop_database_event_json_def change_invalidate_event_json_def change_replace_event_json_def change_update_event_json_def change_rename_event_json_def)

lemma change_event_keys:
  "is_object (change_insert_event_json x0)" "''operationType'' \<notin> set (json_keys (change_insert_event_json x0))"
  "is_object (change_delete_event_json x1)" "''operationType'' \<notin> set (json_keys (change_delete_event_json x1))"
  "is_object (change_drop_event_json x2)" "''operationType'' \<notin> set (json_keys (change_drop_event_json x2))"
  "is_object (change_drop_database_event_json x3)" "''operationType'' \<notin> set (json_keys (change_drop_database_event_json x3))"
  "is_object (change_invalidate_event_json x4)" "''operationType'' \<notin> set (json_keys (change_invalidate_event_json x4))"
  "is_object (change_replace_event_json x5)" "''operationType'' \<notin> set (json_keys (change_replace_event_json x5))"
  "is_object (change_update_event_json x6)" "''operationType'' \<notin> set (json_keys (change_update_event_json x6))"
  "is_object (change_rename_event_json x7)" "''operationType'' \<notin> set (json_keys (change_rename_event_json x7))"
  by (simp_all add: change_insert_event_json_def change_delete_event_json_def change_drop_event_json_def change_drop_database_event_json_def change_invalidate_event_json_def change_replace_event_json_def change_update_event_json_def change_rename_event_json_def is_object_def json_keys_def opt_field_keys)

lemma change_event_read [read_back]: "change_event_good x \<Longrightarrow>change_event_of_json (change_event_json x) = Some x"
  by (cases x) (simp_all add: change_event_of_json_def read_tagged change_event_keys read_back)

lemma change_event_typed: "typed change_event_good change_event_of_json"
  unfolding change_event_of_json_def
  by (rule typed_tagged) (auto simp: typed_def dest: typedD [OF change_insert_event_typed]
      typedD [OF change_delete_event_typed]
      typedD [OF change_drop_event_typed]
      typedD [OF change_drop_database_event_typed]
      typedD [OF change_invalidate_event_typed]
      typedD [OF change_replace_event_typed]
      typedD [OF change_update_event_typed]
      typedD [OF change_rename_event_typed])

record document_db_inner_event =
  ddie_event :: change_event

definition document_db_inner_event_json :: "document_db_inner_event \<Rightarrow> json" where
  "document_db_inner_event_json x = JObj
     ([(''event'', change_event_json (ddie_event x))])"

definition document_db_inner_event_of_json :: "json \<Rightarrow> document_db_inner_event option" where
  "document_db_inner_event_of_json j = do {
     kvs \<leftarrow> de_fields 1
       [''event''] j;
     x_event \<leftarrow> de_required change_event_of_json [''event''] kvs;
     Some \<lparr>ddie_event = x_event\<rparr> }"

definition document_db_inner_event_good :: "document_db_inner_event \<Rightarrow> bool" where
  "document_db_inner_event_good x \<longleftrightarrow>
     change_event_good (ddie_event x)"

lemma document_db_inner_event_not_null [simp]: "document_db_inner_event_json x \<noteq> JNull"
  by (simp add: document_db_inner_event_json_def)

lemma document_db_inner_event_read [read_back]: "document_db_inner_event_good x \<Longrightarrow>document_db_inner_event_of_json (document_db_inner_event_json x) = Some x"
  by (cases x) (simp add: document_db_inner_event_of_json_def document_db_inner_event_json_def document_db_inner_event_good_def read_back)

lemma document_db_inner_event_typed: "typed document_db_inner_event_good document_db_inner_event_of_json"
  unfolding typed_def document_db_inner_event_of_json_def document_db_inner_event_good_def
  by (auto simp: bind_eq_Some_conv dest!: typed_required [OF change_event_typed])

record document_db_event =
  dde_event_source_arn :: "string option"
  dde_events :: "document_db_inner_event list"
  dde_event_source :: "string option"

definition document_db_event_json :: "document_db_event \<Rightarrow> json" where
  "document_db_event_json x = JObj
     ([(''eventSourceArn'', json_of_option JStr (dde_event_source_arn x)),
      (''events'', json_of_list document_db_inner_event_json (dde_events x)),
      (''eventSource'', json_of_option JStr (dde_event_source x))])"

definition document_db_event_of_json :: "json \<Rightarrow> document_db_event option" where
  "document_db_event_of_json j = do {
     kvs \<leftarrow> de_fields 2
       [''eventSourceArn'', ''events'', ''eventSource''] j;
     x_event_source_arn \<leftarrow> de_opt_string ''eventSourceArn'' kvs;
     x_events \<leftarrow> de_required (de_list document_db_inner_event_of_json) [''events''] kvs;
     x_event_source \<leftarrow> de_opt_string ''eventSource'' kvs;
     Some \<lparr>dde_event_source_arn = x_event_source_arn, dde_events = x_events,
       dde_event_source = x_event_source\<rparr> }"

definition document_db_event_good :: "document_db_event \<Rightarrow> bool" where
  "document_db_event_good x \<longleftrightarrow>
     list_all document_db_inner_event_good (dde_events x)"

lemma document_db_event_not_null [simp]: "document_db_event_json x \<noteq> JNull"
  by (simp add: document_db_event_json_def)

lemma document_db_event_read [read_back]: "document_db_event_good x \<Longrightarrow>document_db_event_of_json (document_db_event_json x) = Some x"
  by (cases x) (simp add: document_db_event_of_json_def document_db_event_json_def document_db_event_good_def read_back)

lemma document_db_event_typed: "typed document_db_event_good document_db_event_of_json"
  unfolding typed_def document_db_event_of_json_def document_db_event_good_def
  by (auto simp: bind_eq_Some_conv dest!: typed_required [OF typed_list [OF document_db_inner_event_typed]])

subsection \<open>Reading what was written\<close>

text \<open>
  C33: requests to CloudFormation custom resources, directly or through the CDK provider
  framework, and the change events of DocumentDB: what is read is well formed, and what it is
  written to, with the tag of its variant, is read as the same event.
\<close>

theorem union_events_reparse:
  assumes typed: "typed P f"
    and inverse: "\<And>x. P x \<Longrightarrow> f (g x) = Some x"
  shows "reparses (cloud_formation_custom_resource_request_good P P) (cloud_formation_custom_resource_request_of_json f f) (cloud_formation_custom_resource_request_json g g) \<and>
    reparses cloud_formation_custom_resource_response_good cloud_formation_custom_resource_response_of_json cloud_formation_custom_resource_response_json \<and>
    reparses (provider_cloud_formation_custom_resource_response_good P) (provider_cloud_formation_custom_resource_response_of_json f) (provider_cloud_formation_custom_resource_response_json g) \<and>
    reparses (provider_cloud_formation_custom_resource_request_good P P) (provider_cloud_formation_custom_resource_request_of_json f f) (provider_cloud_formation_custom_resource_request_json g g) \<and>
    reparses document_db_event_good document_db_event_of_json document_db_event_json"
  by (intro conjI reparsesI typed_True typed_nn cloud_formation_custom_resource_request_typed
      cloud_formation_custom_resource_response_typed
      provider_cloud_formation_custom_resource_response_typed
      provider_cloud_formation_custom_resource_request_typed
      document_db_event_typed)
    (auto simp: assms read_back)

definition create_request_example :: json where
  "create_request_example = JObj
     [(''RequestType'', JStr ''Create''), (''RequestId'', JStr ''r''), (''ResponseURL'', JStr ''u''), (''StackId'', JStr ''s''),
      (''ResourceType'', JStr ''Custom::Bucket''), (''LogicalResourceId'', JStr ''l''),
      (''ResourceProperties'', JStr ''p'')]"

theorem union_events_reparse_witness:
  "\<exists>x. cloud_formation_custom_resource_request_of_json de_string de_string create_request_example =
       Some (CloudFormationCustomResourceRequest_Create x) \<and>
     cloud_formation_custom_resource_request_of_json de_string de_string
       (cloud_formation_custom_resource_request_json JStr JStr (CloudFormationCustomResourceRequest_Create x)) =
       Some (CloudFormationCustomResourceRequest_Create x)"
proof -
  have reparse: "reparses (cloud_formation_custom_resource_request_good (\<lambda>_. True) (\<lambda>_. True))
      (cloud_formation_custom_resource_request_of_json de_string de_string)
      (cloud_formation_custom_resource_request_json JStr JStr)"
    using union_events_reparse [where P = "\<lambda>_. True" and f = de_string and g = JStr, OF typed_True de_string_JStr] by blast
  have "\<exists>x. cloud_formation_custom_resource_request_of_json de_string de_string create_request_example =
      Some (CloudFormationCustomResourceRequest_Create x)"
    by (simp add: create_request_example_def cloud_formation_custom_resource_request_of_json_def de_tagged_def
        create_request_of_json_def de_opt_string_def de_simps)
  then show ?thesis
    using reparsesD [OF reparse] by blast
qed

end
