(* ===== verification/TimedSerde.thy ===== *)
theory TimedSerde
  imports EventSerde TimeEncodings
begin

text \<open>
  The timestamps and durations of \<open>TimeEncodings\<close> as field types of event structures. They
  do not survive every writing and reading, so a structure that holds one is read back where its
  instants are kept.
\<close>

definition milliseconds_of_json :: "time_crates \<Rightarrow> json \<Rightarrow> datetime option" where
  "milliseconds_of_json T j = ok_option (deserialize_milliseconds T j)"

definition seconds_of_json :: "time_crates \<Rightarrow> json \<Rightarrow> datetime option" where
  "seconds_of_json T j = ok_option (deserialize_seconds T j)"

definition kept_milliseconds :: "time_crates \<Rightarrow> datetime \<Rightarrow> bool" where
  "kept_milliseconds T d \<longleftrightarrow> milliseconds_of_json T (serialize_milliseconds d) = Some d"

definition kept_seconds :: "time_crates \<Rightarrow> datetime \<Rightarrow> bool" where
  "kept_seconds T d \<longleftrightarrow> seconds_of_json T (serialize_seconds d) = Some d"

definition kept_epoch :: "time_crates \<Rightarrow> datetime \<Rightarrow> bool" where
  "kept_epoch T d \<longleftrightarrow> epoch_deserialize T (epoch_serialize d) = Some d"

definition kept_build_time :: "time_crates \<Rightarrow> datetime \<Rightarrow> bool" where
  "kept_build_time T d \<longleftrightarrow> str_time_deserialize T (str_time_serialize T d) = Some d"

definition kept_duration_seconds :: "time_crates \<Rightarrow> datetime \<Rightarrow> bool" where
  "kept_duration_seconds T d \<longleftrightarrow> deserialize_duration_seconds T (serialize_duration_seconds d) = Some d"

definition kept_duration_minutes :: "time_crates \<Rightarrow> datetime \<Rightarrow> bool" where
  "kept_duration_minutes T d \<longleftrightarrow> deserialize_duration_minutes T (serialize_duration_minutes d) = Some d"

lemma timed_not_null [simp]:
  "serialize_milliseconds d \<noteq> JNull" "serialize_seconds d \<noteq> JNull" "epoch_serialize d \<noteq> JNull"
  "str_time_serialize T d \<noteq> JNull" "serialize_duration_seconds d \<noteq> JNull" "serialize_duration_minutes d \<noteq> JNull"
  by (simp_all add: serialize_milliseconds_def serialize_seconds_def epoch_serialize_def str_time_serialize_def
      serialize_duration_seconds_def serialize_duration_minutes_def Let_def)

lemma read_timed [read_back]:
  "kept_milliseconds T d \<Longrightarrow> milliseconds_of_json T (serialize_milliseconds d) = Some d"
  "kept_seconds T d \<Longrightarrow> seconds_of_json T (serialize_seconds d) = Some d"
  "kept_epoch T d \<Longrightarrow> epoch_deserialize T (epoch_serialize d) = Some d"
  "kept_build_time T d \<Longrightarrow> str_time_deserialize T (str_time_serialize T d) = Some d"
  "kept_duration_seconds T d \<Longrightarrow> deserialize_duration_seconds T (serialize_duration_seconds d) = Some d"
  "kept_duration_minutes T d \<Longrightarrow> deserialize_duration_minutes T (serialize_duration_minutes d) = Some d"
  by (simp_all add: kept_milliseconds_def kept_seconds_def kept_epoch_def kept_build_time_def
      kept_duration_seconds_def kept_duration_minutes_def)

lemma read_optional_time [read_back]:
  "good_option (kept_build_time T) v \<Longrightarrow> optional_time_deserialize T (optional_time_serialize T v) = Some v"
  by (cases v) (auto simp: good_option_def optional_time_deserialize_def optional_time_serialize_def
      str_time_serialize_def kept_build_time_def)

end
