(* ===== verification/TimedEvents.thy ===== *)
theory TimedEvents
  imports TimedSerde StreamEvents
begin

text \<open>
  The records whose timestamps are numbers or texts of another format: Kinesis and its time windows,
  Kafka, Firehose, DynamoDB streams and CodeBuild (\<^verbatim>\<open>lambda-events/src/event\<close>).
  Each structure has its record, the serialiser and the deserialiser that \<^verbatim>\<open>derive\<close>
  generates from its attributes, well-formedness where its fields restrict it, and the lemmas that
  what is read is well formed and what is written is read back. Structures are in the order
  their fields need.
\<close>

subsection \<open>\<^verbatim>\<open>time_window\<close>\<close>

record time_window_window =
  tww_start :: datetime
  tww_end :: datetime

definition time_window_window_json :: "datetime event_env \<Rightarrow> time_window_window \<Rightarrow> json" where
  "time_window_window_json E x = JObj
     ([(''start'', json_of_time E (tww_start x)),
      (''end'', json_of_time E (tww_end x))])"

definition time_window_window_of_json :: "datetime event_env \<Rightarrow> json \<Rightarrow> time_window_window option" where
  "time_window_window_of_json E j = do {
     kvs \<leftarrow> de_fields 2
       [''start'', ''end''] j;
     x_start \<leftarrow> de_required (time_of_json E) [''start''] kvs;
     x_end \<leftarrow> de_required (time_of_json E) [''end''] kvs;
     Some \<lparr>tww_start = x_start, tww_end = x_end\<rparr> }"

lemma time_window_window_not_null [simp]: "time_window_window_json E x \<noteq> JNull"
  by (simp add: time_window_window_json_def)

lemma time_window_window_read [read_back]: "event_crates E \<Longrightarrow>time_window_window_of_json E (time_window_window_json E x) = Some x"
  by (cases x) (simp add: time_window_window_of_json_def time_window_window_json_def read_back)

record time_window_properties =
  twp_window :: time_window_window
  twp_state :: "(string \<times> string) list"
  twp_shard_id :: "string option"
  twp_event_source_arn :: "string option"
  twp_is_final_invoke_for_window :: bool
  twp_is_window_terminated_early :: bool

definition time_window_properties_fields :: "datetime event_env \<Rightarrow> time_window_properties \<Rightarrow> (string \<times> json) list" where
  "time_window_properties_fields E x =
     [(''window'', time_window_window_json E (twp_window x)),
      (''state'', json_of_map JStr (twp_state x)),
      (''shardId'', json_of_option JStr (twp_shard_id x)),
      (''eventSourceARN'', json_of_option JStr (twp_event_source_arn x)),
      (''isFinalInvokeForWindow'', JBool (twp_is_final_invoke_for_window x)),
      (''isWindowTerminatedEarly'', JBool (twp_is_window_terminated_early x))]"

definition time_window_properties_json :: "datetime event_env \<Rightarrow> time_window_properties \<Rightarrow> json" where
  "time_window_properties_json E x = JObj (time_window_properties_fields E x)"

definition time_window_properties_of_fields :: "datetime event_env \<Rightarrow> (string \<times> json) list \<Rightarrow> time_window_properties option" where
  "time_window_properties_of_fields E kvs = do {
     x_window \<leftarrow> de_required (time_window_window_of_json E) [''window''] kvs;
     x_state \<leftarrow> de_default (de_nullish (de_hash_map de_string) []) [] [''state''] kvs;
     x_shard_id \<leftarrow> de_opt_string ''shardId'' kvs;
     x_event_source_arn \<leftarrow> de_opt_string ''eventSourceARN'' kvs;
     x_is_final_invoke_for_window \<leftarrow> de_required de_bool [''isFinalInvokeForWindow''] kvs;
     x_is_window_terminated_early \<leftarrow> de_required de_bool [''isWindowTerminatedEarly''] kvs;
     Some \<lparr>twp_window = x_window, twp_state = x_state, twp_shard_id = x_shard_id,
       twp_event_source_arn = x_event_source_arn,
       twp_is_final_invoke_for_window = x_is_final_invoke_for_window,
       twp_is_window_terminated_early = x_is_window_terminated_early\<rparr> }"

definition time_window_properties_of_json :: "datetime event_env \<Rightarrow> json \<Rightarrow> time_window_properties option" where
  "time_window_properties_of_json E j = do {
     kvs \<leftarrow> de_fields 6
       [''window'', ''state'', ''shardId'', ''eventSourceARN'', ''isFinalInvokeForWindow'',
        ''isWindowTerminatedEarly''] j;
     time_window_properties_of_fields E kvs }"

definition time_window_properties_good :: "time_window_properties \<Rightarrow> bool" where
  "time_window_properties_good x \<longleftrightarrow>
     good_map (\<lambda>_. True) (twp_state x)"

lemma time_window_properties_not_null [simp]: "time_window_properties_json E x \<noteq> JNull"
  by (simp add: time_window_properties_json_def)

lemma time_window_properties_fields_read:
  "time_window_properties_good x \<Longrightarrow> event_crates E \<Longrightarrow> time_window_properties_of_fields E (time_window_properties_fields E x) = Some x"
  by (cases x) (simp add: time_window_properties_of_fields_def time_window_properties_fields_def time_window_properties_good_def read_back)

lemma time_window_properties_read [read_back]: "time_window_properties_good x \<Longrightarrow> event_crates E \<Longrightarrow>time_window_properties_of_json E (time_window_properties_json E x) = Some x"
  by (simp add: time_window_properties_of_json_def time_window_properties_json_def time_window_properties_fields_read read_back)

lemma time_window_properties_fields_typed: "typed_fields time_window_properties_good (time_window_properties_of_fields E)"
  unfolding typed_fields_def time_window_properties_of_fields_def time_window_properties_good_def
  by (auto simp: bind_eq_Some_conv dest!: typed_default [OF typed_nullish [OF typed_hash_map [OF typed_True [of "de_string"]] good_nil(1)] good_nil(1)])

lemma time_window_properties_typed: "typed time_window_properties_good (time_window_properties_of_json E)"
  unfolding typed_def time_window_properties_of_json_def
  by (auto simp: bind_eq_Some_conv dest!: typed_fieldsD [OF time_window_properties_fields_typed])

record time_window_event_response_properties =
  twerp_state :: "(string \<times> string) list"

definition time_window_event_response_properties_fields :: "time_window_event_response_properties \<Rightarrow> (string \<times> json) list" where
  "time_window_event_response_properties_fields x =
     [(''state'', json_of_map JStr (twerp_state x))]"

definition time_window_event_response_properties_json :: "time_window_event_response_properties \<Rightarrow> json" where
  "time_window_event_response_properties_json x = JObj (time_window_event_response_properties_fields x)"

definition time_window_event_response_properties_of_fields :: "(string \<times> json) list \<Rightarrow> time_window_event_response_properties option" where
  "time_window_event_response_properties_of_fields kvs = do {
     x_state \<leftarrow> de_default (de_nullish (de_hash_map de_string) []) [] [''state''] kvs;
     Some \<lparr>twerp_state = x_state\<rparr> }"

definition time_window_event_response_properties_of_json :: "json \<Rightarrow> time_window_event_response_properties option" where
  "time_window_event_response_properties_of_json j = do {
     kvs \<leftarrow> de_fields 0
       [''state''] j;
     time_window_event_response_properties_of_fields kvs }"

definition time_window_event_response_properties_good :: "time_window_event_response_properties \<Rightarrow> bool" where
  "time_window_event_response_properties_good x \<longleftrightarrow>
     good_map (\<lambda>_. True) (twerp_state x)"

lemma time_window_event_response_properties_not_null [simp]: "time_window_event_response_properties_json x \<noteq> JNull"
  by (simp add: time_window_event_response_properties_json_def)

lemma time_window_event_response_properties_fields_read:
  "time_window_event_response_properties_good x \<Longrightarrow> time_window_event_response_properties_of_fields (time_window_event_response_properties_fields x) = Some x"
  by (cases x) (simp add: time_window_event_response_properties_of_fields_def time_window_event_response_properties_fields_def time_window_event_response_properties_good_def read_back)

lemma time_window_event_response_properties_read [read_back]: "time_window_event_response_properties_good x \<Longrightarrow>time_window_event_response_properties_of_json (time_window_event_response_properties_json x) = Some x"
  by (simp add: time_window_event_response_properties_of_json_def time_window_event_response_properties_json_def time_window_event_response_properties_fields_read read_back)

lemma time_window_event_response_properties_fields_typed: "typed_fields time_window_event_response_properties_good time_window_event_response_properties_of_fields"
  unfolding typed_fields_def time_window_event_response_properties_of_fields_def time_window_event_response_properties_good_def
  by (auto simp: bind_eq_Some_conv dest!: typed_default [OF typed_nullish [OF typed_hash_map [OF typed_True [of "de_string"]] good_nil(1)] good_nil(1)])

lemma time_window_event_response_properties_typed: "typed time_window_event_response_properties_good time_window_event_response_properties_of_json"
  unfolding typed_def time_window_event_response_properties_of_json_def
  by (auto simp: bind_eq_Some_conv dest!: typed_fieldsD [OF time_window_event_response_properties_fields_typed])

subsection \<open>\<^verbatim>\<open>kinesis/event\<close>\<close>

record kinesis_time_window_event_response =
  ktwer_time_window_event_response_properties :: time_window_event_response_properties

definition kinesis_time_window_event_response_json :: "kinesis_time_window_event_response \<Rightarrow> json" where
  "kinesis_time_window_event_response_json x = JObj
     (time_window_event_response_properties_fields (ktwer_time_window_event_response_properties x))"

definition kinesis_time_window_event_response_of_json :: "json \<Rightarrow> kinesis_time_window_event_response option" where
  "kinesis_time_window_event_response_of_json j = do {
     kvs \<leftarrow> de_object j;
     x_time_window_event_response_properties \<leftarrow> time_window_event_response_properties_of_fields kvs;
     Some \<lparr>ktwer_time_window_event_response_properties = x_time_window_event_response_properties\<rparr> }"

definition kinesis_time_window_event_response_good :: "kinesis_time_window_event_response \<Rightarrow> bool" where
  "kinesis_time_window_event_response_good x \<longleftrightarrow>
     time_window_event_response_properties_good (ktwer_time_window_event_response_properties x)"

lemma kinesis_time_window_event_response_not_null [simp]: "kinesis_time_window_event_response_json x \<noteq> JNull"
  by (simp add: kinesis_time_window_event_response_json_def)

lemma kinesis_time_window_event_response_read [read_back]: "kinesis_time_window_event_response_good x \<Longrightarrow>kinesis_time_window_event_response_of_json (kinesis_time_window_event_response_json x) = Some x"
  by (cases x, cases "ktwer_time_window_event_response_properties x") (clarsimp simp: kinesis_time_window_event_response_of_json_def kinesis_time_window_event_response_json_def kinesis_time_window_event_response_good_def time_window_event_response_properties_of_fields_def time_window_event_response_properties_fields_def time_window_event_response_properties_good_def read_back)

lemma kinesis_time_window_event_response_typed: "typed kinesis_time_window_event_response_good kinesis_time_window_event_response_of_json"
  unfolding typed_def kinesis_time_window_event_response_of_json_def kinesis_time_window_event_response_good_def
  by (auto simp: bind_eq_Some_conv dest!: typed_fieldsD [OF time_window_event_response_properties_fields_typed])

datatype kinesis_encryption_type =
    KinesisEncryptionType_None | KinesisEncryptionType_Kms

fun kinesis_encryption_type_name :: "kinesis_encryption_type \<Rightarrow> string" where
  "kinesis_encryption_type_name KinesisEncryptionType_None = ''NONE''"
| "kinesis_encryption_type_name KinesisEncryptionType_Kms = ''KMS''"

definition kinesis_encryption_type_json :: "kinesis_encryption_type \<Rightarrow> json" where
  "kinesis_encryption_type_json x = JStr (kinesis_encryption_type_name x)"

definition kinesis_encryption_type_of_json :: "json \<Rightarrow> kinesis_encryption_type option" where
  "kinesis_encryption_type_of_json = de_variant kinesis_encryption_type_name
     [KinesisEncryptionType_None, KinesisEncryptionType_Kms]"

lemma kinesis_encryption_type_not_null [simp]: "kinesis_encryption_type_json x \<noteq> JNull"
  by (simp add: kinesis_encryption_type_json_def)

lemma kinesis_encryption_type_read [read_back]: "kinesis_encryption_type_of_json (kinesis_encryption_type_json x) = Some x"
  by (cases x) (simp_all add: kinesis_encryption_type_of_json_def kinesis_encryption_type_json_def de_variant_def)

record kinesis_record =
  kr_approximate_arrival_timestamp :: datetime
  kr_data :: string
  kr_encryption_type :: kinesis_encryption_type
  kr_partition_key :: string
  kr_sequence_number :: string
  kr_kinesis_schema_version :: "string option"

definition kinesis_record_json :: "datetime event_env \<Rightarrow> time_crates \<Rightarrow> kinesis_record \<Rightarrow> json" where
  "kinesis_record_json E T x = JObj
     ([(''approximateArrivalTimestamp'', serialize_seconds (kr_approximate_arrival_timestamp x)),
      (''data'', json_of_base64 E (kr_data x)),
      (''encryptionType'', kinesis_encryption_type_json (kr_encryption_type x)),
      (''partitionKey'', JStr (kr_partition_key x)),
      (''sequenceNumber'', JStr (kr_sequence_number x)),
      (''kinesisSchemaVersion'', json_of_option JStr (kr_kinesis_schema_version x))])"

definition kinesis_record_of_json :: "datetime event_env \<Rightarrow> time_crates \<Rightarrow> json \<Rightarrow> kinesis_record option" where
  "kinesis_record_of_json E T j = do {
     kvs \<leftarrow> de_fields 2
       [''approximateArrivalTimestamp'', ''data'', ''encryptionType'', ''partitionKey'',
        ''sequenceNumber'', ''kinesisSchemaVersion''] j;
     x_approximate_arrival_timestamp \<leftarrow> de_required (seconds_of_json T) [''approximateArrivalTimestamp''] kvs;
     x_data \<leftarrow> de_required (base64_of_json E) [''data''] kvs;
     x_encryption_type \<leftarrow> de_default kinesis_encryption_type_of_json KinesisEncryptionType_None [''encryptionType''] kvs;
     x_partition_key \<leftarrow> de_default de_string [] [''partitionKey''] kvs;
     x_sequence_number \<leftarrow> de_default de_string [] [''sequenceNumber''] kvs;
     x_kinesis_schema_version \<leftarrow> de_opt_string ''kinesisSchemaVersion'' kvs;
     Some \<lparr>kr_approximate_arrival_timestamp = x_approximate_arrival_timestamp, kr_data = x_data,
       kr_encryption_type = x_encryption_type, kr_partition_key = x_partition_key,
       kr_sequence_number = x_sequence_number,
       kr_kinesis_schema_version = x_kinesis_schema_version\<rparr> }"

definition kinesis_record_good :: "time_crates \<Rightarrow> kinesis_record \<Rightarrow> bool" where
  "kinesis_record_good T x \<longleftrightarrow>
     kept_seconds T (kr_approximate_arrival_timestamp x)"

lemma kinesis_record_not_null [simp]: "kinesis_record_json E T x \<noteq> JNull"
  by (simp add: kinesis_record_json_def)

lemma kinesis_record_read [read_back]: "kinesis_record_good T x \<Longrightarrow> event_crates E \<Longrightarrow>kinesis_record_of_json E T (kinesis_record_json E T x) = Some x"
  by (cases x) (simp add: kinesis_record_of_json_def kinesis_record_json_def kinesis_record_good_def read_back)

record kinesis_event_record =
  ker_aws_region :: "string option"
  ker_event_id :: "string option"
  ker_event_name :: "string option"
  ker_event_source :: "string option"
  ker_event_source_arn :: "string option"
  ker_event_version :: "string option"
  ker_invoke_identity_arn :: "string option"
  ker_kinesis :: kinesis_record

definition kinesis_event_record_json :: "datetime event_env \<Rightarrow> time_crates \<Rightarrow> kinesis_event_record \<Rightarrow> json" where
  "kinesis_event_record_json E T x = JObj
     ([(''awsRegion'', json_of_option JStr (ker_aws_region x)),
      (''eventID'', json_of_option JStr (ker_event_id x)),
      (''eventName'', json_of_option JStr (ker_event_name x)),
      (''eventSource'', json_of_option JStr (ker_event_source x)),
      (''eventSourceARN'', json_of_option JStr (ker_event_source_arn x)),
      (''eventVersion'', json_of_option JStr (ker_event_version x)),
      (''invokeIdentityArn'', json_of_option JStr (ker_invoke_identity_arn x)),
      (''kinesis'', kinesis_record_json E T (ker_kinesis x))])"

definition kinesis_event_record_of_json :: "datetime event_env \<Rightarrow> time_crates \<Rightarrow> json \<Rightarrow> kinesis_event_record option" where
  "kinesis_event_record_of_json E T j = do {
     kvs \<leftarrow> de_fields 8
       [''awsRegion'', ''eventID'', ''eventName'', ''eventSource'', ''eventSourceARN'',
        ''eventVersion'', ''invokeIdentityArn'', ''kinesis''] j;
     x_aws_region \<leftarrow> de_opt_string ''awsRegion'' kvs;
     x_event_id \<leftarrow> de_opt_string ''eventID'' kvs;
     x_event_name \<leftarrow> de_opt_string ''eventName'' kvs;
     x_event_source \<leftarrow> de_opt_string ''eventSource'' kvs;
     x_event_source_arn \<leftarrow> de_opt_string ''eventSourceARN'' kvs;
     x_event_version \<leftarrow> de_opt_string ''eventVersion'' kvs;
     x_invoke_identity_arn \<leftarrow> de_opt_string ''invokeIdentityArn'' kvs;
     x_kinesis \<leftarrow> de_required (kinesis_record_of_json E T) [''kinesis''] kvs;
     Some \<lparr>ker_aws_region = x_aws_region, ker_event_id = x_event_id, ker_event_name = x_event_name,
       ker_event_source = x_event_source, ker_event_source_arn = x_event_source_arn,
       ker_event_version = x_event_version, ker_invoke_identity_arn = x_invoke_identity_arn,
       ker_kinesis = x_kinesis\<rparr> }"

definition kinesis_event_record_good :: "time_crates \<Rightarrow> kinesis_event_record \<Rightarrow> bool" where
  "kinesis_event_record_good T x \<longleftrightarrow>
     kinesis_record_good T (ker_kinesis x)"

lemma kinesis_event_record_not_null [simp]: "kinesis_event_record_json E T x \<noteq> JNull"
  by (simp add: kinesis_event_record_json_def)

lemma kinesis_event_record_read [read_back]: "kinesis_event_record_good T x \<Longrightarrow> event_crates E \<Longrightarrow>kinesis_event_record_of_json E T (kinesis_event_record_json E T x) = Some x"
  by (cases x) (simp add: kinesis_event_record_of_json_def kinesis_event_record_json_def kinesis_event_record_good_def read_back)

record kinesis_event =
  kev_records :: "kinesis_event_record list"

definition kinesis_event_fields :: "datetime event_env \<Rightarrow> time_crates \<Rightarrow> kinesis_event \<Rightarrow> (string \<times> json) list" where
  "kinesis_event_fields E T x =
     [(''Records'', json_of_list (kinesis_event_record_json E T) (kev_records x))]"

definition kinesis_event_json :: "datetime event_env \<Rightarrow> time_crates \<Rightarrow> kinesis_event \<Rightarrow> json" where
  "kinesis_event_json E T x = JObj (kinesis_event_fields E T x)"

definition kinesis_event_of_fields :: "datetime event_env \<Rightarrow> time_crates \<Rightarrow> (string \<times> json) list \<Rightarrow> kinesis_event option" where
  "kinesis_event_of_fields E T kvs = do {
     x_records \<leftarrow> de_required (de_list (kinesis_event_record_of_json E T)) [''Records''] kvs;
     Some \<lparr>kev_records = x_records\<rparr> }"

definition kinesis_event_of_json :: "datetime event_env \<Rightarrow> time_crates \<Rightarrow> json \<Rightarrow> kinesis_event option" where
  "kinesis_event_of_json E T j = do {
     kvs \<leftarrow> de_fields 1
       [''Records''] j;
     kinesis_event_of_fields E T kvs }"

definition kinesis_event_good :: "time_crates \<Rightarrow> kinesis_event \<Rightarrow> bool" where
  "kinesis_event_good T x \<longleftrightarrow>
     list_all (kinesis_event_record_good T) (kev_records x)"

lemma kinesis_event_not_null [simp]: "kinesis_event_json E T x \<noteq> JNull"
  by (simp add: kinesis_event_json_def)

lemma kinesis_event_fields_read:
  "kinesis_event_good T x \<Longrightarrow> event_crates E \<Longrightarrow> kinesis_event_of_fields E T (kinesis_event_fields E T x) = Some x"
  by (cases x) (simp add: kinesis_event_of_fields_def kinesis_event_fields_def kinesis_event_good_def read_back)

lemma kinesis_event_read [read_back]: "kinesis_event_good T x \<Longrightarrow> event_crates E \<Longrightarrow>kinesis_event_of_json E T (kinesis_event_json E T x) = Some x"
  by (simp add: kinesis_event_of_json_def kinesis_event_json_def kinesis_event_fields_read read_back)

record kinesis_time_window_event =
  ktwe_kinesis_event :: kinesis_event
  ktwe_time_window_properties :: time_window_properties

definition kinesis_time_window_event_json :: "datetime event_env \<Rightarrow> time_crates \<Rightarrow> kinesis_time_window_event \<Rightarrow> json" where
  "kinesis_time_window_event_json E T x = JObj
     (kinesis_event_fields E T (ktwe_kinesis_event x) @
      time_window_properties_fields E (ktwe_time_window_properties x))"

definition kinesis_time_window_event_of_json :: "datetime event_env \<Rightarrow> time_crates \<Rightarrow> json \<Rightarrow> kinesis_time_window_event option" where
  "kinesis_time_window_event_of_json E T j = do {
     kvs \<leftarrow> de_object j;
     x_kinesis_event \<leftarrow> kinesis_event_of_fields E T kvs;
     x_time_window_properties \<leftarrow> time_window_properties_of_fields E kvs;
     Some \<lparr>ktwe_kinesis_event = x_kinesis_event,
       ktwe_time_window_properties = x_time_window_properties\<rparr> }"

definition kinesis_time_window_event_good :: "time_crates \<Rightarrow> kinesis_time_window_event \<Rightarrow> bool" where
  "kinesis_time_window_event_good T x \<longleftrightarrow>
     kinesis_event_good T (ktwe_kinesis_event x) \<and>
     time_window_properties_good (ktwe_time_window_properties x)"

lemma kinesis_time_window_event_not_null [simp]: "kinesis_time_window_event_json E T x \<noteq> JNull"
  by (simp add: kinesis_time_window_event_json_def)

lemma kinesis_time_window_event_read [read_back]: "kinesis_time_window_event_good T x \<Longrightarrow> event_crates E \<Longrightarrow>kinesis_time_window_event_of_json E T (kinesis_time_window_event_json E T x) = Some x"
  by (cases x, cases "ktwe_kinesis_event x", cases "ktwe_time_window_properties x") (clarsimp simp: kinesis_time_window_event_of_json_def kinesis_time_window_event_json_def kinesis_time_window_event_good_def kinesis_event_of_fields_def kinesis_event_fields_def kinesis_event_good_def time_window_properties_of_fields_def time_window_properties_fields_def time_window_properties_good_def read_back)

subsection \<open>\<^verbatim>\<open>kafka\<close>\<close>

record kafka_record =
  kre_topic :: "string option"
  kre_partition :: int
  kre_offset :: int
  kre_timestamp :: datetime
  kre_timestamp_type :: "string option"
  kre_key :: "string option"
  kre_value :: "string option"
  kre_headers :: "((string \<times> (int list)) list) list"

definition kafka_record_json :: "time_crates \<Rightarrow> kafka_record \<Rightarrow> json" where
  "kafka_record_json T x = JObj
     ([(''topic'', json_of_option JStr (kre_topic x)),
      (''partition'', JInt (kre_partition x)),
      (''offset'', JInt (kre_offset x)),
      (''timestamp'', serialize_milliseconds (kre_timestamp x)),
      (''timestampType'', json_of_option JStr (kre_timestamp_type x)),
      (''key'', json_of_option JStr (kre_key x)),
      (''value'', json_of_option JStr (kre_value x)),
      (''headers'', json_of_list (json_of_map (json_of_list JInt)) (kre_headers x))])"

definition kafka_record_of_json :: "time_crates \<Rightarrow> json \<Rightarrow> kafka_record option" where
  "kafka_record_of_json T j = do {
     kvs \<leftarrow> de_fields 8
       [''topic'', ''partition'', ''offset'', ''timestamp'', ''timestampType'', ''key'', ''value'',
        ''headers''] j;
     x_topic \<leftarrow> de_opt_string ''topic'' kvs;
     x_partition \<leftarrow> de_required de_i64 [''partition''] kvs;
     x_offset \<leftarrow> de_required de_i64 [''offset''] kvs;
     x_timestamp \<leftarrow> de_required (milliseconds_of_json T) [''timestamp''] kvs;
     x_timestamp_type \<leftarrow> de_opt_string ''timestampType'' kvs;
     x_key \<leftarrow> de_opt_string ''key'' kvs;
     x_value \<leftarrow> de_opt_string ''value'' kvs;
     x_headers \<leftarrow> de_required (de_list (de_hash_map (de_list de_i8))) [''headers''] kvs;
     Some \<lparr>kre_topic = x_topic, kre_partition = x_partition, kre_offset = x_offset,
       kre_timestamp = x_timestamp, kre_timestamp_type = x_timestamp_type, kre_key = x_key,
       kre_value = x_value, kre_headers = x_headers\<rparr> }"

definition kafka_record_good :: "time_crates \<Rightarrow> kafka_record \<Rightarrow> bool" where
  "kafka_record_good T x \<longleftrightarrow>
     good_i64 (kre_partition x) \<and>
     good_i64 (kre_offset x) \<and>
     kept_milliseconds T (kre_timestamp x) \<and>
     list_all (good_map (list_all good_i8)) (kre_headers x)"

lemma kafka_record_not_null [simp]: "kafka_record_json T x \<noteq> JNull"
  by (simp add: kafka_record_json_def)

lemma kafka_record_read [read_back]: "kafka_record_good T x \<Longrightarrow>kafka_record_of_json T (kafka_record_json T x) = Some x"
  by (cases x) (clarsimp simp: kafka_record_of_json_def kafka_record_json_def kafka_record_good_def read_back)

record kafka_event =
  keve_event_source :: "string option"
  keve_event_source_arn :: "string option"
  keve_records :: "(string \<times> (kafka_record list)) list"
  keve_bootstrap_servers :: "string option"

definition kafka_event_json :: "time_crates \<Rightarrow> kafka_event \<Rightarrow> json" where
  "kafka_event_json T x = JObj
     ([(''eventSource'', json_of_option JStr (keve_event_source x)),
      (''eventSourceArn'', json_of_option JStr (keve_event_source_arn x)),
      (''records'', json_of_map (json_of_list (kafka_record_json T)) (keve_records x)),
      (''bootstrapServers'', json_of_option JStr (keve_bootstrap_servers x))])"

definition kafka_event_of_json :: "time_crates \<Rightarrow> json \<Rightarrow> kafka_event option" where
  "kafka_event_of_json T j = do {
     kvs \<leftarrow> de_fields 0
       [''eventSource'', ''eventSourceArn'', ''records'', ''bootstrapServers''] j;
     x_event_source \<leftarrow> de_opt_string ''eventSource'' kvs;
     x_event_source_arn \<leftarrow> de_opt_string ''eventSourceArn'' kvs;
     x_records \<leftarrow> de_default (de_nullish (de_hash_map (de_list (kafka_record_of_json T))) []) [] [''records''] kvs;
     x_bootstrap_servers \<leftarrow> de_opt_string ''bootstrapServers'' kvs;
     Some \<lparr>keve_event_source = x_event_source, keve_event_source_arn = x_event_source_arn,
       keve_records = x_records, keve_bootstrap_servers = x_bootstrap_servers\<rparr> }"

definition kafka_event_good :: "time_crates \<Rightarrow> kafka_event \<Rightarrow> bool" where
  "kafka_event_good T x \<longleftrightarrow>
     good_map (list_all (kafka_record_good T)) (keve_records x)"

lemma kafka_event_not_null [simp]: "kafka_event_json T x \<noteq> JNull"
  by (simp add: kafka_event_json_def)

lemma kafka_event_read [read_back]: "kafka_event_good T x \<Longrightarrow>kafka_event_of_json T (kafka_event_json T x) = Some x"
  by (cases x) (simp add: kafka_event_of_json_def kafka_event_json_def kafka_event_good_def read_back)

subsection \<open>\<^verbatim>\<open>firehose\<close>\<close>

record kinesis_firehose_response_record_metadata =
  kfrrm_partition_keys :: "(string \<times> string) list"

definition kinesis_firehose_response_record_metadata_json :: "kinesis_firehose_response_record_metadata \<Rightarrow> json" where
  "kinesis_firehose_response_record_metadata_json x = JObj
     ([(''partitionKeys'', json_of_map JStr (kfrrm_partition_keys x))])"

definition kinesis_firehose_response_record_metadata_of_json :: "json \<Rightarrow> kinesis_firehose_response_record_metadata option" where
  "kinesis_firehose_response_record_metadata_of_json j = do {
     kvs \<leftarrow> de_fields 0
       [''partitionKeys''] j;
     x_partition_keys \<leftarrow> de_default (de_nullish (de_hash_map de_string) []) [] [''partitionKeys''] kvs;
     Some \<lparr>kfrrm_partition_keys = x_partition_keys\<rparr> }"

definition kinesis_firehose_response_record_metadata_good :: "kinesis_firehose_response_record_metadata \<Rightarrow> bool" where
  "kinesis_firehose_response_record_metadata_good x \<longleftrightarrow>
     good_map (\<lambda>_. True) (kfrrm_partition_keys x)"

lemma kinesis_firehose_response_record_metadata_not_null [simp]: "kinesis_firehose_response_record_metadata_json x \<noteq> JNull"
  by (simp add: kinesis_firehose_response_record_metadata_json_def)

lemma kinesis_firehose_response_record_metadata_read [read_back]: "kinesis_firehose_response_record_metadata_good x \<Longrightarrow>kinesis_firehose_response_record_metadata_of_json (kinesis_firehose_response_record_metadata_json x) = Some x"
  by (cases x) (simp add: kinesis_firehose_response_record_metadata_of_json_def kinesis_firehose_response_record_metadata_json_def kinesis_firehose_response_record_metadata_good_def read_back)

lemma kinesis_firehose_response_record_metadata_typed: "typed kinesis_firehose_response_record_metadata_good kinesis_firehose_response_record_metadata_of_json"
  unfolding typed_def kinesis_firehose_response_record_metadata_of_json_def kinesis_firehose_response_record_metadata_good_def
  by (auto simp: bind_eq_Some_conv dest!: typed_default [OF typed_nullish [OF typed_hash_map [OF typed_True [of "de_string"]] good_nil(1)] good_nil(1)])

record kinesis_firehose_record_metadata =
  kfrm_shard_id :: "string option"
  kfrm_partition_key :: "string option"
  kfrm_sequence_number :: "string option"
  kfrm_subsequence_number :: int
  kfrm_approximate_arrival_timestamp :: datetime

definition kinesis_firehose_record_metadata_json :: "time_crates \<Rightarrow> kinesis_firehose_record_metadata \<Rightarrow> json" where
  "kinesis_firehose_record_metadata_json T x = JObj
     ([(''shardId'', json_of_option JStr (kfrm_shard_id x)),
      (''partitionKey'', json_of_option JStr (kfrm_partition_key x)),
      (''sequenceNumber'', json_of_option JStr (kfrm_sequence_number x)),
      (''subsequenceNumber'', JInt (kfrm_subsequence_number x)),
      (''approximateArrivalTimestamp'', serialize_milliseconds (kfrm_approximate_arrival_timestamp x))])"

definition kinesis_firehose_record_metadata_of_json :: "time_crates \<Rightarrow> json \<Rightarrow> kinesis_firehose_record_metadata option" where
  "kinesis_firehose_record_metadata_of_json T j = do {
     kvs \<leftarrow> de_fields 5
       [''shardId'', ''partitionKey'', ''sequenceNumber'', ''subsequenceNumber'',
        ''approximateArrivalTimestamp''] j;
     x_shard_id \<leftarrow> de_opt_string ''shardId'' kvs;
     x_partition_key \<leftarrow> de_opt_string ''partitionKey'' kvs;
     x_sequence_number \<leftarrow> de_opt_string ''sequenceNumber'' kvs;
     x_subsequence_number \<leftarrow> de_required de_i64 [''subsequenceNumber''] kvs;
     x_approximate_arrival_timestamp \<leftarrow> de_required (milliseconds_of_json T) [''approximateArrivalTimestamp''] kvs;
     Some \<lparr>kfrm_shard_id = x_shard_id, kfrm_partition_key = x_partition_key,
       kfrm_sequence_number = x_sequence_number, kfrm_subsequence_number = x_subsequence_number,
       kfrm_approximate_arrival_timestamp = x_approximate_arrival_timestamp\<rparr> }"

definition kinesis_firehose_record_metadata_good :: "time_crates \<Rightarrow> kinesis_firehose_record_metadata \<Rightarrow> bool" where
  "kinesis_firehose_record_metadata_good T x \<longleftrightarrow>
     good_i64 (kfrm_subsequence_number x) \<and>
     kept_milliseconds T (kfrm_approximate_arrival_timestamp x)"

lemma kinesis_firehose_record_metadata_not_null [simp]: "kinesis_firehose_record_metadata_json T x \<noteq> JNull"
  by (simp add: kinesis_firehose_record_metadata_json_def)

lemma kinesis_firehose_record_metadata_read [read_back]: "kinesis_firehose_record_metadata_good T x \<Longrightarrow>kinesis_firehose_record_metadata_of_json T (kinesis_firehose_record_metadata_json T x) = Some x"
  by (cases x) (clarsimp simp: kinesis_firehose_record_metadata_of_json_def kinesis_firehose_record_metadata_json_def kinesis_firehose_record_metadata_good_def read_back)

record kinesis_firehose_event_record =
  kfer_record_id :: "string option"
  kfer_approximate_arrival_timestamp :: datetime
  kfer_data :: string
  kfer_kinesis_firehose_record_metadata :: "kinesis_firehose_record_metadata option"

definition kinesis_firehose_event_record_json :: "datetime event_env \<Rightarrow> time_crates \<Rightarrow> kinesis_firehose_event_record \<Rightarrow> json" where
  "kinesis_firehose_event_record_json E T x = JObj
     ([(''recordId'', json_of_option JStr (kfer_record_id x)),
      (''approximateArrivalTimestamp'', serialize_milliseconds (kfer_approximate_arrival_timestamp x)),
      (''data'', json_of_base64 E (kfer_data x)),
      (''kinesisRecordMetadata'', json_of_option (kinesis_firehose_record_metadata_json T) (kfer_kinesis_firehose_record_metadata x))])"

definition kinesis_firehose_event_record_of_json :: "datetime event_env \<Rightarrow> time_crates \<Rightarrow> json \<Rightarrow> kinesis_firehose_event_record option" where
  "kinesis_firehose_event_record_of_json E T j = do {
     kvs \<leftarrow> de_fields 4
       [''recordId'', ''approximateArrivalTimestamp'', ''data'', ''kinesisRecordMetadata''] j;
     x_record_id \<leftarrow> de_opt_string ''recordId'' kvs;
     x_approximate_arrival_timestamp \<leftarrow> de_required (milliseconds_of_json T) [''approximateArrivalTimestamp''] kvs;
     x_data \<leftarrow> de_required (base64_of_json E) [''data''] kvs;
     x_kinesis_firehose_record_metadata \<leftarrow> de_optional (kinesis_firehose_record_metadata_of_json T) [''kinesisRecordMetadata''] kvs;
     Some \<lparr>kfer_record_id = x_record_id,
       kfer_approximate_arrival_timestamp = x_approximate_arrival_timestamp, kfer_data = x_data,
       kfer_kinesis_firehose_record_metadata = x_kinesis_firehose_record_metadata\<rparr> }"

definition kinesis_firehose_event_record_good :: "time_crates \<Rightarrow> kinesis_firehose_event_record \<Rightarrow> bool" where
  "kinesis_firehose_event_record_good T x \<longleftrightarrow>
     kept_milliseconds T (kfer_approximate_arrival_timestamp x) \<and>
     good_option (kinesis_firehose_record_metadata_good T) (kfer_kinesis_firehose_record_metadata x)"

lemma kinesis_firehose_event_record_not_null [simp]: "kinesis_firehose_event_record_json E T x \<noteq> JNull"
  by (simp add: kinesis_firehose_event_record_json_def)

lemma kinesis_firehose_event_record_read [read_back]: "kinesis_firehose_event_record_good T x \<Longrightarrow> event_crates E \<Longrightarrow>kinesis_firehose_event_record_of_json E T (kinesis_firehose_event_record_json E T x) = Some x"
  by (cases x) (clarsimp simp: kinesis_firehose_event_record_of_json_def kinesis_firehose_event_record_json_def kinesis_firehose_event_record_good_def read_back)

record kinesis_firehose_response_record =
  kfrr_record_id :: "string option"
  kfrr_result :: "string option"
  kfrr_data :: string
  kfrr_metadata :: kinesis_firehose_response_record_metadata

definition kinesis_firehose_response_record_json :: "datetime event_env \<Rightarrow> kinesis_firehose_response_record \<Rightarrow> json" where
  "kinesis_firehose_response_record_json E x = JObj
     ([(''recordId'', json_of_option JStr (kfrr_record_id x)),
      (''result'', json_of_option JStr (kfrr_result x)),
      (''data'', json_of_base64 E (kfrr_data x)),
      (''metadata'', kinesis_firehose_response_record_metadata_json (kfrr_metadata x))])"

definition kinesis_firehose_response_record_of_json :: "datetime event_env \<Rightarrow> json \<Rightarrow> kinesis_firehose_response_record option" where
  "kinesis_firehose_response_record_of_json E j = do {
     kvs \<leftarrow> de_fields 4
       [''recordId'', ''result'', ''data'', ''metadata''] j;
     x_record_id \<leftarrow> de_opt_string ''recordId'' kvs;
     x_result \<leftarrow> de_opt_string ''result'' kvs;
     x_data \<leftarrow> de_required (base64_of_json E) [''data''] kvs;
     x_metadata \<leftarrow> de_required kinesis_firehose_response_record_metadata_of_json [''metadata''] kvs;
     Some \<lparr>kfrr_record_id = x_record_id, kfrr_result = x_result, kfrr_data = x_data,
       kfrr_metadata = x_metadata\<rparr> }"

definition kinesis_firehose_response_record_good :: "kinesis_firehose_response_record \<Rightarrow> bool" where
  "kinesis_firehose_response_record_good x \<longleftrightarrow>
     kinesis_firehose_response_record_metadata_good (kfrr_metadata x)"

lemma kinesis_firehose_response_record_not_null [simp]: "kinesis_firehose_response_record_json E x \<noteq> JNull"
  by (simp add: kinesis_firehose_response_record_json_def)

lemma kinesis_firehose_response_record_read [read_back]: "kinesis_firehose_response_record_good x \<Longrightarrow> event_crates E \<Longrightarrow>kinesis_firehose_response_record_of_json E (kinesis_firehose_response_record_json E x) = Some x"
  by (cases x) (simp add: kinesis_firehose_response_record_of_json_def kinesis_firehose_response_record_json_def kinesis_firehose_response_record_good_def read_back)

lemma kinesis_firehose_response_record_typed: "typed kinesis_firehose_response_record_good (kinesis_firehose_response_record_of_json E)"
  unfolding typed_def kinesis_firehose_response_record_of_json_def kinesis_firehose_response_record_good_def
  by (auto simp: bind_eq_Some_conv dest!: typed_required [OF kinesis_firehose_response_record_metadata_typed])

record kinesis_firehose_event =
  kfe_invocation_id :: "string option"
  kfe_delivery_stream_arn :: "string option"
  kfe_source_kinesis_stream_arn :: "string option"
  kfe_region :: "string option"
  kfe_records :: "kinesis_firehose_event_record list"

definition kinesis_firehose_event_json :: "datetime event_env \<Rightarrow> time_crates \<Rightarrow> kinesis_firehose_event \<Rightarrow> json" where
  "kinesis_firehose_event_json E T x = JObj
     ([(''invocationId'', json_of_option JStr (kfe_invocation_id x)),
      (''deliveryStreamArn'', json_of_option JStr (kfe_delivery_stream_arn x)),
      (''sourceKinesisStreamArn'', json_of_option JStr (kfe_source_kinesis_stream_arn x)),
      (''region'', json_of_option JStr (kfe_region x)),
      (''records'', json_of_list (kinesis_firehose_event_record_json E T) (kfe_records x))])"

definition kinesis_firehose_event_of_json :: "datetime event_env \<Rightarrow> time_crates \<Rightarrow> json \<Rightarrow> kinesis_firehose_event option" where
  "kinesis_firehose_event_of_json E T j = do {
     kvs \<leftarrow> de_fields 5
       [''invocationId'', ''deliveryStreamArn'', ''sourceKinesisStreamArn'', ''region'', ''records''] j;
     x_invocation_id \<leftarrow> de_opt_string ''invocationId'' kvs;
     x_delivery_stream_arn \<leftarrow> de_opt_string ''deliveryStreamArn'' kvs;
     x_source_kinesis_stream_arn \<leftarrow> de_opt_string ''sourceKinesisStreamArn'' kvs;
     x_region \<leftarrow> de_opt_string ''region'' kvs;
     x_records \<leftarrow> de_required (de_list (kinesis_firehose_event_record_of_json E T)) [''records''] kvs;
     Some \<lparr>kfe_invocation_id = x_invocation_id, kfe_delivery_stream_arn = x_delivery_stream_arn,
       kfe_source_kinesis_stream_arn = x_source_kinesis_stream_arn, kfe_region = x_region,
       kfe_records = x_records\<rparr> }"

definition kinesis_firehose_event_good :: "time_crates \<Rightarrow> kinesis_firehose_event \<Rightarrow> bool" where
  "kinesis_firehose_event_good T x \<longleftrightarrow>
     list_all (kinesis_firehose_event_record_good T) (kfe_records x)"

lemma kinesis_firehose_event_not_null [simp]: "kinesis_firehose_event_json E T x \<noteq> JNull"
  by (simp add: kinesis_firehose_event_json_def)

lemma kinesis_firehose_event_read [read_back]: "kinesis_firehose_event_good T x \<Longrightarrow> event_crates E \<Longrightarrow>kinesis_firehose_event_of_json E T (kinesis_firehose_event_json E T x) = Some x"
  by (cases x) (simp add: kinesis_firehose_event_of_json_def kinesis_firehose_event_json_def kinesis_firehose_event_good_def read_back)

record kinesis_firehose_response =
  kfr_records :: "kinesis_firehose_response_record list"

definition kinesis_firehose_response_json :: "datetime event_env \<Rightarrow> kinesis_firehose_response \<Rightarrow> json" where
  "kinesis_firehose_response_json E x = JObj
     ([(''records'', json_of_list (kinesis_firehose_response_record_json E) (kfr_records x))])"

definition kinesis_firehose_response_of_json :: "datetime event_env \<Rightarrow> json \<Rightarrow> kinesis_firehose_response option" where
  "kinesis_firehose_response_of_json E j = do {
     kvs \<leftarrow> de_fields 1
       [''records''] j;
     x_records \<leftarrow> de_required (de_list (kinesis_firehose_response_record_of_json E)) [''records''] kvs;
     Some \<lparr>kfr_records = x_records\<rparr> }"

definition kinesis_firehose_response_good :: "kinesis_firehose_response \<Rightarrow> bool" where
  "kinesis_firehose_response_good x \<longleftrightarrow>
     list_all kinesis_firehose_response_record_good (kfr_records x)"

lemma kinesis_firehose_response_not_null [simp]: "kinesis_firehose_response_json E x \<noteq> JNull"
  by (simp add: kinesis_firehose_response_json_def)

lemma kinesis_firehose_response_read [read_back]: "kinesis_firehose_response_good x \<Longrightarrow> event_crates E \<Longrightarrow>kinesis_firehose_response_of_json E (kinesis_firehose_response_json E x) = Some x"
  by (cases x) (simp add: kinesis_firehose_response_of_json_def kinesis_firehose_response_json_def kinesis_firehose_response_good_def read_back)

lemma kinesis_firehose_response_typed: "typed kinesis_firehose_response_good (kinesis_firehose_response_of_json E)"
  unfolding typed_def kinesis_firehose_response_of_json_def kinesis_firehose_response_good_def
  by (auto simp: bind_eq_Some_conv dest!: typed_required [OF typed_list [OF kinesis_firehose_response_record_typed]])

subsection \<open>\<^verbatim>\<open>dynamodb\<close>\<close>

datatype stream_view_type =
    StreamViewType_NewImage | StreamViewType_OldImage | StreamViewType_NewAndOldImages |
    StreamViewType_KeysOnly

fun stream_view_type_name :: "stream_view_type \<Rightarrow> string" where
  "stream_view_type_name StreamViewType_NewImage = ''NEW_IMAGE''"
| "stream_view_type_name StreamViewType_OldImage = ''OLD_IMAGE''"
| "stream_view_type_name StreamViewType_NewAndOldImages = ''NEW_AND_OLD_IMAGES''"
| "stream_view_type_name StreamViewType_KeysOnly = ''KEYS_ONLY''"

definition stream_view_type_json :: "stream_view_type \<Rightarrow> json" where
  "stream_view_type_json x = JStr (stream_view_type_name x)"

definition stream_view_type_of_json :: "json \<Rightarrow> stream_view_type option" where
  "stream_view_type_of_json = de_variant stream_view_type_name
     [StreamViewType_NewImage,
      StreamViewType_OldImage,
      StreamViewType_NewAndOldImages,
      StreamViewType_KeysOnly]"

lemma stream_view_type_not_null [simp]: "stream_view_type_json x \<noteq> JNull"
  by (simp add: stream_view_type_json_def)

lemma stream_view_type_read [read_back]: "stream_view_type_of_json (stream_view_type_json x) = Some x"
  by (cases x) (simp_all add: stream_view_type_of_json_def stream_view_type_json_def de_variant_def)

datatype stream_status =
    StreamStatus_Enabling | StreamStatus_Enabled | StreamStatus_Disabling |
    StreamStatus_Disabled

fun stream_status_name :: "stream_status \<Rightarrow> string" where
  "stream_status_name StreamStatus_Enabling = ''ENABLING''"
| "stream_status_name StreamStatus_Enabled = ''ENABLED''"
| "stream_status_name StreamStatus_Disabling = ''DISABLING''"
| "stream_status_name StreamStatus_Disabled = ''DISABLED''"

definition stream_status_json :: "stream_status \<Rightarrow> json" where
  "stream_status_json x = JStr (stream_status_name x)"

definition stream_status_of_json :: "json \<Rightarrow> stream_status option" where
  "stream_status_of_json = de_variant stream_status_name
     [StreamStatus_Enabling,
      StreamStatus_Enabled,
      StreamStatus_Disabling,
      StreamStatus_Disabled]"

lemma stream_status_not_null [simp]: "stream_status_json x \<noteq> JNull"
  by (simp add: stream_status_json_def)

lemma stream_status_read [read_back]: "stream_status_of_json (stream_status_json x) = Some x"
  by (cases x) (simp_all add: stream_status_of_json_def stream_status_json_def de_variant_def)

datatype shared_iterator_type =
    SharedIteratorType_TrimHorizon | SharedIteratorType_Latest |
    SharedIteratorType_AtSequenceNumber | SharedIteratorType_AfterSequenceNumber

fun shared_iterator_type_name :: "shared_iterator_type \<Rightarrow> string" where
  "shared_iterator_type_name SharedIteratorType_TrimHorizon = ''TRIM_HORIZON''"
| "shared_iterator_type_name SharedIteratorType_Latest = ''LATEST''"
| "shared_iterator_type_name SharedIteratorType_AtSequenceNumber = ''AT_SEQUENCE_NUMBER''"
| "shared_iterator_type_name SharedIteratorType_AfterSequenceNumber = ''AFTER_SEQUENCE_NUMBER''"

definition shared_iterator_type_json :: "shared_iterator_type \<Rightarrow> json" where
  "shared_iterator_type_json x = JStr (shared_iterator_type_name x)"

definition shared_iterator_type_of_json :: "json \<Rightarrow> shared_iterator_type option" where
  "shared_iterator_type_of_json = de_variant shared_iterator_type_name
     [SharedIteratorType_TrimHorizon,
      SharedIteratorType_Latest,
      SharedIteratorType_AtSequenceNumber,
      SharedIteratorType_AfterSequenceNumber]"

lemma shared_iterator_type_not_null [simp]: "shared_iterator_type_json x \<noteq> JNull"
  by (simp add: shared_iterator_type_json_def)

lemma shared_iterator_type_read [read_back]: "shared_iterator_type_of_json (shared_iterator_type_json x) = Some x"
  by (cases x) (simp_all add: shared_iterator_type_of_json_def shared_iterator_type_json_def de_variant_def)

datatype operation_type =
    OperationType_Insert | OperationType_Modify | OperationType_Remove

fun operation_type_name :: "operation_type \<Rightarrow> string" where
  "operation_type_name OperationType_Insert = ''INSERT''"
| "operation_type_name OperationType_Modify = ''MODIFY''"
| "operation_type_name OperationType_Remove = ''REMOVE''"

definition operation_type_json :: "operation_type \<Rightarrow> json" where
  "operation_type_json x = JStr (operation_type_name x)"

definition operation_type_of_json :: "json \<Rightarrow> operation_type option" where
  "operation_type_of_json = de_variant operation_type_name
     [OperationType_Insert, OperationType_Modify, OperationType_Remove]"

lemma operation_type_not_null [simp]: "operation_type_json x \<noteq> JNull"
  by (simp add: operation_type_json_def)

lemma operation_type_read [read_back]: "operation_type_of_json (operation_type_json x) = Some x"
  by (cases x) (simp_all add: operation_type_of_json_def operation_type_json_def de_variant_def)

datatype key_type =
    KeyType_Hash | KeyType_Range

fun key_type_name :: "key_type \<Rightarrow> string" where
  "key_type_name KeyType_Hash = ''HASH''"
| "key_type_name KeyType_Range = ''RANGE''"

definition key_type_json :: "key_type \<Rightarrow> json" where
  "key_type_json x = JStr (key_type_name x)"

definition key_type_of_json :: "json \<Rightarrow> key_type option" where
  "key_type_of_json = de_variant key_type_name
     [KeyType_Hash, KeyType_Range]"

lemma key_type_not_null [simp]: "key_type_json x \<noteq> JNull"
  by (simp add: key_type_json_def)

lemma key_type_read [read_back]: "key_type_of_json (key_type_json x) = Some x"
  by (cases x) (simp_all add: key_type_of_json_def key_type_json_def de_variant_def)

record dynamodb_user_identity =
  dui_type :: string
  dui_principal_id :: string

definition dynamodb_user_identity_json :: "dynamodb_user_identity \<Rightarrow> json" where
  "dynamodb_user_identity_json x = JObj
     ([(''type'', JStr (dui_type x)),
      (''principalId'', JStr (dui_principal_id x))])"

definition dynamodb_user_identity_of_json :: "json \<Rightarrow> dynamodb_user_identity option" where
  "dynamodb_user_identity_of_json j = do {
     kvs \<leftarrow> de_fields 0
       [''type'', ''principalId''] j;
     x_type \<leftarrow> de_default de_string [] [''type''] kvs;
     x_principal_id \<leftarrow> de_default de_string [] [''principalId''] kvs;
     Some \<lparr>dui_type = x_type, dui_principal_id = x_principal_id\<rparr> }"

lemma dynamodb_user_identity_not_null [simp]: "dynamodb_user_identity_json x \<noteq> JNull"
  by (simp add: dynamodb_user_identity_json_def)

lemma dynamodb_user_identity_read [read_back]: "dynamodb_user_identity_of_json (dynamodb_user_identity_json x) = Some x"
  by (cases x) (simp add: dynamodb_user_identity_of_json_def dynamodb_user_identity_json_def read_back)

record 'p stream_record =
  sre_approximate_creation_date_time :: datetime
  sre_keys :: 'p
  sre_new_image :: 'p
  sre_old_image :: 'p
  sre_sequence_number :: "string option"
  sre_size_bytes :: int
  sre_stream_view_type :: "stream_view_type option"

definition stream_record_json :: "time_crates \<Rightarrow> ('p \<Rightarrow> json) \<Rightarrow> 'p stream_record \<Rightarrow> json" where
  "stream_record_json T gp x = JObj
     ([(''ApproximateCreationDateTime'', epoch_serialize (sre_approximate_creation_date_time x)),
      (''Keys'', gp (sre_keys x)),
      (''NewImage'', gp (sre_new_image x)),
      (''OldImage'', gp (sre_old_image x)),
      (''SequenceNumber'', json_of_option JStr (sre_sequence_number x)),
      (''SizeBytes'', JInt (sre_size_bytes x)),
      (''StreamViewType'', json_of_option stream_view_type_json (sre_stream_view_type x))])"

definition stream_record_of_json :: "time_crates \<Rightarrow> (json \<Rightarrow> 'p option) \<Rightarrow> 'p \<Rightarrow> json \<Rightarrow> 'p stream_record option" where
  "stream_record_of_json T fp dp j = do {
     kvs \<leftarrow> de_fields 6
       [''ApproximateCreationDateTime'', ''Keys'', ''NewImage'', ''OldImage'', ''SequenceNumber'',
        ''SizeBytes'', ''StreamViewType''] j;
     x_approximate_creation_date_time \<leftarrow> de_default (epoch_deserialize T) (0, 0) [''ApproximateCreationDateTime''] kvs;
     x_keys \<leftarrow> de_default (de_nullish fp dp) dp [''Keys''] kvs;
     x_new_image \<leftarrow> de_default (de_nullish fp dp) dp [''NewImage''] kvs;
     x_old_image \<leftarrow> de_default (de_nullish fp dp) dp [''OldImage''] kvs;
     x_sequence_number \<leftarrow> de_opt_string ''SequenceNumber'' kvs;
     x_size_bytes \<leftarrow> de_required de_i64 [''SizeBytes''] kvs;
     x_stream_view_type \<leftarrow> de_optional stream_view_type_of_json [''StreamViewType''] kvs;
     Some \<lparr>sre_approximate_creation_date_time = x_approximate_creation_date_time, sre_keys = x_keys,
       sre_new_image = x_new_image, sre_old_image = x_old_image,
       sre_sequence_number = x_sequence_number, sre_size_bytes = x_size_bytes,
       sre_stream_view_type = x_stream_view_type\<rparr> }"

definition stream_record_good :: "time_crates \<Rightarrow> ('p \<Rightarrow> bool) \<Rightarrow> 'p stream_record \<Rightarrow> bool" where
  "stream_record_good T Pp x \<longleftrightarrow>
     kept_epoch T (sre_approximate_creation_date_time x) \<and>
     Pp (sre_keys x) \<and>
     Pp (sre_new_image x) \<and>
     Pp (sre_old_image x) \<and>
     good_i64 (sre_size_bytes x)"

lemma stream_record_not_null [simp]: "stream_record_json T gp x \<noteq> JNull"
  by (simp add: stream_record_json_def)

lemma stream_record_read [read_back]: "stream_record_good T Pp x \<Longrightarrow> (\<And>x. Pp x \<Longrightarrow> gp x \<noteq> JNull \<and> fp (gp x) = Some x) \<Longrightarrow>stream_record_of_json T fp dp (stream_record_json T gp x) = Some x"
  by (cases x) (clarsimp simp: stream_record_of_json_def stream_record_json_def stream_record_good_def read_back)

record 'p event_record =
  ere_aws_region :: string
  ere_change :: "'p stream_record"
  ere_event_id :: string
  ere_event_name :: string
  ere_event_source :: "string option"
  ere_event_version :: "string option"
  ere_event_source_arn :: "string option"
  ere_user_identity :: "dynamodb_user_identity option"
  ere_record_format :: "string option"
  ere_table_name :: "string option"

definition event_record_json :: "time_crates \<Rightarrow> ('p \<Rightarrow> json) \<Rightarrow> 'p event_record \<Rightarrow> json" where
  "event_record_json T gp x = JObj
     ([(''awsRegion'', JStr (ere_aws_region x)),
      (''dynamodb'', stream_record_json T gp (ere_change x)),
      (''eventID'', JStr (ere_event_id x)),
      (''eventName'', JStr (ere_event_name x)),
      (''eventSource'', json_of_option JStr (ere_event_source x)),
      (''eventVersion'', json_of_option JStr (ere_event_version x)),
      (''eventSourceARN'', json_of_option JStr (ere_event_source_arn x)),
      (''userIdentity'', json_of_option dynamodb_user_identity_json (ere_user_identity x)),
      (''recordFormat'', json_of_option JStr (ere_record_format x)),
      (''tableName'', json_of_option JStr (ere_table_name x))])"

definition event_record_of_json :: "time_crates \<Rightarrow> (json \<Rightarrow> 'p option) \<Rightarrow> 'p \<Rightarrow> json \<Rightarrow> 'p event_record option" where
  "event_record_of_json T fp dp j = do {
     kvs \<leftarrow> de_fields 4
       [''awsRegion'', ''dynamodb'', ''eventID'', ''eventName'', ''eventSource'', ''eventVersion'',
        ''eventSourceARN'', ''userIdentity'', ''recordFormat'', ''tableName''] j;
     x_aws_region \<leftarrow> de_required de_string [''awsRegion''] kvs;
     x_change \<leftarrow> de_required (stream_record_of_json T fp dp) [''dynamodb''] kvs;
     x_event_id \<leftarrow> de_required de_string [''eventID''] kvs;
     x_event_name \<leftarrow> de_required de_string [''eventName''] kvs;
     x_event_source \<leftarrow> de_opt_string ''eventSource'' kvs;
     x_event_version \<leftarrow> de_opt_string ''eventVersion'' kvs;
     x_event_source_arn \<leftarrow> de_opt_string ''eventSourceARN'' kvs;
     x_user_identity \<leftarrow> de_optional dynamodb_user_identity_of_json [''userIdentity''] kvs;
     x_record_format \<leftarrow> de_opt_string ''recordFormat'' kvs;
     x_table_name \<leftarrow> de_opt_string ''tableName'' kvs;
     Some \<lparr>ere_aws_region = x_aws_region, ere_change = x_change, ere_event_id = x_event_id,
       ere_event_name = x_event_name, ere_event_source = x_event_source,
       ere_event_version = x_event_version, ere_event_source_arn = x_event_source_arn,
       ere_user_identity = x_user_identity, ere_record_format = x_record_format,
       ere_table_name = x_table_name\<rparr> }"

definition event_record_good :: "time_crates \<Rightarrow> ('p \<Rightarrow> bool) \<Rightarrow> 'p event_record \<Rightarrow> bool" where
  "event_record_good T Pp x \<longleftrightarrow>
     stream_record_good T Pp (ere_change x)"

lemma event_record_not_null [simp]: "event_record_json T gp x \<noteq> JNull"
  by (simp add: event_record_json_def)

lemma event_record_read [read_back]: "event_record_good T Pp x \<Longrightarrow> (\<And>x. Pp x \<Longrightarrow> gp x \<noteq> JNull \<and> fp (gp x) = Some x) \<Longrightarrow>event_record_of_json T fp dp (event_record_json T gp x) = Some x"
  by (cases x) (simp add: event_record_of_json_def event_record_json_def event_record_good_def read_back)

record 'p dynamodb_event =
  dev_records :: "('p event_record) list"

definition dynamodb_event_fields :: "time_crates \<Rightarrow> ('p \<Rightarrow> json) \<Rightarrow> 'p dynamodb_event \<Rightarrow> (string \<times> json) list" where
  "dynamodb_event_fields T gp x =
     [(''Records'', json_of_list (event_record_json T gp) (dev_records x))]"

definition dynamodb_event_json :: "time_crates \<Rightarrow> ('p \<Rightarrow> json) \<Rightarrow> 'p dynamodb_event \<Rightarrow> json" where
  "dynamodb_event_json T gp x = JObj (dynamodb_event_fields T gp x)"

definition dynamodb_event_of_fields :: "time_crates \<Rightarrow> (json \<Rightarrow> 'p option) \<Rightarrow> 'p \<Rightarrow> (string \<times> json) list \<Rightarrow> 'p dynamodb_event option" where
  "dynamodb_event_of_fields T fp dp kvs = do {
     x_records \<leftarrow> de_required (de_list (event_record_of_json T fp dp)) [''Records''] kvs;
     Some \<lparr>dev_records = x_records\<rparr> }"

definition dynamodb_event_of_json :: "time_crates \<Rightarrow> (json \<Rightarrow> 'p option) \<Rightarrow> 'p \<Rightarrow> json \<Rightarrow> 'p dynamodb_event option" where
  "dynamodb_event_of_json T fp dp j = do {
     kvs \<leftarrow> de_fields 1
       [''Records''] j;
     dynamodb_event_of_fields T fp dp kvs }"

definition dynamodb_event_good :: "time_crates \<Rightarrow> ('p \<Rightarrow> bool) \<Rightarrow> 'p dynamodb_event \<Rightarrow> bool" where
  "dynamodb_event_good T Pp x \<longleftrightarrow>
     list_all (event_record_good T Pp) (dev_records x)"

lemma dynamodb_event_not_null [simp]: "dynamodb_event_json T gp x \<noteq> JNull"
  by (simp add: dynamodb_event_json_def)

lemma dynamodb_event_fields_read:
  "dynamodb_event_good T Pp x \<Longrightarrow> (\<And>x. Pp x \<Longrightarrow> gp x \<noteq> JNull \<and> fp (gp x) = Some x) \<Longrightarrow> dynamodb_event_of_fields T fp dp (dynamodb_event_fields T gp x) = Some x"
  by (cases x) (simp add: dynamodb_event_of_fields_def dynamodb_event_fields_def dynamodb_event_good_def read_back)

lemma dynamodb_event_read [read_back]: "dynamodb_event_good T Pp x \<Longrightarrow> (\<And>x. Pp x \<Longrightarrow> gp x \<noteq> JNull \<and> fp (gp x) = Some x) \<Longrightarrow>dynamodb_event_of_json T fp dp (dynamodb_event_json T gp x) = Some x"
  by (simp add: dynamodb_event_of_json_def dynamodb_event_json_def dynamodb_event_fields_read read_back)

record 'p time_window_event =
  twe_dynamo_db_event :: "'p dynamodb_event"
  twe_time_window_properties :: time_window_properties

definition time_window_event_json :: "datetime event_env \<Rightarrow> time_crates \<Rightarrow> ('p \<Rightarrow> json) \<Rightarrow> 'p time_window_event \<Rightarrow> json" where
  "time_window_event_json E T gp x = JObj
     (dynamodb_event_fields T gp (twe_dynamo_db_event x) @
      time_window_properties_fields E (twe_time_window_properties x))"

definition time_window_event_of_json :: "datetime event_env \<Rightarrow> time_crates \<Rightarrow> (json \<Rightarrow> 'p option) \<Rightarrow> 'p \<Rightarrow> json \<Rightarrow> 'p time_window_event option" where
  "time_window_event_of_json E T fp dp j = do {
     kvs \<leftarrow> de_object j;
     x_dynamo_db_event \<leftarrow> dynamodb_event_of_fields T fp dp kvs;
     x_time_window_properties \<leftarrow> time_window_properties_of_fields E kvs;
     Some \<lparr>twe_dynamo_db_event = x_dynamo_db_event,
       twe_time_window_properties = x_time_window_properties\<rparr> }"

definition time_window_event_good :: "time_crates \<Rightarrow> ('p \<Rightarrow> bool) \<Rightarrow> 'p time_window_event \<Rightarrow> bool" where
  "time_window_event_good T Pp x \<longleftrightarrow>
     dynamodb_event_good T Pp (twe_dynamo_db_event x) \<and>
     time_window_properties_good (twe_time_window_properties x)"

lemma time_window_event_not_null [simp]: "time_window_event_json E T gp x \<noteq> JNull"
  by (simp add: time_window_event_json_def)

lemma time_window_event_read [read_back]: "time_window_event_good T Pp x \<Longrightarrow> event_crates E \<Longrightarrow> (\<And>x. Pp x \<Longrightarrow> gp x \<noteq> JNull \<and> fp (gp x) = Some x) \<Longrightarrow>time_window_event_of_json E T fp dp (time_window_event_json E T gp x) = Some x"
  by (cases x, cases "twe_dynamo_db_event x", cases "twe_time_window_properties x") (clarsimp simp: time_window_event_of_json_def time_window_event_json_def time_window_event_good_def dynamodb_event_of_fields_def dynamodb_event_fields_def dynamodb_event_good_def time_window_properties_of_fields_def time_window_properties_fields_def time_window_properties_good_def read_back)

subsection \<open>\<^verbatim>\<open>codebuild\<close>\<close>

record code_build_artifact =
  cba_md5_sum :: "string option"
  cba_sha256_sum :: "string option"
  cba_location :: "string option"

definition code_build_artifact_json :: "code_build_artifact \<Rightarrow> json" where
  "code_build_artifact_json x = JObj
     ([(''md5sum'', json_of_option JStr (cba_md5_sum x)),
      (''sha256sum'', json_of_option JStr (cba_sha256_sum x)),
      (''location'', json_of_option JStr (cba_location x))])"

definition code_build_artifact_of_json :: "json \<Rightarrow> code_build_artifact option" where
  "code_build_artifact_of_json j = do {
     kvs \<leftarrow> de_fields 0
       [''md5sum'', ''sha256sum'', ''location''] j;
     x_md5_sum \<leftarrow> de_opt_string ''md5sum'' kvs;
     x_sha256_sum \<leftarrow> de_opt_string ''sha256sum'' kvs;
     x_location \<leftarrow> de_opt_string ''location'' kvs;
     Some \<lparr>cba_md5_sum = x_md5_sum, cba_sha256_sum = x_sha256_sum, cba_location = x_location\<rparr> }"

lemma code_build_artifact_not_null [simp]: "code_build_artifact_json x \<noteq> JNull"
  by (simp add: code_build_artifact_json_def)

lemma code_build_artifact_read [read_back]: "code_build_artifact_of_json (code_build_artifact_json x) = Some x"
  by (cases x) (simp add: code_build_artifact_of_json_def code_build_artifact_json_def read_back)

record code_build_environment_variable =
  cbev_name :: "string option"
  cbev_type :: "string option"
  cbev_value :: "string option"

definition code_build_environment_variable_json :: "code_build_environment_variable \<Rightarrow> json" where
  "code_build_environment_variable_json x = JObj
     ([(''name'', json_of_option JStr (cbev_name x)),
      (''type'', json_of_option JStr (cbev_type x)),
      (''value'', json_of_option JStr (cbev_value x))])"

definition code_build_environment_variable_of_json :: "json \<Rightarrow> code_build_environment_variable option" where
  "code_build_environment_variable_of_json j = do {
     kvs \<leftarrow> de_fields 0
       [''name'', ''type'', ''value''] j;
     x_name \<leftarrow> de_opt_string ''name'' kvs;
     x_type \<leftarrow> de_opt_string ''type'' kvs;
     x_value \<leftarrow> de_opt_string ''value'' kvs;
     Some \<lparr>cbev_name = x_name, cbev_type = x_type, cbev_value = x_value\<rparr> }"

lemma code_build_environment_variable_not_null [simp]: "code_build_environment_variable_json x \<noteq> JNull"
  by (simp add: code_build_environment_variable_json_def)

lemma code_build_environment_variable_read [read_back]: "code_build_environment_variable_of_json (code_build_environment_variable_json x) = Some x"
  by (cases x) (simp add: code_build_environment_variable_of_json_def code_build_environment_variable_json_def read_back)

record code_build_source =
  cbs_location :: "string option"
  cbs_type :: "string option"

definition code_build_source_json :: "code_build_source \<Rightarrow> json" where
  "code_build_source_json x = JObj
     ([(''location'', json_of_option JStr (cbs_location x)),
      (''type'', json_of_option JStr (cbs_type x))])"

definition code_build_source_of_json :: "json \<Rightarrow> code_build_source option" where
  "code_build_source_of_json j = do {
     kvs \<leftarrow> de_fields 0
       [''location'', ''type''] j;
     x_location \<leftarrow> de_opt_string ''location'' kvs;
     x_type \<leftarrow> de_opt_string ''type'' kvs;
     Some \<lparr>cbs_location = x_location, cbs_type = x_type\<rparr> }"

lemma code_build_source_not_null [simp]: "code_build_source_json x \<noteq> JNull"
  by (simp add: code_build_source_json_def)

lemma code_build_source_read [read_back]: "code_build_source_of_json (code_build_source_json x) = Some x"
  by (cases x) (simp add: code_build_source_of_json_def code_build_source_json_def read_back)

record code_build_logs =
  cbl_group_name :: "string option"
  cbl_stream_name :: "string option"
  cbl_deep_link :: "string option"

definition code_build_logs_json :: "code_build_logs \<Rightarrow> json" where
  "code_build_logs_json x = JObj
     ([(''group-name'', json_of_option JStr (cbl_group_name x)),
      (''stream-name'', json_of_option JStr (cbl_stream_name x)),
      (''deep-link'', json_of_option JStr (cbl_deep_link x))])"

definition code_build_logs_of_json :: "json \<Rightarrow> code_build_logs option" where
  "code_build_logs_of_json j = do {
     kvs \<leftarrow> de_fields 0
       [''group-name'', ''stream-name'', ''deep-link''] j;
     x_group_name \<leftarrow> de_opt_string ''group-name'' kvs;
     x_stream_name \<leftarrow> de_opt_string ''stream-name'' kvs;
     x_deep_link \<leftarrow> de_opt_string ''deep-link'' kvs;
     Some \<lparr>cbl_group_name = x_group_name, cbl_stream_name = x_stream_name,
       cbl_deep_link = x_deep_link\<rparr> }"

lemma code_build_logs_not_null [simp]: "code_build_logs_json x \<noteq> JNull"
  by (simp add: code_build_logs_json_def)

lemma code_build_logs_read [read_back]: "code_build_logs_of_json (code_build_logs_json x) = Some x"
  by (cases x) (simp add: code_build_logs_of_json_def code_build_logs_json_def read_back)

record 'p code_build_phase =
  cbp_phase_context :: "('p list) option"
  cbp_start_time :: datetime
  cbp_end_time :: "datetime option"
  cbp_duration :: "datetime option"
  cbp_phase_type :: string
  cbp_phase_status :: "string option"

definition code_build_phase_json :: "time_crates \<Rightarrow> ('p \<Rightarrow> json) \<Rightarrow> 'p code_build_phase \<Rightarrow> json" where
  "code_build_phase_json T gp x = JObj
     ([(''phase-context'', json_of_option (json_of_list gp) (cbp_phase_context x)),
      (''start-time'', str_time_serialize T (cbp_start_time x)),
      (''end-time'', optional_time_serialize T (cbp_end_time x)),
      (''duration-in-seconds'', json_of_option serialize_duration_seconds (cbp_duration x)),
      (''phase-type'', JStr (cbp_phase_type x)),
      (''phase-status'', json_of_option JStr (cbp_phase_status x))])"

definition code_build_phase_of_json :: "time_crates \<Rightarrow> (json \<Rightarrow> 'p option) \<Rightarrow> json \<Rightarrow> 'p code_build_phase option" where
  "code_build_phase_of_json T fp j = do {
     kvs \<leftarrow> de_fields 6
       [''phase-context'', ''start-time'', ''end-time'', ''duration-in-seconds'', ''phase-type'',
        ''phase-status''] j;
     x_phase_context \<leftarrow> de_optional (de_list fp) [''phase-context''] kvs;
     x_start_time \<leftarrow> de_required (str_time_deserialize T) [''start-time''] kvs;
     x_end_time \<leftarrow> de_default (optional_time_deserialize T) None [''end-time''] kvs;
     x_duration \<leftarrow> de_optional (deserialize_duration_seconds T) [''duration-in-seconds''] kvs;
     x_phase_type \<leftarrow> de_required de_string [''phase-type''] kvs;
     x_phase_status \<leftarrow> de_opt_string ''phase-status'' kvs;
     Some \<lparr>cbp_phase_context = x_phase_context, cbp_start_time = x_start_time,
       cbp_end_time = x_end_time, cbp_duration = x_duration, cbp_phase_type = x_phase_type,
       cbp_phase_status = x_phase_status\<rparr> }"

definition code_build_phase_good :: "time_crates \<Rightarrow> ('p \<Rightarrow> bool) \<Rightarrow> 'p code_build_phase \<Rightarrow> bool" where
  "code_build_phase_good T Pp x \<longleftrightarrow>
     good_option (list_all Pp) (cbp_phase_context x) \<and>
     kept_build_time T (cbp_start_time x) \<and>
     good_option (kept_build_time T) (cbp_end_time x) \<and>
     good_option (kept_duration_seconds T) (cbp_duration x)"

lemma code_build_phase_not_null [simp]: "code_build_phase_json T gp x \<noteq> JNull"
  by (simp add: code_build_phase_json_def)

lemma code_build_phase_read [read_back]: "code_build_phase_good T Pp x \<Longrightarrow> (\<And>x. Pp x \<Longrightarrow> fp (gp x) = Some x) \<Longrightarrow>code_build_phase_of_json T fp (code_build_phase_json T gp x) = Some x"
  by (cases x) (clarsimp simp: code_build_phase_of_json_def code_build_phase_json_def code_build_phase_good_def read_back)

record code_build_environment =
  cben_image :: "string option"
  cben_privileged_mode :: bool
  cben_compute_type :: "string option"
  cben_type :: "string option"
  cben_environment_variables :: "code_build_environment_variable list"

definition code_build_environment_json :: "code_build_environment \<Rightarrow> json" where
  "code_build_environment_json x = JObj
     ([(''image'', json_of_option JStr (cben_image x)),
      (''privileged-mode'', JBool (cben_privileged_mode x)),
      (''compute-type'', json_of_option JStr (cben_compute_type x)),
      (''type'', json_of_option JStr (cben_type x)),
      (''environment-variables'', json_of_list code_build_environment_variable_json (cben_environment_variables x))])"

definition code_build_environment_of_json :: "json \<Rightarrow> code_build_environment option" where
  "code_build_environment_of_json j = do {
     kvs \<leftarrow> de_fields 5
       [''image'', ''privileged-mode'', ''compute-type'', ''type'', ''environment-variables''] j;
     x_image \<leftarrow> de_opt_string ''image'' kvs;
     x_privileged_mode \<leftarrow> de_required de_bool [''privileged-mode''] kvs;
     x_compute_type \<leftarrow> de_opt_string ''compute-type'' kvs;
     x_type \<leftarrow> de_opt_string ''type'' kvs;
     x_environment_variables \<leftarrow> de_required (de_list code_build_environment_variable_of_json) [''environment-variables''] kvs;
     Some \<lparr>cben_image = x_image, cben_privileged_mode = x_privileged_mode,
       cben_compute_type = x_compute_type, cben_type = x_type,
       cben_environment_variables = x_environment_variables\<rparr> }"

lemma code_build_environment_not_null [simp]: "code_build_environment_json x \<noteq> JNull"
  by (simp add: code_build_environment_json_def)

lemma code_build_environment_read [read_back]: "code_build_environment_of_json (code_build_environment_json x) = Some x"
  by (cases x) (simp add: code_build_environment_of_json_def code_build_environment_json_def read_back)

record 'p code_build_event_additional_information =
  cbeai_artifact :: code_build_artifact
  cbeai_environment :: code_build_environment
  cbeai_timeout :: datetime
  cbeai_build_complete :: bool
  cbeai_build_number :: "'p option"
  cbeai_initiator :: "string option"
  cbeai_build_start_time :: datetime
  cbeai_source :: code_build_source
  cbeai_source_version :: "string option"
  cbeai_logs :: code_build_logs
  cbeai_phases :: "(json code_build_phase) list"

definition code_build_event_additional_information_json :: "time_crates \<Rightarrow> ('p \<Rightarrow> json) \<Rightarrow> 'p code_build_event_additional_information \<Rightarrow> json" where
  "code_build_event_additional_information_json T gp x = JObj
     ([(''artifact'', code_build_artifact_json (cbeai_artifact x)),
      (''environment'', code_build_environment_json (cbeai_environment x)),
      (''timeout-in-minutes'', serialize_duration_minutes (cbeai_timeout x)),
      (''build-complete'', JBool (cbeai_build_complete x)),
      (''build-number'', json_of_option gp (cbeai_build_number x)),
      (''initiator'', json_of_option JStr (cbeai_initiator x)),
      (''build-start-time'', str_time_serialize T (cbeai_build_start_time x)),
      (''source'', code_build_source_json (cbeai_source x)),
      (''source-version'', json_of_option JStr (cbeai_source_version x)),
      (''logs'', code_build_logs_json (cbeai_logs x)),
      (''phases'', json_of_list (code_build_phase_json T (\<lambda>v. v)) (cbeai_phases x))])"

definition code_build_event_additional_information_of_json :: "time_crates \<Rightarrow> (json \<Rightarrow> 'p option) \<Rightarrow> json \<Rightarrow> 'p code_build_event_additional_information option" where
  "code_build_event_additional_information_of_json T fp j = do {
     kvs \<leftarrow> de_fields 11
       [''artifact'', ''environment'', ''timeout-in-minutes'', ''build-complete'',
        ''build-number'', ''initiator'', ''build-start-time'', ''source'', ''source-version'',
        ''logs'', ''phases''] j;
     x_artifact \<leftarrow> de_required code_build_artifact_of_json [''artifact''] kvs;
     x_environment \<leftarrow> de_required code_build_environment_of_json [''environment''] kvs;
     x_timeout \<leftarrow> de_required (deserialize_duration_minutes T) [''timeout-in-minutes''] kvs;
     x_build_complete \<leftarrow> de_required de_bool [''build-complete''] kvs;
     x_build_number \<leftarrow> de_optional fp [''build-number''] kvs;
     x_initiator \<leftarrow> de_opt_string ''initiator'' kvs;
     x_build_start_time \<leftarrow> de_required (str_time_deserialize T) [''build-start-time''] kvs;
     x_source \<leftarrow> de_required code_build_source_of_json [''source''] kvs;
     x_source_version \<leftarrow> de_opt_string ''source-version'' kvs;
     x_logs \<leftarrow> de_required code_build_logs_of_json [''logs''] kvs;
     x_phases \<leftarrow> de_required (de_list (code_build_phase_of_json T Some)) [''phases''] kvs;
     Some \<lparr>cbeai_artifact = x_artifact, cbeai_environment = x_environment,
       cbeai_timeout = x_timeout, cbeai_build_complete = x_build_complete,
       cbeai_build_number = x_build_number, cbeai_initiator = x_initiator,
       cbeai_build_start_time = x_build_start_time, cbeai_source = x_source,
       cbeai_source_version = x_source_version, cbeai_logs = x_logs, cbeai_phases = x_phases\<rparr> }"

definition code_build_event_additional_information_good :: "time_crates \<Rightarrow> ('p \<Rightarrow> bool) \<Rightarrow> 'p code_build_event_additional_information \<Rightarrow> bool" where
  "code_build_event_additional_information_good T Pp x \<longleftrightarrow>
     kept_duration_minutes T (cbeai_timeout x) \<and>
     good_option Pp (cbeai_build_number x) \<and>
     kept_build_time T (cbeai_build_start_time x) \<and>
     list_all (code_build_phase_good T (\<lambda>_. True)) (cbeai_phases x)"

lemma code_build_event_additional_information_not_null [simp]: "code_build_event_additional_information_json T gp x \<noteq> JNull"
  by (simp add: code_build_event_additional_information_json_def)

lemma code_build_event_additional_information_read [read_back]: "code_build_event_additional_information_good T Pp x \<Longrightarrow> (\<And>x. Pp x \<Longrightarrow> gp x \<noteq> JNull \<and> fp (gp x) = Some x) \<Longrightarrow>code_build_event_additional_information_of_json T fp (code_build_event_additional_information_json T gp x) = Some x"
  by (cases x) (clarsimp simp: code_build_event_additional_information_of_json_def code_build_event_additional_information_json_def code_build_event_additional_information_good_def read_back)

record 'p code_build_event_detail =
  cbede_build_status :: "string option"
  cbede_project_name :: "string option"
  cbede_build_id :: "string option"
  cbede_additional_information :: "'p code_build_event_additional_information"
  cbede_current_phase :: "string option"
  cbede_current_phase_context :: "string option"
  cbede_version :: "string option"
  cbede_completed_phase_status :: "string option"
  cbede_completed_phase :: "string option"
  cbede_completed_phase_context :: "string option"
  cbede_completed_phase_duration :: "datetime option"
  cbede_completed_phase_start :: "datetime option"
  cbede_completed_phase_end :: "datetime option"

definition code_build_event_detail_json :: "time_crates \<Rightarrow> ('p \<Rightarrow> json) \<Rightarrow> 'p code_build_event_detail \<Rightarrow> json" where
  "code_build_event_detail_json T gp x = JObj
     ([(''build-status'', json_of_option JStr (cbede_build_status x)),
      (''project-name'', json_of_option JStr (cbede_project_name x)),
      (''build-id'', json_of_option JStr (cbede_build_id x)),
      (''additional-information'', code_build_event_additional_information_json T gp (cbede_additional_information x)),
      (''current-phase'', json_of_option JStr (cbede_current_phase x)),
      (''current-phase-context'', json_of_option JStr (cbede_current_phase_context x)),
      (''version'', json_of_option JStr (cbede_version x)),
      (''completed-phase-status'', json_of_option JStr (cbede_completed_phase_status x)),
      (''completed-phase'', json_of_option JStr (cbede_completed_phase x)),
      (''completed-phase-context'', json_of_option JStr (cbede_completed_phase_context x)),
      (''completed-phase-duration-seconds'', json_of_option serialize_duration_seconds (cbede_completed_phase_duration x)),
      (''completed-phase-start'', optional_time_serialize T (cbede_completed_phase_start x)),
      (''completed-phase-end'', optional_time_serialize T (cbede_completed_phase_end x))])"

definition code_build_event_detail_of_json :: "time_crates \<Rightarrow> (json \<Rightarrow> 'p option) \<Rightarrow> json \<Rightarrow> 'p code_build_event_detail option" where
  "code_build_event_detail_of_json T fp j = do {
     kvs \<leftarrow> de_fields 11
       [''build-status'', ''project-name'', ''build-id'', ''additional-information'',
        ''current-phase'', ''current-phase-context'', ''version'', ''completed-phase-status'',
        ''completed-phase'', ''completed-phase-context'', ''completed-phase-duration-seconds'',
        ''completed-phase-start'', ''completed-phase-end''] j;
     x_build_status \<leftarrow> de_opt_string ''build-status'' kvs;
     x_project_name \<leftarrow> de_opt_string ''project-name'' kvs;
     x_build_id \<leftarrow> de_opt_string ''build-id'' kvs;
     x_additional_information \<leftarrow> de_required (code_build_event_additional_information_of_json T fp) [''additional-information''] kvs;
     x_current_phase \<leftarrow> de_opt_string ''current-phase'' kvs;
     x_current_phase_context \<leftarrow> de_opt_string ''current-phase-context'' kvs;
     x_version \<leftarrow> de_opt_string ''version'' kvs;
     x_completed_phase_status \<leftarrow> de_opt_string ''completed-phase-status'' kvs;
     x_completed_phase \<leftarrow> de_opt_string ''completed-phase'' kvs;
     x_completed_phase_context \<leftarrow> de_opt_string ''completed-phase-context'' kvs;
     x_completed_phase_duration \<leftarrow> de_optional (deserialize_duration_seconds T) [''completed-phase-duration-seconds''] kvs;
     x_completed_phase_start \<leftarrow> de_default (optional_time_deserialize T) None [''completed-phase-start''] kvs;
     x_completed_phase_end \<leftarrow> de_default (optional_time_deserialize T) None [''completed-phase-end''] kvs;
     Some \<lparr>cbede_build_status = x_build_status, cbede_project_name = x_project_name,
       cbede_build_id = x_build_id, cbede_additional_information = x_additional_information,
       cbede_current_phase = x_current_phase,
       cbede_current_phase_context = x_current_phase_context, cbede_version = x_version,
       cbede_completed_phase_status = x_completed_phase_status,
       cbede_completed_phase = x_completed_phase,
       cbede_completed_phase_context = x_completed_phase_context,
       cbede_completed_phase_duration = x_completed_phase_duration,
       cbede_completed_phase_start = x_completed_phase_start,
       cbede_completed_phase_end = x_completed_phase_end\<rparr> }"

definition code_build_event_detail_good :: "time_crates \<Rightarrow> ('p \<Rightarrow> bool) \<Rightarrow> 'p code_build_event_detail \<Rightarrow> bool" where
  "code_build_event_detail_good T Pp x \<longleftrightarrow>
     code_build_event_additional_information_good T Pp (cbede_additional_information x) \<and>
     good_option (kept_duration_seconds T) (cbede_completed_phase_duration x) \<and>
     good_option (kept_build_time T) (cbede_completed_phase_start x) \<and>
     good_option (kept_build_time T) (cbede_completed_phase_end x)"

lemma code_build_event_detail_not_null [simp]: "code_build_event_detail_json T gp x \<noteq> JNull"
  by (simp add: code_build_event_detail_json_def)

lemma code_build_event_detail_read [read_back]: "code_build_event_detail_good T Pp x \<Longrightarrow> (\<And>x. Pp x \<Longrightarrow> gp x \<noteq> JNull \<and> fp (gp x) = Some x) \<Longrightarrow>code_build_event_detail_of_json T fp (code_build_event_detail_json T gp x) = Some x"
  by (cases x) (clarsimp simp: code_build_event_detail_of_json_def code_build_event_detail_json_def code_build_event_detail_good_def read_back)

record 'p code_build_event =
  cbeve_account_id :: "string option"
  cbeve_region :: "string option"
  cbeve_detail_type :: "string option"
  cbeve_source :: "string option"
  cbeve_version :: "string option"
  cbeve_time :: datetime
  cbeve_id :: "string option"
  cbeve_resources :: "string list"
  cbeve_detail :: "'p code_build_event_detail"

definition code_build_event_json :: "datetime event_env \<Rightarrow> time_crates \<Rightarrow> ('p \<Rightarrow> json) \<Rightarrow> 'p code_build_event \<Rightarrow> json" where
  "code_build_event_json E T gp x = JObj
     ([(''account'', json_of_option JStr (cbeve_account_id x)),
      (''region'', json_of_option JStr (cbeve_region x)),
      (''detail-type'', json_of_option JStr (cbeve_detail_type x)),
      (''source'', json_of_option JStr (cbeve_source x)),
      (''version'', json_of_option JStr (cbeve_version x)),
      (''time'', json_of_time E (cbeve_time x)),
      (''id'', json_of_option JStr (cbeve_id x)),
      (''resources'', json_of_list JStr (cbeve_resources x)),
      (''detail'', code_build_event_detail_json T gp (cbeve_detail x))])"

definition code_build_event_of_json :: "datetime event_env \<Rightarrow> time_crates \<Rightarrow> (json \<Rightarrow> 'p option) \<Rightarrow> json \<Rightarrow> 'p code_build_event option" where
  "code_build_event_of_json E T fp j = do {
     kvs \<leftarrow> de_fields 9
       [''account'', ''region'', ''detail-type'', ''source'', ''version'', ''time'', ''id'',
        ''resources'', ''detail''] j;
     x_account_id \<leftarrow> de_opt_string ''account'' kvs;
     x_region \<leftarrow> de_opt_string ''region'' kvs;
     x_detail_type \<leftarrow> de_opt_string ''detail-type'' kvs;
     x_source \<leftarrow> de_opt_string ''source'' kvs;
     x_version \<leftarrow> de_opt_string ''version'' kvs;
     x_time \<leftarrow> de_required (time_of_json E) [''time''] kvs;
     x_id \<leftarrow> de_opt_string ''id'' kvs;
     x_resources \<leftarrow> de_required (de_list de_string) [''resources''] kvs;
     x_detail \<leftarrow> de_required (code_build_event_detail_of_json T fp) [''detail''] kvs;
     Some \<lparr>cbeve_account_id = x_account_id, cbeve_region = x_region,
       cbeve_detail_type = x_detail_type, cbeve_source = x_source, cbeve_version = x_version,
       cbeve_time = x_time, cbeve_id = x_id, cbeve_resources = x_resources,
       cbeve_detail = x_detail\<rparr> }"

definition code_build_event_good :: "time_crates \<Rightarrow> ('p \<Rightarrow> bool) \<Rightarrow> 'p code_build_event \<Rightarrow> bool" where
  "code_build_event_good T Pp x \<longleftrightarrow>
     code_build_event_detail_good T Pp (cbeve_detail x)"

lemma code_build_event_not_null [simp]: "code_build_event_json E T gp x \<noteq> JNull"
  by (simp add: code_build_event_json_def)

lemma code_build_event_read [read_back]: "code_build_event_good T Pp x \<Longrightarrow> event_crates E \<Longrightarrow> (\<And>x. Pp x \<Longrightarrow> gp x \<noteq> JNull \<and> fp (gp x) = Some x) \<Longrightarrow>code_build_event_of_json E T fp (code_build_event_json E T gp x) = Some x"
  by (cases x) (simp add: code_build_event_of_json_def code_build_event_json_def code_build_event_good_def read_back)

subsection \<open>Reading what was written\<close>

text \<open>
  The structures beside the records that hold no numeric timestamp: what is read is well formed,
  and what it is written to is read as the same value.
\<close>

lemma timed_events_reparse:
  assumes "event_crates E"
  shows "reparses kinesis_time_window_event_response_good kinesis_time_window_event_response_of_json kinesis_time_window_event_response_json \<and>
    reparses kinesis_firehose_response_good (kinesis_firehose_response_of_json E) (kinesis_firehose_response_json E)"
  by (intro conjI reparsesI typed_True typed_nn kinesis_time_window_event_response_typed
      kinesis_firehose_response_typed)
    (auto simp: assms read_back)

subsubsection \<open>Responses with a time window\<close>

record time_window_event_response =
  twer_time_window_event_response_properties :: time_window_event_response_properties
  twer_batch_item_failures :: "dynamo_db_batch_item_failure list"

definition time_window_event_response_json :: "time_window_event_response \<Rightarrow> json" where
  "time_window_event_response_json x = JObj
     (time_window_event_response_properties_fields (twer_time_window_event_response_properties x) @
      [(''batchItemFailures'', json_of_list dynamo_db_batch_item_failure_json (twer_batch_item_failures x))])"

definition time_window_event_response_of_json :: "json \<Rightarrow> time_window_event_response option" where
  "time_window_event_response_of_json j = do {
     kvs \<leftarrow> de_object j;
     x_time_window_event_response_properties \<leftarrow> time_window_event_response_properties_of_fields kvs;
     x_batch_item_failures \<leftarrow> de_required (de_list dynamo_db_batch_item_failure_of_json) [''batchItemFailures''] kvs;
     Some \<lparr>twer_time_window_event_response_properties = x_time_window_event_response_properties,
       twer_batch_item_failures = x_batch_item_failures\<rparr> }"

definition time_window_event_response_good :: "time_window_event_response \<Rightarrow> bool" where
  "time_window_event_response_good x \<longleftrightarrow>
     time_window_event_response_properties_good (twer_time_window_event_response_properties x)"

lemma time_window_event_response_read [read_back]:
  "time_window_event_response_good x \<Longrightarrow> time_window_event_response_of_json (time_window_event_response_json x) = Some x"
  by (cases x, cases "twer_time_window_event_response_properties x")
    (clarsimp simp: time_window_event_response_of_json_def time_window_event_response_json_def
      time_window_event_response_good_def time_window_event_response_properties_of_fields_def
      time_window_event_response_properties_fields_def time_window_event_response_properties_good_def read_back)

lemma time_window_event_response_typed: "typed time_window_event_response_good time_window_event_response_of_json"
  unfolding typed_def time_window_event_response_of_json_def time_window_event_response_good_def
  by (auto simp: bind_eq_Some_conv dest!: typed_fieldsD [OF time_window_event_response_properties_fields_typed])

subsubsection \<open>Displayed names\<close>

text \<open>The enums of DynamoDB streams are displayed as they are written.\<close>

fun stream_view_type_display :: "stream_view_type \<Rightarrow> string" where
  "stream_view_type_display StreamViewType_NewImage = ''NEW_IMAGE''"
| "stream_view_type_display StreamViewType_OldImage = ''OLD_IMAGE''"
| "stream_view_type_display StreamViewType_NewAndOldImages = ''NEW_AND_OLD_IMAGES''"
| "stream_view_type_display StreamViewType_KeysOnly = ''KEYS_ONLY''"

fun stream_status_display :: "stream_status \<Rightarrow> string" where
  "stream_status_display StreamStatus_Enabling = ''ENABLING''"
| "stream_status_display StreamStatus_Enabled = ''ENABLED''"
| "stream_status_display StreamStatus_Disabling = ''DISABLING''"
| "stream_status_display StreamStatus_Disabled = ''DISABLED''"

fun shared_iterator_type_display :: "shared_iterator_type \<Rightarrow> string" where
  "shared_iterator_type_display SharedIteratorType_TrimHorizon = ''TRIM_HORIZON''"
| "shared_iterator_type_display SharedIteratorType_Latest = ''LATEST''"
| "shared_iterator_type_display SharedIteratorType_AtSequenceNumber = ''AT_SEQUENCE_NUMBER''"
| "shared_iterator_type_display SharedIteratorType_AfterSequenceNumber = ''AFTER_SEQUENCE_NUMBER''"

fun operation_type_display :: "operation_type \<Rightarrow> string" where
  "operation_type_display OperationType_Insert = ''INSERT''"
| "operation_type_display OperationType_Modify = ''MODIFY''"
| "operation_type_display OperationType_Remove = ''REMOVE''"

fun key_type_display :: "key_type \<Rightarrow> string" where
  "key_type_display KeyType_Hash = ''HASH''"
| "key_type_display KeyType_Range = ''RANGE''"

lemma displayed_as_written:
  "stream_view_type_json v = JStr (stream_view_type_display v)"
  "stream_status_json s = JStr (stream_status_display s)"
  "shared_iterator_type_json i = JStr (shared_iterator_type_display i)"
  "operation_type_json p = JStr (operation_type_display p)"
  "key_type_json k = JStr (key_type_display k)"
  by (cases v, simp_all add: stream_view_type_json_def)
    (cases s, simp_all add: stream_status_json_def, cases i, simp_all add: shared_iterator_type_json_def,
      cases p, simp_all add: operation_type_json_def, cases k, simp_all add: key_type_json_def)

end
