(* ===== verification/WebEvents.thy ===== *)
theory WebEvents
  imports EventSerde
begin

text \<open>
  Lambda function URLs, the requests of VPC Lattice (V1) and the requests to the custom authorizers of
  API Gateway (\<^verbatim>\<open>lambda-events/src/event\<close>). Header maps, query maps, methods and bodies are
  parameters of the structures: their readers, defaults and writers are those that the attributes name,
  modelled with the custom serialisers.
\<close>

text \<open>A text that is not written when it is absent.\<close>

lemma read_skipped_string [read_back]:
  "de_values [n] kvs = (case v of None \<Rightarrow> [] | Some s \<Rightarrow> [JStr s]) \<Longrightarrow> de_opt_string n kvs = Some v"
  unfolding de_opt_string_def by (cases v) (auto simp: de_optional_def)

subsection \<open>\<^verbatim>\<open>lambda_function_urls\<close>\<close>

record lambda_function_url_request_context_authorizer_iam_description =
  lfurcaid_access_key :: "string option"
  lfurcaid_account_id :: "string option"
  lfurcaid_caller_id :: "string option"
  lfurcaid_user_arn :: "string option"
  lfurcaid_user_id :: "string option"

definition lambda_function_url_request_context_authorizer_iam_description_json :: "lambda_function_url_request_context_authorizer_iam_description \<Rightarrow> json" where
  "lambda_function_url_request_context_authorizer_iam_description_json x = JObj
     ([(''accessKey'', json_of_option JStr (lfurcaid_access_key x)),
      (''accountId'', json_of_option JStr (lfurcaid_account_id x)),
      (''callerId'', json_of_option JStr (lfurcaid_caller_id x)),
      (''userArn'', json_of_option JStr (lfurcaid_user_arn x)),
      (''userId'', json_of_option JStr (lfurcaid_user_id x))])"

definition lambda_function_url_request_context_authorizer_iam_description_of_json :: "json \<Rightarrow> lambda_function_url_request_context_authorizer_iam_description option" where
  "lambda_function_url_request_context_authorizer_iam_description_of_json j = do {
     kvs \<leftarrow> de_fields 0
       [''accessKey'', ''accountId'', ''callerId'', ''userArn'', ''userId''] j;
     x_access_key \<leftarrow> de_opt_string ''accessKey'' kvs;
     x_account_id \<leftarrow> de_opt_string ''accountId'' kvs;
     x_caller_id \<leftarrow> de_opt_string ''callerId'' kvs;
     x_user_arn \<leftarrow> de_opt_string ''userArn'' kvs;
     x_user_id \<leftarrow> de_opt_string ''userId'' kvs;
     Some \<lparr>lfurcaid_access_key = x_access_key, lfurcaid_account_id = x_account_id,
       lfurcaid_caller_id = x_caller_id, lfurcaid_user_arn = x_user_arn,
       lfurcaid_user_id = x_user_id\<rparr> }"

lemma lambda_function_url_request_context_authorizer_iam_description_not_null [simp]: "lambda_function_url_request_context_authorizer_iam_description_json x \<noteq> JNull"
  by (simp add: lambda_function_url_request_context_authorizer_iam_description_json_def)

lemma lambda_function_url_request_context_authorizer_iam_description_read [read_back]: "lambda_function_url_request_context_authorizer_iam_description_of_json (lambda_function_url_request_context_authorizer_iam_description_json x) = Some x"
  by (cases x) (simp add: lambda_function_url_request_context_authorizer_iam_description_of_json_def lambda_function_url_request_context_authorizer_iam_description_json_def read_back)

record lambda_function_url_request_context_http_description =
  lfurchd_method :: "string option"
  lfurchd_path :: "string option"
  lfurchd_protocol :: "string option"
  lfurchd_source_ip :: "string option"
  lfurchd_user_agent :: "string option"

definition lambda_function_url_request_context_http_description_json :: "lambda_function_url_request_context_http_description \<Rightarrow> json" where
  "lambda_function_url_request_context_http_description_json x = JObj
     ([(''method'', json_of_option JStr (lfurchd_method x)),
      (''path'', json_of_option JStr (lfurchd_path x)),
      (''protocol'', json_of_option JStr (lfurchd_protocol x)),
      (''sourceIp'', json_of_option JStr (lfurchd_source_ip x)),
      (''userAgent'', json_of_option JStr (lfurchd_user_agent x))])"

definition lambda_function_url_request_context_http_description_of_json :: "json \<Rightarrow> lambda_function_url_request_context_http_description option" where
  "lambda_function_url_request_context_http_description_of_json j = do {
     kvs \<leftarrow> de_fields 0
       [''method'', ''path'', ''protocol'', ''sourceIp'', ''userAgent''] j;
     x_method \<leftarrow> de_opt_string ''method'' kvs;
     x_path \<leftarrow> de_opt_string ''path'' kvs;
     x_protocol \<leftarrow> de_opt_string ''protocol'' kvs;
     x_source_ip \<leftarrow> de_opt_string ''sourceIp'' kvs;
     x_user_agent \<leftarrow> de_opt_string ''userAgent'' kvs;
     Some \<lparr>lfurchd_method = x_method, lfurchd_path = x_path, lfurchd_protocol = x_protocol,
       lfurchd_source_ip = x_source_ip, lfurchd_user_agent = x_user_agent\<rparr> }"

lemma lambda_function_url_request_context_http_description_not_null [simp]: "lambda_function_url_request_context_http_description_json x \<noteq> JNull"
  by (simp add: lambda_function_url_request_context_http_description_json_def)

lemma lambda_function_url_request_context_http_description_read [read_back]: "lambda_function_url_request_context_http_description_of_json (lambda_function_url_request_context_http_description_json x) = Some x"
  by (cases x) (simp add: lambda_function_url_request_context_http_description_of_json_def lambda_function_url_request_context_http_description_json_def read_back)

record 'p lambda_function_url_response =
  lfur_status_code :: int
  lfur_headers :: 'p
  lfur_body :: "string option"
  lfur_is_base64_encoded :: bool
  lfur_cookies :: "string list"

definition lambda_function_url_response_json :: "('p \<Rightarrow> json) \<Rightarrow> 'p lambda_function_url_response \<Rightarrow> json" where
  "lambda_function_url_response_json gp x = JObj
     ([(''statusCode'', JInt (lfur_status_code x)),
      (''headers'', gp (lfur_headers x)),
      (''body'', json_of_option JStr (lfur_body x)),
      (''isBase64Encoded'', JBool (lfur_is_base64_encoded x)),
      (''cookies'', json_of_list JStr (lfur_cookies x))])"

definition lambda_function_url_response_of_json :: "(json \<Rightarrow> 'p option) \<Rightarrow> 'p \<Rightarrow> json \<Rightarrow> 'p lambda_function_url_response option" where
  "lambda_function_url_response_of_json fp dp j = do {
     kvs \<leftarrow> de_fields 5
       [''statusCode'', ''headers'', ''body'', ''isBase64Encoded'', ''cookies''] j;
     x_status_code \<leftarrow> de_required de_i64 [''statusCode''] kvs;
     x_headers \<leftarrow> de_default fp dp [''headers''] kvs;
     x_body \<leftarrow> de_opt_string ''body'' kvs;
     x_is_base64_encoded \<leftarrow> de_required de_bool [''isBase64Encoded''] kvs;
     x_cookies \<leftarrow> de_required (de_list de_string) [''cookies''] kvs;
     Some \<lparr>lfur_status_code = x_status_code, lfur_headers = x_headers, lfur_body = x_body,
       lfur_is_base64_encoded = x_is_base64_encoded, lfur_cookies = x_cookies\<rparr> }"

definition lambda_function_url_response_good :: "('p \<Rightarrow> bool) \<Rightarrow> 'p lambda_function_url_response \<Rightarrow> bool" where
  "lambda_function_url_response_good Pp x \<longleftrightarrow>
     good_i64 (lfur_status_code x) \<and>
     Pp (lfur_headers x)"

lemma lambda_function_url_response_not_null [simp]: "lambda_function_url_response_json gp x \<noteq> JNull"
  by (simp add: lambda_function_url_response_json_def)

lemma lambda_function_url_response_read [read_back]: "lambda_function_url_response_good Pp x \<Longrightarrow> (\<And>x. Pp x \<Longrightarrow> fp (gp x) = Some x) \<Longrightarrow>lambda_function_url_response_of_json fp dp (lambda_function_url_response_json gp x) = Some x"
  by (cases x) (clarsimp simp: lambda_function_url_response_of_json_def lambda_function_url_response_json_def lambda_function_url_response_good_def read_back)

lemma lambda_function_url_response_typed:
  assumes typed_p: "typed Pp fp" and default_p: "Pp dp" shows "typed (lambda_function_url_response_good Pp) (lambda_function_url_response_of_json fp dp)"
  unfolding typed_def lambda_function_url_response_of_json_def lambda_function_url_response_good_def
  by (auto simp: bind_eq_Some_conv dest!: typed_required [OF typed_i64]
      typed_default [OF typed_p default_p])

record lambda_function_url_request_context_authorizer_description =
  lfurcad_iam :: "lambda_function_url_request_context_authorizer_iam_description option"

definition lambda_function_url_request_context_authorizer_description_json :: "lambda_function_url_request_context_authorizer_description \<Rightarrow> json" where
  "lambda_function_url_request_context_authorizer_description_json x = JObj
     ([(''iam'', json_of_option lambda_function_url_request_context_authorizer_iam_description_json (lfurcad_iam x))])"

definition lambda_function_url_request_context_authorizer_description_of_json :: "json \<Rightarrow> lambda_function_url_request_context_authorizer_description option" where
  "lambda_function_url_request_context_authorizer_description_of_json j = do {
     kvs \<leftarrow> de_fields 1
       [''iam''] j;
     x_iam \<leftarrow> de_optional lambda_function_url_request_context_authorizer_iam_description_of_json [''iam''] kvs;
     Some \<lparr>lfurcad_iam = x_iam\<rparr> }"

lemma lambda_function_url_request_context_authorizer_description_not_null [simp]: "lambda_function_url_request_context_authorizer_description_json x \<noteq> JNull"
  by (simp add: lambda_function_url_request_context_authorizer_description_json_def)

lemma lambda_function_url_request_context_authorizer_description_read [read_back]: "lambda_function_url_request_context_authorizer_description_of_json (lambda_function_url_request_context_authorizer_description_json x) = Some x"
  by (cases x) (simp add: lambda_function_url_request_context_authorizer_description_of_json_def lambda_function_url_request_context_authorizer_description_json_def read_back)

record lambda_function_url_request_context =
  lfurc_account_id :: "string option"
  lfurc_request_id :: "string option"
  lfurc_authorizer :: "lambda_function_url_request_context_authorizer_description option"
  lfurc_apiid :: "string option"
  lfurc_domain_name :: "string option"
  lfurc_domain_prefix :: "string option"
  lfurc_time :: "string option"
  lfurc_time_epoch :: int
  lfurc_http :: lambda_function_url_request_context_http_description

definition lambda_function_url_request_context_json :: "lambda_function_url_request_context \<Rightarrow> json" where
  "lambda_function_url_request_context_json x = JObj
     ([(''accountId'', json_of_option JStr (lfurc_account_id x)),
      (''requestId'', json_of_option JStr (lfurc_request_id x)),
      (''authorizer'', json_of_option lambda_function_url_request_context_authorizer_description_json (lfurc_authorizer x)),
      (''apiId'', json_of_option JStr (lfurc_apiid x)),
      (''domainName'', json_of_option JStr (lfurc_domain_name x)),
      (''domainPrefix'', json_of_option JStr (lfurc_domain_prefix x)),
      (''time'', json_of_option JStr (lfurc_time x)),
      (''timeEpoch'', JInt (lfurc_time_epoch x)),
      (''http'', lambda_function_url_request_context_http_description_json (lfurc_http x))])"

definition lambda_function_url_request_context_of_json :: "json \<Rightarrow> lambda_function_url_request_context option" where
  "lambda_function_url_request_context_of_json j = do {
     kvs \<leftarrow> de_fields 9
       [''accountId'', ''requestId'', ''authorizer'', ''apiId'', ''domainName'', ''domainPrefix'',
        ''time'', ''timeEpoch'', ''http''] j;
     x_account_id \<leftarrow> de_opt_string ''accountId'' kvs;
     x_request_id \<leftarrow> de_opt_string ''requestId'' kvs;
     x_authorizer \<leftarrow> de_optional lambda_function_url_request_context_authorizer_description_of_json [''authorizer''] kvs;
     x_apiid \<leftarrow> de_opt_string ''apiId'' kvs;
     x_domain_name \<leftarrow> de_opt_string ''domainName'' kvs;
     x_domain_prefix \<leftarrow> de_opt_string ''domainPrefix'' kvs;
     x_time \<leftarrow> de_opt_string ''time'' kvs;
     x_time_epoch \<leftarrow> de_required de_i64 [''timeEpoch''] kvs;
     x_http \<leftarrow> de_required lambda_function_url_request_context_http_description_of_json [''http''] kvs;
     Some \<lparr>lfurc_account_id = x_account_id, lfurc_request_id = x_request_id,
       lfurc_authorizer = x_authorizer, lfurc_apiid = x_apiid,
       lfurc_domain_name = x_domain_name, lfurc_domain_prefix = x_domain_prefix,
       lfurc_time = x_time, lfurc_time_epoch = x_time_epoch, lfurc_http = x_http\<rparr> }"

definition lambda_function_url_request_context_good :: "lambda_function_url_request_context \<Rightarrow> bool" where
  "lambda_function_url_request_context_good x \<longleftrightarrow>
     good_i64 (lfurc_time_epoch x)"

lemma lambda_function_url_request_context_not_null [simp]: "lambda_function_url_request_context_json x \<noteq> JNull"
  by (simp add: lambda_function_url_request_context_json_def)

lemma lambda_function_url_request_context_read [read_back]: "lambda_function_url_request_context_good x \<Longrightarrow>lambda_function_url_request_context_of_json (lambda_function_url_request_context_json x) = Some x"
  by (cases x) (simp add: lambda_function_url_request_context_of_json_def lambda_function_url_request_context_json_def lambda_function_url_request_context_good_def read_back)

lemma lambda_function_url_request_context_typed: "typed lambda_function_url_request_context_good lambda_function_url_request_context_of_json"
  unfolding typed_def lambda_function_url_request_context_of_json_def lambda_function_url_request_context_good_def
  by (auto simp: bind_eq_Some_conv dest!: typed_required [OF typed_i64])

record 'p lambda_function_url_request =
  lfure_version :: "string option"
  lfure_raw_path :: "string option"
  lfure_raw_query_string :: "string option"
  lfure_cookies :: "(string list) option"
  lfure_headers :: 'p
  lfure_query_string_parameters :: "(string \<times> string) list"
  lfure_request_context :: lambda_function_url_request_context
  lfure_body :: "string option"
  lfure_is_base64_encoded :: bool

definition lambda_function_url_request_json :: "('p \<Rightarrow> json) \<Rightarrow> 'p lambda_function_url_request \<Rightarrow> json" where
  "lambda_function_url_request_json gp x = JObj
     ([(''version'', json_of_option JStr (lfure_version x)),
      (''rawPath'', json_of_option JStr (lfure_raw_path x)),
      (''rawQueryString'', json_of_option JStr (lfure_raw_query_string x)),
      (''cookies'', json_of_option (json_of_list JStr) (lfure_cookies x)),
      (''headers'', gp (lfure_headers x)),
      (''queryStringParameters'', json_of_map JStr (lfure_query_string_parameters x)),
      (''requestContext'', lambda_function_url_request_context_json (lfure_request_context x)),
      (''body'', json_of_option JStr (lfure_body x)),
      (''isBase64Encoded'', JBool (lfure_is_base64_encoded x))])"

definition lambda_function_url_request_of_json :: "(json \<Rightarrow> 'p option) \<Rightarrow> 'p \<Rightarrow> json \<Rightarrow> 'p lambda_function_url_request option" where
  "lambda_function_url_request_of_json fp dp j = do {
     kvs \<leftarrow> de_fields 9
       [''version'', ''rawPath'', ''rawQueryString'', ''cookies'', ''headers'',
        ''queryStringParameters'', ''requestContext'', ''body'', ''isBase64Encoded''] j;
     x_version \<leftarrow> de_opt_string ''version'' kvs;
     x_raw_path \<leftarrow> de_opt_string ''rawPath'' kvs;
     x_raw_query_string \<leftarrow> de_opt_string ''rawQueryString'' kvs;
     x_cookies \<leftarrow> de_optional (de_list de_string) [''cookies''] kvs;
     x_headers \<leftarrow> de_default fp dp [''headers''] kvs;
     x_query_string_parameters \<leftarrow> de_default (de_nullish (de_hash_map de_string) []) [] [''queryStringParameters''] kvs;
     x_request_context \<leftarrow> de_required lambda_function_url_request_context_of_json [''requestContext''] kvs;
     x_body \<leftarrow> de_opt_string ''body'' kvs;
     x_is_base64_encoded \<leftarrow> de_required de_bool [''isBase64Encoded''] kvs;
     Some \<lparr>lfure_version = x_version, lfure_raw_path = x_raw_path,
       lfure_raw_query_string = x_raw_query_string, lfure_cookies = x_cookies,
       lfure_headers = x_headers, lfure_query_string_parameters = x_query_string_parameters,
       lfure_request_context = x_request_context, lfure_body = x_body,
       lfure_is_base64_encoded = x_is_base64_encoded\<rparr> }"

definition lambda_function_url_request_good :: "('p \<Rightarrow> bool) \<Rightarrow> 'p lambda_function_url_request \<Rightarrow> bool" where
  "lambda_function_url_request_good Pp x \<longleftrightarrow>
     Pp (lfure_headers x) \<and>
     good_map (\<lambda>_. True) (lfure_query_string_parameters x) \<and>
     lambda_function_url_request_context_good (lfure_request_context x)"

lemma lambda_function_url_request_not_null [simp]: "lambda_function_url_request_json gp x \<noteq> JNull"
  by (simp add: lambda_function_url_request_json_def)

lemma lambda_function_url_request_read [read_back]: "lambda_function_url_request_good Pp x \<Longrightarrow> (\<And>x. Pp x \<Longrightarrow> fp (gp x) = Some x) \<Longrightarrow>lambda_function_url_request_of_json fp dp (lambda_function_url_request_json gp x) = Some x"
  by (cases x) (clarsimp simp: lambda_function_url_request_of_json_def lambda_function_url_request_json_def lambda_function_url_request_good_def read_back)

lemma lambda_function_url_request_typed:
  assumes typed_p: "typed Pp fp" and default_p: "Pp dp" shows "typed (lambda_function_url_request_good Pp) (lambda_function_url_request_of_json fp dp)"
  unfolding typed_def lambda_function_url_request_of_json_def lambda_function_url_request_good_def
  by (auto simp: bind_eq_Some_conv dest!: typed_default [OF typed_p default_p]
      typed_default [OF typed_nullish [OF typed_hash_map [OF typed_True [of "de_string"]] good_nil(1)] good_nil(1)]
      typed_required [OF lambda_function_url_request_context_typed])

subsection \<open>\<^verbatim>\<open>vpc_lattice/v1\<close>\<close>

record ('p, 'q, 'r, 's) vpc_lattice_request_v1 =
  vlrv_raw_path :: "string option"
  vlrv_method :: "'p option"
  vlrv_headers :: 'q
  vlrv_query_string_parameters :: 'r
  vlrv_body :: "'s option"
  vlrv_is_base64_encoded :: bool

definition vpc_lattice_request_v1_json :: "('p \<Rightarrow> json) \<Rightarrow> ('q \<Rightarrow> json) \<Rightarrow> ('r \<Rightarrow> json) \<Rightarrow> ('s \<Rightarrow> json) \<Rightarrow> ('p, 'q, 'r, 's) vpc_lattice_request_v1 \<Rightarrow> json" where
  "vpc_lattice_request_v1_json gp gq gr gs x = JObj
     (opt_field ''raw_path'' JStr (vlrv_raw_path x) @
      opt_field ''method'' gp (vlrv_method x) @
      [(''headers'', gq (vlrv_headers x)),
      (''query_string_parameters'', gr (vlrv_query_string_parameters x)),
      (''body'', json_of_option gs (vlrv_body x)),
      (''is_base64_encoded'', JBool (vlrv_is_base64_encoded x))])"

definition vpc_lattice_request_v1_of_json :: "(json \<Rightarrow> 'p option) \<Rightarrow> (json \<Rightarrow> 'q option) \<Rightarrow> 'q \<Rightarrow> (json \<Rightarrow> 'r option) \<Rightarrow> 'r \<Rightarrow> (json \<Rightarrow> 's option) \<Rightarrow> json \<Rightarrow> ('p, 'q, 'r, 's) vpc_lattice_request_v1 option" where
  "vpc_lattice_request_v1_of_json fp fq dq fr dr fs j = do {
     kvs \<leftarrow> de_fields 0
       [''raw_path'', ''method'', ''headers'', ''query_string_parameters'', ''body'',
        ''is_base64_encoded''] j;
     x_raw_path \<leftarrow> de_opt_string ''raw_path'' kvs;
     x_method \<leftarrow> de_optional fp [''method''] kvs;
     x_headers \<leftarrow> de_default fq dq [''headers''] kvs;
     x_query_string_parameters \<leftarrow> de_default fr dr [''query_string_parameters''] kvs;
     x_body \<leftarrow> de_optional fs [''body''] kvs;
     x_is_base64_encoded \<leftarrow> de_default (de_nullish de_bool False) False [''is_base64_encoded''] kvs;
     Some \<lparr>vlrv_raw_path = x_raw_path, vlrv_method = x_method, vlrv_headers = x_headers,
       vlrv_query_string_parameters = x_query_string_parameters, vlrv_body = x_body,
       vlrv_is_base64_encoded = x_is_base64_encoded\<rparr> }"

definition vpc_lattice_request_v1_good :: "('p \<Rightarrow> bool) \<Rightarrow> ('q \<Rightarrow> bool) \<Rightarrow> ('r \<Rightarrow> bool) \<Rightarrow> ('s \<Rightarrow> bool) \<Rightarrow> ('p, 'q, 'r, 's) vpc_lattice_request_v1 \<Rightarrow> bool" where
  "vpc_lattice_request_v1_good Pp Pq Pr Ps x \<longleftrightarrow>
     good_option Pp (vlrv_method x) \<and>
     Pq (vlrv_headers x) \<and>
     Pr (vlrv_query_string_parameters x) \<and>
     good_option Ps (vlrv_body x)"

lemma vpc_lattice_request_v1_not_null [simp]: "vpc_lattice_request_v1_json gp gq gr gs x \<noteq> JNull"
  by (simp add: vpc_lattice_request_v1_json_def)

lemma vpc_lattice_request_v1_read [read_back]: "vpc_lattice_request_v1_good Pp Pq Pr Ps x \<Longrightarrow> (\<And>x. Pp x \<Longrightarrow> gp x \<noteq> JNull \<and> fp (gp x) = Some x) \<Longrightarrow> (\<And>x. Pq x \<Longrightarrow> fq (gq x) = Some x) \<Longrightarrow> (\<And>x. Pr x \<Longrightarrow> fr (gr x) = Some x) \<Longrightarrow> (\<And>x. Ps x \<Longrightarrow> gs x \<noteq> JNull \<and> fs (gs x) = Some x) \<Longrightarrow>vpc_lattice_request_v1_of_json fp fq dq fr dr fs (vpc_lattice_request_v1_json gp gq gr gs x) = Some x"
  by (cases x) (clarsimp simp: vpc_lattice_request_v1_of_json_def vpc_lattice_request_v1_json_def vpc_lattice_request_v1_good_def read_back)

lemma vpc_lattice_request_v1_typed:
  assumes typed_p: "typed_nn Pp fp" and typed_q: "typed Pq fq" and default_q: "Pq dq" and typed_r: "typed Pr fr" and default_r: "Pr dr" and typed_s: "typed_nn Ps fs" shows "typed (vpc_lattice_request_v1_good Pp Pq Pr Ps) (vpc_lattice_request_v1_of_json fp fq dq fr dr fs)"
  unfolding typed_def vpc_lattice_request_v1_of_json_def vpc_lattice_request_v1_good_def
  by (auto simp: bind_eq_Some_conv dest!: typed_nn_optional [OF typed_p]
      typed_default [OF typed_q default_q]
      typed_default [OF typed_r default_r]
      typed_nn_optional [OF typed_s])

subsection \<open>\<^verbatim>\<open>apigw\<close>\<close>

record api_gateway_custom_authorizer_request_type_request_identity_client_cert_validity =
  agcartriccv_not_after :: "string option"
  agcartriccv_not_before :: "string option"

definition api_gateway_custom_authorizer_request_type_request_identity_client_cert_validity_json :: "api_gateway_custom_authorizer_request_type_request_identity_client_cert_validity \<Rightarrow> json" where
  "api_gateway_custom_authorizer_request_type_request_identity_client_cert_validity_json x = JObj
     ([(''notAfter'', json_of_option JStr (agcartriccv_not_after x)),
      (''notBefore'', json_of_option JStr (agcartriccv_not_before x))])"

definition api_gateway_custom_authorizer_request_type_request_identity_client_cert_validity_of_json :: "json \<Rightarrow> api_gateway_custom_authorizer_request_type_request_identity_client_cert_validity option" where
  "api_gateway_custom_authorizer_request_type_request_identity_client_cert_validity_of_json j = do {
     kvs \<leftarrow> de_fields 0
       [''notAfter'', ''notBefore''] j;
     x_not_after \<leftarrow> de_opt_string ''notAfter'' kvs;
     x_not_before \<leftarrow> de_opt_string ''notBefore'' kvs;
     Some \<lparr>agcartriccv_not_after = x_not_after, agcartriccv_not_before = x_not_before\<rparr> }"

lemma api_gateway_custom_authorizer_request_type_request_identity_client_cert_validity_not_null [simp]: "api_gateway_custom_authorizer_request_type_request_identity_client_cert_validity_json x \<noteq> JNull"
  by (simp add: api_gateway_custom_authorizer_request_type_request_identity_client_cert_validity_json_def)

lemma api_gateway_custom_authorizer_request_type_request_identity_client_cert_validity_read [read_back]: "api_gateway_custom_authorizer_request_type_request_identity_client_cert_validity_of_json (api_gateway_custom_authorizer_request_type_request_identity_client_cert_validity_json x) = Some x"
  by (cases x) (simp add: api_gateway_custom_authorizer_request_type_request_identity_client_cert_validity_of_json_def api_gateway_custom_authorizer_request_type_request_identity_client_cert_validity_json_def read_back)

record api_gateway_custom_authorizer_context =
  agcac_principal_id :: "string option"
  agcac_string_key :: "string option"
  agcac_num_key :: "int option"
  agcac_bool_key :: bool

definition api_gateway_custom_authorizer_context_json :: "api_gateway_custom_authorizer_context \<Rightarrow> json" where
  "api_gateway_custom_authorizer_context_json x = JObj
     ([(''principalId'', json_of_option JStr (agcac_principal_id x)),
      (''stringKey'', json_of_option JStr (agcac_string_key x)),
      (''numKey'', json_of_option JInt (agcac_num_key x)),
      (''boolKey'', JBool (agcac_bool_key x))])"

definition api_gateway_custom_authorizer_context_of_json :: "json \<Rightarrow> api_gateway_custom_authorizer_context option" where
  "api_gateway_custom_authorizer_context_of_json j = do {
     kvs \<leftarrow> de_fields 3
       [''principalId'', ''stringKey'', ''numKey'', ''boolKey''] j;
     x_principal_id \<leftarrow> de_opt_string ''principalId'' kvs;
     x_string_key \<leftarrow> de_opt_string ''stringKey'' kvs;
     x_num_key \<leftarrow> de_optional de_i64 [''numKey''] kvs;
     x_bool_key \<leftarrow> de_default (de_nullish de_bool False) False [''boolKey''] kvs;
     Some \<lparr>agcac_principal_id = x_principal_id, agcac_string_key = x_string_key,
       agcac_num_key = x_num_key, agcac_bool_key = x_bool_key\<rparr> }"

definition api_gateway_custom_authorizer_context_good :: "api_gateway_custom_authorizer_context \<Rightarrow> bool" where
  "api_gateway_custom_authorizer_context_good x \<longleftrightarrow>
     good_option good_i64 (agcac_num_key x)"

lemma api_gateway_custom_authorizer_context_not_null [simp]: "api_gateway_custom_authorizer_context_json x \<noteq> JNull"
  by (simp add: api_gateway_custom_authorizer_context_json_def)

lemma api_gateway_custom_authorizer_context_read [read_back]: "api_gateway_custom_authorizer_context_good x \<Longrightarrow>api_gateway_custom_authorizer_context_of_json (api_gateway_custom_authorizer_context_json x) = Some x"
  by (cases x) (simp add: api_gateway_custom_authorizer_context_of_json_def api_gateway_custom_authorizer_context_json_def api_gateway_custom_authorizer_context_good_def read_back)

lemma api_gateway_custom_authorizer_context_typed: "typed api_gateway_custom_authorizer_context_good api_gateway_custom_authorizer_context_of_json"
  unfolding typed_def api_gateway_custom_authorizer_context_of_json_def api_gateway_custom_authorizer_context_good_def
  by (auto simp: bind_eq_Some_conv dest!: typed_optional [OF typed_i64])

record api_gateway_custom_authorizer_request =
  agcare_type :: "string option"
  agcare_authorization_token :: "string option"
  agcare_method_arn :: "string option"

definition api_gateway_custom_authorizer_request_json :: "api_gateway_custom_authorizer_request \<Rightarrow> json" where
  "api_gateway_custom_authorizer_request_json x = JObj
     ([(''type'', json_of_option JStr (agcare_type x)),
      (''authorizationToken'', json_of_option JStr (agcare_authorization_token x)),
      (''methodArn'', json_of_option JStr (agcare_method_arn x))])"

definition api_gateway_custom_authorizer_request_of_json :: "json \<Rightarrow> api_gateway_custom_authorizer_request option" where
  "api_gateway_custom_authorizer_request_of_json j = do {
     kvs \<leftarrow> de_fields 0
       [''type'', ''authorizationToken'', ''methodArn''] j;
     x_type \<leftarrow> de_opt_string ''type'' kvs;
     x_authorization_token \<leftarrow> de_opt_string ''authorizationToken'' kvs;
     x_method_arn \<leftarrow> de_opt_string ''methodArn'' kvs;
     Some \<lparr>agcare_type = x_type, agcare_authorization_token = x_authorization_token,
       agcare_method_arn = x_method_arn\<rparr> }"

lemma api_gateway_custom_authorizer_request_not_null [simp]: "api_gateway_custom_authorizer_request_json x \<noteq> JNull"
  by (simp add: api_gateway_custom_authorizer_request_json_def)

lemma api_gateway_custom_authorizer_request_read [read_back]: "api_gateway_custom_authorizer_request_of_json (api_gateway_custom_authorizer_request_json x) = Some x"
  by (cases x) (simp add: api_gateway_custom_authorizer_request_of_json_def api_gateway_custom_authorizer_request_json_def read_back)

record api_gateway_custom_authorizer_request_type_request_identity_client_cert =
  agcartricc_client_cert_pem :: "string option"
  agcartricc_issuer_dn :: "string option"
  agcartricc_serial_number :: "string option"
  agcartricc_subject_dn :: "string option"
  agcartricc_validity :: api_gateway_custom_authorizer_request_type_request_identity_client_cert_validity

definition api_gateway_custom_authorizer_request_type_request_identity_client_cert_json :: "api_gateway_custom_authorizer_request_type_request_identity_client_cert \<Rightarrow> json" where
  "api_gateway_custom_authorizer_request_type_request_identity_client_cert_json x = JObj
     ([(''clientCertPem'', json_of_option JStr (agcartricc_client_cert_pem x)),
      (''issuerDN'', json_of_option JStr (agcartricc_issuer_dn x)),
      (''serialNumber'', json_of_option JStr (agcartricc_serial_number x)),
      (''subjectDN'', json_of_option JStr (agcartricc_subject_dn x)),
      (''validity'', api_gateway_custom_authorizer_request_type_request_identity_client_cert_validity_json (agcartricc_validity x))])"

definition api_gateway_custom_authorizer_request_type_request_identity_client_cert_of_json :: "json \<Rightarrow> api_gateway_custom_authorizer_request_type_request_identity_client_cert option" where
  "api_gateway_custom_authorizer_request_type_request_identity_client_cert_of_json j = do {
     kvs \<leftarrow> de_fields 5
       [''clientCertPem'', ''issuerDN'', ''serialNumber'', ''subjectDN'', ''validity''] j;
     x_client_cert_pem \<leftarrow> de_opt_string ''clientCertPem'' kvs;
     x_issuer_dn \<leftarrow> de_opt_string ''issuerDN'' kvs;
     x_serial_number \<leftarrow> de_opt_string ''serialNumber'' kvs;
     x_subject_dn \<leftarrow> de_opt_string ''subjectDN'' kvs;
     x_validity \<leftarrow> de_required api_gateway_custom_authorizer_request_type_request_identity_client_cert_validity_of_json [''validity''] kvs;
     Some \<lparr>agcartricc_client_cert_pem = x_client_cert_pem, agcartricc_issuer_dn = x_issuer_dn,
       agcartricc_serial_number = x_serial_number, agcartricc_subject_dn = x_subject_dn,
       agcartricc_validity = x_validity\<rparr> }"

lemma api_gateway_custom_authorizer_request_type_request_identity_client_cert_not_null [simp]: "api_gateway_custom_authorizer_request_type_request_identity_client_cert_json x \<noteq> JNull"
  by (simp add: api_gateway_custom_authorizer_request_type_request_identity_client_cert_json_def)

lemma api_gateway_custom_authorizer_request_type_request_identity_client_cert_read [read_back]: "api_gateway_custom_authorizer_request_type_request_identity_client_cert_of_json (api_gateway_custom_authorizer_request_type_request_identity_client_cert_json x) = Some x"
  by (cases x) (simp add: api_gateway_custom_authorizer_request_type_request_identity_client_cert_of_json_def api_gateway_custom_authorizer_request_type_request_identity_client_cert_json_def read_back)

record api_gateway_custom_authorizer_request_type_request_identity =
  agcartri_api_key_id :: "string option"
  agcartri_api_key :: "string option"
  agcartri_source_ip :: "string option"
  agcartri_client_cert :: "api_gateway_custom_authorizer_request_type_request_identity_client_cert option"

definition api_gateway_custom_authorizer_request_type_request_identity_json :: "api_gateway_custom_authorizer_request_type_request_identity \<Rightarrow> json" where
  "api_gateway_custom_authorizer_request_type_request_identity_json x = JObj
     ([(''apiKeyId'', json_of_option JStr (agcartri_api_key_id x)),
      (''apiKey'', json_of_option JStr (agcartri_api_key x)),
      (''sourceIp'', json_of_option JStr (agcartri_source_ip x)),
      (''clientCert'', json_of_option api_gateway_custom_authorizer_request_type_request_identity_client_cert_json (agcartri_client_cert x))])"

definition api_gateway_custom_authorizer_request_type_request_identity_of_json :: "json \<Rightarrow> api_gateway_custom_authorizer_request_type_request_identity option" where
  "api_gateway_custom_authorizer_request_type_request_identity_of_json j = do {
     kvs \<leftarrow> de_fields 0
       [''apiKeyId'', ''apiKey'', ''sourceIp'', ''clientCert''] j;
     x_api_key_id \<leftarrow> de_opt_string ''apiKeyId'' kvs;
     x_api_key \<leftarrow> de_opt_string ''apiKey'' kvs;
     x_source_ip \<leftarrow> de_opt_string ''sourceIp'' kvs;
     x_client_cert \<leftarrow> de_optional api_gateway_custom_authorizer_request_type_request_identity_client_cert_of_json [''clientCert''] kvs;
     Some \<lparr>agcartri_api_key_id = x_api_key_id, agcartri_api_key = x_api_key,
       agcartri_source_ip = x_source_ip, agcartri_client_cert = x_client_cert\<rparr> }"

lemma api_gateway_custom_authorizer_request_type_request_identity_not_null [simp]: "api_gateway_custom_authorizer_request_type_request_identity_json x \<noteq> JNull"
  by (simp add: api_gateway_custom_authorizer_request_type_request_identity_json_def)

lemma api_gateway_custom_authorizer_request_type_request_identity_read [read_back]: "api_gateway_custom_authorizer_request_type_request_identity_of_json (api_gateway_custom_authorizer_request_type_request_identity_json x) = Some x"
  by (cases x) (simp add: api_gateway_custom_authorizer_request_type_request_identity_of_json_def api_gateway_custom_authorizer_request_type_request_identity_json_def read_back)

record 'p api_gateway_v2_custom_authorizer_v1_request_type_request_context =
  agvcavrtrc_path :: "string option"
  agvcavrtrc_account_id :: "string option"
  agvcavrtrc_resource_id :: "string option"
  agvcavrtrc_stage :: "string option"
  agvcavrtrc_request_id :: "string option"
  agvcavrtrc_identity :: api_gateway_custom_authorizer_request_type_request_identity
  agvcavrtrc_resource_path :: "string option"
  agvcavrtrc_http_method :: 'p
  agvcavrtrc_apiid :: "string option"

definition api_gateway_v2_custom_authorizer_v1_request_type_request_context_json :: "('p \<Rightarrow> json) \<Rightarrow> 'p api_gateway_v2_custom_authorizer_v1_request_type_request_context \<Rightarrow> json" where
  "api_gateway_v2_custom_authorizer_v1_request_type_request_context_json gp x = JObj
     ([(''path'', json_of_option JStr (agvcavrtrc_path x)),
      (''accountId'', json_of_option JStr (agvcavrtrc_account_id x)),
      (''resourceId'', json_of_option JStr (agvcavrtrc_resource_id x)),
      (''stage'', json_of_option JStr (agvcavrtrc_stage x)),
      (''requestId'', json_of_option JStr (agvcavrtrc_request_id x)),
      (''identity'', api_gateway_custom_authorizer_request_type_request_identity_json (agvcavrtrc_identity x)),
      (''resourcePath'', json_of_option JStr (agvcavrtrc_resource_path x)),
      (''httpMethod'', gp (agvcavrtrc_http_method x)),
      (''apiId'', json_of_option JStr (agvcavrtrc_apiid x))])"

definition api_gateway_v2_custom_authorizer_v1_request_type_request_context_of_json :: "(json \<Rightarrow> 'p option) \<Rightarrow> json \<Rightarrow> 'p api_gateway_v2_custom_authorizer_v1_request_type_request_context option" where
  "api_gateway_v2_custom_authorizer_v1_request_type_request_context_of_json fp j = do {
     kvs \<leftarrow> de_fields 8
       [''path'', ''accountId'', ''resourceId'', ''stage'', ''requestId'', ''identity'',
        ''resourcePath'', ''httpMethod'', ''apiId''] j;
     x_path \<leftarrow> de_opt_string ''path'' kvs;
     x_account_id \<leftarrow> de_opt_string ''accountId'' kvs;
     x_resource_id \<leftarrow> de_opt_string ''resourceId'' kvs;
     x_stage \<leftarrow> de_opt_string ''stage'' kvs;
     x_request_id \<leftarrow> de_opt_string ''requestId'' kvs;
     x_identity \<leftarrow> de_required api_gateway_custom_authorizer_request_type_request_identity_of_json [''identity''] kvs;
     x_resource_path \<leftarrow> de_opt_string ''resourcePath'' kvs;
     x_http_method \<leftarrow> de_required fp [''httpMethod''] kvs;
     x_apiid \<leftarrow> de_opt_string ''apiId'' kvs;
     Some \<lparr>agvcavrtrc_path = x_path, agvcavrtrc_account_id = x_account_id,
       agvcavrtrc_resource_id = x_resource_id, agvcavrtrc_stage = x_stage,
       agvcavrtrc_request_id = x_request_id, agvcavrtrc_identity = x_identity,
       agvcavrtrc_resource_path = x_resource_path, agvcavrtrc_http_method = x_http_method,
       agvcavrtrc_apiid = x_apiid\<rparr> }"

definition api_gateway_v2_custom_authorizer_v1_request_type_request_context_good :: "('p \<Rightarrow> bool) \<Rightarrow> 'p api_gateway_v2_custom_authorizer_v1_request_type_request_context \<Rightarrow> bool" where
  "api_gateway_v2_custom_authorizer_v1_request_type_request_context_good Pp x \<longleftrightarrow>
     Pp (agvcavrtrc_http_method x)"

lemma api_gateway_v2_custom_authorizer_v1_request_type_request_context_not_null [simp]: "api_gateway_v2_custom_authorizer_v1_request_type_request_context_json gp x \<noteq> JNull"
  by (simp add: api_gateway_v2_custom_authorizer_v1_request_type_request_context_json_def)

lemma api_gateway_v2_custom_authorizer_v1_request_type_request_context_read [read_back]: "api_gateway_v2_custom_authorizer_v1_request_type_request_context_good Pp x \<Longrightarrow> (\<And>x. Pp x \<Longrightarrow> fp (gp x) = Some x) \<Longrightarrow>api_gateway_v2_custom_authorizer_v1_request_type_request_context_of_json fp (api_gateway_v2_custom_authorizer_v1_request_type_request_context_json gp x) = Some x"
  by (cases x) (simp add: api_gateway_v2_custom_authorizer_v1_request_type_request_context_of_json_def api_gateway_v2_custom_authorizer_v1_request_type_request_context_json_def api_gateway_v2_custom_authorizer_v1_request_type_request_context_good_def read_back)

lemma api_gateway_v2_custom_authorizer_v1_request_type_request_context_typed:
  assumes typed_p: "typed Pp fp" shows "typed (api_gateway_v2_custom_authorizer_v1_request_type_request_context_good Pp) (api_gateway_v2_custom_authorizer_v1_request_type_request_context_of_json fp)"
  unfolding typed_def api_gateway_v2_custom_authorizer_v1_request_type_request_context_of_json_def api_gateway_v2_custom_authorizer_v1_request_type_request_context_good_def
  by (auto simp: bind_eq_Some_conv dest!: typed_required [OF typed_p])

record ('p, 'q) api_gateway_v2_custom_authorizer_v1_request =
  agvcavr_version :: "string option"
  agvcavr_type :: "string option"
  agvcavr_method_arn :: "string option"
  agvcavr_identity_source :: "string option"
  agvcavr_authorization_token :: "string option"
  agvcavr_resource :: "string option"
  agvcavr_path :: "string option"
  agvcavr_http_method :: 'p
  agvcavr_headers :: 'q
  agvcavr_query_string_parameters :: "(string \<times> string) list"
  agvcavr_path_parameters :: "(string \<times> string) list"
  agvcavr_stage_variables :: "(string \<times> string) list"
  agvcavr_request_context :: "'p api_gateway_v2_custom_authorizer_v1_request_type_request_context"

definition api_gateway_v2_custom_authorizer_v1_request_json :: "('p \<Rightarrow> json) \<Rightarrow> ('q \<Rightarrow> json) \<Rightarrow> ('p, 'q) api_gateway_v2_custom_authorizer_v1_request \<Rightarrow> json" where
  "api_gateway_v2_custom_authorizer_v1_request_json gp gq x = JObj
     ([(''version'', json_of_option JStr (agvcavr_version x)),
      (''type'', json_of_option JStr (agvcavr_type x)),
      (''methodArn'', json_of_option JStr (agvcavr_method_arn x)),
      (''identitySource'', json_of_option JStr (agvcavr_identity_source x)),
      (''authorizationToken'', json_of_option JStr (agvcavr_authorization_token x)),
      (''resource'', json_of_option JStr (agvcavr_resource x)),
      (''path'', json_of_option JStr (agvcavr_path x)),
      (''httpMethod'', gp (agvcavr_http_method x)),
      (''headers'', gq (agvcavr_headers x)),
      (''queryStringParameters'', json_of_map JStr (agvcavr_query_string_parameters x)),
      (''pathParameters'', json_of_map JStr (agvcavr_path_parameters x)),
      (''stageVariables'', json_of_map JStr (agvcavr_stage_variables x)),
      (''requestContext'', api_gateway_v2_custom_authorizer_v1_request_type_request_context_json gp (agvcavr_request_context x))])"

definition api_gateway_v2_custom_authorizer_v1_request_of_json :: "(json \<Rightarrow> 'p option) \<Rightarrow> (json \<Rightarrow> 'q option) \<Rightarrow> 'q \<Rightarrow> json \<Rightarrow> ('p, 'q) api_gateway_v2_custom_authorizer_v1_request option" where
  "api_gateway_v2_custom_authorizer_v1_request_of_json fp fq dq j = do {
     kvs \<leftarrow> de_fields 13
       [''version'', ''type'', ''methodArn'', ''identitySource'', ''authorizationToken'',
        ''resource'', ''path'', ''httpMethod'', ''headers'', ''queryStringParameters'',
        ''pathParameters'', ''stageVariables'', ''requestContext''] j;
     x_version \<leftarrow> de_opt_string ''version'' kvs;
     x_type \<leftarrow> de_opt_string ''type'' kvs;
     x_method_arn \<leftarrow> de_opt_string ''methodArn'' kvs;
     x_identity_source \<leftarrow> de_opt_string ''identitySource'' kvs;
     x_authorization_token \<leftarrow> de_opt_string ''authorizationToken'' kvs;
     x_resource \<leftarrow> de_opt_string ''resource'' kvs;
     x_path \<leftarrow> de_opt_string ''path'' kvs;
     x_http_method \<leftarrow> de_required fp [''httpMethod''] kvs;
     x_headers \<leftarrow> de_default fq dq [''headers''] kvs;
     x_query_string_parameters \<leftarrow> de_default (de_nullish (de_hash_map de_string) []) [] [''queryStringParameters''] kvs;
     x_path_parameters \<leftarrow> de_default (de_nullish (de_hash_map de_string) []) [] [''pathParameters''] kvs;
     x_stage_variables \<leftarrow> de_default (de_nullish (de_hash_map de_string) []) [] [''stageVariables''] kvs;
     x_request_context \<leftarrow> de_required (api_gateway_v2_custom_authorizer_v1_request_type_request_context_of_json fp) [''requestContext''] kvs;
     Some \<lparr>agvcavr_version = x_version, agvcavr_type = x_type, agvcavr_method_arn = x_method_arn,
       agvcavr_identity_source = x_identity_source,
       agvcavr_authorization_token = x_authorization_token, agvcavr_resource = x_resource,
       agvcavr_path = x_path, agvcavr_http_method = x_http_method, agvcavr_headers = x_headers,
       agvcavr_query_string_parameters = x_query_string_parameters,
       agvcavr_path_parameters = x_path_parameters, agvcavr_stage_variables = x_stage_variables,
       agvcavr_request_context = x_request_context\<rparr> }"

definition api_gateway_v2_custom_authorizer_v1_request_good :: "('p \<Rightarrow> bool) \<Rightarrow> ('q \<Rightarrow> bool) \<Rightarrow> ('p, 'q) api_gateway_v2_custom_authorizer_v1_request \<Rightarrow> bool" where
  "api_gateway_v2_custom_authorizer_v1_request_good Pp Pq x \<longleftrightarrow>
     Pp (agvcavr_http_method x) \<and>
     Pq (agvcavr_headers x) \<and>
     good_map (\<lambda>_. True) (agvcavr_query_string_parameters x) \<and>
     good_map (\<lambda>_. True) (agvcavr_path_parameters x) \<and>
     good_map (\<lambda>_. True) (agvcavr_stage_variables x) \<and>
     api_gateway_v2_custom_authorizer_v1_request_type_request_context_good Pp (agvcavr_request_context x)"

lemma api_gateway_v2_custom_authorizer_v1_request_not_null [simp]: "api_gateway_v2_custom_authorizer_v1_request_json gp gq x \<noteq> JNull"
  by (simp add: api_gateway_v2_custom_authorizer_v1_request_json_def)

lemma api_gateway_v2_custom_authorizer_v1_request_read [read_back]: "api_gateway_v2_custom_authorizer_v1_request_good Pp Pq x \<Longrightarrow> (\<And>x. Pp x \<Longrightarrow> fp (gp x) = Some x) \<Longrightarrow> (\<And>x. Pq x \<Longrightarrow> fq (gq x) = Some x) \<Longrightarrow>api_gateway_v2_custom_authorizer_v1_request_of_json fp fq dq (api_gateway_v2_custom_authorizer_v1_request_json gp gq x) = Some x"
  by (cases x) (clarsimp simp: api_gateway_v2_custom_authorizer_v1_request_of_json_def api_gateway_v2_custom_authorizer_v1_request_json_def api_gateway_v2_custom_authorizer_v1_request_good_def read_back)

lemma api_gateway_v2_custom_authorizer_v1_request_typed:
  assumes typed_p: "typed Pp fp" and typed_q: "typed Pq fq" and default_q: "Pq dq" shows "typed (api_gateway_v2_custom_authorizer_v1_request_good Pp Pq) (api_gateway_v2_custom_authorizer_v1_request_of_json fp fq dq)"
  unfolding typed_def api_gateway_v2_custom_authorizer_v1_request_of_json_def api_gateway_v2_custom_authorizer_v1_request_good_def
  by (auto simp: bind_eq_Some_conv dest!: typed_required [OF typed_p]
      typed_default [OF typed_q default_q]
      typed_default [OF typed_nullish [OF typed_hash_map [OF typed_True [of "de_string"]] good_nil(1)] good_nil(1)]
      typed_required [OF api_gateway_v2_custom_authorizer_v1_request_type_request_context_typed [OF typed_p]])

record 'p api_gateway_custom_authorizer_request_type_request_context =
  agcartrc_path :: "string option"
  agcartrc_account_id :: "string option"
  agcartrc_resource_id :: "string option"
  agcartrc_stage :: "string option"
  agcartrc_request_id :: "string option"
  agcartrc_identity :: "api_gateway_custom_authorizer_request_type_request_identity option"
  agcartrc_resource_path :: "string option"
  agcartrc_http_method :: "'p option"
  agcartrc_apiid :: "string option"

definition api_gateway_custom_authorizer_request_type_request_context_json :: "('p \<Rightarrow> json) \<Rightarrow> 'p api_gateway_custom_authorizer_request_type_request_context \<Rightarrow> json" where
  "api_gateway_custom_authorizer_request_type_request_context_json gp x = JObj
     ([(''path'', json_of_option JStr (agcartrc_path x)),
      (''accountId'', json_of_option JStr (agcartrc_account_id x)),
      (''resourceId'', json_of_option JStr (agcartrc_resource_id x)),
      (''stage'', json_of_option JStr (agcartrc_stage x)),
      (''requestId'', json_of_option JStr (agcartrc_request_id x)),
      (''identity'', json_of_option api_gateway_custom_authorizer_request_type_request_identity_json (agcartrc_identity x)),
      (''resourcePath'', json_of_option JStr (agcartrc_resource_path x))] @
      opt_field ''httpMethod'' gp (agcartrc_http_method x) @
      [(''apiId'', json_of_option JStr (agcartrc_apiid x))])"

definition api_gateway_custom_authorizer_request_type_request_context_of_json :: "(json \<Rightarrow> 'p option) \<Rightarrow> json \<Rightarrow> 'p api_gateway_custom_authorizer_request_type_request_context option" where
  "api_gateway_custom_authorizer_request_type_request_context_of_json fp j = do {
     kvs \<leftarrow> de_fields 0
       [''path'', ''accountId'', ''resourceId'', ''stage'', ''requestId'', ''identity'',
        ''resourcePath'', ''httpMethod'', ''apiId''] j;
     x_path \<leftarrow> de_opt_string ''path'' kvs;
     x_account_id \<leftarrow> de_opt_string ''accountId'' kvs;
     x_resource_id \<leftarrow> de_opt_string ''resourceId'' kvs;
     x_stage \<leftarrow> de_opt_string ''stage'' kvs;
     x_request_id \<leftarrow> de_opt_string ''requestId'' kvs;
     x_identity \<leftarrow> de_optional api_gateway_custom_authorizer_request_type_request_identity_of_json [''identity''] kvs;
     x_resource_path \<leftarrow> de_opt_string ''resourcePath'' kvs;
     x_http_method \<leftarrow> de_optional fp [''httpMethod''] kvs;
     x_apiid \<leftarrow> de_opt_string ''apiId'' kvs;
     Some \<lparr>agcartrc_path = x_path, agcartrc_account_id = x_account_id,
       agcartrc_resource_id = x_resource_id, agcartrc_stage = x_stage,
       agcartrc_request_id = x_request_id, agcartrc_identity = x_identity,
       agcartrc_resource_path = x_resource_path, agcartrc_http_method = x_http_method,
       agcartrc_apiid = x_apiid\<rparr> }"

definition api_gateway_custom_authorizer_request_type_request_context_good :: "('p \<Rightarrow> bool) \<Rightarrow> 'p api_gateway_custom_authorizer_request_type_request_context \<Rightarrow> bool" where
  "api_gateway_custom_authorizer_request_type_request_context_good Pp x \<longleftrightarrow>
     good_option Pp (agcartrc_http_method x)"

lemma api_gateway_custom_authorizer_request_type_request_context_not_null [simp]: "api_gateway_custom_authorizer_request_type_request_context_json gp x \<noteq> JNull"
  by (simp add: api_gateway_custom_authorizer_request_type_request_context_json_def)

lemma api_gateway_custom_authorizer_request_type_request_context_read [read_back]: "api_gateway_custom_authorizer_request_type_request_context_good Pp x \<Longrightarrow> (\<And>x. Pp x \<Longrightarrow> gp x \<noteq> JNull \<and> fp (gp x) = Some x) \<Longrightarrow>api_gateway_custom_authorizer_request_type_request_context_of_json fp (api_gateway_custom_authorizer_request_type_request_context_json gp x) = Some x"
  by (cases x) (simp add: api_gateway_custom_authorizer_request_type_request_context_of_json_def api_gateway_custom_authorizer_request_type_request_context_json_def api_gateway_custom_authorizer_request_type_request_context_good_def read_back)

lemma api_gateway_custom_authorizer_request_type_request_context_typed:
  assumes typed_p: "typed_nn Pp fp" shows "typed (api_gateway_custom_authorizer_request_type_request_context_good Pp) (api_gateway_custom_authorizer_request_type_request_context_of_json fp)"
  unfolding typed_def api_gateway_custom_authorizer_request_type_request_context_of_json_def api_gateway_custom_authorizer_request_type_request_context_good_def
  by (auto simp: bind_eq_Some_conv dest!: typed_nn_optional [OF typed_p])

record ('p, 'q, 'r, 's) api_gateway_custom_authorizer_request_type_request =
  agcartr_type :: "string option"
  agcartr_method_arn :: "string option"
  agcartr_resource :: "string option"
  agcartr_path :: "string option"
  agcartr_http_method :: "'p option"
  agcartr_headers :: 'q
  agcartr_multi_value_headers :: 'r
  agcartr_query_string_parameters :: 's
  agcartr_multi_value_query_string_parameters :: 's
  agcartr_path_parameters :: "(string \<times> string) list"
  agcartr_stage_variables :: "(string \<times> string) list"
  agcartr_request_context :: "'p api_gateway_custom_authorizer_request_type_request_context"

definition api_gateway_custom_authorizer_request_type_request_json :: "('p \<Rightarrow> json) \<Rightarrow> ('q \<Rightarrow> json) \<Rightarrow> ('r \<Rightarrow> json) \<Rightarrow> ('s \<Rightarrow> json) \<Rightarrow> ('p, 'q, 'r, 's) api_gateway_custom_authorizer_request_type_request \<Rightarrow> json" where
  "api_gateway_custom_authorizer_request_type_request_json gp gq gr gs x = JObj
     ([(''type'', json_of_option JStr (agcartr_type x)),
      (''methodArn'', json_of_option JStr (agcartr_method_arn x)),
      (''resource'', json_of_option JStr (agcartr_resource x)),
      (''path'', json_of_option JStr (agcartr_path x))] @
      opt_field ''httpMethod'' gp (agcartr_http_method x) @
      [(''headers'', gq (agcartr_headers x)),
      (''multiValueHeaders'', gr (agcartr_multi_value_headers x)),
      (''queryStringParameters'', gs (agcartr_query_string_parameters x)),
      (''multiValueQueryStringParameters'', gs (agcartr_multi_value_query_string_parameters x)),
      (''pathParameters'', json_of_map JStr (agcartr_path_parameters x)),
      (''stageVariables'', json_of_map JStr (agcartr_stage_variables x)),
      (''requestContext'', api_gateway_custom_authorizer_request_type_request_context_json gp (agcartr_request_context x))])"

definition api_gateway_custom_authorizer_request_type_request_of_json :: "(json \<Rightarrow> 'p option) \<Rightarrow> (json \<Rightarrow> 'q option) \<Rightarrow> 'q \<Rightarrow> (json \<Rightarrow> 'r option) \<Rightarrow> 'r \<Rightarrow> (json \<Rightarrow> 's option) \<Rightarrow> 's \<Rightarrow> json \<Rightarrow> ('p, 'q, 'r, 's) api_gateway_custom_authorizer_request_type_request option" where
  "api_gateway_custom_authorizer_request_type_request_of_json fp fq dq fr dr fs ds j = do {
     kvs \<leftarrow> de_fields 12
       [''type'', ''methodArn'', ''resource'', ''path'', ''httpMethod'', ''headers'',
        ''multiValueHeaders'', ''queryStringParameters'', ''multiValueQueryStringParameters'',
        ''pathParameters'', ''stageVariables'', ''requestContext''] j;
     x_type \<leftarrow> de_opt_string ''type'' kvs;
     x_method_arn \<leftarrow> de_opt_string ''methodArn'' kvs;
     x_resource \<leftarrow> de_opt_string ''resource'' kvs;
     x_path \<leftarrow> de_opt_string ''path'' kvs;
     x_http_method \<leftarrow> de_optional fp [''httpMethod''] kvs;
     x_headers \<leftarrow> de_default fq dq [''headers''] kvs;
     x_multi_value_headers \<leftarrow> de_default fr dr [''multiValueHeaders''] kvs;
     x_query_string_parameters \<leftarrow> de_default fs ds [''queryStringParameters''] kvs;
     x_multi_value_query_string_parameters \<leftarrow> de_default fs ds [''multiValueQueryStringParameters''] kvs;
     x_path_parameters \<leftarrow> de_default (de_nullish (de_hash_map de_string) []) [] [''pathParameters''] kvs;
     x_stage_variables \<leftarrow> de_default (de_nullish (de_hash_map de_string) []) [] [''stageVariables''] kvs;
     x_request_context \<leftarrow> de_required (api_gateway_custom_authorizer_request_type_request_context_of_json fp) [''requestContext''] kvs;
     Some \<lparr>agcartr_type = x_type, agcartr_method_arn = x_method_arn, agcartr_resource = x_resource,
       agcartr_path = x_path, agcartr_http_method = x_http_method, agcartr_headers = x_headers,
       agcartr_multi_value_headers = x_multi_value_headers,
       agcartr_query_string_parameters = x_query_string_parameters,
       agcartr_multi_value_query_string_parameters = x_multi_value_query_string_parameters,
       agcartr_path_parameters = x_path_parameters, agcartr_stage_variables = x_stage_variables,
       agcartr_request_context = x_request_context\<rparr> }"

definition api_gateway_custom_authorizer_request_type_request_good :: "('p \<Rightarrow> bool) \<Rightarrow> ('q \<Rightarrow> bool) \<Rightarrow> ('r \<Rightarrow> bool) \<Rightarrow> ('s \<Rightarrow> bool) \<Rightarrow> ('p, 'q, 'r, 's) api_gateway_custom_authorizer_request_type_request \<Rightarrow> bool" where
  "api_gateway_custom_authorizer_request_type_request_good Pp Pq Pr Ps x \<longleftrightarrow>
     good_option Pp (agcartr_http_method x) \<and>
     Pq (agcartr_headers x) \<and>
     Pr (agcartr_multi_value_headers x) \<and>
     Ps (agcartr_query_string_parameters x) \<and>
     Ps (agcartr_multi_value_query_string_parameters x) \<and>
     good_map (\<lambda>_. True) (agcartr_path_parameters x) \<and>
     good_map (\<lambda>_. True) (agcartr_stage_variables x) \<and>
     api_gateway_custom_authorizer_request_type_request_context_good Pp (agcartr_request_context x)"

lemma api_gateway_custom_authorizer_request_type_request_not_null [simp]: "api_gateway_custom_authorizer_request_type_request_json gp gq gr gs x \<noteq> JNull"
  by (simp add: api_gateway_custom_authorizer_request_type_request_json_def)

lemma api_gateway_custom_authorizer_request_type_request_read [read_back]: "api_gateway_custom_authorizer_request_type_request_good Pp Pq Pr Ps x \<Longrightarrow> (\<And>x. Pp x \<Longrightarrow> gp x \<noteq> JNull \<and> fp (gp x) = Some x) \<Longrightarrow> (\<And>x. Pq x \<Longrightarrow> fq (gq x) = Some x) \<Longrightarrow> (\<And>x. Pr x \<Longrightarrow> fr (gr x) = Some x) \<Longrightarrow> (\<And>x. Ps x \<Longrightarrow> fs (gs x) = Some x) \<Longrightarrow>api_gateway_custom_authorizer_request_type_request_of_json fp fq dq fr dr fs ds (api_gateway_custom_authorizer_request_type_request_json gp gq gr gs x) = Some x"
  by (cases x) (clarsimp simp: api_gateway_custom_authorizer_request_type_request_of_json_def api_gateway_custom_authorizer_request_type_request_json_def api_gateway_custom_authorizer_request_type_request_good_def read_back)

lemma api_gateway_custom_authorizer_request_type_request_typed:
  assumes typed_p: "typed_nn Pp fp" and typed_q: "typed Pq fq" and default_q: "Pq dq" and typed_r: "typed Pr fr" and default_r: "Pr dr" and typed_s: "typed Ps fs" and default_s: "Ps ds" shows "typed (api_gateway_custom_authorizer_request_type_request_good Pp Pq Pr Ps) (api_gateway_custom_authorizer_request_type_request_of_json fp fq dq fr dr fs ds)"
  unfolding typed_def api_gateway_custom_authorizer_request_type_request_of_json_def api_gateway_custom_authorizer_request_type_request_good_def
  by (auto simp: bind_eq_Some_conv dest!: typed_nn_optional [OF typed_p]
      typed_default [OF typed_q default_q]
      typed_default [OF typed_r default_r]
      typed_default [OF typed_s default_s]
      typed_default [OF typed_nullish [OF typed_hash_map [OF typed_True [of "de_string"]] good_nil(1)] good_nil(1)]
      typed_required [OF api_gateway_custom_authorizer_request_type_request_context_typed [OF typed_p]])

subsection \<open>Reading what was written\<close>

text \<open>
  Function URLs, VPC Lattice (V1) and the requests to custom authorizers: with readers and
  writers of header maps, query maps, methods and bodies that are inverse to each other, what is
  read is well formed, and what it is written to is read as the same value.
\<close>

lemma web_events_reparse:
  assumes typed: "typed P f"
    and inverse: "\<And>x. P x \<Longrightarrow> f (g x) = Some x"
    and default: "P d"
    and "\<And>x. P x \<Longrightarrow> g x \<noteq> JNull"
    and typed2: "typed P2 f2"
    and inverse2: "\<And>x. P2 x \<Longrightarrow> f2 (g2 x) = Some x"
    and default2: "P2 d2"
    and typed3: "typed P3 f3"
    and inverse3: "\<And>x. P3 x \<Longrightarrow> f3 (g3 x) = Some x"
    and default3: "P3 d3"
    and typed4: "typed P4 f4"
    and inverse4: "\<And>x. P4 x \<Longrightarrow> f4 (g4 x) = Some x"
    and default4: "P4 d4"
    and "\<And>x. P4 x \<Longrightarrow> g4 x \<noteq> JNull"
  shows "reparses (lambda_function_url_response_good P) (lambda_function_url_response_of_json f d) (lambda_function_url_response_json g) \<and>
    reparses (lambda_function_url_request_good P) (lambda_function_url_request_of_json f d) (lambda_function_url_request_json g) \<and>
    reparses (vpc_lattice_request_v1_good P P2 P3 P4) (vpc_lattice_request_v1_of_json f f2 d2 f3 d3 f4) (vpc_lattice_request_v1_json g g2 g3 g4) \<and>
    reparses api_gateway_custom_authorizer_context_good api_gateway_custom_authorizer_context_of_json api_gateway_custom_authorizer_context_json \<and>
    reparses (\<lambda>_. True) api_gateway_custom_authorizer_request_of_json api_gateway_custom_authorizer_request_json \<and>
    reparses (api_gateway_v2_custom_authorizer_v1_request_good P P2) (api_gateway_v2_custom_authorizer_v1_request_of_json f f2 d2) (api_gateway_v2_custom_authorizer_v1_request_json g g2) \<and>
    reparses (api_gateway_custom_authorizer_request_type_request_good P P2 P3 P4) (api_gateway_custom_authorizer_request_type_request_of_json f f2 d2 f3 d3 f4 d4) (api_gateway_custom_authorizer_request_type_request_json g g2 g3 g4)"
  by (intro conjI reparsesI typed_True typed_nn lambda_function_url_response_typed
      lambda_function_url_request_typed
      vpc_lattice_request_v1_typed
      api_gateway_custom_authorizer_context_typed
      api_gateway_v2_custom_authorizer_v1_request_typed
      api_gateway_custom_authorizer_request_type_request_typed)
    (auto simp: assms read_back)

end
