(* ===== verification/HttpEventSerde.thy ===== *)
theory HttpEventSerde
  imports HttpEvents WebEvents
begin

text \<open>
  The serialisers that the HTTP requests of \<^verbatim>\<open>lambda-events\<close> derive: API Gateway's REST,
  HTTP and WebSocket events, ALB's and VPC Lattice's. A header map is written as the single-valued
  or the multi-valued form its attribute names, which fails when a value is not UTF-8; the writers of
  query maps are those of \<^verbatim>\<open>query_map\<close>, except for ALB, which has its own. For each
  structure: what is read is well formed, and what is well formed is read back, up to what the
  written forms of header and query maps carry.
\<close>

subsection \<open>Parts\<close>

text \<open>
  \<^verbatim>\<open>query_map\<close>: the serialisers of a \<^verbatim>\<open>QueryMap\<close>
  (its own, and those of the API Gateway versions), and the pairs its iterator yields.
\<close>

record 'q query_writers =
  qw_json :: "'q \<Rightarrow> json"
  qw_v1_json :: "'q \<Rightarrow> json"
  qw_v2_json :: "'q \<Rightarrow> json"
  qw_pairs :: "'q \<Rightarrow> (string \<times> string) list"

definition good_method :: "('h, 'q) web \<Rightarrow> string \<Rightarrow> bool" where
  "good_method W m \<longleftrightarrow> m \<noteq> [] \<and> wc_method_valid W m"

lemma read_method [read_back]: "good_method W m \<Longrightarrow> deserialize_method W (serialize_method m) = Some m"
  by (simp add: good_method_def deserialize_method_def serialize_method_def method_of_string_def)

lemma method_not_null: "serialize_method m \<noteq> JNull"
  by (simp add: serialize_method_def)

lemma read_optional_method [read_back]:
  "good_method W m \<Longrightarrow> deserialize_optional_method W (serialize_method m) = Some (Some m)"
  using read_method [of W m] by (simp add: deserialize_optional_method_def serialize_method_def)

lemma typed_method:
  assumes get: "wc_method_valid W ''GET''"
  shows "typed (good_method W) (deserialize_method W)"
  using get by (auto simp: typed_def good_method_def deserialize_method_def method_of_string_def bind_eq_Some_conv split: if_splits)

lemma typed_optional_method:
  assumes get: "wc_method_valid W ''GET''"
  shows "typed (good_option (good_method W)) (deserialize_optional_method W)"
  unfolding typed_def deserialize_optional_method_def
  by (auto simp: good_option_def split: json.splits dest: typedD [OF typed_method [OF get]])

lemma default_http_method_good:
  assumes get: "wc_method_valid W ''GET''"
  shows "good_method W default_http_method"
  using get by (simp add: good_method_def default_http_method_def)

text \<open>The authorizer of a REST or WebSocket event has its fields only.\<close>

definition good_fields_authorizer :: "api_gateway_authorizer \<Rightarrow> bool" where
  "good_fields_authorizer a \<longleftrightarrow> au_jwt a = None \<and> au_iam a = None \<and> good_map (\<lambda>_. True) (au_fields a)"

lemma authorizer_default_good: "good_fields_authorizer authorizer_default"
  by (simp add: good_fields_authorizer_def authorizer_default_def)

lemma typed_authorizer_fields: "typed good_fields_authorizer deserialize_authorizer_fields"
  unfolding typed_def deserialize_authorizer_fields_def
  by (auto simp: good_fields_authorizer_def authorizer_default_def
      dest: typedD [OF typed_nullish [OF typed_hash_map [OF typed_True [of Some]] good_nil(1)]])

lemma read_authorizer_fields [read_back]:
  assumes "good_fields_authorizer a"
  shows "deserialize_authorizer_fields (serialize_authorizer_fields a) = Some a"
proof -
  have "de_hash_map Some (json_of_map (\<lambda>v. v) (au_fields a)) = Some (au_fields a)"
    using assms by (intro read_map [where P = "\<lambda>_. True"]) (simp_all add: good_fields_authorizer_def)
  moreover have "serialize_authorizer_fields a = json_of_map (\<lambda>v. v) (au_fields a)"
    by (simp add: serialize_authorizer_fields_def json_of_map_def)
  ultimately show ?thesis
    using assms by (cases a) (simp add: deserialize_authorizer_fields_def de_nullish_def good_fields_authorizer_def authorizer_default_def)
qed

lemma empty_authorizer_default: "good_fields_authorizer a \<Longrightarrow> authorizer_is_empty a \<Longrightarrow> a = authorizer_default"
  by (cases a) (simp add: good_fields_authorizer_def authorizer_is_empty_def authorizer_default_def)

lemma empty_authorizer [read_back]:
  "good_fields_authorizer a \<Longrightarrow> authorizer_is_empty a \<Longrightarrow> (authorizer_default = a) = True"
  by (auto dest: empty_authorizer_default)

text \<open>A field that is not written when it has its default.\<close>

lemma de_values_unless [simp]: "de_values ns (if c then [] else kvs) = (if c then [] else de_values ns kvs)"
  by simp

lemma read_unless_empty [read_back]:
  assumes "de_values ns kvs = (if authorizer_is_empty a then [] else [serialize_authorizer_fields a])" and "good_fields_authorizer a"
  shows "de_default deserialize_authorizer_fields authorizer_default ns kvs = Some a"
proof (cases "authorizer_is_empty a")
  case True
  then show ?thesis using assms empty_authorizer_default [of a] by (simp add: de_default_def)
qed (use assms in \<open>simp add: de_default_def read_authorizer_fields\<close>)

lemma read_absent [read_back]: "de_values ns kvs = [] \<Longrightarrow> de_default f d ns kvs = Some d"
  by (simp add: de_default_def)

text \<open>A text that is not written when it is absent.\<close>

lemma read_unwritten_string [read_back]:
  "de_values [n] kvs = (case v of None \<Rightarrow> [] | Some s \<Rightarrow> [JStr s]) \<Longrightarrow> de_opt_string n kvs = Some v"
  unfolding de_opt_string_def by (cases v) (auto simp: de_optional_def)

subsection \<open>Structures\<close>

definition cognito_identity_description_json :: "cognito_identity_description \<Rightarrow> json" where
  "cognito_identity_description_json x = JObj
     ([(''amr'', json_of_list JStr (cg_amr x)),
      (''identityId'', json_of_option JStr (cg_identity_id x)),
      (''identityPoolId'', json_of_option JStr (cg_identity_pool_id x))])"

lemma cognito_identity_description_not_null [simp]: "cognito_identity_description_json x \<noteq> JNull"
  by (simp add: cognito_identity_description_json_def)

lemma cognito_identity_description_read [read_back]: "cognito_identity_description_of_json (cognito_identity_description_json x) = Some x"
  by (cases x) (simp add: cognito_identity_description_of_json_def cognito_identity_description_json_def read_back)

definition iam_description_json :: "iam_description \<Rightarrow> json" where
  "iam_description_json x = JObj
     ([(''accessKey'', json_of_option JStr (ia_access_key x)),
      (''accountId'', json_of_option JStr (ia_account_id x)),
      (''callerId'', json_of_option JStr (ia_caller_id x))] @
      opt_field ''cognitoIdentity'' cognito_identity_description_json (ia_cognito_identity x) @
      [(''principalOrgId'', json_of_option JStr (ia_principal_org_id x)),
      (''userArn'', json_of_option JStr (ia_user_arn x)),
      (''userId'', json_of_option JStr (ia_user_id x))])"

lemma iam_description_not_null [simp]: "iam_description_json x \<noteq> JNull"
  by (simp add: iam_description_json_def)

lemma iam_description_read [read_back]: "iam_description_of_json (iam_description_json x) = Some x"
  by (cases x) (simp add: iam_description_of_json_def iam_description_json_def read_back)

definition jwt_description_json :: "jwt_description \<Rightarrow> json" where
  "jwt_description_json x = JObj
     ([(''claims'', json_of_map JStr (jw_claims x))] @
      opt_field ''scopes'' (json_of_list JStr) (jw_scopes x))"

definition jwt_description_good :: "jwt_description \<Rightarrow> bool" where
  "jwt_description_good x \<longleftrightarrow>
     good_map (\<lambda>_. True) (jw_claims x)"

lemma jwt_description_not_null [simp]: "jwt_description_json x \<noteq> JNull"
  by (simp add: jwt_description_json_def)

lemma jwt_description_read [read_back]:
  "jwt_description_good x \<Longrightarrow> jwt_description_of_json (jwt_description_json x) = Some x"
  by (cases x) (clarsimp simp: jwt_description_of_json_def jwt_description_json_def jwt_description_good_def read_back)

lemma jwt_description_typed:
  shows "typed (jwt_description_good) (jwt_description_of_json)"
  unfolding typed_def jwt_description_of_json_def jwt_description_good_def
  by (auto simp: bind_eq_Some_conv dest!: typed_default [OF typed_nullish [OF typed_hash_map [OF typed_True [of "de_string"]] good_nil(1)] good_nil(1)])

definition api_gateway_authorizer_json :: "api_gateway_authorizer \<Rightarrow> json" where
  "api_gateway_authorizer_json x = JObj
     (opt_field ''jwt'' jwt_description_json (au_jwt x) @
      (if au_fields x = [] then [] else [(''lambda'', json_of_map (\<lambda>v. v) (au_fields x))]) @
      opt_field ''iam'' iam_description_json (au_iam x))"

definition api_gateway_authorizer_good :: "api_gateway_authorizer \<Rightarrow> bool" where
  "api_gateway_authorizer_good x \<longleftrightarrow>
     good_option jwt_description_good (au_jwt x) \<and>
     good_map (\<lambda>_. True) (au_fields x)"

lemma api_gateway_authorizer_not_null [simp]: "api_gateway_authorizer_json x \<noteq> JNull"
  by (simp add: api_gateway_authorizer_json_def)

lemma api_gateway_authorizer_read [read_back]:
  "api_gateway_authorizer_good x \<Longrightarrow> api_gateway_authorizer_of_json (api_gateway_authorizer_json x) = Some x"
  by (cases x) (clarsimp simp: api_gateway_authorizer_of_json_def api_gateway_authorizer_json_def api_gateway_authorizer_good_def read_back)

lemma api_gateway_authorizer_typed:
  shows "typed (api_gateway_authorizer_good) (api_gateway_authorizer_of_json)"
  unfolding typed_def api_gateway_authorizer_of_json_def api_gateway_authorizer_good_def
  by (auto simp: bind_eq_Some_conv dest!: typed_optional [OF jwt_description_typed]
      typed_default [OF typed_nullish [OF typed_hash_map [OF typed_True [of Some]] good_nil(1)] good_nil(1)])

definition request_identity_json :: "request_identity \<Rightarrow> json" where
  "request_identity_json x = JObj
     ([(''cognitoIdentityPoolId'', json_of_option JStr (ri_cognito_identity_pool_id x)),
      (''accountId'', json_of_option JStr (ri_account_id x)),
      (''cognitoIdentityId'', json_of_option JStr (ri_cognito_identity_id x)),
      (''caller'', json_of_option JStr (ri_caller x)),
      (''apiKey'', json_of_option JStr (ri_api_key x)),
      (''apiKeyId'', json_of_option JStr (ri_api_key_id x)),
      (''accessKey'', json_of_option JStr (ri_access_key x)),
      (''sourceIp'', json_of_option JStr (ri_source_ip x)),
      (''cognitoAuthenticationType'', json_of_option JStr (ri_cognito_authentication_type x)),
      (''cognitoAuthenticationProvider'', json_of_option JStr (ri_cognito_authentication_provider x)),
      (''userArn'', json_of_option JStr (ri_user_arn x)),
      (''userAgent'', json_of_option JStr (ri_user_agent x)),
      (''user'', json_of_option JStr (ri_user x))])"

lemma request_identity_not_null [simp]: "request_identity_json x \<noteq> JNull"
  by (simp add: request_identity_json_def)

lemma request_identity_read [read_back]: "request_identity_of_json (request_identity_json x) = Some x"
  by (cases x) (simp add: request_identity_of_json_def request_identity_json_def read_back)

definition proxy_request_context_json :: "proxy_request_context \<Rightarrow> json" where
  "proxy_request_context_json x = JObj
     ([(''accountId'', json_of_option JStr (pc_account_id x)),
      (''resourceId'', json_of_option JStr (pc_resource_id x))] @
      opt_field ''operationName'' JStr (pc_operation_name x) @
      [(''stage'', json_of_option JStr (pc_stage x)),
      (''domainName'', json_of_option JStr (pc_domain_name x)),
      (''domainPrefix'', json_of_option JStr (pc_domain_prefix x)),
      (''requestId'', json_of_option JStr (pc_request_id x)),
      (''protocol'', json_of_option JStr (pc_protocol x)),
      (''identity'', request_identity_json (pc_identity x)),
      (''resourcePath'', json_of_option JStr (pc_resource_path x)),
      (''path'', json_of_option JStr (pc_path x))] @
      (if authorizer_is_empty (pc_authorizer x) then [] else [(''authorizer'', serialize_authorizer_fields (pc_authorizer x))]) @
      [(''httpMethod'', serialize_method (pc_http_method x)),
      (''requestTime'', json_of_option JStr (pc_request_time x)),
      (''requestTimeEpoch'', JInt (pc_request_time_epoch x)),
      (''apiId'', json_of_option JStr (pc_apiid x))])"

definition proxy_request_context_good :: "('h, 'q) web \<Rightarrow> proxy_request_context \<Rightarrow> bool" where
  "proxy_request_context_good W x \<longleftrightarrow>
     good_fields_authorizer (pc_authorizer x) \<and>
     good_method W (pc_http_method x) \<and>
     good_i64 (pc_request_time_epoch x)"

lemma proxy_request_context_not_null [simp]: "proxy_request_context_json x \<noteq> JNull"
  by (simp add: proxy_request_context_json_def)

lemma proxy_request_context_read [read_back]:
  "proxy_request_context_good W x \<Longrightarrow> proxy_request_context_of_json W (proxy_request_context_json x) = Some x"
  by (cases x) (clarsimp simp: proxy_request_context_of_json_def proxy_request_context_json_def proxy_request_context_good_def read_back)

lemma proxy_request_context_typed:
  assumes get: "wc_method_valid W ''GET''"
  shows "typed (proxy_request_context_good W) (proxy_request_context_of_json W)"
  unfolding typed_def proxy_request_context_of_json_def proxy_request_context_good_def
  by (auto simp: bind_eq_Some_conv dest!: typed_default [OF typed_authorizer_fields authorizer_default_good]
      typed_required [OF typed_method [OF get]]
      typed_default [OF typed_i64 good_zero(1)])

definition proxy_request_json :: "('h, 'q) web \<Rightarrow> 'q query_writers \<Rightarrow> ('h, 'q) proxy_request \<Rightarrow> json option" where
  "proxy_request_json W Q x = do {
     hs \<leftarrow> serialize_headers (wc_crates W) (pr_headers x);
     ms \<leftarrow> serialize_multi_value_headers (wc_crates W) (pr_multi_value_headers x);
     Some (JObj
     ([(''resource'', json_of_option JStr (pr_resource x)),
      (''path'', json_of_option JStr (pr_path x)),
      (''httpMethod'', serialize_method (pr_http_method x)),
      (''headers'', hs),
      (''multiValueHeaders'', ms),
      (''queryStringParameters'', qw_v1_json Q (pr_query_string_parameters x)),
      (''multiValueQueryStringParameters'', qw_json Q (pr_multi_value_query_string_parameters x)),
      (''pathParameters'', json_of_map JStr (pr_path_parameters x)),
      (''stageVariables'', json_of_map JStr (pr_stage_variables x)),
      (''requestContext'', proxy_request_context_json (pr_request_context x)),
      (''body'', json_of_option JStr (pr_body x)),
      (''isBase64Encoded'', JBool (pr_is_base64_encoded x))])) }"

definition proxy_request_good :: "('h, 'q) web \<Rightarrow> ('h, 'q) proxy_request \<Rightarrow> bool" where
  "proxy_request_good W x \<longleftrightarrow>
     good_method W (pr_http_method x) \<and>
     good_map (\<lambda>_. True) (pr_path_parameters x) \<and>
     good_map (\<lambda>_. True) (pr_stage_variables x) \<and>
     proxy_request_context_good W (pr_request_context x)"

lemma proxy_request_read:
  assumes good: "proxy_request_good W x"
    and "serialize_headers (wc_crates W) (pr_headers x) = Some hs" "deserialize_headers (wc_crates W) hs = Some h"
    and "serialize_multi_value_headers (wc_crates W) (pr_multi_value_headers x) = Some ms" "deserialize_headers (wc_crates W) ms = Some m"
    and "wc_qm_of_json_or_empty W (qw_v1_json Q (pr_query_string_parameters x)) = Some q"
    and "wc_qm_of_json_or_empty W (qw_json Q (pr_multi_value_query_string_parameters x)) = Some mq"
  shows "\<exists>j. proxy_request_json W Q x = Some j \<and>
     proxy_request_of_json W j = Some (x\<lparr>pr_headers := h, pr_multi_value_headers := m, pr_query_string_parameters := q, pr_multi_value_query_string_parameters := mq\<rparr>)"
  using assms by (cases x) (clarsimp simp: proxy_request_json_def proxy_request_of_json_def proxy_request_good_def read_back)

lemma proxy_request_typed:
  assumes get: "wc_method_valid W ''GET''"
  shows "typed (proxy_request_good W) (proxy_request_of_json W)"
  unfolding typed_def proxy_request_of_json_def proxy_request_good_def
  by (auto simp: bind_eq_Some_conv dest!: typed_required [OF typed_method [OF get]]
      typed_default [OF typed_nullish [OF typed_hash_map [OF typed_True [of "de_string"]] good_nil(1)] good_nil(1)]
      typed_required [OF proxy_request_context_typed [OF get]])

definition client_cert_validity_json :: "client_cert_validity \<Rightarrow> json" where
  "client_cert_validity_json x = JObj
     ([(''notAfter'', json_of_option JStr (cv_not_after x)),
      (''notBefore'', json_of_option JStr (cv_not_before x))])"

lemma client_cert_validity_not_null [simp]: "client_cert_validity_json x \<noteq> JNull"
  by (simp add: client_cert_validity_json_def)

lemma client_cert_validity_read [read_back]: "client_cert_validity_of_json (client_cert_validity_json x) = Some x"
  by (cases x) (simp add: client_cert_validity_of_json_def client_cert_validity_json_def read_back)

definition client_cert_json :: "client_cert \<Rightarrow> json" where
  "client_cert_json x = JObj
     ([(''clientCertPem'', json_of_option JStr (ce_client_cert_pem x)),
      (''issuerDN'', json_of_option JStr (ce_issuer_dn x)),
      (''serialNumber'', json_of_option JStr (ce_serial_number x)),
      (''subjectDN'', json_of_option JStr (ce_subject_dn x)),
      (''validity'', client_cert_validity_json (ce_validity x))])"

lemma client_cert_not_null [simp]: "client_cert_json x \<noteq> JNull"
  by (simp add: client_cert_json_def)

lemma client_cert_read [read_back]: "client_cert_of_json (client_cert_json x) = Some x"
  by (cases x) (simp add: client_cert_of_json_def client_cert_json_def read_back)

definition authentication_json :: "authentication \<Rightarrow> json" where
  "authentication_json x = JObj
     ([(''clientCert'', json_of_option client_cert_json (an_client_cert x))])"

lemma authentication_not_null [simp]: "authentication_json x \<noteq> JNull"
  by (simp add: authentication_json_def)

lemma authentication_read [read_back]: "authentication_of_json (authentication_json x) = Some x"
  by (cases x) (simp add: authentication_of_json_def authentication_json_def read_back)

definition http_description_json :: "http_description \<Rightarrow> json" where
  "http_description_json x = JObj
     ([(''method'', serialize_method (hd_method x)),
      (''path'', json_of_option JStr (hd_path x)),
      (''protocol'', json_of_option JStr (hd_protocol x)),
      (''sourceIp'', json_of_option JStr (hd_source_ip x)),
      (''userAgent'', json_of_option JStr (hd_user_agent x))])"

definition http_description_good :: "('h, 'q) web \<Rightarrow> http_description \<Rightarrow> bool" where
  "http_description_good W x \<longleftrightarrow>
     good_method W (hd_method x)"

lemma http_description_not_null [simp]: "http_description_json x \<noteq> JNull"
  by (simp add: http_description_json_def)

lemma http_description_read [read_back]:
  "http_description_good W x \<Longrightarrow> http_description_of_json W (http_description_json x) = Some x"
  by (cases x) (clarsimp simp: http_description_of_json_def http_description_json_def http_description_good_def read_back)

lemma http_description_typed:
  assumes get: "wc_method_valid W ''GET''"
  shows "typed (http_description_good W) (http_description_of_json W)"
  unfolding typed_def http_description_of_json_def http_description_good_def
  by (auto simp: bind_eq_Some_conv dest!: typed_required [OF typed_method [OF get]])

definition v2_request_context_json :: "v2_request_context \<Rightarrow> json" where
  "v2_request_context_json x = JObj
     ([(''routeKey'', json_of_option JStr (vc_route_key x)),
      (''accountId'', json_of_option JStr (vc_account_id x)),
      (''stage'', json_of_option JStr (vc_stage x)),
      (''requestId'', json_of_option JStr (vc_request_id x))] @
      opt_field ''authorizer'' api_gateway_authorizer_json (vc_authorizer x) @
      [(''apiId'', json_of_option JStr (vc_apiid x)),
      (''domainName'', json_of_option JStr (vc_domain_name x)),
      (''domainPrefix'', json_of_option JStr (vc_domain_prefix x)),
      (''time'', json_of_option JStr (vc_time x)),
      (''timeEpoch'', JInt (vc_time_epoch x)),
      (''http'', http_description_json (vc_http x))] @
      opt_field ''authentication'' authentication_json (vc_authentication x))"

definition v2_request_context_good :: "('h, 'q) web \<Rightarrow> v2_request_context \<Rightarrow> bool" where
  "v2_request_context_good W x \<longleftrightarrow>
     good_option api_gateway_authorizer_good (vc_authorizer x) \<and>
     good_i64 (vc_time_epoch x) \<and>
     http_description_good W (vc_http x)"

lemma v2_request_context_not_null [simp]: "v2_request_context_json x \<noteq> JNull"
  by (simp add: v2_request_context_json_def)

lemma v2_request_context_read [read_back]:
  "v2_request_context_good W x \<Longrightarrow> v2_request_context_of_json W (v2_request_context_json x) = Some x"
  by (cases x) (clarsimp simp: v2_request_context_of_json_def v2_request_context_json_def v2_request_context_good_def read_back)

lemma v2_request_context_typed:
  assumes get: "wc_method_valid W ''GET''"
  shows "typed (v2_request_context_good W) (v2_request_context_of_json W)"
  unfolding typed_def v2_request_context_of_json_def v2_request_context_good_def
  by (auto simp: bind_eq_Some_conv dest!: typed_optional [OF api_gateway_authorizer_typed]
      typed_default [OF typed_i64 good_zero(1)]
      typed_required [OF http_description_typed [OF get]])

definition v2_request_json :: "('h, 'q) web \<Rightarrow> 'q query_writers \<Rightarrow> ('h, 'q) v2_request \<Rightarrow> json option" where
  "v2_request_json W Q x = do {
     hs \<leftarrow> serialize_headers (wc_crates W) (vr_headers x);
     Some (JObj
     ([(''type'', json_of_option JStr (vr_kind x)),
      (''methodArn'', json_of_option JStr (vr_method_arn x)),
      (''httpMethod'', serialize_method (vr_http_method x)),
      (''identitySource'', json_of_option JStr (vr_identity_source x)),
      (''authorizationToken'', json_of_option JStr (vr_authorization_token x)),
      (''resource'', json_of_option JStr (vr_resource x)),
      (''version'', json_of_option JStr (vr_version x)),
      (''routeKey'', json_of_option JStr (vr_route_key x)),
      (''rawPath'', json_of_option JStr (vr_raw_path x)),
      (''rawQueryString'', json_of_option JStr (vr_raw_query_string x))] @
      opt_field ''cookies'' (json_of_list JStr) (vr_cookies x) @
      [(''headers'', hs)] @
      (if wc_qm_is_empty W (vr_query_string_parameters x) then [] else [(''queryStringParameters'', qw_v2_json Q (vr_query_string_parameters x))]) @
      (if vr_path_parameters x = [] then [] else [(''pathParameters'', json_of_map JStr (vr_path_parameters x))]) @
      [(''requestContext'', v2_request_context_json (vr_request_context x)),
      (''stageVariables'', json_of_map JStr (vr_stage_variables x))] @
      opt_field ''body'' JStr (vr_body x) @
      [(''isBase64Encoded'', JBool (vr_is_base64_encoded x))])) }"

definition v2_request_good :: "('h, 'q) web \<Rightarrow> ('h, 'q) v2_request \<Rightarrow> bool" where
  "v2_request_good W x \<longleftrightarrow>
     good_method W (vr_http_method x) \<and>
     good_map (\<lambda>_. True) (vr_path_parameters x) \<and>
     v2_request_context_good W (vr_request_context x) \<and>
     good_map (\<lambda>_. True) (vr_stage_variables x)"

lemma v2_request_read:
  assumes good: "v2_request_good W x"
    and "serialize_headers (wc_crates W) (vr_headers x) = Some hs" "deserialize_headers (wc_crates W) hs = Some h"
    and "(if wc_qm_is_empty W (vr_query_string_parameters x) then Some (wc_qm_default W) else wc_qm_of_json_v2 W (qw_v2_json Q (vr_query_string_parameters x))) = Some q"
  shows "\<exists>j. v2_request_json W Q x = Some j \<and>
     v2_request_of_json W j = Some (x\<lparr>vr_headers := h, vr_query_string_parameters := q\<rparr>)"
proof (cases "wc_qm_is_empty W (vr_query_string_parameters x)")
  case True
  then show ?thesis
    using assms by (cases x) (clarsimp simp: v2_request_json_def v2_request_of_json_def v2_request_good_def read_back)
next
  case False
  then show ?thesis
    using assms by (cases x) (clarsimp simp: v2_request_json_def v2_request_of_json_def v2_request_good_def read_back)
qed

lemma v2_request_typed:
  assumes get: "wc_method_valid W ''GET''"
  shows "typed (v2_request_good W) (v2_request_of_json W)"
  unfolding typed_def v2_request_of_json_def v2_request_good_def
  by (auto simp: bind_eq_Some_conv dest!: typed_default [OF typed_method [OF get] default_http_method_good [OF get]]
      typed_default [OF typed_nullish [OF typed_hash_map [OF typed_True [of "de_string"]] good_nil(1)] good_nil(1)]
      typed_required [OF v2_request_context_typed [OF get]])

definition elb_context_json :: "elb_context \<Rightarrow> json" where
  "elb_context_json x = JObj
     ([(''targetGroupArn'', json_of_option JStr (el_target_group_arn x))])"

lemma elb_context_not_null [simp]: "elb_context_json x \<noteq> JNull"
  by (simp add: elb_context_json_def)

lemma elb_context_read [read_back]: "elb_context_of_json (elb_context_json x) = Some x"
  by (cases x) (simp add: elb_context_of_json_def elb_context_json_def read_back)

definition alb_request_context_json :: "alb_request_context \<Rightarrow> json" where
  "alb_request_context_json x = JObj
     ([(''elb'', elb_context_json (ac_elb x))])"

lemma alb_request_context_not_null [simp]: "alb_request_context_json x \<noteq> JNull"
  by (simp add: alb_request_context_json_def)

lemma alb_request_context_read [read_back]: "alb_request_context_of_json (alb_request_context_json x) = Some x"
  by (cases x) (simp add: alb_request_context_of_json_def alb_request_context_json_def read_back)

definition alb_request_json :: "('h, 'q) web \<Rightarrow> 'q query_writers \<Rightarrow> ('h, 'q) alb_request \<Rightarrow> json option" where
  "alb_request_json W Q x = do {
     hs \<leftarrow> serialize_headers (wc_crates W) (ar_headers x);
     ms \<leftarrow> serialize_multi_value_headers (wc_crates W) (ar_multi_value_headers x);
     Some (JObj
     ([(''httpMethod'', serialize_method (ar_http_method x)),
      (''path'', json_of_option JStr (ar_path x)),
      (''queryStringParameters'', serialize_query_string_parameters (qw_pairs Q (ar_query_string_parameters x))),
      (''multiValueQueryStringParameters'', qw_json Q (ar_multi_value_query_string_parameters x)),
      (''headers'', hs),
      (''multiValueHeaders'', ms),
      (''requestContext'', alb_request_context_json (ar_request_context x)),
      (''isBase64Encoded'', JBool (ar_is_base64_encoded x)),
      (''body'', json_of_option JStr (ar_body x))])) }"

definition alb_request_good :: "('h, 'q) web \<Rightarrow> ('h, 'q) alb_request \<Rightarrow> bool" where
  "alb_request_good W x \<longleftrightarrow>
     good_method W (ar_http_method x)"

lemma alb_request_read:
  assumes good: "alb_request_good W x"
    and "serialize_headers (wc_crates W) (ar_headers x) = Some hs" "deserialize_headers (wc_crates W) hs = Some h"
    and "serialize_multi_value_headers (wc_crates W) (ar_multi_value_headers x) = Some ms" "deserialize_headers (wc_crates W) ms = Some m"
    and "wc_qm_of_json W (serialize_query_string_parameters (qw_pairs Q (ar_query_string_parameters x))) = Some q"
    and "wc_qm_of_json W (qw_json Q (ar_multi_value_query_string_parameters x)) = Some mq"
  shows "\<exists>j. alb_request_json W Q x = Some j \<and>
     alb_request_of_json W j = Some (x\<lparr>ar_headers := h, ar_multi_value_headers := m, ar_query_string_parameters := q, ar_multi_value_query_string_parameters := mq\<rparr>)"
  using assms by (cases x) (clarsimp simp: alb_request_json_def alb_request_of_json_def alb_request_good_def read_back)

lemma alb_request_typed:
  assumes get: "wc_method_valid W ''GET''"
  shows "typed (alb_request_good W) (alb_request_of_json W)"
  unfolding typed_def alb_request_of_json_def alb_request_good_def
  by (auto simp: bind_eq_Some_conv dest!: typed_required [OF typed_method [OF get]])

definition websocket_request_context_json :: "websocket_request_context \<Rightarrow> json" where
  "websocket_request_context_json x = JObj
     ([(''accountId'', json_of_option JStr (wx_account_id x)),
      (''resourceId'', json_of_option JStr (wx_resource_id x)),
      (''stage'', json_of_option JStr (wx_stage x)),
      (''requestId'', json_of_option JStr (wx_request_id x)),
      (''identity'', request_identity_json (wx_identity x)),
      (''resourcePath'', json_of_option JStr (wx_resource_path x))] @
      (if authorizer_is_empty (wx_authorizer x) then [] else [(''authorizer'', serialize_authorizer_fields (wx_authorizer x))]) @
      opt_field ''httpMethod'' serialize_method (wx_http_method x) @
      [(''apiId'', json_of_option JStr (wx_apiid x)),
      (''connectedAt'', JInt (wx_connected_at x)),
      (''connectionId'', json_of_option JStr (wx_connection_id x)),
      (''domainName'', json_of_option JStr (wx_domain_name x)),
      (''error'', json_of_option JStr (wx_error x)),
      (''eventType'', json_of_option JStr (wx_event_type x)),
      (''extendedRequestId'', json_of_option JStr (wx_extended_request_id x)),
      (''integrationLatency'', json_of_option JStr (wx_integration_latency x)),
      (''messageDirection'', json_of_option JStr (wx_message_direction x)),
      (''messageId'', json_of_option JStr (wx_message_id x)),
      (''requestTime'', json_of_option JStr (wx_request_time x)),
      (''requestTimeEpoch'', JInt (wx_request_time_epoch x)),
      (''routeKey'', json_of_option JStr (wx_route_key x)),
      (''status'', json_of_option JStr (wx_status x)),
      (''disconnectStatusCode'', json_of_option JInt (wx_disconnect_status_code x)),
      (''disconnectReason'', json_of_option JStr (wx_disconnect_reason x))])"

definition websocket_request_context_good :: "('h, 'q) web \<Rightarrow> websocket_request_context \<Rightarrow> bool" where
  "websocket_request_context_good W x \<longleftrightarrow>
     good_fields_authorizer (wx_authorizer x) \<and>
     good_option (good_method W) (wx_http_method x) \<and>
     good_i64 (wx_connected_at x) \<and>
     good_i64 (wx_request_time_epoch x) \<and>
     good_option good_i64 (wx_disconnect_status_code x)"

lemma websocket_request_context_not_null [simp]: "websocket_request_context_json x \<noteq> JNull"
  by (simp add: websocket_request_context_json_def)

lemma websocket_request_context_read [read_back]:
  assumes good: "websocket_request_context_good W x"
  shows "websocket_request_context_of_json W (websocket_request_context_json x) = Some x"
proof -
  have "good_fields_authorizer (wx_authorizer x)" "good_option (good_method W) (wx_http_method x)" "good_i64 (wx_connected_at x)"
    "good_i64 (wx_request_time_epoch x)" "good_option good_i64 (wx_disconnect_status_code x)"
    using good by (simp_all add: websocket_request_context_good_def)
  then show ?thesis
    unfolding websocket_request_context_of_json_def websocket_request_context_json_def by (simp add: read_back)
qed

lemma websocket_request_context_typed:
  assumes get: "wc_method_valid W ''GET''"
  shows "typed (websocket_request_context_good W) (websocket_request_context_of_json W)"
  unfolding typed_def websocket_request_context_of_json_def websocket_request_context_good_def
  by (auto simp: bind_eq_Some_conv dest!: typed_default [OF typed_authorizer_fields authorizer_default_good]
      typed_default [OF typed_optional_method [OF get] good_nil(2)]
      typed_required [OF typed_i64]
      typed_optional [OF typed_i64])

definition websocket_request_json :: "('h, 'q) web \<Rightarrow> 'q query_writers \<Rightarrow> ('h, 'q) websocket_request \<Rightarrow> json option" where
  "websocket_request_json W Q x = do {
     hs \<leftarrow> serialize_headers (wc_crates W) (wr_headers x);
     ms \<leftarrow> serialize_multi_value_headers (wc_crates W) (wr_multi_value_headers x);
     Some (JObj
     ([(''resource'', json_of_option JStr (wr_resource x)),
      (''path'', json_of_option JStr (wr_path x))] @
      opt_field ''httpMethod'' serialize_method (wr_http_method x) @
      [(''headers'', hs),
      (''multiValueHeaders'', ms),
      (''queryStringParameters'', qw_json Q (wr_query_string_parameters x)),
      (''multiValueQueryStringParameters'', qw_json Q (wr_multi_value_query_string_parameters x)),
      (''pathParameters'', json_of_map JStr (wr_path_parameters x)),
      (''stageVariables'', json_of_map JStr (wr_stage_variables x)),
      (''requestContext'', websocket_request_context_json (wr_request_context x)),
      (''body'', json_of_option JStr (wr_body x)),
      (''isBase64Encoded'', JBool (wr_is_base64_encoded x))])) }"

definition websocket_request_good :: "('h, 'q) web \<Rightarrow> ('h, 'q) websocket_request \<Rightarrow> bool" where
  "websocket_request_good W x \<longleftrightarrow>
     good_option (good_method W) (wr_http_method x) \<and>
     good_map (\<lambda>_. True) (wr_path_parameters x) \<and>
     good_map (\<lambda>_. True) (wr_stage_variables x) \<and>
     websocket_request_context_good W (wr_request_context x)"

lemma websocket_request_read:
  assumes good: "websocket_request_good W x"
    and "serialize_headers (wc_crates W) (wr_headers x) = Some hs" "deserialize_headers (wc_crates W) hs = Some h"
    and "serialize_multi_value_headers (wc_crates W) (wr_multi_value_headers x) = Some ms" "deserialize_headers (wc_crates W) ms = Some m"
    and "wc_qm_of_json_or_empty W (qw_json Q (wr_query_string_parameters x)) = Some q"
    and "wc_qm_of_json_or_empty W (qw_json Q (wr_multi_value_query_string_parameters x)) = Some mq"
  shows "\<exists>j. websocket_request_json W Q x = Some j \<and>
     websocket_request_of_json W j = Some (x\<lparr>wr_headers := h, wr_multi_value_headers := m, wr_query_string_parameters := q, wr_multi_value_query_string_parameters := mq\<rparr>)"
  using assms by (cases x) (clarsimp simp: websocket_request_json_def websocket_request_of_json_def websocket_request_good_def read_back)

lemma websocket_request_typed:
  assumes get: "wc_method_valid W ''GET''"
  shows "typed (websocket_request_good W) (websocket_request_of_json W)"
  unfolding typed_def websocket_request_of_json_def websocket_request_good_def
  by (auto simp: bind_eq_Some_conv dest!: typed_default [OF typed_optional_method [OF get] good_nil(2)]
      typed_default [OF typed_nullish [OF typed_hash_map [OF typed_True [of "de_string"]] good_nil(1)] good_nil(1)]
      typed_required [OF websocket_request_context_typed [OF get]])

definition vpc_lattice_identity_json :: "vpc_lattice_identity \<Rightarrow> json" where
  "vpc_lattice_identity_json x = JObj
     ([(''sourceVpcArn'', json_of_option JStr (li_source_vpc_arn x)),
      (''type'', json_of_option JStr (li_identity_type x)),
      (''principal'', json_of_option JStr (li_principal x)),
      (''principalOrgID'', json_of_option JStr (li_principal_org_id x)),
      (''sessionName'', json_of_option JStr (li_session_name x)),
      (''x509IssuerOu'', json_of_option JStr (li_x509_issuer_ou x)),
      (''x509SanDns'', json_of_option JStr (li_x509_san_dns x)),
      (''x509SanNameCn'', json_of_option JStr (li_x509_san_name_cn x)),
      (''x509SanUri'', json_of_option JStr (li_x509_san_uri x)),
      (''x509SubjectCn'', json_of_option JStr (li_x509_subject_cn x))])"

lemma vpc_lattice_identity_not_null [simp]: "vpc_lattice_identity_json x \<noteq> JNull"
  by (simp add: vpc_lattice_identity_json_def)

lemma vpc_lattice_identity_read [read_back]: "vpc_lattice_identity_of_json (vpc_lattice_identity_json x) = Some x"
  by (cases x) (simp add: vpc_lattice_identity_of_json_def vpc_lattice_identity_json_def read_back)

definition vpc_lattice_context_json :: "vpc_lattice_context \<Rightarrow> json" where
  "vpc_lattice_context_json x = JObj
     ([(''serviceNetworkArn'', JStr (lc2_service_network_arn x)),
      (''serviceArn'', JStr (lc2_service_arn x)),
      (''targetGroupArn'', JStr (lc2_target_group_arn x)),
      (''identity'', json_of_option vpc_lattice_identity_json (lc2_identity x)),
      (''region'', JStr (lc2_region x)),
      (''timeEpoch'', JStr (lc2_time_epoch x))])"

lemma vpc_lattice_context_not_null [simp]: "vpc_lattice_context_json x \<noteq> JNull"
  by (simp add: vpc_lattice_context_json_def)

lemma vpc_lattice_context_read [read_back]: "vpc_lattice_context_of_json (vpc_lattice_context_json x) = Some x"
  by (cases x) (simp add: vpc_lattice_context_of_json_def vpc_lattice_context_json_def read_back)

definition vpc_lattice_request_json :: "('h, 'q) web \<Rightarrow> 'q query_writers \<Rightarrow> ('h, 'q) vpc_lattice_request \<Rightarrow> json option" where
  "vpc_lattice_request_json W Q x = do {
     ms \<leftarrow> serialize_multi_value_headers (wc_crates W) (lr_headers x);
     Some (JObj
     ([(''version'', JStr (lr_version x))] @
      opt_field ''path'' JStr (lr_path x) @
      opt_field ''method'' serialize_method (lr_method x) @
      [(''headers'', ms),
      (''queryStringParameters'', qw_json Q (lr_query_string_parameters x)),
      (''body'', json_of_option JStr (lr_body x)),
      (''isBase64Encoded'', JBool (lr_is_base64_encoded x)),
      (''requestContext'', vpc_lattice_context_json (lr_request_context x))])) }"

definition vpc_lattice_request_good :: "('h, 'q) web \<Rightarrow> ('h, 'q) vpc_lattice_request \<Rightarrow> bool" where
  "vpc_lattice_request_good W x \<longleftrightarrow>
     good_option (good_method W) (lr_method x)"

lemma vpc_lattice_request_read:
  assumes good: "vpc_lattice_request_good W x"
    and "serialize_multi_value_headers (wc_crates W) (lr_headers x) = Some ms" "deserialize_headers (wc_crates W) ms = Some m"
    and "wc_qm_of_json W (qw_json Q (lr_query_string_parameters x)) = Some q"
  shows "\<exists>j. vpc_lattice_request_json W Q x = Some j \<and>
     vpc_lattice_request_of_json W j = Some (x\<lparr>lr_headers := m, lr_query_string_parameters := q\<rparr>)"
  using assms by (cases x) (clarsimp simp: vpc_lattice_request_json_def vpc_lattice_request_of_json_def vpc_lattice_request_good_def read_back)

lemma vpc_lattice_request_typed:
  assumes get: "wc_method_valid W ''GET''"
  shows "typed (vpc_lattice_request_good W) (vpc_lattice_request_of_json W)"
  unfolding typed_def vpc_lattice_request_of_json_def vpc_lattice_request_good_def
  by (auto simp: bind_eq_Some_conv dest!: typed_default [OF typed_optional_method [OF get] good_nil(2)])

subsection \<open>Both versions of VPC Lattice\<close>

text \<open>\<^verbatim>\<open>VpcLatticeRequest\<close> is untagged: the second version is tried first.\<close>

datatype ('h, 'q) vpc_lattice_any =
    LatticeV2 "('h, 'q) vpc_lattice_request"
  | LatticeV1 "(string, 'h, 'q, body) vpc_lattice_request_v1"

definition lattice_v1_of_json :: "('h, 'q) web \<Rightarrow> json \<Rightarrow> (string, 'h, 'q, body) vpc_lattice_request_v1 option" where
  "lattice_v1_of_json W =
     vpc_lattice_request_v1_of_json (deserialize_method W) (deserialize_comma_separated_headers (wc_crates W))
       (hm_empty (wc_hm W)) (wc_qm_of_json W) (wc_qm_default W) body_of_json"

definition lattice_v1_json ::
    "('h, 'q) web \<Rightarrow> 'q query_writers \<Rightarrow> (string, 'h, 'q, body) vpc_lattice_request_v1 \<Rightarrow> json" where
  "lattice_v1_json W Q =
     vpc_lattice_request_v1_json serialize_method (serialize_comma_separated_headers (wc_crates W)) (qw_json Q) (body_json W)"

definition vpc_lattice_any_of_json :: "('h, 'q) web \<Rightarrow> json \<Rightarrow> ('h, 'q) vpc_lattice_any option" where
  "vpc_lattice_any_of_json W =
     de_untagged [\<lambda>j. map_option LatticeV2 (vpc_lattice_request_of_json W j), \<lambda>j. map_option LatticeV1 (lattice_v1_of_json W j)]"

definition vpc_lattice_any_json :: "('h, 'q) web \<Rightarrow> 'q query_writers \<Rightarrow> ('h, 'q) vpc_lattice_any \<Rightarrow> json option" where
  "vpc_lattice_any_json W Q r =
     (case r of LatticeV2 x \<Rightarrow> vpc_lattice_request_json W Q x | LatticeV1 x \<Rightarrow> Some (lattice_v1_json W Q x))"

lemma lattice_v1_not_v2: "vpc_lattice_request_of_json W (lattice_v1_json W Q x) = None"
  by (simp add: vpc_lattice_request_of_json_def lattice_v1_json_def vpc_lattice_request_v1_json_def read_object de_required_def)

definition text_body :: "body \<Rightarrow> bool" where
  "text_body b = (case b of TextBody s \<Rightarrow> True | _ \<Rightarrow> False)"

lemma read_text_body [read_back]: "text_body b \<Longrightarrow> body_json W b \<noteq> JNull \<and> body_of_json (body_json W b) = Some b"
  by (cases b) (simp_all add: text_body_def body_of_json_def de_string_def)

lemma lattice_v1_read:
  assumes good: "good_option (good_method W) (vlrv_method x)" "good_option text_body (vlrv_body x)"
    and "deserialize_comma_separated_headers (wc_crates W) (serialize_comma_separated_headers (wc_crates W) (vlrv_headers x)) = Some h"
    and "wc_qm_of_json W (qw_json Q (vlrv_query_string_parameters x)) = Some q"
  shows "lattice_v1_of_json W (lattice_v1_json W Q x) = Some (x\<lparr>vlrv_headers := h, vlrv_query_string_parameters := q\<rparr>)"
  using assms unfolding lattice_v1_of_json_def lattice_v1_json_def
  by (cases x) (clarsimp simp: vpc_lattice_request_v1_of_json_def vpc_lattice_request_v1_json_def read_back method_not_null)

subsection \<open>The deprecated request of HTTP API authorizers\<close>

text \<open>Its headers are read by \<^verbatim>\<open>http_serde\<close>, a parameter.\<close>

record 'h authorizer_v2_request =
  av_version :: "string option"
  av_type :: "string option"
  av_route_arn :: "string option"
  av_identity_source :: "string list option"
  av_route_key :: "string option"
  av_raw_path :: "string option"
  av_raw_query_string :: "string option"
  av_cookies :: "string list"
  av_headers :: 'h
  av_query_string_parameters :: "(string \<times> string) list"
  av_request_context :: v2_request_context
  av_path_parameters :: "(string \<times> string) list"
  av_stage_variables :: "(string \<times> string) list"

definition authorizer_v2_request_of_json ::
    "('h, 'q) web \<Rightarrow> (json \<Rightarrow> 'h option) \<Rightarrow> json \<Rightarrow> 'h authorizer_v2_request option" where
  "authorizer_v2_request_of_json W fh j = do {
     kvs \<leftarrow> de_fields 13
       [''version'', ''type'', ''routeArn'', ''identitySource'', ''routeKey'', ''rawPath'',
        ''rawQueryString'', ''cookies'', ''headers'', ''queryStringParameters'', ''requestContext'',
        ''pathParameters'', ''stageVariables''] j;
     x_version \<leftarrow> de_opt_string ''version'' kvs;
     x_type \<leftarrow> de_opt_string ''type'' kvs;
     x_route_arn \<leftarrow> de_opt_string ''routeArn'' kvs;
     x_identity_source \<leftarrow> de_optional (de_list de_string) [''identitySource''] kvs;
     x_route_key \<leftarrow> de_opt_string ''routeKey'' kvs;
     x_raw_path \<leftarrow> de_opt_string ''rawPath'' kvs;
     x_raw_query_string \<leftarrow> de_opt_string ''rawQueryString'' kvs;
     x_cookies \<leftarrow> de_default (de_list de_string) [] [''cookies''] kvs;
     x_headers \<leftarrow> de_default fh (hm_empty (wc_hm W)) [''headers''] kvs;
     x_query_string_parameters \<leftarrow> de_default (de_nullish (de_hash_map de_string) []) [] [''queryStringParameters''] kvs;
     x_request_context \<leftarrow> de_required (v2_request_context_of_json W) [''requestContext''] kvs;
     x_path_parameters \<leftarrow> de_default (de_nullish (de_hash_map de_string) []) [] [''pathParameters''] kvs;
     x_stage_variables \<leftarrow> de_default (de_nullish (de_hash_map de_string) []) [] [''stageVariables''] kvs;
     Some \<lparr>av_version = x_version, av_type = x_type, av_route_arn = x_route_arn,
       av_identity_source = x_identity_source, av_route_key = x_route_key, av_raw_path = x_raw_path,
       av_raw_query_string = x_raw_query_string, av_cookies = x_cookies, av_headers = x_headers,
       av_query_string_parameters = x_query_string_parameters, av_request_context = x_request_context,
       av_path_parameters = x_path_parameters, av_stage_variables = x_stage_variables\<rparr> }"

definition authorizer_v2_request_json :: "('h, 'q) web \<Rightarrow> 'h authorizer_v2_request \<Rightarrow> json option" where
  "authorizer_v2_request_json W x = do {
     hs \<leftarrow> serialize_headers (wc_crates W) (av_headers x);
     Some (JObj
     ([(''version'', json_of_option JStr (av_version x)),
      (''type'', json_of_option JStr (av_type x)),
      (''routeArn'', json_of_option JStr (av_route_arn x))] @
      opt_field ''identitySource'' (json_of_list JStr) (av_identity_source x) @
      [(''routeKey'', json_of_option JStr (av_route_key x)),
      (''rawPath'', json_of_option JStr (av_raw_path x)),
      (''rawQueryString'', json_of_option JStr (av_raw_query_string x)),
      (''cookies'', json_of_list JStr (av_cookies x)),
      (''headers'', hs),
      (''queryStringParameters'', json_of_map JStr (av_query_string_parameters x)),
      (''requestContext'', v2_request_context_json (av_request_context x)),
      (''pathParameters'', json_of_map JStr (av_path_parameters x)),
      (''stageVariables'', json_of_map JStr (av_stage_variables x))])) }"

definition authorizer_v2_request_good :: "('h, 'q) web \<Rightarrow> 'h authorizer_v2_request \<Rightarrow> bool" where
  "authorizer_v2_request_good W x \<longleftrightarrow>
     good_map (\<lambda>_. True) (av_query_string_parameters x) \<and>
     v2_request_context_good W (av_request_context x) \<and>
     good_map (\<lambda>_. True) (av_path_parameters x) \<and>
     good_map (\<lambda>_. True) (av_stage_variables x)"

lemma authorizer_v2_request_read:
  assumes good: "authorizer_v2_request_good W x"
    and "serialize_headers (wc_crates W) (av_headers x) = Some hs" "fh hs = Some h"
  shows "\<exists>j. authorizer_v2_request_json W x = Some j \<and>
     authorizer_v2_request_of_json W fh j = Some (x\<lparr>av_headers := h\<rparr>)"
  using assms by (cases x)
    (clarsimp simp: authorizer_v2_request_json_def authorizer_v2_request_of_json_def authorizer_v2_request_good_def read_back)

lemma authorizer_v2_request_typed:
  assumes get: "wc_method_valid W ''GET''"
  shows "typed (authorizer_v2_request_good W) (authorizer_v2_request_of_json W fh)"
  unfolding typed_def authorizer_v2_request_of_json_def authorizer_v2_request_good_def
  by (auto simp: bind_eq_Some_conv
      dest!: typed_default [OF typed_nullish [OF typed_hash_map [OF typed_True [of "de_string"]] good_nil(1)] good_nil(1)]
      typed_required [OF v2_request_context_typed [OF get]])

subsection \<open>Responses\<close>

definition proxy_response_of_json :: "('h, 'q) web \<Rightarrow> json \<Rightarrow> 'h proxy_response option" where
  "proxy_response_of_json W j = do {
     kvs \<leftarrow> de_fields 5 [''statusCode'', ''headers'', ''multiValueHeaders'', ''body'', ''isBase64Encoded''] j;
     x_status_code \<leftarrow> de_required de_i64 [''statusCode''] kvs;
     x_headers \<leftarrow> de_default (deserialize_headers (wc_crates W)) (hm_empty (wc_hm W)) [''headers''] kvs;
     x_multi_value_headers \<leftarrow> de_default (deserialize_headers (wc_crates W)) (hm_empty (wc_hm W)) [''multiValueHeaders''] kvs;
     x_body \<leftarrow> de_optional body_of_json [''body''] kvs;
     x_is_base64_encoded \<leftarrow> de_default (de_nullish de_bool False) False [''isBase64Encoded''] kvs;
     Some \<lparr>ps_status_code = x_status_code, ps_headers = x_headers, ps_multi_value_headers = x_multi_value_headers,
       ps_body = x_body, ps_is_base64_encoded = x_is_base64_encoded\<rparr> }"

definition v2_response_of_json :: "('h, 'q) web \<Rightarrow> json \<Rightarrow> 'h v2_response option" where
  "v2_response_of_json W j = do {
     kvs \<leftarrow> de_fields 6 [''statusCode'', ''headers'', ''multiValueHeaders'', ''body'', ''isBase64Encoded'', ''cookies''] j;
     x_status_code \<leftarrow> de_required de_i64 [''statusCode''] kvs;
     x_headers \<leftarrow> de_default (deserialize_headers (wc_crates W)) (hm_empty (wc_hm W)) [''headers''] kvs;
     x_multi_value_headers \<leftarrow> de_default (deserialize_headers (wc_crates W)) (hm_empty (wc_hm W)) [''multiValueHeaders''] kvs;
     x_body \<leftarrow> de_optional body_of_json [''body''] kvs;
     x_is_base64_encoded \<leftarrow> de_default (de_nullish de_bool False) False [''isBase64Encoded''] kvs;
     x_cookies \<leftarrow> de_required (de_list de_string) [''cookies''] kvs;
     Some \<lparr>vs_status_code = x_status_code, vs_headers = x_headers, vs_multi_value_headers = x_multi_value_headers,
       vs_body = x_body, vs_is_base64_encoded = x_is_base64_encoded, vs_cookies = x_cookies\<rparr> }"

definition alb_response_of_json :: "('h, 'q) web \<Rightarrow> (json \<Rightarrow> 'h option) \<Rightarrow> json \<Rightarrow> 'h alb_response option" where
  "alb_response_of_json W fh j = do {
     kvs \<leftarrow> de_fields 6
       [''statusCode'', ''statusDescription'', ''headers'', ''multiValueHeaders'', ''body'', ''isBase64Encoded''] j;
     x_status_code \<leftarrow> de_required de_i64 [''statusCode''] kvs;
     x_status_description \<leftarrow> de_opt_string ''statusDescription'' kvs;
     x_headers \<leftarrow> de_default fh (hm_empty (wc_hm W)) [''headers''] kvs;
     x_multi_value_headers \<leftarrow> de_default fh (hm_empty (wc_hm W)) [''multiValueHeaders''] kvs;
     x_body \<leftarrow> de_optional body_of_json [''body''] kvs;
     x_is_base64_encoded \<leftarrow> de_default (de_nullish de_bool False) False [''isBase64Encoded''] kvs;
     Some \<lparr>as_status_code = x_status_code, as_status_description = x_status_description, as_headers = x_headers,
       as_multi_value_headers = x_multi_value_headers, as_body = x_body, as_is_base64_encoded = x_is_base64_encoded\<rparr> }"

definition vpc_lattice_response_of_json :: "('h, 'q) web \<Rightarrow> json \<Rightarrow> 'h vpc_lattice_response option" where
  "vpc_lattice_response_of_json W j = do {
     kvs \<leftarrow> de_fields 4 [''isBase64Encoded'', ''statusCode'', ''headers'', ''body''] j;
     x_is_base64_encoded \<leftarrow> de_default de_bool False [''isBase64Encoded''] kvs;
     x_status_code \<leftarrow> de_required (de_unsigned 65535) [''statusCode''] kvs;
     x_headers \<leftarrow> de_default (deserialize_headers (wc_crates W)) (hm_empty (wc_hm W)) [''headers''] kvs;
     x_body \<leftarrow> de_optional body_of_json [''body''] kvs;
     Some \<lparr>ls_is_base64_encoded = x_is_base64_encoded, ls_status_code = x_status_code, ls_headers = x_headers,
       ls_body = x_body\<rparr> }"

text \<open>What of an optional body its JSON carries: binary data comes back as the base64 text, an empty body as no body.\<close>

definition reread_body :: "('h, 'q) web \<Rightarrow> body option \<Rightarrow> body option" where
  "reread_body W b =
     (case b of Some (TextBody s) \<Rightarrow> Some (TextBody s) | Some (BinaryBody s) \<Rightarrow> Some (TextBody (cr_base64 (wc_crates W) s)) | _ \<Rightarrow> None)"

lemma read_written_body:
  "de_values ns kvs = (case b of None \<Rightarrow> [] | Some x \<Rightarrow> [body_json W x]) \<Longrightarrow> de_optional body_of_json ns kvs = Some (reread_body W b)"
  "de_values ns kvs = [json_of_option (body_json W) b] \<Longrightarrow> de_optional body_of_json ns kvs = Some (reread_body W b)"
  by (auto simp: de_optional_cases reread_body_def body_of_json_def de_string_def split: option.splits body.splits)

lemma proxy_response_read:
  assumes "good_i64 (ps_status_code r)"
    and "serialize_headers (wc_crates W) (ps_headers r) = Some hs" "deserialize_headers (wc_crates W) hs = Some h"
    and "serialize_multi_value_headers (wc_crates W) (ps_multi_value_headers r) = Some ms" "deserialize_headers (wc_crates W) ms = Some m"
  shows "\<exists>j. proxy_response_json W r = Some j \<and>
     proxy_response_of_json W j = Some (r\<lparr>ps_headers := h, ps_multi_value_headers := m, ps_body := reread_body W (ps_body r)\<rparr>)"
  using assms by (cases r)
    (clarsimp simp: proxy_response_json_def proxy_response_of_json_def read_back read_written_body(1) [where W = W])

lemma v2_response_read:
  assumes "good_i64 (vs_status_code r)"
    and "serialize_headers (wc_crates W) (vs_headers r) = Some hs" "deserialize_headers (wc_crates W) hs = Some h"
    and "serialize_multi_value_headers (wc_crates W) (vs_multi_value_headers r) = Some ms" "deserialize_headers (wc_crates W) ms = Some m"
  shows "\<exists>j. v2_response_json W r = Some j \<and>
     v2_response_of_json W j = Some (r\<lparr>vs_headers := h, vs_multi_value_headers := m, vs_body := reread_body W (vs_body r)\<rparr>)"
  using assms by (cases r)
    (clarsimp simp: v2_response_json_def v2_response_of_json_def read_back read_written_body(1) [where W = W])

lemma alb_response_read:
  assumes "good_i64 (as_status_code r)"
    and "serialize_headers (wc_crates W) (as_headers r) = Some hs" "fh hs = Some h"
    and "serialize_multi_value_headers (wc_crates W) (as_multi_value_headers r) = Some ms" "fh ms = Some m"
  shows "\<exists>j. alb_response_json W r = Some j \<and>
     alb_response_of_json W fh j = Some (r\<lparr>as_headers := h, as_multi_value_headers := m, as_body := reread_body W (as_body r)\<rparr>)"
  using assms by (cases r)
    (clarsimp simp: alb_response_json_def alb_response_of_json_def read_back read_written_body(1) [where W = W])

lemma vpc_lattice_response_read:
  assumes "ls_status_code r \<le> 65535"
    and "serialize_headers (wc_crates W) (ls_headers r) = Some hs"
    and "if hm_keys (wc_hm W) (ls_headers r) = [] then h = hm_empty (wc_hm W) else deserialize_headers (wc_crates W) hs = Some h"
  shows "\<exists>j. vpc_lattice_response_json W r = Some j \<and>
     vpc_lattice_response_of_json W j = Some (r\<lparr>ls_headers := h, ls_body := reread_body W (ls_body r)\<rparr>)"
  using assms by (cases r)
    (clarsimp simp: vpc_lattice_response_json_def vpc_lattice_response_of_json_def read_back read_written_body(2) [where W = W])

subsection \<open>What the written forms of header and query maps carry\<close>

text \<open>The header maps that can be written and read: their names and values are valid, and the values UTF-8.\<close>

definition carried :: "'h hmap \<Rightarrow> 'h \<Rightarrow> bool" where
  "carried H h \<longleftrightarrow>
     (\<forall>k \<in> set (hm_keys H h). hn_valid H k \<and> (\<forall>v \<in> set (hm_get_all H h k). hv_valid H v \<and> valid_utf8 v))"

context header_map
begin

lemma single_value_entries:
  assumes "cr_hm C = H" and "\<forall>k \<in> set ks. hn_valid H k \<and> lower k = k \<and> hv_valid H (val k)" and "distinct ks"
  shows "\<exists>m'. header_entries C False (map (\<lambda>k. (k, JStr (val k))) ks) m = Some m' \<and>
     (\<forall>k'. hm_get_all H m' k' = (if lower k' \<in> set ks then [val (lower k')] else hm_get_all H m k'))"
  using assms(2,3)
proof (induction ks arbitrary: m)
  case (Cons k ks)
  have "one_or_more_of_json (JStr (val k)) = Some (OneValue (val k))"
    by (simp add: one_or_more_of_json_def de_string_def)
  moreover obtain m2 where "header_entries C False (map (\<lambda>k. (k, JStr (val k))) ks) (hm_insert H m k (val k)) = Some m2"
      "\<forall>k'. hm_get_all H m2 k' = (if lower k' \<in> set ks then [val (lower k')] else hm_get_all H (hm_insert H m k (val k)) k')"
    using Cons.IH [of "hm_insert H m k (val k)"] Cons.prems by auto
  ultimately show ?case
    using Cons.prems assms(1) by (auto simp: add_header_def get_all_insert)
qed simp

lemma single_value_headers_inverse:
  assumes "cr_hm C = H" and "carried H h"
  shows "\<exists>j h'. serialize_headers C h = Some j \<and> deserialize_headers C j = Some h' \<and>
     (\<forall>k. hm_get_all H h' k = take 1 (hm_get_all H h k))"
proof -
  define val where "val k = hd (hm_get_all H h k)" for k
  have key: "hn_valid H k \<and> lower k = k \<and> hv_valid H (val k) \<and> valid_utf8 (val k) \<and> hm_get H h k = Some (val k)"
    if "k \<in> set (hm_keys H h)" for k
  proof -
    have "hn_valid H k \<and> (\<forall>v \<in> set (hm_get_all H h k). hv_valid H v \<and> valid_utf8 v)"
      using that assms(2) unfolding carried_def by blast
    moreover have "lower k = k \<and> hm_get_all H h k \<noteq> []" using that by (simp add: keys_iff)
    ultimately show ?thesis by (cases "hm_get_all H h k") (auto simp: hm_get_def val_def)
  qed
  then have keys: "\<forall>k \<in> set (hm_keys H h). hn_valid H k \<and> lower k = k \<and> hv_valid H (val k)" by blast
  obtain m where m: "header_entries C False (map (\<lambda>k. (k, JStr (val k))) (hm_keys H h)) (hm_empty H) = Some m"
      "\<forall>k. hm_get_all H m k = (if lower k \<in> set (hm_keys H h) then [val (lower k)] else hm_get_all H (hm_empty H) k)"
    using single_value_entries [OF assms(1) keys keys_distinct] by blast
  have "hm_get_all H m k = take 1 (hm_get_all H h k)" for k
  proof (cases "hm_get_all H h k")
    case Nil
    then have "lower k \<notin> set (hm_keys H h)" by (simp add: keys_iff get_all_lower)
    then show ?thesis using m(2) Nil by (simp add: get_all_empty)
  next
    case (Cons v vs)
    then have "lower k \<in> set (hm_keys H h)" by (simp add: keys_iff get_all_lower)
    then show ?thesis using m(2) Cons by (simp add: val_def get_all_lower)
  qed
  moreover have "serialize_headers C h = Some (JObj (map (\<lambda>k. (k, JStr (val k))) (hm_keys H h)))"
  proof -
    have "those (map (\<lambda>k. map_option (Pair k) (Option.bind (hm_get H h k) utf8_json)) (hm_keys H h)) =
        Some (map (\<lambda>k. (k, JStr (val k))) (hm_keys H h))"
      by (rule those_map_Some) (simp add: key utf8_json_def)
    then show ?thesis by (simp add: serialize_headers_def assms(1))
  qed
  ultimately show ?thesis
    using m(1) assms(1) by (auto simp: deserialize_headers_def headers_of_json_def)
qed

end

text \<open>The values of a key of a query map, and the documented laws of its readers and writers.\<close>

definition query_all :: "'q query_writers \<Rightarrow> 'q \<Rightarrow> string \<Rightarrow> string list" where
  "query_all Q q k = map snd (filter (\<lambda>(k', v). k' = k) (qw_pairs Q q))"

locale query_maps = web_crates W for W :: "('h, 'q) web" +
  fixes Q :: "'q query_writers"
  assumes object_read: "distinct (map fst kvs) \<Longrightarrow>
      \<exists>q. wc_qm_of_json W (JObj (map (\<lambda>(k, v). (k, JStr v)) kvs)) = Some q \<and>
        (\<forall>k. query_all Q q k = (case map_of kvs k of None \<Rightarrow> [] | Some v \<Rightarrow> [v]))"
    and written_read: "\<exists>q'. wc_qm_of_json W (qw_json Q q) = Some q' \<and> query_all Q q' = query_all Q q"
begin

lemma last_of_key:
  "map_of (rev ps) k = (case map snd (filter (\<lambda>(k', v). k' = k) ps) of [] \<Rightarrow> None | vs \<Rightarrow> Some (last vs))"
  by (induction ps rule: rev_induct) (auto split: list.splits)

text \<open>ALB's writer keeps the last value of each key.\<close>

lemma last_values_read:
  "\<exists>q'. wc_qm_of_json W (serialize_query_string_parameters (qw_pairs Q q)) = Some q' \<and>
     (\<forall>k. query_all Q q' k = (case query_all Q q k of [] \<Rightarrow> [] | vs \<Rightarrow> [last vs]))"
proof -
  obtain kvs where kvs: "serialize_query_string_parameters (qw_pairs Q q) = JObj (map (\<lambda>(k, v). (k, JStr v)) kvs)"
      "distinct (map fst kvs)" "map_of kvs = map_of (rev (qw_pairs Q q))"
    using query_string_parameters_keep_last by blast
  obtain q' where q': "wc_qm_of_json W (JObj (map (\<lambda>(k, v). (k, JStr v)) kvs)) = Some q'"
      "\<forall>k. query_all Q q' k = (case map_of kvs k of None \<Rightarrow> [] | Some v \<Rightarrow> [v])"
    using object_read [OF kvs(2)] by blast
  have "query_all Q q' k = (case query_all Q q k of [] \<Rightarrow> [] | vs \<Rightarrow> [last vs])" for k
    using q'(2) by (simp add: kvs(3) last_of_key query_all_def split: list.split)
  then show ?thesis using kvs(1) q'(1) by auto
qed

lemma alb_reread:
  assumes "alb_request_good W x" and "carried (wc_hm W) (ar_headers x)" and "carried (wc_hm W) (ar_multi_value_headers x)"
  shows "\<exists>j h m q mq. alb_request_json W Q x = Some j \<and>
     alb_request_of_json W j = Some (x\<lparr>ar_headers := h, ar_multi_value_headers := m, ar_query_string_parameters := q,
       ar_multi_value_query_string_parameters := mq\<rparr>) \<and>
     (\<forall>k. hm_get_all (wc_hm W) h k = take 1 (hm_get_all (wc_hm W) (ar_headers x) k)) \<and>
     (\<forall>k. hm_get_all (wc_hm W) m k = hm_get_all (wc_hm W) (ar_multi_value_headers x) k) \<and>
     (\<forall>k. query_all Q q k = (case query_all Q (ar_query_string_parameters x) k of [] \<Rightarrow> [] | vs \<Rightarrow> [last vs])) \<and>
     query_all Q mq = query_all Q (ar_multi_value_query_string_parameters x)"
proof -
  obtain hs h where h: "serialize_headers (wc_crates W) (ar_headers x) = Some hs" "deserialize_headers (wc_crates W) hs = Some h"
      "\<forall>k. hm_get_all (wc_hm W) h k = take 1 (hm_get_all (wc_hm W) (ar_headers x) k)"
    using single_value_headers_inverse [OF refl assms(2)] by blast
  obtain ms m where m: "serialize_multi_value_headers (wc_crates W) (ar_multi_value_headers x) = Some ms"
      "deserialize_headers (wc_crates W) ms = Some m"
      "\<forall>k. hm_get_all (wc_hm W) m k = hm_get_all (wc_hm W) (ar_multi_value_headers x) k"
    using multi_value_headers_inverse [OF refl assms(3) [unfolded carried_def]] by blast
  obtain q where q: "wc_qm_of_json W (serialize_query_string_parameters (qw_pairs Q (ar_query_string_parameters x))) = Some q"
      "\<forall>k. query_all Q q k = (case query_all Q (ar_query_string_parameters x) k of [] \<Rightarrow> [] | vs \<Rightarrow> [last vs])"
    using last_values_read by blast
  obtain mq where mq: "wc_qm_of_json W (qw_json Q (ar_multi_value_query_string_parameters x)) = Some mq"
      "query_all Q mq = query_all Q (ar_multi_value_query_string_parameters x)"
    using written_read by blast
  show ?thesis
    using alb_request_read [OF assms(1) h(1,2) m(1,2) q(1) mq(1)] h(3) m(3) q(2) mq(2) by blast
qed

lemma lattice_reread:
  assumes "vpc_lattice_request_good W x" and "carried (wc_hm W) (lr_headers x)"
  shows "\<exists>j h q. vpc_lattice_any_json W Q (LatticeV2 x) = Some j \<and>
     vpc_lattice_any_of_json W j = Some (LatticeV2 (x\<lparr>lr_headers := h, lr_query_string_parameters := q\<rparr>)) \<and>
     (\<forall>k. hm_get_all (wc_hm W) h k = hm_get_all (wc_hm W) (lr_headers x) k) \<and>
     query_all Q q = query_all Q (lr_query_string_parameters x)"
proof -
  obtain ms m where m: "serialize_multi_value_headers (wc_crates W) (lr_headers x) = Some ms"
      "deserialize_headers (wc_crates W) ms = Some m"
      "\<forall>k. hm_get_all (wc_hm W) m k = hm_get_all (wc_hm W) (lr_headers x) k"
    using multi_value_headers_inverse [OF refl assms(2) [unfolded carried_def]] by blast
  obtain q where q: "wc_qm_of_json W (qw_json Q (lr_query_string_parameters x)) = Some q"
      "query_all Q q = query_all Q (lr_query_string_parameters x)"
    using written_read by blast
  obtain j where j: "vpc_lattice_request_json W Q x = Some j"
      "vpc_lattice_request_of_json W j = Some (x\<lparr>lr_headers := m, lr_query_string_parameters := q\<rparr>)"
    using vpc_lattice_request_read [OF assms(1) m(1,2) q(1)] by blast
  have "vpc_lattice_any_json W Q (LatticeV2 x) = Some j"
    "vpc_lattice_any_of_json W j = Some (LatticeV2 (x\<lparr>lr_headers := m, lr_query_string_parameters := q\<rparr>))"
    by (simp_all add: j vpc_lattice_any_json_def vpc_lattice_any_of_json_def)
  then show ?thesis using m(3) q(2) by blast
qed

end

text \<open>A written VPC Lattice request is read as the version it has.\<close>

lemma lattice_version_kept:
  assumes "query_maps W Q"
  shows "vpc_lattice_request_good W x \<Longrightarrow> carried (wc_hm W) (lr_headers x) \<Longrightarrow>
      \<exists>j y. vpc_lattice_any_json W Q (LatticeV2 x) = Some j \<and> vpc_lattice_any_of_json W j = Some (LatticeV2 y)"
    and "vpc_lattice_any_of_json W (lattice_v1_json W Q z) = Some r \<Longrightarrow> \<exists>y. r = LatticeV1 y"
  using query_maps.lattice_reread [OF assms, of x]
  by (blast, auto simp: vpc_lattice_any_of_json_def lattice_v1_not_v2 split: option.splits)

subsection \<open>Reference functions\<close>

text \<open>A query map that is read from texts or lists of texts, and written as the lists of its values.\<close>

definition ref_query_values :: "json \<Rightarrow> string list option" where
  "ref_query_values j = (case j of JStr s \<Rightarrow> Some [s] | _ \<Rightarrow> de_list de_string j)"

fun ref_query_entries :: "(string \<times> json) list \<Rightarrow> (string \<times> string) list option" where
  "ref_query_entries [] = Some []"
| "ref_query_entries ((k, j) # kvs) =
     Option.bind (ref_query_values j) (\<lambda>vs. map_option ((@) (map (Pair k) vs)) (ref_query_entries kvs))"

definition ref_query_of_json :: "json \<Rightarrow> (string \<times> string) list option" where
  "ref_query_of_json j = (case j of JObj kvs \<Rightarrow> ref_query_entries kvs | _ \<Rightarrow> None)"

definition ref_query_json :: "(string \<times> string) list \<Rightarrow> json" where
  "ref_query_json q = JObj (map (\<lambda>k. (k, JArr (map JStr (map snd (filter (\<lambda>(k', v). k' = k) q))))) (remdups (map fst q)))"

definition ref_query_writers :: "(string \<times> string) list query_writers" where
  "ref_query_writers =
     \<lparr>qw_json = ref_query_json, qw_v1_json = serialize_query_string_parameters, qw_v2_json = ref_query_json, qw_pairs = (\<lambda>q. q)\<rparr>"

definition ref_query_web :: "(headers, (string \<times> string) list) web" where
  "ref_query_web = (ref_web ref_crates)\<lparr>wc_qm_of_json := ref_query_of_json\<rparr>"

lemma ref_query_entries_object: "ref_query_entries (map (\<lambda>(k, v). (k, JStr v)) kvs) = Some kvs"
  by (induction kvs) (auto simp: ref_query_values_def)

lemma ref_query_entries_lists:
  "ref_query_entries (map (\<lambda>k. (k, JArr (map JStr (f k)))) ks) = Some (concat (map (\<lambda>k. map (Pair k) (f k)) ks))"
  by (induction ks) (auto simp: ref_query_values_def)

lemma filter_pairs: "filter (\<lambda>(k', v). k' = k) (map (Pair x) vs) = (if x = k then map (Pair k) vs else [])"
  by (induction vs) auto

lemma values_of_groups:
  "distinct ks \<Longrightarrow> map snd (filter (\<lambda>(k', v). k' = k) (concat (map (\<lambda>k. map (Pair k) (f k)) ks))) = (if k \<in> set ks then f k else [])"
proof (induction ks)
  case (Cons x ks)
  then show ?case by (auto simp: filter_pairs comp_def)
qed simp

lemma values_of_distinct:
  "distinct (map fst kvs) \<Longrightarrow> map snd (filter (\<lambda>(k', v). k' = k) kvs) = (case map_of kvs k of None \<Rightarrow> [] | Some v \<Rightarrow> [v])"
proof (induction kvs)
  case (Cons p kvs)
  have "filter (\<lambda>(k', v). k' = fst p) kvs = []"
    using Cons.prems by (auto simp: filter_empty_conv image_iff)
  then show ?case using Cons by (cases p) auto
qed simp

interpretation ref_query: query_maps ref_query_web ref_query_writers
proof (intro query_maps.intro query_maps_axioms.intro)
  show "web_crates ref_query_web"
    using ref_web_laws by (simp add: ref_query_web_def web_crates_def web_crates_axioms_def)
next
  fix kvs :: "(string \<times> string) list" assume "distinct (map fst kvs)"
  then show "\<exists>q. wc_qm_of_json ref_query_web (JObj (map (\<lambda>(k, v). (k, JStr v)) kvs)) = Some q \<and>
      (\<forall>k. query_all ref_query_writers q k = (case map_of kvs k of None \<Rightarrow> [] | Some v \<Rightarrow> [v]))"
    by (auto simp: ref_query_web_def ref_query_of_json_def ref_query_entries_object query_all_def ref_query_writers_def values_of_distinct)
next
  fix q :: "(string \<times> string) list"
  define f where "f k = map snd (filter (\<lambda>(k', v). k' = k) q)" for k
  let ?q' = "concat (map (\<lambda>k. map (Pair k) (f k)) (remdups (map fst q)))"
  have "f k = []" if "k \<notin> fst ` set q" for k
    using that by (auto simp: f_def filter_empty_conv image_iff)
  then have "map snd (filter (\<lambda>(k', v). k' = k) ?q') = f k" for k
    using values_of_groups [of "remdups (map fst q)" k f] by (cases "k \<in> fst ` set q") simp_all
  then have "query_all ref_query_writers ?q' = query_all ref_query_writers q"
    by (simp add: query_all_def ref_query_writers_def f_def fun_eq_iff)
  moreover have "wc_qm_of_json ref_query_web (qw_json ref_query_writers q) = Some ?q'"
    using ref_query_entries_lists [of f "remdups (map fst q)"]
    by (simp add: ref_query_web_def ref_query_of_json_def ref_query_writers_def ref_query_json_def f_def [symmetric])
  ultimately show "\<exists>q'. wc_qm_of_json ref_query_web (qw_json ref_query_writers q) = Some q' \<and>
      query_all ref_query_writers q' = query_all ref_query_writers q" by blast
qed

subsection \<open>Properties\<close>

text \<open>
  C34: an ALB event that was read can be written, and what is written is read as the same event up
  to what the written forms carry: of the single-valued headers the first value of each name, all
  values of the multi-valued ones in their order, of the query parameters the last value of each key,
  all values of the multi-valued ones; every other field is equal. The names and values of the header
  maps are valid and the values UTF-8, without which writing fails.
\<close>

theorem alb_event_rereads:
  assumes "query_maps W Q" and "wc_method_valid W ''GET''"
    and "alb_request_of_json W j = Some x"
    and "carried (wc_hm W) (ar_headers x)" and "carried (wc_hm W) (ar_multi_value_headers x)"
  shows "\<exists>j' h m q mq. alb_request_json W Q x = Some j' \<and>
     alb_request_of_json W j' = Some (x\<lparr>ar_headers := h, ar_multi_value_headers := m, ar_query_string_parameters := q,
       ar_multi_value_query_string_parameters := mq\<rparr>) \<and>
     (\<forall>k. hm_get_all (wc_hm W) h k = take 1 (hm_get_all (wc_hm W) (ar_headers x) k)) \<and>
     (\<forall>k. hm_get_all (wc_hm W) m k = hm_get_all (wc_hm W) (ar_multi_value_headers x) k) \<and>
     (\<forall>k. query_all Q q k = (case query_all Q (ar_query_string_parameters x) k of [] \<Rightarrow> [] | vs \<Rightarrow> [last vs])) \<and>
     query_all Q mq = query_all Q (ar_multi_value_query_string_parameters x)"
  using query_maps.alb_reread [OF assms(1) typedD [OF alb_request_typed [OF assms(2)] assms(3)] assms(4,5)] .

definition alb_example :: json where
  "alb_example = JObj
     [(''httpMethod'', JStr ''POST''),
      (''headers'', JObj [(''accept'', JArr [JStr ''a'', JStr ''b''])]),
      (''queryStringParameters'', JObj [(''k'', JArr [JStr ''1'', JStr ''2''])]),
      (''requestContext'', JObj [(''elb'', JObj [])])]"

definition alb_example_request :: "(headers, (string \<times> string) list) alb_request" where
  "alb_example_request =
     \<lparr>ar_http_method = ''POST'', ar_path = None, ar_query_string_parameters = [(''k'', ''1''), (''k'', ''2'')],
      ar_multi_value_query_string_parameters = [], ar_headers = [(''accept'', ''a''), (''accept'', ''b'')],
      ar_multi_value_headers = [], ar_request_context = \<lparr>ac_elb = \<lparr>el_target_group_arn = None\<rparr>\<rparr>,
      ar_is_base64_encoded = False, ar_body = None\<rparr>"

lemma alb_event_rereads_witness:
  "\<exists>j' h m q mq. alb_request_json ref_query_web ref_query_writers alb_example_request = Some j' \<and>
     alb_request_of_json ref_query_web j' = Some (alb_example_request\<lparr>ar_headers := h, ar_multi_value_headers := m,
       ar_query_string_parameters := q, ar_multi_value_query_string_parameters := mq\<rparr>) \<and>
     hm_get_all al_hmap h ''accept'' = [''a''] \<and> query_all ref_query_writers q ''k'' = [''2'']"
proof -
  have hm: "wc_hm ref_query_web = al_hmap" "wc_crates ref_query_web = ref_crates" "cr_hm ref_crates = al_hmap"
    by (simp_all add: ref_query_web_def ref_crates_def)
  have get: "wc_method_valid ref_query_web ''GET''"
    by (simp add: ref_query_web_def ref_web_def)
  have hs: "deserialize_headers ref_crates (JObj [(''accept'', JArr [JStr ''a'', JStr ''b''])]) = Some [(''accept'', ''a''), (''accept'', ''b'')]"
    by (simp add: deserialize_headers_def headers_of_json_def one_or_more_of_json_def de_string_def add_header_def
        hm(3) al_hmap_def visible_ascii_def header_value_bytes_def lower_eval de_list_def)
  have q: "ref_query_of_json (JObj [(''k'', JArr [JStr ''1'', JStr ''2''])]) = Some [(''k'', ''1''), (''k'', ''2'')]"
    by (simp add: ref_query_of_json_def ref_query_values_def de_list_def de_string_def)
  have read: "alb_request_of_json ref_query_web alb_example = Some alb_example_request"
    unfolding alb_request_of_json_def alb_example_def alb_example_request_def hm(2)
    by (simp add: read_object de_required_def de_default_def de_opt_string_def de_optional_cases hs q
        alb_request_context_of_json_def elb_context_of_json_def)
      (simp add: ref_query_web_def ref_web_def q deserialize_method_def method_of_string_def de_string_def ref_crates_def al_hmap_def)
  have keys: "hm_keys al_hmap [(''accept'', ''a''), (''accept'', ''b'')] = [''accept'']"
    "hm_get_all al_hmap [(''accept'', ''a''), (''accept'', ''b'')] ''accept'' = [''a'', ''b'']" "hm_keys al_hmap [] = []"
    by (simp_all add: al_hmap_def al_keys_def al_get_all_def lower_eval)
  have "hn_valid al_hmap ''accept''" "\<forall>v \<in> {''a'', ''b''}. hv_valid al_hmap v \<and> valid_utf8 v"
    by (simp_all add: al_hmap_def visible_ascii_def header_value_bytes_def valid_utf8_ascii)
  then have carried: "carried (wc_hm ref_query_web) (ar_headers alb_example_request)"
    "carried (wc_hm ref_query_web) (ar_multi_value_headers alb_example_request)"
    by (simp_all add: carried_def hm keys alb_example_request_def)
  have vals: "take 1 (hm_get_all al_hmap (ar_headers alb_example_request) ''accept'') = [''a'']"
    "query_all ref_query_writers (ar_query_string_parameters alb_example_request) ''k'' = [''1'', ''2'']"
    by (simp_all add: alb_example_request_def keys query_all_def ref_query_writers_def)
  obtain j' h m q mq where w: "alb_request_json ref_query_web ref_query_writers alb_example_request = Some j'"
      "alb_request_of_json ref_query_web j' = Some (alb_example_request\<lparr>ar_headers := h, ar_multi_value_headers := m,
         ar_query_string_parameters := q, ar_multi_value_query_string_parameters := mq\<rparr>)"
      "\<forall>k. hm_get_all (wc_hm ref_query_web) h k = take 1 (hm_get_all (wc_hm ref_query_web) (ar_headers alb_example_request) k)"
      "\<forall>k. query_all ref_query_writers q k =
         (case query_all ref_query_writers (ar_query_string_parameters alb_example_request) k of [] \<Rightarrow> [] | vs \<Rightarrow> [last vs])"
    using alb_event_rereads [OF ref_query.query_maps_axioms get read carried] by blast
  have "hm_get_all al_hmap h ''accept'' = [''a'']" using w(3) vals(1) by (simp add: hm)
  moreover have "query_all ref_query_writers q ''k'' = [''2'']" using w(4) vals(2) by simp
  ultimately show ?thesis using w(1,2) by blast
qed

end
