(* ===== verification/Spec2Isabelle.thy ===== *)
theory Spec2Isabelle
  imports Entrypoints ExtensionRuns GracefulShutdown HttpAdapter RequestAccess BodyChannel
    TimeEncodings BatchResponses MessagingEvents StreamEvents CloudWatchEvents CloudWatchPayloads
    DeploymentEvents StorageEvents IdentityEvents PolicyEvents UnionEvents TimedEvents HttpEventSerde
begin

text \<open>
  A model of the Rust runtime for AWS Lambda: the crates \<^verbatim>\<open>lambda-runtime\<close>,
  \<^verbatim>\<open>lambda-runtime-api-client\<close>, \<^verbatim>\<open>lambda-extension\<close>, \<^verbatim>\<open>lambda-http\<close> and
  the parts of \<^verbatim>\<open>lambda-events\<close> they rest on.

  The program. A Lambda function is a process that polls the Runtime API for invocations, hands
  each one to a handler and posts the handler's response, or a diagnostic of its failure, back.
  \<^verbatim>\<open>lambda-runtime\<close> builds that process from layers of services around the handler and
  runs it in a sequential loop or in a pool of concurrent workers; with SnapStart it also runs hooks
  before a snapshot and after a restore. \<^verbatim>\<open>lambda-http\<close> is one such handler: it turns
  the events of API Gateway, load balancers and VPC Lattice into HTTP requests and HTTP responses
  into answers. \<^verbatim>\<open>lambda-extension\<close> is a process of its own that polls the Extensions
  API and receives logs and telemetry.

  The theories, in the order of their imports:

  \<^item> \<open>Prelude\<close>: the collections of simplification rules, \<^verbatim>\<open>Result\<close> with
    panics as a third case, json values and the vocabulary of derived serde implementations,
    strings. \<open>Numbers\<close>: decimal texts and their parsers. \<open>Utf8\<close>: validity and
    lossy decoding.
  \<^item> \<open>Floats\<close>: IEEE 754 rounding to 53 bits of precision.
  \<^item> \<open>Http\<close>, \<open>Crates\<close>: what the code uses of the http, hyper and serde\_json
    crates. These are parameters: a record of operations, with their documented laws in the
    locale \<open>header_map\<close>, and one concrete record that satisfies them, used by
    the examples. A float is a finite number, an infinity or NaN; those that are not finite are written
    as null, and integers read as floats are rounded. That the text of a finite float is read as the
    same float is a law of the JSON text, stated where a property goes through text.
  \<^item> \<open>ApiClient\<close> (\<^verbatim>\<open>lambda-runtime-api-client/src/lib.rs\<close>): client,
    builder, pooled client and its replacement after a restore.
  \<^item> \<open>RuntimeRequests\<close> (\<^verbatim>\<open>requests.rs\<close>, \<^verbatim>\<open>diagnostic.rs\<close>,
    \<^verbatim>\<open>types.rs\<close>): every request to the Runtime API, the diagnostic, the responses.
  \<^item> \<open>RtContext\<close> (\<^verbatim>\<open>types.rs\<close>, \<^verbatim>\<open>lib.rs\<close>): the configuration read from
    the environment and the context read from an invocation's headers.
  \<^item> \<open>RateLimiter\<close> (\<^verbatim>\<open>rate_limiter.rs\<close>): the atomic counter of the macro as a
    step relation over threads.
  \<^item> \<open>Layers\<close> (\<^verbatim>\<open>layers/*.rs\<close>, \<^verbatim>\<open>deserializer.rs\<close>): services as
    records of poll\_ready, call and the outcome of the future; panics caught, payloads
    deserialised, responses and diagnostics made and posted.
  \<^item> \<open>SnapStart\<close> (\<^verbatim>\<open>snapstart.rs\<close>): hooks, restore, reset of the pool, reports.
  \<^item> \<open>RuntimeLoop\<close> (\<^verbatim>\<open>runtime.rs\<close>): construction of the runtime, the
    sequential loop, the workers and their supervisor as a step relation.
  \<^item> \<open>Protocol\<close>: what the Runtime API sees of the loop and of a concurrent worker, a protocol of polls and
    answers stated on its own, kept by every run with every handler.
  \<^item> \<open>Telemetry\<close>, \<open>Extension\<close> (\<^verbatim>\<open>lambda-extension/src\<close>): the payloads and
    their serialisers, the builder, registration, the servers, the event loop and its reports. \<open>ExtensionRuns\<close>: whole runs from
    \<^verbatim>\<open>Extension::run\<close>, and what the Extensions API sees of them.
  \<^item> \<open>CustomSerde\<close>, \<open>HttpBody\<close>, \<open>HttpEvents\<close>
    (\<^verbatim>\<open>lambda-events/src/custom_serde\<close>, \<^verbatim>\<open>encodings/http.rs\<close>,
    \<^verbatim>\<open>event/{apigw,alb,vpc_lattice}\<close>): the (de)serialisers of header maps, methods,
    query strings and bodies, and the structures of the HTTP events.
  \<^item> \<open>HttpRequests\<close>, \<open>HttpResponses\<close>, \<open>HttpAdapter\<close>
    (\<^verbatim>\<open>lambda-http/src\<close>): events to requests, responses to answers, and the services and
    futures that put a handler between them.
  \<^item> \<open>Entrypoints\<close> (\<^verbatim>\<open>lambda-runtime/src/lib.rs\<close>, \<^verbatim>\<open>lambda-http/src/lib.rs\<close>,
    \<^verbatim>\<open>streaming.rs\<close>): \<^verbatim>\<open>run\<close>, \<^verbatim>\<open>run_concurrent\<close> and their HTTP
    and streaming forms, composed of the loops, the layers and the adapters.
  \<^item> \<open>GracefulShutdown\<close> (\<^verbatim>\<open>lambda-runtime/src/lib.rs\<close>): the spawned task that waits
    for a signal while it drives an extension without events.
  \<^item> \<open>RequestAccess\<close> (\<^verbatim>\<open>lambda-http/src/ext/extensions.rs\<close>): \<^verbatim>\<open>RequestExt\<close>
    for parts and requests.
  \<^item> \<open>BodyChannel\<close> (\<^verbatim>\<open>lambda-runtime-api-client/src/body\<close>): the channel between a
    sender of body frames and the body that is polled, in every interleaving.
  \<^item> \<open>TimeEncodings\<close> (\<^verbatim>\<open>encodings/time.rs\<close>, \<^verbatim>\<open>custom_serde\<close>): the
    timestamps and durations, with the leap seconds and the instants before the epoch.
  \<^item> \<open>BatchResponses\<close> (\<^verbatim>\<open>event/sqs\<close>, \<^verbatim>\<open>event/streams\<close>): the reports of
    partial batch failures.
  \<^item> \<open>EventSerde\<close>, \<open>TimedSerde\<close>: field types of derived serde code, maps, flattened
    and tagged structures, and what it means for a reader to be typed and to reread what was written.
  \<^item> \<open>MessagingEvents\<close>, \<open>StreamEvents\<close>, \<open>CloudWatchEvents\<close>,
    \<open>DeploymentEvents\<close>, \<open>StorageEvents\<close>, \<open>IdentityEvents\<close>, \<open>PolicyEvents\<close>,
    \<open>UnionEvents\<close>, \<open>TimedEvents\<close>, \<open>WebEvents\<close>
    (\<^verbatim>\<open>lambda-events/src/event\<close>): the event structures of the services, each a record
    with its reader and writer, in the order of the modules. \<open>CloudWatchPayloads\<close>: the two
    hand-written payloads, compressed log data and the reason of an alarm.
    \<open>HttpEventSerde\<close>: the writers of the HTTP requests and the readers of the responses, with what
    a written event keeps of its header and query maps.

  The interfaces. What one part promises another is a locale, interpreted on the model's own
  definitions or on a reference for the crate: \<open>header_map\<close> (association lists),
  \<open>event_crates\<close> (texts inside events), \<open>base64_engines\<close> (RFC 4648),
  \<open>tower_combinators\<close> (services as records), \<open>calm_client\<close> and
  \<open>quiet_extension\<close> (an extension that fails by error values only), \<open>extension_slot\<close>
  and \<open>separate_slots\<close> (the settings of a request), \<open>query_maps\<close> (the readers and writers of
  query\_map), \<open>float_text\<close> and \<open>calendar\<close> (the texts of floats, negative ones included, and the
  dates of instants), \<open>batch_report\<close> (the batch responses of SQS and of the streams), and the channels
  of \<open>BodyChannel\<close>.

  How the code is represented. Structures are records, enums datatypes; \<^verbatim>\<open>Result\<close> is
  \<open>result\<close> with the cases \<open>Ok\<close>, \<open>Err\<close> and \<open>Panic\<close>, so every
  \<^verbatim>\<open>unwrap\<close>, \<^verbatim>\<open>expect\<close> and \<^verbatim>\<open>?\<close> of the code is a branch.
  Stateful code passes its state explicitly; what runs concurrently is a step relation with
  its reachable states. The outside world (Runtime API, handler, environment, clock, crates) is an
  argument. A loop takes fuel, and the theorems that say it ends give an amount that is enough;
  futures are polls and the theorems count them. The wakers that polls pass on are not values of the model:
  that a poll is pending only when it has just polled an inner future that is pending is a part of the
  theorem on the answer's future. Converting a handler's error to a diagnostic is a total function, the
  argument \<open>into\<close>. Strings are lists of characters that stand
  for bytes.

  What the lemmas show. Each theory opens with its definitions, then the lemmas on each
  operation and each branch, then the properties, numbered over the whole development: an
  invocation leads to at most one request, which \<open>answer_request\<close> in \<open>Layers\<close> specifies for every
  behaviour of the handler and every payload, and to none exactly when that request cannot be built; the
  runtime goes on after a failed handler, so that over whole runs polls and answers alternate, and a running
  HTTP function answers an event with its handler's response; an extension registers, subscribes,
  polls and reports in this order, while it runs and when it ends; after a restore every request goes
  through the new pool; panics become
  diagnostics; pool and loop end only by the failures they report; requests have the documented
  form; hooks, restore and resets happen in order; an extension reports its failures (and the
  one case in which it cannot); a signal runs the shutdown hook and ends the process with status
  zero; the streaming entry points agree; a body's frames arrive in order, and an abort as an error;
  HTTP events reach the handler complete, and its responses the client; a batch report lists
  exactly the failures; and an event that was read and is written again is read as the same value,
  with the exceptions that the code has, each of them a property or a lemma of its own: the
  identity of a Cognito user in AppSync, log data whose length is not divisible by three, the reason
  of an alarm, and the fractions of timestamps.

  Bounds and fuel. The sequential loop and the extension's loop take the number of iterations; the
  theorems on their end name the iteration that ends them. Polls of a future and of a spawned
  task are counted by the list of what they are told. Integers of a fixed width are checked where they
  are parsed (\<open>u64_max\<close> and the ranges of \<open>EventSerde\<close>), floats are rationals rounded to
  53 bits of precision.

  Not modelled. The tokio scheduler, TCP and hyper's connection handling (parameters or recorded
  effects); tracing subscribers and spans beyond the values they carry; compile-time macros; the
  delivery of signals by tokio (an argument of each poll); features that replace or add derived code
  (\<^verbatim>\<open>catch-all-fields\<close>, \<^verbatim>\<open>builders\<close>); the crates' own algorithms (gzip, DynamoDB items, calendars);
  the examples and integration tests of the repository.
\<close>

end
